(* ===== verification/Prelude.thy ===== *)
theory Prelude
  imports Main "HOL-Library.Sublist"
begin

text \<open>
  What the component theories share: the operations of the C++ \<open>std::string\<close> the sources call
  (\<open>find\<close>, \<open>rfind\<close>, \<open>substr\<close>, \<open>std::isspace\<close>, \<open>std::find_if_not\<close>), with \<open>npos\<close> as \<open>None\<close>,
  and generic lemmas on searching a string. A byte string is a \<^typ>\<open>string\<close>, one \<^typ>\<open>char\<close> a byte.
  The collections \<open>find_intros\<close> and \<open>event_simps\<close> gather the facts the component proofs reuse.
\<close>

named_theorems find_intros \<open>bounds on the positions returned by the search functions\<close>
named_theorems event_simps \<open>unfolding of the health event constructors and the state operations\<close>

type_synonym bytes = string

section \<open>Searching\<close>

text \<open>\<open>s.find(p)\<close>: the first position where \<open>p\<close> occurs.\<close>

fun find_sub :: "bytes \<Rightarrow> bytes \<Rightarrow> nat option" where
  "find_sub p [] = (if p = [] then Some 0 else None)"
| "find_sub p (c # cs) = (if prefix p (c # cs) then Some 0 else map_option Suc (find_sub p cs))"

text \<open>\<open>s.find(p, from)\<close>: a start beyond the end finds nothing.\<close>

definition find_from :: "bytes \<Rightarrow> nat \<Rightarrow> bytes \<Rightarrow> nat option" where
  "find_from p i s = (if i \<le> length s then map_option (\<lambda>k. i + k) (find_sub p (drop i s)) else None)"

text \<open>\<open>s.rfind(c)\<close> for a character.\<close>

fun rfind_char :: "char \<Rightarrow> bytes \<Rightarrow> nat option" where
  "rfind_char c [] = None"
| "rfind_char c (x # xs) =
     (case rfind_char c xs of Some i \<Rightarrow> Some (Suc i) | None \<Rightarrow> if x = c then Some 0 else None)"

text \<open>\<open>s.substr(pos, n)\<close> where \<open>pos \<le> s.size()\<close>.\<close>

definition substr :: "bytes \<Rightarrow> nat \<Rightarrow> nat \<Rightarrow> bytes" where
  "substr s pos n = take n (drop pos s)"

text \<open>\<open>std::isspace\<close> in the C locale.\<close>

definition isspace :: "char \<Rightarrow> bool" where
  "isspace c \<longleftrightarrow> c \<in> {CHR 0x20, CHR 0x09, CHR 0x0A, CHR 0x0B, CHR 0x0C, CHR 0x0D}"

lemma find_sub_Some_iff_prefix:
  "find_sub p s = Some k \<Longrightarrow> k \<le> length s \<and> prefix p (drop k s)"
  by (induction s arbitrary: k) (auto split: if_splits)

lemma find_sub_bound [find_intros]: "find_sub p s = Some k \<Longrightarrow> k + length p \<le> length s"
  using find_sub_Some_iff_prefix [of p s k] prefix_length_le [of p "drop k s"] by auto

lemma find_sub_None: "find_sub p s = None \<Longrightarrow> k \<le> length s \<Longrightarrow> \<not> prefix p (drop k s)"
proof (induction s arbitrary: k)
  case Nil
  then show ?case by (auto split: if_splits)
next
  case (Cons c cs)
  then show ?case by (cases k) (auto split: if_splits)
qed

lemma find_sub_least: "find_sub p s = Some k \<Longrightarrow> j < k \<Longrightarrow> \<not> prefix p (drop j s)"
proof (induction s arbitrary: j k)
  case Nil
  then show ?case by (auto split: if_splits)
next
  case (Cons c cs)
  then show ?case by (cases j) (auto split: if_splits)
qed

lemma find_sub_eq_None_iff:
  "p \<noteq> [] \<Longrightarrow> find_sub p s = None \<longleftrightarrow> (\<forall>k < length s. \<not> prefix p (drop k s))"
proof (induction s)
  case (Cons c cs)
  show ?case
  proof (cases "prefix p (c # cs)")
    case True
    then have "prefix p (drop 0 (c # cs))" by simp
    with True show ?thesis by fastforce
  next
    case False
    have "(\<forall>k < length (c # cs). \<not> prefix p (drop k (c # cs))) \<longleftrightarrow>
        (\<forall>k < length cs. \<not> prefix p (drop k cs))"
      using False by (auto simp: less_Suc_eq_0_disj)
    with False Cons show ?thesis by simp
  qed
qed simp

lemma find_sub_decomp:
  assumes "find_sub p s = Some k"
  obtains rest where "s = take k s @ p @ rest" and "length (take k s) = k"
proof -
  have "k \<le> length s" and pre: "prefix p (drop k s)"
    using find_sub_Some_iff_prefix [OF assms] by auto
  then obtain rest where "drop k s = p @ rest" by (auto elim: prefixE)
  with that [of rest] \<open>k \<le> length s\<close> show ?thesis
    by (metis append_take_drop_id length_take min.absorb2)
qed

text \<open>An occurrence of \<open>p\<close> that starts inside \<open>xs\<close> cannot exist when \<open>p\<close> is absent from \<open>xs @ p'\<close>
  for the longest proper part \<open>p'\<close> of \<open>p\<close> that the continuation can supply.\<close>

lemma find_sub_append_first:
  assumes "p \<noteq> []" and "\<And>k. k < length xs \<Longrightarrow> \<not> prefix p (drop k (xs @ p @ ys))"
  shows "find_sub p (xs @ p @ ys) = Some (length xs)"
  using assms(2)
proof (induction xs)
  case Nil
  obtain c cs where "p = c # cs" using assms(1) by (cases p) auto
  then show ?case by simp
next
  case (Cons x xs)
  have "\<not> prefix p ((x # xs) @ p @ ys)" using Cons.prems [of 0] by simp
  moreover have "find_sub p (xs @ p @ ys) = Some (length xs)"
  proof (rule Cons.IH)
    fix k
    assume "k < length xs"
    with Cons.prems [of "Suc k"] show "\<not> prefix p (drop k (xs @ p @ ys))" by simp
  qed
  ultimately show ?case by simp
qed

lemma find_sub_append_early:
  "find_sub p s = Some k \<Longrightarrow> find_sub p (s @ t) = Some k"
proof (induction s arbitrary: k)
  case Nil
  then show ?case by (cases t) (auto split: if_splits)
next
  case (Cons c cs)
  show ?case
  proof (cases "prefix p (c # cs)")
    case True
    then have "prefix p ((c # cs) @ t)" by (rule prefix_prefix)
    with True Cons.prems show ?thesis by simp
  next
    case False
    with Cons.prems obtain j where j: "find_sub p cs = Some j" "k = Suc j" by auto
    have "\<not> prefix p ((c # cs) @ t)"
    proof
      assume pre: "prefix p ((c # cs) @ t)"
      have "length p \<le> length cs" using find_sub_bound [OF j(1)] by simp
      with pre have "prefix p (c # cs)"
        by (metis append_Cons le_Suc_eq length_Cons nat_le_linear not_less_eq_eq prefix_length_prefix prefixI)
      with False show False by simp
    qed
    with j Cons.IH [OF j(1)] show ?thesis by simp
  qed
qed

lemma find_from_bound [find_intros]:
  "find_from p i s = Some k \<Longrightarrow> i \<le> k \<and> k + length p \<le> length s"
  by (auto simp: find_from_def split: if_splits dest!: find_sub_bound)

lemma find_from_0 [simp]: "find_from p 0 s = find_sub p s"
  by (cases "find_sub p s") (simp_all add: find_from_def)

lemma rfind_char_bound [find_intros]: "rfind_char c s = Some i \<Longrightarrow> i < length s \<and> s ! i = c"
  by (induction s arbitrary: i) (auto split: option.splits if_splits)

lemma rfind_char_None [simp]: "rfind_char c s = None \<longleftrightarrow> c \<notin> set s"
  by (induction s) (auto split: option.splits)

lemma rfind_char_last:
  assumes "c \<notin> set b"
  shows "rfind_char c (a @ c # b) = Some (length a)"
  using assms by (induction a) (auto split: option.splits)

lemma substr_0 [simp]: "substr s 0 n = take n s"
  by (simp add: substr_def)

lemma length_substr [simp]: "length (substr s pos n) = min n (length s - pos)"
  by (simp add: substr_def)

section \<open>Lists and subsequences\<close>

lemma subseq_snoc_keep: "subseq xs ys \<Longrightarrow> subseq (xs @ [y]) (ys @ [y])"
  by (rule list_emb_append_mono) auto

lemma subseq_snoc_drop: "subseq xs ys \<Longrightarrow> subseq xs (ys @ [y])"
  using list_emb_append_mono [of "(=)" xs ys "[]" "[y]"] by simp

end
