(* ===== verification/Errors.thy ===== *)
theory Errors
  imports Prelude
begin

text \<open>
  The exception hierarchy of \<open>include/netconf_client.hpp\<close> and its two translations to Python in
  \<open>src/bindings.cpp\<close>: the translators registered with pybind11 (synchronous calls) and the chain of
  \<open>dynamic_cast\<close> of \<open>python_exception_from_cpp_exception\<close> (asynchronous calls). Every operation of
  the model that can throw returns \<open>exn + 'a\<close>.
\<close>

section \<open>The C++ exceptions\<close>

datatype exn =
    Netconf_Exception string
  | Netconf_Connection_Refused string
  | Netconf_Auth_Error string
  | Netconf_Channel_Error string
  | Invalid_Argument string
  | Runtime_Error string

fun what :: "exn \<Rightarrow> string" where
  "what (Netconf_Exception m) = m"
| "what (Netconf_Connection_Refused m) = m"
| "what (Netconf_Auth_Error m) = m"
| "what (Netconf_Channel_Error m) = m"
| "what (Invalid_Argument m) = m"
| "what (Runtime_Error m) = m"

datatype cpp_class =
    C_NetconfException
  | C_NetconfConnectionRefused
  | C_NetconfAuthError
  | C_NetconfChannelError

text \<open>Whether a \<open>catch (C&)\<close> handler, or \<open>dynamic_cast<const C*>\<close>, accepts the exception: the three
  specific classes derive from \<open>NetconfException\<close>.\<close>

fun is_a :: "exn \<Rightarrow> cpp_class \<Rightarrow> bool" where
  "is_a (Netconf_Exception _) c = (c = C_NetconfException)"
| "is_a (Netconf_Connection_Refused _) c = (c \<in> {C_NetconfException, C_NetconfConnectionRefused})"
| "is_a (Netconf_Auth_Error _) c = (c \<in> {C_NetconfException, C_NetconfAuthError})"
| "is_a (Netconf_Channel_Error _) c = (c \<in> {C_NetconfException, C_NetconfChannelError})"
| "is_a (Invalid_Argument _) c = False"
| "is_a (Runtime_Error _) c = False"

text \<open>Derivation as an order: a class is below the classes it derives from, with \<open>NetconfException\<close> at the top.\<close>

instantiation cpp_class :: order_top
begin

definition less_eq_cpp_class :: "cpp_class \<Rightarrow> cpp_class \<Rightarrow> bool" where
  "less_eq_cpp_class c d \<longleftrightarrow> c = d \<or> d = C_NetconfException"

definition less_cpp_class :: "cpp_class \<Rightarrow> cpp_class \<Rightarrow> bool" where
  "less_cpp_class c d \<longleftrightarrow> c \<noteq> d \<and> d = C_NetconfException"

definition top_cpp_class :: cpp_class where
  "top_cpp_class = C_NetconfException"

instance
  by standard (auto simp: less_eq_cpp_class_def less_cpp_class_def top_cpp_class_def)

end

fun class_of :: "exn \<Rightarrow> cpp_class option" where
  "class_of (Netconf_Exception _) = Some C_NetconfException"
| "class_of (Netconf_Connection_Refused _) = Some C_NetconfConnectionRefused"
| "class_of (Netconf_Auth_Error _) = Some C_NetconfAuthError"
| "class_of (Netconf_Channel_Error _) = Some C_NetconfChannelError"
| "class_of _ = None"

text \<open>A handler accepts the exceptions of the classes below its own.\<close>

lemma is_a_iff: "is_a e c \<longleftrightarrow> (\<exists>d. class_of e = Some d \<and> d \<le> c)"
  by (cases e) (auto simp: less_eq_cpp_class_def)

lemma is_a_base: "is_a e c \<Longrightarrow> c \<le> d \<Longrightarrow> is_a e d"
  unfolding is_a_iff by (meson order.trans)

definition is_netconf :: "exn \<Rightarrow> bool" where
  "is_netconf e = is_a e C_NetconfException"

text \<open>The \<open>catch (const std::exception& e)\<close> handlers that rethrow with a prefix.\<close>

definition rethrow :: "(string \<Rightarrow> exn) \<Rightarrow> string \<Rightarrow> exn + 'a \<Rightarrow> exn + 'a" where
  "rethrow mk msg r = (case r of Inl e \<Rightarrow> Inl (mk (msg @ what e)) | Inr x \<Rightarrow> Inr x)"

lemma rethrow_Inr [simp]: "rethrow mk msg (Inr x) = Inr x"
  by (simp add: rethrow_def)

lemma rethrow_Inl [simp]: "rethrow mk msg (Inl e) = Inl (mk (msg @ what e))"
  by (simp add: rethrow_def)

lemma rethrow_eq_Inr_iff [simp]: "rethrow mk msg r = Inr x \<longleftrightarrow> r = Inr x"
  by (cases r) simp_all

section \<open>Translation to Python\<close>

datatype py_class =
    Py_NetconfConnectionRefusedError
  | Py_NetconfAuthError
  | Py_NetconfChannelError
  | Py_NetconfException
  | Py_RuntimeError

text \<open>The translators in the order \<open>register_exceptions\<close> registers them.\<close>

definition register_exceptions :: "(cpp_class \<times> py_class) list" where
  "register_exceptions =
     [(C_NetconfConnectionRefused, Py_NetconfConnectionRefusedError),
      (C_NetconfAuthError, Py_NetconfAuthError),
      (C_NetconfChannelError, Py_NetconfChannelError),
      (C_NetconfException, Py_NetconfException)]"

text \<open>
  A synchronous call that throws: pybind11 asks the registered translators one after another, in
  the order \<open>dispatch\<close> makes of the registration order, and the first whose class accepts the
  exception decides. \<open>None\<close>: no registered translator, so pybind11's own for \<open>std::exception\<close>.
\<close>

definition sync_translate ::
  "((cpp_class \<times> py_class) list \<Rightarrow> (cpp_class \<times> py_class) list) \<Rightarrow> exn \<Rightarrow> (py_class \<times> string) option" where
  "sync_translate dispatch e =
     map_option (\<lambda>(c, p). (p, what e)) (List.find (\<lambda>(c, p). is_a e c) (dispatch register_exceptions))"

text \<open>\<open>python_exception_from_cpp_exception\<close>.\<close>

definition python_exception_from_cpp_exception :: "exn \<Rightarrow> py_class \<times> string" where
  "python_exception_from_cpp_exception e =
     (if is_a e C_NetconfConnectionRefused then (Py_NetconfConnectionRefusedError, what e)
      else if is_a e C_NetconfAuthError then (Py_NetconfAuthError, what e)
      else if is_a e C_NetconfChannelError then (Py_NetconfChannelError, what e)
      else if is_a e C_NetconfException then (Py_NetconfException, what e)
      else (Py_RuntimeError, what e))"

text \<open>The Python class a C++ class is exported as.\<close>

fun py_of :: "exn \<Rightarrow> py_class" where
  "py_of (Netconf_Exception _) = Py_NetconfException"
| "py_of (Netconf_Connection_Refused _) = Py_NetconfConnectionRefusedError"
| "py_of (Netconf_Auth_Error _) = Py_NetconfAuthError"
| "py_of (Netconf_Channel_Error _) = Py_NetconfChannelError"
| "py_of (Invalid_Argument _) = Py_RuntimeError"
| "py_of (Runtime_Error _) = Py_RuntimeError"

lemma async_translate_exact: "python_exception_from_cpp_exception e = (py_of e, what e)"
  by (cases e) (simp_all add: python_exception_from_cpp_exception_def)

text \<open>A translator that is asked after one for a base of its class is never the one that decides.\<close>

lemma base_translator_shadows:
  assumes "find (\<lambda>(c, p). is_a e c) (ts @ (d, q) # us) = Some (c, p)" "(c, p) \<notin> set ts"
  shows "(c, p) = (d, q) \<or> \<not> c \<le> d"
proof (rule disjCI)
  assume "\<not> \<not> c \<le> d"
  moreover have "is_a e c" using assms(1) by (auto simp: find_Some_iff)
  ultimately have "is_a e d" using is_a_base by blast
  moreover have "find (\<lambda>(c, p). is_a e c) ts = None"
  proof (cases "find (\<lambda>(c, p). is_a e c) ts")
    case (Some x)
    then have "find (\<lambda>(c, p). is_a e c) (ts @ (d, q) # us) = Some x" by (induction ts) auto
    moreover have "x \<in> set ts" using Some by (metis find_Some_iff nth_mem)
    ultimately show ?thesis using assms by simp
  qed simp
  then have "find (\<lambda>(c, p). is_a e c) (ts @ (d, q) # us) = find (\<lambda>(c, p). is_a e c) ((d, q) # us)"
    by (induction ts) (auto split: if_splits)
  ultimately show "(c, p) = (d, q)" using assms(1) by simp
qed

lemma sync_translate_in_order:
  "is_netconf e \<Longrightarrow> sync_translate (\<lambda>rs. rs) e = Some (py_of e, what e)"
  by (cases e) (simp_all add: sync_translate_def register_exceptions_def is_netconf_def)



end
