(* ===== verification/Health_Events.thy ===== *)
theory Health_Events
  imports Errors
begin

text \<open>
  \<open>NotificationHealthEvent\<close> (\<open>include/notification_event_bus.hpp\<close>), its Python dictionary
  (\<open>as_dict\<close> in \<open>src/bindings.cpp\<close>), its time stamp
  (\<open>current_notification_event_timestamp_utc\<close>, \<open>src/notification_event_bus.cpp\<close>) and the parser
  the test suite checks time stamps with (\<open>test/conftest.py\<close>).
\<close>

section \<open>The event\<close>

record health_event =
  ev_valid :: bool
  ev_type :: string
  ev_timestamp :: string
  ev_label :: string
  ev_hostname :: string
  ev_port :: int
  ev_fd :: int
  ev_message :: string
  ev_queue_size :: int
  ev_queue_max_size :: int
  ev_queue_high_watermark :: int
  ev_notifications_enqueued :: int
  ev_notifications_dropped_queue_full :: int
  ev_notifications_dropped_delta :: int
  ev_incomplete_notifications_received :: int
  ev_partial_bytes :: int
  ev_health_events_dropped :: int

text \<open>The default member initialisers.\<close>

definition default_event :: health_event where
  "default_event = \<lparr>ev_valid = True, ev_type = [], ev_timestamp = [], ev_label = ''None'',
     ev_hostname = [], ev_port = 0, ev_fd = -1, ev_message = [],
     ev_queue_size = 0, ev_queue_max_size = -1, ev_queue_high_watermark = 0,
     ev_notifications_enqueued = 0, ev_notifications_dropped_queue_full = 0,
     ev_notifications_dropped_delta = 0, ev_incomplete_notifications_received = 0,
     ev_partial_bytes = 0, ev_health_events_dropped = 0\<rparr>"

section \<open>The Python dictionary\<close>

datatype py_value = Py_Bool bool | Py_Str string | Py_Int int

definition as_dict :: "health_event \<Rightarrow> (string \<times> py_value) list" where
  "as_dict e =
     [(''valid'', Py_Bool (ev_valid e)),
      (''type'', Py_Str (ev_type e)),
      (''timestamp'', Py_Str (ev_timestamp e)),
      (''label'', Py_Str (ev_label e)),
      (''hostname'', Py_Str (ev_hostname e)),
      (''port'', Py_Int (ev_port e)),
      (''fd'', Py_Int (ev_fd e)),
      (''message'', Py_Str (ev_message e)),
      (''queue_size'', Py_Int (ev_queue_size e)),
      (''queue_max_size'', Py_Int (ev_queue_max_size e)),
      (''queue_high_watermark'', Py_Int (ev_queue_high_watermark e)),
      (''notifications_enqueued'', Py_Int (ev_notifications_enqueued e)),
      (''notifications_dropped_queue_full'', Py_Int (ev_notifications_dropped_queue_full e)),
      (''notifications_dropped_delta'', Py_Int (ev_notifications_dropped_delta e)),
      (''incomplete_notifications_received'', Py_Int (ev_incomplete_notifications_received e)),
      (''partial_bytes'', Py_Int (ev_partial_bytes e)),
      (''health_events_dropped'', Py_Int (ev_health_events_dropped e))]"

text \<open>\<open>EXPECTED_HEALTH_EVENT_KEYS\<close> of the test suite.\<close>

definition EXPECTED_HEALTH_EVENT_KEYS :: "string set" where
  "EXPECTED_HEALTH_EVENT_KEYS =
     {''valid'', ''type'', ''timestamp'', ''label'', ''hostname'', ''port'', ''fd'', ''message'',
      ''queue_size'', ''queue_max_size'', ''queue_high_watermark'', ''notifications_enqueued'',
      ''notifications_dropped_queue_full'', ''notifications_dropped_delta'',
      ''incomplete_notifications_received'', ''partial_bytes'', ''health_events_dropped''}"

lemma as_dict_keys: "set (map fst (as_dict e)) = EXPECTED_HEALTH_EVENT_KEYS"
  by (simp only: as_dict_def EXPECTED_HEALTH_EVENT_KEYS_def list.map fst_conv list.set)

lemma as_dict_distinct: "distinct (map fst (as_dict e))"
  by (simp add: as_dict_def)

section \<open>Decimal digits\<close>

definition digit :: "nat \<Rightarrow> char" where
  "digit n = char_of (48 + n)"

definition is_digit :: "char \<Rightarrow> bool" where
  "is_digit c \<longleftrightarrow> 48 \<le> (of_char c :: nat) \<and> (of_char c :: nat) \<le> 57"

definition digit_value :: "char \<Rightarrow> nat" where
  "digit_value c = of_char c - 48"

fun show_nat :: "nat \<Rightarrow> string" where
  "show_nat n = (if n < 10 then [digit n] else show_nat (n div 10) @ [digit (n mod 10)])"

declare show_nat.simps [simp del]

text \<open>\<open>std::setw(w)\<close> with \<open>std::setfill('0')\<close>: pads on the left, never truncates.\<close>

definition pad0 :: "nat \<Rightarrow> nat \<Rightarrow> string" where
  "pad0 w n = replicate (w - length (show_nat n)) (digit 0) @ show_nat n"

definition parse_digits :: "string \<Rightarrow> nat" where
  "parse_digits s = foldl (\<lambda>n c. 10 * n + digit_value c) 0 s"

lemma of_char_digit: "n < 10 \<Longrightarrow> (of_char (digit n) :: nat) = 48 + n"
  by (simp add: digit_def of_char_of)

lemma digit_value_digit [simp]: "n < 10 \<Longrightarrow> digit_value (digit n) = n"
  by (simp add: digit_value_def of_char_digit)

lemma is_digit_digit [simp]: "n < 10 \<Longrightarrow> is_digit (digit n)"
  by (simp add: is_digit_def of_char_digit)

lemma show_nat_one: "n < 10 \<Longrightarrow> show_nat n = [digit n]"
  by (simp add: show_nat.simps [of n])

lemma show_nat_more: "10 \<le> n \<Longrightarrow> show_nat n = show_nat (n div 10) @ [digit (n mod 10)]"
  by (simp add: show_nat.simps [of n])

lemma div_100: "(n::nat) div 100 = n div 10 div 10"
  by (simp add: div_mult2_eq [symmetric])

lemma div_1000: "(n::nat) div 1000 = n div 10 div 10 div 10"
  by (simp add: div_mult2_eq [symmetric])

lemma pad0_2: "n < 100 \<Longrightarrow> pad0 2 n = [digit (n div 10), digit (n mod 10)]"
  by (cases "n < 10") (simp_all add: pad0_def show_nat_one show_nat_more)

lemma pad0_3:
  assumes "n < 1000"
  shows "pad0 3 n = [digit (n div 100), digit (n div 10 mod 10), digit (n mod 10)]"
proof -
  consider "n < 10" | "10 \<le> n" "n < 100" | "100 \<le> n" by linarith
  then show ?thesis
  proof cases
    case 1
    then show ?thesis by (simp add: pad0_def show_nat_one numeral_2_eq_2)
  next
    case 2
    then have "n div 10 < 10" by simp
    with 2 show ?thesis by (simp add: pad0_def show_nat_one show_nat_more)
  next
    case 3
    then have "10 \<le> n div 10" "n div 10 div 10 < 10" using assms by (auto simp: div_100 [symmetric])
    with 3 show ?thesis by (simp add: pad0_def show_nat_one show_nat_more div_100)
  qed
qed

lemma show_nat_4:
  assumes "1000 \<le> n" "n < 10000"
  shows "show_nat n = [digit (n div 1000), digit (n div 100 mod 10), digit (n div 10 mod 10), digit (n mod 10)]"
proof -
  have "10 \<le> n" "10 \<le> n div 10" "10 \<le> n div 10 div 10" "n div 10 div 10 div 10 < 10"
    using assms by (auto simp: div_100 [symmetric] div_1000 [symmetric])
  then show ?thesis by (simp add: show_nat_one show_nat_more div_100 div_1000)
qed

section \<open>The time stamp\<close>

text \<open>The fields of \<open>std::tm\<close> the code prints.\<close>

record tm =
  tm_year :: nat
  tm_mon :: nat
  tm_mday :: nat
  tm_hour :: nat
  tm_min :: nat
  tm_sec :: nat

text \<open>
  \<open>now_ms\<close> is the system clock in milliseconds since the epoch, \<open>gmtime\<close> the C library's
  \<open>gmtime_r\<close>. The format is \<open>%Y-%m-%dT%H:%M:%S\<close>, a dot, the milliseconds padded to three
  digits, and \<open>Z\<close>.
\<close>

definition current_notification_event_timestamp_utc :: "(nat \<Rightarrow> tm) \<Rightarrow> nat \<Rightarrow> string" where
  "current_notification_event_timestamp_utc gmtime now_ms =
     (let t = gmtime (now_ms div 1000); ms = now_ms mod 1000 in
      show_nat (tm_year t + 1900) @ ''-'' @ pad0 2 (tm_mon t + 1) @ ''-'' @ pad0 2 (tm_mday t) @ ''T'' @
      pad0 2 (tm_hour t) @ '':'' @ pad0 2 (tm_min t) @ '':'' @ pad0 2 (tm_sec t) @
      ''.'' @ pad0 3 ms @ ''Z'')"

text \<open>\<open>ISO_UTC_MILLIS_RE.match\<close>, one item of the pattern per character.\<close>

datatype re_item = D | Lit char

definition ISO_UTC_MILLIS_RE :: "re_item list" where
  "ISO_UTC_MILLIS_RE =
     [D, D, D, D, Lit (CHR ''-''), D, D, Lit (CHR ''-''), D, D, Lit (CHR ''T''),
      D, D, Lit (CHR '':''), D, D, Lit (CHR '':''), D, D, Lit (CHR ''.''), D, D, D, Lit (CHR ''Z'')]"

fun re_match :: "re_item list \<Rightarrow> string \<Rightarrow> bool" where
  "re_match [] s = (s = [] \<or> s = [CHR 0x0A])"
| "re_match (D # rs) (c # cs) = (is_digit c \<and> re_match rs cs)"
| "re_match (Lit x # rs) (c # cs) = (c = x \<and> re_match rs cs)"
| "re_match (r # rs) [] = False"

definition is_leap :: "nat \<Rightarrow> bool" where
  "is_leap y \<longleftrightarrow> 4 dvd y \<and> (\<not> 100 dvd y \<or> 400 dvd y)"

definition days_in_month :: "nat \<Rightarrow> nat \<Rightarrow> nat" where
  "days_in_month y m = (if m = 2 then (if is_leap y then 29 else 28)
     else if m \<in> {4, 6, 9, 11} then 30 else 31)"

text \<open>
  \<open>parse_utc_millis_timestamp\<close>: the assertion on the pattern, then \<open>datetime.fromisoformat\<close>, which
  refuses a year 0, a month, day, hour, minute or second out of range. The result is the fields.
  \<open>None\<close> is the \<open>AssertionError\<close> or \<open>ValueError\<close>.
\<close>

definition parse_utc_millis_timestamp ::
  "string \<Rightarrow> (nat \<times> nat \<times> nat \<times> nat \<times> nat \<times> nat \<times> nat) option" where
  "parse_utc_millis_timestamp s =
     (if \<not> re_match ISO_UTC_MILLIS_RE s then None
      else let y = parse_digits (substr s 0 4); mo = parse_digits (substr s 5 2);
               d = parse_digits (substr s 8 2); h = parse_digits (substr s 11 2);
               mi = parse_digits (substr s 14 2); sec = parse_digits (substr s 17 2);
               ms = parse_digits (substr s 20 3)
           in if s \<noteq> take 24 s then None
              else if 1 \<le> y \<and> 1 \<le> mo \<and> mo \<le> 12 \<and> 1 \<le> d \<and> d \<le> days_in_month y mo \<and>
                 h \<le> 23 \<and> mi \<le> 59 \<and> sec \<le> 59
              then Some (y, mo, d, h, mi, sec, ms) else None)"

text \<open>What \<open>gmtime_r\<close> documents of the fields, up to the year 9999 and without leap seconds.\<close>

definition calendar_tm :: "tm \<Rightarrow> bool" where
  "calendar_tm t \<longleftrightarrow> tm_year t + 1900 < 10000 \<and> tm_mon t \<le> 11 \<and> 1 \<le> tm_mday t \<and>
     tm_mday t \<le> days_in_month (tm_year t + 1900) (tm_mon t + 1) \<and>
     tm_hour t \<le> 23 \<and> tm_min t \<le> 59 \<and> tm_sec t \<le> 59"

lemma days_in_month_le: "days_in_month y m \<le> 31"
  by (simp add: days_in_month_def)

lemma parse_two: "n < 100 \<Longrightarrow> parse_digits [digit (n div 10), digit (n mod 10)] = n"
  by (simp add: parse_digits_def)

lemma digits_join: "10 * ((n::nat) div 10) + n mod 10 = n"
  by simp

lemma parse_three:
  "n < 1000 \<Longrightarrow> parse_digits [digit (n div 100), digit (n div 10 mod 10), digit (n mod 10)] = n"
proof -
  assume "n < 1000"
  then have "n div 10 div 10 < 10" by (simp add: div_100 [symmetric])
  then show ?thesis by (simp add: parse_digits_def div_100 digits_join)
qed

lemma parse_four:
  "n < 10000 \<Longrightarrow>
   parse_digits [digit (n div 1000), digit (n div 100 mod 10), digit (n div 10 mod 10), digit (n mod 10)] = n"
proof -
  assume "n < 10000"
  then have "n div 10 div 10 div 10 < 10" by (simp add: div_1000 [symmetric])
  then show ?thesis by (simp add: parse_digits_def div_100 div_1000 digits_join)
qed

text \<open>
  Every time stamp the event code prints in the years 1970 to 9999 is accepted by the test
  suite's parser and gives back exactly the calendar fields and the milliseconds of the clock it was
  made from. The C library's \<open>gmtime_r\<close> is a parameter, relied on for fields in calendar range only.
\<close>

theorem timestamp_roundtrip:
  assumes "calendar_tm (gmtime (now_ms div 1000))"
  shows "parse_utc_millis_timestamp (current_notification_event_timestamp_utc gmtime now_ms) =
    (let t = gmtime (now_ms div 1000) in
     Some (tm_year t + 1900, tm_mon t + 1, tm_mday t, tm_hour t, tm_min t, tm_sec t, now_ms mod 1000))"
proof -
  define t where "t = gmtime (now_ms div 1000)"
  define ms where "ms = now_ms mod 1000"
  have cal: "calendar_tm t" using assms by (simp add: t_def)
  have b: "Suc (tm_mon t) < 100" "tm_mday t < 100" "tm_hour t < 100" "tm_min t < 100" "tm_sec t < 100"
    and y: "1000 \<le> tm_year t + 1900" "tm_year t + 1900 < 10000" and m: "ms < 1000"
    using cal days_in_month_le [of "tm_year t + 1900" "tm_mon t + 1"]
    by (auto simp: calendar_tm_def ms_def)
  define Y where "Y = tm_year t + 1900"
  define M where "M = Suc (tm_mon t)"
  have bounds: "Y div 1000 < 10" "ms div 100 < 10" "M div 10 < 10" "tm_mday t div 10 < 10"
    "tm_hour t div 10 < 10" "tm_min t div 10 < 10" "tm_sec t div 10 < 10"
    using b y m by (auto simp: Y_def M_def)
  have s: "current_notification_event_timestamp_utc gmtime now_ms =
     [digit (Y div 1000), digit (Y div 100 mod 10), digit (Y div 10 mod 10), digit (Y mod 10), CHR ''-'',
      digit (M div 10), digit (M mod 10), CHR ''-'',
      digit (tm_mday t div 10), digit (tm_mday t mod 10), CHR ''T'',
      digit (tm_hour t div 10), digit (tm_hour t mod 10), CHR '':'',
      digit (tm_min t div 10), digit (tm_min t mod 10), CHR '':'',
      digit (tm_sec t div 10), digit (tm_sec t mod 10), CHR ''.'',
      digit (ms div 100), digit (ms div 10 mod 10), digit (ms mod 10), CHR ''Z'']"
    using b y m
    by (simp add: current_notification_event_timestamp_utc_def Let_def t_def [symmetric] ms_def [symmetric]
        Y_def [symmetric] M_def [symmetric] pad0_2 pad0_3 show_nat_4)
  have match: "re_match ISO_UTC_MILLIS_RE (current_notification_event_timestamp_utc gmtime now_ms)"
    unfolding s ISO_UTC_MILLIS_RE_def using bounds by simp
  show ?thesis
    using match cal b y m
    by (simp add: parse_utc_millis_timestamp_def s substr_def parse_two parse_three parse_four
        t_def [symmetric] ms_def [symmetric] calendar_tm_def Let_def Y_def M_def)
qed

theorem timestamp_roundtrip_witness:
  "current_notification_event_timestamp_utc
     (\<lambda>_. \<lparr>tm_year = 126, tm_mon = 5, tm_mday = 25, tm_hour = 5, tm_min = 35, tm_sec = 15\<rparr>) 1782365715123
     = ''2026-06-25T05:35:15.123Z'' \<and>
   parse_utc_millis_timestamp (current_notification_event_timestamp_utc
     (\<lambda>_. \<lparr>tm_year = 126, tm_mon = 5, tm_mday = 25, tm_hour = 5, tm_min = 35, tm_sec = 15\<rparr>) 1782365715123)
     = Some (2026, 6, 25, 5, 35, 15, 123)"
proof -
  let ?g = "\<lambda>_. \<lparr>tm_year = 126, tm_mon = 5, tm_mday = 25, tm_hour = 5, tm_min = 35, tm_sec = 15\<rparr>"
  have cal: "calendar_tm (?g (1782365715123 div 1000))"
    by (simp add: calendar_tm_def days_in_month_def)
  have "current_notification_event_timestamp_utc ?g 1782365715123 = ''2026-06-25T05:35:15.123Z''"
    by (simp add: current_notification_event_timestamp_utc_def pad0_def show_nat_one show_nat_more
        digit_def char_of_def Let_def bit_0)
  moreover have "parse_utc_millis_timestamp (current_notification_event_timestamp_utc ?g 1782365715123)
     = Some (2026, 6, 25, 5, 35, 15, 123)"
    using timestamp_roundtrip [of ?g 1782365715123, OF cal] by simp
  ultimately show ?thesis by simp
qed

end
