(* ===== verification/Event_Bus.thy ===== *)
theory Event_Bus
  imports Health_Events
begin

text \<open>
  \<open>NotificationEventBus\<close> (\<open>include/notification_event_bus.hpp\<close>, \<open>src/notification_event_bus.cpp\<close>):
  the process-wide bounded queue of health events. Before it, the contract shared by the two bounded
  queues of the program, this one (which evicts its oldest entry when full) and the per-client
  notification queue (which refuses the new entry): locale \<open>bounded_fifo\<close>.
\<close>

section \<open>The contract of a bounded queue\<close>

text \<open>
  \<open>items\<close> is the content, oldest first; \<open>put\<close> appends and may lose one entry at either end;
  \<open>get\<close> removes the oldest. \<open>inv\<close> holds the size bound.
\<close>

locale bounded_fifo =
  fixes put :: "'i \<Rightarrow> 's \<Rightarrow> 's"
    and get :: "'s \<Rightarrow> ('a \<times> 's) option"
    and view :: "'i \<Rightarrow> 'a"
    and items :: "'s \<Rightarrow> 'a list"
    and lost :: "'s \<Rightarrow> nat"
    and inv :: "'s \<Rightarrow> bool"
  assumes put_items: "inv s \<Longrightarrow> subseq (items (put x s)) (items s @ [view x])"
    and put_lost: "inv s \<Longrightarrow> length (items (put x s)) + lost (put x s) = length (items s) + lost s + 1"
    and put_inv: "inv s \<Longrightarrow> inv (put x s)"
    and get_None: "inv s \<Longrightarrow> get s = None \<Longrightarrow> items s = []"
    and get_Some: "inv s \<Longrightarrow> get s = Some (y, s') \<Longrightarrow>
       items s = y # items s' \<and> lost s' = lost s \<and> inv s'"
begin

text \<open>A run: \<open>Some x\<close> puts, \<open>None\<close> is an attempt to get. The result is what was handed out, in order,
  and the final state.\<close>

fun run :: "'i option list \<Rightarrow> 's \<Rightarrow> 'a list \<times> 's" where
  "run [] s = ([], s)"
| "run (Some x # ops) s = run ops (put x s)"
| "run (None # ops) s =
     (case get s of None \<Rightarrow> run ops s
      | Some (y, s') \<Rightarrow> (y # fst (run ops s'), snd (run ops s')))"

fun puts :: "'i option list \<Rightarrow> 'a list" where
  "puts [] = []"
| "puts (Some x # ops) = view x # puts ops"
| "puts (None # ops) = puts ops"

lemma run_fifo:
  "inv s \<Longrightarrow> subseq (fst (run ops s) @ items (snd (run ops s))) (items s @ puts ops)"
proof (induction ops s rule: run.induct)
  case (1 s)
  then show ?case by simp
next
  case (2 x ops s)
  have "subseq (items (put x s) @ puts ops) ((items s @ [view x]) @ puts ops)"
    by (rule list_emb_append_mono) (use put_items [OF 2(2)] in simp_all)
  with 2(1) [OF put_inv [OF 2(2)]] show ?case
    by (auto intro: subseq_order.order_trans)
next
  case (3 ops s)
  then show ?case
    by (auto split: option.splits dest: get_Some)
qed

lemma run_inv: "inv s \<Longrightarrow> inv (snd (run ops s))"
  by (induction ops s rule: run.induct) (auto split: option.splits dest: get_Some put_inv)

lemma run_count:
  "inv s \<Longrightarrow> length (fst (run ops s)) + length (items (snd (run ops s))) + lost (snd (run ops s)) =
    length (items s) + lost s + length (puts ops)"
proof (induction ops s rule: run.induct)
  case (2 x ops s)
  then show ?case using put_lost [OF 2(2), of x] put_inv by simp
next
  case (3 ops s)
  then show ?case by (auto split: option.splits dest: get_Some)
qed simp

end

section \<open>The bus\<close>

record event_bus =
  bus_queue :: "health_event list"
  bus_dropped_events :: nat

definition max_queue_size :: nat where
  "max_queue_size = 10000"

definition initial_bus :: event_bus where
  "initial_bus = \<lparr>bus_queue = [], bus_dropped_events = 0\<rparr>"

text \<open>\<open>emit\<close>; \<open>now\<close> is the time stamp read when the event carries none.\<close>

definition emit :: "string \<Rightarrow> health_event \<Rightarrow> event_bus \<Rightarrow> event_bus" where
  "emit now event b =
     (let event = (if ev_timestamp event = [] then event\<lparr>ev_timestamp := now\<rparr> else event) in
      if length (bus_queue b) \<ge> max_queue_size
      then (let d = bus_dropped_events b + 1;
                event = event\<lparr>ev_health_events_dropped := int d\<rparr>
            in \<lparr>bus_queue = tl (bus_queue b) @ [event], bus_dropped_events = d\<rparr>)
      else b\<lparr>bus_queue := bus_queue b @ [event]\<rparr>)"

text \<open>
  \<open>next_event\<close>. The wait on the condition variable is an input: \<open>arrived\<close> is the bus as it stands when
  the wait ends, by a notification or (for \<open>timeout_ms > 0\<close>) by the timeout; the predicate of the
  wait is evaluated on it. For \<open>timeout_ms < 0\<close> the wait only ends with the queue non-empty, so an
  empty one is \<open>Blocked\<close>.
\<close>

datatype 'a outcome = Blocked | Returns 'a

definition timeout_event :: "string \<Rightarrow> event_bus \<Rightarrow> health_event" where
  "timeout_event now b = default_event\<lparr>ev_valid := False, ev_type := ''timeout'', ev_timestamp := now,
     ev_label := ''None'', ev_message := ''No notification health event available before timeout'',
     ev_health_events_dropped := int (bus_dropped_events b)\<rparr>"

definition next_event ::
  "string \<Rightarrow> int \<Rightarrow> event_bus \<Rightarrow> event_bus \<Rightarrow> (exn + health_event \<times> event_bus) outcome" where
  "next_event now timeout_ms b arrived =
     (if timeout_ms < -1
      then Returns (Inl (Netconf_Exception ''timeout_ms must be -1 for infinite wait or >= 0''))
      else let s = (if timeout_ms = 0 then b else arrived); got_event = (bus_queue s \<noteq> []) in
        if timeout_ms < 0 \<and> \<not> got_event then Blocked
        else if \<not> got_event then Returns (Inr (timeout_event now s, s))
        else Returns (Inr ((hd (bus_queue s))\<lparr>ev_health_events_dropped := int (bus_dropped_events s)\<rparr>,
               s\<lparr>bus_queue := tl (bus_queue s)\<rparr>)))"

definition pending_event_count :: "event_bus \<Rightarrow> nat" where
  "pending_event_count b = length (bus_queue b)"

definition dropped_event_count :: "event_bus \<Rightarrow> int" where
  "dropped_event_count b = int (bus_dropped_events b)"

definition clear_bus :: "event_bus \<Rightarrow> event_bus" where
  "clear_bus b = b\<lparr>bus_queue := [], bus_dropped_events := 0\<rparr>"

definition bus_inv :: "event_bus \<Rightarrow> bool" where
  "bus_inv b \<longleftrightarrow> length (bus_queue b) \<le> max_queue_size"

lemma bus_inv_initial: "bus_inv initial_bus"
  by (simp add: bus_inv_def initial_bus_def)

lemma bus_inv_emit: "bus_inv b \<Longrightarrow> bus_inv (emit now e b)"
  by (auto simp: bus_inv_def emit_def Let_def max_queue_size_def)

lemma bus_inv_next_event:
  "bus_inv b \<Longrightarrow> bus_inv arrived \<Longrightarrow> next_event now t b arrived = Returns (Inr (e, b')) \<Longrightarrow> bus_inv b'"
  by (auto simp: bus_inv_def next_event_def Let_def split: if_splits)

lemma bus_inv_clear: "bus_inv (clear_bus b)"
  by (simp add: bus_inv_def clear_bus_def)

section \<open>Order of delivery\<close>

text \<open>
  What identifies an event whatever the bus stamps on it: everything but the time stamp and the
  dropped count.
\<close>

definition core :: "health_event \<Rightarrow> health_event" where
  "core e = e\<lparr>ev_timestamp := [], ev_health_events_dropped := 0\<rparr>"

lemma core_updates [simp]:
  "core (e\<lparr>ev_timestamp := x\<rparr>) = core e" "core (e\<lparr>ev_health_events_dropped := d\<rparr>) = core e"
  by (simp_all add: core_def)

text \<open>The bus as a bounded queue of event cores: \<open>emit\<close>, and a zero-timeout \<open>next_event\<close>.\<close>

definition bus_put :: "string \<times> health_event \<Rightarrow> event_bus \<Rightarrow> event_bus" where
  "bus_put x b = emit (fst x) (snd x) b"

definition bus_get :: "event_bus \<Rightarrow> (health_event \<times> event_bus) option" where
  "bus_get b = (if pending_event_count b = 0 then None else
     case next_event [] 0 b b of Returns (Inr (e, b')) \<Rightarrow> Some (core e, b') | _ \<Rightarrow> None)"

lemma map_core_tl: "map core (tl xs) = tl (map core xs)"
  by (simp add: map_tl)

lemma items_emit:
  "map core (bus_queue (emit now e b)) =
    (if length (bus_queue b) \<ge> max_queue_size then tl (map core (bus_queue b)) else map core (bus_queue b)) @ [core e]"
  by (simp add: emit_def Let_def map_core_tl)

lemma dropped_emit:
  "bus_dropped_events (emit now e b) =
    bus_dropped_events b + (if length (bus_queue b) \<ge> max_queue_size then 1 else 0)"
  by (simp add: emit_def Let_def)

lemma length_emit:
  "length (bus_queue (emit now e b)) + (if length (bus_queue b) \<ge> max_queue_size then 1 else 0) =
    length (bus_queue b) + 1"
  by (auto simp: emit_def Let_def max_queue_size_def)

interpretation bus: bounded_fifo bus_put bus_get "\<lambda>x. core (snd x)" "\<lambda>b. map core (bus_queue b)"
  bus_dropped_events bus_inv
proof
  fix b and x :: "string \<times> health_event"
  assume "bus_inv b"
  have "subseq (tl (map core (bus_queue b))) (map core (bus_queue b))"
    by (cases "bus_queue b") auto
  then show "subseq (map core (bus_queue (bus_put x b))) (map core (bus_queue b) @ [core (snd x)])"
    by (simp add: bus_put_def items_emit subseq_snoc_keep)
  show "length (map core (bus_queue (bus_put x b))) + bus_dropped_events (bus_put x b) =
      length (map core (bus_queue b)) + bus_dropped_events b + 1"
    using length_emit [of "fst x" "snd x" b] by (simp add: bus_put_def dropped_emit)
  show "bus_inv (bus_put x b)"
    using \<open>bus_inv b\<close> by (simp add: bus_put_def bus_inv_emit)
next
  fix b
  assume "bus_get b = None"
  then show "map core (bus_queue b) = []"
    by (auto simp: bus_get_def next_event_def pending_event_count_def Let_def split: if_splits)
next
  fix b y b'
  assume "bus_inv b" and "bus_get b = Some (y, b')"
  then show "map core (bus_queue b) = y # map core (bus_queue b') \<and>
      bus_dropped_events b' = bus_dropped_events b \<and> bus_inv b'"
    by (cases "bus_queue b")
      (auto simp: bus_get_def next_event_def pending_event_count_def Let_def bus_inv_def split: if_splits)
qed

text \<open>A history of the bus: emissions and non-blocking reads, with the time stamps they read. The
  result is every event the readers got, time-out events included, and the final bus.\<close>

datatype bus_op = Emit string health_event | Next string

fun bus_run :: "bus_op list \<Rightarrow> event_bus \<Rightarrow> health_event list \<times> event_bus" where
  "bus_run [] b = ([], b)"
| "bus_run (Emit now e # ops) b = bus_run ops (emit now e b)"
| "bus_run (Next now # ops) b =
     (case next_event now 0 b b of
        Returns (Inr (e, b')) \<Rightarrow> (e # fst (bus_run ops b'), snd (bus_run ops b'))
      | _ \<Rightarrow> bus_run ops b)"

fun emitted :: "bus_op list \<Rightarrow> health_event list" where
  "emitted [] = []"
| "emitted (Emit now e # ops) = e # emitted ops"
| "emitted (Next now # ops) = emitted ops"

fun to_fifo :: "bus_op \<Rightarrow> (string \<times> health_event) option" where
  "to_fifo (Emit now e) = Some (now, e)"
| "to_fifo (Next now) = None"

lemma bus_put_pair [simp]: "bus_put (now, e) b = emit now e b"
  by (simp add: bus_put_def)

lemma puts_to_fifo: "bus.puts (map to_fifo ops) = map core (emitted ops)"
  by (induction ops rule: emitted.induct) simp_all

lemma next_event_empty:
  "bus_queue b = [] \<Longrightarrow> next_event now 0 b b = Returns (Inr (timeout_event now b, b))"
  by (simp add: next_event_def)

lemma next_event_head:
  "bus_queue b = e # es \<Longrightarrow> next_event now 0 b b =
    Returns (Inr (e\<lparr>ev_health_events_dropped := int (bus_dropped_events b)\<rparr>, b\<lparr>bus_queue := es\<rparr>))"
  by (simp add: next_event_def)

lemma timeout_event_invalid [simp]: "\<not> ev_valid (timeout_event now b)"
  by (simp add: timeout_event_def)

lemma bus_get_empty: "bus_queue b = [] \<Longrightarrow> bus_get b = None"
  by (simp add: bus_get_def pending_event_count_def)

lemma bus_get_head: "bus_queue b = e # es \<Longrightarrow> bus_get b = Some (core e, b\<lparr>bus_queue := es\<rparr>)"
  by (simp add: bus_get_def pending_event_count_def next_event_head)

lemma emit_valid:
  "ev_valid e \<Longrightarrow> \<forall>x\<in>set (bus_queue b). ev_valid x \<Longrightarrow> \<forall>x\<in>set (bus_queue (emit now e b)). ev_valid x"
  by (cases "bus_queue b") (auto simp: emit_def Let_def)

text \<open>As long as every event of the program is a valid one, the readers' history is a run of the
  abstract queue.\<close>

lemma bus_run_fifo:
  "\<forall>e\<in>set (emitted ops). ev_valid e \<Longrightarrow> \<forall>e\<in>set (bus_queue b). ev_valid e \<Longrightarrow>
    bus.run (map to_fifo ops) b = (map core (filter ev_valid (fst (bus_run ops b))), snd (bus_run ops b))"
proof (induction ops arbitrary: b)
  case Nil
  then show ?case by simp
next
  case (Cons op ops)
  show ?case
  proof (cases op)
    case (Emit now e)
    with Cons.prems have "\<forall>x\<in>set (bus_queue (emit now e b)). ev_valid x" and "\<forall>x\<in>set (emitted ops). ev_valid x"
      using emit_valid [of e b now] by simp_all
    with Cons.IH Emit show ?thesis by simp
  next
    case (Next now)
    show ?thesis
    proof (cases "bus_queue b")
      case Nil
      with Cons Next show ?thesis by (simp add: next_event_empty bus_get_empty)
    next
      case queue: (Cons e es)
      have "\<forall>x\<in>set (bus_queue (b\<lparr>bus_queue := es\<rparr>)). ev_valid x"
        using Cons.prems(2) queue by simp
      with Cons.IH [of "b\<lparr>bus_queue := es\<rparr>"] Cons.prems Next queue show ?thesis
        by (simp add: next_event_head bus_get_head)
    qed
  qed
qed

text \<open>
  C25. Delivery of health events. Starting from the empty bus, whatever the interleaving of emissions
  and reads: the events handed out and still pending are, in this order, a subsequence of the events
  emitted (nothing is reordered, duplicated or invented); the pending ones never exceed 10000; every
  emitted event is handed out, pending, or counted in the dropped counter; and if the counter is 0
  none was lost.
\<close>

theorem bus_delivery:
  assumes "\<forall>e\<in>set (emitted ops). ev_valid e" and "bus_run ops initial_bus = (out, b)"
  shows "subseq (map core (filter ev_valid out) @ map core (bus_queue b)) (map core (emitted ops)) \<and>
    pending_event_count b \<le> 10000 \<and>
    int (length (filter ev_valid out)) + int (pending_event_count b) + dropped_event_count b =
      int (length (emitted ops)) \<and>
    (dropped_event_count b = 0 \<longrightarrow>
      map core (filter ev_valid out) @ map core (bus_queue b) = map core (emitted ops))"
proof -
  have run: "bus.run (map to_fifo ops) initial_bus = (map core (filter ev_valid out), b)"
    using bus_run_fifo [of ops initial_bus] assms by (simp add: initial_bus_def)
  have sub: "subseq (map core (filter ev_valid out) @ map core (bus_queue b)) (map core (emitted ops))"
    using bus.run_fifo [OF bus_inv_initial, of "map to_fifo ops"] run
    by (simp add: puts_to_fifo initial_bus_def)
  have count: "length (filter ev_valid out) + length (bus_queue b) + bus_dropped_events b = length (emitted ops)"
    using bus.run_count [OF bus_inv_initial, of "map to_fifo ops"] run
    by (simp add: puts_to_fifo initial_bus_def)
  have "bus_inv b"
    using bus.run_inv [OF bus_inv_initial, of "map to_fifo ops"] run by simp
  moreover have "bus_dropped_events b = 0 \<Longrightarrow>
      map core (filter ev_valid out) @ map core (bus_queue b) = map core (emitted ops)"
    by (rule subseq_same_length [OF sub]) (use count in simp)
  ultimately show ?thesis
    using sub count
    by (auto simp: pending_event_count_def dropped_event_count_def bus_inv_def max_queue_size_def
        simp flip: of_nat_add)
qed

definition sample_event :: "string \<Rightarrow> health_event" where
  "sample_event m = default_event\<lparr>ev_type := ''incomplete_notification'', ev_message := m\<rparr>"

theorem bus_delivery_witness:
  "\<exists>out b. bus_run [Next ''t0'', Emit ''t1'' (sample_event ''a''), Emit ''t2'' (sample_event ''b''), Next ''t3'']
      initial_bus = (out, b) \<and>
    map core (filter ev_valid out) @ map core (bus_queue b) = [core (sample_event ''a''), core (sample_event ''b'')]"
proof -
  let ?ops = "[Next ''t0'', Emit ''t1'' (sample_event ''a''), Emit ''t2'' (sample_event ''b''), Next ''t3'']"
  obtain out b where r: "bus_run ?ops initial_bus = (out, b)" by (cases "bus_run ?ops initial_bus")
  have v: "\<forall>e\<in>set (emitted ?ops). ev_valid e" by (simp add: sample_event_def default_event_def)
  have "dropped_event_count b = 0"
    using r by (auto simp: next_event_def initial_bus_def emit_def max_queue_size_def Let_def
        dropped_event_count_def)
  with bus_delivery [OF v r] r show ?thesis by auto
qed

end
