(* ===== verification/Client_Config.thy ===== *)
theory Client_Config
  imports Errors
begin

text \<open>
  The constructor of \<open>NetconfClient\<close> (\<open>src/netconf_client_common.cpp\<close>), the default arguments the
  Python binding gives it (\<open>src/bindings.cpp\<close>), and the constructor cases of the test suite
  (\<open>test/test_constructor_validation.py\<close>). A C++ \<open>int\<close> parameter is an \<^typ>\<open>int\<close> within
  \<open>INT_MIN .. INT_MAX\<close>; the one place where its width matters, the conversion of
  \<open>socket_connect_timeout_\<close> to milliseconds, is \<open>socket_connect_timeout_ms\<close>.
\<close>

record client_config =
  cf_hostname :: string
  cf_port :: int
  cf_username :: string
  cf_password :: string
  cf_key_path :: string
  cf_connect_timeout :: int
  cf_read_timeout :: int
  cf_notif_queue_max_size :: int
  cf_socket_connect_timeout :: int
  cf_notif_incomplete_max_kb :: int
  cf_notif_incomplete_timeout :: int
  cf_notif_drop_event_threshold :: int
  cf_label :: string

text \<open>The arguments with a default in the binding.\<close>

definition binding_defaults :: "string \<Rightarrow> string \<Rightarrow> string \<Rightarrow> client_config" where
  "binding_defaults hostname username password =
     \<lparr>cf_hostname = hostname, cf_port = 830, cf_username = username, cf_password = password, cf_key_path = [],
      cf_connect_timeout = 60, cf_read_timeout = 60, cf_notif_queue_max_size = -1, cf_socket_connect_timeout = 5,
      cf_notif_incomplete_max_kb = 1024, cf_notif_incomplete_timeout = 5, cf_notif_drop_event_threshold = 1,
      cf_label = ''None''\<rparr>"

text \<open>The constructor: the checks in the order of its body; the argument is the record of parameters.\<close>

definition NetconfClient :: "client_config \<Rightarrow> exn + client_config" where
  "NetconfClient p =
     (if cf_hostname p = [] then Inl (Invalid_Argument ''hostname cannot be empty'')
      else if cf_port p \<le> 0 \<or> cf_port p > 65535 then Inl (Invalid_Argument ''port must be between 1 and 65535'')
      else if cf_username p = [] then Inl (Invalid_Argument ''username cannot be empty'')
      else if cf_connect_timeout p \<le> 0 then Inl (Invalid_Argument ''connect_timeout must be greater than 0'')
      else if cf_read_timeout p \<le> 0 then Inl (Invalid_Argument ''read_timeout must be greater than 0'')
      else if cf_socket_connect_timeout p \<le> 0
        then Inl (Invalid_Argument ''socket_connect_timeout must be greater than 0'')
      else if cf_socket_connect_timeout p > cf_connect_timeout p
        then Inl (Invalid_Argument ''socket_connect_timeout cannot be greater than connect_timeout'')
      else if cf_notif_queue_max_size p < -1
        then Inl (Invalid_Argument ''notif_queue_size must be -1 for unbounded or >= 0 for bounded queue'')
      else if cf_notif_incomplete_max_kb p < -1 \<or> cf_notif_incomplete_max_kb p = 0
        then Inl (Invalid_Argument ''notif_incomplete_max_kb must be -1 to disable or greater than 0'')
      else if cf_notif_incomplete_timeout p < -1 \<or> cf_notif_incomplete_timeout p = 0
        then Inl (Invalid_Argument ''notif_incomplete_timeout must be -1 to disable or greater than 0'')
      else if cf_notif_incomplete_max_kb p < 0 \<and> cf_notif_incomplete_timeout p < 0
        then Inl (Invalid_Argument
          ''At least one of notif_incomplete_max_kb or notif_incomplete_timeout must be enabled'')
      else if cf_notif_drop_event_threshold p \<le> 0
        then Inl (Invalid_Argument ''notif_drop_event_threshold must be greater than 0'')
      else Inr p)"

text \<open>What a constructed client may rely on; the later components assume this of their configuration.\<close>

definition valid_config :: "client_config \<Rightarrow> bool" where
  "valid_config p \<longleftrightarrow>
     cf_hostname p \<noteq> [] \<and> cf_username p \<noteq> [] \<and> 1 \<le> cf_port p \<and> cf_port p \<le> 65535 \<and>
     0 < cf_read_timeout p \<and> 0 < cf_socket_connect_timeout p \<and> cf_socket_connect_timeout p \<le> cf_connect_timeout p \<and>
     -1 \<le> cf_notif_queue_max_size p \<and>
     (cf_notif_incomplete_max_kb p = -1 \<or> 0 < cf_notif_incomplete_max_kb p) \<and>
     (cf_notif_incomplete_timeout p = -1 \<or> 0 < cf_notif_incomplete_timeout p) \<and>
     (0 < cf_notif_incomplete_max_kb p \<or> 0 < cf_notif_incomplete_timeout p) \<and>
     0 < cf_notif_drop_event_threshold p"

lemma NetconfClient_Inr: "NetconfClient p = Inr c \<longleftrightarrow> c = p \<and> valid_config p"
  by (auto simp: NetconfClient_def valid_config_def)

lemma NetconfClient_Inl: "NetconfClient p = Inl e \<Longrightarrow> \<exists>m. e = Invalid_Argument m"
  by (auto simp: NetconfClient_def split: if_splits)

text \<open>
  The constructor accepts exactly the configurations that satisfy \<open>valid_config\<close>, keeps every
  parameter unchanged, and its only error is \<open>std::invalid_argument\<close>; in particular at least one of the
  two guards against incomplete notifications is enabled in every client that exists.
\<close>

theorem constructor_accepts_iff:
  "(\<exists>c. NetconfClient p = Inr c) = valid_config p \<and>
   (valid_config p \<longrightarrow> NetconfClient p = Inr p) \<and>
   (\<not> valid_config p \<longrightarrow> (\<exists>m. NetconfClient p = Inl (Invalid_Argument m)))"
  using NetconfClient_Inr [of p] NetconfClient_Inl [of p] by (cases "NetconfClient p") auto

definition BASE_CLIENT_KWARGS :: client_config where
  "BASE_CLIENT_KWARGS =
     \<lparr>cf_hostname = ''127.0.0.1'', cf_port = 830, cf_username = ''admin'', cf_password = ''admin'', cf_key_path = [],
      cf_connect_timeout = 5, cf_read_timeout = 5, cf_notif_queue_max_size = -1, cf_socket_connect_timeout = 1,
      cf_notif_incomplete_max_kb = 1024, cf_notif_incomplete_timeout = 5, cf_notif_drop_event_threshold = 1,
      cf_label = ''None''\<rparr>"

theorem constructor_accepts_iff_witness:
  "valid_config BASE_CLIENT_KWARGS \<and> NetconfClient BASE_CLIENT_KWARGS = Inr BASE_CLIENT_KWARGS"
proof -
  have v: "valid_config BASE_CLIENT_KWARGS" by (simp add: valid_config_def BASE_CLIENT_KWARGS_def)
  with constructor_accepts_iff [of BASE_CLIENT_KWARGS] show ?thesis by blast
qed

section \<open>The test suite's cases\<close>

text \<open>The overrides of \<open>test_constructor_rejects_invalid_values\<close> with the message each must give.\<close>

definition constructor_rejects :: "(client_config \<times> string) list" where
  "constructor_rejects = (let b = BASE_CLIENT_KWARGS in
    [(b\<lparr>cf_hostname := []\<rparr>, ''hostname cannot be empty''),
     (b\<lparr>cf_port := 0\<rparr>, ''port must be between 1 and 65535''),
     (b\<lparr>cf_port := -1\<rparr>, ''port must be between 1 and 65535''),
     (b\<lparr>cf_port := 65536\<rparr>, ''port must be between 1 and 65535''),
     (b\<lparr>cf_username := []\<rparr>, ''username cannot be empty''),
     (b\<lparr>cf_connect_timeout := 0\<rparr>, ''connect_timeout must be greater than 0''),
     (b\<lparr>cf_connect_timeout := -1\<rparr>, ''connect_timeout must be greater than 0''),
     (b\<lparr>cf_read_timeout := 0\<rparr>, ''read_timeout must be greater than 0''),
     (b\<lparr>cf_read_timeout := -1\<rparr>, ''read_timeout must be greater than 0''),
     (b\<lparr>cf_socket_connect_timeout := 0\<rparr>, ''socket_connect_timeout must be greater than 0''),
     (b\<lparr>cf_socket_connect_timeout := -1\<rparr>, ''socket_connect_timeout must be greater than 0''),
     (b\<lparr>cf_connect_timeout := 1, cf_socket_connect_timeout := 2\<rparr>,
        ''socket_connect_timeout cannot be greater than connect_timeout''),
     (b\<lparr>cf_notif_queue_max_size := -2\<rparr>,
        ''notif_queue_size must be -1 for unbounded or >= 0 for bounded queue''),
     (b\<lparr>cf_notif_incomplete_max_kb := 0\<rparr>, ''notif_incomplete_max_kb must be -1 to disable or greater than 0''),
     (b\<lparr>cf_notif_incomplete_max_kb := -2\<rparr>, ''notif_incomplete_max_kb must be -1 to disable or greater than 0''),
     (b\<lparr>cf_notif_incomplete_timeout := 0\<rparr>, ''notif_incomplete_timeout must be -1 to disable or greater than 0''),
     (b\<lparr>cf_notif_incomplete_timeout := -2\<rparr>, ''notif_incomplete_timeout must be -1 to disable or greater than 0''),
     (b\<lparr>cf_notif_incomplete_max_kb := -1, cf_notif_incomplete_timeout := -1\<rparr>,
        ''At least one of notif_incomplete_max_kb or notif_incomplete_timeout must be enabled''),
     (b\<lparr>cf_notif_drop_event_threshold := 0\<rparr>, ''notif_drop_event_threshold must be greater than 0''),
     (b\<lparr>cf_notif_drop_event_threshold := -1\<rparr>, ''notif_drop_event_threshold must be greater than 0'')])"

text \<open>The overrides of \<open>test_constructor_accepts_valid_boundary_values\<close> (its last label, which is not
  ASCII, stands as its UTF-8 bytes would: any string).\<close>

definition constructor_accepts :: "string \<Rightarrow> client_config list" where
  "constructor_accepts utf8_label = (let b = BASE_CLIENT_KWARGS in
    [b, b\<lparr>cf_password := []\<rparr>, b\<lparr>cf_key_path := []\<rparr>, b\<lparr>cf_key_path := ''/tmp/key-that-is-not-used-yet''\<rparr>,
     b\<lparr>cf_notif_queue_max_size := -1\<rparr>, b\<lparr>cf_notif_queue_max_size := 0\<rparr>, b\<lparr>cf_notif_queue_max_size := 1\<rparr>,
     b\<lparr>cf_notif_incomplete_max_kb := -1, cf_notif_incomplete_timeout := 1\<rparr>,
     b\<lparr>cf_notif_incomplete_max_kb := 1, cf_notif_incomplete_timeout := -1\<rparr>,
     b\<lparr>cf_label := ''leaf-01''\<rparr>, b\<lparr>cf_label := utf8_label\<rparr>])"

lemma constructor_rejects_all:
  "list_all (\<lambda>(p, m). NetconfClient p = Inl (Invalid_Argument m)) constructor_rejects"
  by (simp add: constructor_rejects_def BASE_CLIENT_KWARGS_def NetconfClient_def Let_def)

lemma constructor_accepts_all:
  "list_all (\<lambda>p. NetconfClient p = Inr p) (constructor_accepts l)"
  by (simp add: constructor_accepts_def BASE_CLIENT_KWARGS_def NetconfClient_def Let_def)

text \<open>
  The constructor passes the test suite's tables: every configuration of the rejection table is
  refused with exactly the message the table gives for it, every one of the acceptance table is
  accepted, and so is any client built with the binding's defaults for non-empty host and user names.
\<close>

theorem constructor_passes_test_tables:
  "list_all (\<lambda>(p, m). NetconfClient p = Inl (Invalid_Argument m)) constructor_rejects \<and>
   list_all (\<lambda>p. NetconfClient p = Inr p) (constructor_accepts l) \<and>
   (h \<noteq> [] \<and> u \<noteq> [] \<longrightarrow> NetconfClient (binding_defaults h u pw) = Inr (binding_defaults h u pw))"
  using constructor_rejects_all constructor_accepts_all [of l]
  by (simp add: NetconfClient_Inr valid_config_def binding_defaults_def)

theorem constructor_passes_test_tables_witness:
  "NetconfClient (binding_defaults ''r1'' ''admin'' []) = Inr (binding_defaults ''r1'' ''admin'' [])"
  using constructor_passes_test_tables [of "[]" "''r1''" "''admin''" "[]"] by simp

section \<open>The conversion to milliseconds\<close>

definition INT_MAX :: int where
  "INT_MAX = 2147483647"

text \<open>\<open>socket_connect_timeout_ * 1000\<close> in \<open>connect_non_blocking\<close> and
  \<open>connect_notification_non_blocking\<close>; \<open>None\<close> is signed overflow, which C++ leaves undefined.\<close>

definition socket_connect_timeout_ms :: "client_config \<Rightarrow> int option" where
  "socket_connect_timeout_ms c =
     (let ms = cf_socket_connect_timeout c * 1000 in if -INT_MAX - 1 \<le> ms \<and> ms \<le> INT_MAX then Some ms else None)"

text \<open>
  The socket timeout of a constructed client is converted to milliseconds without overflow exactly
  up to 2147483 seconds, and is then positive; the constructor does not enforce this bound: it accepts
  configurations, within the range of \<open>int\<close>, whose conversion overflows.
\<close>

theorem socket_timeout_conversion:
  assumes "NetconfClient p = Inr c"
  shows "(socket_connect_timeout_ms c = Some (cf_socket_connect_timeout c * 1000) \<longleftrightarrow>
      cf_socket_connect_timeout c \<le> 2147483) \<and>
    (socket_connect_timeout_ms c = None \<longleftrightarrow> cf_socket_connect_timeout c > 2147483) \<and>
    (\<exists>q. NetconfClient q = Inr q \<and> cf_connect_timeout q \<le> INT_MAX \<and> socket_connect_timeout_ms q = None)"
proof -
  have "0 < cf_socket_connect_timeout c" using assms by (simp add: NetconfClient_Inr valid_config_def)
  moreover have "NetconfClient (BASE_CLIENT_KWARGS\<lparr>cf_connect_timeout := 3000000, cf_socket_connect_timeout := 3000000\<rparr>)
      = Inr (BASE_CLIENT_KWARGS\<lparr>cf_connect_timeout := 3000000, cf_socket_connect_timeout := 3000000\<rparr>)"
    by (simp add: NetconfClient_def BASE_CLIENT_KWARGS_def)
  moreover have "socket_connect_timeout_ms
      (BASE_CLIENT_KWARGS\<lparr>cf_connect_timeout := 3000000, cf_socket_connect_timeout := 3000000\<rparr>) = None"
    by (simp add: socket_connect_timeout_ms_def INT_MAX_def)
  ultimately show ?thesis
    by (auto simp: socket_connect_timeout_ms_def INT_MAX_def Let_def
        intro!: exI [of _ "BASE_CLIENT_KWARGS\<lparr>cf_connect_timeout := 3000000, cf_socket_connect_timeout := 3000000\<rparr>"])
qed

theorem socket_timeout_conversion_witness:
  "socket_connect_timeout_ms BASE_CLIENT_KWARGS = Some 1000"
proof -
  have c: "NetconfClient BASE_CLIENT_KWARGS = Inr BASE_CLIENT_KWARGS"
    by (simp add: NetconfClient_def BASE_CLIENT_KWARGS_def)
  from socket_timeout_conversion [OF c] show ?thesis by (simp add: BASE_CLIENT_KWARGS_def)
qed

end
