(* ===== verification/Notif_Queue.thy ===== *)
theory Notif_Queue
  imports Event_Bus Client_Config
begin

text \<open>
  The notification side of a \<open>NetconfClient\<close>: the members guarded by \<open>notif_mutex_\<close> and
  \<open>_notif_queue_mtx\<close> (\<open>include/netconf_client.hpp\<close>), and the operations on the per-client queue in
  \<open>src/netconf_client_non_blocking.cpp\<close> and \<open>src/netconf_client_blocking.cpp\<close>. Each operation runs
  under the queue's mutex, so it is one function from state to state; what a thread reads from a
  clock is an argument. The 64-bit counters are \<^typ>\<open>nat\<close>: they do not wrap below \<open>2 ^ 64\<close> events.
\<close>

section \<open>State\<close>

record notif_state =
  cfg :: client_config
  notif_channel :: bool      \<comment> \<open>the pointer is non-null\<close>
  notif_session :: bool
  notif_socket :: int
  notif_is_connected :: bool
  notif_is_blocking :: bool
  rx_buffer :: bytes
  rx_timer_active :: bool
  rx_started_at :: nat       \<comment> \<open>steady clock, nanoseconds\<close>
  notif_queue :: "bytes list"
  enqueued_count :: nat
  dropped_queue_full_count :: nat
  last_drop_event_count :: nat
  incomplete_count :: nat
  queue_high_watermark :: nat
  queue_full_state :: bool

definition initial_notif :: "client_config \<Rightarrow> notif_state" where
  "initial_notif c = \<lparr>cfg = c, notif_channel = False, notif_session = False, notif_socket = -1,
     notif_is_connected = False, notif_is_blocking = False,
     rx_buffer = [], rx_timer_active = False, rx_started_at = 0, notif_queue = [],
     enqueued_count = 0, dropped_queue_full_count = 0, last_drop_event_count = 0, incomplete_count = 0,
     queue_high_watermark = 0, queue_full_state = False\<rparr>"

text \<open>The local variables \<open>events_to_emit\<close> and \<open>queued_notifications\<close> of \<open>on_notification_ready\<close>.\<close>

record cb_state = notif_state +
  events_to_emit :: "health_event list"
  queued_notifications :: nat

definition begin_cb :: "notif_state \<Rightarrow> cb_state" where
  "begin_cb s = notif_state.extend s \<lparr>events_to_emit = [], queued_notifications = 0\<rparr>"

text \<open>\<open>make_notification_health_event_locked\<close>; \<open>ts\<close> is the time stamp it reads.\<close>

definition make_event ::
  "string \<Rightarrow> string \<Rightarrow> string \<Rightarrow> int \<Rightarrow> int \<Rightarrow> int \<Rightarrow> 'a notif_state_scheme \<Rightarrow> health_event" where
  "make_event ts type message fd dropped_delta partial_bytes s =
     \<lparr>ev_valid = True, ev_type = type, ev_timestamp = ts, ev_label = cf_label (cfg s),
      ev_hostname = cf_hostname (cfg s), ev_port = cf_port (cfg s), ev_fd = fd, ev_message = message,
      ev_queue_size = int (length (notif_queue s)),
      ev_queue_max_size = cf_notif_queue_max_size (cfg s),
      ev_queue_high_watermark = int (queue_high_watermark s),
      ev_notifications_enqueued = int (enqueued_count s),
      ev_notifications_dropped_queue_full = int (dropped_queue_full_count s),
      ev_notifications_dropped_delta = dropped_delta,
      ev_incomplete_notifications_received = int (incomplete_count s),
      ev_partial_bytes = partial_bytes,
      ev_health_events_dropped = 0\<rparr>"

text \<open>\<open>add_diagnostic_event_locked\<close>. The clock \<open>ts\<close> is indexed by the events already created.\<close>

definition add_diagnostic_event ::
  "(nat \<Rightarrow> string) \<Rightarrow> int \<Rightarrow> string \<Rightarrow> string \<Rightarrow> nat \<Rightarrow> bool \<Rightarrow> cb_state \<Rightarrow> cb_state" where
  "add_diagnostic_event ts fd type message partial_bytes increment_incomplete_count s =
     (let s = (if increment_incomplete_count then s\<lparr>incomplete_count := incomplete_count s + 1\<rparr> else s) in
      s\<lparr>events_to_emit := events_to_emit s @
          [make_event (ts (length (events_to_emit s))) type message fd 0 (int partial_bytes) s]\<rparr>)"

definition queue_full :: "'a notif_state_scheme \<Rightarrow> bool" where
  "queue_full s \<longleftrightarrow> cf_notif_queue_max_size (cfg s) \<ge> 0 \<and>
     length (notif_queue s) \<ge> nat (cf_notif_queue_max_size (cfg s))"

text \<open>\<open>enqueue_or_drop_locked\<close> (the line it prints to \<open>std::cerr\<close> is not modelled).\<close>

definition enqueue_or_drop :: "(nat \<Rightarrow> string) \<Rightarrow> int \<Rightarrow> bytes \<Rightarrow> nat \<Rightarrow> cb_state \<Rightarrow> cb_state" where
  "enqueue_or_drop ts fd notification diagnostic_bytes s =
     (if notification = [] then s
      else if queue_full s then
        let s = s\<lparr>dropped_queue_full_count := dropped_queue_full_count s + 1\<rparr>;
            dropped_delta = dropped_queue_full_count s - last_drop_event_count s;
            first_queue_full_event = (\<not> queue_full_state s)
        in if first_queue_full_event \<or> dropped_delta \<ge> nat (cf_notif_drop_event_threshold (cfg s)) then
             let s = s\<lparr>queue_full_state := True, last_drop_event_count := dropped_queue_full_count s\<rparr>
             in s\<lparr>events_to_emit := events_to_emit s @
                 [make_event (ts (length (events_to_emit s)))
                   (if first_queue_full_event then ''notification_queue_full'' else ''notification_drops_summary'')
                   ''Notification queue is full; dropping notifications'' fd
                   (int dropped_delta) (int diagnostic_bytes) s]\<rparr>
           else s
      else
        let s = s\<lparr>notif_queue := notif_queue s @ [notification],
                  queued_notifications := queued_notifications s + 1,
                  enqueued_count := enqueued_count s + 1\<rparr>
        in if length (notif_queue s) > queue_high_watermark s
           then s\<lparr>queue_high_watermark := length (notif_queue s)\<rparr> else s)"

text \<open>
  \<open>next_notification\<close>: \<open>g\<close> is the state while \<open>notif_mutex_\<close> is held, \<open>s\<close> the state when the wait for
  a notification is over (at once for a zero timeout). The result is the notification, the health
  events emitted and the new state; no notification is the empty string.
\<close>

definition next_notification ::
  "string \<Rightarrow> int \<Rightarrow> notif_state \<Rightarrow> notif_state \<Rightarrow> exn + bytes \<times> health_event list \<times> notif_state" where
  "next_notification ts timeout_ms g s = rethrow Netconf_Exception ''Unable to read from queue: ''
     (if \<not> notif_channel g then Inl (Netconf_Exception ''Notification channel not open.'')
      else if \<not> notif_session g then Inl (Netconf_Exception ''Notification session not open.'')
      else if \<not> notif_is_connected g then Inl (Netconf_Exception ''Notification subscription is not active.'')
      else if timeout_ms < 0 then Inl (Netconf_Exception ''timeout_ms must be >= 0'')
      else case notif_queue s of
          [] \<Rightarrow> Inr ([], [], s)
        | xml # rest \<Rightarrow>
            let s = s\<lparr>notif_queue := rest\<rparr> in
            if queue_full_state s \<and>
               (cf_notif_queue_max_size (cfg s) < 0 \<or> length (notif_queue s) < nat (cf_notif_queue_max_size (cfg s)))
            then let s = s\<lparr>queue_full_state := False\<rparr> in
              Inr (xml, [make_event ts ''notification_queue_recovered''
                           ''Notification queue has free capacity again'' (-1) 0 0 s], s)
            else Inr (xml, [], s))"

definition peek_notifications :: "int \<Rightarrow> notif_state \<Rightarrow> exn + bytes list" where
  "peek_notifications max_items s =
     (if max_items < -1 then Inl (Netconf_Exception ''max_items must be -1 for all items or >= 0'')
      else let limit = length (notif_queue s);
               limit = (if max_items \<ge> 0 \<and> nat max_items < limit then nat max_items else limit)
           in Inr (take limit (notif_queue s)))"

definition notification_queue_size :: "notif_state \<Rightarrow> nat" where
  "notification_queue_size s = length (notif_queue s)"

definition clear_notification_queue :: "notif_state \<Rightarrow> notif_state" where
  "clear_notification_queue s = s\<lparr>notif_queue := [], rx_buffer := [], rx_timer_active := False,
     queue_full_state := False, queue_high_watermark := 0\<rparr>"

definition mark_notification_dead :: "notif_state \<Rightarrow> notif_state" where
  "mark_notification_dead s =
     (let s = s\<lparr>notif_is_connected := False, notif_is_blocking := False,
                notif_channel := False, notif_session := False, notif_socket := -1\<rparr>
      in s\<lparr>notif_queue := [], rx_buffer := [], rx_timer_active := False\<rparr>)"

text \<open>\<open>is_subscription_active\<close>; \<open>ebadf fd\<close>: \<open>fcntl(fd, F_GETFD)\<close> fails with \<open>EBADF\<close>.\<close>

definition is_subscription_active :: "(int \<Rightarrow> bool) \<Rightarrow> notif_state \<Rightarrow> bool" where
  "is_subscription_active ebadf s \<longleftrightarrow>
     (if \<not> notif_is_connected s then False
      else if \<not> notif_channel s then False
      else if \<not> notif_session s then False
      else if notif_socket s < 0 then False
      else \<not> ebadf (notif_socket s))"

section \<open>Invariant of the queue\<close>

definition queue_inv :: "'a notif_state_scheme \<Rightarrow> bool" where
  "queue_inv s \<longleftrightarrow>
     valid_config (cfg s) \<and>
     (0 \<le> cf_notif_queue_max_size (cfg s) \<longrightarrow>
        int (queue_high_watermark s) \<le> cf_notif_queue_max_size (cfg s)) \<and>
     length (notif_queue s) \<le> queue_high_watermark s \<and>
     last_drop_event_count s \<le> dropped_queue_full_count s \<and>
     dropped_queue_full_count s < last_drop_event_count s + nat (cf_notif_drop_event_threshold (cfg s)) \<and>
     (queue_full_state s \<longrightarrow> 0 \<le> cf_notif_queue_max_size (cfg s))"

lemma queue_inv_initial: "valid_config c \<Longrightarrow> queue_inv (initial_notif c)"
  by (simp add: queue_inv_def initial_notif_def valid_config_def)

lemma begin_cb_fields [simp]:
  "cfg (begin_cb s) = cfg s" "rx_buffer (begin_cb s) = rx_buffer s"
  "rx_timer_active (begin_cb s) = rx_timer_active s" "rx_started_at (begin_cb s) = rx_started_at s"
  "notif_queue (begin_cb s) = notif_queue s" "enqueued_count (begin_cb s) = enqueued_count s"
  "dropped_queue_full_count (begin_cb s) = dropped_queue_full_count s"
  "last_drop_event_count (begin_cb s) = last_drop_event_count s"
  "incomplete_count (begin_cb s) = incomplete_count s"
  "queue_high_watermark (begin_cb s) = queue_high_watermark s"
  "queue_full_state (begin_cb s) = queue_full_state s"
  "events_to_emit (begin_cb s) = []" "queued_notifications (begin_cb s) = 0"
  "notif_state.truncate (begin_cb s) = s"
  by (simp_all add: begin_cb_def notif_state.extend_def notif_state.truncate_def)

lemma queue_inv_begin_cb [simp]: "queue_inv (begin_cb s) = queue_inv s"
  by (simp add: queue_inv_def)

lemma queue_inv_truncate [simp]: "queue_inv (notif_state.truncate s) = queue_inv s"
  by (simp add: queue_inv_def notif_state.truncate_def)

lemma queue_inv_diag [simp]: "queue_inv (add_diagnostic_event ts fd t m n inc s) = queue_inv s"
  by (simp add: queue_inv_def add_diagnostic_event_def Let_def)

lemma enqueue_full:
  assumes "queue_full s" "n \<noteq> []" "queue_inv s"
  shows "\<exists>full last evs. enqueue_or_drop ts fd n d s =
    s\<lparr>dropped_queue_full_count := dropped_queue_full_count s + 1, queue_full_state := full,
      last_drop_event_count := last, events_to_emit := events_to_emit s @ evs\<rparr> \<and> full \<and>
    last \<in> {last_drop_event_count s, dropped_queue_full_count s + 1} \<and>
    dropped_queue_full_count s + 1 < last + nat (cf_notif_drop_event_threshold (cfg s))"
proof -
  let ?delta = "dropped_queue_full_count s + 1 - last_drop_event_count s"
  have t: "0 < cf_notif_drop_event_threshold (cfg s)"
    using assms(3) by (simp add: queue_inv_def valid_config_def)
  show ?thesis
  proof (cases "\<not> queue_full_state s \<or> nat (cf_notif_drop_event_threshold (cfg s)) \<le> ?delta")
    case True
    define ev where "ev = make_event (ts (length (events_to_emit s)))
       (if \<not> queue_full_state s then ''notification_queue_full'' else ''notification_drops_summary'')
       ''Notification queue is full; dropping notifications'' fd (int ?delta) (int d)
       (s\<lparr>dropped_queue_full_count := dropped_queue_full_count s + 1, queue_full_state := True,
          last_drop_event_count := dropped_queue_full_count s + 1\<rparr>)"
    show ?thesis
      by (rule exI [of _ True], rule exI [of _ "dropped_queue_full_count s + 1"], rule exI [of _ "[ev]"])
        (use assms True t in \<open>simp add: enqueue_or_drop_def Let_def ev_def\<close>)
  next
    case False
    then have "queue_full_state s" and "\<not> nat (cf_notif_drop_event_threshold (cfg s)) \<le> ?delta" by auto
    with assms t show ?thesis
      by (intro exI [of _ True] exI [of _ "last_drop_event_count s"] exI [of _ "[]"])
        (auto simp: enqueue_or_drop_def Let_def)
  qed
qed

lemma enqueue_room:
  assumes "\<not> queue_full s" "n \<noteq> []"
  shows "enqueue_or_drop ts fd n d s =
    s\<lparr>notif_queue := notif_queue s @ [n], queued_notifications := queued_notifications s + 1,
      enqueued_count := enqueued_count s + 1,
      queue_high_watermark := max (queue_high_watermark s) (length (notif_queue s) + 1)\<rparr>"
  using assms by (simp add: enqueue_or_drop_def Let_def max_def)

lemma enqueue_Nil [simp]: "enqueue_or_drop ts fd [] d s = s"
  by (simp add: enqueue_or_drop_def)

lemma queue_inv_enqueue: "queue_inv s \<Longrightarrow> queue_inv (enqueue_or_drop ts fd n d s)"
proof (cases "n = []")
  case False
  assume inv: "queue_inv s"
  show ?thesis
  proof (cases "queue_full s")
    case True
    obtain full last evs where e: "enqueue_or_drop ts fd n d s =
       s\<lparr>dropped_queue_full_count := dropped_queue_full_count s + 1, queue_full_state := full,
         last_drop_event_count := last, events_to_emit := events_to_emit s @ evs\<rparr>"
      and b: "last \<in> {last_drop_event_count s, dropped_queue_full_count s + 1}"
        "dropped_queue_full_count s + 1 < last + nat (cf_notif_drop_event_threshold (cfg s))"
      using enqueue_full [OF True False inv] by blast
    from inv b True show ?thesis unfolding e by (auto simp: queue_inv_def queue_full_def)
  next
    case room: False
    with inv show ?thesis
      by (auto simp: enqueue_room [OF room False] queue_inv_def queue_full_def)
  qed
qed simp

lemma queue_inv_next_notification:
  "queue_inv s \<Longrightarrow> next_notification ts t g s = Inr (x, evs, s') \<Longrightarrow> queue_inv s'"
  by (auto simp: next_notification_def queue_inv_def Let_def split: if_splits list.splits)

lemma queue_inv_clear: "queue_inv s \<Longrightarrow> queue_inv (clear_notification_queue s)"
  by (simp add: queue_inv_def clear_notification_queue_def)

lemma queue_inv_mark_dead: "queue_inv s \<Longrightarrow> queue_inv (mark_notification_dead s)"
  by (simp add: queue_inv_def mark_notification_dead_def Let_def)

end
