(* ===== verification/Stream_Scan.thy ===== *)
theory Stream_Scan
  imports Prelude
begin

text \<open>
  The text helpers in the anonymous namespace of \<open>src/netconf_client_non_blocking.cpp\<close>: trimming,
  XML local names, the search for a \<open><notification>\<close> start tag and for its end tag. Positions are
  \<^typ>\<open>nat\<close> and \<open>npos\<close> is \<open>None\<close>. The XML parser (tinyxml2) is the parameter \<open>xml_root\<close>: \<open>None\<close> when
  parsing fails, otherwise the name of the root element, if there is one.
\<close>

section \<open>Definitions\<close>

definition EOM :: bytes where
  "EOM = '']]>]]>''"

definition EOM_LEN :: nat where
  "EOM_LEN = 6"

lemma length_EOM [simp]: "length EOM = 6"
  by (simp add: EOM_def)

lemma EOM_not_Nil [simp]: "EOM \<noteq> []"
  by (simp add: EOM_def)

definition trim_copy :: "bytes \<Rightarrow> bytes" where
  "trim_copy input =
     (let b = length (takeWhile isspace input);
          e = length input - length (takeWhile isspace (rev input))
      in if b \<ge> e then [] else take (e - b) (drop b input))"

definition xml_local_name :: "bytes \<Rightarrow> bytes" where
  "xml_local_name value =
     (case rfind_char (CHR '':'') value of Some colon \<Rightarrow> drop (colon + 1) value | None \<Rightarrow> value)"

type_synonym xml_root = "bytes \<Rightarrow> bytes option option"

definition is_valid_notification_document :: "xml_root \<Rightarrow> bytes \<Rightarrow> bool" where
  "is_valid_notification_document xml_root frame =
     (let payload = trim_copy frame in
      if payload = [] then False
      else case xml_root payload of
          None \<Rightarrow> False
        | Some None \<Rightarrow> False
        | Some (Some name) \<Rightarrow> xml_local_name name = ''notification'')"

definition name_stop :: "char \<Rightarrow> bool" where
  "name_stop c \<longleftrightarrow> isspace c \<or> c = CHR ''>'' \<or> c = CHR ''/''"

text \<open>The scanning loop over a tag name, from \<open>name_begin\<close>.\<close>

definition scan_name_end :: "bytes \<Rightarrow> nat \<Rightarrow> nat" where
  "scan_name_end data name_begin =
     name_begin + length (takeWhile (\<lambda>c. \<not> name_stop c) (drop name_begin data))"

lemma scan_name_end_ge: "name_begin \<le> scan_name_end data name_begin"
  by (simp add: scan_name_end_def)

lemma scan_name_end_le: "name_begin \<le> length data \<Longrightarrow> scan_name_end data name_begin \<le> length data"
  using length_takeWhile_le [of "\<lambda>c. \<not> name_stop c" "drop name_begin data"]
  by (simp add: scan_name_end_def)

text \<open>
  \<open>find_notification_start_tag(data, from)\<close>. \<open>start_tag_step\<close> is the body of its loop at the position
  \<open>pos\<close>: it returns \<open>npos\<close>, returns a position, or continues at another one.
\<close>

datatype tag_step = Return_Npos | Return_Pos nat | Continue_At nat

definition start_tag_step :: "bytes \<Rightarrow> nat \<Rightarrow> tag_step" where
  "start_tag_step data pos =
     (case find_from ''<'' pos data of
        None \<Rightarrow> Return_Npos
      | Some pos \<Rightarrow>
          if pos + 1 \<ge> length data then Return_Npos
          else let nxt = data ! (pos + 1) in
            if nxt = CHR ''/'' \<or> nxt = CHR ''!'' \<or> nxt = CHR ''?'' then Continue_At (pos + 1)
            else let name_begin = pos + 1; name_end = scan_name_end data name_begin in
              if name_end = name_begin then Continue_At (pos + 1)
              else let qname = substr data name_begin (name_end - name_begin) in
                if xml_local_name qname = ''notification'' then Return_Pos pos
                else Continue_At name_end)"

lemma find_lt_bound: "find_from ''<'' pos data = Some p \<Longrightarrow> pos \<le> p \<and> p < length data \<and> data ! p = CHR ''<''"
proof -
  assume f: "find_from ''<'' pos data = Some p"
  then have b: "pos \<le> p \<and> p < length data" using find_from_bound [OF f] by simp
  from f obtain k where k: "find_sub ''<'' (drop pos data) = Some k" "p = pos + k"
    by (auto simp: find_from_def split: if_splits)
  then have "prefix ''<'' (drop k (drop pos data))" using find_sub_Some_iff_prefix by blast
  then have "prefix ''<'' (drop p data)" using k by (simp add: add.commute)
  then have "data ! p = CHR ''<''"
    using b by (cases "drop p data") (auto simp: hd_drop_conv_nth [symmetric])
  with b show ?thesis by simp
qed

lemma start_tag_step_continue: "start_tag_step data pos = Continue_At q \<Longrightarrow> pos < q \<and> pos < length data"
  using scan_name_end_ge
  by (fastforce simp: start_tag_step_def Let_def split: option.splits if_splits dest!: find_lt_bound
      intro: le_less_trans less_le_trans)

function find_notification_start_tag :: "bytes \<Rightarrow> nat \<Rightarrow> nat option" where
  "find_notification_start_tag data pos =
     (case start_tag_step data pos of
        Return_Npos \<Rightarrow> None
      | Return_Pos p \<Rightarrow> Some p
      | Continue_At q \<Rightarrow> find_notification_start_tag data q)"
  by pat_completeness auto

termination
  by (relation "measure (\<lambda>(data, pos). length data - pos)") (auto dest!: start_tag_step_continue)

declare find_notification_start_tag.simps [simp del]

definition benign_notification_prefix :: "bytes \<Rightarrow> bool" where
  "benign_notification_prefix pre =
     (let trimmed = trim_copy pre in
      if trimmed = [] then True
      else if prefix ''<?xml'' trimmed then
        (case find_sub ''?>'' trimmed of
           Some end_decl \<Rightarrow> trim_copy (drop (end_decl + 2) trimmed) = []
         | None \<Rightarrow> False)
      else False)"

text \<open>\<open>notification_end_after_start\<close>: the out-parameter is the result, \<open>None\<close> is \<open>false\<close>.\<close>

definition notification_end_after_start :: "bytes \<Rightarrow> nat option \<Rightarrow> nat option" where
  "notification_end_after_start data start =
     (case start of
        None \<Rightarrow> None
      | Some st \<Rightarrow>
          if st + 1 \<ge> length data then None
          else let name_begin = st + 1; name_end = scan_name_end data name_begin in
            if name_end = name_begin then None
            else let qname = substr data name_begin (name_end - name_begin);
                     close_tag = ''</'' @ qname @ ''>''
              in case find_from close_tag name_end data of
                   None \<Rightarrow> None
                 | Some close_pos \<Rightarrow> Some (close_pos + length close_tag))"

section \<open>Trimming\<close>

lemma trim_copy_eq: "trim_copy s = rev (dropWhile isspace (rev (dropWhile isspace s)))"
proof -
  define a where "a = takeWhile isspace s"
  define m where "m = dropWhile isspace s"
  have s: "s = a @ m" by (simp add: a_def m_def)
  show ?thesis
  proof (cases "m = []")
    case True
    then have "\<forall>c\<in>set s. isspace c" by (simp add: m_def dropWhile_eq_Nil_conv)
    then have "length (takeWhile isspace s) = length s"
      by (simp add: takeWhile_eq_all_conv [THEN iffD2])
    with True show ?thesis
      by (simp add: trim_copy_def m_def [symmetric] Let_def)
  next
    case False
    then have hd: "\<not> isspace (hd m)" by (simp add: m_def hd_dropWhile)
    have tw: "takeWhile isspace (rev s) = takeWhile isspace (rev m)"
      unfolding s rev_append
      by (rule takeWhile_append1 [of "hd m"]) (use False hd in auto)
    define n where "n = length (takeWhile isspace (rev m))"
    have n: "n < length m"
    proof (rule ccontr)
      assume "\<not> n < length m"
      then have "takeWhile isspace (rev m) = rev m"
        unfolding n_def using length_takeWhile_le [of isspace "rev m"]
        by (metis length_rev not_less takeWhile_eq_take take_all)
      then have "\<forall>c\<in>set (rev m). isspace c" by (simp add: takeWhile_eq_all_conv)
      with hd False show False by auto
    qed
    have "dropWhile isspace (rev m) = drop n (rev m)"
      by (simp add: n_def dropWhile_eq_drop)
    then have "rev (dropWhile isspace (rev m)) = take (length m - n) m"
      by (simp add: rev_drop)
    moreover have "trim_copy s = take (length m - n) m"
    proof -
      have "length (takeWhile isspace s) = length a" by (simp add: a_def)
      moreover have "length s - n - length a = length m - n" by (simp add: s)
      moreover have "drop (length a) s = m" by (simp add: s)
      moreover have "\<not> length a \<ge> length s - n" using n by (simp add: s)
      ultimately show ?thesis by (simp add: trim_copy_def tw n_def [symmetric] Let_def)
    qed
    ultimately show ?thesis by (simp add: m_def [symmetric])
  qed
qed

lemma trim_copy_Nil_iff: "trim_copy s = [] \<longleftrightarrow> (\<forall>c\<in>set s. isspace c)"
proof
  assume "trim_copy s = []"
  then have "\<forall>c\<in>set (dropWhile isspace s). isspace c"
    by (simp add: trim_copy_eq dropWhile_eq_Nil_conv)
  then have "dropWhile isspace s = []"
    using hd_dropWhile [of isspace s] by (cases "dropWhile isspace s") auto
  then show "\<forall>c\<in>set s. isspace c" by (simp add: dropWhile_eq_Nil_conv)
next
  assume "\<forall>c\<in>set s. isspace c"
  then have "dropWhile isspace s = []" using dropWhile_eq_Nil_conv by blast
  then show "trim_copy s = []" by (simp add: trim_copy_eq del: dropWhile_eq_Nil_conv)
qed

lemma trim_copy_ends:
  "trim_copy s \<noteq> [] \<Longrightarrow> \<not> isspace (hd (trim_copy s)) \<and> \<not> isspace (last (trim_copy s))"
proof -
  assume ne: "trim_copy s \<noteq> []"
  let ?m = "dropWhile isspace s"
  have l: "last (trim_copy s) = hd (dropWhile isspace (rev ?m))"
    by (simp add: trim_copy_eq last_rev)
  have "dropWhile isspace (rev ?m) \<noteq> []" using ne by (simp add: trim_copy_eq)
  then have "\<not> isspace (last (trim_copy s))" using l by (simp add: hd_dropWhile)
  moreover have "prefix (trim_copy s) ?m"
    by (metis trim_copy_eq rev_rev_ident suffix_dropWhile suffix_to_prefix)
  then have "hd (trim_copy s) = hd ?m" using ne by (auto simp: prefix_def)
  moreover have "?m \<noteq> []" using ne by (auto simp: trim_copy_eq simp del: dropWhile_eq_Nil_conv)
  ultimately show ?thesis using hd_dropWhile [of isspace s] by simp
qed

section \<open>Start tags\<close>

text \<open>What the search accepts at a position.\<close>

definition start_tag_at :: "bytes \<Rightarrow> nat \<Rightarrow> bool" where
  "start_tag_at data i \<longleftrightarrow>
     i + 1 < length data \<and> data ! i = CHR ''<'' \<and> data ! (i + 1) \<notin> {CHR ''/'', CHR ''!'', CHR ''?''} \<and>
     xml_local_name (takeWhile (\<lambda>c. \<not> name_stop c) (drop (i + 1) data)) = ''notification''"

lemma substr_scan_name:
  "substr data b (scan_name_end data b - b) = takeWhile (\<lambda>c. \<not> name_stop c) (drop b data)"
  by (simp add: substr_def scan_name_end_def takeWhile_eq_take [symmetric])

lemma start_tag_step_found: "start_tag_step data pos = Return_Pos p \<Longrightarrow> pos \<le> p \<and> start_tag_at data p"
  by (auto simp: start_tag_step_def start_tag_at_def Let_def substr_scan_name
      split: option.splits if_splits dest!: find_lt_bound)

lemma find_notification_start_tag_Some:
  "find_notification_start_tag data pos = Some i \<Longrightarrow> pos \<le> i \<and> start_tag_at data i"
proof (induction data pos rule: find_notification_start_tag.induct)
  case (1 data pos)
  note eq = 1(2) [unfolded find_notification_start_tag.simps [of data pos]]
  show ?case
  proof (cases "start_tag_step data pos")
    case Return_Npos
    with eq show ?thesis by simp
  next
    case (Return_Pos p)
    with eq start_tag_step_found [OF Return_Pos] show ?thesis by simp
  next
    case (Continue_At q)
    with eq 1(1) [OF Continue_At] start_tag_step_continue [OF Continue_At] show ?thesis by simp
  qed
qed

lemma find_notification_start_tag_bound [find_intros]:
  "find_notification_start_tag data pos = Some i \<Longrightarrow> pos \<le> i \<and> i + 1 < length data"
  using find_notification_start_tag_Some by (auto simp: start_tag_at_def)

lemma find_notification_start_tag_beyond:
  "length data \<le> pos + 1 \<Longrightarrow> find_notification_start_tag data pos = None"
  using find_notification_start_tag_bound [of data pos] by (cases "find_notification_start_tag data pos") auto

lemma find_lt_here: "i < length data \<Longrightarrow> data ! i = CHR ''<'' \<Longrightarrow> find_from ''<'' i data = Some i"
  by (simp add: find_from_def Cons_nth_drop_Suc [symmetric])

lemma takeWhile_not_Nil_name:
  "xml_local_name [] \<noteq> ''notification''"
  by (simp add: xml_local_name_def)

lemma find_notification_start_tag_here:
  assumes "start_tag_at data i"
  shows "find_notification_start_tag data i = Some i"
proof -
  have i: "i + 1 < length data" "data ! i = CHR ''<''"
    and n: "data ! (i + 1) \<notin> {CHR ''/'', CHR ''!'', CHR ''?''}"
    and loc: "xml_local_name (takeWhile (\<lambda>c. \<not> name_stop c) (drop (i + 1) data)) = ''notification''"
    using assms by (auto simp: start_tag_at_def)
  have "scan_name_end data (i + 1) \<noteq> i + 1"
    using loc takeWhile_not_Nil_name by (auto simp: scan_name_end_def)
  with i n loc find_lt_here [of i data] have "start_tag_step data i = Return_Pos i"
    by (simp add: start_tag_step_def Let_def substr_scan_name [of data "Suc i", simplified])
  then show ?thesis by (simp add: find_notification_start_tag.simps [of data i])
qed

text \<open>A tag whose name ends inside \<open>m\<close> is still one when more bytes follow.\<close>

lemma start_tag_at_append:
  assumes "start_tag_at m i" and "scan_name_end m (i + 1) < length m"
  shows "start_tag_at (m @ x) i"
proof -
  let ?d = "drop (i + 1) m"
  have "length (takeWhile (\<lambda>c. \<not> name_stop c) ?d) < length ?d"
    using assms by (simp add: scan_name_end_def)
  then have "\<exists>c\<in>set ?d. name_stop c"
    by (metis length_takeWhile_le nat_less_le takeWhile_eq_all_conv)
  then have "takeWhile (\<lambda>c. \<not> name_stop c) (?d @ x) = takeWhile (\<lambda>c. \<not> name_stop c) ?d"
    by (auto intro: takeWhile_append1)
  with assms show ?thesis by (auto simp: start_tag_at_def nth_append)
qed

section \<open>End tags\<close>

lemma notification_end_after_start_bound [find_intros]:
  assumes "notification_end_after_start data (Some st) = Some e"
  shows "st + 1 < e \<and> e \<le> length data"
proof -
  let ?e = "scan_name_end data (st + 1)"
  let ?tag = "''</'' @ substr data (st + 1) (?e - (st + 1)) @ ''>''"
  obtain c where c: "find_from ?tag ?e data = Some c" "e = c + length ?tag"
    using assms by (auto simp: notification_end_after_start_def Let_def split: if_splits option.splits)
  show ?thesis
    using find_from_bound [OF c(1)] c(2) scan_name_end_ge [of "st + 1" data] by auto
qed

end
