(* ===== verification/Socket_Poll.thy ===== *)
theory Socket_Poll
  imports Event_Bus
begin

text \<open>
  Waiting for a socket: \<open>poll_notification_fd\<close> (\<open>src/netconf_client_non_blocking.cpp\<close>) and the polling
  helpers of \<open>src/netconf_client_helpers.cpp\<close>. What \<open>poll\<close> and the steady clock (nanoseconds) answer is
  an input, one entry per call; \<open>Blocked\<close> means that the answers run out while the code still waits.
\<close>

definition ns_per_s :: nat where
  "ns_per_s = 1000000000"

section \<open>The notification socket\<close>

datatype poll_result = Eintr | Poll_Failed string | Poll_Timeout | Revents bool bool bool

text \<open>\<open>poll_notification_fd\<close>; the flags of \<open>Revents\<close> are \<open>POLLNVAL\<close>, \<open>POLLERR | POLLHUP\<close> and
  \<open>POLLIN | POLLPRI\<close>.\<close>

fun poll_notification :: "int \<Rightarrow> poll_result list \<Rightarrow> (exn + nat) outcome" where
  "poll_notification fd ps =
     (if fd < 0 then Returns (Inl (Netconf_Exception ''Invalid notification socket while waiting for EOM''))
      else case ps of
        [] \<Rightarrow> Blocked
      | Eintr # ps \<Rightarrow> poll_notification fd ps
      | Poll_Failed m # ps \<Rightarrow> Returns (Inl (Netconf_Exception (''Poll error while waiting for notification EOM: '' @ m)))
      | Poll_Timeout # ps \<Rightarrow> Returns (Inr 0)
      | Revents nval err inn # ps \<Rightarrow>
          if nval then Returns (Inl (Netconf_Exception ''Invalid notification socket while waiting for EOM''))
          else if err then Returns (Inl (Netconf_Exception ''Notification socket closed while waiting for EOM''))
          else if inn then Returns (Inr 1)
          else Returns (Inr 0))"

declare poll_notification.simps [simp del]

section \<open>The RPC socket\<close>

definition MAX_EAGAIN_POLL_SLICE_MS :: int where
  "MAX_EAGAIN_POLL_SLICE_MS = 1000"

text \<open>\<open>libssh2_poll_events\<close>: from the blocked directions (inbound, outbound) to \<open>POLLIN\<close>, \<open>POLLOUT\<close>.\<close>

definition libssh2_poll_events :: "bool \<times> bool \<Rightarrow> bool \<times> bool" where
  "libssh2_poll_events d = (if \<not> fst d \<and> \<not> snd d then (True, True) else d)"

definition remaining_poll_timeout_ms :: "nat \<Rightarrow> int \<Rightarrow> bool \<Rightarrow> int" where
  "remaining_poll_timeout_ms now deadline infinite_wait =
     (if infinite_wait then MAX_EAGAIN_POLL_SLICE_MS
      else if int now \<ge> deadline then 0
      else let remaining_ms = (deadline - int now) div 1000000 in
        if remaining_ms \<le> 0 then 0 else min remaining_ms MAX_EAGAIN_POLL_SLICE_MS)"

definition read_timeout_message :: "int \<Rightarrow> string" where
  "read_timeout_message read_timeout =
     ''Device failed to send data within '' @ show_nat (nat read_timeout) @ ''s, try increasing read_timeout''"

text \<open>\<open>wait_for_libssh2_socket\<close>; an answer is the clock read before the poll, and the poll's.\<close>

fun wait_for_libssh2_socket ::
  "int \<Rightarrow> int \<Rightarrow> bool \<Rightarrow> int \<Rightarrow> (nat \<times> poll_result) list \<Rightarrow> (exn + unit) outcome" where
  "wait_for_libssh2_socket soc_fd deadline infinite_wait read_timeout ws =
     (if soc_fd < 0 then Returns (Inl (Netconf_Exception ''Invalid socket while waiting for channel readiness''))
      else case ws of
        [] \<Rightarrow> Blocked
      | (now, r) # ws \<Rightarrow>
          if \<not> infinite_wait \<and> remaining_poll_timeout_ms now deadline infinite_wait \<le> 0
          then Returns (Inl (Netconf_Exception (read_timeout_message read_timeout)))
          else case r of
              Eintr \<Rightarrow> wait_for_libssh2_socket soc_fd deadline infinite_wait read_timeout ws
            | Poll_Failed m \<Rightarrow>
                Returns (Inl (Netconf_Exception (''Poll error while waiting for channel readiness: '' @ m)))
            | Poll_Timeout \<Rightarrow> Returns (Inr ())
            | Revents nval err ready \<Rightarrow>
                if nval then Returns (Inl (Netconf_Exception ''Invalid socket while waiting for channel readiness''))
                else if err
                then Returns (Inl (Netconf_Exception ''Socket closed or errored while waiting for channel readiness''))
                else Returns (Inr ()))"

declare wait_for_libssh2_socket.simps [simp del]

lemma poll_slice_bounds:
  "remaining_poll_timeout_ms now deadline infinite_wait \<le> 1000"
  "infinite_wait \<or> int now + 1000000 \<le> deadline \<Longrightarrow> 1 \<le> remaining_poll_timeout_ms now deadline infinite_wait"
  by (auto simp: remaining_poll_timeout_ms_def MAX_EAGAIN_POLL_SLICE_MS_def Let_def)

end
