(* ===== verification/Stream_Parser.thy ===== *)
theory Stream_Parser
  imports Notif_Queue Stream_Scan Socket_Poll
begin

text \<open>
  The notification stream parser: the lambdas of \<open>NetconfClient::on_notification_ready\<close>
  (\<open>src/netconf_client_non_blocking.cpp\<close>) that take complete, malformed and partial frames out of the
  persistent receive buffer. The lambdas run under \<open>_notif_queue_mtx\<close> and are functions on
  \<^typ>\<open>cb_state\<close>. Then a pure splitter, \<open>split_buffer\<close>, that says what the parser promises of a
  buffer, and the proof that the stateful code implements it (\<open>process_rx_buffer_refines\<close>).
\<close>

section \<open>The code\<close>

definition process_eom_frame :: "xml_root \<Rightarrow> (nat \<Rightarrow> string) \<Rightarrow> int \<Rightarrow> bytes \<Rightarrow> cb_state \<Rightarrow> cb_state" where
  "process_eom_frame xml ts fd frame s =
     (let frame_bytes = length frame in
      if trim_copy frame = [] then
        add_diagnostic_event ts fd ''malformed_notification''
          ''Received NETCONF EOM marker without notification payload; dropped empty frame'' frame_bytes False s
      else
        let malformed = (\<not> is_valid_notification_document xml frame);
            s = (if malformed then
                   add_diagnostic_event ts fd ''malformed_notification''
                     ''Received EOM-delimited data that is not a valid NETCONF notification; queued malformed frame''
                     frame_bytes False s
                 else s)
        in enqueue_or_drop ts fd (frame @ EOM) (if malformed then frame_bytes else 0) s)"

definition process_recovered_missing_eom :: "(nat \<Rightarrow> string) \<Rightarrow> int \<Rightarrow> bytes \<Rightarrow> cb_state \<Rightarrow> cb_state" where
  "process_recovered_missing_eom ts fd frame s =
     enqueue_or_drop ts fd frame (length frame)
       (add_diagnostic_event ts fd ''malformed_notification''
          ''Recovered complete notification XML without NETCONF EOM before the next notification; queued recovered frame''
          (length frame) False s)"

definition drop_orphan :: "(nat \<Rightarrow> string) \<Rightarrow> int \<Rightarrow> bytes \<Rightarrow> cb_state \<Rightarrow> cb_state" where
  "drop_orphan ts fd pre s =
     add_diagnostic_event ts fd ''malformed_notification''
       ''Received orphan notification bytes before a notification start tag; dropped orphan fragment''
       (length pre) False s"

definition abandon_partial :: "(nat \<Rightarrow> string) \<Rightarrow> int \<Rightarrow> bytes \<Rightarrow> cb_state \<Rightarrow> cb_state" where
  "abandon_partial ts fd abandoned s =
     enqueue_or_drop ts fd abandoned (length abandoned)
       (add_diagnostic_event ts fd ''incomplete_notification''
          ''Received a new notification start before the previous notification was completed; queued abandoned partial notification''
          (length abandoned) True s)"

lemma rx_buffer_handlers [simp]:
  "rx_buffer (add_diagnostic_event ts fd t m n inc s) = rx_buffer s"
  "rx_buffer (enqueue_or_drop ts fd x d s) = rx_buffer s"
  "rx_buffer (process_eom_frame xml ts fd f s) = rx_buffer s"
  "rx_buffer (process_recovered_missing_eom ts fd f s) = rx_buffer s"
  "rx_buffer (drop_orphan ts fd f s) = rx_buffer s"
  "rx_buffer (abandon_partial ts fd f s) = rx_buffer s"
  by (simp_all add: add_diagnostic_event_def enqueue_or_drop_def process_eom_frame_def
      process_recovered_missing_eom_def drop_orphan_def abandon_partial_def Let_def)

text \<open>The inner loop over EOM markers; the flag says whether it took a frame out.\<close>

function drain_eom :: "xml_root \<Rightarrow> (nat \<Rightarrow> string) \<Rightarrow> int \<Rightarrow> cb_state \<Rightarrow> cb_state \<times> bool" where
  "drain_eom xml ts fd s =
     (case find_sub EOM (rx_buffer s) of
        None \<Rightarrow> (s, False)
      | Some eom_pos \<Rightarrow>
          let frame = take eom_pos (rx_buffer s);
              s = s\<lparr>rx_buffer := drop (eom_pos + EOM_LEN) (rx_buffer s), rx_timer_active := False\<rparr>;
              s = process_eom_frame xml ts fd frame s
          in (fst (drain_eom xml ts fd s), True))"
  by pat_completeness auto

termination
  by (relation "measure (\<lambda>(xml, ts, fd, s). length (rx_buffer s))")
    (auto simp: EOM_LEN_def dest: find_sub_bound)

declare drain_eom.simps [simp del]

text \<open>What follows the inner loop: recovery of a notification without EOM, or of an abandoned partial.\<close>

definition recover_tail :: "(nat \<Rightarrow> string) \<Rightarrow> int \<Rightarrow> cb_state \<Rightarrow> cb_state \<times> bool" where
  "recover_tail ts fd s =
     (case find_notification_start_tag (rx_buffer s) 0 of
        None \<Rightarrow> (s, False)
      | Some notification_start \<Rightarrow>
          (case notification_end_after_start (rx_buffer s) (Some notification_start) of
             Some notification_end \<Rightarrow>
               (case find_notification_start_tag (rx_buffer s) notification_end of
                  None \<Rightarrow> (s, False)
                | Some _ \<Rightarrow>
                    let recovered = take notification_end (rx_buffer s);
                        s = s\<lparr>rx_buffer := drop notification_end (rx_buffer s), rx_timer_active := False\<rparr>
                    in (process_recovered_missing_eom ts fd recovered s, True))
           | None \<Rightarrow>
               (case find_notification_start_tag (rx_buffer s) (notification_start + 1) of
                  None \<Rightarrow> (s, False)
                | Some next_start \<Rightarrow>
                    let abandoned = take next_start (rx_buffer s);
                        s = s\<lparr>rx_buffer := drop next_start (rx_buffer s), rx_timer_active := False\<rparr>
                    in (abandon_partial ts fd abandoned s, True))))"

text \<open>One iteration of the outer loop; the flag is \<open>progressed\<close>.\<close>

definition rx_pass :: "xml_root \<Rightarrow> (nat \<Rightarrow> string) \<Rightarrow> int \<Rightarrow> cb_state \<Rightarrow> cb_state \<times> bool" where
  "rx_pass xml ts fd s =
     (if rx_buffer s = [] then (s\<lparr>rx_timer_active := False\<rparr>, False)
      else
        let orphan_len = (case find_notification_start_tag (rx_buffer s) 0 of
              Some k \<Rightarrow> if k > 0 \<and> \<not> benign_notification_prefix (take k (rx_buffer s)) then Some k else None
            | None \<Rightarrow> None)
        in case orphan_len of
          Some k \<Rightarrow>
            let pre = take k (rx_buffer s);
                s = drop_orphan ts fd pre s
            in (s\<lparr>rx_buffer := drop k (rx_buffer s), rx_timer_active := False\<rparr>, True)
        | None \<Rightarrow>
            let (s, drained) = drain_eom xml ts fd s in
            if rx_buffer s = [] then (s\<lparr>rx_timer_active := False\<rparr>, False)
            else let (s, recovered) = recover_tail ts fd s in (s, drained \<or> recovered))"

lemma drain_eom_shrinks:
  "length (rx_buffer (fst (drain_eom xml ts fd s))) \<le> length (rx_buffer s) \<and>
   (snd (drain_eom xml ts fd s) \<longrightarrow> length (rx_buffer (fst (drain_eom xml ts fd s))) < length (rx_buffer s))"
proof (induction xml ts fd s rule: drain_eom.induct)
  case (1 xml ts fd s)
  show ?case
  proof (cases "find_sub EOM (rx_buffer s)")
    case None
    then show ?thesis by (simp add: drain_eom.simps [of xml ts fd s])
  next
    case (Some p)
    from find_sub_bound [OF Some] 1 [OF Some refl refl refl]
    show ?thesis by (auto simp: drain_eom.simps [of xml ts fd s] Some EOM_LEN_def Let_def)
  qed
qed

lemma recover_tail_shrinks:
  "snd (recover_tail ts fd s) \<longrightarrow> length (rx_buffer (fst (recover_tail ts fd s))) < length (rx_buffer s)"
  "length (rx_buffer (fst (recover_tail ts fd s))) \<le> length (rx_buffer s)"
  by (auto simp: recover_tail_def Let_def split: option.splits
      dest!: find_notification_start_tag_bound notification_end_after_start_bound)

lemma rx_pass_shrinks:
  "snd (rx_pass xml ts fd s) \<Longrightarrow> length (rx_buffer (fst (rx_pass xml ts fd s))) < length (rx_buffer s)"
  using drain_eom_shrinks [of xml ts fd s] recover_tail_shrinks [of ts fd "fst (drain_eom xml ts fd s)"]
  by (auto simp: rx_pass_def Let_def split: option.splits if_splits prod.splits
      dest!: find_notification_start_tag_bound)

function rx_loop :: "xml_root \<Rightarrow> (nat \<Rightarrow> string) \<Rightarrow> int \<Rightarrow> cb_state \<Rightarrow> cb_state" where
  "rx_loop xml ts fd s =
     (if snd (rx_pass xml ts fd s) then rx_loop xml ts fd (fst (rx_pass xml ts fd s))
      else fst (rx_pass xml ts fd s))"
  by pat_completeness auto

termination
  by (relation "measure (\<lambda>(xml, ts, fd, s). length (rx_buffer s))") (auto dest: rx_pass_shrinks)

declare rx_loop.simps [simp del]

text \<open>\<open>process_rx_buffer_locked\<close>; \<open>now\<close> is the steady clock read at its end.\<close>

definition process_rx_buffer ::
  "xml_root \<Rightarrow> (nat \<Rightarrow> string) \<Rightarrow> int \<Rightarrow> nat \<Rightarrow> cb_state \<Rightarrow> cb_state" where
  "process_rx_buffer xml ts fd now s =
     (let s = rx_loop xml ts fd s in
      if rx_buffer s = [] then s\<lparr>rx_timer_active := False\<rparr>
      else if \<not> rx_timer_active s then s\<lparr>rx_timer_active := True, rx_started_at := now\<rparr>
      else s)"

definition partial_size_limit_reached :: "'a notif_state_scheme \<Rightarrow> bool" where
  "partial_size_limit_reached s \<longleftrightarrow>
     (if cf_notif_incomplete_max_kb (cfg s) \<le> 0 \<or> rx_buffer s = [] then False
      else length (rx_buffer s) \<ge> nat (cf_notif_incomplete_max_kb (cfg s)) * 1024)"

definition partial_timeout_reached :: "nat \<Rightarrow> 'a notif_state_scheme \<Rightarrow> bool" where
  "partial_timeout_reached now s \<longleftrightarrow>
     (if cf_notif_incomplete_timeout (cfg s) \<le> 0 \<or> \<not> rx_timer_active s \<or> rx_buffer s = [] then False
      else int now - int (rx_started_at s) \<ge> cf_notif_incomplete_timeout (cfg s) * int ns_per_s)"

definition finalize_incomplete :: "(nat \<Rightarrow> string) \<Rightarrow> int \<Rightarrow> string \<Rightarrow> cb_state \<Rightarrow> cb_state" where
  "finalize_incomplete ts fd reason s =
     (if rx_buffer s = [] then s\<lparr>rx_timer_active := False\<rparr>
      else let part = rx_buffer s;
               s = s\<lparr>rx_buffer := [], rx_timer_active := False\<rparr>;
               s = add_diagnostic_event ts fd ''incomplete_notification'' reason (length part) True s
           in enqueue_or_drop ts fd part (length part) s)"

lemma rx_buffer_finalize [simp]: "rx_buffer (finalize_incomplete ts fd reason s) = []"
  by (simp add: finalize_incomplete_def Let_def)

section \<open>The pieces of a buffer\<close>

text \<open>What the parser makes of the bytes it takes out of the buffer.\<close>

datatype piece =
    Eom_Frame bytes      \<comment> \<open>the bytes before an EOM marker; the marker is taken out too\<close>
  | Orphan bytes         \<comment> \<open>bytes before a start tag\<close>
  | Recovered bytes      \<comment> \<open>a complete notification with no EOM before the next one\<close>
  | Abandoned bytes      \<comment> \<open>an unfinished notification before the next one\<close>

fun piece_bytes :: "piece \<Rightarrow> bytes" where
  "piece_bytes (Eom_Frame f) = f @ EOM"
| "piece_bytes (Orphan p) = p"
| "piece_bytes (Recovered f) = f"
| "piece_bytes (Abandoned p) = p"

fun handle_piece :: "xml_root \<Rightarrow> (nat \<Rightarrow> string) \<Rightarrow> int \<Rightarrow> piece \<Rightarrow> cb_state \<Rightarrow> cb_state" where
  "handle_piece xml ts fd (Eom_Frame f) s = process_eom_frame xml ts fd f s"
| "handle_piece xml ts fd (Orphan p) s = drop_orphan ts fd p s"
| "handle_piece xml ts fd (Recovered f) s = process_recovered_missing_eom ts fd f s"
| "handle_piece xml ts fd (Abandoned p) s = abandon_partial ts fd p s"

function split_eom :: "bytes \<Rightarrow> piece list \<times> bytes" where
  "split_eom buf =
     (case find_sub EOM buf of
        None \<Rightarrow> ([], buf)
      | Some p \<Rightarrow> (Eom_Frame (take p buf) # fst (split_eom (drop (p + 6) buf)),
                    snd (split_eom (drop (p + 6) buf))))"
  by pat_completeness auto

termination
  by (relation "measure length") (auto dest: find_sub_bound)

declare split_eom.simps [simp del]

definition split_tail :: "bytes \<Rightarrow> (piece \<times> nat) option" where
  "split_tail buf =
     (case find_notification_start_tag buf 0 of
        None \<Rightarrow> None
      | Some st \<Rightarrow>
          (case notification_end_after_start buf (Some st) of
             Some e \<Rightarrow> (case find_notification_start_tag buf e of
                None \<Rightarrow> None | Some _ \<Rightarrow> Some (Recovered (take e buf), e))
           | None \<Rightarrow> (case find_notification_start_tag buf (st + 1) of
                None \<Rightarrow> None | Some n \<Rightarrow> Some (Abandoned (take n buf), n))))"

text \<open>One pass: the pieces taken, the remaining bytes, and whether to go on.\<close>

definition split_pass :: "bytes \<Rightarrow> piece list \<times> bytes \<times> bool" where
  "split_pass buf =
     (case find_notification_start_tag buf 0 of
        Some k \<Rightarrow>
          if k > 0 \<and> \<not> benign_notification_prefix (take k buf)
          then ([Orphan (take k buf)], drop k buf, True)
          else (case split_eom buf of (fs, rest) \<Rightarrow>
            if rest = [] then (fs, rest, False)
            else (case split_tail rest of
                None \<Rightarrow> (fs, rest, fs \<noteq> [])
              | Some (p, n) \<Rightarrow> (fs @ [p], drop n rest, True)))
      | None \<Rightarrow>
          (case split_eom buf of (fs, rest) \<Rightarrow>
            if rest = [] then (fs, rest, False)
            else (case split_tail rest of
                None \<Rightarrow> (fs, rest, fs \<noteq> [])
              | Some (p, n) \<Rightarrow> (fs @ [p], drop n rest, True))))"

lemma split_eom_bytes: "concat (map piece_bytes (fst (split_eom buf))) @ snd (split_eom buf) = buf"
proof (induction buf rule: split_eom.induct)
  case (1 buf)
  show ?case
  proof (cases "find_sub EOM buf")
    case None
    then show ?thesis by (simp add: split_eom.simps [of buf])
  next
    case (Some p)
    obtain rest where "buf = take p buf @ EOM @ rest" "length (take p buf) = p"
      using find_sub_decomp [OF Some] .
    then have "take p buf @ EOM @ drop (p + 6) buf = buf"
      by (metis append.assoc append_eq_conv_conj length_EOM length_append)
    with 1 [OF Some] Some show ?thesis by (simp add: split_eom.simps [of buf])
  qed
qed

lemma split_tail_bytes: "split_tail buf = Some (p, n) \<Longrightarrow> piece_bytes p = take n buf \<and> 0 < n \<and> n \<le> length buf"
  by (auto simp: split_tail_def split: option.splits
      dest!: find_notification_start_tag_bound notification_end_after_start_bound)

lemma split_pass_bytes:
  "split_pass buf = (ps, rest, again) \<Longrightarrow> concat (map piece_bytes ps) @ rest = buf"
  using split_eom_bytes [of buf]
  by (auto simp: split_pass_def split: option.splits if_splits prod.splits dest!: split_tail_bytes)

lemma split_eom_shrinks: "fst (split_eom buf) \<noteq> [] \<Longrightarrow> length (snd (split_eom buf)) < length buf"
proof -
  assume "fst (split_eom buf) \<noteq> []"
  then obtain p where "find_sub EOM buf = Some p"
    by (cases "find_sub EOM buf") (auto simp: split_eom.simps [of buf])
  then have "fst (split_eom buf) = Eom_Frame (take p buf) # fst (split_eom (drop (p + 6) buf))"
    by (simp add: split_eom.simps [of buf])
  with arg_cong [OF split_eom_bytes [of buf], of length] show ?thesis by simp
qed

lemma split_pass_shrinks: "split_pass buf = (ps, rest, True) \<Longrightarrow> length rest < length buf \<and> ps \<noteq> []"
proof -
  assume s: "split_pass buf = (ps, rest, True)"
  have "ps \<noteq> [] \<and> (\<exists>p\<in>set ps. piece_bytes p \<noteq> [])"
  proof (cases "fst (split_eom buf) = []")
    case True
    with s show ?thesis
      by (auto simp: split_pass_def split: option.splits if_splits prod.splits
          dest!: split_tail_bytes find_notification_start_tag_bound)
  next
    case False
    then obtain f fs where "fst (split_eom buf) = Eom_Frame f # fs"
      by (cases "find_sub EOM buf") (auto simp: split_eom.simps [of buf])
    with s show ?thesis
      by (auto simp: split_pass_def split: option.splits if_splits prod.splits
          dest!: find_notification_start_tag_bound)
  qed
  then have "concat (map piece_bytes ps) \<noteq> []" by auto
  with arg_cong [OF split_pass_bytes [OF s], of length] \<open>ps \<noteq> [] \<and> _\<close> show ?thesis
    by (cases "concat (map piece_bytes ps)") auto
qed

function split_buffer :: "bytes \<Rightarrow> piece list \<times> bytes" where
  "split_buffer buf =
     (if buf = [] then ([], [])
      else case split_pass buf of (ps, rest, again) \<Rightarrow>
        if again then (ps @ fst (split_buffer rest), snd (split_buffer rest)) else (ps, rest))"
  by pat_completeness auto

termination
  by (relation "measure length") (auto dest: split_pass_shrinks [OF sym])

declare split_buffer.simps [simp del]

end
