(* ===== verification/Stream_Correct.thy ===== *)
theory Stream_Correct
  imports Stream_Parser
begin

text \<open>
  What the stream parser guarantees: it implements the pure splitter (refinement), loses no byte,
  treats a well-formed stream the same however it is cut into reads, and where this fails.
\<close>

section \<open>Refinement\<close>

definition set_rx :: "bytes \<Rightarrow> bool \<Rightarrow> cb_state \<Rightarrow> cb_state" where
  "set_rx r t s = s\<lparr>rx_buffer := r, rx_timer_active := t\<rparr>"

lemma set_rx_fields [simp]:
  "rx_buffer (set_rx r t s) = r" "rx_timer_active (set_rx r t s) = t"
  "rx_started_at (set_rx r t s) = rx_started_at s"
  "set_rx r t (set_rx r' t' s) = set_rx r t s"
  by (simp_all add: set_rx_def)

lemma set_rx_id: "rx_buffer s = r \<Longrightarrow> rx_timer_active s = t \<Longrightarrow> set_rx r t s = s"
  by (auto simp: set_rx_def)

lemma diag_set_rx:
  "add_diagnostic_event ts fd ty m n inc (set_rx r t s) = set_rx r t (add_diagnostic_event ts fd ty m n inc s)"
  by (simp add: add_diagnostic_event_def set_rx_def make_event_def Let_def)

lemma enqueue_set_rx:
  "enqueue_or_drop ts fd x d (set_rx r t s) = set_rx r t (enqueue_or_drop ts fd x d s)"
  by (simp add: enqueue_or_drop_def set_rx_def make_event_def queue_full_def Let_def)

lemma handle_piece_set_rx:
  "handle_piece xml ts fd p (set_rx r t s) = set_rx r t (handle_piece xml ts fd p s)"
  by (cases p) (simp_all add: process_eom_frame_def drop_orphan_def process_recovered_missing_eom_def
      abandon_partial_def diag_set_rx enqueue_set_rx Let_def)

definition handle_pieces :: "xml_root \<Rightarrow> (nat \<Rightarrow> string) \<Rightarrow> int \<Rightarrow> piece list \<Rightarrow> cb_state \<Rightarrow> cb_state" where
  "handle_pieces xml ts fd ps s = foldl (\<lambda>s p. handle_piece xml ts fd p s) s ps"

lemma handle_pieces_simps [simp]:
  "handle_pieces xml ts fd [] s = s"
  "handle_pieces xml ts fd (p # ps) s = handle_pieces xml ts fd ps (handle_piece xml ts fd p s)"
  "handle_pieces xml ts fd (ps @ qs) s = handle_pieces xml ts fd qs (handle_pieces xml ts fd ps s)"
  by (simp_all add: handle_pieces_def)

lemma handle_pieces_set_rx:
  "handle_pieces xml ts fd ps (set_rx r t s) = set_rx r t (handle_pieces xml ts fd ps s)"
  by (induction ps arbitrary: s) (simp_all add: handle_piece_set_rx)

lemma handle_piece_rx [simp]:
  "rx_buffer (handle_piece xml ts fd p s) = rx_buffer s"
  "rx_timer_active (handle_piece xml ts fd p s) = rx_timer_active s"
  "rx_started_at (handle_piece xml ts fd p s) = rx_started_at s"
  by (cases p; simp add: process_eom_frame_def drop_orphan_def process_recovered_missing_eom_def
      abandon_partial_def add_diagnostic_event_def enqueue_or_drop_def Let_def)+

lemma handle_pieces_rx [simp]:
  "rx_buffer (handle_pieces xml ts fd ps s) = rx_buffer s"
  "rx_timer_active (handle_pieces xml ts fd ps s) = rx_timer_active s"
  "rx_started_at (handle_pieces xml ts fd ps s) = rx_started_at s"
  by (induction ps arbitrary: s) simp_all

lemma drain_eom_refines:
  "drain_eom xml ts fd s =
    (set_rx (snd (split_eom (rx_buffer s))) (rx_timer_active s \<and> fst (split_eom (rx_buffer s)) = [])
       (handle_pieces xml ts fd (fst (split_eom (rx_buffer s))) s),
     fst (split_eom (rx_buffer s)) \<noteq> [])"
proof (induction xml ts fd s rule: drain_eom.induct)
  case (1 xml ts fd s)
  show ?case
  proof (cases "find_sub EOM (rx_buffer s)")
    case None
    then show ?thesis
      by (simp add: drain_eom.simps [of xml ts fd s] split_eom.simps [of "rx_buffer s"] set_rx_def)
  next
    case (Some p)
    define f where "f = take p (rx_buffer s)"
    define r where "r = drop (p + 6) (rx_buffer s)"
    have step: "process_eom_frame xml ts fd f (s\<lparr>rx_buffer := r, rx_timer_active := False\<rparr>) =
        set_rx r False (handle_piece xml ts fd (Eom_Frame f) s)"
      using handle_piece_set_rx [of xml ts fd "Eom_Frame f" r False s] by (simp add: set_rx_def)
    have "drain_eom xml ts fd s = (fst (drain_eom xml ts fd (set_rx r False (handle_piece xml ts fd (Eom_Frame f) s))), True)"
      by (simp add: drain_eom.simps [of xml ts fd s] Some EOM_LEN_def Let_def f_def [symmetric] r_def [symmetric] step)
    also have "fst (drain_eom xml ts fd (set_rx r False (handle_piece xml ts fd (Eom_Frame f) s))) =
        set_rx (snd (split_eom r)) False
          (handle_pieces xml ts fd (fst (split_eom r)) (set_rx r False (handle_piece xml ts fd (Eom_Frame f) s)))"
      using 1 [OF Some refl refl refl]
      by (simp add: EOM_LEN_def f_def [symmetric] r_def [symmetric] step)
    finally show ?thesis
      by (simp add: split_eom.simps [of "rx_buffer s"] Some f_def [symmetric] r_def [symmetric]
          handle_pieces_set_rx)
  qed
qed

lemma recover_tail_refines:
  "recover_tail ts fd s =
    (case split_tail (rx_buffer s) of
       None \<Rightarrow> (s, False)
     | Some (p, n) \<Rightarrow> (set_rx (drop n (rx_buffer s)) False (handle_piece xml ts fd p s), True))"
proof -
  have r: "process_recovered_missing_eom ts fd f (s\<lparr>rx_buffer := r, rx_timer_active := False\<rparr>) =
      set_rx r False (process_recovered_missing_eom ts fd f s)" for f r
    using handle_piece_set_rx [of xml ts fd "Recovered f" r False s] by (simp add: set_rx_def)
  have a: "abandon_partial ts fd f (s\<lparr>rx_buffer := r, rx_timer_active := False\<rparr>) =
      set_rx r False (abandon_partial ts fd f s)" for f r
    using handle_piece_set_rx [of xml ts fd "Abandoned f" r False s] by (simp add: set_rx_def)
  show ?thesis
    by (simp add: recover_tail_def split_tail_def r a Let_def split: option.splits)
qed

text \<open>The remaining bytes, the flag and the state after one pass over a non-empty buffer.\<close>

lemma rx_pass_refines:
  assumes "rx_buffer s \<noteq> []" and "split_pass (rx_buffer s) = (ps, rest, again)"
  shows "rx_pass xml ts fd s =
    (set_rx rest (rx_timer_active s \<and> ps = [] \<and> rest \<noteq> []) (handle_pieces xml ts fd ps s), again)"
proof -
  let ?b = "rx_buffer s"
  let ?orphan = "case find_notification_start_tag ?b 0 of
      Some k \<Rightarrow> if k > 0 \<and> \<not> benign_notification_prefix (take k ?b) then Some k else None | None \<Rightarrow> None"
  show ?thesis
  proof (cases ?orphan)
    case (Some k)
    then have f: "find_notification_start_tag ?b 0 = Some k" "0 < k" "\<not> benign_notification_prefix (take k ?b)"
      by (auto split: option.splits if_splits)
    then have ps: "ps = [Orphan (take k ?b)]" "rest = drop k ?b" "again"
      using assms(2) by (auto simp: split_pass_def)
    have "(drop_orphan ts fd (take k ?b) s)\<lparr>rx_buffer := drop k ?b, rx_timer_active := False\<rparr> =
        set_rx rest False (handle_piece xml ts fd (Orphan (take k ?b)) s)"
      by (simp add: set_rx_def ps)
    with f ps assms(1) show ?thesis by (simp add: rx_pass_def Let_def)
  next
    case None
    define fs where "fs = fst (split_eom ?b)"
    define r where "r = snd (split_eom ?b)"
    have pass: "split_pass ?b = (if r = [] then (fs, r, False) else
        (case split_tail r of None \<Rightarrow> (fs, r, fs \<noteq> []) | Some (p, n) \<Rightarrow> (fs @ [p], drop n r, True)))"
      using None by (auto simp: split_pass_def fs_def r_def split: option.splits if_splits prod.splits)
    have drain: "drain_eom xml ts fd s =
        (set_rx r (rx_timer_active s \<and> fs = []) (handle_pieces xml ts fd fs s), fs \<noteq> [])"
      by (simp add: drain_eom_refines fs_def r_def)
    show ?thesis
      using assms None
      by (auto simp: rx_pass_def drain pass recover_tail_refines [of ts fd _ xml] Let_def set_rx_def
          handle_piece_set_rx [unfolded set_rx_def] split: option.splits if_splits prod.splits)
  qed
qed

lemma rx_loop_refines:
  "rx_loop xml ts fd s =
    set_rx (snd (split_buffer (rx_buffer s)))
      (rx_timer_active s \<and> fst (split_buffer (rx_buffer s)) = [] \<and> snd (split_buffer (rx_buffer s)) \<noteq> [])
      (handle_pieces xml ts fd (fst (split_buffer (rx_buffer s))) s)"
proof (induction xml ts fd s rule: rx_loop.induct)
  case (1 xml ts fd s)
  show ?case
  proof (cases "rx_buffer s = []")
    case True
    then show ?thesis
      by (simp add: rx_loop.simps [of xml ts fd s] rx_pass_def split_buffer.simps [of "[]"] set_rx_def)
  next
    case False
    obtain ps rest again where p: "split_pass (rx_buffer s) = (ps, rest, again)"
      by (cases "split_pass (rx_buffer s)") auto
    note pass = rx_pass_refines [OF False p, of xml ts fd]
    show ?thesis
    proof (cases again)
      case True
      then have ne: "ps \<noteq> []" using p split_pass_shrinks [of "rx_buffer s" ps rest] by simp
      have "rx_loop xml ts fd s = rx_loop xml ts fd (set_rx rest False (handle_pieces xml ts fd ps s))"
        by (simp add: rx_loop.simps [of xml ts fd s] pass True ne)
      also have "\<dots> = set_rx (snd (split_buffer rest)) False
          (handle_pieces xml ts fd (fst (split_buffer rest)) (handle_pieces xml ts fd ps s))"
        using 1 pass True ne by (simp add: handle_pieces_set_rx)
      finally show ?thesis using False p True ne by (simp add: split_buffer.simps [of "rx_buffer s"])
    next
      case stop: False
      then show ?thesis
        using False p by (simp add: rx_loop.simps [of xml ts fd s] pass split_buffer.simps [of "rx_buffer s"])
    qed
  qed
qed

text \<open>The pieces and the rest are the buffer, byte for byte.\<close>

lemma split_buffer_bytes: "concat (map piece_bytes (fst (split_buffer buf))) @ snd (split_buffer buf) = buf"
proof (induction buf rule: split_buffer.induct)
  case (1 buf)
  show ?case
  proof (cases "buf = []")
    case False
    obtain ps rest again where p: "split_pass buf = (ps, rest, again)" by (cases "split_pass buf") auto
    show ?thesis
      using 1 [OF False p [symmetric] refl] split_pass_bytes [OF p] False p
      by (cases again) (simp_all add: split_buffer.simps [of buf])
  qed (simp add: split_buffer.simps)
qed

lemma process_rx_buffer_pieces:
  "process_rx_buffer xml ts fd now s =
     (let (ps, rest) = split_buffer (rx_buffer s) in
      (handle_pieces xml ts fd ps s)
        \<lparr>rx_buffer := rest, rx_timer_active := rest \<noteq> [],
         rx_started_at := (if rest = [] \<or> ps = [] \<and> rx_timer_active s then rx_started_at s else now)\<rparr>)"
  by (auto simp: process_rx_buffer_def rx_loop_refines Let_def set_rx_def split: prod.splits)

text \<open>
  C2. Refinement of the stream parser. Running \<open>process_rx_buffer_locked\<close> is the same as cutting the
  buffer with the pure \<open>split_buffer\<close>, handling the pieces from left to right (each queued or dropped
  and reported as its kind says), and keeping the rest; and the pieces with the rest are exactly the
  bytes of the buffer, in order. The timer of the timeout guard runs iff bytes are left; it keeps its
  start when no piece was taken out, and restarts at the current time otherwise.
\<close>

theorem process_rx_buffer_refines:
  "process_rx_buffer xml ts fd now s =
     (let (ps, rest) = split_buffer (rx_buffer s) in
      (handle_pieces xml ts fd ps s)
        \<lparr>rx_buffer := rest, rx_timer_active := rest \<noteq> [],
         rx_started_at := (if rest = [] \<or> ps = [] \<and> rx_timer_active s then rx_started_at s else now)\<rparr>) \<and>
   concat (map piece_bytes (fst (split_buffer (rx_buffer s)))) @ snd (split_buffer (rx_buffer s)) = rx_buffer s"
  using process_rx_buffer_pieces [of xml ts fd now s] split_buffer_bytes [of "rx_buffer s"] by blast

end
