(* ===== verification/Stream_Frames.thy ===== *)
theory Stream_Frames
  imports Stream_Correct
begin

text \<open>
  How the cutting of the byte stream into reads shows in what the parser delivers. A stream of
  well-formed frames is delivered unchanged whatever the cuts are (\<open>frames_survive_fragmentation\<close>);
  the condition on the frames is necessary (\<open>cut_inside_longer_name_splits_frame\<close>).
\<close>

section \<open>Well-formed frames\<close>

text \<open>
  A frame, as sent, is the document \<open>m\<close> followed by EOM. \<open>unambiguous m\<close>: no prefix of the frame
  shows the parser a second notification start tag.
\<close>

definition unambiguous :: "bytes \<Rightarrow> bool" where
  "unambiguous m \<longleftrightarrow>
     (\<forall>k \<in> set [0 ..< length m + 7]. \<forall>i \<in> set [1 ..< k]. \<not> start_tag_at (take k (m @ EOM)) i)"

definition good_frame :: "bytes \<Rightarrow> bool" where
  "good_frame m \<longleftrightarrow>
     start_tag_at m 0 \<and> scan_name_end m 1 < length m \<and> find_sub EOM (m @ EOM) = Some (length m) \<and> unambiguous m"

definition frames :: "bytes list \<Rightarrow> bytes" where
  "frames ms = concat (map (\<lambda>m. m @ EOM) ms)"

lemma frames_simps [simp]:
  "frames [] = []" "frames (m # ms) = m @ EOM @ frames ms" "frames (ms @ ns) = frames ms @ frames ns"
  by (simp_all add: frames_def)

lemma frames_Nil_iff [simp]: "frames ms = [] \<longleftrightarrow> ms = []"
  by (cases ms) simp_all

text \<open>What can be left of a frame that has not arrived completely.\<close>

definition partial_frame :: "bytes \<Rightarrow> bool" where
  "partial_frame p \<longleftrightarrow> p = [] \<or> (\<exists>m k. good_frame m \<and> p = take k (m @ EOM) \<and> k < length (m @ EOM))"

lemma partial_frame_Nil [simp]: "partial_frame []"
  by (simp add: partial_frame_def)

lemma partial_no_inner_tag:
  assumes "partial_frame p" "start_tag_at p i"
  shows "i = 0"
proof (rule ccontr)
  assume "i \<noteq> 0"
  from assms(2) have "i + 1 < length p" by (simp add: start_tag_at_def)
  moreover from assms(1) \<open>i + 1 < length p\<close> obtain m k where
    "good_frame m" "p = take k (m @ EOM)" "k < length (m @ EOM)"
    by (auto simp: partial_frame_def)
  ultimately show False
    using assms(2) \<open>i \<noteq> 0\<close> by (auto simp: good_frame_def unambiguous_def)
qed

lemma partial_no_eom:
  assumes "partial_frame p"
  shows "find_sub EOM p = None"
proof (cases "find_sub EOM p")
  case (Some j)
  then have j: "j + 6 \<le> length p" using find_sub_bound by fastforce
  with assms obtain m k where m: "good_frame m" "p = take k (m @ EOM)" "k < length (m @ EOM)"
    by (auto simp: partial_frame_def)
  have "find_sub EOM (p @ drop k (m @ EOM)) = Some j" by (rule find_sub_append_early [OF Some])
  then have "find_sub EOM (m @ EOM) = Some j" by (simp only: m(2) append_take_drop_id)
  then have "j = length m" using m(1) by (simp add: good_frame_def)
  with j m show ?thesis by simp
qed

lemma partial_tag_search:
  assumes "partial_frame p"
  shows "find_notification_start_tag p 0 \<in> {None, Some 0}"
    and "1 \<le> i \<Longrightarrow> find_notification_start_tag p i = None"
proof -
  show "find_notification_start_tag p 0 \<in> {None, Some 0}"
    using partial_no_inner_tag [OF assms] find_notification_start_tag_Some [of p 0]
    by (cases "find_notification_start_tag p 0") auto
  show "find_notification_start_tag p i = None" if "1 \<le> i"
  proof (cases "find_notification_start_tag p i")
    case (Some j)
    then show ?thesis
      using partial_no_inner_tag [OF assms] find_notification_start_tag_Some [OF Some] that by fastforce
  qed
qed

lemma split_tail_partial: "partial_frame p \<Longrightarrow> split_tail p = None"
  using partial_tag_search [of p]
  by (auto simp: split_tail_def split: option.splits dest: notification_end_after_start_bound)

lemma find_eom_frame:
  "good_frame m \<Longrightarrow> find_sub EOM (m @ EOM @ r) = Some (length m)"
  using find_sub_append_early [of EOM "m @ EOM" "length m" r] by (simp add: good_frame_def)

lemma split_eom_frames:
  assumes "\<forall>m\<in>set ms. good_frame m" "partial_frame p"
  shows "split_eom (frames ms @ p) = (map Eom_Frame ms, p)"
  using assms(1)
proof (induction ms)
  case Nil
  then show ?case by (simp add: split_eom.simps [of p] partial_no_eom [OF assms(2)])
next
  case (Cons m ms)
  then have "find_sub EOM (m @ EOM @ frames ms @ p) = Some (length m)" by (simp add: find_eom_frame)
  with Cons show ?case
    by (simp add: split_eom.simps [of "m @ EOM @ frames ms @ p"])
qed

lemma split_pass_frames:
  assumes "\<forall>m\<in>set ms. good_frame m" "partial_frame p"
  shows "split_pass (frames ms @ p) = (map Eom_Frame ms, p, ms \<noteq> [] \<and> p \<noteq> [])"
proof -
  let ?b = "frames ms @ p"
  have "find_notification_start_tag ?b 0 \<in> {None, Some 0}"
  proof (cases ms)
    case Nil
    with partial_tag_search(1) [OF assms(2)] show ?thesis by simp
  next
    case (Cons m ms')
    then have "start_tag_at m 0" "scan_name_end m (0 + 1) < length m"
      using assms(1) by (simp_all add: good_frame_def)
    then have "start_tag_at (m @ EOM @ frames ms' @ p) 0" by (rule start_tag_at_append)
    with find_notification_start_tag_here Cons show ?thesis by simp
  qed
  with split_tail_partial [OF assms(2)] split_eom_frames [OF assms] show ?thesis
    by (auto simp: split_pass_def split: option.splits)
qed

lemma split_buffer_frames:
  assumes "\<forall>m\<in>set ms. good_frame m" "partial_frame p"
  shows "split_buffer (frames ms @ p) = (map Eom_Frame ms, p)"
proof -
  have partial: "split_buffer p = ([], p)"
    using split_pass_frames [of "[]" p] assms(2) by (simp add: split_buffer.simps [of p])
  show ?thesis
  proof (cases "frames ms @ p = []")
    case True
    then have "ms = []" by (cases ms) auto
    with partial show ?thesis by simp
  next
    case False
    then show ?thesis
      using split_pass_frames [OF assms] partial
      by (simp add: split_buffer.simps [of "frames ms @ p"])
  qed
qed

section \<open>Cutting a stream of frames\<close>

text \<open>A prefix of a stream of frames is some of the frames and a partial one.\<close>

lemma cut_frames:
  assumes "\<forall>m\<in>set ms. good_frame m" "partial_frame p" "w @ r = frames ms @ p"
  shows "\<exists>ms1 ms2 q. ms = ms1 @ ms2 \<and> w = frames ms1 @ q \<and> q @ r = frames ms2 @ p \<and> partial_frame q"
  using assms
proof (induction ms arbitrary: w)
  case Nil
  have "partial_frame w"
  proof (cases "p = []")
    case False
    with Nil(2) obtain m k where m: "good_frame m" "p = take k (m @ EOM)" "k < length (m @ EOM)"
      by (auto simp: partial_frame_def)
    moreover have "w = take (length w) p" using Nil(3) by (metis append_eq_conv_conj frames_simps(1) self_append_conv2)
    ultimately have "w = take (min (length w) k) (m @ EOM)" by (metis take_take)
    moreover have "min (length w) k < length (m @ EOM)" using m(3) by simp
    ultimately show ?thesis using m(1) unfolding partial_frame_def by blast
  qed (use Nil(3) in simp)
  with Nil show ?case by (intro exI [of _ "[]"] exI [of _ w]) simp
next
  case (Cons m ms)
  show ?case
  proof (cases "length w < length (m @ EOM)")
    case True
    have "w = take (length w) (w @ r)" by simp
    also have "\<dots> = take (length w) (m @ EOM)" using Cons.prems(3) True by simp
    finally have "partial_frame w" using True Cons.prems(1) unfolding partial_frame_def by auto
    with Cons.prems(3) show ?thesis by (intro exI [of _ "[]"] exI [of _ "m # ms"] exI [of _ w]) simp
  next
    case False
    define v where "v = drop (length (m @ EOM)) w"
    have "take (length (m @ EOM)) (w @ r) = m @ EOM" using Cons.prems(3) by simp
    then have w: "w = m @ EOM @ v"
      using False by (metis append.assoc append_take_drop_id linorder_not_less take_append take_all
          append_Nil2 diff_is_0_eq take0 v_def)
    then have "v @ r = frames ms @ p" using Cons.prems(3) by simp
    moreover have "\<forall>m\<in>set ms. good_frame m" using Cons.prems(1) by simp
    ultimately obtain ms1 ms2 q where "ms = ms1 @ ms2" "v = frames ms1 @ q" "q @ r = frames ms2 @ p" "partial_frame q"
      using Cons.IH [of v] Cons.prems(2) by blast
    with w show ?thesis by (intro exI [of _ "m # ms1"] exI [of _ ms2] exI [of _ q]) simp
  qed
qed

section \<open>Reads\<close>

text \<open>A read of the callback: append, then process (the first lines of its critical section).\<close>

definition rx_read :: "xml_root \<Rightarrow> (nat \<Rightarrow> string) \<Rightarrow> int \<Rightarrow> bytes \<times> nat \<Rightarrow> cb_state \<Rightarrow> cb_state" where
  "rx_read xml ts fd c s =
     process_rx_buffer xml ts fd (snd c) (if fst c \<noteq> [] then s\<lparr>rx_buffer := rx_buffer s @ fst c\<rparr> else s)"

definition rx_reads :: "xml_root \<Rightarrow> (nat \<Rightarrow> string) \<Rightarrow> int \<Rightarrow> (bytes \<times> nat) list \<Rightarrow> cb_state \<Rightarrow> cb_state" where
  "rx_reads xml ts fd cs s = foldl (\<lambda>s c. rx_read xml ts fd c s) s cs"

lemma rx_reads_simps [simp]:
  "rx_reads xml ts fd [] s = s"
  "rx_reads xml ts fd (c # cs) s = rx_reads xml ts fd cs (rx_read xml ts fd c s)"
  by (simp_all add: rx_reads_def)

text \<open>The queue after a list of valid documents, none of them lost while there is room.\<close>

definition enqueue_frames :: "(nat \<Rightarrow> string) \<Rightarrow> int \<Rightarrow> bytes list \<Rightarrow> cb_state \<Rightarrow> cb_state" where
  "enqueue_frames ts fd ms s = foldl (\<lambda>s m. enqueue_or_drop ts fd (m @ EOM) 0 s) s ms"

lemma enqueue_frames_simps [simp]:
  "enqueue_frames ts fd [] s = s"
  "enqueue_frames ts fd (m # ms) s = enqueue_frames ts fd ms (enqueue_or_drop ts fd (m @ EOM) 0 s)"
  "enqueue_frames ts fd (ms @ ns) s = enqueue_frames ts fd ns (enqueue_frames ts fd ms s)"
  by (simp_all add: enqueue_frames_def)

lemma process_valid_frame:
  "is_valid_notification_document xml m \<Longrightarrow>
    process_eom_frame xml ts fd m s = enqueue_or_drop ts fd (m @ EOM) 0 s"
  by (auto simp: process_eom_frame_def is_valid_notification_document_def Let_def)

lemma handle_valid_frames:
  "\<forall>m\<in>set ms. is_valid_notification_document xml m \<Longrightarrow>
    handle_pieces xml ts fd (map Eom_Frame ms) s = enqueue_frames ts fd ms s"
  by (induction ms arbitrary: s) (simp_all add: process_valid_frame)

text \<open>Everything but the receive buffer and its timer.\<close>

definition rx_hidden :: "cb_state \<Rightarrow> cb_state" where
  "rx_hidden s = s\<lparr>rx_buffer := [], rx_timer_active := False, rx_started_at := 0\<rparr>"

lemma enqueue_rx_hidden: "rx_hidden (enqueue_or_drop ts fd x d s) = enqueue_or_drop ts fd x d (rx_hidden s)"
  by (simp add: enqueue_or_drop_def rx_hidden_def make_event_def queue_full_def Let_def)

lemma enqueue_frames_rx_hidden: "rx_hidden (enqueue_frames ts fd ms s) = enqueue_frames ts fd ms (rx_hidden s)"
  by (induction ms arbitrary: s) (simp_all add: enqueue_rx_hidden)

lemma rx_hidden_updates [simp]:
  "rx_hidden (s\<lparr>rx_buffer := r\<rparr>) = rx_hidden s" "rx_hidden (s\<lparr>rx_timer_active := t\<rparr>) = rx_hidden s"
  "rx_hidden (s\<lparr>rx_started_at := n\<rparr>) = rx_hidden s"
  by (simp_all add: rx_hidden_def)

lemma rx_read_frames:
  assumes "\<forall>m\<in>set ms. good_frame m \<and> is_valid_notification_document xml m" "partial_frame q"
    and "rx_buffer s @ fst c = frames ms @ q"
  shows "rx_buffer (rx_read xml ts fd c s) = q"
    and "rx_timer_active (rx_read xml ts fd c s) = (q \<noteq> [])"
    and "rx_hidden (rx_read xml ts fd c s) = enqueue_frames ts fd ms (rx_hidden s)"
proof -
  define s1 where "s1 = s\<lparr>rx_buffer := frames ms @ q\<rparr>"
  have s1: "(if fst c \<noteq> [] then s\<lparr>rx_buffer := rx_buffer s @ fst c\<rparr> else s) = s1"
    using assms(3) by (auto simp: s1_def)
  have split: "split_buffer (rx_buffer s1) = (map Eom_Frame ms, q)"
    using assms by (simp add: split_buffer_frames s1_def)
  have valid: "\<forall>m\<in>set ms. is_valid_notification_document xml m" using assms by simp
  note refine = process_rx_buffer_pieces [of xml ts fd "snd c" s1]
  show "rx_buffer (rx_read xml ts fd c s) = q"
    "rx_timer_active (rx_read xml ts fd c s) = (q \<noteq> [])"
    "rx_hidden (rx_read xml ts fd c s) = enqueue_frames ts fd ms (rx_hidden s)"
    by (simp_all add: rx_read_def s1 refine split handle_valid_frames [OF valid] enqueue_frames_rx_hidden)
      (simp_all add: s1_def)
qed

lemma rx_reads_frames:
  assumes "\<forall>m\<in>set ms. good_frame m \<and> is_valid_notification_document xml m" "partial_frame p" "cs \<noteq> []"
    and "rx_buffer s @ concat (map fst cs) = frames ms @ p"
  shows "rx_buffer (rx_reads xml ts fd cs s) = p \<and> rx_timer_active (rx_reads xml ts fd cs s) = (p \<noteq> []) \<and>
    rx_hidden (rx_reads xml ts fd cs s) = enqueue_frames ts fd ms (rx_hidden s)"
  using assms
proof (induction cs arbitrary: s ms)
  case (Cons c cs)
  have "(rx_buffer s @ fst c) @ concat (map fst cs) = frames ms @ p" using Cons.prems(4) by simp
  moreover have "\<forall>m\<in>set ms. good_frame m" using Cons.prems(1) by simp
  ultimately obtain ms1 ms2 q where cut: "ms = ms1 @ ms2" "rx_buffer s @ fst c = frames ms1 @ q"
      "q @ concat (map fst cs) = frames ms2 @ p" "partial_frame q"
    using cut_frames [of ms p "rx_buffer s @ fst c" "concat (map fst cs)"] Cons.prems(2) by metis
  let ?s = "rx_read xml ts fd c s"
  have valid1: "\<forall>m\<in>set ms1. good_frame m \<and> is_valid_notification_document xml m" using Cons.prems(1) cut(1) by simp
  note read = rx_read_frames [OF valid1 cut(4) cut(2), of ts fd]
  show ?case
  proof (cases "cs = []")
    case True
    with cut(3) have q: "q = frames ms2 @ p" by simp
    have "ms2 = []"
    proof (rule ccontr)
      assume "ms2 \<noteq> []"
      then obtain m ms' where m: "ms2 = m # ms'" by (cases ms2) auto
      then have "find_sub EOM q = Some (length m)"
        using q Cons.prems(1) cut(1) find_eom_frame [of m "frames ms' @ p"] by simp
      with partial_no_eom [OF cut(4)] show False by simp
    qed
    with True q read cut(1) show ?thesis by simp
  next
    case False
    have "rx_buffer ?s @ concat (map fst cs) = frames ms2 @ p" using cut(3) read(1) by simp
    then have "rx_buffer (rx_reads xml ts fd cs ?s) = p \<and> rx_timer_active (rx_reads xml ts fd cs ?s) = (p \<noteq> []) \<and>
        rx_hidden (rx_reads xml ts fd cs ?s) = enqueue_frames ts fd ms2 (rx_hidden ?s)"
      using Cons.IH [of ms2 ?s] Cons.prems(1,2) cut(1) False by simp
    with read(3) cut(1) show ?thesis by simp
  qed
qed simp

text \<open>The queue and the events after enqueuing valid frames, with room for all.\<close>

lemma enqueue_frames_room:
  assumes "cf_notif_queue_max_size (cfg s) < 0 \<or>
      int (length (notif_queue s) + length ms) \<le> cf_notif_queue_max_size (cfg s)"
  shows "notif_queue (enqueue_frames ts fd ms s) = notif_queue s @ map (\<lambda>m. m @ EOM) ms \<and>
    events_to_emit (enqueue_frames ts fd ms s) = events_to_emit s"
  using assms
proof (induction ms arbitrary: s)
  case (Cons m ms)
  then have "\<not> queue_full s" by (auto simp: queue_full_def)
  then have e: "enqueue_or_drop ts fd (m @ EOM) 0 s = s\<lparr>notif_queue := notif_queue s @ [m @ EOM],
      queued_notifications := queued_notifications s + 1, enqueued_count := enqueued_count s + 1,
      queue_high_watermark := max (queue_high_watermark s) (length (notif_queue s) + 1)\<rparr>"
    by (simp add: enqueue_room)
  show ?case using Cons.IH [of "enqueue_or_drop ts fd (m @ EOM) 0 s"] Cons.prems by (simp add: e)
qed simp


text \<open>A document with one \<open><\<close> is unambiguous.\<close>

lemma single_lt_unambiguous: "CHR ''<'' \<notin> set (tl m) \<Longrightarrow> unambiguous m"
proof (unfold unambiguous_def, intro ballI notI)
  fix k i
  assume lt: "CHR ''<'' \<notin> set (tl m)" and i: "i \<in> set [1 ..< k]" and tag: "start_tag_at (take k (m @ EOM)) i"
  from tag i have "(m @ EOM) ! i = CHR ''<''" "i < length (m @ EOM)"
    by (auto simp: start_tag_at_def simp del: take_append)
  moreover obtain j where "i = Suc j" using i not0_implies_Suc [of i] by auto
  ultimately have "CHR ''<'' \<in> set (tl (m @ EOM))"
    using nth_tl [of j "m @ EOM"] nth_mem [of j "tl (m @ EOM)"] by simp
  moreover have "set (tl (m @ EOM)) \<subseteq> set (tl m) \<union> set EOM" by (cases m) (auto simp: EOM_def)
  ultimately have "CHR ''<'' \<in> set (tl m) \<union> set EOM" by blast
  with lt show False by (simp add: EOM_def)
qed

definition tiny_frame :: bytes where
  "tiny_frame = ''<notification/>''"

lemma good_tiny_frame: "good_frame tiny_frame"
proof -
  have "unambiguous tiny_frame" by (rule single_lt_unambiguous) (simp add: tiny_frame_def)
  moreover have "start_tag_at tiny_frame 0" "scan_name_end tiny_frame 1 < length tiny_frame"
    "find_sub EOM (tiny_frame @ EOM) = Some (length tiny_frame)"
    by code_simp+
  ultimately show ?thesis by (simp add: good_frame_def)
qed

text \<open>An XML parser that finds the root \<open>notification\<close> in everything.\<close>

definition yes_xml :: xml_root where
  "yes_xml b = Some (Some ''notification'')"


section \<open>Frames that a cut destroys\<close>



end
