(* ===== verification/Queue_Correct.thy ===== *)
theory Queue_Correct
  imports Notif_Queue
begin

text \<open>
  What the per-client notification queue promises over a whole history of arrivals, reads, clears and
  subscriptions: order and accounting of the notifications, and the truth of the health events it
  emits. The queue is the second provider of the contract \<open>bounded_fifo\<close>.
\<close>

section \<open>Histories\<close>

text \<open>What a successful \<open>subscribe_non_blocking\<close> leaves in the notification members.\<close>

definition subscribed :: "int \<Rightarrow> notif_state \<Rightarrow> notif_state" where
  "subscribed fd s = s\<lparr>notif_channel := True, notif_session := True, notif_socket := fd,
     rx_buffer := [], rx_timer_active := False, notif_is_connected := True, notif_is_blocking := False\<rparr>"

text \<open>One arrival: a critical section of the callback that enqueues one notification.\<close>

definition arrive :: "string \<Rightarrow> int \<Rightarrow> bytes \<Rightarrow> nat \<Rightarrow> notif_state \<Rightarrow> health_event list \<times> notif_state" where
  "arrive ts fd x d s =
     (let c = enqueue_or_drop (\<lambda>_. ts) fd x d (begin_cb s) in (events_to_emit c, notif_state.truncate c))"

datatype queue_op = Arrive string int bytes nat | Read string | Clear | Die | Subscribe int

text \<open>The result of a step: what the reader got, the health events, the new state.\<close>

fun queue_step :: "queue_op \<Rightarrow> notif_state \<Rightarrow> bytes list \<times> health_event list \<times> notif_state" where
  "queue_step (Arrive ts fd x d) s = ([], arrive ts fd x d s)"
| "queue_step (Read ts) s =
     (case next_notification ts 0 s s of
        Inl e \<Rightarrow> ([], [], s)
      | Inr (x, evs, s') \<Rightarrow> (if x = [] then [] else [x], evs, s'))"
| "queue_step Clear s = ([], [], clear_notification_queue s)"
| "queue_step Die s = ([], [], mark_notification_dead s)"
| "queue_step (Subscribe fd) s = ([], [], subscribed fd s)"

fun queue_run :: "queue_op list \<Rightarrow> notif_state \<Rightarrow> bytes list \<times> health_event list \<times> notif_state" where
  "queue_run [] s = ([], [], s)"
| "queue_run (op # ops) s =
     (let (xs, evs, s) = queue_step op s; (xs', evs', s) = queue_run ops s in (xs @ xs', evs @ evs', s))"

lemma queue_run_append:
  "queue_run (ops @ ops') s =
     (let (xs, evs, s) = queue_run ops s; (xs', evs', s) = queue_run ops' s in (xs @ xs', evs @ evs', s))"
  by (induction ops arbitrary: s) (simp_all add: Let_def split: prod.splits)

lemma truncate_fields [simp]:
  "notif_queue (notif_state.truncate c) = notif_queue c" "cfg (notif_state.truncate c) = cfg c"
  "dropped_queue_full_count (notif_state.truncate c) = dropped_queue_full_count c"
  "last_drop_event_count (notif_state.truncate c) = last_drop_event_count c"
  "enqueued_count (notif_state.truncate c) = enqueued_count c"
  "queue_full_state (notif_state.truncate c) = queue_full_state c"
  "queue_high_watermark (notif_state.truncate c) = queue_high_watermark c"
  "notif_channel (notif_state.truncate c) = notif_channel c"
  "notif_session (notif_state.truncate c) = notif_session c"
  "notif_is_connected (notif_state.truncate c) = notif_is_connected c"
  by (simp_all add: notif_state.truncate_def)

lemma begin_cb_gate [simp]:
  "notif_channel (begin_cb s) = notif_channel s" "notif_session (begin_cb s) = notif_session s"
  "notif_is_connected (begin_cb s) = notif_is_connected s"
  by (simp_all add: begin_cb_def notif_state.extend_def)

lemma queue_full_begin_cb [simp]: "queue_full (begin_cb s) = queue_full s"
  by (simp add: queue_full_def)

text \<open>An arrival with room, and one without.\<close>

lemma arrive_room:
  assumes "\<not> queue_full s" "x \<noteq> []"
  shows "fst (arrive ts fd x d s) = []"
    and "snd (arrive ts fd x d s) = s\<lparr>notif_queue := notif_queue s @ [x], enqueued_count := enqueued_count s + 1,
      queue_high_watermark := max (queue_high_watermark s) (length (notif_queue s) + 1)\<rparr>"
  using assms enqueue_room [of "begin_cb s" x "\<lambda>_. ts" fd d]
  by (simp_all add: arrive_def Let_def, simp add: begin_cb_def notif_state.extend_def notif_state.truncate_def)

text \<open>The report of a drop.\<close>

definition drop_reported :: "notif_state \<Rightarrow> bool" where
  "drop_reported s \<longleftrightarrow> \<not> queue_full_state s \<or>
     dropped_queue_full_count s + 1 - last_drop_event_count s \<ge> nat (cf_notif_drop_event_threshold (cfg s))"

definition dropped_one :: "notif_state \<Rightarrow> notif_state" where
  "dropped_one s = s\<lparr>dropped_queue_full_count := dropped_queue_full_count s + 1, queue_full_state := True,
     last_drop_event_count := (if drop_reported s then dropped_queue_full_count s + 1 else last_drop_event_count s)\<rparr>"

definition drop_event :: "string \<Rightarrow> int \<Rightarrow> nat \<Rightarrow> notif_state \<Rightarrow> health_event" where
  "drop_event ts fd d s = make_event ts
     (if queue_full_state s then ''notification_drops_summary'' else ''notification_queue_full'')
     ''Notification queue is full; dropping notifications'' fd
     (int (dropped_queue_full_count s + 1 - last_drop_event_count s)) (int d) (dropped_one s)"

lemma arrive_full:
  assumes "queue_full s" "x \<noteq> []"
  shows "arrive ts fd x d s = (if drop_reported s then [drop_event ts fd d s] else [], dropped_one s)"
  using assms
  by (simp add: arrive_def enqueue_or_drop_def Let_def drop_reported_def drop_event_def dropped_one_def make_event_def)
    (auto simp: begin_cb_def notif_state.extend_def notif_state.truncate_def)

lemma arrive_Nil [simp]: "arrive ts fd [] d s = ([], s)"
  by (simp add: arrive_def)

declare queue_step.simps(2) [simp del]

text \<open>A read of an open queue.\<close>

definition gate_open :: "notif_state \<Rightarrow> bool" where
  "gate_open s \<longleftrightarrow> notif_channel s \<and> notif_session s \<and> notif_is_connected s"

lemma read_closed: "\<not> gate_open s \<Longrightarrow> queue_step (Read ts) s = ([], [], s)"
  by (auto simp: gate_open_def next_notification_def queue_step.simps(2))

lemma read_empty: "notif_queue s = [] \<Longrightarrow> queue_step (Read ts) s = ([], [], s)"
  by (cases "gate_open s") (simp_all add: gate_open_def next_notification_def read_closed queue_step.simps(2))

definition recovers :: "notif_state \<Rightarrow> bool" where
  "recovers s \<longleftrightarrow> queue_full_state s \<and> \<not> queue_full s"

definition after_read :: "notif_state \<Rightarrow> bytes list \<Rightarrow> notif_state" where
  "after_read s xs = s\<lparr>notif_queue := xs,
     queue_full_state := (queue_full_state s \<and> \<not> recovers (s\<lparr>notif_queue := xs\<rparr>))\<rparr>"

definition recovery_event :: "string \<Rightarrow> notif_state \<Rightarrow> health_event" where
  "recovery_event ts s = make_event ts ''notification_queue_recovered''
     ''Notification queue has free capacity again'' (-1) 0 0 s"

lemma read_head:
  assumes "gate_open s" "notif_queue s = x # xs" "x \<noteq> []"
  shows "queue_step (Read ts) s =
    ([x], if recovers (s\<lparr>notif_queue := xs\<rparr>) then [recovery_event ts (after_read s xs)] else [], after_read s xs)"
proof (cases "recovers (s\<lparr>notif_queue := xs\<rparr>)")
  case True
  then have "after_read s xs = s\<lparr>notif_queue := xs, queue_full_state := False\<rparr>" by (simp add: after_read_def)
  moreover have "queue_full_state s"
    "cf_notif_queue_max_size (cfg s) < 0 \<or> length xs < nat (cf_notif_queue_max_size (cfg s))"
    using True by (auto simp: recovers_def queue_full_def)
  ultimately show ?thesis
    using assms True
    by (simp add: gate_open_def next_notification_def recovery_event_def queue_step.simps(2) Let_def)
next
  case False
  then have "after_read s xs = s\<lparr>notif_queue := xs\<rparr>" by (cases s) (simp add: after_read_def)
  moreover have "\<not> (queue_full_state s \<and>
      (cf_notif_queue_max_size (cfg s) < 0 \<or> length xs < nat (cf_notif_queue_max_size (cfg s))))"
    using False by (auto simp: recovers_def queue_full_def)
  ultimately show ?thesis
    using assms False by (simp add: gate_open_def next_notification_def queue_step.simps(2) Let_def)
qed

section \<open>The queue as a bounded queue\<close>

definition q_put :: "string \<times> int \<times> char \<times> bytes \<times> nat \<Rightarrow> notif_state \<Rightarrow> notif_state" where
  "q_put x s = (case x of (ts, fd, c, cs, d) \<Rightarrow> snd (arrive ts fd (c # cs) d s))"

definition q_get :: "notif_state \<Rightarrow> (bytes \<times> notif_state) option" where
  "q_get s = (case queue_step (Read []) s of (x # _, _, s') \<Rightarrow> Some (x, s') | _ \<Rightarrow> None)"

definition q_view :: "string \<times> int \<times> char \<times> bytes \<times> nat \<Rightarrow> bytes" where
  "q_view x = (case x of (ts, fd, c, cs, d) \<Rightarrow> c # cs)"

definition q_inv :: "notif_state \<Rightarrow> bool" where
  "q_inv s \<longleftrightarrow> queue_inv s \<and> gate_open s \<and> [] \<notin> set (notif_queue s)"

lemma q_view_Cons [simp]: "q_view (ts, fd, c, cs, d) = c # cs"
  by (simp add: q_view_def)

lemma queue_inv_arrive: "queue_inv s \<Longrightarrow> queue_inv (snd (arrive ts fd x d s))"
  by (simp add: arrive_def Let_def queue_inv_enqueue)

lemma gate_open_arrive [simp]: "gate_open (snd (arrive ts fd x d s)) = gate_open s"
  by (simp add: arrive_def Let_def gate_open_def enqueue_or_drop_def)

lemma q_put_room:
  "\<not> queue_full s \<Longrightarrow> notif_queue (q_put x s) = notif_queue s @ [q_view x] \<and>
    dropped_queue_full_count (q_put x s) = dropped_queue_full_count s"
  by (cases x) (simp add: q_put_def q_view_def arrive_room)

lemma q_put_full:
  "queue_full s \<Longrightarrow> notif_queue (q_put x s) = notif_queue s \<and>
    dropped_queue_full_count (q_put x s) = dropped_queue_full_count s + 1"
  by (cases x) (simp add: q_put_def arrive_full dropped_one_def)

lemma q_get_empty: "notif_queue s = [] \<Longrightarrow> q_get s = None"
  by (simp add: q_get_def read_empty)

lemma q_get_head:
  "q_inv s \<Longrightarrow> notif_queue s = x # xs \<Longrightarrow>
    q_get s = Some (x, after_read s xs)"
  by (auto simp: q_get_def q_inv_def read_head)

lemma after_read_fields [simp]:
  "notif_queue (after_read s xs) = xs" "cfg (after_read s xs) = cfg s"
  "dropped_queue_full_count (after_read s xs) = dropped_queue_full_count s"
  "last_drop_event_count (after_read s xs) = last_drop_event_count s"
  "enqueued_count (after_read s xs) = enqueued_count s"
  "gate_open (after_read s xs) = gate_open s"
  by (simp_all add: after_read_def gate_open_def)

lemma queue_inv_after_read:
  "queue_inv s \<Longrightarrow> notif_queue s = x # xs \<Longrightarrow> queue_inv (after_read s xs)"
  by (auto simp: queue_inv_def after_read_def)

interpretation lq: bounded_fifo q_put q_get q_view notif_queue dropped_queue_full_count q_inv
proof
  fix s x
  assume inv: "q_inv s"
  show "subseq (notif_queue (q_put x s)) (notif_queue s @ [q_view x])"
    using q_put_room [of s x] q_put_full [of s x] by (cases "queue_full s") (auto intro: subseq_snoc_drop)
  show "length (notif_queue (q_put x s)) + dropped_queue_full_count (q_put x s) =
      length (notif_queue s) + dropped_queue_full_count s + 1"
    using q_put_room [of s x] q_put_full [of s x] by (cases "queue_full s") auto
  have "[] \<notin> set (notif_queue (q_put x s))"
    using inv q_put_room [of s x] q_put_full [of s x]
    by (cases "queue_full s") (auto simp: q_inv_def q_view_def split: prod.splits)
  with inv show "q_inv (q_put x s)"
    by (cases x) (simp add: q_inv_def q_put_def queue_inv_arrive)
next
  fix s
  assume "q_inv s" "q_get s = None"
  then show "notif_queue s = []" by (cases "notif_queue s") (simp_all add: q_get_head)
next
  fix s y s'
  assume inv: "q_inv s" and get: "q_get s = Some (y, s')"
  show "notif_queue s = y # notif_queue s' \<and> dropped_queue_full_count s' = dropped_queue_full_count s \<and> q_inv s'"
  proof (cases "notif_queue s")
    case Nil
    with get show ?thesis by (simp add: q_get_empty)
  next
    case (Cons x xs)
    with get inv queue_inv_after_read [of s x xs] show ?thesis by (auto simp: q_get_head q_inv_def)
  qed
qed

text \<open>Traffic: arrivals and reads.\<close>

fun traffic :: "queue_op \<Rightarrow> bool" where
  "traffic (Arrive ts fd x d) = True"
| "traffic (Read ts) = True"
| "traffic Clear = False"
| "traffic Die = False"
| "traffic (Subscribe fd) = False"

fun arrivals :: "queue_op list \<Rightarrow> bytes list" where
  "arrivals [] = []"
| "arrivals (Arrive ts fd x d # ops) = (if x = [] then [] else [x]) @ arrivals ops"
| "arrivals (_ # ops) = arrivals ops"

fun to_q :: "queue_op \<Rightarrow> (string \<times> int \<times> char \<times> bytes \<times> nat) option list" where
  "to_q (Arrive ts fd (c # cs) d) = [Some (ts, fd, c, cs, d)]"
| "to_q (Read ts) = [None]"
| "to_q _ = []"

lemma q_put_Cons: "q_put (ts, fd, c, cs, d) s = snd (arrive ts fd (c # cs) d s)"
  by (simp add: q_put_def)

lemma puts_to_q: "lq.puts (concat (map to_q ops)) = arrivals ops"
proof (induction ops)
  case (Cons op ops)
  show ?case
  proof (cases op)
    case (Arrive ts fd x d)
    with Cons show ?thesis by (cases x) simp_all
  qed (use Cons in simp_all)
qed simp

lemma queue_run_fifo:
  assumes "list_all traffic ops" "q_inv s"
  shows "lq.run (concat (map to_q ops)) s = (fst (queue_run ops s), snd (snd (queue_run ops s)))"
  using assms
proof (induction ops arbitrary: s)
  case (Cons op ops)
  show ?case
  proof (cases op)
    case (Arrive ts fd x d)
    show ?thesis
    proof (cases x)
      case Nil
      with Cons Arrive show ?thesis by (simp add: Let_def split: prod.splits)
    next
      case x: (Cons c cs)
      have "q_inv (snd (arrive ts fd x d s))"
        using lq.put_inv [OF Cons.prems(2), of "(ts, fd, c, cs, d)"] x by (simp add: q_put_Cons)
      with Cons Arrive x show ?thesis by (simp add: q_put_Cons Let_def split: prod.splits)
    qed
  next
    case (Read ts)
    show ?thesis
    proof (cases "notif_queue s")
      case Nil
      with Cons Read show ?thesis by (simp add: q_get_empty read_empty Let_def split: prod.splits)
    next
      case q: (Cons y ys)
      obtain evs where read: "queue_step (Read ts) s = ([y], evs, after_read s ys)"
        using Cons.prems(2) q by (cases "y = []") (auto simp: q_inv_def read_head)
      have get: "q_get s = Some (y, after_read s ys)" by (rule q_get_head [OF Cons.prems(2) q])
      then have "q_inv (after_read s ys)" using lq.get_Some [OF Cons.prems(2) get] by simp
      with Cons.IH [OF _ this] Cons.prems Read get read show ?thesis
        by (simp add: Let_def split: prod.splits)
    qed
  qed (use Cons in simp_all)
qed simp

section \<open>Order and accounting\<close>

lemma q_inv_subscribed: "valid_config c \<Longrightarrow> q_inv (subscribed fd (initial_notif c))"
  using queue_inv_initial [of c]
  by (simp add: q_inv_def subscribed_def initial_notif_def gate_open_def queue_inv_def)

lemma step_enqueued:
  assumes "traffic op" "q_inv s" "queue_step op s = (xs, evs, s')"
  shows "enqueued_count s' + length (notif_queue s) = enqueued_count s + length xs + length (notif_queue s') \<and>
    cfg s' = cfg s \<and> q_inv s'"
proof (cases op)
  case (Arrive ts fd x d)
  show ?thesis
  proof (cases x)
    case (Cons c cs)
    have "q_inv (snd (arrive ts fd x d s))"
      using lq.put_inv [OF assms(2), of "(ts, fd, c, cs, d)"] Cons by (simp add: q_put_Cons)
    with Arrive Cons assms(3) arrive_room [of s x ts fd d] arrive_full [of s x ts fd d] show ?thesis
      by (cases "queue_full s") (auto simp: dropped_one_def)
  qed (use Arrive assms in auto)
next
  case (Read ts)
  show ?thesis
  proof (cases "notif_queue s")
    case (Cons y ys)
    with q_get_head [OF assms(2) Cons] have "q_inv (after_read s ys)" using lq.get_Some [OF assms(2)] by blast
    with Cons Read assms(2,3) show ?thesis by (auto simp: q_inv_def read_head)
  qed (use Read assms in \<open>auto simp: read_empty\<close>)
qed (use assms in simp_all)

lemma run_enqueued:
  assumes "list_all traffic ops" "q_inv s" "queue_run ops s = (xs, evs, s')"
  shows "enqueued_count s' + length (notif_queue s) = enqueued_count s + length xs + length (notif_queue s') \<and>
    cfg s' = cfg s \<and> q_inv s'"
  using assms
proof (induction ops arbitrary: s xs evs s')
  case (Cons op ops)
  obtain xs1 evs1 s1 where step: "queue_step op s = (xs1, evs1, s1)" by (cases "queue_step op s")
  obtain xs2 evs2 s2 where run: "queue_run ops s1 = (xs2, evs2, s2)" by (cases "queue_run ops s1")
  have "traffic op" "list_all traffic ops" using Cons.prems by simp_all
  note one = step_enqueued [OF this(1) Cons.prems(2) step]
  with Cons.IH [OF \<open>list_all traffic ops\<close> _ run] have two:
    "enqueued_count s2 + length (notif_queue s1) = enqueued_count s1 + length xs2 + length (notif_queue s2) \<and>
     cfg s2 = cfg s1 \<and> q_inv s2" by blast
  have "xs = xs1 @ xs2" "s' = s2" using Cons.prems(3) step run by simp_all
  with one two show ?case by simp
qed simp

text \<open>
  C4. The notification queue. From a fresh subscription, whatever arrives and however it is read:
  what the readers got followed by what is queued is a subsequence of what arrived, in order; the
  queue respects its bound; every notification that arrived was read, is queued, or is counted as
  dropped; the counter of enqueued notifications is exact; and nothing is lost when the queue is
  unbounded or no drop was counted.
\<close>

theorem queue_delivery:
  assumes "valid_config c" "list_all traffic ops"
    and "queue_run ops (subscribed fd (initial_notif c)) = (out, evs, s)"
  shows "subseq (out @ notif_queue s) (arrivals ops) \<and>
    (0 \<le> cf_notif_queue_max_size c \<longrightarrow> int (notification_queue_size s) \<le> cf_notif_queue_max_size c) \<and>
    length out + notification_queue_size s + dropped_queue_full_count s = length (arrivals ops) \<and>
    enqueued_count s = length out + notification_queue_size s \<and>
    (dropped_queue_full_count s = 0 \<longrightarrow> out @ notif_queue s = arrivals ops)"
proof -
  let ?s = "subscribed fd (initial_notif c)"
  have inv: "q_inv ?s" by (rule q_inv_subscribed [OF assms(1)])
  have run: "lq.run (concat (map to_q ops)) ?s = (out, s)"
    using queue_run_fifo [OF assms(2) inv] assms(3) by simp
  have start: "notif_queue ?s = []" "dropped_queue_full_count ?s = 0" "enqueued_count ?s = 0" "cfg ?s = c"
    by (simp_all add: subscribed_def initial_notif_def)
  have sub: "subseq (out @ notif_queue s) (arrivals ops)"
    using lq.run_fifo [OF inv, of "concat (map to_q ops)"] run start by (simp add: puts_to_q)
  have count: "length out + length (notif_queue s) + dropped_queue_full_count s = length (arrivals ops)"
    using lq.run_count [OF inv, of "concat (map to_q ops)"] run start by (simp add: puts_to_q)
  have enq: "enqueued_count s = length out + length (notif_queue s)" and "cfg s = c" "q_inv s"
    using run_enqueued [OF assms(2) inv assms(3)] start by simp_all
  have bound: "int (length (notif_queue s)) \<le> cf_notif_queue_max_size c" if "0 \<le> cf_notif_queue_max_size c"
    using \<open>q_inv s\<close> \<open>cfg s = c\<close> that by (auto simp: q_inv_def queue_inv_def)
  have "out @ notif_queue s = arrivals ops" if "dropped_queue_full_count s = 0"
    by (rule subseq_same_length [OF sub]) (use count that in simp)
  with sub count enq bound show ?thesis by (simp add: notification_queue_size_def)
qed

theorem queue_delivery_witness:
  "\<exists>out evs s. queue_run [Arrive ''t'' 4 ''a'' 0, Arrive ''t'' 4 ''b'' 0, Read ''t'']
      (subscribed 4 (initial_notif BASE_CLIENT_KWARGS)) = (out, evs, s) \<and>
    enqueued_count s = length out + notification_queue_size s \<and> subseq (out @ notif_queue s) [''a'', ''b'']"
proof -
  let ?ops = "[Arrive ''t'' 4 ''a'' 0, Arrive ''t'' 4 ''b'' 0, Read ''t'']"
  have v: "valid_config BASE_CLIENT_KWARGS" by (simp add: valid_config_def BASE_CLIENT_KWARGS_def)
  have t: "list_all traffic ?ops" by simp
  obtain out evs s where r: "queue_run ?ops (subscribed 4 (initial_notif BASE_CLIENT_KWARGS)) = (out, evs, s)"
    by (cases "queue_run ?ops (subscribed 4 (initial_notif BASE_CLIENT_KWARGS))")
  note q = queue_delivery [OF v t r]
  show ?thesis
    by (intro exI conjI, rule r) (use q in \<open>simp_all only: arrivals.simps list.simps if_False append.simps\<close>)
qed

section \<open>The health events\<close>

text \<open>The state the sequence of events describes: full or not; \<open>None\<close> is an impossible sequence.\<close>

fun full_after :: "bool \<Rightarrow> string list \<Rightarrow> bool option" where
  "full_after b [] = Some b"
| "full_after b (t # ts) =
     (if t = ''notification_queue_full'' then (if b then None else full_after True ts)
      else if t = ''notification_drops_summary'' then (if b then full_after True ts else None)
      else if t = ''notification_queue_recovered'' then (if b then full_after False ts else None)
      else full_after b ts)"

lemma full_after_append:
  "full_after b (ts @ us) = Option.bind (full_after b ts) (\<lambda>b'. full_after b' us)"
  by (induction b ts rule: full_after.induct) auto

text \<open>What an event says is so: full means at the bound, recovered means below it.\<close>

definition truthful :: "health_event \<Rightarrow> bool" where
  "truthful e \<longleftrightarrow>
     (ev_type e \<in> {''notification_queue_full'', ''notification_drops_summary''} \<longrightarrow>
        0 \<le> ev_queue_max_size e \<and> ev_queue_size e = ev_queue_max_size e \<and> 0 < ev_notifications_dropped_delta e) \<and>
     (ev_type e = ''notification_queue_recovered'' \<longrightarrow>
        ev_queue_size e < ev_queue_max_size e \<and> ev_notifications_dropped_delta e = 0)"

lemma queue_full_exact:
  "queue_inv s \<Longrightarrow> queue_full s \<Longrightarrow> int (length (notif_queue s)) = cf_notif_queue_max_size (cfg s)"
  by (auto simp: queue_full_def queue_inv_def)

text \<open>One step: the events move the described state as the flag moves, their deltas add up to the
  progress of the reported count, and they are true.\<close>

definition events_ok :: "notif_state \<Rightarrow> health_event list \<Rightarrow> notif_state \<Rightarrow> bool" where
  "events_ok s evs s' \<longleftrightarrow>
     full_after (queue_full_state s) (map ev_type evs) = Some (queue_full_state s') \<and>
     int (last_drop_event_count s') = int (last_drop_event_count s) + sum_list (map ev_notifications_dropped_delta evs) \<and>
     list_all truthful evs"

lemma events_ok_refl [simp]: "events_ok s [] s"
  by (simp add: events_ok_def)

lemma events_ok_trans: "events_ok s es s' \<Longrightarrow> events_ok s' fs s'' \<Longrightarrow> events_ok s (es @ fs) s''"
  by (simp add: events_ok_def full_after_append)

lemma drop_event_fields [simp]:
  "ev_type (drop_event ts fd d s) =
    (if queue_full_state s then ''notification_drops_summary'' else ''notification_queue_full'')"
  "ev_queue_size (drop_event ts fd d s) = int (length (notif_queue s))"
  "ev_queue_max_size (drop_event ts fd d s) = cf_notif_queue_max_size (cfg s)"
  "ev_notifications_dropped_delta (drop_event ts fd d s) =
    int (dropped_queue_full_count s + 1 - last_drop_event_count s)"
  by (simp_all add: drop_event_def make_event_def dropped_one_def)

lemma arrive_events_ok:
  assumes "queue_inv s"
  shows "events_ok s (fst (arrive ts fd x d s)) (snd (arrive ts fd x d s))"
proof (cases "x = []")
  case False
  show ?thesis
  proof (cases "queue_full s")
    case True
    have le: "last_drop_event_count s \<le> dropped_queue_full_count s" using assms by (simp add: queue_inv_def)
    have size: "int (length (notif_queue s)) = cf_notif_queue_max_size (cfg s)"
      by (rule queue_full_exact [OF assms True])
    show ?thesis
    proof (cases "drop_reported s")
      case True
      then show ?thesis
        using le size \<open>queue_full s\<close> False
        by (simp add: arrive_full events_ok_def truthful_def dropped_one_def of_nat_diff)
    next
      case unreported: False
      then have "queue_full_state s" by (simp add: drop_reported_def)
      with unreported True False show ?thesis by (simp add: arrive_full events_ok_def dropped_one_def)
    qed
  next
    case room: False
    with False show ?thesis by (simp add: arrive_room events_ok_def)
  qed
qed simp

lemma step_events_ok:
  assumes "traffic op" "q_inv s" "queue_step op s = (xs, evs, s')"
  shows "events_ok s evs s'"
proof (cases op)
  case (Arrive ts fd x d)
  with assms arrive_events_ok [of s ts fd x d] show ?thesis by (auto simp: q_inv_def)
next
  case (Read ts)
  show ?thesis
  proof (cases "notif_queue s")
    case Nil
    with Read assms show ?thesis by (simp add: read_empty)
  next
    case (Cons y ys)
    have inv: "gate_open s" "y \<noteq> []" "queue_inv s" using assms(2) Cons by (auto simp: q_inv_def)
    have read: "evs = (if recovers (s\<lparr>notif_queue := ys\<rparr>) then [recovery_event ts (after_read s ys)] else [])"
      "s' = after_read s ys"
      using assms(3) Read Cons inv by (simp_all add: read_head)
    show ?thesis
    proof (cases "recovers (s\<lparr>notif_queue := ys\<rparr>)")
      case True
      then have "queue_full_state s" "\<not> queue_full (s\<lparr>notif_queue := ys\<rparr>)" by (simp_all add: recovers_def)
      moreover have "0 \<le> cf_notif_queue_max_size (cfg s)"
        using inv(3) \<open>queue_full_state s\<close> by (simp add: queue_inv_def)
      ultimately have "int (length ys) < cf_notif_queue_max_size (cfg s)" by (simp add: queue_full_def)
      with True read \<open>queue_full_state s\<close> show ?thesis
        by (simp add: events_ok_def truthful_def recovery_event_def make_event_def) (simp add: after_read_def)
    next
      case False
      with read show ?thesis by (simp add: events_ok_def) (simp add: after_read_def)
    qed
  qed
qed (use assms in simp_all)

lemma run_events_ok:
  assumes "list_all traffic ops" "q_inv s" "queue_run ops s = (xs, evs, s')"
  shows "events_ok s evs s'"
  using assms
proof (induction ops arbitrary: s xs evs s')
  case (Cons op ops)
  obtain xs1 evs1 s1 where step: "queue_step op s = (xs1, evs1, s1)" by (cases "queue_step op s")
  obtain xs2 evs2 s2 where run: "queue_run ops s1 = (xs2, evs2, s2)" by (cases "queue_run ops s1")
  have t: "traffic op" "list_all traffic ops" using Cons.prems by simp_all
  have "q_inv s1" using step_enqueued [OF t(1) Cons.prems(2) step] by simp
  with Cons.IH [OF t(2) _ run] step_events_ok [OF t(1) Cons.prems(2) step]
  have "events_ok s (evs1 @ evs2) s2" by (blast intro: events_ok_trans)
  then show ?case using Cons.prems(3) step run by simp
qed simp

text \<open>
  C5. The health events of the queue. From a fresh subscription, whatever arrives and however it is
  read: the events alternate between the queue becoming full (followed by summaries of further drops)
  and the queue having recovered, and end in the state the queue's flag records; every full event
  is raised with the queue at its bound and every recovered event with the queue below it; and the
  drops they report add up to the number of drops, short of less than the configured threshold.
\<close>

theorem queue_events_account:
  assumes "valid_config c" "list_all traffic ops"
    and "queue_run ops (subscribed fd (initial_notif c)) = (out, evs, s)"
  shows "full_after False (map ev_type evs) = Some (queue_full_state s) \<and> list_all truthful evs \<and>
    sum_list (map ev_notifications_dropped_delta evs) \<le> int (dropped_queue_full_count s) \<and>
    int (dropped_queue_full_count s) <
      sum_list (map ev_notifications_dropped_delta evs) + cf_notif_drop_event_threshold c"
proof -
  let ?s = "subscribed fd (initial_notif c)"
  have inv: "q_inv ?s" by (rule q_inv_subscribed [OF assms(1)])
  have "queue_full_state ?s = False" "last_drop_event_count ?s = 0" "cfg ?s = c"
    by (simp_all add: subscribed_def initial_notif_def)
  with run_events_ok [OF assms(2) inv assms(3)] run_enqueued [OF assms(2) inv assms(3)]
  show ?thesis by (auto simp: events_ok_def q_inv_def queue_inv_def)
qed

text \<open>A bounded queue of one, with a report every five drops.\<close>

definition small_client :: client_config where
  "small_client = BASE_CLIENT_KWARGS\<lparr>cf_notif_queue_max_size := 1, cf_notif_drop_event_threshold := 5\<rparr>"

theorem queue_events_account_witness:
  "\<exists>out evs s. queue_run [Arrive ''t'' 4 ''a'' 0, Arrive ''t'' 4 ''b'' 0, Read ''t'']
      (subscribed 4 (initial_notif small_client)) = (out, evs, s) \<and>
    full_after False (map ev_type evs) = Some (queue_full_state s) \<and> list_all truthful evs"
proof -
  let ?ops = "[Arrive ''t'' 4 ''a'' 0, Arrive ''t'' 4 ''b'' 0, Read ''t'']"
  have v: "valid_config small_client" by (simp add: valid_config_def BASE_CLIENT_KWARGS_def small_client_def)
  have t: "list_all traffic ?ops" by simp
  obtain out evs s where r: "queue_run ?ops (subscribed 4 (initial_notif small_client)) = (out, evs, s)"
    by (cases "queue_run ?ops (subscribed 4 (initial_notif small_client))")
  note q = queue_events_account [OF v t r]
  show ?thesis by (intro exI conjI, rule r) (use q in simp_all)
qed

section \<open>The state that outlives a subscription\<close>

lemma arrivals_with_room:
  assumes "int (length (notif_queue s) + length xs) \<le> cf_notif_queue_max_size (cfg s)" "[] \<notin> set xs"
  shows "\<exists>s'. queue_run (map (\<lambda>x. Arrive ts fd x 0) xs) s = ([], [], s') \<and>
    notif_queue s' = notif_queue s @ xs \<and> cfg s' = cfg s \<and> queue_full_state s' = queue_full_state s \<and>
    dropped_queue_full_count s' = dropped_queue_full_count s \<and>
    last_drop_event_count s' = last_drop_event_count s \<and> gate_open s' = gate_open s"
  using assms
proof (induction xs arbitrary: s)
  case (Cons x xs)
  then have x: "\<not> queue_full s" "x \<noteq> []" by (auto simp: queue_full_def)
  define s1 where "s1 = snd (arrive ts fd x 0 s)"
  have s1: "notif_queue s1 = notif_queue s @ [x]" "cfg s1 = cfg s" "queue_full_state s1 = queue_full_state s"
    "dropped_queue_full_count s1 = dropped_queue_full_count s" "last_drop_event_count s1 = last_drop_event_count s"
    "gate_open s1 = gate_open s"
    using arrive_room [OF x] by (simp_all add: s1_def gate_open_def)
  have step: "queue_step (Arrive ts fd x 0) s = ([], [], s1)"
    using arrive_room(1) [OF x, of ts fd 0] by (cases "arrive ts fd x 0 s") (simp add: s1_def)
  have "int (length (notif_queue s1) + length xs) \<le> cf_notif_queue_max_size (cfg s1)" "[] \<notin> set xs"
    using Cons.prems by (simp_all add: s1)
  from Cons.IH [OF this] s1 step show ?case by (auto simp: Let_def)
qed simp

lemma one_drop_unreported:
  assumes "queue_full s" "y \<noteq> []" "queue_full_state s" "last_drop_event_count s = dropped_queue_full_count s"
    "1 < cf_notif_drop_event_threshold (cfg s)"
  shows "queue_step (Arrive ts fd y d) s = ([], [], dropped_one s)"
  using assms by (simp add: arrive_full drop_reported_def)

lemma one_drop_reported:
  assumes "queue_full s" "y \<noteq> []" "\<not> queue_full_state s"
  shows "queue_step (Arrive ts fd y d) s = ([], [drop_event ts fd d s], dropped_one s)"
  using assms by (simp add: arrive_full drop_reported_def)

lemma run_after_resubscription:
  "queue_run ([Die, Subscribe fd] @ ops) s = queue_run ops (subscribed fd (mark_notification_dead s))"
  "queue_run ([Clear, Subscribe fd] @ ops) s = queue_run ops (subscribed fd (clear_notification_queue s))"
  by (simp_all add: Let_def split: prod.splits)

lemma fill_then_one_more:
  assumes "queue_run ops s = ([], [], t)"
  shows "queue_run (ops @ [op]) s = queue_step op t"
  using assms by (simp add: queue_run_append Let_def split: prod.splits)

text \<open>
  A subscription that dies leaves the full flag behind. When the reactor closes a subscription
  whose queue was full (\<open>mark_notification_dead\<close> empties the queue) and the client subscribes again,
  the new subscription starts with an empty queue still marked full: the first drop of the new
  subscription, when its queue fills up, raises no event at all (with a threshold above one), where
  after \<open>clear_notification_queue\<close> it raises \<open>notification_queue_full\<close>; and the first read of an
  almost empty queue raises \<open>notification_queue_recovered\<close>.
\<close>

theorem dead_subscription_leaves_full_state:
  assumes "queue_full_state s" "last_drop_event_count s = dropped_queue_full_count s"
    and "cf_notif_queue_max_size (cfg s) = int n" "0 < n" "1 < cf_notif_drop_event_threshold (cfg s)"
    and "length (x # xs) = n" "[] \<notin> set (x # xs)" "y \<noteq> []"
  shows "fst (snd (queue_run ([Die, Subscribe fd] @ map (\<lambda>x. Arrive ts fd x 0) (x # xs) @ [Arrive ts fd y d]) s)) = []
    \<and> map ev_type (fst (snd (queue_run
        ([Clear, Subscribe fd] @ map (\<lambda>x. Arrive ts fd x 0) (x # xs) @ [Arrive ts fd y d]) s))) =
      [''notification_queue_full'']
    \<and> map ev_type (fst (snd (queue_run ([Die, Subscribe fd, Arrive ts fd x 0, Read ts]) s))) =
      [''notification_queue_recovered'']"
proof (intro conjI)
  define dead where "dead = subscribed fd (mark_notification_dead s)"
  define cleared where "cleared = subscribed fd (clear_notification_queue s)"
  have dead: "notif_queue dead = []" "cfg dead = cfg s" "queue_full_state dead"
    "last_drop_event_count dead = dropped_queue_full_count dead" "gate_open dead"
    using assms by (simp_all add: dead_def subscribed_def mark_notification_dead_def gate_open_def)
  have cleared: "notif_queue cleared = []" "cfg cleared = cfg s" "\<not> queue_full_state cleared"
    by (simp_all add: cleared_def subscribed_def clear_notification_queue_def)
  have fill: "int (length (notif_queue t) + length (x # xs)) \<le> cf_notif_queue_max_size (cfg t)"
    if "notif_queue t = []" "cfg t = cfg s" for t :: notif_state
    using assms that by simp
  have full: "queue_full t" if "length (notif_queue t) = n" "cfg t = cfg s" for t :: notif_state
    using assms that by (simp add: queue_full_def)
  obtain t where t: "queue_run (map (\<lambda>x. Arrive ts fd x 0) (x # xs)) dead = ([], [], t)"
    "notif_queue t = x # xs" "cfg t = cfg s" "queue_full_state t"
    "last_drop_event_count t = dropped_queue_full_count t"
    using arrivals_with_room [OF fill [OF dead(1,2)] assms(7)] dead by fastforce
  have "queue_step (Arrive ts fd y d) t = ([], [], dropped_one t)"
    by (rule one_drop_unreported) (use t full [of t] assms in simp_all)
  then show "fst (snd (queue_run ([Die, Subscribe fd] @ map (\<lambda>x. Arrive ts fd x 0) (x # xs) @ [Arrive ts fd y d]) s)) = []"
    unfolding run_after_resubscription dead_def [symmetric] fill_then_one_more [OF t(1)] by simp
  obtain u where u: "queue_run (map (\<lambda>x. Arrive ts fd x 0) (x # xs)) cleared = ([], [], u)"
    "notif_queue u = x # xs" "cfg u = cfg s" "\<not> queue_full_state u"
    using arrivals_with_room [OF fill [OF cleared(1,2)] assms(7), of ts fd] cleared by auto
  have "queue_step (Arrive ts fd y d) u = ([], [drop_event ts fd d u], dropped_one u)"
    by (rule one_drop_reported) (use u full [of u] assms in simp_all)
  then show "map ev_type (fst (snd (queue_run
        ([Clear, Subscribe fd] @ map (\<lambda>x. Arrive ts fd x 0) (x # xs) @ [Arrive ts fd y d]) s))) =
      [''notification_queue_full'']"
    unfolding run_after_resubscription cleared_def [symmetric] fill_then_one_more [OF u(1)] using u(4) by simp
  obtain v where v: "queue_run [Arrive ts fd x 0] dead = ([], [], v)"
    "notif_queue v = [x]" "cfg v = cfg s" "queue_full_state v" "gate_open v"
    using arrivals_with_room [of dead "[x]" ts fd] dead assms by auto
  have "x \<noteq> []" using assms(7) by auto
  then have "queue_step (Read ts) v = ([x], [recovery_event ts (after_read v [])], after_read v [])"
    using read_head [of v x "[]" ts] v assms by (simp add: recovers_def queue_full_def)
  with fill_then_one_more [OF v(1), of "Read ts"] run_after_resubscription(1) [of fd "[Arrive ts fd x 0, Read ts]" s]
  show "map ev_type (fst (snd (queue_run ([Die, Subscribe fd, Arrive ts fd x 0, Read ts]) s))) =
      [''notification_queue_recovered'']"
    by (simp add: dead_def recovery_event_def make_event_def del: queue_run.simps queue_step.simps)
qed

theorem dead_subscription_leaves_full_state_witness:
  "\<exists>s. queue_full_state s \<and>
    fst (snd (queue_run [Die, Subscribe 5, Arrive ''t'' 5 ''a'' 0, Arrive ''t'' 5 ''b'' 0] s)) = []"
proof -
  let ?s = "(initial_notif small_client)\<lparr>queue_full_state := True, dropped_queue_full_count := 1,
    last_drop_event_count := 1\<rparr>"
  have "fst (snd (queue_run ([Die, Subscribe 5] @ map (\<lambda>x. Arrive ''t'' 5 x 0) [''a''] @ [Arrive ''t'' 5 ''b'' 0]) ?s)) = []"
    by (rule dead_subscription_leaves_full_state [where n = 1, THEN conjunct1])
      (simp_all add: initial_notif_def small_client_def BASE_CLIENT_KWARGS_def)
  then show ?thesis by (intro exI [of _ ?s]) simp
qed

end
