(* ===== verification/Notif_Callback.thy ===== *)
theory Notif_Callback
  imports Stream_Frames Queue_Correct Socket_Poll
begin

text \<open>
  \<open>NetconfClient::on_notification_ready\<close> (\<open>src/netconf_client_non_blocking.cpp\<close>), the callback a
  reactor thread runs when a notification socket is readable, with the two helpers that touch the
  network, \<open>read_available_notification_bytes\<close> and \<open>poll_notification_fd\<close> (in \<open>Socket_Poll\<close>). What libssh2, \<open>poll\<close> and the
  clocks answer is an input: one \<open>cb_step\<close> per round of the callback's loop. The callback takes its
  mutexes several times; what other threads do to the client in between is the input \<open>others\<close>.
\<close>

section \<open>Reading and polling\<close>

datatype read_result = Nread bytes | Again | Read_Failed string

text \<open>\<open>read_available_notification_bytes\<close> on the answers of \<open>libssh2_channel_read\<close>; \<open>Again\<close> stands for
  0 and \<open>LIBSSH2_ERROR_EAGAIN\<close>. \<open>Blocked\<close>: the answers run out before it returns.\<close>

fun read_available :: "read_result list \<Rightarrow> bytes \<Rightarrow> (exn + bytes) outcome" where
  "read_available [] bs = Blocked"
| "read_available (Nread b # rs) bs = read_available rs (bs @ b)"
| "read_available (Again # rs) bs = Returns (Inr bs)"
| "read_available (Read_Failed m # rs) bs =
     Returns (Inl (Netconf_Exception (''Error reading from notification channel: '' @ m)))"

text \<open>\<open>read_currently_available\<close>.\<close>

definition read_currently_available :: "int \<Rightarrow> notif_state \<Rightarrow> read_result list \<Rightarrow> (exn + bytes) outcome" where
  "read_currently_available fd s rs =
     (if \<not> notif_channel s \<or> \<not> notif_session s
      then Returns (Inl (Netconf_Exception ''Notification channel/session is not active''))
      else if notif_socket s \<noteq> fd
      then Returns (Inl (Netconf_Exception ''Notification FD does not match active subscription socket''))
      else read_available rs [])"

section \<open>The callback\<close>

definition NOTIFICATION_POLL_SLICE_MS :: int where
  "NOTIFICATION_POLL_SLICE_MS = 1000"

definition size_guard_message :: string where
  "size_guard_message =
     ''Received notification bytes without NETCONF EOM; size guard fired and queued partial notification''"

definition timeout_guard_message :: string where
  "timeout_guard_message =
     ''Received notification bytes without NETCONF EOM; timeout guard fired and queued partial notification''"

text \<open>The answers of the environment in one round of the loop. \<open>others1\<close> acts before the round's
  first critical section, \<open>others2\<close> before the read or the timeout check that follows the poll,
  \<open>others3\<close> between the read and the critical section that absorbs it.\<close>

record cb_step =
  stamps :: "nat \<Rightarrow> string"
  others1 :: "notif_state \<Rightarrow> notif_state"
  clock_rx :: nat
  clock_timeout :: nat
  clock_deadline :: nat
  polls :: "poll_result list"
  others2 :: "notif_state \<Rightarrow> notif_state"
  clock_poll :: nat
  reads :: "read_result list"
  others3 :: "notif_state \<Rightarrow> notif_state"

datatype cb_end = Running | Finished | Failed exn

text \<open>The critical section after a read: append, process, size guard. The result is what
  \<open>flush_events_and_notifications\<close> emits, and the client.\<close>

definition absorb ::
  "xml_root \<Rightarrow> (nat \<Rightarrow> string) \<Rightarrow> int \<Rightarrow> bytes \<Rightarrow> nat \<Rightarrow> notif_state \<Rightarrow> health_event list \<times> notif_state" where
  "absorb xml ts fd bytes now s =
     (let c = rx_read xml ts fd (bytes, now) (begin_cb s);
          c = (if partial_size_limit_reached c then finalize_incomplete ts fd size_guard_message c else c)
      in (events_to_emit c, notif_state.truncate c))"

text \<open>The critical section at the head of a round; the last result is \<open>wait_ms\<close> when \<open>should_wait\<close>.\<close>

definition deadline_reached :: "nat \<Rightarrow> 'a notif_state_scheme \<Rightarrow> bool" where
  "deadline_reached now s \<longleftrightarrow>
     int now \<ge> int (rx_started_at s) + cf_notif_incomplete_timeout (cfg s) * int ns_per_s"

definition wait_ms :: "nat \<Rightarrow> 'a notif_state_scheme \<Rightarrow> int" where
  "wait_ms now s =
     (let remaining_ms = (int (rx_started_at s) + cf_notif_incomplete_timeout (cfg s) * int ns_per_s - int now) div 1000000
      in min (max 1 remaining_ms) NOTIFICATION_POLL_SLICE_MS)"

definition round_head ::
  "xml_root \<Rightarrow> int \<Rightarrow> cb_step \<Rightarrow> notif_state \<Rightarrow> health_event list \<times> notif_state \<times> int option" where
  "round_head xml fd e s =
     (let ts = stamps e;
          c = process_rx_buffer xml ts fd (clock_rx e) (begin_cb s);
          c = (if partial_size_limit_reached c then finalize_incomplete ts fd size_guard_message c
               else if partial_timeout_reached (clock_timeout e) c
               then finalize_incomplete ts fd timeout_guard_message c
               else c);
          (c, wait) =
            (if rx_buffer c \<noteq> [] \<and> cf_notif_incomplete_timeout (cfg c) > 0 then
               if deadline_reached (clock_deadline e) c
               then (finalize_incomplete ts fd timeout_guard_message c, None)
               else (c, Some (wait_ms (clock_deadline e) c))
             else (c, None))
      in (events_to_emit c, notif_state.truncate c, wait))"

text \<open>The critical section after a poll that timed out.\<close>

definition poll_timed_out :: "int \<Rightarrow> cb_step \<Rightarrow> notif_state \<Rightarrow> health_event list \<times> notif_state" where
  "poll_timed_out fd e s =
     (let c = begin_cb s;
          c = (if partial_timeout_reached (clock_poll e) c
               then finalize_incomplete (stamps e) fd timeout_guard_message c else c)
      in (events_to_emit c, notif_state.truncate c))"

text \<open>One round of the loop: the events emitted to the bus, the client, and how the callback ended, if it
  did (\<open>None\<close>: the loop goes on).\<close>

definition callback_round ::
  "xml_root \<Rightarrow> int \<Rightarrow> cb_step \<Rightarrow> notif_state \<Rightarrow> health_event list \<times> notif_state \<times> cb_end option" where
  "callback_round xml fd e s =
     (let (evs, s, wait) = round_head xml fd e (others1 e s) in
      case wait of
        None \<Rightarrow> (evs, s, Some Finished)
      | Some w \<Rightarrow>
          let s = others2 e s in
          case poll_notification fd (polls e) of
            Blocked \<Rightarrow> (evs, s, Some Running)
          | Returns (Inl ex) \<Rightarrow> (evs, s, Some (Failed ex))
          | Returns (Inr ready) \<Rightarrow>
              if ready = 0 then
                let (evs2, s) = poll_timed_out fd e s in (evs @ evs2, s, None)
              else
                case read_currently_available fd s (reads e) of
                  Blocked \<Rightarrow> (evs, s, Some Running)
                | Returns (Inl ex) \<Rightarrow> (evs, s, Some (Failed ex))
                | Returns (Inr got) \<Rightarrow>
                    let (evs2, s) = absorb xml (stamps e) fd got (clock_poll e) (others3 e s)
                    in (evs @ evs2, s, None))"

text \<open>The loop; without further answers of the environment it is \<open>Running\<close>.\<close>

fun callback_loop ::
  "xml_root \<Rightarrow> int \<Rightarrow> cb_step list \<Rightarrow> notif_state \<Rightarrow> health_event list \<times> notif_state \<times> cb_end" where
  "callback_loop xml fd [] s = ([], s, Running)"
| "callback_loop xml fd (e # es) s =
     (let (evs, s, r) = callback_round xml fd e s in
      case r of
        Some r \<Rightarrow> (evs, s, r)
      | None \<Rightarrow> let (evs', s, r) = callback_loop xml fd es s in (evs @ evs', s, r))"

text \<open>\<open>on_notification_ready\<close>: the first read (with the reads, clock and stamps of \<open>e\<close>), then the loop;
  a failure is wrapped.\<close>

definition on_notification_ready ::
  "xml_root \<Rightarrow> int \<Rightarrow> cb_step \<Rightarrow> cb_step list \<Rightarrow> notif_state \<Rightarrow> health_event list \<times> notif_state \<times> cb_end" where
  "on_notification_ready xml fd e es s =
     (let (evs, s, r) =
        (case read_currently_available fd s (reads e) of
           Blocked \<Rightarrow> ([], s, Running)
         | Returns (Inl ex) \<Rightarrow> ([], s, Failed ex)
         | Returns (Inr bytes) \<Rightarrow>
             let (evs1, s) = absorb xml (stamps e) fd bytes (clock_poll e) (others3 e s);
                 (evs2, s, r) = callback_loop xml fd es s
             in (evs1 @ evs2, s, r))
      in (evs, s, case r of
            Failed ex \<Rightarrow> Failed (Netconf_Exception (''Unable to read from channel: '' @ what ex))
          | _ \<Rightarrow> r))"

section \<open>Invariants of the critical sections\<close>

lemma queue_inv_set_rx [simp]:
  "queue_inv (s\<lparr>rx_buffer := r\<rparr>) = queue_inv s" "queue_inv (s\<lparr>rx_timer_active := b\<rparr>) = queue_inv s"
  "queue_inv (s\<lparr>rx_started_at := n\<rparr>) = queue_inv s"
  by (simp_all add: queue_inv_def)

lemma queue_inv_handle_piece: "queue_inv s \<Longrightarrow> queue_inv (handle_piece xml ts fd p s)"
  by (cases p) (simp_all add: process_eom_frame_def drop_orphan_def process_recovered_missing_eom_def
      abandon_partial_def Let_def queue_inv_enqueue)

lemma queue_inv_handle_pieces: "queue_inv s \<Longrightarrow> queue_inv (handle_pieces xml ts fd ps s)"
  by (induction ps arbitrary: s) (simp_all add: queue_inv_handle_piece)

lemma queue_inv_process: "queue_inv s \<Longrightarrow> queue_inv (process_rx_buffer xml ts fd now s)"
  by (simp add: process_rx_buffer_pieces queue_inv_handle_pieces split: prod.splits)

lemma queue_inv_finalize: "queue_inv s \<Longrightarrow> queue_inv (finalize_incomplete ts fd m s)"
  by (simp add: finalize_incomplete_def Let_def queue_inv_enqueue)

lemma queue_inv_rx_read: "queue_inv s \<Longrightarrow> queue_inv (rx_read xml ts fd c s)"
  by (simp add: rx_read_def queue_inv_process)

lemma queue_inv_absorb: "queue_inv s \<Longrightarrow> absorb xml ts fd b now s = (evs, s') \<Longrightarrow> queue_inv s'"
  by (auto simp: absorb_def Let_def queue_inv_rx_read queue_inv_finalize)

lemma queue_inv_poll_timed_out: "queue_inv s \<Longrightarrow> poll_timed_out fd e s = (evs, s') \<Longrightarrow> queue_inv s'"
  by (auto simp: poll_timed_out_def Let_def queue_inv_finalize)

lemma queue_inv_round_head: "queue_inv s \<Longrightarrow> round_head xml fd e s = (evs, s', w) \<Longrightarrow> queue_inv s'"
  by (auto simp: round_head_def Let_def queue_inv_process queue_inv_finalize split: if_splits)

text \<open>The environment keeps the invariant of the queue.\<close>

definition fair_step :: "cb_step \<Rightarrow> bool" where
  "fair_step e \<longleftrightarrow> (\<forall>s. queue_inv s \<longrightarrow> queue_inv (others1 e s) \<and> queue_inv (others2 e s) \<and> queue_inv (others3 e s))"

lemma queue_inv_round:
  assumes "queue_inv s" "fair_step e" "callback_round xml fd e s = (evs, s', r)"
  shows "queue_inv s'"
proof -
  obtain evs1 s1 w where head: "round_head xml fd e (others1 e s) = (evs1, s1, w)"
    by (cases "round_head xml fd e (others1 e s)")
  have fair: "queue_inv (others1 e t)" "queue_inv (others2 e t)" "queue_inv (others3 e t)" if "queue_inv t" for t
    using assms(2) that by (simp_all add: fair_step_def)
  have inv1: "queue_inv s1" by (rule queue_inv_round_head [OF fair(1) [OF assms(1)] head])
  note inv2 = fair(2) [OF inv1] and inv3 = fair(3) [OF fair(2) [OF inv1]]
  from assms(3) head inv1 inv2 show ?thesis
    by (auto simp: callback_round_def Let_def split: option.splits outcome.splits sum.splits prod.splits if_splits
        dest: queue_inv_poll_timed_out [OF inv2] queue_inv_absorb [OF inv3])
qed

lemma queue_inv_loop:
  assumes "queue_inv s" "\<forall>e\<in>set es. fair_step e" "callback_loop xml fd es s = (evs, s', r)"
  shows "queue_inv s'"
  using assms
proof (induction es arbitrary: s evs)
  case (Cons e es)
  obtain evs1 s1 r1 where round: "callback_round xml fd e s = (evs1, s1, r1)"
    by (cases "callback_round xml fd e s")
  have "queue_inv s1" using queue_inv_round [OF Cons.prems(1) _ round] Cons.prems(2) by simp
  with Cons round show ?case by (cases r1) (auto split: prod.splits)
qed simp

text \<open>
  C22. Robustness of the callback. However the network, the clocks and the other threads behave, and
  however the callback ends, the queue's invariant (bound, counters, unreported drops below the
  threshold) survives it, and the only exception it lets out is a \<open>NetconfException\<close> with its prefix.
\<close>

theorem callback_keeps_queue_invariant:
  assumes "queue_inv s" "\<forall>e\<in>set (e # es). fair_step e"
    and "on_notification_ready xml fd e es s = (evs, s', r)"
  shows "queue_inv s' \<and>
    (\<forall>ex. r = Failed ex \<longrightarrow> (\<exists>m. ex = Netconf_Exception (''Unable to read from channel: '' @ m)))"
proof -
  have "queue_inv (others3 e s)" using assms(1,2) by (simp add: fair_step_def)
  moreover have "\<forall>e\<in>set es. fair_step e" using assms(2) by simp
  ultimately show ?thesis
    using assms(1,3)
    by (auto simp: on_notification_ready_def Let_def split: outcome.splits sum.splits prod.splits cb_end.splits
        dest: queue_inv_absorb intro: queue_inv_loop)
qed

section \<open>How the callback ends\<close>

lemma loop_finished:
  "callback_loop xml fd es s = (evs, s', Finished) \<Longrightarrow> \<exists>e t evs'. round_head xml fd e t = (evs', s', None)"
proof (induction es arbitrary: s evs)
  case (Cons e es)
  obtain evs1 s1 r1 where round: "callback_round xml fd e s = (evs1, s1, r1)"
    by (cases "callback_round xml fd e s")
  show ?case
  proof (cases r1)
    case None
    with Cons round show ?thesis by (auto split: prod.splits)
  next
    case (Some r)
    with Cons.prems round have "callback_round xml fd e s = (evs, s', Some Finished)" by simp
    then show ?thesis
      by (auto simp: callback_round_def Let_def
          split: option.splits outcome.splits sum.splits prod.splits if_splits)
  qed
qed simp

text \<open>The client after the guards of a round.\<close>

definition round_guards :: "xml_root \<Rightarrow> int \<Rightarrow> cb_step \<Rightarrow> notif_state \<Rightarrow> cb_state" where
  "round_guards xml fd e s =
     (let c = process_rx_buffer xml (stamps e) fd (clock_rx e) (begin_cb s) in
      if partial_size_limit_reached c then finalize_incomplete (stamps e) fd size_guard_message c
      else if partial_timeout_reached (clock_timeout e) c
      then finalize_incomplete (stamps e) fd timeout_guard_message c
      else c)"

lemma round_head_guards:
  "round_head xml fd e s =
    (let c = round_guards xml fd e s in
     if rx_buffer c \<noteq> [] \<and> cf_notif_incomplete_timeout (cfg c) > 0 then
       if deadline_reached (clock_deadline e) c
       then let c = finalize_incomplete (stamps e) fd timeout_guard_message c
            in (events_to_emit c, notif_state.truncate c, None)
       else (events_to_emit c, notif_state.truncate c, Some (wait_ms (clock_deadline e) c))
     else (events_to_emit c, notif_state.truncate c, None))"
  by (simp add: round_head_def round_guards_def Let_def)

lemma timer_finalize [simp]: "rx_timer_active (finalize_incomplete ts fd m c) = False"
  by (simp add: finalize_incomplete_def Let_def add_diagnostic_event_def enqueue_or_drop_def)

lemma timer_process [simp]:
  "rx_timer_active (process_rx_buffer xml ts fd now c) = (rx_buffer (process_rx_buffer xml ts fd now c) \<noteq> [])"
  by (simp add: process_rx_buffer_pieces split: prod.splits)

lemma round_guards_result:
  "rx_timer_active (round_guards xml fd e s) = (rx_buffer (round_guards xml fd e s) \<noteq> []) \<and>
   \<not> partial_size_limit_reached (round_guards xml fd e s)"
  by (simp add: round_guards_def Let_def partial_size_limit_reached_def)

lemma queue_inv_round_guards: "queue_inv s \<Longrightarrow> queue_inv (round_guards xml fd e s)"
  by (simp add: round_guards_def Let_def queue_inv_process queue_inv_finalize)

lemma truncate_rx [simp]:
  "rx_buffer (notif_state.truncate c) = rx_buffer c" "rx_timer_active (notif_state.truncate c) = rx_timer_active c"
  "rx_started_at (notif_state.truncate c) = rx_started_at c" "incomplete_count (notif_state.truncate c) = incomplete_count c"
  "notif_socket (notif_state.truncate c) = notif_socket c"
  by (simp_all add: notif_state.truncate_def)

text \<open>
  What the callback leaves and how it waits. Each round that goes on waiting polls for 1 to 1000
  milliseconds, with bytes in the buffer and the timer running. When the callback returns normally
  with the timeout guard enabled, the receive buffer is empty and the timer is stopped: it never
  returns while a partial notification is buffered. With only the size guard enabled the buffer may
  keep a partial, always shorter than the configured limit.
\<close>

theorem callback_exit_state:
  "(round_head xml fd e s = (evs, s', Some w) \<longrightarrow>
      1 \<le> w \<and> w \<le> 1000 \<and> rx_buffer s' \<noteq> [] \<and> rx_timer_active s' \<and> 0 < cf_notif_incomplete_timeout (cfg s')) \<and>
   (on_notification_ready xml fd e es s = (evs, s', Finished) \<and> queue_inv s' \<longrightarrow>
      (0 < cf_notif_incomplete_timeout (cfg s') \<longrightarrow> rx_buffer s' = [] \<and> \<not> rx_timer_active s') \<and>
      (cf_notif_incomplete_timeout (cfg s') = -1 \<longrightarrow>
         length (rx_buffer s') < nat (cf_notif_incomplete_max_kb (cfg s')) * 1024))"
proof (intro conjI impI)
  assume head: "round_head xml fd e s = (evs, s', Some w)"
  with round_guards_result [of xml fd e s]
  show "1 \<le> w" "w \<le> 1000" "rx_buffer s' \<noteq> []" "rx_timer_active s'" "0 < cf_notif_incomplete_timeout (cfg s')"
    by (auto simp: round_head_guards Let_def wait_ms_def NOTIFICATION_POLL_SLICE_MS_def split: if_splits)
next
  assume run: "on_notification_ready xml fd e es s = (evs, s', Finished) \<and> queue_inv s'"
  then obtain t where "\<exists>evs. callback_loop xml fd es t = (evs, s', Finished)"
    by (auto simp: on_notification_ready_def Let_def split: outcome.splits sum.splits prod.splits cb_end.splits)
  then obtain e' t' evs' where head: "round_head xml fd e' t' = (evs', s', None)"
    using loop_finished by blast
  note guards = round_guards_result [of xml fd e' t']
  assume "0 < cf_notif_incomplete_timeout (cfg s')"
  with head guards show "rx_buffer s' = []" and "\<not> rx_timer_active s'"
    by (auto simp: round_head_guards Let_def split: if_splits)
next
  assume run: "on_notification_ready xml fd e es s = (evs, s', Finished) \<and> queue_inv s'"
  then obtain t where "\<exists>evs. callback_loop xml fd es t = (evs, s', Finished)"
    by (auto simp: on_notification_ready_def Let_def split: outcome.splits sum.splits prod.splits cb_end.splits)
  then obtain e' t' evs' where head: "round_head xml fd e' t' = (evs', s', None)"
    using loop_finished by blast
  note guards = round_guards_result [of xml fd e' t']
  assume off: "cf_notif_incomplete_timeout (cfg s') = -1"
  then have "0 < cf_notif_incomplete_max_kb (cfg s')"
    using run by (auto simp: queue_inv_def valid_config_def)
  with off head guards show "length (rx_buffer s') < nat (cf_notif_incomplete_max_kb (cfg s')) * 1024"
    by (auto simp: round_head_guards Let_def partial_size_limit_reached_def split: if_splits)
qed

text \<open>A round with constant clocks in which the other threads do nothing.\<close>

definition round_at :: "nat \<Rightarrow> poll_result list \<Rightarrow> read_result list \<Rightarrow> cb_step" where
  "round_at now ps rs = \<lparr>stamps = (\<lambda>_. ''t''), others1 = (\<lambda>s. s), clock_rx = now, clock_timeout = now,
     clock_deadline = now, polls = ps, others2 = (\<lambda>s. s), clock_poll = now, reads = rs, others3 = (\<lambda>s. s)\<rparr>"

lemma round_at_fields [simp]:
  "others1 (round_at now ps rs) s = s" "others2 (round_at now ps rs) s = s" "others3 (round_at now ps rs) s = s"
  "clock_rx (round_at now ps rs) = now" "clock_timeout (round_at now ps rs) = now"
  "clock_deadline (round_at now ps rs) = now" "clock_poll (round_at now ps rs) = now"
  "polls (round_at now ps rs) = ps" "reads (round_at now ps rs) = rs" "stamps (round_at now ps rs) = (\<lambda>_. ''t'')"
  "fair_step (round_at now ps rs)"
  by (simp_all add: round_at_def fair_step_def)

lemma split_buffer_Nil [simp]: "split_buffer [] = ([], [])"
  by (simp add: split_buffer.simps)

text \<open>With nothing buffered, the critical sections do nothing.\<close>

lemma truncate_begin_cb [simp]: "notif_state.truncate (begin_cb s) = s"
  by (rule begin_cb_fields)

lemma process_nothing:
  assumes "rx_buffer c = []" "\<not> rx_timer_active c"
  shows "process_rx_buffer xml ts fd now c = c"
proof -
  have "process_rx_buffer xml ts fd now c =
      c\<lparr>rx_buffer := [], rx_timer_active := False, rx_started_at := rx_started_at c\<rparr>"
    using assms by (simp add: process_rx_buffer_pieces)
  also have "\<dots> = c" using assms by (cases c) simp
  finally show ?thesis .
qed

lemma absorb_nothing:
  "rx_buffer s = [] \<Longrightarrow> \<not> rx_timer_active s \<Longrightarrow> absorb xml ts fd [] now s = ([], s)"
  by (simp add: absorb_def rx_read_def process_nothing partial_size_limit_reached_def)

lemma round_guards_nothing:
  "rx_buffer s = [] \<Longrightarrow> \<not> rx_timer_active s \<Longrightarrow> round_guards xml fd e s = begin_cb s"
  by (simp add: round_guards_def process_nothing partial_size_limit_reached_def partial_timeout_reached_def)

lemma round_head_nothing:
  "rx_buffer s = [] \<Longrightarrow> \<not> rx_timer_active s \<Longrightarrow> round_head xml fd e s = ([], s, None)"
  by (simp add: round_head_guards round_guards_nothing)

lemma idle_callback:
  "on_notification_ready yes_xml 4 (round_at 0 [] [Again]) [round_at 0 [] []] (subscribed 4 (initial_notif small_client)) =
    ([], subscribed 4 (initial_notif small_client), Finished)"
proof -
  let ?s = "subscribed 4 (initial_notif small_client)"
  have "rx_buffer ?s = []" "\<not> rx_timer_active ?s" "notif_channel ?s" "notif_session ?s" "notif_socket ?s = 4"
    by (simp_all add: subscribed_def)
  then show ?thesis
    by (simp add: on_notification_ready_def read_currently_available_def absorb_nothing callback_round_def
        round_head_nothing)
qed

lemma queue_inv_small: "queue_inv (subscribed 4 (initial_notif small_client))"
  using q_inv_subscribed [of small_client 4]
  by (simp add: q_inv_def valid_config_def small_client_def BASE_CLIENT_KWARGS_def)

theorem callback_keeps_queue_invariant_witness:
  "\<exists>evs s' r. on_notification_ready yes_xml 4 (round_at 0 [] [Again]) [round_at 0 [] []]
      (subscribed 4 (initial_notif small_client)) = (evs, s', r) \<and> queue_inv s'"
  using callback_keeps_queue_invariant [OF queue_inv_small _ idle_callback] idle_callback by auto

theorem callback_exit_state_witness:
  "\<exists>evs s'. on_notification_ready yes_xml 4 (round_at 0 [] [Again]) [round_at 0 [] []]
      (subscribed 4 (initial_notif small_client)) = (evs, s', Finished) \<and> rx_buffer s' = []"
proof -
  have "0 < cf_notif_incomplete_timeout (cfg (subscribed 4 (initial_notif small_client)))"
    by (simp add: subscribed_def initial_notif_def small_client_def BASE_CLIENT_KWARGS_def)
  with callback_exit_state [of _ _ _ _ _ "subscribed 4 (initial_notif small_client)"] idle_callback queue_inv_small
  show ?thesis by blast
qed

section \<open>A sender that stops in the middle of a notification\<close>

text \<open>What becomes of a buffered partial notification when a guard fires.\<close>

definition partial_reported :: "notif_state \<Rightarrow> health_event list \<Rightarrow> notif_state \<Rightarrow> bool" where
  "partial_reported s evs s' \<longleftrightarrow>
     rx_buffer s' = [] \<and> \<not> rx_timer_active s' \<and> incomplete_count s' = incomplete_count s + 1 \<and>
     ''incomplete_notification'' \<in> ev_type ` set evs \<and>
     (if queue_full s then dropped_queue_full_count s' = dropped_queue_full_count s + 1
      else notif_queue s' = notif_queue s @ [rx_buffer s])"

lemma finalize_reports:
  assumes "rx_buffer s \<noteq> []"
  shows "partial_reported s (events_to_emit (finalize_incomplete ts fd m (begin_cb s)))
    (notif_state.truncate (finalize_incomplete ts fd m (begin_cb s)))"
proof -
  define c where "c = add_diagnostic_event ts fd ''incomplete_notification'' m (length (rx_buffer s)) True
    ((begin_cb s)\<lparr>rx_buffer := [], rx_timer_active := False\<rparr>)"
  have fin: "finalize_incomplete ts fd m (begin_cb s) = enqueue_or_drop ts fd (rx_buffer s) (length (rx_buffer s)) c"
    using assms by (simp add: finalize_incomplete_def c_def Let_def)
  have c: "rx_buffer c = []" "\<not> rx_timer_active c" "incomplete_count c = incomplete_count s + 1"
    "''incomplete_notification'' \<in> ev_type ` set (events_to_emit c)"
    "queue_full c = queue_full s" "notif_queue c = notif_queue s"
    "dropped_queue_full_count c = dropped_queue_full_count s"
    by (simp_all add: c_def add_diagnostic_event_def queue_full_def make_event_def)
  have enq: "rx_buffer (enqueue_or_drop ts fd b d c) = []" "\<not> rx_timer_active (enqueue_or_drop ts fd b d c)"
    "incomplete_count (enqueue_or_drop ts fd b d c) = incomplete_count s + 1"
    "set (events_to_emit c) \<subseteq> set (events_to_emit (enqueue_or_drop ts fd b d c))" for b d
    using c by (auto simp: enqueue_or_drop_def Let_def)
  have "(if queue_full s then dropped_queue_full_count (enqueue_or_drop ts fd (rx_buffer s) d c) =
        dropped_queue_full_count s + 1
      else notif_queue (enqueue_or_drop ts fd (rx_buffer s) d c) = notif_queue s @ [rx_buffer s])" for d
    using c assms by (auto simp: enqueue_or_drop_def Let_def)
  moreover have "''incomplete_notification'' \<in> ev_type ` set (events_to_emit (enqueue_or_drop ts fd b d c))" for b d
    using c(4) enq(4) by (meson image_mono subsetD)
  ultimately show ?thesis using enq by (simp add: partial_reported_def fin)
qed

text \<open>A buffer the parser waits on.\<close>

definition waiting :: "notif_state \<Rightarrow> bool" where
  "waiting s \<longleftrightarrow> rx_buffer s \<noteq> [] \<and> rx_timer_active s \<and> split_buffer (rx_buffer s) = ([], rx_buffer s) \<and>
     0 < cf_notif_incomplete_timeout (cfg s)"

lemma process_waiting:
  assumes "rx_buffer c \<noteq> []" "rx_timer_active c" "split_buffer (rx_buffer c) = ([], rx_buffer c)"
  shows "process_rx_buffer xml ts fd now c = c"
proof -
  have "process_rx_buffer xml ts fd now c =
      c\<lparr>rx_buffer := rx_buffer c, rx_timer_active := True, rx_started_at := rx_started_at c\<rparr>"
    using assms by (simp add: process_rx_buffer_pieces)
  also have "\<dots> = c" using assms(2) by (cases c) simp
  finally show ?thesis .
qed

lemma round_head_waiting:
  assumes "waiting s"
  obtains (fired) evs s' where "round_head xml fd e s = (evs, s', None)" "partial_reported s evs s'"
  | (waits) w where "round_head xml fd e s = ([], s, Some w)" "\<not> deadline_reached (clock_deadline e) s"
proof -
  let ?c = "begin_cb s"
  have c: "rx_buffer s \<noteq> []" "rx_timer_active s" "0 < cf_notif_incomplete_timeout (cfg s)"
    and p: "process_rx_buffer xml (stamps e) fd (clock_rx e) ?c = ?c"
    using assms by (auto simp: waiting_def intro!: process_waiting)
  have fin: "partial_reported s (events_to_emit (finalize_incomplete (stamps e) fd m ?c))
      (notif_state.truncate (finalize_incomplete (stamps e) fd m ?c))" for m
    by (rule finalize_reports [OF c(1)])
  have reached: "deadline_reached n ?c = deadline_reached n s" for n by (simp add: deadline_reached_def)
  have "(\<exists>evs s'. round_head xml fd e s = (evs, s', None) \<and> partial_reported s evs s') \<or>
      (\<exists>w. round_head xml fd e s = ([], s, Some w) \<and> \<not> deadline_reached (clock_deadline e) s)"
    using c fin by (simp add: round_head_guards round_guards_def p Let_def reached)
  then show ?thesis using fired waits by blast
qed

text \<open>A round in which nothing arrives and nobody else touches the client.\<close>

definition silent :: "int \<Rightarrow> cb_step \<Rightarrow> bool" where
  "silent fd e \<longleftrightarrow> others1 e = (\<lambda>s. s) \<and> others2 e = (\<lambda>s. s) \<and> poll_notification fd (polls e) = Returns (Inr 0)"

lemma silent_rounds:
  assumes "waiting s" "\<forall>e\<in>set es. silent fd e" "\<exists>e\<in>set es. deadline_reached (clock_deadline e) s"
  shows "\<exists>evs s'. callback_loop xml fd es s = (evs, s', Finished) \<and> partial_reported s evs s'"
  using assms
proof (induction es)
  case (Cons e es)
  have e: "others1 e = (\<lambda>s. s)" "others2 e = (\<lambda>s. s)" "poll_notification fd (polls e) = Returns (Inr 0)"
    using Cons.prems(2) by (simp_all add: silent_def)
  from Cons.prems(1) show ?case
  proof (cases rule: round_head_waiting [of s xml fd e])
    case (fired evs s')
    then show ?thesis by (simp add: callback_round_def e)
  next
    case (waits w)
    with Cons.prems(3) have later: "\<exists>e\<in>set es. deadline_reached (clock_deadline e) s" by auto
    show ?thesis
    proof (cases "partial_timeout_reached (clock_poll e) (begin_cb s)")
      case True
      obtain evs s' where out: "poll_timed_out fd e s = (evs, s')" "partial_reported s evs s'"
        using True finalize_reports [of s "stamps e" fd timeout_guard_message] Cons.prems(1)
        by (simp add: poll_timed_out_def waiting_def Let_def)
      obtain e' es' where es: "es = e' # es'" using later by (cases es) auto
      then have "others1 e' = (\<lambda>s. s)" using Cons.prems(2) by (simp add: silent_def)
      then have "callback_loop xml fd es s' = ([], s', Finished)"
        using out(2) by (simp add: es callback_round_def round_head_nothing partial_reported_def)
      with waits out e show ?thesis by (simp add: callback_round_def)
    next
      case False
      then have "poll_timed_out fd e s = ([], s)" by (simp add: poll_timed_out_def)
      moreover obtain evs s' where "callback_loop xml fd es s = (evs, s', Finished)" "partial_reported s evs s'"
        using Cons.IH Cons.prems later by auto
      ultimately show ?thesis using waits e by (simp add: callback_round_def)
    qed
  qed
qed simp

text \<open>
  C21. A silent sender. While a notification is incomplete the callback waits; if nothing more arrives,
  then by the round whose clock reads the configured timeout it has returned, the partial bytes have
  been reported as an incomplete notification and queued (or counted as dropped when the queue is
  full), and the buffer is empty. No number of earlier rounds changes this.
\<close>

theorem silent_partial_is_reported:
  assumes "rx_buffer s \<noteq> []" "rx_timer_active s" "split_buffer (rx_buffer s) = ([], rx_buffer s)"
    and "0 < cf_notif_incomplete_timeout (cfg s)"
    and "\<forall>e\<in>set es. silent fd e"
    and "\<exists>e\<in>set es. int (clock_deadline e) \<ge> int (rx_started_at s) + cf_notif_incomplete_timeout (cfg s) * int ns_per_s"
  shows "\<exists>evs s'. callback_loop xml fd es s = (evs, s', Finished) \<and> partial_reported s evs s'"
  using assms by (intro silent_rounds) (simp_all add: waiting_def deadline_reached_def)

lemma silent_round_at [simp]: "0 \<le> fd \<Longrightarrow> silent fd (round_at now [Poll_Timeout] rs)"
  by (simp add: silent_def poll_notification.simps [of fd "[Poll_Timeout]"]) (simp add: round_at_def)

theorem silent_partial_is_reported_witness:
  "\<exists>evs s'. callback_loop yes_xml 4 [round_at 7 [Poll_Timeout] [], round_at 5000000007 [Poll_Timeout] []]
      ((subscribed 4 (initial_notif small_client))\<lparr>rx_buffer := ''<notif'', rx_timer_active := True, rx_started_at := 7\<rparr>) =
      (evs, s', Finished) \<and> notif_queue s' = [''<notif'']"
proof -
  let ?s = "(subscribed 4 (initial_notif small_client))\<lparr>rx_buffer := ''<notif'', rx_timer_active := True, rx_started_at := 7\<rparr>"
  let ?es = "[round_at 7 [Poll_Timeout] [], round_at 5000000007 [Poll_Timeout] []]"
  have "split_buffer ''<notif'' = ([], ''<notif'')" by code_simp
  moreover have q: "notif_queue ?s = []" "cf_notif_queue_max_size (cfg ?s) = 1" "cf_notif_incomplete_timeout (cfg ?s) = 5"
    by (simp_all add: subscribed_def initial_notif_def small_client_def BASE_CLIENT_KWARGS_def)
  ultimately obtain evs s' where "callback_loop yes_xml 4 ?es ?s = (evs, s', Finished)" "partial_reported ?s evs s'"
    using silent_partial_is_reported [of ?s ?es 4 yes_xml] by (auto simp: ns_per_s_def)
  moreover have "\<not> queue_full ?s" using q by (simp add: queue_full_def)
  ultimately show ?thesis using q by (auto simp: partial_reported_def)
qed

section \<open>A sender that never leaves the buffer empty\<close>

text \<open>A round in which the socket delivers the rest of a notification and the beginning of the next.\<close>

definition flood :: "nat \<Rightarrow> cb_step" where
  "flood now = round_at now [Revents False False True] [Nread ''tification/>]]>]]><no'', Again]"

text \<open>The clocks of successive rounds are less than the timeout \<open>T\<close> apart.\<close>

fun paced :: "int \<Rightarrow> nat \<Rightarrow> nat list \<Rightarrow> bool" where
  "paced T t [] = True"
| "paced T t (n # ns) = (int n < int t + T * int ns_per_s \<and> paced T n ns)"

definition flooded :: "int \<Rightarrow> nat \<Rightarrow> notif_state \<Rightarrow> bool" where
  "flooded fd t s \<longleftrightarrow> rx_buffer s = ''<no'' \<and> rx_timer_active s \<and> rx_started_at s = t \<and>
     notif_channel s \<and> notif_session s \<and> notif_socket s = fd \<and> 0 \<le> fd \<and>
     cf_notif_queue_max_size (cfg s) < 0"

lemma partial_no: "partial_frame ''<no''"
  unfolding partial_frame_def
  by (intro disjI2 exI [of _ tiny_frame] exI [of _ 3]) (simp add: good_tiny_frame, simp add: tiny_frame_def)

lemma split_flood: "split_buffer ''<notification/>]]>]]><no'' = ([Eom_Frame tiny_frame], ''<no'')"
  using split_buffer_frames [of "[tiny_frame]" "''<no''"] partial_no good_tiny_frame
  by (simp add: tiny_frame_def EOM_def)

lemma absorb_flood:
  assumes "flooded fd t s" "is_valid_notification_document xml tiny_frame"
  shows "\<exists>s'. absorb xml ts fd ''tification/>]]>]]><no'' now s = ([], s') \<and> flooded fd now s' \<and> cfg s' = cfg s \<and>
    notif_queue s' = notif_queue s @ [tiny_frame @ EOM]"
proof -
  define c where "c = (begin_cb s)\<lparr>rx_buffer := ''<notification/>]]>]]><no''\<rparr>"
  have f: "rx_buffer s = ''<no''" "rx_timer_active s" "notif_channel s" "notif_session s" "notif_socket s = fd" "0 \<le> fd"
    "cf_notif_queue_max_size (cfg s) < 0"
    using assms(1) by (simp_all add: flooded_def)
  have room: "\<not> queue_full c" using f by (simp add: c_def queue_full_def)
  define d where "d = c\<lparr>notif_queue := notif_queue c @ [tiny_frame @ EOM], queued_notifications := queued_notifications c + 1,
      enqueued_count := enqueued_count c + 1,
      queue_high_watermark := max (queue_high_watermark c) (length (notif_queue c) + 1)\<rparr>"
  have "handle_pieces xml ts fd [Eom_Frame tiny_frame] c = d"
    using enqueue_room [OF room, of "tiny_frame @ EOM" ts fd 0] assms(2) by (simp add: process_valid_frame d_def)
  then have read: "rx_read xml ts fd (''tification/>]]>]]><no'', now) (begin_cb s) =
      d\<lparr>rx_buffer := ''<no'', rx_timer_active := True, rx_started_at := now\<rparr>"
    using f by (simp add: rx_read_def process_rx_buffer_pieces c_def split_flood)
  have small: "\<not> partial_size_limit_reached (d\<lparr>rx_buffer := ''<no'', rx_timer_active := True, rx_started_at := now\<rparr>)"
    by (simp add: partial_size_limit_reached_def) linarith
  have "absorb xml ts fd ''tification/>]]>]]><no'' now s =
      ([], notif_state.truncate (d\<lparr>rx_buffer := ''<no'', rx_timer_active := True, rx_started_at := now\<rparr>))"
    using small by (simp add: absorb_def read Let_def) (simp add: d_def c_def)
  then show ?thesis
    using f by (simp add: flooded_def d_def c_def notif_state.truncate_def begin_cb_def notif_state.extend_def)
qed

lemma flood_round:
  assumes "flooded fd t s" "is_valid_notification_document xml tiny_frame"
    and "0 < cf_notif_incomplete_timeout (cfg s)" "int n < int t + cf_notif_incomplete_timeout (cfg s) * int ns_per_s"
  shows "\<exists>s'. callback_round xml fd (flood n) s = ([], s', None) \<and> flooded fd n s' \<and> cfg s' = cfg s \<and>
    notif_queue s' = notif_queue s @ [tiny_frame @ EOM]"
proof -
  have f: "rx_buffer s = ''<no''" "rx_timer_active s" "rx_started_at s = t" "notif_channel s" "notif_session s"
    "notif_socket s = fd" "0 \<le> fd"
    using assms(1) by (simp_all add: flooded_def)
  have "split_buffer ''<no'' = ([], ''<no'')" using split_buffer_frames [of "[]" "''<no''"] partial_no by simp
  then have p: "process_rx_buffer xml ts fd now (begin_cb s) = begin_cb s" for ts now
    using f by (intro process_waiting) simp_all
  have small: "\<not> partial_size_limit_reached (begin_cb s)"
    using f by (simp add: partial_size_limit_reached_def) linarith
  have early: "\<not> partial_timeout_reached n (begin_cb s)" "\<not> deadline_reached n (begin_cb s)"
    using assms(4) f by (simp_all add: partial_timeout_reached_def deadline_reached_def)
  have head: "round_head xml fd (flood n) s = ([], s, Some (wait_ms n (begin_cb s)))"
    using assms(3) f early by (simp add: round_head_guards round_guards_def p small flood_def Let_def)
  have "poll_notification fd [Revents False False True] = Returns (Inr 1)"
    using f by (simp add: poll_notification.simps [of fd "[Revents False False True]"])
  with head f absorb_flood [OF assms(1,2), of "\<lambda>_. ''t''" n] show ?thesis
    by (auto simp: callback_round_def flood_def read_currently_available_def)
qed

text \<open>
  C23. Starvation. The callback does not return while bytes are buffered, and the timer restarts with
  every completed notification. A peer whose packets always end in the middle of a notification keeps
  the callback, and with it the reactor thread and every other subscription of that thread, busy for
  ever, however large the timeouts: after any number of rounds less than the timeout apart it is still
  running, although it delivers one notification per round.
\<close>

theorem steady_sender_starves_reactor:
  assumes "flooded fd t s" "is_valid_notification_document xml tiny_frame"
    and "0 < cf_notif_incomplete_timeout (cfg s)" "paced (cf_notif_incomplete_timeout (cfg s)) t ns"
  shows "\<exists>s'. callback_loop xml fd (map flood ns) s = ([], s', Running) \<and>
    notif_queue s' = notif_queue s @ replicate (length ns) (tiny_frame @ EOM) \<and> rx_buffer s' = ''<no''"
  using assms
proof (induction ns arbitrary: s t)
  case (Cons n ns)
  obtain s1 where s1: "callback_round xml fd (flood n) s = ([], s1, None)" "flooded fd n s1" "cfg s1 = cfg s"
    "notif_queue s1 = notif_queue s @ [tiny_frame @ EOM]"
    using flood_round [OF Cons.prems(1-3), of n] Cons.prems(4) by auto
  have "paced (cf_notif_incomplete_timeout (cfg s1)) n ns" "0 < cf_notif_incomplete_timeout (cfg s1)"
    using Cons.prems(3,4) s1(3) by simp_all
  from Cons.IH [OF s1(2) Cons.prems(2) this(2,1)] s1 show ?case by auto
qed (simp add: flooded_def)

theorem steady_sender_starves_reactor_witness:
  "\<exists>s'. callback_loop yes_xml 4 (map flood [2000000000, 4000000000, 6000000000, 8000000000])
      ((subscribed 4 (initial_notif BASE_CLIENT_KWARGS))\<lparr>rx_buffer := ''<no'', rx_timer_active := True\<rparr>) = ([], s', Running) \<and>
    length (notif_queue s') = 4"
proof -
  let ?s = "(subscribed 4 (initial_notif BASE_CLIENT_KWARGS))\<lparr>rx_buffer := ''<no'', rx_timer_active := True\<rparr>"
  have f: "flooded 4 0 ?s" by (simp add: flooded_def subscribed_def initial_notif_def BASE_CLIENT_KWARGS_def)
  have v: "is_valid_notification_document yes_xml tiny_frame" by code_simp
  have t: "cf_notif_incomplete_timeout (cfg ?s) = 5"
    by (simp add: subscribed_def initial_notif_def BASE_CLIENT_KWARGS_def)
  have q: "notif_queue ?s = []" by (simp add: subscribed_def initial_notif_def)
  have "paced (cf_notif_incomplete_timeout (cfg ?s)) 0 [2000000000, 4000000000, 6000000000, 8000000000]"
    "0 < cf_notif_incomplete_timeout (cfg ?s)"
    unfolding t by (simp_all add: ns_per_s_def)
  from steady_sender_starves_reactor [OF f v this(2,1)] obtain s' where
    s': "callback_loop yes_xml 4 (map flood [2000000000, 4000000000, 6000000000, 8000000000]) ?s = ([], s', Running)"
    "notif_queue s' = notif_queue ?s @ replicate (length [2000000000, 4000000000, 6000000000, 8000000000::nat]) (tiny_frame @ EOM)"
    by blast
  have "length (notif_queue s') = 4" unfolding s'(2) q by simp
  with s'(1) show ?thesis by (intro exI conjI)
qed

end
