(* ===== verification/Thread_Pool.thy ===== *)
theory Thread_Pool
  imports Errors "HOL-Library.Multiset"
begin

text \<open>
  \<open>ThreadPool\<close> (\<open>include/thread_pool.hpp\<close>) and the global pool (\<open>src/thread_pool_global.cpp\<close>): a
  step relation on the workers. A worker's thread runs through the phases of its loop; \<open>enqueue\<close>
  appends to the worker it picks from the counters it read (which may be stale); the destructor sets
  \<open>stop_\<close>. A waiting worker moves whenever its predicate holds: no wake-up is lost here, and \<open>Pool_Wakeup\<close> shows which can be.
  Tasks are names; \<open>accepted\<close> and \<open>finished\<close> are histories the code does not keep.
\<close>

section \<open>The pool\<close>

type_synonym task = nat

datatype phase =
    Waiting          \<comment> \<open>in the condition wait\<close>
  | Popped task      \<comment> \<open>the task is taken from the queue, the counter not yet decremented\<close>
  | Executing task
  | Exited

record worker =
  tasks :: "task list"
  inflight :: nat
  phase :: phase
  accepted :: "task list"
  finished :: "task list"

record pool =
  workers :: "worker list"
  stop :: bool

definition new_worker :: worker where
  "new_worker = \<lparr>tasks = [], inflight = 0, phase = Waiting, accepted = [], finished = []\<rparr>"

definition ThreadPool :: "nat \<Rightarrow> pool" where
  "ThreadPool n = \<lparr>workers = replicate n new_worker, stop = False\<rparr>"

text \<open>The loop of \<open>enqueue\<close> over the counters it loads: \<open>best\<close> and \<open>bestCount\<close> (\<open>None\<close> is \<open>SIZE_MAX\<close>).\<close>

fun pick_loop :: "nat list \<Rightarrow> nat \<Rightarrow> nat \<Rightarrow> nat option \<Rightarrow> nat" where
  "pick_loop [] i best best_count = best"
| "pick_loop (cnt # cnts) i best best_count =
     (if (case best_count of None \<Rightarrow> True | Some b \<Rightarrow> cnt < b)
      then pick_loop cnts (i + 1) i (Some cnt)
      else pick_loop cnts (i + 1) best best_count)"

definition pick_worker :: "nat list \<Rightarrow> nat" where
  "pick_worker counts = pick_loop counts 0 0 None"

definition add_task :: "task \<Rightarrow> worker \<Rightarrow> worker" where
  "add_task t w = w\<lparr>tasks := tasks w @ [t], inflight := inflight w + 1, accepted := accepted w @ [t]\<rparr>"

text \<open>\<open>enqueue\<close>: a stopped pool only prints a message.\<close>

definition enqueue :: "nat list \<Rightarrow> task \<Rightarrow> pool \<Rightarrow> pool" where
  "enqueue counts t p =
     (let best = pick_worker counts in p\<lparr>workers := (workers p)[best := add_task t (workers p ! best)]\<rparr>)"

text \<open>One step of a worker's thread; \<open>None\<close>: it cannot move (it waits, or has exited).\<close>

definition worker_step :: "bool \<Rightarrow> worker \<Rightarrow> worker option" where
  "worker_step stopped w =
     (case phase w of
        Waiting \<Rightarrow>
          (if \<not> stopped \<and> tasks w = [] then None
           else if stopped \<and> tasks w = [] then Some (w\<lparr>phase := Exited\<rparr>)
           else Some (w\<lparr>tasks := tl (tasks w), phase := Popped (hd (tasks w))\<rparr>))
      | Popped t \<Rightarrow> Some (w\<lparr>inflight := inflight w - 1, phase := Executing t\<rparr>)
      | Executing t \<Rightarrow> Some (w\<lparr>finished := finished w @ [t], phase := Waiting\<rparr>)
      | Exited \<Rightarrow> None)"

text \<open>Labels name the thread that moves.\<close>

datatype pool_label = Enqueue "nat list" task | Work nat | Stop

inductive pool_step :: "pool \<Rightarrow> pool_label \<Rightarrow> pool \<Rightarrow> bool" where
  enq: "length counts = length (workers p) \<Longrightarrow> workers p \<noteq> [] \<Longrightarrow> pool_step p (Enqueue counts t) (enqueue counts t p)"
| work: "i < length (workers p) \<Longrightarrow> worker_step (stop p) (workers p ! i) = Some w \<Longrightarrow>
    pool_step p (Work i) (p\<lparr>workers := (workers p)[i := w]\<rparr>)"
| stop: "pool_step p Stop (p\<lparr>stop := True\<rparr>)"

inductive_cases enqE: "pool_step p (Enqueue counts t) q"
inductive_cases workE: "pool_step p (Work i) q"
inductive_cases stopE: "pool_step p Stop q"

inductive pool_run :: "pool \<Rightarrow> pool_label list \<Rightarrow> pool \<Rightarrow> bool" where
  nil: "pool_run p [] p"
| cons: "pool_step p l q \<Longrightarrow> pool_run q ls r \<Longrightarrow> pool_run p (l # ls) r"

inductive_cases run_nilE [elim!]: "pool_run p [] q"
inductive_cases run_consE [elim!]: "pool_run p (l # ls) r"

section \<open>The worker that is picked\<close>

lemma pick_loop_spec:
  assumes "pre \<noteq> []" "length pre = i" "best < i" "c = pre ! best"
    "\<forall>j<i. c \<le> pre ! j" "\<forall>j<best. c < pre ! j"
  shows "let r = pick_loop cnts i best (Some c); all = pre @ cnts in
    r < length all \<and> (\<forall>j<length all. all ! r \<le> all ! j) \<and> (\<forall>j<r. all ! r < all ! j)"
  using assms
proof (induction cnts arbitrary: pre i best c)
  case Nil
  then show ?case by simp
next
  case (Cons cnt cnts)
  have nth: "(pre @ [cnt]) ! j = (if j = i then cnt else pre ! j)" if "j < Suc i" for j
    using that Cons.prems(2) by (auto simp: nth_append)
  show ?case
  proof (cases "cnt < c")
    case True
    have "let r = pick_loop cnts (Suc i) i (Some cnt); all = (pre @ [cnt]) @ cnts in
        r < length all \<and> (\<forall>j<length all. all ! r \<le> all ! j) \<and> (\<forall>j<r. all ! r < all ! j)"
      by (rule Cons.IH) (use Cons.prems True nth in \<open>auto simp: less_Suc_eq intro: order.strict_trans2 less_imp_le\<close>)
    with True show ?thesis by simp
  next
    case False
    have "let r = pick_loop cnts (Suc i) best (Some c); all = (pre @ [cnt]) @ cnts in
        r < length all \<and> (\<forall>j<length all. all ! r \<le> all ! j) \<and> (\<forall>j<r. all ! r < all ! j)"
      by (rule Cons.IH) (use Cons.prems False nth in \<open>auto simp: less_Suc_eq\<close>)
    with False show ?thesis by simp
  qed
qed

lemma pick_worker_least:
  assumes "counts \<noteq> []"
  shows "pick_worker counts < length counts" "\<forall>j<length counts. counts ! pick_worker counts \<le> counts ! j"
    "\<forall>j<pick_worker counts. counts ! pick_worker counts < counts ! j"
proof -
  obtain c cs where c: "counts = c # cs" using assms by (cases counts) auto
  show "pick_worker counts < length counts" "\<forall>j<length counts. counts ! pick_worker counts \<le> counts ! j"
    "\<forall>j<pick_worker counts. counts ! pick_worker counts < counts ! j"
    using pick_loop_spec [of "[c]" 1 0 c cs] by (simp_all add: pick_worker_def c Let_def)
qed

section \<open>Invariant\<close>

fun in_hand :: "phase \<Rightarrow> task list" where
  "in_hand Waiting = []"
| "in_hand (Popped t) = [t]"
| "in_hand (Executing t) = [t]"
| "in_hand Exited = []"

definition worker_inv :: "worker \<Rightarrow> bool" where
  "worker_inv w \<longleftrightarrow>
     accepted w = finished w @ in_hand (phase w) @ tasks w \<and>
     inflight w = length (tasks w) + (case phase w of Popped t \<Rightarrow> 1 | _ \<Rightarrow> 0)"

definition pool_inv :: "pool \<Rightarrow> bool" where
  "pool_inv p \<longleftrightarrow> list_all worker_inv (workers p) \<and> (\<forall>w\<in>set (workers p). phase w = Exited \<longrightarrow> stop p)"

lemma worker_inv_step: "worker_inv w \<Longrightarrow> worker_step b w = Some w' \<Longrightarrow> worker_inv w'"
  by (cases "tasks w"; cases "phase w") (auto simp: worker_inv_def worker_step_def split: if_splits)

lemma worker_inv_add: "worker_inv w \<Longrightarrow> worker_inv (add_task t w)"
  by (auto simp: worker_inv_def add_task_def)

lemma exited_step: "worker_step b w = Some w' \<Longrightarrow> phase w' = Exited \<Longrightarrow> b"
  by (cases "phase w") (auto simp: worker_step_def split: if_splits)

lemma pool_inv_step:
  assumes "pool_inv p" "pool_step p l q"
  shows "pool_inv q \<and> length (workers q) = length (workers p)"
  using assms(2)
proof cases
  case (enq counts t)
  let ?i = "pick_worker counts"
  have "?i < length (workers p)" using pick_worker_least(1) [of counts] enq by (cases counts) auto
  then have w: "workers p ! ?i \<in> set (workers p)" by simp
  then have "worker_inv (add_task t (workers p ! ?i))"
    using assms(1) by (auto simp: pool_inv_def list_all_iff intro: worker_inv_add)
  with assms(1) w show ?thesis
    by (auto simp: enq enqueue_def Let_def pool_inv_def list_all_iff add_task_def
        dest!: set_update_subset_insert [THEN subsetD])
next
  case (work i w)
  then have i: "workers p ! i \<in> set (workers p)" by simp
  with assms(1) work have "worker_inv w" by (auto simp: pool_inv_def list_all_iff intro: worker_inv_step)
  with assms(1) work exited_step show ?thesis
    by (auto simp: pool_inv_def list_all_iff dest!: set_update_subset_insert [THEN subsetD])
next
  case stop
  with assms(1) show ?thesis by (auto simp: pool_inv_def)
qed

lemma pool_inv_run:
  "pool_run p ls q \<Longrightarrow> pool_inv p \<Longrightarrow> pool_inv q \<and> length (workers q) = length (workers p)"
  by (induction rule: pool_run.induct) (auto dest: pool_inv_step)

lemma pool_inv_new: "pool_inv (ThreadPool n)"
  by (simp add: pool_inv_def ThreadPool_def new_worker_def worker_inv_def list_all_iff)

section \<open>Accounting\<close>

fun enqueued :: "pool_label list \<Rightarrow> task list" where
  "enqueued [] = []"
| "enqueued (Enqueue counts t # ls) = t # enqueued ls"
| "enqueued (Work i # ls) = enqueued ls"
| "enqueued (Stop # ls) = enqueued ls"

definition all_accepted :: "pool \<Rightarrow> task multiset" where
  "all_accepted p = mset (concat (map accepted (workers p)))"

definition all_finished :: "pool \<Rightarrow> task multiset" where
  "all_finished p = mset (concat (map finished (workers p)))"

lemma mset_concat_update:
  "i < length ws \<Longrightarrow> f w = f (ws ! i) @ ts \<Longrightarrow>
    mset (concat (map f (ws[i := w]))) = mset (concat (map f ws)) + mset ts"
  by (induction ws arbitrary: i) (auto split: nat.splits)

lemma worker_step_accepted: "worker_step b w = Some w' \<Longrightarrow> accepted w' = accepted w"
  by (cases "phase w") (auto simp: worker_step_def split: if_splits)

lemma all_accepted_step:
  assumes "pool_step p l q"
  shows "all_accepted q = all_accepted p + mset (enqueued [l])"
  using assms
proof cases
  case (enq counts t)
  have i: "pick_worker counts < length (workers p)"
    using pick_worker_least(1) [of counts] enq by (cases counts) auto
  have "accepted (add_task t (workers p ! pick_worker counts)) = accepted (workers p ! pick_worker counts) @ [t]"
    by (simp add: add_task_def)
  from mset_concat_update [where f = accepted, OF i this] show ?thesis
    by (simp add: enq enqueue_def Let_def all_accepted_def)
next
  case (work i w)
  have "accepted w = accepted (workers p ! i) @ []" using worker_step_accepted work by simp
  from mset_concat_update [where f = accepted, OF work(3) this] show ?thesis
    by (simp add: work all_accepted_def)
qed (simp_all add: all_accepted_def)

lemma enqueued_Cons: "mset (enqueued (l # ls)) = mset (enqueued [l]) + mset (enqueued ls)"
  by (cases l) simp_all

lemma all_accepted_run: "pool_run p ls q \<Longrightarrow> all_accepted q = all_accepted p + mset (enqueued ls)"
proof (induction rule: pool_run.induct)
  case (cons p l q ls r)
  then show ?case using all_accepted_step [OF cons(1)] enqueued_Cons [of l ls] by (simp add: ac_simps)
qed simp

lemma accepted_enqueued: "pool_run (ThreadPool n) ls q \<Longrightarrow> all_accepted q = mset (enqueued ls)"
  by (drule all_accepted_run) (simp add: all_accepted_def ThreadPool_def new_worker_def)

text \<open>What is not finished yet: in a worker's hands or in its queue.\<close>

definition all_open :: "pool \<Rightarrow> task multiset" where
  "all_open p = mset (concat (map (\<lambda>w. in_hand (phase w) @ tasks w) (workers p)))"

lemma accepted_split: "pool_inv p \<Longrightarrow> all_accepted p = all_finished p + all_open p"
proof -
  have "list_all worker_inv ws \<Longrightarrow> mset (concat (map accepted ws)) =
      mset (concat (map finished ws)) + mset (concat (map (\<lambda>w. in_hand (phase w) @ tasks w) ws))" for ws
    by (induction ws) (simp_all add: worker_inv_def)
  then show "pool_inv p \<Longrightarrow> all_accepted p = all_finished p + all_open p"
    by (simp add: pool_inv_def all_accepted_def all_finished_def all_open_def)
qed

lemma worker_step_finished:
  "worker_step b w = Some w' \<Longrightarrow> finished w' = finished w @ (case phase w of Executing t \<Rightarrow> [t] | _ \<Rightarrow> [])"
  by (cases "phase w") (auto simp: worker_step_def split: if_splits)

lemma all_finished_work:
  assumes "i < length (workers p)" "worker_step (stop p) (workers p ! i) = Some w"
  shows "all_finished (p\<lparr>workers := (workers p)[i := w]\<rparr>) =
    all_finished p + mset (case phase (workers p ! i) of Executing t \<Rightarrow> [t] | _ \<Rightarrow> [])"
  using mset_concat_update [where f = finished, OF assms(1) worker_step_finished [OF assms(2)]] by (simp add: all_finished_def)

lemma all_finished_enqueue:
  assumes "length counts = length (workers p)" "workers p \<noteq> []"
  shows "all_finished (enqueue counts t p) = all_finished p"
proof -
  have "pick_worker counts < length (workers p)" using pick_worker_least(1) [of counts] assms by (cases counts) auto
  from mset_concat_update [where f = finished and ts = "[]", OF this] show ?thesis
    by (simp add: enqueue_def Let_def all_finished_def add_task_def)
qed

text \<open>
  No task of the pool is lost, duplicated or invented, and a worker takes its tasks in the order
  they were given to it: at every moment each worker's accepted tasks are those it has finished, then
  the one in its hands, then its queue; the tasks accepted by all workers are those enqueued; and the
  load counter is the length of the queue, or one more between a worker's taking a task and its
  decrement: it never counts a running task, and never wraps below zero.
\<close>

theorem pool_accounts_for_tasks:
  assumes "pool_run (ThreadPool n) ls q"
  shows "length (workers q) = n \<and> all_accepted q = mset (enqueued ls) \<and>
    (\<forall>w\<in>set (workers q). accepted w = finished w @ in_hand (phase w) @ tasks w \<and>
       inflight w = length (tasks w) + (case phase w of Popped t \<Rightarrow> 1 | _ \<Rightarrow> 0))"
proof -
  have "length (workers (ThreadPool n)) = n" by (simp add: ThreadPool_def)
  then show ?thesis
    using pool_inv_run [OF assms pool_inv_new] accepted_enqueued [OF assms]
    by (auto simp: pool_inv_def list_all_iff worker_inv_def)
qed

section \<open>The destructor\<close>

definition weight :: "worker \<Rightarrow> nat" where
  "weight w = 3 * length (tasks w) +
     (case phase w of Waiting \<Rightarrow> 1 | Popped t \<Rightarrow> 3 | Executing t \<Rightarrow> 2 | Exited \<Rightarrow> 0)"

definition pool_weight :: "pool \<Rightarrow> nat" where
  "pool_weight p = sum_list (map weight (workers p))"

lemma weight_step: "worker_step b w = Some w' \<Longrightarrow> weight w' < weight w"
  by (cases "tasks w"; cases "phase w") (auto simp: worker_step_def weight_def split: if_splits)

lemma pool_weight_step:
  assumes "pool_step p (Work i) q"
  shows "pool_weight q < pool_weight p"
proof -
  obtain w where i: "i < length (workers p)" "worker_step (stop p) (workers p ! i) = Some w"
    "q = p\<lparr>workers := (workers p)[i := w]\<rparr>"
    using assms by (auto elim: workE)
  have "sum_list (map weight (ws[j := w])) < sum_list (map weight ws)"
    if "j < length ws" "weight w < weight (ws ! j)" for ws j
    using that by (induction ws arbitrary: j) (auto split: nat.splits)
  with i weight_step [OF i(2)] show ?thesis by (simp add: pool_weight_def)
qed

definition drained :: "pool \<Rightarrow> bool" where
  "drained p \<longleftrightarrow> (\<forall>w\<in>set (workers p). phase w = Exited \<longrightarrow> tasks w = [])"

lemma drained_work:
  assumes "drained p" "pool_step p (Work i) q"
  shows "drained q \<and> stop q = stop p"
proof -
  obtain w where i: "i < length (workers p)" "worker_step (stop p) (workers p ! i) = Some w"
    "q = p\<lparr>workers := (workers p)[i := w]\<rparr>"
    using assms(2) by (auto elim: workE)
  have "phase w = Exited \<longrightarrow> tasks w = []"
    using i(2) by (cases "phase (workers p ! i)") (auto simp: worker_step_def split: if_splits)
  with assms(1) i show ?thesis
    by (auto simp: drained_def dest!: set_update_subset_insert [THEN subsetD])
qed

lemma drain_run:
  assumes "pool_run p ls q" "drained p" "\<forall>l\<in>set ls. \<exists>i. l = Work i"
  shows "drained q \<and> stop q = stop p \<and> length ls + pool_weight q \<le> pool_weight p"
  using assms
proof (induction rule: pool_run.induct)
  case (cons p l q ls r)
  then obtain i where l: "l = Work i" by auto
  from drained_work [of p i q] pool_weight_step [of p i q] cons l show ?case by auto
qed simp

lemma drained_before_stop: "pool_inv p \<Longrightarrow> \<not> stop p \<Longrightarrow> drained p"
  by (auto simp: pool_inv_def drained_def)

lemma stuck_exited: "worker_step True w = None \<Longrightarrow> phase w = Exited"
  by (cases "phase w") (auto simp: worker_step_def split: if_splits)

text \<open>
  The destructor, if each worker learns of \<open>stop_\<close>. Once a running pool is stopped and nothing is enqueued any more, its workers
  take only a bounded number of steps, and when none can move all have left their loops, every task that was
  ever enqueued has run exactly once, and no queue holds one.
\<close>

theorem stopped_pool_drains:
  assumes "pool_run (ThreadPool n) before p" "\<not> stop p"
    and "pool_run (p\<lparr>stop := True\<rparr>) ls q" "\<forall>l\<in>set ls. \<exists>i. l = Work i"
  shows "length ls \<le> pool_weight p \<and>
    ((\<forall>w\<in>set (workers q). worker_step (stop q) w = None) \<longrightarrow>
      (\<forall>w\<in>set (workers q). phase w = Exited \<and> tasks w = []) \<and> all_finished q = mset (enqueued before))"
proof -
  have inv: "pool_inv p" using pool_inv_run [OF assms(1) pool_inv_new] by simp
  then have inv': "pool_inv (p\<lparr>stop := True\<rparr>)" by (simp add: pool_inv_def)
  have "drained (p\<lparr>stop := True\<rparr>)" using drained_before_stop [OF inv assms(2)] by (simp add: drained_def)
  note run = drain_run [OF assms(3) this assms(4)]
  have bound: "length ls \<le> pool_weight p" using run by (simp add: pool_weight_def)
  have no_enq: "enqueued ls = []" using assms(4) by (induction ls) auto
  have "all_accepted q = mset (enqueued before)"
    using all_accepted_run [OF assms(3)] accepted_enqueued [OF assms(1)] no_enq
    by (simp add: all_accepted_def)
  moreover have "(\<forall>w\<in>set (workers q). phase w = Exited \<and> tasks w = []) \<and> all_finished q = all_accepted q"
    if "\<forall>w\<in>set (workers q). worker_step (stop q) w = None"
  proof -
    have ex: "phase w = Exited \<and> tasks w = []" if "w \<in> set (workers q)" for w
      using that \<open>\<forall>w\<in>set (workers q). _\<close> run stuck_exited [of w] by (auto simp: drained_def)
    moreover have "accepted w = finished w" if "w \<in> set (workers q)" for w
      using pool_inv_run [OF assms(3) inv'] ex [OF that] that
      by (auto simp: pool_inv_def list_all_iff worker_inv_def)
    then have eq: "map accepted (workers q) = map finished (workers q)" by simp
    have "all_finished q = all_accepted q" by (simp only: all_finished_def all_accepted_def eq)
    ultimately show ?thesis by blast
  qed
  ultimately show ?thesis using bound by auto
qed

section \<open>Where the load counter fails\<close>

lemma pick_first_zero: "cs \<noteq> [] \<Longrightarrow> hd cs = 0 \<Longrightarrow> pick_worker cs = 0"
  using pick_worker_least(3) [of cs] by (rule_tac ccontr) (auto simp: hd_conv_nth)

text \<open>Worker 0 with \<open>t\<close> at the head of its queue, while it does not move.\<close>

lemma blocked_head:
  assumes "pool_run q ls r" "Work 0 \<notin> set ls" "workers q \<noteq> []" "\<exists>ts. tasks (workers q ! 0) = t # ts"
  shows "workers r \<noteq> [] \<and> (\<exists>ts. tasks (workers r ! 0) = t # ts) \<and> phase (workers r ! 0) = phase (workers q ! 0)"
  using assms
proof (induction rule: pool_run.induct)
  case (cons p l q ls r)
  have "workers q \<noteq> [] \<and> (\<exists>ts. tasks (workers q ! 0) = t # ts) \<and> phase (workers q ! 0) = phase (workers p ! 0)"
    using cons(1)
  proof cases
    case (enq counts u)
    with cons.prems show ?thesis
      by (cases "pick_worker counts") (auto simp: enqueue_def Let_def add_task_def)
  next
    case (work i w)
    with cons.prems show ?thesis by (cases i) auto
  qed (use cons.prems in auto)
  with cons show ?case by simp
qed simp

text \<open>
  A task can be stuck behind a busy worker while all others are idle. The counter that
  \<open>enqueue\<close> compares is decremented before the task runs, so a worker that executes a task for a long
  time (a health-event wait without timeout, say) counts as free; with equal counts the first worker
  is picked. If the first worker is executing and its queue is empty, the next task goes to its queue,
  whatever the others do, and in every continuation in which that worker does not finish, the task
  stays at the head of the queue, and no other worker can take it.
\<close>

theorem busy_worker_blocks_task:
  assumes "workers p = w # ws" "phase w = Executing long" "tasks w = []" "inflight w = 0"
    and "pool_step p (Enqueue (map inflight (workers p)) t) q"
    and "pool_run q ls r" "Work 0 \<notin> set ls"
  shows "(\<exists>ts. tasks (workers r ! 0) = t # ts) \<and> phase (workers r ! 0) = Executing long"
proof -
  have q: "q = enqueue (map inflight (workers p)) t p" using assms(5) by (auto elim: enqE)
  have "pick_worker (map inflight (workers p)) = 0" by (rule pick_first_zero) (simp_all add: assms(1,4))
  then have "workers q = add_task t w # ws" by (simp add: q enqueue_def assms(1))
  then show ?thesis
    using blocked_head [OF assms(6,7), of t] assms(2,3) by (simp add: add_task_def)
qed

text \<open>A pool whose workers have all left their loops.\<close>

lemma enqueue_exited:
  assumes "\<forall>w\<in>set (workers p). phase w = Exited" "pool_step p (Enqueue counts t) q"
  shows "pick_worker counts < length (workers q)" "t \<in> set (tasks (workers q ! pick_worker counts))"
    "\<forall>w\<in>set (workers q). phase w = Exited" "map finished (workers q) = map finished (workers p)"
    "length (workers q) = length (workers p)"
    "\<forall>j < length (workers p). set (tasks (workers p ! j)) \<subseteq> set (tasks (workers q ! j))"
proof -
  from assms(2) have e: "length counts = length (workers p)" "workers p \<noteq> []" "q = enqueue counts t p"
    by (auto elim: enqE)
  then have i: "pick_worker counts < length (workers p)"
    using pick_worker_least(1) [of counts] by (cases counts) auto
  let ?w = "add_task t (workers p ! pick_worker counts)"
  have q: "workers q = (workers p)[pick_worker counts := ?w]" by (simp add: e enqueue_def Let_def)
  have w: "phase ?w = phase (workers p ! pick_worker counts)" "finished ?w = finished (workers p ! pick_worker counts)"
    "tasks ?w = tasks (workers p ! pick_worker counts) @ [t]"
    by (simp_all add: add_task_def)
  show "pick_worker counts < length (workers q)" "t \<in> set (tasks (workers q ! pick_worker counts))"
    "length (workers q) = length (workers p)"
    using i by (simp_all add: q w)
  show "\<forall>w\<in>set (workers q). phase w = Exited"
    using assms(1) i w(1) by (auto simp: q dest!: set_update_subset_insert [THEN subsetD])
  show "map finished (workers q) = map finished (workers p)"
    using i by (simp add: q map_update w(2)) (metis length_map list_update_id nth_map)
  show "\<forall>j < length (workers p). set (tasks (workers p ! j)) \<subseteq> set (tasks (workers q ! j))"
    using i by (auto simp: q nth_list_update w(3))
qed

lemma exited_run:
  assumes "pool_run q ls r" "\<forall>w\<in>set (workers q). phase w = Exited"
  shows "map finished (workers r) = map finished (workers q) \<and> (\<forall>i. Work i \<notin> set ls) \<and>
    length (workers r) = length (workers q) \<and>
    (\<forall>j < length (workers q). set (tasks (workers q ! j)) \<subseteq> set (tasks (workers r ! j)))"
  using assms
proof (induction rule: pool_run.induct)
  case (cons p l q ls r)
  show ?case
  proof (cases l)
    case (Enqueue counts t)
    note e = enqueue_exited [OF cons.prems cons(1) [unfolded Enqueue]]
    from cons.IH [OF e(3)] e(4-6) Enqueue show ?thesis by simp (metis subset_trans)
  next
    case (Work i)
    with cons(1) obtain w where "i < length (workers p)" "worker_step (stop p) (workers p ! i) = Some w"
      by (auto elim: workE)
    with cons.prems show ?thesis by (auto simp: worker_step_def dest: bspec [OF _ nth_mem])
  next
    case Stop
    with cons(1) have "workers q = workers p" by (auto elim: stopE)
    with cons Stop show ?thesis by simp
  qed
qed simp

text \<open>
  \<open>enqueue\<close> on a pool whose workers have left their loops only prints a message: it accepts the
  task, returns a future for it, and the task never runs: no worker moves again, nothing more is
  finished, and the task stays in a queue.
\<close>

theorem task_after_shutdown_never_runs:
  assumes "\<forall>w\<in>set (workers p). phase w = Exited" "pool_run p (Enqueue counts t # ls) r"
  shows "map finished (workers r) = map finished (workers p) \<and> t \<in> set (tasks (workers r ! pick_worker counts)) \<and>
    (\<forall>i. Work i \<notin> set ls)"
proof -
  from assms(2) obtain q where q: "pool_step p (Enqueue counts t) q" "pool_run q ls r" by auto
  note e = enqueue_exited [OF assms(1) q(1)]
  from exited_run [OF q(2) e(3)] e show ?thesis by auto
qed

section \<open>Runs that the theorems apply to\<close>

text \<open>The relation as a function.\<close>

fun do_step :: "pool_label \<Rightarrow> pool \<Rightarrow> pool option" where
  "do_step (Enqueue counts t) p =
     (if length counts = length (workers p) \<and> workers p \<noteq> [] then Some (enqueue counts t p) else None)"
| "do_step (Work i) p =
     (if i < length (workers p)
      then map_option (\<lambda>w. p\<lparr>workers := (workers p)[i := w]\<rparr>) (worker_step (stop p) (workers p ! i))
      else None)"
| "do_step Stop p = Some (p\<lparr>stop := True\<rparr>)"

fun do_run :: "pool_label list \<Rightarrow> pool \<Rightarrow> pool option" where
  "do_run [] p = Some p"
| "do_run (l # ls) p = Option.bind (do_step l p) (do_run ls)"

lemma do_step_sound: "do_step l p = Some q \<Longrightarrow> pool_step p l q"
  by (cases l) (auto split: if_splits intro: pool_step.intros)

lemma do_run_sound: "do_run ls p = Some q \<Longrightarrow> pool_run p ls q"
  by (induction ls arbitrary: p) (auto simp: bind_eq_Some_conv intro: pool_run.intros do_step_sound)

lemmas pool_eval = enqueue_def pick_worker_def ThreadPool_def add_task_def new_worker_def worker_step_def numeral_2_eq_2

text \<open>A pool of two that gets one task, and is stopped.\<close>

theorem pool_accounts_for_tasks_witness:
  "\<exists>q. do_run [Enqueue [0, 0] 7, Work 0, Work 0] (ThreadPool 2) = Some q \<and> all_accepted q = {#7#}"
proof -
  obtain q where q: "do_run [Enqueue [0, 0] 7, Work 0, Work 0] (ThreadPool 2) = Some q"
    by (simp add: pool_eval Let_def)
  from pool_accounts_for_tasks [OF do_run_sound [OF q]] q show ?thesis by auto
qed

theorem stopped_pool_drains_witness:
  "\<exists>p q. do_run [Enqueue [0, 0] 7] (ThreadPool 2) = Some p \<and>
    do_run [Work 1, Work 0, Work 0, Work 0, Work 0] (p\<lparr>stop := True\<rparr>) = Some q \<and> all_finished q = {#7#}"
proof -
  obtain p q where p: "do_run [Enqueue [0, 0] 7] (ThreadPool 2) = Some p" "\<not> stop p"
    and q: "do_run [Work 1, Work 0, Work 0, Work 0, Work 0] (p\<lparr>stop := True\<rparr>) = Some q"
    and halted: "\<forall>w\<in>set (workers q). worker_step (stop q) w = None"
    by (simp add: pool_eval Let_def)
  have "\<forall>l\<in>set [Work 1, Work 0, Work 0, Work 0, Work 0]. \<exists>i. l = Work i" by simp
  from stopped_pool_drains [OF do_run_sound [OF p(1)] p(2) do_run_sound [OF q] this] halted p(1) q
  show ?thesis by auto
qed

text \<open>Worker 0 runs task 7 for ever, worker 1 is idle, and task 8 waits behind task 7.\<close>

theorem busy_worker_blocks_task_witness:
  "\<exists>p q. do_run [Enqueue [0, 0] 7, Work 0, Work 0] (ThreadPool 2) = Some p \<and>
    do_run [Enqueue (map inflight (workers p)) 8, Enqueue [1, 0] 9, Work 1, Work 1, Work 1] p = Some q \<and>
    (\<exists>ts. tasks (workers q ! 0) = 8 # ts) \<and> workers q ! 1 = new_worker\<lparr>accepted := [9], finished := [9]\<rparr>"
proof -
  obtain p q where p: "do_run [Enqueue [0, 0] 7, Work 0, Work 0] (ThreadPool 2) = Some p"
    and q: "do_run [Enqueue (map inflight (workers p)) 8, Enqueue [1, 0] 9, Work 1, Work 1, Work 1] p = Some q"
      "workers q ! 1 = new_worker\<lparr>accepted := [9], finished := [9]\<rparr>"
    by (simp add: pool_eval Let_def)
  define w where "w = \<lparr>tasks = [], inflight = 0, phase = Executing 7, accepted = [7], finished = []\<rparr>"
  have w: "workers p = w # [new_worker]" "phase w = Executing 7" "tasks w = []" "inflight w = 0"
    using p by (auto simp: w_def pool_eval Let_def)
  from do_run_sound [OF q(1)] obtain q1 where
    q1: "pool_step p (Enqueue (map inflight (workers p)) 8) q1" "pool_run q1 [Enqueue [1, 0] 9, Work 1, Work 1, Work 1] q"
    by (rule run_consE)
  from busy_worker_blocks_task [OF w q1] p q show ?thesis by auto
qed

theorem task_after_shutdown_never_runs_witness:
  "\<exists>p q. do_run [Stop, Work 0] (ThreadPool 1) = Some p \<and> do_run [Enqueue [0] 7] p = Some q \<and>
    7 \<in> set (tasks (workers q ! 0))"
proof -
  obtain p q where p: "do_run [Stop, Work 0] (ThreadPool 1) = Some p" "\<forall>w\<in>set (workers p). phase w = Exited"
    and q: "do_run [Enqueue [0] 7] p = Some q"
    by (simp add: pool_eval Let_def)
  from task_after_shutdown_never_runs [OF p(2) do_run_sound [OF q]] p(1) q show ?thesis
    by (auto simp: pick_worker_def)
qed

section \<open>The global pool\<close>

text \<open>\<open>init_global_pool\<close> and \<open>get_pool\<close> on the size of the global pool, \<open>None\<close> before the first use.\<close>

definition init_global_pool :: "int \<Rightarrow> nat option \<Rightarrow> exn + nat option" where
  "init_global_pool nThreads g =
     (if nThreads \<le> 0 then Inl (Runtime_Error ''Invalid thread pool size'') else Inr (Some (nat nThreads)))"

definition get_pool :: "nat option \<Rightarrow> exn + nat option" where
  "get_pool g = (case g of None \<Rightarrow> init_global_pool 4 g | Some n \<Rightarrow> Inr g)"

lemma get_pool_positive:
  "(case g of None \<Rightarrow> True | Some n \<Rightarrow> 0 < n) \<Longrightarrow> \<exists>n. get_pool g = Inr (Some n) \<and> 0 < n"
  by (cases g) (simp_all add: get_pool_def init_global_pool_def)

end
