(* ===== verification/Channel_IO.thy ===== *)
theory Channel_IO
  imports Socket_Poll Stream_Scan
begin

text \<open>
  Reading and writing NETCONF messages on an SSH channel (\<open>src/netconf_client_helpers.cpp\<close>):
  \<open>read_until_eom_non_blocking\<close>, \<open>read_until_eom_blocking\<close> and the write loops of the RPC and hello
  functions. libssh2, \<open>poll\<close> and the clocks are inputs: one entry per round of a loop. \<open>Blocked\<close>
  means that the function has not returned when the answers run out.
\<close>

section \<open>The non-blocking reader\<close>

text \<open>An answer of \<open>libssh2_channel_read_nonblocking\<close>.\<close>

datatype chan_read = Got bytes | Got_Zero | Got_Eagain | Got_Error string

text \<open>The reader's parameters, and its local variables.\<close>

record read_params =
  rd_chan :: bool            \<comment> \<open>the pointer is non-null\<close>
  rd_sess :: bool
  rd_fd :: int
  rd_timeout :: int
  rd_max_kb :: int
  rd_incomplete_timeout :: int

record reader =
  response :: bytes
  last_data_time :: nat
  first_data_time :: nat
  got_any_data :: bool

text \<open>One round: the clock at its head, the read, the answers while it waits for the socket, and the
  clocks read when data arrive.\<close>

record read_round =
  rr_now :: nat
  rr_read :: chan_read
  rr_waits :: "(nat \<times> poll_result) list"
  rr_first :: nat
  rr_last :: nat

definition infinite_wait :: "read_params \<Rightarrow> bool" where
  "infinite_wait p \<longleftrightarrow> rd_timeout p < 0"

definition timeout_s :: "read_params \<Rightarrow> int" where
  "timeout_s p = (if infinite_wait p then 0 else rd_timeout p)"

definition size_limit_enabled :: "read_params \<Rightarrow> bool" where
  "size_limit_enabled p \<longleftrightarrow> infinite_wait p \<and> rd_max_kb p > 0"

definition time_limit_enabled :: "read_params \<Rightarrow> bool" where
  "time_limit_enabled p \<longleftrightarrow> infinite_wait p \<and> rd_incomplete_timeout p > 0"

definition incomplete_max_bytes :: "read_params \<Rightarrow> nat" where
  "incomplete_max_bytes p = (if size_limit_enabled p then nat (rd_max_kb p) * 1024 else 0)"

text \<open>The body of the loop: go on with other variables, return, or wait for ever.\<close>

datatype 'a loop_step = Next 'a | Done "exn + bytes" | Stalled

definition nb_wait :: "read_params \<Rightarrow> int \<Rightarrow> read_round \<Rightarrow> reader \<Rightarrow> reader loop_step" where
  "nb_wait p deadline e r =
     (case wait_for_libssh2_socket (rd_fd p) deadline (infinite_wait p) (rd_timeout p) (rr_waits e) of
        Blocked \<Rightarrow> Stalled
      | Returns (Inl ex) \<Rightarrow> Done (Inl ex)
      | Returns (Inr _) \<Rightarrow> Next r)"

definition nb_round :: "read_params \<Rightarrow> read_round \<Rightarrow> reader \<Rightarrow> reader loop_step" where
  "nb_round p e r =
     (if \<not> rd_chan p \<or> \<not> rd_sess p then Done (Inl (Netconf_Exception ''Operation cancelled: connection object is missing''))
      else if (size_limit_enabled p \<or> time_limit_enabled p) \<and> got_any_data r \<and>
          (time_limit_enabled p \<and>
             int (rr_now e) - int (first_data_time r) \<ge> rd_incomplete_timeout p * int ns_per_s \<or>
           size_limit_enabled p \<and> length (response r) \<ge> incomplete_max_bytes p)
      then Done (Inr (response r))
      else
        let deadline = int (last_data_time r) + timeout_s p * int ns_per_s in
        if \<not> infinite_wait p \<and> int (rr_now e) \<ge> deadline
        then Done (Inl (Netconf_Exception (read_timeout_message (rd_timeout p))))
        else case rr_read e of
            Got_Eagain \<Rightarrow>
              if infinite_wait p \<and> \<not> got_any_data r then Done (Inr (response r)) else nb_wait p deadline e r
          | Got_Error m \<Rightarrow> Done (Inl (Netconf_Exception (''Error reading from channel: '' @ m)))
          | Got_Zero \<Rightarrow>
              if infinite_wait p \<and> \<not> got_any_data r then Done (Inr (response r)) else nb_wait p deadline e r
          | Got bs \<Rightarrow>
              let r = (if got_any_data r then r else r\<lparr>got_any_data := True, first_data_time := rr_first e\<rparr>);
                  r = r\<lparr>response := response r @ bs, last_data_time := rr_last e\<rparr>
              in if find_sub EOM (response r) \<noteq> None then Done (Inr (response r))
                 else if size_limit_enabled p \<and> length (response r) \<ge> incomplete_max_bytes p
                 then Done (Inr (response r))
                 else Next r)"

text \<open>The loop, and the handler that wraps its exceptions.\<close>

fun nb_loop :: "read_params \<Rightarrow> read_round list \<Rightarrow> reader \<Rightarrow> (exn + bytes) outcome" where
  "nb_loop p [] r = Blocked"
| "nb_loop p (e # es) r =
     (case nb_round p e r of
        Next r \<Rightarrow> nb_loop p es r
      | Done x \<Rightarrow> Returns (rethrow Netconf_Exception ''Error occured while reading from channel: '' x)
      | Stalled \<Rightarrow> Blocked)"

definition new_reader :: "nat \<Rightarrow> reader" where
  "new_reader start = \<lparr>response = [], last_data_time = start, first_data_time = start, got_any_data = False\<rparr>"

definition read_until_eom_non_blocking :: "read_params \<Rightarrow> nat \<Rightarrow> read_round list \<Rightarrow> (exn + bytes) outcome" where
  "read_until_eom_non_blocking p start es = nb_loop p es (new_reader start)"

section \<open>The blocking reader\<close>

record bl_reader =
  bl_response :: bytes
  bl_last_data :: nat

record bl_round =
  br_now :: nat
  br_read :: chan_read
  br_last :: nat

text \<open>The text searched for the end marker: the last seven characters received, then the new data.\<close>

definition bl_window :: "bytes \<Rightarrow> bytes \<Rightarrow> bytes" where
  "bl_window resp new_data =
     (let tail = (if length resp \<ge> 7 then drop (length resp - 7) resp else resp) in tail @ new_data)"

definition bl_step :: "bool \<Rightarrow> int \<Rightarrow> bl_round \<Rightarrow> bl_reader \<Rightarrow> bl_reader loop_step" where
  "bl_step open_chan read_timeout e r =
     (if \<not> open_chan then Done (Inl (Netconf_Exception ''Operation cancelled: connection object is missing''))
      else if \<not> read_timeout < 0 \<and> int (br_now e) - int (bl_last_data r) > read_timeout * int ns_per_s
      then Done (Inl (Netconf_Exception (read_timeout_message read_timeout)))
      else case br_read e of
          Got_Eagain \<Rightarrow> Next r
        | Got_Error m \<Rightarrow> Done (Inl (Netconf_Exception (''Error reading from channel: '' @ m)))
        | read \<Rightarrow>
            let new_data = (case read of Got bs \<Rightarrow> bs | _ \<Rightarrow> []);
                resp = bl_response r @ new_data
            in if find_sub EOM (bl_window resp new_data) \<noteq> None then Done (Inr resp)
               else Next \<lparr>bl_response = resp, bl_last_data = br_last e\<rparr>)"

fun bl_loop :: "bool \<Rightarrow> int \<Rightarrow> bl_round list \<Rightarrow> bl_reader \<Rightarrow> (exn + bytes) outcome" where
  "bl_loop open_chan t [] r = Blocked"
| "bl_loop open_chan t (e # es) r =
     (case bl_step open_chan t e r of
        Next r \<Rightarrow> bl_loop open_chan t es r
      | Done x \<Rightarrow> Returns (rethrow Netconf_Exception ''Error occured while reading from channel: '' x)
      | Stalled \<Rightarrow> Blocked)"

definition read_until_eom_blocking :: "bool \<Rightarrow> int \<Rightarrow> nat \<Rightarrow> bl_round list \<Rightarrow> (exn + bytes) outcome" where
  "read_until_eom_blocking open_chan read_timeout start es =
     bl_loop open_chan read_timeout es \<lparr>bl_response = [], bl_last_data = start\<rparr>"

section \<open>Writing\<close>

text \<open>An answer of \<open>libssh2_channel_write\<close>; after \<open>LIBSSH2_ERROR_EAGAIN\<close> comes that of \<open>poll\<close>: an error,
  or none.\<close>

datatype chan_write = Wrote nat | Wrote_Eagain "string option" | Wrote_Error string

text \<open>The write loop: \<open>n\<close> is \<open>total_written\<close>; the result has the bytes the channel took.\<close>

fun write_loop ::
  "string \<Rightarrow> string \<Rightarrow> bytes \<Rightarrow> nat \<Rightarrow> chan_write list \<Rightarrow> bytes \<times> (exn + chan_write list) outcome" where
  "write_loop poll_msg err_msg data n [] =
     (if n < length data then ([], Blocked) else ([], Returns (Inr [])))"
| "write_loop poll_msg err_msg data n (w # ws) =
     (if n < length data then
        (case w of
           Wrote k \<Rightarrow>
             (case write_loop poll_msg err_msg data (n + k) ws of (sent, r) \<Rightarrow> (take k (drop n data) @ sent, r))
         | Wrote_Eagain None \<Rightarrow> write_loop poll_msg err_msg data n ws
         | Wrote_Eagain (Some m) \<Rightarrow> ([], Returns (Inl (Netconf_Exception (poll_msg @ m))))
         | Wrote_Error m \<Rightarrow> ([], Returns (Inl (Netconf_Exception (err_msg @ m)))))
      else ([], Returns (Inr (w # ws))))"

definition build_client_hello :: bytes where
  "build_client_hello =
     ''<?xml version=\"1.0\" encoding=\"UTF-8\"?>'' @
     ''<hello xmlns=\"urn:ietf:params:xml:ns:netconf:base:1.0\">'' @
       ''<capabilities>'' @
         ''<capability>urn:ietf:params:netconf:base:1.0</capability>'' @
       ''</capabilities>'' @
     ''</hello>'' @
     '']]>]]>''"

text \<open>The text of \<open>std::string(rpc) + "\n]]>]]>\n"\<close>.\<close>

definition rpc_with_eom :: "bytes \<Rightarrow> bytes" where
  "rpc_with_eom rpc = rpc @ [CHR 0x0A] @ '']]>]]>'' @ [CHR 0x0A]"

definition send_client_hello_non_blocking :: "chan_write list \<Rightarrow> bytes \<times> (exn + unit) outcome" where
  "send_client_hello_non_blocking ws =
     (case write_loop ''Poll error during send_client_hello: '' ''Failed to send client <hello>: '' build_client_hello 0 ws of
        (sent, Blocked) \<Rightarrow> (sent, Blocked)
      | (sent, Returns r) \<Rightarrow>
          (sent, Returns (rethrow Netconf_Exception ''Error occured sending hello message: '' (map_sum id (\<lambda>_. ()) r))))"

text \<open>The blocking writers call \<open>libssh2_channel_write\<close> once: it fails with a message, or takes some bytes.\<close>

definition write_once :: "string \<Rightarrow> bytes \<Rightarrow> string + nat \<Rightarrow> bytes \<times> (exn + unit)" where
  "write_once err_msg data w =
     (case w of
        Inr k \<Rightarrow> (take k data, Inr ())
      | Inl m \<Rightarrow> ([], Inl (Netconf_Exception (err_msg @ m))))"

definition send_client_hello_blocking :: "string + nat \<Rightarrow> bytes \<times> (exn + unit)" where
  "send_client_hello_blocking w =
     (let (sent, r) = write_once ''Failed to send client <hello>: '' build_client_hello w
      in (sent, rethrow Netconf_Exception ''Error occured while sending hello message: '' r))"

text \<open>\<open>check reply\<close> is the exception \<open>check_for_rpc_error\<close> throws, if any.\<close>

definition send_rpc_non_blocking_func ::
  "(bytes \<Rightarrow> exn option) \<Rightarrow> read_params \<Rightarrow> bytes \<Rightarrow> chan_write list \<Rightarrow> nat \<Rightarrow> read_round list \<Rightarrow>
    bytes \<times> (exn + bytes) outcome" where
  "send_rpc_non_blocking_func check p rpc ws start es =
     (if \<not> rd_chan p
      then ([], Returns (Inl (Netconf_Exception ''Error occured while sending RPC: Channel not open.'')))
      else case write_loop ''Poll error during write: '' ''Failed to send RPC: '' (rpc_with_eom rpc) 0 ws of
          (sent, Blocked) \<Rightarrow> (sent, Blocked)
        | (sent, Returns (Inl ex)) \<Rightarrow>
            (sent, Returns (Inl (Netconf_Exception (''Error occured while sending RPC: '' @ what ex))))
        | (sent, Returns (Inr _)) \<Rightarrow>
            (sent, case read_until_eom_non_blocking p start es of
               Blocked \<Rightarrow> Blocked
             | Returns r \<Rightarrow> Returns (rethrow Netconf_Exception ''Error occured while sending RPC: ''
                 (case r of Inl ex \<Rightarrow> Inl ex
                  | Inr reply \<Rightarrow> (case check reply of Some ex \<Rightarrow> Inl ex | None \<Rightarrow> Inr reply)))))"

definition send_rpc_blocking_func ::
  "(bytes \<Rightarrow> exn option) \<Rightarrow> bool \<Rightarrow> int \<Rightarrow> bytes \<Rightarrow> string + nat \<Rightarrow> nat \<Rightarrow> bl_round list \<Rightarrow>
    bytes \<times> (exn + bytes) outcome" where
  "send_rpc_blocking_func check open_chan read_timeout rpc w start es =
     (if \<not> open_chan
      then ([], Returns (Inl (Netconf_Exception ''Error occured while sending RPC: Channel not open.'')))
      else case write_once ''Failed to send RPC: '' (rpc_with_eom rpc) w of
          (sent, Inl ex) \<Rightarrow>
            (sent, Returns (Inl (Netconf_Exception (''Error occured while sending RPC: '' @ what ex))))
        | (sent, Inr _) \<Rightarrow>
            (sent, case read_until_eom_blocking open_chan read_timeout start es of
               Blocked \<Rightarrow> Blocked
             | Returns r \<Rightarrow> Returns (rethrow Netconf_Exception ''Error occured while sending RPC: ''
                 (case r of Inl ex \<Rightarrow> Inl ex
                  | Inr reply \<Rightarrow> (case check reply of Some ex \<Rightarrow> Inl ex | None \<Rightarrow> Inr reply)))))"

section \<open>What the non-blocking reader returns\<close>

definition chunk :: "read_round \<Rightarrow> bytes" where
  "chunk e = (case rr_read e of Got bs \<Rightarrow> bs | _ \<Rightarrow> [])"

definition received :: "read_round list \<Rightarrow> bytes" where
  "received es = concat (map chunk es)"

lemma nb_wait_cases: "nb_wait p d e r = Next r' \<Longrightarrow> r' = r" "nb_wait p d e r \<noteq> Done (Inr bs)"
  by (auto simp: nb_wait_def split: outcome.splits sum.splits)

lemma nb_round_Next:
  "nb_round p e r = Next r' \<Longrightarrow> response r' = response r @ chunk e \<and>
    (find_sub EOM (response r) = None \<longrightarrow> find_sub EOM (response r') = None)"
  by (auto simp: nb_round_def chunk_def Let_def split: if_splits chan_read.splits dest!: nb_wait_cases(1))

lemma nb_round_Done:
  assumes "0 \<le> rd_timeout p" "nb_round p e r = Done (Inr bs)"
  shows "bs = response r @ chunk e \<and> find_sub EOM bs \<noteq> None"
  using assms nb_wait_cases(2)
  by (auto simp: nb_round_def chunk_def Let_def infinite_wait_def size_limit_enabled_def time_limit_enabled_def
      split: if_splits chan_read.splits)

lemma nb_loop_result:
  assumes "0 \<le> rd_timeout p" "find_sub EOM (response r) = None" "nb_loop p es r = Returns (Inr bs)"
  shows "\<exists>es1 e es2. es = es1 @ e # es2 \<and> bs = response r @ received es1 @ chunk e \<and>
    find_sub EOM (response r @ received es1) = None \<and> find_sub EOM bs \<noteq> None"
  using assms
proof (induction es arbitrary: r)
  case (Cons e es)
  show ?case
  proof (cases "nb_round p e r")
    case (Next r')
    from nb_round_Next [OF Next] Cons.prems(2)
    have r': "response r' = response r @ chunk e" "find_sub EOM (response r') = None" by blast+
    obtain es1 e' es2 where "es = es1 @ e' # es2" "bs = response r' @ received es1 @ chunk e'"
      "find_sub EOM (response r' @ received es1) = None" "find_sub EOM bs \<noteq> None"
      using Cons.IH [OF Cons.prems(1) r'(2)] Cons.prems(3) Next by auto
    then show ?thesis
      by (intro exI [of _ "e # es1"] exI [of _ e'] exI [of _ es2]) (simp add: r' received_def)
  next
    case (Done x)
    then have "x = Inr bs" using Cons.prems(3) by (cases x) simp_all
    with nb_round_Done [OF Cons.prems(1)] Done Cons.prems(2) show ?thesis
      by (intro exI [of _ "[]"] exI [of _ e] exI [of _ es]) (simp add: received_def)
  qed (use Cons.prems in simp)
qed simp

lemma first_message_in_prefix:
  assumes "find_sub EOM (m @ EOM) = Some (length m)" "prefix r (m @ EOM @ rest)" "find_sub EOM r \<noteq> None"
  shows "prefix (m @ EOM) r"
proof -
  obtain j where j: "find_sub EOM r = Some j" using assms(3) by auto
  obtain u where u: "m @ EOM @ rest = r @ u" using assms(2) by (auto elim: prefixE)
  have "find_sub EOM ((m @ EOM) @ rest) = Some (length m)" by (rule find_sub_append_early [OF assms(1)])
  moreover have "find_sub EOM (r @ u) = Some j" by (rule find_sub_append_early [OF j])
  ultimately have "j = length m" using u by simp
  then have "length (m @ EOM) \<le> length r" using find_sub_bound [OF j] by simp
  moreover have "prefix (m @ EOM) (m @ EOM @ rest)" by simp
  ultimately show ?thesis using prefix_length_prefix [OF _ assms(2)] by blast
qed

text \<open>
  The non-blocking reader with a timeout. When it returns a reply, the reply is what arrived up to
  and including the first read that completes an EOM marker: no earlier read had completed one, nothing
  is missing or reordered, and however the peer's bytes were cut into reads, the first message with its
  marker is never cut off.
\<close>

theorem reader_returns_first_message:
  assumes "0 \<le> rd_timeout p" "read_until_eom_non_blocking p start es = Returns (Inr reply)"
  shows "(\<exists>es1 e es2. es = es1 @ e # es2 \<and> reply = received es1 @ chunk e \<and>
      find_sub EOM (received es1) = None \<and> find_sub EOM reply \<noteq> None) \<and>
    (\<forall>m rest. received es = m @ EOM @ rest \<and> find_sub EOM (m @ EOM) = Some (length m) \<longrightarrow> prefix (m @ EOM) reply)"
proof -
  have "find_sub EOM (response (new_reader start)) = None" by (simp add: new_reader_def EOM_def)
  from nb_loop_result [OF assms(1) this assms(2) [unfolded read_until_eom_non_blocking_def]]
  obtain es1 e es2 where r: "es = es1 @ e # es2" "reply = received es1 @ chunk e"
    "find_sub EOM (received es1) = None" "find_sub EOM reply \<noteq> None"
    by (auto simp: new_reader_def)
  then have "prefix reply (received es)" by (auto simp: received_def)
  with r first_message_in_prefix show ?thesis by metis
qed

text \<open>A peer and parameters for the witnesses.\<close>

definition rpc_reader :: read_params where
  "rpc_reader = \<lparr>rd_chan = True, rd_sess = True, rd_fd = 3, rd_timeout = 5, rd_max_kb = -1, rd_incomplete_timeout = -1\<rparr>"

definition reads_at :: "nat \<Rightarrow> chan_read \<Rightarrow> read_round" where
  "reads_at now rd = \<lparr>rr_now = now, rr_read = rd, rr_waits = [(now, Poll_Timeout)], rr_first = now, rr_last = now\<rparr>"

theorem reader_returns_first_message_witness:
  "\<exists>reply. read_until_eom_non_blocking rpc_reader 0 [reads_at 1 (Got ''<ok/>]]>''), reads_at 2 (Got '']]>x'')] =
      Returns (Inr reply) \<and> prefix (''<ok/>'' @ EOM) reply"
proof -
  let ?es = "[reads_at 1 (Got ''<ok/>]]>''), reads_at 2 (Got '']]>x'')]"
  have run: "read_until_eom_non_blocking rpc_reader 0 ?es = Returns (Inr ''<ok/>]]>]]>x'')"
    by (simp add: read_until_eom_non_blocking_def new_reader_def nb_round_def rpc_reader_def reads_at_def ns_per_s_def
        infinite_wait_def timeout_s_def size_limit_enabled_def time_limit_enabled_def EOM_def)
  have stream: "received ?es = ''<ok/>'' @ EOM @ ''x''" by code_simp
  have first: "find_sub EOM (''<ok/>'' @ EOM) = Some (length ''<ok/>'')" by code_simp
  have "0 \<le> rd_timeout rpc_reader" by (simp add: rpc_reader_def)
  from reader_returns_first_message [OF this run] stream first run show ?thesis by blast
qed

lemma reader_swallows:
  assumes "rd_chan p" "rd_sess p" "0 \<le> rd_timeout p" "find_sub EOM m = None"
    and "int (rr_now e) < int start + rd_timeout p * int ns_per_s"
    and "rr_read e = Got (m @ EOM @ following)"
  shows "read_until_eom_non_blocking p start (e # es) = Returns (Inr (m @ EOM @ following))"
proof -
  have "find_sub EOM (m @ EOM @ following) \<noteq> None"
    by (metis find_sub_None append_eq_conv_conj le_add1 length_append prefixI)
  then have "nb_round p e (new_reader start) = Done (Inr (m @ EOM @ following))"
    using assms by (auto simp: nb_round_def new_reader_def infinite_wait_def timeout_s_def Let_def
        size_limit_enabled_def time_limit_enabled_def)
  then show ?thesis by (simp add: read_until_eom_non_blocking_def)
qed

text \<open>
  What follows the marker in the same read is lost. The reader hands out the whole buffer with the
  reply and keeps nothing for the next call: if the peer's reply and the beginning of its next message
  arrive together, the reply ends with bytes of that message, whatever it is (a notification that
  follows the reply to a subscription, say), and the next call starts after them.
\<close>

theorem reader_swallows_following_bytes:
  assumes "rd_chan p" "rd_sess p" "0 \<le> rd_timeout p" "find_sub EOM m = None"
    and "int (rr_now e) < int start + rd_timeout p * int ns_per_s"
    and "rr_read e = Got (m @ EOM @ following)"
  shows "read_until_eom_non_blocking p start (e # es) = Returns (Inr (m @ EOM @ following))"
  by (rule reader_swallows [OF assms])

theorem reader_swallows_following_bytes_witness:
  "read_until_eom_non_blocking rpc_reader 0 [reads_at 1 (Got (''<ok/>'' @ EOM @ ''<notification/>''))] =
    Returns (Inr (''<ok/>'' @ EOM @ ''<notification/>''))"
proof (rule reader_swallows_following_bytes)
  show "find_sub EOM ''<ok/>'' = None" by code_simp
qed (simp_all add: rpc_reader_def reads_at_def ns_per_s_def)

section \<open>Timeouts of the non-blocking reader\<close>

text \<open>A round in which nothing arrives and the wait for the socket ends.\<close>

definition silent_read :: "read_params \<Rightarrow> int \<Rightarrow> read_round \<Rightarrow> bool" where
  "silent_read p deadline e \<longleftrightarrow> (rr_read e = Got_Eagain \<or> rr_read e = Got_Zero) \<and>
     wait_for_libssh2_socket (rd_fd p) deadline False (rd_timeout p) (rr_waits e) \<noteq> Blocked"

lemma silent_round:
  assumes "0 \<le> rd_timeout p" "silent_read p (int (last_data_time r) + rd_timeout p * int ns_per_s) e"
  shows "nb_round p e r = Next r \<and> int (rr_now e) < int (last_data_time r) + rd_timeout p * int ns_per_s \<or>
    (\<exists>ex. nb_round p e r = Done (Inl ex))"
  using assms
  by (auto simp: nb_round_def nb_wait_def silent_read_def infinite_wait_def timeout_s_def Let_def
      size_limit_enabled_def time_limit_enabled_def split: outcome.splits sum.splits)



section \<open>The blocking reader\<close>

lemma bl_window_long: "7 \<le> length new_data \<Longrightarrow> bl_window (p @ new_data) new_data = drop (length new_data - 7) new_data @ new_data"
  by (simp add: bl_window_def Let_def)

text \<open>
  The end marker and the blocking reader. The window it searches repeats the new data behind the
  last seven characters received, which already end with them. (1) A marker that arrives whole in one
  read is always found. (2) A read that is just \<open>]]>\<close> is taken for a marker after any text without
  one: the reply is cut short. (3) A marker whose first character ends a read, and whose rest is
  followed by two line-end characters, is missed: the reader goes on waiting although the message is
  complete.
\<close>

theorem blocking_reader_end_marker:
  assumes "t < 0 \<or> int (br_now e) - int (bl_last_data r) \<le> t * int ns_per_s"
  shows "(br_read e = Got (a @ EOM @ b) \<longrightarrow> bl_step True t e r = Done (Inr (bl_response r @ a @ EOM @ b))) \<and>
    (br_read e = Got '']]>'' \<longrightarrow> bl_step True t e r = Done (Inr (bl_response r @ '']]>''))) \<and>
    (br_read e = Got ('']>]]>'' @ [CHR 0x0D, CHR 0x0A]) \<longrightarrow>
      bl_step True t e r = Next \<lparr>bl_response = bl_response r @ '']>]]>'' @ [CHR 0x0D, CHR 0x0A], bl_last_data = br_last e\<rparr>)"
proof (intro conjI impI)
  have step: "bl_step True t e r = (if find_sub EOM (bl_window (bl_response r @ bs) bs) \<noteq> None
      then Done (Inr (bl_response r @ bs)) else Next \<lparr>bl_response = bl_response r @ bs, bl_last_data = br_last e\<rparr>)"
    if "br_read e = Got bs" for bs
    using assms that by (auto simp: bl_step_def Let_def)
  have found: "find_sub EOM (x @ EOM @ y) \<noteq> None" for x y
    by (metis find_sub_None append_eq_conv_conj le_add1 length_append prefixI)
  {
    assume "br_read e = Got (a @ EOM @ b)"
    moreover have "find_sub EOM (bl_window (bl_response r @ a @ EOM @ b) (a @ EOM @ b)) \<noteq> None"
      using found [of "take 7 _ @ a"] found [of "_ @ a" b]
      by (simp add: bl_window_def Let_def)
    ultimately show "bl_step True t e r = Done (Inr (bl_response r @ a @ EOM @ b))" by (simp add: step)
  next
    assume g: "br_read e = Got '']]>''"
    have "\<exists>x. bl_window (bl_response r @ '']]>'') '']]>'' = x @ EOM @ []"
    proof (cases "4 \<le> length (bl_response r)")
      case True
      then show ?thesis
        by (intro exI [of _ "drop (length (bl_response r) - 4) (bl_response r)"]) (simp add: bl_window_def EOM_def)
    next
      case False
      then show ?thesis by (intro exI [of _ "bl_response r"]) (simp add: bl_window_def EOM_def)
    qed
    then have "find_sub EOM (bl_window (bl_response r @ '']]>'') '']]>'') \<noteq> None" using found by metis
    with step [OF g] show "bl_step True t e r = Done (Inr (bl_response r @ '']]>''))" by simp
  next
    assume g: "br_read e = Got ('']>]]>'' @ [CHR 0x0D, CHR 0x0A])"
    have "bl_window (bl_response r @ '']>]]>'' @ [CHR 0x0D, CHR 0x0A]) ('']>]]>'' @ [CHR 0x0D, CHR 0x0A]) =
        ('']>]]>'' @ [CHR 0x0D, CHR 0x0A]) @ ('']>]]>'' @ [CHR 0x0D, CHR 0x0A])"
      by (simp add: bl_window_def)
    moreover have "find_sub EOM (('']>]]>'' @ [CHR 0x0D, CHR 0x0A]) @ ('']>]]>'' @ [CHR 0x0D, CHR 0x0A])) = None"
      by (simp add: EOM_def)
    ultimately show "bl_step True t e r =
        Next \<lparr>bl_response = bl_response r @ '']>]]>'' @ [CHR 0x0D, CHR 0x0A], bl_last_data = br_last e\<rparr>"
      using step [OF g] by simp
  }
qed

definition bl_at :: "nat \<Rightarrow> chan_read \<Rightarrow> bl_round" where
  "bl_at now rd = \<lparr>br_now = now, br_read = rd, br_last = now\<rparr>"

theorem blocking_reader_end_marker_witness:
  "bl_step True 5 (bl_at 1 (Got '']]>'')) \<lparr>bl_response = ''<![CDATA[x'', bl_last_data = 0\<rparr> =
    Done (Inr (''<![CDATA[x]]>''))"
  using blocking_reader_end_marker [of 5 "bl_at 1 (Got '']]>'')" "\<lparr>bl_response = ''<![CDATA[x'', bl_last_data = 0\<rparr>"]
  by (simp add: bl_at_def ns_per_s_def)

text \<open>Successive clocks are at most the timeout apart.\<close>

fun spaced :: "int \<Rightarrow> nat \<Rightarrow> nat list \<Rightarrow> bool" where
  "spaced T t [] = True"
| "spaced T t (n # ns) = (int n - int t \<le> T * int ns_per_s \<and> spaced T n ns)"

text \<open>
  A closed channel. When the peer has closed the channel every read returns 0 at once; the blocking
  reader treats this as data and restarts its timeout clock: it goes on reading for ever, whatever its
  timeout, as long as one round of the loop takes less than that.
\<close>

theorem blocking_reader_never_times_out_on_close:
  assumes "find_sub EOM (bl_window (bl_response r) []) = None" "spaced t (bl_last_data r) ns"
  shows "bl_loop True t (map (\<lambda>n. bl_at n Got_Zero) ns) r = Blocked"
  using assms
proof (induction ns arbitrary: r)
  case (Cons n ns)
  have "bl_step True t (bl_at n Got_Zero) r = Next \<lparr>bl_response = bl_response r, bl_last_data = n\<rparr>"
    using Cons.prems by (auto simp: bl_step_def bl_at_def Let_def)
  with Cons.IH [of "\<lparr>bl_response = bl_response r, bl_last_data = n\<rparr>"] Cons.prems show ?case by simp
qed simp

theorem blocking_reader_never_times_out_on_close_witness:
  "bl_loop True 1 (map (\<lambda>n. bl_at n Got_Zero) [500000000, 1000000000, 1500000000, 2000000000])
    \<lparr>bl_response = ''<rpc-reply'', bl_last_data = 0\<rparr> = Blocked"
proof (rule blocking_reader_never_times_out_on_close)
  show "find_sub EOM (bl_window (bl_response \<lparr>bl_response = ''<rpc-reply'', bl_last_data = 0\<rparr>) []) = None"
    by (simp add: bl_window_def EOM_def)
qed (simp add: ns_per_s_def)

section \<open>Writing\<close>

lemma write_loop_sent:
  "prefix (fst (write_loop pm em data n ws)) (drop n data) \<and>
   (\<forall>rest. snd (write_loop pm em data n ws) = Returns (Inr rest) \<longrightarrow> fst (write_loop pm em data n ws) = drop n data)"
proof (induction pm em data n ws rule: write_loop.induct)
  case (2 pm em data n w ws)
  show ?case
  proof (cases "n < length data")
    case True
    show ?thesis
    proof (cases w)
      case (Wrote k)
      obtain sent r where rec: "write_loop pm em data (n + k) ws = (sent, r)"
        by (cases "write_loop pm em data (n + k) ws")
      have IH: "prefix sent (drop (n + k) data)" "\<forall>rest. r = Returns (Inr rest) \<longrightarrow> sent = drop (n + k) data"
        using 2(1) [OF True Wrote] by (simp_all add: rec)
      have all: "take k (drop n data) @ drop (n + k) data = drop n data"
        by (metis append_take_drop_id drop_drop add.commute)
      with IH(1) have "prefix (take k (drop n data) @ sent) (drop n data)"
        by (metis same_prefix_prefix)
      then show ?thesis using IH(2) all True Wrote rec by auto
    next
      case (Wrote_Eagain m)
      with 2(2) True show ?thesis by (cases m) simp_all
    qed (use True in simp)
  qed simp
qed simp

text \<open>
  Sending an RPC without blocking. When the call returns a reply, the channel took exactly the text
  of the RPC followed by the framing, every byte once and in order however the writes were cut; the
  reply contains a complete message and was not an RPC error. Whatever happens, the channel only ever
  took a prefix of that text. But the writing itself has no deadline: as long as the channel does not
  accept a byte the call goes on polling, whatever the read timeout is.
\<close>

theorem rpc_is_sent_whole:
  assumes "send_rpc_non_blocking_func check p rpc ws start es = (sent, r)" "0 \<le> rd_timeout p"
  shows "prefix sent (rpc_with_eom rpc) \<and>
    (\<forall>reply. r = Returns (Inr reply) \<longrightarrow> sent = rpc_with_eom rpc \<and> find_sub EOM reply \<noteq> None \<and> check reply = None) \<and>
    (rd_chan p \<longrightarrow> send_rpc_non_blocking_func check p rpc (replicate n (Wrote_Eagain None)) start es = ([], Blocked))"
proof (intro conjI)
  let ?w = "write_loop ''Poll error during write: '' ''Failed to send RPC: '' (rpc_with_eom rpc) 0 ws"
  have sent: "sent = [] \<or> sent = fst ?w"
    using assms(1) by (auto simp: send_rpc_non_blocking_func_def split: if_splits prod.splits outcome.splits sum.splits)
  then show "prefix sent (rpc_with_eom rpc)"
    using write_loop_sent [of "''Poll error during write: ''" "''Failed to send RPC: ''" "rpc_with_eom rpc" 0 ws]
    by (metis Nil_prefix drop0)
  show "\<forall>reply. r = Returns (Inr reply) \<longrightarrow> sent = rpc_with_eom rpc \<and> find_sub EOM reply \<noteq> None \<and> check reply = None"
  proof (intro allI impI)
    fix reply
    assume ok: "r = Returns (Inr reply)"
    then obtain rest where w: "?w = (sent, Returns (Inr rest))"
      and read: "read_until_eom_non_blocking p start es = Returns (Inr reply)" and c: "check reply = None"
      using assms(1) by (auto simp: send_rpc_non_blocking_func_def
          split: if_splits prod.splits outcome.splits sum.splits option.splits)
    have "sent = rpc_with_eom rpc"
      using write_loop_sent [of "''Poll error during write: ''" "''Failed to send RPC: ''" "rpc_with_eom rpc" 0 ws] w by simp
    moreover have "find_sub EOM reply \<noteq> None"
      using nb_loop_result [OF assms(2) _ read [unfolded read_until_eom_non_blocking_def]]
      by (auto simp: new_reader_def EOM_def)
    ultimately show "sent = rpc_with_eom rpc \<and> find_sub EOM reply \<noteq> None \<and> check reply = None" using c by simp
  qed
  have "write_loop pm em (rpc_with_eom rpc) 0 (replicate n (Wrote_Eagain None)) = ([], Blocked)" for pm em
    by (induction n) (simp_all add: rpc_with_eom_def)
  then show "rd_chan p \<longrightarrow> send_rpc_non_blocking_func check p rpc (replicate n (Wrote_Eagain None)) start es = ([], Blocked)"
    by (simp add: send_rpc_non_blocking_func_def)
qed

theorem rpc_is_sent_whole_witness:
  "\<exists>sent r. send_rpc_non_blocking_func (\<lambda>_. None) rpc_reader ''<x/>'' [Wrote 3, Wrote_Eagain None, Wrote 9] 0
      [reads_at 1 (Got (''<ok/>'' @ EOM))] = (sent, Returns (Inr r)) \<and> sent = rpc_with_eom ''<x/>''"
proof -
  have "read_until_eom_non_blocking rpc_reader 0 [reads_at 1 (Got (''<ok/>'' @ EOM @ []))] = Returns (Inr (''<ok/>'' @ EOM @ []))"
    by (rule reader_swallows) (simp_all add: rpc_reader_def reads_at_def ns_per_s_def EOM_def)
  then have "\<exists>sent. send_rpc_non_blocking_func (\<lambda>_. None) rpc_reader ''<x/>'' [Wrote 3, Wrote_Eagain None, Wrote 9] 0
      [reads_at 1 (Got (''<ok/>'' @ EOM))] = (sent, Returns (Inr (''<ok/>'' @ EOM)))"
    by (simp add: send_rpc_non_blocking_func_def rpc_with_eom_def rpc_reader_def)
  then obtain sent where s: "send_rpc_non_blocking_func (\<lambda>_. None) rpc_reader ''<x/>'' [Wrote 3, Wrote_Eagain None, Wrote 9] 0
      [reads_at 1 (Got (''<ok/>'' @ EOM))] = (sent, Returns (Inr (''<ok/>'' @ EOM)))" by blast
  have "0 \<le> rd_timeout rpc_reader" by (simp add: rpc_reader_def)
  from rpc_is_sent_whole [OF s this] s show ?thesis by blast
qed

text \<open>
  Sending an RPC on a blocking session. The return value of the single write is only tested for
  an error: when the channel takes a part of the text, the rest is never sent and the call goes on to
  wait for the reply to a message the peer has not received completely.
\<close>

theorem blocking_rpc_ignores_partial_write:
  assumes "k < length (rpc_with_eom rpc)"
  shows "send_rpc_blocking_func check True t rpc (Inr k) start [] = (take k (rpc_with_eom rpc), Blocked) \<and>
    take k (rpc_with_eom rpc) \<noteq> rpc_with_eom rpc"
  using assms by (simp add: send_rpc_blocking_func_def write_once_def read_until_eom_blocking_def)

theorem blocking_rpc_ignores_partial_write_witness:
  "send_rpc_blocking_func (\<lambda>_. None) True 5 ''<x/>'' (Inr 2) 0 [] = (''<x'', Blocked)"
  using blocking_rpc_ignores_partial_write [of 2 "''<x/>''" "\<lambda>_. None" 5 0] by (simp add: rpc_with_eom_def)

end
