(* ===== verification/Rpc.thy ===== *)
theory Rpc
  imports Channel_IO
begin

text \<open>
  The RPCs of the client: the texts the builders of \<open>src/netconf_client_non_blocking.cpp\<close> and
  \<open>src/netconf_client_blocking.cpp\<close> send, the check of the reply for \<open>rpc-error\<close>
  (\<open>src/netconf_client_helpers.cpp\<close>), and the operations made of several RPCs. An operation gets the
  function that sends one RPC: it takes the text and the RPCs sent so far on the session, which is all
  the peer knows, and gives the reply or the exception.
\<close>

type_synonym peer = "bytes list \<Rightarrow> bytes \<Rightarrow> exn + bytes"

type_synonym 'a rpc_op = "bytes list \<Rightarrow> (exn + 'a) \<times> bytes list"

definition send_rpc :: "peer \<Rightarrow> bytes \<Rightarrow> bytes rpc_op" where
  "send_rpc peer rpc sent = (peer sent rpc, sent @ [rpc])"

text \<open>Sequencing: an exception skips what follows.\<close>

definition and_then :: "'a rpc_op \<Rightarrow> ('a \<Rightarrow> 'b rpc_op) \<Rightarrow> 'b rpc_op" where
  "and_then m f sent = (case m sent of (Inl e, sent) \<Rightarrow> (Inl e, sent) | (Inr x, sent) \<Rightarrow> f x sent)"

definition give :: "'a \<Rightarrow> 'a rpc_op" where
  "give x sent = (Inr x, sent)"

section \<open>The texts\<close>

definition XML_DECL :: bytes where
  "XML_DECL = ''<?xml version=\"1.0\" encoding=\"UTF-8\"?>''"

definition RPC_OPEN :: bytes where
  "RPC_OPEN = ''<rpc xmlns=\"urn:ietf:params:xml:ns:netconf:base:1.0\" message-id=\"101\">''"

definition subtree_filter :: "bytes \<Rightarrow> bytes" where
  "subtree_filter filter_text =
     (if filter_text \<noteq> [] then ''<filter type=\"subtree\">'' @ filter_text @ ''</filter>'' else [])"

definition get_rpc :: "bytes \<Rightarrow> bytes" where
  "get_rpc filter_text = XML_DECL @ RPC_OPEN @ ''<get>'' @ subtree_filter filter_text @ ''</get></rpc>''"

definition get_config_rpc :: "bytes \<Rightarrow> bytes \<Rightarrow> bytes" where
  "get_config_rpc source filter_text =
     XML_DECL @ RPC_OPEN @ ''<get-config>'' @ ''<source><'' @ source @ ''/></source>'' @
     subtree_filter filter_text @ ''</get-config></rpc>''"

definition copy_config_rpc :: "bytes \<Rightarrow> bytes \<Rightarrow> bytes" where
  "copy_config_rpc target source =
     XML_DECL @ RPC_OPEN @ ''<copy-config>'' @ ''<target><'' @ target @ ''/></target>'' @
     ''<source><'' @ source @ ''/></source>'' @ ''</copy-config>'' @ ''</rpc>''"

definition delete_config_rpc :: "bytes \<Rightarrow> bytes" where
  "delete_config_rpc target =
     XML_DECL @ RPC_OPEN @ ''<delete-config>'' @ ''<target><'' @ target @ ''/></target>'' @
     ''</delete-config>'' @ ''</rpc>''"

definition validate_rpc :: "bytes \<Rightarrow> bytes" where
  "validate_rpc source =
     XML_DECL @ RPC_OPEN @ ''<validate>'' @ ''<source><'' @ source @ ''/></source>'' @ ''</validate>'' @ ''</rpc>''"

definition edit_config_rpc :: "bytes \<Rightarrow> bytes \<Rightarrow> bytes" where
  "edit_config_rpc target config =
     XML_DECL @ RPC_OPEN @ ''<edit-config>'' @ ''<target><'' @ target @ ''/></target>'' @
     ''<config>'' @ config @ ''</config>'' @ ''</edit-config>'' @ ''</rpc>''"

definition create_subscription_rpc :: "bytes \<Rightarrow> bytes \<Rightarrow> bytes" where
  "create_subscription_rpc stream filter_text =
     XML_DECL @ RPC_OPEN @
     ''<create-subscription xmlns=\"urn:ietf:params:xml:ns:netconf:notification:1.0\">'' @
     ''<stream>'' @ stream @ ''</stream>'' @ subtree_filter filter_text @ ''</create-subscription></rpc>''"

definition lock_rpc :: "bytes \<Rightarrow> bytes" where
  "lock_rpc target =
     XML_DECL @ RPC_OPEN @ ''<lock>'' @ ''<target><'' @ target @ ''/></target>'' @ ''</lock>'' @ ''</rpc>''"

definition unlock_rpc :: "bytes \<Rightarrow> bytes" where
  "unlock_rpc target =
     XML_DECL @ RPC_OPEN @ ''<unlock>'' @ ''<target><'' @ target @ ''/></target>'' @ ''</unlock>'' @ ''</rpc>''"

definition commit_rpc :: bytes where
  "commit_rpc = XML_DECL @ RPC_OPEN @ ''<commit/>'' @ ''</rpc>''"

section \<open>The operations\<close>

definition edit_config :: "peer \<Rightarrow> bytes \<Rightarrow> bytes \<Rightarrow> bool \<Rightarrow> bytes rpc_op" where
  "edit_config peer target config do_validate =
     and_then (send_rpc peer (edit_config_rpc target config)) (\<lambda>reply.
       and_then (if do_validate then send_rpc peer (validate_rpc target) else give []) (\<lambda>_. give reply))"

text \<open>\<open>locked_edit_config\<close>: the body of the \<open>try\<close>, then its handler.\<close>

definition locked_edit_body :: "peer \<Rightarrow> bytes \<Rightarrow> bytes \<Rightarrow> bool \<Rightarrow> bytes rpc_op" where
  "locked_edit_body peer target config do_validate =
     and_then (send_rpc peer (lock_rpc target)) (\<lambda>_.
     and_then (edit_config peer target config do_validate) (\<lambda>reply.
     and_then (send_rpc peer commit_rpc) (\<lambda>_.
     and_then (send_rpc peer (unlock_rpc target)) (\<lambda>_. give reply))))"

definition locked_edit_config :: "peer \<Rightarrow> bytes \<Rightarrow> bytes \<Rightarrow> bool \<Rightarrow> bytes rpc_op" where
  "locked_edit_config peer target config do_validate sent =
     (case locked_edit_body peer target config do_validate sent of
        (Inr reply, sent) \<Rightarrow> (Inr reply, sent)
      | (Inl err, sent) \<Rightarrow>
          (case send_rpc peer (unlock_rpc target) sent of
             (_, sent) \<Rightarrow> (Inl (Netconf_Exception (''Unable to complete operation: '' @ what err)), sent)))"

section \<open>The check of a reply\<close>

text \<open>The interface of tinyxml2 the check uses: \<open>Parse\<close>, \<open>FirstChildElement\<close> and \<open>GetText\<close>.\<close>

record 'n xml_api =
  xml_parse :: "bytes \<Rightarrow> 'n option"
  first_child_element :: "'n \<Rightarrow> string \<Rightarrow> 'n option"
  get_text :: "'n \<Rightarrow> string option"

definition check_for_rpc_error :: "'n xml_api \<Rightarrow> bytes \<Rightarrow> exn option" where
  "check_for_rpc_error api xml_reply =
     (case xml_parse api xml_reply of
        None \<Rightarrow> None
      | Some doc \<Rightarrow> (case first_child_element api doc ''rpc-reply'' of
          None \<Rightarrow> None
        | Some rpc_reply \<Rightarrow> (case first_child_element api rpc_reply ''rpc-error'' of
            None \<Rightarrow> None
          | Some rpc_err \<Rightarrow>
              let err_msg = (case first_child_element api rpc_err ''error-message'' of
                    None \<Rightarrow> None | Some e \<Rightarrow> get_text api e);
                  text = (case err_msg of None \<Rightarrow> ''RPC error (unknown error-message)'' | Some m \<Rightarrow> m)
              in Some (Netconf_Exception (''RPC error: '' @ text)))))"

text \<open>A peer as the client sees it: it answers with bytes, which the reader delivers and the check
  inspects (the tail of \<open>send_rpc_non_blocking_func\<close>).\<close>

definition checked_peer :: "'n xml_api \<Rightarrow> (bytes list \<Rightarrow> bytes \<Rightarrow> bytes) \<Rightarrow> peer" where
  "checked_peer api answer sent rpc =
     rethrow Netconf_Exception ''Error occured while sending RPC: ''
       (let reply = answer sent rpc in
        case check_for_rpc_error api reply of Some ex \<Rightarrow> Inl ex | None \<Rightarrow> Inr reply)"

section \<open>The order of a locked edit\<close>

lemma and_then_eq:
  "and_then m f sent = (case fst (m sent) of Inl e \<Rightarrow> (Inl e, snd (m sent)) | Inr x \<Rightarrow> f x (snd (m sent)))"
  by (simp add: and_then_def split: prod.splits sum.splits)

lemmas rpc_ops = and_then_eq send_rpc_def give_def edit_config_def locked_edit_body_def locked_edit_config_def

text \<open>Sending a list of RPCs one after the other.\<close>

fun send_all :: "peer \<Rightarrow> bytes list \<Rightarrow> bytes list rpc_op" where
  "send_all peer [] sent = (Inr [], sent)"
| "send_all peer (rpc # rpcs) sent =
     (case peer sent rpc of
        Inl e \<Rightarrow> (Inl e, sent @ [rpc])
      | Inr x \<Rightarrow> (case send_all peer rpcs (sent @ [rpc]) of
          (Inl e, sent) \<Rightarrow> (Inl e, sent) | (Inr xs, sent) \<Rightarrow> (Inr (x # xs), sent)))"

text \<open>All succeed, or the sending stops at the first that fails.\<close>

definition all_answered :: "peer \<Rightarrow> bytes list \<Rightarrow> bytes list \<Rightarrow> nat \<Rightarrow> bool" where
  "all_answered peer sent rpcs k \<longleftrightarrow> (\<forall>i<k. \<exists>x. peer (sent @ take i rpcs) (rpcs ! i) = Inr x)"

lemma send_all_spec:
  "(\<exists>xs. send_all peer rpcs sent = (Inr xs, sent @ rpcs) \<and> length xs = length rpcs \<and>
      (\<forall>i<length rpcs. peer (sent @ take i rpcs) (rpcs ! i) = Inr (xs ! i))) \<or>
   (\<exists>k<length rpcs. \<exists>e. send_all peer rpcs sent = (Inl e, sent @ take (Suc k) rpcs) \<and>
      all_answered peer sent rpcs k \<and> peer (sent @ take k rpcs) (rpcs ! k) = Inl e)"
proof (induction rpcs arbitrary: sent)
  case (Cons rpc rpcs)
  show ?case
  proof (cases "peer sent rpc")
    case (Inl e)
    then show ?thesis by (intro disjI2 exI [of _ 0]) (simp add: all_answered_def)
  next
    case (Inr x)
    from Cons.IH [of "sent @ [rpc]"] show ?thesis
    proof (elim disjE exE conjE)
      fix xs
      assume xs: "send_all peer rpcs (sent @ [rpc]) = (Inr xs, (sent @ [rpc]) @ rpcs)" "length xs = length rpcs"
        "\<forall>i<length rpcs. peer ((sent @ [rpc]) @ take i rpcs) (rpcs ! i) = Inr (xs ! i)"
      then show ?thesis
        using Inr by (intro disjI1 exI [of _ "x # xs"]) (auto simp: nth_Cons' take_Cons' gr0_conv_Suc)
    next
      fix k e
      assume k: "k < length rpcs" "send_all peer rpcs (sent @ [rpc]) = (Inl e, (sent @ [rpc]) @ take (Suc k) rpcs)"
        "all_answered peer (sent @ [rpc]) rpcs k" "peer ((sent @ [rpc]) @ take k rpcs) (rpcs ! k) = Inl e"
      then show ?thesis
        using Inr
        by (intro disjI2 exI [of _ "Suc k"]) (auto simp: all_answered_def nth_Cons' take_Cons' gr0_conv_Suc less_Suc_eq_0_disj)
    qed
  qed
qed simp

text \<open>The RPCs of a locked edit, in order.\<close>

definition locked_edit_rpcs :: "bytes \<Rightarrow> bytes \<Rightarrow> bool \<Rightarrow> bytes list" where
  "locked_edit_rpcs target config do_validate =
     [lock_rpc target, edit_config_rpc target config] @ (if do_validate then [validate_rpc target] else []) @
     [commit_rpc, unlock_rpc target]"

lemma locked_edit_body_sends:
  "locked_edit_body peer target config v sent =
    (case send_all peer (locked_edit_rpcs target config v) sent of
       (Inl e, sent) \<Rightarrow> (Inl e, sent) | (Inr xs, sent) \<Rightarrow> (Inr (xs ! 1), sent))"
  by (simp add: rpc_ops locked_edit_rpcs_def split: sum.splits)

text \<open>
  C28. The order of a locked edit, whatever the peer answers. Either every RPC succeeded: then lock, edit,
  validation (if asked for), commit and unlock were sent once, in this order, and the result is the
  reply to the edit. Or one of them failed: then it and those before it were sent, those before it
  succeeded, nothing after it was sent but an unlock, and the call throws the failure with its prefix.
  So nothing is committed without a granted lock and a successful edit, and the last RPC is an unlock.
\<close>

theorem locked_edit_order:
  "let rpcs = locked_edit_rpcs target config do_validate;
       (r, sent) = locked_edit_config peer target config do_validate []
   in last sent = unlock_rpc target \<and>
     ((\<exists>reply. r = Inr reply \<and> sent = rpcs \<and> all_answered peer [] rpcs (length rpcs) \<and>
         peer [lock_rpc target] (edit_config_rpc target config) = Inr reply) \<or>
      (\<exists>k<length rpcs. \<exists>e. peer (take k rpcs) (rpcs ! k) = Inl e \<and> all_answered peer [] rpcs k \<and>
         sent = take (Suc k) rpcs @ [unlock_rpc target] \<and>
         r = Inl (Netconf_Exception (''Unable to complete operation: '' @ what e))))"
proof -
  let ?rpcs = "locked_edit_rpcs target config do_validate"
  have shape: "last ?rpcs = unlock_rpc target" "?rpcs ! 1 = edit_config_rpc target config"
    "take 1 ?rpcs = [lock_rpc target]" "1 < length ?rpcs"
    by (simp_all add: locked_edit_rpcs_def)
  from send_all_spec [of peer ?rpcs "[]"] show ?thesis
  proof (elim disjE exE conjE)
    fix xs
    assume xs: "send_all peer ?rpcs [] = (Inr xs, [] @ ?rpcs)"
      "\<forall>i<length ?rpcs. peer ([] @ take i ?rpcs) (?rpcs ! i) = Inr (xs ! i)"
    then have "locked_edit_config peer target config do_validate [] = (Inr (xs ! 1), ?rpcs)"
      by (simp add: locked_edit_config_def locked_edit_body_sends)
    moreover have "peer [lock_rpc target] (edit_config_rpc target config) = Inr (xs ! 1)"
      using xs(2) [rule_format, OF shape(4)] shape by simp
    moreover have "all_answered peer [] ?rpcs (length ?rpcs)" using xs(2) by (simp add: all_answered_def)
    ultimately show ?thesis using shape by (simp add: Let_def)
  next
    fix k e
    assume k: "k < length ?rpcs" "send_all peer ?rpcs [] = (Inl e, [] @ take (Suc k) ?rpcs)"
      "all_answered peer [] ?rpcs k" "peer ([] @ take k ?rpcs) (?rpcs ! k) = Inl e"
    then have "locked_edit_config peer target config do_validate [] =
        (Inl (Netconf_Exception (''Unable to complete operation: '' @ what e)), take (Suc k) ?rpcs @ [unlock_rpc target])"
      by (simp add: locked_edit_config_def locked_edit_body_sends send_rpc_def)
    with k show ?thesis by (auto simp: Let_def)
  qed
qed

text \<open>A peer that denies everything.\<close>

theorem locked_edit_order_witness:
  "last (snd (locked_edit_config (\<lambda>_ _. Inl (Netconf_Exception ''denied'')) ''running'' ''<x/>'' False [])) = unlock_rpc ''running''"
  using locked_edit_order [of "''running''" "''<x/>''" False "\<lambda>_ _. Inl (Netconf_Exception ''denied'')"]
  by (simp only: Let_def split_beta)

section \<open>The check never sees an error\<close>

lemma check_of_framed_reply:
  assumes "\<And>m ws. list_all isspace ws \<Longrightarrow> xml_parse api (m @ EOM @ ws) = None" "list_all isspace ws"
  shows "check_for_rpc_error api (m @ EOM @ ws) = None"
  using assms by (simp add: check_for_rpc_error_def)

lemma send_all_checked:
  assumes "\<And>m ws. list_all isspace ws \<Longrightarrow> xml_parse api (m @ EOM @ ws) = None"
    and "\<And>sent rpc. \<exists>m ws. answer sent rpc = m @ EOM @ ws \<and> list_all isspace ws"
  shows "checked_peer api answer sent rpc = Inr (answer sent rpc)"
proof -
  obtain m ws where "answer sent rpc = m @ EOM @ ws" "list_all isspace ws" using assms(2) by blast
  with check_of_framed_reply [OF assms(1)] show ?thesis by (simp add: checked_peer_def Let_def)
qed


text \<open>A parser that accepts nothing that ends in a marker, and a peer that denies everything.\<close>

definition strict_api :: "nat xml_api" where
  "strict_api = \<lparr>xml_parse = (\<lambda>b. if find_sub EOM b \<noteq> None then None else Some 0),
     first_child_element = (\<lambda>n name. Some (n + 1)), get_text = (\<lambda>n. Some ''denied'')\<rparr>"

definition denial :: bytes where
  "denial = ''<rpc-reply message-id=\"101\"><rpc-error/></rpc-reply>''"

lemma eom_found: "find_sub EOM (m @ EOM @ ws) \<noteq> None"
  by (metis find_sub_None append_eq_conv_conj le_add1 length_append prefixI)


section \<open>Requests are one message\<close>

text \<open>No marker in a concatenation: none in the parts, and none across the cut.\<close>

definition no_eom :: "bytes \<Rightarrow> bool" where
  "no_eom s \<longleftrightarrow> find_sub EOM s = None"

definition no_eom_start :: "bytes \<Rightarrow> bool" where
  "no_eom_start a \<longleftrightarrow> (\<forall>k\<in>{1..<6}. \<not> suffix (take k EOM) a)"

lemma eom_before_cut:
  assumes "no_eom a" "no_eom_start a \<or> b = [] \<or> hd b \<notin> {CHR '']'', CHR ''>''}" "k < length a"
  shows "\<not> prefix EOM (drop k (a @ b))"
proof
  assume pre: "prefix EOM (drop k (a @ b))"
  define j where "j = length a - k"
  have j: "1 \<le> j" "drop k (a @ b) = drop k a @ b" "length (drop k a) = j" using assms(3) by (simp_all add: j_def)
  show False
  proof (cases "6 \<le> j")
    case True
    then have "prefix EOM (drop k a)" using pre j by (metis length_EOM prefix_length_prefix prefixI)
    with assms(1,3) show False by (simp add: no_eom_def find_sub_eq_None_iff)
  next
    case False
    obtain z where z: "drop k a @ b = EOM @ z" using pre j(2) by (auto elim: prefixE)
    have "take j (drop k a @ b) = take j (EOM @ z)" "drop j (drop k a @ b) = drop j (EOM @ z)" by (simp_all only: z)
    then have cut: "drop k a = take j EOM" "b = drop j EOM @ z" using j(3) False by simp_all
    then have "suffix (take j EOM) a" by (metis suffix_drop)
    then have "\<not> no_eom_start a" using j(1) False by (auto simp: no_eom_start_def)
    moreover have "drop j EOM \<noteq> []" using False by simp
    then have "b \<noteq> []" "hd b \<in> set (drop j EOM)" using cut(2) by (auto simp: hd_append)
    then have "b \<noteq> [] \<and> hd b \<in> {CHR '']'', CHR ''>''}"
      using set_drop_subset [of j EOM] by (auto simp: EOM_def)
    ultimately show False using assms(2) by auto
  qed
qed

lemma no_eom_iff: "no_eom s \<longleftrightarrow> (\<forall>k<length s. \<not> prefix EOM (drop k s))"
  by (simp add: no_eom_def find_sub_eq_None_iff)

lemma no_eom_append:
  assumes "no_eom a" "no_eom b" "no_eom_start a \<or> b = [] \<or> hd b \<notin> {CHR '']'', CHR ''>''}"
  shows "no_eom (a @ b)"
  unfolding no_eom_iff
proof (intro allI impI)
  fix k
  assume "k < length (a @ b)"
  then show "\<not> prefix EOM (drop k (a @ b))"
    using eom_before_cut [OF assms(1,3), of k] assms(2) by (cases "k < length a") (auto simp: no_eom_iff)
qed

text \<open>A fixed text before the rest, and an argument before a fixed text.\<close>

definition fixed_text :: "bytes \<Rightarrow> bool" where
  "fixed_text a \<longleftrightarrow> no_eom a \<and> no_eom_start a \<and> a \<noteq> [] \<and> hd a \<notin> {CHR '']'', CHR ''>''}"

lemma no_eom_fixed: "fixed_text a \<Longrightarrow> no_eom b \<Longrightarrow> no_eom (a @ b)"
  by (simp add: fixed_text_def no_eom_append)

lemma no_eom_fixed_alone: "fixed_text a \<Longrightarrow> no_eom a"
  by (simp add: fixed_text_def)

lemma no_eom_argument: "no_eom x \<Longrightarrow> fixed_text a \<Longrightarrow> no_eom (a @ b) \<Longrightarrow> no_eom (x @ a @ b)"
  by (rule no_eom_append) (auto simp: fixed_text_def)

lemma no_eom_argument_last: "no_eom x \<Longrightarrow> fixed_text a \<Longrightarrow> no_eom (x @ a)"
  using no_eom_argument [of x a "[]"] by (simp add: fixed_text_def)

lemma request_single:
  assumes "no_eom rpc"
  shows "find_sub EOM (rpc_with_eom rpc) = Some (length rpc + 1)"
proof -
  let ?a = "rpc @ [CHR 0x0A]"
  have nl: "no_eom [CHR 0x0A]" by (simp add: no_eom_def EOM_def)
  have clean: "no_eom ?a" by (rule no_eom_append) (use assms nl in simp_all)
  have start: "no_eom_start ?a"
    unfolding no_eom_start_def
  proof
    fix k :: nat
    assume k: "k \<in> {1..<6}"
    then have ne: "take k EOM \<noteq> []" by simp
    have "last (take k EOM) \<in> set EOM" by (rule in_set_takeD [OF last_in_set [OF ne]])
    then have nl: "last (take k EOM) \<noteq> CHR 0x0A" by (auto simp: EOM_def)
    show "\<not> suffix (take k EOM) ?a"
    proof
      assume "suffix (take k EOM) ?a"
      then obtain z where "?a = z @ take k EOM" by (auto elim: suffixE)
      then have "last ?a = last (take k EOM)" using ne by simp
      with nl show False by simp
    qed
  qed
  have "find_sub EOM (?a @ EOM @ [CHR 0x0A]) = Some (length ?a)"
  proof (rule find_sub_append_first)
    fix k
    assume "k < length ?a"
    from eom_before_cut [OF clean disjI1 [OF start] this]
    show "\<not> prefix EOM (drop k (?a @ EOM @ [CHR 0x0A]))" .
  qed simp
  then show ?thesis by (simp add: rpc_with_eom_def EOM_def)
qed

text \<open>The fixed parts of the requests.\<close>

definition fixed_parts :: "bytes list" where
  "fixed_parts = [XML_DECL, RPC_OPEN, ''<get>'', ''</get></rpc>'', ''<get-config>'', ''<source><'', ''/></source>'',
     ''</get-config></rpc>'', ''<copy-config>'', ''<target><'', ''/></target>'', ''</copy-config>'', ''</rpc>'',
     ''<delete-config>'', ''</delete-config>'', ''<validate>'', ''</validate>'', ''<edit-config>'', ''<config>'',
     ''</config>'', ''</edit-config>'', ''<create-subscription xmlns=\"urn:ietf:params:xml:ns:netconf:notification:1.0\">'',
     ''<stream>'', ''</stream>'', ''</create-subscription></rpc>'', ''<lock>'', ''</lock>'', ''<unlock>'', ''</unlock>'',
     ''<commit/>'', ''<filter type=\"subtree\">'', ''</filter>'']"

definition fixed_text_code :: "bytes \<Rightarrow> bool" where
  "fixed_text_code a \<longleftrightarrow> find_sub EOM a = None \<and> list_all (\<lambda>k. \<not> suffix (take k EOM) a) [1, 2, 3, 4, 5] \<and>
     a \<noteq> [] \<and> hd a \<noteq> CHR '']'' \<and> hd a \<noteq> CHR ''>''"

lemma fixed_parts_fixed: "list_all fixed_text fixed_parts"
proof -
  have "fixed_text_code a \<Longrightarrow> fixed_text a" for a
    by (auto simp: fixed_text_code_def fixed_text_def no_eom_def no_eom_start_def numeral_eq_Suc less_Suc_eq Ball_def
        atLeastLessThan_iff le_Suc_eq)
  moreover have "list_all fixed_text_code fixed_parts" by code_simp
  ultimately show ?thesis by (auto simp: list_all_iff)
qed

lemma fixed_partsI: "a \<in> set fixed_parts \<Longrightarrow> fixed_text a"
  using fixed_parts_fixed by (auto simp: list_all_iff)

lemma part [simp]:
  "fixed_text XML_DECL" "fixed_text RPC_OPEN" "fixed_text ''<get>''" "fixed_text ''</get></rpc>''"
  "fixed_text ''<get-config>''" "fixed_text ''<source><''" "fixed_text ''/></source>''"
  "fixed_text ''</get-config></rpc>''" "fixed_text ''<copy-config>''" "fixed_text ''<target><''"
  "fixed_text ''/></target>''" "fixed_text ''</copy-config>''" "fixed_text ''</rpc>''" "fixed_text ''<delete-config>''"
  "fixed_text ''</delete-config>''" "fixed_text ''<validate>''" "fixed_text ''</validate>''" "fixed_text ''<edit-config>''"
  "fixed_text ''<config>''" "fixed_text ''</config>''" "fixed_text ''</edit-config>''"
  "fixed_text ''<create-subscription xmlns=\"urn:ietf:params:xml:ns:netconf:notification:1.0\">''"
  "fixed_text ''<stream>''" "fixed_text ''</stream>''" "fixed_text ''</create-subscription></rpc>''"
  "fixed_text ''<lock>''" "fixed_text ''</lock>''" "fixed_text ''<unlock>''" "fixed_text ''</unlock>''"
  "fixed_text ''<commit/>''" "fixed_text ''<filter type=\"subtree\">''" "fixed_text ''</filter>''"
  by (rule fixed_partsI, simp add: fixed_parts_def)+

text \<open>The proofs follow the shape of a request: a fixed part, or an argument and the fixed part after it.\<close>

lemma no_eom_filter:
  assumes "no_eom f" "fixed_text a" "no_eom b"
  shows "no_eom (subtree_filter f @ a @ b)"
proof (cases "f = []")
  case True
  then show ?thesis using no_eom_fixed [OF assms(2,3)] by (simp add: subtree_filter_def)
next
  case False
  have "no_eom (''<filter type=\"subtree\">'' @ f @ ''</filter>'' @ a @ b)"
    by (rule no_eom_fixed, rule part, rule no_eom_argument, rule assms, rule part, rule no_eom_fixed, rule part,
        rule no_eom_fixed, rule assms, rule assms)
  with False show ?thesis by (simp only: subtree_filter_def if_True append_assoc not_False_eq_True)
qed

lemma no_eom_Nil [simp]: "no_eom []"
  by (simp add: no_eom_def EOM_def)

lemma no_eom_filter_last: "no_eom f \<Longrightarrow> fixed_text a \<Longrightarrow> no_eom (subtree_filter f @ a)"
  using no_eom_filter [of f a "[]"] by simp

lemmas request_defs = get_rpc_def get_config_rpc_def copy_config_rpc_def delete_config_rpc_def validate_rpc_def
  edit_config_rpc_def create_subscription_rpc_def lock_rpc_def unlock_rpc_def commit_rpc_def

lemma requests_no_eom:
  assumes x: "no_eom x" and y: "no_eom y"
  shows "no_eom (get_rpc y)" "no_eom (get_config_rpc x y)" "no_eom (copy_config_rpc x y)"
    "no_eom (delete_config_rpc x)" "no_eom (validate_rpc x)" "no_eom (edit_config_rpc x y)"
    "no_eom (create_subscription_rpc x y)" "no_eom (lock_rpc x)" "no_eom (unlock_rpc x)" "no_eom commit_rpc"
  unfolding request_defs
  by ((rule no_eom_filter_last, rule y, rule part) | (rule no_eom_fixed, rule part) |
      (rule no_eom_argument, (rule x | rule y), rule part) | (rule no_eom_fixed_alone, rule part))+

text \<open>
  A request is one message. When none of its arguments contains the end-of-message marker, the
  text the client writes for any of its RPCs contains the marker exactly where it ends the request:
  the first marker stands one line end after the request's own text, so no argument can cut a request
  in two or join with the markup around it to form a marker.
\<close>

theorem requests_are_one_message:
  assumes "find_sub EOM x = None" "find_sub EOM y = None"
    and "rpc \<in> {get_rpc y, get_config_rpc x y, copy_config_rpc x y, delete_config_rpc x, validate_rpc x,
      edit_config_rpc x y, create_subscription_rpc x y, lock_rpc x, unlock_rpc x, commit_rpc}"
  shows "find_sub EOM (rpc_with_eom rpc) = Some (length rpc + 1)"
proof -
  have "no_eom x" "no_eom y" using assms(1,2) by (simp_all add: no_eom_def)
  note r = requests_no_eom [OF this]
  have "no_eom rpc" using assms(3) r by blast
  then show ?thesis by (rule request_single)
qed

theorem requests_are_one_message_witness:
  "find_sub EOM (rpc_with_eom (edit_config_rpc ''running'' ''<a>]]></a>'')) =
    Some (length (edit_config_rpc ''running'' ''<a>]]></a>'') + 1)"
  by (rule requests_are_one_message [of "''running''" "''<a>]]></a>''"]) (code_simp, code_simp, simp)

end
