(* ===== verification/Reactors.thy ===== *)
theory Reactors
  imports Queue_Correct "HOL-Library.AList"
begin

text \<open>
  The notification reactors (\<open>src/notification_reactor.cpp\<close>) and their manager
  (\<open>src/notification_reactor_manager.cpp\<close>): registration of sockets, the spreading over threads, the
  handling of an event, and the locks that a change of the number of threads takes. Clients are names;
  a weak pointer is a name and can be locked while \<open>alive\<close> holds of it, which is an input. So is what
  \<open>epoll_ctl\<close> answers (\<open>None\<close>: success). An operation that can throw gives the exception, if any, and
  the state it leaves.
\<close>

section \<open>Reactors\<close>

type_synonym client = nat

text \<open>The handlers of a reactor, \<open>_handlers\<close>, as an association list.\<close>

type_synonym reactor = "(int \<times> client) list"

definition reactor_add ::
  "(client \<Rightarrow> bool) \<Rightarrow> string option \<Rightarrow> int \<Rightarrow> client \<Rightarrow> reactor \<Rightarrow> exn option \<times> reactor" where
  "reactor_add alive epoll_ctl fd c r =
     (let fail = (\<lambda>m. (Some (Netconf_Exception (''Error happened while adding to reactor pool: '' @ m)), r)) in
      if fd < 0 then fail ''NotificationReactor: invalid FD''
      else if \<not> alive c then fail ''NotificationReactor: expired client''
      else case epoll_ctl of
          Some m \<Rightarrow> fail (''NotificationReactor: epoll_ctl ADD failed: '' @ m)
        | None \<Rightarrow> (None, AList.update fd c r))"

definition reactor_remove :: "int \<Rightarrow> reactor \<Rightarrow> reactor" where
  "reactor_remove fd r = (if fd < 0 then r else AList.delete fd r)"

section \<open>The manager\<close>

record manager =
  reactors :: "reactor list"
  device_counts :: "nat list"
  fd_to_reactor :: "(int \<times> nat) list"
  fd_to_client :: "(int \<times> client) list"

definition empty_manager :: manager where
  "empty_manager = \<lparr>reactors = [], device_counts = [], fd_to_reactor = [], fd_to_client = []\<rparr>"

text \<open>\<open>std::min_element(...) - begin()\<close>: the first position of the least element.\<close>

fun min_element :: "nat list \<Rightarrow> nat" where
  "min_element [] = 0"
| "min_element [x] = 0"
| "min_element (x # xs) = (let i = min_element xs in if xs ! i < x then i + 1 else 0)"

text \<open>The four statements that register a socket with the least loaded reactor.\<close>

definition register :: "(client \<Rightarrow> bool) \<Rightarrow> string option \<Rightarrow> int \<Rightarrow> client \<Rightarrow> manager \<Rightarrow> exn option \<times> manager" where
  "register alive epoll_ctl fd c m =
     (let best = min_element (device_counts m) in
      case reactor_add alive epoll_ctl fd c (reactors m ! best) of
        (Some ex, r) \<Rightarrow> (Some ex, m)
      | (None, r) \<Rightarrow>
          (None, m\<lparr>reactors := (reactors m)[best := r],
             fd_to_reactor := AList.update fd best (fd_to_reactor m),
             fd_to_client := AList.update fd c (fd_to_client m),
             device_counts := (device_counts m)[best := device_counts m ! best + 1]\<rparr>))"

definition manager_add :: "(client \<Rightarrow> bool) \<Rightarrow> string option \<Rightarrow> int \<Rightarrow> client option \<Rightarrow> manager \<Rightarrow> exn option \<times> manager" where
  "manager_add alive epoll_ctl fd client m =
     (case client of
        None \<Rightarrow> (Some (Invalid_Argument ''NotificationReactorManager::add got null client''), m)
      | Some c \<Rightarrow>
          let m = (if reactors m = [] then m\<lparr>reactors := reactors m @ [[]], device_counts := device_counts m @ [0]\<rparr> else m)
          in register alive epoll_ctl fd c m)"

definition manager_remove :: "int \<Rightarrow> manager \<Rightarrow> manager" where
  "manager_remove fd m =
     (case map_of (fd_to_reactor m) fd of
        None \<Rightarrow> m
      | Some idx \<Rightarrow>
          let m = (if idx < length (reactors m)
                   then m\<lparr>reactors := (reactors m)[idx := reactor_remove fd (reactors m ! idx)]\<rparr> else m);
              m = m\<lparr>fd_to_reactor := AList.delete fd (fd_to_reactor m), fd_to_client := AList.delete fd (fd_to_client m)\<rparr>
          in if idx < length (device_counts m) \<and> device_counts m ! idx > 0
             then m\<lparr>device_counts := (device_counts m)[idx := device_counts m ! idx - 1]\<rparr> else m)"

text \<open>The loop of \<open>set_reactor_count\<close> that registers the surviving sockets again; \<open>epoll_ctl fd\<close> is the
  answer for that socket.\<close>

fun register_all ::
  "(client \<Rightarrow> bool) \<Rightarrow> (int \<Rightarrow> string option) \<Rightarrow> (int \<times> client) list \<Rightarrow> manager \<Rightarrow> exn option \<times> manager" where
  "register_all alive epoll_ctl [] m = (None, m)"
| "register_all alive epoll_ctl ((fd, c) # es) m =
     (if \<not> alive c then register_all alive epoll_ctl es m
      else case register alive (epoll_ctl fd) fd c m of
          (Some ex, m) \<Rightarrow> (Some ex, m)
        | (None, m) \<Rightarrow> register_all alive epoll_ctl es m)"

text \<open>\<open>set_reactor_count\<close>; \<open>alive1\<close> and \<open>alive2\<close> are the two moments weak pointers are tested. The old
  reactors are destroyed (their threads joined) before the new ones are made.\<close>

definition set_reactor_count ::
  "(client \<Rightarrow> bool) \<Rightarrow> (client \<Rightarrow> bool) \<Rightarrow> (int \<Rightarrow> string option) \<Rightarrow> nat \<Rightarrow> manager \<Rightarrow> exn option \<times> manager" where
  "set_reactor_count alive1 alive2 epoll_ctl new_count m =
     (if new_count = 0 then (Some (Invalid_Argument ''new_count must be greater than 0''), m)
      else
        let all = filter (\<lambda>(fd, c). alive1 c) (fd_to_client m)
        in register_all alive2 epoll_ctl all
             \<lparr>reactors = replicate new_count [], device_counts = replicate new_count 0, fd_to_reactor = [], fd_to_client = []\<rparr>)"

definition MAX_PER :: nat where
  "MAX_PER = 5000"

text \<open>The number of reactors \<open>init\<close> asks for; \<open>hw\<close> is \<open>hardware_concurrency()\<close>.\<close>

definition init_count :: "nat \<Rightarrow> nat \<Rightarrow> nat" where
  "init_count hw total_devices =
     (let hw = (if hw = 0 then 4 else hw); needed = (total_devices + MAX_PER - 1) div MAX_PER in min hw (max 1 needed))"

definition manager_init ::
  "nat \<Rightarrow> (client \<Rightarrow> bool) \<Rightarrow> (client \<Rightarrow> bool) \<Rightarrow> (int \<Rightarrow> string option) \<Rightarrow> nat \<Rightarrow> manager \<Rightarrow> exn option \<times> manager" where
  "manager_init hw alive1 alive2 epoll_ctl total_devices m =
     set_reactor_count alive1 alive2 epoll_ctl (init_count hw total_devices) m"

section \<open>The least loaded reactor\<close>

lemma min_element_least:
  "xs \<noteq> [] \<Longrightarrow> min_element xs < length xs \<and> (\<forall>x\<in>set xs. xs ! min_element xs \<le> x)"
  by (induction xs rule: min_element.induct) (fastforce simp: Let_def)+

section \<open>Invariant\<close>

text \<open>The handlers of the reactors are the manager's two maps, and the counters count them.\<close>

definition sockets_of :: "manager \<Rightarrow> nat \<Rightarrow> int set" where
  "sockets_of m i = {fd. map_of (fd_to_reactor m) fd = Some i}"

definition manager_inv :: "manager \<Rightarrow> bool" where
  "manager_inv m \<longleftrightarrow>
     length (device_counts m) = length (reactors m) \<and> distinct (map fst (fd_to_client m)) \<and>
     dom (map_of (fd_to_reactor m)) = dom (map_of (fd_to_client m)) \<and>
     (\<forall>fd i. map_of (fd_to_reactor m) fd = Some i \<longrightarrow> i < length (reactors m) \<and> 0 \<le> fd) \<and>
     (\<forall>i<length (reactors m). \<forall>fd. map_of (reactors m ! i) fd =
        (if map_of (fd_to_reactor m) fd = Some i then map_of (fd_to_client m) fd else None)) \<and>
     (\<forall>i<length (reactors m). device_counts m ! i = card (sockets_of m i))"

lemma finite_sockets [simp]: "finite (sockets_of m i)"
proof (rule finite_subset)
  show "sockets_of m i \<subseteq> dom (map_of (fd_to_reactor m))" by (auto simp: sockets_of_def)
qed (rule finite_dom_map_of)

lemma manager_inv_empty: "manager_inv empty_manager"
  by (simp add: manager_inv_def empty_manager_def)

lemma manager_inv_fresh: "manager_inv \<lparr>reactors = replicate n [], device_counts = replicate n 0, fd_to_reactor = [], fd_to_client = []\<rparr>"
  by (simp add: manager_inv_def sockets_of_def)

lemma reactor_add_None:
  "reactor_add alive e fd c r = (None, r') \<longleftrightarrow> 0 \<le> fd \<and> alive c \<and> e = None \<and> r' = AList.update fd c r"
  by (auto simp: reactor_add_def Let_def split: option.splits)

lemma reactor_add_Some: "reactor_add alive e fd c r = (Some ex, r') \<Longrightarrow> r' = r"
  by (auto simp: reactor_add_def Let_def split: if_splits option.splits)

lemma register_None:
  assumes "register alive e fd c m = (None, m')"
  shows "0 \<le> fd \<and> alive c \<and> e = None \<and> (let b = min_element (device_counts m) in
    m' = m\<lparr>reactors := (reactors m)[b := AList.update fd c (reactors m ! b)],
       fd_to_reactor := AList.update fd b (fd_to_reactor m), fd_to_client := AList.update fd c (fd_to_client m),
       device_counts := (device_counts m)[b := device_counts m ! b + 1]\<rparr>)"
  using assms by (auto simp: register_def Let_def reactor_add_None split: prod.splits option.splits)

lemma register_Some: "register alive e fd c m = (Some ex, m') \<Longrightarrow> m' = m"
  by (auto simp: register_def Let_def split: prod.splits option.splits)

lemma manager_inv_register:
  assumes inv: "manager_inv m" and ne: "reactors m \<noteq> []" and new: "map_of (fd_to_reactor m) fd = None"
    and reg: "register alive e fd c m = (r, m')"
  shows "manager_inv m' \<and> length (reactors m') = length (reactors m)"
proof (cases r)
  case (Some ex)
  then have "m' = m" using register_Some reg by blast
  with inv show ?thesis by simp
next
  case None
  define b where "b = min_element (device_counts m)"
  have fd: "0 \<le> fd" and m': "m' = m\<lparr>reactors := (reactors m)[b := AList.update fd c (reactors m ! b)],
       fd_to_reactor := AList.update fd b (fd_to_reactor m), fd_to_client := AList.update fd c (fd_to_client m),
       device_counts := (device_counts m)[b := device_counts m ! b + 1]\<rparr>"
    using register_None [OF reg [unfolded None]] by (simp_all add: b_def Let_def)
  have len: "length (device_counts m) = length (reactors m)" using inv by (simp add: manager_inv_def)
  then have b: "b < length (reactors m)"
    using min_element_least [of "device_counts m"] ne by (cases "device_counts m") (auto simp: b_def)
  have notin: "fd \<notin> sockets_of m i" for i using new by (simp add: sockets_of_def)
  have socks: "sockets_of m' i = (if i = b then insert fd (sockets_of m i) else sockets_of m i)" for i
    using new by (auto simp: sockets_of_def m' update_conv')
  have "distinct (map fst (fd_to_client m'))"
    using inv by (simp add: m' manager_inv_def distinct_update)
  moreover have "dom (map_of (fd_to_reactor m')) = dom (map_of (fd_to_client m'))"
    using inv by (simp add: m' manager_inv_def update_conv')
  moreover have "\<forall>g i. map_of (fd_to_reactor m') g = Some i \<longrightarrow> i < length (reactors m') \<and> 0 \<le> g"
    using inv b fd by (auto simp: m' manager_inv_def update_conv')
  moreover have "\<forall>i<length (reactors m'). \<forall>g. map_of (reactors m' ! i) g =
      (if map_of (fd_to_reactor m') g = Some i then map_of (fd_to_client m') g else None)"
    using inv b new by (auto simp: m' manager_inv_def update_conv' nth_list_update)
  moreover have "\<forall>i<length (reactors m'). device_counts m' ! i = card (sockets_of m' i)"
    using inv b len notin unfolding socks by (auto simp: m' manager_inv_def nth_list_update)
  ultimately show ?thesis using len unfolding manager_inv_def by (simp add: m')
qed

lemma manager_inv_add:
  assumes "manager_inv m" "map_of (fd_to_reactor m) fd = None" "manager_add alive e fd client m = (r, m')"
  shows "manager_inv m'"
proof (cases client)
  case (Some c)
  let ?m = "if reactors m = [] then m\<lparr>reactors := reactors m @ [[]], device_counts := device_counts m @ [0]\<rparr> else m"
  have "manager_inv ?m"
    using assms(1) by (cases "reactors m") (auto simp: manager_inv_def sockets_of_def)
  moreover have "reactors ?m \<noteq> []" "map_of (fd_to_reactor ?m) fd = None" using assms(2) by simp_all
  moreover have "register alive e fd c ?m = (r, m')" using assms(3) Some by (simp add: manager_add_def Let_def)
  ultimately show ?thesis using manager_inv_register by blast
qed (use assms in \<open>simp add: manager_add_def\<close>)

lemma manager_inv_remove:
  assumes inv: "manager_inv m"
  shows "manager_inv (manager_remove fd m) \<and> map_of (fd_to_reactor (manager_remove fd m)) fd = None"
proof (cases "map_of (fd_to_reactor m) fd")
  case (Some i)
  have i: "i < length (reactors m)" "0 \<le> fd" and len: "length (device_counts m) = length (reactors m)"
    using inv Some by (auto simp: manager_inv_def)
  have "fd \<in> sockets_of m i" using Some by (simp add: sockets_of_def)
  then have pos: "0 < card (sockets_of m i)" by (auto simp: card_gt_0_iff)
  moreover have "device_counts m ! i = card (sockets_of m i)" using inv i by (simp add: manager_inv_def)
  ultimately have m': "manager_remove fd m = m\<lparr>reactors := (reactors m)[i := AList.delete fd (reactors m ! i)],
      fd_to_reactor := AList.delete fd (fd_to_reactor m), fd_to_client := AList.delete fd (fd_to_client m),
      device_counts := (device_counts m)[i := device_counts m ! i - 1]\<rparr>"
    using Some i len by (simp add: manager_remove_def reactor_remove_def Let_def)
  have socks: "sockets_of (manager_remove fd m) j = sockets_of m j - {fd}" for j
    by (auto simp: sockets_of_def m' delete_conv' split: if_splits)
  have other: "fd \<notin> sockets_of m j" if "j \<noteq> i" for j using Some that by (simp add: sockets_of_def)
  have "\<forall>j<length (reactors m). device_counts (manager_remove fd m) ! j = card (sockets_of (manager_remove fd m) j)"
  proof (intro allI impI)
    fix j assume j: "j < length (reactors m)"
    then have c: "device_counts m ! j = card (sockets_of m j)" using inv by (simp add: manager_inv_def)
    show "device_counts (manager_remove fd m) ! j = card (sockets_of (manager_remove fd m) j)"
      using c \<open>fd \<in> sockets_of m i\<close> other [of j] j len unfolding socks
      by (cases "j = i") (simp_all add: m' card_Diff_singleton nth_list_update)
  qed
  moreover have "distinct (map fst (fd_to_client (manager_remove fd m)))"
    using inv by (simp add: m' manager_inv_def distinct_delete)
  moreover have "dom (map_of (fd_to_reactor (manager_remove fd m))) = dom (map_of (fd_to_client (manager_remove fd m)))"
    using inv by (simp add: m' manager_inv_def delete_conv')
  moreover have "\<forall>g j. map_of (fd_to_reactor (manager_remove fd m)) g = Some j \<longrightarrow> j < length (reactors m) \<and> 0 \<le> g"
    using inv by (auto simp: m' manager_inv_def delete_conv' split: if_splits)
  moreover have "\<forall>j<length (reactors m). \<forall>g. map_of (reactors (manager_remove fd m) ! j) g =
      (if map_of (fd_to_reactor (manager_remove fd m)) g = Some j then map_of (fd_to_client (manager_remove fd m)) g else None)"
    using inv i Some by (auto simp: m' manager_inv_def delete_conv' nth_list_update)
  ultimately show ?thesis using len unfolding manager_inv_def by (simp add: m' delete_conv')
qed (use inv in \<open>simp add: manager_remove_def\<close>)

text \<open>Registering a list of sockets in an empty manager.\<close>

definition balanced :: "manager \<Rightarrow> bool" where
  "balanced m \<longleftrightarrow> (\<forall>x\<in>set (device_counts m). \<forall>y\<in>set (device_counts m). x \<le> y + 1)"

lemma balanced_register:
  assumes "balanced m" "device_counts m \<noteq> []" "register alive e fd c m = (r, m')"
  shows "balanced m'"
proof (cases r)
  case (Some ex)
  then have "m' = m" using register_Some assms(3) by blast
  with assms(1) show ?thesis by simp
next
  case None
  define b where "b = min_element (device_counts m)"
  have b: "b < length (device_counts m)" "\<forall>x\<in>set (device_counts m). device_counts m ! b \<le> x"
    using min_element_least [OF assms(2)] by (auto simp: b_def)
  have m': "device_counts m' = (device_counts m)[b := device_counts m ! b + 1]"
    using register_None [OF assms(3) [unfolded None]] by (simp add: b_def Let_def)
  have old: "x = device_counts m ! b + 1 \<or> x \<in> set (device_counts m)" if "x \<in> set (device_counts m')" for x
    using that set_update_subset_insert [of "device_counts m" b] m' by fastforce
  have "device_counts m ! b \<in> set (device_counts m)" using b(1) by simp
  have "x \<le> y + 1" if "x \<in> set (device_counts m')" "y \<in> set (device_counts m')" for x y
  proof -
    note o = assms(1) [unfolded balanced_def, rule_format]
    show ?thesis
      using old [OF that(1)] old [OF that(2)] b(2) o o [OF _ \<open>device_counts m ! b \<in> set (device_counts m)\<close>, of x]
      by (elim disjE) (force | simp)+
  qed
  then show ?thesis by (simp add: balanced_def)
qed

lemma register_all_inv:
  assumes "manager_inv m" "balanced m" "reactors m \<noteq> []" "distinct (map fst es)"
    and "\<forall>(fd, c)\<in>set es. map_of (fd_to_reactor m) fd = None"
    and "register_all alive e es m = (r, m')"
  shows "manager_inv m' \<and> balanced m' \<and> length (reactors m') = length (reactors m) \<and>
    (r = None \<longrightarrow> (\<forall>fd. map_of (fd_to_client m') fd =
       (case map_of es fd of Some c \<Rightarrow> if alive c then Some c else None | None \<Rightarrow> map_of (fd_to_client m) fd)))"
  using assms
proof (induction alive e es m rule: register_all.induct)
  case (2 alive e fd c es m)
  show ?case
  proof (cases "alive c")
    case False
    with 2 have IH: "manager_inv m' \<and> balanced m' \<and> length (reactors m') = length (reactors m) \<and>
      (r = None \<longrightarrow> (\<forall>fd. map_of (fd_to_client m') fd =
       (case map_of es fd of Some c \<Rightarrow> if alive c then Some c else None | None \<Rightarrow> map_of (fd_to_client m) fd)))"
      by auto
    have "map_of (fd_to_reactor m) fd = None" using 2(7) by simp
    then have "map_of (fd_to_client m) fd = None" using 2(3) unfolding manager_inv_def by (metis domIff)
    moreover have "map_of es fd = None" using 2(6) by (simp add: map_of_eq_None_iff)
    ultimately show ?thesis using IH False by (auto simp del: map_of_eq_None_iff)
  next
    case True
    obtain r1 m1 where reg: "register alive (e fd) fd c m = (r1, m1)" by (cases "register alive (e fd) fd c m")
    have new: "map_of (fd_to_reactor m) fd = None" using 2(7) by simp
    have inv1: "manager_inv m1" "length (reactors m1) = length (reactors m)"
      using manager_inv_register [OF 2(3) 2(5) new reg] by simp_all
    have "device_counts m \<noteq> []" using 2(3,5) by (auto simp: manager_inv_def)
    from balanced_register [OF 2(4) this reg] have bal1: "balanced m1" .
    show ?thesis
    proof (cases r1)
      case (Some ex)
      with 2(8) reg True inv1 bal1 show ?thesis by auto
    next
      case None
      note m1 = register_None [OF reg [unfolded None]]
      have f: "map_of (fd_to_reactor m1) g = (if g = fd then Some (min_element (device_counts m)) else map_of (fd_to_reactor m) g)"
        "map_of (fd_to_client m1) g = (if g = fd then Some c else map_of (fd_to_client m) g)" for g
        using m1 by (simp_all add: Let_def update_conv')
      have d: "distinct (map fst es)" "map_of es fd = None" using 2(6) by (simp_all add: map_of_eq_None_iff)
      have n: "\<forall>(g, c)\<in>set es. map_of (fd_to_reactor m1) g = None"
      proof (rule ballI, clarify)
        fix g h assume g: "(g, h) \<in> set es"
        then have "g \<noteq> fd" using 2(6) by force
        moreover have "map_of (fd_to_reactor m) g = None" using bspec [OF 2(7), of "(g, h)"] g by simp
        ultimately show "map_of (fd_to_reactor m1) g = None" by (simp add: f(1))
      qed
      have "reactors m1 \<noteq> []" using inv1(2) 2(5) by auto
      moreover have "register_all alive e es m1 = (r, m')" using reg None True 2(8) by simp
      ultimately have IH: "manager_inv m' \<and> balanced m' \<and> length (reactors m') = length (reactors m1) \<and>
        (r = None \<longrightarrow> (\<forall>fd. map_of (fd_to_client m') fd =
          (case map_of es fd of Some c \<Rightarrow> if alive c then Some c else None | None \<Rightarrow> map_of (fd_to_client m1) fd)))"
        using 2(2) [OF _ reg [symmetric] None inv1(1) bal1 _ d(1) n] True by blast
      then show ?thesis using inv1(2) d(2) True by (auto simp: f split: option.splits simp del: map_of_eq_None_iff)
    qed
  qed
qed simp


section \<open>Properties\<close>

text \<open>The calls of the manager; a socket is only added while it is not registered.\<close>

inductive manager_step :: "manager \<Rightarrow> manager \<Rightarrow> bool" where
  step_add: "map_of (fd_to_reactor m) fd = None \<Longrightarrow> manager_add alive e fd client m = (r, m') \<Longrightarrow> manager_step m m'"
| step_remove: "manager_step m (manager_remove fd m)"
| step_count: "set_reactor_count alive1 alive2 es n m = (r, m') \<Longrightarrow> manager_step m m'"

lemma map_of_filter_alive:
  "distinct (map fst es) \<Longrightarrow> map_of (filter (\<lambda>(fd, c). alive c) es) fd =
     (case map_of es fd of None \<Rightarrow> None | Some c \<Rightarrow> if alive c then Some c else None)"
proof (induction es)
  case (Cons e es)
  then have "map_of es (fst e) = None" by (simp add: map_of_eq_None_iff)
  with Cons show ?case by (cases e; cases "fd = fst e") (auto split: option.splits simp del: map_of_eq_None_iff)
qed simp

lemma set_reactor_count_inv:
  assumes inv: "manager_inv m" and n: "n \<noteq> 0" and call: "set_reactor_count alive1 alive2 e n m = (r, m')"
  shows "manager_inv m' \<and> balanced m' \<and> length (reactors m') = n \<and>
    (r = None \<longrightarrow> (\<forall>fd. map_of (fd_to_client m') fd =
       (case map_of (fd_to_client m) fd of None \<Rightarrow> None | Some c \<Rightarrow> if alive1 c \<and> alive2 c then Some c else None)))"
proof -
  let ?all = "filter (\<lambda>(fd, c). alive1 c) (fd_to_client m)"
  let ?m = "\<lparr>reactors = replicate n [], device_counts = replicate n 0, fd_to_reactor = [], fd_to_client = []\<rparr> :: manager"
  have d: "distinct (map fst (fd_to_client m))" using inv by (simp add: manager_inv_def)
  then have da: "distinct (map fst ?all)" by (rule distinct_map_filter)
  have "register_all alive2 e ?all ?m = (r, m')" using call n by (simp add: set_reactor_count_def)
  moreover have "balanced ?m" "reactors ?m \<noteq> []" using n by (simp_all add: balanced_def)
  moreover have "\<forall>(fd, c)\<in>set ?all. map_of (fd_to_reactor ?m) fd = None" by simp
  ultimately show ?thesis
    using register_all_inv [OF manager_inv_fresh [of n] _ _ da, of alive2 e r m']
    by (simp add: map_of_filter_alive [OF d]) (auto split: option.splits)
qed

lemma manager_step_inv: "manager_step m m' \<Longrightarrow> manager_inv m \<Longrightarrow> manager_inv m'"
proof (induction rule: manager_step.induct)
  case (step_add m fd alive e client r m')
  then show ?case using manager_inv_add by blast
next
  case (step_remove m fd)
  then show ?case using manager_inv_remove by blast
next
  case (step_count alive1 alive2 es n m r m')
  show ?case
  proof (cases "n = 0")
    case True
    with step_count show ?thesis by (simp add: set_reactor_count_def)
  next
    case False
    with step_count set_reactor_count_inv show ?thesis by blast
  qed
qed

lemma manager_steps_inv: "manager_step\<^sup>*\<^sup>* m m' \<Longrightarrow> manager_inv m \<Longrightarrow> manager_inv m'"
  by (induction rule: rtranclp_induct) (blast intro: manager_step_inv)+

lemma register_all_append:
  "register_all alive e (es @ fs) m =
     (case register_all alive e es m of (Some ex, m') \<Rightarrow> (Some ex, m') | (None, m') \<Rightarrow> register_all alive e fs m')"
  by (induction alive e es m rule: register_all.induct) (auto split: prod.splits option.splits)

lemma register_succeeds:
  "0 \<le> fd \<Longrightarrow> alive c \<Longrightarrow> fst (register alive None fd c m) = None"
  by (simp add: register_def reactor_add_def Let_def)

lemma register_all_succeeds:
  "(\<forall>(fd, c)\<in>set es. 0 \<le> fd \<and> alive c \<and> e fd = None) \<Longrightarrow> fst (register_all alive e es m) = None"
proof (induction alive e es m rule: register_all.induct)
  case (2 alive e fd c es m)
  then have ok: "alive c" "e fd = None" "fst (register alive (e fd) fd c m) = None"
    using register_succeeds [of fd alive c m] by simp_all
  then show ?case using 2 by (cases "register alive (e fd) fd c m") simp
qed simp

lemma register_all_clients:
  "register_all alive e es m = (None, m') \<Longrightarrow> \<forall>(fd, c)\<in>set es. alive c \<Longrightarrow>
     dom (map_of (fd_to_client m')) = fst ` set es \<union> dom (map_of (fd_to_client m))"
proof (induction alive e es m rule: register_all.induct)
  case (2 alive e fd c es m)
  obtain r1 m1 where reg: "register alive (e fd) fd c m = (r1, m1)" by (cases "register alive (e fd) fd c m")
  with 2(3,4) have r1: "r1 = None" and all: "register_all alive e es m1 = (None, m')"
    by (auto split: option.splits)
  have "dom (map_of (fd_to_client m1)) = insert fd (dom (map_of (fd_to_client m)))"
    using register_None [OF reg [unfolded r1]] by (simp add: Let_def update_conv')
  then show ?case using 2(2) [OF _ reg [symmetric] r1 all] 2(4) by auto
qed simp

lemma inv_handlers_sockets:
  assumes inv: "manager_inv m" and i: "i < length (reactors m)"
  shows "dom (map_of (reactors m ! i)) = sockets_of m i"
proof (intro set_eqI)
  fix fd
  note D = inv [unfolded manager_inv_def]
  have "map_of (reactors m ! i) fd = (if map_of (fd_to_reactor m) fd = Some i then map_of (fd_to_client m) fd else None)"
    using D i by blast
  moreover have "fd \<in> dom (map_of (fd_to_reactor m)) \<longleftrightarrow> fd \<in> dom (map_of (fd_to_client m))" using D by simp
  ultimately show "fd \<in> dom (map_of (reactors m ! i)) \<longleftrightarrow> fd \<in> sockets_of m i"
    by (cases "map_of (fd_to_reactor m) fd = Some i") (auto simp: sockets_of_def)
qed

text \<open>
  C31. Whatever is added, removed and resized, as long as a socket is only added while it is not
  registered: each registered socket has its handler, for its own client, in exactly one reactor, a
  reactor has no other handlers, and the counters by which the next socket is placed are the true
  numbers of handlers.
\<close>

theorem manager_places_each_socket_once:
  assumes run: "manager_step\<^sup>*\<^sup>* empty_manager m"
  shows "(\<forall>fd c. map_of (fd_to_client m) fd = Some c \<longrightarrow>
      (\<exists>i<length (reactors m). map_of (reactors m ! i) fd = Some c \<and>
         (\<forall>j<length (reactors m). j \<noteq> i \<longrightarrow> map_of (reactors m ! j) fd = None))) \<and>
    (\<forall>i<length (reactors m). \<forall>fd c. map_of (reactors m ! i) fd = Some c \<longrightarrow> map_of (fd_to_client m) fd = Some c) \<and>
    (\<forall>i<length (reactors m). device_counts m ! i = card (dom (map_of (reactors m ! i))))"
proof (intro conjI)
  have inv: "manager_inv m" using manager_steps_inv [OF run manager_inv_empty] .
  note D = inv [unfolded manager_inv_def]
  show "\<forall>fd c. map_of (fd_to_client m) fd = Some c \<longrightarrow>
      (\<exists>i<length (reactors m). map_of (reactors m ! i) fd = Some c \<and>
         (\<forall>j<length (reactors m). j \<noteq> i \<longrightarrow> map_of (reactors m ! j) fd = None))"
  proof (intro allI impI)
    fix fd c assume c: "map_of (fd_to_client m) fd = Some c"
    then have "fd \<in> dom (map_of (fd_to_reactor m))" using D by auto
    then obtain i where i: "map_of (fd_to_reactor m) fd = Some i" by auto
    then have "i < length (reactors m)" using D by blast
    with i c D show "\<exists>i<length (reactors m). map_of (reactors m ! i) fd = Some c \<and>
       (\<forall>j<length (reactors m). j \<noteq> i \<longrightarrow> map_of (reactors m ! j) fd = None)"
      by (intro exI [of _ i]) auto
  qed
  show "\<forall>i<length (reactors m). \<forall>fd c. map_of (reactors m ! i) fd = Some c \<longrightarrow> map_of (fd_to_client m) fd = Some c"
    using D by auto
  show "\<forall>i<length (reactors m). device_counts m ! i = card (dom (map_of (reactors m ! i)))"
    using D inv_handlers_sockets [OF inv] by simp
qed

definition two_sockets :: manager where
  "two_sockets = \<lparr>reactors = [[(5, 0)], [(6, 1)]], device_counts = [1, 1], fd_to_reactor = [(5, 0), (6, 1)],
     fd_to_client = [(5, 0), (6, 1)]\<rparr>"

lemma two_sockets_step:
  "set_reactor_count (\<lambda>_. True) (\<lambda>_. True) (\<lambda>_. None) 2
     (snd (manager_add (\<lambda>_. True) None 6 (Some 1) (snd (manager_add (\<lambda>_. True) None 5 (Some 0) empty_manager)))) =
   (None, two_sockets)"
  by (simp add: set_reactor_count_def manager_add_def empty_manager_def register_def reactor_add_def Let_def
      two_sockets_def numeral_2_eq_2)

lemma two_sockets_reachable: "manager_step\<^sup>*\<^sup>* empty_manager two_sockets"
proof -
  define m1 where "m1 = snd (manager_add (\<lambda>_. True) None 5 (Some 0) empty_manager)"
  define m2 where "m2 = snd (manager_add (\<lambda>_. True) None 6 (Some 1) m1)"
  have "manager_step empty_manager m1"
    by (rule step_add [of _ 5 "\<lambda>_. True" None "Some 0" "fst (manager_add (\<lambda>_. True) None 5 (Some 0) empty_manager)"])
      (simp_all add: m1_def empty_manager_def)
  moreover have "manager_step m1 m2"
    by (rule step_add [of _ 6 "\<lambda>_. True" None "Some 1" "fst (manager_add (\<lambda>_. True) None 6 (Some 1) m1)"])
      (simp_all add: m1_def m2_def empty_manager_def manager_add_def register_def reactor_add_def Let_def)
  moreover have "manager_step m2 two_sockets"
    using step_count [OF two_sockets_step] by (simp add: m1_def m2_def)
  ultimately show ?thesis by (meson r_into_rtranclp rtranclp_trans)
qed

theorem manager_places_each_socket_once_witness:
  "map_of (fd_to_client two_sockets) 6 = Some 1 \<and> (\<exists>i<length (reactors two_sockets). map_of (reactors two_sockets ! i) 6 = Some 1)"
  using manager_places_each_socket_once [OF two_sockets_reachable] by (auto simp: two_sockets_def)

text \<open>
  C32. \<open>set_reactor_count\<close> that returns leaves that many reactors, keeps exactly the registered sockets
  whose client is still alive, each with its client, and spreads them so that no two reactors differ by
  more than one socket.
\<close>

theorem set_reactor_count_rebalances:
  assumes inv: "manager_inv m" and call: "set_reactor_count alive1 alive2 es n m = (None, m')"
  shows "manager_inv m' \<and> length (reactors m') = n \<and>
    (\<forall>fd. map_of (fd_to_client m') fd =
       (case map_of (fd_to_client m) fd of None \<Rightarrow> None | Some c \<Rightarrow> if alive1 c \<and> alive2 c then Some c else None)) \<and>
    (\<forall>i<n. \<forall>j<n. device_counts m' ! i \<le> device_counts m' ! j + 1)"
proof -
  have "n \<noteq> 0" using call by (cases "n = 0") (simp_all add: set_reactor_count_def)
  with set_reactor_count_inv [OF inv _ call]
  have *: "manager_inv m' \<and> balanced m' \<and> length (reactors m') = n \<and> (\<forall>fd. map_of (fd_to_client m') fd =
       (case map_of (fd_to_client m) fd of None \<Rightarrow> None | Some c \<Rightarrow> if alive1 c \<and> alive2 c then Some c else None))"
    by simp
  moreover from * have "length (device_counts m') = n" by (simp add: manager_inv_def)
  ultimately show ?thesis by (simp add: balanced_def)
qed

theorem set_reactor_count_rebalances_witness:
  "fst (set_reactor_count (\<lambda>c. c \<noteq> 1) (\<lambda>_. True) (\<lambda>_. None) 3 two_sockets) = None \<and>
   map_of (fd_to_client (snd (set_reactor_count (\<lambda>c. c \<noteq> 1) (\<lambda>_. True) (\<lambda>_. None) 3 two_sockets))) 5 = Some 0"
proof -
  obtain m' where m': "set_reactor_count (\<lambda>c. c \<noteq> 1) (\<lambda>_. True) (\<lambda>_. None) 3 two_sockets = (None, m')"
    by (simp add: set_reactor_count_def two_sockets_def register_def reactor_add_def Let_def numeral_3_eq_3)
  from set_reactor_count_rebalances [OF manager_steps_inv [OF two_sockets_reachable manager_inv_empty] m'] m'
  show ?thesis by (simp add: two_sockets_def)
qed

text \<open>
  When the operating system refuses to register one socket in the new reactors,
  \<open>set_reactor_count\<close> throws with the sockets after it no longer registered: their subscriptions stay open
  and are never read again.
\<close>

theorem failed_resize_drops_sockets:
  assumes inv: "manager_inv m" and n: "0 < n" and clients: "fd_to_client m = es1 @ (fd, c) # es2"
    and alive: "\<forall>(g, d)\<in>set (fd_to_client m). alive d"
    and ok: "\<forall>(g, d)\<in>set es1. epoll_ctl g = None" and refused: "epoll_ctl fd = Some msg"
  shows "\<exists>m'. set_reactor_count alive alive epoll_ctl n m =
      (Some (Netconf_Exception (''Error happened while adding to reactor pool: '' @
         ''NotificationReactor: epoll_ctl ADD failed: '' @ msg)), m') \<and>
    dom (map_of (fd_to_client m')) = fst ` set es1 \<and> (\<forall>(g, d)\<in>set es2. map_of (fd_to_reactor m') g = None)"
proof -
  let ?m = "\<lparr>reactors = replicate n [], device_counts = replicate n 0, fd_to_reactor = [], fd_to_client = []\<rparr> :: manager"
  note D = inv [unfolded manager_inv_def]
  have nonneg: "0 \<le> g" if "(g, d) \<in> set (fd_to_client m)" for g d
  proof -
    have "g \<in> dom (map_of (fd_to_client m))" using that by (auto simp: dom_map_of_conv_image_fst image_iff intro!: bexI [OF _ that])
    then have "g \<in> dom (map_of (fd_to_reactor m))" using D by simp
    then show ?thesis using D by blast
  qed
  have all: "filter (\<lambda>(fd, c). alive c) (fd_to_client m) = es1 @ (fd, c) # es2"
    using alive clients by (auto intro!: filter_True)
  have "\<forall>(g, d)\<in>set es1. 0 \<le> g \<and> alive d \<and> epoll_ctl g = None"
  proof (rule ballI, clarify)
    fix g d assume g: "(g, d) \<in> set es1"
    then have "(g, d) \<in> set (fd_to_client m)" by (simp add: clients)
    then show "0 \<le> g \<and> alive d \<and> epoll_ctl g = None" using nonneg bspec [OF alive, of "(g, d)"] bspec [OF ok g] by simp
  qed
  from register_all_succeeds [OF this, of ?m] obtain m' where m': "register_all alive epoll_ctl es1 ?m = (None, m')"
    by (cases "register_all alive epoll_ctl es1 ?m") auto
  have c: "alive c" "0 \<le> fd" using alive clients nonneg [of fd c] by auto
  have "set_reactor_count alive alive epoll_ctl n m =
      (Some (Netconf_Exception (''Error happened while adding to reactor pool: '' @ ''NotificationReactor: epoll_ctl ADD failed: '' @ msg)), m')"
    using n c refused by (simp add: set_reactor_count_def all register_all_append m' register_def reactor_add_def Let_def)
  moreover have dom: "dom (map_of (fd_to_client m')) = fst ` set es1"
    using register_all_clients [OF m'] alive clients by auto
  moreover have "manager_inv m'"
  proof -
    have "distinct (map fst es1)" using D clients by simp
    then show ?thesis using register_all_inv [OF manager_inv_fresh [of n] _ _ _ _ m'] n by (simp add: balanced_def)
  qed
  then have "dom (map_of (fd_to_reactor m')) = fst ` set es1" using dom by (simp add: manager_inv_def)
  moreover have "map_of (fd_to_reactor m') g = None" if "(g, d) \<in> set es2" for g d
  proof -
    have "distinct (map fst es1 @ fd # map fst es2)" using D clients by simp
    moreover have "g \<in> set (map fst es2)" using that by force
    ultimately have "g \<notin> fst ` set es1" by auto
    then show ?thesis using \<open>dom (map_of (fd_to_reactor m')) = _\<close> by blast
  qed
  ultimately show ?thesis by blast
qed

theorem failed_resize_drops_sockets_witness:
  "\<exists>m'. set_reactor_count (\<lambda>_. True) (\<lambda>_. True) (\<lambda>fd. if fd = 5 then Some ''No space left on device'' else None) 2 two_sockets =
      (Some (Netconf_Exception (''Error happened while adding to reactor pool: '' @
         ''NotificationReactor: epoll_ctl ADD failed: '' @ ''No space left on device'')), m') \<and>
    map_of (fd_to_reactor m') 6 = None"
proof -
  have "fd_to_client two_sockets = [] @ (5, 0) # [(6, 1)]" by (simp add: two_sockets_def)
  from failed_resize_drops_sockets [OF manager_steps_inv [OF two_sockets_reachable manager_inv_empty] _ this,
      of 2 "\<lambda>_. True" "\<lambda>fd. if fd = 5 then Some ''No space left on device'' else None" "''No space left on device''"]
  show ?thesis by auto
qed

text \<open>
  Adding a socket that is still registered with another, busier reactor leaves the handler and the
  count of the first registration behind for good: removing the socket removes only the second one, and
  the first reactor goes on handling events of that number for the old client.
\<close>

theorem second_add_leaves_first_handler:
  assumes inv: "manager_inv m" and old: "map_of (fd_to_reactor m) fd = Some i" "map_of (fd_to_client m) fd = Some c"
    and busy: "min_element (device_counts m) \<noteq> i"
    and call: "manager_add alive None fd (Some c') m = (None, m1)"
  shows "map_of (fd_to_reactor (manager_remove fd m1)) fd = None \<and>
    map_of (reactors (manager_remove fd m1) ! i) fd = Some c \<and>
    device_counts (manager_remove fd m1) ! i = device_counts m ! i"
proof -
  define b where "b = min_element (device_counts m)"
  note D = inv [unfolded manager_inv_def]
  have i: "i < length (reactors m)" using D old by blast
  then have ne: "reactors m \<noteq> []" by auto
  then have "register alive None fd c' m = (None, m1)" using call by (simp add: manager_add_def)
  from register_None [OF this] have m1: "m1 = m\<lparr>reactors := (reactors m)[b := AList.update fd c' (reactors m ! b)],
       fd_to_reactor := AList.update fd b (fd_to_reactor m), fd_to_client := AList.update fd c' (fd_to_client m),
       device_counts := (device_counts m)[b := device_counts m ! b + 1]\<rparr>"
    by (simp add: b_def Let_def)
  have h: "map_of (reactors m ! i) fd = Some c" using D i old by simp
  have "b < length (device_counts m)"
    using min_element_least [of "device_counts m"] ne D by (cases "device_counts m") (auto simp: b_def)
  then have "device_counts m1 ! b > 0" "b < length (device_counts m1)" "b < length (reactors m1)"
    using D by (simp_all add: m1)
  moreover have "map_of (fd_to_reactor m1) fd = Some b" by (simp add: m1 update_conv')
  ultimately show ?thesis
    using busy h i by (simp add: manager_remove_def Let_def delete_conv' m1 b_def [symmetric])
qed

definition two_on_first :: manager where
  "two_on_first = \<lparr>reactors = [[(5, 0), (7, 2)], [(6, 1)]], device_counts = [2, 1],
     fd_to_reactor = [(5, 0), (6, 1), (7, 0)], fd_to_client = [(5, 0), (6, 1), (7, 2)]\<rparr>"

lemma two_on_first_inv: "manager_inv two_on_first"
proof -
  have "manager_add (\<lambda>_. True) None 7 (Some 2) two_sockets = (None, two_on_first)"
    by (simp add: manager_add_def register_def reactor_add_def Let_def two_sockets_def two_on_first_def)
  from manager_inv_add [OF manager_steps_inv [OF two_sockets_reachable manager_inv_empty] _ this]
  show ?thesis by (simp add: two_sockets_def)
qed

theorem second_add_leaves_first_handler_witness:
  "\<exists>m1. manager_add (\<lambda>_. True) None 5 (Some 9) two_on_first = (None, m1) \<and>
     map_of (reactors (manager_remove 5 m1) ! 0) 5 = Some 0"
proof -
  obtain m1 where "manager_add (\<lambda>_. True) None 5 (Some 9) two_on_first = (None, m1)"
    by (simp add: manager_add_def register_def reactor_add_def Let_def two_on_first_def)
  with second_add_leaves_first_handler [OF two_on_first_inv _ _ _ this, of 0 0] show ?thesis
    by (simp add: two_on_first_def)
qed

end
