(* ===== verification/Reactor_Loop.thy ===== *)
theory Reactor_Loop
  imports Reactors "HOL-Library.Word"
begin

text \<open>
  The loop of a reactor thread (\<open>NotificationReactor::loop\<close>): what one event of a batch does to the
  manager and to the client, the events of a batch in turn, and the locks that the loop and
  \<open>set_reactor_count\<close> take. The calls of a client are inputs (whether it is alive, whether
  \<open>on_notification_ready\<close> throws); the clients on which \<open>mark_notification_dead\<close> was called are listed.
\<close>

unbundle bit_operations_syntax

section \<open>One event\<close>

definition EPOLLIN :: "32 word" where "EPOLLIN = 0x1"
definition EPOLLERR :: "32 word" where "EPOLLERR = 0x8"
definition EPOLLHUP :: "32 word" where "EPOLLHUP = 0x10"
definition EPOLLRDHUP :: "32 word" where "EPOLLRDHUP = 0x2000"

definition reactor_at :: "nat \<Rightarrow> (reactor \<Rightarrow> reactor) \<Rightarrow> manager \<Rightarrow> manager" where
  "reactor_at self f m = m\<lparr>reactors := (reactors m)[self := f (reactors m ! self)]\<rparr>"

definition cleanup_dead_fd :: "nat \<Rightarrow> int \<Rightarrow> client \<Rightarrow> manager \<times> client list \<Rightarrow> manager \<times> client list" where
  "cleanup_dead_fd self fd c s =
     (let (m, dead) = s in (reactor_at self (reactor_remove fd) (manager_remove fd m), dead @ [c]))"

definition handle_event ::
  "nat \<Rightarrow> (client \<Rightarrow> bool) \<Rightarrow> (client \<Rightarrow> int \<Rightarrow> bool) \<Rightarrow> int \<Rightarrow> 32 word \<Rightarrow> manager \<times> client list \<Rightarrow> manager \<times> client list" where
  "handle_event self alive throws fd ev s =
     (let (m, dead) = s in
      case map_of (reactors m ! self) fd of
        None \<Rightarrow> s
      | Some c \<Rightarrow>
          if \<not> alive c then (reactor_at self (AList.delete fd) m, dead)
          else if ev AND (EPOLLERR OR EPOLLHUP OR EPOLLRDHUP) \<noteq> 0 then cleanup_dead_fd self fd c s
          else if throws c fd then cleanup_dead_fd self fd c s
          else s)"

definition handle_events ::
  "nat \<Rightarrow> (client \<Rightarrow> bool) \<Rightarrow> (client \<Rightarrow> int \<Rightarrow> bool) \<Rightarrow> (int \<times> 32 word) list \<Rightarrow> manager \<times> client list \<Rightarrow> manager \<times> client list" where
  "handle_events self alive throws = fold (\<lambda>(fd, ev). handle_event self alive throws fd ev)"

lemma closed_masks [simp]: "EPOLLRDHUP AND (EPOLLERR OR EPOLLHUP OR EPOLLRDHUP) \<noteq> 0"
  "EPOLLIN AND (EPOLLERR OR EPOLLHUP OR EPOLLRDHUP) = 0"
  by (simp_all add: EPOLLIN_def EPOLLERR_def EPOLLHUP_def EPOLLRDHUP_def)

lemma inv_unregistered:
  assumes "manager_inv m" "map_of (fd_to_reactor m) fd = None" "i < length (reactors m)"
  shows "map_of (reactors m ! i) fd = None"
  using assms unfolding manager_inv_def by auto

lemma inv_handler:
  assumes "manager_inv m" "i < length (reactors m)" "map_of (reactors m ! i) fd = Some c"
  shows "map_of (fd_to_reactor m) fd = Some i \<and> map_of (fd_to_client m) fd = Some c \<and> 0 \<le> fd"
proof -
  have "map_of (reactors m ! i) fd = (if map_of (fd_to_reactor m) fd = Some i then map_of (fd_to_client m) fd else None)"
    using assms(1,2) unfolding manager_inv_def by blast
  with assms(3) have *: "map_of (fd_to_reactor m) fd = Some i \<and> map_of (fd_to_client m) fd = Some c"
    by (metis option.distinct(1))
  then show ?thesis using assms(1) unfolding manager_inv_def by blast
qed

lemma delete_absent: "map_of xs k = None \<Longrightarrow> AList.delete k xs = xs"
  by (simp add: map_of_eq_None_iff)

text \<open>After the manager has removed the socket, the loop's own removal changes nothing.\<close>

lemma cleanup_is_remove:
  assumes "manager_inv m" "self < length (reactors m)"
  shows "cleanup_dead_fd self fd c (m, dead) = (manager_remove fd m, dead @ [c])"
proof -
  note r = manager_inv_remove [OF assms(1), of fd]
  have "length (reactors (manager_remove fd m)) = length (reactors m)"
    by (simp add: manager_remove_def Let_def split: option.splits)
  then have "map_of (reactors (manager_remove fd m) ! self) fd = None"
    using inv_unregistered r assms(2) by simp
  then have "reactor_remove fd (reactors (manager_remove fd m) ! self) = reactors (manager_remove fd m) ! self"
    by (simp add: reactor_remove_def delete_absent)
  then show ?thesis by (simp add: cleanup_dead_fd_def reactor_at_def)
qed

lemma remove_others:
  "g \<noteq> fd \<Longrightarrow> map_of (fd_to_client (manager_remove fd m)) g = map_of (fd_to_client m) g \<and>
     map_of (fd_to_reactor (manager_remove fd m)) g = map_of (fd_to_reactor m) g"
  by (simp add: manager_remove_def Let_def delete_conv' split: option.splits)

lemma handle_event_alive:
  assumes inv: "manager_inv m" and self: "self < length (reactors m)"
    and handler: "map_of (reactors m ! self) fd = Some c" and alive: "alive c"
  shows "handle_event self alive throws fd ev (m, dead) =
      (if ev AND (EPOLLERR OR EPOLLHUP OR EPOLLRDHUP) \<noteq> 0 \<or> throws c fd then (manager_remove fd m, dead @ [c]) else (m, dead))"
  using handler alive cleanup_is_remove [OF inv self] by (simp add: handle_event_def)



text \<open>
  C34. Events are matched to subscriptions by the number of the socket alone. When a socket is closed and
  its number is reused by a new subscription on the same reactor while the closing of the old one is still
  in the batch that \<open>epoll_wait\<close> returned, the new subscription is removed and marked dead.
\<close>

theorem stale_event_kills_new_subscription:
  assumes inv: "manager_inv m" and self: "self < length (reactors m)"
    and handler: "map_of (reactors m ! self) fd = Some c1" and alive: "alive c2"
    and reused: "manager_add alive None fd (Some c2) (manager_remove fd m) = (None, m2)"
    and same: "map_of (fd_to_reactor m2) fd = Some self"
    and closed: "ev AND (EPOLLERR OR EPOLLHUP OR EPOLLRDHUP) \<noteq> 0"
  shows "handle_event self alive throws fd ev (m2, dead) = (manager_remove fd m2, dead @ [c2]) \<and>
    map_of (fd_to_client m2) fd = Some c2 \<and> map_of (fd_to_client (manager_remove fd m2)) fd = None"
proof -
  note r = manager_inv_remove [OF inv, of fd]
  have inv2: "manager_inv m2" using manager_inv_add r reused by blast
  have len: "self < length (reactors m2)" using inv2 same unfolding manager_inv_def by blast
  have c2: "map_of (fd_to_client m2) fd = Some c2"
    using reused by (auto simp: manager_add_def Let_def update_conv' dest!: register_None split: if_splits)
  have h: "map_of (reactors m2 ! self) fd = Some c2" using inv2 len same c2 unfolding manager_inv_def by simp
  have "fd \<notin> dom (map_of (fd_to_reactor (manager_remove fd m2)))" using manager_inv_remove [OF inv2, of fd] by auto
  then have "fd \<notin> dom (map_of (fd_to_client (manager_remove fd m2)))"
    using manager_inv_remove [OF inv2, of fd] unfolding manager_inv_def by simp
  then show ?thesis using handle_event_alive [where alive = alive and throws = throws and ev = ev and dead = dead, OF inv2 len h alive] closed c2 by auto
qed

theorem stale_event_kills_new_subscription_witness:
  "\<exists>m2. manager_add (\<lambda>_. True) None 6 (Some 9) (manager_remove 6 two_sockets) = (None, m2) \<and>
    handle_event 1 (\<lambda>_. True) (\<lambda>_ _. False) 6 EPOLLRDHUP (m2, []) = (manager_remove 6 m2, [9])"
proof -
  obtain m2 where m2: "manager_add (\<lambda>_. True) None 6 (Some 9) (manager_remove 6 two_sockets) = (None, m2)"
    and same: "map_of (fd_to_reactor m2) 6 = Some 1"
    by (simp add: manager_add_def manager_remove_def register_def reactor_add_def reactor_remove_def Let_def two_sockets_def)
  have h: "map_of (reactors two_sockets ! 1) 6 = Some 1" "1 < length (reactors two_sockets)"
    by (simp_all add: two_sockets_def)
  from stale_event_kills_new_subscription [where throws = "\<lambda>_ _. False" and dead = "[]", OF
      manager_steps_inv [OF two_sockets_reachable manager_inv_empty] h(2) h(1) TrueI m2 same closed_masks(1)] m2
  show ?thesis by (intro exI [of _ m2] conjI) simp_all
qed

text \<open>
  When an event finds its client gone, the loop forgets the socket without telling the manager,
  which goes on counting it; the manager's own removal of the socket afterwards (the client's destructor
  calls it) brings the two back together: it gives the state it gives without the event.
\<close>

theorem expired_client_is_forgotten_by_the_loop_only:
  assumes inv: "manager_inv m" and self: "self < length (reactors m)"
    and handler: "map_of (reactors m ! self) fd = Some c" and expired: "\<not> alive c"
  shows "\<exists>m'. handle_event self alive throws fd ev (m, dead) = (m', dead) \<and>
    map_of (reactors m' ! self) fd = None \<and> map_of (fd_to_client m') fd = Some c \<and>
    device_counts m' ! self = card (dom (map_of (reactors m' ! self))) + 1 \<and>
    manager_remove fd m' = manager_remove fd m"
proof -
  let ?m = "reactor_at self (AList.delete fd) m"
  note h = inv_handler [OF inv self handler]
  have rem: "manager_remove fd ?m = manager_remove fd m"
    using h self by (simp add: manager_remove_def reactor_at_def reactor_remove_def AList.delete_idem Let_def)
  have socks: "dom (map_of (reactors m ! self)) = sockets_of m self"
    using inv_handlers_sockets [OF inv self] .
  have "fd \<in> sockets_of m self" using h by (simp add: sockets_of_def)
  then have "card (sockets_of m self - {fd}) + 1 = card (sockets_of m self)"
    using card_Suc_Diff1 [OF finite_sockets] by simp
  moreover have "dom (map_of (reactors ?m ! self)) = sockets_of m self - {fd}"
    using self socks by (simp add: reactor_at_def delete_conv')
  moreover have "device_counts ?m ! self = card (sockets_of m self)"
    using inv self by (simp add: manager_inv_def reactor_at_def)
  ultimately show ?thesis
    using handler expired h rem self by (intro exI [of _ ?m]) (simp add: handle_event_def reactor_at_def delete_conv')
qed

theorem expired_client_is_forgotten_by_the_loop_only_witness:
  "\<exists>m'. handle_event 0 (\<lambda>_. False) (\<lambda>_ _. False) 5 EPOLLIN (two_sockets, []) = (m', []) \<and> device_counts m' ! 0 = 1 \<and>
     reactors m' ! 0 = []"
proof -
  have h: "map_of (reactors two_sockets ! 0) 5 = Some 0" "0 < length (reactors two_sockets)"
    by (simp_all add: two_sockets_def)
  from expired_client_is_forgotten_by_the_loop_only [where alive = "\<lambda>_. False" and throws = "\<lambda>_ _. False" and ev = EPOLLIN
      and dead = "[]", OF manager_steps_inv [OF two_sockets_reachable manager_inv_empty] h(2) h(1)]
  show ?thesis by (auto simp: handle_event_def reactor_at_def two_sockets_def)
qed

end
