(* ===== verification/Reactor_Locks.thy ===== *)
theory Reactor_Locks
  imports Prelude
begin

text \<open>
  The manager's mutex during a change of the number of reactor threads, with three threads. The one in \<open>set_reactor_count\<close>
  (\<open>src/notification_reactor_manager.cpp\<close>) holds the mutex while it destroys the old reactors, and destroying a reactor joins its
  thread. That thread (\<open>src/notification_reactor.cpp\<close>) takes the mutex in \<open>cleanup_dead_fd\<close>, and in \<open>~NetconfClient\<close>
  (\<open>src/netconf_client_common.cpp\<close>) when the pointer it has locked for an event is the last to the client. The third drops
  the application's pointer to the client, which runs the destructor there when no other is left. The reactor's
  own mutex is held for single steps only and needs no state.
\<close>

section \<open>The threads\<close>

datatype owner = Resizer | Loop | App

text \<open>Where the resizing thread is: before the lock; removing the handlers; about to destroy the reactors;
  in the destructor's \<open>join\<close>; done.\<close>

datatype resizer_pc = R_Lock | R_Remove | R_Clear | R_Join | R_Done

text \<open>Where the loop is: in \<open>epoll_wait\<close>; with an event, before the look-up; with the client found; at the lock
  in the manager's \<open>remove\<close>, called by \<open>cleanup_dead_fd\<close> or by the client's destructor; holding it; after the loop.\<close>

datatype loop_pc = L_Wait | L_Event | L_Found | L_Want | L_Drop | L_Hold | L_Exit

text \<open>Where the application is: with its pointer to the client; at the lock in the destructor; holding it; without the client.\<close>

datatype app_pc = A_Holds | A_Want | A_Hold | A_Gone

record lock_state =
  resizer :: resizer_pc
  looper :: loop_pc
  app :: app_pc
  mtx :: "owner option"
  running :: bool
  handler :: bool
  subscribed_socket :: bool    \<comment> \<open>the client's \<open>notif_socket_\<close> is not negative\<close>

definition lock_start :: lock_state where
  "lock_start = \<lparr>resizer = R_Lock, looper = L_Wait, app = A_Holds, mtx = None, running = True, handler = True, subscribed_socket = True\<rparr>"

text \<open>The loop has a pointer to the client, from the look-up to the end of the event.\<close>

definition loop_holds :: "lock_state \<Rightarrow> bool" where
  "loop_holds s \<longleftrightarrow> looper s \<in> {L_Found, L_Want, L_Hold}"

inductive lock_step :: "lock_state \<Rightarrow> lock_state \<Rightarrow> bool" where
  r_lock: "resizer s = R_Lock \<Longrightarrow> mtx s = None \<Longrightarrow> lock_step s (s\<lparr>resizer := R_Remove, mtx := Some Resizer\<rparr>)"
| r_remove: "resizer s = R_Remove \<Longrightarrow> lock_step s (s\<lparr>resizer := R_Clear, handler := False\<rparr>)"
| r_clear: "resizer s = R_Clear \<Longrightarrow> lock_step s (s\<lparr>resizer := R_Join, running := False\<rparr>)"
| r_join: "resizer s = R_Join \<Longrightarrow> looper s = L_Exit \<Longrightarrow> lock_step s (s\<lparr>resizer := R_Done, mtx := None\<rparr>)"
| l_event: "looper s = L_Wait \<Longrightarrow> running s \<Longrightarrow> lock_step s (s\<lparr>looper := L_Event\<rparr>)"
| l_timeout: "looper s = L_Wait \<Longrightarrow> running s \<Longrightarrow> lock_step s s"
| l_exit: "looper s = L_Wait \<Longrightarrow> \<not> running s \<Longrightarrow> lock_step s (s\<lparr>looper := L_Exit\<rparr>)"
| l_no_handler: "looper s = L_Event \<Longrightarrow> \<not> handler s \<Longrightarrow> lock_step s (s\<lparr>looper := L_Wait\<rparr>)"
| l_expired: "looper s = L_Event \<Longrightarrow> handler s \<Longrightarrow> app s \<noteq> A_Holds \<Longrightarrow> lock_step s (s\<lparr>looper := L_Wait, handler := False\<rparr>)"
| l_found: "looper s = L_Event \<Longrightarrow> handler s \<Longrightarrow> app s = A_Holds \<Longrightarrow> lock_step s (s\<lparr>looper := L_Found\<rparr>)"
| l_ready: "looper s = L_Found \<Longrightarrow> app s = A_Holds \<or> \<not> subscribed_socket s \<Longrightarrow> lock_step s (s\<lparr>looper := L_Wait\<rparr>)"
| l_last: "looper s = L_Found \<Longrightarrow> app s \<noteq> A_Holds \<Longrightarrow> subscribed_socket s \<Longrightarrow> lock_step s (s\<lparr>looper := L_Drop\<rparr>)"
| l_dead: "looper s = L_Found \<Longrightarrow> lock_step s (s\<lparr>looper := L_Want\<rparr>)"
| l_lock: "looper s \<in> {L_Want, L_Drop} \<Longrightarrow> mtx s = None \<Longrightarrow> lock_step s (s\<lparr>looper := L_Hold, mtx := Some Loop\<rparr>)"
| l_unlock: "looper s = L_Hold \<Longrightarrow> lock_step s (s\<lparr>looper := L_Wait, mtx := None, handler := False, subscribed_socket := False\<rparr>)"
| a_lock: "app s = A_Want \<Longrightarrow> mtx s = None \<Longrightarrow> lock_step s (s\<lparr>app := A_Hold, mtx := Some App\<rparr>)"
| a_unlock: "app s = A_Hold \<Longrightarrow> lock_step s (s\<lparr>app := A_Gone, mtx := None, handler := False, subscribed_socket := False\<rparr>)"

text \<open>What the application may do or not: drop its pointer.\<close>

definition drop_client :: "lock_state \<Rightarrow> lock_state" where
  "drop_client s = s\<lparr>app := (if loop_holds s \<or> \<not> subscribed_socket s then A_Gone else A_Want)\<rparr>"

inductive lock_move :: "lock_state \<Rightarrow> lock_state \<Rightarrow> bool" where
  thread: "lock_step s t \<Longrightarrow> lock_move s t"
| dropped: "app s = A_Holds \<Longrightarrow> lock_move s (drop_client s)"

inductive_simps lock_step_from: "lock_step s t"
inductive_simps lock_move_from: "lock_move s t"

section \<open>Invariant\<close>

definition holder :: "lock_state \<Rightarrow> owner option" where
  "holder s = (if resizer s \<in> {R_Remove, R_Clear, R_Join} then Some Resizer else if looper s = L_Hold then Some Loop
     else if app s = A_Hold then Some App else None)"

definition lock_inv :: "lock_state \<Rightarrow> bool" where
  "lock_inv s \<longleftrightarrow> mtx s = holder s \<and>
     (resizer s \<in> {R_Remove, R_Clear, R_Join} \<longrightarrow> looper s \<noteq> L_Hold \<and> app s \<noteq> A_Hold) \<and>
     running s = (resizer s \<in> {R_Lock, R_Remove, R_Clear}) \<and>
     (looper s = L_Exit \<longrightarrow> \<not> running s) \<and> (resizer s = R_Done \<longrightarrow> looper s = L_Exit) \<and>
     (resizer s \<in> {R_Clear, R_Join, R_Done} \<longrightarrow> \<not> handler s) \<and>
     (loop_holds s \<longrightarrow> app s \<in> {A_Holds, A_Gone}) \<and> (looper s = L_Drop \<longrightarrow> app s = A_Gone)"

lemmas lock_inv_defs = lock_inv_def holder_def loop_holds_def

lemma lock_inv_step:
  assumes "lock_step s t" "lock_inv s"
  shows "lock_inv t"
  using assms
  by (induction rule: lock_step.induct)
    (simp_all only: lock_inv_defs, simp_all, ((erule conjE)+; simp split: if_splits | fastforce split: if_splits)+)

lemma lock_inv_drop: "lock_inv s \<Longrightarrow> app s = A_Holds \<Longrightarrow> lock_inv (drop_client s)"
  unfolding lock_inv_defs drop_client_def by (cases "looper s"; simp split: if_splits; blast)

lemma lock_inv_reachable: "lock_move\<^sup>*\<^sup>* lock_start s \<Longrightarrow> lock_inv s"
proof (induction rule: rtranclp_induct)
  case base
  show ?case by (simp add: lock_inv_defs lock_start_def)
next
  case (step s t)
  then show ?case using lock_inv_step lock_inv_drop by (auto simp: lock_move_from)
qed

section \<open>Deadlock\<close>

definition deadlocked :: "lock_state \<Rightarrow> bool" where
  "deadlocked s \<longleftrightarrow> resizer s = R_Join \<and> looper s \<in> {L_Want, L_Drop} \<and> mtx s = Some Resizer"

lemma deadlocked_stuck:
  assumes "deadlocked s" "lock_inv s"
  shows "\<not> lock_step s t"
proof
  assume "lock_step s t"
  moreover have "app s \<noteq> A_Hold" using assms by (auto simp: deadlocked_def lock_inv_def)
  ultimately show False using assms(1) by (cases rule: lock_step.cases) (simp_all add: deadlocked_def)
qed

lemma deadlocked_for_ever:
  assumes "lock_move\<^sup>*\<^sup>* s t" "deadlocked s" "lock_inv s"
  shows "deadlocked t"
proof -
  from assms(1) have "deadlocked t \<and> lock_inv t"
  proof (induction rule: rtranclp_induct)
    case (step t u)
    then have u: "u = drop_client t" "app t = A_Holds" using deadlocked_stuck by (auto simp: lock_move_from)
    then show ?case using step.IH lock_inv_drop by (auto simp: deadlocked_def drop_client_def)
  qed (use assms in blast)
  then show ?thesis by blast
qed

text \<open>Only a resize that has finished, or one that waits for the thread that waits for it, is stuck.\<close>

lemma stuck_cases:
  assumes inv: "lock_inv s" and stuck: "\<forall>t. \<not> lock_step s t"
  shows "resizer s = R_Done \<and> looper s = L_Exit \<and> app s \<in> {A_Holds, A_Gone} \<or> deadlocked s"
proof -
  have no: False if "lock_step s t" for t using stuck that by blast
  have l: "looper s \<in> {L_Exit, L_Want, L_Drop}"
    using no [OF l_event] no [OF l_exit] no [OF l_no_handler] no [OF l_expired] no [OF l_found] no [OF l_dead] no [OF l_unlock]
    by (cases "looper s") blast+
  have m: "mtx s \<noteq> None" if "looper s \<in> {L_Want, L_Drop}" using no [OF l_lock] that by blast
  have a: "app s \<in> {A_Holds, A_Gone} \<or> app s = A_Want \<and> mtx s \<noteq> None"
    using no [OF a_lock] no [OF a_unlock] by (cases "app s") blast+
  have r: "resizer s = R_Lock \<and> mtx s \<noteq> None \<or> resizer s = R_Join \<and> looper s \<noteq> L_Exit \<or> resizer s = R_Done"
    using no [OF r_lock] no [OF r_remove] no [OF r_clear] no [OF r_join] by (cases "resizer s") blast+
  note D = inv [unfolded lock_inv_defs]
  have free: "mtx s = None" if "resizer s \<in> {R_Lock, R_Done}"
  proof -
    have "resizer s \<notin> {R_Remove, R_Clear, R_Join}" "looper s \<noteq> L_Hold" "app s \<noteq> A_Hold" using that l a by auto
    then have "holder s = None" by (simp add: holder_def)
    with inv show ?thesis by (simp add: lock_inv_def)
  qed
  then have "resizer s = R_Join \<or> resizer s = R_Done" using r by blast
  then show ?thesis
  proof
    assume "resizer s = R_Join"
    moreover from this have "looper s \<noteq> L_Exit" "mtx s = Some Resizer" using r D by simp_all
    ultimately show ?thesis using l by (simp add: deadlocked_def)
  next
    assume fin: "resizer s = R_Done"
    then have "mtx s = None" using free by blast
    then show ?thesis using fin l m a D by blast
  qed
qed

text \<open>The two ways into the deadlock.\<close>

definition deadlock :: "loop_pc \<Rightarrow> app_pc \<Rightarrow> lock_state" where
  "deadlock l a = \<lparr>resizer = R_Join, looper = l, app = a, mtx = Some Resizer, running = False, handler = False, subscribed_socket = True\<rparr>"

lemma lock_moveI: "lock_step s t \<Longrightarrow> lock_move\<^sup>*\<^sup>* r s \<Longrightarrow> lock_move\<^sup>*\<^sup>* r t"
  by (meson lock_move.thread rtranclp.rtrancl_into_rtrancl)

lemma event_found: "lock_move\<^sup>*\<^sup>* lock_start (lock_start\<lparr>looper := L_Found\<rparr>)"
  by (rule lock_moveI [of "lock_start\<lparr>looper := L_Event\<rparr>"], simp add: lock_step_from lock_start_def,
      rule lock_moveI [of lock_start], simp_all add: lock_step_from lock_start_def)

lemma resize_joins:
  assumes "lock_move\<^sup>*\<^sup>* lock_start (lock_start\<lparr>looper := l, app := a\<rparr>)"
  shows "lock_move\<^sup>*\<^sup>* lock_start (deadlock l a)"
proof -
  let ?s = "lock_start\<lparr>looper := l, app := a\<rparr>"
  have "lock_move\<^sup>*\<^sup>* lock_start (?s\<lparr>resizer := R_Remove, mtx := Some Resizer\<rparr>)"
    by (rule lock_moveI [OF _ assms]) (simp add: lock_step_from lock_start_def)
  then have "lock_move\<^sup>*\<^sup>* lock_start (?s\<lparr>resizer := R_Clear, mtx := Some Resizer, handler := False\<rparr>)"
    by (rule lock_moveI [rotated]) (simp add: lock_step_from lock_start_def)
  then show ?thesis by (rule lock_moveI [rotated]) (simp add: lock_step_from lock_start_def deadlock_def)
qed

lemma deadlocks_reachable: "lock_move\<^sup>*\<^sup>* lock_start (deadlock L_Want A_Holds)" "lock_move\<^sup>*\<^sup>* lock_start (deadlock L_Drop A_Gone)"
proof -
  have "lock_move\<^sup>*\<^sup>* lock_start (lock_start\<lparr>looper := L_Want, app := A_Holds\<rparr>)"
    by (rule lock_moveI [OF _ event_found]) (simp add: lock_step_from lock_start_def)
  then show "lock_move\<^sup>*\<^sup>* lock_start (deadlock L_Want A_Holds)" by (rule resize_joins)
  have "lock_move (lock_start\<lparr>looper := L_Found\<rparr>) (lock_start\<lparr>looper := L_Found, app := A_Gone\<rparr>)"
    by (simp add: lock_move_from drop_client_def loop_holds_def lock_start_def)
  with event_found have "lock_move\<^sup>*\<^sup>* lock_start (lock_start\<lparr>looper := L_Found, app := A_Gone\<rparr>)" by (rule rtranclp.rtrancl_into_rtrancl)
  then have "lock_move\<^sup>*\<^sup>* lock_start (lock_start\<lparr>looper := L_Drop, app := A_Gone\<rparr>)"
    by (rule lock_moveI [rotated]) (simp add: lock_step_from lock_start_def)
  then show "lock_move\<^sup>*\<^sup>* lock_start (deadlock L_Drop A_Gone)" by (rule resize_joins)
qed

text \<open>
  C35. Changing the number of reactors can deadlock, in two ways and in no other. It is reachable that the resizing thread joins a loop
  that waits for the manager's mutex, which the resizing thread holds: because the loop cleans up after a closed
  connection, or, with no connection closed, because the application has dropped its client while the loop was reading for it, so that
  the client's destructor runs on the loop's thread. Whatever the threads and the application then do, the resize does not end.
  Every other reachable state in which no thread can move is one where the resize and the loop have finished and no destructor is waiting.
\<close>

theorem resize_deadlock:
  "(\<forall>p\<in>{L_Want, L_Drop}. \<exists>s. lock_move\<^sup>*\<^sup>* lock_start s \<and> looper s = p \<and> deadlocked s \<and>
      (\<forall>t. \<not> lock_step s t) \<and> (\<forall>t. lock_move\<^sup>*\<^sup>* s t \<longrightarrow> resizer t = R_Join)) \<and>
   (\<forall>s. lock_move\<^sup>*\<^sup>* lock_start s \<longrightarrow> (\<forall>t. \<not> lock_step s t) \<longrightarrow>
      resizer s = R_Done \<and> looper s = L_Exit \<and> app s \<in> {A_Holds, A_Gone} \<or> deadlocked s)"
proof (intro conjI allI impI ballI)
  fix p assume "p \<in> {L_Want, L_Drop}"
  then obtain a where reach: "lock_move\<^sup>*\<^sup>* lock_start (deadlock p a)" using deadlocks_reachable by blast
  note inv = lock_inv_reachable [OF reach]
  have dead: "deadlocked (deadlock p a)" using \<open>p \<in> _\<close> by (auto simp: deadlocked_def deadlock_def)
  have "resizer t = R_Join" if "lock_move\<^sup>*\<^sup>* (deadlock p a) t" for t
    using deadlocked_for_ever [OF that dead inv] by (simp add: deadlocked_def)
  then show "\<exists>s. lock_move\<^sup>*\<^sup>* lock_start s \<and> looper s = p \<and> deadlocked s \<and>
      (\<forall>t. \<not> lock_step s t) \<and> (\<forall>t. lock_move\<^sup>*\<^sup>* s t \<longrightarrow> resizer t = R_Join)"
    using reach dead deadlocked_stuck [OF dead inv] by (intro exI [of _ "deadlock p a"]) (simp add: deadlock_def)
next
  fix s assume "lock_move\<^sup>*\<^sup>* lock_start s" "\<forall>t. \<not> lock_step s t"
  then show "resizer s = R_Done \<and> looper s = L_Exit \<and> app s \<in> {A_Holds, A_Gone} \<or> deadlocked s"
    using stuck_cases lock_inv_reachable by blast
qed

text \<open>A state that meets the hypotheses of the second half.\<close>

theorem resize_deadlock_witness:
  "\<exists>s. lock_move\<^sup>*\<^sup>* lock_start s \<and> (\<forall>t. \<not> lock_step s t) \<and> mtx s = Some Resizer \<and> looper s = L_Drop"
  using resize_deadlock by (auto simp: deadlocked_def)

end
