(* ===== verification/Ssh_Setup.thy ===== *)
theory Ssh_Setup
  imports Channel_IO Client_Config
begin

text \<open>
  The set-up of an SSH session: \<open>connect_non_blocking\<close> and \<open>connect_notification_non_blocking\<close>
  (\<open>src/netconf_client_non_blocking.cpp\<close>), \<open>connect_blocking\<close> and \<open>connect_notification_blocking\<close>
  (\<open>src/netconf_client_blocking.cpp\<close>), and the wrappers of \<open>include/netconf_client.hpp\<close> that own the
  socket, the session and the channel. What the system calls, libssh2 and the clock answer is the
  environment of a call. Each function is the list of its stages; a stage goes on, throws, or has not
  returned when the answers run out.
\<close>

section \<open>Owned resources\<close>

text \<open>Sessions and channels are numbered as they are made. Besides the members, an endpoint has what is open
  at libssh2 and at the operating system, and whether a handle was used after it was freed. libssh2 frees
  the channels of a session with the session.\<close>

record endpoint =
  session_ptr :: "nat option"
  channel_ptr :: "nat option"
  socket_fd :: int
  made :: nat
  open_sessions :: "nat list"
  open_channels :: "(nat \<times> nat) list"   \<comment> \<open>a channel and its session\<close>
  open_fds :: "int list"
  misused :: bool

definition no_endpoint :: endpoint where
  "no_endpoint = \<lparr>session_ptr = None, channel_ptr = None, socket_fd = -1, made = 0, open_sessions = [],
     open_channels = [], open_fds = [], misused = False\<rparr>"

text \<open>\<open>Libssh2SessionDeleter\<close> and \<open>Libssh2ChannelDeleter\<close>.\<close>

definition delete_session :: "nat \<Rightarrow> endpoint \<Rightarrow> endpoint" where
  "delete_session s p =
     (if s \<in> set (open_sessions p)
      then p\<lparr>open_sessions := removeAll s (open_sessions p), open_channels := filter (\<lambda>(c, t). t \<noteq> s) (open_channels p)\<rparr>
      else p\<lparr>misused := True\<rparr>)"

definition delete_channel :: "nat \<Rightarrow> endpoint \<Rightarrow> endpoint" where
  "delete_channel c p =
     (if c \<in> fst ` set (open_channels p) then p\<lparr>open_channels := filter (\<lambda>(d, t). d \<noteq> c) (open_channels p)\<rparr>
      else p\<lparr>misused := True\<rparr>)"

text \<open>\<open>reset\<close> of the unique pointers: the new pointer is stored, then the old object deleted; and of
  \<open>SocketRAII\<close>: the old descriptor is closed first.\<close>

definition reset_session :: "nat option \<Rightarrow> endpoint \<Rightarrow> endpoint" where
  "reset_session new p =
     (let q = p\<lparr>session_ptr := new\<rparr> in case session_ptr p of None \<Rightarrow> q | Some s \<Rightarrow> delete_session s q)"

definition reset_channel :: "nat option \<Rightarrow> endpoint \<Rightarrow> endpoint" where
  "reset_channel new p =
     (let q = p\<lparr>channel_ptr := new\<rparr> in case channel_ptr p of None \<Rightarrow> q | Some c \<Rightarrow> delete_channel c q)"

definition reset_socket :: "int \<Rightarrow> endpoint \<Rightarrow> endpoint" where
  "reset_socket fd p =
     (let q = (if socket_fd p \<ge> 0 then p\<lparr>open_fds := removeAll (socket_fd p) (open_fds p)\<rparr> else p) in q\<lparr>socket_fd := fd\<rparr>)"

text \<open>\<open>libssh2_session_init\<close>, \<open>libssh2_channel_open_session\<close> and \<open>socket\<close>, with the \<open>reset\<close> that takes the
  result over. Opening a channel uses the session.\<close>

definition init_session :: "endpoint \<Rightarrow> endpoint" where
  "init_session p = reset_session (Some (made p)) (p\<lparr>made := made p + 1, open_sessions := made p # open_sessions p\<rparr>)"

definition open_channel :: "endpoint \<Rightarrow> endpoint" where
  "open_channel p =
     (case session_ptr p of
        Some s \<Rightarrow> if s \<in> set (open_sessions p)
          then reset_channel (Some (made p)) (p\<lparr>made := made p + 1, open_channels := (made p, s) # open_channels p\<rparr>)
          else p\<lparr>misused := True\<rparr>
      | None \<Rightarrow> p\<lparr>misused := True\<rparr>)"

definition open_socket :: "int \<Rightarrow> endpoint \<Rightarrow> endpoint" where
  "open_socket fd p = reset_socket fd (p\<lparr>open_fds := fd # open_fds p\<rparr>)"

section \<open>Stages\<close>

datatype flow = Go | Throw exn | Block

type_synonym 's stage = "'s \<Rightarrow> flow \<times> 's"

fun stages :: "'s stage list \<Rightarrow> 's stage" where
  "stages [] s = (Go, s)"
| "stages (f # fs) s = (case f s of (Go, s) \<Rightarrow> stages fs s | r \<Rightarrow> r)"

definition act :: "('s \<Rightarrow> 's) \<Rightarrow> 's stage" where
  "act f s = (Go, f s)"

definition check :: "bool \<Rightarrow> exn \<Rightarrow> 's stage" where
  "check ok ex s = (if ok then Go else Throw ex, s)"

definition on_error :: "(string \<Rightarrow> exn) \<Rightarrow> string \<Rightarrow> string option \<Rightarrow> 's stage" where
  "on_error mk msg err s = (case err of None \<Rightarrow> Go | Some m \<Rightarrow> Throw (mk (msg @ m)), s)"

definition wait_for :: "flow \<Rightarrow> 's stage" where
  "wait_for f s = (f, s)"

text \<open>The handler of the \<open>connect\<close> functions.\<close>

definition caught :: "string \<Rightarrow> flow \<Rightarrow> flow" where
  "caught msg f = (case f of Throw e \<Rightarrow> Throw (Netconf_Connection_Refused (msg @ what e)) | _ \<Rightarrow> f)"

section \<open>The environment\<close>

text \<open>\<open>getaddrinfo\<close> gives no address, or a list of them.\<close>

datatype family = AF_INET | AF_INET6 | AF_OTHER

definition resolve_hostname :: "(family \<times> string) list \<Rightarrow> string" where
  "resolve_hostname res =
     (case res of [] \<Rightarrow> [] | (fam, ip) # _ \<Rightarrow> (case fam of AF_INET \<Rightarrow> ip | AF_INET6 \<Rightarrow> ip | AF_OTHER \<Rightarrow> []))"

text \<open>\<open>resolve_hostname_non_blocking\<close>; \<open>ready\<close>: the thread answered within the time it was given.\<close>

definition resolve_hostname_non_blocking :: "bool \<Rightarrow> (family \<times> string) list \<Rightarrow> string" where
  "resolve_hostname_non_blocking ready res = (if ready then resolve_hostname res else [])"

datatype poll1 = P_Error string | P_Zero | P_Ready

datatype ssh_rc = Rc_Ok | Rc_Eagain | Rc_Error string   \<comment> \<open>with the session's last error\<close>

datatype chan_open = Opened | Open_Eagain | Open_Failed

record connect_env =
  ce_init :: bool
  ce_elapsed :: "nat \<Rightarrow> nat"               \<comment> \<open>nanoseconds since the start at the n-th look at the clock\<close>
  ce_resolved :: bool
  ce_addrinfo :: "(family \<times> string) list"
  ce_socket :: "string + int"
  ce_setsockopt :: "string option"
  ce_fcntl :: "string option"
  ce_inet_pton :: "string \<Rightarrow> bool"
  ce_connect :: "string option"
  ce_poll :: poll1
  ce_so_error :: "string option"
  ce_handshake :: "(nat \<times> poll1 \<times> ssh_rc) list"   \<comment> \<open>with the time since the loop began\<close>
  ce_auth :: "(nat \<times> poll1 \<times> ssh_rc) list"
  ce_channel :: "(nat \<times> chan_open) list"
  ce_startup :: "(nat \<times> poll1 \<times> ssh_rc) list"
  ce_last_error :: string
  ce_hello_start :: nat
  ce_hello :: "read_round list"
  ce_writes :: "chan_write list"

text \<open>The whole seconds left, as \<open>duration_cast\<close> truncates them, of which every check wants one.\<close>

definition current_timeout :: "client_config \<Rightarrow> nat \<Rightarrow> int" where
  "current_timeout c elapsed =
     (let left = cf_connect_timeout c * int ns_per_s - int elapsed
      in if left \<ge> 0 then left div int ns_per_s else - ((- left) div int ns_per_s))"

fun handshake_loop :: "int \<Rightarrow> (nat \<times> poll1 \<times> ssh_rc) list \<Rightarrow> flow" where
  "handshake_loop limit [] = Block"
| "handshake_loop limit ((t, p, rc) # es) =
     (if int t < limit * int ns_per_s then
        (case p of
           P_Error m \<Rightarrow> Throw (Netconf_Connection_Refused (''Poll error during handshake: '' @ m))
         | P_Zero \<Rightarrow> handshake_loop limit es
         | P_Ready \<Rightarrow> (case rc of
             Rc_Ok \<Rightarrow> Go
           | Rc_Eagain \<Rightarrow> handshake_loop limit es
           | Rc_Error m \<Rightarrow> Throw (Netconf_Connection_Refused (''SSH handshake failed: '' @ m))))
      else Throw (Netconf_Connection_Refused ''SSH handshake timed out''))"

text \<open>The loops of the authentication and of the channel's start-up.\<close>

fun rc_loop :: "(string \<Rightarrow> exn) \<Rightarrow> string \<Rightarrow> string \<Rightarrow> string \<Rightarrow> int \<Rightarrow> (nat \<times> poll1 \<times> ssh_rc) list \<Rightarrow> flow" where
  "rc_loop mk poll_msg msg last_err limit [] = Block"
| "rc_loop mk poll_msg msg last_err limit ((t, p, rc) # es) =
     (if int t < limit * int ns_per_s then
        (case p of
           P_Error m \<Rightarrow> Throw (mk (poll_msg @ m))
         | _ \<Rightarrow> (case rc of
             Rc_Ok \<Rightarrow> Go
           | Rc_Eagain \<Rightarrow> rc_loop mk poll_msg msg last_err limit es
           | Rc_Error m \<Rightarrow> Throw (mk (msg @ m))))
      else Throw (mk (msg @ last_err)))"

fun channel_loop :: "int \<Rightarrow> (nat \<times> chan_open) list \<Rightarrow> flow" where
  "channel_loop limit [] = Block"
| "channel_loop limit ((t, c) # es) =
     (if int t < limit * int ns_per_s then
        (case c of
           Opened \<Rightarrow> Go
         | Open_Eagain \<Rightarrow> channel_loop limit es
         | Open_Failed \<Rightarrow> Throw (Netconf_Channel_Error ''Failed to create channel for NETCONF''))
      else Throw (Netconf_Channel_Error ''Failed to create channel for NETCONF''))"

section \<open>Connecting without blocking\<close>

text \<open>What a set-up works on: the endpoint and \<open>resolved_host_\<close>.\<close>

type_synonym ssh_state = "endpoint \<times> string"

definition on_endpoint :: "(endpoint \<Rightarrow> endpoint) \<Rightarrow> ssh_state stage" where
  "on_endpoint f = act (apfst f)"

text \<open>The hello exchange: the server's message must name capabilities. \<open>bad\<close> is the exception otherwise.\<close>

definition hello_non_blocking :: "exn \<Rightarrow> client_config \<Rightarrow> connect_env \<Rightarrow> ssh_state stage" where
  "hello_non_blocking bad c e s =
     (case read_until_eom_non_blocking
         \<lparr>rd_chan = True, rd_sess = True, rd_fd = socket_fd (fst s), rd_timeout = cf_read_timeout c, rd_max_kb = -1,
          rd_incomplete_timeout = -1\<rparr> (ce_hello_start e) (ce_hello e) of
        Blocked \<Rightarrow> Block
      | Returns (Inl ex) \<Rightarrow> Throw ex
      | Returns (Inr server_hello) \<Rightarrow>
          if find_sub ''capabilities'' server_hello \<noteq> None
          then (case snd (send_client_hello_non_blocking (ce_writes e)) of
              Blocked \<Rightarrow> Block | Returns (Inl ex) \<Rightarrow> Throw ex | Returns (Inr _) \<Rightarrow> Go)
          else Throw bad, s)"

definition try_increasing :: "client_config \<Rightarrow> exn" where
  "try_increasing c =
     Netconf_Connection_Refused (''Connection failed to '' @ cf_hostname c @ '' try increasing connection timeout'')"

definition poll_error :: "string \<Rightarrow> poll1 \<Rightarrow> string option" where
  "poll_error timeout_msg p = (case p of P_Ready \<Rightarrow> None | P_Zero \<Rightarrow> Some timeout_msg | P_Error m \<Rightarrow> Some (''Poll error: '' @ m))"

definition left_of :: "string + 'a \<Rightarrow> string option" where
  "left_of r = (case r of Inl m \<Rightarrow> Some m | Inr _ \<Rightarrow> None)"

definition fd_of :: "string + int \<Rightarrow> int" where
  "fd_of r = (case r of Inl _ \<Rightarrow> -1 | Inr fd \<Rightarrow> fd)"

text \<open>The stages the two functions share word for word: from the handshake to the start of the subsystem.
  The clock is looked at from the \<open>k\<close>-th time on.\<close>

definition ssh_stages :: "nat \<Rightarrow> client_config \<Rightarrow> connect_env \<Rightarrow> ssh_state stage list" where
  "ssh_stages k c e =
     (let left = (\<lambda>n. current_timeout c (ce_elapsed e (k + n))) in
      [check (left 0 > 0) (try_increasing c),
       wait_for (handshake_loop (left 0) (ce_handshake e)),
       check (left 1 > 0) (try_increasing c),
       wait_for (rc_loop Netconf_Auth_Error ''Poll error during authentication: '' ''Authentication failed: ''
         (ce_last_error e) (left 1) (ce_auth e)),
       check (left 2 > 0) (try_increasing c),
       wait_for (channel_loop (left 2) (ce_channel e)),
       on_endpoint open_channel,
       check (left 3 > 0) (try_increasing c),
       wait_for (rc_loop Netconf_Channel_Error ''Poll error during channel startup: ''
         ''Failed to request NETCONF subsystem: '' (ce_last_error e) (left 3) (ce_startup e))])"

definition tcp_stages :: "string \<Rightarrow> string \<Rightarrow> string \<Rightarrow> string \<Rightarrow> connect_env \<Rightarrow> ssh_state stage list" where
  "tcp_stages sockopt_msg timeout_msg so_error_msg ip e =
     [on_error Netconf_Exception ''Failed to create socket: '' (left_of (ce_socket e)),
      on_endpoint (open_socket (fd_of (ce_socket e))),
      on_error Netconf_Exception sockopt_msg (ce_setsockopt e),
      on_error Netconf_Exception ''Failed to set non-blocking mode: '' (ce_fcntl e),
      check (ce_inet_pton e ip) (Netconf_Connection_Refused (''Invalid IP address: '' @ ip)),
      on_error Netconf_Connection_Refused ''Connection failed: '' (ce_connect e),
      on_error Netconf_Connection_Refused [] (poll_error timeout_msg (ce_poll e)),
      on_error Netconf_Connection_Refused so_error_msg (ce_so_error e)]"

definition connect_stages :: "client_config \<Rightarrow> connect_env \<Rightarrow> ssh_state stage list" where
  "connect_stages c e =
     (let ip = resolve_hostname_non_blocking (ce_resolved e) (ce_addrinfo e) in
      [check (ce_init e) (Netconf_Exception ''Failed to initialize libssh2 session''),
       on_endpoint init_session,
       check (current_timeout c (ce_elapsed e 0) > 0) (try_increasing c),
       check (ip \<noteq> []) (Netconf_Connection_Refused (''Failed to resolve hostname: '' @ cf_hostname c)),
       act (\<lambda>(p, _). (p, ip)),
       check (current_timeout c (ce_elapsed e 1) > 0) (try_increasing c)] @
      tcp_stages ''Failed to set socket options: '' (''Unable to open socket for '' @ cf_hostname c @ '' '')
        ''Connection failed: '' ip e @
      ssh_stages 2 c e @
      [hello_non_blocking (Netconf_Exception ''Didn't receive proper NETCONF 'hello' message from device.'') c e])"

definition connect_notification_stages :: "client_config \<Rightarrow> connect_env \<Rightarrow> ssh_state stage list" where
  "connect_notification_stages c e =
     (let ip = resolve_hostname_non_blocking (ce_resolved e) (ce_addrinfo e) in
      [check (ce_init e) (Netconf_Exception ''Failed to initialize libssh2 session''),
       on_endpoint init_session,
       check (current_timeout c (ce_elapsed e 0) > 0)
         (Netconf_Connection_Refused (''Connection timed out resolving '' @ cf_hostname c)),
       act (\<lambda>(p, _). (p, ip)),
       check (ip \<noteq> []) (Netconf_Connection_Refused (''Failed to resolve hostname: '' @ cf_hostname c))] @
      tcp_stages ''Failed to set SO_REUSEADDR: '' ''Timeout establishing TCP connection'' ''TCP connect failed: '' ip e @
      ssh_stages 1 c e @
      [hello_non_blocking (Netconf_Exception ''Invalid NETCONF <hello> from server'') c e])"

section \<open>Connecting and blocking\<close>

record blocking_env =
  be_init :: bool
  be_elapsed :: "nat \<Rightarrow> nat"
  be_addrinfo :: "(family \<times> string) list"
  be_socket :: "string + int"
  be_setsockopt :: "string option"
  be_inet_pton :: "string \<Rightarrow> bool"
  be_connect :: "string option"
  be_handshake :: "string option"   \<comment> \<open>the session's last error\<close>
  be_auth :: "string option"
  be_channel :: bool
  be_startup :: "string option"
  be_hello_start :: nat
  be_hello :: "bl_round list"
  be_write :: "string + nat"

definition in_time :: "client_config \<Rightarrow> blocking_env \<Rightarrow> nat \<Rightarrow> string \<Rightarrow> ssh_state stage" where
  "in_time c e k phase =
     check (\<not> int (be_elapsed e k) > cf_connect_timeout c * int ns_per_s)
       (Netconf_Connection_Refused (''Connection timed out during '' @ phase))"

definition hello_blocking :: "exn \<Rightarrow> client_config \<Rightarrow> blocking_env \<Rightarrow> ssh_state stage" where
  "hello_blocking bad c e s =
     (case read_until_eom_blocking True (cf_read_timeout c) (be_hello_start e) (be_hello e) of
        Blocked \<Rightarrow> Block
      | Returns (Inl ex) \<Rightarrow> Throw ex
      | Returns (Inr server_hello) \<Rightarrow>
          if find_sub ''capabilities'' server_hello \<noteq> None
          then (case snd (send_client_hello_blocking (be_write e)) of Inl ex \<Rightarrow> Throw ex | Inr _ \<Rightarrow> Go)
          else Throw bad, s)"

definition connect_blocking_stages :: "client_config \<Rightarrow> blocking_env \<Rightarrow> ssh_state stage list" where
  "connect_blocking_stages c e =
     (let ip = resolve_hostname (be_addrinfo e) in
      [check (be_init e) (Netconf_Exception ''Failed to initialize libssh2 session''),
       on_endpoint init_session,
       check (ip \<noteq> []) (Netconf_Connection_Refused (''Failed to resolve hostname: '' @ cf_hostname c)),
       in_time c e 0 ''hostname resolution'',
       act (\<lambda>(p, _). (p, ip)),
       on_error Netconf_Exception ''Failed to create socket: '' (left_of (be_socket e)),
       on_endpoint (open_socket (fd_of (be_socket e))),
       on_error Netconf_Exception ''Failed to set socket options: '' (be_setsockopt e),
       check (be_inet_pton e ip) (Netconf_Connection_Refused (''Invalid IP address: '' @ ip)),
       on_error Netconf_Connection_Refused ''Connection failed: '' (be_connect e),
       in_time c e 1 ''TCP connection'',
       on_error Netconf_Connection_Refused ''SSH handshake failed: '' (be_handshake e),
       in_time c e 2 ''SSH handshake'',
       on_error Netconf_Auth_Error ''Authentication failed: '' (be_auth e),
       in_time c e 3 ''authentication'',
       check (be_channel e) (Netconf_Channel_Error ''Failed to create channel for NETCONF''),
       on_endpoint open_channel,
       on_error Netconf_Channel_Error ''Failed to request NETCONF subsystem: '' (be_startup e),
       in_time c e 4 ''subsystem startup'',
       hello_blocking (Netconf_Exception ''Didn't receive proper NETCONF 'hello' message from device.'') c e])"

definition connect_notification_blocking_stages :: "client_config \<Rightarrow> blocking_env \<Rightarrow> ssh_state stage list" where
  "connect_notification_blocking_stages c e =
     (let ip = resolve_hostname (be_addrinfo e) in
      [check (be_init e) (Netconf_Exception ''Failed to init libssh2 session for notifications''),
       on_endpoint init_session,
       check (ip \<noteq> []) (Netconf_Connection_Refused (''Failed to resolve hostname for notifications: '' @ cf_hostname c)),
       on_error Netconf_Exception ''Failed to create socket for notification session: '' (left_of (be_socket e)),
       on_endpoint (open_socket (fd_of (be_socket e))),
       check (be_inet_pton e ip) (Netconf_Connection_Refused (''Invalid IP address: '' @ ip)),
       on_error Netconf_Connection_Refused ''Notification connect() failed: '' (be_connect e),
       on_error Netconf_Connection_Refused ''Notification handshake failed: '' (be_handshake e),
       on_error Netconf_Auth_Error ''Notification auth failed: '' (be_auth e),
       check (be_channel e) (Netconf_Channel_Error ''Failed to open notification channel''),
       on_endpoint open_channel,
       on_error Netconf_Channel_Error ''Failed to request netconf subsystem for notifications: '' (be_startup e),
       hello_blocking (Netconf_Exception ''Notification session: no valid hello from device'') c e])"

text \<open>The resets in its handler, in the order of the source.\<close>

definition notification_blocking_handler :: "endpoint \<Rightarrow> endpoint" where
  "notification_blocking_handler p = reset_socket (-1) (reset_channel None (reset_session None p))"

text \<open>The resets of \<open>disconnect\<close> and \<open>mark_notification_dead\<close>.\<close>

definition release :: "endpoint \<Rightarrow> endpoint" where
  "release p = reset_socket (-1) (reset_session None (reset_channel None p))"

section \<open>Ownership\<close>

text \<open>What is open is what the members own, and nothing was used after it was freed.\<close>

definition owned :: "endpoint \<Rightarrow> bool" where
  "owned p \<longleftrightarrow>
     \<not> misused p \<and>
     open_sessions p = (case session_ptr p of None \<Rightarrow> [] | Some s \<Rightarrow> [s]) \<and>
     (case channel_ptr p of
        None \<Rightarrow> open_channels p = []
      | Some c \<Rightarrow> (\<exists>s. session_ptr p = Some s \<and> open_channels p = [(c, s)]) \<and> c < made p) \<and>
     open_fds p = (if socket_fd p \<ge> 0 then [socket_fd p] else []) \<and>
     (\<forall>s. session_ptr p = Some s \<longrightarrow> s < made p)"

lemmas resource_defs = reset_session_def reset_channel_def reset_socket_def delete_session_def delete_channel_def
  init_session_def open_channel_def open_socket_def Let_def

lemma owned_no_endpoint: "owned no_endpoint"
  by (simp add: owned_def no_endpoint_def)

lemma owned_init_session:
  "owned p \<Longrightarrow> channel_ptr p = None \<Longrightarrow> owned (init_session p) \<and> channel_ptr (init_session p) = None \<and>
     session_ptr (init_session p) = Some (made p) \<and> socket_fd (init_session p) = socket_fd p"
  by (auto simp: owned_def resource_defs split: option.splits)

lemma owned_open_channel:
  "owned p \<Longrightarrow> channel_ptr p = None \<Longrightarrow> session_ptr p = Some s \<Longrightarrow>
     owned (open_channel p) \<and> session_ptr (open_channel p) = Some s \<and> socket_fd (open_channel p) = socket_fd p \<and>
     channel_ptr (open_channel p) = Some (made p)"
  by (auto simp: owned_def resource_defs)

lemma owned_open_socket:
  "owned p \<Longrightarrow> 0 \<le> fd \<Longrightarrow> fd \<noteq> socket_fd p \<Longrightarrow> owned (open_socket fd p) \<and> socket_fd (open_socket fd p) = fd \<and>
     channel_ptr (open_socket fd p) = channel_ptr p \<and> session_ptr (open_socket fd p) = session_ptr p"
  by (auto simp: owned_def resource_defs split: option.splits)

lemma released:
  "owned p \<Longrightarrow> owned (release p) \<and> session_ptr (release p) = None \<and> channel_ptr (release p) = None \<and>
     socket_fd (release p) = -1 \<and> open_sessions (release p) = [] \<and> open_channels (release p) = [] \<and> open_fds (release p) = []"
  by (auto simp: owned_def release_def resource_defs split: option.splits)

section \<open>Stages one after the other\<close>

text \<open>From states where \<open>P\<close> holds, the stages either all go on and end where \<open>Q\<close> holds, or stop where \<open>S\<close> does.\<close>

definition triple :: "('s \<Rightarrow> bool) \<Rightarrow> ('s \<Rightarrow> bool) \<Rightarrow> 's stage list \<Rightarrow> ('s \<Rightarrow> bool) \<Rightarrow> bool" where
  "triple S P fs Q \<longleftrightarrow> (\<forall>s. P s \<longrightarrow> (case stages fs s of (f, s') \<Rightarrow> if f = Go then Q s' else S s'))"

definition pure_stage :: "'s stage \<Rightarrow> bool" where
  "pure_stage f \<longleftrightarrow> (\<forall>s. snd (f s) = s)"

lemma pure_stages [simp]:
  "pure_stage (check b ex)" "pure_stage (on_error mk msg err)" "pure_stage (wait_for f)"
  "pure_stage (in_time c be k phase)"
  "pure_stage (hello_non_blocking bad c e)" "pure_stage (hello_blocking bad c be)"
  by (simp_all add: pure_stage_def check_def on_error_def wait_for_def in_time_def hello_non_blocking_def hello_blocking_def)

lemma stages_append: "stages (fs @ gs) s = (case stages fs s of (Go, s) \<Rightarrow> stages gs s | r \<Rightarrow> r)"
  by (induction fs s rule: stages.induct) (auto split: prod.splits flow.splits)

lemma triple_Nil: "(\<And>s. P s \<Longrightarrow> Q s) \<Longrightarrow> triple S P [] Q"
  by (simp add: triple_def)

lemma triple_pure: "pure_stage f \<Longrightarrow> (\<And>s. P s \<Longrightarrow> S s) \<Longrightarrow> triple S P fs Q \<Longrightarrow> triple S P (f # fs) Q"
  unfolding triple_def pure_stage_def by (auto split: prod.splits flow.splits) (metis snd_conv)+

lemma triple_act: "(\<And>s. P s \<Longrightarrow> R (g s)) \<Longrightarrow> triple S R fs Q \<Longrightarrow> triple S P (act g # fs) Q"
  unfolding triple_def by (auto simp: act_def)

lemma triple_endpoint:
  "(\<And>p h. P (p, h) \<Longrightarrow> R (g p, h)) \<Longrightarrow> triple S R fs Q \<Longrightarrow> triple S P (on_endpoint g # fs) Q"
  unfolding on_endpoint_def by (rule triple_act) auto

lemma triple_append:
  assumes "triple S P fs R" "triple S R gs Q"
  shows "triple S P (fs @ gs) Q"
  using assms unfolding triple_def stages_append by (fastforce split: prod.splits flow.splits)

text \<open>A stage that fails, after a stage list that goes on, decides the result.\<close>

lemma triple_use: "triple S P fs Q \<Longrightarrow> P s \<Longrightarrow> stages fs s = (f, s') \<Longrightarrow> if f = Go then Q s' else S s'"
  unfolding triple_def by fastforce

section \<open>What a set-up owns\<close>

text \<open>The endpoint before, with a session, with a socket, and with a channel.\<close>

definition fresh :: "int \<Rightarrow> ssh_state \<Rightarrow> bool" where
  "fresh fd s \<longleftrightarrow> owned (fst s) \<and> channel_ptr (fst s) = None \<and> (0 \<le> fd \<longrightarrow> socket_fd (fst s) \<noteq> fd)"

definition has_session :: "int \<Rightarrow> ssh_state \<Rightarrow> bool" where
  "has_session fd s \<longleftrightarrow> fresh fd s \<and> session_ptr (fst s) \<noteq> None"

definition has_socket :: "int \<Rightarrow> ssh_state \<Rightarrow> bool" where
  "has_socket fd s \<longleftrightarrow> owned (fst s) \<and> channel_ptr (fst s) = None \<and> session_ptr (fst s) \<noteq> None \<and> socket_fd (fst s) = fd"

definition has_channel :: "int \<Rightarrow> ssh_state \<Rightarrow> bool" where
  "has_channel fd s \<longleftrightarrow> owned (fst s) \<and> channel_ptr (fst s) \<noteq> None \<and> session_ptr (fst s) \<noteq> None \<and> socket_fd (fst s) = fd"

abbreviation owns :: "ssh_state \<Rightarrow> bool" where
  "owns s \<equiv> owned (fst s)"

lemmas phases = fresh_def has_session_def has_socket_def has_channel_def

lemma to_session: "fresh fd (p, h) \<Longrightarrow> has_session fd (init_session p, h)"
  using owned_init_session [of p] by (auto simp: phases)

lemma to_socket: "has_session fd (p, h) \<Longrightarrow> 0 \<le> fd \<Longrightarrow> has_socket fd (open_socket fd p, h)"
  using owned_open_socket [of p fd] by (auto simp: phases)

lemma to_channel: "has_socket fd (p, h) \<Longrightarrow> has_channel fd (open_channel p, h)"
  using owned_open_channel [of p] by (auto simp: phases)

lemma triple_session: "triple S (has_session fd) fs Q \<Longrightarrow> triple S (fresh fd) (on_endpoint init_session # fs) Q"
  by (rule triple_endpoint [where P = "fresh fd" and R = "has_session fd"]) (rule to_session)

lemma triple_open_socket:
  "0 \<le> fd \<Longrightarrow> triple S (has_socket fd) fs Q \<Longrightarrow> triple S (has_session fd) (on_endpoint (open_socket fd) # fs) Q"
  by (rule triple_endpoint [where P = "has_session fd" and R = "has_socket fd"]) (rule to_socket)

lemma triple_channel: "triple S (has_channel fd) fs Q \<Longrightarrow> triple S (has_socket fd) (on_endpoint open_channel # fs) Q"
  by (rule triple_endpoint [where P = "has_socket fd" and R = "has_channel fd"]) (rule to_channel)

lemma triple_host: "triple S (has_session fd) fs Q \<Longrightarrow> triple S (has_session fd) (act (\<lambda>(p, _). (p, ip)) # fs) Q"
  by (rule triple_act [where R = "has_session fd"]) (auto simp: phases)

lemma phase_owns: "fresh fd s \<Longrightarrow> owns s" "has_session fd s \<Longrightarrow> owns s" "has_socket fd s \<Longrightarrow> owns s" "has_channel fd s \<Longrightarrow> owns s"
  by (simp_all add: phases)

lemmas triple_move = triple_session triple_host triple_channel

lemma triple_stay:
  "pure_stage f \<Longrightarrow> triple owns (fresh fd) fs Q \<Longrightarrow> triple owns (fresh fd) (f # fs) Q"
  "pure_stage f \<Longrightarrow> triple owns (has_session fd) fs Q \<Longrightarrow> triple owns (has_session fd) (f # fs) Q"
  "pure_stage f \<Longrightarrow> triple owns (has_socket fd) fs Q \<Longrightarrow> triple owns (has_socket fd) (f # fs) Q"
  "pure_stage f \<Longrightarrow> triple owns (has_channel fd) fs Q \<Longrightarrow> triple owns (has_channel fd) (f # fs) Q"
  by (rule triple_pure; simp add: phases)+

lemma triple_end: "triple S P [] P"
  by (simp add: triple_Nil)

lemma triple_fail: "(\<And>s. P s \<Longrightarrow> S s) \<Longrightarrow> triple S P (on_error mk msg (Some m) # fs) Q"
  by (simp add: triple_def on_error_def)

lemma triple_socket:
  assumes "0 \<le> fd_of r \<or> left_of r \<noteq> None"
    and "triple owns (has_socket (fd_of r)) fs Q"
  shows "triple owns (has_session (fd_of r)) (on_error mk msg (left_of r) # on_endpoint (open_socket (fd_of r)) # fs) Q"
proof (cases "left_of r")
  case None
  with assms(1) have "0 \<le> fd_of r" by simp
  then show ?thesis by (intro triple_stay triple_open_socket assms(2) pure_stages)
next
  case (Some m)
  show ?thesis unfolding Some by (rule triple_fail) (simp add: phases)
qed

lemma ssh_stages_owned: "triple owns (has_socket fd) (ssh_stages k c e) (has_channel fd)"
  unfolding ssh_stages_def Let_def
  by (rule triple_move | rule triple_stay, rule pure_stages | rule triple_end)+

lemma tcp_stages_owned:
  "0 \<le> fd_of (ce_socket e) \<or> left_of (ce_socket e) \<noteq> None \<Longrightarrow>
   triple owns (has_session (fd_of (ce_socket e))) (tcp_stages m1 m2 m3 ip e) (has_socket (fd_of (ce_socket e)))"
  unfolding tcp_stages_def
  by (rule triple_socket, assumption | rule triple_stay, rule pure_stages | rule triple_end)+

lemmas setup_owned = triple_append [OF _ triple_append [OF tcp_stages_owned triple_append [OF ssh_stages_owned]]]

lemma connect_owned:
  assumes "0 \<le> fd_of (ce_socket e) \<or> left_of (ce_socket e) \<noteq> None"
  shows "triple owns (fresh (fd_of (ce_socket e))) (connect_stages c e) (has_channel (fd_of (ce_socket e)))"
  unfolding connect_stages_def Let_def
  by (rule setup_owned [OF _ assms]) (rule triple_move | rule triple_stay, rule pure_stages | rule triple_end)+

lemma connect_notification_owned:
  assumes "0 \<le> fd_of (ce_socket e) \<or> left_of (ce_socket e) \<noteq> None"
  shows "triple owns (fresh (fd_of (ce_socket e))) (connect_notification_stages c e) (has_channel (fd_of (ce_socket e)))"
  unfolding connect_notification_stages_def Let_def
  by (rule setup_owned [OF _ assms]) (rule triple_move | rule triple_stay, rule pure_stages | rule triple_end)+

lemma connect_blocking_owned:
  assumes "0 \<le> fd_of (be_socket e) \<or> left_of (be_socket e) \<noteq> None"
  shows "triple owns (fresh (fd_of (be_socket e))) (connect_blocking_stages c e) (has_channel (fd_of (be_socket e)))"
  unfolding connect_blocking_stages_def Let_def
  by (rule triple_socket [OF assms] | rule triple_move | rule triple_stay, rule pure_stages | rule triple_end)+

lemma connect_notification_blocking_owned:
  assumes "0 \<le> fd_of (be_socket e) \<or> left_of (be_socket e) \<noteq> None"
  shows "triple owns (fresh (fd_of (be_socket e))) (connect_notification_blocking_stages c e) (has_channel (fd_of (be_socket e)))"
  unfolding connect_notification_blocking_stages_def Let_def
  by (rule triple_socket [OF assms] | rule triple_move | rule triple_stay, rule pure_stages | rule triple_end)+

end
