(* ===== verification/Rpc_Blocking.thy ===== *)
theory Rpc_Blocking
  imports Rpc
begin

text \<open>
  The blocking RPC methods (\<open>src/netconf_client_blocking.cpp\<close>) have their own builders of the same requests
  and their own locked edit. Each is translated as it is written, and shown to send what its counterpart that does not block
  sends: whatever holds of the requests and of the order of a locked edit holds of both.
\<close>

section \<open>The texts\<close>

definition get_blocking_text :: "bytes \<Rightarrow> bytes" where
  "get_blocking_text filter_text =
     (let rpc = ''<?xml version=\"1.0\" encoding=\"UTF-8\"?>'' @ ''<rpc xmlns=\"urn:ietf:params:xml:ns:netconf:base:1.0\" message-id=\"101\">'' @ ''<get>'';
          rpc = (if filter_text \<noteq> [] then rpc @ ''<filter type=\"subtree\">'' @ filter_text @ ''</filter>'' else rpc)
      in rpc @ ''</get></rpc>'')"

definition get_config_blocking_text :: "bytes \<Rightarrow> bytes \<Rightarrow> bytes" where
  "get_config_blocking_text source filter_text =
     (let rpc = ''<?xml version=\"1.0\" encoding=\"UTF-8\"?>'' @ ''<rpc xmlns=\"urn:ietf:params:xml:ns:netconf:base:1.0\" message-id=\"101\">'' @ ''<get-config>'' @ ''<source><'' @ source @ ''/></source>'';
          rpc = (if filter_text \<noteq> [] then rpc @ ''<filter type=\"subtree\">'' @ filter_text @ ''</filter>'' else rpc)
      in rpc @ ''</get-config></rpc>'')"

definition copy_config_blocking_text :: "bytes \<Rightarrow> bytes \<Rightarrow> bytes" where
  "copy_config_blocking_text target source =
     ''<?xml version=\"1.0\" encoding=\"UTF-8\"?>'' @ ''<rpc xmlns=\"urn:ietf:params:xml:ns:netconf:base:1.0\" message-id=\"101\">'' @
     ''<copy-config>'' @ ''<target><'' @ target @ ''/></target>'' @ ''<source><'' @ source @ ''/></source>'' @ ''</copy-config>'' @ ''</rpc>''"

definition delete_config_blocking_text :: "bytes \<Rightarrow> bytes" where
  "delete_config_blocking_text target =
     ''<?xml version=\"1.0\" encoding=\"UTF-8\"?>'' @ ''<rpc xmlns=\"urn:ietf:params:xml:ns:netconf:base:1.0\" message-id=\"101\">'' @
     ''<delete-config>'' @ ''<target><'' @ target @ ''/></target>'' @ ''</delete-config>'' @ ''</rpc>''"

definition validate_blocking_text :: "bytes \<Rightarrow> bytes" where
  "validate_blocking_text source =
     ''<?xml version=\"1.0\" encoding=\"UTF-8\"?>'' @ ''<rpc xmlns=\"urn:ietf:params:xml:ns:netconf:base:1.0\" message-id=\"101\">'' @
     ''<validate>'' @ ''<source><'' @ source @ ''/></source>'' @ ''</validate>'' @ ''</rpc>''"

definition edit_config_blocking_text :: "bytes \<Rightarrow> bytes \<Rightarrow> bytes" where
  "edit_config_blocking_text target config =
     ''<?xml version=\"1.0\" encoding=\"UTF-8\"?>'' @ ''<rpc xmlns=\"urn:ietf:params:xml:ns:netconf:base:1.0\" message-id=\"101\">'' @
     ''<edit-config>'' @ ''<target><'' @ target @ ''/></target>'' @ ''<config>'' @ config @ ''</config>'' @ ''</edit-config>'' @ ''</rpc>''"

definition subscribe_blocking_text :: "bytes \<Rightarrow> bytes \<Rightarrow> bytes" where
  "subscribe_blocking_text stream filter_text =
     (let rpc = ''<?xml version=\"1.0\" encoding=\"UTF-8\"?>'' @ ''<rpc xmlns=\"urn:ietf:params:xml:ns:netconf:base:1.0\" message-id=\"101\">'' @ ''<create-subscription xmlns=\"urn:ietf:params:xml:ns:netconf:notification:1.0\">'' @ ''<stream>'' @ stream @ ''</stream>'';
          rpc = (if filter_text \<noteq> [] then rpc @ ''<filter type=\"subtree\">'' @ filter_text @ ''</filter>'' else rpc)
      in rpc @ ''</create-subscription></rpc>'')"

definition lock_blocking_text :: "bytes \<Rightarrow> bytes" where
  "lock_blocking_text target =
     ''<?xml version=\"1.0\" encoding=\"UTF-8\"?>'' @ ''<rpc xmlns=\"urn:ietf:params:xml:ns:netconf:base:1.0\" message-id=\"101\">'' @
     ''<lock>'' @ ''<target><'' @ target @ ''/></target>'' @ ''</lock>'' @ ''</rpc>''"

definition unlock_blocking_text :: "bytes \<Rightarrow> bytes" where
  "unlock_blocking_text target =
     ''<?xml version=\"1.0\" encoding=\"UTF-8\"?>'' @ ''<rpc xmlns=\"urn:ietf:params:xml:ns:netconf:base:1.0\" message-id=\"101\">'' @
     ''<unlock>'' @ ''<target><'' @ target @ ''/></target>'' @ ''</unlock>'' @ ''</rpc>''"

definition commit_blocking_text :: "bytes" where
  "commit_blocking_text =
     ''<?xml version=\"1.0\" encoding=\"UTF-8\"?>'' @ ''<rpc xmlns=\"urn:ietf:params:xml:ns:netconf:base:1.0\" message-id=\"101\">'' @
     ''<commit/>'' @ ''</rpc>''"

section \<open>The operations of several RPCs\<close>

definition edit_config_blocking :: "peer \<Rightarrow> bytes \<Rightarrow> bytes \<Rightarrow> bool \<Rightarrow> bytes rpc_op" where
  "edit_config_blocking peer target config do_validate sent =
     (case send_rpc peer (edit_config_blocking_text target config) sent of
        (Inl e, sent) \<Rightarrow> (Inl e, sent)
      | (Inr reply, sent) \<Rightarrow>
          if do_validate
          then (case send_rpc peer (validate_blocking_text target) sent of
              (Inl e, sent) \<Rightarrow> (Inl e, sent) | (Inr _, sent) \<Rightarrow> (Inr reply, sent))
          else (Inr reply, sent))"

definition locked_edit_config_blocking :: "peer \<Rightarrow> bytes \<Rightarrow> bytes \<Rightarrow> bool \<Rightarrow> bytes rpc_op" where
  "locked_edit_config_blocking peer target config do_validate sent =
     (let body = and_then (send_rpc peer (lock_blocking_text target)) (\<lambda>_.
            and_then (edit_config_blocking peer target config do_validate) (\<lambda>reply.
            and_then (send_rpc peer commit_blocking_text) (\<lambda>_.
            and_then (send_rpc peer (unlock_blocking_text target)) (\<lambda>_. give reply))))
      in case body sent of
          (Inr reply, sent) \<Rightarrow> (Inr reply, sent)
        | (Inl err, sent) \<Rightarrow>
            (Inl (Netconf_Exception (''Unable to complete operation: '' @ what err)),
             snd (send_rpc peer (unlock_blocking_text target) sent)))"

section \<open>Equivalence\<close>

lemmas texts = XML_DECL_def RPC_OPEN_def subtree_filter_def Let_def

lemma same_texts:
  "get_blocking_text = get_rpc" "get_config_blocking_text = get_config_rpc" "copy_config_blocking_text = copy_config_rpc"
  "delete_config_blocking_text = delete_config_rpc" "validate_blocking_text = validate_rpc"
  "edit_config_blocking_text = edit_config_rpc" "subscribe_blocking_text = create_subscription_rpc"
  "lock_blocking_text = lock_rpc" "unlock_blocking_text = unlock_rpc" "commit_blocking_text = commit_rpc"
  by (simp_all add: fun_eq_iff texts get_blocking_text_def get_rpc_def get_config_blocking_text_def get_config_rpc_def
      copy_config_blocking_text_def copy_config_rpc_def delete_config_blocking_text_def delete_config_rpc_def
      validate_blocking_text_def validate_rpc_def edit_config_blocking_text_def edit_config_rpc_def
      subscribe_blocking_text_def create_subscription_rpc_def lock_blocking_text_def lock_rpc_def
      unlock_blocking_text_def unlock_rpc_def commit_blocking_text_def commit_rpc_def)

lemma same_edit: "edit_config_blocking peer target config v = edit_config peer target config v"
  by (simp add: fun_eq_iff edit_config_blocking_def edit_config_def and_then_def give_def same_texts split: prod.splits sum.splits)

text \<open>
  The two implementations of the RPCs send the same requests, byte for byte, for all arguments; and a
  blocking locked edit sends the same RPCs in the same order as one that does not block, with the same result, whatever
  the peer answers. So the guarantees of the requests and of the locked edit hold in both modes.
\<close>

theorem blocking_rpcs_are_the_same:
  "get_blocking_text = get_rpc \<and> get_config_blocking_text = get_config_rpc \<and> copy_config_blocking_text = copy_config_rpc \<and>
   delete_config_blocking_text = delete_config_rpc \<and> validate_blocking_text = validate_rpc \<and>
   edit_config_blocking_text = edit_config_rpc \<and> subscribe_blocking_text = create_subscription_rpc \<and>
   lock_blocking_text = lock_rpc \<and> unlock_blocking_text = unlock_rpc \<and> commit_blocking_text = commit_rpc \<and>
   edit_config_blocking = edit_config \<and> locked_edit_config_blocking = locked_edit_config"
proof -
  have "locked_edit_config_blocking peer target config v sent = locked_edit_config peer target config v sent"
    for peer target config v sent
    by (simp add: locked_edit_config_blocking_def locked_edit_config_def locked_edit_body_def same_texts same_edit
        split: prod.splits sum.splits)
  then show ?thesis by (simp add: same_texts same_edit fun_eq_iff)
qed

end
