(* ===== verification/Socket_Registry.thy ===== *)
theory Socket_Registry
  imports Reactors
begin

text \<open>
  What a client relies on when it registers its notification socket (\<open>NotificationReactorManager::add\<close>
  and \<open>remove\<close>): the manager is a partial map from sockets to clients, as long as no socket is added that
  is still registered. The laws are a locale, which the manager of \<open>src/notification_reactor_manager.cpp\<close>
  interprets.
\<close>

locale socket_registry =
  fixes add :: "'e \<Rightarrow> int \<Rightarrow> 'c \<Rightarrow> 'm \<Rightarrow> exn option \<times> 'm"
    and remove :: "int \<Rightarrow> 'm \<Rightarrow> 'm"
    and owner :: "'m \<Rightarrow> int \<Rightarrow> 'c option"
    and inv :: "'m \<Rightarrow> bool"
  assumes add_inv: "inv m \<Longrightarrow> owner m fd = None \<Longrightarrow> inv (snd (add e fd c m))"
    and add_done: "fst (add e fd c m) = None \<Longrightarrow> owner (snd (add e fd c m)) = (owner m)(fd := Some c)"
    and add_refused: "fst (add e fd c m) = Some ex \<Longrightarrow> owner (snd (add e fd c m)) = owner m"
    and remove_inv: "inv m \<Longrightarrow> inv (remove fd m)"
    and remove_owner: "inv m \<Longrightarrow> owner (remove fd m) = (owner m)(fd := None)"
begin

text \<open>Subscriptions of many clients, one after the other: an \<open>Inl\<close> opens, an \<open>Inr\<close> closes a socket.\<close>

fun play :: "('e \<times> int \<times> 'c + int) list \<Rightarrow> 'm \<Rightarrow> 'm" where
  "play [] m = m"
| "play (Inl (e, fd, c) # ops) m = play ops (snd (add e fd c m))"
| "play (Inr fd # ops) m = play ops (remove fd m)"

fun proper :: "('e \<times> int \<times> 'c + int) list \<Rightarrow> 'm \<Rightarrow> bool" where
  "proper [] m \<longleftrightarrow> True"
| "proper (Inl (e, fd, c) # ops) m \<longleftrightarrow> owner m fd = None \<and> proper ops (snd (add e fd c m))"
| "proper (Inr fd # ops) m \<longleftrightarrow> proper ops (remove fd m)"

lemma play_inv: "inv m \<Longrightarrow> proper ops m \<Longrightarrow> inv (play ops m)"
  by (induction ops m rule: play.induct) (auto simp: add_inv remove_inv)

lemma add_owner:
  "owner (snd (add e fd c m)) = (if fst (add e fd c m) = None then (owner m)(fd := Some c) else owner m)"
  using add_done add_refused by auto

text \<open>A socket that is opened and closed leaves every other registration as it was, whatever happens to the
  others in between.\<close>

lemma others_kept:
  "inv m \<Longrightarrow> proper ops m \<Longrightarrow> \<forall>x\<in>set ops. case x of Inl (e, fd, c) \<Rightarrow> fd \<noteq> g | Inr fd \<Rightarrow> fd \<noteq> g \<Longrightarrow>
     owner (play ops m) g = owner m g"
  by (induction ops m rule: play.induct) (auto simp: add_inv remove_inv add_owner remove_owner)

lemma open_close:
  assumes "inv m" "owner m fd = None"
  shows "inv (remove fd (snd (add e fd c m))) \<and> owner (remove fd (snd (add e fd c m))) = owner m"
  using assms add_inv [OF assms] remove_inv remove_owner
  by (auto simp: add_owner fun_eq_iff)

end

definition client_of :: "manager \<Rightarrow> int \<Rightarrow> client option" where
  "client_of m fd = map_of (fd_to_client m) fd"

definition enrol :: "(client \<Rightarrow> bool) \<times> string option \<Rightarrow> int \<Rightarrow> client \<Rightarrow> manager \<Rightarrow> exn option \<times> manager" where
  "enrol e fd c m = manager_add (fst e) (snd e) fd (Some c) m"

lemma client_of_None: "manager_inv m \<Longrightarrow> client_of m fd = None \<longleftrightarrow> map_of (fd_to_reactor m) fd = None"
  unfolding manager_inv_def client_of_def by (metis domIff)

lemma register_owner:
  "client_of (snd (register alive e fd c m)) =
     (if fst (register alive e fd c m) = None then (client_of m)(fd := Some c) else client_of m)"
proof (cases "register alive e fd c m")
  case (Pair r m')
  then show ?thesis
    using register_None [of alive e fd c m m'] register_Some [of alive e fd c m]
    by (cases r) (auto simp: client_of_def fun_eq_iff update_conv' Let_def)
qed

lemma enrol_owner:
  "client_of (snd (enrol e fd c m)) = (if fst (enrol e fd c m) = None then (client_of m)(fd := Some c) else client_of m)"
  by (simp add: enrol_def manager_add_def Let_def register_owner) (simp add: client_of_def fun_eq_iff)

interpretation registry: socket_registry enrol manager_remove client_of manager_inv
proof
  fix m fd e c and ex
  show "manager_inv m \<Longrightarrow> client_of m fd = None \<Longrightarrow> manager_inv (snd (enrol e fd c m))"
    using manager_inv_add client_of_None by (metis enrol_def prod.collapse)
  show "fst (enrol e fd c m) = None \<Longrightarrow> client_of (snd (enrol e fd c m)) = (client_of m)(fd := Some c)"
    by (simp add: enrol_owner)
  show "fst (enrol e fd c m) = Some ex \<Longrightarrow> client_of (snd (enrol e fd c m)) = client_of m"
    by (simp add: enrol_owner)
  show "manager_inv m \<Longrightarrow> manager_inv (manager_remove fd m)"
    using manager_inv_remove by blast
  assume inv: "manager_inv m"
  show "client_of (manager_remove fd m) = (client_of m)(fd := None)"
    using client_of_None [OF inv, of fd]
    by (auto simp: manager_remove_def Let_def client_of_def delete_conv' fun_eq_iff split: option.splits)
qed

end
