(* ===== verification/Session.thy ===== *)
theory Session
  imports Ssh_Setup Rpc Socket_Registry
begin

text \<open>
  The sessions of a client over its life: the four \<open>connect\<close> functions with what they do to the members,
  \<open>disconnect\<close>, \<open>delete_notification_session\<close>, \<open>mark_notification_dead\<close> and the two \<open>subscribe\<close> functions
  (\<open>src/netconf_client_non_blocking.cpp\<close>, \<open>src/netconf_client_blocking.cpp\<close>). A call gets what the system
  answers and gives the result and the client it leaves; those that register a socket also work on the
  manager of the reactors.
\<close>

section \<open>The client\<close>

text \<open>The members. The handles of the notification side are in \<open>notif_end\<close>; the queue's view of them, which
  its operations test, is in \<open>notif_part\<close>.\<close>

record nc =
  is_connected :: bool
  is_blocking :: bool
  resolved_host :: string
  rpc_end :: endpoint
  notif_end :: endpoint
  notif_part :: notif_state

definition new_client :: "client_config \<Rightarrow> nc" where
  "new_client c = \<lparr>is_connected = False, is_blocking = False, resolved_host = [], rpc_end = no_endpoint,
     notif_end = no_endpoint, notif_part = initial_notif c\<rparr>"

abbreviation config :: "nc \<Rightarrow> client_config" where
  "config n \<equiv> cfg (notif_part n)"

definition set_notif_end :: "endpoint \<Rightarrow> nc \<Rightarrow> nc" where
  "set_notif_end p n = n\<lparr>notif_end := p, notif_part := (notif_part n)\<lparr>notif_channel := channel_ptr p \<noteq> None,
     notif_session := session_ptr p \<noteq> None, notif_socket := socket_fd p\<rparr>\<rparr>"

definition set_notif_flags :: "bool \<Rightarrow> bool \<Rightarrow> nc \<Rightarrow> nc" where
  "set_notif_flags con blk n = n\<lparr>notif_part := (notif_part n)\<lparr>notif_is_connected := con, notif_is_blocking := blk\<rparr>\<rparr>"

definition set_rpc_end :: "ssh_state \<Rightarrow> nc \<Rightarrow> nc" where
  "set_rpc_end s n = n\<lparr>rpc_end := fst s, resolved_host := snd s\<rparr>"

section \<open>Connecting\<close>

text \<open>The \<open>connect\<close> functions return true (\<open>Go\<close>) or throw.\<close>

definition double_connection :: exn where
  "double_connection = Netconf_Exception ''Session already exists, possible double connection attempt''"

definition connect_non_blocking :: "connect_env \<Rightarrow> nc \<Rightarrow> flow \<times> nc" where
  "connect_non_blocking e n =
     (if is_connected n then (Throw double_connection, n)
      else case stages (connect_stages (config n) e) (rpc_end n, resolved_host n) of
          (f, s) \<Rightarrow>
            (caught ''Unable to connect to device: '' f,
             let n = set_rpc_end s n in if f = Go then n\<lparr>is_connected := True, is_blocking := False\<rparr> else n))"

definition connect_blocking :: "blocking_env \<Rightarrow> nc \<Rightarrow> flow \<times> nc" where
  "connect_blocking e n =
     (if is_connected n then (Throw double_connection, n)
      else case stages (connect_blocking_stages (config n) e) (rpc_end n, resolved_host n) of
          (f, s) \<Rightarrow>
            (caught ''Unable to connect to device: '' f,
             let n = set_rpc_end s n in if f = Go then n\<lparr>is_blocking := True, is_connected := True\<rparr> else n))"

definition connect_notification_non_blocking :: "connect_env \<Rightarrow> nc \<Rightarrow> flow \<times> nc" where
  "connect_notification_non_blocking e n =
     (if notif_is_connected (notif_part n) then (Throw double_connection, n)
      else case stages (connect_notification_stages (config n) e) (notif_end n, resolved_host n) of
          (f, (p, h)) \<Rightarrow>
            (caught ''Unable to connect to device: '' f,
             let n = set_notif_end p (n\<lparr>resolved_host := h\<rparr>) in if f = Go then set_notif_flags False False n else n))"

definition connect_notification_blocking :: "blocking_env \<Rightarrow> nc \<Rightarrow> flow \<times> nc" where
  "connect_notification_blocking e n =
     (if notif_is_connected (notif_part n)
      then (Throw (Netconf_Exception ''Notification session already exists''), n)
      else case stages (connect_notification_blocking_stages (config n) e) (notif_end n, resolved_host n) of
          (f, (p, h)) \<Rightarrow>
            (caught ''Failed to establish notification session: '' f,
             case f of
               Go \<Rightarrow> set_notif_flags True True (set_notif_end p n)
             | Throw ex \<Rightarrow> set_notif_end (notification_blocking_handler p) n
             | Block \<Rightarrow> set_notif_end p n))"

section \<open>Disconnecting\<close>

text \<open>\<open>mark_notification_dead\<close> on the handles; on the queue it is \<^const>\<open>mark_notification_dead\<close>.\<close>

definition mark_dead :: "nc \<Rightarrow> nc" where
  "mark_dead n = n\<lparr>notif_end := release (notif_end n), notif_part := mark_notification_dead (notif_part n)\<rparr>"

definition delete_notification_session :: "manager \<times> nc \<Rightarrow> manager \<times> nc" where
  "delete_notification_session s =
     (let (m, n) = s; fd = notif_socket (notif_part n)
      in (if fd \<ge> 0 then manager_remove fd m else m, mark_dead n))"

definition disconnect :: "manager \<times> nc \<Rightarrow> manager \<times> nc" where
  "disconnect s =
     (let (m, n) = s; n = n\<lparr>rpc_end := release (rpc_end n)\<rparr>; (m, n) = delete_notification_session (m, n)
      in (m, n\<lparr>is_blocking := False, is_connected := False\<rparr>))"

section \<open>Subscribing\<close>

record sub_env =
  se_connect :: connect_env
  se_writes :: "chan_write list"
  se_start :: nat
  se_reply :: "read_round list"
  se_check :: "bytes \<Rightarrow> exn option"   \<comment> \<open>\<^const>\<open>check_for_rpc_error\<close> of an XML parser\<close>
  se_alive :: "client \<Rightarrow> bool"
  se_epoll :: "string option"

text \<open>The handler of \<open>subscribe_non_blocking\<close>.\<close>

definition subscribe_failed :: "exn \<Rightarrow> manager \<times> nc \<Rightarrow> (exn + bytes) outcome \<times> manager \<times> nc" where
  "subscribe_failed ex s =
     (Returns (Inl (Netconf_Exception (''Unable to Subscribe to device: '' @ what ex))), fst s, mark_dead (snd s))"

text \<open>The three tests between the set-up and the RPC.\<close>

definition missing_part :: "notif_state \<Rightarrow> exn option" where
  "missing_part q =
     (if \<not> notif_channel q then Some (Netconf_Exception ''No notifications channel present'')
      else if \<not> notif_session q then Some (Netconf_Exception ''No notifications session present'')
      else if notif_socket q < 0 then Some (Netconf_Exception ''No notifications socket present'')
      else None)"

definition subscription_rpc :: "sub_env \<Rightarrow> nc \<Rightarrow> bytes \<Rightarrow> bytes \<times> (exn + bytes) outcome" where
  "subscription_rpc e n rpc =
     (let q = notif_part n in
      send_rpc_non_blocking_func (se_check e)
        \<lparr>rd_chan = notif_channel q, rd_sess = notif_session q, rd_fd = notif_socket q,
         rd_timeout = cf_read_timeout (config n), rd_max_kb = -1, rd_incomplete_timeout = -1\<rparr>
        rpc (se_writes e) (se_start e) (se_reply e))"

definition subscribe_non_blocking ::
  "bytes \<Rightarrow> bytes \<Rightarrow> client \<Rightarrow> sub_env \<Rightarrow> manager \<times> nc \<Rightarrow> (exn + bytes) outcome \<times> manager \<times> nc" where
  "subscribe_non_blocking stream filter_text self e s =
     (let (m, n) = s in
      case connect_notification_non_blocking (se_connect e) n of
        (Block, n) \<Rightarrow> (Blocked, m, n)
      | (Throw ex, n) \<Rightarrow> subscribe_failed ex (m, n)
      | (Go, n) \<Rightarrow> (case missing_part (notif_part n) of
          Some ex \<Rightarrow> subscribe_failed ex (m, n)
        | None \<Rightarrow> (case snd (subscription_rpc e n (create_subscription_rpc stream filter_text)) of
            Blocked \<Rightarrow> (Blocked, m, n)
          | Returns (Inl ex) \<Rightarrow> subscribe_failed ex (m, n)
          | Returns (Inr reply) \<Rightarrow>
              let n = n\<lparr>notif_part := (notif_part n)\<lparr>rx_buffer := [], rx_timer_active := False\<rparr>\<rparr> in
              case manager_add (se_alive e) (se_epoll e) (notif_socket (notif_part n)) (Some self) m of
                (Some ex, m) \<Rightarrow> subscribe_failed ex (m, n)
              | (None, m) \<Rightarrow> (Returns (Inr reply), m, set_notif_flags True False n))))"

record blocking_sub_env =
  bse_connect :: blocking_env
  bse_write :: "string + nat"
  bse_start :: nat
  bse_reply :: "bl_round list"
  bse_check :: "bytes \<Rightarrow> exn option"

definition subscribe_blocking :: "bytes \<Rightarrow> bytes \<Rightarrow> blocking_sub_env \<Rightarrow> nc \<Rightarrow> (exn + bytes) outcome \<times> nc" where
  "subscribe_blocking stream filter_text e n =
     (case connect_notification_blocking (bse_connect e) n of
        (Block, n) \<Rightarrow> (Blocked, n)
      | (Throw ex, n) \<Rightarrow> (Returns (Inl ex), n)
      | (Go, n) \<Rightarrow>
          if \<not> notif_channel (notif_part n)
          then (Returns (Inl (Netconf_Exception ''No notifications channel present'')), n)
          else if \<not> notif_session (notif_part n)
          then (Returns (Inl (Netconf_Exception ''No notifications session present'')), n)
          else (snd (send_rpc_blocking_func (bse_check e) (notif_channel (notif_part n)) (cf_read_timeout (config n))
              (create_subscription_rpc stream filter_text) (bse_write e) (bse_start e) (bse_reply e)), n))"

definition receive_notification_blocking :: "nat \<Rightarrow> bl_round list \<Rightarrow> nc \<Rightarrow> (exn + bytes) outcome" where
  "receive_notification_blocking start es n =
     (let fail = (\<lambda>m. Returns (Inl (Netconf_Connection_Refused (''Unable to connect to device: '' @ m)))) in
      if \<not> notif_channel (notif_part n) then fail ''Notification channel not open.''
      else if \<not> notif_session (notif_part n) then fail ''Notification session not open.''
      else case read_until_eom_blocking True (cf_read_timeout (config n)) start es of
          Blocked \<Rightarrow> Blocked
        | Returns (Inl ex) \<Rightarrow> fail (what ex)
        | Returns (Inr xml) \<Rightarrow> Returns (Inr xml))"

end
