(* ===== verification/Session_Correct.thy ===== *)
theory Session_Correct
  imports Session
begin

text \<open>
  What the sessions of a client guarantee: what a connect leaves and a disconnect closes, what happens to a
  channel when a set-up fails late, what a subscription registers, and how the time limit is kept.
\<close>

section \<open>What a connection owns\<close>

text \<open>A descriptor that \<open>socket\<close> returns is a new one.\<close>

definition new_socket :: "string + int \<Rightarrow> endpoint \<Rightarrow> bool" where
  "new_socket r p \<longleftrightarrow> (case r of Inl _ \<Rightarrow> True | Inr fd \<Rightarrow> 0 \<le> fd \<and> socket_fd p \<noteq> fd)"

lemma new_socket_fresh:
  "new_socket r p \<Longrightarrow> owned p \<Longrightarrow> channel_ptr p = None \<Longrightarrow>
     (0 \<le> fd_of r \<or> left_of r \<noteq> None) \<and> fresh (fd_of r) (p, h)"
  by (auto simp: new_socket_def fd_of_def left_of_def fresh_def split: sum.splits)

lemma caught_simps [simp]:
  "caught msg f = Go \<longleftrightarrow> f = Go"
  "caught msg f = Throw ex \<longleftrightarrow> (\<exists>e. f = Throw e \<and> ex = Netconf_Connection_Refused (msg @ what e))"
  by (auto simp: caught_def split: flow.splits)

text \<open>All three handles are open, and nothing else.\<close>

definition complete :: "endpoint \<Rightarrow> bool" where
  "complete p \<longleftrightarrow> owned p \<and> (\<exists>s c. session_ptr p = Some s \<and> channel_ptr p = Some c \<and> 0 \<le> socket_fd p \<and>
     open_sessions p = [s] \<and> open_channels p = [(c, s)] \<and> open_fds p = [socket_fd p])"

definition all_released :: "endpoint \<Rightarrow> bool" where
  "all_released p \<longleftrightarrow> \<not> misused p \<and> session_ptr p = None \<and> channel_ptr p = None \<and> socket_fd p = -1 \<and>
     open_sessions p = [] \<and> open_channels p = [] \<and> open_fds p = []"

lemma release_all: "owned p \<Longrightarrow> all_released (release p)"
  using released [of p] by (simp add: all_released_def owned_def)

lemma has_channel_complete: "has_channel fd s \<Longrightarrow> 0 \<le> fd \<Longrightarrow> complete (fst s)"
  by (auto simp: has_channel_def complete_def owned_def)

text \<open>A set-up that only goes on with a socket.\<close>

lemma setup_result:
  assumes "triple owns (fresh fd) fs (has_channel fd)" "fresh fd (p, h)" "stages fs (p, h) = (f, s)"
  shows "owns s \<and> (f = Go \<longrightarrow> has_channel fd s)"
  using triple_use [OF assms(1,2), of f s] assms(3) phase_owns(4) by (auto split: if_splits)

lemma no_socket:
  assumes "triple owns (fresh (fd_of r)) fs (has_channel (fd_of r))" "new_socket r p" "owned p" "channel_ptr p = None"
    and "stages fs (p, h) = (f, s)" "left_of r \<noteq> None \<Longrightarrow> f \<noteq> Go"
  shows "owns s \<and> (f = Go \<longrightarrow> complete (fst s))"
  using setup_result [OF assms(1) conjunct2 [OF new_socket_fresh [OF assms(2-4)]] assms(5)] assms(2,6)
  by (auto simp: new_socket_def fd_of_def left_of_def dest: has_channel_complete split: sum.splits)

lemma stages_Go: "stages fs s = (Go, s') \<Longrightarrow> f \<in> set fs \<Longrightarrow> \<exists>t. fst (f t) = Go"
  by (induction fs s rule: stages.induct) (auto split: prod.splits flow.splits, metis fst_conv)

lemma socket_refused:
  assumes "left_of r \<noteq> None" "on_error mk msg (left_of r) \<in> set fs" "stages fs s = (f, s')"
  shows "f \<noteq> Go"
  using stages_Go [OF _ assms(2), of s s'] assms(1,3) by (auto simp: on_error_def)

lemmas setup_defs = connect_stages_def connect_notification_stages_def connect_blocking_stages_def
  connect_notification_blocking_stages_def tcp_stages_def Let_def

lemma socket_stages:
  "on_error Netconf_Exception ''Failed to create socket: '' (left_of (ce_socket e)) \<in> set (connect_stages c e)"
  "on_error Netconf_Exception ''Failed to create socket: '' (left_of (ce_socket e)) \<in> set (connect_notification_stages c e)"
  "on_error Netconf_Exception ''Failed to create socket: '' (left_of (be_socket b)) \<in> set (connect_blocking_stages c b)"
  "on_error Netconf_Exception ''Failed to create socket for notification session: '' (left_of (be_socket b))
     \<in> set (connect_notification_blocking_stages c b)"
  unfolding setup_defs by simp_all

lemma setup_owns:
  assumes "owned p" "channel_ptr p = None"
  shows "new_socket (ce_socket e) p \<Longrightarrow> stages (connect_stages c e) (p, h) = (f, s) \<Longrightarrow> owns s \<and> (f = Go \<longrightarrow> complete (fst s))"
    and "new_socket (ce_socket e) p \<Longrightarrow> stages (connect_notification_stages c e) (p, h) = (f, s) \<Longrightarrow>
      owns s \<and> (f = Go \<longrightarrow> complete (fst s))"
    and "new_socket (be_socket b) p \<Longrightarrow> stages (connect_blocking_stages c b) (p, h) = (f, s) \<Longrightarrow>
      owns s \<and> (f = Go \<longrightarrow> complete (fst s))"
    and "new_socket (be_socket b) p \<Longrightarrow> stages (connect_notification_blocking_stages c b) (p, h) = (f, s) \<Longrightarrow>
      owns s \<and> (f = Go \<longrightarrow> complete (fst s))"
proof -
  note o = new_socket_fresh [OF _ assms, THEN conjunct1]
  show "new_socket (ce_socket e) p \<Longrightarrow> stages (connect_stages c e) (p, h) = (f, s) \<Longrightarrow> owns s \<and> (f = Go \<longrightarrow> complete (fst s))"
    by (rule no_socket [OF connect_owned [OF o] _ assms], assumption+)
      (erule socket_refused [OF _ socket_stages(1)])
  show "new_socket (ce_socket e) p \<Longrightarrow> stages (connect_notification_stages c e) (p, h) = (f, s) \<Longrightarrow> owns s \<and> (f = Go \<longrightarrow> complete (fst s))"
    by (rule no_socket [OF connect_notification_owned [OF o] _ assms], assumption+)
      (erule socket_refused [OF _ socket_stages(2)])
  show "new_socket (be_socket b) p \<Longrightarrow> stages (connect_blocking_stages c b) (p, h) = (f, s) \<Longrightarrow> owns s \<and> (f = Go \<longrightarrow> complete (fst s))"
    by (rule no_socket [OF connect_blocking_owned [OF o] _ assms], assumption+)
      (erule socket_refused [OF _ socket_stages(3)])
  show "new_socket (be_socket b) p \<Longrightarrow> stages (connect_notification_blocking_stages c b) (p, h) = (f, s) \<Longrightarrow> owns s \<and> (f = Go \<longrightarrow> complete (fst s))"
    by (rule no_socket [OF connect_notification_blocking_owned [OF o] _ assms], assumption+)
      (erule socket_refused [OF _ socket_stages(4)])
qed


section \<open>Connect and disconnect\<close>

lemma mark_dead_released: "owned (notif_end n) \<Longrightarrow> all_released (notif_end (mark_dead n))"
  by (simp add: mark_dead_def release_all)

lemma disconnect_parts:
  "rpc_end (snd (disconnect (m, n))) = release (rpc_end n)" "notif_end (snd (disconnect (m, n))) = release (notif_end n)"
  "\<not> is_connected (snd (disconnect (m, n)))"
  "notif_part (snd (disconnect (m, n))) = mark_notification_dead (notif_part n)"
  by (simp_all add: disconnect_def delete_notification_session_def mark_dead_def Let_def)

text \<open>What the caller of a connect may rely on: \<open>blk\<close> is the mode.\<close>

definition connect_contract :: "bool \<Rightarrow> nc \<Rightarrow> flow \<times> nc \<Rightarrow> bool" where
  "connect_contract blk n r \<longleftrightarrow>
     (case r of (f, n') \<Rightarrow>
        notif_end n' = notif_end n \<and> notif_part n' = notif_part n \<and> owned (rpc_end n') \<and>
        (f = Go \<longrightarrow> is_connected n' \<and> is_blocking n' = blk \<and> complete (rpc_end n')) \<and>
        (f \<noteq> Go \<longrightarrow> \<not> is_connected n') \<and>
        (\<forall>ex. f = Throw ex \<longrightarrow> (\<exists>m. ex = Netconf_Connection_Refused (''Unable to connect to device: '' @ m))) \<and>
        (\<forall>m. all_released (rpc_end (snd (disconnect (m, n')))) \<and> \<not> is_connected (snd (disconnect (m, n')))))"

text \<open>
  C6. A client that is not connected and holds no channel connects safely, in both modes. Whatever the
  system and the server answer: if the call returns, the client is connected in that mode and owns exactly
  one session, one channel of it and one socket; if not, it is not connected. No handle is ever used or
  freed twice, nothing that was opened is forgotten, and a following \<open>disconnect\<close> closes everything. The
  only exception is a refused connection: that the password was wrong is only in the message.
\<close>

theorem connect_is_safe:
  assumes "owned (rpc_end n)" "channel_ptr (rpc_end n) = None" "\<not> is_connected n"
  shows "(new_socket (ce_socket e) (rpc_end n) \<longrightarrow> connect_contract False n (connect_non_blocking e n)) \<and>
    (new_socket (be_socket b) (rpc_end n) \<longrightarrow> connect_contract True n (connect_blocking b n))"
proof (intro conjI impI)
  obtain f s where "stages (connect_stages (config n) e) (rpc_end n, resolved_host n) = (f, s)"
    by (metis surj_pair)
  moreover assume "new_socket (ce_socket e) (rpc_end n)"
  ultimately show "connect_contract False n (connect_non_blocking e n)"
    using setup_owns(1) [OF assms(1,2)] assms(3) release_all
    by (auto simp: connect_contract_def connect_non_blocking_def set_rpc_end_def disconnect_parts Let_def)
next
  obtain f s where "stages (connect_blocking_stages (config n) b) (rpc_end n, resolved_host n) = (f, s)"
    by (metis surj_pair)
  moreover assume "new_socket (be_socket b) (rpc_end n)"
  ultimately show "connect_contract True n (connect_blocking b n)"
    using setup_owns(3) [OF assms(1,2)] assms(3) release_all
    by (auto simp: connect_contract_def connect_blocking_def set_rpc_end_def disconnect_parts Let_def)
qed


text \<open>A device that answers at once.\<close>

definition prompt :: "int \<Rightarrow> connect_env" where
  "prompt fd = \<lparr>ce_init = True, ce_elapsed = (\<lambda>_. 1000), ce_resolved = True, ce_addrinfo = [(AF_INET, ''127.0.0.1'')],
     ce_socket = Inr fd, ce_setsockopt = None, ce_fcntl = None, ce_inet_pton = (\<lambda>_. True), ce_connect = None,
     ce_poll = P_Ready, ce_so_error = None, ce_handshake = [(0, P_Ready, Rc_Ok)], ce_auth = [(0, P_Ready, Rc_Ok)],
     ce_channel = [(0, Opened)], ce_startup = [(0, P_Ready, Rc_Ok)], ce_last_error = [], ce_hello_start = 0,
     ce_hello = [\<lparr>rr_now = 0, rr_read = Got (''<capabilities/>'' @ EOM), rr_waits = [], rr_first = 0, rr_last = 0\<rparr>],
     ce_writes = [Wrote 1000]\<rparr>"

abbreviation basic :: nc where
  "basic \<equiv> new_client BASE_CLIENT_KWARGS"

lemma prompt_simps [simp]:
  "ce_init (prompt fd)" "ce_elapsed (prompt fd) k = 1000" "ce_resolved (prompt fd)"
  "ce_addrinfo (prompt fd) = [(AF_INET, ''127.0.0.1'')]" "ce_socket (prompt fd) = Inr fd" "ce_setsockopt (prompt fd) = None"
  "ce_fcntl (prompt fd) = None" "ce_inet_pton (prompt fd) ip" "ce_connect (prompt fd) = None" "ce_poll (prompt fd) = P_Ready"
  "ce_so_error (prompt fd) = None" "ce_handshake (prompt fd) = [(0, P_Ready, Rc_Ok)]"
  "ce_auth (prompt fd) = [(0, P_Ready, Rc_Ok)]" "ce_channel (prompt fd) = [(0, Opened)]"
  "ce_startup (prompt fd) = [(0, P_Ready, Rc_Ok)]" "ce_hello_start (prompt fd) = 0" "ce_writes (prompt fd) = [Wrote 1000]"
  by (simp_all add: prompt_def)

lemma basic_timeouts [simp]:
  "cf_connect_timeout BASE_CLIENT_KWARGS = 5" "cf_read_timeout BASE_CLIENT_KWARGS = 5"
  by (simp_all add: BASE_CLIENT_KWARGS_def)

lemmas stage_eval = check_def on_error_def wait_for_def act_def on_endpoint_def left_of_def fd_of_def poll_error_def
  resolve_hostname_non_blocking_def resolve_hostname_def

lemma prompt_hello: "hello_non_blocking bad BASE_CLIENT_KWARGS (prompt fd) s = (Go, s)"
proof -
  have "read_until_eom_non_blocking \<lparr>rd_chan = True, rd_sess = True, rd_fd = x, rd_timeout = 5, rd_max_kb = -1,
      rd_incomplete_timeout = -1\<rparr> 0 (ce_hello (prompt fd)) = Returns (Inr (''<capabilities/>'' @ EOM))" for x
    by (simp add: prompt_def read_until_eom_non_blocking_def nb_round_def new_reader_def size_limit_enabled_def
        time_limit_enabled_def infinite_wait_def timeout_s_def Let_def ns_per_s_def EOM_def)
  moreover have "snd (send_client_hello_non_blocking [Wrote 1000]) = Returns (Inr ())"
    by (simp add: send_client_hello_non_blocking_def build_client_hello_def)
  ultimately show ?thesis by (simp add: hello_non_blocking_def EOM_def)
qed

lemma prompt_current_timeout: "current_timeout BASE_CLIENT_KWARGS 1000 = 4"
  by (simp add: current_timeout_def ns_per_s_def)

lemma prompt_connects:
  "stages (connect_stages BASE_CLIENT_KWARGS (prompt fd)) (p, h) =
     (Go, open_channel (open_socket fd (init_session p)), ''127.0.0.1'')"
  unfolding connect_stages_def tcp_stages_def ssh_stages_def Let_def
  by (simp add: prompt_hello stage_eval prompt_current_timeout ns_per_s_def)

theorem connect_is_safe_witness:
  "connect_contract False basic (connect_non_blocking (prompt 3) basic) \<and>
   fst (connect_non_blocking (prompt 3) basic) = Go"
proof -
  have "owned (rpc_end basic)" "channel_ptr (rpc_end basic) = None" "\<not> is_connected basic"
    by (simp_all add: new_client_def owned_no_endpoint) (simp add: no_endpoint_def)
  from connect_is_safe [OF this, of "prompt 3"] show ?thesis
    by (simp add: new_socket_def connect_non_blocking_def prompt_connects) (simp add: new_client_def no_endpoint_def
        initial_notif_def prompt_connects)
qed

section \<open>A set-up that fails late\<close>

text \<open>The channel that the member points to is not open any more, or such a channel was used.\<close>

definition dangling :: "ssh_state \<Rightarrow> bool" where
  "dangling s \<longleftrightarrow> misused (fst s) \<or>
     (\<exists>c. channel_ptr (fst s) = Some c \<and> c < made (fst s) \<and> (\<forall>(d, t)\<in>set (open_channels (fst s)). d \<noteq> c))"

lemma dangling_open_channel: "dangling (p, h) \<Longrightarrow> dangling (open_channel p, h)"
  by (auto simp: dangling_def resource_defs split: option.splits)

lemma dangling_open_socket: "dangling (p, h) \<Longrightarrow> dangling (open_socket fd p, h)"
  by (auto simp: dangling_def resource_defs split: option.splits)

lemma dangling_init:
  "owned p \<Longrightarrow> channel_ptr p = Some c \<Longrightarrow> dangling (init_session p, h)"
  by (auto simp: dangling_def owned_def resource_defs split: option.splits)

lemma dangling_release: "dangling (p, h) \<Longrightarrow> misused (release p)"
  by (auto simp: dangling_def release_def resource_defs split: option.splits)

lemma dangling_steps:
  "pure_stage f \<Longrightarrow> triple dangling dangling fs dangling \<Longrightarrow> triple dangling dangling (f # fs) dangling"
  "triple dangling dangling fs dangling \<Longrightarrow> triple dangling dangling (on_endpoint open_channel # fs) dangling"
  "triple dangling dangling fs dangling \<Longrightarrow> triple dangling dangling (on_endpoint (open_socket fd) # fs) dangling"
  "triple dangling dangling fs dangling \<Longrightarrow> triple dangling dangling (act (\<lambda>(p, _). (p, ip)) # fs) dangling"
  "triple dangling dangling [] dangling"
  by (rule triple_pure; simp)
    (rule triple_endpoint [where P = dangling and R = dangling], erule dangling_open_channel, assumption,
     rule triple_endpoint [where P = dangling and R = dangling], erule dangling_open_socket, assumption,
     rule triple_act [where R = dangling], simp add: dangling_def split_beta, assumption, rule triple_end)

lemma ssh_dangling: "triple dangling dangling (ssh_stages k c e) dangling"
  unfolding ssh_stages_def Let_def
  by (rule dangling_steps(2,3,5) | rule dangling_steps(1), rule pure_stages)+

lemma tcp_dangling: "triple dangling dangling (tcp_stages m1 m2 m3 ip e) dangling"
  unfolding tcp_stages_def by (rule dangling_steps(2,3,5) | rule dangling_steps(1), rule pure_stages)+

lemma triple_same:
  assumes "triple P P fs P" "P s"
  shows "P (snd (stages fs s))"
  using assms unfolding triple_def by (cases "stages fs s") (metis (mono_tags, lifting) case_prod_conv snd_conv)

lemma retry_dangling:
  assumes "owned p" "channel_ptr p = Some c" "ce_init e"
  shows "dangling (snd (stages (connect_stages k e) (p, h)))"
proof -
  have "triple dangling dangling (tl (tl (connect_stages k e))) dangling"
    unfolding connect_stages_def Let_def append_Cons list.sel
    by (rule dangling_steps(4) | rule dangling_steps(1), rule pure_stages |
        rule triple_append [OF _ triple_append [OF tcp_dangling triple_append [OF ssh_dangling]]] | rule dangling_steps(5))+
  moreover have "stages (connect_stages k e) (p, h) = stages (tl (tl (connect_stages k e))) (init_session p, h)"
    using assms(3) by (simp add: connect_stages_def Let_def stage_eval)
  ultimately show ?thesis
    using triple_same dangling_init [OF assms(1,2), of h] by metis
qed

lemma handler_misuses: "owned p \<Longrightarrow> channel_ptr p \<noteq> None \<Longrightarrow> misused (notification_blocking_handler p)"
  by (auto simp: owned_def notification_blocking_handler_def resource_defs split: option.splits)

text \<open>
  C18. When a set-up fails after its channel was opened, the channel is used after it was freed. The RPC
  side keeps the old handles, for the handler does not reset them and \<open>disconnect_async\<close> refuses a client that
  is not connected: the next \<open>connect\<close> first replaces, and so frees, the old session and with it the channel, whose
  pointer is closed and freed again when a new channel replaces it or the client is destroyed. On the
  notification side the handler of \<open>connect_notification_blocking\<close> frees the session before the channel, so
  already the failure itself does it.
\<close>

theorem late_failure_misuses_channel:
  assumes "owned (rpc_end n)" "channel_ptr (rpc_end n) = None" "\<not> is_connected n" "new_socket (ce_socket e) (rpc_end n)"
    and "connect_non_blocking e n = (Throw ex, n1)" "channel_ptr (rpc_end n1) \<noteq> None" "ce_init e2"
    and "owned (notif_end n)" "channel_ptr (notif_end n) = None" "\<not> notif_is_connected (notif_part n)"
      "new_socket (be_socket b) (notif_end n)"
    and "stages (connect_notification_blocking_stages (config n) b) (notif_end n, resolved_host n) = (Throw ex', p, h)"
      "channel_ptr p \<noteq> None"
  shows "misused (rpc_end (snd (disconnect (m, snd (connect_non_blocking e2 n1))))) \<and>
    misused (notif_end (snd (connect_notification_blocking b n)))"
proof (intro conjI)
  obtain f s where run: "stages (connect_stages (config n) e) (rpc_end n, resolved_host n) = (f, s)" by (metis surj_pair)
  then have n1: "n1 = set_rpc_end s n" and "f \<noteq> Go"
    using assms(3,5) by (auto simp: connect_non_blocking_def Let_def caught_def split: if_splits)
  then have o: "owned (rpc_end n1)" "\<not> is_connected n1"
    using setup_owns(1) [OF assms(1,2,4) run] assms(3) by (simp_all add: set_rpc_end_def)
  obtain c where c: "channel_ptr (rpc_end n1) = Some c" using assms(6) by blast
  obtain f2 s2 where run2: "stages (connect_stages (config n1) e2) (rpc_end n1, resolved_host n1) = (f2, s2)" by (metis surj_pair)
  then have "dangling s2" using retry_dangling [OF o(1) c assms(7), of "config n1" "resolved_host n1"] by simp
  then have "misused (release (fst s2))" using dangling_release [of "fst s2" "snd s2"] by simp
  then show "misused (rpc_end (snd (disconnect (m, snd (connect_non_blocking e2 n1)))))"
    using o(2) run2 by (simp add: disconnect_parts connect_non_blocking_def set_rpc_end_def Let_def)
next
  have "owned p" using setup_owns(4) [OF assms(8,9,11,12)] by simp
  from handler_misuses [OF this assms(13)] show "misused (notif_end (snd (connect_notification_blocking b n)))"
    using assms(10,12) by (simp add: connect_notification_blocking_def set_notif_end_def)
qed

text \<open>A device that refuses the subsystem, without and with blocking; with \<open>None\<close> it serves.\<close>

definition denying :: "int \<Rightarrow> connect_env" where
  "denying fd = (prompt fd)\<lparr>ce_startup := [(0, P_Ready, Rc_Error ''denied'')]\<rparr>"

definition plain_blocking :: "int \<Rightarrow> string option \<Rightarrow> blocking_env" where
  "plain_blocking fd denied = \<lparr>be_init = True, be_elapsed = (\<lambda>_. 0), be_addrinfo = [(AF_INET, ''127.0.0.1'')],
     be_socket = Inr fd, be_setsockopt = None, be_inet_pton = (\<lambda>_. True), be_connect = None, be_handshake = None,
     be_auth = None, be_channel = True, be_startup = denied, be_hello_start = 0,
     be_hello = [\<lparr>br_now = 0, br_read = Got (''<capabilities/>'' @ EOM), br_last = 0\<rparr>], be_write = Inr 1000\<rparr>"

lemma device_sockets [simp]: "ce_socket (denying fd) = Inr fd" "be_socket (plain_blocking fd denied) = Inr fd"
  by (simp_all add: denying_def plain_blocking_def)

lemma denied_connect:
  "stages (connect_stages BASE_CLIENT_KWARGS (denying fd)) (p, h) =
     (Throw (Netconf_Channel_Error ''Failed to request NETCONF subsystem: denied''),
      open_channel (open_socket fd (init_session p)), ''127.0.0.1'')"
  unfolding connect_stages_def tcp_stages_def ssh_stages_def Let_def denying_def
  by (simp add: stage_eval prompt_current_timeout ns_per_s_def)

lemma denied_notification:
  "stages (connect_notification_blocking_stages BASE_CLIENT_KWARGS (plain_blocking fd (Some ''denied''))) (p, h) =
     (Throw (Netconf_Channel_Error ''Failed to request netconf subsystem for notifications: denied''),
      open_channel (open_socket fd (init_session p)), h)"
  unfolding connect_notification_blocking_stages_def Let_def plain_blocking_def
  by (simp add: stage_eval)

lemma basic_parts [simp]:
  "rpc_end basic = no_endpoint" "notif_end basic = no_endpoint" "config basic = BASE_CLIENT_KWARGS" "\<not> is_connected basic"
  "\<not> notif_is_connected (notif_part basic)" "channel_ptr no_endpoint = None" "resolved_host basic = []"
  "socket_fd no_endpoint = -1"
  by (simp_all add: new_client_def initial_notif_def no_endpoint_def)

lemma opened_parts:
  "channel_ptr (open_channel (open_socket 3 (init_session no_endpoint))) = Some 1"
  by (simp add: no_endpoint_def resource_defs)

theorem late_failure_misuses_channel_witness:
  "misused (rpc_end (snd (disconnect (empty_manager,
     snd (connect_non_blocking (prompt 4) (snd (connect_non_blocking (denying 3) basic)))))))"
proof -
  have "connect_non_blocking (denying 3) basic =
      (Throw (Netconf_Connection_Refused ''Unable to connect to device: Failed to request NETCONF subsystem: denied''),
       snd (connect_non_blocking (denying 3) basic))"
    "channel_ptr (rpc_end (snd (connect_non_blocking (denying 3) basic))) \<noteq> None"
    by (simp_all add: connect_non_blocking_def denied_connect set_rpc_end_def opened_parts caught_def)
  from late_failure_misuses_channel [OF _ _ _ _ this, where ?b = "plain_blocking 3 (Some ''denied'')" and ?e2.0 = "prompt 4"
      and m = empty_manager]
  show ?thesis by (simp add: owned_no_endpoint new_socket_def denied_notification opened_parts)
qed

section \<open>The time limit\<close>

lemma time_left:
  "0 < current_timeout c el \<longleftrightarrow> int el \<le> (cf_connect_timeout c - 1) * int ns_per_s"
proof -
  have ns: "0 < int ns_per_s" by (simp add: ns_per_s_def)
  define left where "left = cf_connect_timeout c * int ns_per_s - int el"
  have "0 < left div int ns_per_s \<longleftrightarrow> int ns_per_s \<le> left"
    using ns pos_imp_zdiv_pos_iff by blast
  moreover have "left < 0 \<Longrightarrow> 0 \<le> - left div int ns_per_s" using ns by (simp add: pos_imp_zdiv_nonneg_iff)
  ultimately have "0 < current_timeout c el \<longleftrightarrow> int ns_per_s \<le> left"
    using ns by (auto simp: current_timeout_def Let_def left_def [symmetric])
  then show ?thesis by (simp add: left_def algebra_simps)
qed

lemma clock_stages: "k < 6 \<Longrightarrow> check (current_timeout c (ce_elapsed e k) > 0) (try_increasing c) \<in> set (connect_stages c e)"
proof -
  assume "k < 6"
  then consider "k = 0" | "k = 1" | "k = 2" | "k = 3" | "k = 4" | "k = 5" by linarith
  then show ?thesis unfolding connect_stages_def ssh_stages_def Let_def by cases simp_all
qed

lemma check_passed: "stages fs s = (Go, s') \<Longrightarrow> check b ex \<in> set fs \<Longrightarrow> b"
  using stages_Go [of fs s s' "check b ex"] by (auto simp: check_def split: if_splits)

text \<open>
  C20. The time limit is one second shorter than configured: what is left is cut to whole seconds and must
  be at least one, so a connect that does not block succeeds only when every look at the clock came a
  whole second before the limit. With \<open>connect_timeout = 1\<close>, which the constructor accepts, every attempt fails,
  however fast the server is, as soon as the clock has moved at all.
\<close>

theorem time_limit_is_a_second_short:
  "(fst (connect_non_blocking e n) = Go \<longrightarrow>
     (\<forall>k<6. int (ce_elapsed e k) \<le> (cf_connect_timeout (config n) - 1) * int ns_per_s)) \<and>
   (cf_connect_timeout (config n) = 1 \<and> \<not> is_connected n \<and> ce_init e \<and> 0 < ce_elapsed e 0 \<longrightarrow>
     fst (connect_non_blocking e n) = Throw (Netconf_Connection_Refused (''Unable to connect to device: Connection failed to '' @
       cf_hostname (config n) @ '' try increasing connection timeout'')))"
proof (intro conjI impI allI)
  fix k :: nat assume "fst (connect_non_blocking e n) = Go" "k < 6"
  then have "fst (stages (connect_stages (config n) e) (rpc_end n, resolved_host n)) = Go"
    by (auto simp: connect_non_blocking_def split: if_splits prod.splits)
  then have "stages (connect_stages (config n) e) (rpc_end n, resolved_host n) =
      (Go, snd (stages (connect_stages (config n) e) (rpc_end n, resolved_host n)))" by (metis prod.collapse)
  from check_passed [OF this clock_stages [OF \<open>k < 6\<close>]]
  show "int (ce_elapsed e k) \<le> (cf_connect_timeout (config n) - 1) * int ns_per_s" by (simp add: time_left)
next
  assume *: "cf_connect_timeout (config n) = 1 \<and> \<not> is_connected n \<and> ce_init e \<and> 0 < ce_elapsed e 0"
  then have "\<not> current_timeout (config n) (ce_elapsed e 0) > 0" unfolding time_left by simp
  then have "fst (stages (connect_stages (config n) e) (rpc_end n, resolved_host n)) = Throw (try_increasing (config n))"
    using * by (simp add: connect_stages_def Let_def stage_eval)
  moreover have "fst (connect_non_blocking e n) =
      caught ''Unable to connect to device: '' (fst (stages (connect_stages (config n) e) (rpc_end n, resolved_host n)))"
    using * by (simp add: connect_non_blocking_def split: prod.splits)
  ultimately show "fst (connect_non_blocking e n) = Throw (Netconf_Connection_Refused
      (''Unable to connect to device: Connection failed to '' @ cf_hostname (config n) @ '' try increasing connection timeout''))"
    by (simp add: caught_def try_increasing_def)
qed

theorem time_limit_is_a_second_short_witness:
  "fst (connect_non_blocking (prompt 3) (new_client (BASE_CLIENT_KWARGS\<lparr>cf_connect_timeout := 1\<rparr>))) =
     Throw (Netconf_Connection_Refused (''Unable to connect to device: Connection failed to '' @
       ''127.0.0.1'' @ '' try increasing connection timeout'')) \<and>
   NetconfClient (BASE_CLIENT_KWARGS\<lparr>cf_connect_timeout := 1\<rparr>) = Inr (BASE_CLIENT_KWARGS\<lparr>cf_connect_timeout := 1\<rparr>)"
proof -
  let ?n = "new_client (BASE_CLIENT_KWARGS\<lparr>cf_connect_timeout := 1\<rparr>)"
  have "cf_connect_timeout (config ?n) = 1 \<and> \<not> is_connected ?n \<and> ce_init (prompt 3) \<and> 0 < ce_elapsed (prompt 3) 0"
    "cf_hostname (config ?n) = ''127.0.0.1''"
    by (simp_all add: new_client_def initial_notif_def BASE_CLIENT_KWARGS_def)
  with time_limit_is_a_second_short [of "prompt 3" ?n] show ?thesis
    by (simp add: NetconfClient_def BASE_CLIENT_KWARGS_def)
qed

end
