(* ===== verification/Subscriptions.thy ===== *)
theory Subscriptions
  imports Session_Correct
begin

text \<open>
  Subscribing and unsubscribing: what \<open>subscribe_non_blocking\<close>, \<open>subscribe_blocking\<close> and
  \<open>delete_notification_session\<close> do to the client's handles and to the registration of its socket. The
  manager is used through the laws of \<open>socket_registry\<close>.
\<close>

section \<open>The handles and the queue's view of them\<close>

definition mirrored :: "nc \<Rightarrow> bool" where
  "mirrored n \<longleftrightarrow> (notif_channel (notif_part n) \<longleftrightarrow> channel_ptr (notif_end n) \<noteq> None) \<and>
     (notif_session (notif_part n) \<longleftrightarrow> session_ptr (notif_end n) \<noteq> None) \<and> notif_socket (notif_part n) = socket_fd (notif_end n)"

lemma mirrored_new: "mirrored (new_client c)"
  by (simp add: mirrored_def new_client_def no_endpoint_def initial_notif_def)

lemma release_parts [simp]: "channel_ptr (release p) = None" "session_ptr (release p) = None" "socket_fd (release p) = -1"
  by (simp_all add: release_def resource_defs split: option.splits)

lemma mirrored_mark_dead: "mirrored (mark_dead n)"
  by (simp add: mirrored_def mark_dead_def mark_notification_dead_def Let_def)

lemma mirrored_set: "mirrored (set_notif_end p n)"
  by (simp add: mirrored_def set_notif_end_def)

lemma mirrored_flags [simp]: "mirrored (set_notif_flags a b n) = mirrored n"
  by (simp add: mirrored_def set_notif_flags_def)

lemma set_parts [simp]:
  "notif_end (set_notif_end p n) = p" "notif_end (set_notif_flags a b n) = notif_end n"
  "notif_is_connected (notif_part (set_notif_flags a b n)) = a"
  "notif_is_connected (notif_part (set_notif_end p n)) = notif_is_connected (notif_part n)"
  "notif_socket (notif_part (set_notif_flags a b n)) = notif_socket (notif_part n)"
  by (simp_all add: set_notif_end_def set_notif_flags_def)

text \<open>The set-up of the notification session, without blocking.\<close>

lemma notification_set_up:
  assumes "owned (notif_end n)" "channel_ptr (notif_end n) = None" "\<not> notif_is_connected (notif_part n)"
    and new: "new_socket (ce_socket e) (notif_end n)" and run: "connect_notification_non_blocking e n = (f, n')"
  shows "owned (notif_end n')" "mirrored n'"
    "f = Go \<Longrightarrow> complete (notif_end n') \<and> ce_socket e = Inr (socket_fd (notif_end n'))"
proof -
  obtain g p h where s: "stages (connect_notification_stages (config n) e) (notif_end n, resolved_host n) = (g, p, h)"
    by (metis prod.collapse)
  then have n': "n' = (let n = set_notif_end p (n\<lparr>resolved_host := h\<rparr>) in if g = Go then set_notif_flags False False n else n)"
    and f: "f = caught ''Unable to connect to device: '' g"
    using run assms(3) by (auto simp: connect_notification_non_blocking_def)
  note fresh = new_socket_fresh [OF new assms(1,2)]
  note o = setup_owns(2) [OF assms(1,2) new s]
  show "owned (notif_end n')" "mirrored n'" using o by (simp_all add: n' Let_def mirrored_set)
  assume "f = Go"
  then have go: "g = Go" by (simp add: f)
  then have "has_channel (fd_of (ce_socket e)) (p, h)"
    using setup_result [OF connect_notification_owned, OF conjunct1 [OF fresh] conjunct2 [OF fresh] s] by simp
  moreover have "left_of (ce_socket e) = None" using socket_refused [OF _ socket_stages(2) s] go by blast
  ultimately show "complete (notif_end n') \<and> ce_socket e = Inr (socket_fd (notif_end n'))"
    using o go by (auto simp: n' has_channel_def left_of_def fd_of_def split: sum.splits)
qed

lemma complete_parts: "mirrored n \<Longrightarrow> complete (notif_end n) \<Longrightarrow> missing_part (notif_part n) = None"
  by (auto simp: mirrored_def complete_def missing_part_def)

lemma active_iff:
  "mirrored n \<Longrightarrow> complete (notif_end n) \<Longrightarrow> is_subscription_active ebadf (notif_part n) \<longleftrightarrow>
     notif_is_connected (notif_part n) \<and> \<not> ebadf (socket_fd (notif_end n))"
  by (auto simp: mirrored_def complete_def is_subscription_active_def)

lemma complete_owned: "complete p \<Longrightarrow> owned p \<and> 0 \<le> socket_fd p"
  by (auto simp: complete_def)

section \<open>Subscribing without blocking\<close>

text \<open>What a caller of \<open>subscribe_non_blocking\<close> may rely on.\<close>

definition subscribe_contract :: "client \<Rightarrow> manager \<Rightarrow> (exn + bytes) outcome \<times> manager \<times> nc \<Rightarrow> bool" where
  "subscribe_contract self m r \<longleftrightarrow>
     (case r of (x, m', n') \<Rightarrow> manager_inv m' \<and>
        (case x of
           Blocked \<Rightarrow> client_of m' = client_of m
         | Returns (Inl ex) \<Rightarrow>
             client_of m' = client_of m \<and> all_released (notif_end n') \<and> \<not> is_subscription_active (\<lambda>_. False) (notif_part n') \<and>
             (\<exists>msg. ex = Netconf_Exception (''Unable to Subscribe to device: '' @ msg))
         | Returns (Inr reply) \<Rightarrow>
             complete (notif_end n') \<and> client_of m' = (client_of m)(socket_fd (notif_end n') \<mapsto> self) \<and>
             is_subscription_active (\<lambda>_. False) (notif_part n') \<and> rx_buffer (notif_part n') = [] \<and>
             (case delete_notification_session (m', n') of (m'', n'') \<Rightarrow>
                manager_inv m'' \<and> client_of m'' = client_of m \<and> all_released (notif_end n'') \<and>
                \<not> is_subscription_active (\<lambda>_. False) (notif_part n''))))"

lemma dead_not_active [simp]: "\<not> is_subscription_active ebadf (notif_part (mark_dead n))"
  by (simp add: is_subscription_active_def mark_dead_def mark_notification_dead_def Let_def)

lemma failed_contract:
  "manager_inv m' \<Longrightarrow> client_of m' = client_of m \<Longrightarrow> owned (notif_end n') \<Longrightarrow>
     subscribe_contract self m (subscribe_failed ex (m', n'))"
  by (simp add: subscribe_contract_def subscribe_failed_def mark_dead_released)

lemma add_contract:
  assumes inv: "manager_inv m" and free: "client_of m (socket_fd (notif_end n)) = None"
    and n: "complete (notif_end n)" "mirrored n" "rx_buffer (notif_part n) = []"
    and add: "manager_add alive ep (notif_socket (notif_part n)) (Some self) m = (r, m')"
  shows "subscribe_contract self m (case r of Some ex \<Rightarrow> subscribe_failed ex (m', n)
    | None \<Rightarrow> (Returns (Inr reply), m', set_notif_flags True False n))"
proof -
  have fd: "notif_socket (notif_part n) = socket_fd (notif_end n)" using n(2) by (simp add: mirrored_def)
  have e: "enrol (alive, ep) (socket_fd (notif_end n)) self m = (r, m')" using add by (simp add: enrol_def fd)
  have inv': "manager_inv m'" using registry.add_inv [OF inv free, of "(alive, ep)" self] by (simp add: e)
  have own: "client_of m' = (if r = None then (client_of m)(socket_fd (notif_end n) \<mapsto> self) else client_of m)"
    using registry.add_owner [of "(alive, ep)" "socket_fd (notif_end n)" self m] by (simp add: e)
  have "client_of (manager_remove (socket_fd (notif_end n)) m') = client_of m" "manager_inv (manager_remove (socket_fd (notif_end n)) m')"
    using registry.open_close [OF inv free, of "(alive, ep)" self] by (simp_all add: e)
  then show ?thesis
    using inv' own n complete_owned [OF n(1)] failed_contract [of m' m n self] mark_dead_released
    by (cases r) (auto simp: subscribe_contract_def active_iff [OF _ n(1)] fd delete_notification_session_def Let_def
        active_iff [of "set_notif_flags True False n"] set_notif_flags_def [of _ _ n, THEN arg_cong, of "\<lambda>n. rx_buffer (notif_part n)"])
qed

lemma subscribe_all_or_nothing:
  assumes inv: "manager_inv m" and old: "owned (notif_end n)" "channel_ptr (notif_end n) = None"
    and "\<not> notif_is_connected (notif_part n)" and new: "new_socket (ce_socket (se_connect e)) (notif_end n)"
    and free: "\<And>fd. ce_socket (se_connect e) = Inr fd \<Longrightarrow> client_of m fd = None"
  shows "subscribe_contract self m (subscribe_non_blocking stream filter_text self e (m, n))"
proof -
  obtain f n1 where c: "connect_notification_non_blocking (se_connect e) n = (f, n1)" by (metis prod.collapse)
  note up = notification_set_up [OF old assms(4) new c]
  show ?thesis
  proof (cases f)
    case Go
    have n1: "complete (notif_end n1)" "client_of m (socket_fd (notif_end n1)) = None" using up(3) Go free by auto
    obtain x where rpc: "snd (subscription_rpc e n1 (create_subscription_rpc stream filter_text)) = x" by blast
    let ?n = "n1\<lparr>notif_part := (notif_part n1)\<lparr>rx_buffer := [], rx_timer_active := False\<rparr>\<rparr>"
    have "complete (notif_end ?n)" "mirrored ?n" "rx_buffer (notif_part ?n) = []" "client_of m (socket_fd (notif_end ?n)) = None"
      using n1 up(2) by (simp_all add: mirrored_def)
    note reg = add_contract [OF inv this(4,1-3)]
    obtain r m' where add: "manager_add (se_alive e) (se_epoll e) (notif_socket (notif_part ?n)) (Some self) m = (r, m')"
      by (metis prod.collapse)
    show ?thesis
      using reg [OF add] failed_contract [OF inv refl, of n1] up(1) inv c Go add
      by (cases r) (auto simp: subscribe_non_blocking_def Let_def complete_parts [OF up(2) n1(1)] rpc
          subscribe_contract_def [of _ _ "(Blocked, _)"] split: outcome.splits sum.splits)
  next
    case (Throw ex)
    then show ?thesis using c failed_contract [OF inv refl up(1)] by (simp add: subscribe_non_blocking_def)
  next
    case Block
    then show ?thesis using c inv by (simp add: subscribe_non_blocking_def subscribe_contract_def)
  qed
qed

text \<open>
  C7. A subscription is all or nothing. When \<open>subscribe_non_blocking\<close> returns, the client owns a complete
  notification session, is subscribed with an empty receive buffer, and its socket is registered with the
  manager under this client; deleting the subscription then closes everything and leaves the manager's registrations as
  they were before. When it throws, it throws a \<open>NetconfException\<close>, everything it had opened is closed, the
  client is not subscribed, and no registration changed. The correspondence between manager and reactors is kept.
\<close>

theorem subscription_is_all_or_nothing:
  assumes inv: "manager_inv m" and old: "owned (notif_end n)" "channel_ptr (notif_end n) = None"
    and "\<not> notif_is_connected (notif_part n)" and new: "new_socket (ce_socket (se_connect e)) (notif_end n)"
    and free: "\<And>fd. ce_socket (se_connect e) = Inr fd \<Longrightarrow> client_of m fd = None"
  shows "subscribe_contract self m (subscribe_non_blocking stream filter_text self e (m, n))"
  using assms by (rule subscribe_all_or_nothing)

text \<open>The notification session of the device that answers at once, and its answer to the subscription.\<close>

lemma prompt_notification:
  "stages (connect_notification_stages BASE_CLIENT_KWARGS (prompt fd)) (p, h) =
     (Go, open_channel (open_socket fd (init_session p)), ''127.0.0.1'')"
  unfolding connect_notification_stages_def tcp_stages_def ssh_stages_def Let_def
  by (simp add: prompt_hello stage_eval prompt_current_timeout ns_per_s_def)

definition subscribing :: "int \<Rightarrow> sub_env" where
  "subscribing fd = \<lparr>se_connect = prompt fd, se_writes = [Wrote 1000], se_start = 0,
     se_reply = [\<lparr>rr_now = 0, rr_read = Got (''<ok/>'' @ EOM), rr_waits = [], rr_first = 0, rr_last = 0\<rparr>],
     se_check = (\<lambda>_. None), se_alive = (\<lambda>_. True), se_epoll = None\<rparr>"

lemma subscribing_simps [simp]: "se_connect (subscribing fd) = prompt fd"
  by (simp add: subscribing_def)

theorem subscription_is_all_or_nothing_witness:
  "subscribe_contract 0 empty_manager (subscribe_non_blocking ''NETCONF'' [] 0 (subscribing 3) (empty_manager, basic))"
  by (rule subscription_is_all_or_nothing)
    (simp_all add: owned_no_endpoint new_socket_def manager_inv_empty client_of_def, simp add: empty_manager_def)

section \<open>Subscribing twice\<close>

text \<open>
  C19. A second \<open>subscribe_non_blocking\<close> on a subscribed client destroys the first. The set-up refuses it, but
  the handler then closes the live notification session and drops the notifications that were waiting; the
  socket that was closed stays registered with the manager and its reactor for this client, and no later
  \<open>delete_subscription\<close> or \<open>disconnect\<close> takes it out, for the client does not know its number any more.
\<close>

theorem second_subscribe_kills_first:
  assumes "mirrored n" "complete (notif_end n)" "notif_is_connected (notif_part n)"
    and "client_of m (socket_fd (notif_end n)) = Some self"
    and "subscribe_non_blocking stream filter_text self e (m, n) = (r, m', n')"
  shows "r = Returns (Inl (Netconf_Exception
      ''Unable to Subscribe to device: Session already exists, possible double connection attempt'')) \<and>
    all_released (notif_end n') \<and> notif_queue (notif_part n') = [] \<and> \<not> notif_is_connected (notif_part n') \<and>
    client_of m' (socket_fd (notif_end n)) = Some self \<and>
    client_of (fst (delete_notification_session (m', n'))) (socket_fd (notif_end n)) = Some self \<and>
    client_of (fst (disconnect (m', n'))) (socket_fd (notif_end n)) = Some self"
proof -
  have "r = Returns (Inl (Netconf_Exception
      ''Unable to Subscribe to device: Session already exists, possible double connection attempt''))" "m' = m" "n' = mark_dead n"
    using assms(3,5)
    by (simp_all add: subscribe_non_blocking_def connect_notification_non_blocking_def subscribe_failed_def double_connection_def)
  moreover have "all_released (notif_end (mark_dead n))" using mark_dead_released complete_owned assms(2) by blast
  ultimately show ?thesis
    using assms(4)
    by (simp add: mark_dead_def mark_notification_dead_def delete_notification_session_def disconnect_def Let_def)
qed

text \<open>A client that is subscribed on socket 3, and the manager that knows it.\<close>

definition live :: nc where
  "live = set_notif_flags True False (set_notif_end (open_channel (open_socket 3 (init_session no_endpoint))) basic)"

definition live_manager :: manager where
  "live_manager = snd (enrol (\<lambda>_. True, None) 3 0 empty_manager)"

lemma opened_complete: "0 \<le> fd \<Longrightarrow> complete (open_channel (open_socket fd (init_session no_endpoint)))"
  by (auto simp: complete_def owned_def no_endpoint_def resource_defs)

lemma opened_socket [simp]: "socket_fd (open_channel (open_socket fd (init_session no_endpoint))) = fd"
  by (simp add: no_endpoint_def resource_defs)

lemma live_parts: "mirrored live" "complete (notif_end live)" "notif_is_connected (notif_part live)" "socket_fd (notif_end live) = 3"
  by (simp_all add: live_def mirrored_set opened_complete)

lemma live_registered: "client_of live_manager 3 = Some 0"
  by (simp add: live_manager_def enrol_def manager_add_def register_def reactor_add_def empty_manager_def client_of_def)

theorem second_subscribe_kills_first_witness:
  "client_of (fst (snd (subscribe_non_blocking ''NETCONF'' [] 0 (subscribing 4) (live_manager, live)))) 3 = Some 0 \<and>
   all_released (notif_end (snd (snd (subscribe_non_blocking ''NETCONF'' [] 0 (subscribing 4) (live_manager, live)))))"
  using second_subscribe_kills_first [OF live_parts(1-3), of live_manager 0 "''NETCONF''" "[]" "subscribing 4"]
  by (simp add: live_registered live_parts(4)) (metis live_parts(4) prod.collapse)

section \<open>Subscribing and blocking\<close>

text \<open>
  A blocking subscription that the server refuses stays. \<open>connect_notification_blocking\<close> marks the client as
  subscribed before the request for the subscription is sent, and \<open>subscribe_blocking\<close> has no handler: when the request
  fails, the exception reaches the caller while \<open>is_subscription_active\<close> is true, and trying again throws
  because a session exists.
\<close>

theorem refused_blocking_subscription_stays:
  assumes old: "owned (notif_end n)" "channel_ptr (notif_end n) = None" "\<not> notif_is_connected (notif_part n)"
    and new: "new_socket (be_socket (bse_connect e)) (notif_end n)"
    and up: "connect_notification_blocking (bse_connect e) n = (Go, n1)"
    and refused: "snd (send_rpc_blocking_func (bse_check e) True (cf_read_timeout (config n1))
      (create_subscription_rpc stream filter_text) (bse_write e) (bse_start e) (bse_reply e)) = Returns (Inl ex)"
  shows "subscribe_blocking stream filter_text e n = (Returns (Inl ex), n1) \<and>
    is_subscription_active (\<lambda>_. False) (notif_part n1) \<and>
    subscribe_blocking stream filter_text e' n1 = (Returns (Inl (Netconf_Exception ''Notification session already exists'')), n1)"
proof -
  obtain g p h where s: "stages (connect_notification_blocking_stages (config n) (bse_connect e)) (notif_end n, resolved_host n) = (g, p, h)"
    by (metis prod.collapse)
  then have n1: "n1 = set_notif_flags True True (set_notif_end p n)" "g = Go"
    using up old(3) by (auto simp: connect_notification_blocking_def split: flow.splits)
  then have c: "complete (notif_end n1)" and m: "mirrored n1" and con: "notif_is_connected (notif_part n1)"
    using setup_owns(4) [OF old(1,2) new s] by (simp_all add: mirrored_set)
  then have "notif_channel (notif_part n1)" "notif_session (notif_part n1)" by (auto simp: mirrored_def complete_def)
  then have "subscribe_blocking stream filter_text e n = (Returns (Inl ex), n1)"
    by (simp add: subscribe_blocking_def up refused)
  moreover have "is_subscription_active (\<lambda>_. False) (notif_part n1)" using active_iff [OF m c] con by simp
  moreover have "subscribe_blocking stream filter_text e' n1 = (Returns (Inl (Netconf_Exception ''Notification session already exists'')), n1)"
    by (simp add: subscribe_blocking_def connect_notification_blocking_def con)
  ultimately show ?thesis by blast
qed

definition refusing :: blocking_sub_env where
  "refusing = \<lparr>bse_connect = plain_blocking 3 None, bse_write = Inl ''socket error'', bse_start = 0, bse_reply = [],
     bse_check = (\<lambda>_. None)\<rparr>"

lemma plain_blocking_simps [simp]:
  "be_init (plain_blocking fd d)" "be_addrinfo (plain_blocking fd d) = [(AF_INET, ''127.0.0.1'')]"
  "be_inet_pton (plain_blocking fd d) ip" "be_connect (plain_blocking fd d) = None"
  "be_handshake (plain_blocking fd d) = None" "be_auth (plain_blocking fd d) = None" "be_channel (plain_blocking fd d)"
  "be_startup (plain_blocking fd d) = d" "be_hello_start (plain_blocking fd d) = 0" "be_write (plain_blocking fd d) = Inr 1000"
  by (simp_all add: plain_blocking_def)

lemma plain_blocking_connects:
  "stages (connect_notification_blocking_stages BASE_CLIENT_KWARGS (plain_blocking fd None)) (p, h) =
     (Go, open_channel (open_socket fd (init_session p)), h)"
proof -
  have "read_until_eom_blocking True 5 0 (be_hello (plain_blocking fd None)) = Returns (Inr (''<capabilities/>'' @ EOM))"
    by (simp add: plain_blocking_def read_until_eom_blocking_def bl_step_def bl_window_def EOM_def ns_per_s_def Let_def)
  moreover have "snd (send_client_hello_blocking (Inr 1000)) = Inr ()"
    by (simp add: send_client_hello_blocking_def write_once_def)
  ultimately have hello: "hello_blocking bad BASE_CLIENT_KWARGS (plain_blocking fd None) s = (Go, s)" for bad s
    by (simp add: hello_blocking_def EOM_def)
  show ?thesis
    unfolding connect_notification_blocking_stages_def Let_def
    by (simp add: hello stage_eval)
qed

theorem refused_blocking_subscription_stays_witness:
  "\<exists>n1 ex. subscribe_blocking ''NETCONF'' [] refusing basic = (Returns (Inl ex), n1) \<and>
     is_subscription_active (\<lambda>_. False) (notif_part n1)"
proof -
  let ?n = "set_notif_flags True True (set_notif_end (open_channel (open_socket 3 (init_session no_endpoint))) basic)"
  have up: "connect_notification_blocking (bse_connect refusing) basic = (Go, ?n)"
    by (simp add: refusing_def connect_notification_blocking_def plain_blocking_connects)
  have no: "\<exists>ex. snd (send_rpc_blocking_func (bse_check refusing) True (cf_read_timeout (config ?n))
      (create_subscription_rpc ''NETCONF'' []) (bse_write refusing) (bse_start refusing) (bse_reply refusing)) = Returns (Inl ex)"
    by (simp add: refusing_def send_rpc_blocking_func_def write_once_def)
  then obtain ex where "snd (send_rpc_blocking_func (bse_check refusing) True (cf_read_timeout (config ?n))
      (create_subscription_rpc ''NETCONF'' []) (bse_write refusing) (bse_start refusing) (bse_reply refusing)) = Returns (Inl ex)" ..
  from refused_blocking_subscription_stays [OF _ _ _ _ up this] show ?thesis
    by (simp add: owned_no_endpoint new_socket_def refusing_def)
qed

end
