(* ===== verification/Api_Gate.thy ===== *)
theory Api_Gate
  imports Subscriptions
begin

text \<open>
  The public methods (\<open>src/netconf_client_sync.cpp\<close>, \<open>src/netconf_client_async.cpp\<close>): a task on the pool that
  tests whether the client is connected and in which mode, then takes \<open>session_mutex_\<close> and runs the operation.
  The test comes before the mutex, so it sees an earlier state (\<open>n0\<close>) than the operation (\<open>n\<close>).
\<close>

section \<open>The test\<close>

datatype api = Sync_Api | Async_Api

definition gate :: "api \<Rightarrow> nc \<Rightarrow> exn option" where
  "gate a n =
     (case a of
        Sync_Api \<Rightarrow>
          if \<not> is_connected n then Some (Netconf_Exception ''Client should be connected first'')
          else if \<not> is_blocking n
          then Some (Netconf_Exception ''Client is connected asynchronously, call asynchronous methods'')
          else None
      | Async_Api \<Rightarrow>
          if \<not> is_connected n then Some (Netconf_Exception ''Client already not connected'')
          else if is_blocking n
          then Some (Netconf_Exception ''Client is connected synchronously, call synchronous methods'')
          else None)"

section \<open>The methods\<close>

text \<open>\<open>disconnect_sync\<close> and \<open>disconnect_async\<close>.\<close>

definition disconnect_call :: "api \<Rightarrow> nc \<Rightarrow> manager \<times> nc \<Rightarrow> exn option \<times> manager \<times> nc" where
  "disconnect_call a n0 s = (case gate a n0 of Some ex \<Rightarrow> (Some ex, s) | None \<Rightarrow> (None, disconnect s))"

text \<open>\<open>send_rpc_async\<close>, and every method that sends one RPC of its own; likewise \<open>send_rpc_sync\<close>. Both give what
  was sent and the answer.\<close>

definition send_rpc_async ::
  "(bytes \<Rightarrow> exn option) \<Rightarrow> bytes \<Rightarrow> chan_write list \<Rightarrow> nat \<Rightarrow> read_round list \<Rightarrow> nc \<Rightarrow> nc \<Rightarrow> bytes \<times> (exn + bytes) outcome" where
  "send_rpc_async chk rpc ws now es n0 n =
     (case gate Async_Api n0 of
        Some ex \<Rightarrow> ([], Returns (Inl ex))
      | None \<Rightarrow> send_rpc_non_blocking_func chk
          \<lparr>rd_chan = channel_ptr (rpc_end n) \<noteq> None, rd_sess = session_ptr (rpc_end n) \<noteq> None, rd_fd = socket_fd (rpc_end n),
           rd_timeout = cf_read_timeout (config n), rd_max_kb = -1, rd_incomplete_timeout = -1\<rparr> rpc ws now es)"

definition send_rpc_sync ::
  "(bytes \<Rightarrow> exn option) \<Rightarrow> bytes \<Rightarrow> string + nat \<Rightarrow> nat \<Rightarrow> bl_round list \<Rightarrow> nc \<Rightarrow> nc \<Rightarrow> bytes \<times> (exn + bytes) outcome" where
  "send_rpc_sync chk rpc w now es n0 n =
     (case gate Sync_Api n0 of
        Some ex \<Rightarrow> ([], Returns (Inl ex))
      | None \<Rightarrow> send_rpc_blocking_func chk (channel_ptr (rpc_end n) \<noteq> None) (cf_read_timeout (config n)) rpc w now es)"

section \<open>Modes\<close>

definition other_mode :: "api \<Rightarrow> exn" where
  "other_mode a = Netconf_Exception (case a of
     Sync_Api \<Rightarrow> ''Client is connected asynchronously, call asynchronous methods''
   | Async_Api \<Rightarrow> ''Client is connected synchronously, call synchronous methods'')"

definition not_connected :: "api \<Rightarrow> exn" where
  "not_connected a = Netconf_Exception (case a of
     Sync_Api \<Rightarrow> ''Client should be connected first'' | Async_Api \<Rightarrow> ''Client already not connected'')"

definition opposite :: "api \<Rightarrow> api" where
  "opposite a = (case a of Sync_Api \<Rightarrow> Async_Api | Async_Api \<Rightarrow> Sync_Api)"

lemma gate_cases:
  "gate a n = (if \<not> is_connected n then Some (not_connected a)
     else if is_blocking n = (a = Async_Api) then Some (other_mode a) else None)"
  by (cases a) (simp_all add: gate_def not_connected_def other_mode_def)

text \<open>The mode a connect leaves, for the methods: \<open>a\<close> is the API it belongs to.\<close>

definition mode_contract :: "api \<Rightarrow> flow \<times> nc \<Rightarrow> bool" where
  "mode_contract a r \<longleftrightarrow>
     (case r of (f, n) \<Rightarrow>
        (f = Go \<longrightarrow> gate a n = None \<and> gate (opposite a) n = Some (other_mode (opposite a)) \<and>
           (\<forall>m. gate a (snd (disconnect (m, n))) = Some (not_connected a) \<and>
              gate (opposite a) (snd (disconnect (m, n))) = Some (not_connected (opposite a)))) \<and>
        (f \<noteq> Go \<longrightarrow> (\<forall>b s. disconnect_call b n s = (Some (not_connected b), s))))"

lemma connect_modes:
  assumes "\<not> is_connected n"
  shows "mode_contract Async_Api (connect_non_blocking e n)" "mode_contract Sync_Api (connect_blocking b n)"
  using assms disconnect_parts(3)
  by (auto simp: mode_contract_def connect_non_blocking_def connect_blocking_def set_rpc_end_def disconnect_call_def
      gate_cases opposite_def Let_def split: prod.splits)

text \<open>
  The mode decides which methods work. After a connect of one API its methods are let through and
  those of the other are refused with the message that names the mode, and after \<open>disconnect\<close> both are refused.
  After a connect that failed, \<open>disconnect_sync\<close> and \<open>disconnect_async\<close> are refused and change nothing, whatever the
  attempt has left open. The test is not part of the operation: an RPC that passed it before another task
  disconnected the client sends nothing and fails with the error of a missing channel.
\<close>

theorem mode_decides_methods:
  assumes "\<not> is_connected n" "gate Async_Api n0 = None" "gate Sync_Api n0' = None"
  shows "mode_contract Async_Api (connect_non_blocking e n) \<and> mode_contract Sync_Api (connect_blocking b n) \<and>
    send_rpc_async chk rpc ws now es n0 (snd (disconnect (m, n0))) =
      ([], Returns (Inl (Netconf_Exception ''Error occured while sending RPC: Channel not open.''))) \<and>
    send_rpc_sync chk rpc w now es' n0' (snd (disconnect (m, n0'))) =
      ([], Returns (Inl (Netconf_Exception ''Error occured while sending RPC: Channel not open.'')))"
  using connect_modes [OF assms(1)] assms(2,3)
  by (simp add: send_rpc_async_def send_rpc_sync_def disconnect_parts send_rpc_non_blocking_func_def send_rpc_blocking_func_def)

theorem mode_decides_methods_witness:
  "send_rpc_async (\<lambda>_. None) commit_rpc [Wrote 1] 0 [] (basic\<lparr>is_connected := True\<rparr>)
     (snd (disconnect (empty_manager, basic\<lparr>is_connected := True\<rparr>))) =
     ([], Returns (Inl (Netconf_Exception ''Error occured while sending RPC: Channel not open.'')))"
  using mode_decides_methods [of basic "basic\<lparr>is_connected := True\<rparr>" "basic\<lparr>is_connected := True, is_blocking := True\<rparr>"
      "prompt 3" "plain_blocking 3 None" "\<lambda>_. None" commit_rpc "[Wrote 1]" 0 "[]" empty_manager]
  by (simp add: gate_cases new_client_def)

end
