(* ===== verification/Async_Bridge.thy ===== *)
theory Async_Bridge
  imports Errors
begin

text \<open>
  How the result of an operation on the thread pool becomes the result of an asyncio future:
  \<open>AsyncFutureDispatcher\<close> and \<open>wrap_future\<close> of \<open>src/bindings.cpp\<close>. Four parties act in any order: the
  pool fulfils promises, the dispatcher's thread polls them, the event loop runs the callbacks it was given,
  and the application cancels futures or closes the loop. An operation may be finished before it is wrapped. An operation is its number; \<open>'v\<close> are the values
  operations return.
\<close>

section \<open>State\<close>

text \<open>An asyncio future.\<close>

datatype 'v py_future = Pending | Result 'v | Raised "py_class \<times> string" | Cancelled

text \<open>\<open>pending\<close> is the list behind the mutex; \<open>batch\<close> and \<open>still_pending\<close> are the thread's. \<open>callbacks\<close> are the
  calls handed to \<open>call_soon_threadsafe\<close>; a closed loop takes none.\<close>

record 'v bridge =
  promises :: "nat \<Rightarrow> (exn + 'v) option"
  futures :: "nat \<Rightarrow> 'v py_future"
  submitted :: "nat list"
  pending :: "nat list"
  batch :: "nat list"
  still_pending :: "nat list"
  callbacks :: "(nat \<times> (exn + 'v)) list"
  loop_closed :: bool

definition no_bridge :: "'v bridge" where
  "no_bridge = \<lparr>promises = (\<lambda>_. None), futures = (\<lambda>_. Pending), submitted = [], pending = [], batch = [],
     still_pending = [], callbacks = [], loop_closed = False\<rparr>"

section \<open>Operations\<close>

text \<open>\<open>wrap_future\<close> in a thread with a running loop: a new future, and a poller for it.\<close>

definition wrap_future :: "nat \<Rightarrow> 'v bridge \<Rightarrow> 'v bridge" where
  "wrap_future i s = s\<lparr>submitted := submitted s @ [i], futures := (futures s)(i := Pending), pending := pending s @ [i]\<rparr>"

text \<open>The poller: whether it is done, and what it does.\<close>

definition poller :: "nat \<Rightarrow> 'v bridge \<Rightarrow> bool \<times> 'v bridge" where
  "poller i s =
     (case promises s i of
        None \<Rightarrow> (False, s)
      | Some r \<Rightarrow>
          if futures s i \<noteq> Pending then (True, s)
          else (True, if loop_closed s then s else s\<lparr>callbacks := callbacks s @ [(i, r)]\<rparr>))"

text \<open>The steps of \<open>run\<close>: taking the batch, one poller of it, and putting the pollers back that are not done.\<close>

definition take_batch :: "'v bridge \<Rightarrow> 'v bridge" where
  "take_batch s = s\<lparr>batch := pending s, pending := []\<rparr>"

definition poll_next :: "'v bridge \<Rightarrow> 'v bridge" where
  "poll_next s =
     (case batch s of
        [] \<Rightarrow> s
      | i # rest \<Rightarrow>
          (case poller i (s\<lparr>batch := rest\<rparr>) of
             (True, s) \<Rightarrow> s
           | (False, s) \<Rightarrow> s\<lparr>still_pending := still_pending s @ [i]\<rparr>))"

definition put_back :: "'v bridge \<Rightarrow> 'v bridge" where
  "put_back s = s\<lparr>pending := pending s @ still_pending s, still_pending := []\<rparr>"

text \<open>A callback on the loop's thread.\<close>

definition outcome_of :: "exn + 'v \<Rightarrow> 'v py_future" where
  "outcome_of r = (case r of Inl e \<Rightarrow> Raised (python_exception_from_cpp_exception e) | Inr v \<Rightarrow> Result v)"

definition run_callback :: "'v bridge \<Rightarrow> 'v bridge" where
  "run_callback s =
     (case callbacks s of
        [] \<Rightarrow> s
      | (i, r) # cs \<Rightarrow>
          let s = s\<lparr>callbacks := cs\<rparr>
          in if futures s i = Pending then s\<lparr>futures := (futures s)(i := outcome_of r)\<rparr> else s)"

section \<open>Interleavings\<close>

inductive bridge_step :: "'v bridge \<Rightarrow> 'v bridge \<Rightarrow> bool" where
  submit: "i \<notin> set (submitted s) \<Longrightarrow> bridge_step s (wrap_future i s)"
| fulfil: "promises s i = None \<Longrightarrow> bridge_step s (s\<lparr>promises := (promises s)(i \<mapsto> r)\<rparr>)"
| wake: "batch s = [] \<Longrightarrow> still_pending s = [] \<Longrightarrow> bridge_step s (take_batch s)"
| poll: "batch s \<noteq> [] \<Longrightarrow> bridge_step s (poll_next s)"
| again: "batch s = [] \<Longrightarrow> bridge_step s (put_back s)"
| callback: "\<not> loop_closed s \<Longrightarrow> bridge_step s (run_callback s)"
| cancel: "futures s i = Pending \<Longrightarrow> i \<in> set (submitted s) \<Longrightarrow> bridge_step s (s\<lparr>futures := (futures s)(i := Cancelled)\<rparr>)"
| close: "bridge_step s (s\<lparr>loop_closed := True\<rparr>)"

inductive bridge_run :: "'v bridge \<Rightarrow> 'v bridge \<Rightarrow> bool" where
  start: "bridge_run s s"
| step: "bridge_run s t \<Longrightarrow> bridge_step t u \<Longrightarrow> bridge_run s u"

text \<open>Where an operation is on its way.\<close>

definition on_the_way :: "'v bridge \<Rightarrow> nat list" where
  "on_the_way s = pending s @ batch s @ still_pending s @ map fst (callbacks s)"

definition bridge_inv :: "'v bridge \<Rightarrow> bool" where
  "bridge_inv s \<longleftrightarrow> distinct (on_the_way s) \<and> set (on_the_way s) \<subseteq> set (submitted s) \<and>
     (\<forall>i r. (i, r) \<in> set (callbacks s) \<longrightarrow> promises s i = Some r) \<and>
     (\<forall>i\<in>set (submitted s). futures s i = Pending \<and> \<not> loop_closed s \<longrightarrow> i \<in> set (on_the_way s)) \<and>
     (\<forall>i\<in>set (submitted s). futures s i = Pending \<or> futures s i = Cancelled \<or>
        (\<exists>r. promises s i = Some r \<and> futures s i = outcome_of r))"

lemma bridge_inv_start: "bridge_inv no_bridge"
  by (simp add: bridge_inv_def no_bridge_def on_the_way_def)

lemma outcome_cases: "outcome_of r \<noteq> Pending" "outcome_of r \<noteq> Cancelled"
  by (simp_all add: outcome_of_def split: sum.splits)

lemma bridge_inv_step: "bridge_step s t \<Longrightarrow> bridge_inv s \<Longrightarrow> bridge_inv t"
proof (induction rule: bridge_step.induct)
  case (submit i s)
  then show ?case by (auto simp: bridge_inv_def on_the_way_def wrap_future_def)
next
  case (fulfil i s r)
  then show ?case by (fastforce simp: bridge_inv_def on_the_way_def split: py_future.splits)
next
  case (wake s)
  then show ?case by (auto simp: bridge_inv_def on_the_way_def take_batch_def)
next
  case (poll s)
  then obtain i rest where b: "batch s = i # rest" by (cases "batch s") auto
  with poll show ?case
    by (auto simp: bridge_inv_def on_the_way_def poll_next_def poller_def split: option.splits)
next
  case (again s)
  then show ?case by (auto simp: bridge_inv_def on_the_way_def put_back_def)
next
  case (callback s)
  show ?case
  proof (cases "callbacks s")
    case Nil
    with callback show ?thesis by (simp add: run_callback_def)
  next
    case (Cons c cs)
    obtain i r where "c = (i, r)" by (cases c)
    with callback Cons have r: "promises s i = Some r" and run: "run_callback s = (if futures s i = Pending
        then s\<lparr>callbacks := cs, futures := (futures s)(i := outcome_of r)\<rparr> else s\<lparr>callbacks := cs\<rparr>)"
      by (auto simp: bridge_inv_def run_callback_def Let_def)
    have i: "on_the_way s = pending s @ batch s @ still_pending s @ i # map fst cs" using Cons \<open>c = (i, r)\<close> by (simp add: on_the_way_def)
    have "bridge_inv (s\<lparr>callbacks := cs, futures := (futures s)(i := outcome_of r)\<rparr>)"
      using callback(2) r outcome_cases unfolding bridge_inv_def i by (auto simp: on_the_way_def Cons)
    moreover have "futures s i \<noteq> Pending \<Longrightarrow> bridge_inv (s\<lparr>callbacks := cs\<rparr>)"
      using callback(2) r unfolding bridge_inv_def i by (auto simp: on_the_way_def Cons)
    ultimately show ?thesis by (simp add: run)
  qed
next
  case (cancel s i)
  then show ?case by (auto simp: bridge_inv_def on_the_way_def)
next
  case (close s)
  then show ?case by (auto simp: bridge_inv_def on_the_way_def)
qed

lemma bridge_run_inv: "bridge_run s t \<Longrightarrow> bridge_inv s \<Longrightarrow> bridge_inv t"
  by (induction rule: bridge_run.induct) (auto dest: bridge_inv_step)

lemma answered_step:
  "bridge_step s t \<Longrightarrow> i \<in> set (submitted s) \<Longrightarrow> futures s i \<noteq> Pending \<Longrightarrow> i \<in> set (submitted t) \<and> futures t i = futures s i"
  by (induction rule: bridge_step.induct)
    (auto simp: wrap_future_def take_batch_def put_back_def poll_next_def poller_def run_callback_def Let_def
      split: list.splits option.splits)

lemma answered_run:
  "bridge_run s t \<Longrightarrow> i \<in> set (submitted s) \<Longrightarrow> futures s i \<noteq> Pending \<Longrightarrow> i \<in> set (submitted t) \<and> futures t i = futures s i"
  by (induction rule: bridge_run.induct) (auto dest: answered_step)

lemma outcome_iff:
  "outcome_of r = Result v \<longleftrightarrow> r = Inr v" "outcome_of r = Raised x \<longleftrightarrow> (\<exists>e. r = Inl e \<and> x = (py_of e, what e))"
  "Result v = outcome_of r \<longleftrightarrow> r = Inr v" "Raised x = outcome_of r \<longleftrightarrow> (\<exists>e. r = Inl e \<and> x = (py_of e, what e))"
  by (cases r; auto simp: outcome_of_def async_translate_exact)+

lemma count_distinct: "distinct xs \<Longrightarrow> x \<in> set xs \<Longrightarrow> count_list xs x = 1"
  by (induction xs) auto

text \<open>
  Every awaitable gets the answer of its own operation, once. However the pool, the dispatcher, the event
  loop and the application interleave: an awaitable that has a value or an exception has the value its
  operation returned, or the exception it threw in its Python class; an answer never changes; and while the
  loop is open an awaitable that is not answered and not cancelled is on its way in exactly one place, with
  the dispatcher or with the loop, so none is forgotten and none is answered twice.
\<close>

theorem awaitables_are_answered_once:
  assumes run: "bridge_run no_bridge s" and i: "i \<in> set (submitted s)"
  shows "(\<forall>v. futures s i = Result v \<longrightarrow> promises s i = Some (Inr v)) \<and>
    (\<forall>x. futures s i = Raised x \<longrightarrow> (\<exists>e. promises s i = Some (Inl e) \<and> x = (py_of e, what e))) \<and>
    (futures s i = Pending \<and> \<not> loop_closed s \<longrightarrow> count_list (on_the_way s) i = 1) \<and>
    (\<forall>t. bridge_run s t \<and> futures s i \<noteq> Pending \<longrightarrow> futures t i = futures s i)"
proof -
  have inv: "bridge_inv s" using bridge_run_inv [OF run bridge_inv_start] .
  have "futures s i = Pending \<or> futures s i = Cancelled \<or> (\<exists>r. promises s i = Some r \<and> futures s i = outcome_of r)"
    using inv i by (simp add: bridge_inv_def)
  moreover have "futures s i = Pending \<and> \<not> loop_closed s \<longrightarrow> count_list (on_the_way s) i = 1"
    using inv i count_distinct [of "on_the_way s" i] unfolding bridge_inv_def by blast
  ultimately show ?thesis
    using answered_run [OF _ i] by (cases "futures s i") (auto simp: outcome_iff)
qed

section \<open>Delivery\<close>

text \<open>One round: the dispatcher goes through its list, then the loop runs the callbacks it was given.\<close>

definition pass :: "'v bridge \<Rightarrow> 'v bridge" where
  "pass s = put_back ((poll_next ^^ length (pending s)) (take_batch s))"

definition drain :: "'v bridge \<Rightarrow> 'v bridge" where
  "drain s = (run_callback ^^ length (callbacks s)) s"

lemma polls:
  "(poll_next ^^ length b) (s\<lparr>batch := b\<rparr>) = s\<lparr>batch := [],
     still_pending := still_pending s @ filter (\<lambda>i. promises s i = None) b,
     callbacks := callbacks s @ (if loop_closed s then [] else
       map (\<lambda>i. (i, the (promises s i))) (filter (\<lambda>i. promises s i \<noteq> None \<and> futures s i = Pending) b))\<rparr>"
proof (induction b arbitrary: s)
  case (Cons i b)
  have *: "(poll_next ^^ length (i # b)) t = (poll_next ^^ length b) (poll_next t)" for t :: "'v bridge"
    by (simp add: funpow_swap1)
  let ?s = "case promises s i of None \<Rightarrow> s\<lparr>still_pending := still_pending s @ [i]\<rparr>
    | Some r \<Rightarrow> if futures s i = Pending \<and> \<not> loop_closed s then s\<lparr>callbacks := callbacks s @ [(i, r)]\<rparr> else s"
  have "poll_next (s\<lparr>batch := i # b\<rparr>) = ?s\<lparr>batch := b\<rparr>"
    by (auto simp: poll_next_def poller_def split: option.splits)
  then show ?case
    unfolding * by (auto simp: Cons.IH split: option.splits)
qed simp

lemma drained:
  "callbacks ((run_callback ^^ length (callbacks s)) s) = [] \<and>
   pending ((run_callback ^^ length (callbacks s)) s) = pending s \<and> promises ((run_callback ^^ length (callbacks s)) s) = promises s \<and>
   (\<forall>i. (i \<in> fst ` set (callbacks s) \<longrightarrow> futures ((run_callback ^^ length (callbacks s)) s) i \<noteq> Pending) \<and>
     (futures s i \<noteq> Pending \<longrightarrow> futures ((run_callback ^^ length (callbacks s)) s) i \<noteq> Pending))"
proof (induction "callbacks s" arbitrary: s)
  case (Cons c cs)
  obtain i r where c: "callbacks s = (i, r) # cs" using Cons(2) by (metis surj_pair)
  have cs: "callbacks (run_callback s) = cs" "pending (run_callback s) = pending s" "promises (run_callback s) = promises s"
    "\<And>j. futures s j \<noteq> Pending \<or> j = i \<Longrightarrow> futures (run_callback s) j \<noteq> Pending"
    by (auto simp: run_callback_def c Let_def outcome_cases)
  have "(run_callback ^^ length (callbacks s)) s = (run_callback ^^ length (callbacks (run_callback s))) (run_callback s)"
    by (simp add: c cs(1) funpow_swap1)
  then show ?case using Cons(1) [of "run_callback s"] cs c by auto
qed simp

lemma poll_run: "bridge_run s t \<Longrightarrow> n \<le> length (batch t) \<Longrightarrow> bridge_run s ((poll_next ^^ n) t) \<and> length (batch ((poll_next ^^ n) t)) = length (batch t) - n"
proof (induction n)
  case (Suc n)
  then have *: "bridge_run s ((poll_next ^^ n) t)" "length (batch ((poll_next ^^ n) t)) = length (batch t) - n" by simp_all
  then have ne: "batch ((poll_next ^^ n) t) \<noteq> []" using Suc(3) by auto
  have "length (batch (poll_next u)) = length (batch u) - 1" if "batch u \<noteq> []" for u :: "'a bridge"
    using that by (auto simp: poll_next_def poller_def split: list.splits option.splits)
  then show ?case using bridge_run.step [OF *(1) poll [OF ne]] ne *(2) Suc(3) by simp
qed simp

lemma callback_run: "bridge_run s t \<Longrightarrow> \<not> loop_closed t \<Longrightarrow> bridge_run s ((run_callback ^^ n) t) \<and> \<not> loop_closed ((run_callback ^^ n) t)"
proof (induction n)
  case (Suc n)
  have "loop_closed (run_callback u) = loop_closed u" for u :: "'a bridge"
    by (simp add: run_callback_def Let_def split: list.splits prod.splits)
  with Suc show ?case by (auto intro: bridge_run.step callback)
qed simp

lemma pass_effect:
  assumes "batch s = []" "still_pending s = []"
  shows "pass s = s\<lparr>batch := [], still_pending := [], pending := filter (\<lambda>i. promises s i = None) (pending s),
     callbacks := callbacks s @ (if loop_closed s then [] else
       map (\<lambda>i. (i, the (promises s i))) (filter (\<lambda>i. promises s i \<noteq> None \<and> futures s i = Pending) (pending s)))\<rparr>"
proof -
  have "take_batch s = (s\<lparr>pending := []\<rparr>)\<lparr>batch := pending s\<rparr>" by (simp add: take_batch_def)
  then show ?thesis unfolding pass_def by (simp only: polls) (simp add: put_back_def assms)
qed

lemma round_delivers:
  assumes run: "bridge_run no_bridge s" and between: "batch s = []" "still_pending s = []" and "\<not> loop_closed s"
  shows "bridge_run s (drain (pass s)) \<and>
    (\<forall>i\<in>set (submitted s). promises s i \<noteq> None \<longrightarrow> futures (drain (pass s)) i \<noteq> Pending) \<and>
    pending (drain (pass s)) = filter (\<lambda>i. promises s i = None) (pending s) \<and> callbacks (drain (pass s)) = []"
proof -
  note p = pass_effect [OF between]
  have inv: "bridge_inv s" using bridge_run_inv [OF run bridge_inv_start] .
  have "bridge_run s (take_batch s)" using bridge_run.step [OF start wake [OF between]] .
  from poll_run [OF this, of "length (pending s)"]
  have "bridge_run s ((poll_next ^^ length (pending s)) (take_batch s))" "batch ((poll_next ^^ length (pending s)) (take_batch s)) = []"
    by (simp_all add: take_batch_def)
  then have "bridge_run s (pass s)" unfolding pass_def using bridge_run.step again by blast
  moreover have "\<not> loop_closed (pass s)" using assms(4) by (simp add: p)
  ultimately have r: "bridge_run s (drain (pass s))" using callback_run by (auto simp: drain_def)
  have "futures (drain (pass s)) i \<noteq> Pending" if i: "i \<in> set (submitted s)" "promises s i \<noteq> None" for i
  proof (cases "futures s i = Pending")
    case True
    then have "i \<in> set (pending s) \<union> fst ` set (callbacks s)"
      using inv i assms(4) between by (auto simp: bridge_inv_def on_the_way_def)
    then have "i \<in> fst ` set (callbacks (pass s))" using True i(2) assms(4) by (force simp: p)
    then show ?thesis using drained [of "pass s"] by (simp add: drain_def)
  next
    case False
    then show ?thesis using drained [of "pass s"] by (simp add: drain_def p)
  qed
  then show ?thesis using r drained [of "pass s"] by (simp add: drain_def p)
qed

text \<open>
  Delivery takes one round. Whenever the dispatcher is between two passes and the loop is open, one pass over its list and the
  callbacks it hands over answer every awaitable whose operation has finished, unless it was cancelled;
  the dispatcher keeps exactly the unfinished ones, in their order. The round is a run of the parties' steps.
\<close>

theorem one_round_delivers:
  assumes run: "bridge_run no_bridge s" and between: "batch s = []" "still_pending s = []" and "\<not> loop_closed s"
  shows "bridge_run s (drain (pass s)) \<and>
    (\<forall>i\<in>set (submitted s). promises s i \<noteq> None \<longrightarrow> futures (drain (pass s)) i \<noteq> Pending) \<and>
    pending (drain (pass s)) = filter (\<lambda>i. promises s i = None) (pending s) \<and> callbacks (drain (pass s)) = []"
  using assms by (rule round_delivers)

text \<open>Two operations of which one has finished.\<close>

definition half_done :: "nat bridge" where
  "half_done = (wrap_future 8 (wrap_future 7 no_bridge))\<lparr>promises := [7 \<mapsto> Inl (Netconf_Auth_Error ''no'')]\<rparr>"

lemma half_done_run: "bridge_run no_bridge half_done"
proof -
  let ?s = "wrap_future 8 (wrap_future 7 no_bridge) :: nat bridge"
  have "bridge_run no_bridge (wrap_future 7 no_bridge :: nat bridge)"
    by (rule bridge_run.step [OF start submit]) (simp_all add: no_bridge_def)
  then have "bridge_run no_bridge ?s"
    by (rule bridge_run.step [OF _ submit]) (simp_all add: no_bridge_def wrap_future_def)
  moreover have "bridge_step ?s (?s\<lparr>promises := (promises ?s)(7 \<mapsto> Inl (Netconf_Auth_Error ''no''))\<rparr>)"
    by (rule fulfil) (simp_all add: no_bridge_def wrap_future_def)
  ultimately have "bridge_run no_bridge (?s\<lparr>promises := (promises ?s)(7 \<mapsto> Inl (Netconf_Auth_Error ''no''))\<rparr>)"
    by (rule bridge_run.step)
  then show ?thesis by (simp add: half_done_def wrap_future_def no_bridge_def)
qed

lemma half_done_parts:
  "batch half_done = []" "still_pending half_done = []" "\<not> loop_closed half_done" "pending half_done = [7, 8]"
  "submitted half_done = [7, 8]" "promises half_done 7 \<noteq> None" "promises half_done 8 = None" "futures half_done 8 = Pending"
  by (simp_all add: half_done_def wrap_future_def no_bridge_def)

theorem awaitables_are_answered_once_witness:
  "count_list (on_the_way half_done) 8 = 1"
  using awaitables_are_answered_once [OF half_done_run, of 8] half_done_parts by simp

theorem one_round_delivers_witness:
  "futures (drain (pass half_done)) 7 \<noteq> Pending \<and> pending (drain (pass half_done)) = [8]"
  using one_round_delivers [OF half_done_run half_done_parts(1-3)] half_done_parts by simp

end
