(* ===== verification/Delivery.thy ===== *)
theory Delivery
  imports Subscriptions Stream_Frames
begin

text \<open>
  From the subscription to the application: what \<open>subscribe_non_blocking\<close> leaves in the notification members,
  what the reads of the callback put into the queue, and what a sequence of \<open>next_notification\<close> calls takes
  out of it.
\<close>

section \<open>What a subscription leaves in the queue\<close>

lemma connect_keeps_queue:
  "connect_notification_non_blocking e n = (f, n') \<Longrightarrow>
     notif_queue (notif_part n') = notif_queue (notif_part n) \<and> config n' = config n"
  by (auto simp: connect_notification_non_blocking_def set_notif_end_def set_notif_flags_def Let_def split: if_splits prod.splits)

lemma subscribe_failed_error: "subscribe_failed ex s \<noteq> (Returns (Inr reply), t)"
  by (simp add: subscribe_failed_def)

lemma subscribe_keeps_queue:
  assumes "subscribe_non_blocking stream filter_text self e (m, n) = (Returns (Inr reply), m', n')"
  shows "notif_queue (notif_part n') = notif_queue (notif_part n) \<and> config n' = config n"
proof -
  obtain f n1 where c: "connect_notification_non_blocking (se_connect e) n = (f, n1)" by (metis prod.collapse)
  have "n' = set_notif_flags True False (n1\<lparr>notif_part := (notif_part n1)\<lparr>rx_buffer := [], rx_timer_active := False\<rparr>\<rparr>)"
    using assms by (auto simp: subscribe_non_blocking_def c subscribe_failed_error Let_def
        split: flow.splits option.splits outcome.splits sum.splits prod.splits)
  then show ?thesis using connect_keeps_queue [OF c] by (simp add: set_notif_flags_def)
qed

section \<open>Taking notifications\<close>

text \<open>What \<open>next_notification\<close> tests.\<close>

definition readable :: "'a notif_state_scheme \<Rightarrow> bool" where
  "readable s \<longleftrightarrow> notif_channel s \<and> notif_session s \<and> notif_is_connected s"

lemma next_takes_head:
  assumes "readable s" "0 \<le> t" "notif_queue s = x # rest"
  obtains evs s' where "next_notification ts t s s = Inr (x, evs, s')" "notif_queue s' = rest" "readable s'"
proof -
  have "\<exists>evs s'. next_notification ts t s s = Inr (x, evs, s') \<and> notif_queue s' = rest \<and> readable s'"
    using assms by (cases "queue_full_state s \<and>
        (cf_notif_queue_max_size (cfg s) < 0 \<or> length rest < nat (cf_notif_queue_max_size (cfg s)))")
      (simp_all add: next_notification_def readable_def Let_def)
  then show thesis using that by blast
qed

lemma next_of_empty:
  "readable s \<Longrightarrow> 0 \<le> t \<Longrightarrow> notif_queue s = [] \<Longrightarrow> next_notification ts t s s = Inr ([], [], s)"
  by (simp add: next_notification_def readable_def)

text \<open>One call after the other, with what each returned.\<close>

fun take_notifications :: "string \<Rightarrow> int \<Rightarrow> nat \<Rightarrow> notif_state \<Rightarrow> exn + bytes list" where
  "take_notifications ts t 0 s = Inr []"
| "take_notifications ts t (Suc k) s =
     (case next_notification ts t s s of
        Inl ex \<Rightarrow> Inl ex
      | Inr (x, evs, s) \<Rightarrow> map_sum id ((#) x) (take_notifications ts t k s))"

lemma take_all:
  "readable s \<Longrightarrow> 0 \<le> t \<Longrightarrow> notif_queue s = xs \<Longrightarrow> take_notifications ts t (length xs) s = Inr xs"
proof (induction xs arbitrary: s)
  case (Cons x xs)
  from next_takes_head [OF Cons.prems] obtain evs s' where
    "next_notification ts t s s = Inr (x, evs, s')" "notif_queue s' = xs" "readable s'" by blast
  with Cons.IH [of s'] Cons.prems(2) show ?case by simp
qed simp

lemma take_more:
  "readable s \<Longrightarrow> 0 \<le> t \<Longrightarrow> notif_queue s = xs \<Longrightarrow> take_notifications ts t (length xs + k) s = Inr (xs @ replicate k [])"
proof (induction xs arbitrary: s)
  case Nil
  have "take_notifications ts t k s = Inr (replicate k [])"
    using Nil next_of_empty [OF Nil(1,2,3)] by (induction k) simp_all
  then show ?case by simp
next
  case (Cons x xs)
  from next_takes_head [OF Cons.prems] obtain evs s' where
    "next_notification ts t s s = Inr (x, evs, s')" "notif_queue s' = xs" "readable s'" by blast
  with Cons.IH [of s'] Cons.prems(2) show ?case by simp
qed

section \<open>The callback leaves the handles alone\<close>

lemma readable_hidden: "readable (rx_hidden s) = readable s"
  by (simp add: readable_def rx_hidden_def)

lemma readable_enqueue: "readable (enqueue_or_drop ts fd x d s) = readable s"
  by (simp add: readable_def enqueue_or_drop_def Let_def)

lemma readable_frames: "readable (enqueue_frames ts fd ms s) = readable s"
  by (induction ms arbitrary: s) (simp_all add: readable_enqueue)

lemma readable_truncate: "readable (notif_state.truncate s) = readable s" "notif_queue (notif_state.truncate s) = notif_queue s"
  by (simp_all add: readable_def notif_state.truncate_def)

lemma begin_parts: "readable (begin_cb s) = readable s" "notif_queue (begin_cb s) = notif_queue s" "cfg (begin_cb s) = cfg s"
  "rx_buffer (begin_cb s) = rx_buffer s" "events_to_emit (begin_cb s) = []"
  by (simp_all add: readable_def begin_cb_def notif_state.extend_def)

lemma reads_of_frames:
  assumes good: "\<forall>m\<in>set ms. good_frame m \<and> is_valid_notification_document xml m"
    and cs: "cs \<noteq> []" "concat (map fst cs) = frames ms" and s: "rx_buffer s = []" "notif_queue s = []"
    and room: "cf_notif_queue_max_size (cfg s) < 0 \<or> int (length ms) \<le> cf_notif_queue_max_size (cfg s)"
  shows "notif_queue (rx_reads xml ts fd cs (begin_cb s)) = map (\<lambda>m. m @ EOM) ms"
    "readable (rx_reads xml ts fd cs (begin_cb s)) = readable s"
    "events_to_emit (rx_reads xml ts fd cs (begin_cb s)) = []"
proof -
  let ?r = "rx_reads xml ts fd cs (begin_cb s)"
  have r: "rx_hidden ?r = enqueue_frames ts fd ms (rx_hidden (begin_cb s))"
    using rx_reads_frames [OF good partial_frame_Nil cs(1), of "begin_cb s" ts fd] cs(2) s by (simp add: begin_parts)
  have h: "notif_queue (rx_hidden t) = notif_queue t" "events_to_emit (rx_hidden t) = events_to_emit t" "cfg (rx_hidden t) = cfg t" for t
    by (simp_all add: rx_hidden_def)
  have "notif_queue (rx_hidden ?r) = map (\<lambda>m. m @ EOM) ms \<and> events_to_emit (rx_hidden ?r) = []"
    using enqueue_frames_room [of "rx_hidden (begin_cb s)" ms ts fd] room s unfolding r by (simp add: h begin_parts)
  then show "notif_queue ?r = map (\<lambda>m. m @ EOM) ms" "events_to_emit ?r = []" by (simp_all add: h)
  have "readable (rx_hidden ?r) = readable s" unfolding r by (simp add: readable_frames readable_hidden begin_parts)
  then show "readable ?r = readable s" by (simp add: readable_hidden)
qed

lemma delivered:
  assumes inv: "manager_inv m" and old: "owned (notif_end n)" "channel_ptr (notif_end n) = None"
    and idle: "\<not> notif_is_connected (notif_part n)" "notif_queue (notif_part n) = []"
    and new: "new_socket (ce_socket (se_connect e)) (notif_end n)"
    and free: "\<And>fd. ce_socket (se_connect e) = Inr fd \<Longrightarrow> client_of m fd = None"
    and sub: "subscribe_non_blocking stream filter_text self e (m, n) = (Returns (Inr reply), m', n')"
    and good: "\<forall>f\<in>set fs. good_frame f \<and> is_valid_notification_document xml f"
    and reads: "cs \<noteq> []" "concat (map fst cs) = frames fs"
    and room: "cf_notif_queue_max_size (config n) < 0 \<or> int (length fs) \<le> cf_notif_queue_max_size (config n)"
    and "0 \<le> timeout_ms"
  shows "client_of m' (socket_fd (notif_end n')) = Some self \<and>
    events_to_emit (rx_reads xml ts (socket_fd (notif_end n')) cs (begin_cb (notif_part n'))) = [] \<and>
    take_notifications now timeout_ms (length fs + k)
        (notif_state.truncate (rx_reads xml ts (socket_fd (notif_end n')) cs (begin_cb (notif_part n')))) =
      Inr (map (\<lambda>f. f @ EOM) fs @ replicate k [])"
proof -
  have c: "subscribe_contract self m (Returns (Inr reply), m', n')"
    using subscribe_all_or_nothing [OF inv old idle(1) new free, of self stream filter_text] sub by simp
  then have "readable (notif_part n')" "rx_buffer (notif_part n') = []" "client_of m' (socket_fd (notif_end n')) = Some self"
    by (auto simp: subscribe_contract_def is_subscription_active_def readable_def split: if_splits)
  moreover note k = subscribe_keeps_queue [OF sub]
  ultimately show ?thesis
    using reads_of_frames [OF good reads, of "notif_part n'" ts "socket_fd (notif_end n')"] idle(2) room \<open>0 \<le> timeout_ms\<close>
      take_more [of "notif_state.truncate (rx_reads xml ts (socket_fd (notif_end n')) cs (begin_cb (notif_part n')))" timeout_ms
        "map (\<lambda>f. f @ EOM) fs" now k]
    by (simp add: readable_truncate)
qed


text \<open>The subscription of the client with the base configuration succeeds at the device that answers at once.\<close>

lemma prompt_subscription:
  "\<exists>reply m' n'. subscribe_non_blocking ''NETCONF'' [] 0 (subscribing 3) (empty_manager, basic) = (Returns (Inr reply), m', n')"
proof -
  let ?n = "set_notif_flags False False (set_notif_end (open_channel (open_socket 3 (init_session no_endpoint)))
      (basic\<lparr>resolved_host := ''127.0.0.1''\<rparr>))"
  have c: "connect_notification_non_blocking (prompt 3) basic = (Go, ?n)"
    by (simp add: connect_notification_non_blocking_def prompt_notification Let_def caught_def)
  have miss: "missing_part (notif_part ?n) = None"
    by (rule complete_parts) (simp_all add: mirrored_set opened_complete)
  have params: "notif_channel (notif_part ?n)" "notif_session (notif_part ?n)" "notif_socket (notif_part ?n) = 3"
    "config ?n = BASE_CLIENT_KWARGS"
    using complete_parts [of ?n] miss
    by (simp_all add: missing_part_def set_notif_flags_def set_notif_end_def split: if_splits)
  have "snd (subscription_rpc (subscribing 3) ?n (create_subscription_rpc ''NETCONF'' [])) = Returns (Inr (''<ok/>'' @ EOM))"
    unfolding subscription_rpc_def Let_def params
    by (simp add: subscribing_def send_rpc_non_blocking_func_def params create_subscription_rpc_def rpc_with_eom_def
        XML_DECL_def RPC_OPEN_def subtree_filter_def EOM_def read_until_eom_non_blocking_def nb_round_def new_reader_def
        size_limit_enabled_def time_limit_enabled_def infinite_wait_def timeout_s_def Let_def ns_per_s_def)
  moreover have "fst (manager_add (se_alive (subscribing 3)) (se_epoll (subscribing 3)) 3 (Some 0) empty_manager) = None"
    by (simp add: subscribing_def manager_add_def register_def reactor_add_def empty_manager_def)
  ultimately show ?thesis
    using miss params(3) by (auto simp: subscribe_non_blocking_def c Let_def split: prod.splits)
qed

lemma nobody_registered: "client_of empty_manager fd = None"
  by (simp add: client_of_def empty_manager_def)


end
