(* ===== verification/Public_Methods.thy ===== *)
theory Public_Methods
  imports Api_Gate Rpc_Blocking
begin

text \<open>
  The public methods of a client as concurrent calls (\<open>src/netconf_client_sync.cpp\<close>,
  \<open>src/netconf_client_async.cpp\<close>). Each is a task on the pool: it reads the flags its test needs, one after the other,
  waits for \<open>session_mutex_\<close>, and runs its body, which sends its RPCs one at a time. Here a method is a tree of RPCs, a call
  is a thread with a position in its code, and the threads move in any order.
\<close>

section \<open>Methods as trees of RPCs\<close>

text \<open>What a method does next: it ends, or it sends an RPC and goes on with the reply or the exception.\<close>

datatype proc = Ret "exn + bytes" | Send bytes "exn + bytes \<Rightarrow> proc"

primrec try_then :: "proc \<Rightarrow> (bytes \<Rightarrow> proc) \<Rightarrow> (exn \<Rightarrow> proc) \<Rightarrow> proc" where
  "try_then (Ret r) f h = (case r of Inl e \<Rightarrow> h e | Inr x \<Rightarrow> f x)"
| "try_then (Send rpc k) f h = Send rpc (\<lambda>r. try_then (k r) f h)"

definition one_rpc :: "bytes \<Rightarrow> proc" where
  "one_rpc rpc = Send rpc Ret"

abbreviation raise :: "exn \<Rightarrow> proc" where
  "raise e \<equiv> Ret (Inl e)"

abbreviation and_next :: "proc \<Rightarrow> (bytes \<Rightarrow> proc) \<Rightarrow> proc" where
  "and_next p f \<equiv> try_then p f raise"

text \<open>The public methods that send RPCs, with their arguments.\<close>

datatype rpc_method =
    Send_Rpc bytes | Get bytes | Get_Config bytes bytes | Copy_Config bytes bytes | Delete_Config bytes
  | Validate bytes | Edit_Config bytes bytes bool | Lock bytes | Unlock bytes | Commit
  | Locked_Edit_Config bytes bytes bool

fun non_blocking_method :: "rpc_method \<Rightarrow> proc" where
  "non_blocking_method (Send_Rpc rpc) = one_rpc rpc"
| "non_blocking_method (Get filter_text) = one_rpc (get_rpc filter_text)"
| "non_blocking_method (Get_Config source filter_text) = one_rpc (get_config_rpc source filter_text)"
| "non_blocking_method (Copy_Config target source) = one_rpc (copy_config_rpc target source)"
| "non_blocking_method (Delete_Config target) = one_rpc (delete_config_rpc target)"
| "non_blocking_method (Validate source) = one_rpc (validate_rpc source)"
| "non_blocking_method (Edit_Config target conf do_validate) =
     and_next (one_rpc (edit_config_rpc target conf)) (\<lambda>reply.
       if do_validate then and_next (one_rpc (validate_rpc target)) (\<lambda>_. Ret (Inr reply)) else Ret (Inr reply))"
| "non_blocking_method (Lock target) = one_rpc (lock_rpc target)"
| "non_blocking_method (Unlock target) = one_rpc (unlock_rpc target)"
| "non_blocking_method Commit = one_rpc commit_rpc"
| "non_blocking_method (Locked_Edit_Config target conf do_validate) =
     try_then
       (and_next (one_rpc (lock_rpc target)) (\<lambda>_.
        and_next (and_next (one_rpc (edit_config_rpc target conf)) (\<lambda>reply.
          if do_validate then and_next (one_rpc (validate_rpc target)) (\<lambda>_. Ret (Inr reply)) else Ret (Inr reply))) (\<lambda>reply.
        and_next (one_rpc commit_rpc) (\<lambda>_.
        and_next (one_rpc (unlock_rpc target)) (\<lambda>_. Ret (Inr reply))))))
       (\<lambda>reply. Ret (Inr reply))
       (\<lambda>err. Send (unlock_rpc target) (\<lambda>_. raise (Netconf_Exception (''Unable to complete operation: '' @ what err))))"

fun blocking_method :: "rpc_method \<Rightarrow> proc" where
  "blocking_method (Send_Rpc rpc) = one_rpc rpc"
| "blocking_method (Get filter_text) = one_rpc (get_blocking_text filter_text)"
| "blocking_method (Get_Config source filter_text) = one_rpc (get_config_blocking_text source filter_text)"
| "blocking_method (Copy_Config target source) = one_rpc (copy_config_blocking_text target source)"
| "blocking_method (Delete_Config target) = one_rpc (delete_config_blocking_text target)"
| "blocking_method (Validate source) = one_rpc (validate_blocking_text source)"
| "blocking_method (Edit_Config target conf do_validate) =
     and_next (one_rpc (edit_config_blocking_text target conf)) (\<lambda>reply.
       if do_validate then and_next (one_rpc (validate_blocking_text target)) (\<lambda>_. Ret (Inr reply)) else Ret (Inr reply))"
| "blocking_method (Lock target) = one_rpc (lock_blocking_text target)"
| "blocking_method (Unlock target) = one_rpc (unlock_blocking_text target)"
| "blocking_method Commit = one_rpc commit_blocking_text"
| "blocking_method (Locked_Edit_Config target conf do_validate) =
     try_then
       (and_next (one_rpc (lock_blocking_text target)) (\<lambda>_.
        and_next (and_next (one_rpc (edit_config_blocking_text target conf)) (\<lambda>reply.
          if do_validate then and_next (one_rpc (validate_blocking_text target)) (\<lambda>_. Ret (Inr reply)) else Ret (Inr reply))) (\<lambda>reply.
        and_next (one_rpc commit_blocking_text) (\<lambda>_.
        and_next (one_rpc (unlock_blocking_text target)) (\<lambda>_. Ret (Inr reply))))))
       (\<lambda>reply. Ret (Inr reply))
       (\<lambda>err. Send (unlock_blocking_text target) (\<lambda>_. raise (Netconf_Exception (''Unable to complete operation: '' @ what err))))"

definition method_of :: "api \<Rightarrow> rpc_method \<Rightarrow> proc" where
  "method_of a q = (case a of Sync_Api \<Rightarrow> blocking_method q | Async_Api \<Rightarrow> non_blocking_method q)"

text \<open>Running a tree: \<open>line\<close> gives the outcome of one RPC and what has been sent on the session after it; the run gives the
  result, what has been sent, and the requests that went out.\<close>

type_synonym line = "bytes list \<Rightarrow> bytes \<Rightarrow> (exn + bytes) outcome \<times> bytes list"

primrec run_proc :: "line \<Rightarrow> proc \<Rightarrow> bytes list \<Rightarrow> (exn + bytes) outcome \<times> bytes list" where
  "run_proc line (Ret r) = (\<lambda>sent. (Returns r, sent))"
| "run_proc line (Send rpc k) = (\<lambda>sent.
     case line sent rpc of
       (Blocked, sent) \<Rightarrow> (Blocked, sent)
     | (Returns r, sent) \<Rightarrow> run_proc line (k r) sent)"

text \<open>One RPC on the client's session: \<open>device\<close> answers it, or leaves the reader waiting for ever. Without a channel nothing is sent.\<close>

type_synonym device = "bytes list \<Rightarrow> bytes \<Rightarrow> (exn + bytes) outcome"

definition transmit :: "device \<Rightarrow> nc \<Rightarrow> line" where
  "transmit dev n sent rpc =
     (if channel_ptr (rpc_end n) = None
      then (Returns (Inl (Netconf_Exception ''Error occured while sending RPC: Channel not open.'')), sent)
      else (dev sent rpc, sent @ [rpc]))"

section \<open>The methods and the operations of one thread\<close>

definition answering :: "peer \<Rightarrow> line" where
  "answering peer sent rpc = (Returns (peer sent rpc), sent @ [rpc])"

lemma run_try_then:
  "run_proc line (try_then p f h) sent =
     (case run_proc line p sent of
        (Blocked, sent) \<Rightarrow> (Blocked, sent)
      | (Returns (Inl e), sent) \<Rightarrow> run_proc line (h e) sent
      | (Returns (Inr x), sent) \<Rightarrow> run_proc line (f x) sent)"
  by (induction p arbitrary: sent) (auto split: prod.splits outcome.splits sum.splits)

lemma run_one_rpc: "run_proc (answering peer) (one_rpc rpc) sent = (Returns (peer sent rpc), sent @ [rpc])"
  by (simp add: one_rpc_def answering_def)

lemma same_methods: "blocking_method q = non_blocking_method q"
  by (cases q) (simp_all only: same_texts blocking_method.simps non_blocking_method.simps)

lemma run_edit:
  "run_proc (answering peer) (non_blocking_method (Edit_Config target conf v)) sent =
     apfst Returns (edit_config peer target conf v sent)"
  by (simp add: run_try_then run_one_rpc rpc_ops apfst_def map_prod_def split: sum.splits)

lemma run_locked_edit:
  "run_proc (answering peer) (non_blocking_method (Locked_Edit_Config target conf v)) sent =
     apfst Returns (locked_edit_config peer target conf v sent)"
  by (simp add: run_try_then run_one_rpc answering_def rpc_ops split: sum.splits)

text \<open>The operation of each method, as a function on what has been sent.\<close>

fun operation :: "rpc_method \<Rightarrow> peer \<Rightarrow> bytes rpc_op" where
  "operation (Send_Rpc rpc) peer = send_rpc peer rpc"
| "operation (Get filter_text) peer = send_rpc peer (get_rpc filter_text)"
| "operation (Get_Config source filter_text) peer = send_rpc peer (get_config_rpc source filter_text)"
| "operation (Copy_Config target source) peer = send_rpc peer (copy_config_rpc target source)"
| "operation (Delete_Config target) peer = send_rpc peer (delete_config_rpc target)"
| "operation (Validate source) peer = send_rpc peer (validate_rpc source)"
| "operation (Edit_Config target conf do_validate) peer = edit_config peer target conf do_validate"
| "operation (Lock target) peer = send_rpc peer (lock_rpc target)"
| "operation (Unlock target) peer = send_rpc peer (unlock_rpc target)"
| "operation Commit peer = send_rpc peer commit_rpc"
| "operation (Locked_Edit_Config target conf do_validate) peer = locked_edit_config peer target conf do_validate"

text \<open>
  C30. The public methods of both APIs run the same operations. Whatever the peer answers, a method of the synchronous
  API and its counterpart of the asynchronous one send the same requests in the same order and end with the same reply or
  exception, and these are those of the operation: so the order of a locked edit and the requests' texts hold for the
  public methods of both modes, one RPC at a time.
\<close>

theorem both_apis_run_the_operations:
  "run_proc (answering peer) (method_of a q) sent = apfst Returns (operation q peer sent)"
proof -
  have "run_proc (answering peer) (non_blocking_method q) sent = apfst Returns (operation q peer sent)"
  proof (cases q)
    case (Edit_Config target conf v)
    then show ?thesis by (simp only: run_edit operation.simps)
  next
    case (Locked_Edit_Config target conf v)
    then show ?thesis by (simp only: run_locked_edit operation.simps)
  qed (simp_all add: run_one_rpc send_rpc_def)
  then show ?thesis by (simp add: method_of_def same_methods split: api.splits)
qed

end
