(* ===== verification/Session_Mutex.thy ===== *)
theory Session_Mutex
  imports Public_Methods
begin

text \<open>
  The calls on one client, interleaved. \<open>calls i\<close> is the call of task \<open>i\<close>; the threads of the pool move in any order, and
  \<open>session_mutex_\<close> is taken after the test. Between two reads of the test, between the test and the mutex and between two
  RPCs of a call other calls may move. \<open>disconnect\<close> clears its two flags one after the other. The moves of the reactors' threads,
  which do not take this mutex, are not among these steps, nor is Python's \<open>delete_subscription\<close>, which the binding makes a plain call
  of \<open>delete_notification_session\<close>.
\<close>

section \<open>Calls\<close>

datatype call =
    Connect_Async connect_env | Connect_Sync blocking_env | Disconnect api | Rpc_Call api rpc_method
  | Subscribe_Async bytes bytes client sub_env | Subscribe_Sync bytes bytes blocking_sub_env
  | Delete_Subscription | Receive_Notification nat "bl_round list"

datatype result = Done | Connected | Text bytes

text \<open>The two tests a call makes before it takes the mutex: the exception, if it fails.\<close>

fun first_test :: "call \<Rightarrow> nc \<Rightarrow> exn option" where
  "first_test (Connect_Async e) n = None"
| "first_test (Connect_Sync e) n = None"
| "first_test (Subscribe_Async stream filter_text self e) n = None"
| "first_test (Subscribe_Sync stream filter_text e) n = None"
| "first_test Delete_Subscription n =
     (if \<not> notif_is_connected (notif_part n) then Some (Netconf_Exception ''Client should be subscribed first'') else None)"
| "first_test (Disconnect a) n = (if \<not> is_connected n then Some (not_connected a) else None)"
| "first_test (Rpc_Call a q) n = (if \<not> is_connected n then Some (not_connected a) else None)"
| "first_test (Receive_Notification start es) n = (if \<not> is_connected n then Some (not_connected Sync_Api) else None)"

fun second_test :: "call \<Rightarrow> nc \<Rightarrow> exn option" where
  "second_test (Connect_Async e) n = None"
| "second_test (Connect_Sync e) n = None"
| "second_test (Subscribe_Async stream filter_text self e) n = None"
| "second_test (Subscribe_Sync stream filter_text e) n = None"
| "second_test Delete_Subscription n =
     (if \<not> notif_is_blocking (notif_part n) then Some (other_mode Sync_Api) else None)"
| "second_test (Disconnect a) n = (if is_blocking n = (a = Async_Api) then Some (other_mode a) else None)"
| "second_test (Rpc_Call a q) n = (if is_blocking n = (a = Async_Api) then Some (other_mode a) else None)"
| "second_test (Receive_Notification start es) n = (if \<not> is_blocking n then Some (other_mode Sync_Api) else None)"

text \<open>The bodies. Those made of RPCs on the session are trees of their own and have no entry here. A \<open>connect\<close> that succeeds starts a new session, on which
  nothing has been sent.\<close>

type_synonym side = "manager \<times> nc \<times> bytes list"

definition of_flow :: "flow \<Rightarrow> (exn + result) outcome" where
  "of_flow f = (case f of Go \<Rightarrow> Returns (Inr Connected) | Throw ex \<Rightarrow> Returns (Inl ex) | Block \<Rightarrow> Blocked)"

definition of_text :: "(exn + bytes) outcome \<Rightarrow> (exn + result) outcome" where
  "of_text x = (case x of Blocked \<Rightarrow> Blocked | Returns r \<Rightarrow> Returns (map_sum id Text r))"

fun body :: "call \<Rightarrow> side \<Rightarrow> (exn + result) outcome \<times> side" where
  "body (Connect_Async e) (m, n, sent) =
     (case connect_non_blocking e n of (f, n) \<Rightarrow> (of_flow f, m, n, if f = Go then [] else sent))"
| "body (Connect_Sync e) (m, n, sent) =
     (case connect_blocking e n of (f, n) \<Rightarrow> (of_flow f, m, n, if f = Go then [] else sent))"
| "body (Subscribe_Async stream filter_text self e) (m, n, sent) =
     (case subscribe_non_blocking stream filter_text self e (m, n) of (x, m, n) \<Rightarrow> (of_text x, m, n, sent))"
| "body (Subscribe_Sync stream filter_text e) (m, n, sent) =
     (case subscribe_blocking stream filter_text e n of (x, n) \<Rightarrow> (of_text x, m, n, sent))"
| "body Delete_Subscription (m, n, sent) =
     (case delete_notification_session (m, n) of (m, n) \<Rightarrow> (Returns (Inr Done), m, n, sent))"
| "body (Receive_Notification start es) (m, n, sent) = (of_text (receive_notification_blocking start es n), m, n, sent)"
| "body (Disconnect a) (m, n, sent) = (case disconnect (m, n) of (m, n) \<Rightarrow> (Returns (Inr Done), m, n, sent))"
| "body (Rpc_Call a q) s = (Blocked, s)"

text \<open>\<open>disconnect\<close> before its last statement, and the last statement.\<close>

definition disconnect_but_flag :: "manager \<times> nc \<Rightarrow> manager \<times> nc" where
  "disconnect_but_flag s =
     (let (m, n) = s; n' = n\<lparr>rpc_end := release (rpc_end n)\<rparr>; (m, n') = delete_notification_session (m, n')
      in (m, n'\<lparr>is_blocking := False\<rparr>))"

lemma disconnect_in_two: "disconnect s = apsnd (is_connected_update (\<lambda>_. False)) (disconnect_but_flag s)"
  by (cases s) (simp add: disconnect_def disconnect_but_flag_def Let_def split: prod.splits)

section \<open>Steps\<close>

text \<open>Where a call is: before its first test, between the tests, before the mutex, in its body (\<open>Inside\<close> with what is left of
  a method, \<open>Closing\<close> before the last statement of a disconnect), waiting inside for ever, or finished.\<close>

datatype pc = Entry | Tested | At_Mutex | Inside proc | In_Body | Closing | Hung | Finished "exn + result"

record calls_state =
  mgr :: manager
  cl :: nc
  sent_on :: "bytes list"
  holder :: "nat option"
  pcs :: "nat \<Rightarrow> pc"
  log :: "nat list"                  \<comment> \<open>the calls in the order in which they took the mutex\<close>
  wire :: "(nat \<times> bytes) list"       \<comment> \<open>every request written, with its call\<close>

definition no_calls :: "side \<Rightarrow> calls_state" where
  "no_calls b = (case b of (m, n, sent) \<Rightarrow>
     \<lparr>mgr = m, cl = n, sent_on = sent, holder = None, pcs = (\<lambda>_. Entry), log = [], wire = []\<rparr>)"

definition at :: "nat \<Rightarrow> pc \<Rightarrow> calls_state \<Rightarrow> calls_state" where
  "at i p s = s\<lparr>pcs := (pcs s)(i := p)\<rparr>"

definition leave :: "nat \<Rightarrow> exn + result \<Rightarrow> calls_state \<Rightarrow> calls_state" where
  "leave i r s = at i (Finished r) (s\<lparr>holder := None\<rparr>)"

definition set_side :: "side \<Rightarrow> calls_state \<Rightarrow> calls_state" where
  "set_side b s = (case b of (m, n, sent) \<Rightarrow> s\<lparr>mgr := m, cl := n, sent_on := sent\<rparr>)"

abbreviation side :: "calls_state \<Rightarrow> side" where
  "side s \<equiv> (mgr s, cl s, sent_on s)"

definition enter :: "call \<Rightarrow> pc" where
  "enter c = (case c of Rpc_Call a q \<Rightarrow> Inside (method_of a q) | _ \<Rightarrow> In_Body)"

text \<open>One move of call \<open>i\<close>; \<open>None\<close>: it cannot move.\<close>

definition call_step :: "device \<Rightarrow> (nat \<Rightarrow> call) \<Rightarrow> nat \<Rightarrow> calls_state \<Rightarrow> calls_state option" where
  "call_step dev calls i s =
     (case pcs s i of
        Entry \<Rightarrow> Some (at i (case first_test (calls i) (cl s) of Some ex \<Rightarrow> Finished (Inl ex) | None \<Rightarrow> Tested) s)
      | Tested \<Rightarrow> Some (at i (case second_test (calls i) (cl s) of Some ex \<Rightarrow> Finished (Inl ex) | None \<Rightarrow> At_Mutex) s)
      | At_Mutex \<Rightarrow>
          (if holder s = None then Some (at i (enter (calls i)) (s\<lparr>holder := Some i, log := log s @ [i]\<rparr>)) else None)
      | Inside (Ret r) \<Rightarrow> Some (leave i (map_sum id Text r) s)
      | Inside (Send rpc k) \<Rightarrow>
          (case transmit dev (cl s) (sent_on s) rpc of (x, sent) \<Rightarrow>
             let s = s\<lparr>sent_on := sent, wire := wire s @ map (Pair i) (drop (length (sent_on s)) sent)\<rparr>
             in Some (at i (case x of Blocked \<Rightarrow> Hung | Returns r \<Rightarrow> Inside (k r)) s))
      | In_Body \<Rightarrow>
          (case calls i of
             Disconnect a \<Rightarrow>
               (case disconnect_but_flag (mgr s, cl s) of (m, n) \<Rightarrow> Some (at i Closing (set_side (m, n, sent_on s) s)))
           | c \<Rightarrow>
               (case body c (side s) of
                  (Blocked, b) \<Rightarrow> Some (at i Hung (set_side b s))
                | (Returns r, b) \<Rightarrow> Some (leave i r (set_side b s))))
      | Closing \<Rightarrow> Some (leave i (Inr Done) (s\<lparr>cl := (cl s)\<lparr>is_connected := False\<rparr>\<rparr>))
      | Hung \<Rightarrow> None
      | Finished r \<Rightarrow> None)"

inductive calls_run :: "device \<Rightarrow> (nat \<Rightarrow> call) \<Rightarrow> calls_state \<Rightarrow> nat list \<Rightarrow> calls_state \<Rightarrow> bool" for dev calls where
  nothing: "calls_run dev calls s [] s"
| move: "calls_run dev calls s is t \<Longrightarrow> call_step dev calls i t = Some u \<Longrightarrow> calls_run dev calls s (is @ [i]) u"

text \<open>When both tests see the same client, they are the test of the method.\<close>

lemma tests_are_gate:
  assumes "c = Disconnect a \<or> c = Rpc_Call a q"
  shows "gate a n = (case first_test c n of Some ex \<Rightarrow> Some ex | None \<Rightarrow> second_test c n)"
  using assms by (auto simp: gate_cases)

section \<open>One call after the other\<close>

text \<open>A call alone, from taking the mutex to its end: its result, what it leaves and the requests it wrote.\<close>

definition alone :: "device \<Rightarrow> call \<Rightarrow> side \<Rightarrow> (exn + result) outcome \<times> side \<times> bytes list" where
  "alone dev c b =
     (case c of
        Rpc_Call a q \<Rightarrow>
          (case b of (m, n, sent) \<Rightarrow>
             (case run_proc (transmit dev n) (method_of a q) sent of
                (x, sent') \<Rightarrow> (of_text x, (m, n, sent'), drop (length sent) sent')))
      | _ \<Rightarrow> (case body c b of (x, b) \<Rightarrow> (x, b, [])))"

fun serial :: "device \<Rightarrow> (nat \<Rightarrow> call) \<Rightarrow> nat list \<Rightarrow> side \<Rightarrow> side \<times> (nat \<times> (exn + result) outcome) list \<times> (nat \<times> bytes) list" where
  "serial dev calls [] b = (b, [], [])"
| "serial dev calls (i # is) b =
     (case alone dev (calls i) b of (x, b, ws) \<Rightarrow>
      case serial dev calls is b of (b, xs, wss) \<Rightarrow> (b, (i, x) # xs, map (Pair i) ws @ wss))"

lemma serial_append:
  "serial dev calls (is @ js) b =
     (case serial dev calls is b of (b, xs, ws) \<Rightarrow>
      case serial dev calls js b of (b, ys, vs) \<Rightarrow> (b, xs @ ys, ws @ vs))"
  by (induction "is" arbitrary: b) (simp_all split: prod.splits)

section \<open>Invariant\<close>

lemma run_proc_extends: "prefix sent (snd (run_proc (transmit dev n) p sent))"
proof (induction p arbitrary: sent)
  case (Send rpc k)
  obtain x s' where x: "transmit dev n sent rpc = (x, s')" by (metis surj_pair)
  then have "prefix sent s'" by (auto simp: transmit_def split: if_splits)
  then show ?case using Send [OF rangeI, where sent = s'] x by (cases x) (auto intro: prefix_order.trans)
qed simp

text \<open>The call that holds the mutex: what it has done since the calls before it left \<open>b\<close>. \<open>own\<close> is what it wrote.\<close>

definition holding :: "device \<Rightarrow> call \<Rightarrow> pc \<Rightarrow> side \<Rightarrow> side \<Rightarrow> bytes list \<Rightarrow> bool" where
  "holding dev c p b now own \<longleftrightarrow>
     (case (b, now) of ((m, n, sent), (m', n', sent')) \<Rightarrow>
        (case p of
           Inside q \<Rightarrow> m' = m \<and> n' = n \<and> sent' = sent @ own \<and>
             (\<exists>a rq. c = Rpc_Call a rq \<and> run_proc (transmit dev n) (method_of a rq) sent = run_proc (transmit dev n) q sent')
         | In_Body \<Rightarrow> now = b \<and> own = [] \<and> (\<forall>a rq. c \<noteq> Rpc_Call a rq)
         | Closing \<Rightarrow> (m', n') = disconnect_but_flag (m, n) \<and> sent' = sent \<and> own = [] \<and> (\<exists>a. c = Disconnect a)
         | Hung \<Rightarrow> alone dev c b = (Blocked, now, own)
         | _ \<Rightarrow> False))"

lemma holding_enter: "holding dev c (enter c) b b []"
  by (cases b; cases c) (simp_all add: holding_def enter_def)

lemma holding_send:
  assumes "holding dev c (Inside (Send rpc k)) b (m, n, sent) own" "transmit dev n sent rpc = (x, sent')"
  shows "holding dev c (case x of Blocked \<Rightarrow> Hung | Returns r \<Rightarrow> Inside (k r)) b (m, n, sent') (own @ drop (length sent) sent')"
proof -
  obtain a rq m0 n0 s0 where b: "b = (m0, n0, s0)" "m = m0" "n = n0" "sent = s0 @ own" "c = Rpc_Call a rq"
    and run: "run_proc (transmit dev n) (method_of a rq) s0 = run_proc (transmit dev n) (Send rpc k) sent"
    using assms(1) by (cases b) (auto simp: holding_def)
  have "prefix sent sent'" using assms(2) by (auto simp: transmit_def split: if_splits)
  then show ?thesis
    using run assms(2) b by (cases x) (auto simp: holding_def alone_def of_text_def elim!: prefixE)
qed

lemma holding_ret:
  "holding dev c (Inside (Ret r)) b now own \<Longrightarrow> alone dev c b = (Returns (map_sum id Text r), now, own)"
  by (cases b; cases now) (auto simp: holding_def alone_def of_text_def)

lemma holding_body:
  assumes "holding dev c In_Body b now own" "body c now = (x, now')"
  shows "alone dev c b = (x, now', []) \<and> own = []"
  using assms by (cases b; cases now; cases c) (auto simp: holding_def alone_def split: prod.splits)

lemma holding_disconnect:
  assumes "holding dev (Disconnect a) In_Body b (m, n, sent) own" "disconnect_but_flag (m, n) = (m', n')"
  shows "holding dev (Disconnect a) Closing b (m', n', sent) own"
  using assms by (cases b) (auto simp: holding_def)

lemma holding_closing:
  assumes "holding dev c Closing b (m, n, sent) own"
  shows "alone dev c b = (Returns (Inr Done), (m, n\<lparr>is_connected := False\<rparr>, sent), own)"
proof -
  obtain m0 n0 a where b: "b = (m0, n0, sent)" "c = Disconnect a" "own = []" "disconnect_but_flag (m0, n0) = (m, n)"
    using assms by (cases b) (auto simp: holding_def)
  then have "disconnect (m0, n0) = (m, n\<lparr>is_connected := False\<rparr>)" by (simp add: disconnect_in_two)
  then show ?thesis by (simp add: b alone_def)
qed

definition refused :: "call \<Rightarrow> exn \<Rightarrow> bool" where
  "refused c ex \<longleftrightarrow> (\<exists>n. first_test c n = Some ex \<or> second_test c n = Some ex)"

definition outside :: "call \<Rightarrow> pc \<Rightarrow> bool" where
  "outside c p \<longleftrightarrow> p \<in> {Entry, Tested, At_Mutex} \<or> (\<exists>ex. p = Finished (Inl ex) \<and> refused c ex)"

text \<open>The mutex taken by the calls of the log one after the other: those before the holder (\<open>past\<close>) are finished, with their
  results.\<close>

definition linear :: "device \<Rightarrow> (nat \<Rightarrow> call) \<Rightarrow> side \<Rightarrow> calls_state \<Rightarrow> nat list \<Rightarrow> side \<Rightarrow> (nat \<times> (exn + result) outcome) list \<Rightarrow>
    (nat \<times> bytes) list \<Rightarrow> bool" where
  "linear dev calls b0 s past b xs ws \<longleftrightarrow>
     serial dev calls past b0 = (b, xs, ws) \<and> (\<forall>i x. (i, x) \<in> set xs \<longrightarrow> (\<exists>r. x = Returns r \<and> pcs s i = Finished r)) \<and>
     (case holder s of
        None \<Rightarrow> log s = past \<and> side s = b \<and> wire s = ws
      | Some h \<Rightarrow> log s = past @ [h] \<and>
          (\<exists>own. wire s = ws @ map (Pair h) own \<and> holding dev (calls h) (pcs s h) b (side s) own))"

definition calls_inv :: "device \<Rightarrow> (nat \<Rightarrow> call) \<Rightarrow> side \<Rightarrow> calls_state \<Rightarrow> bool" where
  "calls_inv dev calls b0 s \<longleftrightarrow>
     distinct (log s) \<and> (\<forall>i. i \<notin> set (log s) \<longrightarrow> outside (calls i) (pcs s i)) \<and>
     (\<exists>past b xs ws. linear dev calls b0 s past b xs ws)"

lemma calls_invI:
  "linear dev calls b0 s past b xs ws \<Longrightarrow> distinct (log s) \<Longrightarrow> (\<And>i. i \<notin> set (log s) \<Longrightarrow> outside (calls i) (pcs s i)) \<Longrightarrow>
     calls_inv dev calls b0 s"
  unfolding calls_inv_def by blast

lemma calls_inv_parts:
  assumes "calls_inv dev calls b0 s"
  shows "distinct (log s)" "i \<notin> set (log s) \<Longrightarrow> outside (calls i) (pcs s i)"
  using assms by (simp_all add: calls_inv_def)

lemma serial_names: "serial dev calls is b = (b', xs, ws) \<Longrightarrow> map fst xs = is \<and> fst ` set ws \<subseteq> set is"
  by (induction "is" arbitrary: b b' xs ws) (fastforce split: prod.splits)+

lemma linear_names: "linear dev calls b0 s past b xs ws \<Longrightarrow> map fst xs = past"
  unfolding linear_def using serial_names by blast

lemma linear_set: "linear dev calls b0 s past b xs ws \<Longrightarrow> set past = fst ` set xs"
  by (drule linear_names) (simp flip: list.set_map)

lemma linear_new:
  assumes "linear dev calls b0 s past b xs ws" "i \<notin> set past"
  shows "(i, x) \<notin> set xs"
  using assms(2) linear_set [OF assms(1)] by force

text \<open>A call that has not been in the mutex is not in the log; one that is in its body is the holder.\<close>

lemma not_outside: "holding dev c p b now own \<Longrightarrow> p \<notin> {Entry, Tested, At_Mutex} \<and> p \<noteq> Finished r"
  by (cases b; cases now; cases p) (auto simp: holding_def)

lemma past_finished:
  assumes lin: "linear dev calls b0 s past b xs ws" and "i \<in> set past"
  shows "\<exists>r. pcs s i = Finished r"
proof -
  obtain x where "(i, x) \<in> set xs" using assms(2) linear_set [OF lin] by force
  then show ?thesis using lin by (auto simp: linear_def)
qed

lemma early_not_logged:
  assumes "calls_inv dev calls b0 s" "pcs s i \<in> {Entry, Tested, At_Mutex}"
  shows "i \<notin> set (log s)"
proof
  assume i: "i \<in> set (log s)"
  obtain past b xs ws where lin: "linear dev calls b0 s past b xs ws" using assms(1) by (auto simp: calls_inv_def)
  have p: "i \<notin> set past" using past_finished [OF lin, of i] assms(2) by auto
  then have h: "holder s = Some i" using i lin by (auto simp: linear_def split: option.splits)
  then obtain own where "holding dev (calls i) (pcs s i) b (side s) own" using lin by (auto simp: linear_def)
  from not_outside [OF this] assms(2) show False by auto
qed

lemma inside_holds:
  assumes "calls_inv dev calls b0 s" "pcs s i \<notin> {Entry, Tested, At_Mutex}" "\<forall>r. pcs s i \<noteq> Finished r"
  shows "holder s = Some i"
proof -
  obtain past b xs ws where lin: "linear dev calls b0 s past b xs ws" using assms(1) by (auto simp: calls_inv_def)
  have "i \<in> set (log s)" using assms by (auto simp: calls_inv_def outside_def)
  then show ?thesis using lin past_finished [OF lin] assms(3) by (fastforce simp: linear_def split: option.splits)
qed

section \<open>The steps keep it\<close>

lemma inv_outside_move:
  assumes inv: "calls_inv dev calls b0 s" and i: "pcs s i \<in> {Entry, Tested, At_Mutex}" and p: "outside (calls i) p"
  shows "calls_inv dev calls b0 (at i p s)"
proof -
  note out = early_not_logged [OF inv i]
  obtain past b xs ws where lin: "linear dev calls b0 s past b xs ws" using inv by (auto simp: calls_inv_def)
  have "i \<notin> set past" using out lin by (auto simp: linear_def split: option.splits)
  then have "(i, x) \<notin> set xs" for x using linear_new [OF lin] by blast
  then have "linear dev calls b0 (at i p s) past b xs ws"
    using lin out by (auto simp: linear_def at_def split: option.splits)
  then show ?thesis by (rule calls_invI) (use calls_inv_parts [OF inv] p in \<open>auto simp: at_def\<close>)
qed

lemma inv_enter:
  assumes inv: "calls_inv dev calls b0 s" and i: "pcs s i = At_Mutex" and free: "holder s = None"
  shows "calls_inv dev calls b0 (at i (enter (calls i)) (s\<lparr>holder := Some i, log := log s @ [i]\<rparr>))"
proof -
  have out: "i \<notin> set (log s)" using early_not_logged [OF inv] i by simp
  obtain past b xs ws where lin: "linear dev calls b0 s past b xs ws" using inv by (auto simp: calls_inv_def)
  then have past: "log s = past" "side s = b" "wire s = ws" using free by (auto simp: linear_def)
  with out have "(i, x) \<notin> set xs" for x using linear_new [OF lin] by blast
  then have "linear dev calls b0 (at i (enter (calls i)) (s\<lparr>holder := Some i, log := log s @ [i]\<rparr>)) past b xs ws"
    using lin past holding_enter [of dev "calls i" "side s"] by (auto simp: linear_def at_def)
  then show ?thesis by (rule calls_invI) (use calls_inv_parts [OF inv] out in \<open>auto simp: at_def\<close>)
qed

text \<open>A step of the holder in its body, and its last.\<close>

lemma inv_hold:
  assumes inv: "calls_inv dev calls b0 s" and h: "holder s = Some i"
    and keep: "holder t = Some i" "log t = log s" "pcs t = (pcs s)(i := p)"
    and own: "\<And>b own. holding dev (calls i) (pcs s i) b (side s) own \<Longrightarrow>
      holding dev (calls i) p b (side t) (own @ new)" "wire t = wire s @ map (Pair i) new"
  shows "calls_inv dev calls b0 t"
proof -
  obtain past b xs ws where lin: "linear dev calls b0 s past b xs ws" using inv by (auto simp: calls_inv_def)
  then obtain own where l: "log s = past @ [i]" "wire s = ws @ map (Pair i) own" "holding dev (calls i) (pcs s i) b (side s) own"
    using h by (auto simp: linear_def)
  have "i \<notin> set past" using inv l(1) by (auto simp: calls_inv_def)
  then have "(i, x) \<notin> set xs" for x using linear_new [OF lin] by blast
  then have "linear dev calls b0 t past b xs ws"
    using lin l keep own(1) [OF l(3)] own(2) by (auto simp: linear_def intro: exI [of _ "own @ new"])
  then show ?thesis by (rule calls_invI) (use calls_inv_parts [OF inv] l(1) keep in auto)
qed

lemma inv_leave:
  assumes inv: "calls_inv dev calls b0 s" and h: "holder s = Some i"
    and keep: "holder t = None" "log t = log s" "pcs t = (pcs s)(i := Finished r)" "wire t = wire s"
    and own: "\<And>b own. holding dev (calls i) (pcs s i) b (side s) own \<Longrightarrow> alone dev (calls i) b = (Returns r, side t, own)"
  shows "calls_inv dev calls b0 t"
proof -
  obtain past b xs ws where lin: "linear dev calls b0 s past b xs ws" using inv by (auto simp: calls_inv_def)
  then obtain own where l: "log s = past @ [i]" "wire s = ws @ map (Pair i) own" "holding dev (calls i) (pcs s i) b (side s) own"
    using h by (auto simp: linear_def)
  have "i \<notin> set past" using inv l(1) by (auto simp: calls_inv_def)
  then have "(i, x) \<notin> set xs" for x using linear_new [OF lin] by blast
  moreover have "serial dev calls (past @ [i]) b0 = (side t, xs @ [(i, Returns r)], ws @ map (Pair i) own)"
    using lin own [OF l(3)] by (simp add: linear_def serial_append)
  ultimately have "linear dev calls b0 t (past @ [i]) (side t) (xs @ [(i, Returns r)]) (ws @ map (Pair i) own)"
    using lin l keep by (auto simp: linear_def)
  then show ?thesis by (rule calls_invI) (use calls_inv_parts [OF inv] l(1) keep in auto)
qed

lemma body_of_others:
  assumes "calls_inv dev calls b0 s" "pcs s i = In_Body" "\<forall>a. calls i \<noteq> Disconnect a" "body (calls i) (side s) = (x, b)"
  shows "calls_inv dev calls b0 (case x of Blocked \<Rightarrow> at i Hung (set_side b s) | Returns r \<Rightarrow> leave i r (set_side b s))"
proof -
  have h: "holder s = Some i" using inside_holds [OF assms(1), of i] assms(2) by simp
  have alone: "alone dev (calls i) b' = (x, b, []) \<and> own = []" if "holding dev (calls i) (pcs s i) b' (side s) own" for b' own
    using holding_body [OF _ assms(4)] that assms(2) by simp
  show ?thesis
  proof (cases x)
    case Blocked
    have "calls_inv dev calls b0 (at i Hung (set_side b s))"
      by (rule inv_hold [OF assms(1) h, where p = Hung and new = "[]"])
        (use h alone Blocked in \<open>auto simp: at_def set_side_def holding_def split: prod.splits\<close>)
    with Blocked show ?thesis by simp
  next
    case (Returns r)
    have "calls_inv dev calls b0 (leave i r (set_side b s))"
      by (rule inv_leave [OF assms(1) h]) (use alone Returns in \<open>auto simp: leave_def at_def set_side_def split: prod.splits\<close>)
    with Returns show ?thesis by simp
  qed
qed

lemma calls_inv_step:
  assumes inv: "calls_inv dev calls b0 s" and step: "call_step dev calls i s = Some t"
  shows "calls_inv dev calls b0 t"
proof -
  have h: "holder s = Some i" if "pcs s i \<notin> {Entry, Tested, At_Mutex}" "\<forall>r. pcs s i \<noteq> Finished r"
    using inside_holds [OF inv that] .
  show ?thesis
  proof (cases "pcs s i")
    case Entry
    have "outside (calls i) (case first_test (calls i) (cl s) of Some ex \<Rightarrow> Finished (Inl ex) | None \<Rightarrow> Tested)"
      by (auto simp: outside_def refused_def split: option.splits)
    with inv_outside_move [OF inv _ this] step Entry show ?thesis by (simp add: call_step_def)
  next
    case Tested
    have "outside (calls i) (case second_test (calls i) (cl s) of Some ex \<Rightarrow> Finished (Inl ex) | None \<Rightarrow> At_Mutex)"
      by (auto simp: outside_def refused_def split: option.splits)
    with inv_outside_move [OF inv _ this] step Tested show ?thesis by (simp add: call_step_def)
  next
    case At_Mutex
    with inv_enter [OF inv At_Mutex] step show ?thesis by (auto simp: call_step_def split: if_splits)
  next
    case (Inside p)
    show ?thesis
    proof (cases p)
      case (Ret r)
      with step Inside have t: "t = leave i (map_sum id Text r) s" by (simp add: call_step_def)
      show ?thesis
        by (rule inv_leave [OF inv h]) (use Inside Ret in \<open>auto simp: t leave_def at_def dest: holding_ret\<close>)
    next
      case (Send rpc k)
      obtain x sent where x: "transmit dev (cl s) (sent_on s) rpc = (x, sent)" by (metis surj_pair)
      let ?p = "case x of Blocked \<Rightarrow> Hung | Returns r \<Rightarrow> Inside (k r)"
      have t: "t = at i ?p (s\<lparr>sent_on := sent, wire := wire s @ map (Pair i) (drop (length (sent_on s)) sent)\<rparr>)"
        using step Inside Send x by (simp add: call_step_def Let_def)
      show ?thesis
        by (rule inv_hold [OF inv h, where p = ?p and new = "drop (length (sent_on s)) sent"])
          (use Inside Send x h in \<open>simp_all add: t at_def holding_send\<close>)
    qed
  next
    case In_Body
    show ?thesis
    proof (cases "\<exists>a. calls i = Disconnect a")
      case True
      then obtain a where a: "calls i = Disconnect a" ..
      obtain m n where d: "disconnect_but_flag (mgr s, cl s) = (m, n)" by (metis surj_pair)
      have t: "t = at i Closing (set_side (m, n, sent_on s) s)" using step In_Body a d by (simp add: call_step_def)
      show ?thesis
        by (rule inv_hold [OF inv h, where p = Closing and new = "[]"])
          (use In_Body a d h in \<open>simp_all add: t at_def set_side_def holding_disconnect\<close>)
    next
      case False
      obtain x b where x: "body (calls i) (side s) = (x, b)" by (metis surj_pair)
      have "t = (case x of Blocked \<Rightarrow> at i Hung (set_side b s) | Returns r \<Rightarrow> leave i r (set_side b s))"
        using step In_Body False x by (cases x; cases "calls i") (auto simp: call_step_def)
      with body_of_others [OF inv In_Body _ x] False show ?thesis by simp
    qed
  next
    case Closing
    then have t: "t = leave i (Inr Done) (s\<lparr>cl := (cl s)\<lparr>is_connected := False\<rparr>\<rparr>)" using step by (simp add: call_step_def)
    show ?thesis
      by (rule inv_leave [OF inv h]) (use Closing in \<open>auto simp: t leave_def at_def dest: holding_closing\<close>)
  qed (use step in \<open>simp_all add: call_step_def\<close>)
qed

section \<open>Serialisation\<close>

lemma calls_inv_start: "calls_inv dev calls b0 (no_calls b0)"
  by (rule calls_invI [of _ _ _ _ "[]" b0 "[]" "[]"])
    (auto simp: linear_def no_calls_def outside_def split: prod.splits)

lemma calls_run_inv: "calls_run dev calls s is t \<Longrightarrow> calls_inv dev calls b0 s \<Longrightarrow> calls_inv dev calls b0 t"
  by (induction rule: calls_run.induct) (auto dest: calls_inv_step)

lemma holding_prefix:
  assumes "holding dev c p b now own"
  shows "prefix own (snd (snd (alone dev c b)))"
proof (cases p)
  case (Inside q)
  with assms obtain m n sent a rq where b: "b = (m, n, sent)" "c = Rpc_Call a rq"
    and run: "run_proc (transmit dev n) (method_of a rq) sent = run_proc (transmit dev n) q (sent @ own)"
    by (cases b; cases now) (auto simp: holding_def)
  have "prefix (sent @ own) (snd (run_proc (transmit dev n) q (sent @ own)))" by (rule run_proc_extends)
  then show ?thesis using b run by (auto simp: alone_def elim!: prefixE split: prod.splits)
qed (use assms in \<open>simp_all add: holding_def split: prod.splits\<close>)

lemma serial_grouped:
  "distinct is \<Longrightarrow> serial dev calls is b = (b', xs, ws) \<Longrightarrow> \<exists>own. ws = concat (map (\<lambda>i. map (Pair i) (own i)) is)"
proof (induction "is" arbitrary: b b' ws xs)
  case (Cons i "is")
  obtain x b1 vs where a: "alone dev (calls i) b = (x, b1, vs)" by (metis surj_pair)
  obtain b2 ys us where s: "serial dev calls is b1 = (b2, ys, us)" by (metis surj_pair)
  obtain own where "us = concat (map (\<lambda>i. map (Pair i) (own i)) is)" using Cons.IH [OF _ s] Cons.prems(1) by auto
  moreover have "map (\<lambda>j. map (Pair j) ((own(i := vs)) j)) is = map (\<lambda>j. map (Pair j) (own j)) is"
    using Cons.prems(1) by auto
  ultimately have "map (Pair i) vs @ us = concat (map (\<lambda>j. map (Pair j) ((own(i := vs)) j)) (i # is))"
    by (simp only: list.map concat.simps fun_upd_same)
  then show ?case using Cons.prems(2) a s by (intro exI [of _ "own(i := vs)"]) (simp del: fun_upd_apply)
qed simp

text \<open>What a run of the calls guarantees, against the calls of the log run one after the other.\<close>

definition serialised :: "device \<Rightarrow> (nat \<Rightarrow> call) \<Rightarrow> side \<Rightarrow> calls_state \<Rightarrow> bool" where
  "serialised dev calls b0 s \<longleftrightarrow>
     (case serial dev calls (log s) b0 of (b, xs, ws) \<Rightarrow>
        distinct (log s) \<and> prefix (wire s) ws \<and> (holder s = None \<longrightarrow> side s = b \<and> wire s = ws) \<and>
        (\<forall>i r. pcs s i = Finished r \<longrightarrow>
           (if i \<in> set (log s) then (i, Returns r) \<in> set xs
            else (\<exists>ex. r = Inl ex \<and> refused (calls i) ex) \<and> i \<notin> fst ` set (wire s))))"

lemma inv_serialised:
  assumes inv: "calls_inv dev calls b0 s"
  shows "serialised dev calls b0 s \<and> (\<exists>own. wire s = concat (map (\<lambda>i. map (Pair i) (own i)) (log s)))"
proof -
  obtain past b xs ws where lin: "linear dev calls b0 s past b xs ws" using inv by (auto simp: calls_inv_def)
  then have ser: "serial dev calls past b0 = (b, xs, ws)" by (simp add: linear_def)
  note d = calls_inv_parts [OF inv]
  have out: "pcs s i = Finished r \<Longrightarrow> i \<notin> set (log s) \<Longrightarrow> \<exists>ex. r = Inl ex \<and> refused (calls i) ex" for i r
    using d(2) [of i] by (auto simp: outside_def)
  have fin: "(i, Returns r) \<in> set xs" if "pcs s i = Finished r" "i \<in> set past" for i r
    using that lin linear_set [OF lin] by (fastforce simp: linear_def)
  have names: "fst ` set ws \<subseteq> set past" using serial_names [OF ser] by simp
  show ?thesis
  proof (cases "holder s")
    case None
    then have l: "log s = past" "side s = b" "wire s = ws" using lin by (auto simp: linear_def)
    moreover obtain own where "ws = concat (map (\<lambda>i. map (Pair i) (own i)) past)" using serial_grouped [OF _ ser] d(1) l(1) by auto
    ultimately show ?thesis using d(1) ser out fin names by (fastforce simp: serialised_def)
  next
    case (Some h)
    then obtain own where l: "log s = past @ [h]" "wire s = ws @ map (Pair h) own" "holding dev (calls h) (pcs s h) b (side s) own"
      using lin by (auto simp: linear_def)
    obtain x b' vs where al: "alone dev (calls h) b = (x, b', vs)" by (metis surj_pair)
    have "prefix own vs" using holding_prefix [OF l(3)] al by simp
    then have "prefix (wire s) (ws @ map (Pair h) vs)" using l(2) by (simp add: map_mono_prefix)
    moreover have "serial dev calls (log s) b0 = (b', xs @ [(h, x)], ws @ map (Pair h) vs)" using ser al by (simp add: l(1) serial_append)
    moreover have "pcs s h \<noteq> Finished r" for r using not_outside [OF l(3)] by blast
    then have "pcs s i = Finished r \<Longrightarrow> i \<in> set (log s) \<Longrightarrow> (i, Returns r) \<in> set xs" for i r using fin [of i r] l(1) by auto
    moreover have "i \<notin> set (log s) \<Longrightarrow> i \<notin> fst ` set (wire s)" for i using names l(1,2) by auto
    ultimately have "serialised dev calls b0 s" using d(1) out Some by (auto simp: serialised_def)
    moreover obtain own' where w: "ws = concat (map (\<lambda>i. map (Pair i) (own' i)) past)" using serial_grouped [OF _ ser] d(1) l(1) by auto
    have eq: "map (\<lambda>j. map (Pair j) ((own'(h := own)) j)) past = map (\<lambda>j. map (Pair j) (own' j)) past" using d(1) l(1) by auto
    have "wire s = concat (map (\<lambda>i. map (Pair i) ((own'(h := own)) i)) (log s))"
      by (simp add: l(1,2) w eq fun_upd_same del: fun_upd_apply)
    ultimately show ?thesis by blast
  qed
qed

text \<open>
  C10. The calls on a client are serialised. However the threads interleave, the effect is that of the calls run whole,
  one after the other, in the order in which they took the mutex: every finished call has the result it has
  there, the session and the manager are as there when nobody is inside, and the requests of a call stand together on the
  wire, with none of another call between them (so a locked edit is not interrupted). A call that never took the mutex
  was refused by its test and wrote nothing.
\<close>

theorem calls_are_serialised:
  assumes "calls_run dev calls (no_calls b0) is s"
  shows "serialised dev calls b0 s \<and> (\<exists>own. wire s = concat (map (\<lambda>i. map (Pair i) (own i)) (log s)))"
  using inv_serialised [OF calls_run_inv [OF assms calls_inv_start]] .

section \<open>Termination\<close>

fun within :: "nat \<Rightarrow> proc \<Rightarrow> bool" where
  "within n (Ret r) = True"
| "within 0 (Send rpc k) = False"
| "within (Suc n) (Send rpc k) = (\<forall>x. within n (k x))"

lemma method_within: "within 6 (method_of a q)"
proof -
  have "within 6 (non_blocking_method q)"
    by (cases q) (simp_all add: one_rpc_def eval_nat_numeral split: sum.splits)
  then show ?thesis by (simp add: method_of_def same_methods split: api.splits)
qed

text \<open>An upper bound of the moves a call has left.\<close>

fun moves_left :: "nat \<Rightarrow> pc \<Rightarrow> bool" where
  "moves_left n Entry = (10 \<le> n)"
| "moves_left n Tested = (9 \<le> n)"
| "moves_left n At_Mutex = (8 \<le> n)"
| "moves_left n (Inside p) = (1 \<le> n \<and> within (n - 1) p)"
| "moves_left n In_Body = (2 \<le> n)"
| "moves_left n Closing = (1 \<le> n)"
| "moves_left n Hung = True"
| "moves_left n (Finished r) = True"

lemma moves_enter: "moves_left 7 (enter c)"
  using method_within by (cases c) (simp_all add: enter_def)

lemma within_Send:
  assumes "within (n - Suc 0) (Send rpc k)"
  shows "Suc 0 \<le> n - Suc 0" "within (n - Suc (Suc 0)) (k x)"
proof -
  obtain m where "n - Suc 0 = Suc m" using assms by (cases "n - Suc 0") auto
  then have "n = Suc (Suc m)" by simp
  then show "Suc 0 \<le> n - Suc 0" "within (n - Suc (Suc 0)) (k x)" using assms by simp_all
qed

lemma step_only: "call_step dev calls i s = Some t \<Longrightarrow> j \<noteq> i \<Longrightarrow> pcs t j = pcs s j"
  by (auto simp: call_step_def at_def leave_def set_side_def Let_def
      split: pc.splits proc.splits prod.splits outcome.splits call.splits option.splits if_splits)

lemma run_only: "calls_run dev calls s is t \<Longrightarrow> j \<notin> set is \<Longrightarrow> pcs t j = pcs s j"
  by (induction rule: calls_run.induct) (auto dest: step_only)

lemma step_moves:
  assumes "call_step dev calls i s = Some t" "moves_left n (pcs s i)"
  shows "(\<exists>m<n. moves_left m (pcs t i)) \<and> (\<forall>j. j \<noteq> i \<longrightarrow> pcs t j = pcs s j)"
proof (cases "pcs s i = At_Mutex")
  case True
  then have "8 \<le> n" "pcs t i = enter (calls i)" "\<forall>j. j \<noteq> i \<longrightarrow> pcs t j = pcs s j"
    using assms by (auto simp: call_step_def at_def split: if_splits)
  then show ?thesis using moves_enter by (auto intro!: exI [of _ 7])
next
  case False
  have "0 < n \<and> moves_left (n - 1) (pcs t i) \<and> (\<forall>j. j \<noteq> i \<longrightarrow> pcs t j = pcs s j)"
  proof (cases "pcs s i")
    case (Inside p)
    then show ?thesis
      using assms within_Send by (cases p) (auto simp: call_step_def at_def leave_def Let_def split: prod.splits outcome.splits)
  next
    case In_Body
    then show ?thesis
      using assms by (cases "calls i") (auto simp: call_step_def at_def leave_def set_side_def split: prod.splits outcome.splits)
  qed (use assms False in \<open>auto simp: call_step_def at_def leave_def split: option.splits\<close>)
  then show ?thesis by (intro conjI exI [of _ "n - 1"]) simp_all
qed

lemma run_moves:
  assumes "calls_run dev calls s is t" "\<forall>j\<in>I. moves_left (f j) (pcs s j)" "set is \<subseteq> I" "finite I"
  shows "\<exists>g. (\<forall>j\<in>I. moves_left (g j) (pcs t j)) \<and> length is + sum g I \<le> sum f I"
  using assms
proof (induction rule: calls_run.induct)
  case (nothing s)
  then show ?case by (intro exI [of _ f]) simp
next
  case (move s "is" t i u)
  then obtain g where g: "\<forall>j\<in>I. moves_left (g j) (pcs t j)" "length is + sum g I \<le> sum f I" and i: "i \<in> I" by auto
  from step_moves [OF move(2)] g(1) i obtain m where m: "m < g i" "moves_left m (pcs u i)"
    "\<forall>j. j \<noteq> i \<longrightarrow> pcs u j = pcs t j" by blast
  have "sum (g(i := m)) I < sum g I" by (rule sum_strict_mono_ex1) (use m(1) i move(6) in auto)
  with g m(2,3) show ?case by (intro exI [of _ "g(i := m)"]) auto
qed

text \<open>A state in which none of the calls \<open>I\<close> can move.\<close>

lemma stuck_call_cases:
  assumes "call_step dev calls i s = None"
  shows "(\<exists>r. pcs s i = Finished r) \<or> pcs s i = Hung \<or> (pcs s i = At_Mutex \<and> holder s \<noteq> None)"
proof (cases "pcs s i")
  case (Inside p)
  then show ?thesis using assms by (cases p) (auto simp: call_step_def Let_def split: prod.splits)
next
  case In_Body
  then show ?thesis using assms by (cases "calls i") (auto simp: call_step_def split: prod.splits outcome.splits)
qed (use assms in \<open>auto simp: call_step_def split: if_splits option.splits\<close>)

text \<open>Once a call hangs, nobody enters.\<close>

lemma hung_step:
  assumes inv: "calls_inv dev calls b0 s" and h: "holder s = Some h" "pcs s h = Hung"
    and step: "call_step dev calls i s = Some t"
  shows "holder t = Some h \<and> pcs t h = Hung \<and> log t = log s \<and> wire t = wire s \<and> (pcs s i = Entry \<or> pcs s i = Tested)"
proof -
  have "i \<noteq> h" using step h by (auto simp: call_step_def)
  then have "pcs s i \<in> {Entry, Tested, At_Mutex} \<or> (\<exists>r. pcs s i = Finished r)" using inside_holds [OF inv, of i] h(1) by auto
  then show ?thesis using step h \<open>i \<noteq> h\<close> by (auto simp: call_step_def at_def split: option.splits)
qed

lemma hung_run:
  "calls_run dev calls s is t \<Longrightarrow> calls_inv dev calls b0 s \<Longrightarrow> holder s = Some h \<Longrightarrow> pcs s h = Hung \<Longrightarrow>
     holder t = Some h \<and> pcs t h = Hung \<and> log t = log s \<and> wire t = wire s \<and>
     (\<forall>i. pcs s i = At_Mutex \<longrightarrow> pcs t i = At_Mutex)"
proof (induction rule: calls_run.induct)
  case (move s "is" t i u)
  then have t: "holder t = Some h" "pcs t h = Hung" "log t = log s" "wire t = wire s"
      "\<forall>i. pcs s i = At_Mutex \<longrightarrow> pcs t i = At_Mutex" and inv: "calls_inv dev calls b0 t"
    using calls_run_inv by blast+
  note st = hung_step [OF inv t(1,2) move(2)]
  then have "pcs t j = At_Mutex \<longrightarrow> pcs u j = At_Mutex" for j
    using move(2) by (cases "j = i") (auto simp: call_step_def at_def split: option.splits)
  with st t show ?case by simp
qed simp

text \<open>
  C14. Calls end, unless one waits for ever. A run of \<open>k\<close> calls has at most \<open>10 * k\<close> moves, and when none of them can move
  every one of them is finished, or one of them holds the mutex inside a wait of libssh2 or the system that does not
  return. There is no other way to get stuck, but this one stops the whole client: for ever after, no other call enters,
  and one that waits for the mutex, a \<open>disconnect\<close> included, stays there.
\<close>

theorem calls_end_unless_one_hangs:
  assumes run: "calls_run dev calls (no_calls b0) is s" and "set is \<subseteq> {..<k}"
  shows "length is \<le> 10 * k \<and>
    ((\<forall>i<k. call_step dev calls i s = None) \<longrightarrow>
       (\<forall>i<k. \<exists>r. pcs s i = Finished r) \<or> (\<exists>h<k. holder s = Some h \<and> pcs s h = Hung)) \<and>
    (\<forall>h js t. holder s = Some h \<and> pcs s h = Hung \<and> calls_run dev calls s js t \<longrightarrow>
       log t = log s \<and> (\<forall>i. pcs s i = At_Mutex \<longrightarrow> pcs t i = At_Mutex))"
proof -
  have inv: "calls_inv dev calls b0 s" using calls_run_inv [OF run calls_inv_start] .
  have "\<forall>j\<in>{..<k}. moves_left 10 (pcs (no_calls b0) j)" by (simp add: no_calls_def split: prod.splits)
  from run_moves [OF run this assms(2)] have "length is \<le> 10 * k" by auto
  moreover have "\<exists>h<k. holder s = Some h \<and> pcs s h = Hung"
    if stuck: "\<forall>i<k. call_step dev calls i s = None" and i: "i < k" "\<forall>r. pcs s i \<noteq> Finished r" for i
  proof -
    have "holder s \<noteq> None" using stuck_call_cases [of dev calls i s] stuck i inside_holds [OF inv, of i] by auto
    then obtain h where h: "holder s = Some h" by auto
    then obtain b now own where "holding dev (calls h) (pcs s h) b now own" using inv by (auto simp: calls_inv_def linear_def)
    from not_outside [OF this] have h': "pcs s h \<notin> {Entry, Tested, At_Mutex}" "\<And>r. pcs s h \<noteq> Finished r" by auto
    moreover have "pcs (no_calls b0) h = Entry" by (simp add: no_calls_def split: prod.splits)
    ultimately have "h \<in> set is" using run_only [OF run, of h] by auto
    then have "h < k" using assms(2) by auto
    then show ?thesis using stuck_call_cases [of dev calls h s] stuck h h' by auto
  qed
  moreover note hung_run [OF _ inv]
  ultimately show ?thesis by blast
qed

section \<open>Runs that the theorems apply to\<close>

fun do_calls :: "device \<Rightarrow> (nat \<Rightarrow> call) \<Rightarrow> nat list \<Rightarrow> calls_state \<Rightarrow> calls_state option" where
  "do_calls dev calls [] s = Some s"
| "do_calls dev calls (i # is) s = Option.bind (call_step dev calls i s) (do_calls dev calls is)"

lemma calls_run_first: "calls_run dev calls t is u \<Longrightarrow> call_step dev calls i s = Some t \<Longrightarrow> calls_run dev calls s (i # is) u"
proof (induction rule: calls_run.induct)
  case (nothing t)
  then show ?case using calls_run.move [where t = s and u = t, OF calls_run.nothing] by force
next
  case (move t "is" j u v)
  from calls_run.move [OF move(3) [OF move(4)] move(2)] show ?case by simp
qed

lemma do_calls_sound: "do_calls dev calls is s = Some t \<Longrightarrow> calls_run dev calls s is t"
  by (induction "is" arbitrary: s) (auto simp: bind_eq_Some_conv intro: calls_run.nothing calls_run_first)

text \<open>A client in the asynchronous mode, with two calls.\<close>

definition online :: nc where
  "online = basic\<lparr>is_connected := True, rpc_end := open_channel (open_socket 4 (init_session no_endpoint))\<rparr>"

definition agreeing :: device where
  "agreeing sent rpc = Returns (Inr ''<ok/>'')"

fun two_calls :: "nat \<Rightarrow> call" where
  "two_calls 0 = Rpc_Call Async_Api (Edit_Config ''running'' ''<x/>'' True)"
| "two_calls _ = Rpc_Call Async_Api Commit"

lemma online_parts: "is_connected online" "\<not> is_blocking online" "channel_ptr (rpc_end online) \<noteq> None"
  by (simp_all add: online_def new_client_def no_endpoint_def resource_defs)

lemmas calls_eval = call_step_def at_def leave_def enter_def method_of_def one_rpc_def transmit_def Let_def no_calls_def
  agreeing_def online_parts

lemma two_calls_run:
  "\<exists>s. calls_run agreeing two_calls (no_calls (empty_manager, online, [])) [0, 1, 0, 1, 0, 0, 0, 0, 1, 1, 1] s \<and> holder s = None \<and>
     log s = [0, 1] \<and> pcs s 0 = Finished (Inr (Text ''<ok/>'')) \<and>
     wire s = [(0, edit_config_rpc ''running'' ''<x/>''), (0, validate_rpc ''running''), (1, commit_rpc)]"
proof -
  obtain s where s: "do_calls agreeing two_calls [0, 1, 0, 1, 0, 0, 0, 0, 1, 1, 1] (no_calls (empty_manager, online, [])) = Some s"
    and "holder s = None \<and> log s = [0, 1] \<and> pcs s 0 = Finished (Inr (Text ''<ok/>'')) \<and>
      wire s = [(0, edit_config_rpc ''running'' ''<x/>''), (0, validate_rpc ''running''), (1, commit_rpc)]"
    by (simp add: calls_eval)
  then show ?thesis using do_calls_sound by blast
qed

theorem calls_are_serialised_witness:
  "\<exists>s. log s = [0, 1] \<and> serialised agreeing two_calls (empty_manager, online, []) s \<and> length (wire s) = 3"
  using two_calls_run calls_are_serialised by force

text \<open>A device that stops answering, and a client that tries to disconnect.\<close>

definition silent :: device where
  "silent sent rpc = Blocked"

fun stuck_calls :: "nat \<Rightarrow> call" where
  "stuck_calls 0 = Rpc_Call Async_Api Commit"
| "stuck_calls _ = Disconnect Async_Api"

lemma stuck_calls_run:
  "\<exists>s. calls_run silent stuck_calls (no_calls (empty_manager, online, [])) [0, 1, 0, 1, 0, 0] s \<and> holder s = Some 0 \<and>
     pcs s 0 = Hung \<and> pcs s 1 = At_Mutex"
proof -
  obtain s where s: "do_calls silent stuck_calls [0, 1, 0, 1, 0, 0] (no_calls (empty_manager, online, [])) = Some s"
    and "holder s = Some 0 \<and> pcs s 0 = Hung \<and> pcs s 1 = At_Mutex"
    by (simp add: calls_eval silent_def)
  then show ?thesis using do_calls_sound by blast
qed

theorem calls_end_unless_one_hangs_witness:
  "\<exists>s. pcs s 1 = At_Mutex \<and> (\<forall>js t. calls_run silent stuck_calls s js t \<longrightarrow> pcs t 1 = At_Mutex)"
proof -
  obtain s where s: "calls_run silent stuck_calls (no_calls (empty_manager, online, [])) [0, 1, 0, 1, 0, 0] s"
    "holder s = Some 0" "pcs s 0 = Hung" "pcs s 1 = At_Mutex"
    using stuck_calls_run by blast
  have "set [0, 1, 0, 1, 0, 0] \<subseteq> {..<2::nat}" by simp
  from calls_end_unless_one_hangs [OF s(1) this] s(2-4) show ?thesis by blast
qed

section \<open>The test and the mutex\<close>

text \<open>A synchronous RPC that is overtaken, between its test and the mutex, by a disconnect and an asynchronous connect.\<close>

definition overtaken :: "rpc_method \<Rightarrow> connect_env \<Rightarrow> nat \<Rightarrow> call" where
  "overtaken q e i = (if i = 0 then Rpc_Call Sync_Api q else if i = 1 then Disconnect Sync_Api else Connect_Async e)"

lemma overtaken_simps [simp]:
  "overtaken q e 0 = Rpc_Call Sync_Api q" "overtaken q e 1 = Disconnect Sync_Api" "overtaken q e (Suc 0) = Disconnect Sync_Api"
  "overtaken q e 2 = Connect_Async e"
  by (simp_all add: overtaken_def)

text \<open>
  The test of the mode is not part of the call. A synchronous RPC method that has passed its test on a client in the blocking
  mode can reach its body on a client that was meanwhile disconnected and connected again without blocking: it
  holds the mutex and is about to send its first RPC with the blocking functions on a session that does not block, although its own
  test, made now, would refuse it.
\<close>

theorem mode_test_is_not_atomic:
  assumes "is_connected n" "is_blocking n" "connect_non_blocking e (snd (disconnect (m, n))) = (Go, n')"
  shows "\<exists>s. calls_run dev (overtaken q e) (no_calls (m, n, sent)) [0, 0, 1, 1, 1, 1, 1, 2, 2, 2, 2, 0] s \<and>
    holder s = Some 0 \<and> pcs s 0 = Inside (method_of Sync_Api q) \<and> cl s = n' \<and>
    gate Sync_Api (cl s) = Some (other_mode Sync_Api)"
proof -
  obtain m1 n1 where d: "disconnect_but_flag (m, n) = (m1, n1)" by (metis surj_pair)
  then have c: "connect_non_blocking e (n1\<lparr>is_connected := False\<rparr>) = (Go, n')" using assms(3) by (simp add: disconnect_in_two)
  then have n': "is_connected n'" "\<not> is_blocking n'"
    by (auto simp: connect_non_blocking_def Let_def caught_def split: prod.splits if_splits flow.splits)
  obtain s where s: "do_calls dev (overtaken q e) [0, 0, 1, 1, 1, 1, 1, 2, 2, 2, 2, 0] (no_calls (m, n, sent)) = Some s"
    and "holder s = Some 0 \<and> pcs s 0 = Inside (method_of Sync_Api q) \<and> cl s = n'"
    using assms(1,2) by (simp add: call_step_def at_def leave_def enter_def Let_def no_calls_def d c set_side_def of_flow_def)
  moreover have "gate Sync_Api n' = Some (other_mode Sync_Api)" using n' by (simp add: gate_cases)
  ultimately show ?thesis using do_calls_sound by blast
qed

theorem mode_test_is_not_atomic_witness:
  "\<exists>s e. calls_run agreeing (overtaken Commit e) (no_calls (empty_manager, basic\<lparr>is_connected := True, is_blocking := True\<rparr>, []))
      [0, 0, 1, 1, 1, 1, 1, 2, 2, 2, 2, 0] s \<and> gate Sync_Api (cl s) \<noteq> None"
proof -
  let ?n = "basic\<lparr>is_connected := True, is_blocking := True\<rparr>"
  have "config (snd (disconnect (empty_manager, ?n))) = BASE_CLIENT_KWARGS" "\<not> is_connected (snd (disconnect (empty_manager, ?n)))"
    by (simp_all add: disconnect_def delete_notification_session_def mark_dead_def mark_notification_dead_def Let_def
        new_client_def initial_notif_def)
  then have "\<exists>n'. connect_non_blocking (prompt 3) (snd (disconnect (empty_manager, ?n))) = (Go, n')"
    by (simp add: connect_non_blocking_def prompt_connects caught_def Let_def)
  then obtain n' where "connect_non_blocking (prompt 3) (snd (disconnect (empty_manager, ?n))) = (Go, n')" ..
  from mode_test_is_not_atomic [OF _ _ this, of agreeing Commit "[]"] show ?thesis by force
qed

end
