(* ===== verification/Async_Calls.thy ===== *)
theory Async_Calls
  imports Thread_Pool Async_Bridge
begin

text \<open>
  Asynchronous methods end to end: the pool of \<open>include/thread_pool.hpp\<close> and the bridge of \<open>src/bindings.cpp\<close> together.
  A method such as \<open>get_async\<close> puts a task into the pool (\<open>src/netconf_client_async.cpp\<close>) and wraps the future the
  pool gives; when a worker has run the task, the task's promise holds its result. Both orders, the wrapping before
  the end of the task and after it, are steps of the system. \<open>res t\<close> is what task \<open>t\<close> returns or throws.
\<close>

section \<open>The system\<close>

type_synonym 'v async_sys = "pool \<times> 'v bridge"

definition started :: "nat \<Rightarrow> 'v async_sys" where
  "started n = (ThreadPool n, no_bridge)"

text \<open>The task a worker finishes in its next step, if it does.\<close>

definition ending :: "worker \<Rightarrow> task list" where
  "ending w = (case phase w of Executing t \<Rightarrow> [t] | _ \<Rightarrow> [])"

text \<open>The end of a task's function sets its promise.\<close>

definition set_promises :: "(nat \<Rightarrow> exn + 'v) \<Rightarrow> task list \<Rightarrow> 'v bridge \<Rightarrow> 'v bridge" where
  "set_promises res ts b = fold (\<lambda>t b. b\<lparr>promises := (promises b)(t \<mapsto> res t)\<rparr>) ts b"

inductive async_step :: "(nat \<Rightarrow> exn + 'v) \<Rightarrow> 'v async_sys \<Rightarrow> 'v async_sys \<Rightarrow> bool" for res where
  put: "pool_step p (Enqueue counts t) q \<Longrightarrow> t \<notin># all_accepted p \<Longrightarrow> async_step res (p, b) (q, b)"
| wrap: "t \<in># all_accepted p \<Longrightarrow> t \<notin> set (submitted b) \<Longrightarrow> async_step res (p, b) (p, wrap_future t b)"
| work: "i < length (workers p) \<Longrightarrow> worker_step (stop p) (workers p ! i) = Some w \<Longrightarrow>
    async_step res (p, b) (p\<lparr>workers := (workers p)[i := w]\<rparr>, set_promises res (ending (workers p ! i)) b)"
| stop: "pool_step p Stop q \<Longrightarrow> async_step res (p, b) (q, b)"
| wake: "batch b = [] \<Longrightarrow> still_pending b = [] \<Longrightarrow> async_step res (p, b) (p, take_batch b)"
| poll: "batch b \<noteq> [] \<Longrightarrow> async_step res (p, b) (p, poll_next b)"
| again: "batch b = [] \<Longrightarrow> async_step res (p, b) (p, put_back b)"
| callback: "\<not> loop_closed b \<Longrightarrow> async_step res (p, b) (p, run_callback b)"
| cancel: "futures b i = Pending \<Longrightarrow> i \<in> set (submitted b) \<Longrightarrow>
    async_step res (p, b) (p, b\<lparr>futures := (futures b)(i := Cancelled)\<rparr>)"
| close: "async_step res (p, b) (p, b\<lparr>loop_closed := True\<rparr>)"

inductive async_run :: "(nat \<Rightarrow> exn + 'v) \<Rightarrow> 'v async_sys \<Rightarrow> 'v async_sys \<Rightarrow> bool" for res where
  begin_run: "async_run res s s"
| next_step: "async_run res s t \<Longrightarrow> async_step res t u \<Longrightarrow> async_run res s u"

section \<open>Invariant\<close>

text \<open>The pool is in order, no task was accepted twice, and the promises are those of the finished tasks.\<close>

definition async_inv :: "(nat \<Rightarrow> exn + 'v) \<Rightarrow> 'v async_sys \<Rightarrow> bool" where
  "async_inv res s \<longleftrightarrow>
     (case s of (p, b) \<Rightarrow> pool_inv p \<and> (\<forall>t. count (all_accepted p) t \<le> 1) \<and> bridge_run no_bridge b \<and>
        (\<forall>t. promises b t = (if t \<in># all_finished p then Some (res t) else None)) \<and> set (submitted b) \<subseteq> set_mset (all_accepted p))"

lemma no_tasks: "all_accepted (ThreadPool n) = {#}" "all_finished (ThreadPool n) = {#}"
  by (simp_all add: ThreadPool_def new_worker_def all_accepted_def all_finished_def)

lemma async_inv_start: "async_inv res (started n)"
  by (simp add: async_inv_def started_def pool_inv_new no_tasks bridge_run.start) (simp add: no_bridge_def)

lemma bridge_promises [simp]:
  "promises (wrap_future i b) = promises b" "promises (take_batch b) = promises b" "promises (put_back b) = promises b"
  "promises (poll_next b) = promises b" "promises (run_callback b) = promises b"
  by (simp_all add: wrap_future_def take_batch_def put_back_def poll_next_def poller_def run_callback_def Let_def
      split: list.splits option.splits prod.splits)

lemma bridge_submitted [simp]:
  "submitted (wrap_future i b) = submitted b @ [i]" "submitted (take_batch b) = submitted b" "submitted (put_back b) = submitted b"
  "submitted (poll_next b) = submitted b" "submitted (run_callback b) = submitted b"
  by (simp_all add: wrap_future_def take_batch_def put_back_def poll_next_def poller_def run_callback_def Let_def
      split: list.splits option.splits prod.splits)

text \<open>A worker's step, with the promise it may set.\<close>

lemma executing_open:
  assumes "i < length (workers p)" "phase (workers p ! i) = Executing t"
  shows "t \<in># all_open p"
proof -
  have "workers p ! i \<in> set (workers p)" using assms(1) by simp
  then show ?thesis using assms(2) by (auto simp: all_open_def intro!: bexI [of _ "workers p ! i"])
qed

lemma executing_not_finished:
  assumes "async_inv res (p, b)" "i < length (workers p)" "phase (workers p ! i) = Executing t"
  shows "t \<notin># all_finished p"
proof -
  have "0 < count (all_open p) t" using executing_open [OF assms(2,3)] by simp
  moreover have "count (all_accepted p) t \<le> 1" "all_accepted p = all_finished p + all_open p"
    using assms(1) accepted_split by (auto simp: async_inv_def)
  then have "count (all_finished p) t + count (all_open p) t \<le> 1" by simp
  ultimately have "count (all_finished p) t = 0" by linarith
  then show ?thesis by (simp add: count_eq_zero_iff)
qed

lemma work_inv:
  assumes inv: "async_inv res (p, b)" and i: "i < length (workers p)" and w: "worker_step (stop p) (workers p ! i) = Some w"
  shows "async_inv res (p\<lparr>workers := (workers p)[i := w]\<rparr>, set_promises res (ending (workers p ! i)) b)"
proof -
  let ?p = "p\<lparr>workers := (workers p)[i := w]\<rparr>"
  have step: "pool_step p (Work i) ?p" by (rule pool_step.work [OF i w])
  then have p: "pool_inv ?p" "all_accepted ?p = all_accepted p"
    using pool_inv_step [OF _ step] all_accepted_step [OF step] inv by (auto simp: async_inv_def)
  have fin: "all_finished ?p = all_finished p + mset (ending (workers p ! i))"
    using all_finished_work [OF i w] by (simp add: ending_def)
  have "bridge_run no_bridge (set_promises res (ending (workers p ! i)) b)"
  proof (cases "phase (workers p ! i)")
    case (Executing t)
    have "promises b t = None" using executing_not_finished [OF inv i Executing] inv by (simp add: async_inv_def)
    from bridge_run.step [OF _ fulfil [OF this]] inv Executing show ?thesis
      by (simp add: async_inv_def ending_def set_promises_def)
  qed (use inv in \<open>simp_all add: async_inv_def ending_def set_promises_def\<close>)
  then show ?thesis
    using p fin inv by (auto simp: async_inv_def ending_def set_promises_def split: phase.splits)
qed

lemma async_inv_step: "async_step res s t \<Longrightarrow> async_inv res s \<Longrightarrow> async_inv res t"
proof (induction rule: async_step.induct)
  case (put p counts t q b)
  have "all_accepted q = all_accepted p + {#t#}" using all_accepted_step [OF put(1)] by simp
  moreover have "all_finished q = all_finished p" using put(1) by (auto elim!: enqE intro: all_finished_enqueue)
  moreover have "pool_inv q" using pool_inv_step [OF _ put(1)] put(3) by (simp add: async_inv_def)
  ultimately show ?case using put(2,3) by (auto simp: async_inv_def not_in_iff)
next
  case (wrap t p b)
  then show ?case using bridge_run.step [OF _ submit [of t b]] by (auto simp: async_inv_def)
next
  case (work i p w b)
  then show ?case using work_inv by blast
next
  case (stop p q b)
  then have "workers q = workers p" by (auto elim: stopE)
  moreover have "pool_inv q" using pool_inv_step [OF _ stop(1)] stop(2) by (simp add: async_inv_def)
  ultimately show ?case using stop(2) by (simp add: async_inv_def all_accepted_def all_finished_def)
next
  case (wake b p)
  then show ?case using bridge_run.step [OF _ bridge_step.wake] by (auto simp: async_inv_def)
next
  case (poll b p)
  then show ?case using bridge_run.step [OF _ bridge_step.poll] by (auto simp: async_inv_def)
next
  case (again b p)
  then show ?case using bridge_run.step [OF _ bridge_step.again] by (auto simp: async_inv_def)
next
  case (callback b p)
  then show ?case using bridge_run.step [OF _ bridge_step.callback] by (auto simp: async_inv_def)
next
  case (cancel b i p)
  then show ?case using bridge_run.step [OF _ bridge_step.cancel] by (auto simp: async_inv_def)
next
  case (close p b)
  then show ?case using bridge_run.step [OF _ bridge_step.close] by (auto simp: async_inv_def)
qed

lemma async_run_inv: "async_run res s t \<Longrightarrow> async_inv res s \<Longrightarrow> async_inv res t"
  by (induction rule: async_run.induct) (auto dest: async_inv_step)

section \<open>One call, one answer\<close>

text \<open>What the application sees: for every call it made, its asyncio future.\<close>

definition seen :: "'v async_sys \<Rightarrow> nat \<Rightarrow> 'v py_future option" where
  "seen s t = (case s of (p, b) \<Rightarrow> if t \<in> set (submitted b) then Some (futures b t) else None)"

text \<open>The specification: a call is made, a pending one is cancelled, or a pending one is answered with its own result.\<close>

inductive call_spec :: "(nat \<Rightarrow> exn + 'v) \<Rightarrow> (nat \<Rightarrow> 'v py_future option) \<Rightarrow> (nat \<Rightarrow> 'v py_future option) \<Rightarrow> bool" for res where
  unseen: "call_spec res a a"
| made: "a t = None \<Longrightarrow> call_spec res a (a(t \<mapsto> Pending))"
| cancelled: "a t = Some Pending \<Longrightarrow> call_spec res a (a(t \<mapsto> Cancelled))"
| answered: "a t = Some Pending \<Longrightarrow> call_spec res a (a(t \<mapsto> outcome_of (res t)))"

lemma same_seen:
  assumes "submitted c = submitted b" "futures c = futures b"
  shows "call_spec res (seen (p, b)) (seen (q, c))"
proof -
  have "seen (q, c) = seen (p, b)" unfolding seen_def prod.case assms ..
  then show ?thesis using call_spec.unseen by metis
qed

lemma bridge_futures [simp]:
  "futures (take_batch b) = futures b" "futures (put_back b) = futures b" "futures (poll_next b) = futures b"
  "futures (set_promises res ts b) = futures b" "submitted (set_promises res ts b) = submitted b"
proof -
  show "futures (take_batch b) = futures b" "futures (put_back b) = futures b" "futures (poll_next b) = futures b"
    by (simp_all add: take_batch_def put_back_def poll_next_def poller_def split: list.splits option.splits prod.splits)
  have "futures (set_promises res ts b) = futures b \<and> submitted (set_promises res ts b) = submitted b"
    by (induction ts arbitrary: b) (simp_all add: set_promises_def)
  then show "futures (set_promises res ts b) = futures b" "submitted (set_promises res ts b) = submitted b" by simp_all
qed

lemma callback_spec:
  assumes inv: "async_inv res (p, b)"
  shows "call_spec res (seen (p, b)) (seen (p, run_callback b))"
proof (cases "callbacks b")
  case Nil
  then show ?thesis by (simp add: run_callback_def call_spec.unseen)
next
  case (Cons c cs)
  obtain i r where c: "callbacks b = (i, r) # cs" using Cons by (cases c) simp
  have b: "bridge_inv b" using inv bridge_run_inv [OF _ bridge_inv_start] by (auto simp: async_inv_def)
  then have i: "i \<in> set (submitted b)" "promises b i = Some r" using c by (auto simp: bridge_inv_def on_the_way_def)
  then have r: "r = res i" using inv by (auto simp: async_inv_def split: if_splits)
  show ?thesis
  proof (cases "futures b i = Pending")
    case True
    then have "seen (p, run_callback b) = (seen (p, b))(i \<mapsto> outcome_of (res i))" "seen (p, b) i = Some Pending"
      using i(1) c r by (auto simp: seen_def run_callback_def Let_def fun_eq_iff)
    then show ?thesis using call_spec.answered by metis
  next
    case False
    then show ?thesis using c by (intro same_seen) (simp_all add: run_callback_def Let_def)
  qed
qed

lemma step_spec: "async_step res s t \<Longrightarrow> async_inv res s \<Longrightarrow> call_spec res (seen s) (seen t)"
proof (induction rule: async_step.induct)
  case (wrap t p b)
  then have "seen (p, wrap_future t b) = (seen (p, b))(t \<mapsto> Pending)" "seen (p, b) t = None"
    by (auto simp: seen_def wrap_future_def fun_eq_iff)
  then show ?case using call_spec.made by metis
next
  case (cancel b i p)
  then have "seen (p, b\<lparr>futures := (futures b)(i := Cancelled)\<rparr>) = (seen (p, b))(i \<mapsto> Cancelled)" "seen (p, b) i = Some Pending"
    by (auto simp: seen_def fun_eq_iff)
  then show ?case using call_spec.cancelled by metis
next
  case (callback b p)
  then show ?case by (intro callback_spec)
qed (auto intro!: same_seen)

lemma answered_once:
  assumes inv: "async_inv res s" and f: "seen s t = Some f" "f \<noteq> Pending" "f \<noteq> Cancelled"
  shows "f = outcome_of (res t) \<and> count (all_finished (fst s)) t = 1"
proof -
  obtain p b where s: "s = (p, b)" by (cases s)
  have b: "bridge_inv b" using inv s bridge_run_inv [OF _ bridge_inv_start] by (auto simp: async_inv_def)
  have t: "t \<in> set (submitted b)" "f = futures b t" using f(1) s by (auto simp: seen_def split: if_splits)
  then obtain r where r: "promises b t = Some r" "f = outcome_of r" using b f(2,3) by (auto simp: bridge_inv_def)
  then have "t \<in># all_finished p" "r = res t" using inv s by (auto simp: async_inv_def split: if_splits)
  moreover have "count (all_accepted p) t \<le> 1" "all_accepted p = all_finished p + all_open p"
    using inv s accepted_split [of p] by (simp_all add: async_inv_def)
  then have "count (all_finished p) t \<le> 1" by simp
  ultimately show ?thesis using r(2) s by (metis One_nat_def Suc_leI count_greater_zero_iff fst_conv le_antisym)
qed

text \<open>
  Asynchronous calls meet their specification. Every step of the pool, the dispatcher, the event loop and the
  application, in any interleaving, is for the application one of four things: nothing; a new call, whose awaitable is pending; the cancellation
  of a pending one; or the answer to a pending one, which is the value its own task returned or the exception it threw. So
  no answer is lost by being overwritten, none goes to another call, and none is given twice. An answer is only given to a call whose task
  has run, exactly once, on one worker.
\<close>

theorem async_calls_meet_their_specification:
  assumes "async_run res (started n) s" "async_step res s s'"
  shows "call_spec res (seen s) (seen s') \<and>
    (\<forall>t f. seen s t = Some f \<and> f \<noteq> Pending \<and> f \<noteq> Cancelled \<longrightarrow> f = outcome_of (res t) \<and> count (all_finished (fst s)) t = 1)"
proof -
  have inv: "async_inv res s" using async_run_inv [OF assms(1) async_inv_start] .
  then show ?thesis using step_spec [OF assms(2)] answered_once by blast
qed

section \<open>Every call is answered\<close>

text \<open>A set of states of the bridge that the moves of the dispatcher and of an open event loop do not leave, whatever system the bridge is part of.\<close>

locale dispatching =
  fixes reached :: "'v bridge \<Rightarrow> bool"
  assumes wake: "reached b \<Longrightarrow> batch b = [] \<Longrightarrow> still_pending b = [] \<Longrightarrow> reached (take_batch b)"
    and poll: "reached b \<Longrightarrow> batch b \<noteq> [] \<Longrightarrow> reached (poll_next b)"
    and again: "reached b \<Longrightarrow> batch b = [] \<Longrightarrow> reached (put_back b)"
    and callback: "reached b \<Longrightarrow> \<not> loop_closed b \<Longrightarrow> reached (run_callback b)"
begin

lemma polls_reached: "reached b \<Longrightarrow> n \<le> length (batch b) \<Longrightarrow> reached ((poll_next ^^ n) b)"
proof (induction n)
  case (Suc n)
  have "length (batch ((poll_next ^^ n) b)) = length (batch b) - n" using poll_run [OF bridge_run.start, of n b] Suc(3) by simp
  then have "batch ((poll_next ^^ n) b) \<noteq> []" using Suc(3) by auto
  with poll Suc show ?case by simp
qed simp

lemma callbacks_reached: "reached b \<Longrightarrow> \<not> loop_closed b \<Longrightarrow> reached ((run_callback ^^ n) b)"
proof (induction n)
  case (Suc n)
  have "\<not> loop_closed ((run_callback ^^ n) b)" using callback_run [OF bridge_run.start Suc(3)] by blast
  with callback Suc show ?case by simp
qed simp

lemma round:
  assumes "reached b" "batch b = []" "still_pending b = []" "\<not> loop_closed b"
  shows "reached (drain (pass b))"
proof -
  have "reached (take_batch b)" by (rule wake) (fact assms)+
  from polls_reached [OF this, of "length (pending b)"]
  have "reached ((poll_next ^^ length (pending b)) (take_batch b))" by (simp add: take_batch_def)
  moreover have "batch ((poll_next ^^ length (pending b)) (take_batch b)) = []"
    using poll_run [OF bridge_run.start, of "length (pending b)" "take_batch b"] by (simp add: take_batch_def)
  ultimately have "reached (pass b)" unfolding pass_def by (rule again)
  moreover have "\<not> loop_closed (pass b)" using pass_effect [OF assms(2,3)] assms(4) by simp
  ultimately show ?thesis unfolding drain_def by (rule callbacks_reached)
qed

end

interpretation calls: dispatching "\<lambda>b. async_run res s (p, b)" for res s p
  by unfold_locales (blast intro: async_run.next_step async_step.intros)+

lemma round_submitted: "submitted (drain (pass b)) = submitted b"
proof -
  have "submitted ((run_callback ^^ n) c) = submitted c" "submitted ((poll_next ^^ n) c) = submitted c" for n and c :: "'a bridge"
    by (induction n) simp_all
  then show ?thesis by (simp add: drain_def pass_def)
qed

lemma idle_all_finished:
  assumes inv: "pool_inv p" and idle: "\<not> stop p" "\<forall>w\<in>set (workers p). worker_step (stop p) w = None"
  shows "all_finished p = all_accepted p"
proof -
  have "in_hand (phase w) @ tasks w = []" if "w \<in> set (workers p)" for w
    using inv idle that by (cases "phase w") (auto simp: worker_step_def pool_inv_def split: if_splits)
  then have "all_open p = {#}" by (auto simp: all_open_def)
  then show ?thesis using accepted_split [OF inv] by simp
qed

text \<open>A round of the dispatcher over a pool in which every task has run.\<close>

lemma round_answers:
  assumes inv: "async_inv res (p, b)" "async_inv res (p, drain (pass b))" and "\<not> stop p"
    and idle: "\<forall>w\<in>set (workers p). worker_step (stop p) w = None" "batch b = []" "still_pending b = []" "\<not> loop_closed b"
    and t: "t \<in> set (submitted b)"
  shows "futures (drain (pass b)) t = Cancelled \<or> futures (drain (pass b)) t = outcome_of (res t)"
proof -
  have p: "pool_inv p" "bridge_run no_bridge b" using inv(1) by (simp_all add: async_inv_def)
  have b': "bridge_inv (drain (pass b))" "\<forall>t. promises (drain (pass b)) t = (if t \<in># all_finished p then Some (res t) else None)"
    using inv(2) bridge_run_inv [OF _ bridge_inv_start] by (auto simp: async_inv_def)
  have "t \<in># all_finished p" using inv(1) t idle_all_finished [OF p(1) assms(3) idle(1)] by (auto simp: async_inv_def)
  then have "promises b t \<noteq> None" using inv(1) by (auto simp: async_inv_def)
  then have "futures (drain (pass b)) t \<noteq> Pending" using round_delivers [OF p(2) idle(2-4)] t by blast
  moreover have "t \<in> set (submitted (drain (pass b)))" using t by (simp add: round_submitted)
  ultimately have "futures (drain (pass b)) t = Cancelled \<or> (\<exists>r. promises (drain (pass b)) t = Some r \<and> futures (drain (pass b)) t = outcome_of r)"
    using b'(1) by (auto simp: bridge_inv_def)
  then show ?thesis using b'(2) by (auto split: if_splits)
qed

text \<open>
  Every call is answered. In a pool that has not been stopped, the workers make at most \<open>pool_weight\<close> steps before none
  can move; then every task has run, and one more pass of the dispatcher (between two passes, with the loop open) and the callbacks it hands over give every
  awaitable that was not cancelled the result of its call. This round is a run of the system.
\<close>

theorem every_call_is_answered:
  assumes run: "async_run res (started n) (p, b)" and "\<not> stop p"
  shows "(\<forall>ls q. pool_run p ls q \<and> (\<forall>l\<in>set ls. \<exists>i. l = Work i) \<longrightarrow> length ls \<le> pool_weight p) \<and>
    ((\<forall>w\<in>set (workers p). worker_step (stop p) w = None) \<and> batch b = [] \<and> still_pending b = [] \<and> \<not> loop_closed b \<longrightarrow>
       async_run res (started n) (p, drain (pass b)) \<and>
       (\<forall>t\<in>set (submitted b). futures (drain (pass b)) t = Cancelled \<or> futures (drain (pass b)) t = outcome_of (res t)))"
proof -
  have inv: "async_inv res (p, b)" using async_run_inv [OF run async_inv_start] .
  then have "pool_inv p" by (simp add: async_inv_def)
  then have "length ls \<le> pool_weight p" if "pool_run p ls q" "\<forall>l\<in>set ls. \<exists>i. l = Work i" for ls q
    using drain_run [OF that(1) drained_before_stop [OF _ assms(2)] that(2)] by simp
  moreover have "async_run res (started n) (p, drain (pass b)) \<and>
      (\<forall>t\<in>set (submitted b). futures (drain (pass b)) t = Cancelled \<or> futures (drain (pass b)) t = outcome_of (res t))"
    if idle: "\<forall>w\<in>set (workers p). worker_step (stop p) w = None" "batch b = []" "still_pending b = []" "\<not> loop_closed b"
  proof -
    have r: "async_run res (started n) (p, drain (pass b))" by (rule calls.round [OF run idle(2-4)])
    then show ?thesis using round_answers [OF inv async_run_inv [OF r async_inv_start] assms(2) idle] by blast
  qed
  ultimately show ?thesis by blast
qed

section \<open>A run that the theorems apply to\<close>

text \<open>A pool of one worker, and a call whose task returns 5.\<close>

definition one_worker :: "task list \<Rightarrow> nat \<Rightarrow> phase \<Rightarrow> task list \<Rightarrow> pool" where
  "one_worker ts n ph fin = \<lparr>workers = [\<lparr>tasks = ts, inflight = n, phase = ph, accepted = [7], finished = fin\<rparr>], stop = False\<rparr>"

definition gives_5 :: "nat \<Rightarrow> exn + nat" where
  "gives_5 t = Inr 5"

definition wrapped :: "nat bridge" where
  "wrapped = wrap_future 7 no_bridge"

lemma work_one:
  assumes "async_run gives_5 (started 1) (one_worker ts n ph fin, b)"
    and "worker_step False \<lparr>tasks = ts, inflight = n, phase = ph, accepted = [7], finished = fin\<rparr> =
      Some \<lparr>tasks = ts', inflight = n', phase = ph', accepted = [7], finished = fin'\<rparr>"
  shows "async_run gives_5 (started 1) (one_worker ts' n' ph' fin',
    set_promises gives_5 (case ph of Executing t \<Rightarrow> [t] | _ \<Rightarrow> []) b)"
  using async_run.next_step [OF assms(1) async_step.work [of 0 _ "\<lparr>tasks = ts', inflight = n', phase = ph', accepted = [7], finished = fin'\<rparr>"]]
    assms(2) by (simp add: one_worker_def ending_def)

lemma one_call_run: "async_run gives_5 (started 1) (one_worker [] 0 Waiting [7], set_promises gives_5 [7] wrapped)"
proof -
  have "pool_step (ThreadPool 1) (Enqueue [0] 7) (one_worker [7] 1 Waiting [])"
    using pool_step.enq [of "[0]" "ThreadPool 1" 7] by (simp add: pool_eval one_worker_def Let_def)
  then have "async_run gives_5 (started 1) (one_worker [7] 1 Waiting [], no_bridge)"
    unfolding started_def by (intro async_run.next_step [OF async_run.begin_run async_step.put]) (simp_all add: no_tasks)
  then have "async_run gives_5 (started 1) (one_worker [7] 1 Waiting [], wrapped)"
    unfolding wrapped_def
    by (rule async_run.next_step [OF _ async_step.wrap]) (simp_all add: one_worker_def all_accepted_def no_bridge_def)
  from work_one [OF this, of "[]" 1 "Popped 7" "[]"]
  have "async_run gives_5 (started 1) (one_worker [] 1 (Popped 7) [], wrapped)" by (simp add: worker_step_def set_promises_def)
  from work_one [OF this, of "[]" 0 "Executing 7" "[]"]
  have "async_run gives_5 (started 1) (one_worker [] 0 (Executing 7) [], wrapped)" by (simp add: worker_step_def set_promises_def)
  from work_one [OF this, of "[]" 0 Waiting "[7]"] show ?thesis by (simp add: worker_step_def)
qed

lemma one_call_idle:
  "batch (set_promises gives_5 [7] wrapped) = []" "still_pending (set_promises gives_5 [7] wrapped) = []"
  "\<not> loop_closed (set_promises gives_5 [7] wrapped)" "7 \<in> set (submitted (set_promises gives_5 [7] wrapped))"
  "\<not> stop (one_worker [] 0 Waiting [7])"
  "\<forall>w\<in>set (workers (one_worker [] 0 Waiting [7])). worker_step (stop (one_worker [] 0 Waiting [7])) w = None"
  by (simp_all add: wrapped_def wrap_future_def no_bridge_def set_promises_def one_worker_def worker_step_def)

lemma one_call_answer: "futures (drain (pass (set_promises gives_5 [7] wrapped))) 7 = Result 5"
  by (simp add: drain_def pass_def take_batch_def poll_next_def poller_def put_back_def run_callback_def wrapped_def
      wrap_future_def no_bridge_def set_promises_def gives_5_def outcome_of_def Let_def)

theorem async_calls_meet_their_specification_witness:
  "\<exists>s. seen s 7 = Some (Result (5 :: nat)) \<and> count (all_finished (fst s)) 7 = 1"
proof -
  let ?s = "(one_worker [] 0 Waiting [7], drain (pass (set_promises gives_5 [7] wrapped)))"
  have "async_run gives_5 (started 1) ?s" by (rule calls.round [OF one_call_run one_call_idle(1-3)])
  from async_calls_meet_their_specification [OF this async_step.close]
  have "seen ?s 7 = Some (Result 5) \<longrightarrow> count (all_finished (fst ?s)) 7 = 1" by blast
  moreover have "seen ?s 7 = Some (Result 5)" using one_call_idle(4) one_call_answer by (simp add: seen_def round_submitted)
  ultimately show ?thesis by blast
qed

theorem every_call_is_answered_witness:
  "futures (drain (pass (set_promises gives_5 [7] wrapped))) 7 = Result 5 \<and>
   async_run gives_5 (started 1) (one_worker [] 0 Waiting [7], drain (pass (set_promises gives_5 [7] wrapped)))"
  using every_call_is_answered [OF one_call_run one_call_idle(5)] one_call_idle one_call_answer by blast

end
