(* ===== verification/Pool_Wakeup.thy ===== *)
theory Pool_Wakeup
  imports Thread_Pool
begin

text \<open>
  The condition variables of \<open>include/thread_pool.hpp\<close>. \<open>Thread_Pool\<close> lets a waiting worker move as soon as its predicate holds;
  here the wait is what it is: the worker takes its mutex, evaluates the predicate, and when it is false falls asleep, which
  releases the mutex in the same moment; only a notification (or a spurious wake-up) makes it test again. \<open>enqueue\<close> pushes
  under the worker's mutex and notifies after it; the destructor stores \<open>stop_\<close> and notifies without taking any mutex.
\<close>

section \<open>The pool with its condition variables\<close>

datatype wait_pc =
    Awake        \<comment> \<open>outside the wait: before its mutex, or with a task\<close>
  | Testing      \<comment> \<open>it has its mutex and evaluates the predicate\<close>
  | Sleepy       \<comment> \<open>the predicate was false; it has its mutex and is not yet asleep\<close>
  | Asleep

record cv_pool =
  core :: pool
  pcs :: "wait_pc list"
  due :: "nat list"          \<comment> \<open>the \<open>notify_one\<close> calls still to come, by their worker\<close>
  dtor :: "nat option"         \<comment> \<open>the destructor, if it runs: the next worker it notifies\<close>

definition cv_start :: "nat \<Rightarrow> cv_pool" where
  "cv_start n = \<lparr>core = ThreadPool n, pcs = replicate n Awake, due = [], dtor = None\<rparr>"

definition set_worker :: "nat \<Rightarrow> worker \<Rightarrow> cv_pool \<Rightarrow> cv_pool" where
  "set_worker i w s = s\<lparr>core := (core s)\<lparr>workers := (workers (core s))[i := w]\<rparr>\<rparr>"

definition set_pc :: "nat \<Rightarrow> wait_pc \<Rightarrow> cv_pool \<Rightarrow> cv_pool" where
  "set_pc i x s = s\<lparr>pcs := (pcs s)[i := x]\<rparr>"

text \<open>A notification of worker \<open>i\<close>, whose condition variable only it waits on.\<close>

definition wake :: "nat \<Rightarrow> cv_pool \<Rightarrow> cv_pool" where
  "wake i s = (if pcs s ! i = Asleep then set_pc i Awake s else s)"

datatype cv_label =
    Push "nat list" task | Notify nat
  | Lock nat | Test nat | Sleep nat | Run nat | Spurious nat
  | Store | Notify_worker

abbreviation n_workers :: "cv_pool \<Rightarrow> nat" where
  "n_workers s \<equiv> length (workers (core s))"

abbreviation nth_worker :: "cv_pool \<Rightarrow> nat \<Rightarrow> worker" where
  "nth_worker s i \<equiv> workers (core s) ! i"

text \<open>One move; \<open>None\<close>: it is not possible.\<close>

fun cv_step :: "cv_label \<Rightarrow> cv_pool \<Rightarrow> cv_pool option" where
  "cv_step (Push counts t) s =
     (let best = pick_worker counts in
      if length counts = n_workers s \<and> workers (core s) \<noteq> [] \<and> pcs s ! best \<noteq> Testing \<and> pcs s ! best \<noteq> Sleepy
      then Some (s\<lparr>core := enqueue counts t (core s), due := due s @ [best]\<rparr>) else None)"
| "cv_step (Notify i) s = (if i \<in> set (due s) then Some (wake i (s\<lparr>due := remove1 i (due s)\<rparr>)) else None)"
| "cv_step (Lock i) s =
     (if i < n_workers s \<and> pcs s ! i = Awake \<and> phase (nth_worker s i) = Waiting then Some (set_pc i Testing s) else None)"
| "cv_step (Test i) s =
     (if i < n_workers s \<and> pcs s ! i = Testing
      then (case worker_step (stop (core s)) (nth_worker s i) of
              None \<Rightarrow> Some (set_pc i Sleepy s)
            | Some w \<Rightarrow> Some (set_pc i Awake (set_worker i w s)))
      else None)"
| "cv_step (Sleep i) s = (if i < n_workers s \<and> pcs s ! i = Sleepy then Some (set_pc i Asleep s) else None)"
| "cv_step (Run i) s =
     (if i < n_workers s \<and> pcs s ! i = Awake \<and> phase (nth_worker s i) \<noteq> Waiting
      then map_option (\<lambda>w. set_worker i w s) (worker_step (stop (core s)) (nth_worker s i)) else None)"
| "cv_step (Spurious i) s = (if i < n_workers s \<and> pcs s ! i = Asleep then Some (set_pc i Awake s) else None)"
| "cv_step Store s = (if dtor s = None then Some (s\<lparr>core := (core s)\<lparr>stop := True\<rparr>, dtor := Some 0\<rparr>) else None)"
| "cv_step Notify_worker s =
     (case dtor s of
        None \<Rightarrow> None
      | Some k \<Rightarrow> if k < n_workers s then Some (wake k (s\<lparr>dtor := Some (k + 1)\<rparr>)) else None)"

fun cv_run :: "cv_pool \<Rightarrow> cv_label list \<Rightarrow> cv_pool option" where
  "cv_run s [] = Some s"
| "cv_run s (l # ls) = (case cv_step l s of None \<Rightarrow> None | Some t \<Rightarrow> cv_run t ls)"

text \<open>The joins return: every notification is given and every worker has left its loop.\<close>

definition destroyed :: "cv_pool \<Rightarrow> bool" where
  "destroyed s \<longleftrightarrow> dtor s = Some (n_workers s) \<and> list_all (\<lambda>w. phase w = Exited) (workers (core s))"

text \<open>The moves of the pool's own threads, of pending notifications and of a running destructor.\<close>

definition moves :: "nat \<Rightarrow> cv_label list" where
  "moves n = Notify_worker # concat (map (\<lambda>i. [Notify i, Lock i, Test i, Sleep i, Run i]) [0..<n])"

definition quiet :: "cv_pool \<Rightarrow> bool" where
  "quiet s \<longleftrightarrow> list_all (\<lambda>l. cv_step l s = None) (moves (n_workers s))"

fun pushed :: "cv_label list \<Rightarrow> task list" where
  "pushed [] = []"
| "pushed (Push counts t # ls) = t # pushed ls"
| "pushed (l # ls) = pushed ls"

fun own_move :: "cv_label \<Rightarrow> bool" where
  "own_move (Push counts t) = False"
| "own_move (Spurious i) = False"
| "own_move l = True"

section \<open>It implements the pool\<close>

lemma cv_run_append: "cv_run s (xs @ ys) = (case cv_run s xs of None \<Rightarrow> None | Some t \<Rightarrow> cv_run t ys)"
  by (induction xs arbitrary: s) (auto split: option.splits)

lemma wake_core [simp]: "core (wake i s) = core s" "due (wake i s) = due s" "dtor (wake i s) = dtor s"
  by (simp_all add: wake_def set_pc_def)

lemma set_pc_core [simp]: "core (set_pc i x s) = core s" "due (set_pc i x s) = due s" "dtor (set_pc i x s) = dtor s"
  "pcs (set_pc i x s) = (pcs s)[i := x]"
  by (simp_all add: set_pc_def)

lemma set_worker_core [simp]: "core (set_worker i w s) = (core s)\<lparr>workers := (workers (core s))[i := w]\<rparr>"
  "due (set_worker i w s) = due s" "dtor (set_worker i w s) = dtor s" "pcs (set_worker i w s) = pcs s"
  by (simp_all add: set_worker_def)

lemma cv_step_implements:
  assumes "cv_step l s = Some t"
  shows "\<exists>ls. pool_run (core s) ls (core t) \<and> enqueued ls = pushed [l]"
proof -
  note one = pool_run.cons [OF _ pool_run.nil]
  consider counts u where "l = Push counts u" | "l = Store" | i w where "l = Test i \<or> l = Run i" "i < n_workers s"
      "worker_step (stop (core s)) (nth_worker s i) = Some w" "core t = (core s)\<lparr>workers := (workers (core s))[i := w]\<rparr>"
    | "core t = core s" "pushed [l] = []"
    using assms by (cases l) (auto split: if_splits option.splits)
  then show ?thesis
  proof cases
    case (1 counts u)
    then have "pool_step (core s) (Enqueue counts u) (core t)"
      using assms by (auto simp: Let_def split: if_splits intro: pool_step.enq)
    from one [OF this] show ?thesis using 1 by (intro exI [of _ "[Enqueue counts u]"]) simp
  next
    case 2
    then have "pool_step (core s) Stop (core t)" using assms by (auto split: if_splits intro: pool_step.stop)
    from one [OF this] show ?thesis using 2 by (intro exI [of _ "[Stop]"]) simp
  next
    case (3 i w)
    have "pool_step (core s) (Work i) (core t)" unfolding 3(4) by (rule pool_step.work) (use 3 in auto)
    from one [OF this] show ?thesis using 3 by (intro exI [of _ "[Work i]"]) auto
  next
    case 4
    then show ?thesis using pool_run.nil [of "core s"] by (intro exI [of _ "[]"]) simp
  qed
qed

lemma pool_run_trans: "pool_run p ls q \<Longrightarrow> pool_run q ks r \<Longrightarrow> pool_run p (ls @ ks) r"
  by (induction rule: pool_run.induct) (auto intro: pool_run.cons)

lemma enqueued_append: "enqueued (ls @ ks) = enqueued ls @ enqueued ks"
  by (induction ls rule: enqueued.induct) simp_all

lemma pushed_Cons: "pushed (l # ls) = pushed [l] @ pushed ls"
  by (cases l) simp_all

lemma cv_implements: "cv_run s ls = Some t \<Longrightarrow> \<exists>ks. pool_run (core s) ks (core t) \<and> enqueued ks = pushed ls"
proof (induction ls arbitrary: s)
  case Nil
  then show ?case using pool_run.nil [of "core s"] by (intro exI [of _ "[]"]) simp
next
  case (Cons l ls)
  then obtain u where u: "cv_step l s = Some u" "cv_run u ls = Some t" by (auto split: option.splits)
  from cv_step_implements [OF u(1)] Cons.IH [OF u(2)] show ?case
    using pool_run_trans enqueued_append pushed_Cons [of l ls] by metis
qed

section \<open>Invariant\<close>

text \<open>A worker is asleep with a task in its queue only while a notification is still to come.\<close>

definition worker_ok :: "cv_pool \<Rightarrow> nat \<Rightarrow> bool" where
  "worker_ok s i \<longleftrightarrow>
     (pcs s ! i \<noteq> Awake \<longrightarrow> phase (nth_worker s i) = Waiting) \<and> (pcs s ! i = Sleepy \<longrightarrow> tasks (nth_worker s i) = []) \<and>
     (pcs s ! i = Asleep \<longrightarrow> tasks (nth_worker s i) = [] \<or> i \<in> set (due s))"

definition cv_inv :: "cv_pool \<Rightarrow> bool" where
  "cv_inv s \<longleftrightarrow>
     length (pcs s) = n_workers s \<and> (\<forall>i\<in>set (due s). i < n_workers s) \<and> (stop (core s) \<longleftrightarrow> dtor s \<noteq> None) \<and>
     (\<forall>k. dtor s = Some k \<longrightarrow> k \<le> n_workers s) \<and> (\<forall>i<n_workers s. worker_ok s i)"

lemma cv_inv_start: "cv_inv (cv_start n)"
  by (simp add: cv_inv_def cv_start_def ThreadPool_def worker_ok_def)

lemma idle_test: "worker_step b w = None \<Longrightarrow> phase w = Waiting \<Longrightarrow> tasks w = [] \<and> \<not> b"
  by (auto simp: worker_step_def split: if_splits)

lemma enqueue_workers:
  "workers (enqueue counts t p) = (workers p)[pick_worker counts := add_task t (workers p ! pick_worker counts)]"
  "stop (enqueue counts t p) = stop p"
  by (simp_all add: enqueue_def Let_def)

lemma add_task_fields: "phase (add_task t w) = phase w" "tasks (add_task t w) = tasks w @ [t]"
  by (simp_all add: add_task_def)

lemma worker_ok_wake:
  assumes "worker_ok s j" "length (pcs s) = n_workers s" "j < n_workers s" "core t = core s" "pcs t = pcs s"
    "\<forall>k. k \<noteq> i \<longrightarrow> k \<in> set (due s) \<longrightarrow> k \<in> set (due t)"
  shows "worker_ok (wake i t) j"
  using assms by (cases "i = j") (auto simp: worker_ok_def wake_def nth_list_update)

lemma cv_inv_push:
  assumes "cv_inv s" "cv_step (Push counts u) s = Some t"
  shows "cv_inv t"
proof -
  let ?b = "pick_worker counts"
  have t: "t = s\<lparr>core := enqueue counts u (core s), due := due s @ [?b]\<rparr>"
    and free: "pcs s ! ?b \<noteq> Testing" "pcs s ! ?b \<noteq> Sleepy" and c: "length counts = n_workers s" "workers (core s) \<noteq> []"
    using assms(2) by (auto simp: Let_def split: if_splits)
  have b: "?b < n_workers s" using pick_worker_least(1) [of counts] c by (cases counts) auto
  have "worker_ok t j" if "j < n_workers s" for j
    using assms(1) free b that
    by (cases "j = ?b") (auto simp: t cv_inv_def worker_ok_def enqueue_workers add_task_fields)
  with assms(1) b show ?thesis by (auto simp: t cv_inv_def enqueue_workers)
qed

lemma worker_step_keeps_waiting: "worker_step b w = Some w' \<Longrightarrow> tasks w = [] \<Longrightarrow> tasks w' = []"
  by (cases "phase w") (auto simp: worker_step_def split: if_splits)

lemma cv_inv_step:
  assumes "cv_inv s" "cv_step l s = Some t"
  shows "cv_inv t"
proof (cases l)
  case (Push counts u)
  with assms cv_inv_push show ?thesis by blast
next
  case (Notify i)
  with assms have t: "t = wake i (s\<lparr>due := remove1 i (due s)\<rparr>)" "length (pcs s) = n_workers s" by (auto simp: cv_inv_def split: if_splits)
  have "worker_ok t j" if "j < n_workers s" for j
    unfolding t by (rule worker_ok_wake [of s]) (use assms t that in \<open>auto simp: cv_inv_def\<close>)
  with assms(1) t show ?thesis by (auto simp: cv_inv_def wake_def set_pc_def dest: notin_set_remove1 set_remove1_subset [THEN subsetD])
next
  case Notify_worker
  with assms obtain k where t: "dtor s = Some k" "k < n_workers s" "t = wake k (s\<lparr>dtor := Some (k + 1)\<rparr>)" "length (pcs s) = n_workers s"
    by (auto simp: cv_inv_def split: option.splits if_splits)
  have "worker_ok t j" if "j < n_workers s" for j
    unfolding t by (rule worker_ok_wake [of s]) (use assms t that in \<open>auto simp: cv_inv_def\<close>)
  with assms(1) t show ?thesis by (auto simp: cv_inv_def wake_def set_pc_def)
next
  case (Test i)
  show ?thesis
  proof (cases "worker_step (stop (core s)) (nth_worker s i)")
    case None
    with Test assms idle_test show ?thesis
      by (auto simp: cv_inv_def worker_ok_def nth_list_update split: if_splits)
  next
    case (Some w)
    with Test assms show ?thesis by (auto simp: cv_inv_def worker_ok_def nth_list_update split: if_splits)
  qed
next
  case (Run i)
  with assms show ?thesis by (auto simp: cv_inv_def worker_ok_def nth_list_update split: if_splits)
qed (use assms in \<open>auto simp: cv_inv_def worker_ok_def nth_list_update split: if_splits\<close>)

lemma cv_inv_run: "cv_run s ls = Some t \<Longrightarrow> cv_inv s \<Longrightarrow> cv_inv t"
  by (induction ls arbitrary: s) (auto split: option.splits dest: cv_inv_step)

lemmas cv_inv_reached = cv_inv_run [OF _ cv_inv_start]

section \<open>Every schedule of the pool's own moves ends\<close>

definition cv_weight :: "wait_pc \<Rightarrow> worker \<Rightarrow> nat" where
  "cv_weight x w = 4 * length (tasks w) +
     (case phase w of
        Waiting \<Rightarrow> (case x of Asleep \<Rightarrow> 0 | Sleepy \<Rightarrow> 1 | Testing \<Rightarrow> 2 | Awake \<Rightarrow> 3)
      | Popped t \<Rightarrow> 5 | Executing t \<Rightarrow> 4 | Exited \<Rightarrow> 0)"

definition weight_of :: "cv_pool \<Rightarrow> nat \<Rightarrow> nat" where
  "weight_of s i = cv_weight (pcs s ! i) (nth_worker s i)"

definition work_left :: "cv_pool \<Rightarrow> nat" where
  "work_left s = sum (weight_of s) {..<n_workers s} + 4 * length (due s) +
     (case dtor s of None \<Rightarrow> 4 * n_workers s + 1 | Some k \<Rightarrow> 4 * (n_workers s - k))"

lemma sum_change:
  fixes f g :: "nat \<Rightarrow> nat"
  assumes "i < n" "\<And>j. j < n \<Longrightarrow> j \<noteq> i \<Longrightarrow> g j = f j"
  shows "sum g {..<n} + f i = sum f {..<n} + g i"
proof -
  have "sum h {..<n} = h i + sum h ({..<n} - {i})" for h :: "nat \<Rightarrow> nat" using assms(1) by (intro sum.remove) auto
  moreover have "sum g ({..<n} - {i}) = sum f ({..<n} - {i})" using assms(2) by (intro sum.cong) auto
  ultimately show ?thesis by simp
qed

text \<open>A move of worker \<open>i\<close> alone, and a notification.\<close>

lemma work_left_worker:
  assumes "i < n_workers s" "n_workers t = n_workers s" "due t = due s" "dtor t = dtor s"
    "\<And>j. j \<noteq> i \<Longrightarrow> pcs t ! j = pcs s ! j \<and> nth_worker t j = nth_worker s j" "weight_of t i < weight_of s i"
  shows "work_left t < work_left s"
proof -
  have "weight_of t j = weight_of s j" if "j \<noteq> i" for j using assms(5) [OF that] by (simp add: weight_of_def)
  then have "sum (weight_of t) {..<n_workers s} < sum (weight_of s) {..<n_workers s}"
    using sum_change [of i "n_workers s" "weight_of t" "weight_of s"] assms(1,6) by simp
  with assms(2-4) show ?thesis by (cases "dtor s") (simp_all add: work_left_def)
qed

lemma wake_weight:
  assumes "i < n_workers s" "length (pcs s) = n_workers s" "core t = core s" "pcs t = pcs s" "worker_ok s i"
  shows "sum (weight_of (wake i t)) {..<n_workers s} \<le> sum (weight_of s) {..<n_workers s} + 3"
proof -
  have "weight_of (wake i t) j = weight_of s j" if "j \<noteq> i" for j
    using that assms by (simp add: weight_of_def wake_def)
  moreover have "weight_of (wake i t) i \<le> weight_of s i + 3"
    using assms by (auto simp: weight_of_def wake_def cv_weight_def worker_ok_def split: phase.splits)
  ultimately show ?thesis using sum_change [of i "n_workers s" "weight_of (wake i t)" "weight_of s"] assms(1) by simp
qed

lemma taking_a_task:
  "worker_step b w = Some w' \<Longrightarrow> phase w = Waiting \<Longrightarrow> cv_weight Awake w' < cv_weight Testing w"
  by (cases "tasks w") (auto simp: worker_step_def cv_weight_def split: if_splits)

lemma running_a_task:
  "worker_step b w = Some w' \<Longrightarrow> phase w \<noteq> Waiting \<Longrightarrow> cv_weight Awake w' < cv_weight Awake w"
  by (cases "phase w") (auto simp: worker_step_def cv_weight_def split: if_splits)

lemma work_left_step:
  assumes "cv_inv s" "cv_step l s = Some t" "own_move l"
  shows "work_left t < work_left s"
proof -
  have len: "length (pcs s) = n_workers s" using assms(1) by (simp add: cv_inv_def)
  have ok: "worker_ok s i" if "i < n_workers s" for i using assms(1) that by (simp add: cv_inv_def)
  note bump = wake_weight [OF _ len _ _ ok]
  show ?thesis
  proof (cases l)
    case (Notify i)
    then have i: "i \<in> set (due s)" "t = wake i (s\<lparr>due := remove1 i (due s)\<rparr>)" using assms(2) by (auto split: if_splits)
    then have "i < n_workers s" using assms(1) by (simp add: cv_inv_def)
    moreover have "length (due s) = Suc (length (remove1 i (due s)))"
      using i(1) length_pos_if_in_set [OF i(1)] by (simp add: length_remove1)
    ultimately show ?thesis using bump [of i "s\<lparr>due := remove1 i (due s)\<rparr>"]
      by (cases "dtor s") (simp_all add: i(2) work_left_def)
  next
    case Notify_worker
    then obtain k where k: "dtor s = Some k" "k < n_workers s" "t = wake k (s\<lparr>dtor := Some (k + 1)\<rparr>)"
      using assms(2) by (auto split: option.splits if_splits)
    then show ?thesis using bump [of k "s\<lparr>dtor := Some (k + 1)\<rparr>"] by (simp add: work_left_def)
  next
    case (Lock i)
    with assms(2) len show ?thesis
      by (intro work_left_worker [of i]) (auto simp: weight_of_def cv_weight_def split: if_splits)
  next
    case (Sleep i)
    then have "i < n_workers s" "phase (nth_worker s i) = Waiting" using assms(2) ok [of i] by (auto simp: worker_ok_def split: if_splits)
    with Sleep assms(2) len show ?thesis
      by (intro work_left_worker [of i]) (auto simp: weight_of_def cv_weight_def split: if_splits)
  next
    case (Test i)
    then have i: "i < n_workers s" "pcs s ! i = Testing" using assms(2) by (auto split: if_splits)
    then have w: "phase (nth_worker s i) = Waiting" using ok [of i] by (auto simp: worker_ok_def)
    show ?thesis
    proof (cases "worker_step (stop (core s)) (nth_worker s i)")
      case None
      with Test i w assms(2) len show ?thesis
        by (intro work_left_worker [of i]) (auto simp: weight_of_def cv_weight_def)
    next
      case (Some w')
      with Test i w assms(2) len taking_a_task [OF Some w] show ?thesis
        by (intro work_left_worker [of i]) (auto simp: weight_of_def)
    qed
  next
    case (Run i)
    then obtain w' where i: "i < n_workers s" "pcs s ! i = Awake" "phase (nth_worker s i) \<noteq> Waiting"
      "worker_step (stop (core s)) (nth_worker s i) = Some w'" "t = set_worker i w' s"
      using assms(2) by (auto split: if_splits)
    with len running_a_task [OF i(4,3)] show ?thesis
      by (intro work_left_worker [of i]) (auto simp: weight_of_def)
  next
    case Store
    then show ?thesis using assms(2) by (auto simp: work_left_def weight_of_def split: if_splits)
  qed (use assms(3) in simp_all)
qed

lemma own_schedule_ends:
  "cv_run s ls = Some t \<Longrightarrow> cv_inv s \<Longrightarrow> list_all own_move ls \<Longrightarrow> length ls + work_left t \<le> work_left s"
proof (induction ls arbitrary: s)
  case (Cons l ls)
  then obtain u where u: "cv_step l s = Some u" "cv_run u ls = Some t" by (auto split: option.splits)
  from work_left_step [OF Cons.prems(2) u(1)] cv_inv_step [OF Cons.prems(2) u(1)] Cons.IH [OF u(2)] Cons.prems(3)
  show ?case by simp
qed simp

section \<open>A quiet pool\<close>

lemma quietD:
  assumes "quiet s" "i < n_workers s"
  shows "cv_step Notify_worker s = None" "cv_step (Notify i) s = None" "cv_step (Lock i) s = None"
    "cv_step (Test i) s = None" "cv_step (Sleep i) s = None" "cv_step (Run i) s = None"
proof -
  have "cv_step l s = None" if "l \<in> set (moves (n_workers s))" for l
    using assms(1) that unfolding quiet_def list_all_iff by blast
  then show "cv_step Notify_worker s = None" "cv_step (Notify i) s = None" "cv_step (Lock i) s = None"
    "cv_step (Test i) s = None" "cv_step (Sleep i) s = None" "cv_step (Run i) s = None"
    using assms(2) by (auto simp: moves_def simp del: cv_step.simps)
qed

lemma quiet_worker:
  assumes "quiet s" "i < n_workers s" "cv_inv s"
  shows "phase (nth_worker s i) = Exited \<or> phase (nth_worker s i) = Waiting \<and> pcs s ! i = Asleep \<and> tasks (nth_worker s i) = []"
proof -
  note q = quietD [OF assms(1,2)]
  have ok: "worker_ok s i" using assms by (simp add: cv_inv_def)
  have due: "i \<notin> set (due s)" using q(2) by (auto split: if_splits)
  show ?thesis
  proof (cases "pcs s ! i")
    case Awake
    then show ?thesis using q(3,6) assms(2)
      by (cases "phase (nth_worker s i)") (auto simp: worker_step_def)
  next
    case Testing
    then show ?thesis using q(4) assms(2) by (auto split: option.splits)
  next
    case Sleepy
    then show ?thesis using q(5) assms(2) by auto
  next
    case Asleep
    then show ?thesis using ok due by (auto simp: worker_ok_def)
  qed
qed

lemma nothing_open:
  assumes "\<forall>w\<in>set (workers p). in_hand (phase w) = [] \<and> tasks w = []"
  shows "all_open p = {#}"
proof -
  have "concat (map (\<lambda>w. in_hand (phase w) @ tasks w) (workers p)) = []" using assms by simp
  then show ?thesis by (simp add: all_open_def)
qed

lemma pool_of_run:
  assumes "cv_run (cv_start n) ls = Some s"
  shows "pool_inv (core s)" "n_workers s = n" "all_accepted (core s) = mset (pushed ls)"
proof -
  obtain ks where "pool_run (ThreadPool n) ks (core s)" "enqueued ks = pushed ls"
    using cv_implements [OF assms] by (auto simp: cv_start_def)
  then show "pool_inv (core s)" "n_workers s = n" "all_accepted (core s) = mset (pushed ls)"
    using pool_inv_run [OF _ pool_inv_new] accepted_enqueued [of n ks "core s"] by (auto simp: ThreadPool_def)
qed

lemma quiet_finished:
  assumes "cv_run (cv_start n) ls = Some s" "quiet s" "drained (core s)"
  shows "all_finished (core s) = mset (pushed ls)"
proof -
  note inv = cv_inv_reached [OF assms(1)]
  have "in_hand (phase w) = [] \<and> tasks w = []" if w: "w \<in> set (workers (core s))" for w
  proof -
    obtain i where "i < n_workers s" "nth_worker s i = w" using w by (auto simp: in_set_conv_nth)
    with quiet_worker [OF assms(2) _ inv, of i] assms(3) w show ?thesis by (auto simp: drained_def)
  qed
  then have "all_open (core s) = {#}" using nothing_open by blast
  with accepted_split [of "core s"] pool_of_run [OF assms(1)] show ?thesis by simp
qed

lemma stays_running: "cv_run s ls = Some t \<Longrightarrow> Store \<notin> set ls \<Longrightarrow> dtor s = None \<Longrightarrow> dtor t = None"
proof (induction ls arbitrary: s)
  case (Cons l ls)
  then obtain u where u: "cv_step l s = Some u" "cv_run u ls = Some t" by (auto split: option.splits)
  have "dtor u = None" using u(1) Cons.prems by (cases l) (auto simp: Let_def split: if_splits option.splits)
  with Cons u show ?case by simp
qed simp

lemma running_drained:
  assumes "cv_run (cv_start n) ls = Some s" "Store \<notin> set ls"
  shows "dtor s = None" "drained (core s)"
proof -
  show "dtor s = None" by (rule stays_running [OF assms]) (simp add: cv_start_def)
  then have "\<not> stop (core s)" using cv_inv_reached [OF assms(1)] by (simp add: cv_inv_def)
  then show "drained (core s)" using pool_of_run(1) [OF assms(1)] by (simp add: drained_before_stop)
qed

lemma own_moves_push_nothing: "list_all own_move ls \<Longrightarrow> pushed ls = []"
  by (induction ls rule: pushed.induct) simp_all

lemma pushed_append: "pushed (ls @ ks) = pushed ls @ pushed ks"
  by (induction ls rule: pushed.induct) simp_all

text \<open>
  C15. No accepted task is overlooked, whatever the order of locks, tests, sleeps, pushes, notifications and spurious
  wake-ups: while the pool is not being destroyed, its threads make only a bounded number of moves without a new task, and
  when none of them can move, every task that was ever enqueued has been run exactly once. A worker cannot sleep over
  a task, because \<open>enqueue\<close> pushes under the mutex that the worker holds from its test until it sleeps.
\<close>

theorem no_accepted_task_is_overlooked:
  assumes "cv_run (cv_start n) ls = Some s" "Store \<notin> set ls"
    and "cv_run s ks = Some t" "list_all own_move ks" "Store \<notin> set ks"
  shows "length ks \<le> work_left s \<and> (quiet t \<longrightarrow> all_finished (core t) = mset (pushed ls))"
proof -
  have run: "cv_run (cv_start n) (ls @ ks) = Some t" using assms by (simp add: cv_run_append)
  have "length ks \<le> work_left s" using own_schedule_ends [OF assms(3) cv_inv_reached [OF assms(1)] assms(4)] by simp
  then show ?thesis
    using quiet_finished [OF run] running_drained(2) [OF run] assms(2,5) own_moves_push_nothing [OF assms(4)]
    by (simp add: pushed_append)
qed

definition demo_pushed :: cv_pool where
  "demo_pushed = the (cv_run (cv_start 1) [Lock 0, Test 0, Sleep 0, Push [0] 5])"

definition demo_moves :: "cv_label list" where
  "demo_moves = [Notify 0, Lock 0, Test 0, Run 0, Run 0, Lock 0, Test 0, Sleep 0]"

lemmas cv_defs = cv_start_def ThreadPool_def new_worker_def set_pc_def set_worker_def wake_def worker_step_def
  enqueue_workers add_task_def pick_worker_def enqueue_def

lemma demo_runs:
  "cv_run (cv_start 1) [Lock 0, Test 0, Sleep 0, Push [0] 5] = Some demo_pushed"
  "cv_run demo_pushed demo_moves = Some (the (cv_run demo_pushed demo_moves))" "quiet (the (cv_run demo_pushed demo_moves))"
  by (simp_all add: demo_pushed_def demo_moves_def cv_defs quiet_def moves_def)

theorem no_accepted_task_is_overlooked_witness:
  "quiet (the (cv_run demo_pushed demo_moves)) \<and> all_finished (core (the (cv_run demo_pushed demo_moves))) = {#5#}"
  using no_accepted_task_is_overlooked [OF demo_runs(1) _ demo_runs(2)] demo_runs(3) by (simp add: demo_moves_def)

section \<open>The destructor\<close>

text \<open>After a store of \<open>stop_\<close> that no worker was about to sleep at: only workers still to be notified sleep.\<close>

definition settling :: "cv_pool \<Rightarrow> bool" where
  "settling s \<longleftrightarrow> drained (core s) \<and>
     (\<exists>k. dtor s = Some k \<and> (\<forall>i<n_workers s. pcs s ! i \<noteq> Sleepy \<and> (pcs s ! i = Asleep \<longrightarrow> k \<le> i)))"

lemma drained_update:
  assumes "drained p" "worker_step (stop p) (workers p ! i) = Some w" "i < length (workers p)"
  shows "drained (p\<lparr>workers := (workers p)[i := w]\<rparr>)"
  using drained_work [OF assms(1) pool_step.work [OF assms(3,2)]] by simp

lemma nth_update: "i < length xs \<Longrightarrow> xs[j := x] ! i = (if j = i then x else xs ! i)"
  by auto

lemma wake_pcs: "length (pcs s) = m \<Longrightarrow> j < m \<Longrightarrow> pcs (wake i s) ! j = (if j = i \<and> pcs s ! i = Asleep then Awake else pcs s ! j)"
  by (auto simp: wake_def nth_list_update)

lemma settling_step:
  assumes "settling s" "cv_inv s" "cv_step l s = Some t" "pushed [l] = []"
  shows "settling t"
proof -
  obtain k where k: "dtor s = Some k" "\<forall>i<n_workers s. pcs s ! i \<noteq> Sleepy \<and> (pcs s ! i = Asleep \<longrightarrow> k \<le> i)"
    and d: "drained (core s)" and len: "length (pcs s) = n_workers s" and st: "stop (core s)"
    using assms(1,2) by (auto simp: settling_def cv_inv_def)
  show ?thesis
  proof (cases l)
    case (Test i)
    then have i: "i < n_workers s" "pcs s ! i = Testing" using assms(3) by (auto split: if_splits)
    then have "phase (nth_worker s i) = Waiting" using assms(2) by (auto simp: cv_inv_def worker_ok_def)
    with idle_test [of True "nth_worker s i"] st obtain w where w: "worker_step (stop (core s)) (nth_worker s i) = Some w"
      by (cases "worker_step True (nth_worker s i)") auto
    with drained_update [OF d w i(1)] Test assms(3) k len i show ?thesis
      by (auto simp: settling_def nth_list_update)
  next
    case (Run i)
    then obtain w where w: "worker_step (stop (core s)) (nth_worker s i) = Some w" "i < n_workers s" "t = set_worker i w s"
      using assms(3) by (auto split: if_splits)
    with drained_update [OF d w(1,2)] k show ?thesis by (auto simp: settling_def)
  next
    case (Notify i)
    then have t: "t = wake i (s\<lparr>due := remove1 i (due s)\<rparr>)" using assms(3) by (auto split: if_splits)
    show ?thesis using k d len by (auto simp: t settling_def wake_pcs)
  next
    case Notify_worker
    then have t: "t = wake k (s\<lparr>dtor := Some (k + 1)\<rparr>)" using assms(3) k(1) by (auto split: if_splits)
    have "k + 1 \<le> i" if "i < n_workers s" "pcs s ! i = Asleep" "i \<noteq> k" for i
      using k(2) that by (metis Suc_eq_plus1 Suc_leI le_neq_implies_less)
    then show ?thesis using k d len by (auto simp: t settling_def wake_pcs split: if_splits)
  qed (use assms(3,4) k d len in \<open>auto simp: settling_def nth_list_update split: if_splits\<close>)
qed

lemma settling_run:
  "cv_run s ls = Some t \<Longrightarrow> settling s \<Longrightarrow> cv_inv s \<Longrightarrow> pushed ls = [] \<Longrightarrow> settling t"
proof (induction ls arbitrary: s)
  case (Cons l ls)
  then obtain u where u: "cv_step l s = Some u" "cv_run u ls = Some t" by (auto split: option.splits)
  have "pushed [l] = []" "pushed ls = []" using Cons.prems(4) pushed_Cons [of l ls] by simp_all
  with settling_step [OF Cons.prems(2,3) u(1)] cv_inv_step [OF Cons.prems(3) u(1)] Cons.IH [OF u(2)] show ?case by simp
qed simp

lemma settled_destroyed:
  assumes "quiet s" "settling s" "cv_inv s"
  shows "destroyed s"
proof -
  obtain k where k: "dtor s = Some k" "\<forall>i<n_workers s. pcs s ! i \<noteq> Sleepy \<and> (pcs s ! i = Asleep \<longrightarrow> k \<le> i)"
    using assms(2) by (auto simp: settling_def)
  have "k = n_workers s"
    using assms(1,3) k(1) by (auto simp: quiet_def moves_def cv_inv_def split: if_splits)
  with k quiet_worker [OF assms(1) _ assms(3)] show ?thesis
    by (auto simp: destroyed_def list_all_iff in_set_conv_nth)
qed

text \<open>
  C16. The destructor returns unless it overtakes a worker that is going to sleep. If no worker stands between the test of
  its predicate and its sleep when \<open>stop_\<close> is stored, then in whatever order the threads go on without a new task, they
  make only a bounded number of moves of their own, and when none can move every worker has left its loop, so the joins return,
  and every task that was ever enqueued has been run exactly once.
\<close>

theorem destructor_returns_unless_overtaking:
  assumes "cv_run (cv_start n) ls = Some s" "Store \<notin> set ls" "Sleepy \<notin> set (pcs s)"
    and "cv_run s (Store # ks) = Some t" "pushed ks = []"
  shows "(list_all own_move ks \<longrightarrow> length ks < work_left s) \<and>
    (quiet t \<longrightarrow> destroyed t \<and> all_finished (core t) = mset (pushed ls))"
proof -
  obtain u where u: "cv_step Store s = Some u" "cv_run u ks = Some t" using assms(4) by (auto split: option.splits if_splits)
  note inv = cv_inv_reached [OF assms(1)]
  note inv_u = cv_inv_step [OF inv u(1)]
  have len: "length (pcs s) = n_workers s" using inv by (simp add: cv_inv_def)
  have "pcs s ! i \<noteq> Sleepy" if "i < n_workers s" for i
    using assms(3) nth_mem [of i "pcs s"] that len by metis
  then have "settling u"
    using u(1) running_drained [OF assms(1,2)] by (auto simp: settling_def drained_def split: if_splits)
  then have settling: "settling t" using settling_run [OF u(2) _ inv_u assms(5)] by blast
  have run: "cv_run (cv_start n) (ls @ Store # ks) = Some t" using assms(1,4) by (simp add: cv_run_append)
  have "length ks < work_left s" if "list_all own_move ks"
    using own_schedule_ends [OF assms(4) inv] that by simp
  moreover have "destroyed t \<and> all_finished (core t) = mset (pushed ls)" if "quiet t"
    using settled_destroyed [OF that settling] quiet_finished [OF run that] settling assms(5) cv_inv_run [OF u(2) inv_u]
    by (simp add: settling_def pushed_append)
  ultimately show ?thesis by blast
qed

definition demo_end :: "cv_label list" where
  "demo_end = [Notify_worker, Notify 0, Lock 0, Test 0, Run 0, Run 0, Lock 0, Test 0]"

lemma demo_destroyed:
  "cv_run demo_pushed (Store # demo_end) = Some (the (cv_run demo_pushed (Store # demo_end)))"
  "quiet (the (cv_run demo_pushed (Store # demo_end)))" "Sleepy \<notin> set (pcs demo_pushed)"
  by (simp_all add: demo_pushed_def demo_end_def cv_defs quiet_def moves_def)

theorem destructor_returns_unless_overtaking_witness:
  "destroyed (the (cv_run demo_pushed (Store # demo_end))) \<and> all_finished (core (the (cv_run demo_pushed (Store # demo_end)))) = {#5#}"
  using destructor_returns_unless_overtaking [OF demo_runs(1) _ demo_destroyed(3,1)] demo_destroyed(2) by (simp add: demo_end_def)

text \<open>The notifications of the destructor, one after the other, past a worker that is not asleep.\<close>

lemma notifying:
  assumes "dtor s = Some k" "k + m \<le> n_workers s" "pcs s ! i = Sleepy" "length (pcs s) = n_workers s" "i < n_workers s"
  shows "\<exists>t. cv_run s (replicate m Notify_worker) = Some t \<and> dtor t = Some (k + m) \<and> pcs t ! i = Sleepy \<and>
    due t = due s \<and> core t = core s \<and> length (pcs t) = n_workers s"
  using assms
proof (induction m arbitrary: s k)
  case (Suc m)
  let ?u = "wake k (s\<lparr>dtor := Some (k + 1)\<rparr>)"
  have "pcs ?u ! i = Sleepy" "length (pcs ?u) = n_workers ?u"
    using Suc.prems by (auto simp: wake_def set_pc_def nth_list_update)
  with Suc.IH [of ?u "k + 1"] Suc.prems show ?case by simp
qed simp

text \<open>A worker that sleeps with every notification behind it sleeps on.\<close>

lemma sleeps_on:
  assumes "cv_run s ls = Some t" "list_all own_move ls" "dtor s = Some (n_workers s)" "pcs s ! i = Asleep" "i \<notin> set (due s)"
    "i < length (pcs s)"
  shows "pcs t ! i = Asleep"
  using assms
proof (induction ls arbitrary: s)
  case (Cons l ls)
  then obtain u where u: "cv_step l s = Some u" "cv_run u ls = Some t" by (auto split: option.splits)
  have "dtor u = Some (n_workers u) \<and> pcs u ! i = Asleep \<and> i \<notin> set (due u) \<and> i < length (pcs u)"
    using Cons.prems u(1) by (cases l) (auto simp: wake_def nth_update split: if_splits option.splits dest: notin_set_remove1)
  with Cons u show ?case by simp
qed simp

text \<open>
  C17. When the destructor does overtake such a worker, it can hang: from every state that can be reached in which a worker has
  tested its predicate and not yet gone to sleep (and no notification of a task is on its way to it), \<open>stop_\<close> can be stored
  and all notifications given before the worker sleeps, since the destructor takes no mutex. The worker then
  never leaves its loop and the join never returns, unless the system wakes it up spuriously or a new task is pushed to it.
\<close>

theorem overtaking_destructor_hangs:
  assumes "cv_run (cv_start n) ls = Some s" "Store \<notin> set ls" "i < n" "pcs s ! i = Sleepy" "i \<notin> set (due s)"
  shows "\<exists>t. cv_run s (Store # replicate n Notify_worker @ [Sleep i]) = Some t \<and>
    (\<forall>ks u. cv_run t ks = Some u \<and> list_all own_move ks \<longrightarrow> \<not> destroyed u \<and> pcs u ! i = Asleep)"
proof -
  note inv = cv_inv_reached [OF assms(1)]
  have n: "n_workers s = n" by (rule pool_of_run(2) [OF assms(1)])
  let ?a = "s\<lparr>core := (core s)\<lparr>stop := True\<rparr>, dtor := Some 0\<rparr>"
  have a: "cv_step Store s = Some ?a" using running_drained(1) [OF assms(1,2)] by simp
  obtain b where b: "cv_run ?a (replicate n Notify_worker) = Some b" "dtor b = Some n" "pcs b ! i = Sleepy" "due b = due s"
    "core b = core ?a" "length (pcs b) = n"
    using notifying [of ?a 0 n i] assms(3,4) inv n by (auto simp: cv_inv_def)
  let ?t = "set_pc i Asleep b"
  have run: "cv_run s (Store # replicate n Notify_worker @ [Sleep i]) = Some ?t"
    using a b n assms(3) by (simp add: cv_run_append)
  have all: "cv_run (cv_start n) (ls @ (Store # replicate n Notify_worker @ [Sleep i]) @ ks) = Some u"
    if "cv_run ?t ks = Some u" for ks u using that assms(1) cv_run_append [of s "Store # replicate n Notify_worker @ [Sleep i]" ks] unfolding run
    by (simp add: cv_run_append del: cv_run.simps append_Cons append.append_Cons)
  have "\<not> destroyed u \<and> pcs u ! i = Asleep" if "cv_run ?t ks = Some u" "list_all own_move ks" for ks u
  proof -
    have "pcs u ! i = Asleep" by (rule sleeps_on [OF that]) (use b n assms in simp_all)
    moreover have "n_workers u = n" "worker_ok u i"
      using pool_of_run(2) [OF all [OF that(1)]] cv_inv_reached [OF all [OF that(1)]] assms(3) by (simp_all add: cv_inv_def)
    ultimately show ?thesis using assms(3) by (auto simp: worker_ok_def destroyed_def list_all_length)
  qed
  with run show ?thesis by blast
qed

definition demo_sleepy :: cv_pool where
  "demo_sleepy = the (cv_run (cv_start 2) [Lock 1, Test 1])"

lemma demo_sleepy:
  "cv_run (cv_start 2) [Lock 1, Test 1] = Some demo_sleepy" "pcs demo_sleepy ! 1 = Sleepy" "1 \<notin> set (due demo_sleepy)"
  by (simp_all add: demo_sleepy_def cv_defs numeral_2_eq_2)

theorem overtaking_destructor_hangs_witness:
  "\<exists>t. cv_run demo_sleepy (Store # replicate 2 Notify_worker @ [Sleep 1]) = Some t \<and>
    (\<forall>ks u. cv_run t ks = Some u \<and> list_all own_move ks \<longrightarrow> \<not> destroyed u \<and> pcs u ! 1 = Asleep)"
  by (rule overtaking_destructor_hangs [OF demo_sleepy(1) _ _ demo_sleepy(2,3)]) simp_all

end
