(* ===== verification/Async_Pool.thy ===== *)
theory Async_Pool
  imports Async_Calls Pool_Wakeup
begin

text \<open>
  The asynchronous calls on the pool as it is, with its mutexes and condition variables: \<open>Pool_Wakeup\<close> and the bridge of
  \<open>src/bindings.cpp\<close> composed. The system refines that of \<open>Async_Calls\<close>, whose workers need no wake-up; what is proved of
  that one holds here, and what it takes for granted, that a waiting worker moves when there is a task, is proved here.
\<close>

section \<open>The system\<close>

type_synonym 'v cv_sys = "cv_pool \<times> 'v bridge"

definition cv_started :: "nat \<Rightarrow> 'v cv_sys" where
  "cv_started n = (cv_start n, no_bridge)"

text \<open>The task whose function a move of the pool finishes.\<close>

fun finishes :: "cv_label \<Rightarrow> cv_pool \<Rightarrow> task list" where
  "finishes (Run i) s = ending (nth_worker s i)"
| "finishes l s = []"

text \<open>A move of the pool (with a new task under a new name), or one of the application, the dispatcher and the event loop.\<close>

inductive cv_async_step :: "(nat \<Rightarrow> exn + 'v) \<Rightarrow> 'v cv_sys \<Rightarrow> 'v cv_sys \<Rightarrow> bool" for res where
  pool: "cv_step l s = Some t \<Longrightarrow> \<forall>u\<in>set (pushed [l]). u \<notin># all_accepted (core s) \<Longrightarrow>
    cv_async_step res (s, b) (t, set_promises res (finishes l s) b)"
| bridge: "async_step res (core s, b) (core s, c) \<Longrightarrow> cv_async_step res (s, b) (s, c)"

inductive cv_async_run :: "(nat \<Rightarrow> exn + 'v) \<Rightarrow> 'v cv_sys \<Rightarrow> 'v cv_sys \<Rightarrow> bool" for res where
  cv_begin: "cv_async_run res s s"
| cv_next: "cv_async_run res s t \<Longrightarrow> cv_async_step res t u \<Longrightarrow> cv_async_run res s u"

section \<open>Refinement\<close>

definition without_cv :: "'v cv_sys \<Rightarrow> 'v async_sys" where
  "without_cv s = (core (fst s), snd s)"

lemma set_promises_Nil [simp]: "set_promises res [] b = b"
  by (simp add: set_promises_def)

text \<open>Each move is one of the simpler system, or none.\<close>

lemma pool_move_refines:
  assumes "cv_step l s = Some t" "\<forall>u\<in>set (pushed [l]). u \<notin># all_accepted (core s)" "cv_inv s"
  shows "(core s, b) = (core t, set_promises res (finishes l s) b) \<or>
    async_step res (core s, b) (core t, set_promises res (finishes l s) b)"
proof (cases l)
  case (Push counts u)
  then have "pool_step (core s) (Enqueue counts u) (core t)"
    using assms(1) by (auto simp: Let_def split: if_splits intro: pool_step.enq)
  from async_step.put [OF this, of res b] assms(2) Push show ?thesis by simp
next
  case Store
  then have "pool_step (core s) Stop (core t)" using assms(1) by (auto split: if_splits intro: pool_step.stop)
  from async_step.stop [OF this, of res b] Store show ?thesis by simp
next
  case (Run i)
  then obtain w where "i < n_workers s" "worker_step (stop (core s)) (nth_worker s i) = Some w" "t = set_worker i w s"
    using assms(1) by (auto split: if_splits)
  from async_step.work [OF this(1,2), of res b] this(3) Run show ?thesis by simp
next
  case (Test i)
  show ?thesis
  proof (cases "worker_step (stop (core s)) (nth_worker s i)")
    case None
    with Test assms(1) show ?thesis by (auto split: if_splits)
  next
    case (Some w)
    have i: "i < n_workers s" "pcs s ! i = Testing" using Test assms(1) by (auto split: if_splits)
    then have "phase (nth_worker s i) = Waiting" using assms(3) by (auto simp: cv_inv_def worker_ok_def)
    then have "ending (nth_worker s i) = []" by (simp add: ending_def)
    with async_step.work [OF i(1) Some, of res b] Some Test i assms(1) show ?thesis by auto
  qed
qed (use assms(1) in \<open>auto split: if_splits option.splits\<close>)

lemma cv_step_refines:
  "cv_async_step res s t \<Longrightarrow> cv_inv (fst s) \<Longrightarrow> without_cv s = without_cv t \<or> async_step res (without_cv s) (without_cv t)"
proof (induction rule: cv_async_step.induct)
  case (pool l s t b)
  then show ?case using pool_move_refines [OF pool(1,2), of b res] by (simp add: without_cv_def)
qed (simp add: without_cv_def)

lemma cv_step_keeps_inv: "cv_async_step res s t \<Longrightarrow> cv_inv (fst s) \<Longrightarrow> cv_inv (fst t)"
  by (induction rule: cv_async_step.induct) (auto dest: cv_inv_step)

lemma cv_run_refines:
  "cv_async_run res s t \<Longrightarrow> cv_inv (fst s) \<Longrightarrow> cv_inv (fst t) \<and> async_run res (without_cv s) (without_cv t)"
proof (induction rule: cv_async_run.induct)
  case (cv_begin s)
  then show ?case by (simp add: async_run.begin_run)
next
  case (cv_next s t u)
  then have t: "cv_inv (fst t)" "async_run res (without_cv s) (without_cv t)" by blast+
  from cv_step_refines [OF cv_next(2) t(1)] cv_step_keeps_inv [OF cv_next(2) t(1)] t(2) show ?case
    by (metis async_run.next_step)
qed

lemma start_refines: "cv_inv (fst (cv_started n))" "without_cv (cv_started n) = started n"
  by (simp add: cv_started_def cv_inv_start) (simp add: cv_started_def without_cv_def started_def cv_start_def)

lemma cv_inv_of_run:
  assumes "cv_async_run res (cv_started n) s"
  shows "cv_inv (fst s)" "async_inv res (without_cv s)"
proof -
  have "cv_inv (fst s) \<and> async_run res (started n) (without_cv s)"
    using cv_run_refines [OF assms start_refines(1)] start_refines(2) by metis
  then show "cv_inv (fst s)" "async_inv res (without_cv s)" using async_run_inv [OF _ async_inv_start] by blast+
qed

text \<open>
  C11. Asynchronous calls meet their specification. Every move of a worker (taking its mutex, testing, falling asleep, waking up,
  taking and running a task), of \<open>enqueue\<close> and its notification, of the dispatcher, of the event loop and of the application, in any
  interleaving, is for the application one of four things: nothing; a new call, whose awaitable is pending; the cancellation
  of a pending one; or the answer to a pending one, which is the value its own task returned or the exception it threw. So
  no answer is lost by being overwritten, none goes to another call, and none is given twice. An answer is only given to a call whose task
  has run, exactly once, on one worker.
\<close>

theorem async_calls_over_condition_variables:
  assumes "cv_async_run res (cv_started n) s" "cv_async_step res s s'"
  shows "call_spec res (seen (without_cv s)) (seen (without_cv s')) \<and>
    (\<forall>t f. seen (without_cv s) t = Some f \<and> f \<noteq> Pending \<and> f \<noteq> Cancelled \<longrightarrow>
       f = outcome_of (res t) \<and> count (all_finished (core (fst s))) t = 1)"
proof -
  note inv = cv_inv_of_run [OF assms(1)]
  have "call_spec res (seen (without_cv s)) (seen (without_cv s'))"
    using cv_step_refines [OF assms(2) inv(1)] step_spec [OF _ inv(2)] call_spec.unseen by metis
  moreover have "fst (without_cv s) = core (fst s)" by (simp add: without_cv_def)
  ultimately show ?thesis using answered_once [OF inv(2)] by metis
qed

section \<open>Every call is answered\<close>

interpretation cv_calls: dispatching "\<lambda>b. cv_async_run res s (q, b)" for res s q
  by unfold_locales (blast intro: cv_next cv_async_step.bridge async_step.intros)+

lemma quiet_idle:
  assumes "cv_inv s" "pool_inv (core s)" "\<not> stop (core s)" "quiet s"
  shows "\<forall>w\<in>set (workers (core s)). worker_step (stop (core s)) w = None"
proof
  fix w assume w: "w \<in> set (workers (core s))"
  then obtain i where "i < n_workers s" "nth_worker s i = w" by (auto simp: in_set_conv_nth)
  moreover have "phase w \<noteq> Exited" using assms(2,3) w by (auto simp: pool_inv_def)
  ultimately show "worker_step (stop (core s)) w = None"
    using quiet_worker [OF assms(4) _ assms(1), of i] assms(3) by (auto simp: worker_step_def)
qed


section \<open>A run that the theorems apply to\<close>

fun finished_by :: "cv_label list \<Rightarrow> cv_pool \<Rightarrow> task list" where
  "finished_by [] s = []"
| "finished_by (l # ls) s = finishes l s @ (case cv_step l s of None \<Rightarrow> [] | Some t \<Rightarrow> finished_by ls t)"

lemma set_promises_append: "set_promises res (xs @ ys) b = set_promises res ys (set_promises res xs b)"
  by (simp add: set_promises_def)

lemma pool_moves_run:
  "cv_async_run res s (p, b) \<Longrightarrow> cv_run p ls = Some q \<Longrightarrow> pushed ls = [] \<Longrightarrow>
     cv_async_run res s (q, set_promises res (finished_by ls p) b)"
proof (induction ls arbitrary: p b)
  case (Cons l ls)
  then obtain u where u: "cv_step l p = Some u" "cv_run u ls = Some q" by (auto split: option.splits)
  have none: "pushed [l] = []" "pushed ls = []" using Cons.prems(3) pushed_Cons [of l ls] by simp_all
  then have "cv_async_run res s (u, set_promises res (finishes l p) b)"
    by (intro cv_next [OF Cons.prems(1) cv_async_step.pool [OF u(1)]]) simp
  from Cons.IH [OF this u(2) none(2)] show ?case by (simp add: u(1) set_promises_append)
qed simp

text \<open>A pool of one worker that has fallen asleep, and a call whose task returns 5.\<close>

definition demo_pool :: "wait_pc \<Rightarrow> worker \<Rightarrow> nat list \<Rightarrow> cv_pool" where
  "demo_pool x w ns = \<lparr>core = \<lparr>workers = [w], stop = False\<rparr>, pcs = [x], due = ns, dtor = None\<rparr>"

definition asleep_pool :: cv_pool where
  "asleep_pool = demo_pool Asleep new_worker []"

definition called_pool :: cv_pool where
  "called_pool = demo_pool Asleep (add_task 7 new_worker) [0]"

definition rested_pool :: cv_pool where
  "rested_pool = demo_pool Asleep (new_worker\<lparr>accepted := [7], finished := [7]\<rparr>) []"

lemma demo_pools:
  "cv_run (cv_start 1) [Lock 0, Test 0, Sleep 0] = Some asleep_pool" "cv_step (Push [0] 7) asleep_pool = Some called_pool"
  "finished_by [Lock 0, Test 0, Sleep 0] (cv_start 1) = []"
  "7 \<notin># all_accepted (core asleep_pool)" "7 \<in># all_accepted (core called_pool)" "\<not> stop (core rested_pool)"
  by (simp_all add: asleep_pool_def called_pool_def rested_pool_def demo_pool_def cv_defs all_accepted_def)

lemma demo_quiet: "quiet rested_pool"
  by (simp add: rested_pool_def demo_pool_def cv_defs quiet_def moves_def)

lemma demo_rest: "cv_run called_pool [Notify 0, Lock 0, Test 0, Run 0, Run 0, Lock 0, Test 0, Sleep 0] = Some rested_pool"
  by (simp add: called_pool_def rested_pool_def demo_pool_def cv_defs)

lemma demo_finished: "finished_by [Notify 0, Lock 0, Test 0, Run 0, Run 0, Lock 0, Test 0, Sleep 0] called_pool = [7]"
  by (simp add: called_pool_def demo_pool_def cv_defs ending_def)

lemma demo_call: "cv_async_run gives_5 (cv_started 1) (rested_pool, set_promises gives_5 [7] wrapped)"
proof -
  have asleep: "cv_async_run gives_5 (cv_started 1) (asleep_pool, no_bridge)"
    using pool_moves_run [OF cv_begin [of gives_5 "cv_started 1", unfolded cv_started_def] demo_pools(1)] demo_pools(3)
    by (simp add: cv_started_def)
  have "cv_async_step gives_5 (asleep_pool, no_bridge) (called_pool, no_bridge)"
    using cv_async_step.pool [OF demo_pools(2), of gives_5 no_bridge] demo_pools(4) by simp
  note called = cv_next [OF asleep this]
  have "async_step gives_5 (core called_pool, no_bridge) (core called_pool, wrapped)"
    using async_step.wrap [OF demo_pools(5), of no_bridge gives_5] by (simp add: wrapped_def no_bridge_def)
  from pool_moves_run [OF cv_next [OF called cv_async_step.bridge [OF this]] demo_rest] demo_finished show ?thesis by simp
qed

theorem async_calls_over_condition_variables_witness:
  "\<exists>s. seen (without_cv s) 7 = Some (Result (5 :: nat)) \<and> count (all_finished (core (fst s))) 7 = 1"
proof -
  let ?s = "(rested_pool, drain (pass (set_promises gives_5 [7] wrapped)))"
  have "cv_async_run gives_5 (cv_started 1) ?s" by (rule cv_calls.round [OF demo_call one_call_idle(1-3)])
  from async_calls_over_condition_variables [OF this cv_async_step.bridge [OF async_step.close]]
  have "seen (without_cv ?s) 7 = Some (Result 5) \<longrightarrow> count (all_finished (core (fst ?s))) 7 = 1" by blast
  moreover have "seen (without_cv ?s) 7 = Some (Result 5)"
    using one_call_idle(4) one_call_answer by (simp add: seen_def without_cv_def round_submitted)
  ultimately show ?thesis by blast
qed


end
