(* ===== verification/Fake_Server.thy ===== *)
theory Fake_Server
  imports Delivery Public_Methods
begin

text \<open>
  The NETCONF server the integration tests run against (\<open>test/fake_netconf_ssh_server.py\<close>): its texts, its answers to
  the SSH requests, the loop of \<open>_handle_client\<close> over what arrives, and what its threads send. paramiko is a parameter: what
  \<open>recv\<close> gives, in order. Texts are ASCII, on which encoding and decoding change nothing. The client of the other
  theories is then run against this server.
\<close>

section \<open>Texts\<close>

definition SERVER_HELLO :: bytes where
  "SERVER_HELLO =
     ''<?xml version=\"1.0\" encoding=\"UTF-8\"?>'' @
     ''<hello xmlns=\"urn:ietf:params:xml:ns:netconf:base:1.0\">'' @
     ''<capabilities>'' @
     ''<capability>urn:ietf:params:netconf:base:1.0</capability>'' @
     ''<capability>urn:ietf:params:netconf:capability:writable-running:1.0</capability>'' @
     ''<capability>urn:ietf:params:netconf:capability:candidate:1.0</capability>'' @
     ''<capability>urn:ietf:params:xml:ns:netconf:notification:1.0</capability>'' @
     ''</capabilities>'' @
     ''<session-id>101</session-id>'' @
     ''</hello>'' @ '']]>]]>''"

definition OK_REPLY :: bytes where
  "OK_REPLY = ''<rpc-reply message-id=\"101\"><ok/></rpc-reply>'' @ '']]>]]>''"

definition ERROR_REPLY :: bytes where
  "ERROR_REPLY =
     ''<rpc-reply message-id=\"101\">'' @
     ''<rpc-error>'' @
     ''<error-type>application</error-type>'' @
     ''<error-tag>operation-failed</error-tag>'' @
     ''<error-severity>error</error-severity>'' @
     ''<error-message>fake server forced RPC error</error-message>'' @
     ''</rpc-error>'' @
     ''</rpc-reply>'' @ '']]>]]>''"

definition notification_xml :: "nat \<Rightarrow> bytes \<Rightarrow> bytes" where
  "notification_xml sequence body =
     ''<notification xmlns=\"urn:ietf:params:xml:ns:netconf:notification:1.0\">'' @
     ''<eventTime>2026-06-25T00:00:'' @ pad0 2 sequence @ ''Z</eventTime>'' @
     ''<sequence>'' @ show_nat sequence @ ''</sequence>'' @ body @ ''</notification>''"

section \<open>The SSH requests\<close>

record ssh_server =
  sv_username :: string
  sv_password :: string
  subsystem_requested :: bool

definition check_auth_password :: "ssh_server \<Rightarrow> string \<Rightarrow> string \<Rightarrow> bool" where
  "check_auth_password srv username password \<longleftrightarrow> username = sv_username srv \<and> password = sv_password srv"

definition check_channel_request :: "string \<Rightarrow> bool" where
  "check_channel_request kind \<longleftrightarrow> kind = ''session''"

definition check_channel_subsystem_request :: "string \<Rightarrow> ssh_server \<Rightarrow> bool \<times> ssh_server" where
  "check_channel_subsystem_request name srv =
     (if name = ''netconf'' then (True, srv\<lparr>subsystem_requested := True\<rparr>) else (False, srv))"

section \<open>Reading and recording\<close>

text \<open>A pass of the reading loop: its deadline is over, \<open>recv\<close> times out, or gives bytes (none: the channel is closed).\<close>

datatype recv = Late | Timed_Out | Chunk bytes

text \<open>\<open>_read_until_eom\<close>; \<open>None\<close>: it has not returned when the passes run out. Passes that follow are left for the next call.\<close>

fun read_until_eom :: "bytes \<Rightarrow> recv list \<Rightarrow> (bytes \<times> recv list) option" where
  "read_until_eom data [] = None"
| "read_until_eom data (Late # rs) = Some ([], rs)"
| "read_until_eom data (Timed_Out # rs) = read_until_eom data rs"
| "read_until_eom data (Chunk new # rs) =
     (if new = [] then Some ([], rs)
      else let data = data @ new in
        if find_sub EOM data \<noteq> None then Some (data, rs) else read_until_eom data rs)"

text \<open>\<open>str.replace\<close> with the empty string, and \<open>str.strip\<close> (the white space of ASCII text).\<close>

function remove_eoms :: "bytes \<Rightarrow> bytes" where
  "remove_eoms text =
     (case find_sub EOM text of
        None \<Rightarrow> text
      | Some k \<Rightarrow> take k text @ remove_eoms (drop (k + 6) text))"
  by pat_completeness auto

termination
  by (relation "measure length") (auto dest: find_sub_bound)

declare remove_eoms.simps [simp del]

definition py_space :: "char \<Rightarrow> bool" where
  "py_space c \<longleftrightarrow> isspace c \<or> c \<in> {CHR 0x1C, CHR 0x1D, CHR 0x1E, CHR 0x1F}"

definition py_strip :: "bytes \<Rightarrow> bytes" where
  "py_strip s = rev (dropWhile py_space (rev (dropWhile py_space s)))"

definition strip_eom :: "bytes \<Rightarrow> bytes" where
  "strip_eom text = py_strip (remove_eoms text)"

record rpc_record =
  index :: nat
  rpc_text :: bytes

record fake_server =
  rpc_responder :: "bytes \<Rightarrow> bytes"
  notifications :: "bytes list"
  notification_raw_chunks :: "bytes list"
  incomplete_notification :: "bytes option"
  reply_chunk_size :: "int option"
  records :: "rpc_record list"
  sent_chunks :: "bytes list"          \<comment> \<open>what \<open>_handle_client\<close> gave to \<open>_send_all\<close>\<close>
  senders :: "nat list"                \<comment> \<open>the threads started for notifications, by the record's index\<close>

definition record_rpc :: "bytes \<Rightarrow> fake_server \<Rightarrow> rpc_record \<times> fake_server" where
  "record_rpc rpc s =
     (let r = \<lparr>index = length (records s), rpc_text = rpc\<rparr> in (r, s\<lparr>records := records s @ [r]\<rparr>))"

text \<open>\<open>_send_text\<close>: the slices given to \<open>_send_all\<close>.\<close>

function slices :: "nat \<Rightarrow> bytes \<Rightarrow> bytes list" where
  "slices n t = (if t = [] \<or> n = 0 then [] else take n t # slices n (drop n t))"
  by pat_completeness auto

termination
  by (relation "measure (\<lambda>(n, t). length t)") auto

declare slices.simps [simp del]

definition send_text :: "bytes \<Rightarrow> fake_server \<Rightarrow> fake_server" where
  "send_text t s =
     s\<lparr>sent_chunks := sent_chunks s @
       (case reply_chunk_size s of
          None \<Rightarrow> [t]
        | Some n \<Rightarrow> if n \<le> 0 then [t] else slices (nat n) t)\<rparr>"

text \<open>One pass of the loop of \<open>_handle_client\<close>, and the loop, over what arrives.\<close>

definition handle_rpc :: "bytes \<Rightarrow> fake_server \<Rightarrow> fake_server" where
  "handle_rpc rpc s =
     (if rpc = [] then s
      else
        let cleaned = strip_eom rpc;
            (r, s) = record_rpc cleaned s;
            s = send_text (rpc_responder s cleaned) s
        in if find_sub ''<create-subscription'' cleaned \<noteq> None then s\<lparr>senders := senders s @ [index r]\<rparr> else s)"

lemma read_shrinks: "read_until_eom data rs = Some (t, rest) \<Longrightarrow> length rest < length rs"
  by (induction data rs rule: read_until_eom.induct) (auto simp: Let_def split: if_splits)

function handle_client :: "recv list \<Rightarrow> fake_server \<Rightarrow> fake_server" where
  "handle_client rs s =
     (case read_until_eom [] rs of None \<Rightarrow> s | Some (rpc, rest) \<Rightarrow> handle_client rest (handle_rpc rpc s))"
  by pat_completeness auto

termination
  by (relation "measure (\<lambda>(rs, s). length rs)") (auto dest: read_shrinks)

declare handle_client.simps [simp del]

text \<open>\<open>_send_notifications\<close>: \<open>go k\<close>: before the \<open>k\<close>-th message the server is not stopped, and sending it succeeds.\<close>

definition with_eom :: "bytes \<Rightarrow> bytes" where
  "with_eom payload = (if suffix EOM payload then payload else payload @ EOM)"

definition send_notifications :: "(nat \<Rightarrow> bool) \<Rightarrow> fake_server \<Rightarrow> bytes list" where
  "send_notifications go s =
     (let all = notification_raw_chunks s @ map with_eom (notifications s) @
            (case incomplete_notification s of None \<Rightarrow> [] | Some t \<Rightarrow> [t])
      in map snd (takeWhile (\<lambda>(k, _). go k) (enumerate 0 all)))"

section \<open>An RPC and its reply\<close>

lemma concat_slices: "0 < n \<Longrightarrow> concat (slices n t) = t"
proof (induction n t rule: slices.induct)
  case (1 n t)
  then show ?case by (subst slices.simps) simp
qed

lemma sent_text: "concat (sent_chunks (send_text t s)) = concat (sent_chunks s) @ t"
  by (auto simp: send_text_def concat_slices split: option.splits)

text \<open>White space before a request does not touch its marker.\<close>

lemma eom_set: "set EOM = {CHR '']'', CHR ''>''}"
  by (auto simp: EOM_def)

lemma space_no_eom:
  assumes "set w \<inter> set EOM = {}"
  shows "no_eom w" "no_eom_start w"
proof -
  have "\<not> prefix EOM (drop k w)" if "k < length w" for k
  proof
    assume "prefix EOM (drop k w)"
    then have "set EOM \<subseteq> set w" using set_mono_prefix set_drop_subset [of k w] by blast
    with assms show False by (simp add: eom_set)
  qed
  then show "no_eom w" by (simp add: no_eom_iff)
  have "\<not> suffix (take k EOM) w" if "k \<in> {1..<6}" for k
  proof
    assume "suffix (take k EOM) w"
    then have "set (take k EOM) \<subseteq> set w" by (rule set_mono_suffix)
    moreover have "hd (take k EOM) \<in> set (take k EOM)" using that by (intro hd_in_set) (auto simp: EOM_def)
    ultimately show False using assms set_take_subset [of k EOM] by blast
  qed
  then show "no_eom_start w" by (simp add: no_eom_start_def)
qed

lemma space_not_eom: "isspace c \<Longrightarrow> c \<notin> set EOM"
  unfolding eom_set isspace_def by auto

lemma spaces_apart: "list_all isspace w \<Longrightarrow> set w \<inter> set EOM = {}"
  by (induction w) (simp_all add: space_not_eom)

lemma spaced_request:
  assumes "list_all isspace w" "no_eom rpc"
  shows "find_sub EOM (w @ rpc_with_eom rpc) = Some (length w + length rpc + 1)"
proof -
  note w = space_no_eom [OF spaces_apart [OF assms(1)]]
  have "no_eom (w @ rpc)" by (rule no_eom_append [OF w(1) assms(2)]) (use w(2) in simp)
  from request_single [OF this] show ?thesis by (simp add: rpc_with_eom_def)
qed

lemma strip_spaces:
  assumes "list_all py_space w" "list_all py_space v"
  shows "py_strip (w @ x @ v) = py_strip x"
proof -
  have w: "dropWhile py_space (w @ y) = dropWhile py_space y" for y
    using assms(1) by (induction w) simp_all
  have v: "dropWhile py_space (rev v @ y) = dropWhile py_space y" for y
    using assms(2) by (induction v arbitrary: y) simp_all
  show ?thesis
  proof (cases "\<exists>c\<in>set x. \<not> py_space c")
    case True
    then have "dropWhile py_space (x @ v) = dropWhile py_space x @ v" by (auto intro: dropWhile_append1)
    then show ?thesis by (simp add: py_strip_def w v)
  next
    case False
    then have "\<forall>c\<in>set (x @ v). py_space c" using assms(2) by (auto simp: list_all_iff)
    then have d: "dropWhile py_space (x @ v) = []" "dropWhile py_space x = []" by (simp_all only: dropWhile_eq_Nil_conv) auto
    show ?thesis by (simp only: py_strip_def w d)
  qed
qed

lemma read_in_chunks:
  assumes "find_sub EOM data = None" "find_sub EOM (data @ concat cs) \<noteq> None" "\<forall>c\<in>set cs. c \<noteq> []"
  shows "\<exists>ds es. cs = ds @ es \<and> read_until_eom data (map Chunk cs) = Some (data @ concat ds, map Chunk es) \<and>
    find_sub EOM (data @ concat ds) \<noteq> None"
  using assms
proof (induction cs arbitrary: data)
  case (Cons c cs)
  show ?case
  proof (cases "find_sub EOM (data @ c) = None")
    case True
    with Cons.IH [of "data @ c"] Cons.prems obtain ds es where "cs = ds @ es"
      "read_until_eom (data @ c) (map Chunk cs) = Some (data @ c @ concat ds, map Chunk es)"
      "find_sub EOM (data @ c @ concat ds) \<noteq> None" by auto
    then show ?thesis using True Cons.prems by (intro exI [of _ "c # ds"] exI [of _ es]) (auto simp: Let_def)
  next
    case False
    then show ?thesis using Cons.prems by (intro exI [of _ "[c]"] exI [of _ cs]) (auto simp: Let_def)
  qed
qed simp

text \<open>What the server makes of the bytes up to the read in which the marker is complete.\<close>

lemma strip_request:
  assumes w: "list_all isspace w" and rpc: "no_eom rpc" and u: "list_all isspace u"
  shows "strip_eom (w @ rpc @ [CHR 0x0A] @ EOM @ u) = py_strip rpc"
proof -
  let ?t = "w @ rpc @ [CHR 0x0A] @ EOM @ u"
  have no: "find_sub EOM u = None" using space_no_eom(1) [OF spaces_apart [OF u]] by (simp add: no_eom_def)
  note first = spaced_request [OF w rpc]
  have "find_sub EOM ((w @ rpc @ [CHR 0x0A]) @ EOM @ []) = Some (length (w @ rpc @ [CHR 0x0A]))"
  proof (rule find_sub_append_first)
    fix k
    assume k: "k < length (w @ rpc @ [CHR 0x0A])"
    show "\<not> prefix EOM (drop k ((w @ rpc @ [CHR 0x0A]) @ EOM @ []))"
    proof
      assume "prefix EOM (drop k ((w @ rpc @ [CHR 0x0A]) @ EOM @ []))"
      then have "prefix EOM (drop k ((w @ rpc @ [CHR 0x0A]) @ EOM @ []) @ [CHR 0x0A])" by (rule prefix_prefix)
      then have "prefix EOM (drop k (w @ rpc_with_eom rpc))" using k by (simp add: rpc_with_eom_def EOM_def)
      then show False using find_sub_least [OF first, of k] k by simp
    qed
  qed simp
  then have "find_sub EOM (w @ rpc @ [CHR 0x0A] @ EOM) = Some (length w + length rpc + 1)" by simp
  from find_sub_append_early [OF this, of u] have "find_sub EOM ?t = Some (length w + length rpc + 1)" by simp
  then have "remove_eoms ?t = w @ rpc @ [CHR 0x0A] @ u"
    using no remove_eoms.simps [of u] by (subst remove_eoms.simps) (simp add: EOM_def)
  moreover have "list_all py_space w" "list_all py_space ([CHR 0x0A] @ u)"
    using w u by (auto simp: list_all_iff py_space_def isspace_def)
  ultimately show ?thesis using strip_spaces [of w "[CHR 0x0A] @ u" rpc] by (simp add: strip_eom_def)
qed

lemma request_arrives:
  assumes w: "list_all isspace w" and rpc: "no_eom rpc" and cs: "concat cs = w @ rpc_with_eom rpc" "\<forall>c\<in>set cs. c \<noteq> []"
  shows "\<exists>data es. read_until_eom [] (map Chunk cs) = Some (data, map Chunk es) \<and> data \<noteq> [] \<and> strip_eom data = py_strip rpc \<and>
    list_all isspace (concat es) \<and> (\<forall>c\<in>set es. c \<noteq> [])"
proof -
  note first = spaced_request [OF w rpc]
  obtain ds es where d: "cs = ds @ es" "read_until_eom [] (map Chunk cs) = Some (concat ds, map Chunk es)"
    "find_sub EOM (concat ds) \<noteq> None"
    using read_in_chunks [of "[]" cs] first cs by (auto simp: EOM_def)
  then obtain k where k: "find_sub EOM (concat ds) = Some k" by auto
  have split: "concat ds @ concat es = w @ rpc_with_eom rpc" using d(1) cs(1) by simp
  then have "k = length w + length rpc + 1" using find_sub_append_early [OF k, of "concat es"] first by simp
  then have len: "length w + length rpc + 7 \<le> length (concat ds)" using find_sub_bound [OF k] by simp
  have all: "w @ rpc_with_eom rpc = (w @ rpc @ [CHR 0x0A] @ EOM) @ [CHR 0x0A]" by (simp add: rpc_with_eom_def EOM_def)
  let ?a = "w @ rpc @ [CHR 0x0A] @ EOM"
  have "prefix (concat ds) (?a @ [CHR 0x0A])" using split unfolding all by (metis prefixI)
  then have "prefix ?a (concat ds)" using prefix_length_prefix [of ?a "?a @ [CHR 0x0A]" "concat ds"] len by simp
  then obtain u where u: "concat ds = ?a @ u" "u @ concat es = [CHR 0x0A]" using split unfolding all by (auto elim: prefixE)
  then have "list_all isspace (u @ concat es)" by (simp only: u(2)) (simp add: isspace_def)
  then have sp: "list_all isspace u" "list_all isspace (concat es)" by (simp_all only: list_all_append)
  have "strip_eom (concat ds) = py_strip rpc" using strip_request [OF w rpc sp(1)] u(1) by simp
  moreover have "concat ds \<noteq> []" by (simp only: u(1)) simp
  moreover have "\<forall>c\<in>set es. c \<noteq> []" using cs(2) d(1) by auto
  ultimately show ?thesis using d(2) sp(2) by blast
qed

lemma no_request_in_spaces:
  "list_all isspace data \<Longrightarrow> list_all isspace (concat cs) \<Longrightarrow> \<forall>c\<in>set cs. c \<noteq> [] \<Longrightarrow> read_until_eom data (map Chunk cs) = None"
proof (induction cs arbitrary: data)
  case (Cons c cs)
  then have "list_all isspace (data @ c)" by simp
  moreover from this have "find_sub EOM (data @ c) = None" using space_no_eom(1) [OF spaces_apart] by (simp add: no_eom_def)
  ultimately show ?case using Cons by (simp add: Let_def)
qed simp

lemma server_answers:
  assumes "list_all isspace w" "no_eom rpc" "concat cs = w @ rpc_with_eom rpc" "\<forall>c\<in>set cs. c \<noteq> []"
  shows "map rpc_text (records (handle_client (map Chunk cs) s)) = map rpc_text (records s) @ [py_strip rpc] \<and>
    concat (sent_chunks (handle_client (map Chunk cs) s)) = concat (sent_chunks s) @ rpc_responder s (py_strip rpc)"
proof -
  obtain data es where d: "read_until_eom [] (map Chunk cs) = Some (data, map Chunk es)" "data \<noteq> []"
    "strip_eom data = py_strip rpc" "list_all isspace (concat es)" "\<forall>c\<in>set es. c \<noteq> []"
    using request_arrives [OF assms] by blast
  have "read_until_eom [] (map Chunk es) = None" by (rule no_request_in_spaces) (use d in auto)
  then have h: "handle_client (map Chunk cs) s = handle_rpc data s"
    using d(1) by (simp add: handle_client.simps [of "map Chunk cs"] handle_client.simps [of "map Chunk es"])
  have "records (send_text t r) = records r" for t r by (simp add: send_text_def)
  then show ?thesis
    unfolding h using d(2,3) by (auto simp: handle_rpc_def record_rpc_def Let_def sent_text)
qed

lemma py_strip_tagged:
  assumes "rpc \<noteq> []" "hd rpc = CHR ''<''" "last rpc = CHR ''>''"
  shows "py_strip rpc = rpc"
proof -
  have c: "\<not> py_space (CHR ''<'')" "\<not> py_space (CHR ''>'')" by (simp_all add: py_space_def isspace_def)
  have "dropWhile py_space rpc = rpc" using assms(1,2) c(1) by (cases rpc) auto
  moreover have "dropWhile py_space (rev rpc) = rev rpc" using assms(1,3) c(2) by (cases rpc rule: rev_cases) auto
  ultimately show ?thesis by (simp add: py_strip_def)
qed

text \<open>
  C13. An RPC and its reply, over the wire. A client sends an RPC without blocking to the tests' server; the server receives the bytes in any
  pieces, perhaps after what was left of the request before, and sends its answer in slices of any size; the client reads
  it in any pieces. If the call returns, the server has recorded exactly one RPC more, whose text is the RPC sent
  (without white space at its ends, of which a built request has none), and the reply is, byte for byte, the answer of the server's responder to that text.
\<close>

theorem rpc_round_trip:
  assumes call: "send_rpc_non_blocking_func chk p rpc ws start es = (sent, Returns (Inr reply))" "0 \<le> rd_timeout p"
    and rpc: "find_sub EOM rpc = None"
    and arrives: "concat cs = w @ sent" "\<forall>c\<in>set cs. c \<noteq> []" "list_all isspace w"
    and answer: "rpc_responder s (py_strip rpc) = m @ EOM" "find_sub EOM (m @ EOM) = Some (length m)"
    and comes_back: "concat (sent_chunks (handle_client (map Chunk cs) s)) = concat (sent_chunks s) @ received es @ rest"
  shows "map rpc_text (records (handle_client (map Chunk cs) s)) = map rpc_text (records s) @ [py_strip rpc] \<and>
    reply = rpc_responder s (py_strip rpc) \<and>
    (rpc \<noteq> [] \<and> hd rpc = CHR ''<'' \<and> last rpc = CHR ''>'' \<longrightarrow> py_strip rpc = rpc)"
proof -
  let ?w = "write_loop ''Poll error during write: '' ''Failed to send RPC: '' (rpc_with_eom rpc) 0 ws"
  obtain r where w: "?w = (sent, Returns (Inr r))" and read: "read_until_eom_non_blocking p start es = Returns (Inr reply)"
    using call(1) by (auto simp: send_rpc_non_blocking_func_def split: if_splits prod.splits outcome.splits sum.splits option.splits)
  have "sent = rpc_with_eom rpc"
    using write_loop_sent [of "''Poll error during write: ''" "''Failed to send RPC: ''" "rpc_with_eom rpc" 0 ws] w by simp
  then have "concat cs = w @ rpc_with_eom rpc" using arrives(1) by simp
  note server = server_answers [OF arrives(3) rpc [folded no_eom_def] this arrives(2), of s]
  then have got: "received es @ rest = m @ EOM" using comes_back answer(1) by simp
  have "find_sub EOM (response (new_reader start)) = None" by (simp add: new_reader_def EOM_def)
  from nb_loop_result [OF call(2) this read [unfolded read_until_eom_non_blocking_def]]
  have reply: "prefix reply (received es)" "find_sub EOM reply \<noteq> None" by (auto simp: new_reader_def received_def)
  then have pre: "prefix reply (m @ EOM @ [])" using got by (metis append_Nil2 prefix_order.trans prefixI)
  then have "prefix (m @ EOM) reply" by (rule first_message_in_prefix [OF answer(2) _ reply(2)])
  with pre have "reply = m @ EOM" by (simp add: prefix_order.antisym)
  then show ?thesis using server answer(1) py_strip_tagged by auto
qed

text \<open>The default responder, with replies in slices of 7.\<close>

definition default_server :: fake_server where
  "default_server = \<lparr>rpc_responder = (\<lambda>_. OK_REPLY), notifications = [], notification_raw_chunks = [], incomplete_notification = None,
     reply_chunk_size = Some 7, records = [], sent_chunks = [], senders = []\<rparr>"

lemma ok_reply_parts: "OK_REPLY = ''<rpc-reply message-id=\"101\"><ok/></rpc-reply>'' @ EOM"
  by (simp add: OK_REPLY_def EOM_def)

theorem rpc_round_trip_witness:
  "map rpc_text (records (handle_client [Chunk ''<x/>'', Chunk ([CHR 0x0A] @ EOM), Chunk [CHR 0x0A]] default_server)) = [''<x/>'']"
proof -
  let ?m = "''<rpc-reply message-id=\"101\"><ok/></rpc-reply>''"
  let ?cs = "[''<x/>'', [CHR 0x0A] @ EOM, [CHR 0x0A]]"
  have m: "find_sub EOM ?m = None" "find_sub EOM (?m @ EOM) = Some (length ?m)" by code_simp+
  have "read_until_eom_non_blocking rpc_reader 0 [reads_at 1 (Got (?m @ EOM @ []))] = Returns (Inr (?m @ EOM @ []))"
    by (rule reader_swallows [OF _ _ _ m(1)]) (simp_all add: rpc_reader_def reads_at_def ns_per_s_def)
  then have call: "send_rpc_non_blocking_func (\<lambda>_. None) rpc_reader ''<x/>'' [Wrote 3, Wrote_Eagain None, Wrote 9] 0
      [reads_at 1 (Got (?m @ EOM))] = (rpc_with_eom ''<x/>'', Returns (Inr (?m @ EOM)))"
    by (simp add: send_rpc_non_blocking_func_def rpc_with_eom_def rpc_reader_def)
  have rpc: "find_sub EOM ''<x/>'' = None" and t: "0 \<le> rd_timeout rpc_reader" by (code_simp, simp add: rpc_reader_def)
  have cs: "concat ?cs = [] @ rpc_with_eom ''<x/>''" "\<forall>c\<in>set ?cs. c \<noteq> []" "list_all isspace []"
    by (simp_all add: rpc_with_eom_def EOM_def)
  have r: "rpc_responder default_server (py_strip ''<x/>'') = ?m @ EOM" by (simp only: default_server_def fake_server.simps ok_reply_parts)
  have "concat (sent_chunks (handle_client (map Chunk ?cs) default_server)) =
      concat (sent_chunks default_server) @ received [reads_at 1 (Got (?m @ EOM))] @ []"
    using server_answers [OF cs(3) rpc [folded no_eom_def] cs(1,2), of default_server] r
    by (simp add: received_def chunk_def reads_at_def)
  from rpc_round_trip [OF call t rpc cs r m(2) this]
  have "map rpc_text (records (handle_client (map Chunk ?cs) default_server)) = map rpc_text (records default_server) @ [''<x/>'']"
    by simp
  then show ?thesis by (simp add: default_server_def)
qed

section \<open>The tests' requests\<close>

text \<open>The calls of \<open>test_all_async_rpc_builders_send_expected_xml\<close> with the fragments the request must contain.\<close>

definition expected_fragments :: "(rpc_method \<times> bytes list) list" where
  "expected_fragments =
     [(Get ''<interfaces xmlns=\"urn:test\"/>'', [''<get>'', ''<filter type=\"subtree\">'', ''<interfaces'']),
      (Get_Config ''running'' ''<top/>'', [''<get-config>'', ''<source><running/></source>'', ''<top/>'']),
      (Copy_Config ''candidate'' ''running'', [''<copy-config>'', ''<target><candidate/></target>'', ''<source><running/></source>'']),
      (Delete_Config ''startup'', [''<delete-config>'', ''<target><startup/></target>'']),
      (Validate ''candidate'', [''<validate>'', ''<source><candidate/></source>'']),
      (Edit_Config ''candidate'' ''<config-item/>'' False,
        [''<edit-config>'', ''<target><candidate/></target>'', ''<config><config-item/></config>'']),
      (Lock ''candidate'', [''<lock>'', ''<target><candidate/></target>'']),
      (Unlock ''candidate'', [''<unlock>'', ''<target><candidate/></target>'']),
      (Commit, [''<commit/>''])]"

text \<open>Each call sends one request, which has its fragments and the message's number.\<close>

theorem builders_pass_their_test:
  "list_all (\<lambda>(q, fragments).
     case snd (operation q (\<lambda>_ _. Inr OK_REPLY) []) of
       [rpc] \<Rightarrow> list_all (\<lambda>f. find_sub f rpc \<noteq> None) (''message-id=\"101\"'' # fragments)
     | _ \<Rightarrow> False) expected_fragments"
  by code_simp

section \<open>Credentials\<close>

text \<open>The device that answers at once, with this server behind it; \<open>refusal\<close> is what libssh2 says of a refused password.\<close>

definition device_of :: "ssh_server \<Rightarrow> client_config \<Rightarrow> string \<Rightarrow> int \<Rightarrow> connect_env" where
  "device_of srv c refusal fd =
     (prompt fd)\<lparr>ce_auth := [(0, P_Ready, if check_auth_password srv (cf_username c) (cf_password c) then Rc_Ok else Rc_Error refusal)],
       ce_channel := [(0, if check_channel_request ''session'' then Opened else Open_Failed)],
       ce_startup := [(0, P_Ready, if fst (check_channel_subsystem_request ''netconf'' srv) then Rc_Ok else Rc_Error refusal)],
       ce_hello := [\<lparr>rr_now = 0, rr_read = Got SERVER_HELLO, rr_waits = [], rr_first = 0, rr_last = 0\<rparr>]\<rparr>"

lemma server_hello_read:
  "read_until_eom_non_blocking \<lparr>rd_chan = True, rd_sess = True, rd_fd = x, rd_timeout = 5, rd_max_kb = -1,
      rd_incomplete_timeout = -1\<rparr> 0 [\<lparr>rr_now = 0, rr_read = Got SERVER_HELLO, rr_waits = [], rr_first = 0, rr_last = 0\<rparr>] =
    Returns (Inr SERVER_HELLO)"
proof -
  have "find_sub EOM SERVER_HELLO \<noteq> None" by code_simp
  then show ?thesis
    by (simp add: read_until_eom_non_blocking_def nb_round_def new_reader_def size_limit_enabled_def
        time_limit_enabled_def infinite_wait_def timeout_s_def Let_def ns_per_s_def)
qed

lemma device_hello: "hello_non_blocking bad BASE_CLIENT_KWARGS (device_of srv c refusal fd) s = (Go, s)"
proof -
  have "snd (send_client_hello_non_blocking [Wrote 1000]) = Returns (Inr ())"
    by (simp add: send_client_hello_non_blocking_def build_client_hello_def)
  moreover have "find_sub ''capabilities'' SERVER_HELLO \<noteq> None" by code_simp
  ultimately show ?thesis by (simp add: hello_non_blocking_def device_of_def server_hello_read)
qed

lemma device_parts [simp]:
  "ce_init (device_of srv c refusal fd)" "ce_elapsed (device_of srv c refusal fd) k = 1000" "ce_resolved (device_of srv c refusal fd)"
  "ce_addrinfo (device_of srv c refusal fd) = [(AF_INET, ''127.0.0.1'')]" "ce_socket (device_of srv c refusal fd) = Inr fd"
  "ce_setsockopt (device_of srv c refusal fd) = None" "ce_fcntl (device_of srv c refusal fd) = None"
  "ce_inet_pton (device_of srv c refusal fd) ip" "ce_connect (device_of srv c refusal fd) = None"
  "ce_poll (device_of srv c refusal fd) = P_Ready" "ce_so_error (device_of srv c refusal fd) = None"
  "ce_handshake (device_of srv c refusal fd) = [(0, P_Ready, Rc_Ok)]"
  "ce_auth (device_of srv c refusal fd) =
     [(0, P_Ready, if check_auth_password srv (cf_username c) (cf_password c) then Rc_Ok else Rc_Error refusal)]"
  "ce_channel (device_of srv c refusal fd) = [(0, Opened)]" "ce_startup (device_of srv c refusal fd) = [(0, P_Ready, Rc_Ok)]"
  by (simp_all add: device_of_def check_channel_request_def check_channel_subsystem_request_def)

lemma device_connects:
  "stages (connect_stages BASE_CLIENT_KWARGS (device_of srv BASE_CLIENT_KWARGS refusal fd)) (p, h) =
     (if check_auth_password srv (cf_username BASE_CLIENT_KWARGS) (cf_password BASE_CLIENT_KWARGS)
      then (Go, open_channel (open_socket fd (init_session p)), ''127.0.0.1'')
      else (Throw (Netconf_Auth_Error (''Authentication failed: '' @ refusal)), open_socket fd (init_session p), ''127.0.0.1''))"
  unfolding connect_stages_def tcp_stages_def ssh_stages_def Let_def
  by (simp add: device_hello stage_eval prompt_current_timeout ns_per_s_def)

text \<open>
  The server's check of the credentials decides a connect: with the right ones the client is connected with a complete session; with wrong
  ones \<open>connect_async\<close> throws \<open>NetconfConnectionRefused\<close>, not \<open>NetconfAuthError\<close>, with a message that says that authentication failed, as
  \<open>test_connect_async_bad_password_reports_authentication_failure\<close> accepts.
\<close>

theorem credentials_decide_a_connect:
  assumes "\<not> is_connected n" "config n = BASE_CLIENT_KWARGS"
  shows "fst (connect_non_blocking (device_of srv (config n) refusal fd) n) =
    (if check_auth_password srv (cf_username (config n)) (cf_password (config n)) then Go
     else Throw (Netconf_Connection_Refused (''Unable to connect to device: Authentication failed: '' @ refusal))) \<and>
    is_connected (snd (connect_non_blocking (device_of srv (config n) refusal fd) n)) =
      check_auth_password srv (cf_username (config n)) (cf_password (config n))"
  using assms by (simp add: connect_non_blocking_def device_connects caught_def Let_def set_rpc_end_def)

theorem credentials_decide_a_connect_witness:
  "fst (connect_non_blocking (device_of \<lparr>sv_username = ''admin'', sv_password = ''correct'', subsystem_requested = False\<rparr> (config basic) ''denied'' 3) basic) =
    Throw (Netconf_Connection_Refused ''Unable to connect to device: Authentication failed: denied'')"
proof -
  have "\<not> check_auth_password \<lparr>sv_username = ''admin'', sv_password = ''correct'', subsystem_requested = False\<rparr>
      (cf_username (config basic)) (cf_password (config basic))"
    by (simp add: check_auth_password_def new_client_def initial_notif_def BASE_CLIENT_KWARGS_def)
  moreover have "\<not> is_connected basic" "config basic = BASE_CLIENT_KWARGS" by (simp_all add: new_client_def initial_notif_def)
  ultimately show ?thesis using credentials_decide_a_connect [of basic _ "''denied''" 3] by simp
qed

section \<open>Notifications\<close>

text \<open>A document whose tags, after the first, are short: none can be taken for a notification, wherever the stream is cut.\<close>

fun short_tags :: "bytes \<Rightarrow> bool" where
  "short_tags [] = True"
| "short_tags (c # cs) =
     ((c = CHR ''<'' \<longrightarrow> (cs \<noteq> [] \<and> hd cs \<in> {CHR ''/'', CHR ''!'', CHR ''?''}) \<or> length (takeWhile (\<lambda>c. \<not> name_stop c) (cs @ EOM)) < 12) \<and>
      short_tags cs)"

lemma short_tags_nth:
  "short_tags m \<Longrightarrow> i < length m \<Longrightarrow> m ! i = CHR ''<'' \<Longrightarrow>
     (i + 1 < length m \<and> m ! (i + 1) \<in> {CHR ''/'', CHR ''!'', CHR ''?''}) \<or>
     length (takeWhile (\<lambda>c. \<not> name_stop c) (drop (i + 1) m @ EOM)) < 12"
proof (induction m arbitrary: i)
  case (Cons c m)
  then show ?case by (cases i) (auto simp: hd_conv_nth)
qed simp

lemma length_takeWhile_take: "length (takeWhile P (take n xs)) \<le> length (takeWhile P xs)"
  by (induction xs arbitrary: n) (auto simp: take_Cons split: nat.splits)

lemma local_name_shorter: "length (xml_local_name v) \<le> length v"
  by (simp add: xml_local_name_def split: option.splits)

lemma start_tag_take:
  assumes "start_tag_at (take k u) i"
  shows "i + 1 < length u" "u ! i = CHR ''<''" "u ! (i + 1) \<notin> {CHR ''/'', CHR ''!'', CHR ''?''}"
    "xml_local_name (takeWhile (\<lambda>c. \<not> name_stop c) (drop (i + 1) (take k u))) = ''notification''"
  using assms by (auto simp: start_tag_at_def)

lemma short_tags_unambiguous:
  assumes "short_tags (tl m)" "m \<noteq> []"
  shows "unambiguous m"
proof (unfold unambiguous_def, intro ballI notI)
  fix k i
  assume i: "i \<in> set [1 ..< k]" and tag: "start_tag_at (take k (m @ EOM)) i"
  let ?s = "take k (m @ EOM)"
  note t = start_tag_take [OF tag]
  have im: "i < length m"
  proof (rule ccontr)
    assume "\<not> i < length m"
    then have "(m @ EOM) ! i \<in> set EOM" using t(1) by (simp add: nth_append)
    then show False using t(2) by (simp add: eom_set)
  qed
  have "0 < i" using i by simp
  then obtain j where j: "i = Suc j" using gr0_conv_Suc by blast
  obtain c r where m: "m = c # r" using assms(2) by (cases m) auto
  have "length (takeWhile (\<lambda>c. \<not> name_stop c) (drop (j + 1) r @ EOM)) < 12"
    using short_tags_nth [of r j] assms(1) im t(2,3) by (auto simp: m j nth_append split: if_splits)
  moreover have "drop (i + 1) ?s = take (k - (i + 1)) (drop (j + 1) r @ EOM)"
    using im by (simp add: drop_take m j)
  ultimately have "length (takeWhile (\<lambda>c. \<not> name_stop c) (drop (i + 1) ?s)) < 12"
    using length_takeWhile_take by (metis le_less_trans)
  then have "length (xml_local_name (takeWhile (\<lambda>c. \<not> name_stop c) (drop (i + 1) ?s))) < 12"
    using local_name_shorter le_less_trans by blast
  then show False unfolding t(4) by simp
qed

text \<open>The characters of a number.\<close>

lemma show_nat_digits: "list_all is_digit (show_nat n)"
proof (induction n rule: show_nat.induct)
  case (1 n)
  then show ?case by (subst show_nat.simps) simp
qed

lemma pad0_digits: "list_all is_digit (pad0 w n)"
  using show_nat_digits [of n] by (auto simp: pad0_def list_all_iff)

lemma digits_apart: "list_all is_digit ds \<Longrightarrow> CHR ''<'' \<notin> set ds \<and> CHR '']'' \<notin> set ds"
  by (auto simp: list_all_iff is_digit_def)

lemmas show_nat_chars = digits_apart [OF show_nat_digits]
lemmas pad0_chars = digits_apart [OF pad0_digits]

lemma short_tags_plain: "CHR ''<'' \<notin> set x \<Longrightarrow> short_tags (x @ y) = short_tags y"
  by (induction x) auto

definition default_body :: bytes where
  "default_body = ''<event>changed</event>''"

lemma notification_tags: "short_tags (tl (notification_xml n default_body))"
  using show_nat_chars pad0_chars
  by (simp add: notification_xml_def default_body_def short_tags_plain name_stop_def isspace_def)

lemma no_bracket_first:
  assumes "CHR '']'' \<notin> set m"
  shows "find_sub EOM (m @ EOM) = Some (length m)"
proof -
  have "find_sub EOM (m @ EOM @ []) = Some (length m)"
  proof (rule find_sub_append_first)
    fix k
    assume "k < length m"
    then obtain z zs where "drop k m = z # zs" "z \<in> set m" by (metis Cons_nth_drop_Suc nth_mem)
    then show "\<not> prefix EOM (drop k (m @ EOM @ []))" using assms \<open>k < length m\<close> by (auto simp: EOM_def)
  qed simp
  then show ?thesis by simp
qed

lemma notification_good: "good_frame (notification_xml n default_body)"
proof -
  let ?m = "notification_xml n default_body"
  have "unambiguous ?m" by (rule short_tags_unambiguous [OF notification_tags]) (simp add: notification_xml_def)
  moreover have "find_sub EOM (?m @ EOM) = Some (length ?m)"
    by (rule no_bracket_first) (use show_nat_chars pad0_chars in \<open>simp add: notification_xml_def default_body_def\<close>)
  moreover have "start_tag_at ?m 0" "scan_name_end ?m 1 < length ?m"
    by (simp_all add: notification_xml_def start_tag_at_def scan_name_end_def name_stop_def isspace_def xml_local_name_def)
  ultimately show ?thesis by (simp add: good_frame_def)
qed

text \<open>What the server's thread sends when it is not stopped.\<close>

definition device_notifications :: "nat list \<Rightarrow> bytes list" where
  "device_notifications ks = map (\<lambda>k. notification_xml k default_body) ks"

lemma sent_notifications:
  assumes "notifications s = device_notifications ks" "notification_raw_chunks s = []" "incomplete_notification s = None"
  shows "concat (send_notifications (\<lambda>_. True) s) = frames (device_notifications ks)"
proof -
  have "CHR '']'' \<notin> set (notification_xml k default_body)" for k
    using show_nat_chars pad0_chars by (simp add: notification_xml_def default_body_def)
  then have "with_eom (notification_xml k default_body) = notification_xml k default_body @ EOM" for k
    using set_mono_suffix [of EOM "notification_xml k default_body"] by (auto simp: with_eom_def eom_set)
  moreover have "map snd (takeWhile (\<lambda>(k, _). True) (enumerate n xs)) = xs" for n and xs :: "bytes list"
    by (induction xs arbitrary: n) simp_all
  ultimately show ?thesis using assms by (simp add: send_notifications_def device_notifications_def frames_def Let_def comp_def)
qed

lemma trim_tagged:
  assumes "hd x = CHR ''<''" "x \<noteq> []"
  shows "trim_copy x \<noteq> []"
proof -
  have lt: "\<not> isspace (CHR ''<'')" by (simp add: isspace_def)
  have "takeWhile isspace (rev x) \<noteq> rev x" using assms lt by (cases x) (auto simp: takeWhile_eq_all_conv)
  then have "length (takeWhile isspace (rev x)) < length (rev x)"
    by (metis le_neq_implies_less length_takeWhile_le takeWhile_eq_take take_all_iff order_refl)
  moreover have "takeWhile isspace x = []" using assms lt by (cases x) auto
  ultimately show ?thesis using assms(2) by (simp add: trim_copy_def Let_def)
qed

text \<open>
  The tests' server, end to end. The documents that \<open>notification_xml\<close> makes are frames that survive any
  fragmentation, whatever their sequence numbers are. So after a successful subscription, what the server's thread sends reaches the application
  as it was sent: the calls of \<open>next_notification\<close> give these notifications in order, each with its marker, and then nothing,
  however the bytes are cut into reads, when the queue has room for them.
\<close>

theorem server_notifications_are_delivered:
  assumes inv: "manager_inv m" and old: "owned (notif_end n)" "channel_ptr (notif_end n) = None"
    and idle: "\<not> notif_is_connected (notif_part n)" "notif_queue (notif_part n) = []"
    and new: "new_socket (ce_socket (se_connect e)) (notif_end n)"
    and free: "\<And>fd. ce_socket (se_connect e) = Inr fd \<Longrightarrow> client_of m fd = None"
    and sub: "subscribe_non_blocking stream filter_text self e (m, n) = (Returns (Inr reply), m', n')"
    and server: "notifications s = device_notifications ks" "notification_raw_chunks s = []" "incomplete_notification s = None"
    and xml: "\<forall>f\<in>set (device_notifications ks). is_valid_notification_document xml f"
    and reads: "cs \<noteq> []" "concat (map fst cs) = concat (send_notifications (\<lambda>_. True) s)"
    and room: "cf_notif_queue_max_size (config n) < 0 \<or> int (length ks) \<le> cf_notif_queue_max_size (config n)"
    and "0 \<le> timeout_ms"
  shows "take_notifications now timeout_ms (length ks + k)
      (notif_state.truncate (rx_reads xml ts (socket_fd (notif_end n')) cs (begin_cb (notif_part n')))) =
    Inr (map (\<lambda>f. f @ EOM) (device_notifications ks) @ replicate k [])"
proof -
  have "\<forall>f\<in>set (device_notifications ks). good_frame f \<and> is_valid_notification_document xml f"
    using xml notification_good by (auto simp: device_notifications_def)
  from delivered [OF inv old idle new free sub this reads(1)] reads(2) sent_notifications [OF server] room assms(16)
  show ?thesis by (simp add: device_notifications_def)
qed

theorem server_notifications_are_delivered_witness:
  "\<exists>n' :: nc. take_notifications ''now'' 0 2 (notif_state.truncate (rx_reads yes_xml (\<lambda>_. ''t'') (socket_fd (notif_end n'))
      [(frames (device_notifications [1, 2]), 5)] (begin_cb (notif_part n')))) =
    Inr (map (\<lambda>f. f @ EOM) (device_notifications [1, 2]))"
proof -
  obtain reply m' n' where sub:
    "subscribe_non_blocking ''NETCONF'' [] 0 (subscribing 3) (empty_manager, basic) = (Returns (Inr reply), m', n')"
    using prompt_subscription by blast
  let ?s = "default_server\<lparr>notifications := device_notifications [1, 2]\<rparr>"
  have s: "notifications ?s = device_notifications [1, 2]" "notification_raw_chunks ?s = []" "incomplete_notification ?s = None"
    by (simp_all add: default_server_def)
  have valid: "\<forall>f\<in>set (device_notifications [1, 2]). is_valid_notification_document yes_xml f"
    by (auto simp: device_notifications_def is_valid_notification_document_def Let_def yes_xml_def xml_local_name_def trim_tagged notification_xml_def)
  have "take_notifications ''now'' 0 (length [1, 2 :: nat] + 0) (notif_state.truncate (rx_reads yes_xml (\<lambda>_. ''t'') (socket_fd (notif_end n'))
      [(frames (device_notifications [1, 2]), 5)] (begin_cb (notif_part n')))) =
    Inr (map (\<lambda>f. f @ EOM) (device_notifications [1, 2]) @ replicate 0 [])"
    by (rule server_notifications_are_delivered [OF _ _ _ _ _ _ _ sub s valid])
      (simp_all only: sent_notifications [OF s], simp_all add: manager_inv_empty owned_no_endpoint new_socket_def nobody_registered,
       simp_all add: new_client_def initial_notif_def BASE_CLIENT_KWARGS_def)
  then show ?thesis by (intro exI [of _ n']) (simp add: numeral_2_eq_2)
qed

end
