(* ===== verification/Server_Life.thy ===== *)
theory Server_Life
  imports Fake_Server
begin

text \<open>
  The rest of the tests' server (\<open>test/fake_netconf_ssh_server.py\<close>): how \<open>_send_all\<close> sends, the loop that accepts connections, a
  connection from its socket to the \<open>finally\<close> of \<open>_handle_client\<close>, \<open>close\<close>, and \<open>wait_for_rpc\<close>, by which the tests
  look for a request. What the sockets, paramiko and the clock answer are arguments; a loop whose answers run out has not returned (\<open>None\<close>).
\<close>

definition get_allowed_auths :: "string \<Rightarrow> string" where
  "get_allowed_auths username = ''password''"

section \<open>Sending\<close>

text \<open>What \<open>channel.send\<close> gives: how many bytes it took, or an exception.\<close>

datatype send_result = Sent int | Send_Raises string

text \<open>\<open>_send_all\<close>: what it ends with, and the bytes the channel took.\<close>

fun channel_send_all :: "bytes \<Rightarrow> send_result list \<Rightarrow> ((string + unit) \<times> bytes) option" where
  "channel_send_all [] rs = Some (Inr (), [])"
| "channel_send_all (b # bs) [] = None"
| "channel_send_all (b # bs) (Send_Raises e # rs) = Some (Inl e, [])"
| "channel_send_all (b # bs) (Sent n # rs) =
     (if n \<le> 0 then Some (Inl ''channel send returned 0'', [])
      else map_option (\<lambda>(r, out). (r, take (nat n) (b # bs) @ out)) (channel_send_all (drop (nat n) (b # bs)) rs))"

lemma sent_is_prefix: "channel_send_all data rs = Some (r, out) \<Longrightarrow> prefix out data \<and> (r = Inr () \<longrightarrow> out = data)"
proof (induction data rs arbitrary: out rule: channel_send_all.induct)
  case (4 b bs n rs)
  show ?case
  proof (cases "n \<le> 0")
    case False
    then obtain out' where out: "channel_send_all (drop (nat n) (b # bs)) rs = Some (r, out')" "out = take (nat n) (b # bs) @ out'"
      using "4.prems" by auto
    have d: "b # bs = take (nat n) (b # bs) @ drop (nat n) (b # bs)" by (simp only: append_take_drop_id)
    from "4.IH" [OF False out(1)] show ?thesis unfolding out(2) by (metis d same_prefix_prefix)
  qed (use "4.prems" in auto)
qed auto

lemma sending_ends:
  "\<forall>r\<in>set rs. \<exists>n>0. r = Sent n \<Longrightarrow> length data \<le> length rs \<Longrightarrow> channel_send_all data rs = Some (Inr (), data)"
proof (induction data rs rule: channel_send_all.induct)
  case (4 b bs n rs)
  then have n: "0 < n" by auto
  have "length (drop (nat n) (b # bs)) \<le> length rs" using "4.prems"(2) n by auto
  with "4.IH" "4.prems"(1) n
  have "channel_send_all (drop (nat n) (b # bs)) rs = Some (Inr (), drop (nat n) (b # bs))" by auto
  then show ?case using n by (simp del: take_Suc_Cons drop_Suc_Cons)
qed auto

section \<open>A connection\<close>

record connection =
  made_transport :: bool          \<comment> \<open>\<open>paramiko.Transport(client_sock)\<close> does not raise\<close>
  server_started :: bool          \<comment> \<open>nor do \<open>add_server_key\<close> and \<open>start_server\<close>\<close>
  channel_opened :: bool          \<comment> \<open>\<open>accept\<close> gives a channel in its 10 seconds\<close>
  netconf_wanted :: bool          \<comment> \<open>\<open>subsystem_requested\<close> is set in 10 seconds\<close>
  hello_fails :: "nat option"     \<comment> \<open>the chunk of the hello at which \<open>_send_all\<close> raises\<close>
  up :: "nat \<Rightarrow> bool"             \<comment> \<open>before pass \<open>n\<close> the server is not stopped and the transport is active\<close>
  reply_fails :: "nat \<Rightarrow> nat option"   \<comment> \<open>the chunk of the reply of pass \<open>n\<close> at which \<open>_send_all\<close> raises\<close>
  arriving :: "recv list"

text \<open>\<open>_send_text\<close> when the \<open>k\<close>-th chunk raises: no further one is given to \<open>_send_all\<close>.\<close>

definition send_text_failing :: "nat \<Rightarrow> bytes \<Rightarrow> fake_server \<Rightarrow> fake_server" where
  "send_text_failing k t s = s\<lparr>sent_chunks := take (length (sent_chunks s) + Suc k) (sent_chunks (send_text t s))\<rparr>"

text \<open>The loop of \<open>_handle_client\<close>.\<close>

function session_loop :: "connection \<Rightarrow> nat \<Rightarrow> recv list \<Rightarrow> fake_server \<Rightarrow> fake_server option" where
  "session_loop c n rs s =
     (if \<not> up c n then Some s
      else case read_until_eom [] rs of
          None \<Rightarrow> None
        | Some (rpc, rest) \<Rightarrow>
            (case reply_fails c n of
               Some k \<Rightarrow> if rpc = [] then session_loop c (Suc n) rest s
                 else let cleaned = strip_eom rpc; s = snd (record_rpc cleaned s)
                      in Some (send_text_failing k (rpc_responder s cleaned) s)
             | None \<Rightarrow> session_loop c (Suc n) rest (handle_rpc rpc s)))"
  by pat_completeness auto

termination
  by (relation "measure (\<lambda>(c, n, rs, s). length rs)") (auto dest: read_shrinks)

declare session_loop.simps [simp del]

definition connection_body :: "connection \<Rightarrow> fake_server \<Rightarrow> fake_server option" where
  "connection_body c s =
     (if \<not> made_transport c then Some s
      else if \<not> server_started c then Some s
      else if \<not> channel_opened c then Some s
      else if \<not> netconf_wanted c then Some s
      else case hello_fails c of
          Some k \<Rightarrow> Some (send_text_failing k SERVER_HELLO s)
        | None \<Rightarrow>
            (case read_until_eom [] (arriving c) of
               None \<Rightarrow> None
             | Some (client_hello, rest) \<Rightarrow> session_loop c 0 rest (send_text SERVER_HELLO s)))"

text \<open>\<open>_handle_client\<close> as a whole, with what its \<open>finally\<close> closes.\<close>

datatype closing = Transport_Closed | Socket_Closed

definition handle_connection :: "connection \<Rightarrow> fake_server \<Rightarrow> (fake_server \<times> closing list) option" where
  "handle_connection c s =
     map_option (\<lambda>s. (s, (if made_transport c then [Transport_Closed] else []) @ [Socket_Closed])) (connection_body c s)"

text \<open>A session that ends with every reply sent is \<^const>\<open>handle_client\<close> on the passes it used, so what is proved of that loop holds of a connection.\<close>

lemma read_uses:
  "read_until_eom data rs = Some (t, rest) \<Longrightarrow> \<exists>u. rs = u @ rest \<and> (\<forall>v. read_until_eom data (u @ v) = Some (t, v))"
proof (induction data rs rule: read_until_eom.induct)
  case (2 data rs)
  then show ?case by (intro exI [of _ "[Late]"]) auto
next
  case (3 data rs)
  then obtain u where "rs = u @ rest" "\<forall>v. read_until_eom data (u @ v) = Some (t, v)" by auto
  then show ?case by (intro exI [of _ "Timed_Out # u"]) auto
next
  case (4 data new rs)
  show ?case
  proof (cases "new = [] \<or> find_sub EOM (data @ new) \<noteq> None")
    case True
    then have "read_until_eom data (Chunk new # v) = Some (if new = [] then [] else data @ new, v)" for v by (auto simp: Let_def)
    then show ?thesis using 4(2) by (intro exI [of _ "[Chunk new]"]) (simp del: read_until_eom.simps)
  next
    case False
    with 4 obtain u where "rs = u @ rest" "\<forall>v. read_until_eom (data @ new) (u @ v) = Some (t, v)" by (auto simp: Let_def)
    then show ?thesis using False by (intro exI [of _ "Chunk new # u"]) (auto simp: Let_def)
  qed
qed simp

lemma session_is_handle_client:
  assumes "session_loop c n rs s = Some t" "\<forall>n. reply_fails c n = None"
  shows "\<exists>used rest. rs = used @ rest \<and> t = handle_client used s"
  using assms
proof (induction c n rs s rule: session_loop.induct)
  case (1 c n rs s)
  show ?case
  proof (cases "up c n")
    case False
    then have "t = s" using "1.prems" by (simp add: session_loop.simps [of c n])
    then show ?thesis by (intro exI [of _ "[]"] exI [of _ rs]) (simp add: handle_client.simps [of "[]"])
  next
    case True
    then obtain rpc rest where r: "read_until_eom [] rs = Some (rpc, rest)"
      using "1.prems"(1) by (auto simp: session_loop.simps [of c n] split: option.splits)
    then obtain u where u: "rs = u @ rest" "\<forall>v. read_until_eom [] (u @ v) = Some (rpc, v)" using read_uses by blast
    have f: "reply_fails c n = None" using "1.prems"(2) by simp
    have "session_loop c (Suc n) rest (handle_rpc rpc s) = Some t"
      using "1.prems"(1) by (simp add: session_loop.simps [of c n] True r f)
    then obtain used rest' where w: "rest = used @ rest'" "t = handle_client used (handle_rpc rpc s)"
      using "1.IH"(1) [OF _ r refl f] "1.prems"(2) True by metis
    then have "t = handle_client (u @ used) s" using u(2) by (simp add: handle_client.simps [of "u @ used"])
    then show ?thesis using u(1) w(1) by (intro exI [of _ "u @ used"] exI [of _ rest']) simp
  qed
qed

section \<open>Accepting and closing\<close>

datatype accept_result = Accept_Timeout | Accept_OSError | Accepted nat

text \<open>\<open>_accept_loop\<close>: for each pass, what \<open>_stop\<close> is and what \<open>accept\<close> gives. The result: the sockets a thread was started for.\<close>

fun accept_loop :: "(bool \<times> accept_result) list \<Rightarrow> nat list option" where
  "accept_loop [] = None"
| "accept_loop ((stopped, a) # ps) =
     (if stopped then Some []
      else case a of
          Accept_Timeout \<Rightarrow> accept_loop ps
        | Accept_OSError \<Rightarrow> Some []
        | Accepted client_sock \<Rightarrow> map_option ((#) client_sock) (accept_loop ps))"

record server_life =
  stop_set :: bool
  listening :: bool
  transports :: "(nat \<times> bool) list"    \<comment> \<open>\<open>_transports\<close>, and whether each is open\<close>

definition close_server :: "server_life \<Rightarrow> server_life" where
  "close_server s = s\<lparr>stop_set := True, listening := False, transports := map (\<lambda>(t, _). (t, False)) (transports s)\<rparr>"

text \<open>A pass of the loop as the server's state decides it: a closed listening socket raises, an open one gives a connection or times out.\<close>

definition pass_possible :: "server_life \<Rightarrow> bool \<times> accept_result \<Rightarrow> bool" where
  "pass_possible s p \<longleftrightarrow> fst p = stop_set s \<and> (\<not> listening s \<longrightarrow> snd p = Accept_OSError)"

lemma accept_loop_append:
  "accept_loop (ps @ qs) = (case accept_loop ps of Some cs \<Rightarrow> Some cs | None \<Rightarrow>
     map_option ((@) [c. (False, Accepted c) \<leftarrow> ps]) (accept_loop qs))"
  by (induction ps rule: accept_loop.induct)
    (auto split: accept_result.splits option.splits simp: option.map_comp comp_def map_option_case)

text \<open>After \<open>close\<close> the loop ends in the pass it is in or in the next; it serves at most the connection of that pass.\<close>

lemma close_ends_accepting:
  assumes "accept_loop ps = None" "pass_possible (close_server s) q"
  shows "accept_loop (ps @ [q]) = Some [c. (False, Accepted c) \<leftarrow> ps]"
  using assms by (cases q) (simp add: accept_loop_append pass_possible_def close_server_def)

section \<open>Looking for a request\<close>

text \<open>\<open>wait_for_rpc\<close>: for each pass, whether the deadline is ahead and what \<open>records\<close> gives.\<close>

fun wait_for_rpc :: "(bytes \<Rightarrow> bool) \<Rightarrow> nat \<Rightarrow> (bool \<times> rpc_record list) list \<Rightarrow> (string + rpc_record) option" where
  "wait_for_rpc predicate after_index [] = None"
| "wait_for_rpc predicate after_index ((ahead, rs) # ps) =
     (if \<not> ahead then Some (Inl ''timed out waiting for RPC'')
      else case find (\<lambda>r. index r \<ge> after_index \<and> predicate (rpc_text r)) rs of
          Some r \<Rightarrow> Some (Inr r)
        | None \<Rightarrow> wait_for_rpc predicate after_index ps)"

text \<open>The records carry their positions.\<close>

definition indexed :: "fake_server \<Rightarrow> bool" where
  "indexed s \<longleftrightarrow> map index (records s) = [0..<length (records s)]"

lemma indexed_send_text [simp]: "indexed (send_text t s) = indexed s"
  by (simp add: indexed_def send_text_def)

lemma indexed_record: "indexed s \<Longrightarrow> indexed (snd (record_rpc rpc s))"
  by (simp add: indexed_def record_rpc_def Let_def)

lemma indexed_handle_rpc: "indexed s \<Longrightarrow> indexed (handle_rpc rpc s)"
  using indexed_record [of s "strip_eom rpc"]
  by (cases "record_rpc (strip_eom rpc) s") (auto simp: handle_rpc_def Let_def, auto simp: indexed_def send_text_def)

lemma indexed_handle_client: "indexed s \<Longrightarrow> indexed (handle_client rs s)"
proof (induction rs s rule: handle_client.induct)
  case (1 rs s)
  show ?case
  proof (cases "read_until_eom [] rs")
    case None
    then show ?thesis using "1.prems" by (simp add: handle_client.simps [of rs])
  next
    case (Some x)
    then show ?thesis using "1.IH" [OF Some] "1.prems" by (cases x) (simp add: handle_client.simps [of rs] indexed_handle_rpc)
  qed
qed

text \<open>
  A test finds the request it caused. After the server has answered an RPC, the call of \<open>wait_for_rpc\<close> that starts at the number of
  records there were before, and whose predicate the request meets, gives the record of this request, however often it looked before.
\<close>

lemma find_at_index:
  assumes "map index rs = [0..<length rs]" "k < length rs" "P (rs ! k)"
  shows "find (\<lambda>r. index r \<ge> k \<and> P r) rs = Some (rs ! k)"
proof -
  have index: "index (rs ! i) = i" if "i < length rs" for i using assms(1) that by (metis add_0 nth_map nth_upt)
  show ?thesis unfolding find_Some_iff using assms(2,3) index by (intro exI [of _ k]) auto
qed

theorem request_is_found:
  assumes "indexed s" "list_all isspace w" "no_eom rpc" "concat cs = w @ rpc_with_eom rpc" "\<forall>c\<in>set cs. c \<noteq> []"
    and "predicate (py_strip rpc)"
    and early: "\<forall>p\<in>set ps. fst p \<and> (\<exists>i. snd p = take i (records s))"
  shows "\<exists>r. wait_for_rpc predicate (length (records s)) (ps @ [(True, records (handle_client (map Chunk cs) s))]) = Some (Inr r) \<and>
    index r = length (records s) \<and> rpc_text r = py_strip rpc"
proof -
  let ?rs = "records (handle_client (map Chunk cs) s)" and ?n = "length (records s)"
  have texts: "map rpc_text ?rs = map rpc_text (records s) @ [py_strip rpc]" using server_answers [OF assms(2-5)] by blast
  have len: "length ?rs = Suc ?n" using arg_cong [OF texts, of length] by simp
  have n: "rpc_text (?rs ! ?n) = py_strip rpc" using texts len by (metis length_map lessI nth_append_length nth_map)
  have ix: "map index ?rs = [0..<length ?rs]" using indexed_handle_client [OF assms(1)] by (simp add: indexed_def)
  then have "index (?rs ! ?n) = ?n" using len by (metis add_0 lessI nth_map nth_upt)
  have now: "find (\<lambda>r. index r \<ge> ?n \<and> predicate (rpc_text r)) ?rs = Some (?rs ! ?n)"
    by (rule find_at_index [OF ix]) (use len n assms(6) in auto)
  have "find (\<lambda>r. index r \<ge> ?n \<and> predicate (rpc_text r)) (take i (records s)) = None" for i
  proof -
    have "index r < ?n" if "r \<in> set (take i (records s))" for r
    proof -
      have "index r \<in> set (map index (records s))" using that in_set_takeD by force
      then show ?thesis by (simp only: assms(1) [unfolded indexed_def]) simp
    qed
    then show ?thesis unfolding find_None_iff by force
  qed
  with early have "wait_for_rpc predicate ?n (ps @ qs) = wait_for_rpc predicate ?n qs" for qs
    by (induction ps) (auto split: prod.splits)
  then show ?thesis using now n \<open>index (?rs ! ?n) = ?n\<close> by (intro exI [of _ "?rs ! ?n"]) simp
qed

end
