(* ===== verification/Queue_Tests.thy ===== *)
theory Queue_Tests
  imports Fake_Server Notif_Callback
begin

text \<open>
  The tests of \<open>test/test_notification_queue_deep_integration.py\<close> on the model: the chunks their server sends, read as they
  are sent, and what the tests then expect of the notifications and of the health events.
\<close>

section \<open>What a queue with room makes of the pieces of a stream\<close>

text \<open>What the tests look at in an event.\<close>

definition seen_of :: "health_event \<Rightarrow> string \<times> string \<times> string \<times> int" where
  "seen_of e = (ev_type e, ev_label e, ev_message e, ev_partial_bytes e)"

fun queued_of :: "piece \<Rightarrow> bytes list" where
  "queued_of (Eom_Frame f) = (if trim_copy f = [] then [] else [f @ EOM])"
| "queued_of (Orphan p) = []"
| "queued_of (Recovered f) = (if f = [] then [] else [f])"
| "queued_of (Abandoned p) = (if p = [] then [] else [p])"

fun reported_of :: "xml_root \<Rightarrow> string \<Rightarrow> piece \<Rightarrow> (string \<times> string \<times> string \<times> int) list" where
  "reported_of xml l (Eom_Frame f) =
     (if trim_copy f = [] then
        [(''malformed_notification'', l, ''Received NETCONF EOM marker without notification payload; dropped empty frame'', int (length f))]
      else if is_valid_notification_document xml f then []
      else [(''malformed_notification'', l,
        ''Received EOM-delimited data that is not a valid NETCONF notification; queued malformed frame'', int (length f))])"
| "reported_of xml l (Orphan p) =
     [(''malformed_notification'', l,
       ''Received orphan notification bytes before a notification start tag; dropped orphan fragment'', int (length p))]"
| "reported_of xml l (Recovered f) =
     [(''malformed_notification'', l,
       ''Recovered complete notification XML without NETCONF EOM before the next notification; queued recovered frame'', int (length f))]"
| "reported_of xml l (Abandoned p) =
     [(''incomplete_notification'', l,
       ''Received a new notification start before the previous notification was completed; queued abandoned partial notification'',
       int (length p))]"

definition has_room :: "nat \<Rightarrow> 'a notif_state_scheme \<Rightarrow> bool" where
  "has_room n s \<longleftrightarrow> cf_notif_queue_max_size (cfg s) < 0 \<or> int (length (notif_queue s) + n) \<le> cf_notif_queue_max_size (cfg s)"

lemma diag_effect:
  "notif_queue (add_diagnostic_event ts fd t m n inc s) = notif_queue s"
  "cfg (add_diagnostic_event ts fd t m n inc s) = cfg s"
  "map seen_of (events_to_emit (add_diagnostic_event ts fd t m n inc s)) =
     map seen_of (events_to_emit s) @ [(t, cf_label (cfg s), m, int n)]"
  by (simp_all add: add_diagnostic_event_def make_event_def seen_of_def Let_def)

lemma enqueue_effect:
  assumes "has_room 1 s"
  shows "notif_queue (enqueue_or_drop ts fd x d s) = notif_queue s @ (if x = [] then [] else [x])"
    and "cfg (enqueue_or_drop ts fd x d s) = cfg s" "events_to_emit (enqueue_or_drop ts fd x d s) = events_to_emit s"
proof -
  have "\<not> queue_full s" using assms by (auto simp: has_room_def queue_full_def)
  then show "notif_queue (enqueue_or_drop ts fd x d s) = notif_queue s @ (if x = [] then [] else [x])"
    "cfg (enqueue_or_drop ts fd x d s) = cfg s" "events_to_emit (enqueue_or_drop ts fd x d s) = events_to_emit s"
    by (simp_all add: enqueue_or_drop_def Let_def)
qed

lemma piece_effect:
  assumes "has_room 1 s"
  shows "notif_queue (handle_piece xml ts fd p s) = notif_queue s @ queued_of p \<and> cfg (handle_piece xml ts fd p s) = cfg s \<and>
    map seen_of (events_to_emit (handle_piece xml ts fd p s)) =
      map seen_of (events_to_emit s) @ reported_of xml (cf_label (cfg s)) p"
proof -
  have room: "has_room 1 (add_diagnostic_event ts fd t m n inc s)" for t m n inc
    using assms by (simp add: has_room_def diag_effect)
  show ?thesis
    by (cases p) (use assms room in \<open>simp_all add: process_eom_frame_def drop_orphan_def process_recovered_missing_eom_def
        abandon_partial_def Let_def enqueue_effect diag_effect is_valid_notification_document_def\<close>)
qed

lemma queued_le_1: "length (queued_of p) \<le> 1"
  by (cases p) auto

text \<open>The queue and the events, piece by piece.\<close>

lemma pieces_effect:
  assumes "has_room (length ps) s"
  shows "notif_queue (handle_pieces xml ts fd ps s) = notif_queue s @ concat (map queued_of ps) \<and>
    cfg (handle_pieces xml ts fd ps s) = cfg s \<and>
    map seen_of (events_to_emit (handle_pieces xml ts fd ps s)) =
      map seen_of (events_to_emit s) @ concat (map (reported_of xml (cf_label (cfg s))) ps)"
  using assms
proof (induction ps arbitrary: s)
  case (Cons p ps)
  have "has_room 1 s" using Cons.prems by (auto simp: has_room_def)
  note one = piece_effect [OF this, of xml ts fd p]
  moreover have "has_room (length ps) (handle_piece xml ts fd p s)"
    using Cons.prems one queued_le_1 [of p] by (auto simp: has_room_def)
  ultimately show ?case using Cons.IH [of "handle_piece xml ts fd p s"] by simp
qed simp

lemma read_effect:
  assumes "split_buffer (rx_buffer s @ fst c) = (ps, rest)" "has_room (length ps) s"
  shows "rx_buffer (rx_read xml ts fd c s) = rest \<and>
    notif_queue (rx_read xml ts fd c s) = notif_queue s @ concat (map queued_of ps) \<and> cfg (rx_read xml ts fd c s) = cfg s \<and>
    map seen_of (events_to_emit (rx_read xml ts fd c s)) =
      map seen_of (events_to_emit s) @ concat (map (reported_of xml (cf_label (cfg s))) ps)"
proof -
  define s1 where "s1 = s\<lparr>rx_buffer := rx_buffer s @ fst c\<rparr>"
  have s1: "(if fst c \<noteq> [] then s\<lparr>rx_buffer := rx_buffer s @ fst c\<rparr> else s) = s1" by (simp add: s1_def)
  have "has_room (length ps) s1" using assms(2) by (simp add: has_room_def s1_def)
  from pieces_effect [OF this, of xml ts fd] show ?thesis
    using assms(1) by (simp add: rx_read_def s1 process_rx_buffer_pieces) (simp add: s1_def)
qed

section \<open>The chunks\<close>

text \<open>\<open>second.index("<event>")\<close>.\<close>

definition event_at :: "bytes \<Rightarrow> nat" where
  "event_at m = the (find_sub ''<event>'' m)"

definition test_notification :: "nat \<Rightarrow> bytes" where
  "test_notification n = notification_xml n default_body"

definition combined_chunk :: bytes where
  "combined_chunk = concat (map (\<lambda>n. test_notification n @ EOM) [1, 2, 3])"

definition trailing_partial_chunks :: "bytes list" where
  "trailing_partial_chunks =
     (let second = test_notification 2; split_at = event_at second
      in [test_notification 1 @ EOM @ take split_at second, drop split_at second @ EOM])"

definition abandoned_partial_chunks :: "bytes list" where
  "abandoned_partial_chunks =
     (let second = test_notification 2; third = test_notification 3;
          second_partial = take (event_at second) second; third_split_at = event_at third;
          third_partial = take third_split_at third; third_rest = drop third_split_at third
      in [test_notification 1 @ EOM @ second_partial @ third_partial, third_rest @ EOM])"

definition malformed_chunk :: bytes where
  "malformed_chunk = ''<notification><eventTime>bad</notification>''"

definition orphan_prefix :: bytes where
  "orphan_prefix = ''bad-device-prefix''"

lemma trailing_split:
  "split_buffer (hd trailing_partial_chunks) = ([Eom_Frame (test_notification 1)], take (event_at (test_notification 2)) (test_notification 2))"
  by code_simp

lemma abandoned_split:
  "split_buffer (hd abandoned_partial_chunks) =
    ([Eom_Frame (test_notification 1), Abandoned (take (event_at (test_notification 2)) (test_notification 2))],
     take (event_at (test_notification 3)) (test_notification 3))"
  by code_simp

lemma malformed_split: "split_buffer (malformed_chunk @ EOM) = ([Eom_Frame malformed_chunk], [])"
  by code_simp

lemma orphan_split:
  "split_buffer (orphan_prefix @ test_notification 1 @ EOM) = ([Orphan orphan_prefix, Eom_Frame (test_notification 1)], [])"
  by code_simp

lemma empty_split: "split_buffer EOM = ([Eom_Frame []], [])"
  by code_simp

section \<open>The tests\<close>

text \<open>The client when the first chunk arrives: subscribed, nothing received, and room for \<open>n\<close> notifications.\<close>

definition waiting_client :: "nat \<Rightarrow> cb_state \<Rightarrow> bool" where
  "waiting_client n s \<longleftrightarrow> rx_buffer s = [] \<and> notif_queue s = [] \<and> events_to_emit s = [] \<and> has_room n s"

text \<open>What tinyxml2 says of the tests' documents: those of \<open>notification_xml\<close> are notifications.\<close>

definition parses_notifications :: "xml_root \<Rightarrow> bool" where
  "parses_notifications xml \<longleftrightarrow> (\<forall>n\<in>{1, 2, 3}. is_valid_notification_document xml (test_notification n))"

lemma waiting_parts:
  assumes "waiting_client n s"
  shows "rx_buffer s = []" "notif_queue s = []" "events_to_emit s = []" "m \<le> n \<Longrightarrow> has_room m s"
  using assms by (auto simp: waiting_client_def has_room_def)

text \<open>There is such a client, and there are such parsers: one that reads the name of the first tag, and one that rejects.\<close>

lemma tests_can_start:
  "waiting_client n (begin_cb (initial_notif BASE_CLIENT_KWARGS))" "parses_notifications yes_xml"
  "\<not> is_valid_notification_document (\<lambda>_. None) malformed_chunk"
  by (simp_all add: waiting_client_def has_room_def initial_notif_def BASE_CLIENT_KWARGS_def parses_notifications_def
      is_valid_notification_document_def test_notification_def Let_def yes_xml_def xml_local_name_def trim_tagged notification_xml_def)

text \<open>A first read, as the piece list says.\<close>

lemma first_read:
  assumes "waiting_client n s" "split_buffer (fst c) = (ps, rest)" "length ps \<le> n"
  shows "rx_buffer (rx_read xml ts fd c s) = rest" "notif_queue (rx_read xml ts fd c s) = concat (map queued_of ps)"
    and "cfg (rx_read xml ts fd c s) = cfg s"
    and "map seen_of (events_to_emit (rx_read xml ts fd c s)) = concat (map (reported_of xml (cf_label (cfg s))) ps)"
  using read_effect [of s c ps rest xml ts fd] assms waiting_parts [OF assms(1)] by simp_all

lemma second_read:
  assumes "split_buffer (rx_buffer s @ fst c) = (ps, rest)" "has_room (n + length ps) s0" "cfg s = cfg s0"
    and "notif_queue s0 = []" "length (notif_queue s) = n"
  shows "rx_buffer (rx_read xml ts fd c s) = rest" "notif_queue (rx_read xml ts fd c s) = notif_queue s @ concat (map queued_of ps)"
    and "map seen_of (events_to_emit (rx_read xml ts fd c s)) =
      map seen_of (events_to_emit s) @ concat (map (reported_of xml (cf_label (cfg s0))) ps)"
  using read_effect [OF assms(1), of xml ts fd] assms(2-5) by (simp_all add: has_room_def)

lemma notification_frame: "split_buffer (test_notification n @ EOM) = ([Eom_Frame (test_notification n)], [])"
  using split_buffer_frames [of "[test_notification n]" "[]"] notification_good [of n] by (simp add: test_notification_def)

lemma notification_queued:
  "queued_of (Eom_Frame (test_notification n)) = [test_notification n @ EOM]"
  by (simp add: test_notification_def trim_tagged notification_xml_def)

lemma notification_silent:
  "parses_notifications xml \<Longrightarrow> n \<in> {1, 2, 3} \<Longrightarrow> reported_of xml l (Eom_Frame (test_notification n)) = []"
proof -
  assume "parses_notifications xml" "n \<in> {1, 2, 3}"
  then have v: "is_valid_notification_document xml (test_notification n)" unfolding parses_notifications_def by blast
  then have "trim_copy (test_notification n) \<noteq> []" by (auto simp: is_valid_notification_document_def)
  with v show ?thesis by simp
qed

lemmas notification_facts = notification_queued notification_silent

theorem test_coalesced_notifications:
  assumes "waiting_client 3 s" "parses_notifications xml"
  shows "notif_queue (rx_read xml ts fd (combined_chunk, t) s) = map (\<lambda>n. test_notification n @ EOM) [1, 2, 3] \<and>
    events_to_emit (rx_read xml ts fd (combined_chunk, t) s) = [] \<and> rx_buffer (rx_read xml ts fd (combined_chunk, t) s) = []"
proof -
  let ?ns = "map test_notification [1, 2, 3]"
  have "combined_chunk = frames ?ns @ []" by (simp add: combined_chunk_def)
  then have "split_buffer (fst (combined_chunk, t)) = (map Eom_Frame ?ns, [])"
    using split_buffer_frames [of ?ns "[]"] notification_good by (simp add: test_notification_def)
  from first_read [OF assms(1) this, of xml ts fd] show ?thesis
    using assms(2) by (simp add: notification_facts del: queued_of.simps reported_of.simps One_nat_def)
qed

theorem test_trailing_partial:
  assumes "waiting_client 2 s" "parses_notifications xml"
  shows "let s1 = rx_read xml ts fd (trailing_partial_chunks ! 0, t1) s; s2 = rx_read xml ts fd (trailing_partial_chunks ! 1, t2) s1
    in notif_queue s1 = [test_notification 1 @ EOM] \<and> notif_queue s2 = [test_notification 1 @ EOM, test_notification 2 @ EOM] \<and>
      events_to_emit s2 = [] \<and> rx_buffer s2 = []"
proof -
  let ?k = "event_at (test_notification 2)"
  let ?s1 = "rx_read xml ts fd (trailing_partial_chunks ! 0, t1) s"
  have c: "trailing_partial_chunks ! 0 = hd trailing_partial_chunks" "trailing_partial_chunks ! 1 = drop ?k (test_notification 2) @ EOM"
    by (simp_all add: trailing_partial_chunks_def Let_def)
  have "split_buffer (fst (trailing_partial_chunks ! 0, t1)) = ([Eom_Frame (test_notification 1)], take ?k (test_notification 2))"
    using trailing_split by (simp only: c fst_conv)
  from first_read [OF assms(1) this, of xml ts fd] have s1: "rx_buffer ?s1 = take ?k (test_notification 2)"
    "notif_queue ?s1 = [test_notification 1 @ EOM]" "cfg ?s1 = cfg s" "events_to_emit ?s1 = []"
    using assms(2) by (simp_all add: notification_facts del: queued_of.simps reported_of.simps One_nat_def)
  have split: "split_buffer (rx_buffer ?s1 @ fst (trailing_partial_chunks ! 1, t2)) = ([Eom_Frame (test_notification 2)], [])"
    unfolding s1(1) c(2) fst_conv append_assoc [symmetric] append_take_drop_id by (rule notification_frame)
  from second_read [OF split _ s1(3) waiting_parts(2) [OF assms(1)], of 1 xml ts fd] show ?thesis
    using assms(2) s1(2-4) waiting_parts(4) [OF assms(1), of 2]
    by (simp add: notification_facts numeral_2_eq_2 del: queued_of.simps reported_of.simps)
qed

theorem test_abandoned_partial:
  assumes "waiting_client 3 s" "parses_notifications xml"
  shows "let second_partial = take (event_at (test_notification 2)) (test_notification 2);
      s1 = rx_read xml ts fd (abandoned_partial_chunks ! 0, t1) s; s2 = rx_read xml ts fd (abandoned_partial_chunks ! 1, t2) s1
    in notif_queue s2 = [test_notification 1 @ EOM, second_partial, test_notification 3 @ EOM] \<and> rx_buffer s2 = [] \<and>
      map seen_of (events_to_emit s2) = [(''incomplete_notification'', cf_label (cfg s),
        ''Received a new notification start before the previous notification was completed; queued abandoned partial notification'',
        int (length second_partial))]"
proof -
  let ?p = "take (event_at (test_notification 2)) (test_notification 2)"
  let ?k = "event_at (test_notification 3)"
  let ?s1 = "rx_read xml ts fd (abandoned_partial_chunks ! 0, t1) s"
  let ?s2 = "rx_read xml ts fd (abandoned_partial_chunks ! 1, t2) ?s1"
  have c: "abandoned_partial_chunks ! 0 = hd abandoned_partial_chunks" "abandoned_partial_chunks ! 1 = drop ?k (test_notification 3) @ EOM"
    by (simp_all add: abandoned_partial_chunks_def Let_def)
  have "?p \<noteq> []" by code_simp
  then have q: "queued_of (Abandoned ?p) = [?p]" by simp
  have "split_buffer (fst (abandoned_partial_chunks ! 0, t1)) =
      ([Eom_Frame (test_notification 1), Abandoned ?p], take ?k (test_notification 3))"
    using abandoned_split by (simp only: c fst_conv)
  from first_read [OF assms(1) this, of xml ts fd] have s1: "rx_buffer ?s1 = take ?k (test_notification 3)"
    "notif_queue ?s1 = [test_notification 1 @ EOM, ?p]" "cfg ?s1 = cfg s"
    "map seen_of (events_to_emit ?s1) = reported_of xml (cf_label (cfg s)) (Abandoned ?p)"
    using assms(2) by (simp_all add: notification_facts q del: queued_of.simps reported_of.simps One_nat_def)
  have split: "split_buffer (rx_buffer ?s1 @ fst (abandoned_partial_chunks ! 1, t2)) = ([Eom_Frame (test_notification 3)], [])"
    unfolding s1(1) c(2) fst_conv append_assoc [symmetric] append_take_drop_id by (rule notification_frame)
  have "has_room (2 + length [Eom_Frame (test_notification 3)]) s" using waiting_parts(4) [OF assms(1), of 3] by simp
  from second_read [OF split this s1(3) waiting_parts(2) [OF assms(1)], of xml ts fd] s1(2)
  have "rx_buffer ?s2 = []" "notif_queue ?s2 = [test_notification 1 @ EOM, ?p, test_notification 3 @ EOM]"
    "map seen_of (events_to_emit ?s2) = reported_of xml (cf_label (cfg s)) (Abandoned ?p)"
    using s1(4) assms(2) by (simp_all add: notification_facts del: queued_of.simps reported_of.simps One_nat_def)
  then show ?thesis by (simp only: Let_def reported_of.simps simp_thms)
qed

theorem test_malformed_frame:
  assumes "waiting_client 1 s" "\<not> is_valid_notification_document xml malformed_chunk"
  shows "notif_queue (rx_read xml ts fd (malformed_chunk @ EOM, t) s) = [malformed_chunk @ EOM] \<and>
    map seen_of (events_to_emit (rx_read xml ts fd (malformed_chunk @ EOM, t) s)) = [(''malformed_notification'', cf_label (cfg s),
      ''Received EOM-delimited data that is not a valid NETCONF notification; queued malformed frame'', int (length malformed_chunk))]"
proof -
  have "trim_copy malformed_chunk \<noteq> []" by code_simp
  moreover have "split_buffer (fst (malformed_chunk @ EOM, t)) = ([Eom_Frame malformed_chunk], [])" using malformed_split by simp
  ultimately show ?thesis using first_read [OF assms(1), of "(malformed_chunk @ EOM, t)" _ _ xml ts fd] assms(2) by simp
qed

theorem test_orphan_prefix:
  assumes "waiting_client 2 s" "parses_notifications xml"
  shows "let s1 = rx_read xml ts fd (orphan_prefix @ test_notification 1 @ EOM, t) s
    in notif_queue s1 = [test_notification 1 @ EOM] \<and> rx_buffer s1 = [] \<and>
      map seen_of (events_to_emit s1) = [(''malformed_notification'', cf_label (cfg s),
        ''Received orphan notification bytes before a notification start tag; dropped orphan fragment'', int (length orphan_prefix))]"
proof -
  have "split_buffer (fst (orphan_prefix @ test_notification 1 @ EOM, t)) = ([Orphan orphan_prefix, Eom_Frame (test_notification 1)], [])"
    using orphan_split by simp
  from first_read [OF assms(1) this, of xml ts fd] show ?thesis
    using assms(2) by (simp add: notification_facts Let_def del: queued_of.simps(1) reported_of.simps(1) One_nat_def)
qed

theorem test_empty_eom_frame:
  assumes "waiting_client 1 s"
  shows "notif_queue (rx_read xml ts fd (EOM, t) s) = [] \<and>
    map seen_of (events_to_emit (rx_read xml ts fd (EOM, t) s)) = [(''malformed_notification'', cf_label (cfg s),
      ''Received NETCONF EOM marker without notification payload; dropped empty frame'', 0)]"
proof -
  have "split_buffer (fst (EOM, t)) = ([Eom_Frame []], [])" using empty_split by simp
  from first_read [OF assms this, of xml ts fd] show ?thesis by (simp add: trim_copy_def)
qed

section \<open>The size guard and the bounded queue\<close>

text \<open>\<open>notif_incomplete_max_kb=1\<close> and a notification that never ends: whatever part of it the read gives, once it is 1024 bytes it is queued as it is.\<close>

definition endless_notification :: bytes where
  "endless_notification = ''<notification>'' @ replicate 4096 (CHR ''x'')"

lemma endless_good: "good_frame endless_notification"
proof -
  have "unambiguous endless_notification" by (rule single_lt_unambiguous) (simp add: endless_notification_def)
  moreover have "find_sub EOM (endless_notification @ EOM) = Some (length endless_notification)"
    by (rule no_bracket_first) (simp add: endless_notification_def)
  moreover have "start_tag_at endless_notification 0" "scan_name_end endless_notification 1 < length endless_notification"
    by (simp_all add: endless_notification_def start_tag_at_def scan_name_end_def name_stop_def isspace_def xml_local_name_def)
  ultimately show ?thesis by (simp add: good_frame_def)
qed

theorem test_size_limit:
  assumes "rx_buffer s = []" "notif_queue s = []" "has_room 1 s" "cf_notif_incomplete_max_kb (cfg s) = 1"
    and "1024 \<le> k" "k \<le> length endless_notification"
  shows "let (events, s1) = absorb xml ts fd (take k endless_notification) t s
    in notif_queue s1 = [take k endless_notification] \<and> rx_buffer s1 = [] \<and>
      map seen_of events = [(''incomplete_notification'', cf_label (cfg s), size_guard_message, int k)]"
proof -
  let ?p = "take k endless_notification" and ?c = "begin_cb s"
  let ?r = "rx_read xml ts fd (?p, t) ?c"
  have "partial_frame ?p"
    unfolding partial_frame_def using endless_good assms(6) by (intro disjI2 exI [of _ endless_notification] exI [of _ k]) (simp add: EOM_def)
  then have "split_buffer (rx_buffer ?c @ fst (?p, t)) = ([], ?p)" using split_buffer_frames [of "[]" ?p] assms(1) by simp
  moreover have "has_room (length ([] :: piece list)) ?c" using assms(3) by (auto simp: has_room_def)
  ultimately have r: "rx_buffer ?r = ?p" "notif_queue ?r = []" "cfg ?r = cfg s" "events_to_emit ?r = []"
    using read_effect [of ?c "(?p, t)" "[]" ?p xml ts fd] assms(2) by simp_all
  have len: "length ?p = k" using assms(6) by simp
  then have p: "?p \<noteq> []" using assms(5) by auto
  have limit: "partial_size_limit_reached ?r" unfolding partial_size_limit_reached_def r(1,3) using assms(4,5) p len by simp
  let ?f = "finalize_incomplete ts fd size_guard_message ?r"
  let ?d = "add_diagnostic_event ts fd ''incomplete_notification'' size_guard_message (length ?p) True (?r\<lparr>rx_buffer := [], rx_timer_active := False\<rparr>)"
  have f: "?f = enqueue_or_drop ts fd ?p (length ?p) ?d" unfolding finalize_incomplete_def r(1) using p by (simp only: Let_def if_False)
  have room: "has_room 1 ?d" using assms(3) by (simp add: has_room_def diag_effect r assms(2))
  have "notif_queue ?f = [?p] \<and> map seen_of (events_to_emit ?f) = [(''incomplete_notification'', cf_label (cfg s), size_guard_message, int k)]"
    unfolding f enqueue_effect [OF room] diag_effect using p len r by simp
  moreover have "absorb xml ts fd ?p t s = (events_to_emit ?f, notif_state.truncate ?f)"
    by (simp only: absorb_def Let_def limit if_True)
  ultimately show ?thesis by (simp add: notif_state.truncate_def)
qed

text \<open>\<open>notif_queue_size=0\<close>: every notification is dropped, the first with an event, and what the events say is what the test expects.\<close>

definition zero_event :: "cb_state \<Rightarrow> health_event \<Rightarrow> bool" where
  "zero_event s e \<longleftrightarrow> ev_type e \<in> {''notification_queue_full'', ''notification_drops_summary''} \<and> ev_label e = cf_label (cfg s) \<and>
     ev_queue_size e = 0 \<and> ev_queue_max_size e = 0 \<and> ev_notifications_enqueued e = int (enqueued_count s) \<and>
     ev_notifications_dropped_queue_full e \<ge> 1 \<and> ev_notifications_dropped_delta e \<ge> 1"

lemma zero_step:
  assumes "cf_notif_queue_max_size (cfg s) = 0" "notif_queue s = []" "last_drop_event_count s \<le> dropped_queue_full_count s" "x \<noteq> []"
  shows "let s1 = enqueue_or_drop ts fd x d s in
    cfg s1 = cfg s \<and> notif_queue s1 = [] \<and> last_drop_event_count s1 \<le> dropped_queue_full_count s1 \<and> enqueued_count s1 = enqueued_count s \<and>
    (\<exists>es. events_to_emit s1 = events_to_emit s @ es \<and> (\<forall>e\<in>set es. zero_event s e) \<and> (queue_full_state s \<or> es \<noteq> []))"
  using assms by (auto simp: enqueue_or_drop_def queue_full_def Let_def zero_event_def make_event_def)

lemma zero_queue:
  assumes "cf_notif_queue_max_size (cfg s) = 0" "notif_queue s = []" "last_drop_event_count s \<le> dropped_queue_full_count s"
  shows "notif_queue (enqueue_frames ts fd ms s) = [] \<and>
    (\<exists>es. events_to_emit (enqueue_frames ts fd ms s) = events_to_emit s @ es \<and> (\<forall>e\<in>set es. zero_event s e) \<and>
      (queue_full_state s \<or> ms = [] \<or> es \<noteq> []))"
  using assms
proof (induction ms arbitrary: s)
  case (Cons m ms)
  let ?s = "enqueue_or_drop ts fd (m @ EOM) 0 s"
  have x: "m @ EOM \<noteq> []" by (simp add: EOM_def)
  note step = zero_step [OF Cons.prems x, of ts fd 0, unfolded Let_def]
  then obtain es where es: "events_to_emit ?s = events_to_emit s @ es" "\<forall>e\<in>set es. zero_event s e" "queue_full_state s \<or> es \<noteq> []" by blast
  have same: "zero_event ?s = zero_event s" using step by (simp add: zero_event_def fun_eq_iff)
  obtain fs where "events_to_emit (enqueue_frames ts fd ms ?s) = events_to_emit ?s @ fs" "\<forall>e\<in>set fs. zero_event s e"
    "notif_queue (enqueue_frames ts fd ms ?s) = []"
    using Cons.IH [of ?s] step Cons.prems(1) unfolding same by auto
  then show ?case using es by (intro conjI exI [of _ "es @ fs"]) auto
qed auto

theorem test_zero_queue:
  assumes "cf_notif_queue_max_size (cfg s) = 0" "notif_queue s = []" "last_drop_event_count s \<le> dropped_queue_full_count s"
    and "\<not> queue_full_state s" "rx_buffer s = []" "events_to_emit s = []"
    and "ns \<noteq> []" "\<forall>n\<in>set ns. is_valid_notification_document xml (test_notification n)"
    and "cs \<noteq> []" "concat (map fst cs) = frames (map test_notification ns)"
  shows "let s1 = rx_reads xml ts fd cs s in notif_queue s1 = [] \<and> events_to_emit s1 \<noteq> [] \<and> (\<forall>e\<in>set (events_to_emit s1). zero_event s e)"
proof -
  let ?ms = "map test_notification ns"
  have "\<forall>m\<in>set ?ms. good_frame m \<and> is_valid_notification_document xml m"
    using assms(8) notification_good by (auto simp: test_notification_def)
  from rx_reads_frames [OF this partial_frame_Nil assms(9), of s ts fd]
  have h: "rx_hidden (rx_reads xml ts fd cs s) = enqueue_frames ts fd ?ms (rx_hidden s)" using assms(5,10) by simp
  have same: "notif_queue (rx_hidden r) = notif_queue r" "events_to_emit (rx_hidden r) = events_to_emit r" "cfg (rx_hidden r) = cfg r"
    "zero_event (rx_hidden r) = zero_event r" "queue_full_state (rx_hidden r) = queue_full_state r"
    "last_drop_event_count (rx_hidden r) = last_drop_event_count r" "dropped_queue_full_count (rx_hidden r) = dropped_queue_full_count r" for r
    by (simp_all add: rx_hidden_def zero_event_def fun_eq_iff)
  obtain es where "notif_queue (enqueue_frames ts fd ?ms (rx_hidden s)) = []" "events_to_emit (enqueue_frames ts fd ?ms (rx_hidden s)) = es"
    "\<forall>e\<in>set es. zero_event s e" "es \<noteq> []"
    using zero_queue [of "rx_hidden s" ts fd ?ms] assms(1-4,6,7) by (auto simp: same)
  then show ?thesis unfolding h [symmetric] same by (simp add: Let_def)
qed

text \<open>\<open>notif_queue_size=2\<close>: the peak is reported, and the queue keeps the first two.\<close>

lemma full_keeps:
  assumes "queue_full s"
  shows "notif_queue (enqueue_frames ts fd ms s) = notif_queue s \<and> (\<exists>es. events_to_emit (enqueue_frames ts fd ms s) = events_to_emit s @ es)"
  using assms
proof (induction ms arbitrary: s)
  case (Cons m ms)
  let ?s = "enqueue_or_drop ts fd (m @ EOM) 0 s"
  have step: "notif_queue ?s = notif_queue s" "cfg ?s = cfg s" "\<exists>es. events_to_emit ?s = events_to_emit s @ es"
    using Cons.prems by (simp_all add: enqueue_or_drop_def Let_def)
  then have "queue_full ?s" using Cons.prems by (simp add: queue_full_def)
  from Cons.IH [OF this] step show ?case by auto
qed simp

lemma first_drop:
  assumes "queue_full s" "\<not> queue_full_state s" "x \<noteq> []"
  shows "\<exists>e. events_to_emit (enqueue_or_drop ts fd x d s) = events_to_emit s @ [e] \<and> ev_type e = ''notification_queue_full'' \<and>
    ev_label e = cf_label (cfg s) \<and> ev_queue_max_size e = cf_notif_queue_max_size (cfg s) \<and>
    ev_queue_high_watermark e = int (queue_high_watermark s) \<and> ev_queue_size e = int (length (notif_queue s))"
    "notif_queue (enqueue_or_drop ts fd x d s) = notif_queue s" "queue_full (enqueue_or_drop ts fd x d s)"
  using assms by (simp_all add: enqueue_or_drop_def queue_full_def Let_def make_event_def)

theorem test_high_watermark:
  assumes "cf_notif_queue_max_size (cfg s) = 2" "notif_queue s = []" "queue_high_watermark s = 0" "\<not> queue_full_state s" "events_to_emit s = []"
  shows "let s1 = enqueue_frames ts fd (map test_notification [1, 2, 3, 4, 5]) s in
    notif_queue s1 = [test_notification 1 @ EOM, test_notification 2 @ EOM] \<and>
    (\<exists>e es. events_to_emit s1 = e # es \<and> ev_type e = ''notification_queue_full'' \<and> ev_label e = cf_label (cfg s) \<and>
       ev_queue_max_size e = 2 \<and> ev_queue_high_watermark e = 2 \<and> ev_queue_size e = 2)"
proof -
  let ?x = "\<lambda>n. test_notification n @ EOM"
  let ?s2 = "enqueue_or_drop ts fd (?x 2) 0 (enqueue_or_drop ts fd (?x 1) 0 s)"
  let ?s3 = "enqueue_or_drop ts fd (?x 3) 0 ?s2"
  have x: "?x n \<noteq> []" for n by (simp add: EOM_def)
  have s1: "enqueue_or_drop ts fd (?x 1) 0 s = s\<lparr>notif_queue := [?x 1], queued_notifications := queued_notifications s + 1,
      enqueued_count := enqueued_count s + 1, queue_high_watermark := 1\<rparr>"
    using enqueue_room [OF _ x] assms by (simp add: queue_full_def)
  have s2: "notif_queue ?s2 = [?x 1, ?x 2]" "queue_high_watermark ?s2 = 2" "cfg ?s2 = cfg s" "\<not> queue_full_state ?s2" "events_to_emit ?s2 = []"
    unfolding s1 using assms by (simp_all add: enqueue_room [OF _ x] queue_full_def)
  then have "queue_full ?s2" using assms(1) by (simp add: queue_full_def)
  note drop3 = first_drop [OF this s2(4) x [of 3], of ts fd 0]
  from drop3(1) obtain e where e: "events_to_emit ?s3 = [e]" "ev_type e = ''notification_queue_full''"
    "ev_label e = cf_label (cfg s)" "ev_queue_max_size e = 2" "ev_queue_high_watermark e = 2" "ev_queue_size e = 2"
    unfolding s2 assms(1) by auto
  have all: "enqueue_frames ts fd (map test_notification [1, 2, 3, 4, 5]) s = enqueue_frames ts fd (map test_notification [4, 5]) ?s3"
    by (simp only: list.map enqueue_frames_simps)
  from full_keeps [OF drop3(3), of ts fd "map test_notification [4, 5]"] obtain es where
    "events_to_emit (enqueue_frames ts fd (map test_notification [4, 5]) ?s3) = e # es"
    "notif_queue (enqueue_frames ts fd (map test_notification [4, 5]) ?s3) = [?x 1, ?x 2]"
    unfolding e(1) drop3(2) s2(1) by auto
  then show ?thesis unfolding all Let_def using e(2-6) by blast
qed

section \<open>Looking without taking\<close>

theorem test_peek:
  assumes "notif_queue s = map (\<lambda>n. test_notification n @ EOM) [1, 2, 3]" "notif_channel g" "notif_session g" "notif_is_connected g"
  shows "notification_queue_size s = 3 \<and> peek_notifications 2 s = Inr (map (\<lambda>n. test_notification n @ EOM) [1, 2]) \<and>
    (\<exists>evs s1. next_notification ts 1000 g s = Inr (test_notification 1 @ EOM, evs, s1) \<and> notification_queue_size s1 = 2 \<and>
       peek_notifications (-1) s1 = Inr (map (\<lambda>n. test_notification n @ EOM) [2, 3]))"
  using assms by (simp add: notification_queue_size_def peek_notifications_def next_notification_def Let_def del: One_nat_def)

end
