(* ===== verification/Epoll_RAII.thy ===== *)
theory Epoll_RAII
  imports Main
begin

text \<open>
  The class \<open>EpollRAII\<close> of \<open>include/netconf_client.hpp\<close>: an object owns a descriptor and closes it. Objects are numbers;
  \<open>closed\<close> lists the calls of \<open>close\<close>. The client's member \<open>epoll_fd_\<close> is of this class and only ever holds -1.
\<close>

record raii =
  fd_of :: "nat \<rightharpoonup> int"         \<comment> \<open>\<open>fd_\<close> of the living objects\<close>
  closed :: "int list"

definition close_held :: "int \<Rightarrow> raii \<Rightarrow> raii" where
  "close_held fd s = (if fd \<ge> 0 then s\<lparr>closed := closed s @ [fd]\<rparr> else s)"

text \<open>The constructor, the destructor, the move constructor, the move assignment (\<open>a = std::move (b)\<close>), \<open>get\<close> and \<open>reset\<close>.\<close>

definition raii_new :: "nat \<Rightarrow> int \<Rightarrow> raii \<Rightarrow> raii" where
  "raii_new a fd s = s\<lparr>fd_of := (fd_of s)(a \<mapsto> fd)\<rparr>"

definition raii_get :: "nat \<Rightarrow> raii \<Rightarrow> int" where
  "raii_get a s = (case fd_of s a of None \<Rightarrow> -1 | Some fd \<Rightarrow> fd)"

definition raii_delete :: "nat \<Rightarrow> raii \<Rightarrow> raii" where
  "raii_delete a s = (let s = close_held (raii_get a s) s in s\<lparr>fd_of := (fd_of s)(a := None)\<rparr>)"

definition raii_move_new :: "nat \<Rightarrow> nat \<Rightarrow> raii \<Rightarrow> raii" where
  "raii_move_new a b s = s\<lparr>fd_of := (fd_of s)(a \<mapsto> raii_get b s, b \<mapsto> -1)\<rparr>"

definition raii_assign :: "nat \<Rightarrow> nat \<Rightarrow> raii \<Rightarrow> raii" where
  "raii_assign a b s =
     (if a = b then s
      else let s = close_held (raii_get a s) s in s\<lparr>fd_of := (fd_of s)(a \<mapsto> raii_get b s, b \<mapsto> -1)\<rparr>)"

definition raii_reset :: "nat \<Rightarrow> int \<Rightarrow> raii \<Rightarrow> raii" where
  "raii_reset a fd s = (let s = close_held (raii_get a s) s in s\<lparr>fd_of := (fd_of s)(a \<mapsto> fd)\<rparr>)"

text \<open>Uses of the class: objects are used while they live, and a descriptor is handed in once (\<open>D\<close>: those handed in so far).\<close>

inductive raii_uses :: "int set \<Rightarrow> raii \<Rightarrow> bool" where
  none: "raii_uses {} \<lparr>fd_of = Map.empty, closed = []\<rparr>"
| create: "raii_uses D s \<Longrightarrow> fd_of s a = None \<Longrightarrow> fd \<notin> D \<Longrightarrow> raii_uses (if fd \<ge> 0 then insert fd D else D) (raii_new a fd s)"
| destroy: "raii_uses D s \<Longrightarrow> fd_of s a \<noteq> None \<Longrightarrow> raii_uses D (raii_delete a s)"
| move: "raii_uses D s \<Longrightarrow> fd_of s a = None \<Longrightarrow> fd_of s b \<noteq> None \<Longrightarrow> raii_uses D (raii_move_new a b s)"
| assign: "raii_uses D s \<Longrightarrow> fd_of s a \<noteq> None \<Longrightarrow> fd_of s b \<noteq> None \<Longrightarrow> raii_uses D (raii_assign a b s)"
| reset: "raii_uses D s \<Longrightarrow> fd_of s a \<noteq> None \<Longrightarrow> fd \<notin> D \<Longrightarrow> raii_uses (if fd \<ge> 0 then insert fd D else D) (raii_reset a fd s)"

text \<open>A descriptor handed in is closed once or held by one object, never both.\<close>

definition held :: "raii \<Rightarrow> int set" where
  "held s = ran (fd_of s) \<inter> {0..}"

definition single :: "raii \<Rightarrow> bool" where
  "single s \<longleftrightarrow> (\<forall>a b fd. fd \<ge> 0 \<longrightarrow> fd_of s a = Some fd \<longrightarrow> fd_of s b = Some fd \<longrightarrow> a = b)"

definition owned :: "int set \<Rightarrow> raii \<Rightarrow> bool" where
  "owned D s \<longleftrightarrow> single s \<and> distinct (closed s) \<and> set (closed s) \<inter> held s = {} \<and> set (closed s) \<union> held s = D"

lemma close_held_fields: "fd_of (close_held fd s) = fd_of s" "closed (close_held fd s) = closed s @ (if fd \<ge> 0 then [fd] else [])"
  by (simp_all add: close_held_def)

lemma held_new: "fd_of s a = None \<Longrightarrow> held (raii_new a fd s) = (if fd \<ge> 0 then insert fd (held s) else held s)"
  by (auto simp: held_def raii_new_def)

lemma held_delete: "single s \<Longrightarrow> fd_of s a = Some fd \<Longrightarrow> held (raii_delete a s) = held s - {fd}"
  unfolding held_def single_def raii_delete_def ran_def by (auto simp: Let_def close_held_fields split: if_splits) force+

lemma held_move:
  assumes "fd_of s a = None" "fd_of s b = Some fd"
  shows "held (raii_move_new a b s) = held s"
proof -
  have "a \<noteq> b" using assms by auto
  have "ran ((fd_of s)(a \<mapsto> fd, b \<mapsto> -1)) \<inter> {0..} = ran (fd_of s) \<inter> {0..}" (is "?l = ?r")
  proof
    show "?l \<subseteq> ?r" using assms by (auto simp: ran_def split: if_splits)
    have moved: "fd' \<in> ran ((fd_of s)(a \<mapsto> fd, b \<mapsto> -1))" if "fd_of s c = Some fd'" for c fd'
    proof (cases "c = b")
      case True
      then show ?thesis using that assms \<open>a \<noteq> b\<close> by (intro ranI [of _ a]) simp
    next
      case False
      then show ?thesis using that assms by (intro ranI [of _ c]) auto
    qed
    show "?r \<subseteq> ?l"
    proof
      fix x assume "x \<in> ?r"
      then obtain c where "fd_of s c = Some x" "x \<in> {0..}" by (auto simp: ran_def)
      with moved show "x \<in> ?l" by blast
    qed
  qed
  then show ?thesis by (simp add: held_def raii_move_new_def raii_get_def assms(2))
qed

lemma single_delete: "single s \<Longrightarrow> single (raii_delete a s)"
  by (auto simp: single_def raii_delete_def Let_def close_held_fields)

lemma single_move: "single s \<Longrightarrow> fd_of s a = None \<Longrightarrow> fd_of s b = Some fd \<Longrightarrow> single (raii_move_new a b s)"
  unfolding single_def raii_move_new_def raii_get_def by (simp split: if_splits) blast

lemma owned_new:
  assumes "owned D s" "fd_of s a = None" "fd \<notin> D"
  shows "owned (if fd \<ge> 0 then insert fd D else D) (raii_new a fd s)"
proof -
  have "single (raii_new a fd s)" using assms by (auto simp: single_def raii_new_def owned_def held_def ran_def)
  moreover have "closed (raii_new a fd s) = closed s" by (simp add: raii_new_def)
  ultimately show ?thesis using assms by (auto simp: owned_def held_new [OF assms(2)])
qed

lemma owned_delete:
  assumes "owned D s" "fd_of s a = Some fd"
  shows "owned D (raii_delete a s)"
proof -
  have "fd \<ge> 0 \<Longrightarrow> fd \<in> held s" "fd < 0 \<Longrightarrow> fd \<notin> held s" using assms(2) by (auto simp: held_def ran_def)
  moreover have "closed (raii_delete a s) = closed s @ (if fd \<ge> 0 then [fd] else [])"
    by (simp add: raii_delete_def raii_get_def assms(2) Let_def close_held_fields)
  moreover have "held (raii_delete a s) = held s - {fd}" using held_delete assms by (auto simp: owned_def)
  ultimately show ?thesis using assms(1) single_delete by (auto simp: owned_def)
qed

lemma owned_move:
  assumes "owned D s" "fd_of s a = None" "fd_of s b = Some fd"
  shows "owned D (raii_move_new a b s)"
proof -
  have "closed (raii_move_new a b s) = closed s" by (simp add: raii_move_new_def)
  with assms held_move [OF assms(2,3)] single_move [of s a b fd] show ?thesis by (simp add: owned_def)
qed

text \<open>The two assignments are a destruction and a construction in the same place.\<close>

lemma reset_in_two: "raii_reset a fd s = raii_new a fd (raii_delete a s)"
  by (simp add: raii_reset_def raii_new_def raii_delete_def Let_def close_held_def)

lemma assign_in_two: "a \<noteq> b \<Longrightarrow> raii_assign a b s = raii_move_new a b (raii_delete a s)"
  by (simp add: raii_assign_def raii_move_new_def raii_delete_def raii_get_def Let_def close_held_def)

lemma delete_place: "fd_of (raii_delete a s) = (fd_of s)(a := None)"
  by (simp add: raii_delete_def Let_def close_held_def)

lemma owned_uses: "raii_uses D s \<Longrightarrow> owned D s"
proof (induction rule: raii_uses.induct)
  case none
  then show ?case by (simp add: owned_def single_def held_def)
next
  case (assign D s a b)
  then show ?case
    by (cases "a = b") (auto simp: assign_in_two raii_assign_def [of b b] delete_place intro!: owned_move owned_delete)
next
  case (create D s a fd)
  then show ?case by (blast intro: owned_new)
next
  case (reset D s a fd)
  then have "owned D (raii_delete a s)" using owned_delete by blast
  from owned_new [OF this _ reset(3)] show ?case by (simp add: reset_in_two delete_place)
qed (auto intro: owned_delete owned_move)

text \<open>
  When every object is gone, exactly the descriptors handed in have been closed, each once.
\<close>

theorem descriptors_closed_once:
  assumes "raii_uses D s" "fd_of s = Map.empty"
  shows "distinct (closed s) \<and> set (closed s) = D"
  using owned_uses [OF assms(1)] assms(2) by (auto simp: owned_def held_def)

end
