(* ===== verification/Fleet.thy ===== *)
theory Fleet
  imports Delivery Reactor_Loop
begin

text \<open>
  Many clients on one manager: their operations as wholes, one after the other. Subscribing, deleting a subscription,
  disconnecting and destroying a client (\<open>src/netconf_client_*.cpp\<close>) and the clean-up of a reactor's loop (\<open>src/notification_reactor.cpp\<close>) keep the
  clients, their handles and the registrations in order.
\<close>

section \<open>Whole operations\<close>

type_synonym fleet = "manager \<times> (client \<Rightarrow> nc)"

text \<open>\<open>~NetconfClient\<close>: \<open>disconnect\<close>, whose exceptions it suppresses; the members are then destroyed, with nothing left in them.\<close>

definition destroy_client :: "manager \<times> nc \<Rightarrow> manager \<times> nc" where
  "destroy_client s = disconnect s"

datatype fleet_op =
    Subscribe client bytes bytes sub_env
  | Delete client
  | Disconnect_Op client
  | Destroy client
  | Dead_Socket nat int "32 word"    \<comment> \<open>a reactor, a socket and its event\<close>

text \<open>An operation that does not end gives \<^const>\<open>None\<close>. The clients marked dead by the loop are those of \<^const>\<open>handle_event\<close>.\<close>

definition fleet_step :: "fleet_op \<Rightarrow> fleet \<Rightarrow> fleet option" where
  "fleet_step op s =
     (let (m, cl) = s in
      case op of
        Subscribe c stream filter_text e \<Rightarrow>
          (case subscribe_non_blocking stream filter_text c e (m, cl c) of
             (Blocked, m, n) \<Rightarrow> None
           | (Returns r, m, n) \<Rightarrow> Some (m, cl(c := n)))
      | Delete c \<Rightarrow> (case delete_notification_session (m, cl c) of (m, n) \<Rightarrow> Some (m, cl(c := n)))
      | Disconnect_Op c \<Rightarrow> (case disconnect (m, cl c) of (m, n) \<Rightarrow> Some (m, cl(c := n)))
      | Destroy c \<Rightarrow> (case destroy_client (m, cl c) of (m, n) \<Rightarrow> Some (m, cl(c := n)))
      | Dead_Socket self fd ev \<Rightarrow>
          (case handle_event self (\<lambda>_. True) (\<lambda>_ _. False) fd ev (m, []) of
             (m, dead) \<Rightarrow> Some (m, fold (\<lambda>c cl. cl(c := mark_dead (cl c))) dead cl)))"

text \<open>What the caller and the system see to: a client that is subscribed is not subscribed again, and a new socket
  has a number that no open socket has.\<close>

definition fleet_guard :: "fleet_op \<Rightarrow> fleet \<Rightarrow> bool" where
  "fleet_guard op s =
     (let (m, cl) = s in
      case op of
        Subscribe c stream filter_text e \<Rightarrow> \<not> notif_is_connected (notif_part (cl c)) \<and>
          (case ce_socket (se_connect e) of Inl _ \<Rightarrow> True | Inr fd \<Rightarrow> 0 \<le> fd \<and> (\<forall>d. socket_fd (notif_end (cl d)) \<noteq> fd))
      | Dead_Socket self fd ev \<Rightarrow> self < length (reactors m)
      | _ \<Rightarrow> True)"

text \<open>A client is subscribed, complete and registered under its socket, or it holds nothing and is not registered.\<close>

definition in_order :: "manager \<Rightarrow> client \<Rightarrow> nc \<Rightarrow> bool" where
  "in_order m c n \<longleftrightarrow> mirrored n \<and>
     (if notif_is_connected (notif_part n) then complete (notif_end n) \<and> client_of m (socket_fd (notif_end n)) = Some c
      else all_released (notif_end n))"

definition fleet_inv :: "fleet \<Rightarrow> bool" where
  "fleet_inv s \<longleftrightarrow>
     (case s of (m, cl) \<Rightarrow> manager_inv m \<and> (\<forall>c. in_order m c (cl c)) \<and>
        (\<forall>fd c. client_of m fd = Some c \<longrightarrow> notif_is_connected (notif_part (cl c)) \<and> socket_fd (notif_end (cl c)) = fd))"

lemma released_owned: "all_released p \<Longrightarrow> owned p"
  by (auto simp: all_released_def owned_def)

lemma mark_dead_in_order: "owned (notif_end n) \<Longrightarrow> in_order m c (mark_dead n)"
  using mark_dead_released [of n] mirrored_mark_dead [of n]
  by (simp add: in_order_def) (simp add: mark_dead_def mark_notification_dead_def Let_def)

lemma in_order_owned: "in_order m c n \<Longrightarrow> owned (notif_end n)"
  by (auto simp: in_order_def complete_def released_owned split: if_splits)

text \<open>Taking one client's registration away and marking it dead.\<close>

lemma removed_in_order:
  assumes inv: "fleet_inv (m, cl)" and m': "manager_inv m'" "client_of m' = (client_of m)(fd := None)"
    and own: "\<And>g. client_of m g = Some c \<Longrightarrow> g = fd" "\<And>d. client_of m fd = Some d \<Longrightarrow> d = c"
    and n: "in_order m' c n" "\<not> notif_is_connected (notif_part n)"
  shows "fleet_inv (m', cl(c := n))"
proof -
  have "in_order m' d (cl d)" if "d \<noteq> c" for d
  proof -
    have "in_order m d (cl d)" using inv by (simp add: fleet_inv_def)
    with own(2) that show ?thesis by (auto simp: in_order_def m'(2))
  qed
  moreover have "d \<noteq> c" if "client_of m' g = Some d" for g d using own(1) that by (auto simp: m'(2) split: if_splits)
  ultimately show ?thesis using inv m' n by (auto simp: fleet_inv_def split: if_splits)
qed

lemma own_socket:
  assumes "fleet_inv (m, cl)"
  shows "client_of m g = Some d \<Longrightarrow> 0 \<le> g \<and> socket_fd (notif_end (cl d)) = g" and "in_order m c (cl c)" and "manager_inv m"
proof -
  have all: "manager_inv m" "in_order m c (cl c)" for c using assms by (auto simp: fleet_inv_def)
  then show "in_order m c (cl c)" "manager_inv m" by blast+
  assume "client_of m g = Some d"
  then have "notif_is_connected (notif_part (cl d))" "socket_fd (notif_end (cl d)) = g" using assms by (auto simp: fleet_inv_def)
  with all(2) [of d] show "0 \<le> g \<and> socket_fd (notif_end (cl d)) = g" by (auto simp: in_order_def complete_def)
qed

lemma remove_laws: "manager_inv m \<Longrightarrow> manager_inv (manager_remove fd m) \<and> client_of (manager_remove fd m) = (client_of m)(fd := None)"
  using registry.remove_inv registry.remove_owner by blast

lemma delete_keeps:
  assumes inv: "fleet_inv (m, cl)" and n: "notif_end n = notif_end (cl c)" "notif_part n = notif_part (cl c)"
    and d: "delete_notification_session (m, n) = (m', n')"
  shows "fleet_inv (m', cl(c := n'))"
proof -
  let ?fd = "socket_fd (notif_end (cl c))"
  note o = own_socket [OF inv]
  have mirror: "notif_socket (notif_part n) = ?fd" using o(2) [of c] n by (simp add: in_order_def mirrored_def)
  have n': "n' = mark_dead n" and m': "m' = (if 0 \<le> ?fd then manager_remove ?fd m else m)"
    using d by (auto simp: delete_notification_session_def Let_def mirror)
  have own: "in_order m' c n'" "\<not> notif_is_connected (notif_part n')"
    using mark_dead_in_order [of n m' c] in_order_owned [OF o(2) [of c]] n n'
    by (simp_all add: mark_dead_def mark_notification_dead_def Let_def)
  have "client_of m' = (client_of m)(?fd := None)"
  proof (cases "0 \<le> ?fd")
    case True
    then show ?thesis using remove_laws [OF o(3)] m' by simp
  next
    case False
    then have "client_of m ?fd = None" using o(1) [of ?fd] by (cases "client_of m ?fd") auto
    with False show ?thesis using m' by (auto simp: fun_upd_idem)
  qed
  moreover have "d = c" if "client_of m ?fd = Some d" for d
  proof -
    have "0 \<le> ?fd" using o(1) [OF that] by simp
    then have "\<not> all_released (notif_end (cl c))" by (simp add: all_released_def)
    then have "client_of m ?fd = Some c" using o(2) [of c] by (simp add: in_order_def split: if_splits)
    with that show ?thesis by simp
  qed
  moreover have "manager_inv m'" using remove_laws o(3) m' by simp
  ultimately show ?thesis using removed_in_order [OF inv _ _ _ _ own] o(1) by blast
qed

lemma fleet_inv_view:
  assumes "fleet_inv (m, cl(c := n))" "notif_end n' = notif_end n" "notif_part n' = notif_part n"
  shows "fleet_inv (m, cl(c := n'))"
proof -
  have "in_order m d n' = in_order m d n" for d using assms(2,3) by (simp add: in_order_def mirrored_def)
  then have "in_order m d ((cl(c := n')) d) = in_order m d ((cl(c := n)) d)" for d by simp
  moreover have "notif_is_connected (notif_part ((cl(c := n')) d)) = notif_is_connected (notif_part ((cl(c := n)) d))"
    "socket_fd (notif_end ((cl(c := n')) d)) = socket_fd (notif_end ((cl(c := n)) d))" for d using assms(2,3) by simp_all
  ultimately show ?thesis using assms(1) unfolding fleet_inv_def split by (simp del: fun_upd_apply)
qed

lemma disconnect_keeps:
  assumes inv: "fleet_inv (m, cl)" and d: "disconnect (m, cl c) = (m', n')"
  shows "fleet_inv (m', cl(c := n'))"
proof -
  let ?n = "(cl c)\<lparr>rpc_end := release (rpc_end (cl c))\<rparr>"
  obtain m1 n1 where s: "delete_notification_session (m, ?n) = (m1, n1)" by (metis prod.collapse)
  have "fleet_inv (m1, cl(c := n1))" by (rule delete_keeps [OF inv _ _ s]) simp_all
  moreover have "m' = m1" "notif_end n' = notif_end n1" "notif_part n' = notif_part n1"
    using d s by (auto simp: disconnect_def Let_def)
  ultimately show ?thesis using fleet_inv_view by metis
qed

text \<open>A destroyed client has left no handle open and no socket registered.\<close>

lemma destroyed_client_leaves_nothing:
  assumes inv: "fleet_inv (m, cl)" and rpc: "owned (rpc_end (cl c))" and d: "destroy_client (m, cl c) = (m', n')"
  shows "fleet_inv (m', cl(c := n')) \<and> all_released (rpc_end n') \<and> all_released (notif_end n') \<and> (\<forall>g. client_of m' g \<noteq> Some c)"
proof -
  have keep: "fleet_inv (m', cl(c := n'))" using disconnect_keeps [OF inv] d by (simp add: destroy_client_def)
  have n': "n' = snd (disconnect (m, cl c))" using d by (simp add: destroy_client_def)
  have off: "\<not> notif_is_connected (notif_part n')" unfolding n' disconnect_parts by (simp add: mark_notification_dead_def Let_def)
  have "in_order m c (cl c)" using inv by (simp add: fleet_inv_def)
  then have "all_released (rpc_end n')" "all_released (notif_end n')"
    unfolding n' disconnect_parts using rpc release_all in_order_owned by blast+
  moreover have "client_of m' g \<noteq> Some c" for g
  proof
    assume "client_of m' g = Some c"
    then have "notif_is_connected (notif_part ((cl(c := n')) c))" using keep unfolding fleet_inv_def split by blast
    with off show False by simp
  qed
  ultimately show ?thesis using keep by blast
qed

lemma dead_socket_keeps:
  assumes inv: "fleet_inv (m, cl)" and self: "self < length (reactors m)"
    and h: "handle_event self (\<lambda>_. True) (\<lambda>_ _. False) fd ev (m, []) = (m', dead)"
  shows "fleet_inv (m', fold (\<lambda>c cl. cl(c := mark_dead (cl c))) dead cl)"
proof (cases "map_of (reactors m ! self) fd")
  case None
  then show ?thesis using h inv by (simp add: handle_event_def)
next
  case (Some c)
  note o = own_socket [OF inv]
  have c: "client_of m fd = Some c" using inv_handler [OF o(3) self Some] by (simp add: client_of_def)
  have e: "(m', dead) = (if ev AND (EPOLLERR OR EPOLLHUP OR EPOLLRDHUP) \<noteq> 0 then (manager_remove fd m, [c]) else (m, []))"
    using handle_event_alive [OF o(3) self Some, of "\<lambda>_. True" "\<lambda>_ _. False" ev "[]"] h by simp
  show ?thesis
  proof (cases "ev AND (EPOLLERR OR EPOLLHUP OR EPOLLRDHUP) \<noteq> 0")
    case True
    note r = remove_laws [OF o(3), of fd]
    have "in_order (manager_remove fd m) c (mark_dead (cl c))" "\<not> notif_is_connected (notif_part (mark_dead (cl c)))"
      using mark_dead_in_order in_order_owned [OF o(2)] by (simp_all add: mark_dead_def mark_notification_dead_def Let_def)
    note step = removed_in_order [OF inv conjunct1 [OF r] conjunct2 [OF r] _ _ this]
    have "g = fd" if "client_of m g = Some c" for g using o(1) [OF c] o(1) [OF that] by simp
    then have "fleet_inv (manager_remove fd m, cl(c := mark_dead (cl c)))" by (rule step) (use c in auto)
    with e True show ?thesis by simp
  qed (use e inv in simp)
qed

text \<open>What a subscription leaves.\<close>

lemma subscribe_leaves:
  assumes "subscribe_non_blocking stream filter_text self e (m, n) = (Returns r, m', n')"
    and set_up: "\<And>f n1. connect_notification_non_blocking (se_connect e) n = (f, n1) \<Longrightarrow> mirrored n1"
  shows "mirrored n' \<and> notif_is_connected (notif_part n') = (\<exists>reply. r = Inr reply)"
  using assms
  by (auto simp: subscribe_non_blocking_def subscribe_failed_def Let_def mirrored_mark_dead mark_dead_def [THEN arg_cong [of _ _ notif_part]]
      mark_notification_dead_def split: prod.splits flow.splits option.splits outcome.splits sum.splits)
    (simp_all add: mirrored_def)

lemma subscribe_keeps:
  assumes inv: "fleet_inv (m, cl)" and guard: "fleet_guard (Subscribe c stream filter_text e) (m, cl)"
    and s: "subscribe_non_blocking stream filter_text c e (m, cl c) = (Returns r, m', n')"
  shows "fleet_inv (m', cl(c := n'))"
proof -
  note o = own_socket [OF inv]
  have off: "\<not> notif_is_connected (notif_part (cl c))" using guard by (simp add: fleet_guard_def)
  then have rel: "all_released (notif_end (cl c))" using o(2) [of c] by (simp add: in_order_def)
  then have old: "owned (notif_end (cl c))" "channel_ptr (notif_end (cl c)) = None" by (simp_all add: released_owned all_released_def)
  have new: "new_socket (ce_socket (se_connect e)) (notif_end (cl c))"
    using guard by (auto simp: fleet_guard_def new_socket_def split: sum.splits)
  have free: "client_of m fd = None" if "ce_socket (se_connect e) = Inr fd" for fd
  proof (cases "client_of m fd")
    case (Some d)
    from o(1) [OF this] guard that show ?thesis by (auto simp: fleet_guard_def)
  qed simp
  have none: "d \<noteq> c" if "client_of m g = Some d" for g d
    using inv that off by (auto simp: fleet_inv_def)
  have "subscribe_contract c m (Returns r, m', n')" using subscribe_all_or_nothing [OF o(3) old off new free, where self = c] s by metis
  note k = this [unfolded subscribe_contract_def]
  have mir: "mirrored n'" "notif_is_connected (notif_part n') = (\<exists>reply. r = Inr reply)"
    using subscribe_leaves [OF s] notification_set_up(2) [OF old off new] by blast+
  have others: "in_order m d (cl d)" for d by (rule o(2))
  show ?thesis
  proof (cases r)
    case (Inl ex)
    with k have m': "manager_inv m'" "client_of m' = client_of m" "all_released (notif_end n')" by simp_all
    have "in_order m' d ((cl(c := n')) d)" for d
      using others [of d] mir m' Inl by (simp add: in_order_def split: if_splits)
    with inv none m' show ?thesis by (auto simp: fleet_inv_def)
  next
    case (Inr reply)
    with k have m': "manager_inv m'" "complete (notif_end n')" "client_of m' = (client_of m)(socket_fd (notif_end n') \<mapsto> c)"
      by simp_all
    have taken: "client_of m (socket_fd (notif_end n')) = None"
    proof -
      have "notif_socket (notif_part n') = socket_fd (notif_end n')" "0 \<le> socket_fd (notif_end n')"
        using mir(1) m'(2) by (simp_all add: mirrored_def complete_owned)
      then have "client_of (manager_remove (socket_fd (notif_end n')) m') = client_of m"
        using k Inr by (simp add: delete_notification_session_def Let_def)
      then show ?thesis using remove_laws [OF m'(1)] by (metis fun_upd_same)
    qed
    have "in_order m' d ((cl(c := n')) d)" for d
      using others [of d] mir m' Inr taken by (auto simp: in_order_def split: if_splits)
    with inv none m' mir Inr show ?thesis by (auto simp: fleet_inv_def split: if_splits)
  qed
qed

inductive fleet_run :: "fleet \<Rightarrow> fleet_op list \<Rightarrow> fleet \<Rightarrow> bool" where
  rest: "fleet_run s [] s"
| then_op: "fleet_guard op s \<Longrightarrow> fleet_step op s = Some t \<Longrightarrow> fleet_run t ops u \<Longrightarrow> fleet_run s (op # ops) u"

lemma fleet_step_keeps:
  assumes "fleet_inv s" "fleet_guard op s" "fleet_step op s = Some t"
  shows "fleet_inv t"
proof -
  obtain m cl where s: "s = (m, cl)" by fastforce
  show ?thesis
  proof (cases op)
    case (Subscribe c stream filter_text e)
    with assms subscribe_keeps show ?thesis
      by (auto simp: s fleet_step_def split: prod.splits outcome.splits)
  next
    case (Delete c)
    with assms delete_keeps [OF _ refl refl] show ?thesis by (auto simp: s fleet_step_def split: prod.splits)
  next
    case (Disconnect_Op c)
    with assms disconnect_keeps show ?thesis by (auto simp: s fleet_step_def split: prod.splits)
  next
    case (Destroy c)
    with assms disconnect_keeps show ?thesis by (auto simp: s fleet_step_def destroy_client_def split: prod.splits)
  next
    case (Dead_Socket self fd ev)
    with assms(3) obtain m' dead where h: "handle_event self (\<lambda>_. True) (\<lambda>_ _. False) fd ev (m, []) = (m', dead)"
      "t = (m', fold (\<lambda>c cl. cl(c := mark_dead (cl c))) dead cl)"
      by (auto simp: s fleet_step_def split: prod.splits)
    with dead_socket_keeps [OF _ _ h(1)] assms(1,2) Dead_Socket show ?thesis by (simp add: s fleet_guard_def)
  qed
qed

lemma fleet_run_keeps: "fleet_run s ops t \<Longrightarrow> fleet_inv s \<Longrightarrow> fleet_inv t"
  by (induction rule: fleet_run.induct) (auto intro: fleet_step_keeps)

lemma fleet_inv_new: "fleet_inv (empty_manager, \<lambda>_. new_client cf)"
  by (simp add: fleet_inv_def manager_inv_empty client_of_def in_order_def mirrored_new)
    (simp add: empty_manager_def new_client_def no_endpoint_def initial_notif_def all_released_def)

text \<open>
  C8. One after the other, operations keep the clients, their handles and the reactors in order. Whatever clients
  subscribe (successfully or not), delete their subscriptions, disconnect or are destroyed, and whatever sockets the loops clean up, as long as
  these run as wholes and no subscribed client subscribes again: each client is subscribed with a complete session whose socket is registered for
  it, or it holds nothing; every registered socket is the open socket of the client it is registered for, and no two clients
  share one; and the manager agrees with its reactors.
\<close>

theorem whole_operations_keep_order:
  assumes "fleet_run (empty_manager, \<lambda>_. new_client cf) ops (m, cl)"
  shows "manager_inv m \<and>
    (\<forall>c. if notif_is_connected (notif_part (cl c))
      then complete (notif_end (cl c)) \<and> client_of m (socket_fd (notif_end (cl c))) = Some c else all_released (notif_end (cl c))) \<and>
    (\<forall>fd c. client_of m fd = Some c \<longrightarrow> notif_is_connected (notif_part (cl c)) \<and> socket_fd (notif_end (cl c)) = fd) \<and>
    (\<forall>c d. notif_is_connected (notif_part (cl c)) \<and> notif_is_connected (notif_part (cl d)) \<and>
       socket_fd (notif_end (cl c)) = socket_fd (notif_end (cl d)) \<longrightarrow> c = d)"
proof -
  have inv: "fleet_inv (m, cl)" using fleet_run_keeps [OF assms fleet_inv_new] .
  have reg: "client_of m (socket_fd (notif_end (cl c))) = Some c" if "notif_is_connected (notif_part (cl c))" for c
    using own_socket(2) [OF inv, of c] that by (simp add: in_order_def)
  have "c = d" if "notif_is_connected (notif_part (cl c))" "notif_is_connected (notif_part (cl d))"
    "socket_fd (notif_end (cl c)) = socket_fd (notif_end (cl d))" for c d
    using reg [OF that(1)] reg [OF that(2)] that(3) by (metis option.inject)
  moreover have "if notif_is_connected (notif_part (cl c))
      then complete (notif_end (cl c)) \<and> client_of m (socket_fd (notif_end (cl c))) = Some c else all_released (notif_end (cl c))" for c
    using own_socket(2) [OF inv, of c] by (simp add: in_order_def)
  ultimately show ?thesis using inv by (simp add: fleet_inv_def)
qed

theorem whole_operations_keep_order_witness:
  "\<exists>m cl. fleet_run (empty_manager, \<lambda>_. basic) [Subscribe 0 ''NETCONF'' [] (subscribing 3)] (m, cl) \<and>
     complete (notif_end (cl 0)) \<and> client_of m (socket_fd (notif_end (cl 0))) = Some 0"
proof -
  obtain reply m' n' where sub:
    "subscribe_non_blocking ''NETCONF'' [] 0 (subscribing 3) (empty_manager, basic) = (Returns (Inr reply), m', n')"
    using prompt_subscription by blast
  let ?cl = "(\<lambda>_ :: client. basic)(0 := n')"
  have "fleet_guard (Subscribe 0 ''NETCONF'' [] (subscribing 3)) (empty_manager, \<lambda>_. basic)"
    by (simp add: fleet_guard_def)
  moreover have "fleet_step (Subscribe 0 ''NETCONF'' [] (subscribing 3)) (empty_manager, \<lambda>_. basic) = Some (m', ?cl)"
    by (simp add: fleet_step_def sub)
  ultimately have run: "fleet_run (empty_manager, \<lambda>_. basic) [Subscribe 0 ''NETCONF'' [] (subscribing 3)] (m', ?cl)"
    by (blast intro: fleet_run.intros)
  have "owned (notif_end basic)" "channel_ptr (notif_end basic) = None" "\<not> notif_is_connected (notif_part basic)"
    "new_socket (ce_socket (se_connect (subscribing 3))) (notif_end basic)"
    by (simp_all add: owned_no_endpoint new_socket_def)
  from subscribe_leaves [OF sub] notification_set_up(2) [OF this] have on: "notif_is_connected (notif_part (?cl 0))" by simp
  from spec [OF conjunct1 [OF conjunct2 [OF whole_operations_keep_order [OF run]]], of 0]
  have "complete (notif_end (?cl 0)) \<and> client_of m' (socket_fd (notif_end (?cl 0))) = Some 0" unfolding if_P [OF on] .
  with run show ?thesis by blast
qed

end
