(* ===== verification/Teardown_Races.thy ===== *)
theory Teardown_Races
  imports Fleet
begin

text \<open>
  The operations of \<open>Fleet\<close> step by step, interleaved as the threads of the pool and the loop of a reactor are. A step is one critical
  section of \<open>mtx_\<close> (\<open>src/notification_reactor_manager.cpp\<close>) or \<open>notif_mutex_\<close> (\<open>src/netconf_client_*.cpp\<close>), or one stage of
  a set-up, which takes no mutex of the notification side.
\<close>

section \<open>Step by step\<close>

text \<open>What a thread is doing. The requests of one client wait for each other at \<open>session_mutex_\<close>; the loop's clean-up does not take
  it. \<open>Removing\<close> and \<open>Marking\<close> are the last steps of a deletion (\<open>by_loop\<close> false) and of \<open>cleanup_dead_fd\<close> (true).\<close>

datatype job =
    Free
  | Setting_Up client "ssh_state stage list"      \<comment> \<open>what is left of \<^const>\<open>connect_notification_stages\<close>\<close>
  | Requesting client "nat option"     \<comment> \<open>the session is set up; the RPC uses its handle\<close>
  | Registering client
  | Flagging client                    \<comment> \<open>registered, \<open>notif_is_connected_\<close> not yet set\<close>
  | Deleting client
  | Removing (by_loop: bool) client int
  | Marking (by_loop: bool) client

record jobs_state =
  mgr :: manager
  cls :: "client \<Rightarrow> nc"
  jobs :: "job list"
  fleet_size :: nat

definition jobs_start :: "client_config \<Rightarrow> nat \<Rightarrow> nat \<Rightarrow> jobs_state" where
  "jobs_start cf k clients = \<lparr>mgr = empty_manager, cls = (\<lambda>_. new_client cf), jobs = replicate k Free, fleet_size = clients\<rparr>"

definition set_client :: "client \<Rightarrow> nc \<Rightarrow> jobs_state \<Rightarrow> jobs_state" where
  "set_client c n s = s\<lparr>cls := (cls s)(c := n)\<rparr>"

text \<open>One stage of \<open>connect_notification_non_blocking\<close> on the members as they are then; its handler and that of
  \<open>subscribe_non_blocking\<close>; and its end with the three tests that follow it. A wait on a session that is gone is not recorded as a misuse.\<close>

definition set_up_section :: "client \<Rightarrow> ssh_state stage list \<Rightarrow> jobs_state \<Rightarrow> job \<times> jobs_state" where
  "set_up_section c fs s =
     (let n = cls s c in
      case fs of
        [] \<Rightarrow>
          (let n = set_notif_flags False False n in
           case missing_part (notif_part n) of
             Some ex \<Rightarrow> (Free, set_client c (mark_dead n) s)
           | None \<Rightarrow> (Requesting c (session_ptr (notif_end n)), set_client c n s))
      | f # fs' \<Rightarrow>
          (case f (notif_end n, resolved_host n) of
             (x, p, h) \<Rightarrow>
               (let n = set_notif_end p (n\<lparr>resolved_host := h\<rparr>) in
                case x of
                  Go \<Rightarrow> (Setting_Up c fs', set_client c n s)
                | Throw ex \<Rightarrow> (Free, set_client c (mark_dead n) s)
                | Block \<Rightarrow> (Setting_Up c fs, set_client c n s))))"

text \<open>The request of a subscription (it uses the session whose handle it took when it started), the registration, with the
  handler when it throws, and the flags (\<open>subscribe_non_blocking\<close>); the removal from the manager, of \<open>delete_notification_session\<close> and
  of \<open>cleanup_dead_fd\<close>; and \<open>mark_notification_dead\<close>.\<close>

definition request_section :: "client \<Rightarrow> nat option \<Rightarrow> jobs_state \<Rightarrow> jobs_state" where
  "request_section c h s =
     (let n = cls s c; p = notif_end n in
      if list_ex (\<lambda>x. h = Some x) (open_sessions p) then s else set_client c (n\<lparr>notif_end := p\<lparr>misused := True\<rparr>\<rparr>) s)"

definition register_section :: "client \<Rightarrow> jobs_state \<Rightarrow> job \<times> jobs_state" where
  "register_section c s =
     (let n = cls s c; n = n\<lparr>notif_part := (notif_part n)\<lparr>rx_buffer := [], rx_timer_active := False\<rparr>\<rparr> in
      case manager_add (\<lambda>_. True) None (notif_socket (notif_part n)) (Some c) (mgr s) of
        (Some ex, m) \<Rightarrow> (Free, set_client c (mark_dead n) (s\<lparr>mgr := m\<rparr>))
      | (None, m) \<Rightarrow> (Flagging c, set_client c n (s\<lparr>mgr := m\<rparr>)))"

definition flag_section :: "client \<Rightarrow> jobs_state \<Rightarrow> jobs_state" where
  "flag_section c s = set_client c (set_notif_flags True False (cls s c)) s"

definition remove_section :: "int \<Rightarrow> jobs_state \<Rightarrow> jobs_state" where
  "remove_section fd s = (if fd \<ge> 0 then s\<lparr>mgr := manager_remove fd (mgr s)\<rparr> else s)"

definition mark_section :: "client \<Rightarrow> jobs_state \<Rightarrow> jobs_state" where
  "mark_section c s = set_client c (mark_dead (cls s c)) s"

text \<open>One critical section of a job: what the job is then, and the state it leaves.\<close>

fun job_step :: "job \<Rightarrow> jobs_state \<Rightarrow> job \<times> jobs_state" where
  "job_step Free s = (Free, s)"
| "job_step (Setting_Up c fs) s = set_up_section c fs s"
| "job_step (Requesting c h) s = (Registering c, request_section c h s)"
| "job_step (Registering c) s = register_section c s"
| "job_step (Flagging c) s = (Free, flag_section c s)"
| "job_step (Deleting c) s = (Removing False c (notif_socket (notif_part (cls s c))), s)"
| "job_step (Removing l c fd) s = (Marking l c, remove_section fd s)"
| "job_step (Marking l c) s = (Free, mark_section c s)"

text \<open>The client whose \<open>session_mutex_\<close> a job holds.\<close>

fun holds :: "job \<Rightarrow> client option" where
  "holds (Setting_Up c fs) = Some c"
| "holds (Requesting c h) = Some c"
| "holds (Registering c) = Some c"
| "holds (Flagging c) = Some c"
| "holds (Deleting c) = Some c"
| "holds (Removing l c fd) = (if l then None else Some c)"
| "holds (Marking l c) = (if l then None else Some c)"
| "holds Free = None"

fun of_loop :: "job \<Rightarrow> bool" where
  "of_loop (Removing l c fd) = l"
| "of_loop (Marking l c) = l"
| "of_loop j = False"

datatype job_move =
    Set_Up nat client connect_env      \<comment> \<open>a subscription, with what the system and libssh2 answer\<close>
  | Tear_Down nat client
  | Dead_Event nat int         \<comment> \<open>the loop finds the handler of a socket that was closed\<close>
  | Go_On nat

text \<open>A new socket has a number that no open socket of a client has.\<close>

definition number_free :: "jobs_state \<Rightarrow> jobs_state \<Rightarrow> bool" where
  "number_free s t \<longleftrightarrow>
     list_all (\<lambda>c. let fd = socket_fd (notif_end (cls t c)) in
         fd = socket_fd (notif_end (cls s c)) \<or> fd < 0 \<or> list_all (\<lambda>d. fd \<notin> set (open_fds (notif_end (cls s d)))) [0..<fleet_size s])
       [0..<fleet_size s]"

text \<open>There is one reactor, whose loop does one clean-up at a time.\<close>

fun move_job :: "job_move \<Rightarrow> jobs_state \<Rightarrow> jobs_state option" where
  "move_job (Set_Up i c e) s =
     (if i < length (jobs s) \<and> jobs s ! i = Free \<and> list_all (\<lambda>j. holds j \<noteq> Some c) (jobs s) \<and> c < fleet_size s
      then Some (if notif_is_connected (notif_part (cls s c)) then set_client c (mark_dead (cls s c)) s
        else s\<lparr>jobs := (jobs s)[i := Setting_Up c (connect_notification_stages (config (cls s c)) e)]\<rparr>)
      else None)"
| "move_job (Tear_Down i c) s =
     (if i < length (jobs s) \<and> jobs s ! i = Free \<and> list_all (\<lambda>j. holds j \<noteq> Some c) (jobs s)
      then Some (s\<lparr>jobs := (jobs s)[i := Deleting c]\<rparr>) else None)"
| "move_job (Dead_Event i fd) s =
     (if i < length (jobs s) \<and> jobs s ! i = Free \<and> list_all (\<lambda>j. \<not> of_loop j) (jobs s)
      then case client_of (mgr s) fd of None \<Rightarrow> None | Some c \<Rightarrow> Some (s\<lparr>jobs := (jobs s)[i := Removing True c fd]\<rparr>)
      else None)"
| "move_job (Go_On i) s =
     (if i < length (jobs s) \<and> jobs s ! i \<noteq> Free
      then case job_step (jobs s ! i) s of (j, t) \<Rightarrow> if number_free s t then Some (t\<lparr>jobs := (jobs t)[i := j]\<rparr>) else None
      else None)"

fun job_moves :: "jobs_state \<Rightarrow> job_move list \<Rightarrow> jobs_state option" where
  "job_moves s [] = Some s"
| "job_moves s (x # xs) = (case move_job x s of None \<Rightarrow> None | Some t \<Rightarrow> job_moves t xs)"

definition at_rest :: "jobs_state \<Rightarrow> bool" where
  "at_rest s \<longleftrightarrow> list_all (\<lambda>j. j = Free) (jobs s)"

section \<open>Uninterrupted, the steps are the whole operations\<close>

lemma job_moves_append: "job_moves s (xs @ ys) = (case job_moves s xs of None \<Rightarrow> None | Some t \<Rightarrow> job_moves t ys)"
  by (induction xs arbitrary: s) (auto split: option.splits)

text \<open>Moves that open no socket.\<close>

lemma number_free_kept:
  "(\<And>c. socket_fd (notif_end (cls t c)) = socket_fd (notif_end (cls s c)) \<or> socket_fd (notif_end (cls t c)) < 0) \<Longrightarrow> number_free s t"
  by (auto simp: number_free_def list_all_iff Let_def)

lemma set_client_parts [simp]: "cls (set_client c n s) = (cls s)(c := n)" "jobs (set_client c n s) = jobs s" "mgr (set_client c n s) = mgr s"
  "fleet_size (set_client c n s) = fleet_size s"
  by (simp_all add: set_client_def)

lemma mark_dead_socket [simp]: "socket_fd (notif_end (mark_dead n)) = -1"
  by (simp add: mark_dead_def)

lemma deletion_alone:
  assumes "i < length (jobs s)" "jobs s ! i = Free" "\<forall>j\<in>set (jobs s). holds j \<noteq> Some c"
    and "delete_notification_session (mgr s, cls s c) = (m, n)"
  shows "job_moves s [Tear_Down i c, Go_On i, Go_On i, Go_On i] = Some (set_client c n (s\<lparr>mgr := m\<rparr>))"
proof -
  have free: "number_free u v" if "cls v = (cls u)(c := mark_dead (cls u c)) \<or> cls v = cls u" for u v
    using that by (intro number_free_kept) auto
  have "jobs s = (jobs s)[i := Free]" using assms(1,2) by (metis list_update_id)
  then show ?thesis
    using assms by (auto simp: list_all_iff delete_notification_session_def Let_def remove_section_def mark_section_def free set_client_def
        split: if_splits)
qed

text \<open>A set-up after some of its stages.\<close>

definition set_up_to :: "nat \<Rightarrow> client \<Rightarrow> ssh_state stage list \<Rightarrow> ssh_state \<Rightarrow> jobs_state \<Rightarrow> jobs_state" where
  "set_up_to i c fs st s = set_client c (set_notif_end (fst st) ((cls s c)\<lparr>resolved_host := snd st\<rparr>)) (s\<lparr>jobs := (jobs s)[i := Setting_Up c fs]\<rparr>)"

lemma set_up_to_parts [simp]:
  "cls (set_up_to i c fs st s) = (cls s)(c := set_notif_end (fst st) ((cls s c)\<lparr>resolved_host := snd st\<rparr>))"
  "jobs (set_up_to i c fs st s) = (jobs s)[i := Setting_Up c fs]" "fleet_size (set_up_to i c fs st s) = fleet_size s"
  by (simp_all add: set_up_to_def)

lemma set_notif_end_twice [simp]:
  "set_notif_end p ((set_notif_end q n)\<lparr>resolved_host := h\<rparr>) = set_notif_end p (n\<lparr>resolved_host := h\<rparr>)"
  "resolved_host (set_notif_end p n) = resolved_host n" "config (set_notif_end p n) = config n"
  by (simp_all add: set_notif_end_def)

lemma set_up_to_twice [simp]: "set_up_to i c fs st (set_up_to i c gs su s) = set_up_to i c fs st s"
  by (simp add: set_up_to_def set_client_def)

lemma set_notif_end_same: "mirrored n \<Longrightarrow> set_notif_end (notif_end n) (n\<lparr>resolved_host := resolved_host n\<rparr>) = n"
  by (simp add: set_notif_end_def mirrored_def)

definition keeps_socket :: "ssh_state stage \<Rightarrow> bool" where
  "keeps_socket f \<longleftrightarrow> (\<forall>st. socket_fd (fst (snd (f st))) = socket_fd (fst st))"

lemma one_stage:
  assumes "i < length (jobs s)" "f st = (Go, su)" "keeps_socket f \<or> number_free (set_up_to i c (f # fs) st s) (set_up_to i c fs su s)"
  shows "move_job (Go_On i) (set_up_to i c (f # fs) st s) = Some (set_up_to i c fs su s)"
proof -
  let ?s = "set_up_to i c (f # fs) st s"
  have "job_step (Setting_Up c (f # fs)) ?s = (Setting_Up c fs, set_client c (set_notif_end (fst su) ((cls s c)\<lparr>resolved_host := snd su\<rparr>)) ?s)"
    using assms(2) by (cases su) (simp add: set_up_section_def Let_def)
  moreover have "number_free ?s (set_client c (set_notif_end (fst su) ((cls s c)\<lparr>resolved_host := snd su\<rparr>)) ?s)"
    using assms(3)
  proof
    assume "keeps_socket f"
    then have "socket_fd (fst (snd (f st))) = socket_fd (fst st)" unfolding keeps_socket_def by blast
    then show ?thesis using assms(2) by (intro number_free_kept) simp
  next
    assume "number_free ?s (set_up_to i c fs su s)"
    then show ?thesis by (simp add: number_free_def)
  qed
  ultimately show ?thesis using assms(1) by (simp add: set_up_to_def set_client_def)
qed

lemma kept_stages:
  assumes "i < length (jobs s)" "list_all keeps_socket fs" "stages fs st = (Go, su)"
  shows "job_moves (set_up_to i c (fs @ gs) st s) (replicate (length fs) (Go_On i)) = Some (set_up_to i c gs su s)"
  using assms(2,3)
proof (induction fs arbitrary: st)
  case (Cons f fs)
  then obtain sv where f: "f st = (Go, sv)" "stages fs sv = (Go, su)" by (auto split: prod.splits flow.splits)
  have "move_job (Go_On i) (set_up_to i c (f # fs @ gs) st s) = Some (set_up_to i c (fs @ gs) sv s)"
    by (rule one_stage) (use assms(1) f(1) Cons.prems(1) in simp_all)
  with Cons.IH [OF _ f(2)] Cons.prems(1) show ?case by simp
qed simp

lemma keeps_socket_simps [simp]:
  "keeps_socket (check b ex)" "keeps_socket (wait_for x)" "keeps_socket (on_error mk m err)" "keeps_socket (act (\<lambda>(p, h'). (p, h)))"
  "keeps_socket (on_endpoint init_session)" "keeps_socket (on_endpoint open_channel)" "keeps_socket (hello_non_blocking bad cf e)"
  by (simp_all add: keeps_socket_def check_def wait_for_def on_error_def act_def on_endpoint_def hello_non_blocking_def init_session_def
      open_channel_def reset_session_def reset_channel_def delete_session_def delete_channel_def Let_def split: prod.splits option.splits)

text \<open>The stage that opens the socket is the seventh of twenty-three.\<close>

lemma stages_around_socket:
  "connect_notification_stages cf e =
     take 6 (connect_notification_stages cf e) @ on_endpoint (open_socket (fd_of (ce_socket e))) # drop 7 (connect_notification_stages cf e)"
  "list_all keeps_socket (take 6 (connect_notification_stages cf e))" "list_all keeps_socket (drop 7 (connect_notification_stages cf e))"
  "length (connect_notification_stages cf e) = 23"
  by (simp_all add: connect_notification_stages_def tcp_stages_def ssh_stages_def Let_def)

lemma fds_before_socket:
  "stages (take 6 (connect_notification_stages cf e)) (p, h) = (Go, q, h') \<Longrightarrow> open_fds q = open_fds p"
  by (auto simp: connect_notification_stages_def tcp_stages_def Let_def check_def on_error_def act_def on_endpoint_def init_session_def
      reset_session_def delete_session_def split: if_splits option.splits)

lemma set_up_alone:
  assumes i: "i < length (jobs s)" "jobs s ! i = Free" "list_all (\<lambda>j. holds j \<noteq> Some c) (jobs s)" "c < fleet_size s"
    and n: "mirrored (cls s c)" "connect_notification_non_blocking e (cls s c) = (Go, n')" "missing_part (notif_part n') = None"
    and fd: "0 \<le> fd_of (ce_socket e)" "\<forall>d<fleet_size s. fd_of (ce_socket e) \<notin> set (open_fds (notif_end (cls s d)))"
  shows "job_moves s (Set_Up i c e # replicate 24 (Go_On i)) =
    Some (set_client c n' (s\<lparr>jobs := (jobs s)[i := Requesting c (session_ptr (notif_end n'))]\<rparr>))"
proof -
  let ?n = "cls s c" and ?fd = "fd_of (ce_socket e)" and ?fs = "connect_notification_stages (config (cls s c)) e"
  let ?pre = "take 6 ?fs" and ?post = "drop 7 ?fs" and ?open = "on_endpoint (open_socket (fd_of (ce_socket e)))"
  note around = stages_around_socket [of "config ?n" e]
  obtain p h where run: "stages ?fs (notif_end ?n, resolved_host ?n) = (Go, p, h)" and off: "\<not> notif_is_connected (notif_part ?n)"
    and n': "n' = set_notif_flags False False (set_notif_end p (?n\<lparr>resolved_host := h\<rparr>))"
    using n(2) by (auto simp: connect_notification_non_blocking_def Let_def split: if_splits prod.splits)
  have "stages (?pre @ ?open # ?post) (notif_end ?n, resolved_host ?n) = (Go, p, h)" using run unfolding around(1) [symmetric] .
  then obtain q h1 where pre: "stages ?pre (notif_end ?n, resolved_host ?n) = (Go, q, h1)"
    and post: "stages ?post (open_socket ?fd q, h1) = (Go, p, h)"
    by (auto simp: stages_append on_endpoint_def act_def split: prod.splits flow.splits)
  have start: "set_up_to i c (?pre @ ?open # ?post) (notif_end ?n, resolved_host ?n) s = s\<lparr>jobs := (jobs s)[i := Setting_Up c ?fs]\<rparr>"
    using set_notif_end_same [OF n(1)] unfolding around(1) [symmetric] by (simp add: set_up_to_def set_client_def)
  have "number_free (set_up_to i c (?open # ?post) (q, h1) s) (set_up_to i c ?post (open_socket ?fd q, h1) s)"
    using fd fds_before_socket [OF pre]
    by (simp add: number_free_def list_all_iff Let_def open_socket_def reset_socket_def)
  then have opened: "move_job (Go_On i) (set_up_to i c (?open # ?post) (q, h1) s) = Some (set_up_to i c ?post (open_socket ?fd q, h1) s)"
    using i(1) by (intro one_stage) (simp_all add: on_endpoint_def act_def)
  have "job_moves (s\<lparr>jobs := (jobs s)[i := Setting_Up c ?fs]\<rparr>) (replicate 6 (Go_On i)) = Some (set_up_to i c (?open # ?post) (q, h1) s)"
    using kept_stages [OF i(1) around(2) pre, of c "?open # ?post"] around(4) unfolding start by simp
  moreover have "job_moves (set_up_to i c ?post (open_socket ?fd q, h1) s) (replicate 16 (Go_On i)) = Some (set_up_to i c [] (p, h) s)"
    using kept_stages [OF i(1) around(3) post, of c "[]"] around(4) by simp
  moreover have "move_job (Go_On i) (set_up_to i c [] (p, h) s) =
      Some (set_client c n' (s\<lparr>jobs := (jobs s)[i := Requesting c (session_ptr (notif_end n'))]\<rparr>))"
  proof -
    have "number_free (set_up_to i c [] (p, h) s) (set_client c n' (set_up_to i c [] (p, h) s))"
      by (intro number_free_kept) (simp add: n')
    then show ?thesis
      using i(1) n(3) by (simp add: set_up_section_def Let_def n' [symmetric]) (simp add: set_up_to_def set_client_def n')
  qed
  ultimately have "job_moves (s\<lparr>jobs := (jobs s)[i := Setting_Up c ?fs]\<rparr>)
      (replicate 6 (Go_On i) @ Go_On i # replicate 16 (Go_On i) @ [Go_On i]) =
      Some (set_client c n' (s\<lparr>jobs := (jobs s)[i := Requesting c (session_ptr (notif_end n'))]\<rparr>))"
    by (simp add: job_moves_append opened del: move_job.simps)
  moreover have "replicate 6 (Go_On i) @ Go_On i # replicate 16 (Go_On i) @ [Go_On i] = replicate 24 (Go_On i)"
    by (simp add: eval_nat_numeral)
  moreover have "move_job (Set_Up i c e) s = Some (s\<lparr>jobs := (jobs s)[i := Setting_Up c ?fs]\<rparr>)" using i off by simp
  ultimately show ?thesis by (simp del: move_job.simps)
qed

section \<open>Where the interleavings go wrong\<close>

definition reaches :: "jobs_state \<Rightarrow> bool" where
  "reaches s \<longleftrightarrow> (\<exists>xs. job_moves (jobs_start BASE_CLIENT_KWARGS 3 2) xs = Some s) \<and> at_rest s"

text \<open>A subscription at a device that answers at once: up to its request, and to its end.\<close>

definition setting_up :: "nat \<Rightarrow> client \<Rightarrow> int \<Rightarrow> job_move list" where
  "setting_up i c fd = Set_Up i c (prompt fd) # replicate 24 (Go_On i)"

definition set_up_client :: "int \<Rightarrow> nc \<Rightarrow> nc" where
  "set_up_client fd n = set_notif_flags False False
     (set_notif_end (open_channel (open_socket fd (init_session (notif_end n)))) (n\<lparr>resolved_host := ''127.0.0.1''\<rparr>))"

lemma set_up_prompt:
  assumes "i < length (jobs s)" "jobs s ! i = Free" "list_all (\<lambda>j. holds j \<noteq> Some c) (jobs s)" "c < fleet_size s"
    and "mirrored (cls s c)" "config (cls s c) = BASE_CLIENT_KWARGS" "\<not> notif_is_connected (notif_part (cls s c))"
    and "missing_part (notif_part (set_up_client fd (cls s c))) = None"
    and "0 \<le> fd" "list_all (\<lambda>d. fd \<notin> set (open_fds (notif_end (cls s d)))) [0..<fleet_size s]"
  shows "job_moves s (setting_up i c fd @ xs) =
    job_moves (set_client c (set_up_client fd (cls s c)) (s\<lparr>jobs := (jobs s)[i := Requesting c (session_ptr (notif_end (set_up_client fd (cls s c))))]\<rparr>)) xs"
proof -
  have "connect_notification_non_blocking (prompt fd) (cls s c) = (Go, set_up_client fd (cls s c))"
    using assms(6,7) by (simp add: connect_notification_non_blocking_def prompt_notification caught_def set_up_client_def Let_def)
  from set_up_alone [OF assms(1-5) this assms(8)] assms(9,10) show ?thesis
    using job_moves_append [of s "setting_up i c fd" xs] by (simp add: setting_up_def fd_of_def list_all_iff del: job_moves.simps)
qed

lemmas section_defs = request_section_def register_section_def flag_section_def remove_section_def mark_section_def

lemmas job_eval = section_defs jobs_start_def number_free_def set_up_client_def at_rest_def client_of_def set_notif_flags_def set_notif_end_def
  missing_part_def mirrored_def empty_manager_def manager_add_def register_def reactor_add_def reactor_remove_def manager_remove_def Let_def
  set_client_def mark_dead_def mark_notification_dead_def release_def resource_defs no_endpoint_def new_client_def initial_notif_def eval_nat_numeral

lemma flag_after_clean_up:
  "\<exists>s. reaches s \<and> notif_is_connected (notif_part (cls s 0)) \<and> all_released (notif_end (cls s 0))"
proof -
  have "\<exists>s. job_moves (jobs_start BASE_CLIENT_KWARGS 3 2) (setting_up 0 0 3 @ [Go_On 0, Go_On 0, Dead_Event 1 3, Go_On 1, Go_On 1, Go_On 0]) = Some s \<and>
      at_rest s \<and> notif_is_connected (notif_part (cls s 0)) \<and> all_released (notif_end (cls s 0))"
    by (simp add: set_up_prompt job_eval all_released_def)
  then show ?thesis unfolding reaches_def by blast
qed

lemma removal_of_a_reused_socket:
  "\<exists>s. reaches s \<and> is_subscription_active (\<lambda>_. False) (notif_part (cls s 1)) \<and> complete (notif_end (cls s 1)) \<and> (\<forall>fd. client_of (mgr s) fd = None)"
proof -
  have "\<exists>s. job_moves (jobs_start BASE_CLIENT_KWARGS 3 2) (setting_up 0 0 3 @ [Go_On 0, Go_On 0, Go_On 0, Tear_Down 0 0, Go_On 0,
      Dead_Event 1 3, Go_On 1, Go_On 1] @ setting_up 2 1 3 @ [Go_On 2, Go_On 2, Go_On 2, Go_On 0, Go_On 0]) = Some s \<and> at_rest s \<and>
      is_subscription_active (\<lambda>_. False) (notif_part (cls s 1)) \<and> complete (notif_end (cls s 1)) \<and> (\<forall>fd. client_of (mgr s) fd = None)"
    by (simp add: set_up_prompt job_eval complete_def owned_def is_subscription_active_def)
  then show ?thesis unfolding reaches_def by blast
qed

lemma late_clean_up:
  "\<exists>s. reaches s \<and> all_released (notif_end (cls s 0)) \<and> \<not> notif_is_connected (notif_part (cls s 0)) \<and> client_of (mgr s) 4 = Some 0"
proof -
  have "\<exists>s. job_moves (jobs_start BASE_CLIENT_KWARGS 3 2) (setting_up 0 0 3 @ [Go_On 0, Go_On 0, Go_On 0, Dead_Event 1 3, Tear_Down 0 0,
      Go_On 0, Go_On 0, Go_On 0] @ setting_up 0 0 4 @ [Go_On 0, Go_On 0, Go_On 0, Go_On 1, Go_On 1]) = Some s \<and> at_rest s \<and>
      all_released (notif_end (cls s 0)) \<and> \<not> notif_is_connected (notif_part (cls s 0)) \<and> client_of (mgr s) 4 = Some 0"
    by (simp add: set_up_prompt job_eval all_released_def)
  then show ?thesis unfolding reaches_def by blast
qed

lemma freed_during_request:
  "\<exists>s. reaches s \<and> misused (notif_end (cls s 0))"
proof -
  have "\<exists>s. job_moves (jobs_start BASE_CLIENT_KWARGS 3 2) (setting_up 0 0 3 @ [Go_On 0, Go_On 0, Go_On 0, Dead_Event 1 3, Tear_Down 0 0,
      Go_On 0, Go_On 0, Go_On 0] @ setting_up 0 0 4 @ [Go_On 1, Go_On 1, Go_On 0, Go_On 0]) = Some s \<and> at_rest s \<and> misused (notif_end (cls s 0))"
    by (simp add: set_up_prompt job_eval)
  then show ?thesis unfolding reaches_def by blast
qed


end
