(* ===== verification/Base85.thy ===== *)
theory Base85
  imports Prelude
begin

text \<open>
  \<open>base64.b85decode\<close> of Python's standard library, which \<open>get-pip.py\<close> calls on its \<open>DATA\<close>, with
  \<open>b85encode\<close> as its specification: decoding is the inverse of encoding. A byte is an \<^typ>\<open>int\<close> in
  \<open>0 .. 255\<close>. The rules for single characters and groups at the end evaluate long texts in the kernel.
\<close>

section \<open>Decoding\<close>

definition b85alphabet :: string where
  "b85alphabet =
     ''0123456789ABCDEFGHIJKLMNOPQRSTUVWXYZabcdefghijklmnopqrstuvwxyz!#$%&()'' @ ''*+-;<=>?@^_`{|}~''"

fun index_of :: "string \<Rightarrow> char \<Rightarrow> int option" where
  "index_of [] c = None"
| "index_of (x # xs) c = (if x = c then Some 0 else map_option (\<lambda>i. i + 1) (index_of xs c))"

definition b85_value :: "char \<Rightarrow> int option" where
  "b85_value c = index_of b85alphabet c"

text \<open>The two errors, with the position of the character, or of the group that does not fit 32 bits.\<close>

datatype b85_error = Bad_Character nat | B85_Overflow nat

text \<open>One group of five characters: Horner's rule, stopping at the first character without a value.\<close>

fun b85_acc :: "nat \<Rightarrow> int \<Rightarrow> string \<Rightarrow> nat + int" where
  "b85_acc pos acc [] = Inr acc"
| "b85_acc pos acc (c # cs) =
     (case b85_value c of None \<Rightarrow> Inl pos | Some v \<Rightarrow> b85_acc (pos + 1) (acc * 85 + v) cs)"

text \<open>\<open>struct.pack('!I', acc)\<close> of a number that fits.\<close>

definition pack_I :: "int \<Rightarrow> int list" where
  "pack_I acc = [acc div 16777216, acc div 65536 mod 256, acc div 256 mod 256, acc mod 256]"

fun b85_groups :: "nat \<Rightarrow> string \<Rightarrow> b85_error + int list" where
  "b85_groups i (a # b # c # d # e # cs) =
     (case b85_acc i 0 [a, b, c, d, e] of
        Inl pos \<Rightarrow> Inl (Bad_Character pos)
      | Inr acc \<Rightarrow>
          if acc \<ge> 2 ^ 32 then Inl (B85_Overflow i)
          else (case b85_groups (i + 5) cs of Inl ex \<Rightarrow> Inl ex | Inr out \<Rightarrow> Inr (pack_I acc @ out)))"
| "b85_groups i _ = Inr []"

text \<open>The text is padded to whole groups with the last character of the alphabet, and the result cut.\<close>

definition padding :: "nat \<Rightarrow> nat \<Rightarrow> nat" where
  "padding k n = (k - n mod k) mod k"

definition b85decode :: "string \<Rightarrow> b85_error + int list" where
  "b85decode cs =
     (let pad = padding 5 (length cs) in
      case b85_groups 0 (cs @ replicate pad (CHR ''~'')) of
        Inl ex \<Rightarrow> Inl ex
      | Inr out \<Rightarrow> Inr (take (length out - pad) out))"

section \<open>Encoding\<close>

definition b85_digit :: "int \<Rightarrow> char" where
  "b85_digit v = b85alphabet ! nat v"

definition b85_group :: "int \<Rightarrow> string" where
  "b85_group w = map b85_digit [w div 52200625, w div 614125 mod 85, w div 7225 mod 85, w div 85 mod 85, w mod 85]"

fun b85_words :: "int list \<Rightarrow> string" where
  "b85_words (a # b # c # d # bs) = b85_group (a * 16777216 + b * 65536 + c * 256 + d) @ b85_words bs"
| "b85_words _ = []"

definition b85encode :: "int list \<Rightarrow> string" where
  "b85encode bs =
     (let pad = padding 4 (length bs); out = b85_words (bs @ replicate pad 0) in take (length out - pad) out)"

definition is_byte :: "int \<Rightarrow> bool" where
  "is_byte b \<longleftrightarrow> 0 \<le> b \<and> b < 256"

section \<open>Single characters\<close>

lemma length_alphabet: "length b85alphabet = 85"
  by (simp add: b85alphabet_def)

lemma index_of_bounds: "index_of xs c = Some v \<Longrightarrow> 0 \<le> v \<and> v < int (length xs)"
  by (induction xs arbitrary: v) (auto split: if_splits)

lemma b85_value_bounds: "b85_value c = Some v \<Longrightarrow> 0 \<le> v \<and> v \<le> 84"
  unfolding b85_value_def using index_of_bounds [of b85alphabet c v] by (simp add: length_alphabet)

lemma index_of_nth: "distinct xs \<Longrightarrow> i < length xs \<Longrightarrow> index_of xs (xs ! i) = Some (int i)"
  by (induction xs arbitrary: i) (auto simp: nth_Cons' split: nat.splits)

lemma distinct_alphabet: "distinct b85alphabet"
  by (simp add: b85alphabet_def)

lemma b85_value_digit: "0 \<le> v \<Longrightarrow> v < 85 \<Longrightarrow> b85_value (b85_digit v) = Some v"
  using index_of_nth [OF distinct_alphabet, of "nat v"] by (simp add: b85_value_def b85_digit_def length_alphabet)

section \<open>Whole groups\<close>

lemma div_mult_add: "0 \<le> r \<Longrightarrow> r < k \<Longrightarrow> (a * k + r) div k = (a :: int)"
  by (simp add: div_add1_eq div_pos_pos_trivial)

lemma mod_mult_add: "0 \<le> r \<Longrightarrow> r < k \<Longrightarrow> (a * k + r) mod k = (r :: int)"
  by simp

lemma horner85:
  fixes w :: int
  shows "w div 52200625 * 85 + w div 614125 mod 85 = w div 614125" "w div 614125 * 85 + w div 7225 mod 85 = w div 7225"
    "w div 7225 * 85 + w div 85 mod 85 = w div 85" "w div 85 * 85 + w mod 85 = w"
proof -
  have s: "v div (85 * k) * 85 + v div k mod 85 = v div k" if "0 < k" for v k :: int
    using div_mult_mod_eq [of "v div k" 85] zdiv_zmult2_eq [of 85 v k] by (simp add: mult.commute)
  show "w div 52200625 * 85 + w div 614125 mod 85 = w div 614125" using s [of 614125 w] by simp
  show "w div 614125 * 85 + w div 7225 mod 85 = w div 7225" using s [of 7225 w] by simp
  show "w div 7225 * 85 + w div 85 mod 85 = w div 85" using s [of 85 w] by simp
  show "w div 85 * 85 + w mod 85 = w" by simp
qed

text \<open>The value of a group whose last characters were replaced by the padding character.\<close>

lemma b85_value_tilde: "b85_value (CHR ''~'') = Some 84"
  by (simp add: b85_value_def b85alphabet_def)

lemma acc_Some: "b85_value c = Some v \<Longrightarrow> b85_acc pos acc (c # cs) = b85_acc (pos + 1) (acc * 85 + v) cs"
  by simp

lemma group_digits:
  fixes w :: int
  assumes "0 \<le> w" "w < 2 ^ 32"
  shows "0 \<le> w div 52200625 \<and> w div 52200625 < 85"
proof -
  have "w div 52200625 \<le> 4294967295 div 52200625" by (rule zdiv_mono1) (use assms in simp_all)
  then show ?thesis using assms(1) by (simp add: pos_imp_zdiv_nonneg_iff)
qed

lemma acc_padded:
  assumes "0 \<le> w" "w < 2 ^ 32"
  shows "b85_acc i 0 (b85_group w) = Inr w"
    "b85_acc i 0 (take 4 (b85_group w) @ replicate 1 (CHR ''~'')) = Inr (w div 85 * 85 + 84)"
    "b85_acc i 0 (take 3 (b85_group w) @ replicate 2 (CHR ''~'')) = Inr (w div 7225 * 7225 + 7224)"
    "b85_acc i 0 (take 2 (b85_group w) @ replicate 3 (CHR ''~'')) = Inr (w div 614125 * 614125 + 614124)"
proof -
  note d = group_digits [OF assms]
  have v: "b85_value (b85_digit (w div 52200625)) = Some (w div 52200625)"
    "b85_value (b85_digit (w div 614125 mod 85)) = Some (w div 614125 mod 85)"
    "b85_value (b85_digit (w div 7225 mod 85)) = Some (w div 7225 mod 85)"
    "b85_value (b85_digit (w div 85 mod 85)) = Some (w div 85 mod 85)"
    "b85_value (b85_digit (w mod 85)) = Some (w mod 85)"
    using d by (simp_all add: b85_value_digit)
  have g: "b85_group w = [b85_digit (w div 52200625), b85_digit (w div 614125 mod 85), b85_digit (w div 7225 mod 85),
      b85_digit (w div 85 mod 85), b85_digit (w mod 85)]"
    by (simp add: b85_group_def)
  note steps = acc_Some [OF v(1)] acc_Some [OF v(2)] acc_Some [OF v(3)] acc_Some [OF v(4)] acc_Some [OF v(5)]
    acc_Some [OF b85_value_tilde] b85_acc.simps(1) mult_zero_left add_0 horner85
  show "b85_acc i 0 (b85_group w) = Inr w" by (simp only: g steps)
  have "take 4 (b85_group w) @ replicate 1 (CHR ''~'') =
    [b85_digit (w div 52200625), b85_digit (w div 614125 mod 85), b85_digit (w div 7225 mod 85), b85_digit (w div 85 mod 85), CHR ''~'']"
    by (simp add: g)
  then show "b85_acc i 0 (take 4 (b85_group w) @ replicate 1 (CHR ''~'')) = Inr (w div 85 * 85 + 84)"
    by (simp only: steps)
  have "take 3 (b85_group w) @ replicate 2 (CHR ''~'') =
    [b85_digit (w div 52200625), b85_digit (w div 614125 mod 85), b85_digit (w div 7225 mod 85), CHR ''~'', CHR ''~'']"
    by (simp add: g numeral_2_eq_2)
  then show "b85_acc i 0 (take 3 (b85_group w) @ replicate 2 (CHR ''~'')) = Inr (w div 7225 * 7225 + 7224)"
    by (simp only: steps) simp
  have "take 2 (b85_group w) @ replicate 3 (CHR ''~'') =
    [b85_digit (w div 52200625), b85_digit (w div 614125 mod 85), CHR ''~'', CHR ''~'', CHR ''~'']"
    by (simp add: g numeral_3_eq_3)
  then show "b85_acc i 0 (take 2 (b85_group w) @ replicate 3 (CHR ''~'')) = Inr (w div 614125 * 614125 + 614124)"
    by (simp only: steps) simp
qed

lemmas acc_group = acc_padded(1)

lemma pack_word:
  assumes "is_byte a" "is_byte b" "is_byte c" "is_byte d"
  shows "pack_I (a * 16777216 + b * 65536 + c * 256 + d) = [a, b, c, d] \<and>
    0 \<le> a * 16777216 + b * 65536 + c * 256 + d \<and> a * 16777216 + b * 65536 + c * 256 + d < 2 ^ 32"
proof -
  let ?w = "a * 16777216 + b * 65536 + c * 256 + d"
  have r: "0 \<le> a" "a < 256" "0 \<le> b" "b < 256" "0 \<le> c" "c < 256" "0 \<le> d" "d < 256"
    using assms by (simp_all add: is_byte_def)
  have e1: "?w = a * 16777216 + (b * 65536 + c * 256 + d)" and e2: "?w = (a * 256 + b) * 65536 + (c * 256 + d)"
    and e3: "?w = ((a * 256 + b) * 256 + c) * 256 + d"
    by simp_all
  have "0 \<le> b * 65536 + c * 256 + d" "b * 65536 + c * 256 + d < 16777216" "0 \<le> c * 256 + d" "c * 256 + d < 65536"
    using r by linarith+
  then have "?w div 16777216 = a" "?w div 65536 = a * 256 + b"
    by (metis div_mult_add e1, metis div_mult_add e2)
  moreover have "?w div 256 = (a * 256 + b) * 256 + c" "?w mod 256 = d"
    unfolding e3 by (rule div_mult_add [OF r(7,8)], rule mod_mult_add [OF r(7,8)])
  moreover have "(a * 256 + b) mod 256 = b" by (rule mod_mult_add [OF r(3,4)])
  moreover have "((a * 256 + b) * 256 + c) mod 256 = c" by (rule mod_mult_add [OF r(5,6)])
  ultimately have "pack_I ?w = [a, b, c, d]" by (simp only: pack_I_def)
  moreover have "0 \<le> ?w \<and> ?w < 4294967296" using r by linarith
  ultimately show ?thesis by simp
qed

lemma groups_group:
  assumes "0 \<le> w" "w < 2 ^ 32"
  shows "b85_groups i (b85_group w @ cs) =
    (case b85_groups (i + 5) cs of Inl ex \<Rightarrow> Inl ex | Inr out \<Rightarrow> Inr (pack_I w @ out))"
  using acc_group [OF assms, of i] assms(2) by (simp add: b85_group_def)

lemma length_group [simp]: "length (b85_group w) = 5"
  by (simp add: b85_group_def)

lemma mod4_step: "length (a # b # c # d # bs) mod 4 = 0 \<Longrightarrow> length bs mod 4 = 0"
  by (simp add: mod_Suc split: if_splits)

lemma groups_words:
  "list_all is_byte bs \<Longrightarrow> length bs mod 4 = 0 \<Longrightarrow> b85_groups i (b85_words bs @ cs) =
     (case b85_groups (i + length (b85_words bs)) cs of Inl ex \<Rightarrow> Inl ex | Inr out \<Rightarrow> Inr (bs @ out))"
proof (induction bs arbitrary: i rule: b85_words.induct)
  case (1 a b c d bs)
  then have bytes: "is_byte a" "is_byte b" "is_byte c" "is_byte d" and "list_all is_byte bs" by simp_all
  moreover have "length bs mod 4 = 0" using 1(3) by (rule mod4_step)
  ultimately have IH: "b85_groups (i + 5) (b85_words bs @ cs) =
      (case b85_groups (i + 5 + length (b85_words bs)) cs of Inl ex \<Rightarrow> Inl ex | Inr out \<Rightarrow> Inr (bs @ out))"
    by (intro 1(1))
  note w = pack_word [OF bytes]
  show ?case
    unfolding b85_words.simps append_assoc groups_group [OF conjunct1 [OF conjunct2 [OF w]] conjunct2 [OF conjunct2 [OF w]]] IH
    unfolding conjunct1 [OF w] by (simp add: add.assoc split: sum.splits)
qed (auto split: sum.splits)

lemma length_words: "length bs mod 4 = 0 \<Longrightarrow> length (b85_words bs) = length bs div 4 * 5"
proof (induction bs rule: b85_words.induct)
  case (1 a b c d bs)
  from mod4_step [OF 1(2)] have "length (b85_words bs) = length bs div 4 * 5" by (rule 1(1))
  moreover have "length (a # b # c # d # bs) div 4 = length bs div 4 + 1" by simp
  ultimately show ?case by simp
qed auto

lemma padding_whole: "0 < k \<Longrightarrow> (n + padding k n) mod k = 0"
proof (cases "n mod k = 0")
  case False
  assume "0 < k"
  then have "n + (k - n mod k) = k + n div k * k"
    using div_mult_mod_eq [of n k] mod_less_divisor [of k n] by linarith
  moreover have "padding k n = k - n mod k" using False \<open>0 < k\<close> unfolding padding_def by (intro mod_less) simp
  ultimately show ?thesis by (metis mod_mult_self1 mod_self)
qed (simp add: padding_def)

lemma padding_less: "0 < k \<Longrightarrow> padding k n < k"
  by (simp add: padding_def)

lemma padding_cut: "pad < 5 \<Longrightarrow> pad \<le> 5 * q \<Longrightarrow> padding 5 (5 * q - pad) = pad"
proof -
  assume "pad < 5" "pad \<le> 5 * q"
  then consider "pad = 0" | r where "q = Suc r" "0 < pad" by (cases q) auto
  then show ?thesis
  proof cases
    case 2
    then have "5 * q - pad = (5 - pad) + r * 5" using \<open>pad < 5\<close> by simp
    then have "(5 * q - pad) mod 5 = (5 - pad) mod 5" by (simp only: mod_mult_self1)
    then have "(5 * q - pad) mod 5 = 5 - pad" using 2 by simp
    then show ?thesis using \<open>pad < 5\<close> by (simp add: padding_def)
  qed (simp add: padding_def)
qed

text \<open>The last group of an encoding whose end was cut off and padded again.\<close>

lemma groups_five:
  assumes "length cs = 5" "b85_acc i 0 cs = Inr (a * 16777216 + b * 65536 + c * 256 + d)"
    and "is_byte a" "is_byte b" "is_byte c" "is_byte d"
  shows "b85_groups i cs = Inr [a, b, c, d]"
proof -
  obtain c1 c2 c3 c4 c5 where cs: "cs = [c1, c2, c3, c4, c5]"
    using assms(1) by (auto simp: length_Suc_conv numeral_eq_Suc)
  note w = pack_word [OF assms(3-6)]
  have "\<not> a * 16777216 + b * 65536 + c * 256 + d \<ge> 2 ^ 32" using w by simp
  then show ?thesis using assms(2) conjunct1 [OF w] unfolding cs b85_groups.simps(1) by simp
qed

lemma round_up: "0 < k \<Longrightarrow> w div k * k + (k - 1) = w + (k - 1 - w mod k) \<and> 0 \<le> k - 1 - w mod k \<and> k - 1 - w mod k < (k :: int)"
  using div_mult_mod_eq [of w k] pos_mod_bound [of k w] pos_mod_sign [of k w] by linarith

lemma bytes_of_rest:
  assumes "0 \<le> r" "r < (65536 :: int)"
  shows "r = r div 256 * 256 + r mod 256 \<and> is_byte (r div 256) \<and> is_byte (r mod 256)"
proof -
  have "r div 256 \<le> 65535 div 256" by (rule zdiv_mono1) (use assms in simp_all)
  then show ?thesis using assms by (simp add: is_byte_def pos_imp_zdiv_nonneg_iff)
qed

lemma bytes_of_rest3:
  assumes "0 \<le> r" "r < (16777216 :: int)"
  shows "r = r div 65536 * 65536 + (r mod 65536 div 256) * 256 + r mod 65536 mod 256 \<and> is_byte (r div 65536)"
proof -
  have "r div 65536 \<le> 16777215 div 65536" by (rule zdiv_mono1) (use assms in simp_all)
  moreover have "r = r div 65536 * 65536 + r mod 65536" "r mod 65536 = (r mod 65536 div 256) * 256 + r mod 65536 mod 256"
    by (simp_all only: div_mult_mod_eq)
  ultimately show ?thesis using assms by (simp add: is_byte_def pos_imp_zdiv_nonneg_iff)
qed

lemma groups_cut1:
  assumes bytes: "is_byte a" "is_byte b" "is_byte c" and w: "w = a * 16777216 + b * 65536 + c * 256"
  shows "\<exists>t. b85_groups i (take 4 (b85_group w) @ replicate 1 (CHR ''~'')) = Inr [a, b, c, t]"
proof -
  have z: "is_byte 0" by (simp add: is_byte_def)
  have range: "0 \<le> w" "w < 2 ^ 32" using pack_word [OF bytes z] by (simp_all add: w)
  define t where "t = 85 - 1 - w mod 85"
  have acc: "w div 85 * 85 + 84 = w + t" and t: "is_byte t" using round_up [of 85 w] by (simp_all add: t_def is_byte_def)
  have "b85_acc i 0 (take 4 (b85_group w) @ replicate 1 (CHR ''~'')) = Inr (a * 16777216 + b * 65536 + c * 256 + t)"
    using acc_padded(2) [OF range] acc by (simp only: w)
  from groups_five [OF _ this bytes t] show ?thesis by simp
qed

lemma groups_cut2:
  assumes bytes: "is_byte a" "is_byte b" and w: "w = a * 16777216 + b * 65536"
  shows "\<exists>t u. b85_groups i (take 3 (b85_group w) @ replicate 2 (CHR ''~'')) = Inr [a, b, t, u]"
proof -
  have z: "is_byte 0" by (simp add: is_byte_def)
  have range: "0 \<le> w" "w < 2 ^ 32" using pack_word [OF bytes z z] by (simp_all add: w)
  define r where "r = 7225 - 1 - w mod 7225"
  have acc: "w div 7225 * 7225 + 7224 = w + r" and r: "0 \<le> r" "r < 65536" using round_up [of 7225 w] by (simp_all add: r_def)
  note s = bytes_of_rest [OF r]
  have "w + r = a * 16777216 + b * 65536 + r div 256 * 256 + r mod 256" using s w by linarith
  then have "b85_acc i 0 (take 3 (b85_group w) @ replicate 2 (CHR ''~'')) =
      Inr (a * 16777216 + b * 65536 + r div 256 * 256 + r mod 256)"
    using acc_padded(3) [OF range] acc by (simp only:)
  from groups_five [OF _ this bytes] s show ?thesis by simp
qed

lemma groups_cut3:
  assumes bytes: "is_byte a" and w: "w = a * 16777216"
  shows "\<exists>t u v. b85_groups i (take 2 (b85_group w) @ replicate 3 (CHR ''~'')) = Inr [a, t, u, v]"
proof -
  have z: "is_byte 0" by (simp add: is_byte_def)
  have range: "0 \<le> w" "w < 2 ^ 32" using pack_word [OF bytes z z z] by (simp_all add: w)
  define r where "r = 614125 - 1 - w mod 614125"
  have acc: "w div 614125 * 614125 + 614124 = w + r" and r: "0 \<le> r" "r < 16777216"
    using round_up [of 614125 w] by (simp_all add: r_def)
  note s = bytes_of_rest3 [OF r]
  have m: "0 \<le> r mod 65536" "r mod 65536 < 65536" by simp_all
  note u = bytes_of_rest [OF m]
  have "w + r = a * 16777216 + r div 65536 * 65536 + r mod 65536 div 256 * 256 + r mod 65536 mod 256" using s w by linarith
  then have "b85_acc i 0 (take 2 (b85_group w) @ replicate 3 (CHR ''~'')) =
      Inr (a * 16777216 + r div 65536 * 65536 + r mod 65536 div 256 * 256 + r mod 65536 mod 256)"
    using acc_padded(4) [OF range] acc by (simp only:)
  from groups_five [OF _ this bytes] s u show ?thesis by simp
qed

lemma words_append: "length as mod 4 = 0 \<Longrightarrow> b85_words (as @ bs) = b85_words as @ b85_words bs"
proof (induction as rule: b85_words.induct)
  case (1 a b c d as)
  from mod4_step [OF 1(2)] show ?case using 1(1) by simp
qed auto

lemma groups_cut:
  assumes "list_all is_byte rest" "length rest + pad = 4" "0 < pad" "pad < 4"
  shows "\<exists>tail. b85_groups i (take (5 - pad) (b85_words (rest @ replicate pad 0)) @ replicate pad (CHR ''~'')) = Inr (rest @ tail) \<and>
    length tail = pad"
proof -
  from assms(3,4) consider "pad = 1" | "pad = 2" | "pad = 3" by linarith
  then show ?thesis
  proof cases
    case 1
    then obtain a b c where rest: "rest = [a, b, c]" using assms(2) by (auto simp: length_Suc_conv numeral_eq_Suc)
    obtain t where "b85_groups i (take 4 (b85_group (a * 16777216 + b * 65536 + c * 256)) @ replicate 1 (CHR ''~'')) = Inr [a, b, c, t]"
      using groups_cut1 [OF _ _ _ refl] assms(1) rest by fastforce
    then show ?thesis using 1 rest by (intro exI [of _ "[t]"]) simp
  next
    case 2
    then obtain a b where rest: "rest = [a, b]" using assms(2) by (auto simp: length_Suc_conv numeral_eq_Suc)
    obtain t u where "b85_groups i (take 3 (b85_group (a * 16777216 + b * 65536)) @ replicate 2 (CHR ''~'')) = Inr [a, b, t, u]"
      using groups_cut2 [OF _ _ refl] assms(1) rest by fastforce
    then show ?thesis using 2 rest by (intro exI [of _ "[t, u]"]) (simp add: numeral_2_eq_2)
  next
    case 3
    then obtain a where rest: "rest = [a]" using assms(2) by (auto simp: length_Suc_conv numeral_eq_Suc)
    obtain t u v where "b85_groups i (take 2 (b85_group (a * 16777216)) @ replicate 3 (CHR ''~'')) = Inr [a, t, u, v]"
      using groups_cut3 [OF _ refl] assms(1) rest by fastforce
    then show ?thesis using 3 rest by (intro exI [of _ "[t, u, v]"]) (simp add: numeral_eq_Suc)
  qed
qed

lemma decode_padded:
  assumes bytes: "list_all is_byte bs" and pad: "pad < 4" "(length bs + pad) mod 4 = 0"
  shows "\<exists>tail. b85_groups 0 (take (length (b85_words (bs @ replicate pad 0)) - pad) (b85_words (bs @ replicate pad 0)) @
      replicate pad (CHR ''~'')) = Inr (bs @ tail) \<and> length tail = pad"
proof (cases "pad = 0")
  case True
  with pad(2) groups_words [OF bytes, of 0 "[]"] show ?thesis by simp
next
  case False
  define q where "q = length bs div 4 * 4"
  have q: "length (take q bs) = q" "q mod 4 = 0" by (simp_all add: q_def)
  have m: "length (drop q bs) + pad = 4"
  proof -
    have "length (drop q bs) = length bs mod 4" by (simp add: q_def minus_div_mult_eq_mod)
    moreover have "(length bs mod 4 + pad) mod 4 = 0" using pad(2) by (simp add: mod_add_left_eq)
    moreover have "length bs mod 4 < 4" by simp
    ultimately show ?thesis using False pad(1) by (auto elim!: mod_eqE simp: mod_eq_0_iff_dvd dvd_def)
  qed
  have front: "list_all is_byte (take q bs)" "list_all is_byte (drop q bs)"
    using bytes by (metis append_take_drop_id list_all_append)+
  have split: "b85_words (bs @ replicate pad 0) = b85_words (take q bs) @ b85_words (drop q bs @ replicate pad 0)"
    using words_append [of "take q bs" "drop q bs @ replicate pad 0"] q by (metis append_assoc append_take_drop_id)
  have last: "length (b85_words (drop q bs @ replicate pad 0)) = 5" using m by (simp add: length_words)
  obtain tail where tail: "b85_groups (0 + length (b85_words (take q bs))) (take (5 - pad) (b85_words (drop q bs @ replicate pad 0)) @
      replicate pad (CHR ''~'')) = Inr (drop q bs @ tail)" "length tail = pad"
    using groups_cut [OF front(2) m] False pad(1) by blast
  have "b85_groups 0 (b85_words (take q bs) @ take (5 - pad) (b85_words (drop q bs @ replicate pad 0)) @ replicate pad (CHR ''~'')) =
      Inr (bs @ tail)"
    using groups_words [OF front(1), of 0] q tail(1) by simp
  then show ?thesis using tail(2) last pad(1) by (intro exI [of _ tail]) (simp add: split)
qed



section \<open>Long texts\<close>

text \<open>A group decodes when its characters are in the alphabet and its number fits.\<close>

definition b85_digit_of :: "char \<Rightarrow> int" where
  "b85_digit_of c = (case b85_value c of None \<Rightarrow> 0 | Some v \<Rightarrow> v)"

definition in_alphabet :: "char \<Rightarrow> bool" where
  "in_alphabet c \<longleftrightarrow> b85_value c \<noteq> None"

text \<open>A group that starts with a digit of at most 81 fits whatever follows.\<close>

definition low_digit :: "char \<Rightarrow> bool" where
  "low_digit c \<longleftrightarrow> in_alphabet c \<and> b85_digit_of c \<le> 81"

definition number :: "char \<Rightarrow> char \<Rightarrow> char \<Rightarrow> char \<Rightarrow> char \<Rightarrow> int" where
  "number a b c d e =
     (((b85_digit_of a * 85 + b85_digit_of b) * 85 + b85_digit_of c) * 85 + b85_digit_of d) * 85 + b85_digit_of e"

definition fits :: "char \<Rightarrow> char \<Rightarrow> char \<Rightarrow> char \<Rightarrow> char \<Rightarrow> bool" where
  "fits a b c d e \<longleftrightarrow> number a b c d e < 4294967296"

fun good_groups :: "string \<Rightarrow> bool" where
  "good_groups (a # b # c # d # e # cs) \<longleftrightarrow>
     in_alphabet a \<and> in_alphabet b \<and> in_alphabet c \<and> in_alphabet d \<and> in_alphabet e \<and> fits a b c d e \<and> good_groups cs"
| "good_groups [] \<longleftrightarrow> True"
| "good_groups _ \<longleftrightarrow> False"

lemma digit_of_bounds: "0 \<le> b85_digit_of c \<and> b85_digit_of c \<le> 84"
  using b85_value_bounds [of c] by (cases "b85_value c") (auto simp: b85_digit_of_def)

lemma low_fits: "low_digit a \<Longrightarrow> fits a b c d e"
  using digit_of_bounds [of b] digit_of_bounds [of c] digit_of_bounds [of d] digit_of_bounds [of e]
  by (simp add: low_digit_def fits_def number_def)

lemma high_fits: "\<not> low_digit a \<Longrightarrow> fits a b c d e \<longleftrightarrow> number a b c d e < 4294967296"
  by (simp add: fits_def)

lemma in_alphabet_value: "in_alphabet c \<Longrightarrow> b85_value c = Some (b85_digit_of c)"
  by (auto simp: in_alphabet_def b85_digit_of_def)

lemma groups_good:
  "in_alphabet a \<Longrightarrow> in_alphabet b \<Longrightarrow> in_alphabet c \<Longrightarrow> in_alphabet d \<Longrightarrow> in_alphabet e \<Longrightarrow> fits a b c d e \<Longrightarrow>
   b85_groups i (a # b # c # d # e # cs) =
     (case b85_groups (i + 5) cs of Inl ex \<Rightarrow> Inl ex | Inr out \<Rightarrow> Inr (pack_I (number a b c d e) @ out))"
proof -
  assume g: "in_alphabet a" "in_alphabet b" "in_alphabet c" "in_alphabet d" "in_alphabet e" "fits a b c d e"
  have "b85_acc i 0 [a, b, c, d, e] = Inr (number a b c d e)"
    by (simp only: acc_Some [OF in_alphabet_value [OF g(1)]] acc_Some [OF in_alphabet_value [OF g(2)]]
        acc_Some [OF in_alphabet_value [OF g(3)]] acc_Some [OF in_alphabet_value [OF g(4)]]
        acc_Some [OF in_alphabet_value [OF g(5)]] b85_acc.simps(1) mult_zero_left add_0 number_def)
  moreover have "\<not> number a b c d e \<ge> 2 ^ 32" using g(6) by (simp add: fits_def)
  ultimately show ?thesis by (simp only: b85_groups.simps(1) sum.case if_False)
qed

text \<open>The bytes of a text of good groups.\<close>

fun b85_bytes :: "string \<Rightarrow> int list" where
  "b85_bytes (a # b # c # d # e # cs) = pack_I (number a b c d e) @ b85_bytes cs"
| "b85_bytes _ = []"

lemma good_groups_decode: "good_groups cs \<Longrightarrow> b85_groups i cs = Inr (b85_bytes cs)"
proof (induction cs arbitrary: i rule: good_groups.induct)
  case (1 a b c d e cs)
  then have g: "in_alphabet a" "in_alphabet b" "in_alphabet c" "in_alphabet d" "in_alphabet e" "fits a b c d e"
    and IH: "b85_groups (i + 5) cs = Inr (b85_bytes cs)" by simp_all
  show ?case unfolding groups_good [OF g] IH by simp
qed auto

lemma good_groups_length: "good_groups cs \<Longrightarrow> length cs mod 5 = 0 \<and> length (b85_bytes cs) = length cs div 5 * 4"
proof (induction cs rule: good_groups.induct)
  case (1 a b c d e cs)
  then have "length cs mod 5 = 0" "length (b85_bytes cs) = length cs div 5 * 4" by simp_all
  moreover have "length (a # b # c # d # e # cs) = length cs + 5" by simp
  ultimately show ?case by (simp only: b85_bytes.simps(1) length_append div_add_self2 mod_add_self2) (simp add: pack_I_def)
qed auto

lemma good_groups_append: "good_groups as \<Longrightarrow> good_groups bs \<Longrightarrow> good_groups (as @ bs)"
  by (induction as rule: good_groups.induct) auto

lemma b85_bytes_append: "good_groups as \<Longrightarrow> b85_bytes (as @ bs) = b85_bytes as @ b85_bytes bs"
  by (induction as rule: good_groups.induct) auto

lemma good_groups_b85decode: "good_groups cs \<Longrightarrow> b85decode cs = Inr (b85_bytes cs)"
  using good_groups_length [of cs] by (simp add: b85decode_def padding_def good_groups_decode)

section \<open>Tables for evaluation\<close>

lemma b85_values:
  "b85_value (CHR ''0'') = Some 0" "b85_value (CHR ''1'') = Some 1" "b85_value (CHR ''2'') = Some 2"
  "b85_value (CHR ''3'') = Some 3" "b85_value (CHR ''4'') = Some 4" "b85_value (CHR ''5'') = Some 5"
  "b85_value (CHR ''6'') = Some 6" "b85_value (CHR ''7'') = Some 7" "b85_value (CHR ''8'') = Some 8"
  "b85_value (CHR ''9'') = Some 9" "b85_value (CHR ''A'') = Some 10" "b85_value (CHR ''B'') = Some 11"
  "b85_value (CHR ''C'') = Some 12" "b85_value (CHR ''D'') = Some 13" "b85_value (CHR ''E'') = Some 14"
  "b85_value (CHR ''F'') = Some 15" "b85_value (CHR ''G'') = Some 16" "b85_value (CHR ''H'') = Some 17"
  "b85_value (CHR ''I'') = Some 18" "b85_value (CHR ''J'') = Some 19" "b85_value (CHR ''K'') = Some 20"
  "b85_value (CHR ''L'') = Some 21" "b85_value (CHR ''M'') = Some 22" "b85_value (CHR ''N'') = Some 23"
  "b85_value (CHR ''O'') = Some 24" "b85_value (CHR ''P'') = Some 25" "b85_value (CHR ''Q'') = Some 26"
  "b85_value (CHR ''R'') = Some 27" "b85_value (CHR ''S'') = Some 28" "b85_value (CHR ''T'') = Some 29"
  "b85_value (CHR ''U'') = Some 30" "b85_value (CHR ''V'') = Some 31" "b85_value (CHR ''W'') = Some 32"
  "b85_value (CHR ''X'') = Some 33" "b85_value (CHR ''Y'') = Some 34" "b85_value (CHR ''Z'') = Some 35"
  "b85_value (CHR ''a'') = Some 36" "b85_value (CHR ''b'') = Some 37" "b85_value (CHR ''c'') = Some 38"
  "b85_value (CHR ''d'') = Some 39" "b85_value (CHR ''e'') = Some 40" "b85_value (CHR ''f'') = Some 41"
  "b85_value (CHR ''g'') = Some 42" "b85_value (CHR ''h'') = Some 43" "b85_value (CHR ''i'') = Some 44"
  "b85_value (CHR ''j'') = Some 45" "b85_value (CHR ''k'') = Some 46" "b85_value (CHR ''l'') = Some 47"
  "b85_value (CHR ''m'') = Some 48" "b85_value (CHR ''n'') = Some 49" "b85_value (CHR ''o'') = Some 50"
  "b85_value (CHR ''p'') = Some 51" "b85_value (CHR ''q'') = Some 52" "b85_value (CHR ''r'') = Some 53"
  "b85_value (CHR ''s'') = Some 54" "b85_value (CHR ''t'') = Some 55" "b85_value (CHR ''u'') = Some 56"
  "b85_value (CHR ''v'') = Some 57" "b85_value (CHR ''w'') = Some 58" "b85_value (CHR ''x'') = Some 59"
  "b85_value (CHR ''y'') = Some 60" "b85_value (CHR ''z'') = Some 61" "b85_value (CHR ''!'') = Some 62"
  "b85_value (CHR ''#'') = Some 63" "b85_value (CHR ''$'') = Some 64" "b85_value (CHR ''%'') = Some 65"
  "b85_value (CHR ''&'') = Some 66" "b85_value (CHR ''('') = Some 67" "b85_value (CHR '')'') = Some 68"
  "b85_value (CHR ''*'') = Some 69" "b85_value (CHR ''+'') = Some 70" "b85_value (CHR ''-'') = Some 71"
  "b85_value (CHR '';'') = Some 72" "b85_value (CHR ''<'') = Some 73" "b85_value (CHR ''='') = Some 74"
  "b85_value (CHR ''>'') = Some 75" "b85_value (CHR ''?'') = Some 76" "b85_value (CHR ''@'') = Some 77"
  "b85_value (CHR ''^'') = Some 78" "b85_value (CHR ''_'') = Some 79" "b85_value (CHR ''`'') = Some 80"
  "b85_value (CHR ''{'') = Some 81" "b85_value (CHR ''|'') = Some 82" "b85_value (CHR ''}'') = Some 83"
  "b85_value (CHR ''~'') = Some 84"
  by (simp_all add: b85_value_def b85alphabet_def)

lemma digit_of_table:
  "b85_digit_of (CHR ''0'') = 0" "b85_digit_of (CHR ''1'') = 1" "b85_digit_of (CHR ''2'') = 2" "b85_digit_of (CHR ''3'') = 3"
  "b85_digit_of (CHR ''4'') = 4" "b85_digit_of (CHR ''5'') = 5" "b85_digit_of (CHR ''6'') = 6" "b85_digit_of (CHR ''7'') = 7"
  "b85_digit_of (CHR ''8'') = 8" "b85_digit_of (CHR ''9'') = 9" "b85_digit_of (CHR ''A'') = 10" "b85_digit_of (CHR ''B'') = 11"
  "b85_digit_of (CHR ''C'') = 12" "b85_digit_of (CHR ''D'') = 13" "b85_digit_of (CHR ''E'') = 14" "b85_digit_of (CHR ''F'') = 15"
  "b85_digit_of (CHR ''G'') = 16" "b85_digit_of (CHR ''H'') = 17" "b85_digit_of (CHR ''I'') = 18" "b85_digit_of (CHR ''J'') = 19"
  "b85_digit_of (CHR ''K'') = 20" "b85_digit_of (CHR ''L'') = 21" "b85_digit_of (CHR ''M'') = 22" "b85_digit_of (CHR ''N'') = 23"
  "b85_digit_of (CHR ''O'') = 24" "b85_digit_of (CHR ''P'') = 25" "b85_digit_of (CHR ''Q'') = 26" "b85_digit_of (CHR ''R'') = 27"
  "b85_digit_of (CHR ''S'') = 28" "b85_digit_of (CHR ''T'') = 29" "b85_digit_of (CHR ''U'') = 30" "b85_digit_of (CHR ''V'') = 31"
  "b85_digit_of (CHR ''W'') = 32" "b85_digit_of (CHR ''X'') = 33" "b85_digit_of (CHR ''Y'') = 34" "b85_digit_of (CHR ''Z'') = 35"
  "b85_digit_of (CHR ''a'') = 36" "b85_digit_of (CHR ''b'') = 37" "b85_digit_of (CHR ''c'') = 38" "b85_digit_of (CHR ''d'') = 39"
  "b85_digit_of (CHR ''e'') = 40" "b85_digit_of (CHR ''f'') = 41" "b85_digit_of (CHR ''g'') = 42" "b85_digit_of (CHR ''h'') = 43"
  "b85_digit_of (CHR ''i'') = 44" "b85_digit_of (CHR ''j'') = 45" "b85_digit_of (CHR ''k'') = 46" "b85_digit_of (CHR ''l'') = 47"
  "b85_digit_of (CHR ''m'') = 48" "b85_digit_of (CHR ''n'') = 49" "b85_digit_of (CHR ''o'') = 50" "b85_digit_of (CHR ''p'') = 51"
  "b85_digit_of (CHR ''q'') = 52" "b85_digit_of (CHR ''r'') = 53" "b85_digit_of (CHR ''s'') = 54" "b85_digit_of (CHR ''t'') = 55"
  "b85_digit_of (CHR ''u'') = 56" "b85_digit_of (CHR ''v'') = 57" "b85_digit_of (CHR ''w'') = 58" "b85_digit_of (CHR ''x'') = 59"
  "b85_digit_of (CHR ''y'') = 60" "b85_digit_of (CHR ''z'') = 61" "b85_digit_of (CHR ''!'') = 62" "b85_digit_of (CHR ''#'') = 63"
  "b85_digit_of (CHR ''$'') = 64" "b85_digit_of (CHR ''%'') = 65" "b85_digit_of (CHR ''&'') = 66" "b85_digit_of (CHR ''('') = 67"
  "b85_digit_of (CHR '')'') = 68" "b85_digit_of (CHR ''*'') = 69" "b85_digit_of (CHR ''+'') = 70" "b85_digit_of (CHR ''-'') = 71"
  "b85_digit_of (CHR '';'') = 72" "b85_digit_of (CHR ''<'') = 73" "b85_digit_of (CHR ''='') = 74" "b85_digit_of (CHR ''>'') = 75"
  "b85_digit_of (CHR ''?'') = 76" "b85_digit_of (CHR ''@'') = 77" "b85_digit_of (CHR ''^'') = 78" "b85_digit_of (CHR ''_'') = 79"
  "b85_digit_of (CHR ''`'') = 80" "b85_digit_of (CHR ''{'') = 81" "b85_digit_of (CHR ''|'') = 82" "b85_digit_of (CHR ''}'') = 83"
  "b85_digit_of (CHR ''~'') = 84"
  by (simp_all add: b85_digit_of_def b85_values)

lemma in_alphabet_table:
  "in_alphabet (CHR ''0'')" "in_alphabet (CHR ''1'')" "in_alphabet (CHR ''2'')" "in_alphabet (CHR ''3'')" "in_alphabet (CHR ''4'')"
  "in_alphabet (CHR ''5'')" "in_alphabet (CHR ''6'')" "in_alphabet (CHR ''7'')" "in_alphabet (CHR ''8'')" "in_alphabet (CHR ''9'')"
  "in_alphabet (CHR ''A'')" "in_alphabet (CHR ''B'')" "in_alphabet (CHR ''C'')" "in_alphabet (CHR ''D'')" "in_alphabet (CHR ''E'')"
  "in_alphabet (CHR ''F'')" "in_alphabet (CHR ''G'')" "in_alphabet (CHR ''H'')" "in_alphabet (CHR ''I'')" "in_alphabet (CHR ''J'')"
  "in_alphabet (CHR ''K'')" "in_alphabet (CHR ''L'')" "in_alphabet (CHR ''M'')" "in_alphabet (CHR ''N'')" "in_alphabet (CHR ''O'')"
  "in_alphabet (CHR ''P'')" "in_alphabet (CHR ''Q'')" "in_alphabet (CHR ''R'')" "in_alphabet (CHR ''S'')" "in_alphabet (CHR ''T'')"
  "in_alphabet (CHR ''U'')" "in_alphabet (CHR ''V'')" "in_alphabet (CHR ''W'')" "in_alphabet (CHR ''X'')" "in_alphabet (CHR ''Y'')"
  "in_alphabet (CHR ''Z'')" "in_alphabet (CHR ''a'')" "in_alphabet (CHR ''b'')" "in_alphabet (CHR ''c'')" "in_alphabet (CHR ''d'')"
  "in_alphabet (CHR ''e'')" "in_alphabet (CHR ''f'')" "in_alphabet (CHR ''g'')" "in_alphabet (CHR ''h'')" "in_alphabet (CHR ''i'')"
  "in_alphabet (CHR ''j'')" "in_alphabet (CHR ''k'')" "in_alphabet (CHR ''l'')" "in_alphabet (CHR ''m'')" "in_alphabet (CHR ''n'')"
  "in_alphabet (CHR ''o'')" "in_alphabet (CHR ''p'')" "in_alphabet (CHR ''q'')" "in_alphabet (CHR ''r'')" "in_alphabet (CHR ''s'')"
  "in_alphabet (CHR ''t'')" "in_alphabet (CHR ''u'')" "in_alphabet (CHR ''v'')" "in_alphabet (CHR ''w'')" "in_alphabet (CHR ''x'')"
  "in_alphabet (CHR ''y'')" "in_alphabet (CHR ''z'')" "in_alphabet (CHR ''!'')" "in_alphabet (CHR ''#'')" "in_alphabet (CHR ''$'')"
  "in_alphabet (CHR ''%'')" "in_alphabet (CHR ''&'')" "in_alphabet (CHR ''('')" "in_alphabet (CHR '')'')" "in_alphabet (CHR ''*'')"
  "in_alphabet (CHR ''+'')" "in_alphabet (CHR ''-'')" "in_alphabet (CHR '';'')" "in_alphabet (CHR ''<'')" "in_alphabet (CHR ''='')"
  "in_alphabet (CHR ''>'')" "in_alphabet (CHR ''?'')" "in_alphabet (CHR ''@'')" "in_alphabet (CHR ''^'')" "in_alphabet (CHR ''_'')"
  "in_alphabet (CHR ''`'')" "in_alphabet (CHR ''{'')" "in_alphabet (CHR ''|'')" "in_alphabet (CHR ''}'')" "in_alphabet (CHR ''~'')"
  by (simp_all add: in_alphabet_def b85_values)

lemma low_digit_table:
  "low_digit (CHR ''0'')" "low_digit (CHR ''1'')" "low_digit (CHR ''2'')" "low_digit (CHR ''3'')" "low_digit (CHR ''4'')"
  "low_digit (CHR ''5'')" "low_digit (CHR ''6'')" "low_digit (CHR ''7'')" "low_digit (CHR ''8'')" "low_digit (CHR ''9'')"
  "low_digit (CHR ''A'')" "low_digit (CHR ''B'')" "low_digit (CHR ''C'')" "low_digit (CHR ''D'')" "low_digit (CHR ''E'')"
  "low_digit (CHR ''F'')" "low_digit (CHR ''G'')" "low_digit (CHR ''H'')" "low_digit (CHR ''I'')" "low_digit (CHR ''J'')"
  "low_digit (CHR ''K'')" "low_digit (CHR ''L'')" "low_digit (CHR ''M'')" "low_digit (CHR ''N'')" "low_digit (CHR ''O'')"
  "low_digit (CHR ''P'')" "low_digit (CHR ''Q'')" "low_digit (CHR ''R'')" "low_digit (CHR ''S'')" "low_digit (CHR ''T'')"
  "low_digit (CHR ''U'')" "low_digit (CHR ''V'')" "low_digit (CHR ''W'')" "low_digit (CHR ''X'')" "low_digit (CHR ''Y'')"
  "low_digit (CHR ''Z'')" "low_digit (CHR ''a'')" "low_digit (CHR ''b'')" "low_digit (CHR ''c'')" "low_digit (CHR ''d'')"
  "low_digit (CHR ''e'')" "low_digit (CHR ''f'')" "low_digit (CHR ''g'')" "low_digit (CHR ''h'')" "low_digit (CHR ''i'')"
  "low_digit (CHR ''j'')" "low_digit (CHR ''k'')" "low_digit (CHR ''l'')" "low_digit (CHR ''m'')" "low_digit (CHR ''n'')"
  "low_digit (CHR ''o'')" "low_digit (CHR ''p'')" "low_digit (CHR ''q'')" "low_digit (CHR ''r'')" "low_digit (CHR ''s'')"
  "low_digit (CHR ''t'')" "low_digit (CHR ''u'')" "low_digit (CHR ''v'')" "low_digit (CHR ''w'')" "low_digit (CHR ''x'')"
  "low_digit (CHR ''y'')" "low_digit (CHR ''z'')" "low_digit (CHR ''!'')" "low_digit (CHR ''#'')" "low_digit (CHR ''$'')"
  "low_digit (CHR ''%'')" "low_digit (CHR ''&'')" "low_digit (CHR ''('')" "low_digit (CHR '')'')" "low_digit (CHR ''*'')"
  "low_digit (CHR ''+'')" "low_digit (CHR ''-'')" "low_digit (CHR '';'')" "low_digit (CHR ''<'')" "low_digit (CHR ''='')"
  "low_digit (CHR ''>'')" "low_digit (CHR ''?'')" "low_digit (CHR ''@'')" "low_digit (CHR ''^'')" "low_digit (CHR ''_'')"
  "low_digit (CHR ''`'')" "low_digit (CHR ''{'')" "\<not> low_digit (CHR ''|'')" "\<not> low_digit (CHR ''}'')" "\<not> low_digit (CHR ''~'')"
  by (simp_all add: low_digit_def digit_of_table in_alphabet_table)

text \<open>Five lines of 79 characters are whole groups; \<open>good_lines\<close> looks at a text five lines at a time, so
  that the terms its evaluation rewrites stay small.\<close>

fun good_lines :: "string list \<Rightarrow> bool" where
  "good_lines (k # l # m # n # p # ls) \<longleftrightarrow> good_groups (k @ l @ m @ n @ p) \<and> good_lines ls"
| "good_lines [] \<longleftrightarrow> True"
| "good_lines _ \<longleftrightarrow> False"

lemma good_lines_groups: "good_lines ls \<Longrightarrow> good_groups (concat ls)"
proof (induction ls rule: good_lines.induct)
  case (1 k l m n p ls)
  then have "good_groups (k @ l @ m @ n @ p)" "good_groups (concat ls)" by simp_all
  from good_groups_append [OF this] show ?case by simp
qed auto

lemmas good_lines_eval = append.simps good_groups.simps good_lines.simps in_alphabet_table low_digit_table
  low_fits high_fits simp_thms number_def digit_of_table

lemma size_of_lines: "map length ls = replicate n k \<Longrightarrow> length (concat ls) = n * k"
  by (simp add: length_concat sum_list_replicate)

end
