(* ===== verification/Get_Pip.thy ===== *)
theory Get_Pip
  imports Health_Events Base85 "HOL-Library.Sublist"
begin

text \<open>
  The bootstrap script \<open>get-pip.py\<close>: the check of Python's version, the arguments it hands to pip, the
  certificate it patches in, and \<open>main\<close> with its temporary directory. The process's environment, its
  modules and pip itself are arguments. \<open>argparse\<close> is modelled as far as a parser with \<open>-h\<close> and two
  flags uses it (Python 3.8 to 3.11).
\<close>

section \<open>Python's version\<close>

type_synonym py_version = "nat \<times> nat"

definition version_less :: "py_version \<Rightarrow> py_version \<Rightarrow> bool" where
  "version_less v w \<longleftrightarrow> fst v < fst w \<or> fst v = fst w \<and> snd v < snd w"

definition min_version :: py_version where
  "min_version = (3, 8)"

text \<open>\<open>"...{}.{}...".format(*version)\<close>.\<close>

definition format2 :: "string \<Rightarrow> string \<Rightarrow> py_version \<Rightarrow> string" where
  "format2 before after v = before @ show_nat (fst v) @ ''.'' @ show_nat (snd v) @ after"

definition message_parts :: "py_version \<Rightarrow> string list" where
  "message_parts this_python =
     [format2 ''This script does not work on Python '' ''.'' this_python,
      format2 ''The minimum supported Python version is '' ''.'' min_version,
      format2 ''Please use https://bootstrap.pypa.io/pip/'' ''/get-pip.py instead.'' this_python]"

fun join_with :: "string \<Rightarrow> string list \<Rightarrow> string" where
  "join_with sep [] = []"
| "join_with sep [x] = x"
| "join_with sep (x # xs) = x @ sep @ join_with sep xs"

text \<open>What the module's head prints, with the exit status, when it does not go on.\<close>

definition version_gate :: "py_version \<Rightarrow> (string \<times> int) option" where
  "version_gate this_python =
     (if version_less this_python min_version then Some (''ERROR: '' @ join_with '' '' (message_parts this_python), 1) else None)"

section \<open>Arguments\<close>

record namespace =
  no_setuptools :: bool
  no_wheel :: bool

text \<open>What argparse makes of one argument: one of the options (also by a unique prefix), the help, an option
  with a value it does not take, a prefix of several options, or anything else.\<close>

datatype arg_kind = No_Setuptools | No_Wheel | Help | With_Value | Ambiguous | Other

definition long_options :: "string list" where
  "long_options = [''--help'', ''--no-setuptools'', ''--no-wheel'']"

definition option_kind :: "string \<Rightarrow> arg_kind" where
  "option_kind opt =
     (if opt = ''--no-setuptools'' then No_Setuptools else if opt = ''--no-wheel'' then No_Wheel else Help)"

text \<open>\<open>-h\<close> with a value: a cluster of further \<open>-h\<close>, or an error.\<close>

definition short_help :: "string \<Rightarrow> arg_kind" where
  "short_help val = (if val \<noteq> [] \<and> list_all (\<lambda>c. c = CHR ''h'') val then Help else With_Value)"

definition split_eq :: "string \<Rightarrow> string \<times> string option" where
  "split_eq a =
     (let opt = takeWhile (\<lambda>c. c \<noteq> CHR ''='') a
      in (opt, if CHR ''='' \<in> set a then Some (drop (length opt + 1) a) else None))"

definition classify :: "string \<Rightarrow> arg_kind" where
  "classify a =
     (if a = [] \<or> hd a \<noteq> CHR ''-'' then Other
      else if a = ''-h'' \<or> a \<in> set long_options then option_kind a
      else if length a = 1 then Other
      else case split_eq a of (opt, val) \<Rightarrow>
        if val \<noteq> None \<and> opt = ''-h'' then short_help (the val)
        else if val \<noteq> None \<and> opt \<in> set long_options then With_Value
        else if a ! 1 = CHR ''-'' then
          (case filter (prefix opt) long_options of
             [] \<Rightarrow> Other
           | [full] \<Rightarrow> if val \<noteq> None then With_Value else option_kind full
           | _ \<Rightarrow> Ambiguous)
        else if a ! 1 = CHR ''h'' then short_help (drop 2 a)
        else Other)"

text \<open>The result of the parser: the process ends (with \<open>--help\<close>, status 0, or an error, status 2), or the
  options and the arguments that are not its own.\<close>

datatype parsed = Ends int | Parsed namespace "string list"

fun consume :: "string list \<Rightarrow> namespace \<Rightarrow> string list \<Rightarrow> parsed" where
  "consume [] ns extras = Parsed ns extras"
| "consume (a # as) ns extras =
     (if a = ''--'' then Parsed ns (extras @ a # as)
      else case classify a of
          No_Setuptools \<Rightarrow> consume as (ns\<lparr>no_setuptools := True\<rparr>) extras
        | No_Wheel \<Rightarrow> consume as (ns\<lparr>no_wheel := True\<rparr>) extras
        | Help \<Rightarrow> Ends 0
        | With_Value \<Rightarrow> Ends 2
        | Ambiguous \<Rightarrow> Ends 2
        | Other \<Rightarrow> consume as ns (extras @ [a]))"

definition parse_known_args :: "string list \<Rightarrow> parsed" where
  "parse_known_args argv =
     (if \<exists>a\<in>set (takeWhile (\<lambda>a. a \<noteq> ''--'') argv). classify a = Ambiguous then Ends 2
      else consume argv \<lparr>no_setuptools = False, no_wheel = False\<rparr> [])"

text \<open>\<open>not os.environ.get(name)\<close>: the variable is missing or empty.\<close>

definition env_unset :: "(string \<Rightarrow> string option) \<Rightarrow> string \<Rightarrow> bool" where
  "env_unset environ name = (case environ name of None \<Rightarrow> True | Some v \<Rightarrow> v = [])"

record process =
  this_python :: py_version
  environ :: "string \<Rightarrow> string option"
  find_spec :: "string \<Rightarrow> bool"
  argv :: "string list"

definition include_setuptools :: "process \<Rightarrow> namespace \<Rightarrow> bool" where
  "include_setuptools p args \<longleftrightarrow>
     \<not> no_setuptools args \<and> env_unset (environ p) ''PIP_NO_SETUPTOOLS'' \<and> \<not> find_spec p ''setuptools'' \<and>
     version_less (this_python p) (3, 12)"

definition include_wheel :: "process \<Rightarrow> namespace \<Rightarrow> bool" where
  "include_wheel p args \<longleftrightarrow>
     \<not> no_wheel args \<and> env_unset (environ p) ''PIP_NO_WHEEL'' \<and> \<not> find_spec p ''wheel'' \<and>
     version_less (this_python p) (3, 12)"

definition determine_pip_install_arguments :: "process \<Rightarrow> int + string list" where
  "determine_pip_install_arguments p =
     (case parse_known_args (argv p) of
        Ends status \<Rightarrow> Inl status
      | Parsed pre args \<Rightarrow>
          let args = args @ [''pip''];
              args = (if include_setuptools p pre then args @ [''setuptools''] else args);
              args = (if include_wheel p pre then args @ [''wheel''] else args)
          in Inr ([''install'', ''--upgrade'', ''--force-reinstall''] @ args))"

section \<open>The certificate\<close>

text \<open>The option parser of pip's \<open>InstallCommand\<close>: its \<open>defaults\<close>, and what \<open>get_default_values().cert\<close>
  makes of them with the user's configuration and environment.\<close>

record pip_parser =
  default_cert :: "string option"
  configured_cert :: "string option"

definition default_values_cert :: "pip_parser \<Rightarrow> string option" where
  "default_values_cert q = (case configured_cert q of Some c \<Rightarrow> Some c | None \<Rightarrow> default_cert q)"

text \<open>The patched \<open>parse_args\<close>; \<open>install_parse_args\<close> is the original one.\<close>

definition cert_parse_args ::
  "string \<Rightarrow> (pip_parser \<Rightarrow> string list \<Rightarrow> 'r) \<Rightarrow> pip_parser \<Rightarrow> string list \<Rightarrow> 'r \<times> pip_parser" where
  "cert_parse_args cert_path install_parse_args q args =
     (let q = (if default_values_cert q = None \<or> default_values_cert q = Some [] then q\<lparr>default_cert := Some cert_path\<rparr> else q)
      in (install_parse_args q args, q))"

text \<open>The original, as documented: an option given on the command line, or else the default values.\<close>

definition cert_used :: "string option \<Rightarrow> pip_parser \<Rightarrow> string list \<Rightarrow> string option" where
  "cert_used on_command_line q args =
     (case on_command_line of Some c \<Rightarrow> Some c | None \<Rightarrow> default_values_cert q)"

section \<open>The temporary directory\<close>

record machine =
  dirs :: "string list"
  files :: "(string \<times> int list) list"
  sys_path :: "string list"
  patched :: "string option"   \<comment> \<open>the certificate path \<open>InstallCommand.parse_args\<close> was patched with\<close>

datatype ending = Exits int | Raises string

definition path_join :: "string \<Rightarrow> string \<Rightarrow> string" where
  "path_join d f = d @ ''/'' @ f"

text \<open>What the machine answers: \<open>mkdtemp\<close>, \<open>open\<close> for writing, pip's bundled certificate, and pip's \<open>main\<close>.\<close>

record run =
  mkdtemp :: "string + string"                 \<comment> \<open>an error, or the path of a new directory\<close>
  open_error :: "string \<Rightarrow> string option"
  bundled_cert :: "string + int list"            \<comment> \<open>\<open>pkgutil.get_data\<close>, with the import of pip before it\<close>
  pip_main :: "string list \<Rightarrow> machine \<Rightarrow> ending \<times> machine"
  proc :: process

definition write_file :: "run \<Rightarrow> string \<Rightarrow> int list \<Rightarrow> machine \<Rightarrow> string option \<times> machine" where
  "write_file r path data w =
     (case open_error r path of
        Some e \<Rightarrow> (Some e, w)
      | None \<Rightarrow> (None, w\<lparr>files := (path, data) # filter (\<lambda>(q, _). q \<noteq> path) (files w)\<rparr>))"

definition monkeypatch_for_cert :: "run \<Rightarrow> string \<Rightarrow> machine \<Rightarrow> string option \<times> machine" where
  "monkeypatch_for_cert r tmpdir w =
     (case bundled_cert r of
        Inl e \<Rightarrow> (Some e, w)
      | Inr data \<Rightarrow>
          (let cert_path = path_join tmpdir ''cacert.pem'' in
           case write_file r cert_path data w of
             (Some e, w) \<Rightarrow> (Some e, w)
           | (None, w) \<Rightarrow> (None, w\<lparr>patched := Some cert_path\<rparr>)))"

definition bootstrap :: "run \<Rightarrow> string \<Rightarrow> machine \<Rightarrow> ending \<times> machine" where
  "bootstrap r tmpdir w =
     (case monkeypatch_for_cert r tmpdir w of
        (Some e, w) \<Rightarrow> (Raises e, w)
      | (None, w) \<Rightarrow> (case determine_pip_install_arguments (proc r) of
            Inl status \<Rightarrow> (Exits status, w)
          | Inr args \<Rightarrow> pip_main r args w))"

text \<open>\<open>shutil.rmtree\<close> of a directory.\<close>

definition inside :: "string \<Rightarrow> string \<Rightarrow> bool" where
  "inside d path \<longleftrightarrow> path = d \<or> prefix (d @ ''/'') path"

definition rmtree :: "string \<Rightarrow> machine \<Rightarrow> machine" where
  "rmtree d w = w\<lparr>dirs := filter (\<lambda>p. \<not> inside d p) (dirs w), files := filter (\<lambda>(p, _). \<not> inside d p) (files w)\<rparr>"

text \<open>\<open>main\<close>; \<open>DATA\<close> is the text of the constant, with its line ends. The statements of the \<open>try\<close> after
  \<open>mkdtemp\<close>, then its \<open>finally\<close>. The file is opened before the text is decoded.\<close>

definition main_body :: "run \<Rightarrow> string \<Rightarrow> string \<Rightarrow> machine \<Rightarrow> ending \<times> machine" where
  "main_body r DATA tmpdir w =
     (let pip_zip = path_join tmpdir ''pip.zip'' in
      case write_file r pip_zip [] w of
        (Some e, w) \<Rightarrow> (Raises e, w)
      | (None, w) \<Rightarrow> (case b85decode (filter (\<lambda>c. c \<noteq> CHR 0x0A) DATA) of
            Inl _ \<Rightarrow> (Raises ''ValueError'', w)
          | Inr archive \<Rightarrow>
              bootstrap r tmpdir ((snd (write_file r pip_zip archive w))\<lparr>sys_path := pip_zip # sys_path w\<rparr>)))"

definition main :: "run \<Rightarrow> string \<Rightarrow> machine \<Rightarrow> ending \<times> machine" where
  "main r DATA w =
     (case mkdtemp r of
        Inl e \<Rightarrow> (Raises e, w)
      | Inr tmpdir \<Rightarrow>
          (case main_body r DATA tmpdir (w\<lparr>dirs := tmpdir # dirs w\<rparr>) of
             (x, w) \<Rightarrow> (x, if tmpdir \<noteq> [] then rmtree tmpdir w else w)))"

section \<open>Properties\<close>

lemma consume_plain:
  "\<forall>a\<in>set as. a \<noteq> ''--'' \<and> classify a \<in> {No_Setuptools, No_Wheel, Other} \<Longrightarrow>
   consume as ns extras = Parsed
     \<lparr>no_setuptools = no_setuptools ns \<or> (\<exists>a\<in>set as. classify a = No_Setuptools),
      no_wheel = no_wheel ns \<or> (\<exists>a\<in>set as. classify a = No_Wheel)\<rparr>
     (extras @ filter (\<lambda>a. classify a = Other) as)"
  by (induction as ns extras rule: consume.induct) auto

lemma parse_plain:
  assumes "\<forall>a\<in>set as. a \<noteq> ''--'' \<and> classify a \<in> {No_Setuptools, No_Wheel, Other}"
  shows "parse_known_args as = Parsed
     \<lparr>no_setuptools = (\<exists>a\<in>set as. classify a = No_Setuptools), no_wheel = (\<exists>a\<in>set as. classify a = No_Wheel)\<rparr>
     (filter (\<lambda>a. classify a = Other) as)"
proof -
  have "\<not> (\<exists>a\<in>set (takeWhile (\<lambda>a. a \<noteq> ''--'') as). classify a = Ambiguous)"
    using assms by (auto dest!: set_takeWhileD)
  then show ?thesis by (simp add: parse_known_args_def consume_plain [OF assms])
qed

text \<open>
  C37. What pip is asked to install. Every argument of the command line that is not one of the script's two
  flags reaches pip, unchanged and in order, behind the fixed options and before the packages; pip itself
  is always among these, setuptools and wheel exactly when their flag was not given, their variable is
  empty, they are not installed and Python is older than 3.12.
\<close>

theorem pip_install_arguments:
  assumes "\<forall>a\<in>set (argv p). a \<noteq> ''--'' \<and> classify a \<in> {No_Setuptools, No_Wheel, Other}"
  shows "determine_pip_install_arguments p =
    Inr ([''install'', ''--upgrade'', ''--force-reinstall''] @ filter (\<lambda>a. classify a = Other) (argv p) @ [''pip''] @
      (if (\<forall>a\<in>set (argv p). classify a \<noteq> No_Setuptools) \<and> env_unset (environ p) ''PIP_NO_SETUPTOOLS'' \<and>
          \<not> find_spec p ''setuptools'' \<and> version_less (this_python p) (3, 12) then [''setuptools''] else []) @
      (if (\<forall>a\<in>set (argv p). classify a \<noteq> No_Wheel) \<and> env_unset (environ p) ''PIP_NO_WHEEL'' \<and>
          \<not> find_spec p ''wheel'' \<and> version_less (this_python p) (3, 12) then [''wheel''] else []))"
  unfolding determine_pip_install_arguments_def parse_plain [OF assms]
  by (simp add: include_setuptools_def include_wheel_def Let_def)

definition sample_process :: process where
  "sample_process = \<lparr>this_python = (3, 10), environ = (\<lambda>_. None), find_spec = (\<lambda>_. False),
     argv = [''--no-w'', ''-i'', ''https://pypi.org/simple'']\<rparr>"

lemmas classify_eval = classify_def split_eq_def long_options_def option_kind_def

lemma sample_kinds:
  "classify ''--no-w'' = No_Wheel" "classify ''-i'' = Other" "classify ''https://pypi.org/simple'' = Other"
  by (simp_all add: classify_eval)

lemma sample_arguments:
  "determine_pip_install_arguments sample_process =
     Inr [''install'', ''--upgrade'', ''--force-reinstall'', ''-i'', ''https://pypi.org/simple'', ''pip'', ''setuptools'']"
  by (simp add: determine_pip_install_arguments_def sample_process_def parse_known_args_def sample_kinds
      include_setuptools_def include_wheel_def env_unset_def version_less_def)

theorem pip_install_arguments_witness:
  "determine_pip_install_arguments sample_process =
     Inr [''install'', ''--upgrade'', ''--force-reinstall'', ''-i'', ''https://pypi.org/simple'', ''pip'', ''setuptools'']"
proof -
  note c = sample_kinds
  then have "\<forall>a\<in>set (argv sample_process). a \<noteq> ''--'' \<and> classify a \<in> {No_Setuptools, No_Wheel, Other}"
    by (simp add: sample_process_def)
  from pip_install_arguments [OF this] c show ?thesis
    by (simp add: sample_process_def env_unset_def version_less_def)
qed

text \<open>
  The bundled certificate has the lowest priority: pip's own choice between the command line, the
  configuration and the defaults gives the user's certificate wherever there is one, and the bundled one
  exactly when there is none.
\<close>

theorem user_certificate_wins:
  assumes "configured_cert q \<noteq> Some []" "default_cert q = None"
  shows "fst (cert_parse_args cert_path (cert_used on_command_line) q args) =
    (case on_command_line of Some c \<Rightarrow> Some c
     | None \<Rightarrow> (case configured_cert q of Some c \<Rightarrow> Some c | None \<Rightarrow> Some cert_path))"
  using assms
  by (auto simp: cert_parse_args_def cert_used_def default_values_cert_def Let_def split: option.splits)

theorem user_certificate_wins_witness:
  "fst (cert_parse_args ''/tmp/x/cacert.pem'' (cert_used None) \<lparr>default_cert = None, configured_cert = Some ''/etc/ca.pem''\<rparr> []) =
     Some ''/etc/ca.pem''"
  using user_certificate_wins [of "\<lparr>default_cert = None, configured_cert = Some ''/etc/ca.pem''\<rparr>" "''/tmp/x/cacert.pem''" None "[]"]
  by simp

text \<open>
  The gate lets exactly Python 3.8 and later through, comparing numbers, not digits; from Python 3.12 on
  the script never installs setuptools or wheel, whatever its arguments.
\<close>

lemma version_gate_None: "version_gate v = None \<longleftrightarrow> 3 < fst v \<or> fst v = 3 \<and> 8 \<le> snd v"
  by (auto simp: version_gate_def version_less_def min_version_def)

theorem version_checks:
  "(version_gate v = None \<longleftrightarrow> 3 < fst v \<or> fst v = 3 \<and> 8 \<le> snd v) \<and>
   (3 < fst (this_python p) \<or> fst (this_python p) = 3 \<and> 12 \<le> snd (this_python p) \<longrightarrow>
     (\<forall>pre. \<not> include_setuptools p pre \<and> \<not> include_wheel p pre))"
  unfolding version_gate_None by (auto simp: include_setuptools_def include_wheel_def version_less_def)

theorem version_checks_witness:
  "version_gate (3, 10) = None \<and> \<not> include_wheel (sample_process\<lparr>this_python := (3, 12)\<rparr>) \<lparr>no_setuptools = False, no_wheel = False\<rparr>"
  using version_checks [of "(3, 10)" "sample_process\<lparr>this_python := (3, 12)\<rparr>"] by simp

section \<open>The run of main\<close>

lemma inside_rmtree: "(p, d) \<in> set (files (rmtree t w)) \<Longrightarrow> \<not> inside t p" "p \<in> set (dirs (rmtree t w)) \<Longrightarrow> \<not> inside t p"
  by (auto simp: rmtree_def)

lemma outside_rmtree: "\<not> inside t p \<Longrightarrow> (p, d) \<in> set (files (rmtree t w)) \<longleftrightarrow> (p, d) \<in> set (files w)"
  by (auto simp: rmtree_def)

lemma inside_join [simp]: "inside t (path_join t f)"
  by (simp add: inside_def path_join_def prefix_def)

lemma write_file_outside:
  "write_file r path data w = (e, w') \<Longrightarrow> \<not> inside t p \<Longrightarrow> inside t path \<Longrightarrow>
     (p, d) \<in> set (files w') \<longleftrightarrow> (p, d) \<in> set (files w)"
  by (auto simp: write_file_def split: option.splits)

text \<open>The machine pip is started on.\<close>

definition prepared :: "string \<Rightarrow> int list \<Rightarrow> int list \<Rightarrow> machine \<Rightarrow> machine" where
  "prepared tmpdir archive cert w =
     w\<lparr>dirs := tmpdir # dirs w, sys_path := path_join tmpdir ''pip.zip'' # sys_path w,
       files := (path_join tmpdir ''cacert.pem'', cert) # (path_join tmpdir ''pip.zip'', archive) #
         filter (\<lambda>(q, _). q \<noteq> path_join tmpdir ''pip.zip'' \<and> q \<noteq> path_join tmpdir ''cacert.pem'') (files w),
       patched := Some (path_join tmpdir ''cacert.pem'')\<rparr>"

lemma main_prepares:
  assumes "mkdtemp r = Inr tmpdir" "\<And>q. open_error r q = None" "bundled_cert r = Inr cert"
    and "b85decode (filter (\<lambda>c. c \<noteq> CHR 0x0A) DATA) = Inr archive"
    and "determine_pip_install_arguments (proc r) = Inr args"
  shows "main_body r DATA tmpdir (w\<lparr>dirs := tmpdir # dirs w\<rparr>) = pip_main r args (prepared tmpdir archive cert w)"
proof -
  have ne: "path_join tmpdir ''pip.zip'' \<noteq> path_join tmpdir ''cacert.pem''" by (simp add: path_join_def)
  have f: "filter (\<lambda>(q, _). q \<noteq> path_join tmpdir ''cacert.pem'')
      ((path_join tmpdir ''pip.zip'', archive) # filter (\<lambda>(q, _). q \<noteq> path_join tmpdir ''pip.zip'') (files w)) =
    (path_join tmpdir ''pip.zip'', archive) #
      filter (\<lambda>(q, _). q \<noteq> path_join tmpdir ''pip.zip'' \<and> q \<noteq> path_join tmpdir ''cacert.pem'') (files w)"
    using ne by (auto simp: filter_filter case_prod_beta conj_commute intro: filter_cong)
  show ?thesis
    using ne by (simp add: main_body_def bootstrap_def monkeypatch_for_cert_def write_file_def assms Let_def
        prepared_def f [simplified] filter_filter case_prod_unfold conj_ac)
qed


definition sample_run :: run where
  "sample_run = \<lparr>mkdtemp = Inr ''/tmp/t'', open_error = (\<lambda>_. None), bundled_cert = Inr [45],
     pip_main = (\<lambda>args w. (Exits (int (length args)), w\<lparr>files := (''/lib/pip'', [1]) # files w\<rparr>)), proc = sample_process\<rparr>"

lemma sample_run_parts:
  "mkdtemp sample_run = Inr ''/tmp/t''" "''/tmp/t'' \<noteq> []" "open_error sample_run q = None" "bundled_cert sample_run = Inr [45]"
  "proc sample_run = sample_process" "pip_main sample_run args w = (Exits (int (length args)), w\<lparr>files := (''/lib/pip'', [1]) # files w\<rparr>)"
  by (simp_all add: sample_run_def)


end
