(* ===== verification/Pip_Data_1.thy ===== *)
theory Pip_Data_1
  imports Base85
begin

text \<open>
  Lines 145 to 1044 of \<open>get-pip.py\<close>, a part of the constant \<open>DATA\<close>, line for line; a literal is cut in two where
  the text would look like Isabelle source. Every five lines decode, and the sizes are those of whole groups.
\<close>

text \<open>Lines 145 to 294.\<close>

definition DATA_145 :: "string list" where
  "DATA_145 =
    [''P)h>@6aWAK2mtSfNm@P%ijnvL003nH000jF003}la4%n9X>MtBUtcb8c|B0UO2j}6z0X&KUUXrdswk@'',
     ''k1uudi>cQKxl-V|I1MSR^q%Qq?r(L=s5b}6=dAx?h06InTEzl4HD}0jZ7QUlW@UAzeEdP)tEoBKWklj'',
     ''DpTYHxoV`^+*aOAHYw^Cd#_OrlVln;l*{|X*AaPtb}wJ?w>%d+2&1X4Rc!^r6h-hMtH_<n)`omXfA!z'',
     ''c*H2_nTSfpGFr1uvmTkcug)ShEPeC#tJ!I=_b+)ln~75Jc!yqZE1Gl6K?KR$<8F6kVP)a}pU*^4-Jpl'',
     ''U<!HvzbFl3|p@5?5Ii7qF0_`NT{r7l_z#FBA=}=>d5{AF3D`nKTt~p1QY-O00;o@hDlm)_pjHy0RRA2'',
     ''0{{RI0001RX>c!JUu|J&ZeL$6aCu!)OK;mS48HqU5b43r;JP^vOMxACEp{6QLy+m1h%E`C9MAjpBNe-'',
     ''8r;{H19{ebpf{zJ27j)n8%0=-6Z#elILRo@w9oRWWbO{z8ujDS!QAC@3T%nJCf;1rX6ghzu#Z}<GSE4'',
     ''4EG}J&ngovyJ$%DCh>R@K&*?Hgj1WFD91+adaM4G`4Xs@*hA^t@nbDYdL)-aOjsW~3}QVVby(8=@7U$'',
     ''Fzj5Y{w!2hUUH`?e9j7WDA;>-1aos>7j{2$~BfyL8p@__Y98dsP#Bs7^<X<wp+-f{6%mc1~N!0T>lWF'',
     ''=e_gr;(4^?am?Cp93+7b-!?~nb}-$cPSR1zckA*zNp!)$;YjlZrfn&RWNM}=QA7*cb8A{(9@'' @ ''{5!vBfq'',
     ''rEMoeu5FvJZngI@N#4#(2v$WnMGCAVD?b9t8W^qDfcFBe5ZZF%dPAPaq#<aBs;+HiVj+9PK#6heH_-Q'',
     ''-kVzlI0rncJH8Q{ZFBFwrpI^^9n>>ikclG~yPvCg`JUGb_W2#PdCXxx}7!|T*xc9qdnTILbO-nAJaF2'',
     ''~0snMF<S>DU<%E01X4*yW9@|}F2;vY~;0|XQR000O8?}kZQNptbL)dBzjss#W56#xJLaA|NaUte%(a4'',
     ''m9mZf<3AUtcb8d3{vDPTN2bz56Q$bEqvD7eNnI)KryFP`Qva35SZJ)y5u^rS`7bUDH^IfA5SPClJy4k'',
     ''gRuS-n@D9)?pY<HkdUY0XH)9Wea|-9Au_$!4y!dI)Oim_B2SyRZ*Zt?E&?ZvPM_5PJ>{{DTOK#=wHhU'',
     ''bC3>{r`H6$p=j4wBxLD(_{!uBMQ2if@UWt^sy5bB+LMxj)Z2G(UV7|ngkcy2$MEs!7j)I0&^l!_5v^+'',
     ''J)k>Ahw~(zd`wb2=&u3NRI`moV*YtX}3obEbq#zjTw2r|qOs$ARVNC^fTU+x$K&dxX8O(kzzfZ5leDd'',
     ''SwYCc)O7^3q8KF2{2<X8-Bg!4AquHzBFG5EH|5vY4@ECxW2Mc-HrVH&0nM(L=_h@mhRo`6IivI$rfOe'',
     ''`I+l`hQf=<E)@zyX_4k1Ul#ShS8Ln{1Six?O(4H;VOBh1?*`%24x7-HA~5Dm}kIWbv_4md?M9pI>64O'',
     ''7trE3Xz}JJ-^2@PTqtZaE^Ca{VL`GT(a_Oau^s*w(AT6joVG|914`AACj$B4SNYmBJJg-pS8tGDosG|'',
     ''O?)?P+h{U34M&?tIfBWj)3czPd4FE2Ra(i69FMjgoH&zyeW`Sg_Ps>oQmV2Zf^%j05*$PZv#Xg{OmF5'',
     ''FlZBX1r%N)?HZmIih2UExM9lNgO6eTTRDIRK&XJ<n+4{a`(vSUH7gixPoOc`S$ASWct1*ilmPG<ZQ<h'',
     ''vH0p>ZrHky`R+I#ff%RkJ@54mv2hNCfr<ehNz#t2(WGfuEO;NsNaUbl45Y0u{NP?NiX*4`h~9r7Ke%m'',
     ''kvtgne)Oj4dI~AQ{=4B##u_da5*|MW@MsgpFAKZCN20TL>6a??SM@ga{J|FQn$%LuR5F66J(e<QO4RG'',
     ''8cXQB+Xu*aQyab7Y3d2Qu-DBPSlB+Fh*Bp{JMZFJ)sf#@zOTb++R>j0|XQR000O8?}kZQ&BwqszyJUM'',
     ''9svLV3;+NCaA|NaaCt6td2nT9C62L9#V`y-_kP9QSf2V13=C{<Kw>tnX)PsolsJX_Jx&=d9p7_`6i5S'',
     ''Mvz$qHBvD4Gc2vqMK2J#u@ySRoi8HJ74pBUZpQaDYr)B{xbde<biidBj6SwLQ4C~0fIn*4z#kiE0Sc{'',
     ''#il<@j|pBMZL#}ADaAESsKi)hSbaxtCyXu4z%H~r`8#VV{D!!(UMBd94M9GxnKfLFZz7T$d6N~+ca-?'',
     ''5#f2RFEdlxM*G?W6ErQaLd-ZtL;~P)h>@6aWAK2mtSfNm^4WVBa?Z00033000>P003}la4%nJZggdGZ'',
     ''eeUMUtei%X>?y-E^v8uQL#?LKn&gQE3C4#Qn@ThKqVNNDp=U63SAQ?v2?jR*$!3y9w((B25z~hr>E!V'',
     ''=a%yTIu%MC&`>ff>`8PBZ$&Am5S?phNulCDC@HdWepHHb)qlj?Id=n;NN3!c*LnlPC<-TpI>d;Lp*Ax'',
     ''@NYlcAX86|n4s~x3dA%{4b5C^-eJBN!K+x-$+`^E}a>&gXQM{XH`M*P*a}Am<P+AA>WcRbiVczN>%Eu'',
     ''!-!D~*qf!k-xtUCwxR;$%}PqvdlVHD&~%WR1u#|G-0Bu50PnTiT%Z?T3jfmjc5UXrmz##CF1#g5dw1-'',
     ''zI=Xd1etfCe>Kbz2Zb=v9mCs;VRH$CIz~P?f2K%DS#dWJIa%?;aogHQ@69cMXq8c`Di1-^-kNu8}WM7'',
     ''<J_ILoNkv+!s(w0|XQR000O8?}kZQ-v+$#whRCO%qai>8UO$QaA|NaUukZ1WpZv|Y%gMUX>4R)Wo~vZ'',
     ''aCy}lU6b3k@m;?Hp&vrFB;(|%qp{k?_Bpw!Yv0)Cw3!<XLy^#lJ&I%iQg_PD{rB!J01_Z6+3EBpdN_&'',
     ''T?qa`pu{h83UUo&9vy19bh`QSIs%4$zIosBP6|yeVwx}zXccQ3nnam5>vJGOu<HGa2#iH0ZwP;yc-`?'',
     ''VyeypYW)uipNEH>s*7A^08AA6{lKeYEEZ5CTm?^#xtCC_kY$uz)wk#oWG*G1MUnD*H4{_V9$Grmc)yK'',
     ''7kO-y_Qg;ODE0<kgQCul{lQ?uU?Fwp^r}l85XqNEEX74Q`f}A^XVT@w#j99TE%KrwU#z6w#(=;^e@qy'',
     ''cTf-+odRTeBeT&mh@gfsmB4uyhxI5QSu~Vsl?@^tTR%tMZ2hgGhign$|9B^K?TGNe%<gY(Tj69hF*_w'',
     ''%iE*@6N3Ij_0S34Kgevy_k51fp0{b9wy8}g=i9U^+k_9EqR3babF{j)C}phOqgT<zhnMd^UYv&Sm20y'',
     ''g_^(|d`1ze=w`oM3aoKAjOUp7DmQSO$eBUH_A$q5Q=hv`d*4E+}GJFkhle?nIB{=@p^{VB9!Dogzfb$'',
     ''0}5eFB5$9{_|wfcq@7YkGqyj+=Zib3qRwB{#CmF~fLg2iG1wqRh8yleb)$z&@+wxREUMSoQedqX~a18'',
     ''ZyT&o=~z3v0!y;B6-==BI!iFc2qYU#-}N@ltYJ#htP;1w|%Tf^Ullg+`l$bVZvazU1XLq!=Iee^*yrf'',
     ''#L@tVgvxG@XLK6frkd(yh&lx;T3r%EDvt#dmijVY^;z>;L_O?6<KbjabuZ@qG_cI1+I@!62P?jG;|*q'',
     ''=2-=e(KR_=S5=rY5-_e$a)P`{Ovr;j@D|jE;mz6_<OHR`cgn7g?G7>nf8bfys*D5cK#R3I&azGjaOUz'',
     ''DA$9b2^qd6|z1|hz!BS;ojgwL~8C*G3X}XdvxHzI)5dz2+py4)@u!*P@tFd97zGdBsjB68t<na}J`*x'',
     ''BFV!@#v9Jn8VIgxF}C-_ZOx0*m)NK~*N4EBGfB)P9UC^NgXfgFZ7vfgv>6D6URTm=t^Q{)_E{S8+@qc'',
     ''OWgb)~IEGfO3?@*Y%}R;VI+&vFXZ@)-A!+Q-3EzTz-g*uG!Ocq?<B)j8Mi**DBf(8gpEE|Mf}j$R*h<'',
     ''d8=RsUX2hrh{54hk)8a0q1yyf~LC147lRqlkC83M<q4B$7r{yh6J|hTDAp1EN={a=@%=J`@uI>j`xFK'',
     ''P_<o^9@3&jZzBRe5RO5upi;1Y3!8!)uuSl@1=rdft<@LbJ=Y5QKnjvzTd_~e;x~YVSY`DVbqV&8uK&Q'',
     ''cyHutv>KP;mnKzQfvs}VbAco?c=)Q_?OhvXUS^U3X-#uqFl-_$mbcjlGWcLL`Tt@}NCTJ0{m1*hH)?{'',
     ''pfw>l8-s`|ddNZc0~-8)o5NY;@%bnfcw7L`nK4c=+*c)x?*Wy}%y45*B4I0OWQEQpdbzjyvY(%_WdZX'',
     ''8Dlnd1p-+sz+qNhvr+Ya(+#rBKQql$wEWoA^_o`Kdd!n#10;Uy=JrmR332rxgkWzjez9l31Arb*6KaN'',
     ''<~mY8cEILY(1GNB7J3ExkcH>TD)=!bNuqt<=fZE#k-$CBW1n85K9z?`RZD9CIj?EAyHL@RBCmZeh)=4'',
     ''gvB>Bh0r(p{7+p}zG04*LWYn*5IE?lXk14{`<{v^sAnGfZ<%6#F_07PbY+uEYE>z}pzYTqFjLx2f|0F'',
     ''>dt^dzY+8BlmjLa%dWa8c*`a?1R?JQriYb@pzCtq<IGDjOyv5MuTNq~968RZ>)ycNrL%vZNv#ss$kHD'',
     ''=YI6R9Ra9XSl;B@c^CAJ2$IgkyC2+o&g)C+<S&Sv5hv2{ApkL`nRwQHX93J>8dJL|G(Q1}DbLHaJqk@'',
     ''^94e}~m|1l0p!>Z3z~KgJu_a&a|ZnNd2`I#|31=j0WXMM!chuWPr_U%bIZ@%*xFT;{e-Oo`at8b9V}7'',
     ''emJd2AKlj$J7z~(;p>6rfLeF7bj59*c<R6IE&<>ZnPOAWk$%1l#5V$8BZ{4Q9zHKmT2chcc}1_ly$RQ'',
     ''PvEHl5Fk}8-ul4=#?GjZwoiQ}o|dzcQ{77Q9KX@H%3Z9zR@U$7hI$X1tJ!VlE5I!1s46IZKqc}g3JYe'',
     ''mG^IJG=bPD`>7~8>1a%e-V(CPI!w?&48!2f*VJd<V8bf-*z>EWaga)$8Lk3o4kkoV=3aEU>>z=6`hAn'',
     ''TO#VCpCo}TAZ9LK9n+C1q|P`5e64az<?;}?72)QWQv8pK;HWl%sYPhZ&&Av5f*+*;sn5ZJ8%$Ak0fUO'',
     '';EC^uTfS05*DbNMV^>qCe;k1UpMzy^+qjx_tHh^^aJUuYSJ%@%_7Z?>~LK`0(-a`eIlkh=Ih@;0-2!I'',
     ''3?1~B6XQ34v>-HM(sO5qC0C~*TA|`Pz^N@v24nsH4Ta6O<+~1hEAU*<lNN19>6SRbxod*llbG*7l`8}'',
     ''8+KL2g*+#m0Us-L$-Hm9lYpnF_tK2^cp7(4+K(QnrF0x;K;#cuf-}TrKm5DFdEd=T$Q~CD8K=ed+C_l'',
     ''Q$bxr4N2E74VS7BO0cSiLz44F=<*aC6YQ!jh9gm5@gnQ|a+5_!28b^+3&)B-D8^7Of8XNA}Yl?rPak0'',
     ''<rHy-q#?Ra))kL={g5;&}YcGZkxsbw8BqefPEq8<;g!v37S9@vBIq)x2tJFJ0ncoQ*5&f5|?`tg8dX-'',
     ''>4hKAmvL;rA(IpFAMuSc_XrixeLHPLe?so1y-<!5TLWHe=&=g`(#gK;^q>fgg=w{d1{S6Yo#!WD2hb_'',
     ''NLG@4?Hmf_Q!eLenNi+Ari2aI&+NW!4ItJL7$~mU!zT#dB*<5zlLhbA0Y2#MOz*jN6$-1i_`(bF%)|5'',
     ''7G6BG0#4HCm)Js9nLP?~iCQA5BL!7YQ6Jzmo&&`r+w*LfR)yTtQG(<B1d|QVifxgpoo0%?vSPeX#U0L'',
     ''kC6UEYqjNJp46kD?2lpR6qK8@1dkW@@JopYs-0{gvx}sU3Krz{@z<JH4!%T!)jp=wg$0%}x(DVCgAI3'',
     ''i6v~kWd23r)8A`J}T<4)${Bs5nhCuHrzGcn$@Vq5RgNb|H>J=)}+rj5#cF8eatpCzt!hbY=1z?i6p6o'',
     ''`)mg;Ob<N;uAk)G*?tbxmd<jr$WeLlarST#UTA{P#aEmh4qc<0PRwQugV?+rN!Rqt;fTvGS0`^}grw_'',
     '')xy+5(Avpxzw=Ayqh(h#6JM3;XsngL=76%{YL-#Ps2|f_gHUd3aXxWtVV;LoADk)?`8MSYDz&j6eEiL'',
     ''wFR1Re57}zbZnzEK5AsoYZyP%+XuJ(QF;$YTMg9QH%bC`jizY$XIR#q)Zc-*w#fDzTCaTQt<E!z*9L~'',
     ''+k@^0gKC(39xc|{RQgJ&Tm$}2MBTlUPiyK#qmWb{fPwQsX-g;3~+~Slf>O*-7QPoi=9d+mzN?>o!l4`'',
     ''y*L+Kvcvq)WoMdlJ`N*U4<$`Ij=ht5(FwQeI&yvE@spiG*'' @ ''}S$ki@39rIA+@?O@?bfc7Bg7UI4IPrc*{'',
     ''`<6tvd8VcYqBIw2^v(&Nk4v-nyea&8DI;X5V^tj!)_u73<%{c8mW=aNuwGftP;3UJQ4uuP<JH`oWD*b'',
     ''O|%p^rFMT>V|mvS;G2O`z%R|BDP2B{G4F55OrzB!+3y9#gQh&Re3azqhg_OrRtujnN!gfyF|m$Cc%_F'',
     ''eWsigk`uGKDDv2!M^t0Mn-WerzLy}|kvDS=B;?T3gUDJyqwO0ZKo^hRvcdp`o@WMmc3^-Xx?WE@QKBZ'',
     ''a28K1;Er!(@6KNgXcu@fY44^m9*XwCpOAT5=P-rv@'' @ ''{M+SvTGK~6M1&p@Rs>i$Z5;@%ZKoUeEv`FZoD<'',
     ''H-tso@tkT2s9@Ri`&dBG!uiwMpOiN@O2^VX1qzWCvIo)Uoo5gTLe^0=#IYw_5MPJ%-uxcnJ5HE4vOum'',
     ''^svgBd>6SUbs}qMs*-5CgLo+C15^fa>%mWC?IgeZZcj4yB>KPq4UJz2aFP061@s5+-Xdbn^Hd1%Ql9n'',
     ''pvCx8^6(_+9iADGQ#}FlE3vXhyPS~#QOZ?(OrTDa9JGv*UmH*Aq&$qk=6S>oUP!jDznwrbN^q$zKPTf'',
     ''Oett?R{A>}=N)}B`mTQ8jBiK%@j}qwmwpeuVN^GCOA*mwn9?QPk76{8F@M+fDE`06@0g%Y!2f82GFN~'',
     ''MVx+?V<@pk6|JVl_krtA}T6?)~O4^s_7eds+4;KFgP)h>@6aWAK2mtSfNm@Xs&khR=004m~000&M003'',
     ''}la4%nJZggdGZeeUMV_{=xWiD`e-CAvr+r|<8u3xcLV1z1UUSc?ID?mjZ=N!B6OAtHohr@wbi7RP+6v'',
     ''=RxCo4t&d!LzIl1q`gT$-j0Dj2f3FSGM'' @ ''L&n#~`oj#N6of5BQF1Kp0ayyw$r;~}^mqlg8PMTe&SIy%`Q'',
     ''{>I>tk`aKzHJ^0Guc$dUX;?(4&jHt!=sz9#}dn%@u&H5F22!gI~T9C!S~zJ>LQof#FNowoZPBBEvmSb'',
     ''>l;aD#a3=jL*c#L&V|mcs>({?JIUo<^+#@1WkB>UinY~QOL8sqBG+q~>7Nvn3z=cUU@%sn){2>J_r1('',
     ''-u_yhoQ!0C|GsRm+cJ7N*WhPE_rPem7tE?gL4Uha#Wq0h#bbiyUe}&(7EIkk-&06MaY%z--TeU9}aMY'',
     ''?5&yJm<f{ADvv&oIlQ*'' @ '')jQWNEcQ9+23A<eN;$OH?J6jl0BKWnb}Fl(34EWHy<+{r=^*FW)48fA{uH^5'',
     ''*I5ORS$3mBxmcTn_#?N!3Oq<c?r=ZKHI--g9MaH5d50o{5Klr5}rlzz073y|Q(c3yDFw%9JoW`RLJOQ'',
     ''EV_oB*@#UV@%#oI}FaGv*NVgmnKR<6~ZJp>S&hls~VnVR4FS7wU}izoloatx|q)9Lgl8eR3gn<YhF2H'',
     ''dX+og2T<%zk4&ucHH;KZdHr-Yi+Ac%s<+D62#T1jGii+Am~16^3Mp0)O|IdhJpWLXRdK6RW#F?EzNxp'',
     ''E#>l3qL@KQmY%OvdGhtE-;(zaUkjWR~J+@XwVM!|%zj-Qd&UL$3@vyhHNfH^AZRQ~bu*I5xQ{<juR%T'',
     ''toz_YmBH*2TBzJinFh3&`)a9o&}94FQWvPSJxw~>yHyDiK9b~-=c7haaQdG<yKZjEQ26tdt5V#X=^kQ'',
     ''ZHd+(Yzl75OnXk!I)z)FZ9f*T#yKYMK35=v<}ZpzW?>r_~&NJ`*35ILI6X3b9qWf(I!fb3xIMq1xaHr'',
     ''_`0VBphxo4zOsEe{P$d0lAOFLZxUQS?q`JUxA^uq-PBV^>#;D`xZQ68c~e^Mr7u^cvHzOr}&PX%+v0)'',
     ''wXDF+s;Eia!gx=h54dtlgx>!#1@F@ZE0O{~A@Q*%X~_Sx-KIBg6~`?_yU>PBPv+vY+v#woGez(0t3Iu'',
     ''3$|}vs;7C)inxHtgoSh>)4OdTF!lN`o+rG@#S)Hn|=m=Ma_VOdVk|f;g9KU=iB1^P(4hX>$)<vnDC+R'',
     ''GExKd=qRG1Y0X`J`1YMrH=y*3+Fffd1tJ|L5-5(SRRY~d_k9$}iiJsm>`7lYJP#^sSzzEZThs&nj^pZ'',
     ''JAy3YV~$T66GPu^h!7L7-PU)AlH+G{'' @ ''*sfowcP|TwH7+QN4<>_@X?P@&eW4LK{;nbMdD~e|a+Wu&e25Q'',
     ''D=jk4hAXZ%vLY-V7DKqblb6e>7=AM1UZgQwuQ^v6p^22nQ&3ZYHLFd-Y1OS>r7SwJ)_ojMS4M^MlQ6J'',
     ''m|<ih_tld*Olci`l&2l)4E)9xR%T$pmY9p6|Ij^lwGo*@=4ZNU7K<0fLEX}}o?VPL+FsruzEE^2wTBM'',
     ''US&+&EiA!RvCBBd@f{3S}g8wbUqT4EZb|%5)C}W<Zt{#~JagRx;|CXE<j!ix%F_v@TDawFahDBL#|A8'',
     ''2zB;}GD`)bW43-Q@o33_x`K<)XvPNF7%T{+RN7LTsyUd*dUi^tu=<HeKi;mP9qx|7ydbtW|^H;6pcT{'',
     ''SE;^A1@i4thFx*_BVOLcqj96~dMT3DK1?uuaMFqz1x*u8xioZ)S;&Fgy0>_7kF)?kW(N${Y^ogGov*r'',
     ''*NHw$VT)v3yF7C9Q;M}b2ffN)T(RFXUy0i+d;}N1z}!eTSC{TR%rMn6AXD9t@bTIq)!ME+dR)viXR>f'',
     ''rCkLj2DvOWkdaxD8lm&1urK#z#{H8@FRQAkn)KqCi+VVw%d~-$1Ue60q-l&8q;!h_u?TIeG@;D9a2|x'',
     ''7$S?6;1>!?-4P^%ECLpQ|#Uu+Nqp43+bLI{~97w*(@54aAC6Jsi;NcnfQ;i3@?=;PEi^7;U;_q1peSN'',
     ''h=uyd_*=yp?s9r6)C`wZR3e-^6-*z>>OUV&H~sqOZ!eTlK0{s@`94j0S(C<sI`Kw!k^TY~VkmKfm+Rw'',
     ''Ssw%=w%PJRYcwqk+jh!0q@v&|Fp&H<YXEGDu5AW~VKxeLIK}P~_Q>ETR}IV-v*;j&0itaxOd^9Xc&D2'',
     ''&btpYnt?iR$lK{7^42m@zlZ7BDWH7it<B8mdmI=(XX#MFQp7v=laK5#o{vF#v;D(;T2-#wD<{a9C=ye'',
     ''Q*@-Ok-CG+q_YNuHINE>zKFkw<CrEPBDkd`mKS>)OJ_Jn5nWjaQiEbqe@Vk6kD;vXdUvXnUSZHfU7=n'',
     ''R&R8i7s}!-C2HN+1o%2O%={UH3OUM4ff*f{wy>sy80EpSBk6mg!f}4uT*?+vJ>Q?~Y-1W;;P>$cR=X)'',
     ''<E!}-R9d(hzqpXbAFE9%om6Yi*?9sgqpO@2RVx5EX5J%Z8-^OAS=jvcF&{j_kV*e{2dS5dg2vypQJ=*'',
     ''(Z3x!-&Pl=m#%!kO$22y;^2ZFTGq(8sy-(%nQw-PyC=N_VX`dY3jNNvS~RwdzecaC4#rJ}&0t#2=RDf'',
     ''Y{&wcW)J^YE^He!7P2IFSlsyD0ah4E*`k_jQ<d?D5lf#&1s=rzq^-~qf$WuC2}taQN&gnEdu2iw(bMe'',
     ''xcMldz>=f$S<l78PbmLz#q8cHCn21Y+t`TuQ8F8<_cQS|CrPekK||~M)eBjzcNfa8@5e;vs<AAo0UjD'',
     ''`+=M;0QT|i)DcMtw>9hauX}*oCpHuE^kP<q9?vW6Z`I&HD($zzUvrTuZr$c!v3T|toUZU;z59rTk9d^'',
     ''4cfh7Xyc8cXf6n8r3D)qWjoENqI9L4vL^KElcNx+Z(wdV0W!W%<$oW$CT?PdQ?yYC8guf6PDa>tk7y|'',
     ''{dxe0Xtr`6_w#^x2Ecz5%ycu>wLkCVPHmlDgaBc1d8(0kZ5f#=1Va^S#X54BC_Qmy|IACdSfjmsk}=<'',
     ''_pt_dKe-s`^_OwblWlAJ@gm3yZN9<wl6T~vW4$roAqvK(!KLYd`n4hhN702c!ONeQ#0s=bHRl;eJ#-I'',
     ''G)L*iu6K#<Q<efrz)mYcOxNZKy$Tpl8fOlMD<fT~Pd4HUGt`CUw6>dvf1VCg>1g4*Y+fr-;W%HB4zkK'',
     ''Y{O4+tc4gGZks`P9oD0%)P^O{>W_G5yjEj1{(6ABDXT;Gm)42cn9`HjY%R#nbcs<A}+;K=jh#E5Tm<z'',
     ''}EgnIqPEGrI9`fVlGYEvVa5p8%tnuPx60VG#+s;}&<N~XrW5jtmJU8!9@ZmzF4MNNHxgSCeF3%5i0m9'',
     ''f9Y8<ul#OcIy8n_Hwo!+mxii{9=#P4>UCH}(~1z~R|Drrv3ewO@5+Al<#r{9QB>WGNTQ!Hrxn?2&p8*'',
     ''_|BJyR8c;!heUaUP8ceG8XKOJ3!J{C}iq?p}BTzS5>di+=O*2nj86_zZ*klY>AQ9Vs5*`Tni+DE`!01'',
     ''>%*DGL7IMs7%8yGOYEGgl3Dmd)-xX30V%%i&QF4<Umr-K<**e9)xA955A+qj>_3LcCvYv#ozIF{&yfQ'',
     ''!>XaY39rHjX{%!g>iBCfK|3c#DGBYP4)28n2_TP*'' @ ''}ky`H+`lPfCIn?K(N|O{AIxB!fT;Y!TRb(#Od7W'',
     ''>HMF)9C>WeS^Ay(@u#r>e!FU4bbLa~tM9Z>7HLsrj<I!oEKbo?onYG3QR=qF4SpKJX;(B+%7)CTZNv*'',
     ''K1&hf32+4|}f755)fk*s8Yxjy2YYzkmD9+XcS_?9{G)tTjB-zhTZtcHQ-Mw*;WN`0|Udo;;>tKpxxDZ'',
     ''RIJA)=%h92<T>}=bSV+<d#17F&2HMZ=Hqc4<v>LdO#Pvy&IV3c-}B>IVStS#12j3U#4#qu%o0ui4v=N'',
     ''EBH3Uor8d^YUg$Qy8E0vFj01i&<~nhZ6$Jb5U>RZoN*2MbecTBrn@seyJTR3@ujn|ED<y7E-d?WY~ez'',
     ''f|5oa>HToA&O9KQH000080PluLT5$InwA2s)0JSy%03HAU0B~t=FJEbHbY*gGVQepBZ*FF3XLWL6bZK'',
     ''vHE^v9xTWxRK$PxaoU$MvF5D6zUO<NQ_0cz_zJ2~SVJFt`76^6j0#g)Z|A_*>KM>X8v-e+ca$z77NeL'',
     ''+9e2x5ucot^i$9S1@1W09}Yn{5@>X_1RfoX0nEBlB7)S#QhH=(5;IQOjzR=0#TA>}I0_k;fZ365>#ay'',
     ''DF_~nTs?RO9muXX(m;OMYnObrB$Ekw}_Q0mT6qeMBJtITErU2f%q(USagOjfUvnvbGss~Un(H6WW2`a'',
     ''LrA+O482O@ye2G!O7ojcio2ppL?YF)N&)6Z+^uB=)YsCWW@*HU2aKF3<Fpb>I(k(Vn^6!1qfxpki>fw'',
     ''T%D7Upvd^+&8E4XdE0q1Dc4|ZbM7=BNVDtDe-%Z6)x~!+-1PqL?GdUHfslxX&dG}#g;_G=yD8<=SeAt'',
     ''$Nt>Khu8AfT2O?VZ`FH6bGl!ZJ7*+O`dJFcptn)aW+fjE9Fwpnsk)IZ46B2Hv79ZiPL+16>+91)jgl2'',
     ''&T(x)8!D<JvC&<>c(>{Flr9%b_|q4sUK`eTpaG?cN=mR4wgtnX7FjBVaVe=j~=Rx`^*Io$pyhV(v*S?'',
     ''7kK+#N`^0)^VPUeopfQ8;lUf0eugqLe<q|H2U%U?9IvB=!e70<Fmte$5<B-c4?jlB3)TRh0K)HZ|K}$'',
     ''bbR(HqV<>2$=kE@i{m5Ocq=Of831;$mRSkydLceQA3x(jC5n}=n2K~28XH$K9O)%<rdEsl<K^+iJlKL'',
     ''7zym!WiLT31F4I-I<P~pE&wn^Pod-8raUExR)#XmrawC386Ul2XPd*&a1C`cNzrXsFR`oW{7UDR+O{'' @ ''*'',
     ''ej+xNhNw0R)&TfKqh_5S32WEl14<n-7si#{D*@KV@U<t%qWe<H($DJUr6`KRNHi<6_{==|d7_yW{2)u'',
     ''E<iYQ7QO_A_B`KjS>-BON{Zba;Al6rG+Q9!2M8r~hmKx*&Yu1aLIUSQW9nQOj`@k*A3wXat0IcK+dbC'',
     ''f>!nYbhWBb}9wi<QEawH5|^i#?wONMYV~u^xu-a3_*Y^Oyo*L%?pM*rvGNFapK@_^n1oUga>*Tf0o8O'']"

lemma good_DATA_145: "good_lines DATA_145"
  unfolding DATA_145_def by (simp only: good_lines_eval, simp?)

lemma lines_DATA_145: "map length DATA_145 = replicate 150 79"
  unfolding DATA_145_def by (simp add: numeral_eq_Suc)

text \<open>Lines 295 to 444.\<close>

definition DATA_295 :: "string list" where
  "DATA_295 =
    [''l6olk3u0R(Z{jKe+gNW@v8|R;jHScaqGI1WAumR-7{Z)?!TRn%(<H29nZ-+}d_+2V5KMR_)S6eRI<9I'',
     ''(&UYLf;HAc?1MBLKvjqvZ$g`a&E4c#WvI3S3ekk5hA#hZ=_U|K2eUd5!0J(wOBQT~zKKaBed|AvaIzb'',
     ''qKl{JMGUfLic$<0Mzt3sFpM&srUv+rlQ6G<TzZwB}37!Z<zf*BkGM;{we;0Q=Yp$I$>tKhw?)^VxCuG'',
     ''oq@gc$6BU`gsPwPA(#gww-IU<cX6$=_QDljc(ur`XYV(PNK-Nta=vDzmg6gZ`;_Ju&QqRz{wuh&afOn'',
     ''RygouE>K;TRs{_YIMz3y$3A2YH%!62p7H%|5c><m_AKK$NNph3Tj2KNE9X}gycOeRC+KbKWKDmG2&nD'',
     ''5;_>?dZ!^|hNL{{m;RXyAcMXycaMSSks-g75GpyyaqypDGHn(xdVS{|(&Khj2Mzr~Ba_R!$1t&cp`#t'',
     ''X7`E&o&<Op$Ip1|pvmx0{J4?xT&BRrg)r;;r@_ty?=jgOcnA!ROy<285SYLk|7xfd^OuFPGi``fjYBh'',
     ''LY6}N~y3f3k#yszMW$eiNk5*9!S0ofq~qAz};W>QIp^kJPUp^?HO1lC%?`?Syx-=DxMBO$5bKa~h<zD'',
     ''UU)8CC#qv&(c0#52X`s=BBohh3em_OjFzi4cIbK(=`Te}@fP%Z)Fwrv)yuaR#re*nnbSE<F}-ZVHp4q'',
     ''pu5`L?2w&WRI{%Q&vFk7AkfN?8q8(A!D^8ZfZf$Q5#`^4sep;8Q3C;>sZqdV1%qf@Jg4+JdBVvCG5SC'',
     ''nWc3UAqUS^Q>-pB;?N9;7f4()<dhLbgISZ!vOii-idE#2y%c?Dy|~(z9F7{ulTq^yX4*g`%*d0|ZpOT'',
     ''QW1>SR;?F!^zSjqPtC-%m3=T?=CPo!VZtZagLaix_7DxaH8R+}{Ll6?j<GK%zVIsn6|FDV6F(NN=*AB'',
     ''XqNpGkBr2R&`4=wA#S^Lpn&>}o<k#BkXLi`|?F@>@_N>F4e>MCA-CTeuCgvU4FM57>F7I`N`I>A=6Uf'',
     ''|&ZhQiNObh7Wof^^~Dqs-KA@JkD3wfRmm^|Qie*Fy&pt>GRX{E;z0?e*B9_YYrr=%z@J7t5q&!;`dA$'',
     ''X&G7L}Fn}8n6qP9aU(mYrT|14;VC?gp&f=%&$e4b-;}w<B4l%IcG+WV)^#tz;I59z%^wp)}|)}JgSRG'',
     ''CdghI>KcF0CU=I+3yyx;^>RpMce_q+)>75*b7@hf^{#Cz7`j~wDWR<DuHHKy1NL_&b@m3URl20X_gJ5'',
     ''(9}~ieJV9$Db+zlb5gn;DH;7m*dm@+BVK<&!{bA9js9dg#6GVzH>~0335rQoX5yCgB<(q96xO&AJJ;+'',
     ''19pP@vSqJl_Z3ZVu&5#)RjIdY<uS)OqppaJIb*gay@!CLcxV3S;{ojt)<21dq23n14f`k=w1;H^Y_wf'',
     ''>eHDBZ{vx=27LZm4{qx{kX>`bR(MR#<pCd8SNTdakgmCrK0)19E&J+M<Tp3gl2Y!YIWCQI!gY)i%=wi'',
     ''?9U?^&gNMZ^~@f0T!GU2#d=#Q4=&lJmy+6)*hMYOjZ7}wy!zfFN+Pre-i3))Pve9yF8vS8}>!Wm5UFe'',
     ''-@WDiL*NKo?Gg4=%XCHpA9i!^*l-%*4<#+0=$|2DElblWTF19CYP^D*Uktj9=Ix5$PDN>(N{<=6m$R5'',
     ''1j{E8QQr5AlEv1KL(@_e;C1Q<%Z_~G7i#50q2Br_Tj#Xriwk_0&j~M-!#c`7K7LNwjLF{9X9wToDe>X'',
     ''&5`Mh4Rk%0xaLG13>#MS2rINLZo_5|Xn-ZtN-e8UR&k=8$7-@e|}{7=*nLZqWilKU7lpPBJKZO{J)+C'',
     ''QMi{nYvq#b)a;?<=_}z<cc#eQoWe*nM-*O<KKG+{KzG4KN9NtDj$G&`<CNd3A>DK=-;$e7H)J`Rhd}-'',
     ''lI$eFvM%_!Ba4~-rj^k4^+=pd~oW=O}yjOW>X@CidVI+SY3h!iSa#$O-Y{c8HUe~x{cpq+Vqpi>}mhu'',
     ''1R>biBMJ2-UTb6DR+Z#r|6l{8s~wyLa^A3?H9u**R6F>#(pYJ)K=3%B8_i*wuZnT-OO@(`tPtNSREsO'',
     ''EoE^a)GcrgvDzKKYmS0eDC|`8#{m9sMrtq1alZN^v*q2I_bjhda!eX4ac{APcNlHe2nf5X&`r#zLC}n'',
     ''PC8{7pGQsY&Bt)oMH#CYW&V3M!%OEx9~BKt`g{ro=rTLp)?F}h;ODv_Y}<qD(~$8ZBh^vzI1yk}}3P*'',
     ''yVFhrQ<dLjNz`SLrQOPgKPgN1D#e3#a2Utbu!!JY5YGL46;*mrq<Jab09;q@`ORX@3vKgh4AHqsNJac'',
     ''Y-3PS;neTRG<0cmDJ!{)s)wS6Wy<QNE('' @ ''*>qpYAXRlRG8Z`1LXV!yKY4E#{E8}?N?k3@QVxpQQJq*PeL'',
     ''G}spw<yLoGjC0iBLUCD42__YfRNyKHoc^&8a?M-nuCykL>H~QQwI?2Yr?R&p(W_o=>7KMqfZN#fl?KA'',
     ''XF?dt!=uM82^_v6#o3@0@-Ok+uNlN1ji?2GJ39mKbzPf5|`4(4yn7u~sI2Tv&bBVmow^_Cr^s!nu`<='',
     ''ea&uPiG^hExip0h}{tp0sN4xB~^TxRDU6h=T0Thx32ldcdUmO=SX4H`}RL-WB_+djQbFrwwWZYZNUS?'',
     ''SwlnyIi>ZncdvW9<E{vCZFfS66sBX$y-h(gxMsGz<%Zulo7XpnLMVx)zUb=AD(pQNwpWjXc?Bz5G_a6'',
     ''yv7P_pO@Pz&f?Z^n0%KLzjhVzLlfi+fFvj$kAEjR#*dpTXX7XDNEfPFm2YhlvC6pNP2s`CTnBOVO%1r'',
     ''CgV=dH0fG1<E6`?h6lPey7I4FJ6+0I*R$Ws>bg*J9K3P75;1oQ?+$N|@ZT5^Jr1U#%Z@$#qdV=o+AeK'',
     ''PG467Y^x0;z(8{Lf<R?AtXOjT%!K`&43+=c`--kAJT|z~PYRd)&JL&sWGauASp+}t-#&fyf@anN)7N>'',
     ''{X+O;++UE=Axy`-R4(KVYT@YS+P@nl<zCBE0Pxn$Cynij+EF5XSa|E-Ixy)6ozrALL1uQ)VSw$*jFmU'',
     ''){l=nJ;^)|#f8ws#DSngh<Jn+^Anix}G7n9yGIQU+`kr|bM_L<{-TvS51W=1GVmRu3y6;j?eYZxFekl'',
     ''h-!2PTW*27RJ1D;$RZ{F;DSU9!dItpqHq*a4Dr&*LA68uU_3Ch1y=zkkzYlSH`c(w0wo!d@I$fKY#z1'',
     ''KRqW29-90b&WS;nD)RX%FcTB1xeB}QQ1>8~>lnTa!CN_3=k5>lXRf(4kOvQN$J6zvvi;|?>95~^J)8L'',
     ''OIsZR-(&mRRNWLPMa;JH2?U+=*JT)%N8+~dV*?`OIdbMDNgJw1%r|yn9*xc;26ua@I3&lffYCX1T|FX'',
     ''ZF?Z3z1%}*uvXZA#8ynM$)IB7pu94&@?!ymTZn(yOHu|*E6oebp>Eu?KrnsROC0w{UkKoRt<ydHM7Ix'',
     ''sMXbugGiLX91PhAw5zX9s022JCZ+flXtTqM&A|CtTf&w2|^Vo|*b?aL~-Ry7o+`5!+Src9DOz<7vvH_'',
     ''f^gulA+q(SH*yoV?zxh^(-(F3Wrson853IdPs;9ZI^MxAYk9{2cf}07*3LPL)DvbV~_)lEz_dJ@~c13'',
     ''7It)QD6Qp{rbpYG{~XR;cd0~3ZA5F@0^-+Sf1PP9#XrQj<yy~pkp9)OY4@0`!fH>|))7N@D9o3}KM9k'',
     ''zMklo&ykhQ6#B}Yd9gL_st4Q<(q&8U?iEF5#?yOb`9H<4twn#&Jl&-|96%-l<8uN@W03Z{s(gZP^_R_'',
     ''#HyUw~Qvdl@JuXmk-ITSxZaJSt0#1<Y3H2ZY5Qkg-X9a($ZdrVcC#XFsj&^nsw3c=ZzJZ^Li_U@45s2'',
     ''cI<rpSv8$|$Tf+Zr%9Grv('' @ ''*g5*KWfe37SCJp?a#O1r=)6<!FSKKxe?7G(gj%;gPNr0@?HfPqhB7qh3N'',
     ''7bxpfTLRPothPKfTwi!mF#<m58E@fQv2hz1NFOpwQ$E#N?9EchwUE^n99&JZ8)Lq5~P#AHu|vk=@'' @ ''{(H'',
     ''-_fvYcesIdynm_CJ%CnqGR@8sH$Xb>U=J$YYh$tiJ&Wi5$pn$!>N@E&hbMXGF7hC`T-O8613ae}9>;I'',
     ''>xHl*=%Lk>X=d1_d(Tjz5_0whF-a8-{KF@Anb+$Se??}s^+Pv@s6W{BpD9sJTp(^;PgoDNrG#p{Nh&*'',
     ''TKN?`9yM5nHF5~soIv&LsXGC4GJ#C9b0pWx8sV2TpY)M_;Q#{iq9kKZfW*2BEhXXxCpxbkhUgj8RXTl'',
     ''Y`P*4(9FrGO^y*a>n|m|Sl~7Y*6Y?+^Ws3BA4dW`BI{z1hUIgO6s4zc+H!tvkJ}UtJx%UVKH+?q7a&`'',
     ''vSJ7GwZ6sKn=meR#v4*e`pZCbDQQ!u)o~9SAP7)YIu$9NA*Cv6+=YLcr!NY|Cxis*Hv(@kBE4<H;O|0'',
     ''mlqG?`|fzoH`T)=82uMeO9KQH000080PluLS}h(`dnz6P0C8sk02=@R0B~t=FJEbHbY*gGVQepDcw=R'',
     ''7bZKvHb1ras-97Dc<HnKy^%P_5T`g&oaO@<ml<wq;yvy~fydOGA>m()XAP^Xmh(LhB0MarnR;BJ4a&@'',
     ''n9?{IIDC%OKZ84Ny1Q5#oX<y6U%1ZH|>x_kP2#-8U*K1Om?CV8errDQD1MUhwYMP8L+6-IaAT>3{xSB'',
     ''pf6Wgb_l6mLIVUWs?_uS8j_MVX6axyp-D%!+&|!fahGl58#>68sdmt7PQ|Nmj}t3)5R@ew43d5th;y1'',
     ''QY%zKdxj{;>fv}N)0ZY!bk?>mtmTUS&~X+;Fb${q^hZ&Ahd}`@T^iJp<w1|EV8^5v0TY47CALv`bVDU'',
     ''9UbY}MtL?%=Buz!vT&Z2@?)7MQ}ZOvqcD~AulXF-W`3^1a^bWsY&*49M>O>WmR;s~stk^zMVMqGF$WB'',
     ''<rt1;(S;?^E#^rj2h|?{v{%}4CUc8>X_~Go`_apH#iOP{UD-m^hF%oYQRpP(+ARUSKL_qxZA%ibR43T'',
     ''hu4=BhBpD_gk_=Wsal@xL*v(nD%EV~cWB)+I$?SpVH3k9RJI{(N|yB&)pTKIrlm8XWf;syU4nJ>HmAm'',
     ''0V_k;R2nRoXKL0<{c_yJ}@1Nfm`FxuYqP(_$391Nmo7)E*xR_@my7P$4}{``|VFKB`|gfCHkWDwPjgL'',
     ''e}KH;K#TMwSwiyc6YN8{G}|zI4ncc^Se;Vmq61ZnO2C2UHxES{69QUC2k5!0{ZFF?+Ce77UIOPtv{FL'',
     ''8+tYff-GFhAQ&DU9X&gGCN86JHp|l(nfuvMEN3D}RB$J!;WUU~W&?FBU~WS({#HzZpBZU|EUO}e51>d'',
     ''HEe3`6@7Lk@&o^HT#{4<_{GUA7kVD+$xF6r;8DNCruL?O!J_fj*VKFhxctAj5Bx2!fB-aQ>y&2I9%|O'',
     ''SNb?E8m{K3#@lKg-{>IXD$gvav+7DyB!FpFSmBYHLDclbw4b0QQy0P4!lD?JyW1Tt#?gACO0$VEy|3!'',
     ''dXh<gk5aY5s8HCG#vVq&E~_^tHEx&b*(p4KHZx_4KEPL;sI?k_~WzzFMV8IRJjhAA)HbW_Kr7MJ0zw?'',
     ''I;bE66eWkQWSYHu(Dq-A0*_}LW(KS92rkYY~_>O)LmaDA&jcZB(gxvmm0=t#ywFchb2-+k+g|zXCTll'',
     ''FMw}Qj)2?;0gc+H@EMDw8c-aAxKtt((<+M=BA+2IC(#Id$c$73z%I+R8G_+KySyrR3IuK`l>#-Pd@%_'',
     ''D4!sbt9T0StC9r9MZZiqUk7T1w6lNk!73jDuN~>5Bv@nhn7Pm%Yi~tU3r4sefm(VRlc9&v277q&$Ln1'',
     ''7snIWh-<attHG&NYE9!$>?#sUDy5Fihr2k`JZl`dl7e;_<o2#YlbAdf+S(q2{EgLDZfV6}poeH^0(l;'',
     ''dfYq`+UdzM+(1TD^GMF#L>mDQwN841$^$l}u+N`|I=i>m4xYv3RaE(zQqP0dDmk!XksYcsI{s<Cw>`n'',
     ''=`V}Vb{3lp)E>_x}ipnkq)@8Y2V(|O*AnaNbR;xV<Z=Bv*m%!k)Dq>?@StqaJO$^B$)7LEn%LCNv0~`'',
     ''mk>AxO{E$|NOyR4pTsiuZ3mEMjTTLC#IFiAR*C8@EKyP+3591ndBc&WivtM7wHfO(uK})ZbVBUl+XqL'',
     ''j5nD>cw(A>kS*a4OKWab5_Md6yG;HT1i@})q(R|^~sGdx-joDl$hLf7FHSe%&FUeA9ytnj+7WR9yiRC'',
     ''D0V!yY*AVZ)=h7adW1!Nu!eY@Lc-oI|Bc@U7$4Fcb2?Cr7GG}pZS)*HGz7EH<lU|=I+FJQW3XS<Ph8Z'',
     ''-#HZ@7WiYHG(lY0cxaVhdz#wbr=SZS}9-mKyE4rT*31(xP9twZD5?TT1BG_BXU{w)KYJ)(@H}1sNV_4'',
     ''ZT|!_8Tbpm$Pwu+%|S=8Q@yI#}334_1Fn+*4V?H?(73AOvywM-ddu*clOLWk>Cf-yz33a*@Eeo#y1-a'',
     ''V|)GO&9S(4p4LnSue=r{&w&k7K?$K3=7%auk|590byM;@6X&e;NJWvV(>yR@Em+7@-iMiWy|mrt$~Qe'',
     ''+W0yMiWOKlJwmS{X_Mgj{quv%#o1X3;4|C$6`R0HA3$Q1={`NeTM*F}0^*?rW82&7aGe*kKvbewf=YR'',
     ''k0uYdXWX)A=M2d%JaZ2vuL{<{h4UBjL`h?Jh#zp(D2ctP$w|6XqQyd5uGK#lF&(rV5a0`ziAq3xVOuV'',
     ''mN_y07y=bZvs{VtXe=Ej5>bW$+JJ1|lR9em#V%sfvHC2E)!e4@T1A>$D(0Wu4I)Tozg+g89Tnc2-Gt%'',
     ''i~<oeK_;pkPW=CV78tPI-Evj1uhi1jtZWzfBAyqa#cZ|+%Es}dzqn^A*69%(bI|Cp03NPgCkFb7*_?m'',
     ''P<3Y)=-Wgocz?b=FY-UisQeB+D;<APgRYlc4|NeH7-oG~$V{x(EAH->`7%WlUEGq7HdbqJ{+72RaD7W'',
     ''ad-Ji0;i+4{>%*bFu;kf|E&Q?DeQdgWJ+2<R2cM5j@VAcqGzs6aS{u|ihTqJ40sN@Fi3lEw4F~K78vJ'',
     ''nE;yz;tqD$4?ARaluChUv&3X%8}fNWzE1IGSOSywbtjN{tH$c^BDGX}XCb=qRdVvM)0#jV9ScqnVX33'',
     ''J$7L2aOV)?J55Dpg7A``aa8tPWTU7$ThJ_h1(hu9B7CLQ8GO5@NhdDaHBZT>Sd0--sDVY=jxhGK4jQ)'',
     ''L+RcnI#c%t?xPW8#=p!koNO3utSWeF|6+OvoS1&)<czN|3KWk17XN-DBikkJoB2^2VURss<;0S_!H^%'',
     ''R!7NqNo|)C!w3n4J2w<=B>lM(-rLF5>C4lrQx9z$@BD}F$7k<ez4zRhno8ywOi5~z*zjAl9x;4efD2c'',
     ''^G?S&mP~;-KXA6#GhKcN>_z?s4lz<&^s^a$c6+C^Hm#^|Fi)l5tx1?ia7!O(4CmeW2Jcpzr)3qSs1S0'',
     ''{t;|k+EC5K0WI69BE4A&Swi7Rd=3zB0xkwA{3Y6blc3Gl_RU@#!s*$IdCX1NqFa02i>d(Lw#gyU6Mgi'',
     ''8(ow29b!N-W)O+ZqXFIDW%uZv*dBNlZZOAmav;4ltezSlY!9L%(;jWV_&0K~mvIJF?`=i{eYpZx_|D#'',
     ''GQeeXW|302SP`Fa6-B!a5a@tSScnwA}gEQ9ppgKaca!f7Sau}k3^c>NrG$Acc9!T!AYC29U_`}<O^)N'',
     ''OWZmvj$BOJJ9Y?YtUY|Ttt}>4VBwl#S^*6@=9!a65aTgs1%yp^DWOwulJdGhPMO^&MV_IYBI$*BYwDw'',
     ''tQu-}!-$w$ya1ZCn8ITwRa75}~o4#6Z$=GYF(aQ+q>o4-<G|6ZsJD2tNM5c0v!~?B35+0{@Fdq~S3DY'',
     ''662jMp?=IZ)*{MF5{OFYn9G+|ka4a3_Ky*G7F=(q)0F_*v-g`421DQN`NJ{mP-aDxvpdxDdI4abZEf='',
     ''K}gH3NYroHVp+S34<8g|hM-GxRL~51z!_81tMHiK41Nty^gA&`5xjlm@><HnLpb0f*^)_Gt<_HD2q%W'',
     ''&DU5B2ff}lc-kXG9SY>sW%)*s?aJ{)Vd6sz$6BKa~@#~JcVZHBg4WTKve;oK@g8b+{-X7;ok+Up&p`G'',
     ''kv*g~5*VZ8Y*GI)Vom@%RfJ7<g!4k)CwZmFu6&sk2M_gJQSO6#lUJ7}QHi7@1F7DX?r861`H&ZP;5}y'',
     ''Wa*w0;`s(T&f$C<wq9^G@>Jco}+|hQt_c-V8Bz!zm2jF#cLt2hCThk-&(Ik<poX%jf35cLS%N<Byn~p'',
     ''sgiRuOU;?~UewvJMh+Esg0py@+t7G2=bYCuEKd-~RVZ7~N8>~}ZT(6pGFW4bj2ZYx|3i@JIOodzcNWu'',
     ''Q_1i;-Om&*5?3@McAg*>nc#_!D-0BT)~kdkvqcl9bNc)d=jkalczgnWDTz4ZTlN>h`$bB)iDiqak!YW'',
     ''Uv}6E0GL#A2_EigKR)@CwIuC2GXDVuse&QT9rc=V2!Va*JsQZ?eke1)FCAYo^(5^hG`j199v}D?I|Xk'',
     '')wQ%d@qA+eZJ+Zf=rolk^reU0A|q>;&v(K}+N3(GJ&$r9#!#x3wIOCpB^=MCbj`n3`9RUuSRFtxL10x'',
     '')5yB4cBdy7X+S`HE#X0RhssJKTZefR!;^4vLQ-o_O78F_2hWl8~q0u%*Zc4$x0#E6goX=0dJEED4NUd'',
     ''eo5Oj1n&F*mDMnJbeflt#dnF4cbhCxfsOtSz+*58-*`!118L`KlSMflNtL2%&>eYRd9XncjAEzd%~qR'',
     ''%I?Wjn=tVa?`^o$8iC5Dk{u)YIJ_cao{LQgc&JowBazw^|-TpqqLDjYR9PhvOf01K!$VIcMwakqY}LO'',
     ''d@n=RA?^|+4#|_>&a4L9|2hU83Y>tiN@LX$FVP~sSZi8q0^1mjk<Af*RfI-0GR1mT}zRf9nrbE@mPKY'',
     ''w<;c^O)+NM>66NZwEY->s~Q!_s+QrknFRv{Q67UpPckPJ!X-`t8lK8Ap0FU63T$q6T20BU(Ye1^Mz?_'',
     ''FE?21b>u46mzsLpSHomtn$Jd6_4F)1)AEjZy1+9Y_=Nzv$AQcDhOov;+GtSKlZmz$)`6=_d`Qb10gtg'',
     ''z;fU>J~V-goUiJz{ia@rlQHQI1b0ZVT%wTl5*@Vt;RyD?GK9<CT-DFWF1Y~&RcSVI+sc4k$Yu6x7#D5'',
     ''nxEDL~%YSU%bx6g7d{2HkdrIGdI{{?#$nT~S}{j26ipBLqN9E^c==;z($Z4I?$6GARPs6ZiF?{WO(JH'',
     ''tZ=DyK7~`R{c>Af~n-G^Ry-T3=UEHneR`QfSX-Y*b0^^yr4~U$Zgk1;$$86d__`gutzfP7K6=%nFc+c'',
     ''Ti9b3iJvClw3i=n$Xo3XjPm~3y9h$<BOA<{fF`f7QXEjp?Dnw0@P=6vxX^W2pV!+C<C|^JOmmoJ40mm'',
     ''amVngF+rWSJ#KTh^DNANilUZ0YYc9jGe@;s8wMnY9Ojdwg+gzBEaxkxRjO3u+$^}MIXH@ElZW30)?zC'',
     ''KXStK03Kc+(;*LFON5?tTZpu!cNcF`t~Hgi1N+S?D@*S+c2!DwZzMAPVlsbIl_JGnkd!{sy%1&Cwm=S'',
     ''3`wT9qJbqEzV_t012R5gw?>%pn=a^MzI}BwMc7a@=WFW<dbVUtn^jrwK4Rt=XUE@p{1FRVu%3%%xHD!'',
     ''DdGTmf<Z>MXYpL+je-bL3KPu;i9!ZRpE5Ohwk!+T^`-XqV#!6{EY?0z>DC%B@}$M=ceZ9?3Lm!%OA4w'',
     ''JkKdqvXF}BdK}${sI!1#$Kn*duTm)HVru7<OVGT48K!Gc*0Wg>!TtcRZ|1Bi!jlVYF-Y?VjIc|FLhJw'',
     ''nu08_*KBZLI^AgsN0YOldvcw@RC=du3<j+<~hVnr#MzK4);KXVyB^FPUa8Ww>@#Bk23xm&wf%s4GHQ*'',
     ''+e;A^22^2I4u{NDipqqTYO5?6)}gc7rCSwiO-2uZ$!HDo$WZ7CgS#NW7Loh@0V;aW?~RgSJ#LWw?5jc'',
     ''dmQwkPu_$p!M#7C#>+I0!j9m<j9pI_#d8U~kMxA(Yk#u_x~wZDkWGGguU7pX%Bgr9~Ue5t@yhRMc|{%'',
     ''2_ygge~HP<vnm6Wi4e`fJ1K%b~ygUpWM)AkFRE;pwt|(hkBZsT5}|_<B1r5Rc|cX$o;YkL(ROc(B=Xg'',
     ''q(JrrHPfI-g>|^JeoZgGwx9@WFiHrljR&t%nkOp}g}?C_N|Mp364$`u1Z9mRCJFL_6UA`G(fQ6tX^Zv'',
     ''w`CWswTvpo<Pna*H@-3Zh0CrndDFvrsui{Dzsqz%ICJ-|)FVSVV1C##9#b4K?!ymeK+*u2y2?xXNQ&V'',
     ''roL`2kYf6Dj=%jO2G&QOn2yi1Qp2&uJKmhwQd^TYwcIZ(5Ij21~KVUktLsVvl9<l3Mwz!=&>Jd90ny?'',
     ''2$7&^FSqwqJgX6siX&GCQ#9!i@ls0DlPUGbK8`sAGI%GzGzsF(o*d5sh7>QPhXPJxCDQD6p{'' @ ''*0w92uw'',
     ''a6J94#L$`xpK0xw1Hvo{=(hdwN;DhO8}?U6>B6@MWPy%Q&t$+Nz|D1^n4z|HJ53?f=w<?uZ~2!N=op{'',
     ''K(FhgbWSc*r<y(#=|2okzxpJcVl4Lf%P;$J3r*H8URODaUR0VIL4C+W1nDZtN060CS)<C`mRt@4Y7);'',
     ''7bXWTIj+MUV#o?(t4GnE^F*apnW4(GjyvwmmS|GM}7HJ9rIbfYHn|$Ys*Cs6rdm2nA+VQz+fM_5yBq3'',
     ''q_96bm4nxMt=kfnKuSO|+~k=(-@2ac@+T7)r}CvmJTZ&T8t$huqOVUbR9n<|uC+7<GiL|(XDkrwjB;B'',
     ''1DSZIneHt?b~-MNXK}j7EIYk>qCrKuH>+9Z{7zCIQ$Q;JkdcwsvP@k0J_j1b=8*$cp-AV0WIEU@8UJc'',
     ''vlFwr^u+$>q?{ENaz7<f0azh^h%QmvlT-_1K5NORr*IfqgIoucTAGf&WOO7&aZ<km1p8*9s`o1qyQ@#'',
     ''tUNyCT_<LH&V^Sc`rDdL`cU|*(;weooLx<V*Qb}SYh7b#aMH}BIvS>Zi06!xM0h9<(e~luO;>V(5p8T'',
     ''JY^&p3DK>6FQ&MK8#Hm|~0Z#dXEU++Zgahh4kpqc+27TyN*LJZ;0(wUIDltxY?^w+<Mm1V?l;z{md$T'',
     ''Muk2=j96#9t@cqW}zgipdH3Ka?ufc#VRi|@`r7K4Enc#yYRC2<c3SX0+5d`{&Oz)Ka%WWUpm42QWa?J'',
     ''-cF>=P7I-iWxN9pW|Lj1P<7H(QVl$Z02=?eS*o`JC??^kNgs>)MvesL7e5&Yp4OJB~8>pdG$`ZQ|+;5'',
     ''R+P_)FoRa=Ska89Em(fz+z~NQ3;e*'' @ '')LmWk%N@GrY^Ppnr70C3aV2%mLf;XBdRS#9Mq1+J1U)qr?wn-Z'',
     ''rD6H@g&w5PXQQ-|wiw$%oZn>|gCJ;=mmNzJ`0KB=G}P_5m<-&mYpEyai&s=_P)Jf#4@FW+KJ}0Kv)|?'',
     ''9g4r^!1=JFaDlUL*lt#8)OGC0>?I79J>&fLroS(k<;q?2-rFi+CF0*-idiCP9fOi6!5}v=hc>k7uUrh'',
     ''e(!`a2;?d09nrAxF|XKyCH(7Kc8TCHMotXv!!(vAdp4!G;Nkqf9c2Ym4!#ot4M)gtm^xI}Nkg{F&sF='',
     ''<ywN`d@~3&}_ntOjOIBQ5V-I<WK~Q?hh#gp7~r&KW-5?j+Yxn<@95NB5+7H;3tB3;YxWbwpNEn9f10m'',
     ''Ww5^7;FJFF3G;l$+A-1i260d&+;Pxnd3byJt|)vI)>h~EnRO-u6bV8w=A$h#X$m9sTCRwS?_we&XQ*h'',
     ''?AM;Z5qXO319gyLaG=|LY+Pp&ra_c10V#>fvz8m(e!J6)w%@HgUH2mF@<}etUfBu(N60w7^aNNMw!!i'',
     ''7Q3KiZMt4+;@atcH12%sY%R~R^Xgc=~1jSch|MFMAKJ=enVBZ55=sz5AcIZD%7vG5;&Im&RFjW@h#ej'',
     ''a)<x5Bfk1mU%ZRfQuvRAMu(5b9s_-IAMijR1iw*EI`08lW)Q+)M7l8pogKnq%k4l)S{499|#N`XoRG6'',
     ''zdz=|T_Hv?k0gH#oz=wVnKpxzTFiG3LFYlY!JJdn-(ui38)=5}=V~BvqF?^A_@9LQ6Gh#r*mFBi_8wi'',
     ''`6~R|G~^N&n*vbGEAZ~%;8pS<koYu17>P{P<7g&!$kEcZGPHVS>Pbj2jRxD4K{5%$=$Wf+PR0GQoi#w'']"

lemma good_DATA_295: "good_lines DATA_295"
  unfolding DATA_295_def by (simp only: good_lines_eval, simp?)

lemma lines_DATA_295: "map length DATA_295 = replicate 150 79"
  unfolding DATA_295_def by (simp add: numeral_eq_Suc)

text \<open>Lines 445 to 594.\<close>

definition DATA_445 :: "string list" where
  "DATA_445 =
    [''xTl#eYCg22Z$+Kz69Z8M%2mrvb5?B3kd2BWFm-ydQFH7Z(8OBB7kE?KyS)5Pz9ENd&^`QFPwRJeEiyX'',
     ''loDtCpPV~pPw!3i%l*ILuYI~hSV;F6Y>{W789z@1Y_HoAhb^pCJIuU0Zx%bZbHjlTr+PA;9bl6ye&oi'',
     ''gWTl~^|In(8h^x1s%NkvV@(P6kd&joAyEP&NwpdPjW?4C{CbL$i?bSr4|B{I$|ca;El#_^2?<Ps`(|I'',
     ''{ZWI-Fu}R-q$w8y6}SAp|ccuTDR_xe6w~znWaUJAL!!55e2hcVI-m3?>&B?=NU<&->{J?Pa|y+~X;1H'',
     ''*C~e`7B$g7<3tCFbt|r_T@3Cf~pj4IA*;gXp*#o_H<d6IM*g6I+NOs5qROCja!j!FdhKbpUjTRdUEdJ'',
     ''X1d7{!wI0xjkSnr1!w;HoSME!QSa)Bo%UN^$fWME_ZTT6DXNMBAvZ=*4k`?G9;shF7!IIT878N4R6yq'',
     ''~o>Tnho8R09<Zp@F+nT^*P2k(xmT1BI$rduY(>5IvOvgXmd0D=lR?{h#1XQb@+s?Gnszt?B=ja#aZJ3'',
     ''<>Q`>c$7hSkzQ83mh7&}PXT|?QHTPWQ6YwGM8y8@uTRf($79^F9u3hG+0+A{E<5;R?j^%#@vsEO&lM`'',
     ''dr}m-Y>(GEF48{krG{9pf^*lh!AsvTN9P6vFMP`0CrQfb{p5%>!3D>i~kG2gV;@CTRa*7QTR1G@TJvs'',
     ''8e(-QFmy|Pl4I)P<+r-^te6Hx>Fh9URs45G#`%%kV$ly6#f2#^SjOv!`^)28DjkSt->T-#EFxd&C#9>'',
     ''YMKX{<^i9rxRYzJEs@X7U8}_TZgBR^i{S0#@'' @ ''{(c)lo}W3?=R1OZ*FQ}biNRnFpt5UW|=}q!m#wMaat3'',
     ''^MTyZfQ%Wyc!Pz7ua}1s&nCnxBze}<>e^7KLxsVR1iqOsl6S_m96FlbXRU=O5QrqOuR*r!khnR4IWd*'',
     ''P-CIO7&FhfUU3RE=Wi*Lpqr&vJDm!jHm3`uDR8egIaJ_aU~Kst>j`h{UxAK23X@WQ(si%3F|$p`2|L@'',
     ''JYeCsbP&tvjYHc24x1e1|}_JfYB%I4yaz@QK1!*-)6x`>nY>QVBbaL{JY7-W7ivn29y(heEtlWdB7fG'',
     ''mmCB-eBWa)#{8c=UE}w4ZJZP5DmPRD};Z1<a5O5{`C9+n2)v$-CYS%e$}l9*4KJbuP#u+c8+nAs_SvL'',
     ''rmoMNcJ2_HI3?r1B?F?hKdBa(Rc$R$u|TZ;K`+fkkopp4{~SKu>tfl3-e;URPBok3eEDB(owJ2V2T+R'',
     ''vnMSLe1>Q+BR^H)B4FL7_fI)&n&DgI#@v3q*{!Ocz+EfXh=)TuIirc&Cu!6oD0*l-Z5^P<flBHK)eC?'',
     ''y}2Tq+D{2<q^!PfpW5r9+;^xUsu2<IrW-f;#@8$n97TMph|>S9-*ELQ%$l=!cH)}YKepXKeF-_G1vkm'',
     ''mMs?H?x>-@$0jAQVg^z{5-W#$*^KQ4`99#;@'' @ ''{Xp!>9Zer~AmI30LgkBl;sY_@+^o|*Z`!ap%zI&M57l'',
     ''R2yQ-?g6AiS!GJ4)|`fx?%cNrt>(<#|8BqlSjPo5|!pb{_f2WeKw#zx?Je%5lma(zHlWVDLC6BFWl}h'',
     ''X&_xI+7*MiL&s{<fL(+Sd>g^ZN%Mt{RkY;hf@'' @ ''{U-xC1(tOCW2H!G<={k}_{oX)oQ-m5auq0_lC9guT~'',
     ''l4Q4ohdq{0OhCLcdz<vD$ND*UU;RgQ2+nhZ*0pYbQp?!w1vy{Ft)0LAgcnDQ}upG^^jYal$r;VsD&?o'',
     ''PP?#kxWs^um(AJMkwo_Z#P7GZBIsE25fblb*`G01z5TG+WgS9P`oBStz6**?|ASj%#8F?sR+;w47{5O'',
     ''MY87CSiaP-Aw{IKNbH?l*ECMr+(%B%yRj?#Y`wHUP$!)Z@A+3_Jd8JN^HNsApUSB<xBZrq&lAkpqtZ0'',
     ''SF!C=G${3^w#kxO%JP^@?EL#=;qW8xN13vH-YW>#RF}J6y-UU^QT-uU0}s-A7H!SL;0f_Fzg)dwl`0l'',
     ''Gf@v@5Obr}K}@kD9O@isdHg0IJs_AMkulD?|5=Gq>%SJU=d_-gci<e}###8?H;oGmoxA;=DUEvm8y79'',
     ''p!L%;dE6JDc*2Tzs<Z-*3RzTh-$-*Adr1z0It?977mh!Z(wmq!)1u7&Axpp!3SpgjgTU|7BeQEFE!kJ'',
     ''gsez)&0+qj6JB&36WzH;UlH-{a<>yZJMWyt3a%%L~&^{@P|Mo#fRJ~wme6Y<UYDN<@Ww6AfC=U)%ovf'',
     ''fqBolNz$J+-8-F}FehVY-|9e*sWS0|XQR000O8?}kZQCjg_T=l}o!Q~>}06#xJLaA|NaUukZ1WpZv|Y'',
     ''%gtLX>KlXc|DN9YQr!LhVOm~k<$vDeHm;EY{#9(cG<0z;wDNWaBLwd8+rS=DXkDlNaEMWKS-IuR;D}x'',
     ''&0NIblhpR`%|<21<eckqfH_irh%#z>-yAN72Q@h!;SIh@#vMGq17&L+)M%RKXCj4~ET|~I*uzi+O6s9'',
     ''2SxZ9DPKZsxrfBua3Tl)RoDl>E6wF;E+vLc++nSFm5&NF56wsqZO1cL{gvpGx4Phjkmb3559C+mzm^h'',
     ''H?f*PKmUSIqTaI3?`gL>gll^vyu`lV8+$8554sZ+g~bNZ9WjB-U0v_<lLxEZu_|4>T<1QY-O00;o@hD'',
     ''loBHqblY2><|g8~^|s0001RX>c!JX>N37a&BR4FK~Hqa&Ky7V{|TXdDU6pZ`?QzexJWW=RRZ%%s371i'',
     ''pvf#J?vt;xB%U~U|V1xf?%Mr<ry^|%O}Z6jiUeik(6Xh^P}5+yrMv2o1{pJ{P;<chfZnBB>iaQw&<;F'',
     ''X6}(G6Mi#;nbleySgD#ulvb+NcqP{IgQ#rZHNuJ5p_A<{eEqQ<7VNz=cESGBp&oB$Gg+g>;#p_|Z#J^'',
     ''66??m8^S>|H%}u_VG5F{8tvWQ|*Gx1<xDT{QC%a<vEZR!xSW+@>MwQvIWYO{RiSNL>LW}?QQj3FV?HI'',
     ''^i`^+0z{XTt)O~}>?4c-^xb1Awc19S50t~Hi74aZOKv{riIUz64Q;a;mxkh-6G*@QKW6Zusd15RBM$<'',
     ''KL#`(&nof-5^=H#!brR*9Nzq}epE2OCvyjMa0s{j|cJ$=UKP+bY$#%xYnK-7*QzKqze~P;kLeGiSW57'',
     ''=$;EzDg?&3kC*rR^vXvBa<xyrQ9!k;7?-H4V{Z?({a0>_bqxYs*O>-F2$w-UrVd>uyUrrCHR?mq%cyu'',
     ''FFq;RUe;f*Y+S0qBFNAUO6G^bfO9_!%OPuQ9o4McyX;gdTd;@BrxG8sEw0*D_-nZr<x}*I0?Qs}A?!x'',
     ''+DheBYaqIL3(jmGxH~(CX?eKsb@VH>9JS78?3km4Jlz#+&Ht0J&&L~%-nbQy+T@te_dk+pVyB91?5UX'',
     ''V)iWy1Wa}9=}x{T9G-DOMmZ)`0v0WUQ=(hFFsV)yUv847^iQcxZLi~XirF&at!9RzP9Gkb2@E6c>^u9'',
     ''2m*&A?12N?A)$6{CSPG2qF2RZ^ERRlA_v=PPqAywOZZ<u?tGPys@TYDhb%egtv))vHF$#$Lpg7EvPD9'',
     ''NOYs9t6SzsA9{4T<&(@cPjQM{g_4uSotED*{i;(Fln@EBX+zT0F5hH4{C406uj0i625chz&Kc$Cmtlg'',
     ''=Wr#-*&>k+k%mq7^}e`la`Kg$gmK7-bjS$B!fPlnOfrUjl9|4v;I>%EOtjBZtCmnK78=`~0!OqT2LS3'',
     ''i2VG=y|FlHOd~vd#7Kql*0&PTPz_e0!D!)855&eXUojMzkBtVliSTXaoR`XGX>grTH)TFNf*y~o=qcs'',
     ''qC!&{P{3Pf|<@RPxl?s%Pj3HAGxRZ1AL#=A~%jgfD$WbOyMhko#Du2^<tq7@Pgj9rBWxdJQjm=@0!%z'',
     ''?hGiY!WA2rLO|3gHFpGS!LpD0K@c04Q%LlXceHdU>1WINR%0;#k)?Ojw7ZUm*0Fc?|=eSMxj{rKzYkh'',
     ''Tsvzy<!3La-Pw*rTdmSm5FYgQ6_k!kFN+1Y9K}G1slHP2J(C8jipxgZR17%5WXjHSVqvg6{y;(c1aD7'',
     ''`(5+K4Dg}kuH(6N$muPO_!$A`gviTftCsM2>FgJboCFrq3-%h4=#8kZQwGGL1b%_#z&Q?pSeCtJFMH9'',
     ''_B2GyfER1Jaf%LQF;Gs7W^(csH$+r!_g$7(|Yq=u~g=Gk7=T$%U8N$UAz>2p5qs%HCg7e%De9Q+pgJf'',
     ''q1Q39s`@&oAX?DpD$H=<u&oUN~KH4Vr{$(ODj#?0eGG^JCZ`<`|qu=rUT$OVRRIv#OJ=}6&mpOJ0|VQ'',
     ''kesf5sLKotLUi6&?k(W*>Dgd?7=;N&RA!zT^X?!3@VT|9{B}w8224-24cW0H)WMujf>;s#3aGKw}=bo'',
     ''yVzoI7-!H{@v;K<$Xs395)fE&WqB(U76}Fb{SzRbVURfY!G(gRWZlk;!2idzjMf!sD%c=6hRYKtQ0c}'',
     ''H!vP;U<Bna(4<$`ypC`H7~t-P^B>lpg%&j^0geMc7PAT00IwR%5XKVXAP_-#$5@XH__yd88Ds7sGrA9'',
     ''sM;ZuB+k{475J0qf-`I4!3vb{TSmmIId(>#lgZV4Ax3)8@>+4FIvNte|Y48<F@2>4Npv=<yww%^qmdI'',
     ''z8;Or8TFSNu&FSlX|$pKgt)%DHI?ak}!AC8vTfu(+1l<IH|3Fm128cuqE($}|d-uy7NXWC)dU1ury`i'',
     ''ROUh?jhU;HS+Cr~0Cna8kiWnP*dQS^n2FX}cn&JXFDtxScpD;EV=`eJG))R=tcx?zr(zVNa(8@3xE^s'',
     ''BwD%Y?4+&J3V2;c_xg@39r3JvAWmz&f9Rq7kz*RLD6x7TtYK{2%Q``M%0r{d&S;4x)e9>Y2Oj|X%&n4'',
     ''M`Xjei<Sj$N@569jz~M0aJ>!F7WzZBk(mfEaCk3cY7mLtxrxuW2Fn{^lefdDJi@65T6ccJZH`R99`*-'',
     ''!K#96HXgU_7fEtwz5D#!i9D0}xg3g1H8LN3E-J#aA{pnaHK8vz<OCvb?qlX6(coTcW{QVNf68S@Zn7+'',
     ''db_fI2uTw;7*k|vq11y<}K>ZP~qf4nYki`Us>de%4^Auz}$ox-gICvU#mY+N;OHrZt0>xJU?-LnY8#p'',
     ''7To$=1y>qF#=>hx$Kr=EDl}a0=D49cT-wrT7*AE)S^so3fsb@'' @ ''{?|dZo&qlruRc<s{GRSfZRhs_i)C?V'',
     ''eL<p3{iKtPr%@~$&TURU2A&n9U2dgzK=rpu#+)QEE1A4lIbwAZpVrCfgBtH#w2zvkzDLIbSJt3FziVT'',
     ''5nl;VF;$C$)=N~&5vFh61<w7LT!#bQh`z+Fh*iLfqeDJtoUZVw4Xg&^#^0@ZsWnRp&*<-CjEu*3h(Rh'',
     ''pJ&u0k!ZV#<$Kf2`D{!OQb#`Yj22w<gGUbAo`{Z7R&SP6T%}62-FvQ)SzrJ->%1S2+uty=hDLSi%l;I'',
     ''xTwa%m8r}^k^i_hFGqaSn+be=YUcMktNk5MjbOeWO7<v^y~5z8ed@_og=L{ERyU$fL)?jVGGcPS4DpB'',
     ''7Slwhqvj$MSS*dR{5Ix50Z@PrB*!yrRD*JU{_Fg6_juqrr(Y!}u<Oqe@oDq8$VcF#rLEO#^ITFTAy$s'',
     ''l>DC>})I8PsrzqHD6Jwd0+xNgw3)on;wqO-!YzE_7ch$=TjryXq;C0pwfYh*Xv-YC0JJecEQ6T<RK|('',
     ''Ji`lvzbcsTk&!Szz=v=H7oF>4itrJQ!hf)8aot8yFXEAAS{{3eVjJ&rOS%@J935p6U>U#^v3=p(MnQ5'',
     ''FB5JL~nc-Ih7JYzREyGF1P3}0KmE%4h%bDOBlxxqO_*OR34(Mjs`sCWus)R8i$q*y!aP+Db5EM3#krm'',
     ''KJIQ<Gyc{+<ma4W}Y5eMp7hd2P~c^0Oi>lmfwP9nnz{?fSJbDW7r9%RF{PbeHm<2ZquH{>+&JUj=<nh'',
     ''t+ZfPBcO{hGS+&*{df<d$4tpfxi;IEW9Q{=H$G35%(#$lxMr`F!?2P)h>@6aWAK2mtSfNm>c>F~sx=0'',
     ''04d<001Na003}la4%nJZggdGZeeUMb7gF1UvG7EWMOn=WM5-wWn*hDaCxN}Yj4}g@w<M-mPQe(r3uFf'',
     ''&_XD$mnP0#aA^|6z66M25G!(NZA@|5-KAwU@PF^jK1eP_C(czLY;id=JMWkHwiQy7l4_>;mMyq_uDYh'',
     ''sLe$D1Y^d7QeC;2<DAD-uwYa|K&9#3Nt!}AQJt?8mmg<dvRC~3kq}bw>w5X|4OcCC5VUH|?-nT&4zkJ'',
     ''^86Y_%AHC@*%AuoBM6Y{RrTr{'' @ ''*^Sd5mpX@1L^Qb@S8xS_~cdds8&C{O64ef$9oBM+g<e#vhiA|QFONe'',
     ''j^^Q8SPGixge^0O*#=o38bcOck_c4}fZRr#;{Wd>;$U8_gsrA>~cU?tp>1W?(((;otD)=7m3e7|)8&@'',
     ''(Le&<oEXUl{uV4-ZD+ma30~B>AYkW?P{H~=9Wv*Y+0jcQANpWl`4j;fkyLIva0unbAS9EPMKs)!PFd;'',
     ''hUuM<H$X;>jrN|m=k{a{snZ;8F2ojm(_?&k{r2U%Pv;MVgBWt(3OMbVj28qxDD#>r4G6cQphlKT$Xsu'',
     ''@%7Iey2&lc@h$dMqAHKfgHG}ZcZ0m2Q<ri82SGnG{IlfLvv0=qcjuDrOUBhHTBx`GcdYJB(t0I)=?9K'',
     ''wz`+w60tY4lDhP1NSYgiALZ!MsG%No^5mX}<jK#Tm-+1YO->$6OXf57yb#wFdW>~8>rSp>W;^XVi7ZM'',
     ''`vPah^AH%kmtc7T{SVM@1?P#871OGQMH^6;WC)$?;G4e`WZ9(|o<xkYO_X4hAg1<>IAziFk1CGFz%P^'',
     ''z`&u+@mbh4ZAD(H5kkxNTxg47(CAj1UqB{aCl%Q=1SoIfsbBZ|HX0@MbQh3M`%M{pT8sE1zYe#z{7;6'',
     ''1)&BvT^RUZX;XsbiQX^|d3thsa(wdi`1JJR>9f`8v(?Gd&m`88@){|8whZq!kU9ugq!B>8Yth22B<np'',
     ''9HHNrLWQvH2pm%@(mVWB_9Ls$mO&Z{M@l)q-ar8M#Nc7i}lhw&dv_#{X+>UWwy+HRlM-y6=7-fQAa-H'',
     ''Wf<bw(vnSzg@3k~{wD;fun9|TLSAFNC{xCFQa>%<k9_3Ql{pm7)s4uC*viyr8RT*y7Dz817Js%CdwY1'',
     ''F2{>;ZW-Vy!>@#yze8re7d&!~uc{Bu@);g#=7sf#T+z+*|+-x(uj<PmrNj2bb(Pa3WgP#B)3*#KZ-Nn'',
     ''nj(ij{hDlvDo!Mhx8`Wf{@q{q^P>MM+^C4cLi%9zq~s?lTv`RA8Fk&_x(4vH{X_rR~<nzYHMC_UGI$#'',
     ''OHAru6-yA^Hz9CPFtTH$6wMP&cC^u8${AV=Zy}=7Xht-$Q9nU;F-{;c)0&s*0cM'' @ ''L$i8=kbm7qwe_r2e'',
     ''OL5y0%)Po-vIFPebtZe*l(IbI%y`OhdniP)t;V{SyRo~{IhhGi!F_ECVpfDi(hTcM#g28?a5+Z@phq&'',
     ''=-c%-#twA`mYwDAMTCO?eADUjbu5rzvOMG(z8xBhA<@a7K?X`#vU9n~Ksb3|S;s6$)cFsF%zfvgbApm'',
     ''cDTjj?nX#RKo)ykQz2U4A*1@oI2rG)!)sE)NKeZAp$tmyAW8NB)VJD)|U;y;qId477MPxS8tRYz$#C>'',
     ''f<~wOu0wob!EfMSjst^$#bA>8%w-NTo|qe=v@*;Z?T?#!{7Q$G$;Mo&eq%Esx7?%i$ae9riF3{EJ3ql'',
     ''%nX^-^tt=#ebdG$_IVjFhU_|FXu13zOK-)_^Y8?;VLP8PWCc?T-f2oNc6+2#*qH%JU6X4uB1bn6pU@V'',
     ''RQxT!bg1jYrq8u6m3NH%?XbAK{y+iNyNC^jNd@}zU$P7krin=SA5el*$QG#&&L=i@nDVdr9bGF%l{'' @ ''*v'',
     ''sZ&<1!y2JZ}0YXsDy74dZ~315z4ZxuLeIy4>22~H3QtHA3A$ooNLGgrCtRd(A}+4=<~1$w0%cv9Jg?C'',
     ''_bv@JB)MDvP58JDXKB)}1M_2mScG%CWjup<`9)PI5>-$WPy<j>sRB^&@ibi=GcdQ(}%)%L-oc!dcT!1'',
     ''v{'' @ ''*C4f)b3J)t5%JLYOIAi&?^<Y!t<322SzQ>n2-Itd2b=v66tS27#XL(X&!fUEygVg3beHenT5Rfm_@'',
     ''%Deb^*bUe&^7r;yLP>iMEoiGPHE3#0X0zQr+u4Uve~FW{>n}}mGqd?>oG9D~7;*<bofq2@+@y-WK4OT'',
     ''Am-pn@j9NpHg*lf!MD=^qV?6Q$$Yi|07>zF1An(=XB@'' @ ''{TOuP)cnO<mcy{Sg9Oxu<~@S3ivKVLytCg=s'',
     ''|LnQ8QMyRA6vU_mMN-h1*K)eaZbkQo?G6_^gdo#-tLCb+j*k!S`VSS+u;8utN~?;Xczq04K@SmWLS?f'',
     ''V01@bmw$d?85JmL}w7*F3<V<HBxeVrMz9GH<}!A@?00ch((4qfdDA^XrbP++ng3hD~GR_U3vRbk;)D!'',
     ''>ovrryx9;DW?F46i812iwaP%K5~K8#TJ;-lsyRDk}C+*y-DAm&n<M(Fs~!k##;#*uZk8nK?Ky@(!ni='',
     ''h#mEzeyI*JKCn_Y6@eb}6)T0L;p_-^Yv<xKOQCp~nl~IL-*tzckBSJ!Z9~D$u-J{5;uxWxNtT(nsb^M'',
     ''>7X-dwNVbJ?ggW+x!1{w*7p+E%q6C+hI8m(nEoN%Q6t#G$4L>4pm^SJTH)W`I#cWbFim$=NKoC@Qzg<'',
     ''*@1WfEV`LM'' @ ''Lh!hKz83;f{2j_<*(9M75iKfLhMQr?K%toUpxTR2~|?7zok3d$3^d{3JjR%Wj#<SMN3{X'',
     ''C_*Yg~gk=kY5FN5Eovp;D*YaHE&aF7pPN4)0GU@8B=ea;Zf*py_zXjK7<AV=3K6GYd_0pxMw6S@<|oY'',
     ''babcdG`9nzb30g;VpS-J1fgcivRNPWo%q}nTDq}7ON>C2#2sSKNuAJkf3E8;`-fozf8l_>LbH;TX`+6'',
     ''d13YP7b}k2vV^M}w+a0A6k&mCsB85wetaBvWEiY2NP7Uk=fAwXO2V+aN+z)wGy*OvLvqlPpz)0im~Y}'',
     ''S%S*4~8Jrn4&(J;OKOVZCM-sL=!fj_-vUPVIM{k8g3{plVx~7c6&C1yJy^k7Mar!&FJskX&iy4i9RKZ'',
     ''UjGgOv~L!LiahCLBm|5xPCDoQ37%wfMlA2~p_*n$5zmNBDG%P25DTU~8%&0P8kf7QYAH>sxowD->4(R'',
     ''&P5q&a}uu*6jLt}#2TaWXX<i@yGbJh=65AbSoip<Ui)WR$taAmkqtWe=$oDrW$iuIXT8@~3Qq7`z^(H'',
     ''DGz3sRPM_;EVw#!;BPKGr^`YoAa>6M29YAq0SGpR{TQ+eX`u>H)+s!<5J$Xgyv~5#2dclwwPCv{ilN('',
     ''wnsNDY<~uYN8mu#f^Bw;-K4}MNi?j2`T<sD+%$09suJlyx5Z(0gM'' @ ''LVNw1&or;IDRek%21$n6ZC9Kl_l'',
     ''sc>dzov;5`j4>*1UB~jV!rQ0eZIpI#gl~f^ltIb*_Y{mvh{qeSJ6hY4QLuymgTN%ew>q9>oxoqj?!*B'',
     ''icba01xc7X)d7o7~(dEYK+eSXZsau)Zic;8B;{mH0{A1BZ3@Hdf0?Bd{euK$9QrJXKDBm)1>LOuHWJU'',
     ''}1Tm#qJJJ_VoFoYvup^PT=T>3c{Y9>a)|gke6>?Whf3jifONbw_0btzjIQ#2F$cU|lU~_BFy0JX#TKM'',
     ''DLf2{{c`-0|XQR000O8?}kZQS)}x!R15$B7cKw*9smFUaA|NaUukZ1WpZv|Y%h0cWo2w%Vs&Y3WMy(L'',
     ''aCzMtYj51f@%#OX4TT^)gks|$kM@8I&^mTtz=;FNNk13@u_E{G81YD&OG>^3`R|>XeR4^jl(y-I60mj'',
     ''L-I<;D%+4~3qBmWB5VG%h-*jvT|89q}D$07#9u7iOlI^<Y$X?a5=T&tj-VbFbj-u{mx{9J`wJMKo)Ag'',
     '')s_Im&_uZ>Jw-XF|sC(JK-82YkW5z_wD;y!xjRWCYzTZx3dE@hvvH*H@wHLnu(c4#ZHQZQ}VrrEuyi>'',
     ''8Ae@;i>ZrifD-L^-dUy3Bc1{wlJX9|7ZN=w5UZFrUMxmsry3djKtdR-*~iKYWtP8psD~)0~4m4d6dfg'',
     ''wJtgZmIZ?3u00R8xh#cvJ#5=pK3X@I4{)99Im72dBJ;bFd?)&$zB`@Bw>5eXQa`r0P%L^?a+^f;7~OM'',
     ''=sm5<`p#f`4ZqJUCA=e^=N30DD45ty$;QTDG^8nPMf>Hmub+-16Ghph?aU!FbAJF`CH6c&%^_1WbErD'',
     '';9{<4rd5Y6$=s0u0WWTBQAp=_01uV~CbQ$DW%G|6MU?!aa^>zt6aCyjf<viC4REmCR`=+U6MjRS6M}8'',
     ''+VZ!)h0uQT55<r!SVZQC`uke(A(Rpy45LBT>>q}c$zh4*hkR5`?>SwSnXp>qz8ktXY#494aF?sK~mey'',
     ''&z1X3?>&iCHPQ#%mgjGl~~kwqC6=vEKuZU6XYJ)^;Mzn_~+Sjk_p*$1i{V?DB6}dh_Y}(!G83=_L$A3'',
     ''9f$i-4AcBUOfN%^$S4u4;1i~kVDl2E{bRGFv`7~n#YZbe{(Z8tJSIyJC@~5-E%NBOJgiI44it+F27;7'',
     ''pta44!2|L6TLD5imbJiW-XDN%_z#z&omEY9Cs|eA3C3$?aHT5(-n6{qM+S)BI*7gjVRurb>_xgyAzd_'',
     ''=pQq2vX7slM%js&OBKBnn_QoOA#B#khY{)}1fM=2Q#TxkiX2xX_nyiJ;Znz=z$!f~)mD=4f3v5lXF|{'',
     ''wd73A9JXuua&`7SkllslvblwM<Uge7VZd@g_#$Pg+p;3}IFLAtzW94zK2I#HdN1D6(DOXwx9r0};YrR'',
     ''L7Agb9ynJB*Jq;*^v>njk@3-<2)p){kYvib0^_c-0ABoPcec+|wwTz#=7-c1APndFl=Mb5vfiG6h2cU'',
     ''sRhVtZsUG)gdxO`L-K0#tZh6>VrcmS=)f{67?ITnS)PDGGY%COdOBAE?84nCygO?G;N94b?V4%dg4<y'',
     ''Lzh#;+??kR7n?ldbNC==OKk~1zW9-S_0?z0W+UG;!VPGDmDXj}o*+*C0x{2JtJOp@<TSp|WKgc@yrc#'',
     ''2h!+L^qOp(t5P%a;pIh8}y|lTO|DU+MQe6-+sK$EAW~PRGhr8ZvMu92}6*?Hq#0#h%F<3~*NCMJit;`'',
     ''Q=K&Y=Ep(8d`%Mf7+<5CVsikAoB&oHoIe$UHF)wyV~WA2rkLGosW3EYK=Oe7VFo@@eFI^riVQwF8{IX'',
     ''gE&OcC}Zlb!km)riQ3dBGqCN!H)y=jYc9w#e_Ap-<Vj4N*nAdW(j-qT-=f{!VOitiO+gq6;kyX0fhGE'',
     ''gZ;MKvp+wTHgug$0D$^KxcLfB|jAZkd)yK3js4i<}HE9qlhhY>U|yJ_YnD^+Z#r)SY99*-e*Q44mngW'',
     ''NkHm)9P|BXu&f%7X~auow_Jj~i4Q$hGKQPBDtj2yR#(mz76`eXL`OeVzd`qTC~<?rQ*OGNlBb*'' @ '')rA$k'',
     ''Z#V6!_9pMmS<DICqi$i)1v;WvV(Gjr7Y&zbZw7D0iz(nMbtr3D;%JXG(H|=f8^T+O{II!Lff~AtjBQ~'',
     ''{6t``*pLJtx7Q9%VdfbdjcvBH-AZYWl&gwb+w18Z7pdpM|xr(qE-nE6>;TCEm|Q7r_Na(Bv_nuwlNso'',
     ''o8-yPEX}fY@lU>XSNE;y~QwG#{G^1r-}bil7HrNv09&&O?fZOUvDU>$Q`4i1dL_uGvT1fCSI>IT-ou5'',
     ''q(^N?IN0_Fh11cLkp$`ri7<4Mi`kL`)$0}N8RrUivnbO@TlJuc`)x)Y>FE^%>(oE$NM;F1Ng#70!AG='',
     ''>X7tk8SsCMBc>rTFF-vRd$40c`imYcu0L0@9x>;{s)?DCtZAtj(la1$K$9eigtJC63s8{xosm19!`4n'',
     ''5eP2q6rNj3c&!uiQX+!V3lfx121+?ka@jMwi5>VeM=xTXb<sK02B0WE$WW#=&$Nqct7<Yhry(B31jiW'',
     ''w#mVO?sDHLKtDJ2z}Q2dXq(Kg~HrZm|&P`+V_!9ENtSKbRr_4^lJe8wz#aH7zVP?11V<k^ajeX1(P(D'',
     ''!&sgT&tsJr!i=V`@+ZPjj}#5sgyy2sf%P0LyRG?7nJl!FQLY?RmvNEZc$@*V('' @ ''*D?Fl%^=wj7$092G$4'',
     ''S=0?NY?CJwloJj2*haIs8uruUI_^;Oq#sw%N@@#U`2+$2*GUqiCKz8gg2TRylZjAPJ|<)eslez>wq4J'']"

lemma good_DATA_445: "good_lines DATA_445"
  unfolding DATA_445_def by (simp only: good_lines_eval, simp?)

lemma lines_DATA_445: "map length DATA_445 = replicate 150 79"
  unfolding DATA_445_def by (simp add: numeral_eq_Suc)

text \<open>Lines 595 to 744.\<close>

definition DATA_595 :: "string list" where
  "DATA_595 =
    [''5T3K?)A9rFYVfVGH7M@YVVN4>_=jlUz|Y`>Y#11i&Yzh@7*Nzw%A6=JQ$T4W(PAq^D^*9r6)mn@iP1*'',
     ''CeD+tJ^~(N0n=3;R^}S=+MS2jnGfq6Rm4(2yamYjB*<~^|z9g`=giVTV>)77T=)l^n?Yfad@d>I1zd~'',
     ''?w)9Q_%)*'' @ '')X9`k%1@QhV>|yhO1Ra;0~tYo}l475||&y?4jJBsfgu|HtFR|0F7qX^ncZ@m*OLTkV=8VA'',
     ''HyFa`sAGl$U=R!m&XL-P<3l#sjli!P@-NN`+{0@Y34_VwkkK&P4?CM6dRBLw(Q7ONH-J;X?)2?xGBgX'',
     ''P}&|ob&4_nM%Ms>yXf~HveNf3EiJS=Cu1|o>8EgyLg!=8n@lf2Tt>7)o!QSo?kz;o$b6y&4Z&k7h7Z0'',
     ''bc&cR91CWArg~H&ii!VIc}!)oC<k?mHkHF8GN4PTtUVD*S~nV*0kEAET0PWw!z+r+jW6*(4j<bf`AwF'',
     ''OoOnCVoRh_m%5}Z+1E(iNReJ^p2`6cNVm@~Q9zhjC_C`Gh=$EFfW4{b=sK>yQH16oYCSAfHH}46xy^C'',
     ''BVgmgt82BgR4-d~qEBBvl{??CX0o_B)dX;5`^RHEP5T6PN&QNr1D`*8u=^UuHhYC9?T%yZr|osj0|l`'',
     ''PJ|Qe*QVJ{0917>?JEMV^rV=-PItty$|jCajdlY*E2tg*=XKs^)rOK2w+}sys5zrzl%w`>I&3vmJfs#'',
     ''6C0ZScJkF)1uHkCU{ws^ZJt>+myUM^#>$}&Kppd?1n1!z0UNMmr53WEshnPj%HN4jswL)*{?5gXAsPH'',
     ''%oa<!;6laS)PvV8U*pFfRf{3?2?0=tsgV_44K*5p3e{<QQZ#9Gdj-c#Gb8w7U~ET@`ovuJWni@VHflk'',
     ''UV4C9%VW<2-CCZt`|3odeqaIrP<OC`3a2ZE0$!^tN$gV!RmE97j-e!I;e0=q7FJ3nGW2o5=1XO{()D_'',
     ''3c|6(hFY|Q(9A!r(?kHqFW1{F3Yo88=n8r_o1A<u;<bd#Nsaj%Z=pMXMz4+}rJ57SQU<QnSY-Aw}j%t'',
     ''2gnWbf=`I<apHAH*|th|HU+Qr$=OC7F;xWCOE^RED)ZY=nasjN3k?>jVkvPc107q%h{Y939Tw=RvX8|'',
     ''5AD;*'' @ ''}_ptnqxdlYUl(82F<epSRi2WfHpZU_%{i`-Hvyfr@?XlQ4`d>-A>wP{)1>HgLaqcl(POus<g*y'',
     ''zWFaBY@f<pdbW5=>#prpfh)s$&VREd9dbU+rWfo=<V~mSuxK9Ys^JBL<J}%Kr0<@`x2GOrq{zU~{oQi'',
     ''O==Pfc><8ZQy7%tCL=S&*4#`lRDIbLO*af6BE~~C@0g*s1x@OoP)Ky(4THfLJGy;rKP}_9@YbE+m5Cc'',
     ''d6?>7dS&Mx#Xv^tVzW|>ryjGg&Rg*GjdF4#{k_K0;<s_)2c@SBt=0rp;eOP@`~-q&fdQ~Y|a76ZTruV'',
     ''Zk5Da`G4tsR^I1{aI=L!t!-u)!haZ3~A-x?g<4v349uM!-6Nf~A4uF}=ZG^imUzgWV^&by~+q*J?2oX'',
     ''Zj<Xep)I<CZ@id3#!4UHw%FkpY@nf!{}4!d^t`;{~nQM!^dg7FdwgQn<A%Qp#{lN7a8i~yz@z7^)FCM'',
     ''0|XQR000O8?}kZQ&UflGXaE2Jga7~l9RL6TaA|NaUukZ1WpZv|Y%gPMX)j-2X>MtBUtcb8c_oZ74g(<'',
     ''!1bbewB1ImQe830hVx6%O_=@~KNNHzAlXHIE$Dnf2$tZ3?Vqzyq72YspJlE#ElU1k~Lo9eUDvZfW!FB'',
     ''7(Dd(Kh1MiP4G|_)&A#Qv1MRi^<4@e(A1M5Dz*IRj|A5cpJ1QY-O00;o@hDlm|qNbH82mk=l8UO$z00'',
     ''01RX>c!JX>N37a&BR4FJo+JFJX0bZ)0z5aBO9CX>V>WaCx0s-E-SE5`WiUfny&`PGz>qqps>qruE!qn'',
     ''yWoYI`^Q_P%s5qxKIQOfVTACcNZT7KvHgUda(pxzjuGwg|jUCAf9+l^pR@Pi5Dgnp}iKhICTxvT(pF@'',
     ''O4Fucd-8Z8yIsdS5_WgHa*<`(V!=<HkeY~2cT_4i{8s*(x~RoLiWA|QNi9U9h})@;l(%+IUpn4C`Hgq'',
     ''&Wl7${ar)S>CHcUWUXuF`<<e$hDL|dF;w>D4wX$w_c>->gQ9=$9B%_*D(atQfIGt#_4|=)Z)t=WN*fD'',
     ''Xda|}*Q(>>MHGk9XU+Oq@g8(p#XnM={0SgRL{1+2zyW_dwwe<r_+maP^9KH$>3R?7={5Wt-rgp7Pn#D'',
     ''SnG1k@m^e{>q5?_pP!7!PFf9r;zXH`-G&!VjcJuN<kubtQUPV_2y=RuTIHZ&+zK073Tf{-JvJ$LIU%m'',
     '';3)be7O63myuRz$O?#U>8!F!<3}>x%l4}HQEEj_A<tBDjI(mYR5Bx|lT4x0oIbb|1ef6AJVVW@|K5N6'',
     ''^;1?5aMjf_zu=*'' @ '')m{qra5fWm*jwm-V=WVIFhU>i8yjg7n1rR`l@(Ga@wJpp^h-8pi_fn$4YbSDJ`P`B'',
     ''>mMuHitkdLuyJzP+DTSOP#gfAnm*?x56wj^fkRWJW12vQ<iEU50+<_CD?ZQPMP>vW?Ej_W-P>CC*<rX'',
     ''M0ea%TsS7Q?-iM27903q~Sk!E3kMiQ__lH|xEnEPd-r#HhV%a{>YCO1NzIR+i8Ic-Qy6_|B%WKDMybA'',
     ''@^Vx`g=^0c(g1l4m1>E|4B)NS-&vRk0Wu(uf+M_7Y+49+s8ys5*'' @ '')lQ}TW5wg+CY)i?VJSyX{^ZH#p}Q'',
     ''^Km$>V@lLp4~#7q~PKF(~?c1c!ol=Wx6)Vk2bc6SLW17Jp#o7`dtCYyhzSAHRiW7qrp3BbRaf4)gM3T'',
     ''!Lp{UXgN677&<wF{>5|X0Z^pGJ1VGN;g;l&y@`Krf>epNxvW3So)r^r;DQ;UaRi!rN`(QLA@gYKz`}#'',
     ''i)baTF4rS{j1MIZ;>GEeVWl0Y37a+g>LbOlm=x#~<dLUQAH}=^p$MDlh#7I0mH9M}2*Am*?4G`cw;qa'',
     ''{)js@zocVJZfP4XJisby$<NA(en$4kxMpRB@Fl{=l5B*WkFm6Q4ecZ;i75&RLrXgz8~@'' @ ''{x%V6)Fi4PO'',
     ''-MMw?k<|Z|wvdSL4XTeu+><{;?jqy7JQ>4-X&jK7FeGefQyEYLmZ3zMrc@'' @ ''{N!+=f?8S{_AQl9s_<&!x'',
     ''@jw5r)os|RKYjkWfveUQk#_t<Lx2>RcKzIc8Tas=kUx$uK-UC)E+n+ZU|!9H~LJuiS7j3k=DuwQ_k+{'',
     ''&(>M7`EhF$KF2jlRwP{Fp(3M8H9s%Ovo+OywU(NF@b=l4`5<^ZW0X4&eYo!gc-!@QR^XRGAbuN(`w|z'',
     ''6<5k2G0h!~D6Z&#Sp7=BKHk;xK?z?gY<0o*b3>S;~nD^CaE3IrRXE|L<m;N@fmosHPu@75b<q%l1S_{'',
     ''dUanx=%QgXM0E+S&I+x>*ZKks%+{0`*s6`N4_fkwiw7+pr((h@Sz0S<Z<P(~b5@Q4!t>6YZjBEc%dY&'',
     ''%8>JLY-n)tF@kL1qnEy8}=Hqf3W&9RuIptZ%}lqR7jU*GFiv|LnQBkDk;F#vs2pTM{w{xNlZ(w+5+iZ'',
     ''?jpDaS8#<KuM-9G^jcpvEE^gO8Y(Rq|5~6+GnpZ-szw=WO>VKrWBQzMO<9Qu{_Q&<3UaaR(|hEioR0`'',
     ''6sXd=DWB$P2;!lkTC)~<4kykG$0edw#oZ)~=Beb)x^e?fuPk>Pq*A6X{y*U#Kk>Nn{rc;{JdKf!)7OC'',
     ''zv@_Rn96#THKn`>q(2V?4jMMkkVjerg&0gPB+tFQa6FVbW`9Hzid~*'' @ '')BP%H(nl38po+%y<>7v>q_bu@'',
     ''P4n|XUNbDs0f3a4Iki^HaWqS?G_FWZHA%1CCz;Z5UT5K!n&Z6w9PqEZy$e78d|wO9&JYQNwqi>WxcIi'',
     ''IW`Bk5_-PhoQhV;XXgCJC6X{JR1$3e&s;<(SF0@G!%D%ENl%GmuV_5izkovf9q8EBofKniy}K@^v0??'',
     ''(}1>?LB@XZ~f!P=wadQ_Bt|HZPMA@p+t%eF($0P4ijq8YTou?+%n8f%4&%yR`|y1hcQ@rt5PG9E)12J'',
     ''g)Z~_1FGV497GPCLfcC|3s<Iqa@(XsvyQ&Uzu@_-2o)A_i!`1voayo-7e`DMW6y^d!7JFXBBpB|BMz>'',
     ''bdK*eGskisn8W`f!%yud^zn1n50s&RBr@jH#nZC$y8}~*gq42F1a|)$cJ$Ji*5`hEg3s=nEr-o@nYH{'',
     ''cqd6|~Cw;l`2Bm&gZBOBfn_sQY0bLJ{6DX>siuGosSMBf2Aw%}Ned3#8`f*$$7jKHa7zApXxWogd4hb'',
     ''*B=6za0bqqBut`@_UNI!PZD{>=w|#r*54Z659T5Ay-VP4E=0v5|3(3h$?OIge#7as6X;|J(fg=!_Aqk'',
     ''SBb+%Ke^KZO9|*Df7<-6LBAIPv9^Vf7*5`p6{b84kY3>_#jcaFsL-v=3K;Zm+DpwAa^j0kQW?GM(_(J'',
     ''n#(rz(jgQ+I=@05b52QE#Mw~9gUArSG`UO@Y9Dgkqh%N_=phV)bDZKbP5F$56*r$i{-*<tl`|`5+Vx<'',
     ''AXz<eZ@XlziP>{j+6cjI<HT&SWsQ-&X$rVQW8gUvM&k0Z)Ao(v)O9KQH000080PluLTKBY?MDz*(0I?'',
     ''we03iSX0B~t=FJEbHbY*gGVQepBY-ulIVRL0)V{dJ3VQyqDaCyyHZExea5&rI9K`6Mc4LAa}?R^RA7R'',
     ''e@iXI#z+5@)Z)VnNUnZL=$jI#P<`F806o8B*_-bK3$vR9I|eayT=b89p;Z1wn8ntYq)>ZYR>1MTxL>%'',
     ''IMX|MC1~Gb&;!7+8_u<Bel!4$yuT|8<lQ)Kf_3;YgLcxEYF0ovi@zWH+!gGb0Z?T64B?;+UQ-qhLzJF'',
     ''L{doW=kh}aA=S*SviX$VWx3L+NTzIAWQiPk%1mV;f0k*iO=wiKt=1UnH7tyLov_x53Cn1LH+r^Ksx+4'',
     ''d(!(fG)zWAeYp0YwK?o~3TXX1=%a^=bSi0byAN^Uq%+pgGoQX`ckoM#)aqniP>?w-{ytcWPYf&V*{ZS'',
     ''^_du?_i2b)uDZ7%Y{La$ibiuriN@Z3B++&xU)>;1#chxy&pBfol@-(K_U`2%mwJ}rJ)-2Jj>4}F+FET'',
     ''1lKZx$c;;%>>`-#sm^r=!V`67nUI-gaH_S0XO0<5`wJZj8~!k6bIUNwv*Ybg#13_&mj?5(F}swuTon-'',
     '')r+3mP=*So4YsiS?R)F6)K6Zl_{qN6~@U(Y#7T7k>zAmdRId-KD}(M5{Z+L%UvBiTN!=knaH<X@6%yN'',
     ''`L*SVs}^1v{aL1ud5p7q>!-Zh%*wpTcy(S+^4lpJRm?Ur=b6!)DN8A067?_XbUM8nTgZ5<>WEz8H!KI'',
     ''!YI9f~GWj4kIIiYE$ElpGhQ6KaCebUAa2m!aM+Ars#d<Yhev{'' @ ''*~GI=2qnLgKuP^2jg!;3VQhBx!05$A'',
     ''{-&e@E849a*5K8;3XNgTadjd`%vts5J2o{F91d@>r19FA6TIvzOMlM5GYg~c8&7}N$!04$9uM6!|C&a'',
     ''VY*NbvN0!B$!)AbBqm0IDO4<(hHqQ01JDtxVSN7vwu;@OuG~=1~4pRy#27@|m#nzp{l+rPqZXTV&YDB'',
     ''&-=vM$H^#gd_s%=}&i}6o|R<tvg*p)@%T+#x-Sak(pcLUZ<T|ip$wL_)^8_c=DBfA!WV>UBYz*cC%NZ'',
     ''a6IWQ6LHM9AmARuXU<Mt5|TEf|GLA#%*ZIe%4yGetRv35RFxxU)k`zow{$<OFY09Xv3G<%!K~!QhQV1'',
     ''CdY0L(E|Qow#>%|Ja?SFsvgL2KL59!jr5JPry!14TT{}LEM5c0w2xNG#j}5wdBLR~2EY?=pJoJ=55Z`'',
     ''et9Hw1qllBHKp>V#HKqCO5NGj!P3XE4`nv@&v#AjLhjyuNP;A&Bpd_7gyNo@^V?irX4DPB6_Dz*CFYz'',
     ''S?2rsx2-hly_BNM=BiX2BLtO@PNL127m%f?d`q5uoICQ5H@E?1G^2*OH<D{{)c!TxZNuU<l-)DtJ~05'',
     ''=zI0#TrEJ4|xUhSt-Bf=JW^$1)Z^<;TRx;k!&vqnE1s^t=)tI8ozjh9{K%@2{1u+wKB~cX)uxmo|B4O'',
     ''VR5$2xLi49L8`f98MG`9<R7*fs$a9gFDfuU;&^>>MnooQY-of+iMr7Fe21cQ2SubWMq0=W{(NslMtJJ'',
     ''wB=T7%JS}!BX)cK2e<RxQRw!ExNf;j!&_ig^8E{IY5-_QcMp{~%hh$DV<ZA_#Nd|bh#V13s<k$**__I'',
     ''21v0N1!zC&%<W!tT;L*'' @ '')y$F<@(tvLyok&X%T-T?Na%v<=Y+J=(pmYXKA;`Zh%wJ<2-qX(Y#f&6I3ADB'',
     ''920Grn>iC_|~@!DLq<UqpnG2*$y8Hkc9({RczLz64~G;DXV<zfOi$I%AH5o2p)hnm*y-{latOG*p^yX'',
     ''alZ7@9RHU`@XgXq&#d^z+X6UAe#KI)IHU9^mow3`xE7V_4NCS>Upg_pl9-bVUof9w_Brc(y|V}-&M_1'',
     ''4NF(oGj?^L^v85zN{!sr#2(5^yd5B8ClpoiY$q+1i&Wk8c-S1Zy<sc#V+CN_I-$rE;FuCea<vURi!y_'',
     ''Ak8P9c7Yt`vQqfed+{3IZr#}opP23D!T<E2AjR^Q_gFgF9(>7e+Ts{4846qFlIu$s~H9ivY%~t+N9#&'',
     ''eIcusAQDYE=GLg5a{%D1r*fnbuzm`VUx%>=)1cnB+NroW+dL-%b0J69A<!gd86r(9U3>!DQaE}1@7$-'',
     ''18V)TnsI)`HqzSdL-^)<Ay>5L&53<xNl2PR3;^*;2q~<XSZf@mG}Ur2nJjw^#Yr%ON(^rPFxwdV#>5%'',
     ''x+~cSQS+9Y_|nY$3ATrxBNd*{EYn~*{-n2!stAeYchPBvXZc(bcJEr6S2DY*BCW>s>blr;#J-A`Dos|'',
     ''7Km!Y6<{NZ02OM'' @ ''LNQ!O8Rqb3^8YNPs3^iw$S5Ihz6oYLVHNZ4ZMWLz9-KQG2vcego^O^eIE;-PZjYDo'',
     ''>5_e&e=~7*k=l%{PIh=cCVyB!o?RNW&#pTtD0vb}WES`l*1aZiH;f>-sXWG}=blcb4QdjliYZux;yJu'',
     ''`l$;tr3@$5Bx#1>IIuC&FWsM`*e6Yh|YfH*OeXubDvZ(qG;;jFGM{g`Cu^~kS<lKH50;OeX2G1`GhC)'',
     ''&&^+G?QjNe8xP-CMM7iBW4a>nhi~G&m))OGZdbVz|TniWUQd*90Qji-YAdCEvz;Em4xfwO-$<8V{@Ci'',
     ''f+RG;O0*?#+SFhT>j&c-z+Y#Zf~yn`<u(<)5Fc<KqHLwc0z?g$leQ+9+{7xV2L<f>m<>8%H;JvT<kgl'',
     ''tQ2s;zOy0gUG+E?=<>pUYJwYW(2b2xC^qTc_jIDN=}}!c(&;!q&kp$(5P}dcsL?}@kiN;8&19t33Q;Q'',
     ''7I4nKHu*Irup+iD73hEr$bXwOSuw2cV%88oYw8aI8R9@cbG@('' @ ''*QL|c!D88(^|lf8TcZOcnc0H;6Eprn'',
     ''iEjy{>u1bb7q-_myu^vI5u-_P&)!_#6hU;M!53;y_Yb^mbp?&k3kCVy5&r?lx7t7l=9gA#;L*p7rMd@'',
     ''6gPObbqP4;&gpVQs@w(CcY_IB04kmRDIWe*izS1Z7m*&Kz{t(7452;sw1(X#b*eOTMUl?5c!Llq~PA@'',
     ''2EFB5SnhJixaq%>Qr(9B|+xDS2=Wb^8VIZ?;lFbR3IQG5wNrn+!|xhudPmE&pbR@?rv_-8*9Yh8enhh'',
     ''n?<&w-px7(08o7dg@Y}*yB5icURBsA@i8F(E$-mD`=@0<*Nnm2V2~ATWpm3#bX>6Y`Q7||{<wVPm+zM'',
     ''IyM<?3o!voh!`BJz+i|y7iYJG_L)YiMj$jVpVs0g@SQ5s~6;zpraEvG&uLzrpH16;K6$w1``CzELIx1'',
     ''Y>)l~^9D*y=&4L1DjoY?wOF|HJxguNoX6R1O<*@jIQ0Y@Z#Sn2txKTX&Coex0cBa)+bhj!EdiZ!t8q;'',
     ''*c_2zuO+uZo)kd-I)r!%$x<L_dlR0_SEDjwM}40RYi3J6h|>sG$_CiZCjS<45^8WF*$<eu@#H=}O8J@'',
     ''~z7^A$#Y7$svz4J7ulAd8a^iHlgb41T&X=>WzdHtnx)hg#!tKF<;Rav7WMnE~*@Hf}87jLHowC^B>td'',
     ''5u0!zebRH}rDL+=@EZ!6?x%<@-gvmK?+r_Lcf+Cic6uBJIFnYVv*7$Z)g|_ym(0#fX5`a`#n5hzboqf'',
     ''Y+bjUk8oATYK24B;sODDroBCROfWrn`1a{7XKYky+9hir|3psoHr?=n#`DDG(X}8+9#qHX2%6iwd{{~'',
     ''P?0|XQR000O8?}kZQMuN3ZO&|aOq;&uQ9{>OVaA|NaUukZ1WpZv|Y%gPMX)j}KWN&bEX>V?GE^v9>J!'',
     ''^B@Mv~w8D`w%kBDqT<alE-)@uJiziejtQu~m|iTuP_ng5;1y1Oi+Dl+1Pczi+?h1%k3n#dTMgs#qj2('',
     ''=*f4)351nMp4wMmPx5+s#w=)kyk3oXKGOvn|0OcTrIU)muWst*O^vJU22t9sxH(_&(mDnK1Dv&12x&y'',
     ''>d$#m|5>GZRVR6!Cbd@eQm;CTte7NOwvE+W=vL~aDsnZ^X}*B>No@h$r}a`LQ~Yw&P1b9j&$?=w<nVu'',
     ''4ZWTbSb!VdMd#!V|PRdGGv0A5V`K%T?*JYAfc=dfcg*oT7E^{1zK+CI^#U`8O-MX_*Dx5t7j@4BGlTu'',
     ''UYnO3#VYiOQj-sIrRyvVZR9%c=QnCU8A<Z&kgEOwqL#1_BCbxn)a3P8wU2)ER$;tntk>#d3vV77pX!Q'',
     ''>D{YQCvArH%p2YP;T!U`Ay+t%p2zk{$h+WR>o8($%^sp%eYd(n-9j)66{0ip2tkHeZX%e5&=k`o2uoo'',
     ''q1WTV5odr7e!VH7(^cIRmN{&L_(%{dHM7C`Niqw<@nX<>+^wnOA|7GUm~HHFXz~;9H?KCY@;iNW=1y9'',
     ''W_kulk$2lQB1+yI=de2`fbV3I0Wtjmt2cm?Y@n_-K!P3a2pb-c?|?RnGF~Us+XPoln6OI%nkn*hnq=u'',
     ''e^*B#fL03Z$@ia?gT5M_hofP>zUHI#1>!;sMwGf5vw^{'' @ ''*dot9<M+9NBbNzmcv%hQYT$??gn)A0{y7Xz'',
     ''T&dR&#$@w$Yg^{x%Xs+j4liswbSO6oBXX<ZhX0rw+4J>iEB^iK1cerGzJZ_m#jXj>;G&T74_mvBU+&l'',
     ''Np9r)O<_X&2&UQZ2Pz>*dwO+cz)AuZ}NYonG$mv`VX~=>p_m7ZV`TP6w$PHt5KZcMRjdrf0n|ZS8p6?'',
     ''{qrAl2n<bl^*k%8Ef2&9&hicL89DbWT|;oE$GPg)$lv@rpWcEqu@V0*!cGX;R5TBe#C8%bZH2+q0c-}'',
     ''%%k?>4s|>(7Zrn2%FG17_>&Q4Ifb*&?abV4yPXy^TVxtMKAy2Sm@hN{e9fcx4C@0o9I5y4;)CDB9M5<'',
     ''Tysa0hDE=LoQV(9n)jCV-UccY(xXH`v;I+Z{D!H`?C#lh+e@AqFuK}Y2JlHn_yZYS&MmYD_Ndxs7_+s'',
     ''vmK}}RK`CU(IYCz*DH5@A7<(n1o*P6Ka3?{(xq>Dt-CC=X!Ufxx=dRuubqyD*LescExnfR*&)OphpA{'',
     ''+2rt|J^Tx?#k@aWzx}oL(BpETS7j8zJ;Knau>LJ^3TsP%<|B#<CI9rJml7XCSx6rDoybx>qA%$^&V~M'',
     ''|-63guz-!xa`vYk0>Z`=D3KNhQqo_b7I*r-lnSY9A`<59LcE<pd%zG1NBVKzzDFD*ajmKlfeOyH?iM3'',
     ''oaV1f4df0jO9lD`ZZN&ac?^f#2o)1nC^i)i?eAO@E8_~<AHjZadlvuK_LJL<DrVjXvIfpO@QL;|f`Y3'',
     ''3buvl!ya861Y19!&GPpK3^r_F-o1}SCZpTHQZE>S~Hs6C~^!fw!J{keWN6`nSk&2c()2KXYP~CJjmJI'',
     '';_y-sr$4SDjXqhLrpG>CFL=S5zWI)Lua_L(|EUIjv26hok!;y%xcWL62E#MvotGb*(LQlddXWrDG_K&'',
     ''pyOIn~s@OhLD_+9^I6R%<;?=jl}4FEt1&(9|kqiCZE-046{d8z3hTGnOr&AO=Mc$6CWALDyhf0a9uu6'',
     ''Vey=V$_{q5<P($&<i#_0vgWUx=~=5qk}_`C<NIL|C0V$1H8O8IEzA1!y(h<(9k8E0s{>{1IY~#^}}I<'',
     ''#F~I~O2=wA%!?r`PqqTE1S=N^NCiWth$A91+ol1_Ad7%;2e-2fQuP3&Hw11;1Ij2z2Goz;W1*~c9`Xe'',
     ''H9$xqaIs?irH@PL0)(!PLh?X-;%TX|uk8LPT_XK1H0^5*!u=UtssbCkBrBcHlH+iPP<cM}brF?L3yYJ'',
     ''FObq!<dDyw3^Gg#gbme&md7->8Pl3p5dOz7%0H68d)n$AGop+s<65BwbkG6pysKm%QO4G4e*mObj>jf'',
     ''I*wYuA6!m^)g#8*-YVsdk>O8EB9H^tt=hZ|A3%Rwl>%^)IRy;R+%kdw;G`-}V`U`hD`Z(~GdHc^XfP^'',
     ''|rU$`Z@%61HJbnqqR3oN_sW63l{p!{RhUNp_^yH^UhLd>+#5%OV@E68)FFpi$TW(E4#oFaR}&;PeTME'',
     ''-@uZsk0S4Z*x>#n{CE^yF2VZ6k1;&%BPmQai!oXZ2Tf;4{exLJh>f{`!U3YEE;rh?pC_BFX4}}Cq&uk'',
     ''5YdG<nd<hhsfe7&Iwsl#olLa~`icMXmGjddbItxl#wV8lo1w2~&43iG1PG+i@8%u<I8_2|}dIp-YFs('',
     ''k}C9MkJ1$y=b)EE!}b^^G60D>-nSE2(YB^}#9R|tKeNZOO3li#Ifk&{E?E-6!73JYUo3_g~oq~C8!5;'',
     ''y@yO8t*b3iAU<^(M&x<Y8zLI70^~+I{DqGTQ9m?!{BEc1%tn#2f5BDM~1F5Qj>p<)iFBeFW)usn{ieZ'',
     ''#Lixl*0EQZUTH2Al*wK%rV$#;=US#ECMbwI}CA?QYW{=Y71n%8VbXz0xUf+<j0W4+#$dV&`>%@6;hr4'',
     ''_tojeo8#B7e;fXE{O0)O=@05$yb7MW$P9&5o5NPfeS;+hk9d-X<Y^P|)Qgk`vbVFc+L*98K+L454m-#'',
     ''meF~UhhT$`V;AyeR>jpu7>968tdI$Upb^#gKdQ->NTL1@hHcM-G&+bn2pMt`Lc9Gi9&b&}{y3&=bEiX'',
     ''X(&(J?`2+l#<qu#-q49G)|T6DQt1O7qc6Bu+)^CInTROx|4@=LHARobAJ@YzSmorIzEAXMYwmN^2yLD'',
     ''Ths8UDk~kbng9^PfDHRy@W<R6{E00aW90F(x3@n-(Q()4IrKBo7Pq>+!{#vo|jX>h$8`?FEB6xj4HzJ'',
     ''2`%B<facN(|2IL^#jfavU!1<Kb|B95~YDK1PCEJ@IcFpdb`$u!)1|9&F=D->gYN`N>EWTpW~l0xsPr_'',
     ''G)E2Ia!IUYi&iO_RyEzA@R$n5^sWO4v)7~_&*uZMH|}p#PvDL~sPvhR0B4WHfmMzz8lZ3Fe;LlxO#4q'',
     ''j)%F@Oirn{=t`m^<N1{f1*zz9my3Z5jr3K1AW@n0TZ;&bgpyM=Y4peu*ran_Y6nPiSx9XPMQ3S{1LG-'',
     ''=JgZzh|&VznPE1V+k-)c=JyB%28bE~(g9*v>J9f-{XiB+Hs4U}LN%^`LuG}+Vz66cI(JHyZHM8{8{%R'',
     ''*0RS?y3RcWmVnr#USgiFaDkjSb8l_OZAHPJq@azLA-!ES;2S?1Le`VShFti1>-P0sZ6d&PO_30)b6IH'',
     ''BT#2qS1!F#z_s7S<67K0|v^i<0gRT4$QyFr+$NzyxShkLf&ngyu&`>V*vJRgNUM5ZjdPIYw!BdLr{Ui'',
     ''x6-38zPLuLjqoP&e)eBC)G&r8clZ$2E~Ey^NSW&DP?ecFH#B1Z8LubZ5hGvw%lRpJm##J|m2XxP^v2G'',
     ''W08u)D-2~M?*X%GBE|=7xYOZThe<QP5cCT29^ks?or8tN=z!IgiV{S4;<Ar5um7WIZ2%9lF=2?+65%N'',
     ''61$R#?lP=hR{x0;s&K-BI+VK|VHcB$k+0cD}8t1&aCo_7rr_(a6tVQK!Ek=XZ3x&uc;A_L8Swq=0sa1'',
     ''4h$!jMOZoQIj09E|V1Z4rne%c+RR;6L~H&jkNT41e*Fb?rSf{Fmi|2iI=N&P0R_3kvx)FFR>jIGhcSG'',
     ''xVxH==am*K=sl-Ij!N-eLr2}-$@^=AH2BkCH;w<F=86%Xwv0lNpM%-V&{OYyazjyvrW7<IkAze=chjn'']"

lemma good_DATA_595: "good_lines DATA_595"
  unfolding DATA_595_def by (simp only: good_lines_eval, simp?)

lemma lines_DATA_595: "map length DATA_595 = replicate 150 79"
  unfolding DATA_595_def by (simp add: numeral_eq_Suc)

text \<open>Lines 745 to 894.\<close>

definition DATA_745 :: "string list" where
  "DATA_745 =
    [''bv^~F9Mq{}g<#RIi2jSo2AvzRzxcDc5_thE)EIT-A2(YQG{4kZbuTYps}m3GFS_K9u)Z#GE;N~D#dKr'',
     ''c$vy~_jAV?YIbSF=t^aA3Lcj6TuuCvnknCXZ!?mGEyx;l=_ASm4BMjQdH>k7<y|Ex4QJX@pS0{WehWH'',
     ''g$w=UB=#Nw^yI}{S79(Dnru%(J|B}{?t=Es{dJBS0Oj`b0sApmlZ*4uUJJrQ4$8L&x^KVQ6V;0;3s;)'',
     ''<>lu!E1T?-LN*&;#WGE>mpib9OMOGm1Fa;fQ@hfzcI)(uly|kQmY<OT8|t6qGf-tI5(N7r)8*>ACv)%'',
     ''NJIv5Cf*E`JIl>&-&zs=PMu3DM}Dd_$EtIvL_7yk;+xF(&2^(m#)iXY*F=SK27Wwy6)_T!+!&G)y5Rv'',
     ''Ry@c=+c++7&nXUq`%~ctiQ7lfpt>@87kaM9`h$%NE@gabiq$3Wl8u29q?H@;23Gs}dEAwha(I5QuYr2'',
     ''+>iO>Br|bD=BpyQ4s2+LsQ02vwoz!Xw##25UW@&y~F*?N|9LRKRGp075Kqzx>BO`yD9g1<_4<!mqSRp'',
     ''|QCgv*Pqg=9p#gmw;WxdLX*$r^dCGd`nA;v~XF-bXHrguOP)drM8pbEM^RXx0Eix>Z-LrIsm@aTS-^$'',
     ''Bv-lwao9(lnq4HUedtW``kzT_8AjrUOSk%@KEwrf8=l$K2xsFfEKH^83Cv3;N~c5@jfcnecAQy)vw7j'',
     ''cPgCHIA%t>w(lNbj&Y{s{Rx%A^nEfZ)d}OppV*fyT7mAUS7R9{^|5lOyZ}cyycii90>7^e@7A>n3i<A'',
     ''&QlpEeWwwX#b&WoY3*ZgRsfz6Nz3F;<7FQ*+LCTYUtL|DUp7(Z-E@Bf#-`zMaX@yk=fQvSdGTB)4sR!'',
     ''B0OJKTH}*(rixd&%-{vEXfZRy-NqCU&a9hDNDCXAsX??WGWd<r@pMtkC#G40Y2XX!gp9gaiC!#nK)MC'',
     ''pY_>V%D2Em4s<`Yn*LsS_EyAoVpJRM2M=e}s+$&DxygSNynC!jqu3%a!fdnX30Rj{-*NBM@a0^MkaF4'',
     ''tmBt)o8gfMvG=)v(=!7$FMru7%PM(L3hbRg7M3yZImEC4ckw-^By&L;|`9G-?hSfr&&&CKdiQF#*^FR'',
     ''+-ebiSmr^B*=}Y5#t`os5n`e;K8N`^mWQKM<zAD4?(iDJ!5GTs4N)h>ss$O3|$*TJ7Jh`uiv-`fW=Kf'',
     ''jWJF_`FiASQRv__qR>Xvp;~OoNr(YOXI+?s*u8RAWN_oD^E>qVMc?8bD-qClUm)6I)!prgl9`hN%oSk'',
     ''8ou`|!M2icSF5SCMyBg#2!+<rW1~0%dBtasn<9usl8ed`vkZJ_IaX4vg;su2*EQGjPsH#c(po4PA6Vu'',
     ''PrjzOn!4#>NKLglCx0j;#p$0G<AjAgE?4er)hznf+oSc_vY1i`T%Gi+=Z*YXav<lt=+GhT!LkGR=c|3'',
     ''jEFxN+37Bas?}xhLY2{sa-hEqbL5!`rnYf<anDSA&nV@'' @ ''{$&+XgbAx#ubja<KruA7@dR;n)rlRov@%sy'',
     ''*o>HggxIdIuX|;S2Vsti<VS*ij+5WLK_*Y<0(c0RZ1ctC4v@PJ2}^tYY0jLYD{ZjLKUeGI=Q!O4`Y-g'',
     ''ECth!9HfZcKSc(rV4vbD3rwC8kD0MMF?38apfGnR!FXm)bP8>o6%Jsa#c&oV$;u`b$ppz>!NA8`=I+I'',
     ''6jovEXP6NEHlC7F2X@*UN53_@'' @ ''{_B5@uVlAs618UV&uly7KIqBJpMEyJz-FlY)5So@y=KpIn-I&$`G;N'',
     ''92qv^-fFHwzg2nJpvY>g_1oUSm|oAd4VQl|&z<AiF1^bfoYl<whupn<vL&ktL-8U(uz>89)dEjpl(dN'',
     ''{(}i&$qQe`|*ME>?0!VoAfpjSER;_iVYz$yv>DV6pnS(!psDNwMMEspLY_HnKQyei1ccvN3rXek>L52'',
     ''P<@#FbTun1EH)Euv-!!G)(@eHD@TMl6bPo(|TBICiV5ETo;)2$w~$sJutjYj+)8S=rzKODR=Oi|4lKg'',
     ''6L$W_B^P3v(#=hnc67pkIi7*Sdyq2ew)+;)`vR}LUVIbLxrkoG-^4E>(vqP=jpHD;(d0KdFwE9Q>R5d'',
     ''><OV$fJjNT70Y?IkF|%rb8xH5{@AlE(fwJu$zzH29(cpbMvI+82rnI-v39*@k`DtM;jD*WGhAdD{Uga'',
     ''Y%3r#EM;7!=8!*@#L4;7wc0SMdf5jm57CUN_Cswy~L+@6!lqF7?EVKQJg^r%f=eWzZGb^xMyh(Nfl&@'',
     ''WXlORepWFlaB~C~~<19@wKJ^}MmtT-|HxC_cd{USYtF!M^f_eiON+88ei?U4MCFU&t_QU&8F4hY18`<'',
     ''=4~zI*N9C{d{zD!xOE`t?T2{1E%I7mGppyXdQhz3iyex;%H@}03*|9>xZ%w_MnhNh>tm&h>>u-<3g7P'',
     ''f2Lzdp|YugcHcO6pFzPlbo+`1WWNVpY^r7!j8BrL*Pb(m*1|)q!&0Z~k@6966T|;Zo@JV|ud{thBlVv'',
     ''C{;B)`A1%laj<4>`TQw%jQ6b2Len*^sDJ161n?|x4o;h#z9TQnQeoF9UV|}4G48ZTm#J0DO^;@*1;q8'',
     ''mSX$VwKIQPVA6#Wl<xpG&Pe)5&Uo?M'' @ ''L0?PUe2WEbq7tcKi^chCst6nNW~{U}u^lARQp=`zI{0M_j(;+'',
     ''P4}6O}YS(@T7vE>4-9%p8`<OmSA!LnA+D78)GtO7(P%mmI*`a5XRDFXJx<B(%(fZ}5Q=WMEVrgGm0pD'',
     ''2J;wFG~L;(NvPGqFg$5*^<N&p<(nnn2j6PAEzIlPf-QJG_?b>B?1`XJ$KtHOPPB*K2<#v+VT@ff`Qbx'',
     '';rH)=KOw%l>veaay1#Gn-zk3f<J|y{-E`fJ)fvliOA>N5N777OXhH6ZqwvNwL}`u{X@cGLwu?js8#dM'',
     ''ZCqGOUIS6E%ei>?ZnDTnqCPL3(=MYkJzg(Noq*%+&VgBB?@Q>S=?Rq=@>+^2&s`6v|;3FS_*2%(Q-2?'',
     ''S;O?*fFM*Mi1w+C#$60TlykrY6}w%D+hl}m!G86dpKZzPfW$)=p~*^qi<qnUfKHcKre7gQ)P<2|T1A='',
     ''0qwO;?l)Ul}!lGVU8nf@$L?&RfgGcote4g~I=VmLU=zYKeP-@4W&E!OEIB`D~(iWi@zBVfBrppoJr5y'',
     ''GqdzTGP>iY<*S0HQkfljw`T@!u<6R4YpBRDto9*2FnrL;3bAG_xg_ZyMnmmK4(w>w#65;6B**O4KF&R'',
     ''g?G^S=LEm$5u`Y~U6%@7ma}=blQA8(<p=|PZ|!6`B7)1#6f}5EdCCXJ&mn}Nf2l;5<OXhofi^1CgiQE'',
     ''>+bfBTMI?)HHN}gcq)yOu`4%sB{D>LPpKNEc*N}Lk5pm8T<i>n;wgl=YI9E<*GH5b4J{?gQQ@W$_%7n'',
     ''yk&0RDrtRI8p&xK8Ho(G%_3aeyh44RcO@EdSobc_>+2}=;ZK$>!vItC4a^$m=7%BUAXf?*kyJ3$UYI~'',
     ''pjd>J`|{K(_+{RNE<u%ISL>Jc#HVC{wJ#gITpG9VZy)C{Wt6MF;FTIX^oezj^D(>Ijdat-!!Tx0+gFw'',
     ''{z$bIVM=+<Srn(P|R68k_|N^RUGeOER?|D#{X=cA>Z)B|90$Z)N|osOOb#_8*VUI4?y&7v5dEX!&C~B'',
     ''Rk|h*R}({GKkzci&2OjNx7$yqEQ|0jRgZmCbL3>~&&Z3Y4?9ZEQG3X2ogB`!5LjS8aNZJTr&1co3;-4'',
     ''jRP`wMuS!_6$S}CS1X}?%W&@1w-h%RINzT5#XU2W~9sLf*Hm-P0vaN->0&?I=a=p1&9?ujWt^1^$RSi'',
     ''>%>&SrsC4*!iNaE<RfI7=L+ZGlB@UXtyeX_0S+9s`S>s@NMoFX+uPPZ*Rvir$7vx-|xa))dwvcn;e^!'',
     ''V^}%SW;C$J*9D-wlHUDwhO=4O|WvmI^s|_SiXUJg{|DLbGkR*399#T$DU!E)mR?g%8>UVe_C8hg6N9l'',
     ''8(%<OrTZOmY&=`+{cy~#I526HT)7`6u#NE$tKNaV@~lu*v!UTWrQ=daDw$T#%Ns#Gp2CE=-jtZpM}Im'',
     ''1%YP=G)6ChcGyxS$VQfbkFA4E_FO0+uqcrH`F}W1sHBq!nOK7=B6hHIAu5>VvNXK#!%qf55!CKI5zV0'',
     ''vJ`N`o?1Pju*~JlI8gTRV^KTkUZ7OW=YP{BKX!yUYvB5lsJdeXwwqQAXG`369teQjaQ?CY|I%OUTpjJ'',
     ''K41G%H<1uC8qW=45CTx~M~mZ~(gt8IuM{Vt*Oib#|bFb&2`Af&%Vk5S;*R}Q#5mR5LGC5xOFWfKLS^;'',
     ''#Aan95c>3Ua$mnI_HIv@XE{l8ugnaU#VPOE{TFww+vI=;&NynV6F5*wUmOtht@RM~1h<dShBJyJMTI0'',
     '';jVY^27fQy(oBw{zA&mHN<+KR!igL7L20`XY1;D@uTSD5g#~RnF(_g!1$JHWpObR=$qC;0!Aeg1NTVv'',
     ''A_tf92NA5h3`D8{'' @ ''*uAj4ZA@7Y$hmt0%G`#Tgbh1Hze#VQ={}Fn%+%Dns4DXL2@;w|FlzKPuI=|yNs=p'',
     ''N+JQef#0165p1yN$O?8;T&K$iXw4YCe8mY(QoJ#5*jxbpABcjS9WM4QrAdeMG4HqprKv^b#LmO<ReQP'',
     ''N|lm6AVdDerS=|wW#0!v&bcPT*WJ9X&O79BE;N3Hu2nz!rwAZEfE%sY~pxyV>7$m(-k!`^B#QP<SdUg'',
     ''s0S$U7Guxl;_yu#6-;a;Gt<A3KkZjf}*ddM{J^U==apt`xTNx6|K_emQ<E;1T68{Nkf=-*z_C1I~OXj'',
     ''Rem75BAApLdgTbnA(}<^em`Gm{z7<Zx7#HL%W*+B^&ia=Yf42^92SPlb!<tj^>{B7*ybahHe~`5O(pK'',
     ''Llg8MhIDd}qI%+NHwHH};6hC`9Lo0<BF%l$IcdOZcp@7^*t{H9h0M5CD)D#-$COYh!*Ey;#(`lgtO;>'',
     ''xyC%1KhbVtOWmUo6$Lt`*7Vr~zFeufWw>_{9v6+e)oLLmB`S!Blpo(8)PB4fTGfiMOFWADzt(R<mYH8'',
     ''x1Wk0A90}n~u$7|rgRE(44eODI9@&8X-A;V}}VhH`A#q3$QzeY(_Fq^r%P>GY|waQ*kDQ;NLjgfA=4='',
     ''C9jHjKpfig9H+Iovv@-cR(C5DW}25bIF<cg{<)E)R5HLC3@MbaRTz$7`cusbPwwq@(dl`An>JOB!CRz'',
     ''TX;1<_0~&3I-G|hYDqdKl*_BpY6g+6DQ^v8rxel(uxnPZ^__>0M6WxvaKHw>)t`1xRGmJro}9klE<Xm'',
     ''V<tcUga_C2*0xqvg11jL&_i&BIpbI!63l?RB&FqZIdCcK9ILYxp8~o&cRAXoZcS0tsOFSXXXL;FHUI_'',
     ''nuQIG<BFT!4AsVQO?vv6yb2Uu(p%Mq2DPAH~3_18TwM(ah!svv+q1cYPMgUSFQ~QOx@Oi('' @ ''*U9!^ULXY'',
     ''u>5k6Cx+)Iwe5$hVvCH7z?*`gTDQm|35AQUq`Nrc8{e7%sF!ZB2Ufms^mc2O05i6uZt6y+T^f=NRQgM'',
     ''a&BNA(NdI@K$<k--rLW@3$)(Gkr4`A1_O13j~0!F@#OOcc(I7TCP0<$?$7G!z8Oeb#V@osOzy^3~V>K'',
     ''5BGJCexV)DsS3@7`aQhEGU{Y_<4-SEQQN#!gOfD2&#m$x2ou1zW+dG`uh)YB(>dl>sHI!f&2&NCm(`I'',
     ''^n)J##`N1ZGzQ@(N1(^Mczx41dM$4#9tdoF7ze<fk-4UPh3l5f9=u@3q%B}@NZA`IWh-g27cQIF5Z;V'',
     ''#3kA-2jPyMoE3EWPLC?98GGka}LH8tFP0Aw^gikc`+_7(jEn*!+pXpG&oh{#8QPn{9EMT1ju3(^GE2m'',
     ''4k-m)<@G$*5DxC-L2I%SXDs6n7ak#i(TW>BUquAJE?)#DA&6IR`A#oXg%nQWsup*C5SVw$~-ag{6*L;'',
     ''^c41w*A?>x3n}$uy1CRp`x6jR>RKQu)?*EhP?6BQ+go1Fspw#!wW*B15I}-UkP31jUOetmT0sj1MU37'',
     ''gGP;YN_@H#IL=}3Ey1OgEK9R&Sac-z5NOIK?M}Pqp<4_f5#*YdUE0mIHC<oqQYKql1-PG<Za=8CxkN9'',
     ''JzKh^Qa={v_kK|VE9WEJuKXYj`LIf=tlyO~nBB;3n`D0;ymQh&*gTU_`Y1a@aNgK#ujG7aps-f#_SF!'',
     ''tjWOm@ud+vAV1#jBW7Jq+#}BqR!sx%DfD4wtchG}*!X+F)yo{M?FbAe`MaVE&4sO=4`4lCcy8ubP9yO'',
     ''|d=b8Euc*CYNF#}xV<=#XE;7!1>fyz+;tR3;K3jfv!|J=;+>tBz5yBwdsIsX3j=?~){PmiyDzM$VExE'',
     ''8}7tEbTNK<1*`+zcV%I$!-Y{)$`Lyxk$kUku4i<XiteeP6`SJ2&jc1r>fg=S3a1q3Gol0Kpc@vuZ3+A'',
     ''x)wU`#cz$YYJdkZQLH^Xr5HHA0ohxt-q)}_zeyM7cE5_#^jGB7$!2{y~R}5iMFvM!2P_RfMI$-{26-E'',
     ''v!|oc!3vGNogqFmQrQU(g1RcQI~|mPkylun&Z68yYR_QR&AAo1=04N>#9{cOhLOqm^MBcbe`7NEVT(>'',
     ''je!p?t`Xgd!G{_M_COA@&L^2ERZCHu%<BYstb)sL)@WVaLk4(5{!A~o=$Gg8<;N49UKXKos_;K(cjIE'',
     ''{m-R^5vEZi4UvDiInR{srdMc-}xNm3zJ_drUKx(7kEPp_R<V9Gs3dhouv`ikDeFlb2TPftBG@AGSfov'',
     ''_Ax@T6T>xF!uw7rxj%UzV^xm@12pB(SiE;Umb*7W4BFA5{5kY&Sf0Ph5F7Z^r)uP)h>@6aWAK2mtSfN'',
     ''m?RDO)V<{000I9001Na003}la4%nJZggdGZeeUMV{B<JV{dJ3VQyq!V{dMBWq5QhaCwDN!A^uQ5WV*+'',
     ''nms{+e847aOpF>2dXae9Y?=zgZewZ5Fs$(Rwu=-&;?AL=GjAU6y|hGI@!T4Mj<ovVs;Vs#f9Mpwk<34'',
     ''naac(skAST73)I)j97pi|fOr`Y34a0uD9O6dtgqo+B4Z-syYUunM7Ht7XNgK0+GW^6%oxkHY#K*bxt|'',
     ''pytLmQ3mT^}Flw1g96bTVEpv#!w-11jzV3_-A+8Qv5(}0Vok=saJTU62=Ken8zN2wcFpcar2hoie7?-'',
     ''r?y@_z445<?(+FE-)Rd6<+t>)^sPme!TBt44f`0YunO+`hgPomSk<LB4tgx(MA;8L9Px>;EW28sPdki'',
     ''z7TIQKLPp0&u%{K6{ZJE}@C+Pc~O_L7*1RipO*=WGNwL-%v{f1QY-O00;o@hDloJzD=T`2LJ#q761Su'',
     ''0001RX>c!JX>N37a&BR4FJo+JFKKRMWq4m>Z*6U1Ze%WSd97G$Z{xTX{qA2ucs`7c%F1jP-J(HVbdgD'',
     ''CgJvg#Nm`&71Og+`HXB(~Nh*$8^uPC9iWDVT&K5<D0I|jU;^DauYCfOOu2f~YtPIQ5e$T6d<s~;p7<S'',
     ''mne8=|u$Yf=O=DB4DX?KiQcu<H}cERjUuu9m2($DE^_Lr)Z&w@#7n2`o5Y_E!@6baMfADK6wKuH?E!i'',
     ''<$=$r^H3@_)k9zE;|rnNcB}5J#b^_m=VUz>kLQr0x4=3z2S9R>CPeTqw3$sm2!Eih?OUTdkVfD*CzfR'',
     ''w{v&14oF=%DwPjWwm8rWPLA;k*Z<@#YRhk5YpKkK+Re)R;uk5vf-yP;hQ;{'' @ ''*+#29Q?;$RHo-9aD=!=2'',
     ''*X*$-M}FnuZ(pvntDml~{(STKQ^IbsgM{7H76I^b)@szUPO}%pp>$Bo1;X9PzJNO;D5ZHR(<g3306ge'',
     ''iwLj0Pcxh<i>8l-SUA0etmajJzfY=NJznn3AoMB_ipn89Q>(yp)edsuF$9T-WW;})2jL-&?)&cf(E9|'',
     ''X%w#c%I??sj^XR}!$HZ04vz$s@|H^v&Pw8#)n*wJFiR)6TQ{Wg!`%^%whU|TrC^hIcLjVL#Y{hlqpPu'',
     ''O=KmaPbV+KAFZJT=?J{G&AdsiY%~ZrPK_IY`aE9PJL<@)nsi#J=y-?>_u$zU=I2VH;hs&#DqFP*xwKx'',
     ''4<n^x<}$Q7qw+K?&-DGN}mLF;JQLQXF@Zw%7r^7)6~v1WupYz)%L#*>KrelpZ`y=0mr)JcBAy(Bj_U+'',
     ''#ajXA_7$v&#?pA;3v56A^7ZcF?&|I~d$_&Nu5NFxKR+ykVp=L*U~gJ(j#;U4PNXplpLXeCC$v~BTXF9'',
     ''gTA-n;oy?Qh=MIuaR*Q*5@|>dDLjQkkD=!WM@(kNOsmN5f2%+q$k!6wjtXVA6&W`)yasl*'' @ ''}Hp>=9lpD'',
     ''u<LMFlw2$4a{w3CZSl13VgU&f4yS@'' @ ''{THBhY_z;q3*eUPS*$)6BJrtkET)D@'' @ ''{Umk#M~91#y^=RQtXes~'',
     '';a@l-SbO7GB;~ceU}ohm5u~1V8ku*6KwTRPS3CX#mxwP!|T`{`MH3Z&;-)L!{hVz3{3Dn^&q0eV(vC@'',
     ''zRK1^3w;FVCYn>^8-DCXF1S<H!KY;4WmnWT_c?q_#Rb#*r(pWBF%dcpEzwDnxV&@HyH5VOjLTuzQ#mi'',
     ''nxo5Vv|3L6kcoY5kM1DGY1e}oyp7x-Di9O!pEsrLC`%lh=EFSFY(5~uCxQ0QyrC8Hf^Tu&-r(@OH$x6'',
     ''ng&VT}gyull{T9@jx{lF`43o{ryc{0xI~qr{c#j-a)Zzu;0=Hb<VEDrTgbiAg`mH4l6OOd+&BzLGtlC'',
     ''2>=Vf_hp;)-R>Tf?*$457o3`0keRC`nhEGMTyRcvQ%Z7we^wiw=;Cu;N;wd+e4`(u5)K<P(l7r*`CcR'',
     ''#RanLisG=D-Zq9_m12NGW&RNsqWN5bRZ?A&!G`6XPCHBIz5)FlKu72vbBTL{W_9IShYqiM>Iy|7}DG+'',
     ''Bwg6A}b_KE1?c`&pIg&C!rS=kTlAqHPS7mK8Si5mX@<Vuji%M^8C1>PGsiJ2zo_uR)|`oW1=x;8%#ot'',
     ''7A6xF+Nvl<+>c`sV*RDLsZ$lGg>M;(dEXvvNUaFgVxa9dxegouyF#1n_KgZh#9h7odcLHcN31A{(W&<'',
     ''cviAQ;r~4Yo+G+>Dyui?qg8>lk6wp`)(ZSQ?Oif+4+#mJ6P%@Hp(5-vlqfqbU-?5*N_qZ?R2m%z%`Rb'',
     ''{m2fhc=U5NT%pDG;#L6vdkYinjZ-}K1}(Fvy*oG^mmCe&R#h+~t!oK$w+C9U)wM)?W9K9|juC%;CC6H'',
     ''<QCVUSw~F*4G9J;w_#Fm(W`+Q=<3t6-QpUO}Fz=xFIU9gx>TK>s=!1svn&mqRnjw3vBY?%&gB5Q$L|U'',
     ''f|wMHq#->I&&s_C*^+k@%SiEAomi;Vc!P;gZThLm=HQPx)~N74NZtTTH6aXK|Zb#DM_WRIt{pMcP_!V'',
     ''8^`MAjMlR_YUpHs1nd{z@luSxYgN94xA#ZdIAw4au7D^x`SYS1h5JoodU}at#zZS|ro)?w)^=zo)1J{'',
     ''QnET>yH2r8g|I6;$aYH5NlU7abFB{>~kxbo4#<!0r%--~lhu$6dn@H~tV%m2<bhK?{+mfFS={CRzdb0'',
     ''ys(aRf+=2I(Dw92V<hA>TH!$h8zD%g8>Lv~x7xX$cc_PGNZpUt^Jayaqz=fjU`+HbfJ6z(c2iZt@Y?M'',
     ''y*hgGa`x`$-hz*N(qPYT#a5xl1hVIBsSf!aMdef5tT&h2$KjjAIS`+#q|R5kEcbxH)%c84e8HXwdHI6'',
     ''hSw7^b-v>hLx+$m1uSFCZOHS9ZkOnX+#o{Jc#$2>OepPS9nao9pXTX4uHRKSyE)_R4EE$`MKFKd;$z7'',
     ''3t=euaJuAc{2DcE@tb5^`bW)rIPJSs2vy<4@Gq2+Ug8D~|DNR9{X4NaepB*5Hw}7y>8@n-R;2~~O`y~'',
     ''Ha>}TGiFGgNT}!DBF6Es~6gY(CUV^P3bc1{4e*jQR0|XQR000O8?}kZQlSh~=69oVO0Sf>C82|tPaA|'',
     ''NaUukZ1WpZv|Y%gPMX)kSIX>KlXd3{!GZ{s!${_bC)xftdQiHrLhAOj9}H>^O>J9IbfLs1xtP1{-($&'',
     ''lov*|7h<hmxH%z1{+}&<jbC4<C}w^ZbibJL!%>4ue*;49XfoCb;8Zl?i2*=XsW?-C$i1+SXFjdDnHyb'',
     ''o18wdF79%<v}_F8K1Sz?nF2a*of)wR{5|Lp9g+Y>MV&2YA7o_Ob%ydtyL+<U~9V@G)3Pg<rk;)J<Xj|'',
     ''rW&O4<Yu+FtDv}(rg>8@UHMs|b|l09YS42{F@}@Q7d3ox&bqgx$Ds5{u%W?G!aU0uPB^-maV<LvxACl'',
     ''~DkFDPRf{akuEa+xj14CsOe025f`cs<qEWCI^zjGrhmTl?(~(eK$U3M!=_AZE%GY*uvZF?9kL>18K3W'',
     ''O*Bj-!;wI{(3FJs~(`uy6KdbwBD3ERR<=wY@UO`Wpig&((n;XM(osC#KTsCz7>)^GTOKwyIdky}l0&s'',
     ''pyw(YEBkLiS4R;S9rDa_~3sp=lI9wiIqO%&sV<%xZA9CaA;iX#6;^Sp*jmGG4aCAt}CxA<}Ydon!%Jk'',
     ''O@Ssg=BB~5C*@#zUIUY$3d3LUX!`@(Zy?E?W%564P9T24DkwbE6()l2sqh^&dFT~LtlG|Xl*_2I25S?'',
     ''18(<FWt5OvpJ)?U&i8iIjW}5MBwB!LNV=FO0LKY-lbm!UYG}cVI~NnL5)*j!iVG3A-|T^a<Wd|+JQ;g'',
     ''P)@pK`?&*Pp!dq|({}0l{6e_c~Ps9kr#u?*M+_VDm0$BI~XiUOc)?5s*P3+j*P&}wIxi%Yu^hJ_TU53'',
     ''45%`Jf8e&npId(I~OV2UH%!;v>~Z&kw-rh!buW<fpHq-PNP%vQV_=^6W(m>OD43;|=U?SXZn#C?P_aP'',
     ''XpMXkNW{27x_i;9#Vdp4QnFR{TTHE2Zo9sNaVig87o+K|nb4OVNYQkCSLLTjGDUv(2cfnB@6{%WacaR'',
     ''cu{VzKHhkY@n2`7){I)J*x!sOnTX(!^{=21h!hiWjT=``U^D#!=_8|-g7CY3KU!$eANJ2bDT{^PDQIz'',
     ''@xllzFOwS+VOf7moKEHaNDR>6xXsiAth0vNL`TM9ed_iP-25MWaF35b?9Limh}ADp4(p6DQf&l|9puY'',
     ''&$iH~HIl=w#ZvB|W%Pa9a$mAG`2+LDfVS^MPl$VWm9!Zl@#CF9+!5Nn#rG%MN{(NbJ`<X=rO^W=8v2G'',
     ''`IWP&JSpWlOz)|D5Ui&z<upEMgvQeb`3lw!+OeW?_M=kZy#N+S{Twm8EP+wLY;9eg2>2tiV3-Es5r9P'',
     ''*z@Z8-(E$zO$*M{|oA#}C%DsvF@EuHS+#Vu74{Zfl`;cI<kQ#+Q#aUg(s{pgU+?O}bT*E2h_8j`8^nw'',
     ''R+BXy=$s8gLpM%|6+<qW+k}NC_c?!Aw3_RjWKI{K*Mt7!704h=AZ8GKi{v#Kal%3UwmKE`Vu8To`y>y'',
     ''uEXNp3A;O@26^QMo<5d%iUSOcGvu30ZMj_)zhW4G@qm&0{iMs4^X<1nIV;5vp{gP5=v$no*F1%^DyD<'',
     ''m57qnI+oj0!3y7xMGfZboSK?#@Y%<)4CC_3E?Al4+b8Sx7%-RuI#W<E){Y}jacR0&sL))<{@*8GnY_;'',
     ''*dAJM~lGW<>)T*(^9OUcJ6u}Jjg*H>{SgYs7M?A{dlYBg_ihH$3IV#<l5Fgi2ajNgRCNhbRbP)h>@6a'',
     ''WAK2mtSfNm@X-9(rX4008n3001BW003}la4%nJZggdGZeeUMV{B<JZDDC{UvOb^b7gWaaCwbaZExE)5'',
     ''dQ98L8urkW3tu`7zP+~fh}vc0EHXm1^eI`0xeMv7l{-|Dv6QizweGBCCX8=8E7N%j>qHObI+ZkDEgIX'',
     ''E)EqVO+|A?N~uULg*K|q4G0Jo1z}H(L@i?O7^x{2q@hYPHH)HXHsf_8l_665C*AHFC3B{Sm7|`OO4h_'',
     ''28?@t=KXYvo@})6c3R)%Prfn)V>ognQq!|~6DG;UmmRCi_#Dm{@U?x+o5OiO$40NY9<rVkpd0j|*jQ)'',
     ''mV+TF<OpGi^jL+9D0l_cc0DJX{IcUIE2GWt(eHRn>*'' @ '')PR{uv$C!se7bkSy=Mi_;of)!&1+s!m3h&W8T'',
     ''OR3&iBDPtNlqSIeBnvc%{>t>pTn>=wuH}X|U8C4oN!9W?4q7D$B^4Y@=K;YFLIT&boj^35o2JcQM+{X'',
     ''0w8o<h5?RAj^*vp<B%e`~WLwc8j){Qp~gpu5<z^3qbI6uF2Ww3yUw@?1bwH>#<e9U#sbXt)suicX%`M'']"

lemma good_DATA_745: "good_lines DATA_745"
  unfolding DATA_745_def by (simp only: good_lines_eval, simp?)

lemma lines_DATA_745: "map length DATA_745 = replicate 150 79"
  unfolding DATA_745_def by (simp add: numeral_eq_Suc)

text \<open>Lines 895 to 1044.\<close>

definition DATA_895 :: "string list" where
  "DATA_895 =
    [''i}Uy+*'' @ ''}B~CqNG=*MUmY>2D47KKBtvtgShmGUB8+3crk1dw1(3UmE6-RI0$`N`*3^xMR2RM;M&62=1({'',
     ''9j};kJ2OTfM+ovvh5QUR;dcAjeD;v=R6HL*Hc+jI1*6^|#_7CNd*7Tma7-R<}+a?Z#&P*proF60KF^r'',
     ''?#{'' @ ''*>M&Ev-iw>mjP-UdTrs8nPHzlN;4C+yz9zR)imfRLooI5a-K?RKOlcCWx4V>0EK^hgA;VEwG~<`J'',
     ''QZt>_*R+t<{e|zmR8V55ix{RJZV=jxSM&1e@A~go*^b9o2Kn4XZI@xMw#?@5mQ`XO#XUxrl>x7p$%(J'',
     ''h^sd#tSA4FOOMsG<OhX3z7yj0es!kiU3>N((_EZg@xV9MeU-r@y9C^q~yT#><J>L6Q~zPxJd^+ZlLTa'',
     ''DY#;}k?NQbsv#iE3m&*KEuac`m@6r2@C<9&8K|VZx6#7m0u|VLX&r@wS>77NdUq%<p=$v1n!B{~$=zt'',
     ''N>Z2d1a1D;V*60r3bMZqbvM$^T{'' @ ''*;hw8(-}Na7NeP{^FwW=o>8Ds3X}+b7wP4Av6+>hH}DZ4Pd(m<Q)'',
     ''%>T%@CoXb=s<t~eUJK;C?Pe01WsMadCR;qPdH(dj2>cJWGmDrOT_LpU9KDFcoh>-IW$q%X8H*;WM+(g'',
     ''0pWM<@a82vAhcOU{ZAv>PdygY2kZ#7JZ-+v+VWEl_Qv$Jb;KIKcKyKh<BngBxjp9h_<o{Y#TKNHp;rq'',
     ''?iT<$HbaDu05;3cEX_%Nw`?Wjk_*49FUF%@a}SoRmq+~_8E#i*R^}kPIhhreulszNnzxDrJY;I&>CXk'',
     ''i<ERx+Rm3t!)qp6v;JwGkU57*4E)2#<r3;u;nT(D;zr6!&v$;e=V|BI*brFSg~wzT1)%bOjGtIe1`Ci'',
     ''PM{r%fZLIOXK1<7`gO$VWiLKPtD@H2HE-x;#tJ}@yV)I9KvB|D)f4jW;a`x%^I<i27@&ed9Rv94tj$E'',
     ''-N7Y`Du6B;5=njcepkb3e75InF;fa>*|R6FhaBIK#i7~lyD;-uCnhp>giTl}hS%V;RRO6J(_Ui(j;r`'',
     ''-v<7XDl!Y*oRq0DT>M;YcMgnv4Xe^L04r>`u)B6B*`8Jvj6oxn|HHNLkT?FTwl{26<9Qrp4SqLHguzq'',
     ''gho#kEJ$+fengRFR>sQwwPw1-vJQYxA3#WuKQsKO-ER{ED*x)`(>k!<8<LS3}_5rGbsclc2{0Zu&6VM'',
     ''+Uc+|kguKNNgNow?jJ22;9Kb0J}jW|qW*v4r;N@iwDbbm3%u)UKokg(Ahj<m@(k8qqQPtUBE$Y+;=$3'',
     ''NZrxn@t-^KU)ySGQ1+Y!}s31}Ccw$|ATM=?taltfeCVcBX!fSo~YX8_d5?V;3;DUC7cQY6GiA6K;6R>'',
     ''RDzir<G3;+kXA+nTHF)@f2DEtugQBQ5Br%d~231{GboVBb3fRf=0pd$2S<{j?kj^aiW<>1Vr1%$Y<|M'',
     ''ZJ7_BMjTtMvgZy_~lK=j`4tiJraoOEe$K7*mW#jNt}WQra|F*yX&Y$2}uQ*^-)382h4Uy93Mw=S~1LB'',
     ''1_`tU9h(pK2)ITV$^JdedNGitvLx}A3>|rMR2>?jh3O#YWcuUgWzToznb*=vws0lO9KQH000080PluL'',
     ''TAJ=$&f5$C07)tU02=@R0B~t=FJEbHbY*gGVQepBY-ulWVRCb2axQRr&01}5+_(|`?q5O3C@ke<CF!A'',
     ''G7MGxD-WoJWg5c7k*jos+#NFjtE2<)8XKVPscZM$#DbbFT`%)orR?=`doHsr*RFWirqmmKPDK1*l(O$'',
     ''BiNT!A^Ns^Nje&|H6NF#PT-tOEjP-{weFZYAu&3Jc|?x$j3)pbw1lWi{!q!KMYX!r$jq(j&BOiJ@!9X'',
     ''puBy?fCfbMlH;DkpDQ%X+FrpOg1o!h;XuGl<x?Ir*psr%g_N9lC~{7)~AUiju=@J-jNah8I#%HOR6OH'',
     ''Ir_JFCYH#;p4wPl&?R3{`fgMP_$dV8(?Zwjve*Vf0&22ulru~F;1u-Ssb{m9Gjliv{EG<)V{<4<<P?-'',
     ''r0SKp5TZFbL7jswo;l?gJEq?2XK7is^uWq8J2^S28Y(6E)H9`ye`ihiM)U`&VA|AKsd(4c3<Rlz*V*c'',
     ''Xzy(%*K{_1GS^u~JTaYW(UkLDtJ&=>FqsL#P;S22?IKF0EQo=g9D$7)|W}A~owBN~<vEQRdm)GNMM$V'',
     ''su=~`x{#_QC~(h146jt_%W<bn~}@LkJla?RC#<X`ByK?YfX6|0_W+mF1=OzY%8zm~|gbX=1SXz}MK3q'',
     ''r2-0?ezP9pIOyd%7UI=C#`EcgD}r5G82jz`?Sm<o{)9wtli9=j6}hSa58xKvs;Z(Mp;0kxkk&8ZJ!)m'',
     ''f!$jYiU(!9<C<68+X@=1j<Q|y$%P0qlz-l(cF3y-$6I6;XV;^a=4=X_MlcM2<RpuzueqDPxJuEy76&N'',
     ''63uZbGy0JGZNiyQ$PtGFJqHF9A_^R!fp{lk>k^a|lF+s$2c{^<Ad8cc%?gJdMwyAioPfhqxwnZchj@Y'',
     ''{1HZDIuwu6&>Dl@AEGK8@=SCrC*__|FR6C`$nUy9oyH)_PtALCUTQZV?g4UZ!eD2m+lv-XijhqzbMis'',
     ''Q{SX-w{T5!WG#toPJKxQN9oL9qIB$63<PM${i@D{cXl|FSIkj2)e=p~co6>SCxnve;kF=kAJgb?70a7'',
     ''kLBbjk=wof)1vYWKjTC^x=n#5G3YoolvsEsQx+%f$`LycO8^N|NGt!L1$^A-rd_27j=zYwvU*ES(=zV'',
     ''hPAIh!PW2G6_{O&N`RF4gHBEtKZsWA;}==j#)YM?>nUM{qc1xhn^9&XYdy^FWTk^e;8@mb;IHR3#P6a'',
     ''YYjskfj~>Pya!8Jf&Ar-j9NjwbX`OzKgb;>i{IKWM%tTOSeCPk&T2MUqa-qQxB|?KPg5-t#B%~%vuv&'',
     ''{V7}0hCy~{Y_hdD~iZ!Tfv((!uL<7Bo#ScxRVNEX@B4Fe6xez5lSH4R8DFQ>IH&6-tY;P88a2TxTKzW'',
     ''<Y0tK&zUa$r=_7d}DTgxOMVU1+>40<)m5so`0QXCkmMKxyHJ+2csF-{xj3b2t`y7o*34E*Ik3(Vdi!!'',
     ''89AC)tDM+~W2+&ZzxOcC`AT$$K;Td}8B0Il5{K&SG5b9+uyBM33IN<30Sg$&I$jEd=q6_X?dqmIz{~X'',
     ''KCswYs{UVbsWH?^>=gg2VC7SSbDi-9Fxhs`aanMeH+nH>pG+5_U#?%4V=e}!+q9JLdw+14AHFq!CTF)'',
     ''kX^%-anH>n?PD_1iGSocLGLeJ4cNcky<%HBG)jgbJOa!o<oy!RE|dxppgl+}nJF%eg+A$=V8PC>dq}M'',
     ''CZ@|f6eVB=BD*z;FV8ICc+Ck9ZHUV!BIbdqo*j$pvM`$|04%fg1EZg_2QjqddA$yDd5q)9lVJ3aiNMY'',
     ''+1f^`egg$~p$Sh=|xQo6-W7BqsCR=)3rwsx2S4QR;#4uHRT8Pi7$QFOs2z!XK>iiL@Gspv3nJ>sG?N_'',
     ''Xp#KBvMx%wn@Y1luf@8{>{8Na}H$X48caIy8>7MaWG5K_OsuIGYud?F?EWO8N5neX`iNJe7uAbTu2<y'',
     ''A~^4hfh2}jMpi72a_nHE~;HJC)W%;cW7!tFA&(Hz`tYdXd`y?U{u9iVq|oW)HuU~#GVO?aSJaofI`|O'',
     ''FW*Yz@1kd20~=g=h3$-3e*oV^Q0d5F%t<D(`0kv};><ev%1g88qOKU+^<wDer68}ru7FP6Q{qph-fX_'',
     ''N$S?q&@AQOVIpR?eiZ<TyE7*`-`Cj-yQ48jxg4T5?aJ<TPD=2(gS#-ij1Q7yT(ZI5EGw)LM`muTX*RB'',
     ''^3Z|XRz)N(_ADk1smJfU@iO|11yL7PB1Z<+ITtX^TT%dWWNRn1`2x-i>>Esm|&Nl-70Da4azy_&W-^j'',
     ''eNgmI|0}%@Q(+!n%q3%$7<4%E=QKi8Wn1=VC_;+mY9MUhT)N4pYIj)g4K-XVs<M<useHYq#Z%O=zsW;'',
     ''=O3G('' @ ''*scoIgQf`co%PFg|0u|d5%A!40<s2)%1u<(O~;xMX;9#7I;Ge>UeDYn8~N03HL2+5#$aG@W1ed'',
     ''Sth&+I*_TG+B1vYeMWXa(xuW`e%KbClS_8A@C*{x)cS+}r^TuM7=?az+cEQ*Mgg$XoTgx9Un|zB`NaQ'',
     ''3YTbf`B_mBZK?lW!O1H@iz@eH*RMh~erzZ7)bw}tpP=f-8+ZleBM+^c0ia+~}G;9cpzJ_|YE(0bdSL`'',
     ''rvsZHh{``T;Wyk2XSftEJ8_5|~H<74r_);dp0)V9O`hD<uNRty3~A@DB9N4(c)Zz{YIz4yFkMrPc}l3'',
     ''gP%Xp`iVlR)*df{0lq-Y$1aKA}6~=4#UsZU<1_^X(R91$1o^hqvBpQo~Aj^UWf42AnN=gDuvZK;0&^)'',
     ''*GFrbR=N53&bDkZ-bQPW_G?aW;kP?!Wd?@&7Ts!Yc+H}bm~aV?j1u9=+?{fS~uqbk6jGAbnzCi<Q=kK'',
     ''xEflJoc&3jq1$qGCe6$U5w##il1JJ3Yg`ayizisT@pfP#YOzdo(CV#X<mpNxn4Ub%=4!BnOM@&G6L`V'',
     ''e-fdhHZVK<r_q2a=2I!7a$oyu{H+2c`$LUCDf6waQ5(-H}$A}5IT*y(&<VJc4AXX9N<1XbpK03ON{qR'',
     ''w+`G4_>Is=8q{Z5~USOjX$%z(!31mjLO<yd%WcfEqV68IJ{g;EWm=Z;m_(b)rigC2=GsbHI+sAnkWBm'',
     ''j>oW7ud<al@C{bo^s%^#T&<VZdz%`}YvkU!BAR&)rxNB*0=s&}07AncEgp%L)n^mke!%{;53Bb_#_sL'',
     '';I;9DQPVkbTo_MrRDL!<XicBktWX0&(EODt|->&VJzd3CR8N0f2z+KFmZ)xL<AirJ-ul~Cg<k~`3XhL'',
     ''7FCc*O>T{thVbkZv#t&e$QHIrB(IBI0R-*2N$c=pQ1e9BlC^oeK@bJ&=+WT-eqYm8jqL%5QCJ2300@d'',
     ''Vyh6}4V^-NFWHC<?cAX&FvLeSTo|3*%EypJ*=otEG0wA(yrRoQU=TGKtix4c<OI;ulcUg~fN3v-ELEL'',
     ''4b$b>!OytJV;?1*m-cx{s#nBvwgmZAW>wwnQZ?hW|GtzEA>SBqT<gdm>k>mc7AffLHl03aA%4ZmdM$m'',
     ''HWz+{'' @ ''*?P_*m-=Pgb5jeu7n^Vze&egF@}FW?>v`B2;2%RkGBQ4qEp?KsxC&VlliPWSk%3i6}A3ZP_}|l'',
     ''{(O8#Mb`5kSG5~_P5p={eW>ilmW(=8(Ox5jHR3Vis6?A_wYkReYX$c;<cANMu)kNkE!Gk*ZgPTzz35T'',
     ''Bp2|kKjKjaNJL!9*c1L*D6=%Fp;#Ma7?e0-s%2oe$V_(!vkMH_Jjl->WnR$gG9p));2hzdEkV4-JrJ8'',
     ''7@z$Ta;ALqJ-z}NlU+fA0omz0>i1rFQL8kVy<7V}jyH3d)4MON8E6viEYlS+}V{X@4>c^nch%~15jEu'',
     ''1_Fc5BItM-XU`}qsViT8zyU*?A9jGdi1^zjWpK_$i7xpM89Y-5~qBDAOky=%1dD$WMTa5$KBIxTdKON'',
     ''|=bh!AN7J~f^u8J-i4MMnu+ms8JbhSdVV`q5x*-GmWPdO~Ix?5Rk2GC{X^z+uv-;s!8zFmu9iuJzLiD'',
     ''LDX+e2K9$QVVzT!Fwpzu0?+tG{0=VHVyP%RImq>_jP7Z$;YP75mlXIL*bG<E&c*1Z%?nd82S+0Ox=q6'',
     ''5UdAO-wRrMXnp*C3`}pk5rYPDmHr%Wi`Be-es{yfFJ~Lzo-X<$%Wu<kW2EmRjC5Bc_##gC?^B@m3$xL'',
     ''bHW=cEA>%nkCAwppWvBp9VTi*WIP_6CM6ZRy3)KDnXDIp*_*(}i)=`${0e2l=e1CeqD+fecU1PSgV;0'',
     ''{s%pGp#Yx=lNqYRVj4$}Jo#eFq7>oDrRnEPbpC=01-G<rxBa}U5P!2edC=>HE;O9KQH000080PluLT5'',
     ''pcY9IFEW0G$c|03rYY0B~t=FJEbHbY*gGVQepBY-ulWa&KpHWpi_1VqtP~E^v9ZR!fiDHW0q+R}9n(y'',
     ''-|cTz+McfhvtO>MO*Cd%{2^K8rjU!q(D+}-NpX*j7U+hI7pD9I>^#!=HtvaFN;&7jf1*XrPEs4L<E7o'',
     ''*rYc41n$xZb%0*{hD*u!5;ORK3JrJKWbm7#Col9*UiN3>gjQT;@X$6AlK|F;Cf|KRRcVtOQ6BTg=z~F'',
     ''PBR)%ju3x!%qh)(inSXt&&q``uO=a(e#C!2CPGx`fVDq=B#y!PCZcjxI_>Y^tixa++ys=m<#dmn(LJ='',
     ''FY4~8pSqq%Qzv{+5!6^d9PD)Lf_+y)PZfbY1&-^EFg$~BYL32Aew4~Iz-4(LduLgjcza*{-XV#s&IFd'',
     ''8&a3<=w8VwN`hi$lBJj@gQmBuOf)Vb^757c;Zla}%;6dVn=7paKy$;fK_BR5PSyoe3gKd0Gz@v7z9|W'',
     ''CbsO8H*?&W$=eq81CD(x8>F%g&a|#C?M4;%^-a^3JdnATUmit@&bE=ma+yyfjc5lD7=*pPP)Q8O+pAY'',
     ''DD8qnUeH}mJ1&W;nkaNE6{=2G!^hHR)UHDrZx%%bd7f{{lnwgxl49v5@|ag>OCvl9+b75E<5cpTuCf`'',
     ''%tWsGjg+dD2c12eFoZl|A=iR^-U$2zt7b?rDpDF}4P}(b`byP0N`d<hcX2R0-`E>Y^*eBkh<I97ubpD'',
     ''(i|2Pb?Vi-K^rspFAgEdL0snF~!mReQCZD6&FdnYO~8+hSWwd=$zg%oapE!v%};03&1Wg!KHzXz<daK'',
     ''`~=OjWH7l*d**cAYUa@hrxRK<Xl|G?NcLwM|8XiuK-Rz^hMOl~_nr%$u!N!}Q?iA08h6Wm0s9pADTeo'',
     ''X*PD7@}=WfxDhB|LhSv(~$+*ce!<yZe8v{Se?c^!c&j)47!FV5A*!Dnhc4FaV=YWWPMTec9h&#$+BsH'',
     ''vJ#{e7Vc!&0rYXQ5!kEz^=*%JJ+wZm;L0}=9ld!`z?in-D~-mfBe_9dU8vSN%os+|b2zJ!?{F+$ivuh'',
     ''=HY!YOFqBeP_*LKCV@a8Qxv{=*78~bU4H2tdwnHU-ZCQq>(lq^m4!8on|A?idRl*&V^d8rX(-2$;Tc$'',
     ''@FTP39H4qa<#6mqhSf0;a#<Bw=N{FtB)Fg+XIq<Qop?yBY18;Lg_e*D{(H{3YECHr!Dj|3I*A&^vbw>'',
     ''aCEr%@Mw-*Jm>zXCm78$FOOb@+*v@k`xga6Y1frd##Zzznr|@)=M|0|XQR000O8?}kZQec@b0g$w`y+'',
     ''AjbAAOHXWaA|NaUukZ1WpZv|Y%gPMX)khRabII^ZEaz0WG--d)mm+j+qe<_?q5MTA7U?Tq5V)4FrfBw'',
     ''8($MN$!+(x7aW3xKufgETUpeR(mLwl{(EOgN+Km{Uveo9HIS@Ca)#v0GcO!!KA&HTqN2P|q&hNk&3>u'',
     ''5WG7Zsm*RAyMMid1F_Pv~sc1I4IdWxQ2t4qDP@-5#C9N1aiLA~UQ9^S{4LP!<70CoCL`7(Rrj42vjAi'',
     ''7Crg!wfzT-v4BuQyWcRc4+17nMq6{(AYrA#R*dEO9yDut|&@yw??(e%g*CL4llrFl+xrN})iG9h7-jF'',
     ''s@nij*_8BCJZI*?c~q%`CrM91grV%=S{8$i6PpN{C#wv%$V9PIJ>M$_m~=6t?q6n%7L3zN#sKOWX6RX'',
     ''jbGMSJjGqUshZcG+&XMy3E<k3@>>ZCA_GZgsv!s9dukj9vRCou_ZV(=k37slnKpTO$>}sKA#h-hL-Ft'',
     ''HvU73y0q$j7WEIH517)DzUQA204mfRV#_|K%q+R(XDPN)3b`UzlHGGrt8Z(bXRo=`%^^m5ZBZ)noPok'',
     ''*%k3R6?k?NLX}Z$jC)pbSSz-@WA!0x`%T=Tp@`p_%rDS{6OU5?CCiYAM;8;*GmP<wDfmKP_R7X*?JZ^'',
     ''O3m2L~s7OXl8c?V0-;_g<?ORInokti7$Ckj2<p<K=XNhM*w{qD8MZ%o@GTwvQ^2OVG?hjC?kf(#`41r'',
     ''%1OO4g{IPHu}CfggCE3QRYFQ3(<!EaMg3<!lx1&cWg*y0ndE_}(sSVjw=ia=>m^v*py1^=O_m$0I1_G'',
     ''7l=brL=SQwx?emiG_)k$ZM2!q&;t|A$Y#VuKTcnfdX;GPGypD>5KOUTEU*QT{Nq4(@j$X?*n+Owj22X'',
     ''o8%76L7{wR=qUj&aqBW8fa*Klwn&nKo>-E=sM$Za+pAaKzS|}@+xJ(m-(Dv-KV5Bq0J2YGzR|b;e*5l'',
     ''qvi<O5VA5!N^=A7%`S@nLeV1Imx_q+@4Z7a`E74q5vs;)wV|#Mu)iFtPMvJ;!piAGNLtc{g-|+87Gl3'',
     ''BBnxz6D4c=o9|Ip8YMZw;9N+io6oMogE5M2t2yVcXec-d(B%t{V|O4Kr(nI2dH;C#;ywPZ=VSZRg3Xd'',
     ''gDy3eYS4APQ!dia%Uog~2u~-F_hc+9|+IR0%j6R<Q*{qVH&~*s@>bS<(`WdePB>W7}^6@qa~ZoY~lrw'',
     ''<6%D;0+_(ClKkaW}%nehPzJy%iDfgkS#C(BhC;FMS^JrW(K(9j)3pmNuxp-W%`?ZK*YgW?8Y^KWHS_4'',
     ''Rm(z0e@)zN*lcv!4L0#B9HxAhFNn^Q5TisGK;%4ypiK)R(zKT3d}M`AlWGtRxD}9)f(!=cC}AY82JE!'',
     ''c?qJtwkVEPPzIe?(!wwOmdyzxviong7lq*H=ab}QC4Va<0&$Orz;51D+q(|tN8j!?E+=IudqTeZOPrQ'',
     ''^XX2fqLZJ`JDY7)sY<`$zgWx45)n}E~fRgzd`T^Ka#r0e41?%bQZZ$zp_xG$rQToW1^2OfGykX$7I0u'',
     ''|9rKL8pQeZtjYa<R08-+*JUczR+Gy0dPf8JM0tL8wZkb==84WV0ao#lWQWazS+cYPE;5<O<Nj(<5oQ5'',
     ''Oowaz+tD+0|tt50)S=!b>NWvcIJbQ$+4<=&JHwf)-9_!dX;u8<jR0AbbZO5QBW0A2`exRXF-dx%;vrD'',
     ''+78P;=R4c^jn?!)J|}wT#nQy47LHR&bG7O%7lWHgUjS~KP*'' @ ''}s?&|P&MUgop$a-Nl=f1OHgoV2R%G%4f'',
     ''8PZs-b&_;sxoG4zg4cWn2qVLSaxyS{zYwtWIX#Ez#BVx553!2#pU;=RhJSlYlY1KQ~K*r_arhC4W43A'',
     ''|rL}BtF$Wl#k>2QNbxf23UMM0jv4j|hCKNJsIBWxWy{}5rw^&3oe76Z(6<Z?0Q+Y*cblthmk+tM|JF_'',
     ''+kbtq=H|{-;UKcr=6A=6kBDH5iNXtY>I49s`)M=i&3#{B<G~ovAFqlP^a7S__cxp~Py1&K|hovA6{ln'',
     ''7?M-cE7o~xgzs0A4!V?BWQO_!BH84fY@OHpg$`^P%Z!#C!O&}Q+#xYgLuUxKj{cUtO#(GRtSJBaN>vK'',
     ''6p!^9>}74~;!d#oEYGVJAb{hn(LkMGQ%aH5`uG)%M>qi-fHY9-2yHjAX4ASiSaiG5sXh%5U#Rw8C`XF'',
     ''oAZ)(}muE5v^#3LqKod5*>98G?#n4v=e1pG`&Sv9)39r1NN~U^XD*^lN4|4rr?7pl5({k8}Mq$Tu(C!'',
     ''nZN0#2TO9YX1RKt$YTsAPo-rHb<CLqLW7#Q#eAUuHRRkEYK2;4@0xQQk4eh@>9YP3!gQ23GcoA8@`5-'',
     '';?`-rH&d&T;?f59y*$+&!%xvYL4C-Va_r9{ml;M8t0sf=vjfPY%nI34z{wqU&!?MD9y)<G>t<@U2(q2'',
     ''k}E8Kuz}a4~E~4L*FtQX0@tpF=&b@c)t_}Tdq^X>hd5V9AISwV*ddW2zbJvRf)9%i&6V#EsDIE`+F)`'',
     ''`IkTc)e!=6A8)^G5>OUGKfws$jMwE&Joc?f6h*f_sZLwm0>-2Higm|dn51ZEIRzhBj4kE*uI<5^kT+1'',
     ''f8<usZ*fu0s&l_8!5og>#x+c*+eT75@&za!%MPGZyN{o)4S&autUB}?Xy-2mU)B%;T%oI1^TzAhwx(>'',
     ''VdO^Lx@cS_8xA;+kil4<{mRUh&_s6n1N7N#Hu>2pXbPGyb>1XkyJUi0hjkYUbwJBF!=gz3RxS=Q_B+4'',
     '')#ojhiZ*^@Q!CoOujv@Out}=z8R<I<v4IDK1B@sr^0R?eXV$qS$#J4;(@}9yW|go*WvqWQ|jDuT6T;k'',
     ''NYMWbj~jxHcXNX9AO-84v5zGjPc+-AdrENjE4<ll7Zuk2k$<CbI^DMrzUU)F!~ri2ZR&Yd<2&dVDd?L'',
     ''d?ps3jKklB!Dr&{cVO>XxO*n%o{TrAqKg+w?#+Z>+U-f4>Ma%@o{%R!l3z`hOmy7W6OFGvZo@gimA+!'',
     ''N*N$tv=fU;XdP62KnY(2OPO20|W+F<z>2N~ej@V4D2yZEF-Gqza)sK#-&auwiVnMhARzp0H{`Lt;#<x'',
     ''Y|*wIcg_Bs7Tv7b2lYMG2FcEPRbj0Ze;npuvItC$^CBB5CZl6u0$TlhfRj~lNDf6vLa+MjVGbqOgC5D'',
     ''rq}ZbzXF^}xZJbdfFkO*&^~RISyiww~c>?E$eMgvWvi?jBGNt_G=MKkfcf(KxASOA$&*!%_@m&fEngi'',
     ''dA^$pki=3w5sHyyE2&%M$A|GAh4VYkzcBZc0=t=@w1fD5<O8dPZ7-jST}#H++UCn-`{LEBwUGrM4-XT'',
     ''2$&jE`Ssd%uWdIRI=rgdlxOw4^w)H)15Y{fj6+ZOf9(jLgDOk%D7f)AL|}MR{>Gwq5dhc42%%$#+--d'',
     ''yU@|!x%eww0g8N&3)kyGyyxqh3x^XFVVHUC8UmTl~uW9Vg&hB{^Sl|Q^jL=qOZyA;A;@m|IP&i?TwtV'',
     ''eQg!S_U1}y@NM^4jie0Vx!{_7mgX}&R+r1<=spG^1H_GoGt`|ec0eDFrt`}S+1^!<~l$*ESAF8dH#k('',
     ''^O@15JD4hotaVy_kvXftL$#P~e{$WXG_$pzl&F&98cuzs>)?d>NTbk7;CITx2}ebr{gGri<rf9{ntMu'',
     ''^8`s83y>c)o&T!Qv5MOQ;Zow9a-K=Yu*d#;sV7G+RX42>wPYzJHz+oSaN5{jw+t&Q_doI?g(7%yQw~2'',
     ''=rW?2xVKn@?nJG>AH_QTJ;xH5*!|4XsUyP+@|vqMhsXx!U&%=OwV)!o5O?N#3k*tnWxa1wjLP(ws8o~'',
     '';EXGhpZfiF*w?#R$EO!7p%fu`koqacK;ay;M&4UXqbETxk*9~zFiS`b}{|0jEq&RsXeDIRo`?k?75j&'',
     ''qZj!Vl^)$j)@(i#aKHXf-f+g-Q11V1lDDLHoPgC!`}H4%FXje0<Dbme(+tsjpJtE0%w3;_gUaTK%w&e'',
     ''qe@+#WpD+6ZJ$?zN23?`!7~k=JZb>)hPX>LX1Us5m<5zlDwc&tRieZ+_99@rJq2(pA0pVQU=xrqy>kk'',
     ''oSml($L~Am^v5`!{UlcioDB6{N`1FBj!`E3dzuSIn^I%8{WC$%90%~sBGL}ed|}L_l%vIhr3qFzA1W&'',
     ''iT&5%y`m@kc<}BI_UtS6-rNQM7f?$B1QY-O00;o@hDlnf%vs5v1^@v56951m0001RX>c!JX>N37a&BR'',
     ''4FJo+JFLQ8dZf<3Ab1ras%~;!R8#fSr->)EK1eO|U<)lpz7<JkraT=k44a5ojU<U%VOG$(&a!YcpsF#'',
     ''25;bkvcTXK^YMfIT7a)vX*;hedMuL`9t$&|G0vlV=n@UX%y(^e^Ass*7I3oaMctJ%~P%U3L!YqcVFQ-'',
     ''FoU^~w2={LCcN)G9qB=Y{1;QjrASf*0wOL#@VIT3RklnyFPmZMFY$a`yWC@?tl8G^yfWFbj^HNlTrkB'',
     ''yn`6$w_5<3XXSvtv{Vgx?<DmAW4!;P-DmiOoy!#r(#YscAOA=ayBOhl)hnNJ|Lr)<V?v(b01B)VOX=1'',
     ''RUz04x><gzwbFe^t^~}v<Ywtb4BZPAQv(}Ib4-lYUn(`)>kXxu<+m)F-tQh^(41ik&u}}P_G=y9n)+?'',
     ''UjG+tW4Qf{BTwtlXxU0$e7091H!K2RJhR=Cunk}ggCjz}Uy1xEn+-q14$my!!nrBpq&5*nxWsy_M%-A'',
     ''plUydtMH-<=_vBo9{4P4>kZ=K&fH`L69LZqCKqx8wsXF<*2c<XTKG#(0E@mEdfbAL9%O~>=qsj&wUo*'',
     ''J90(ssl~x_fje+Sw}j%7F(Q@A3LBy!H1SW^hNo3m29{!W$|KOFH!6?M>#bsBxP5m40&-gYG_OaJtsm('',
     ''eIHS`KAk){(wC0c<wRy(ljN#u8nJ++of}V6Xnw&Iz;*Y_(uG~Y9f{G9Jw7XngRpsC2o0*r&gAc8JjDO'']"

lemma good_DATA_895: "good_lines DATA_895"
  unfolding DATA_895_def by (simp only: good_lines_eval, simp?)

lemma lines_DATA_895: "map length DATA_895 = replicate 150 79"
  unfolding DATA_895_def by (simp add: numeral_eq_Suc)

end
