(* ===== verification/Pip_Data_2.thy ===== *)
theory Pip_Data_2
  imports Base85
begin

text \<open>
  Lines 1045 to 1944 of \<open>get-pip.py\<close>, a part of the constant \<open>DATA\<close>, line for line; a literal is cut in two where
  the text would look like Isabelle source. Every five lines decode, and the sizes are those of whole groups.
\<close>

text \<open>Lines 1045 to 1194.\<close>

definition DATA_1045 :: "string list" where
  "DATA_1045 =
    [''$A-*kc4G>fIrv*e?9vf|afyW?ahAAT)kt%^%s5tc%e1%DZ&D&BF7piuMG#^|Zi%J~%4IFaQOd$a_w~&'',
     ''AujPu}u8y0WCp&wv7KnqEp=WCC&by?yj8HNYRNfFHs54g)n&(87I(m1v&OqOFXM)Kc9A3m+lt@-xQai'',
     ''L$%?z{c47V>u0&Clsyp1-^Y^i0Ny9tYqQkrl2gT1@sLA?_suC?Dq%;2A-<u5x)+m^QUdz~I(c`ffCZO'',
     ''@&w62%8yB2Od-<fFkmP(t!@HA86Yl~Zko@Twf~re+W>VU7@n^d<0PH-jNzHcKJmlHvSZ2vTTls1h|%S'',
     ''w@X71Y$$_N@k2OU};01ACZ{J95UfqS_(Tryh0X~0quz78^($e6;89W4$0NBl_7%PFc?p7xf#8h0DyqI'',
     ''rC1X{#z@UaNWVqtWH@0GR_7=oE?Wg&3T|@)xEO*q;WsAJSRQe6Us)kTJZu%jzgLQ$AEih4M9o9BXh+i'',
     ''D4Zp9iEP<`x!_8~76ulN0D%!u3zW3yeiX}8>DVKBA?>&O9N2WL2c2;G_|2EMy{&aBBr7u6Im%aZw%S1'',
     ''!wy*iB69JxLyB8R`X_5OKyPmbv(k^rJsnC%A2gV5NGiQQWrPIgl}a$u{CtgXhdxq@(^b=1tzE;Xh|6x'',
     ''<U(!=&!36`?s3mV)LuMt4;;-MYV#$o}%=;ls5pbD-D}&v!I->`am$o4GBGKUY)&IXZFDRl%gMeJ=I26'',
     ''Pj06k7ifhtT+tqz5o6c>^W%98zjmk3x&FnbIme~nt%qS>6tOZpqtVzOQWS?u9?zUjyd80>v&x(eG^vA'',
     ''aiJ&-$*gqqr>h;YK;Xq?c!7E&$mHzJ`7lc1DN8{;M0Jv|Am^qKbb~+!h}P^7y&__v*+x)#X3RQ}M*(M'',
     ''@s<?HseKs29tit?2#hPwRWsd}d%mVtVEx4IEUzFOHt)SRpymnQ}4MhP)`%V2I<ntnW^V9j9d8^*J1Az'',
     ''Q}Gs(Ksv?3)~eSBw#Ma0}w1!E|LNM|TEcO-=g@1d<$Z<?L{$V;AMoS0^%HW*f$BX*MMhBNftQCG0ybH'',
     '')lweqo!LqB{4Qby?UumZdSD_A-hNMED|B1JRAmZE>gm0k7{C!`xVXzl{4FQ}4@x4VUJVx0BbW(^ntgU'',
     ''!1@9lfmaFv#TGTJ`=s<;_dn6J(OkdVdQT6F^u7H`tD%2L23uD9}u*cXqVL5)NLTiU0D0FR~F&F8*o7x'',
     ''8=EDvT+l~;I=h%4YI9~PoFM=ux#bkALTS39DY;OPCJ$|(Ar$J!j{n;<zVp`|C84<t+tw7lB~nHvN(aa'',
     ''=jfG~<hm!M(R)V-$7BR@QsX-k@#VOAZMt&L}I(&o4i7L^eIC#dQ9Au70zm}ZY3j7xghqtyc$K&w=^wQ'',
     ''nMYFumzIxcuI=EjuFjKBTv$%_~fv1#x<d5u~q-2>W}J22ZgWjoMX<3KC4ngHDb-L{~x-8blW|IvstTR'',
     ''}NU{sK@-0|XQR000O8?}kZQ{dxdPSO5S3bN~PVApigXaA|NaUukZ1WpZv|Y%gPMX)kkhVRUtKUt@1%W'',
     ''pgfYc|D7<4S+BV!1i3x6QHm%KpR8_Bq(XhnE$_k1vbl;)lx#$Foh0Kgyp3kjCSIi{4)_+k!tgS)SS5b'',
     ''%0~GO16+cwu&FOrj_kR}e~m!w=Umf<`X6zC2T)4`1QY-O00;o@hDloMmDMql1ONak4*&on0001RX>c!'',
     ''JX>N37a&BR4FJo_QZDDR?b1z?CX>MtBUtcb8d7W3?kK;5Df6rer3J<iWHt<|&k&eAXtOVRj9PqGOb=|'',
     ''~itU7kEo%RCae`m%{TBpq(<oc3kK7XFCjMFqt9$9{1dk(o)jtM2y9+;HShz3b@%~WBN6y*|8H`+J|4='',
     ''Hv@X>^S;Qu5pht!&Q%#cE!-wvjxDxUM0qJ@>8ZR`5>bZUrA2(ql3Sa_BPK3gx&#T9!+Z?U?1;9>t)4A'',
     ''6}EB|MQ?q4R?{#MH+F^6{NK;TFJK!bJYrR$*kRy^a^Z?a;8g{N%9qZtb~O^_@f{Z3e7Dr*tIIJK$lQ)'',
     ''cI-fk($Qf`ZIB`x(5-7)w?PAIc(2$_lGag+!UwV_L^vWWa&4XLmi;lTx6l}Fx$*{I)@!o&l6gxXD-PN'',
     ''e+z_i~4r5|3J_}(R$vPB8;rB<bz*V~4SNPx%P78Eeu#S<dlW>7&@z{`F#ko&%inb6>DL$>dY}ry3kd>'',
     ''Mp@KBCh50o=2xPgUjcrHqjW3hB_st^Qv7G;MrXz67zyQPr6fKc85SdKY@Z}5egLZ8$!OGc6#Um8!=nH'',
     ''5B7e8vp_odEt)q3~2vrkj|*@I23-K3z7btuB%efz+Fs;NbCnZ`iD7F2f@w<WjR@E{L;U<m+8en}9K}U'',
     ''d7R>FO0@TF>?3YK%9Vb=DmugG@Sp%=K|@qB2Pbf$^?WDzSE$`!7ovv;xhctRv2DmH~B`vp1B5yideGl'',
     ''3kt`pjmv{b(}hDE-#|@=U8#VpqcB<#vTH<A*x7KrPUP_?e4hY9<cUySBe0b|%|+mKB3HlS`vd|aBZ80'',
     ''%oPof0dNO_2nDUC}hq<7FQsn-g2otb=$C+AoQ&m*4BYg#HoOuGrI263$s^BUY6BxBB#eOzOuhkkKj}h'',
     ''3IF#-B#rsxwbHBMWgZ{c3*9sV5|yvZ$&*u0vZ-JlgG(o?1~>>2RbJwAl5*=q@9n4Q_N@=9@xi13+~qp'',
     '';K=PH6ILOW!1pAtJTgQBd$t^9KPbjXWdaGl)jTe`G?^b^u}3>6b2V^EP50`doZLDZ=pw5hn0`-wIiT@'',
     ''Yn#S)2$he&}%>yv$HG7>qKsU#P<m_NW!tsfyA*3anl-tL)9gYQ_WZ7n&*3Hb_1R@uMh<41iZI?<-&z$'',
     ''SVLQjLxakFAY6>ztO<PA&K?p$Dc%Bz@P7s@BEzN4WAjG#xQg8*5)U&wk)#tR65n6L<M-1jI&t#;Ns^@'',
     ''CCFF)Pci!t4w2N=RZ+vgw98S#a?S^g%OIUw50Nn)icnzWFy*GdzAI7-KIh754bMJ?o(3XGMd-sBtWO9'',
     ''^^4E@*50JqN3cKSrz=SUR=&iA1#{M!c3BC@^o8oi}$z;*|F?r^a;y<qHrB!9sWG=048MlkRC=Ouu6qa'',
     ''hOpw{4>a{XYEYcWXtB<H!s-u$LtGs1Fx2+QXmEu^)m<vcOuW*SR(ZCtWtg(+?B81e6$#;l4)ha;fnmh'',
     ''h>Vh*am3cNVv9TQlGe4^q7O}04&65Y+w-%KgvvY;GJD8dmEy>GP60C=@60;`{~<|R2+!>M)Vi0c=9h$'',
     ''O9KQH000080PluLTI#6Ih6xD(0IMGW03QGV0B~t=FJEbHbY*gGVQepBZ*6U1Ze('' @ ''*WV_{=xWiD`e%^7Q'',
     ''N<GAs=e+8k%BGScHvU@EG81)v1G;I%9<bovamo!jhiMDkolRA;I*A4RDJHv-WN^%~(57z*(Y;tBe?*~'',
     ''<ED_%>&#iY>RB>g7$by`hUHQy3m$ttY{C1&?uY1vSr_vE1}*xK&=zz$RLwGeWmcdMd`lY&WFv$Tw}vW'',
     ''S<dph?EJ+mz)N>q7rLh9YDt8v#f;6&B_4=H{oHDY^aU#l_|A?HDHgmeEQUoQd8smvznSDY-5x^=%Bdk'',
     ''ww{}t%{P0gOGH46f`dRdhMuTP32cup~s2G+d^dR3B2B>G7-gp=wwnVM6&3Jgh|5EElrYWGMQv$Dg?Pm'',
     ''vkf)!gytE|Cj|b2AW+XAnW$(c3F;ZP(=|mtP6XL+C@o2b6yk{jy=|7pB4VyrW+X4_Il0~NJ&_x#p>Yi'',
     '';^7;@Ppn|Qqfx@pS1t^@POWw#1&q9~r7jxwuN~b83AbdrtH2VeE6GQ-Q3SPm6xHaAK9i5XK^(36Ze@('',
     ''UkZ_$Z%$39}!)awo}ElW~>CB*<*fj>U}xk@G4>C59I>@czf9I`I?lF)BeO@%=D;N-MD7R88L&8siPng'',
     ''L@;O@D1bW66%P9oX}(Zm8OB1mZ1POX1(gs^)7{aBl_G+FL?3lKYm?2Xa4~Y27dGHw{>E3I-6cy?J=(p'',
     ''=vFX7Pq&pbmfbZ(-lecJmET&LP5(_L}p*e6_{Y&;^T6hZ55n|JA|->P*g3W!PHw%GlX3P%Kp7Qh<UjP'',
     ''Q08P57Z^;N5<rybz0GXHi;RjzXm?3qR1-u#<c5~jBDkd`h77s|cyQI&&?M=Wv-O-PDkL;#M#>Qky^dT'',
     ''o@ztVIXB`&|KBdu1vaWekh38XWb5W=Cx?xJ$Q({y<H)$8FTd#$VqkAFi2W1Y(E}b<t5XmL21^C#LZvb'',
     ''$xV6M-E^pYswPhinkMu1*7gu~SyAlk(ODjOL{46z=l_B{)%f4u;%e9=Oy9~!s=d+zjHtO(=MYASBUnt'',
     ''L>LW{oLk{V;%JXwsU^eJbFQ&Z=R`BZ(+jW|LnbAUs97ENLDGkw>_uvZ<M_NgY!k$X_W$*|vaOr9HgQF'',
     ''B($$5IpbCAJiHoKWn}hxc7FHzOE=_PT*gkM8c0EB9fDe*66}<FEA7eL__>DFTl^B2+=&W=SIEQc#E*+'',
     ''*oBqFRf8(CS}LrOo3yGZROJn=>D0=MA*X4~EE{o4Le>Xg7Z&7RqdbJh@;Wx|Kg}OHo^>D4mV1&4LSN7'',
     ''<jg16vk=m@<E~E`!FSgzg#?UrBjAT`C69wdRk`~a3xxGvn+;NUI{(#`kmNF><Ckq+*Fnq&7h(u#tE70'',
     ''GYZPsj)jg(cQ8ZdAzXc-h!F|4rM*|Snbk%!#&6$4b&0*TIRg71RJIayKGnkade8qe1Fomo3<grDs`J6'',
     ''VC3hQD`GaY$$$-$OuSI3yenu(t%{u9uCSrqfR+4outdX|NHA{3tnn0r`kZIs!*TKgxNJ{;0kjqe8Q3`'',
     ''YvBwJL<$a&A|mnQmfOZxqsKD0R)Gl-=G~_+e*<IE5sVJ`}}?U{b@8OPb1Pl|F4umn=m8*eSwsZ==Pn|'',
     ''QH?&ExH3-Us@X1q0qEZUad&sEtpm7z%#Nde1@6l7K$cBWN@MF*GN3VP$aj!3Vho(<H9^V|VnD}a5g0!'',
     ''kCWkb@JFvzv{%blXmw!C}^g`)0o;!505!)?B)`m6wh~XDU)`tXo#$NP(4-tF|FZ`cF@KIwfMpuW(p6V'',
     ''BFN`K`bCCXssrLHE1PP(W<Hye%CPm@KQs@ZRQe^cGWI)#7{`9ePZ)&e?Oht25cbZT}7ltquhLV@h)+I'',
     ''sv#K{c3>%ZqJ2oLP=6fV3XX{F4=Fljq@)D40+k9KFDBAI%JB7O}P2fU>rk$zuLwHL#JI5ESHC7pc4?x'',
     ''Z<PfL?_xK^Ml(~3K%a@#rK_gfZ6ui1Uu#t7WB=|f^ZR|*y^qg!9$DZAA7X2;)*V+<A{d8ST*u_xC+S3'',
     ''<lAQwKB-(AIU;(RxiBLaljyGVf3stNu;Wc9=Flh_x1%-ndo1~y75gk`H*y&mj<Nq&;cth`*GXNM6r6='',
     ''rHQyCERo7c8f?a}di2HVS>KbvLfQhmVOn%8$tTC5dA=i4Tz55ILSqtakg-Sd=^B>4h45Dg9fq<%BhAk'',
     ''y6!7I;VRb*'' @ ''}IS{FOYJOUd0)DvT5lz1V_d>}vMxtdt*DKKbD)t;?wo9Q9+bpVI2PE<f!0>P7!`8hZlSn'',
     ''#-;?$eq9(Xe-bqyFVVQjusk%|ZF+@5v`V@~KKJcp2ZN1^B72tz9&LY8Z_AzZ^*'' @ '')hWQ<>mt4>=xG@KO6'',
     ''v31XQM{1+o3fr^X$~mrrUURWbaZ@9-TU;=lfeyL=T7N&A9c+=!jYS?F1+p`93C7QUcY1z%~IXuLlRW%'',
     ''!*kw0)|LyE>IN4CmWF$5KWIh|SLd}ExI4A&O@Zip24Y6{Z^!e;aU-Z(=}-a_@eV)wD!`v(9Z)~29exy'',
     ''Ezjy3ZWzysk8<`}~8EHgmio&asw>JRJ?b{tBCfyjc(XQiTidSJKVd}Ro*O%Ai51;=uC57YBAJpelUSN'',
     ''m3Y}7C|dxGG_S0T^g><Js3{5kr|?5R4)joM9@1$<UzD)Ff2c)uw-dJbjCqXiPgMhUM1*(@!qO$wbpts'',
     ''#l;l!EN_pvwV-5q0P=6sUx7&oLD@Fxb{2<IpjXFoArqr72T4kB4f5H;?L`m+o-v%d)0+2rcOfUnxCy0'',
     ''zSs0oc|r`3b2('' @ ''*_sy59wHf(w<rRrNJpt0HAgTT*Er6BOFh#-{FpA)f0KN+0>0g&+6amh|O0C~f7#?G='',
     ''aRcVxQzhBY4Q%Vyj68max_|VDNmG6m3DA+m;kS_STY1kp73@S>8HOTwrx|ew$Ew}QfyC9DvyOMm@=Ws'',
     ''#e0qdBp3QN_R*oVt^Oq&xgBvU%(=u>JJPRxMxD}1V&s8HK=4WU7{XW)S9P@g8mebu?MJs_HvvYtvYmv'',
     ''Lz$bLH|VW3zKuq*_#03FwEA`h^p_lKE(Jl(WG?+jG`1yD-^1QY-O00;o@hDll&iy7p}0ssKq2mk;d00'',
     ''01RX>c!JX>N37a&BR4FJo_QZDDR?b1!3PWn*hDaCx;>TWi}e6n^)wI0OndWM<ES?j`K4Y|w6f2|+0Kv'',
     ''7=R%JY7=q?|0;@(m3r)CjyamuHSb)IT1~(jRUFcTBtgyjBY@;uI0ueh~D_jrAOP_+_@#c(efayOL{{q'',
     ''+MEgH&?qkRLW=yrEwVy44OitDu<ajjg;>X(w-i*O9Yel9KK^`M!_)8W_WRS*Qe=aUm)!9&qDIF`thkq'',
     ''sp*jhpRfEbch3Xa!cS0+h7e_2!#uRA+w7MhK^5TWp$Sk^bbnKP&ZE(hNI5x-~#_lXsq+$e1%HWnQ_28'',
     ''Y5R9-hNb#f3=xHEISwlSQk)a?X~u*DeiY6Nwny=y(qCkz)2+>cYvDdR(TmNKSzgN$WKk`$6#3)=v07*'',
     ''jfYXPXY-YPEVsBdRk@kYGS-;mA)2BM6C5VvDLoRS2{>MJ8PeQ7dhb8T{)7eV=GN)YmWLu`_#1x#%GHL'',
     ''$~f)qifiaB*T#QQzDu#7_U-`vRcDn-V9P*12;821$pkQGy4p_e50n_X2=Q<4;6yii5Et-4wlM)ILS1d'',
     ''5)thoc1_q-B}L)F^|-&5P8#j!=tx9iKGbhI*%qaCX%6d#+S4p24VbxSR#J8&4!)x*&DM*V=0a~A=AN@'',
     '';+E&^Ck@g1**9nO@9tqi8M4ylt)`~DjH0<KgeLnbH#DxNrlFm{3%h=5omiPu-a~9U>&H{Y~DTe(TUXP'',
     ''+Ug0P^pn?;_luDJ>;ZeiJDfV6C!aqYhDuU$T%Ig;C_Qr)BJc4PN}qc<f#js7E_Mi5lnO@Sl|XYKn}O6'',
     ''T^UCP0O6j^>@5F*gfi8+YB*`Vj>7qDy?q*ZW)zJPn$h-xf4sccjx+az~Y#1%`&=x#6!j(2O37Xl5j$8'',
     ''m}D?ruaqIL5yFXbZ`@>LFbL?f6ylbN{jFCvHGFmVDt;BSSFUp^@=WLwp3vJtMCs{O9KQH000080PluL'',
     ''TIbH1abE=h0KX6b03-ka0B~t=FJEbHbY*gGVQepBZ*6U1Ze('' @ ''*WV{dJ6Y-Mz5Z*DGdd8JqDZ`(Ey|L(u'',
     ''ypcsp^SxU2SbD?6b=K=w;#<1NLg=1)pL_1vd8cF5l`G4P$lB}oO&eIo3<lXPy$0Li<gi8?5V!-lGNuT'',
     ''5+C+T3rlL(Sjri2R$#qJ*@%&5rs<a5g6ZMk#JgdF4>DN7xX#gg)vgpMCF=Z*;K`AHO!I4Bt=`R_3nA&'',
     ''JZcG6htWEQ^nm$#k*kW62~7g%dI1m&98ty_6^0!QkE7#nhYJ{64#$F0XDrfD49U49*k+?8H3{!#$vKX'',
     ''-FkYVnE4U?u5@-D)&dJD5|bt1{JWkn9Q$c%LNM94FDel?Y=k0S{xLQhj?CvV_Juu-R|(I9)&xf&aOYZ'',
     ''CJase>wUVJ|F&?A;ci#`u6|ta_XgbFHn>}lCZ8yJcUXOYgK2g(^WJ`3-ju$Zx|cA#grDDB1oYt|&cYB'',
     ''ZsPy0O51)m76zl{7x*=I8!G7Pi9d;@'' @ ''{ITyNUlz+T*Ty~~d5C-g-ipJ`d{fo0ct30Y;O{?iY#X^Fh<GI'',
     ''I#2LfGo++lTBndao<d_MiKv@b2|C`YfKazU5trn~x_#Wt{7!4U2C=mQDSL9r^rm5t1<3t>V6lF4L~#X'',
     ''hXpuR-3^xTeS%s9i+`x-K>;k@q9;3CdGE+S38!)R*CNjZeD`jNz}9qiHB;16k>FA(D*y^umFnfJeaT7'',
     ''OS1|3V)Mu2njB=LZG6S3&Pl)SHU|!&}~>N{u|awfP)y%Q@dpfQ3c!xiJ+Kg;ZrT-U=~`3ELQ1gK@GRV'',
     ''l2?V<7wHJSs=#7NSS-M1VB0NlX~D3PY}uD>9IIDyCw<_uNhi7Lvmy<dL`2YnRb=YYFw-h@)tl;3$V+i'',
     ''Uz%Y9}Xc=Jp{k51TkCf})*NO<{tZ6Q(koHXZ<$V#L@$K!B+)bZS5)1sbz*Y_4juQ!gHf-wWt@j7|j`&'',
     ''}))Uw)raZY0rQTs~L=$KsS0qU!~LtfRH&7q3s2!<gM@)K5ZM+3d{E=>F{'' @ ''*y&eT4D@L|9xqgUO6K#`Kd'',
     '';y4ma1WA$yu~eXNuX3zw%)P<!BP|iOGA@$b$h!*Lp2~8b6F{U9AH73Te^NYVx$cmUB(xEr!8vW!-_hr'',
     ''@M6s%^!;Vu}atu$(%;XLlL&7{@+Kc_5UVmN7)8PE%fS9?M?;ZyK}KG7-#Tab=o_m05ujoVP{n3D#;!G'',
     ''6gk!5>OlvcI#t>o(|lhm('' @ ''*0mC@R32NX{tC?i@C}y-qyGze+yX1DR%905R(bqQOE=hbpI}ws{`861CC;'',
     ''6+c@FW<Mi(gPZIBe#t)eLOP<kuU-fxBZathAkx!U{h8wK@H}D~e>G+_#T6X+M(+Q_yFdN1iwyg)JQET'',
     ''<CwL)~PTti5u8@6U4TNHZDHG0r+s>F@FwKaE?lU!pOVY97`DryeZUTR@k|J}Bi9@Ab<HLVMFvSly-*D'',
     ''!r@w=LV8YFQ83$)>fiPOz<Z61FW&PqpwU=E-*UB3gr{x%xuK9h_n)mxaCFmM2+iz8W<>VpY}6vshR42'',
     ''#OjX7ni{i5WdAfbpc%Atg_a1j~BD5?6Hl^aE6gW&8{8AlZ{^9GVCglD_@&5^n$=<)4gXoU+A-_9W|P?'',
     ''Y(eU1#<&^qQ@*bKlYcQ3gEvGPm^rw$uFo|Ezf;j_qH!Y*`Rx#8l-Fe^paG3#GjG(>qc+}5&4!c_ddPB'',
     ''6K^!tob&k5_<<+#BCu#F9RZcZq*V_^&SJBO1qudI&A-09hsmyqMxMY{h>Xd95|BL`Kpqx98oJra>+L+'',
     ''GgH}f%kPBMrxAt6;~)NX$p8>M;%U_1=xuY|>BBXD1}xTWL2P)h>@6aWAK2mtSfNm?macD4%(001T?00'',
     ''1Wd003}la4%nJZggdGZeeUMV{dJ3VQyq|FJo_RW@%@2a$$67Z*DGddA%B4Z`-={-M@lUQA7r0wcVp}e'',
     ''St1byI@&UG|k<E7YMRN+gfE&Bc&upkpI4O4oQiW<fQ3E7ofEzp6@T7LptAALe{Jh+ihNMC%JwU%6?PL'',
     ''s*+;Om6~j%*fUYpRVo!{X8n(}Xt-Ic4;9d`EAPug#4d7GN9?kyb5W+nM8j2i6(@OFa|!R_b&<!bRPkg'',
     ''j_WQKVEdHr}Jcgp`v~Cn2Wn5X5v#(z-zeeop`t<bd>S`2Il$(6p$P@*#XyJsx->JJ4(W`&tWv0Jvd7X'',
     ''H;$tEwj(u>~#48Bgs81nlyC+%AyzvR`KltPX{H+5d9*f_%?0Cis03A{ayvd`7p!lSI<vu(ugWM1<`G<'',
     ''DU~lL?aLk}a&WV*tFMcVUv0>7FOabTXN&i&QD!8pai&`JB#4?H~x~^Pg#%ZaGk0rv*a?ZVR!3ub#c)3'',
     ''Bg`9E8}K0*KcO5fEbxmq_BF&S-P(CTkd1CP)Md@3?R_-OjUfHZ*rbZ4H=&0K;{hoCm<i6Q1TMQBRH_W'',
     ''MgkMe*(a`1ZZVb_XfM`zTJwzE<@Jskd1FCtG<XW}uDE68LM(`kfon>FyvC20^2qqA**b<9YNW{AL{b6'',
     ''xCNF_t1K}bOVLuthHT%vFim9Dwij1u|%LJr2hm0m!YzE>#EegZ9&{0l;q8wy-@NXr7<2?(sy91VPHXM'',
     ''8hft!|xRweckT*vRzeN`Aj0R*s72JL9VCB`tnpEa^zySlE_{LLGK6$`n26R<my*&0C`7{wtxhIkv`lo'',
     ''o|$ts=H+>H)h<+?9n$v$)Rp9CCxbd#mHP$AG1<0vPZjV-{AF#ew(`RZA*pS(-3E->_1YoQVya%^JmJ1'',
     ''fM1?(73aig3M$oaH${`coqS-+g#QS6iFn&OL!9H9uj{vk`)80P%1YJ*'' @ ''}$X88YFI0L=(D)@KG_lgtzi8'',
     ''S3DvU?L`L3vrcto+ND*+OI8cQMR_%w)q!Y0WTj0}$8FZrmwa0a$rH){+vM<h3nD{p`6f;5HwufwqOB7'',
     ''6_ZrI*TmFW`XF9-szoGnp24p##>9l3P>Cah});n0hr^z$OkmF+sb{s(s5LlPf$I&R)U&e`2+&3#2o26'',
     ''NnXc!eLUTmgp_B;Cwo}Rb#@O8Z26P$`Wgs_Dms@85n<h_SIvt9(FOBhH{!~z9Ne1JxQus~7#l^rjth0'',
     ''mM#pJ}f_WI<Hn2e<VZ4H2_z1(oZM^Q-Ik7YyLeKAeBM{K|qMAvYmzQ<<kLEPpxXSq+s)+~yh2VjpqZ$'',
     ''vB<7+;XO_jag1FQ4jEx`H~v4;fM`CriB_aVsMRy!ZLeMHQ&$fK(VnBfR!lta|&XjkE(|Yzg9V_F~3GD'',
     ''tgNG2;li)gYTZbQ0s2h!env^^uO;k<@PBQzOtw-qRrogY?J(_XhHOfz6_MGw)!g*vQ1Ine={{nqYI#G'',
     ''|1p3FWnCzfn6<jJP*AKoqu{H;D%@n^Uy4moJK!wCY3D`-XJ56+P=>bA1ws6>`cFjc#p*jd<AT-Y&92H'',
     ''v&Ne^SxsJ?pgYj+IPc<g-eihbbFTkoNnGNI8fnR0{n#A=0~%eOc54th&##knVg?z&@+E&oV?{LDG_TZ'',
     ''R)0U#lsW$%;$pGWKyV5(y<@LHr+)gS(;I=UHg^PNzQb)O(V=Ze*!Pq)u7Gc42iHH^bd7U+>2IPf1mMh'',
     ''3$U|71%+CzYiROAp={LK!Rfj;`Ynfwoo5(z+t4ttmUC^!4#q$8?S|SWRh9QD4mB^H5m}G60ECzy$Fq}'',
     '';HV|VVWfjCvauAIIKG)4v7#R3+W8Hdc*dXbHII!=f5Z>3*ac__O<>9Id_(sNpyz{y-`x9#$dxFtt6vy'',
     ''v#P&r3Mu#@AHS41N=9Hx4Tw??er>^YU9u$Yz{_A!U+Da~gkI4=@+KF;z1NI4@Tacwjxd~gBl2PByZ~i'',
     ''}iF>mdOLR)S7A$X+ncJVi7D<KLhz4kO@iN^~!ouo*'' @ ''}wte8*r6(TDZQe7^An-0S10@)Em<AyoOvKk$XJ'',
     ''1>{;&yMJ4oizc_;hjkxAzwviqq{JN4h%ycGjV^d+n1o3F@ieSUdH{)LPdl^FA^HI3^y5X1s^(s<(!<j'',
     ''ka{tn8JA0lu*tTMycc{P}dj@Xw;;7sJsBaFyD?89TnqH66=X8Bnz0`h72)4Ko|C*(2+;Zn!@R_v-FK`'',
     '')uXC+7(Ff2adUN1)1??{UGOq=-7#g01$#Fi%OV%d+f`%=BWRndz21%XLKynjHPm{XYsn(uBIqgbfPys'',
     ''@6g|Jk55jK1Mq_q^w!e?|yDdy&r=fXC>ohWmCDhF%2p!^ok?EYE0xaG-rE-|HW)B}Jv!Ki#oZj=Td!!'',
     ''czuhrr;wD1m1M?KqN{k(2Kw%v1w8sc2NL<Tpc=esV#wRVfK%>&8MatOp7%k=dMhWhyZ;Gfbe@<kj`PP'',
     ''NLhCBbSX|N7+4s9fcI1-ejC=`Hv3J9L!nTG?OaHhoMn?zj=1v_NAn`w?}9J@?P66$AmDg_^TG5N4*mS'',
     ''f#nd6EG>Df<r&K;j){&bffB?LLD=V9v1p3t4A^k^HKt19Vj8KBAwY@vGZD2C~@1)way7Gq2q=H+si>8'',
     ''$wl_4&LPs*sFGZvBD#Cpw*'' @ '')fb6%;xSDS@J9_*_wu?tb%pftgb#5(j?^L)IINBIHQ4hC2$K8F%*=;mAf'',
     ''sq;R{?`z8c#ZzClh!`*XC*2o-p&KXrj!i-$%<7B|D4$QcSy-;vWXv3j3QXBk7L3IikggIR^jmJCQO!T'',
     ''9|zXlN-JUP~s+#pBqX!X0T=80;oaAenOts-^@>cz+NE**prqk8U$GcZywwT>Km_AR1%iGrQ~*g2tVn6'',
     ''dZ{4Evyqk7v|;$wrPwHew-@Vanm3kpRMf6MQ-Uk~{$QxPduJhSSI4dFXf>V2BKj>>tYfd<iy(@WVOW5'',
     ''VoD6)A3M+INAzOR@8#<oq~!PsY{FMNq~R7CNemsiyIsUvhL)js-%F}N^KYK_?Eiali-937qaomzhd8Z'']"

lemma good_DATA_1045: "good_lines DATA_1045"
  unfolding DATA_1045_def by (simp only: good_lines_eval, simp?)

lemma lines_DATA_1045: "map length DATA_1045 = replicate 150 79"
  unfolding DATA_1045_def by (simp add: numeral_eq_Suc)

text \<open>Lines 1195 to 1344.\<close>

definition DATA_1195 :: "string list" where
  "DATA_1195 =
    [''xxFMSPiiyIwll&V2W{|r2>VWwvdF*V0bp9kJwoRjdTl4-2yjm_l8w{#9}uaUqF{K5!WB+C_c%b;z(0O'',
     ''U<>4%Ga+;Q80(5nE&8hFibg3Xw!3A}im&hgfclki-Kc4hvwBvJm_j7=Fz2oce$vQ2HaC7pY**&trkPJ'',
     ''>Duplpr1>Oh^hV_pi&}UJ96it~Oo7&BQ$77U!=q94pu0e=77rUO>`n(+-PC<H}ebG<H<mlOcV=pzXS~'',
     ''|Gxw0F7qo#D?C*aMICJcLh=fs>DJ_o0)qmwS=DGMzJcgxWdB6I;s2_vOK>h=1or#p#M=pF$Wayt;Hx*'',
     ''|tJoxX66FgK@dpuK*gi4Y_TwOnTMPjCm-{l>KD^d_7a_)fNmr5`Mua;L?=*zT#`N#0VQy$*ew<kMYPQ'',
     ''&*mg-wGJNa&lsTo*^cVLEQ2lkA^U{GK<KG|u5f&Cwa1`s$P5N$2hj27NEdu$4|~P_g-%*y+-xBC4<Ig'',
     ''(>rO(un{%3n!LLZX*DCgYTVWT5`8qPB0JU(CkZ1OHD&r?-c6H<g`?|zEww2Ro#=aCh1!qW3KTW~Hh8d'',
     ''PJXtn#dbx+p#bMt!_ebyLz$u!u8M)x=J1tinl4F!8%WvV4ehb3oZ%h6u<!Tk*-(ASs&?kdp2njL?fOu'',
     ''M|aST{Xl`X=<H#0=Jx@%satCwFgc(boS1P)h>@6aWAK2mtSfNm>S)&O-VK004~|0018V003}la4%nJZ'',
     ''ggdGZeeUMV{dJ3VQyq|FJxt6b!RScd7W9^Z`(K$fA?R()1s&ZxI&73TB9z|b5h&_xo&Th+&$z1f|e+o'',
     ''S4q^7R8k|z|9&(4kSN)1gUdrKlQTcg_Y7sxbW#~o%YxN>A;P!aPPDu5RqF7h4|-84*$~;8jw#KF-}oo'',
     ''1d+ztlq2oGi{9TrP&2M38*aYOT`>8!F$)zaFl3WW7|NrQWkS(hh;lxgKIep}9DU}0=7V?5CBPtQlp7v'',
     ''bvW2%l7-x%tXKXRo3KF~W2n061;?=B()(HgEmoV=)qQ;MdPR!V(_FyAsjD`eBKwhUYw_w^jh2pSj~_K'',
     ''j1+)Q%h49n2mCJHx9DGrfib%hBvNcbm=C&CN*`*;ZoLD`p~7Y~saJTn#s@WQGL>6pOcyLdmw_tvSWg8'',
     ''&PXGuIZQwY_j7mHT=7wifh@cf}iK~Q5aZ7Tf#vUR?o9ELKm@wKr^}(@wg)E5Z*aZT-&vj(v~%x(rmF<'',
     ''l)NH(FQ4cm#&n7sE252B61%X%pv}m;kK~JN`D#Jn&mrfctz??K(JS&sCrg5yo@s&$Nkl=$nxo;Y!P6h'',
     ''%0eL<pUnQ9(o32_FK)Yl59Cs|olQ8?pkZI=5!@o%71nEJ66Zk=qLUCre&oFAhpAGAr8ko-a)?V=MVKt'',
     ''t6?E5r{@)QnCe8vJ^l3`+2qkO-RuRSCKX(4Ds9_x-5qB>xZ)S~4&kElP@S}uv=jeLY0Zx2As3Qju3EA'',
     ''gF3MRZ@m6QoQk+M@1DM8Tv5eRVb>Szs{h{jd^NA@P&|rE}fY!lVfS4c=$>7Z0QYc%%SRlPU*Ol@<l;B'',
     ''Px=t*9mUm(t!D}SU9n76>Bx{H$Y+}Ng7)}6Etklx&#9|`4l(3ato=G$VmbxpePeLtOUV*m>Uk6VlIVe'',
     ''^l%zI+qkz*4R!f`tmodfzxWbw!<`hYC0kDVuH&j;+MYZ*'' @ '')e58~(1A@f1ZM8^h>iqHN8g|ZJVAP9V8gC'',
     ''v7%=ZJOsG!)h>1_Po4<jWV2I90SwjKTgcYV|b$uYRg@4_*-4Jj-Lcj}?BiAGu5t1?Hrg9|{q{Mm5sKZ'',
     ''E4sjEGdrd1r;`E!Ky0vhaUxn(s3#L{(M_rxE0y}rl>IPYF?7Bfbr5#TZw%`x!r1@8>`-3oA}lvHu<{0'',
     ''nlR24j-9M)lfgBNcy3AiydnYW(y?v+Q}q1?yXmdC|A*5eV59{0tHJ)%GLuYyKO-7RQ;Y1=Op7^MrlJV'',
     ''-w4RRmul6#X3hmkn~pw+KZ?pMK-|NINF5?&7(;6RVctk5&e^39t)JC11G;SGn~ysMy>}RIT8%fK^zMH'',
     ''M)9-7H1@0+T4@4G?5<mNu+D)}Jsbj=RPt@#mNhQ}1X^x1JJXuu<Y4!5N-F`<Qp^ZEW@18U-Co(KiKq8'',
     ''c!?a}fc_~z+@c@-QjKNvLyao`!j(wEkS0%Q+ZD&V@@`@wT)V-qxfj!0j5Eb5B-v2`rAKR$Q@|p8>8nv'',
     ''Xbwwm>%S+`A+1jYbj_S{#FK`Qi6r=So+b{WO2xls>;gC^M3vNM7cRShR#S8=;@phEVwbM`ij%)HFQ>G'',
     ''l&#V`R4_90}bG$Y>M*CzQ*D;f;<vxs{bRTx+(obt@SoB-kv9+gGN~#F41U6l?0%xd`cG*Q!m@yVlkdh'',
     '';yugW-ywMZ4bO8y@nE$oIr>gi<<-lAJQe8GGvo)M`oDYdbDK?+D@(q>6AGme_786=3v?XVVlh#Up`;|'',
     ''zPVjZl<Z+Fgep4DKYNU;W7AX##@X{+ke9PYnGLY(^&4$R*hxT66<<yjnNH5Locz&v>uAAowb&{Kb#KV'',
     ''p#Fu~*K@Vm-Gl9Np%zb_7n5bpgPN)8ww(?irnQA~nYtaZSjqfk~h!9`maK1UZ*#*!nV4#8%3R`2fEgM'',
     ''dZEDVg70){?zuvN#gkZ_YUd$@Q#VX1;hfC429jzda5iZWCmoHU_vSyanAKi3h^odDx_>$<^tEG&>AbC'',
     ''}59ff!;k^_%2*PLGl4`mo+v+Ks(63R@pQU0|u<e0<Dao*m{(auiI!J$6}d1?(qV36tmt^4=Eo0f>AY-'',
     ''8Bk~TW$?vat)n0nurF^?DYL=;C*oOSFQP3l+Q5Y@x{+#6I%c<VxhN6Pj4KNp4cmaBJ;|6h2t})yuqq4'',
     ''Z~wc!|11==?&m@N7pE77c$<^2Fh!7e?}F8!I^zaTkNHD#Rw8G4cQs_xO(}M+OWo^+)$|R6%^J|c*8?1'',
     ''U(Xh|o_#xb3^2u!qHkO2<WgK4UdN0A-*pVF0sJfpWk}oo95I)cxEyWa}a6?oIa)P?C94~u`Xte>I@wV'',
     ''}_=iEM&V4zyEGI1Vv)PWm%6t$p}yP{jM_b~f}7cr+T$UIv*DU3yWh_yU(?6KO8Fc}geEQ}|vrgG}sU6'',
     ''<29nZ+X*S|I<A6m9B=(ceXl(Q*l6>CV64O8sXx%vSa@R4JTbcXp1#0)X!(1~U854>L=MwKq_(cI1Q4='',
     ''8s`R>{{p=a2@+^FO+Qqk0D#_K1L!dOX~Sj&FgAbtMPAq@0KI=r1njC@eLg==&@<qW!w5O32^lG9CW8-'',
     ''-=!Bz@(NBL&lp#ssH5zvZ|%8DGHW={hZPn?d|!G$OtUbfM$UAJ`NUKU;W3>rlG{Dp2ZooE+TD>G&RTa'',
     ''nw+^yz$H+9>lS^sCug9W*7`BkH-bm+2%Z)nWeG#$2kOrTjF#*dAtc3fLs6iPZFSu=9vNv6CENf_BvT{'',
     ''cSaT|!B8BnojEkq0o0{|$YD0n^+MMjTaaKTkN%o%tapS~$fv(rq`l@*wxZ|BMRcV6@c$6U`bE}UlqaU'',
     ''cR%UmM;Q5;NR0A8-6fRG`LN8$23(i8n_&-a7*'' @ ''}wYU4B00Hn#8k8Vjj@YyIaF#O7mOpV23JC?nV4d(Xh'',
     ''p#h+Q*TojCo$jR&joLN199(V0eaT1j#KlDiT}L%$KBP<?G4?0qJO>na(R6PU~qr-_i5DoB+(hT&E22Z'',
     ''KZKeQoPjy<>qu^Y7D+R}^iMx$y}WYATmsX{^&=C{C;r)fJUT~vzO{s3EB*&iO9KQH000080PluLTGW&'',
     ''++2;iS0GSj303rYY0B~t=FJEbHbY*gGVQepBZ*6U1Ze('' @ ''*WWN&wFY;R#?E^v9JSX*z~HWYsMuOK`WlL1'',
     ''@X9)<xy6%0r>U_dbxOV^hmU}@>tVnc~4NjX)2{SGNgB5gUXJp;ao=R%(ETxni4QW+xTe$VUug7=S7FL'',
     ''p{+L^h^jN(1rhADC#t(@fW(#6Wq=wORCphBqnYwE<N#k>-LAJb6{1LN054hB2Ku2APUI0X0nR!O*5Nr'',
     ''L51%D)>xuSyikq2H}6;bITP}P@B7+vL?^mlr$H>>b5zjN*iWcjoJzr4|4zS-Q6Ge_j4k$0ma;@({0N|'',
     ''(SK5-SpEcRP+%>H2y?2?2xkbd@eD$Y$d!;kQ2~3FcT|IE8w7*C0A_2r&}qeWKB$0Nw+d*%)tb~&RZQ@'',
     ''&KpSRC#6)oeRJNvR&3SDGs>aF>8sFpd8-zDEQgw@k4I#8P8)7L%gWtNfgwmQ-K<R3+Smc6fP2R}oT1Z'',
     ''xSw<M>YTHP!NzLv|S`yK>HgV?b>`o*5}X5ok%@~(UL7fGz^r711ubpc;MuSlzHkg7>N(GBE$$3f}T3x'',
     ''Bw~CykPy&=S%rF|NOrITItL@TPJ&Vvq{;SJD8{vQ;?{rt*>>ESuv)EC~}@65TcyI86#~j6Irzdl?)ME'',
     ''#m_865UerytMltcmYlos|hgOk!RKsBfTjdVaO^4ppOq+$=aET<SmRlL6MGdx*x4Z5Ybr!zJ$EOjrQch'',
     ''2h}5aJqy|`dGH?CIE*(Vf10LeG;LI*tT*r)MXwLJ4n1}I60eB7X9N93cJDN+_NS3~gsXrZVMQ^dT%tk'',
     ''jR%CNa{+2b|c%6jUWn087pH3%%WGZZFjvrV7Fu8QHT3sX>f_SNHEolMG#bSFQw@i$7U%u&<*GzSn3d&'',
     ''k^SBf?YcA%~l)+)bZzbpMnOQuV>7*rd%3bdwMrmk^_>p@&g;d<7k8d{BA1Daod`R$6muNUq+V1M>&;+'',
     ''XHT=>he~Yd=d^E#Fo%a@f~$Q!Lj<D;t~>%={`wq1Ca$?(t2AzLOrYS)Ob;)Ny*Mrvk$cOd-z+39A-sg'',
     ''~=r1*DBlkBXS9%$(E;`6-$#OuaW&W4HO1Q1-M$6qVX&$kt3Xeu&efN5!+9o$xV9w1KlgxHZks@FP#R*'',
     ''6C32VbOWoJJ$FDyCHQIL4S!w-r(0bjHfQYb(WvSDK~!5iXx7A=bK|G#HO>ute6o}D19pf<*I&>VQ+qi'',
     ''IW<MlCfk3`jEsT6W5Gc4|TVV$P(Djc7CluuD+&GPgMI*=#=a!FlHW^~;<C<(+92`m@Tlow^2m0jBtp{'',
     ''V;J>Xc11M)CiA)Oi9ZgChkU3zln;Y8N!50A64)aQ7C_G6wR0z7x==gEN|2Z1mvP;ETcCUabqQ>S_O3}'',
     ''fJat&xr!I4|2!_lZS4Y37JgPN3-NJ!TRbWOg?A)Ub~)c0Ma<PmFWIYsmcfaWc5GW&S%RMkmRlr<ifRZ'',
     ''e}l+)!F2WFGb!+uvZMcXyMlvlbl?UqWU~mNE`0q-6J_FdIAh&wKQX#VCQjZ7@PKlh)$LDsC4#o4-O%C'',
     ''7eV-o%qG~ZU1+-wV<Q^UY)X%rzV;qo55AdP|KbHN8RhL>!PYo>U|E{bbU_yEPX~q=A$O7Ut(2>5#C84'',
     ''s!4-Kai=Hls!XA#yqY`^D$i-|fL1T71Sm0YxjW^lsPrPnH%y0m;l}PL|ht&9Z#-%tN9ZqoV7h^03gtO'',
     ''ttcU$-(zW+1r21xo@YZRN7Vpa?_G|c)3d&*9Z{Jx`m+WD4hJr6jJYMwg<NpEkQBx6uwcq6a_oT>kj*w'',
     ''|kCMDRCdDClzu*oj>Bg{5G;)&~8uZ!9D7?pppC8|d-o(KRYPxaOOzZesj*Rw~svn`ylE7IfPYu8(ee!'',
     '';5J<6F33;KZj+s)yFcQ@D5>ust-T~ub)tPa3BlA>O?BI#<Qk@x=4o2W~xEzf6Qptw8FSaz6+3WWZQ*^'',
     ''N2d$_I!c!JZJuMI?^-)+Od{l!{X1hxmgy(S>trIVq7X5ys>lD?{sT};0|XQR000O8?}kZQ-V(^xAp`&'',
     ''bgA4!wAOHXWaA|NaUukZ1WpZv|Y%gPPZEaz0WOFZOa%E+DWiD`etyW8q+cprs`&SSG0?4SX^l>w)0L3'',
     ''-|3KY#@lU}w9fs)2DyA;WCC@0$_|Gh&}k|o(jH{JSRo17=V`8XWW8f_iJM_lc#ZkaaDaEri16#UL*2f'',
     ''fTa8ljp&@>7Y<^2*(U+pu2+x>eLN!eoU|4y@ubtE3nVs<tNYLMyzYn3Wu%sC3(MRS#A-ae2)I9d{j)Q'',
     ''4Khl+`hlLd3}3($wV8lJmiq=Ex_O7IpgY*N#}&bjIuJ^4ch2xDayh;G`L!=YS^;^54w|eft@iH5R0-C'',
     ''v@Ch`0IJ4x&9<*tskPj#7=0|b&MFUkb_9!*5Cz<8_9IJw*s$-uUk`3;IEFCM!36U=`gb3lc{$73r-Tw'',
     ''uzO2HYctT3idi3zwyFg0JILZ@~4NGb&s}*JEz^^_W0OSy$KS2*cB{?E{6F}@MmiE7Wm?TNU@7vCqj(}'',
     ''8DIVquLhVtQ!ubv{Oe|5q_3(6teYuj>{#c-n*x4<N&MV4g1Sw)=Lk~dH&oHznQDi8^^t-)qv=m<)qw1'',
     ''uLNQXD}Y3AcB)gCOpZBGAT=Dq}B<)eXDrX?s5iq;3iV26*dnPZRj)b}wK0ViGaHS`XIQ-a6*stIF%T='',
     ''zXRLavy5@n^thDh~LiW#&|u<P6p|y5l*(HSc{$Q1jL1q?ug5iDaZ>2q87!-6K)Jq<ji`{JL&Sf`}uwg'',
     ''jvu+rlf96zusMJ<`8?;4<$LNd?f|h$zL0*=Q2CY|AeSt316m~KetfeCio{LD8c^YSQ<KtxW*K{T5Xd5'',
     ''QL>0wKxa6ioVoXbi6NchB(E?_3we{&->#r`7JTH>e6<==0@?4S(bwTI(>xi&dYV(Fmgr}9@mwmiIM`2'',
     ''yZrN0aAKrQaTku_46TvFJI`o@OUnknsiOfTUV_2uLC{96B?IBuy<OTtIcE(o5DS@KrN$KlYEE;XEx(D'',
     ''Pxp)OR3DzUo}3r!e!qte~gmkgop&Ae6~PJmPa!oQwYzm1}hQIdT9Wgz=Y^?(ej5hr1k*+FhUr`}8HrV'',
     ''mnWLZ_NJGLZy?pZF2O0;Il{qA1m3_u!UMUUY@n22vDz7Tv2)&Ov&r$g$-T?Ojw+yVh?&AHTpz7JLbk='',
     ''OtYDP`mF1%i^l5Cq~C7l{wGh5?NoSjHhojXT|eS&=w)qa<tMo?TZBi6rl852<ZGXkYnM(2pwpRX<_K-'',
     ''VOb0B_!QBix?<VU^%^l1*u$np=ob<=X>n@g>6F(Cys{>RI#dz5Uw0rTyhG<Ijg#yp&c!D{>CeKqoIG;'',
     ''XQbDD%^UTA70qjK1qYxy=ZSMob^9iKIha=)6(1!_rf)T7F<QM5E0Z_eP${nvbZc_;D(w4-1`=tW)PxI'',
     ''@IxK3HmtX+ZKDmi(cT6HoflaTwG80Z>Z=1QY-O00;o@hDln#$ot^q0ssJ~1^@sa0001RX>c!JX>N37a'',
     ''&BR4FJo_QZDDR?b1!INb7(Gbd3{w;Yuhjoe)q2shJp=_*mIZ*rDW@%w2*Xt>55S7v#nK@JV|a>#{T<G'',
     ''vK_~1yS&)a-F?3MzPpQPJ8c|kxNW4^M`AciUDra@)6u@#s4}`Gx^o>j7RYG0=dy><=3YAtnJm}Bx@a('',
     ''TqN7YG2S#y83n}QHTVRE5Tdv9};Bq*A6k;8By~Uss>=d%uZg004*?qsf-0XJmMfOfeOMP*3)R&9<+wH'',
     ''fz4ZFJ7U19Xy_V(s$IBfod(F$8k2nKk`il$djHX|=aIAFSWU5^EO;=qu6VvyG0uESlznBpxkmPS!jNN'',
     ''z2;!o0?^lku6ZBZ9v;j>8jg5f%s!0uf!|o74rDq~paCuhC+PMmz(Jg8v=X38dhP?1A(aO7bFHLsqL0E'',
     '')<3v_|*#oEhuM6B_t51NvZL^1Mc`<LO>D<8JAf2A)oNlTmR9V#Alt+HF>~>5L($s^4UY36H4ijxu}&k'',
     ''z{an!XHd@=c4vARfJ(qx%94!$i3M4uWOYt%w1R;I|MS<hXoH`nb3k(N2<feOoSodPxU4m5)3hfhY#^7'',
     ''%A6bh=ivn!EXp5x_FMI}hY#mnk2E5|EbosK$7A_6QE{{>ELDNGbUI&zHO^^Vu^q;>mt+Z*mTNWG2%Sc'',
     ''RrYN3)vp6S9doxhtd2@NxBC~6GGjf}F|=)OxnWlPS}SuWG7AX7$0(bnVqXV`@`p8U)|SZ5xCkT^iIj-'',
     ''nz;yTNaf<Z(Wo!59`=EWwq7Ghc!+%c2ap-l$>pql0B8F`ts7hr5FpvWau!hCz6f$?+h+!}yt9|4_pq<'',
     ''@kPPQ3DT_%^%MQ^Jb<i=BFV!F`uY&IE^JuYb=U9*>9271gSlO3+KQzJ`ZbSJAk>Vy-HDIzYm+kL(yrq'',
     ''gvFpcP-B|0*~cm2cG@U2IRPi1{vxP?m*kzAJh@>fdUlUCWHREVOSU~4?YojYNP^>lG;$HF4g4OmPtxc'',
     ''gP)h>@6aWAK2mtSfNm_}+lsxJI003+R0015U003}la4%nJZggdGZeeUMV{dJ3VQyq|FKA_Ka4v9pbyL'',
     ''BPn=lZ)^A#hiDj;Q1&rx?T(Mqk<TiRZt2svQ@w_v+tvsqO2-#Z4(LX`EzSa06*o9Ce<-GVmG2(k#WHJ'',
     ''Tj!6itUVDm~_UBUKfUZ_>JG1dKFUE|o)4qRB3e%+A7Me$j0!R1paK@%SFaI^jCYqylZA9DeNg&xgZ33'',
     ''cg;@IH{Gr(SIh=6h+ac5!S*NY|I2C)1K}k;1$R5q1IQZxdKW}Fxj;XL_<YqMTPL_D~B_{M?<=T&r{`7'',
     ''0A!^!VNUp`lf1v6dSTjk>Tnb)umtK<VzDW=K4NcsH)Xp8K^32To=5BGl)}RkaG$&BQh<AjO=d&$$z1G'',
     ''LK=VRg+;$BS3OB#a8mrLdR<^Pc6bkHHMH<bYj{4n-`2jZUZ^&{3SLtd{dgu$Jg_?C5Ea2RaO>h^|<#{'',
     ''#?8mEz@Ylm%-E7AJoy~6R+$?LlsLtAh~P{@Me>1O&k6!29Q_&UtN+9jduNX=6<W3qg^RB6ZIuM=FWRQ'',
     ''za`&D~2Y2|A0g{Az8*jAOa!)NiG)vp&Rs1LI%3IjuPCYPf2B`=pi$V~}UM+_a)UBlNn17KL)GIIvjm#'',
     ''sdk-|Ml`ONn&__IQylgN?0>p5Q4wQn}Jz0cvCt)CuN3sNOS)*$wKcY`u|W%0|XQR000O8?}kZQm$5Nm'',
     ''&;<YhdlCQu9{>OVaA|NaUukZ1WpZv|Y%gPPZEaz0WOFZRZe(S6E^v93SZ!<EI1v86ze49yu)+1UUzc;'',
     ''Cq{$HoX-IkpM_7zvYj<_AC0CM@E+PNDqgPvNCp7yZyOL%`Gtay#wClN0sO7sIWxLf@@DA}_^;k%Ps6G'',
     ''4_w*!&(OdWcl^Cw@}AxGzm2z=L)99>YUa`dfNlr!9}EJsiKqIw{#;iBkqeUJ4;#RCx%sKOO?Ic1>?<b'',
     ''s%@ZmB1$yM`O-@&&>|kRMgeyAHF)Go7=B{QO(+p+B()FY!u+)gXbrA<{FSUSEH^&e6?3Cnu*jH;bHBs'',
     ''4OJGqTYMPUI0ba03tvNlG_$*#bL4KOJc~+npo4k1gGt(5M1QwD@YRbZqOu`T%GZOH95MXy*Xc!NVVOd'',
     ''UfYsdapA>YP<DUfH(%znt|HY|F9Y+H-90m#OUxaB*J>=Zd~I(p$TpaC<F~J1mk7dYvgk=CMPaccs_GA'',
     ''FKZeS8vw3CqmUtOak6he?3UV4@fYgoMSz-cM;l7T_+S5M@sz}8L)ema5()j@>ls-`kP~pPtrB%gnN2)'',
     ''4YtyXo5rL+O(yqC_RFI%q=e3B$F-{(yBfC<uZAvzNy2tQ!j>XbrORSP;Yjv=xL{N@MUF)m02fj?0AhD'',
     ''>_^J->^AnBzfe)-v3uKks|NcgUrnM1Q#pKF5L^vPHOQDwlC7_;j1051-K`XJj3OjX7Cp>d0piZvm8gL'',
     ''uRYM9PJn5ZRtd6Y@l?a(=2<F6o|vOvM^rVQHI6gt&E(thY4%oH4Ze4;E)M@hwq6KQ|)x9q=DrKVJpGV'',
     ''<PnWg%T#SK9vlO0&p`<MRq=%%^NDuZTiBLdt3yW&%(y*APWiQKBsqc*ftBtSw@}nJCa544$C%nfp0p6'',
     ''20Mk=sX5xc3S=)<stc7%`e9`h$BNWdg6gHQOM=Tg*atw6>Wx)c0s6_Q3phl_ofG|VkXHNv}V2xYkihh'',
     ''BTnEhO#4j<4RL4tJrfi!>CV9Sm`GlH~6+d&ONpS1)-e?4M;q!8GHX&q3moqk2K<j!~KD}mD0QAQ9p6?'',
     ''F`<En-|5j1h>@-?tw(W)F1m$gZQS9VA4zk{A%9*d+l200MgxO5e*2DUJXSU9*ZLpR?pBDgNgaLI8>>X'',
     '';Oc0mc_(bv=RjHVYcax#=2`uZ_5-0)BUVfdM?@Hz9&%9_Rw5%Z?oEakUn@diXcLXLyUzdxwR~t)P=7N'',
     ''+uKj;&8V|&+Mx?0ED?DHSyDI)e#dIJ>nD$pSJmA>+op>9a~fsr2=Q_1O~_0yTu=Jqco^02br|Swr>%D'',
     ''b{?LtJ<XW!N6ZSjK+nCK{el$~z=uI2ei6B^k6GJO>Qwexma7Y(@2mz@bZIjpM=b|)-l>2I&i^_N;Dr$'',
     ''3C>JSR$t90K{7GCLo53?PAtPYsnlcqewtu)G5IFQ{A&9<02DjJc>#px){#`#V8!a4laGF_Dkit82_lP'',
     ''`O$T;5)6D=tVQ7kU8WJcuwa<K?WCO@S$o)-iDus%5mADXg>S^?vai4GW$;n}sO|s%}eIstGgnM~ObgW'',
     ''k6sGQ8At9)8s!sAf_uT1dE;l>Gl8x1*#788?NiR*bTbfBon;jiFiIlMCWOUSkL}rAmXr8NOkM64b_zw'',
     ''7yUtmE^WSMM3%WsEF<ohij)5wrPRECxT{KeT$<kG_u!o6IDdV>JnmD`(g(~synb)p6IK_vxxqEKoi>m'',
     ''a;o%FNbKKQk%3@XMFO$LHP^QLh*=zc^ra#H_^-PC%=-SLAXi^(yMB!1eWW|KQ=pP>OY~*vAxOGA0q!i'',
     ''5rW{aSjU{a}HE}I%WFcWHXZRx$dY|%Ek<S@0VdaoylX2J(X0+%uM$@t(oSui0^2lI%7iKm)aqo-VLPU'',
     ''cb5h`GTijH*ye^>0$@r(3p(tEUbF1(N3C<20T;TGMUflt$^374V!T*'' @ '')nbNB|JID(0+PO3VUHX&U14Ov'',
     ''dQb{wf}n9FwUJZ+3FWiO9KQH000080PluLS_6Yk9!~@S0Cfxi03iSX0B~t=FJEbHbY*gGVQepBZ*6U1'',
     ''Ze('' @ ''*WX>N0HWn*+MaCxOx-*4MC5PtVxaZoW#0vus`HQ*In(g7WcW<a{V1OdTFXPFH}sw9=dDEhzeNQsn'',
     ''W%MZo!Vw?Bfua6(^BHB(H2U0hUP|fCGbPKw39XA$1490)C?9mQ3cj^ciEx)VN7Vbplw(vn%w;3><=t}'',
     ''mAs@A6Lc=f`4=(6SJ1&xiaH6C~`9Ygghj8-iwcj;|Jb&L+35z4X8R;wvZv@vopR%pf8EC}JzC@#xNii'',
     ''oV*n%X0zy#g$sxkXm#w&kjhUbn-~YcAGt*IRO`G4=QG&+YBIhle$n79Fp-;}QA?WxON$jCk&SX<KOU8'',
     ''ZjvdA*C&;&W^hn$humJXV$$mtKAJQy^*O%@;x%A8J%r5UIS=gAH`5o6(7P`&Y0pYGFEIhn@VzP;k~jQ'',
     ''R&FFFA3uxT2Iw!#vhX>Az#S1PO=Tzt`T!jMKDnb-Fl!M!+nv#MUm*buhWdnpzaH*C!a<vsyD|k2Uqqv'',
     ''{L1yqvFX)pb^Gd~kGCc-!Z+U}s5Q_o$iQ+f#INtwL3Pe%_Ue|0i<QC<jfScdoqgJ>ZodNuDN&4|PTTT'',
     ''vnLWJ^eZltcb%(jbTUU}#~v(DG-sK_(G_#XCua%pjCI->0M%Pb+&`-3Nl1Ci)@E`9&*NNPB83ysvzTv'',
     ''FN!t=&ScL1}vCq%z1ZBMoSIx)F-BEG5!igolf^T*8Z~wBpB^=`EUzzOCD5D~A8gSaz@E33Tte-lcY6>'',
     ''X5keX>Y7>SY|)e*EB^+Pbu^7C@;<&!wfYgB}C&!Pu3XSclj^dW$a=SqUlu-;1<RVyK(+*ft!YY`9b?g'',
     ''!{RAOlpgn_&{<j45vv!Lii?Gh=Bd(}5SCua*~E#!(mNL=F=SX`j@7eaWtW#6w9hm#zfTPLqvid0-j^V'',
     ''Mvc%XI(d{j|d^Xiq)i>Vo9=<K*Hm-zh2idP@(#dErvdKPMA7{AKGoc>Cm4)X0%&ckc<^D(E$5SBEODY'',
     ''ihbQWgDECpIweR;9;cmtpA@9x3z#=Zqhm)YXm1o)o5O*=973uQl0F;QdC^+u&#lti{{Vvw6Z+Fk6TAT'',
     ''qz<z2vrj;XmzW;Yp86<K;EPZRZ=Oz-jx1+}m|5^O|wP<pd|84murfSD1K1I77R}ud<Q`x5Hr;enpyn>'',
     ''SsR`U;WpwN@`v+9}jZw$3fUm<2{G)vzWsgD!>XwYe~=r+b~BdlQ#7*L#BZet1oA-E7nB3ghr;51QLfi'']"

lemma good_DATA_1195: "good_lines DATA_1195"
  unfolding DATA_1195_def by (simp only: good_lines_eval, simp?)

lemma lines_DATA_1195: "map length DATA_1195 = replicate 150 79"
  unfolding DATA_1195_def by (simp add: numeral_eq_Suc)

text \<open>Lines 1345 to 1494.\<close>

definition DATA_1345 :: "string list" where
  "DATA_1345 =
    [''Zp^S;JtNtV*#yj<Ldeu}yv*tHk;dZgOjYmNo|?pYLN8v44X;jswQ&4dCOT}naF1q2d-St+j~5b~y9!u'',
     ''@p?<GNy4wCV3cg*Sf|9&>H~;@8znb&x>7@'' @ ''{qDCmUZtS1Sm7?x1}Uyt=z-!G5n(v1=_lP2Oxq;>^zIJ2'',
     ''zCCD{U1modD;ztC=RSYM4>v#)|!3=_lCv63bQ8AVCnmvP5gL=Kz(08mQ<1QY-O00;o@hDll~R$0<h9R'',
     ''L8%asU7!0001RX>c!JX>N37a&BR4FJo_QZDDR?b1!Lbb97;BY%Xwl%{^;#+c=Wn{VT9crA+Ng^knO9Z'',
     ''p$^Ax@_Xv&0RKe<*{>H9v6oqA(<13RQRx?OXYt1^#cF_5|kfF?VW0BB9TC&(P;D=aK7DDbt`0Dm(@|u'',
     ''KYnYfQh%>@vQFBnHoqJFt-0#jyfDA=RvxYEY70HuT~aqvs5fulpP#=ud;2#2>)Ffmx%hihbh6>5?S7Y'',
     ''+8{P0_-n4V^de`PvnG{FdWS8%v_*#}(RY$ud{g7;+M}#9cx?h@<Rhg$rk^i@h%VaCZJ?lKZ(#>~uUbZ'',
     ''pK@#v8_OE$7D_WETbi*;OeZI-k$i_<Haeh_UXlItqZL|P}!m24vMy1kP1P2R{kKxnV>Mr^CBE2Oxox*'',
     ''`)RJ$IRj-zV!<*1tz=#7)wOTJDM@mDwD=HC@rdYyd`HYTzPY14JoGdE-S!4+Nm{GOf0|q|H}_1Q<7Yd'',
     ''qrIVFs##>hHS5r_P7yAQOhLT8?@%4s^MW#-5~uF?0qF=fm4;AWZJb-B=st9>!jX`w92HYN*J$cp^sSY'',
     '')hrly50;VU3R(jox2$1BBj0?)BT-f#lT-22zkK(^S~$}wO`xG(o}UrRXZXb1w8#xlY_p0OshMaP^(}O'',
     ''tZSq0JZBlP!8}Ih*6)?y|-&%f*f%e;^%yj4QNWkZf{MhBS+{&_j#_#9!9M>jJ3z?MNZhkbIf(!I*yCz'',
     ''108?4UWym|d*4!h{tGuTAFp7K*F-I=Jd&+59W=i&vgTY^pKkq<~wrHKOrsn7tSw_Z|jWt+e<CU$FCUg'',
     ''vdH;^e(uU{'' @ ''*yF<rX$E@DcV_Kx{<c&>J5dmPm+dwCeIA<NwFNtLX<>+Xy)?ZUM#IXy{k2i#%<g!z@A2%'',
     ''muxT73#1){MyS~z#AHjZokPv48dGKPIVxL(%Z{nC`A&Bub812p+atwbRRde?RLPjv0~^64kMu%vCJ?V'',
     ''>cy+)uYdNk6*ph!g>3dsE4R8!3*sfdsq;1gxf5r(m$KZss5To*z{8rngeU&B;2zt&NnHx?OywtTR_tT'',
     ''oY>?S%W684VYQlnl)85T@AouGANWl+xb=At0U*O0wuwuT>nc-vj52RpL-85>iCUqI->$vX9IBDX#sua'',
     ''y}&JyL<u4@mH7>Kn)l=MX2!SCm=d@1PB{d70jJ#Cj1u#H>_03sz&G49Gt)^Xp8vFd-vWfgCVYLyfd*p'',
     ''ZCqUD0n8`Z)(}j;c#-nRQiL%ucf8=%}Ej6U%-X!<f`<9M6u9j?yA&8qKdt0EJ_DI6Eb*gCMZ^Td-;es'',
     ''fTEv9?`pnINzVY5Ftw03N<cls0`FoGZS5dY*qKrMYEGBtSKyeq&olo*;`!s-+=6*s|)k|B}lr$yvfwM'',
     ''<Z{pe6eNHK#t}``)hQ~(^a?gIG-IX$?V1!#C7N!BglzP7N6d)$frTGT3^!6R2Stmv2n>InXObW#rI1O'',
     ''p2gci@0_K_QMFLGLQ1zBr#n)(D@IW$)3@zzP*8mA&fi!W2cnsrg#D$Uzm*NL6$$k_UivA0t@WQl@qG$'',
     ''rrqIQ7s{2l`6Vj%&q>$I^K>&II=6wWGwM7uiF=LfZT2>Zk|HiXOMS|nMf<!6Y7%1kVN6tAjMo+_AvEF'',
     ''H8Puw4`N9m3w0h-{jKv)R4+f?jDrTjdYv3R^#uyL)%r)e^hhtB=fB^xtVL(}EavvB>KE0_0gRcU~kZH'',
     ''eLn|Y(y}@>P`+CfIZYM1Lz!&JHz57U`Q{2g54<HS68ywEnOT4kLOi++~TMmY7}GGCM8&Xuzly^x2{o+'',
     ''0&GIimfEh5L@<W-3^p+A%B}%(9}W3xyUI(_Eo_r77Wt-xi7m{&^+AEHeGHa+Rb0zsWybfM6uBK{{WR~'',
     ''t2JL`;uqtfydTFlgVGxsp*JuG=CpE0f=#^d(+&y<&kdYby%2(nC0R5wv<bU4lLD>De$)R&uwc5P`F9w'',
     ''`RlEf%>Pu3NxJOt~5rp9>>KI>x9?KX7+4iAh!0%oDd$oZhrnxp%sY>+!Gp0&Sl<s2`>5ld!;@3L!$>k'',
     ''KS9UMpN>coE~v7~S~$ZqC~l6)1`Pd`^?WZBm;Zr?u~1fXN~DplE#*g;i+b{WcQs_B(X+VbA{03ArrA3'',
     ''AwV5pPrvTfBNp}<6nMJ!&Kgt{+SKENQ7^tw6V&nw8Ndo+ZK^QN<{D9p1q0x{PgXa4;Z#ucQ^}n6QbES'',
     ''+@*`M`WDNzMxp3iFE=XlHHe~t?8Opa#Heh)ndC4mC1G!|tcFdB4&$|CHp?;ALFO(PZiqn7Vo~r_('' @ ''*#w'',
     ''y&Odo4%CEldRHye7vnY>=VVhctB45n~C>_z8%5Ak<6hNlJ&$%oP6X?s~s0d7*R#Lb~$B;NUC2W6PY{5'',
     ''kJzyretc0ehbw9bKy78<D0(0Xo^-3wR)!ez>v&jU*BNAg)<j_`jK%9;~Yl<|ZlJpA=ny(+){>eUjs$H'',
     ''_#;v8Xix|MgeFYpi2!I9SOK8e}66sNAcdl9Fc`?y9EAS0I)E(Z#x!a^?eKS@MT;!o94qrcUo>!43HN{'',
     ''n!dnn$ItByzd^Y8r~}<izL-<NY)cqX$(-J7|Mhllox1m`e>?@ET{(Pa0M(v{ugiun8Ol$kTM0&PW@<5'',
     ''D@^d6n&1Kr@K$d2WX^rvDoxPW3~`9i@nj>G8bMVS`$fK9lu~9g8?;KVsvP#*@?z8sm=FWr!Q~wdW!!+'',
     ''<yaW<nRX06NfjopK(wZX&XaN)X{nqV;Li|)bR^KjtTlQF?2VS_dekiCEWipT<o1}(;ng-YT*kgfRNtS'',
     ''`I)M;0PylHzY9{?zx5e*2nW{vPCn8I;zD;5?84aKctGxN`6Kzf*xI}Ln~@|#!^?AeNhn`b(V=6>W99K'',
     ''z_EGA<Z8sa(`jQP9h`)Fz&4b2mW|yphHgvt=!)F)ge2L_?j<=yr>?T3|ZCRqpqm;)}5~9QthDS#zU!s'',
     ''?ozuXM(GglV)2@53qQFgE1P3+Yj1oz1r^`8bc}ira-I@Y+UO|E;G*1ukk8AVzUIys5NQs*6bdzemM(u'',
     ''z^Nr)$nLC1;vjDQyKkii)k3K4(J0U90Z|kVfac(blf`pi2xyt_<nCXe{M!S@et2gNk~8iPi31@+)j6o'',
     ''0ah(0$@gdBP<Qq&%AaC6p6^>vVpZ6iQ%>r{A;P*c)%H;2?74JLf<`Z4dxR>@PRm_;84-~cCw-VEOUni'',
     ''!}DZI<vd|uz7$?+7Pvj$54Su?>z%Yt2og-$;{a9WhJVNme|sM{7$%^o4KR<^?V+OMg)wt-zD&Y!;f>('',
     ''_acdio}n_%#zxR)APM1?oN%CrF?$st-T_+XB1aYzHDWFOzzIZ;=G%(F42g$jf|SXQe{oD=Nph|IpP2^'',
     ''iLD7lKS2wW4wgII=uRh?4x`N^%hGzT1Z6;{3G7fRkw3l%~p{Ff!eriK)6xKPCdP+`8{UuW!<_1emA$U'',
     ''o870|R|hn?e!#mku)s&v7sTta$TN`{&%67FX8s~etRw)-RQ$)=*RM!gA|4<&RwzIyiGUfyEYDDgYBSf'',
     ''D2LQuNWd}1i2k@}mgUYy2^yFJ)BD`T$l$Q&Po)97lX9EQ$heh6U;+&L6(`F!GrePSPRyUoCT_KZ3s+q'',
     ''~Y%4x9xq-3i@IsSQY-PSh$L{=`)Usoh>7N4Qfit&S6{ic7nD|wC-vtWjvg7b5QO>?Ts+~(k}Y~UA`wq'',
     ''1Zre@R)zylnfVBG}@#@o2)j97I!Z`Ya3*8O61mnZ!?><Ul98^d}_tP&%Eccg#6}V*-Ax6F<j+wf7#0X'',
     ''H*JfJJEIu`bGkC*vgS2VSrU{I$E%Fu?F%)ALs#2JwH1a-+%w7NWA5AH$viA@?2=VFtl&M($PNHL=A?6'',
     ''*lj1%7eq;}f{L{~MhanEIH#bIN~@DuAT4m%`Ru>moxOSW^ySNcEdKWN)ziP6J!j6v&^}l{$albe!1PZ'',
     ''`Valuo1(}=5nI>2TYJQxbKnQ)lQy5W2FF;j;OPgaHG_oYTCMi~IRI!R&*kx59`d#6JYa41NQRz{KafV'',
     ''WG=5)7PnrJ;v54mfyrOS*5n_7|aQQMil1>9-fffS=5kra1uXZqpY-7{5Y6k1zj7@NaVi?&**_{;(=mc'',
     ''YBOxt}|r2iTy!dDUYua`|8@v@sTZ);Ze@x&%y3h}Vj2KWidf$`b*VR>0$7@Se(P9%FgRpn%G@Vf<oh2'',
     ''@)_xTGJ!7a_(|^JGzS1Vw9zadECZ511`rr={7Z7y&Unm+mJnenPF|1G>x67UgJm&tV_O5P5ttPQ}uNT'',
     ''baJ?V(2p>(I-{-_cCk3BpYExb(!;nEfI=4Vwzal1upp2fFo}{?ga3x(My>=IZC(6466<YyDysE*^h(3'',
     ''0&{N|BkDGbajW)OHnm5qwR>W*PN>{0$jv9JY=co;Sf_F3;l^b#NtPv|PBa}`~`eft0FG;}USYCEA8k;'',
     ''B<A2GhqYROh4Piv4L=c+ej0jV}j3Eu`Wb%;y11Tp*o_PQ?Z2xf=6vglq8AJa;Vod}6pJ9I=_5TxOtk2'',
     ''P60#$!po!3&u4#ii{QG!%JU@@TZ~Y^ulVm1c|a2IYVtbRAcD_nmZ~HTpBP9!JI1ROmA1mtF~{<;KvzB'',
     ''HWhhU#~1<OqR~Cfq?QxIG2MRKX~o)+TC*LrEld%#nX-}+B4;luLfRJAzQh$^>SIU>FmyoxzV3EV20?`'',
     ''@gRy}uXDX0*u(N;W3!4=nTKY%vDW8m!RLCZ+%0ji*1A`?INo4GbHOd2U|3p*7mW0xSA)%gpGV@g$qw1'',
     ''3c7yKJ4pVY19xeg17WApIrN4^?AYPOz37_V5+HC<!iHZ1-j-ntgb9PCqo3f~qYzC%1sDE~32cT-X>58'',
     ''NlVIIi{q#9VmstRx>%uxWe!U%5TVzQ=E+K*`UBaJ-bSAL9mQn3abGa#+EhPJ{kse9g~9c`^{tQ(AlIL'',
     ''RUvCI{=G7uRD&b!bQ9$JrlC=hwLLK@mVSA_iP4J{-MvET`oi>?!=Pd6&2QC6USebX(2_n}+=UA#M5Ln'',
     ''4X%_Oa0~EGrN_})*f0~-@g%!hKABmo|+evT^}lt4Sn3isp&s>?wRkvOIQvc_({YGCWk)!Xxtp6oN@zz'',
     ''4(qBn%('' @ ''*PlIb)$e13^Yigxf;KtE9<O0u(Yc44T?I7^Ez4pys<seHrr~$`kGCs5*Qw)>(Eqnx{7t4`FL'',
     ''r*h9zJC$;GO#L{zYDICnjsS1z5p;e1IHdzl~AeP{6E`l*4v{dF$V~DbN$^9Z2Dg(#R_TuyhDCC(Ge#p'',
     ''SAcG4I|BUI)hxB*{LmT840Aj_a@*NZ;|Gm8BAf#L_jL|M1pg+uf}19K3$Y?ptW>r*{Rljb?sbx$vpih'',
     ''7JkrJ8MXj0JZ8mdpWS5x;pK*5+K>MS#J};1blj^-OVma5*L?en`<NHFuZg_xJ<DCooaZJSNu7I-lg9A'',
     ''bx_Msa!`#pdSy@MNV50M88#e83Nz&7aV>@6V0iRp!A_P^FtiZt_EYOF3s6S*DxO1bNIo?1ey}d5s3#D'',
     ''UKl{rfosD7Jn^4$PcGgVIvoqcNF+u;U<~3s7le1yfT^`sanZg8oetKP{mI+Dj3eKT>GR0yZ_of5N4Fx'',
     ''WND}E{rYv6Vy>Yp_o`MUV5th!cvB)NVChG@qxfrjoPv70XNup~CpNHNJaobU~a1aW(bdiqd%63~Pc>!'',
     ''Vur2;+hs~0oBuP{wOZU7BE8Cd)<GTIKhxE!}|z2c?&^Pu_#YPoZrihYdE2u}n+egZh`c<`F*>R<}Av&'',
     ''l}y^VQZ@O++Aedv$6H#Q(MsU>4w};78z{eEu>E(D>OVhlJQ%OQt%aER*3Xce*nQ^zV1_RGDjc6ifp$_'',
     ''9EN1N>JoDr<to70|NuT9>;hny`s_poUup5DetGMqtN^r=2=`xV7gi{!@;TLQTz};YVY{U21dyR{Ma^>'',
     ''vS{7HOe@&$1A4&K=y$TO<CsxxL^&>#>FU(JTWA|s1H$vEFRRXh%Q}oIw2r{92VHeW3L{b`4Rr<9&Psx'',
     ''ZZW3Fr^Y5uiu|i$G*Hbo*6`}<MJn?al_2VC%Rhm1F6(k;?SoiqQhQhZ=s_}aazTXy!$IlhWkEJgZ>2X'',
     ''qs3b!W>riiliJ^V)A<!-NvsZ0m;`=HP+@>SgPBAvI6?Pu`@RAVDOOM|G~6}Nkk_^zvVpQX^5mD^G+Od'',
     ''tCfo{wJ+FPsP+qK&tH-hfSpXR4bHY=nA`MXkQdTJnA5C-7KBij~G~HGq^ENLpBv{z)h@#}~YOgyq5L+'',
     ''=@%KaSbB>j*HM62|vjFQeU$ZC2fmK0)j1M7i8eNY5bQM8TSI!emSzv=P#p39A*sbeARI#yF_wEIR<}m'',
     ''-`g+2`WlOs@hBH|pUB+BLpKAU3UXenP9vl=E%UM;VLZ5^J%L8cmphRG;4`^Yu3(HZYVL4!Yfxx|2agn'',
     ''Wr`P^eVEj%P#?N8Ub@15+_hs=}_4+clil#kr1<Zyt4lOc6M9B`-a)@2VMxbSBOqGuiEK;jJb?i6A%xk'',
     ''~Hr!A%UI;rynTzi7wYwh8ClZY9E8&1irDHd5_9$wpniX0<T!|mbGm$y34!P_oPLGa>{PuriH^q}1#eR'',
     ''I;^lxO<-Et%dZOyt-@1!L)kBFu6HjIWI#6V(+zF2xg<N?X8|Z-huGuNYTNOn_tcW;{`P?TKGIV^2nL5'',
     ''9u6tMN|a>4HqhG=12#QG`i!ByiST5(8Wkrf#mJk@ua~j#9=OT9IuS|AXD7K857D=crXM!9~N{>(8I!f'',
     ''SOQ8hKirRlu%G9S8p~Jqg;lUj?a;iqe9fYq0I@xq(y5#9o9iI-saRDN$Fn^5X7rczgm${#yjMOEMm$y'',
     ''(=-*w3#ak<KF7WI(ez)#v;qa5*Tox4j{NPH8ZFSAA>M)sZx}ed3W={b+iZ$y0Jx+Y*ma=g8M;L&=>$B'',
     ''G=4d1W3!cnFCxo@N%_Kg_%K_h->8ezE8ZGlhR&E{5eSYr>&2AjxQOWCat0qt>}*_0>Lez&wIe1|bDU<'',
     ''bz3Q@_J3Ow*n)$OalgFlOvtE<8Jg3K(Dm+#h}tDoo9?EzJV??S{-P<{`zXd(3HAe*hcCNXmWK;6-$G+'',
     ''n_NVW<-1n>I`Reak_YN=|NS0bmhy~g=98HL}CxBwoLUSJ6^T{$O){VA6h@&f;{`9)DwzXkO0$hDE#Q6'',
     ''puQ~Paev_=V`r*dCt_j-lym(EWdQXhBz$OmI#iFJ0S%@b`&S=7lS_sli|Tn(<mHDuQXN0vn4%;Nz?Qv'',
     ''*o{2y-Bffo87i1+}TW!Hn<U(D2$;&N}5Kd#N(eY-mYl#H0mgf%mfFTHT%Kl$1q@|Ycu#SA|YgBLBTFO'',
     ''yBZ?|dx20s-Zxj|}<fqBeO8k|}?5<^KPB`)Se0?sTO$QLvmT0thlr7HKww=iDzw$5bywV$)6Hi;~>iE'',
     ''AZ8Uxrxu2xqzqeW0F{J+0q*&Zw|&adU;K<W$=>P8d28=gi)eZceb!z3Jq{RXVVxjvLiN)xDgGtG3-Wr'',
     ''za;H&>Y<gqg^Mv{Vq9y#wXOYIVt7M;E;unG8DM(7wxc1%B!Yd#OgYp)A2Q)Lx+=$+$pP7*ZVbi5Fy+G'',
     ''`gApz9tM8Q(6bthYFieR%;SEhMBVD{V~Hbc_`0=Ej<^vYl05EY$XDPhwSl)lptR94wUXS^zT&~u0%et'',
     ''KH1c@<v9??JuY*z11}b2K<&mj#e-_@>kz?@uD!I<_TzWov1%o<%s;)X%SNhIk3xl42rx<H2fs`xgrJ;'',
     ''HVG9|b_84uIXTt?9*AEdfNCQYjjM)u5|F3;-ILJi-1lhpPNkpCn~S{}`-*YD0w@wyenqv2Fv*6j+FNf'',
     ''!7*1yWT)wmIQjp?AHPLqR{z`EfW8OiQ&@+=c4nc-DTru)AJfeCI|&DazSTs)y`$^W^_cyu@#xtb@-sg'',
     ''fGGb^>i}35uf{!FP>a}nNMXw`8p&Ojq8`wS0g@r;_#uudEkN!NjoWZ9!_3*Ij3*B5KLEjTBCg}$%D_+'',
     ''l(rJBU*=SY|9M|^Uj%H0$>j5AjrkW^sn~!u>tWxj?puz7xoL#Fw5RMh-PEW{Zv~zHSkqg=cYh;2ouyf'',
     ''k$!2;`d&Rtsfr!g6fd2=RYQ_?gBwPhHKQ4;E8@e4nxrKq1EtBF|P_WU%;FnSbcc~+mq937Ea5yi9Q8W'',
     ''%q>9i-KhH(`CK^uOLv9v?)b)L!xn=@Why~)Nf`keQIFWO@W5m;^lrS>}Kh&Dxp@PGXy%GC8YR@?Y4^_'',
     ''TvY%GdEf{FoO@8DST02x&fu7G0`!z*w(79nqMZ!9x!r=L6~yMexh1J*;znY;@arn9UqfN2f_aXoZvP&'',
     ''=X}$43%BeEH!zQ%?WH<vqI!A?ZrQEkc*qyA=blOcq=F;Wjf@?0d0ezzs##Y+gstaQ;B;gCl}<Xo6_<U'',
     ''k4fwBH1E+DYnL1-HF;1xcbjBc&Iq%Y!IyVsfOIt3n+l^afr>X4VJAR<JrkD1d4UNIu1iJ436Mc*3Mvt'',
     ''bW})wj?aidYg>Y6TnMrHZfjNq=vblVs0@kqOLN!fX`j^gJkU>PphDFGC;qZ0fZS@H}Qy0sWkMCo>4_z'',
     ''lnR}pU11RseyQAe<`kdPKr-yeSLUx8yT$HY1p*aYbnqlbs|M(uSLkOQkBg~jYPRt!K1<V>!*O&CC@h0'',
     ''8D)ltKG1Z*'' @ ''}%N7$qaD!jpWkR?b=Y$)c9KoYA}WygNfb#ta)>CYEn^h1Z4YZ>)0ezcdvFQ=SH<hdmea4'',
     ''^!!PF1j-_+Q}LX4`2f`CxsbZT+H{?E{vz(^Cnbz>2;1*RZ6Zo14iiao%Ekv26%t(#qZDXs8U&y3G67?'',
     ''tkkgWhFDTzm4-}VI#pJ2LU%f-9E)<}yjx!n=<up--RT=Lm?=(ljhE(8`|LVi2jEF6-m)>Wj^encV2p~'',
     ''#oKu?z_sJtA)hzPpHIyZ)!wio;RCr54f@iXv!SyV#HC<(V_Uh@MU!KKuqw(7p;KJQ`d&@MzQ)b<m%hW'',
     ''{-+3nM~k-W5Y%!^NPqJSUcJx7g%e(qd#uJqqp8mlTJ-40kF%f4P|to=!G-b2tSO1MOz$^jhjAQcp7I{'',
     ''wldc+XiesVh(H!C2nt5li$ripf15D0$waGB)OT50aI0uo{3X4|FZUe31G-Ra%ISBHI=b<$uZM05ipy9'',
     ''6yn-M1SFeqL13$qqQ&fAj+(0>3ZQRO}m<|;?F6tP^(K0)gPups#I(HW<(uja8)t63RX_{k@%as<CkC&'',
     ''Hn|Z+NW4v@Z=S)cP7`6~+{4p8OYn@&P*|>eAEQy5zMq|93%wUza=PI@1OHT5%;dZR>V|~9vRvKJmJ21'',
     '')_qse1Z+Cgo+EXtx9j_tdB%!N~WWPco=K^Q_<S!OaF2x_f`2%;%fbD>*8xp|lu28p@nfrUm1ye0W_(c'',
     ''EN7LOnSjKV+8RGqwD@LpClnu3IUM1QOf{ZRT6ojt`mhn@(;mFlV~#2m|mp6SRXqd*rzvmVu#LHE1K8n'',
     ''^Gye+kaTDsU3wbo685PxXW|6969W98ZW5Zz1u87{|veeAD$i^#Rg&BJDJsa8y(`c;<WD+KmJq3a~nyI'',
     ''2>Stw}a@H(qdV~Tbh&TkJFLf6E7=R!*h`7^yl(OLj#pJbjghBz2*B;VH^JO`|peuY{u1p_e%f9)$ude'',
     ''tJi0*-g(+#j>IX*!&mSqbYIWJj|PL;#71=p7yR|bt9Pdy)>T3?-(0n<K1n#%;EnKgN3OjVkU6KWcr`I'',
     ''+>ZkthK~K10S9N$&8y1oHN7a#cf=4w4YAqDxx$h4v1Sl^1wc$JXhw<z{XNK@EQejFc%BvHV3~o-i>!J'',
     ''Yc7Py+tFV=Qc458Fm;DmxAtS#Na?)n3ZrT+y`O9KQH000080PluLT8$ccF0c#$0O2tJ03HAU0B~t=FJ'',
     ''EbHbY*gGVQepBZ*6U1Ze('' @ ''*WY-w|JE^v9}THSBlxDkK%UqR>)SSr@S_0_=M!@0RMXmAOdv_)YU3ccd)@'',
     ''~jnAQnI~wxc|K~{1PcqYbVb2rTbv-@?$uh&)<y151o)b`9+ELjGOO`*zI_`JKIWeAfoF#DitGk@}IOB'',
     ''m@;$yv4eGP=F`7FysobP`ugf`Z-0KXB5zpBB<+P<k#}76EAqbUxoBy#A|Kg*2G(xaihLTn2L5fR>dy?'',
     ''#j(25s&)QnZvZI?jima4F&l}|q+R#?Cd_x=lE2~<1V5fH8GpXQM&%XH?9>&|AN#Lv8G~6F?sD)-%Ei5'',
     ''c~TeHV%BMt}J)^6Kd9DF0i&|R5{rQNEh{h(lb&HS}K{^RQE^~aB?E$nf_3_EVIrT<z=AyYdJtfw{Ysa'',
     ''yXeRqQXI2FY&+B(x$s)>o{(=Tfu>*7ivvz+R(D#TvH3O;sn^cI4L$e}GXYQK3m`Y2B3|sgCw;uj=cD-'',
     ''&Wn-?!=Y@R~xsXr?*2xd$5%U$$M6bq3;H;8NQ9}?(&SlCqYu{%i0C2w)j&z;vdZDPkL~PK+F0EA@4vM'',
     ''Dm17My!&WI&h*YrLzN;G%KBft-@gN%RsXi#ihQbq!tjcpEX&^Tdq(;_BXzKZh}&O4#)OiMKu;lJOW0#'',
     ''CDcN$?)T%u5BtGpKIOzj#8gk1>Cps;zn$&|tAN~9p^$k+1aWpSJe=cDQ2W2WaQT9gyCwgKBdIxri+(_'',
     ''UaPsQ(Ot>iFl_Hao?!Mn@w0wXJpzH?<g@6!9+WPZyV1`&i^f;C99yZRsnSdn5i3QCc+4;9x5iQb%@on'',
     ''fp3MXp`YD&d;%^jKc$*icmkEHhfcIAk3spSh}42i^q#<66R7aMY#&F<Qe>D;V1}Lya<JH3ze7m{Wr_B'',
     ''SolWq=EggkGH5i(EJ6^Vy)sm>REy1z@(716QUO&-?c)rO2WN4{D*jU54Zay2d1Y71t-9OW0R0qofJEA'',
     ''ZNt@#Csea7p><u^i5$FmTab$%$j_o>qv_#r3E>XcsdC(q`xTnK3z4lRBNxt^CNoqAg>|NSyhsn6PZj`'',
     ''YbZGkZPqa}ip4zjfTW4DKj=C3pK&AL%_J=w9L)QyD;g4b8QU5mVPk8|Lo%Q`O>^tfNtP4YsDqqBZGv~'',
     ''h%kiow-^YOX*q_<n+gpld_fi~z*{T?#Wo+`3y#4T;$SPVKVQVY_GUb`;I=9J9p=6Ep=3uU~#c!{ho2F'',
     ''2v;-l|_`iHVo1`+eISiAksaIziwA+2OGl5V_bF+Q0~+N)%}Y`G21mUm*~H9sdhM(SaQ;o?S@5HW0K4V'',
     ''!N8%vqp3Xl8DV|sw6)i-5INttpIi)0ws$`LqUeq&g8eBFqbbE&sN9-?N3Q4X-!%u$-Pc^*+w+Op;eRV'',
     ''&0cVDm~}qRlWZ#)`<3B0EG4qyc``Q`QlkrNf`%bN52D>&5_<s2Elb6Un1fc3Jay4hrlb#Gh@6{+=Z+#'',
     ''&4d~nej=-L4KuY~ypF8F;V&wa6l>=v9*kt|{i4ye$6siRZLBRH|tAiUN5WH>8Iw*($KyjE6+XSGAefr'',
     ''Dq2c-#m&GXXH7QHcfNrS3bwLr#P^tCxFNKWPw2Cf?edRd;juzb8AyFU9iF5W!%Hio?MOvHmPip5rKVK'',
     ''_DwEp7yS8LY=*z>=wU2$(}+W|JOXnbUQ*Ku%4`jFt$3Wgk=feia;De95-xw#5j0_Yk%lRzVDQMM$;Tv'',
     ''(25xz$@$K>eBWy5}+8WN_W9AI7mO{u-#>(8#Q!Lbrj{|>2`a-XmvaArmo_uG>=3uV;8TjOktIc#ixl`'',
     ''`YKse&Sp`S>Azn|hTxQrMrSHw+5zC}B*'' @ '')2KKrn&&P~#!n=_r%bz9aAGuSZ|2LsZ=}dVe%}B?nOt4VFa'',
     '';zAB5aczX{3(DXDOM0?(omVuPd*<n0lv5bebfO$js3jQ5$@2=e7)BB&(1{lj#pk0k8uH(bXjh19?mEz'',
     ''U4j<s#1^Z~0-h`-{YI@0!z)druSq)pvN%<u>lLR*NMFzaOhC5~tFlU9j&_=_|x<nfG`FqTXWlJ$dZV`'',
     ''(`lMC4<^t>d3DCzIQ)C%<QWp!3L~O*`}o(%%k#VP3pey}Z$G0VZ(T!4d17_Hao#C@XBe<=K1NmkVG75'',
     ''*o|P0C<28-SU>zWfq9@DOLiQM%HT&w4UT_j*2u+u#`MH`f6A--XKT^I?z=f?YrzV_XTwa0C^31@AIG+'']"

lemma good_DATA_1345: "good_lines DATA_1345"
  unfolding DATA_1345_def by (simp only: good_lines_eval, simp?)

lemma lines_DATA_1345: "map length DATA_1345 = replicate 150 79"
  unfolding DATA_1345_def by (simp add: numeral_eq_Suc)

text \<open>Lines 1495 to 1644.\<close>

definition DATA_1495 :: "string list" where
  "DATA_1495 =
    [''Sfr$4Q<a)TTOa^xLJsp;LpW~>yeMh0e3{Y-xNsooGSPXujxjG)eV!$nP=I*rB3g<E>$+*uVa>f`fn<s'',
     ''j>M2=yJXVEmKQ&jLu9hpTD7=5_q19|9R%`J>9GS24-K%)98=h~Nf|@Z>OlRhMQCn;Lvzi!@`*stCNfc'',
     ''a&ddXo>#(@lW-Eyh==BSm6Ei{au7|PLa0y10PfQ%7IVWf+(@J2`p5vDno<UN?Xd_e#4*'' @ '')Sjiwso%0=C'',
     ''HNrTaNCjh-FO|g|}=&LB>Rh1A;h-W6rWdN@8egq-6L)#~N@m*b6IDh98O`HhvHG*9HSk1(uKP%DL+$0'',
     ''?yOaedjnq*;`Z-kWNR?6lu5eB-47e!NeXeVVL3V?i5QlSGh+kK6gY{n&7Q5C}fkUkj+v}fV!q@FQ-hz'',
     ''0R{bi9ySazGPl(M!ZB0Xra6a@qfXt}Y8WY%aU-7mU`FpJ?f9EmEM6V|FJghD`W(4L{`E)824Yop$ByV'',
     ''HzfJPcG}Xb<62BypkQLi37WoCN!}(laU&}R&k$HhNPgo)T9tLS&K|l`201UxU+%r-ST?70DjqjC)Gnh'',
     ''aL*DI;600L4lcE^Ah^T0`41wI&ph}kN9i~{jg<C4&8C$T=X+^L1(Y58w}FZ8AHe;^dJ3K%NAV6{|r^8'',
     ''{8oJ^UWv&JzasP0YeSIKN)N8(6EFzc-`BXaQ*lu|=gVNIdq!tmP`l*b+<;w2pR9N>WS2*PcOSc47$xF'',
     ''^4Z`VJL;vePTp_5^!${qy=zuIU|oH3@EVXsD5-B!*+@Ps(8{Ed#vqZMi7hwEg&d`=7$=?`@1pwpnys)'',
     ''oN;)aT!tUNY;gsev0tU1ZbZ}<_t{(dl`iC!Tm=<ia{JBMY?$4H;Zjo)TY2kNktbjI6?22YkA1YHRj^K'',
     ''|Wey|fin>Lc8)dN`xhnA?YZcGuv7nNApHSp#(i;jtHo)M5xqL7n_H0Zu6UwuEv&ch<l{4z-Vb55T<^<'',
     ''v;J{8t0<_&QMrT@u&3dKL)mrR$Fi=Eu$p7Fyj_?HlomY+`gi|Ok?yF3UkV^}TbSF$M{wT70ythpn;KM'',
     ''@>^5o`foev_aca}vT}{VG80AU<<OqmYNz4L#h})P~cOE|V;!r@aLC{6=SJf3Y~U)1I!doo8}{'' @ ''*^D$Qy'',
     ''ZI^9bppA265$~W^~AH<ASu+7G!jP@Z1`3{>Gs2#{5fqX;p;}}FovJ(m0GV~DU!cZ1$G2bGm<_SokZ}`'',
     ''{%UOVGf8nCmzEtk;?J^inuBKwSU<*#&y3CrECH7$%%FJ6wY>f(E{5h{+jqW)cjN3M=<6-H*LTD`FmRn'',
     ''{G+o^@xFiqE^qCQIw&FprP=KZJ;h5oupu|+@Jq>HMg%(gjeLwdO`*Z>yNH_}~9sO=sVPB`+A$Edu(B<'',
     ''8`Y=&qGQ)4Tmt~IvqsK$cjGZ_jFbbS4JMKY3=zX;yu*+oYFL>{%HJnE7Pc`5=Xa0XJS_Mnm02|Iwr_='',
     ''Xi~IT0MrEK|=5ms*$lozUx<_Q&t>i&|Hry?45H4>Qc0k1Z$}doukV-_{xwwx;x!+v5`kSw<)L;CJmFt'',
     ''>9yB`&L_Kk&ztQ7Ag4pWIgM$oLTivmyW_UCzb3GYMwg3&J60s(>_5G&2Fro_Ee2sI5>#5$NbTE?ndQ~'',
     ''EmgjaH_eWu9Tt9h_ImQ(4{?FYwXB~Eo)d!a#{FNj{jF_~N_W0iEvUjczb@#2Q+L}a25iCG&m|-H+9p~'',
     ''6fEP59b0_z6T^X*Nlj&Cwa7934f_>025zdSiCWH`R23ZKAt^aBF-9*i|W%XN%?($&lxh55JQ4~uX!o?'',
     ''1G#f`rOBS_J4%PI%coh4vbAX|8Xv7Aq5Y)+`Xh?r}mhoM)8X1fU1+Zl&A1Hds4UQs@KPT<mU3)FSFV4'',
     ''};I1QG45$&;ZOWtWpA9xt)Rkm<K)^C-WMD}Vnou_80qnfLe`vW~%u(N$uLm;boO52aX0o4!3hGImYS-'',
     ''*Dmx%e$TR2X}}kMhvuQ=62)ag79LCi&8gST&%f$`n=Gxkzx^Awtgq79uA$d@Z!HvO9KQH000080PluL'',
     ''T6%hvdr}7g0QwaG03ZMW0B~t=FJEbHbY*gGVQepBZ*6U1Ze('' @ ''*Wb7f(2V`wgLd97GmZ`(E$e)q2+R1}a'',
     ''_Tj;Ru#hVLsX}Sf=4Yjj%a1E8UX`8D|sU(%e3-aH04lj}@DecP?z>&#w=XWkNKa_>kBrkS5E_Neszp8'',
     ''zud0u}zD*vk4y}pyQ^xy9fxh&V|I_FI2(N-1*vM%zRtu-%%B97`xZkS}7H+=1Aic*(UD&`6Pq<O`Z-P'',
     ''6YsEb%*wzpqcTliyEI{y4k*ZA?(an4EJ3pI0R+q4}6Bj-``sMU=cuvs)%Mg-lDj{!G!g^p;5l3|_J|f'',
     ''GYcvx!tw|E;N&%0NqPJQ6O3uhXWNGFXF_0eTqf0FI|o~Q>eu;UhsP^p5j)T>Pmrt4XXord6iwfUO+hJ'',
     ''+1sm|%Qs^(zd1QMozI7au=_PDgL80dPo*s65XXUOx}lnS`W@5RhHYt;>x_w8E(>v}&$+`2X67p8V#Dq'',
     ''|`}OhqY=~AceOJiOsRd6>&CB;@VIiqdxHQCzxKycwt7k>6LT9l0G|PdjTGgH8nq@_$%L*XFw;{@=qY;'',
     ''5;ol~WVF=kuH1Ka%0bzCDYnHnN|1U;}RQCik3s)9JnW4P!5rltnIOW0bCMkDluNiy>pm_p3Y&03sgC^'',
     ''^d#AhX8I8I|k3JH^=j9}j`bnHNQo<ssmLIS*p<0U&j^F983jg20|L8M0Ss$^kOJe5sf`zDhxajYp+`4'',
     ''GhHv>(TR47CW*mEXY=##S`$IC?v}u3o0%#!Ne`FFJ#56KtL9un@#5UW5x1qLME@sWg%D-UR+Ms2ScaQ'',
     ''h9RygjHeSGjXNt7gT~G>WRspnLpzB6TPkPK&Aam+lSzUZMlda*KxLK8Ly|qq%USd*R0#t7q}W2Z^&ZO'',
     ''2wGB8qGpP|fQRKOMNm{CsQRua)OcIg`KDBc@+sUFT<Co(wFi8_rSqT%%F>#Tdy81dMRPNgNGtq`TX@U'',
     ''*8APQ~i0{0~4;90wX#L)!@+(8z)6W$<Og$06ueuFv#h$M}YT9#P>7@&rF(L{95wSo=fm1U0&aqUJU#F'',
     ''1*Bn}#>8rL@8bCE&oJ2xNDBqxZmr*lK$Vy$veu25Ldd71jC}C!ym#3AQ(4o@Vu);{UQZS-xB~no9|R1'',
     ''@J34V-=%W<BqIZ_%&&pRr}I81*R)0>Z0FS?skU;5-y$=6('' @ ''*`J6!dUnU}3hg(jm<lE7@w*!U=*IlK=wZ'',
     ''xNYrkBiK|Wf28eR;<n=YV4L&uwIA5}4I!@8j=lIK01<En6G=K}66)@?EbfnO=2}hC(tHeK?LdZNJsuw'',
     ''-ESJ%gIABJuYWkH&SSn--?Y0GXY<g?*9|jK-jA^F^DOYC0@`legdVg{L?)t>!8&omi=Q(8E5=Vq7c`)'',
     ''Kq^LYX*kE;)&y*Af?$lYTU$W6YL<j$am4*C$omJ68=6N*?fhwU8jl5`P?ThP4_f}LbF*d7E~gT5$izR'',
     ''{{~YUcl9&x}@Ldp;gNSD=~Z`H@h&1!dUx-IV;r$Q_01RPPxvO+)06-`Wdpae`e1mNzbPE?5eRK@T)a*'',
     ''awIJhmq4YMd*S+u_1Sitf_$Z$<n}luXjqC0E7;&00ynmIkw@&P7cun1tcsGrj^fdacOb7>JB7+*Tc3U'',
     ''@UyWaa9^WVJ;Tm`3a~wZYHxk|nH^QPX8O$~a-bIvJuv%B!hhrbZj)H<ZGgrf4-hTg`zj=RY!We7>}xh'',
     ''I8)>VQmL=RBVz<(&PWU{-NN7X=H)jt4+wCzM9r+j#Smt!i>Y(HJuhxK|Kn~wFL7#ac{uUBHZCxkSL$1'',
     ''`vi?!FjTOV9jB2sG&>8+{xagw-1wT){7G?_{9Jf~*v;9^_E^{fjCPc>L<zI3KGJLo-ed2lF3`9K64wl'',
     ''lz2$v;(QutO!53W8(^A=HSwa4<Ca+Km2P5IWwp6=i2~FM#d)KpdT2&KIxG&rjb>$#X?w%LHRuATBJNe'',
     ''RzFC>{q2Z>w|l#HzO_OfTo_dK?;1L^Vf^h`C^Li=pBfgNR~60TYo0*yrZYNZO}i$1<MnY$pmD4Orm~<'',
     ''`p23+yx;eHIF>yRLq{Ty#}LJS{4(NNEvMI6ta0YPwJ!4NAnZ&wt$$=#g1D8NA1!e>y*'' @ '')+QNewq&hlSg'',
     ''wWxd}u0?{8LzfaPg7Y_8kkAdZ2RC6ZcR?kSt3%3+jBp|^|jhj+5Cd+673`zeC@#*xb9?dFP31z$>KXx'',
     ''xg|7Y973vbk*+#-kctMFHRZuiB`6=ASg;iKWw1GUbdSch#gaI6#ZQ@5rCLSB*YU-on58Nr|EOy9BPu?'',
     ''_@`BwMa)%{@*>m*JdaZdmT;z7#)V---hp`iI{{J&rzz2o5uXzwb!g_wNPyAxYAI3NGS6b*twZruu}o('',
     ''E~0#lK8={JtnPl1lESeF-;$OY9AjVun$gQYas4j0fK^q(nDvz*(sZ%<XPN>;6`v9+E0b~#6i0|oG3px'',
     ''cQHBeGm@z>@G@;Td8`1Qc1&POn+5$O8T|)PO9KQH000080PluLT9A{1aa{=j0I?nb03HAU0B~t=FJEb'',
     ''HbY*gGVQepBZ*6U1Ze('' @ ''*Wb7*gOE^v9BSZ#0PHWL2sUqNV5L;_@8TO96#Q7y2SCcQ;-*&x~NeFy@9k!X'',
     ''jFEU6Tg#9iEf?+huvNwW8F#$scW^TwIsGc)A-t`(Bh?QX}L-D)e^J!w1HQPDHP_2zH19$2sU<e>vPv-'',
     ''1mUn4q#1DfuYj+hfhfZ))v|_cA5dbkC~KLx+2xI?3CH)+;To<6Ty~u%>E7*3t5rq7j*3e+*o(J!@odG'',
     ''<|GdXw9ozw{=RwAbD+BOWL#zFM<6}Ry1IYubekvEf|!QHP0St&x*3$?`cyR?sNU~7)vjy9C~1?m{oXj'',
     ''d;94&C3j!W&oA!omN@rJ(uzuIIQ|KWe+Fj>{y3n6QnF*RsMwYcwJcck!bRIm4sC_0!)ANlmqy&H;F1;'',
     ''XAiF`XRv23*NN$3hf$S@_78lANMUkvltFoqjPwt-D*YU{l_&3?C2z;U_Qh$+x@MhbJJw;myeFROUZ5U'',
     ''|<*|!4nrUAFqHLHjY3G1_!;{E&tM9M6}!Ceixy*yuo!@HW(Mv^_{HF;vR0&}(e%&Jyjh8~2$NsKLoeA'',
     ''kI~NA6pdSN#L|Y1H_hWLaj&_^tu7iZQP+U0y)QXE87>7934zRTZO@xM%e?A?x?#8cwwtH4%c#S-Dqqe'',
     ''dZWqOQDQiZ=-awvflEV^^;}D7@0>)JG4ZxdDKfZTY{Z4R+Sm~C9QiFZauNO%Oe#e3EtigbxmqWEz)ki'',
     ''xG1gYW5Q_pWWtnrYLZoWZiNUU0})Kf@!-Wyv_ltvpN6hUoL9xrC~u}@^zCLulax@ggI@>{_mKDx%HNR'',
     ''F&fR=VnpSGM;D|b*vsWq_Nar|G_iaONY6jPcKtjCmiV<o~MKH%PH}P+uMM)q`Fgb`u-&woy$H2q^QUr'',
     ''B7KM2-?(|cI&85QMIVY0ix>kuoZWNLmV;84ZL8c$TK#Z<+oP$9`jH)ZNqN?w?FY<p&x$KNhWn{OXxTr'',
     ''_ZGZhCQ}t^bI&JB%JBqOUdt0;7I`+8*?~g}N=(<##Kr;u7({0RR8aN?AA(1Nth?D{YdxiGKY3^{RM0O'',
     ''t(z#3a8SbXfZQSose%itWV|i1Av-1INGOn&pPmfTQMgXL_K4tgM4Z|8}#pjA#{1};U$BMGFvFvTL;Gu'',
     ''jRja2hoWmCPiE>=8h9SGyAKdYykN&OaeB9Gt-kjopDK*g|38F4{|f~G5pazq#cHZ5k3*2kD_4C+ZZOS'',
     ''*MU_ISpFXKg8@T;gVM92|pvZ^#WYUCC9T(m~T~wz4k~7P$(KVBA@(gPV!d_q<Im_5?w?@~TX=DPSC3x'',
     ''bH1qaq;;Yj6;M^tl0=j1D@$!vd7=u3l(3R=|{FbJe%P>@9dd_`bcocwoX@kX&Dy4=q?mKgs_lu!j`AX'',
     ''KsFB!SZ3V^apW1l6Ba4rT5YwP8z1_q;>iKY6EfB=t2X2w6yhumx21q*{wcHXs?*Ipmq*@t9sQNJLTFc'',
     ''4(>%`3|Za!GGEBkm~U$CGm<yfv(pvhaH>KaXAP95m2t%%z7o2+@|M'' @ ''L>Fz8Wp)Z786*Pk#_Yp#0^nmpt'',
     ''`f~m2^{4+_M*+DXN$ZmAMOCpltR>(a-_}WHgrp7mIuCP|xj^In(6*'' @ ''}FsaOYHE^A88Y})9stc;Z|mNr3'',
     ''jWSv6*X*M%wK;qbg-8;4iOUT|z)=Ba!J6s3>=od&R+eY%nv{H*o>^+`msQJ7jA6{AxumUv*Tq2oj4}('',
     ''b{X4x(S0!Cy@yqgJaqj&~{NwS&LuOJ|^cL08z^l3Wde`bdqGAgUvS0=*kWa^#ygz_yXI70+|ofwmbx|'',
     ''45v7mKEoee5ow&bjda?<k|j`{>>E-#$bSCrtE9Tp`&TrkpyxfM#DU#F0;fSU%~~{B7W#Nz8gk99i=Q4'',
     ''*ATKFMHh|&yIHq<>I=PmxxOX2|dwt?;T7PngT;+4lw2sG#uy;WaR-Y03>)!F!Y2Yg%!G3<3S0MJNw}@'',
     ''3%oAsPL-E1cG%2A=yMc)!vj=?00%{^S%B!8VEyIx3K0DM!JW@^PZPE{`WI}haR(tknzhBY>k5wZ4uJf'',
     ''uCpdz)SjefwYK{{n^Z+C>OcC)6N(s~fV%1IL3GB?E1sI_Fk^mun$4U-oIuP2En~NLrj~{;^Rm=M3OhR'',
     ''ucwzOn=aN?}4CXn)OBK-3c*ag*(m*f@1N&3th-6!1~Za%7mR16;#LNSO%;A+I8pw*ng53Ck7ePng2=y'',
     ''UvE=Xo5Z;MYBUQ@`>bk{NG<^D|bKN{ayQIqC*Vpj`EA+tyW_z`g8h@I)M~b@<#uF)m;M?&7)L`HG78)'',
     ''R^3h=KSFJ@iI#t`-ndLJOYe7yL3Ka=)(CXV8eotYxn`&b#1EojP0r;G5zag3e~-=CNsZOA2FHMkB&x~'',
     ''_2_oG1iF20zASDdCg<MwkjM^ETC@EbQcdToJb(?ex^z-+?#kyVa&C7uh=jc3V3vn4a;H~y(oJ4E#sta'',
     ''DmvGy^TDkvY^46jTxQW&eYH>-aKkqFvt<}~N>o@~WxUTf-2?lRyT;^S0Sb`-nem%?mA0e53f6(s^es`'',
     ''(H%!OBsV366^_upW;d`QRX*Sv3R$Ya~qb}GcT46~&Ac>Eepp?a`HME2htPYt7b;0Q;%(egr_L(OigHL'',
     ''$HSPrYev*sBpU4x}djR52B%o)XPA;2kIL$@d|w`ERlStLt^NP@>J<DkMI|fME4E-qS7yRVi7#h^8WBQ'',
     ''IdEvLxtCBG*vU05~AjeBecJn=M+aisyfDTXC74?$9SEOaoBq8^O%c#jOoMp_~JP9bv#YK9v^3>T>26R'',
     ''oyn0nyocKPV@m#>sAmg}_wxsx6XBj;RNtJrEU#sqwS0?`7sMTN%9VYW^H|2Uz!|5D6Sid7$j$rNK;5i'',
     ''fM;D_+1JK@EqBH2I+9NYqc*I-#yf}Gu7-tT>n|y=4T0b66O2GQ+-#GA@!L$<*`}de*>xFAJ&A;S?oR9'',
     ''87)CsT^{S@c9_c}V6vJeYh5x3K_|DHOFXegX$YaGWZOD?b)t;eU&1yfYDvQ`8SrT?25ipBJfr!4UXib'',
     ''YGj2Ey8Nx_Mu;$72cZnpYuD7<s7(qS>R9vPO@BixcKt(m8GL@~T_K$nC}Xr`w;gp<8%UozCGiKr$}E+'',
     ''1vVN;VdT|gUn%^#<#mkv0eQIP)h>@6aWAK2mtSfNm?*<_r~Z1001-(001KZ003}la4%nJZggdGZeeUM'',
     ''V{dJ3VQyq|FLiEdZgX^DY-}!Yd7W2VZ`(E$e)q395KzPh9HP%gm6xm!#kyfY)&WBh(2R6s6Ol-br0jS'',
     ''_|N9Q9izQQTn+ZuAk>`HCbFr*yZ5)((x07nOD2%Q^*RB@EBFOggFHtsV+dFrviLSr-EUjC#7qzSzKcL'',
     ''FBVYSF!gqOz}CrjH?XF_QuGf~Qakt<Q*m{lr=Mv0PTr5qTloNSR=*(-$XSy<$mt}3DOp6kASy~ZL{j<'',
     ''1(I4`?mv=~#c0uTov(w@$dml7Jis&mO+q-+z2~m}9}$3|k+1;!lc1l%?>8AC1vwj?LgdJ$=Xpr-Mcst'',
     ''WdexXwW^&NQ*N~=Cm2KEf+wKY;}4m+%xl1DqPQB1%3Hg;d-%}QyG%WDrvK+vTTpp3&+=%tUPgwsn}uO'',
     ''>Z^@*m^n_eT78wyWkIm;@!<4xqzvh!ZK;pKC@u?b8pVa>M(beB!UGl!q&;%k4&CQ)w&Vd@oD<a|D}}Z'',
     ''2MRiVg`CWFO>$$wIHbHTcB;j-5g%;Il*`oDB)*vm2=MuqbXa>4UTh~Vw^D`U#s`OF82oS>HrWJMze>4'',
     ''Umr+R8jrso<7I!d>P?Y2I-y;fk+H8rbGJ;8RnhT~pl`ydaXL~%fP#yv$7l!gkO$b}Q$)*LA{6(N8)go'',
     ''8qsr09rbz@UwFW<6v^)((zF)HRy1InSpVV{$xTsq5{Q4M7b5G?tv9Z1qtEct<$c!DCn7Pw=7h_zoCjS'',
     ''7>exd>Ge3uskpfigGMK<T>wnmKMum1-EzbyH>dA<O29(M(xGZS$1Yv4iv%sTa&CWPHsmATwGE^aA`6&'',
     ''@Pa^OUPqevSgJhYE<{th^zmtW?h|(qCQZDv7d(3`>vU>!u<{IA|LgX6##2cUqwGl)j(3t;HcVog#Nxb'',
     ''W2Jq*e@ZQGB_i_Rk<&|VrWVWn*8OVxoJ{7P!TfBO6_)l^8Pk0&CHtg|vA8kwR5IOb5+2|#|Xm#U2*cT'',
     ''|Y0cxRzG*xIupo>vi=U8IE6ieRZ(s_t6-@Q16%<$H><?3zx`hdpB9A|oKBr0@qL(`7_x=t3~8Qs*&_v'',
     ''@*'' @ ''))wy)2&4!X$cX_s(Zu+mOS?%b}Py9z3GEbqXXcUZVD)dsS@*tfWGVd_WyQ^g<v{UFGf}Z70^K+b2`'',
     ''1)<Q_9^k*+~YMEFiD^vlIi?xi;KdGSx2YRYMR8Dr+tk313#87=vR|BS$O@-i`_(GBex!-<!9M*ub#*W'',
     ''dYK5p($0u&rylb|k!D`(qkoc5>OflZaaC{NodLO1R0uiT#uXm;LPI#`q2G}3wWe`xL;Uh<tm6*Ck~qx'',
     ''%nNPrKl55{-`g{'' @ ''*nGm<?GiRU<PE1oCbmEs`vItGmQxnK7XPP@-(_Ghy^hrf7%n$OgkZv6usekW@E^Ib'',
     ''T0#{Pdul60kAEaRdcg`{r{(SAFVg5+=A(A=O!$xk4lC4}}BdZQsd#*$xFzJ_k%t@;Mkn{Z}86*r0B#('',
     ''X~?lP9a2i~7Cv=O-HL)Wd75?Q$ghXBXUQSOU?Bs@n6V-k-z+I*Ryc^h_$JD}ace9YX(JUch&_C$zdf?'',
     ''Qd<u*>D~wO*AC8n~wubY3#-|P0@VT7SoW5_C>lA+`;=FG}Oqd7|Ia|^NmWn<!YSVYZDhz+ChE$Os0}&'',
     ''zGjRB8d`6S8ouTI2T)4`1QY-O00;o@hDlmi2BqXX2LJ#L82|tu0001RX>c!JX>N37a&BR4FJo_QZDDR'',
     ''?b1!#jWo2wGaCxm*ZExE)5dQ98!MP|Z1Gc<<7zPAYF*I#~0>uU_-S!~}1V%d9Txd}xDW~4A-yKQGq9v'',
     ''zwFax$FlFuFa+zXEsyGCitq}psmy_pIBs!aD}wyhO%R%x|ks<92%23Y9(i^~>_@3V&n@m<d+VeHIzG@'',
     ''?m!QCrY8mubO^ZIAzZ3m~tlWpbz#-N0g3qHdvTb7o+w;Y(hq-Hz8~2l@lPv_iuUYJ2T_mh4g3ZC*&=b'',
     ''=#a1Wh}R?L1`tJPS(wz*VpfFZl)mcwE#c2Zg9}{UTdYN5UK&q9U{GNg)IGVZZ$6+KzC9$VDqSBN)#^J'',
     ''EnU<&YbiTyGGqAp=o<$-EL}VDT|DFxHoQ3G25j5p%^?p2FK3G>MdSn~-3e24I-oYKhP)Jd$!eu{T#A1'',
     ''oZ@Ar_$6MGngy>{^#`kwPx56rYn1Vf$hj<!}%(&MjdZucT9nVpvbnXWSFPP29r4f{MzMUeYpIlp#=QZ'',
     ''C!o-byzSs}SG!4*9;8GFv+$}u;e&)xr9(&;gb>tZYR=qfk`c2KQm`Up3S9I}K4>JsWgfJtXgg2xK%cg'',
     ''wM>25rnYKvH(xE*(x)6==gOMhq|aytXtzRY<pWLXbGMYlNi0bDE8+>?7B}%2rb&>_Hz`aE_FHz!~lob'',
     ''%W(-59APl#5-w@K31y2T(PaSjk#K{T^o8BFL4xgr9!QtUQ2Gl*tK8FE3}zMzhbQcKVfGUW)22z&YV3f'',
     ''Uf?<mDmR4|_fWDeXz;{#`pEjtq2WOd&ih`%S_ATc^ugLmU3sZNJK4lNw1()(dLuFRve9b8Zi8pvvDX9'',
     ''3Fw;OGDgpWpOVjiWVx=Px8d*qq3UIpu)Uz)P!;XK@v01C-w*gWWT=ozOqNgyggU^xdbw9W#qJ#?lrR*'',
     ''X)F(9i2TfJewsXFjYA8Jl9v(h+|9sx-|!qK~WoG(vWR?gTf4CIq8G_B3%J`TsdJM_9e*V%juSn*ccOq'',
     ''sN3HRY73dkeD3;(585_&9X>3^|!%uMzuZNln^$b|;xajb7(tA*fK3Lp&<|KtWS>2`P;SFOG9se4E7Mm'',
     ''X+2jzZW&vhh%XXP}TDAOlad`=9yrcu*<5#DCu^pOC?|$$Qx*W{^^%z=zc!f?`(eVm~_p>c>KZL7Cq@='',
     ''D3rn_t4ndi>~bmA=;Bg{'' @ ''*x+6bdC+Qb<G0((&5K5Q4!xAdP^ro9xhCwzsc2QJ6>e#wI!q=WoYrJ7FGyH'',
     ''6H<s3Jbqi<G&j&6IOr)OqJ5|53%nN6t@_TmJF)_33vG^&|`7l9T>UWjcP%UOL16|Ckcla*dUkKhvb<g'',
     ''DxeYsgM+x*{@Ph|U#bs^glaGQjc1}x(7B;w1fJxJBKT^&ti+_Ko)L#JaomG!A+q5O(FdR-dkD~%)kiP'',
     ''Zm`@Xoi~Y$0YB^}<(&#iC^Z+3^PmlJbpKZ4*;53}z?6jfoj_Gjm5ZeSYS?ABEtrjTQd59L#QU2`u6yX'',
     ''#6!gbp_)y-PW!$S+cO4t8kvg+E;Jzjn0s_n2zsU?SeUZSh^T86Y}Qt(NQVbIuBh*5IR^i8QPr(9471%'',
     ''q3q6mXNOvL8V2x=^uD@5N%6TS84Wp7cRVdkjp~QRC&4gPpz0aVHTd_{CZls<<Wzm}g5c<Mm7GMM1Pd7'',
     ''+B>Ht>@^mJOJqatKGE{UY0qpYz7ASZ=LI%t1GY0vjw_yyJp{b%Rk8It$z%m$Vz<=-dPaRs1b|YN_)!|'',
     ''6!E*-M'' @ ''LeM4^q*L7k9%rEHVNB&(v4kn#<17c3y;WpGBLT9}tV%mb@tUqoKJ0rVh(c5W&J9@J4A9s2Vvp'',
     ''{8RclB6H#r+INju?-nG7P^uHv(N{B2QzoyjR$H$Q(`m>lr7&T5>-k)i=gOcJyZ5!*?(5Npc6ikPV*WL'',
     ''DTh7Pt|nym^WX(_ON5q`E*Qn2CR&XC~{F(D)9@9<EVE*i~wY^<1Y;l3Az6=#ENMfx-NmzUyK+RpeJFO'',
     ''+feF<bUVH>x<fU$cgG~E-2Dco<J0Lxm2A3qsXSR+#q3suN`>)LiaUp<PYvHgE=B!-(;o<?1uh~KNEG_'',
     ''?RgeRXbw%q>c|&(JUj8T(q~T#=Mkc2lmE^m~7)X8*E=as-PV&ELivk0iw!*L^E+lRrlto=b952yAp5g'',
     ''Pptj&^>-M}|5rZUt?oW%twLl?Qdo7yZ!xVZTgxR~;~6NX~5azjOl^D(lNs}8%D-s{dH=nf{Q3m$)qIU'',
     ''M$a6{^8nk!~pcZekU)xOZU~_K7~;4fJ8`a{e+sC0WUY%H_DoIB|A&*UWyuad*pfnFeDe{@ycv<hsVg#'',
     ''JG;8kH0yg+YWz*A%b5TMt%mE3tpO&&A$84r0ME(x_6>^F=~lDI*Pk)2u8GoI*CUv*bf=|F<ven)$t54'',
     ''yl+qDAKV(qK0d-!4XnHO^wBntlAvvM-QVy32T)4`1QY-O00;o@hDln}bqy{%0RRA60{{Rg0001RX>c!'',
     ''JX>N37a&BR4FJx(RbaH88b#!TOZgVeRUukY>bYEXCaCwzd&1%Ci48Hp*M0Z#VT^^u^!C*V|H0TC91}9'',
     ''NkQO9m&XQ6LDC22N~7)lK}$ny82PpR28aH3O|lMTpLo2()qn2I)#vpy@dN1*29IKWFG9bJak=!L3pG5'',
     ''EfmC_Y@vCEiES9T3e#@YNT$@QmmFlM5fT`NeL>a);-Z7#p-fDOF(&jXq)?i{`cC37zxb`=tUoQDc)JU'',
     ''8@y5Jtx!J4EV)jvBS`^^`IecgUCWSAnfTIZGu{m1H%KnRTOk#5F&RTI+AI%>GZ`zf#8R<;eVX)dB6*_'']"

lemma good_DATA_1495: "good_lines DATA_1495"
  unfolding DATA_1495_def by (simp only: good_lines_eval, simp?)

lemma lines_DATA_1495: "map length DATA_1495 = replicate 150 79"
  unfolding DATA_1495_def by (simp add: numeral_eq_Suc)

text \<open>Lines 1645 to 1794.\<close>

definition DATA_1645 :: "string list" where
  "DATA_1645 =
    [''vQ|;LvKid#@&d-~sf5-BGSDHEj5?rrY+NP5g1E7j=4!IpWMdq4oJfXOXXC8>;bGXs?w1j6rLJDKLKhz'',
     ''UXokhFr)s|WggE(pK+VKw=%n_$OvN2}T#I1hU%g|RA5cpJ1QY-O00;o@hDln%66G+;0ssK_1^@sf000'',
     ''1RX>c!JX>N37a&BR4FJx(RbaH88b#!TOZgVeUVRL0JaCxm%!EW0y488j+h+LKci9aAfhqYa|1;e^x=w'',
     ''%oNN4Drhi!7;<yflA5O0u1}HF{bA0}&}cK0cBXjnUQvE32%wx&ePOLhV2#^W)ElyW;lC-R;-S{pTfoH'',
     ''(qGPWR~t4Ve&#KkCtqCgPw8bSza=SJ-`k9|0tZdqHII#RG`JD{`y8a&!qf;Ppz=npz>KJ>M@OV2K1Z2'',
     ''5sKq;Zdi3-J1pvOv_0@cvVMxjEXyj%oP+C<n6b)VGMtAxqWg+O$**s2zmZ{)vd(6+Yl!tFfLdGFGsR`'',
     ''pERkoWL}1p7nvh+d#lXisf<0H2BAGh*{p(2jf?rB~bn6rjD>x!Ft@BWlJKXacI8x<}P;?l>gJKP)K!7'',
     ''=AqTq_DcOEKjEmmHh673YJv|6=hXBiLI94_)9YoOUF>fk8+9vu4CjA~g9+?aH_C)lTd$y3;|5CK%TzS'',
     ''khg!8jM)pmiVvg?S(pI6JD4fSA)N$Yoo#@`6kp4N{L)CD1M260f3QPe-_HKIrlf$piRov<p-yRnLKy`'',
     ''Y*xsQ$AqRd=k7u<gr!_M{N&OPNZ43LXw?^?0|MT#bbvGZDP_Y@zf6a0;|A4gP?k7oKCOWJe4Hx2Q?Ao'',
     ''SVKWOB79NI9m;wc5Y`i$wt&@pxYr8TJp*v9K|5dM1Hj_!BB;2zR{<~O`Vba|bvtFOreJ>>SVWdZ$FdM'',
     ''SvWZFiXXO_~{yt}q%hs!~XTH;iX15cBT1*b%Mw*ab6PgU5n>yCG43|`j<}?7b4vzL9^)9t>x`VVe1J-'',
     ''t%8;gcEw%`{-RP-}4Uu?HD-%=8C?0H3sBhN!~dJM}1y(ahCZyF<G1<3EL)g=3bsD!-Ne2{d9en>W=aM'',
     ''t$a1HAq}ncuE^G$qU7l%C`@%to*A?0g}Oh;Ul6$Q4Sh<=I{Bu{sp#679LW^iNFhTLu0DP)h>@6aWAK2'',
     ''mtSfNm`bdKX`Zn002q@001Ze003}la4%nJZggdGZeeUMWNCABa%p09bZKvHb1!Lbb97;BY-MCFaCvP~'',
     ''O;5xi5WV+TOnTZ)R(`-9j2dI&MUC-hOfxOh?PMt+(8T_Gq1cZ#%L#aI-n@CxI@3cKE$b6-Z;cD^Y6Ba'',
     ''Mswmn7TDGEM9mvHyA=wAV^^hoD)aYq0yRRdHO?ccet|_pV^dl@bXFO5WrlXrR-tz6!ba}0~r+^Xz&IJ'',
     ''$Az(vENXcT%6&)Nr6isTmEUGum<77$limhWU8dD6iHYT#J`{=AA}B7Su2K^pR)O#n@ifO>>jYSCd*1o'',
     ''RL(0!QBiyNI)Hjq5YkMG%!El;b2<6KQBnZ-+oq%vN%%JL`-k7cx^)3-!QCR%wPaxr*h^lWO;HbGy9SX'',
     ''PoRSkCc|9FgOh_MpLn<oG4UtlGXM_SGoVeu8J|;XbBQi#0iCubNQA@R`m#+Q%UU(P^N86dx$ZPYo6tQ'',
     ''b62HSw>eq5FuK^^En-RKu$=P0I$r*$70x-bH)?v7Bh<#I6>d6e&Q&H!vVMzC@uUIQNNmic_ytf)0|XQ'',
     ''R000O8?}kZQiD+qyL<ax>Um5@aBme*aaA|NaUukZ1WpZv|Y%gSKb98cPVs&(BZ*Frhb7X0AbS`jt)mU'',
     ''wB+%^pUe!oI+G2jlkdh3UF!vPt#wOJRmOM|t;FcgKWvw0UaKHHV#q=z8?eWYG&$@X2hb{(()L1IfHDe'',
     ''~b%(qh-tQnRw&Zbh}7ZDhS;df(vxOxUGYe_otskAFFR{Os)f>5`pkkbGUjlD%lOs4HGB*-Ow%_Nr}4m'',
     ''{|#pXwpnnxE0sabt}pugX-Fg{E1$iR@Xw-)eb5>b*K<ZOR;WAhf3F6fj|A@8drF(p9DLmB*2FpjETyh'',
     ''Jgb!EWy$H~sg$*xI<^DN3$A%*EUNyPDqJX4s@ioU>l{?4P_|VCGP@D_GE?YOdf4GQ-=e3)Cid-W#_(r'',
     ''Cx~K~HkTyKO!gJY%9;MfCVc-62Ue0C|M_fGd0Zq4{pPP5{EUWkqvTQM%&GM3?kuU33=F#2eQ@&kT!;&'',
     ''QV4H^jw1Ev^f%A96loYI-u`RWoFZfv+To@Poz!#1^K`VvpG3ZPJ|bF*7u?tY5tnytYI+5$R^Ybcfs(1'',
     ''m!hRuM8UPA}NQ2j8;Vzo7FaY<a$CZx!gaNt-=`?G}Bwso$pFerw(j7^DWI-kYZaHp~K)E`Egp62)9Wx'',
     ''mmFL-**^)jhB35{orJs73c@C*`scun1uJOkU(H&Z6)5fQ101!&jh-v6xCHq+Wl$tJ*sD<B*lX%ZRi#y'',
     ''nlGz(F>PgOKvcIn+ep4ONz<8+G0wa@voIe0J%%7&9n?p{NXC58E3m<YNOq@j-iaa^%kIhIbj6YgqDjB'',
     ''OdR?g6Cgh5(>$>ch^GnFDGP|jOMuqF<PUm$6{XOon=QS@_v&ZPZgIuS&-XS$1m<qr=+KCF-%_SHVdHe'',
     ''_mHbfB=(KW2=QDD{y%t)a3iq(j`$J)lA&)CVj%PbjY_XrsZ1Bkm&q1_lNHA~JLfC=1LfwpB0G-NNYil'',
     ''Ns!0jMvQ(YvNI7H#EKr<*~~z(%yN^cdV{O&NhJ_+E>AATYQY5+2IcX|%)KAoJL<b~}M{3y#G=;$sRqs'',
     ''^{9e4<hfOGocXL79XKKC8)L`CR8S>j~;!4tS}IJ$qiq5UO?9HPx)q>B3+^6oL5z?DKrJbiUF6UK;di1'',
     ''IR=2;SlSv0M(`Lp6CT5*YmmebXlZAntAyPxDzpVP55$Vz4hoc9hGyJwbOlQ1*R|+EMjUAMhd~*Lr3;i'',
     '';e9C>wp46toYla>K#!FSRn_6C>pJd%q!0B2V^G$gYrtTn?_xt&?^A~@dr^vJSiDxOjDpT@EHt~ovMrF'',
     ''wH4gk0ZN`^&&W95*TR<+y@<T|4314drz<2A+@Wr+uM=iE&3O6YxNXk<P_+F1bgVvmJU<P#2@!n5<ZyA'',
     ''JMFBQSd)I}GQol!V_f-H=nRMF9>GNKp-f2C7_u8d8GgL1MrotS}_Y30mmo#LUnWoDWy1XS^C6cBO1W2'',
     ''Idqc6p?gvBCo4WDRRQolI?^t^*d15HH)b=IE=?Uk~D36v?UHZ`XbQ28VR!jmRz83{YEuUOme%l4g-}e'',
     ''LvbTj?rz7`xJ?#E?qM;mM4m*uni~}70}N}5@u4C-SwGKQ?Gcom!xnwIK-|}22Z4y`<oRTT{XKMz-PI2'',
     ''qC!>qZC*0d(&S&>w)LD-%CyZLMq(;s!`5uvRh1*V&ad!7zU~k92mlEBPa0@mrHu)!1A4`b?>EN2DuOB'',
     ''}6&KEX_Y4cEG97+m1w4^s&Qso#YdGf3C$(W%DtZ~a{=83OV8Z??i?<|jS#7Awh!;R60B^oRaRRcNIdL'',
     ''DNHOOrLpSP0H{zT?<XLec)No3LfqSHbD4Bvx|z4(s@Q$D28F0D@APV01*XSPZY)vj)}Yu7=qvZEABrG'',
     ''x$k=F#C{U6WEMHY6o8g@sSC5o;(Fj2#F&~9l3F$F(-+`<9Rsb4^ss_?@d)Ff9Oz2GB<LYf+0S$w$JUK'',
     ''#hA$5=;Tix>v-lLalP+a{zLDNF?Bo~-o)fc_WTdS(|JCO&_t8>3H8)fOJ406e9)3lG<$Z~2|Elj5mZ<'',
     ''{@7W1u*Q$OlFg02M(kza==tpE4Wxt|CWEjYZw0c?Yo<K7xy2K0^$V>R^tGshw$l(V{j(21nVlzv0P{1'',
     '')<_Z_;)40U+FADe<1e57O$_dZ}AgGaNiM=u%zpCZa<w?Fk+wY*pPSrz)9Hmsl32e~_9^MhmBj+cG!Gi'',
     ''5>0g7n!oyg>XxDYV%z*@_`0#;?g`EBeCm+I)q6Z8i{bzB%-{XhX*8jJ{`?0L7O}Ue-I9N>^$wZUd*>4'',
     ''XS(Mt+K3jJGA|7#cpxz%cU?M7Vpxjeh}!>wC8EGEwVMWPqDp$MJLl;&d`vP;fr{CVB-l!)HNC-irpl)'',
     ''9fjNxfr~1ycMaD9v&*@FK3L%DxC<g*cBhxj?jvS%UCc1Raj6Mfn|{F{Y5bXg9(i;Oy=V%vp!1EY0Tm('',
     ''XOJWG8w_f3``|pcl!>bE|d!&o}bWi^UP)h>@6aWAK2mtSfNm{Y<!>=y_001Qg001Na003}la4%nJZgg'',
     ''dGZeeUMWNCABa%p09bZKvHb1!#jWo2wGaCvo8+iuh_5Pi>AjPjI7As?_32q-NeP^q9&g(?(z<H@d7$2'',
     ''PXp626|X-Q1RKp5pP$@tJdGI;(r|qY>%=qBq)lxczx^*<5_Oy!i6@`eOy(j2BulnPpwbHNw=*BPy<KZ'',
     ''CLxj4pdqXUPw0qv`lFwS|-I`Y!vHpT`H7EOK>$8&Rek`0=ldB%;8l3ZcjI?^&eIl=MZ}Ij5E)sx*`Mm'',
     ''-V@TgvWn3wA<>P_V}Ex<lqq;X-#mq5!#4$GmWghw!!8z_At4mUKhH{F(}km*2;HRURSafX)=K6aL;`D'',
     ''u#kq#d^kSap-_clfsJsIPkuI$1)>%xvJqib0qXVTqC`1lSjX<S_Sr!t3xm50gL$F7JvDkV!!k|I}$m{'',
     ''9Ng!$H3ZP5BLo;Y@}AB5yhAp3x}5xj6HyAoc#naAXwnEguJ!)MVCR>8Gan9V3b_sP7C^b6dniwh#L`>'',
     ''Gjt;ExFN2t;Q>Bni}!-9R2`%ILKnNelkWg;boe)-O;s^DsD4Q1~jUXi<(~G2-P0TH95JzX#H>CxhxW$'',
     ''@!l=Ck-LAR#S2<HLXSyU>d{xv4Z>u`d|(j<w18F&-h>i1FoNxq^@5^4SPmVcgbL8k!IkLMsZN#W>uKF'',
     ''czwDN#Y_CkQ!meNO%X%Y|I1%&D3;|i2B}Znz|3<|%+H4UYCfe6+d;lru6#*IBPyJhQNbPTwU*0ud&Ks'',
     ''kNl6@yTi?gY3!}PBn<1UEe^5&U1QY-O00;o@hDlmOKTFOa0000U0000V0001RX>c!JX>N37a&BR4FKK'',
     ''RMWq2=NUukY>bYEXCaCuWwQu548Nv%-G%qvMPN=z=v%+FIu&QD3@Qc_al0sv4;0|XQR000O8?}kZQT^'',
     ''T}>m=gd1i9Y}UAOHXWaA|NaUukZ1WpZv|Y%ghUWMz0SV{dG1Wn*-2axQRr<vZJQ+c=i*`U(_NnNZU-o'',
     ''y^qE&S*<p)0;~tRY|w2?aVxQRcwlcEVe09O^}w=sqDA!xd0$QQnq_~-&U21B@j3`IQI(}1i|cTE5$A?'',
     ''DzWdHeXXRZH=^AZO6=;qE2V&MZ7t+IJ^NTxx3BB6lv!IhamL>gRd-D$RXC4l0YID;yM5iXLO(9*N|_-'',
     ''EJC*THDwW<yGq~w009TiGR?*7F8~9n(mHA%QH#bFfV}90lQrDDav5xm?qvT+$k-v0OwX;oA??j%qX;!'',
     ''96NhS0&JH#`#?XF}vjhXTO>eI&y8sRDRzNHD~`9IPUcHn32aSsTZC*e%M=XF|^>AI8={d!YmEr0s}NA'',
     ''1Ty7D|tQ>RKHBl<pB0kA0u+WPa7{&FmlcNZYjJUl&c?)<AOpb%`ggGCk8-^tpmH(QH0rT=&I3PVQut*'',
     ''Y>EISZXxEkkOLuN2&I}TzPtCEblW(XgZ79=J>X0>LwDGmmleyi%d}gN#IlyOTU-xp>99`tBU1{7f-AO'',
     ''*_EY=OAuGH7)AGisY<3zwoO!4?=4d=Y3ve*rdC#r4lGp)kTI(+iv1;zJhZ55i_#vfNed;DP2D7_P1{a'',
     ''QEu;nUrYI%IS1-DSN)XB74%Wl7(<^s{%6b;(Dd=t5wc7+2B%mi#EAKM94}8^JinY3%C$G~gFF=E&dIy'',
     ''g$K(Qkt_9ab=#JVfWT-%7*4AmFZYH9R1zLD)m8Vi%80trtNkWC|5?`4|HM!|GnA+A*m;sgJ!X0ur?Hz'',
     ''L`kEwB%;1Qu@PPKI!#1<sg@v;VZJg6mcbQUtJ6AM5&70M*4mUSA4c2B)gP{7Lco$B*%hCW63r4G3XNh'',
     ''7xv>xw9Y=u>SkH0--^>DI57hiK^zAvDu0K;!eB>Hvv>*y(c4tAAkXP$7Ov0ddy>xhNe}AqTPl(buNI|'',
     ''IOV#Ol^I(hxZs;b(8Iw`LwM^QXU+&>3uGgMCz9{$_S=gOpi`}^+VHJWx;X<Q+JZn7ZIXmamYWF7I!#S'',
     ''b42i;#F&RlNRn`+7_vukm-JZ^5p}BB;5c7T!>=?TfK@!}b{zMlBOmu%5F_D$(8kwZ~BH5B`g^d=qg*9'',
     ''gb<PG~?Z)J8%QlN=-c7+Hr81j(>n`RiGge*8$B~oz-`cg8+KybU8kuo#^O8n&W<0mau=Foy@P@sgh0P'',
     ''-#^i`+ar!)Lz44Jc=@iWz5xx)%oSX@W=upR3!dK2*VcHiD6q1Ns|DooV6qC%f`%ITd<B8np7hJx7NdM'',
     ''E(O%^s>lOl*RMADv$TzRbxdojPG83^DivHD8gC7NY8r-W%b}wlSLjX$53K5HMN{USkrFneD0~%`>U&q'',
     ''ky7n3(ijV*0ccGZSU7eh3&*LPkj_hRydV+p-+ueX2tLZBHf0gnjYkAjJy}5UR8}+ryp_m12=CBLldbc'',
     ''yK|@J^eus#Qv4|Th41Tq&vj}M0ZX*FZHpfV8n)GIe>y}=07{d<*qS7Lzt?X*kjN5`e{Ss{3c8~gie^v'',
     ''0+krOK$#9gf?NKx2FbBt6B!2{(>P!eEnUNjK3sO44D$$2kij@u_&q`{rARC6OYpt=b&?6=5`;i;9KZ!'',
     ''_@Z!2C*^C*r&n4%A%n-P<b`AMHL|@zJtzh4}*TNEH|zQUcLP3A_O9U+|PyvG~x-O9`G=flE;PA}i`nl'',
     ''}Aw)w-WKt(F~rUm*`E=kUSe6WYe}7u)shaU2=b%2=ySnt3ix%uxn+V<`|x*23DCiHz2SOJjE>J6Eg0}'',
     ''W|mecBx?!Y5dx)MQOVp&_Xz<nS|id1!PG&KMfy*%_%>@hke8zXUkP%t)5K=`qOn87gcBS?<f(&7u>ti'',
     ''1p-~L)&++3vYnKAm$toPAxFL<35Cm&9Nep@#xreMV_&F46pr3elKST{NI3&%ZXcl8W#|WP?h*qYT`mf'',
     ''d#jwj<>uDhEs_)fMhGItMAsCce|Xfo8L&8O8CJ)*@0x3xdC&s=`-eGV$nz6}-vO-1~3T~xk<!_W0-gq'',
     ''Hp`clBGAqI3KY@yqgM{OS}0>vwtH%c+SgZ)EOIcqaY{3Q$)sT5(7#ayDzow{j3(HWUyhXDLO?m|mkt7'',
     ''_2{MgwG*GkXhP+P$8FU2={Mf1!*zrfxO>iss}7>w`n^7&>leb1mw1$(&7()z~lu?H`vm$1k(loQDp)1'',
     ''T}VPe0XM_-TX}qON2h?jz2!O!06*S}|9SONfRcBR;S2zPRv(Z8F<8J(iS-fWsMXkV-Q-u<)Tmm74ygY'',
     ''CfT0*2zB;-Di^LXUt2<OvKx7RR*'' @ ''}!)7@C=>8?RM$?8HoJyB^>}H6^(FJpAo!>YB)eXgUA4cY7sez&vn'',
     ''%X(mBqSY$*VguRjG%AAkVz6uaVAh%K6Qvnet(-sDEJ6oZBX=0$W4Qp|0tfM^2{'' @ ''**2|i;Ou}VFd(wq{o'',
     ''E-WIiyF-&9aW^(bQd)582rO12OQ>7TX>JJQxt;;L@h9%Hv>pU1bvOuISkv52m~W;JdoP{0*&h%CZGA4'',
     ''5x%6!}8-kJqI~@_HTdr_m}?a;5G8%4DDr8muN67(;U_N%3mLk51t7u+_4{|V2dp*xbk%kB8}%0=o6H2'',
     ''VPMQ40L&FRbqzw*7_%Df(q4Jsh-2~I%3*4~SgIkQgg{(FK^Bk|mSO%XK364%6$f<5s*'' @ ''}UO6kHZUJZd0'',
     ''_+QIr&%sxcA)r@M39Y>Soq%cggI0GsMjj7-T)&RI3ecnNnEZwv;1nRFrnAiYBuxR5)VlaH_c^=Ea;GN'',
     ''_Wfp$S6Rpf}AEaQYja;K>M6LT~pE^dC0%iS<hR#}Z94{xX8hWc-x_Uc;81ND+OCfq?j98iz%*ld{{T)'',
     ''jZ;uR&YQIh=q%4^cGX9}O27#4I^>;Gez1ar}w@hJB%6cOAHCaIk_k8ql@BMeo$W;y^Nh$-xe(oItpm?'',
     ''!rJ12R(31Y<Y0H!qPUOem*~0XCdv!)Cdb?8ljUV7L*+@5Fe^s-s`!+L`el}*kG}7c1)H&!Gb5A1D%3j'',
     ''8zFIA(%hM|t^CDqN&(zL)a#$Y<I-;Hx-N(5F=!q6NHCTmt%xWnCKz)rPucx2&l1ZeL$)LC_TUM&8Ufm'',
     ''|sM^tnI4AUA_9-@%<T0L9p{aj+g{ur)$>UTtMfhukv|5Nbj<x=vtxVV{1BYN;qNOa{U~*-5Coug_KQ;'',
     ''djtSFdM8;!6brA(AEFMoSMMOGYk@QgSzKts-@L=EbNLT&HLR)n|m2v!F|kSR%<N1|hsjIO|i%qcmN<|'',
     ''m{yf1Qvf<m0=vRPv`jzNasLx9yv_Y&s@Z2(C>*IIu){om+k!8i-rLh-L=Egjq6)F;W!!A(|;esVLzQF'',
     ''kt|TM8t&l4raKsg6Sh%5`)u8;h4e!48jRAO&SQZ$J9APjq!=&x##hr8O%Xa|9(<TNr*|(2upSPm;)W~'',
     ''1egTd%M3y82!ycmiHd(LWQpDrr8<K^UdWOn19E~0R~r{K5TQ|tk%{{+)fu0ZRXO=4<t9t&FvjTqnM7v'',
     ''uo-Y`JV7iJP3fHh-#u3aiuUB)Q^VE4-(xGE=ySPD!)7cKiw({i26t}C?z{;Bsq6A^7^d2zDap7bcQ#U'',
     ''b}RCPdPxQ7|~C|LKcDQ|znnS-v~oc%R$pv4<0bB{_81Hl3rnsr8C$^6^n($E?r<;08=G&=&DnOPLjvI'',
     ''t>gnkVvr6BmqVti>(lnM`N|y`=hq*=T9Lcn<zF?MHNXXb!q(d&eQ*@T;tJeUJT<t7lfHew2GK+N2klc'',
     ''-nw9gyWLFW6iJz@>BT@)v0erEhtE_99xh*xBP;HlUYH-H{^E=kKE-{C^WS=@;8TVk!@*+>Qe_$*ghck'',
     '')=t<w%<s^}6HOHJD`&Wr2jii@Vi@i|@KM{k1KO^o&V*xeafFzjY#Odtdd6dLC^DtJF~9?|kn4&_u;hJ'',
     ''8#$eJ0Ex?1CJb%>a@|0!a2gyd@`-xM8!iWk)7DdDjgJ6jp1;Njezne@OC@S&-qJf_G*B0i!N$($UG;%'',
     ''BDo`VA}wW5xQ_dmXUM}|Eme?$o$WaO+~Obl({UqIRp>G!%%nk```!dtI3`*@cSlD9U&0K1VJQ$F{DTL'',
     ''X~m{Qfhe?E`+nREp2NxyHn>)5lvH+-UYzu5j)3sz2QpNCfc*IiWVa(T9X@x)_h7F)-;S#w5@QVqoT;Q'',
     ''sfojDS|$_wnlT(Vr_v?RMUi+nAqU&kgyoJ9Ga?g`f0c0@3*8Cc9JX|9MeGq+9hd>u}YPPInY$2GVdv9'',
     ''kz~^S27*l_s`x=Y$HH=i{iBYYHUk}=A14v=xP34_z1BX0GE_;O-;sc88F0EXSc~Vf0GfaWxv5CUajC-'',
     ''I3|+<HquCDOil<<S!x30>d*~W6lZf_R83B%F1Hpkq;p(wu(CE@DTiCs@!hnVs#bAR44Dt-mfeFu*I1}'',
     ''o&plcTp>EK}^eS~>``Qla%@*{oHVQ)Qp)GTr|I`W%NjPgKHW7y&L@^Kev=rB_+(U?c$CnpLC{Y-<*(t'',
     ''PP3VZdPlc@2dzA(rDITi@x+IX;~o;Szs5-T1Sj<cI!RWmvNj6rvb&Z!~xY?0z-Bez`Ig$Je&n=w6s1|'',
     ''B=@uJEn+?mBen3VgEs{$^UD&&|lC&MowMYu`zx>?1X$Qyoa=@fH;Gz1h2V%h<jrd`MJ_UY}*S3;wjam'',
     ''m=0PYJtF>iX*HU8G-)1~a#tx3ju;nX&jsQ>h)FOTSe&0DmYRzDy5LR<_loPL(4mOwawn$2o$$Yj#x{M'',
     ''KYHXvG!!6m3)G9_uaiL(Z(7z{%VE%+p(K?3sW$vUm&qSK%Sm-ZG)JFwz$CgYfP*n%E*e(DV*bO6!W0M'',
     ''HNgPj9oQ($FYN$StL9uL8w5Mr&GGrIF&kX)g-egmgD4;+A3KfL*20Xoh>Ob0B$#s@ZNbVOMd85J(E&7'',
     ''-*wQR>Cp3-On~y>bBYN43YYkIn71FqdauheqG~nt%h;PMe&QM|lrwN0$XD#d$nc9mB&$%nNKLK^BIhl'',
     ''GQuxfpN0X7sqR^zCsKiyS8XTV5nzF8B)+os8jv)JFH9rbLqp#=`lhdPMt66x^hg4tJ~(d@GPn^;1ib@'',
     ''CVITMihJGm!o?G<!KL<Dwh-@FfyqV('' @ ''*D!PwBJhE&b*qIdY$^BP-Im7CW=z=z=Nx_G94!w#_`Qch*?g{'',
     ''Sg9SVJuCqcv9uE(N4J7Il_1fUBQ9u~^6d8?%fS=HvW@4YZ{N+<m)6TozH-73}&YGtD^!?!x2TlcZ9Qw'',
     ''di4`_d%`F8>`m!U^sIM@QcL5|@~jTCQd?VB1R!X0L*kh1N#i6@0prN|&*DmKUgto04yfaS!Fh28#fOn'',
     ''G5Mk>XOzCw6)~^zD`J-$&jJ_Hp!jArZhre1Y{}gX!I_ik+;x_Nm|l>?eZv>r8(~mP(G2?Wuqk4b@cix'',
     ''}>maJpMo{h~JBl`K5kuqQBU$9UVBwoC~%Kdz1g#hH(Am>J^tA7*Q;bJUZRr;JwJ<mj-mGUYKiq<~0rw'',
     ''Ft>)Q`xM}bNCI!b-{xSvSnZWgW71n(X09jM_Xj{E(0yTLiRMu&8}R}kO7EiZRZ8?QSpFKlXQH1!RB7-'',
     ''M`^fn<ijUog{W|~)_x8Vz!Y9fVnBsb`4lF$=!-@Q&fW2;{`xJC^K9W6121?h;{uo)Qo_LCy?}aV&J1N'',
     ''d8F!LbADyeFgZJT&;b*w*R;E9Km78@DCkFEz=T#$(x8H`KFE9nbnR$E7l$0+?%*AiiEaZ}a$-pJWmRi'',
     ''AMgkk9AY|HGCGonY5Gb6ZHd4Aep!PadRKA1v%>^2K&^CB88<jlo|vY0@un16MQ09ECibNj3aK`p$0h9'',
     '')U&l0}_FI>#$T(N<MK{D~R;%vy=A=NSUc-R5?c;-0B(>h&;-y`l{PA@yT8s?2Q%O$ly}pT5gbac+*'' @ '')I'',
     ''rnNxNdmcComzH|YAfW5+IZ!i)yYWz2eCW&mYjomx%l@lB#jtES<nC1BN9I2>YNJ~dR*ii029a(wc-S9'',
     ''x>Hc^i-SjutmIZ=@Jp=<sYgT$v^yOx%v-$NibF*P+-W>MyHkS%UeIU;@JmU$tHsRMG+!DlU+PKgy8Vt'',
     ''^<9YN8qzNya9Z+44Agvhi~8&5t_G0~X0*+y@iovP%}?VNBaKx4Em^zsr{e4P@Hc{Pev(X_iqFHH5OcN'',
     ''iSFc{f_vADSFuz#MDS0&h1!4kq)C<84q#{c08@DbzC>NxC@<y~kl+&x{?YzL>f%Z;g!;-nbtPP91tVH'',
     ''8@^M4LiE=pMnf~e2EK{D4F4PEHH;RMKxY6@At4v0y*i@acDkjqv-9#OqZ!k_s2u#5)CYn1P$z1b9zBU'',
     ''E0fqrDRiOt@a8eqoRxFOsn@;#CtSpO@ROK0J@Nm9hmOIUV2$hlO=6_pR#>ag-+{?DFFC$>`(K~G8($G'',
     ''14vue!Z-PIHFZ}lE*I@h<FGG?OH?K*@*%l0AIF^rStoZX0JggA9Eg<eP#ik){hP`#GC!gdCzNknO=3l'',
     ''K-2-O@z0@e>Pal`-*c_$miZ#Znk7ngru7yc5A&}fU(aaHi&m5z@X7l(D)Q;f2*Q_%!p%^A^peloV81!'',
     ''G3IzWjdyP)h>@6aWAK2mtSfNm?<&+A3ot006v{001Qb003}la4%nJZggdGZeeUMX>Md?crS2aV{2h&W'',
     ''nX4#Ze(S0E^vA6J!^B@Mv~w4D<<@&3?>xTPIl{VxuJI*M^0SpIIc+9+?CcxL*!7xngkdCw5+)N->)C@'',
     ''o&iWHzN@XPQ>7dUnCa>1>FMd$G)AM*kM*uAE7^)hu8U4CMOTZLH!q(}L|HB6JK2s#qobp8v#py>$ZEI'',
     ''Izpr-HqO0q5s~?n|Y`h2S`tq`@F7=;{JX$sNMl6f2Sgeb-g+bLT^N3q?H(ThZU!MKv%ai$&?@pfl?b('',
     ''ZOC*o;S|0=6f*-gYV7_qom%ZYeiw($24+pesuVm%S``fRtwcRy9|@Q5LA%WXb?E30MQ<lAELrnqzlYP'',
     ''WJxu1eXo1C8^pxHNd56_-OzfwF7Uc2QJyRW6Ek`Kz2)#YPVGd<#eb*1GSr>MitJ{+*vr#Qf``mFllsf'',
     ''Y}yJD@D=rFLU+QB~4iYNr8g7e7BH9O@n`SB;e<3*>-B+$LmHG%bRCa+ZF4zTu!LLH?R^-d9lO3FY4}T'']"

lemma good_DATA_1645: "good_lines DATA_1645"
  unfolding DATA_1645_def by (simp only: good_lines_eval, simp?)

lemma lines_DATA_1645: "map length DATA_1645 = replicate 150 79"
  unfolding DATA_1645_def by (simp add: numeral_eq_Suc)

text \<open>Lines 1795 to 1944.\<close>

definition DATA_1795 :: "string list" where
  "DATA_1795 =
    [''y{pt4HHn|Eq+CBO*Ai*KZ+@!U-4+Lt{C09QPT@ohnJ;P>3^=dRh&?Z>H&67#iJIFQ9=0hUn|dkNZ4Rr'',
     ''kEP?H$B{5B-K)j#mmjeJ+b+akD`J%46re13(PwD9semKw@(R1-1Xxhr6SzOKAMZGo1p3<{Zd^Fe-X#('',
     ''?^ZyUL4ZD;lPB|MdltQK;JQeDwp%5J{B>8>m%ozcUW^lYH-HLj-aLra@#+{j;oRrpc<vMU?8kyV%KK>'',
     ''I46gM88b0Ga0?ZDiBmd<85Ag2f7*pT9dfc|Je+kF%2(r_X+P(ckl`Xs>Ly@93}o)=KK>=E$^Fhq(54*'',
     ''_7=<x4+nx>*c(X-MU`%_lRWI;z};w%p0a#t5&PO|E@v^PXE)NUcUU{$Fq}fEJ02|?5}+3JEiR!2^^N!'',
     ''bNQ~5RqM)(GobgkyP{bh9nI&kuJgH=iSv=SOGXnhLaAal-H)=}tvh`Dl4dENA`P3-tD~c%H7zm#F$<o'',
     ''}Ntn*(<D;Xmk#-=H;XMicb2<Uev+*l+7@PwcCIST1t5-*6yi>pw(EppffqqUi`;RMb?J0w;0I(hu(Ob'',
     ''%unDbKL4iDFZMJT?R(ynLer^GNU(W;)N5O~Gy%FC*5WC(LAF5t`s%%2wP7Ubzz96zE*yjFO6<Ntq@-L'',
     ''9zwY{>2k2nhd(%MzAP@E#WCq-e#W-fTe(!nrE0%kD}Pgz^2B;i;|J9&^W$0HMB<`4PRHg77Ui!Hgb@F'',
     ''ONH%m8e%Z9aJ?yAhob9kO2`DB}jz&*%be*o8wJc(Z7qPHt2zJLgdZe;ra;kvz~0Nn$TF$49u`J69GIw'',
     ''K%MG-=MX6OXxue7Qv<AQ=MEuf=?$8h=9)3`pvA;%;SzS{{$ZPq={G*U9gQYer|+qLVlm}Cl`rMR?$Sq'',
     ''S^bE;HQi6MnfOaDLv>6LH3Kdg-+Kwi-oYLCt0|$HHWQUR~QPrJK&}oV+K;=<B%KurHRkkU%8SL|kN3!'',
     ''wQ>!tyx*~e?@&<Oxu)UC{-_e3$=)<T1Vt+OmwbjEhVP^{%qfkA<I37Q47O26Ds*ffECLc2c=O9&DpNB'',
     ''$D^G6+rCFv+TbBR1v{;{0&lLrgO``NJk2PkPLAQnNg3b}-2!vN=c;<4KjFd6S>OKVx2ft0d0I^vR1|S'',
     ''7%H*v#_9C)&B&AD$(YqsNMiU;ulJJ+*!T1zmeX0af2;rtJr7``UA9FTqW8Bl<I5hlHvsAU;(;xc!IQB'',
     ''INC{^;o?bdh6_*1Ha#p*{qD-eZe27&5ylEh`UNo2mIv%Pz@w2lZfxM4tQj3|Z?f};UwrxMANgO-9~}S'',
     ''b)nCTH8>zLsC%&ms{+88Zy<37IQwh*1>g&0pGn~E!Xbwt_gVf&?Z=`5<Fp4Z-%3yn~6`&T3RgmK_9nd'',
     ''UVb1W)AU<%6u&C>$9(hzc)i?b^@9AS6B5mfBptpe3u6=1-ERMiL6g@l0tJ^60CE*B-@OD75rkJMU#Za'',
     ''je@OF-#LuD2S{R@Qh(0xp$6%Ss=P*q&)f>IE=F+0Ey6BZ8X0vb?T{PD;@fRUP}vSfHtw%x&$|+Sli(C'',
     '')oy`9WeDQ0Nco257tcVyS`)E=u_DI6)?n$x>ANADKq$|mByMK@kgEi{'' @ ''*=#vWUxGqz`eCDVL4e@mIB}B'',
     ''Vds!2XS7o4*>G1wGVG)N(Ck9Hp+k;QAaZefRqxhIWRC*Ytn;K3DO&e0%BpB??hEL8zpZ!8LelRSHM|5'',
     ''SD!T}Ua8Upeex#2Z()&T%>R1l~!VrUbg9kg==r`rM>~0j_!++3sIpMAUuGo-krK>$aEa}<k^MFjy>2N'',
     ''LAYx+MjI5q82|L{l4e<AbB+-YRadbzof%OwyR2*VnxSShE12Pi{)FX3=%ic7R7#~?PAqPQ$dFf~zxe0'',
     ''TQ!bEV;mTCt*ddGb>H@xhnAHiTZPW6i$DTc!UN9s4_C{_r=0)<zM_79>Q2k_O13WKO1}1gOQWKLgO33'',
     ''7tQEF(!eumCdH?l&kJS+Ea=}aLFcggw5evGRRk>XnB|@s`OEU<Zg=#Vrbgt;v1IAtp^DPBSj-m?rTuY'',
     ''(%2#!`r?3^r`yg#T?PeZKKG7{nYTzmOJ6jg4(~k(TK8g+ei8K6;$x--N$}qH!p!`QA577ehtSmh^T?b'',
     ''dYSXi)ETc2Tu}n$uvMH*yBet8<g7_PhFJP}pbCRkpi6^F`MmhXRj<(!lK4r}e%|$jAvxfWt6Tr3u#d3'',
     ''^CCMaCuGk*RV!LHaP?Q(->T)OtI7IQ$q6?!FI%qF7dMsV=9fhfAZx)H#0I36mn)HfH;R^H6YmS0T7XN'',
     ''>P>Ak#tKU69e~OG(`c1df(w=rgS@|BRd;4mAO}kE%+C5-S46_!8<Y0}FIH!}j`R2U_FmCcVL|!GycX-'',
     ''FKv3gQ=zV2g*vsB;GpH6dE(`&n@QaAy9VoRfW?coBGix=t&BBrrAt&hJ$9La6qPEP*d@qfBB$QLKkb0'',
     ''@^dZaeeCcJ+J729x250kU1!?7v#)%6)P*>4yR@KgbnthUG&A8vY*R+Fk1d0V7-9E<4vtX-8pmh5D(S='',
     ''PA2Mky4&jmPuo}5W40@$ujg<_8<pS(JB&@q=79&=DMtUl~P(&^yI?qC<ZEAXo6IY`ba6BT|5)LJMXd*'',
     ''kkkL2Ws(cRXDhl}U4DHe76?%{(G&W5-H4%91mCZqh<ayz;!OKA8gF49bK2(dhmmHWdw+>Cwp8R4(BtJ'',
     ''rg(oK30tP8#|k3*t{WcVz>oSrC6l+Dc}`HLg9Lm3Rt3vnW275v-i%EIyefm4d$c86LcDYB+|pi-1n#4'',
     ''0$}kf#aA3U1AxUM4kuBg%JS5GII)B&QjV$j=utT*>+iyK!`Sz#6Zn__~SG=?g4AC#g4}mfq<ir<EWK$'',
     ''>Z(&Pv??r^wgj^S4mIH0dI!pBdsWvRo79f60jFmRdT5@OSHKyX78qh+Zy`?$>A(z!6EZEcaZC<xmHYX'',
     ''4HKKE`Ud1!d-kSkFuwL)Di_@II5VK}iVf00iKTaGUD~BW=`aqCt7Y;2-8d%?)0%nVROashjwF;)Ei7)'',
     ''F0_t=(fjUl|-ii;a%_5fejZ{~asuz5HUU{=8!$tx<p__qfS?5d)aWg~gdsqx7kLFk_t4D!|o#;p#E(6'',
     ''y}y)#ud4z*<wlxY})o0XU<;#N20;lUN)iL|Eu1Jp?z0WZ%Qul#YngX#XavX?Y)0Ogk@mCY~!%Manbv#'',
     ''G46q>!Yvw?R?73a<EStP~u*B&FxUogWFw#6xwDFqtn-E`bk>i+7@@!&*FWVY(I*_duZJ^4J=4fFSC{;'',
     ''v#n#t?hS0}pV;~C#jS=3lHlC50X-WsyTgc*S{X8B{E784_IriUhbW-&J{5!5$Ju?3_ymu8@s<%~(6Dj'',
     ''$X=~zH95!K63&Zh8y~8_}u5C^6YB+|#cn3kHJePA$ci<(pzNIPUSe+-+WR#bfJ30<sPL)t^6OL)}G7N'',
     ''zA0}xLMQBm(Y*X4D6g=e2i(STzV0|aU&6FLGEDGE`^>mz2*w!<UY0#R-VH0e8muK$j#aBJNIcoS`a69'',
     ''Gq?;IT!IJZ#GDieSl--5`D^w1umhf7P+sB^~~ZC59Qq57_g%Y?WlT!Dwe3uZzN-bSx7z@Nr6vN^aPWT'',
     ''q@+HA#Nl{gfTw4E}DuJGCZt_Ete`jZhE1^a7&3q4ZJkN5}@?Rxz0vF&;k8SsH7#WsbWo#P=mK?3CB9B'',
     ''K8>XG5^Tz3UHOydpv*O?8MP*-;!!Y9FQlxr9|~Qs<YQI`z9t}r5HN;RQ~0PY*EgW9n5jXNveD5sJce6'',
     ''REqTh=e<|CtQOiE|^8}P2QrjiH?S0Slx3vC>lCm{v5FiAc;F~^zKW(Og202=m?V@OiJF40tco?piRc2'',
     ''p~{g>_rPRZAM;(HTsyO#IiUz}xQminRqge^C#ypcd+;pTKvIC2?aUN`fqo-fNw*`n9woR8>xLZ$x^bk'',
     ''J>%HN#MlS><DGcg+?=g|Z7O6v3*M0Ynex3lO*n{Q*5g5RRMA-G$E5p>&?vSCrou9z1kvzygwh^^ct`r'',
     ''oQSw<l6DWVcWS9AsMg!jQ<xHTQ2UO&&0z4=an<}yx4AKwX_uXl^Jw9meo!M`d6?L2_Tx!9jq)4eBzMz'',
     ''Jq7M4#`?FhmNQ<Oy^!9(`MTX0eJ8<Iu(+tLG~dX!#n9kvV0R^^GTi<B2bX`R|EL5!8Y#6ni}tFslEG#'',
     ''jVOM3{!daX7tT~R^It@w@C@q>sPf!K{U3;XEiL$|aCAh3u8eu|+8gL>gIYjXKhdD95LMbhfc%+<RG3!'',
     ''ly_6;B604YWU^(5UPSVI-7_7Y4qFM*QvSDW3=Nft)IaT0KSRp+Ey6x('' @ ''*UrZcgvH^zmqwLOT~JPaMApz'',
     ''5@o$*9zUghnOm3#3>Zq+~EuWqbPxg;pV;{7q=7lOuw5?mV*<<q*s;%Vw-5ok;OCbABvTQa73?o@O>NS'',
     ''`Io2UV90l`3n9wzo1pt9bPMCi2MvZF#J+iaCl=Ryjq&5DINbH-RRB(z&5y<^cR)!_!|8wyG{lpW#iXk'',
     ''BSDp4`niutC0A>H3<lsYJ6tiG8LB(Q+oD|KwFN(Ni%}&H5N0ndu$>1FL;UuYr^Gs)eO$TMriQJUP}Ov'',
     ''p3D_x&2Em?8js-%vkuJ`LmBQ%{X!qPcJ<EOF!uc7Kqo)sb;`A9%0y>>TgC=Am#{}=D;C&F;QHwl@<XC'',
     ''()bDDVb_FX*Gz{fZp$X4T;fLn6hfrH)Pofxkg0(lflrUP@plH#W)A%P>W7a%$~&R%0SGHB`K4Mlr~Ts'',
     ''{Fi{gv?IeP-5h0Ty%TBw#Mq?LqlZL9&eD88?;5&p+BD9K*b)K?!Lao2*<12Pab(lg&+<Zj4W#l^rKej'',
     ''pF5W;!Qx~CqziF;^Kztq;LcDA2H*|Wd8)IMqq*C97M(z6eW&~!HoCso4Ak|O%rR!l)kRnEy!<6SIIEC'',
     ''u&YQ*<nB>ojI$h%E1LqOAY;gZ3_OJJni>AJhXR|AukEcXXD!V-p33g^80o<f9J!Zrl(i9(devPF{X^6'',
     ''BGq}-@Ah9O6&XW>DVXlcw{LJ&GnVF^m+1E4CLzFCbIoe=V9H#PvRH5+*g2302U12awtBdi#Gyl&?dP+'',
     ''0%TWBRa;$r6g<u^=<j9K!j-_f%IBUSx3=7{=pR|hfPZb^!-KB@ITDLoIDe|r;0!^xsB!yLCieDOy<mT'',
     ''YE&3R5vhddp$N9w<;t^iQrFEnQ@R*0m}dFf7u$(@nAoh+z`dg6BbBWo6A2k%G70T2Nw`^LNy?KZne3n'',
     ''cU=In<xzJJ#g&&(-NtMq^8@R+U|i?+BX;iBX_P!PjvvH#}?2o>xS}AVXjJ#Cs*fIoel*#H)*Kf>&9##'',
     ''IG_+Rj?Pg{vN~{8=VnzAkvy0(HO3cn*JhiE_kpOroQiV!juoZlyNRADrnSii)tn&2Zn}T4`yC}?QnBk'',
     ''30Jn1MALgYGnOR*p>-x+UUVtL$jZeY5Cw`(hBk2cawZgQ0bHY345TGcFWgf^De=7}bw9pFj*xP4#H?a'',
     ''LP@Ti`z4z_6xq5_60P|OPQn_oz}KM**k84Nk)*~5j-mTHOqX^w(-yDi<W=Syf4Eq6%sX{8G!y8oT4yN'',
     ''jr$yY1dw&Ks!$-u<`7ZSU6JdU3$erCOCHeqG!k`hXJ7kS9$$5jNijK%k3&HN?eLQC+%NvyY2(z-w61u'',
     ''HFI+?Tz<PMQQZ5L{mPNH}}{Q!3eJE4t+#@T}==wFqv3309geYI!c=8n#_^NmJ#Rhn+{8ompEHc5^T26'',
     ''q!}wmn(r63fn%pLT8e2+B4?E_4)|to3Hp2@-ueT0hy{'' @ ''*6{D~EcUS-0{6Gxp&$`T~Nf~Px-5GscBUO%w'',
     ''(&|a~$w8F6KP%tuHp;;16QeAQn$o{y-EI$1r4GVvi!pZ7rHax9~cq4BVVC*o5KV4-_KT}EAj#ncoZ%G'',
     ''^{E-$CW@KdbPp)Mw2lmT}mGXHBB@HLp-mpim=1W72ophO#jXEoNp8(>L%TGWl~8RuAxd<5X`=Zx-lx4'',
     ''7cS9R1xIhXLSpNv3F{_AJY``&Kc~SG&kwY)VQi-s1U)cg`9agdrUq&OE0n#VpY)K@rZWZT1w^G7=rY;'',
     ''1W;wNfbiW1{V8@0nM=!c6QDikb$kE@zt;mLRc8X)=;#;rtjGpNcx;0^HSYPCQqjI>M&kGjJeczN-XD+'',
     ''K*fXNy5Pk|xU>>BE?|jq3aS!11XT?Xg`&AGN6X)O^dV3tv}ypQuC_$iSroy5A6%*d#3~_@?MN8sr#LP'',
     ''Tg5;Bxv!c&9=!V*wx(FcGEd}jwXxP^1_2#$++U9QmL|-)#3_i2AU$zbiZsOX&4|AX*XgGX_ns$$S5$2'',
     ''0r0cU7{&)c%#q+6Y2IVa_GzQH(7LYH>qbzkNxdrjwIx9)6w?f)9KL5oFlOcsMe#Gy@b0lcdd;vD{XQK'',
     ''N7wI|8D)f*tF0D~s>Ft?SEj!O9QP?715eRm&Q0=9Y8*2q}AYx?Q4@$R%BT5GLH-qMc%vfg}IKkm`<<#'',
     ''ZuzUh@`9}2c(}U+heEbwE-nvaH!DswJXA<JV?cNDpNQf6kZF*Krm5f{Mj2+)-hsQIp6bgk5rwe0PQlF'',
     ''m+dt^IN3XyE)HfB^gT}Js|}h={du#Nnv)@OD%n3yZ1tb0Z1ulmjQFH!>L!tbM|2CT5~a~yjo#}?GRZ#'',
     ''Z+dGBhK2T}t=1!=}-UDs7>q+(<!2*(qQ@b&bn?;F-2{S*QT#D%)hLCtlhJp2zVizC&=$y<(=JadUjQ%'',
     ''V8$MW-WmVY+>-Dna*i&sbmE*OwA)<ldhcSQq-mSkD2iOd{ACs9lnGtiteG+RGmGnL(LCpyE^s>?zU=M'',
     ''P?uClTQDhp#Lw3dc~EI!dcR!{jaEhz;8hGeTT#7jFy#2FU~vSBZ79((wqK^R0In=Arn^gTM#m7*T_F$'',
     ''b;(047FLG!9%=!rP&VYKaaS}e{F?XvcLlnDgdV`p7e8)<{X4&Kbps5Pe^gE*8}l#RJE<Tg~)N|1z!HM'',
     ''YJ>^C!rn8m+*A@$To)*~3R89_99yLsrSg-UMfRK<L68vl$-8Wy<q`n&Vc5m#37dbk_32G02<h@f`~BQ'',
     ''x(ASCXug&753EXG25`p@CaLKT6M0o;|V(4`6IWk2P^XapigE&MA{vn37kLS$))7!5qy6k0dn7}fbJ*X'',
     ''j=QVFe_!~y?pq_SH0e2_(ZGgrzq-lma@tE&8ECsnpzO@T%DonUB?6Ffb1RgEn^A%1Y0BO#g^BoM9#-('',
     ''A-z9v)et<akq|a2nJmG|hf<Ee*f=pc4%7N~^`eW3xV7642?GN=l0RfBYIAoT;P3wl!H)um~G448YViO'',
     ''MfBR4X@%bDg|K7IX(s$Ckn6~PrhN`$u^E*htzxQ*KJge+X;_|xwfjFqs#s3(vpq8D$`3docO&u3+)pw'',
     ''d;wF1y{Xf*TyPxmC{(t890TrIyw(k~GiAuB;=vz?@TXR#T!o{hBfMdwSu(lJ4b=v9GiTugK+Ic=3>~N'',
     ''A3HeXQZm{_F#T)`mgC{}z-&W4Smjmj8xP1_`zD;q5J@oT0+evi7W5|IEba9fVb=DMI!Ik|eD!m`G4X^'',
     ''6!Fr3A2xvc6G%j=%o>JSriElJf@RPOHoFWbaaynPbWfyYQt;B}fT?fP5tpE!-kFT<J6Ao4RaBZ(Vfdg'',
     ''fi%u!7XF?x|>yFU3;xi{#k<y+oytp2E|o5A@0Jz({j5T!NL&Z=LZH0@#xQb3oQlFsWJacU*tcZnc^J='',
     ''cJ#gGw-j|L|H2J%rErN<Bu=NqmKUTL$64BAogFDWPyc>uxz>;Bdxs2+O%1ht)}6+B+j-z@NSK33*D)5'',
     ''-2>cTEw5Cz8p?eH@4HULij$*Gyhl?PfrJ*j7X>;7BaEWSlXsL3Ry%bvf&F?*Lld_k`Uc@B!me2#K8Qy'',
     '';+rMuFc<}DV0=Jp12hRfbIprH{%k7+?^>SmgYtbivRfBqOht!_~2!=%4?uwkxT#tMI;2J(?O_yM3`l9'',
     ''uwlvupLDbt;OX2ADupanpzH}eHN+)E?Sa}+XfWrO7|K*a0&q+|zzQ6w@vue9pKnIgZhYH@n{+<`;=!H'',
     ''maY#)9f|su~+qjfSJXgqe8qSV2)|VU8&+7!q^9El9Dts5wF-)>tT`vB#9cb~a34ZWS_wo+)r@tGzH8K'',
     ''P07cO#W5&UiFc9U1Cv`gGh{x_92RGtTAp=^Bn}S$%LcXaQct%YAQu&^&NBZ^5lDk7Y*5t!g<pmJrhcv'',
     ''gm!AS$al1{f)g)&raFF9^j!@PmJ)pjje^QYv+G?nPhGgv-25y?Z%#eH51C7tD{1F|z{AV@?VEDDH5Je'',
     ''HiCAhAr2=x<xKJU$>>s}no+H5=o6Oe+R;mwPWZYYUz;yi(5u6i26vmF@9W6B8Hd4D2)Bzf$7ArDDWrb'',
     ''-M_7+$)HJDs@*7a<wB_?cQcEzg5g=(4kL&Zv@hvA))$o&y!{+}sDubrv?4{4bRC2CmL44fh#wUUN)gO'',
     ''a1#>MUG{0?ayd1S36P*'' @ '')2eS4uwqMgj=h7^z}+PDs)Qqgzm&*5m$A~6q9u(!aQ)cGAFKpkq+mWT$dZzz'',
     ''T^yB?#P|(UY~Mt08lNCGRI%&KKMl631_&nVy6eq!?-t`^;G39D@BNKJJMTIrAQ{qzTnfmSS~4Sm#n|F'',
     ''r^ul@7kwi;4J*DlrhgO#(%scg(Ny}JMsj!p#E}t%$)ciKl1&|d5z90yDSX*{&%^)<P~kf5-)(ELB$v{'',
     ''4(PFWOa>I2XtdDC~Q9co6(mK$JMYn_9aU(8kRo4Q)A#-1Dys}bsS)Xq_m+eV~{JeY$QbAP`$iF%H`lo'',
     ''Nlspy&&E3iCtZe(j`;-;3VI~uq2Dp+~WHgA}F;-yx;kfRFzUDD+{w~`u0O)w?yZONDQ(5bBQ$pUx=mQ'',
     ''oBUlb(qL>emerqH=QE@y9PubBZgj36D3oRb?8UDKEdzg7F-Q?}-kMj6s2?qCCCfL*bu6Q(ug`yl356c'',
     ''Z%yiTUkQ&*R-9WTj#B$Z=sQLZCya=>)1|6vg~rF@'' @ ''{1d-P5XfYrC=72BKPb2`m12|gHIg&z$Tuim&@PW'',
     ''!+dSGgrl<KPn1HWS|#ZdXWY=y8qBo+NG5KD#<TP{FjNY{OtGr>-pT9ms$2d&T@EdnX;ff2yoqrL<3`7'',
     ''+<>6c3#(1Lm(un|2$w4QvvOc6_KnT}Q4|fv1ofFZ?A7E0@zvG@jk{eHtx4%!elyq?;SHo#b&W)3v0w&'',
     ''Jdx|gN(3IpRU;FK}h;=5)YF0=DWpMirbf6FBvC>iurs`O%Aj{}3=T>Bn`-_5V)tW11>#lbpRNR50!4c'',
     ''`TqeP;9u5iqSX2c{>80$@pRwpxSpS9V!&Hq1`Cs*Cg8zsv{fh7BoU)P9pK3)oP_Y7JzXS>H}JtKc(b@'',
     ''_jqA7$-kW<IK}TLK)8HYn%DH*'' @ ''};ZbT*+)xylcTwnjyi)zB|z`N3h2>J4}{fXeX#&kro(E5g4cDJpOR3'',
     ''A44jw<B;TVz42gLLGu^}GnYzK$#$pinc$*qX(W&(yp(q7Z?xci<a<1P5VTyH0ONf0tp@7@LhlzPVY$h'',
     ''3t~m5LLGw?_TK4T)D^Gd*z#*&eI`!->^_y;XSBq8O-=T`4$e}aKX!IqYB9Zp0t9pjQFU|RO(zBtB5*H'',
     ''n!nczNf@GQ}5XFfEWFRqHR$_e>W9hJc)D<V%GfC(}{ap^U=@mf>320e}GY)iB#O)iLY{3OI^fRvSE;g'',
     ''sF%39K1R+vKjKun_(=s6hC{>2yOfcZiMbjVwziR8vuoNG?c}WHhv|_nLf4Qu(!Ng7c%h3REFYF0U5LA'',
     ''Q1df{$@Y<KZi|5w?w6=B&Q~E9*6kp$LA4<-s0|rWTf-tCh>oc4SLJGpXe_G-yS%g{fK|r-PbAd>l#0^'',
     ''grg38b8ht9v{DCwGBRxiZyMG;=pEMqhx#j3HN#x<Cf|~qhh<B5c^vt9xKjf^sC6C7*nxO>;f4RDqA-0'',
     ''We(>j@k}x_xlr#fO8bQ*l9#T3UBM;MJLaGfMXSZ~m`e_V<{{KVL7!C@C+_IL)aHWsi>V$_SV*d-U=)T'',
     ''Nu(nQ@7pSJR&Hg@O|xVc~*rz8DKmi)0;+HWD<B~Lv*O;a{OI<k@wW}X^5DC|Q187jGRXWrMpg@(D~5$'',
     ''d^m5T(zXt>M)14J~+hHBEe$d?I$+%cfXL&dk1>d-1HfVg8_xQK5ZeZw14+mLX2wZP5pV4=0Yz<KROau'',
     ''TYxUGywy_-o;MaOQ8R789>_uFTu6qo3iEa+d=aeb;s4nfhmwLl{4%yr;$E01(oB<7A||5A~i4@^=<Wx'',
     ''GA`6d%4IjBl0VKpNpBtJI=1QXcAsoxM)@TlVnBR<S0;?EaU@aAQ+H(W$JC%Up98S`<9>8p3rSa9CA47'',
     ''`Tdb))zqsjlc15Eo+Pl5uk9AN?M@3e(jG`?>_J!k{Ofx!d24I~qenDDUBe!_W<EJ^%Y4g^WC*f)w%8#'',
     ''x;S%Atesk;HJtAY|%>_uTNVS?L7TQd4v^#t25coG1+Q{53;Z6ttpx7s7ju07v>u*z;y@m7{k@*V!X_b'',
     ''Zq9g-d8nKcv4Qfj@W;%v-B;(|vbu@drN#hhN3<?``^~Sj@4?FQ@`p`%7sm`(Xi^J_g|v)O<pB#C44T5'',
     ''RB#<^XMJdd!toRH7jU8Z4)<kM;S4i-Y00Dj1%A2K=~a#j5b+Xh6EKxd!2|h4qaeQiSCR(a$`=JrPD;Y'',
     ''*yzJ8fT;J4Jr4TQcYB6{a`<DzNc+x0N1#%kIYyzr-4)HUr~N1jtM~Fr?`Ksgk0*d~2tPR>Y+dBwg%3y'',
     ''XH1Q}#Gx`FMI=P9xlauO^>_e;Kqm%eH*YJ1U@n>`r6tBPv6$+^gSlrnr?iT5}(ayE-cH85wJ|;>#^Go'',
     ''j+nqx?gbh9+^<F-LDfMhDfM<5IZ;QiU++V)T;NyfX=<A6Bq-8pBNI3uporfC7fGOOgZ<Qi}L#N(lBc&'',
     ''Nlo-kj}=^E#yJQ`e}>8++U;Ti3-@9ih$Jwf6S6-tGHIH+pt38)e(Vf=-fh4~Kjt>N%Deoi+mof%?+Wo'',
     ''K$sG#m&c_TDi?kIum&tQeUa3<Dsl<!Fcij@C{5f=&4w{x;{w-riJ<>u8O3=O9NGX%AFwT>!1dK$Kos1'',
     ''<<aL~DI6c!q7x(CawM|0lN(H_HdJswGVax44<~fCA2GfYtxI=V4Y)PcG2KkbC4X0PSxY`ADv6O9x<E_'',
     ''NxDJjkk^^(O#Hvxur-(IvaSI)?_!fgcIXXquH{PeJq|&2DkId}Ae7L`=>-qemXpSG|5AK^5Q9>uSJBD'',
     ''Vq$sQ&M*PprU-}S;D@iu(veoqs(o!&GXFe9mE3iAbD7)HGjr4pJ7V9Dh|hcXqkda>9w`ZC#y+Q|0Ly5'',
     ''yG5i>lC;s7Q{LopC>TYoXwgvB`yA%2t)_GAL=wB0?Q0uZ$8(DVnf$ZVQ2$FW66ADZaoQp3!lj8<`Kcx'',
     ''GkgPS`G1hTE3!>o&>C#l8xn&-SW1E4ycvyHM9?w6Zyjadmk('' @ ''*mMjp4KWuoQU`V9+1E;)1YsD+asTNYz'',
     ''9Ua=}3?s4GgH4_mB4?IqsOVmUmnlxrVThaIi~Qj};gHzd`tu)*Gx3(=gTNd;%;51qGv&p9%wD6)n6q1'',
     ''NL-DyP5;RagDXcJJy$y!ZJT#^pB<uUoWC+gQ6rn@)zX4E70|XQR000O8?}kZQuQAem><0h<xFG-l9sm'',
     ''FUaA|NaUukZ1WpZv|Y%ghUWMz0Sb8mHWV`XzLaCz++Yj4{&@VkEn;bN#=$l5-8bFrdbwgA}!ZMuCh3`'',
     ''LP>n~N+8B%Q~G{rBA+B~g@UH)+xi8)gK7MBW|m{h-9IlFG0`ZZ@LajD&sNi5)k071zyz)T6bMJC@0!;'',
     ''F%G!)U4jh`8wSfCKs8pFn|c8n(fzVQKXjzkJuZ4h}fy&%D$fo4evi!NG&ZQcD}C)KC(0_QN_tMFLSBl'',
     ''D$TA^<SyPDQMBhyMht$Z<#k$!{9O*jPDH`WbjPFa&Tm`J3x6j|OIeBxcK_gsTdq>2d7_b0vi1<{&J9x'',
     ''P>`c47iW1}kG2)%fd7)!CBNusUc*E{#sST<ErG4FO9wAVO@~Xi-gXa(^=_B4Nr<5u++r-EO)*=S~@EO'',
     ''-a*w<N$CNyG<M(74yu|?w#@rIi-TAL)KsU!iZPvpM'' @ ''LTNyNfH%46srCeDIl)?kXh1JLrIsqPkNjDr|8n'',
     ''0Pepy)#<tVW3VD;hjCQiUj7N?EK%qfu6*T9ZoO$-T<>oJ{;}rDVmGxuZAmX@&-vXkM(RZ1%EsQ%lX_;'',
     ''BP!0zvX7HARf$?GZ2%j;tu^E@gpYIxUTqf&1A`A0B=!MDl}(5Nprdb$KP?VOa7fwQcXa|4Hp%Nm9);J'']"

lemma good_DATA_1795: "good_lines DATA_1795"
  unfolding DATA_1795_def by (simp only: good_lines_eval, simp?)

lemma lines_DATA_1795: "map length DATA_1795 = replicate 150 79"
  unfolding DATA_1795_def by (simp add: numeral_eq_Suc)

end
