(* ===== verification/Pip_Data_3.thy ===== *)
theory Pip_Data_3
  imports Base85
begin

text \<open>
  Lines 1945 to 2694 of \<open>get-pip.py\<close>, a part of the constant \<open>DATA\<close>, line for line; a literal is cut in two where
  the text would look like Isabelle source. Every five lines decode, and the sizes are those of whole groups.
\<close>

text \<open>Lines 1945 to 2094.\<close>

definition DATA_1945 :: "string list" where
  "DATA_1945 =
    [''9YZ}McpP<Xvqms>c}G5sY^5bjRkjt^95~blmwq_^@r<EgKb$?pN>I{1XJl-TDQo_gA6@ZGtVvTfKbqx'',
     ''2L2@bX?$5^vnMlBWw`ON!b3!bEH_w?iiWox6TUHdA%B8n>v*%hT_}t<}hzF@^agr9APnTb<*kZxPhTo'',
     ''bm@sx4vL&*ua;Tz&vs=IUf9s<#x1N^@Oqcsx2F6cdn#FK47OvN=MOpQXeicBCbg-H@pV?=T61o#PD$L'',
     ''SIwVv1^Ta|-VMj^{FSO0-L$1%j~Ust>K?@4%vsZkss(1#>l`L=G9TJGp*>-ZSkH({OCb^Tdh0V5G*5p'',
     ''a|mtoZI+91~e$kjFTEGS?vq*?n?<u=*ioXAkctxEHxCX8rGNrSLhzvKCdB*fUm*1qJ;7nYdS$qoc5=V'',
     ''Tl@j(+8*^m6GD#()Pod#mj&P+v4hr()2f29NGJo0OqLMP`&!%0?-|4L$98*d*fxc@PZ?E4Mg@(5oK*9'',
     ''et9K4lV)DAd04$|pH&83Kc#0N~<|uSQo6Hty?xBL@Lx~z|G&Pj;H7u>Q;_wl}&m+TcGhUfsaUY%+Wa2'',
     ''0ze)T`b$dDPY2MM1WHqhZfT=p4V1?_)0_|8>x*s#DIEG=!wJ0ZYj(E$z|G!KZ=3-hTHxlY1C_ddvLKs'',
     ''k=#P`3IUya$*%P#kQlF>zhTv@I04#xyO~MNx37kQW!T*;<tOjOy#+8%!iKBWJ+a%ZrQHGIhQc8oD)kW'',
     ''&00wFmPHXsqJvdGooy0xrZ7>s4w7zp878?=FHY<%<jO3EE$KQ<yr*Hh92d(r9}nQr}e6->|w070#ZKJ'',
     ''q4E=|u~>=z{3}p9y?}73%<+_98%#boXT!eJVYKD9v(zzmXX{{n4jl@7hnA02WQ*ZXE0Zoj$2Xs`@411'',
     ''TRCjd(8)Yn+;0qxwVqAzCUU!3qItx*D`V428P~LJC54-yS))L=b_Jrw%--A$y=Ly0rh86YTp&mmnM#D'',
     ''+wejR_E0?_7<Y16U4z?Q*Nbi-lX@8LXY?*uP$Mibp(U!z<@W#S{+^$#!?s#HVYU4^)AxpIl}OoDS`-8'',
     ''_;cgSk+u8Bl^;h&>EKETKnN>1+jn{1*56fOXP5T|?LM{_Ppey-e?`s(_3eVK7jSbcr33O=okU4REo=u'',
     ''z}%Fn2|&dGn*uDAtC?)Y4{pki$Ln5)<S6$+kE{|c^C#aH>e#;y60Q$*2-BAIy`PXS;|DiSf)Q&Vx%jP'',
     ''1)cOHA?&C=CXnm)!tdxE>3G=O+vD4%`-QWk_!03um^dEJUsqX8<i6!QY4`&}_k$tph3bDcUPyxL=E7>'',
     ''uy!)%q8dg3hGzxVW{!Kv`5~v$F|8yK44y9A{|ND#!$LgFN4lIdY2*ICGJjK{3#1&RJMZt@;>1&9KkgO'',
     ''1;I8UU|N#cdD$cP;F1_nvOh+>CP>^3hhh?y8u4B$c8!>ULL=Kt#R2_644IBm^ud)<1u7e$`fiPc)LfD'',
     ''R62?aW0l+D|PHu;e{'' @ ''*BEPKw8He*Z-Rm~TWLqmsQr~lTcLSpv2}>WGmaUoa+92|+W`nP}Ot4d-2M-QGg'',
     ''8**Ro%6w6$WT(#WngSau1TY{=^SUbQ@lyTrGn0hTlEj`6<b7aUZt-#cEf6_fFqlg7-m6b^o=mv$(TCZ'',
     ''u|4(`xxt*e+}@EMwazJ>&q_U3=t%o5sUzJXvW;43(9peT-RTX$x&(p0@mY<^o`0dABaYaVQt^Dw#y+6'',
     ''!!nwfPOHeCT_jWEODIkXxX?BG=ukTzkroo4HJa(j<e(iU$_$E~)keC2-5gS^e2^5qhB6+5*kj?DS%Sr'',
     ''YNROf3H4!(o7$`dXWQj5@'' @ ''{f0ygW*1~`FK{1XN&7c+qf@?8cnnnS&H43p`Rcs*'' @ ''}^`k*(yjJgBsKb6I('' @ ''*'',
     ''0S#)l=w(%>#Xex~$6T%Z9*KC#5X9FFvSKMc~q-l_OaDpHh%V8q}90XjChrXH}XrdS-Pp_lN$caPd#;w'',
     ''{(J^2U>(9naQT2vdu+wi3)r0=x#&Dold5vRQEBX0Y5gc{0&e`0|XQR000O8?}kZQmyt{s;Sm4;O*#Mo'',
     ''BLDyZaA|NaUukZ1WpZv|Y%gqYV_|e@Z*FrhUtei%X>?y-E^v9xJ8N^>#<k!1E4ENFAzKQxY}bi3p<CH'',
     ''jV%^HJ#**V?Tnz}4OL8L+V6lKCHk1E;&trG706|K2bLZBRNaSL1_Pn1fwOnO+A!cPdDY7il9mNYtHlM'',
     ''3>Zog*k!745mi5lCldab>WlPsO7d1sbqOHr&>06>_BN9npRUaLvb7eC5W=5dkbeerHps4R_>zPKz`iR'',
     ''|#3E42zEl@>CGN8vJ?%0!2HvXDz@!Ckz1bNu!=`p5Av7kzO-kJ{cX3k9!EvL#?`U;TJ;_WIq&i|yN|a'',
     ''+S+TjF{PX?2?>rf9*!)MHweDy|HiQWtsvDqB5PzJgS}>GDEvBYH%(b$J$Za?Fjhy;o|sx^y&zxj$WU<'',
     ''@6*~`7SS^PHOr%=O5x{?%r)R#J=FOm0=#GHj@OiqGJO}#@^~q4v;3M@wJKz^iYM3cTxwn_HQ<Zu{Z6m'',
     ''biJ~}3qDTzICwdyxkqP*n08bpN)STE{MUehl3*!FcRT3AVWwoU;myIRXiQ0-I*{;^evx|;ESh(tRI;i'',
     ''b32MUeahXCu8*1A!Y0=uFJ7}1H&PmeB7PhJAmhe8+l0&I+nBJY9-`yw!CPZiKA0>l>i2mFdIez|z{?('',
     ''Bz?AEVdDKOB8Hy@Yq+ozTz@$~4Qwi=pT~>5GF$c-U0VKr<FunM{#;m6CLOV*iC0gS8$qH9>H>P?~KRm'',
     ''3AsYF@d#Gi((<gO`MccWB{#(NZ6sbU#?;QEG`qUOi*i-y{=4I0J!sYv4CGs!h=VD3HhC}u&YxAd{E;O'',
     ''%vp;`oQe!6%GFfD(SXxbP88B7#%rNvQ2=ilY0^A<N*JA=oY%1f_FU$G_CWj)CtA`w?_>5BU>m7e6vav'',
     ''(4hC~oEXpz3_+YhO#RH&WptLTf9vnP+_Vin(k{AU4#TA!kSuP5xi+HRORe*N_A_VhWjHLj~;8_Z`U*_'',
     ''n?;&ctnU_`*M'' @ ''L(6(zkVToNB$KYE5lkIu!X|y7AMJY4BSmZSVv8blI%+1;tZ2Yu7Vn7@<Gnye<fB9q|6'',
     ''3(%QDh>%$<$Q%uI@I@(OVf8ut)4LK1cy$GT0*1teh`EvN5e8OH;9w%Pe05f2II5R!KYt0Ws4Iq?i;dm'',
     ''kK$WB+R;o3v@VkI(y=!1frA%pyLd&NZErcl9U4d1gc5B(B43fOAU5T3<^+mrN*=OgeL(aMhkhjO4LLZ'',
     ''z=Lds$|w*%qE7F4oI+e>JPnb-TMQUq+s6Co?a9U4qsv!sqSND_j!!+$^6}{X*~!_D9f)c2zP+!HUw-('',
     ''}x`HIju62~CYZ;AKS@iVjch4TRx&jHT)>%@LR6*3Rd!KfTTa_eYvWU~UF;C=d4jNDh<GGAexR6qOZ!K'',
     ''(G&ULsVa}Tq8&elZ$U(~IDMCw?GCb<M2g+}aF)F)>bmq(|k5r^;#KCsBwm0u`Rbw>fih5=wn<E>AD+Z'',
     ''0@VvVJ$XA{g>+B3Fg@hg=`$d6rjzjhR*+#VoWOI26HGxI#gqMFhE=MqmaISqcb3Q~RQgQe6&Bhm`Vs0'',
     ''vFlGcyZMbS4AFgZxRB!7Yx3tg32I3gEQYNvMMlEin)YO6WM'' @ ''LN-50Z9@S7LKejh-9awoyIXHVe_RO+^K'',
     ''HrQ9DhWyr}4Y)o-wkJ83n^&tB2vtmd=$)_lQx8SqxMNZP4B3BoDQlSIWi*LlPj?yLY4vY8JOfYN+bT1'',
     ''Z&!*wL2QuEol;8p=?YOFpesEgB&H}$LvZZ9lg8VY5h4pZQ;Wtac+uX)$aYFG?gK2?L77{EX7Us}>%SV'',
     ''o?f0$VrX2Z6wlj1c})ZA?!B6Xjm=1sG_zUnzx7+~qJZs0KxW$XB7bfWiV@|?=Cic^yXwn+3fJs0tG3X'',
     ''-_Z@PpzE!f2EZ|2Q58fDMM`LN0?A4ijgY@FbhWN!y<POsluDp{dxT5hk82jnRk@<0W|~ZT37G8BI1Xe'',
     ''}k_*di40O2m2g9_R%@+8~*GgNyyod&H$jii4DMPB5;PW1g?QW?Q}{}Rx3$Qz<&_S04Zx(1gr}hR+K4}'',
     ''Wy$()JuwCLh<}yfu)#nf@LORgklX1@+(J&5OV|u%XEI)k4nfPtzhWS~g?y5eg0<l6q0D0&N-?vBJs3N'',
     ''`#72EiG~U2ZcH3*4Q^Tn&g~@Vyh$S@mSp%c%Z|e4Xc3U`8Kr(1clu>Q1yEV64xdGhku^ip(Ech+cD8f'',
     ''YuWf^8%i*7?NdcPZ4)I0{lx*tp%gfFyw4H4rS5>~lg>o4pUr}tG+gHC%EW10strN>_8hXi5Nx2ceWV|'',
     ''CiW0WC%=FwO*F!B^B*ihQ81Tw{O<V8etWHSmIC#xw&+7&xXG?a(nppwFnn%WPUEvaV$irCsHU;RTs<h'',
     ''#B?=G)7uQkS+}mw}<Xp!i8vQE=Wy5Mg=#nnnY$8tTJsAu0H0`z@'' @ ''{OA>$T=wUxt<Sr7ji0Gz8J`Vn2J*'',
     ''X0qb=@?{FO1kxX4J7RvjU8UYalK<GLQ$u5%av3#<#fP(#pZ5{EQ4ph0Z?annHF94tIG2J$mawU*qfuI'',
     ''b9vJ`vlY6u>;{Xvjyf)9UcEL;^o$Vwkr{J`KC!k9zr@9>&n@Gr~tRqx&uuMtHX3D<M<^9Bp!CR<NKJM'',
     ''GT$=>rP2hR=uj5a+717Pc+ra=OP<&)T%02+WPqp<schn2d7;9G)Yr;S`{BKts@mrz#_9YiArX#j%~by'',
     ''#2ksM*6Vy$#Z$RZ-hgqTm#;b!jgv7!pu@r4%oOaHKIlbQ^fpbDkCDJgm0Ya(%^#kX&;r<T_izsdTT(f'',
     ''=Dkx!cja{vm~BtfRh*cko%*bTn*uRs9am1QuEI%*4AWd8cQ48;g8WxoOgrM*FPP<zc_h!W+<?SZuGV6'',
     ''gMbg|bxdXN095`ALpJh=x?A?WQ2b8`@y+laC5-IBFik#n8d~>;5Gve(Z{#^FTIRdkPzl6t=~Yf`tz<I'',
     ''gFiSjacpXc^1w_$R4OxE2k+zS8$dnPrJ_OL87AE|YxZ|Alh6LqK0b+2aLeXLE;mAr1?+@wMr$f<wB=$'',
     ''uj(~6?rRf8nl`59gg4IDh1UUCZG%@W8ZOcy^qr+}2o+vd`r`>3+i<s^lpP-D8tQ2s|{o&eIpgSv1Be?'',
     ''4G(g^XK+!N7~2?fpdUN#x|$x>6&;HWcUNwm@W*7*Wpx{M`3n>lal968tlDzW5M;)Sfuyub!~3bIUh`U'',
     '')@Fnrf=~i7W6BE`vQ1J+;XN$%vCeT-!J5D6=pzf00gE{_}cbJ*(O#xiXac+|C+nQUg~E>#yL8QLf#cD'',
     ''sXtePfkVO;WJt*HI@WTBZkj`G3O0~eVl1+('' @ ''*!7%K!)-en3P^_LrV%9PqpGqqXdjwZKRu=_Z79CZ{YAu'',
     ''iV-XSEShT5awS3jNSBF6Ng78;}%<RE?ePUi;aN7XS=^L`GGF1}|<~b@g4IfBP{%-}Kbe7<Fs}1%8gu@'',
     ''d!77yqkHLPn<$ET}CTg7H1ZAd(FOGwp_7*-hq5Hck0Ri4)1KC~aIM~wQ=AA-4lS6kcGvlt+Qg-qt?HK'',
     ''_mV=%HUGjk8uu_HpH66t!WznQ28WP#4`$_^JGp8)1-7x$afz4KQW<ZgxIBgOK5}fj{I|>yZy}RVg|qy'',
     ''Ruj7z<Y@?4V=y~L*|rA&`cHk7Jec&;4bxO<N@S77~2h0z##WsLd~TZ0iMbm$h%`T#ocSn8@bSzHQW##'',
     ''9CoCpS{oDK^=e(Ex}mtB6uZD)14pbF=T75tj;Xr`&gPXUIy>noLdwCZW&h;Kqi<;wQ#F|I@4d%QpFRG'',
     ''rDx&nYT1ALMqyc9YClTe~evGAUkm0B$B#}!<U$|LARA8qY-wtZK@mO+@io@}l9ew#5uD55j8+%C)LU4'',
     ''s}x>E=9eamJ<FVqEkPfog-{uba2tYtrtRqgKidfCpk`}NZ={zs$QIGu`PPz0C5m|Bcf1Tp_P{Dt(y1I'',
     ''MaqHo`-i)tU~0wFEk80jdS*qX8d^kMf%&fkd(JfW5LaSs)0Gy<JEEpPNaK)j{wEGtf*Bl&@;fpEfmWl'',
     ''eFFXg*!F`)4Xxe-IU!mX`mr*Qwe>&`8@S8@7%9Nn|g5%?e}ZRyVN#L2_Ya&-N5%#*mqZr%&|S!_dT8|'',
     ''r(tK2dC;((V0ub^LCqy9l^}L_=MlnuwYIsnu}`y*2NC410X+Xpzh(wiXUKNKv@ELmNj#4c>ADSt)mUm'',
     ''%+ub;>76afsz^ahC#u?i&p#GVg*b!I88B}Zz3-qIAM#D{HZU%!{c<^jKjkc3E@U*Uw*xoP}H;{dpS=4'',
     ''2->CUq1mQwTCwmT!wH!aJX^NBwV8Sl+a?PKK~#^H9|uQgTgw5`kK>5b``k&gQ+4hww`o*lM1F~fT-FK'',
     ''V*dAw*p^Rj-&0nN{?Ga(Z}x+a<K!t?M1UZpHn6zQ07xx6>~;zcvA~hK#Lm9K5pm(BO(Y&y-qu&<3T>x'',
     ''o7W-23JFONTLliEzHam4caAUwS3HhsO4_#1`rqTJfL@SZ7=0a@M;mJNOk!p=v2+*ZFh)55p_x5z&lWO'',
     ''gT9lCJNUHix?Z=pBb_Pqr-Q>MS7^{(s5ANA7tJ>|U&6MI3tUhViWlNwOD<y|6I=qjv9G%U?R)WrI%FP'',
     ''z$5(9mTM+8*oFf9P9n;obYP(e=_p5HbyIeKG&6K8@TA{u)nz0@*YOR^pGtHyiV7|Ke5>vkta;Y)3*12'',
     ''<zSTxkkpAcXk)l@EH`}g^c4S&!!dDy|)1{(J>)Fg$#%=32_CqLWyA%yB&t&ov7*'' @ '')=+2wG!PM6$_baz!'',
     ''kpsY~*fKL3HgEtOkCv%XPyBp|didQ0W6XEQ-k+|ME<Y1mNetxxy9-NSd_-TPkXT@VtS_g67ZEg3qPK4'',
     ''AA%&uE#xat?fv^cp8k8Y&`gG^7!ES(}U?Wo()dbcu@5!R_ndfgKxjvKZWOY`5OShbVUt;jq1ukfRxwY'',
     ''*(Dc7W#<r^aGw`Aj3U|W7!=7Ueqb(}+ONA*riS@_3e)T(ggk}scFE)Q*'' @ ''}LF9A~TZu?fUn?mi(rF-vqJ'',
     ''IS^-eD`~Hd?yt~eaJ$9FaVU8A;*n1zZy)4;i#Y`nw2VE{Q(-Ga{B{t?X15HZtPA{hLB1=Inp(w`^0JD'',
     ''Y6zZ<ACK0S|>cKP65?QW!PT$_3Bl6B79B8WCRMDEi=`$Y8?QN25~*%)f}gS;Iy*RwMo;s<G6qxBW1>#'',
     ''m3Vr)vrmjjm5?<H#!&syp#@Q-HKuXX&uMi2s6D<~jxaSpa(lX0OS~Xl&FjXc26JqwB>MhsuvPL~mSED'',
     ''q|>oORjrQW@4R{Z7?xc<)R`MZ$K2|T;5_Jq{@xHusiKTwnLK%yv_wEPfAS_t2U5Dn_IHL2MhCI9|DrJ'',
     ''Gm~$hJ$rmmht=yhxJ>C5Hgkqm8`u7u!wQrKjVHYwhIpQ7XSv#RqsS_pIqHmWJK!ZYH;;jwaSVaCnugW'',
     ''ggqeD7_XurcjQac4D5Ex&sJg3OSJmsL)?1~$+Epzg+qK-QzgggsKNROX8rlACYfk@BC%F~i##pJ=a0N'',
     ''KMe!T~aGbv_Q;QbATXRS5n^>%Xu+1lWR+1uXL4+0);aDWRrv(PP<W~(c5#02+e8C`07wT;7qAn-zj{a'',
     ''Xf5OD;ShEjT*A+()|dEJ?r()XENXW5MkmjVj(Z?hJ5<q;3fI=xU8pL%nv1ki9-;&aty$hXlkcK&x@lh'',
     ''cj5ZX~zfCEjNZ&-2tjnRIQdOiF11?2y;$!Xz1$ltV}8C8jU<L0OD-xc<e%&`yCcnMdUjH)bD1DM%B$k'',
     ''yk++xDb$kg)e%6vItL7-%SsSCz%QVKtbBy20s+N7`C;>?A9z;|*#~|;yT!XwmR?Lt{L3fYZb_w_+N%K'',
     ''GjVHQdzr7CGF(ZYSSzoY-;;IsoJr?zoK}}PF4KOq@-2ht|ioF3_w-dT<=`J}qJ%PRZrtHS@*mWu_nXR'',
     ''tIo$!bFnN4U9F-&wdt@+y@;i+6v^!aYelvWSpzWF1OeZ7G2KK&dC*i$}N0^9$%WxISf&ienCkEvfDET'',
     ''8`cP)h>@6aWAK2mtSfNm^mulnd$z004a#001Qb003}la4%nJZggdGZeeUMY;R*>bZKvHb1z?HX>)XSb'',
     ''ZKmJE^v9(SZi<NxE1~GUqL7+BBzdwL4n=Eg<C9UvTe|G256?3DS|+tCCcWEENV&0jvHit`<}~(Bs<A$'',
     ''(Qh?^SSBy;^V|oOB*~2`xRt6gY`+m&u)SclQeRo6G%Hk7$+ej=*%-^~ni<<w)r<*SBuO%voUxA^0m`~'',
     ''od)cf(zuk()GP6-#U9y#6T5Q!$l#F9hZ3SzU#J+5prGuUAw8+3_duR^}aM!Z1m#QUwc)k3Y*G7<(>x#'',
     ''9qJvVHvNQ_miGlG>8>R4Hme!a{_S(4isM+hN>Y7clI1%&Ndt5j`BqFiq*+wh%$HeW<xp(IpO?u=-5Qm'',
     ''ck+$zY;141c9+1X~@vNs)Uz3yx+Zx6q`5GSD<`z&h;R3c)tkwq`M(uch5|s|>!Hw}+O`VcA?7(+M;G<'',
     ''BvbQagHa}O3Sr`8_3S0GX_3kydg=Ndj|<eyWfy~BOUh;01tz2HnIA!m@s_uTy9&XZJwt|-g_?J@ZxJS'',
     ''&3u@0G9jH##6uxk%hGFi;!10!XY417=&U*`-0!L9+Hzwi6VDm2SwrD<{HaWQG6yrMwAv04%Ze@B?RVb'',
     ''-G_Z?t!`{XHu=ebfU(O;N1BctUf4lm}RsQ#@f8YL>C*n`Y9DETL^WtUUu)^m<WU>}EZx42(n!J`PPi_'',
     ''w_K_gJS1Dt2<1}tXmLqPS6{j0&l#M4udAlM3xt!%4GL6VA%K(0jV+^?6&dlOrrJ5YbRe*f;nr`y-bfo'',
     ''$6WJIyX0(OuI(>AY)7q4QxssF<y|5o4RT{EO20RyO#*6WTayDELCNWkf*+${V+q=6S=nBG0Fj$)pt3$'',
     ''m8D7)Io_>9igiOGq;8;*9*2n%7U@027Y~`h%9>a4)pgRcn|RVeXW%J-o7-d=19($c(+<q^5J`@F9MS_'',
     ''93XO!iM*1vFsJ;c?DEeJ1jJ-UcHR5Dq3TKB|3pdBNbA8TL#g#)A5)(IlAZ>n8K0gm7`;EaUPGxt0|!0'',
     ''-NT_tS-IH~X3AsL53}JZkMplEf+`<v-yTlY)w*E&#eD0FV%SK&N;4X`5o!kdyur*dO?O9Bt7%JQ^xwM'',
     ''zsm$F`stmWDqlc&?3Bvdh&Tp+F93HtA9*D)95&c;B!GOJ`$zQ&9`9^%=aYf6{&XwQY|+NnQ^W$2&O?|'',
     ''z3$(+O%_qJbt<Bm^mAvSjw0(~KqA7xcPRnT!;4IY?1S+o>!1E%9`!Pmhm#mDTFY2*IaiHNrWPI_oL3L'',
     ''*>h{mL>s+(527<09bz1o$%~Y^#xUU97WTi$o1^x;`NFOIXL3T&e;18AFmeFlP&pz0E3R_G8<jlxDIG!'',
     ''DK14-p^-9Gc{O6=b%dqVfg6rG7Oqy2gM#QV+LWE9gBA5t`5%${5hDipj6o2H4>L?Z=cOwF;Kf4@vZ98'',
     '';euf~`8a39;WMh|*FH)xo+3Rb`bjGTL)|QX-|0yglAN}`J@'' @ ''{EBq?t}rYEg$LsD-2}j<Su((`h}QZV-F'',
     ''7*AT!Sc$CAjVUkMM6m46NtPQRs(f!n30ut&8Qd+y8a(Noxa!T)Z@`+0FvDyb~_DntSODh`DCQLi7Y@a'',
     ''OM9LWh84j$tL0$fAhAg#Dg41bJr>9@My*X+<F`=>|YQBxWdGaiEO#_(Gu99cZ#zU-V4;yoj7nWhOEjL'',
     ''oNR*40)~)B{CiU*%2(2-LMwJF3F?W!ZT=rPpnKch6J(#(_=PP47qi|>pef13(|}6%8Cg1=dSz{jqa+c'',
     ''4{XmdV?#9(t$|eLR0IYnae7RgIWUWdww8soH4V1EU<h@CFo5oq_w)7&Lm~^Ku`g*6RLMx)gxu%rh}Q{'',
     ''YW?_dqGChq~*0m+-O8S@t&!GJrIRNns9y;B53W0<QuT3xMNFK<JVNahP<~?}n13i4Myh1#vK}1w;Mn}'',
     ''zSB98KBgxF*wIMnvNGuC=n_+Q|2T<GD~qV7s@(moO+?de*T_%ZeImFX>=KAoKCr+{HOcszQY(tA|<pZ'',
     ''C<fQF*E5PK+!wz?yZ7ePiP*L*MB$hfJq;Z|;w{{-)1JsoAmcyElvbpt<(5R+y{&C`u0b{~JQxSn00?$'',
     ''K&K*Q6wly6K_+3Y}HzrRyAd~H~Twl+gZ3t!%h?wlet@b-?hCXRMFA('' @ ''*Y!`RgBx!tOsoJ_JlOu8%6DAW'',
     ''e1+Snml{U4c-;jj#K_?<Q+hrB!#pGqzDx0tZS1x_<F&h^SaCV-+dgg!r|CE}B$b|MD4^#S^@*?DaD^a'',
     ''iiAwF~2j9Lcy1pWc<p5y+{viM<(h+dR5`EyIr7WPCiLV`;gJ~}r&*<Td2gS>0XfK`#-F@WNqf&yw2BU'',
     ''@2hu+JE9}Dv6a%t!)AKPzav0;kZQGZ;5H`nwQ=91W#V+I5KQ1<1HYNl%%NAo*%B=ogXxkN|gY4Fj#n&'',
     ''0M#?C7$Mu9>#VU}B-x|84$kvr)}uAb?>f)zHtgV;y4}yzEcE`>IEK?rtXhjz?qm1U}2>7u2B~I#A49m'',
     ''}kt_o9M_{oYuzG=5|zETw?ovwv4qb_P6_?(1vC>kc8$qA_>4<KC6hckxS`fHjsqhV-hr9-tW_oxH%nF'',
     ''$CYeyZ&&Kd4hqpCj1Qkbe_pWbhAB)*qqhp7shAnP_ld(~!5ddNI8yIC%g*UlA<7akXJ&z&Q8d6b0`mu'',
     ''=T+qyg9!2jqHtyO~OEfJwnu52@MrCr;2I7Hq5Zzxe!<&(zQ#sQPr%fdET9(`fj}4c=Gq&nvT`E*hz`('',
     ''F`a5%@v#XbR`YES4?e;Id4N}9-AJOD%{^+Kn|{qi?7!S+atfGmF|`0i(=i_x3Wd1v&zR`B5*WDfDDs!'',
     ''hpt$+o=saLXzx{(Ggr#`)F+PCwO%18%y+>f8KAt~A$&`Hfnex#L6Z=>?-pp|=RLszt`z)}7f&u^(<6E'',
     ''(X9ij&1K2KcIi%k^vp|FlThTxm&ymd-K}^#?NgpHCdb*og7=1j8pA<z8mlyvgriOfyMC~y_A&C!|kB('',
     ''Z=;V``P}^<SoxduuTV<^1QY-O00;o@hDlmUM$+Kl2><{r9smF(0001RX>c!JX>N37a&BR4FKlmPVRUJ'',
     ''4ZgVeRb9r-PZ*FF3XD)DgwOMU%+qxD0?q5NuA7XcovfcsvU?2l>yL30ZSratPx*;fJTB2h%GAW2s9HZ'',
     ''!e-*ZSxqHH<I-R^=mu`Qm5Jm);;jh5>|mlezP{k>H8BkA61)4Vd<@MWsiQnstAZ9y`lWvSP!kVTwGRf'',
     ''$sZJQh!>C@QIyVSe$2dgQsxZqk)li}!lHkc!iSDZ4eIyilg%d2T=PD~Dj$Iup5xjRk3tZ{GiM{'' @ ''*UwI*'',
     ''YkhhOqs(UlC3KV(MMTUHP3~5Y{bi2DX5XuDidYWJ@<OW3vSx2(iK<tA}O`5rtDr+$(n!DWwMqEzaK?u'',
     ''tU}Tx+B_x8lCQ-^mk*;6nOBtTw6Svx*-QJ`I7t+iCCOwo8ogm3btMebis9T#9Oo@t)+)7zjPdwZEpdz'',
     ''*mJ|7w&F6H4Oe}ewSBW#qcru@}OlIn+V&X}fiY)|W1p8C`?vGPuG^<vk6i0?B4ZscGvPv^<9`HF1W>_'',
     ''vC1dBE+UO^99%#M<x6ifMZ#Jt^cJS;Y>fWLsfj$-zCC5!-Gds<eN4q2HEG_MG6BdZlo0ECsOOPo!nhH'',
     ''X|d7mTN=u2qE-Fd#CX9j|l>yk-kJF3hiCW0A4Nmc75;Rx7Qbhu6QOCpjy}IaOup6tjyZ=>aqcyYrl7S'',
     ''~&P+ox`f_(++XUHsUDH*%B0G3!cJQWIWEUuWl~><;@b0M#<Sf&n_;{e!e_U94T+$awDp7i$sq1p0a*7'',
     '';|Uy}Tz@+MaQ^Aj`Cq+Ua&~<IQ7q<FRgQy$L<B(o5G5?(p`s~>qXbb1)?kTQ={nDn+K4_8y(7mHcKjE'',
     ''%&^n)u7=EHCdcP9TicEi2Kz*2XKJSa>a#8Yf3wE{YlB{zB7-y<dF6zp8rvX8nuer+DrBs4_#)gKixN+'',
     ''<;g-9jOJ)8w2mOu*U&cF+yW^RwSpce%2kF)kbY*EWRi~WKxpb$tdT^b=8A?_{L$%~ahGO()qQ(L^&@1'',
     ''A^C{rMbOqrqXv$4(4dk9m&ZSql)F*nrI-YQcg{hqjzdiQ_4lZ@og=(JtD^r=&rjLK_E$1R+yKA?o*<&'',
     ''wVOre225>x+?1G86U;$XOCy3O6`7)9@6Xl$YstK2tB8DpP~CXWopr!B0eveD#M1X6bRDPMU2DRJMffD'']"

lemma good_DATA_1945: "good_lines DATA_1945"
  unfolding DATA_1945_def by (simp only: good_lines_eval, simp?)

lemma lines_DATA_1945: "map length DATA_1945 = replicate 150 79"
  unfolding DATA_1945_def by (simp add: numeral_eq_Suc)

text \<open>Lines 2095 to 2244.\<close>

definition DATA_2095 :: "string list" where
  "DATA_2095 =
    [''Vd^#Z^W1P~WDiPI3wV!?0`sjo^yd_Z2I&HuEkv~uLOsJr5X{2u8Z{oYT`8)%q=bJM(V{u)OIUd!R{T*'',
     ''yGw2N)8Bm>c1wkp5f(+KBfkpcH#iBu4*Z99dd7yxRP$ocrn-Y8BklJ#id~y$xI?+sU&v=Ba{p+-0WBb'',
     ''NF7}O~u#Qp5lO3{&s6^Cl!c+y+CTj2cTHvjaEPRRz@q0Kd)U1eBGAaNfgO=%$lktNd_=?zA1@_!h&NH'',
     ''oH<so|`(++l_g>a&T;Yqy`SrZx|SwjoP$=1s$38(C^a&TdlCMZdcIfnA|3u_+DvU2m_qR6oB!dA%`g4'',
     ''AO3kZKA6Ad~yJRID&{D#Bl}4qXZCFH`q9Gwv9S5Up4!Zy`X6k{$8VZAXfm2D%BuJpoZ7LN~7Q^)FY;C'',
     '';YDntZZq-;>>1Y3{gCaETY^eMm2uXR(bIo$)wofA(t^EM7x$14gp)(;xhXOA5*RSiDO*P0kx%2DK7_3'',
     ''JBl)h4d)4ZA2xl;4_fB{~x&c3Mj#q*okam@&r*ET`H)X5bZ`5Y@_#XCvG-GerRm(zKWtLBrroRz+sf='',
     ''LbNL5k1yN|~Wb7&M&G3uu>Fs6Jdk<pqL)7bAtZQ86O_I^HoMMm$o3Ou>Pce{;Uhp|fxN`$`emjCab_w'',
     ''KNeR+GaNxD70i*{JDk0;h9{qIzJ?^u?>s0;frj11n91_<0V{n*YD^X&3MO1CFpOeh)|Vt>R#5PQ5KM%'',
     ''%G$u4ErFqhBhLlT@;9ldi4}hhzXjc;!*O;l^@b^);niD-#KHBp&>hRJ!TZX?pBZ$!zX+1eXVov#FI#q'',
     ''_M@*OmkEOo*S$<0dFg`5LQR_Pn5HRbnC{pyFAAZuaJeT)(5P7%>M`teHzTUJ6Oqu&&RkIc17-=~J}2Y'',
     ''M{7p)HWv@(leh0CySVzZj%jm}870aa2FpJ2Bc5>Eu0mSm#-J!G;w}1a8TsIK;i4&bL*lh}}vS9F$3Ud'',
     ''i7I3<uul*ac1Gy6$s7g}r+yKfN+Gz9$KP5_`B8oWo}QMdWj^&c%+rLxag=!mgTv##LPD%{ao9kGd-f-'',
     ''Y77-}LG(g@)6omvJ5$mazdaAmiLaznM+6eo)eOK*(e%(n?d;YKPQP920%A5TJ9MyjL2Ny`2aVS%n*_$'',
     ''aMAs3wB>aOSzD_thQ{tp;585ik&1t?W&|vyO~g$xI8uzF<Wd~usB`b6Xns((Vmm=L=9br4dFwpu{%|p'',
     ''qSTKv6LvOi4`eUT8Ut+G)M%R88>B>=IUJDPc_(`xx<4F8$H&%{Qx-MjdRG~3LjLbSt*`r_J=DEaVe@f'',
     ''!wS$=IRSsW9y{0dSxQ1h>@(!(T+E;hLH|!>uC1>mlO)$GRBW-qevNpO{'' @ ''*a3McKXp=^4z|KEyAk3Qowb'',
     ''L{bV~D=zvjzC#fgTEUHvQ=Sl0Tkr}JKq()8qqY_!|gz34;K1WEmaf$;Z-Sy$8_Yz1u#!jI0Q`v*S^=h'',
     ''r?1XbwsLaHpp%NALR;&3-y|x}OFnm=cCLZGl>rTy|GYIQXM'' @ ''LeDZQ3E3)R)-*IKyGR7sLUh0|R8QtA*^'',
     ''ALN$cQLz`1w#&^Z0BxqzzAvuni<{YYpVh2J}^d`2JNTj;<lUFX&QFpfHU-ivKJ~{a<sc0-G2P_<JFgs'',
     ''M=|>%JQ#ko!f`U)=AYM3_G}?i4(JZ6kj0S+6z%EduJFc2P(UHr*t-ec$lI;#{<35IYufX@jL|06(~cf'',
     ''QfuJ>++R@ElK(>N?Y8{4o2BNUDfAX}o9jANu{lGUN<B1<~ThiX4p-b~R6A`r>Xjkde_#3P=rah;ueU6'',
     ''t@t?;+qG033Slx;WB?$LfkVeeVsBi<LPQ{UWl7iQE)B88m#^ZB>Y*J-z+E=9P)y$x6RF66YQ(5}MM?s'',
     ''$`FkgG~rRHgy<Z$of2+Pry8ubXFWjk9gXVCq43fGf~eB(_Dj8Kik;^N-jP>4PuO`t0b--{BXzE%*{_+'',
     ''<p`0zNfIZof7V35~$cW{oA*F+}`}<d#kRoMoAvNNqoaT=rZ-qCsnVL+LR}`MmU~8$SR1Mr!rn<Y|YcF'',
     ''o8Zd>Uk<xKv|RUt+THBWUu~g*=tio@6`?j5?q=`&^OGBU(SLI3O3+EPe}B|JRPWMuD1A=?3Is;*oZGR'',
     ''$^EfR}LmbEM--gpf#OOazO9KQH000080PluLTB)8zQh@'' @ ''{j0Q?C603QGV0B~t=FJEbHbY*gGVQepKZ)0'',
     ''I}X>V?GFJfVHWiD`eomSg!<2Dd|*H;YW2g|J^?_wVc7)a3|>%|5|)(a=WwnzejmS~%6nN&&2mj?Ow9#'',
     ''R*'' @ ''}n*=Qy1c`W=nKNf@6q`b6ON&ybR;k<sqS{dHml2k?-v`tAOqE=SWwT)qg^<f2SZKAOLKJZ#q~%(&J'',
     ''m&k97gi`~sJ?t9jb(Yx+~!1UrC$>(t;kymRuq}g=FNNYR%lzYoXc$^qDv_ODJf;fb#gopf*xHIMJ`fr'',
     ''pFRrB;k_2z1a~)+S#o)C`FWCjyqeK@V>d1hbfhd@@dWEA1cY$lG<~}I<9b4w;zsrXGfh<~L8#KSby#v'',
     ''C*E}PuXql@y%RQfG1xwd#343mpG^;Tgt6{U{HePazQ@et_QuAEQoy{QQ3vwqL_Fd^@BP9NAxi)Yn8qn'',
     ''FVPR%$V{DfiX|IfHBwIsXZ<b}?>5Y<AY7XBzLwdMf-^<Y=nWrmnj1rCSA<7Hf_{1E>V5`^*b{#_WK*w'',
     ''K}p@aZ{zdJbc-uwgd(2@b`zEre~M8Yj{flS`gxrEDbm&VP6khUC1KY{UKXg;TXZ{pMDmcEYZx-ze!*p'',
     ''?Sd(_$&^*(AA=QTNprf>9^%WxQ-=$`Cp~jx(u-{T*'' @ ''}1me*9et*@8Rb8dQ!?!JFO*12qB}=TvBJK=K-_'',
     ''buBjLh{?>6Ey*c%m$2}v>`o17w-V{ffdTF5`amu{r#GW-LS|}byzn(kX?jz;bz5VfD^$@AiRSC03Si%'',
     ''WGe|I<Ar0r6=>xVhVQf`d8<mwgKMkN*IL94iIzOkdP)6*-iuU?gD%)}+44a#%rQ~?8lMDaGV=KdR!~c'',
     ''(l`}gC=LB$3t<P^WO9q>`6eY~CE0A<$bHE0FapG7ZGL805cfA{DWK0Jh{7~LUs`8xm-{CDgv=C0eCA('',
     ''vjZ$LPf7BD|ApsdkbI+;K%Vrl;EN=LZ>{Tn;ap^g*kNjU0dqHA-Y5_AbTBAJoN172SSgbedE`KeQQ;^'',
     ''j5QtI$3d)@38NgaSft68B&OA;ouc+>RvmhHRpv>MnY1$%Y3s1eu_|ns0HUNBg@?sK+fYh2c~04tv;N_'',
     ''@NHaJz;W1!1}DHgI6u`;iatW88hZ#Kr3|6$_SK!zzAa?+z&X$gJ$BB~3~-L%Wv;JgJm;2YrwG9h-wPX'',
     ''sx6oHPL<dz8(;Pr}ii(C}45g|8q(0`9D@0tw0z?p)IIMH7M?OqwQ|a`Eex}asJVv6Sve2sFIzIrTQTe'',
     ''t;)}xASqc$836vlJ0<}`BLjjS3Kz6FiuLXP6NI~y8)(K-BNJCg5Gt&L5O?!X?%cZ1hW$!18pWNSJ$<P'',
     ''3-%x={r<T$<8#U%O(qZL2*(PcON<j(%$e%TZxj>s5u#Pj_c!T)$)DseiDr{2odE=w>nw<5%EBgP=}?3'',
     ''yYpTFD>unL#wyZ;NKTFSGN=R`dj<zigR67kBex-_D1~8&%Y>%F61gtm_(U<vd~BnmqAtS%^^4L^6ECC'',
     '')0ac_nQR%}D_{S-{XG5hX?Afv`8J*X9u5Y<KTt~p1QY-O00;o@hDlnS`Zg7M1pol?5C8xo0001RX>c!'',
     ''JX>N37a&BR4FKuOXVPs)+VJ}}_X>MtBUtcb8d9_zvZ`(E$eb=wJ@Jr=R6%Z5~3S%9Xv~CwPNsZ0hFa&'',
     ''{2OLW9V5(Sb<>izoNOH#6A*-hGRez9~(-j8$0!z)qNQW;2PW%wskh;<;GWz$rtk+RUOL3U4itAmY_C7'',
     ''5k3s$1~p<zI_=^5&QMn-Aw#?<2Sn+C=cNHbPdch+w&`c?2obCUC23QOAkExC+PP#)v}4rO;{XPa9?A8'',
     ''dLD|<2BQ~9X!M5w-`Z*bwd#%YnfN~LdmM+6^4E%3XZ87UjCVLju~9?QmU<gv424zHp9GU0pRaIbr%8?'',
     ''r8*W$8ku5NywKcDZ%yzT<oa)(VueY<iXutSa&4zf_7k2&J9{tf*1VT|YwnfMng%bo+$0&_u%<8xAA6<'',
     ''YBjyKklVk@n)V#owk~K^3c$J~`CI|uy0*TILQ)Ee_dE!vQ{gag3u#6cNPT|E*K>Rt7CKF24<XnM~fNK'',
     ''DsVYTX3#_h`03Z%l3`tCMST+2qKT%*xv5C_)Z*%o}I5p5;%sE@j<V6inh{=JM(PQHtPRhe}%4k9VT2c'',
     ''dZk%Uo#OuobL1$a}7o$TE&^TVQx#nz}&q1|HZ}&s<8+;d}!<eBquc!PW(pnJms1$?w0-lk>~P$6uEh='',
     ''V!^~e0lozba{$VF_7k1h%nX>KqgYd3|92uF*{NjF2usK2o%3%D#J~qDJfU2_l2oz<TLg;e%uGczjfS8'',
     ''<;t#^N%JFty=!EWWf|geTgWvlNJq3`SovoQ##8Z*;pthe9LU~T$?mXV&*cGX!lttI(Z0bMiXgKuY$Fv'',
     ''Xz_Ci6d2a`Kz<i%CRl}c8<91Wp{|906o(RUescQ_a!w-BrS4ye~{$NGJ?elczLja;~8dcd{9(H;aN*('',
     ''*?*OSk{Fu9pdttS*AJnOON2{mye;YSExMsRX64rZZq>zp)=`ElE^pBx@>W{e8Qb0hd{jwsxS7bY46X~'',
     ''7WvGj|HZR`h&=SErZr89ehcc|GX@p@+$U$;r(#yP~g#GkZN;?~CM(o!FDd-n^cb1nKAQ!io#kBq>XC9'',
     ''+vEr7XR?qSGX^xR<nj;<}}JzG;6tdOxJddxO-{DL$FU7-Fl%96Yb_rgRzqVR0AG|P6qR)UXhQ;e_Q4N'',
     ''v`&@Z`%~l>VmR9RID-)dfM?4Nr;So{mU@1@5?h^gNorKqK3^cL9;Dn~spKb@npD(_Ij-(P@3XyI?HC~'',
     '';UN-`BwBA-LIyI<LIf?@+Its|vN(YgTS9jnQO6N@Ro-YzsV5yRtbgsZ1GtdGL_x?_adx^z9;jj;UA8<'',
     ''-a&${mCnwp_&+}AfZk5a+*2|zg~-1>T^Yo3aY;2B*;D3lZp#q`_h0P3+ax-W6edb<_(INWYd3gjqj7n'',
     ''F@QmK3@LHkfz53(^(Rk&(CXV^MZmQDC@!*I{ow3XetDBTWzpM-<P#oGB_av3WaE21i9GT!;<TpzjGg^'',
     ''Nf1Xj<A7VjSf$55L&6&XHrxSfsVZ{(n0D53i)*EI;0(SvU-8Z-QhNgDajXfyWn~0g?<X8{Zt&Lor4`-'',
     ''eQd}5WN1w@@C`V27_t&bYf`b2e*x5okH-#F8|IllOv(QUbQ||L(00MBW{Q=g@~@;SS%H^T2DOs(5dk#'',
     ''Nme&jMwS?Klj)Z;m`^2?K4Y{+ix*^*sRR$Gqy~QTgeJE`3lcl55nGSFq1y4Uvk5b(=loT7<to{p*-Nl'',
     '';i#%)_=8-xm0BOq2oat{FY#y?RJY%g)@KG7|+MMw1UgZ&Cps_wgP_So-UFj&kN@Wc17;(i7@GT!;8?j'',
     ''pCyT74bsl#ai7kCOYZ-J%_Clzs<Z*kLfjHQKdezRaCvn7y-4gMR@~O9KQH000080PluLT3G9y-uMFm0'',
     ''Fw#;03QGV0B~t=FJEbHbY*gGVQepLWprU=VRT_HUutu2ZZ2?njaFNan>rAF=T}(lLqP&oeOpD^BSlSC'',
     ''?Kzva>SoVN6h#h9f*Y`1+hiA2{qG$c*bqpnTG|UU<8SUWz9I8hqiAX%BReHZk{cuS<o0&YOkQo1RFt='',
     ''JR|=uvRvz}75)93#p`PcYp`@%xa-bO~!b&NWAs^jWL^4Q42AjP7Ea{>9=-(|tYr2Q-@}l`{Bup(C-*>'',
     ''DjuOl*JsfoxV)A;+DGr=R0Qf)kMF<(w+)8%yY@M-=ydm{H_<q<qL<TEWHB8#dpOcoG7YjBLfU$nl&|A'',
     ''W#9<wxX!78=5+6|gr)#B0K{n$wb{NMEYzME+V(vlFTu(w{16y@D*hE>V_L)ni4VQ^lmYXvB#Ze-PXNH'',
     ''}SHTV=w-L`bDTrj~E|C39-Z!jIqTFF9glv=WmZA=Cm@oP*=#YOZAAkpo|;*f$_Z)>&o3nmIBvfBU^er'',
     ''f0YVL=~9e3kq1`5Fy<c$ikEiGnRLea20to>kns#_?<(_ajsA{RzVWfyKyg}(szizJkeW8M'' @ ''L)MXH&0R&'',
     ''Waxa<nWvfL2X2e~4o|nOneAj|+uxcSdkBe+Vv{506|FM534nu*d6eo_I6ygO`5GD#_K~o6)7$N<QAGU'',
     ''C%-fxW9SkwUjpLEUaAZ_EW5I3@Yyl&8a-^U_70ya18go)VNND$1wK<d9wUp~h;gd{a=TL8%r29t_?k>'',
     ''G95!C2jza%PzBCQOh|n(?serV*-MpZjJH+YzQ2*M@R*D399V6`myQN%M*yv>hqyGdgxH+141}hycf7='',
     ''Y|zOAACVR0BhC0UAVs|KEiYCuJ~@tj6W8)$Ef-;!=4-R1Yl90mk;qB!OlMDtHRFWq%kt^E3=F5FooBo'',
     ''Pj-@4_M#}frXY=txrLoM@VQb#{mJN0JHiDHavXq+zbDj?0&tk4{rsIFJM8<vGOM{hwyQ~7LZt+r1;HR'',
     ''w;knOkrDJsjy-gJ~7(LmZTpoIDlW1HnXvxoC?%S4y>lj>mcI()h7_6tW3UsnI5?0VQ&Ux|S7-zhKH{t'',
     ''<m)HUecun*|8o}(OTQ9;)et_|%Dwg0WxZ@aR8h7ENLonOb+#$*p>LyMx-ZnKHo8a1#z$G5^6+^J~*hv'',
     ''Egh(14-3Rz(Z{XMFV7#RN;?(5<y`+1-$7>S}Z=OpZ~-<r-^{R8jl(p*$m6;#51)E+E)7jV0vz9t@6h('',
     ''v2ooFjJEkd^8b($+XXk<Wk%Fk#8f|q~l_BcM(|~6U+{iK`-!*muQK~0z?YeBZP5;hq!%=ep%ZZUSa&!'',
     ''olH~QlGb+VBhkLI0#`a+{##zqwg<Y`QYJ%OKkGeOtcF&wYarKCjjZ<@P)h>@6aWAK2mtSfNm~A*V9Vh'',
     ''d007cr0015U003}la4%nJZggdGZeeUMZDn*'' @ ''}WMOn+FJfVHWiD`e)ja)k+cuWJ=dZvp*NK#qn09a5>#5'',
     ''_r^VUw!d-*!YX=m2sqaYEISyLpJq@rlExxfA12LJ;6knK3#o%J-8L;?>F5APcfNH#@Y)?!(`f0Xc7wU'',
     ''J30Zd6stwK5M^+iY3qd0LqVzgBr>zNh(mon&kCvyk<5nk>xE(gOKQQmm3xJzACdM%4QP`Uw4M^hm(p+'',
     ''3N{?9%p<0@?)N+YFQ_FW`1Y2OfpsS&y!?X^S85Fm2#0P=U1KURxgrDw|XTvD!$kjrrqlTLCchXy(#lL'',
     ''U*`Ik)9hVF2#g;w=0#G3(R-D}c^MXRc_VT1VX6MSO-i*<SzVb~oj1=8b*&1uOje01ZO60hy-bt%t$8s'',
     ''K_Ul`95Z1O%QVZr)UTy%+UsQ}UpNOT*@+?`>qbP$%hakNNd|=)N*3bOYr9qMboq>Fz`mj_)N@wIuy;Q'',
     ''Y~Wi3z3GB5kOrTJ2Ny{e>E5o4gLiP%=EjPO}s=S?1~v<hRO@3M}zW$Lri$=Uhoj~CIq^B2*'' @ ''}(~IMi<B'',
     ''Q|y)$z+y!#LRMU75Ci{)|*7oCs-L^PZuJ#^EyG0H<5j>lk=GDsI-55Rb*h>yy_r@iKp}M66axmLN=Vt'',
     ''x6RRLsaW^lqT7YfoXn6C{Yo1i>iG^zlMQql4@xHBvphoPA4KWoN!BTprc(4_#V|cci<jjgko>rZ>lxE'',
     ''Cr$9^EL-Joprtrsak;E&;99K;!Z+Je;oGZ6k5E~t5}IkP5w2DJf}V{c;>joiL3^}JWmSnk$V#1Nb-90'',
     ''&1EM1%q2n1X+kX~iUZ}F((=VX2!2Y93rK_=+{yVHm$qn(Zlu4z4FYB`n2sVnOifNHYFkC-0kiqR21h+'',
     ''2pZSgta9%1ijnP(u9HLO@wOHhk(gvylJfq7mbrDm+TnEqiHUNMU&us%Jnd`yBM_>o5uQlx4vmwRD{o6'',
     ''>M${ed++yr^@5QdnjJWbO6&2|W*a`WM&AKv*H~p@ih6s;Er`Mj-_;1L*'' @ '')5H8e%^1j}+>?k8e*4TIqu0'',
     '';Wf~3m~mMM49LHM5u5bS}3SVrbfFogK30kg)HU9(2!Ueo`5dTR~o}E9jI~Wc4snodxI!X{W*G=yI5;@'',
     ''rK-1OR?Uc#dhJzghNL#n^HMBS1=gEXQL;$Vq~42N0;5;^4XO^%qV;tGv&~`3Sze<~74x}VRKzyp`CNc'',
     ''*Mqu+fVhv`j%G37>-%P|}TZ_6(pex|G%gY;vUD)Z(7?E#6@e3{3d`|cQR3H{kpW4soVTj<s5~4yRdi;'',
     ''4SQz19`He(_YI3o_EZ02($*nIwjNLKa-s5Ed;iW*piMi8<nz;K}_!K2VRDH$^re;0~Bg65zh>z$!~s@'',
     ''DwIoj#e_2y-DbP2<b2uf)-j2*NOE#1t?=BGO6%@$vI=`b|$mBXZ)OkHiRHO~&>em@U=Q@`%CB0AACSa'',
     ''5~Z$eKX@X%o-@RBdcI>HJ>7YiFit_$Bh=%Zb(I%bksOOT8%oM%M5|CF8NTGviZ4@<&7%&x2v2_z_%(B'',
     '';1f{!9raAjHmbhPW2*$oidi8TEmPo7`;*|4N($P*9ooXOy~t%uiyAvkm~EukXuqQ);*Oj;Lz1upfA@9'',
     ''N8U$Di2bwYuhAt-eFbIR>FyoR!M?GJo6FIV=kx2H3ZEV`j#A077rv*YmLrBzY9)msl6<wv)s|S+1X6;'',
     ''0npd3qK+%3Yxq5K8vA@~n8P>l3W44uTA(>LO~Z@-6mh_%Ylbw_!YBB-uG<L0}7#ufPj@rMz?27o7P0W'',
     ''TE81oI$BeKC5ddU8-;alXq^m;k~=g}F^q`i_{(WsQ1>!0%Pv<&z$2U)(n17Kmm!o}-$<uY{_hC+kSk('',
     ''q^;{41euVf{kI(Z?u+2aHT4M3W(hoXVl%bQYp(UeVvKm7yJw+!gAGv#di%hF=P1M_0Yo};|eT64=R4*'',
     ''IN2TAwP~*j*BOB5Qkl@}7aj;cG6kkrSPpV}0~c<wi}aNFtk};WAezl}xEuaK#(zo*L|`s#q=XW%KwDS'',
     ''>dxjk>-euLcKrdSvOwQbaVXdVgJTa(dLk<2tI!G#RnHKi%jm^6^H<0fcAyY-skn_s+Xcc_K_hBh_#Hg'',
     ''P{^IHd#pTvltnb7akIB<snuwP=7V8{hG!!|>h6aYHKS00o8g3(%+OM&#r3#e~^UmXTIMs$%yC~UxX=q'',
     ''hAtiJ6o#Nx`=uT>v3mtv2LDffJKtOMif>QTsAO7I8)sIiORDD&Lk%43Nn<$#Ri^tp+~<SOI=5uR(w+G'',
     ''+G#h&*zTikPvG3O$a1OqH~#K(+&7&p20lHX&!FsfRznTla!Y>lCCr2I+7tUuZ34@Ga%7LUF2!96zHge'',
     ''Mgd?FtO2^isK83?Dq268+|GrncS<$NKdH%OBf<*p>ABPUTpie99Tg`vW|$(Qi|@lr7mlVj{m2Lys6Gq'',
     ''ySWTXni5+&to5fzk4C{Q8qH(K0MvAc5GnX!LQ5ymvJD>;K#{uls>IetvXc5EMtDlG_%Rwt@=!L+{iUG'',
     ''?n^9tN;TvLouwzZlF<S=9+Sh@eOu$(l`ksx_)p19t3^R(qbyRSl%_lV3aMq|IZqfeYH$H)Nz{|<TVkH'',
     ''uSsqDG4da*DZ|DdldE6Va2|$@B)b0f>9ZvMwu}^G;SRNHMO<LIEV|h)WZ}3>w@+uY;Er!q{LqOEmH{<'',
     ''+x2TuV<G)W_{PH?qOb3N0kCI9Hab_S+)5q%JO!>@!#mWu8V5+?AaPr$992vv}eG{@>!7-&yuRzs_NM{'',
     ''U;pm+|1ut0GS7mv?E`Z8kPJ7elluy<D=$wf5m-opB}rRoEAT$kSbMZ!e^Hl9(2`yn0s_`1N-@H2;cTl'',
     ''d^_<Ufd^=@~rP+}n_S0#W82pqpFQ$zc+f1qj$a<p#&L|i*EFh|}veTN7el=Q~064lFfmz-MK*artufU'',
     ''XE8o<c152+lJoE9TcIG6xPmfKX86F-BY(+2VQi>Y!9<L<=)FAUn+`wK5&%6~;7UbVA2upX_r=WVh{U{'',
     ''<UJ=W}-v<?Swm7u7kgLu21R)2?IkNSe%A6W$sb(eup^=8aAwX^vhXqhNS|dp-tSn%p2Se6)_;vyaw8n'',
     ''|?HonIA^~gZUWjeEs&GMx&(``v^y%)O^FIi#$);o+_bcV?dV&8g)QqG|Iw&)k#&)kM%+L{R3Fl!0C?b'',
     ''21Hw4Ljy2g<bd!-VWY%=UTEUL*Ik2lAQb^2Jg4*`M+?EKP;R%0gT*fpv?<CLG>eN&tr-$G#YjT}qT9@'',
     ''6-Tu|^Ml_y=_pmS3XJ7g@QX8D-61;=974q_O9*i-1CrE?4Fn|O%V7-3$(u3;(P6~i(8!2O9k}OWpUF^'',
     ''{#JLy7#H6G<DC=H=yx>@KPa8$C|n;nY&C1_KBi17EPxi!Qpiz{T-QGli?xC5QBb=2@K5<S9I`$9tJ*h'',
     ''!tn?nvF|tp*#)uFTPMSaDb>+~zZDh1N-D<XIS}`o&azFlmD6MrPnN#GZl%{iQhZM$=VUwbik)&6%>~l'',
     ''G1fNnnqE$89P`#YiNiwJ>qaW16h`I#e~>Fw*4eGuW2KXr^Fafb$*TVgp~@#F^*R$M'' @ ''LMTXxeg_De|vq='',
     ''*R93CM3!Lu#gq>a@-DiEWP*c{FDnUwx1ASsf?dn}(liY`uSDlPkm1mGvK+`Z*#h&E_8m7{7DcLewp`$'',
     ''q*vJ^;Fbk&<FEOGGvFkG5uCGz9m^IC&(s&{$7~GR*1j4Md%nhU(+z465<nvM<S}edtht=jZ-AaP<J;H'',
     ''4Gx8MBhfV=zm=SWM`zZFYbw=nXz_x<XYhwb#U8f;+eYL^EAbuyA)u86=fQf6ae0JyiAZ{l~#fFsM-l>'',
     ''=&OHjuS@hOK&XP!b};Vvj)(_~AF}2;FbWM22<VU^8a(=5I<5ILA&rZ=wZo>WdTvVH8Y*i3p-$^W9`?d'',
     ''SW<R(&I;RuNPQ91~akm%{Ep`cRABP=biZB{MofcKUmD2^br=t%&lr_0&v_kUiGvjy+;ZCeoA3cf+uWx'',
     ''2g+yw@QLH71}i=qDtvOXS)4k+4GCbq=lM2crt6hvN~a8Bp&MCZhLnE7DUCFOonc2FfOjC+pyE#y{$JN'',
     ''zx$hBF_{X=eUk$bxuH7;%#^_75@^@T?6z*gRQN!BDiD*wSFeyP={40u+;9~~=f=Q?O;c7GYk5<dqXx&'',
     ''DwN8`bTxy6W=1FE63j<y5wP?xEKvsZ5~j$gbuJrBAI`uZ&sT>OmDy8hlN0PHswL4b+D=Q2qlJOl-T$>'',
     ''PK>xZ#i+tpJ*(1qSQVkrK*'' @ '')VFEJATGI$Cu<$j$tJ?YBWvXO`X+Z3FMEye)=wj4KlDbU?lgMtPwss2!c'',
     ''cZZILRFyihny={Kboj9I6wWLcc*VJPEUq4qfH$jhKmn5M'' @ ''Lf8<F*pR}*AF;_XR8CQpw6Bww`GYs?0r(w'',
     ''HoVH<Tb`jEbn_AEPVOslQEo~5?$i^AGuT7HO;GL&T?hQ7m2r{Usb541x%BQ%jM-Kg4M05LR7Y6LikaU'',
     ''blHHCc+74S0dw=8ypod(jMZTS1Bs#K#jSo%CtJ!_n>^x9^iy3+Yj-3r}BWwtgt5|2kRJiu@`;XUZd4u'',
     ''V33WYG)LZw@p(_2a6#KgAYy|>~4<FbicqiP9Ci|axh;+y*SZYKLVL|0Bw{)GEiPY7KMhnf-;+YLmyX@'',
     ''^<2Erm`b#`C$^a>Tg30Sq(E%NX+)d8OKsS)&MA+bRH!$8qDeiKZ3rm&)a};6@LqXJ`!D-~zW@>2v5}5'',
     ''b0giPAN%`gN3Bz6gE!Klw_(8Shiy`$`)P=T*spN;0Q|9j~iuFd;>UOO+SwxiPxh7YqZ;32u9`7uj0PC'',
     ''NBl!oA+`n!E5;h|-Z_=<C4b&0wz6khz#qf>b<|OBX5>2$3gk0Ogkh3r0nwK<bsUtyuw`Sw*Khv&r|H?'',
     ''N=dTAg5w(UxwSvX3LL*>YC7S}#+izl<$@hRLQopCfsh^X20a-AdltZ5N_=vV`_)w0nN9xwFxjbbD&@N'',
     ''_caU1W8-^w_)x!6e8sa7M?XWX^`=Eab?vV+CRvTha?j}dWE{BgGT^(7@^zWa`X*'' @ '')+keBMe5SU>Os%BU'',
     ''B+_3-0V5;R99{G5g0`Rzv^hL<svx%}U+2BArCZ@NO)H8AxU;Yg3c1!9<}ibv6V?qBhhU%0k#_t`$T*Z'',
     ''TQ0;x5-`%=VBVHDO)v+Y1pc<@sjM!G_Ov7K0Qa}y-6yQWu&UmnYdA`?QyzEO&hh>`ObldYdsMwu)mai'']"

lemma good_DATA_2095: "good_lines DATA_2095"
  unfolding DATA_2095_def by (simp only: good_lines_eval, simp?)

lemma lines_DATA_2095: "map length DATA_2095 = replicate 150 79"
  unfolding DATA_2095_def by (simp add: numeral_eq_Suc)

text \<open>Lines 2245 to 2394.\<close>

definition DATA_2245 :: "string list" where
  "DATA_2245 =
    [''H0LI6vV4~{sW!nWpxa4=qXv_{uy&YMT8^V)5AK1p<n9@_0os{T_URkydx(sl14C0(`?k@gG!?NqZA0i'',
     ''33~xJ6tWa7&E`rW(xG8Vwmkr*-KI$W0Yc@`7ovfOgfI%<VMaNN{o#_6tFo{6gVJ+zclvTCb^T~*P0l^'',
     ''qLu&VrlQ(?OHP>TNo_W&GPuD$jPk#P4F=H+35XA%hUaVJmEKGWEfl`&@RNCa>6iI}fSO0PMK(`Et8$Q'',
     '';V;XrL26%{URNH?1;2QzHQIw(W~6Jb<FIWuiUs37?&)X3ptVQerTz(b)HloCBi1jyrLna@EOjeiAD=x'',
     ''^*00LE*%fL~y;n!3#h)qgujZ;WkK?2?>TJtdHIA?lt04bg1Xkr=$DN<xY5b_N&byeHDS)8~GCj<#l=0'',
     ''Mh$e<`y>XJke9LtGk^2JNAi?92?GT8%>Nea_lC!-rZoPY7SM4?j2hE=$M76E$vRF~AAtR9KE1I}rhp5'',
     ''bT8clNqb4BTbg1L|Zzs*ZpREGp5f%z9*R{-Is!%A<PJmZcW7('' @ ''*'' @ ''){WkAN+2<a>p<qHoTc)za<z)(S)g;'',
     ''HPJsyY`PG22JqYflb`E+DAbNU$>_{Z!#5?j*Ar77z3r368+xsA#!e8+x|I!DIJe0TZv6=)?oJd^K`SC'',
     ''-X#!d{i5P8xN5M_O{3(QiP@o@1C_gs^;?6f|@}q$ntmZq5Ei5f@fRlztkckuDq)k>~YrQ462&JG@&<5'',
     ''S)A%*W(><00`+}66&Z4OR78jujA0vyn)9)!jU^vY|{BNWITfndQa}z)#l9VLG0XZW#}IA`B4k_X;MAC'',
     ''D=5RwUdzMhqrLeTV;+6d!p3(9EF1WPcXDwp{=Wy$W15^^DO*&qGAB_{ZyV5@)cJx2gliZ<b=Ni--{{'' @ ''*'',
     ''ptE>6k4;w=oMwbsdH4#0-SXdA>!#MUdZ%1-5XUN5!dd5yoFxeOvlG&iP_Cy~Cr?Y>Hy@R+H8xyb0AhM'',
     ''_B!e!7~MwK~EonSx&kB0Vl{lu9G7c!Mls@I_xU_Ug^gJHAJ$ej7O-A?)3N{2sg>8O?RxQ~~)pAF3b=`'',
     ''KTCKK2e2w-P3p<)S)w1B(ejyER$QIrzRhgG`*gI-4fdwOM1XTX*~GO8{KIAQZ<=`iQ+2s&@dNXbFp{j'',
     ''NRlyUT3#SA8)SAy#thGrle-0z6h=6td%a@9&v3NgqBnGY6_W@<0d7<2U#ta4LmAub534601Y-{-#;_e'',
     ''b-;npcDt-O|IU|jpl&nb3dCM=dVM~B%XGkUJ}QW_04WgO=+ik^`cE+t*Ed<w!a$Js=;$a<R)Kqo`Uw2'',
     ''A_n@^NTB;DZEb^IF-06f%d!&hnA!NYEbcg^`ki@D{ta<jN2G<h|n5K3AezL~=z((>NHjt^9HDQac+u8'',
     ''l7;BhdXae%%-F8DztYtSNYD#4{<l5JHRd<W!ZFs5>KdePKvUFngIt!!MAkJlZEC^-?)q@krVzu*!ek-'',
     ''enjwxeJcbPwwEBD+si8n-SZa3tUe2hqXvk;Z`$IO30vwz8Sw!6>a0KmMd@9iBJG*L!r5%g>Y<(?b9$J'',
     ''_f-jk6G+SpQC?!^=ONA48wLVWg77vAN0O^W{Y~kXf9gax`f^ZaJz&ujz>L1@FLNRL2}<WXh))Z0jLY$'',
     '';5s-8Fvr?*Wh!#CKcjuVs=2PFQMGnq=xzr}<bVCWV|v@FHxw`U49lS<M31F5x)>{x91nj;8B-zhu)d`'',
     ''dQkdNbiAAIq-VS^1`1pfci4FbI{bXn?o8Ppa6qA;?hKwN}G;HFYZB0fhshLt7sJCfDh7oL{KJc#f0y$'',
     ''-6QaLUXKv-ch&q7gC>r3&%YO@mO4SM#_8{3zPEJfm$il>eZvI%^lt7J_9EtqbZ;(ZU`L*w+_Qrmtr_4'',
     ''g88d%;Yo?^Nl?uGPA$C!>#U(@(6}_2^*XKGN4u!4n_5)C_hI_T9kT4O6#S3rPFqtk*9H+C&-}iuKYe&'',
     '';)T<^pp5OeAEOA?l8F4aBVP-w(H+@<lL^2wORjGur5r_{5|30IBv9?>-10niZY>Zgm5?O!d4j*vh{7b'',
     ''%od*_kAp&Nad^KT?>QlDM!Rf{f|+dSdpmM|MzRk(YtH)c(`Nl3X00I*HEq1SE99)JZ!bDK&b$af$91R'',
     ''*y@;022h?SbssEbRgdp@@k^=waHm&i7l;#=~XK?2hln30xLiq^3g@wM(noI*;b;((V2aiuT*1<x$)X*'',
     ''~E-}Pb#?_T=Sas%jM7eDIZtr#5#d)KTTxDi2L<g$@_p^I3Wyg^9s?cG8wS(|O;pDt}!S0ACy^P6q)@V'',
     ''v5%a!=fR8-?20pt}&m&Cxeol1YOr9n0J<h@G^@K{wiPjMxN(=4v$YPTTEbyTFsP^Lb}(RO7ENTGOsUL'',
     ''s2s_IAw91FmK?V9Du?L110!a_Vk!9Y7(9vsDZ!x&JxV**0pFa#o?7eH)LQn>_t;D+he8-dZIVk_BCQ%'',
     ''<mF~*JQQ1M?y-0|NGg4A6$Rxs!)7i7;%(6uEPJi1pF<RHlHy4vj^khD66krMHpPjpQcM*D$XNJ}$35G'',
     ''ZR_No{|0nAr&B+UO4_leK>20A8EW&ilZBc9aY{6o@y(221*ziCiB`kpq`o0P6#QPzudpB0ZppHPJfHz'',
     ''Vvue+7~W$?eF%j4;vzMlTu)nCmQ{TW8ntEcAK_@8<T{psR_+sgM>sa#h_fWp~NuU?;@'' @ ''{&@WM^iV;+Hl'',
     ''N*jbnV`4#}@D}IKvbI`Sg0n++&@uDlz)18u!fY&hxVk?Hv)FCihASAgq=IH%WY7NSp*8SR(t2Z+pqJb'',
     ''U&lgT;Kq#7jGI=H%T#Tu8%hR@y@NiP1__}rrTKA3s|ZFnD)ItFl`Pst*DB6sKI?y(z&h_qtrF-&)(5G'',
     ''z<&#gIr2O+y1c6&QK9pp;YMd$U1s6se93d@oCnqrht|u$CH+{gw`3UHr0P>({ipgmP`V#u7(sJe7S=T'',
     ''Bn>d{Pfozqmx1~PAsXovW+8a>lULAJMx_8RC%yYKlg9anr8qajX3wr{<Jt^vQpK;$?hZ?}gq|&p&!wM'',
     ''P+W>B+Bfe~)L@>~{QL9$;;xxybjiPCsiOiYKr-8~3<S#5{WVgAgXI!9V6zKPnj=)h<TfhM3O+b!K4>F'',
     ''Dk0AI;Up&Dg1tY&;FoQ#I{HPd52H#9eMI<M4y8rxD7C@0p}+vxKVbVp4;t2ZDDx+tj@aG|C3q^Ee*R7'',
     ''OC%sTQ8)B>URU;oL}jbMD?}z4Tw3cgDl=$N=w%owy%t}$CUY^S<TQwR*'' @ ''}9;v2o<g?TY$p#k*dm&4WL;'',
     ''m+3GX^nZ;5-$aPFN$RTzCq7y|A-=cgPgk4k&Hc}u0aLd1e&mgU`K~nI!MpE%e}r<=OztIJ^>hD;;g!m'',
     ''zk{b}k*Ozps?A3kd>NQ|UWMT2kZ$JnJ+(U-{2T)4`1QY-O00;o@hDlm0I;!i#3jhEvDF6T`0001RX>c'',
     ''!JX>N37a&BR4FKuOXVPs)+VJ~oNXJ2w<b8mHWV`XzLaCxm7ZExGS`MZAwp<<hKaCEz`1~M$YHbb#Xuh'',
     ''?}fupm$viFUZiqDIR0IYs~bp68)Rk&^86dJBq1l*s4(osrvC>5hplmvz1s#_)|;$na&$wGrCAtJP*Bn'',
     ''~hs4<DQ;nyOy<BthL&*?%2X6)_+PD41Ru8buG$Hs%A;+cb(Aup%%faQ`)Y6lBTmyH@rnqcJZEXMfGvl'',
     ''x<fy=2#(jwMYgbrTiNEtUNn``4tx8wDYP(Zr%PcbyMVp&i6cw77XRHzEw-ZRj63{~;oZ5TyH3{r%zLG'',
     ''`yq3?RLVB01<c(@%Nw10qUY&!q7uo<%4%WZy@;96ybun)2L(zW?#UmS#HApQNzm|d|=t+Oq?19Yc)1w'',
     ''ge5*TU3jp%sAJN{N{P!9WNV|FcW6?W4cSQ17qHk+cB&65M|)<w&^#{!QPwJLcRb2kFAm8Nt6Drwr9AL'',
     '';y(HBQL1J`Lf3R7SEX4wgGDcx9i9ZO>#u7Hom#4;<teS@3Ik^9C$a%ZJ@y$N2Vb)9K>}1-Qd^d#P1}r'',
     ''qi2vvsNFFcv@K*qu~|>uj`^<m+Urqe|7UVS+XQVgX;iTa<^EZ7YYq0dUwn>qWg*7r3IN-Q2<~B278jo'',
     ''1CqsJQP$iTHV~Z-j+L#5I)t%eKm)D7D0abeqt&jpO9$&+b0fA&ADy{aC`ppMb8kLqwU-qT-97S-gm0L'',
     ''WJ43k}Msnw%Xo?bCAM*u)`S>Ue<F!$2%iG{oB}!FcoCyrMQw;cI&I*Q47?VWq$g+Sdv1SEWjO>acHKJ'',
     ''ZGJ@A!_Jh#B+l06(dVeXd9+KZP?#xDLsZesbx9|V(oivsbx$I*@f66_fk17VNccrZP2G2REI>H)77-A'',
     ''*^O1-KuPF+c@FIS&<n4?w{{hDCrShJK3>?s8IxNHc%H${u2d#1C)iGsO`MPa+2Vie2qCXx?BS0x9LY8'',
     ''iEGxKFIEoUMnrZ+L>C@3XLX@spArSb{wP9Xb=9Z6HA6SpurH~?dP$AzO2}1@dc&&nU;h(iJ)fl62^!p'',
     ''%&eSU`a}D=o2W5z+59L)T?Mf6NQ($J3kdMYrKzO;degZE7ZWpJYKTRr0AZq@=iv5k0Ht?LVM;CAt_NZ'',
     ''lgCAM229nxIziJ`O_;3@3$8;Q)`w%wc+>k=L)kwC{$y4r(2f<D8m;dt0#wGaIs&-d%FgI57XIUSY7=`'',
     ''#=NqC|7)W9Iz!x>{Fs6PN#1(bk)Kq02<V?Ls!5WjYs7h4;gR=xzfb>V7UeV}sgfOcfdYUHo2R;|$8aS'',
     ''&4kl!Qg1I0thOkzCKxhLVY8d5R05?(@V)Csk8QXR;Ne-y}%;<f9!5FsFAW0{3MxHqJRJdf||Pfw~@5<'',
     ''>f=w3b+82uaM)?vNmW-{c<qau^|qeBV`DHY^Xn%YuwqU%H&40*&?un*E?BPkO{F`aQTy|hyTFArOlF9'',
     ''^q`eFyUN+>0L9gS5vv!(xb(PPt^s^_I)`dXcB%V1MC~AT#hwyUlTP7B9J~<_-nJ01C{mY7Bh!)F_WT5'',
     ''Cxwj<;FNZ?cVCYX1EG91`lut<(TNCXCbxddtF-=d*NdjykjYO5*{`qc5We^%;)L<pTR;3ea@m){u*He'',
     ''qt;s1&1UbV?ZLOeuP*heuWBhVp41XKn=xb(<|YUt8EWMfZ4ICvm?$$g?4yC@YDXwYX3xfz{mVuOC)%2'',
     ''r^*4umqKk0DD0j0B%va8Hj8OV3F(N^ahMyn1u>@hVwO2^&y<8O!-)9mkc4Ylki!Z_DVj*TuNjP9yS{U'',
     ''Nl*JKGJcx7`A=8cBxphfsr0peSb457f!2SQfX4rN3e1zg!}12nqleqypFfx54xMRWo)E^MlXHti<WG1'',
     ''=Dgay+=gJ8d=I_Y583U-4|l7R{Uag7LsNwKgL#XhH>9oSb&ix_ftAkhhInZ4cU*TizO0kaj@d8YC(~n'',
     ''t9rpEiFT4CTul_CDYj~WgzisIp_W!9BzO%|+h&KI*F^+M~eG<c@I0trYQ4ReL;|+*~NM'' @ ''L=J4uyBX<L~'',
     ''vX5li3ZUont#UiKTkYf_gv979Fs%e~o}J1B$vY~=)K*?>vawWx}(M&c(rm*<8#wn5SSP{d9Lmh4WgW|'',
     ''b3w4brYFF5Rw^XQN$b@^&vODu+k!;+azFHGEoz;D*0LN60S1cv(jeM>;_xtpQQo#X$$n{H6<kHfk%VT'',
     ''d{+f3Nk9gU~uD0NbF|<aIKrzkY}<4g_1DdS!e>p)xjQNuxaPb5!^xx5_k^Mr9M6Y_8`D>Wz%V8S~~^C'',
     ''*_AAp3}E5pj<7rk(XdKkPtaj=Mcoo?#I@W8b>gYP1d1dLL|ix~@;D;*Ve85<L-T-Hh(T98)sSyeY=`1'',
     ''C6E{o~8<_Ss0m)$mIca+RSa-nK4~nOQgm4NRqUm3q#DE?=!4eIJrUvbY&EA5IO^LSsMis3581(cYB7h'',
     ''hV!8)Ci8iQd6l)!rMjUpH<1die^7e*dQV-=gw0+f@vM`D4RBtT2apQ`VZtVOcwYj@8<7#7iwPO(fzFq'',
     ''cQsbHU55)vl??c+)uC_VuX?j285CY!uSrj?DJ$7VG3jAQ%cw)0>4i(v`rebJ611d8{FvhQ-tLKv@_HX'',
     ''z;vb2to=oYW$Ho3mh8yG|K_o)}$lhAr#x%1au&v9_IWhr$Hz#mv$K5>oNe6;YC>|DHSA_Gj*A@wqWS)'',
     ''ON87G0<s?VCH+6VB(5*%|G)x=qEl|$dXQvvlb7Gv-vc{1`*zPOQmUD1b%o|YbJ#F<Xn}Q`VfT@RX7>@'',
     ''NA2kREL;8JWY}tKp6&71QOOM2WL5Zs=!;rZAih^&XF)y6n@rEAmOldGV^x^M+yLk8h`sd-$B<}>%5?l'',
     ''EAzz{'' @ ''*3WS)ut#$eBvJ!Av+It)@JRV%iy_ZMVobUHT1DdY3-K;QZt9D50sAGmICYM8uN;g}QnLcjWhNt'',
     ''R>S*(nJIwy+jZ_SmauEDVF2==>T!eW1snX$tn|_?(`cScE&vS{b~t7^M@@il!1xDgEr;P8C<dB{t;}A'',
     ''T7<}02bUB$1~C%#Hhxo#hy2vokSWkqOQ06XgHa%KhmdZ4-2twQcgH}V?mFsz+t?dL3c~5yLiYtBKB@9'',
     ''*dP}7SLr5obi@L7C1?+6CJn>|)Tt^uqB(yOM}xZb*PH&zG#%Z?p1vVCnDPC<C#9bN`Y)n8c{^}GF&@m'',
     ''B8A*Sig#!{l2MOqz7Kl*h$7CEV83h=@i^CZ7F=K}@^cdU{`1_i>Z=_=o2Ng0Vti=jnjQMMfnHp?70~+'',
     ''OcYVmz$Ka3p4Cef(V4?1Wf!U(R*$B2yCt1B;)GXz0)x|U5vm(oEd-14q`v`va&_xA|*{vL_OwHV}?53'',
     ''^UgE3%}yo9^$RKl^TU>%;dD=+FaZpy9RBFtS7vXvc$i<a-H{Q){3l))waAND$fm{e13?I~lO&X^#@;v'',
     ''5Bro`S_O%u>oY0#6}TfjPG(p!8AejCK=tqh0VOTfC<yzs{L2&7gE@?6oS^dR_e)`02F2$yQg<jjMRga'',
     ''`<a!s=Q-n?6ykJEIoFF4?*V!5)-hS7+JSdqKk*=J3dX-as%sWR4;Pz5V|vAQE#yiuW?~6_eT6j-UNx='',
     ''J5hjx08!nqXfJBDAm7B*7I{Fq8sZApJCda{9!;Wg_1{>g3_Rp9A@j;f5wiFb8AyuX)WY^~H5tO?ZwQ7'',
     ''kd!aLs3!^Qc-fv^Rz^sd1&g+>j##!=AYMYbF%U_J%}zEykCH;3^gBan}C(zVo}V-I!7jA91?{O?iB{('',
     ''krjAj=LMqrZ+p8lM^kd4)eHsHJ6R6){k0h|F+UBg-eCcW0%8v1V671TgDeT^|S1goR=RG-nmfRDeKrX'',
     ''0GyzeL{^_&7V5Df=8Blb94g;hSMCmmatk{@&Pq?GHXCrdIZV#ka2|S=N3PzW?jp&i~pX(<p5{1>1-)|'',
     ''`sU9S*k3&Xe91}w2T)4`1QY-O00;o@hDlm^L1?aF0001o0000i0001RX>c!JX>N37a&BR4FKuOXVPs)'',
     ''+VJ~TIaBp&SY-wUIUtei%X>?y-E^v8EE6UGR(2GyWEG{Wl$jmLsFDg-R0dk5mlS)f6^YggUAPQ3R%HZ'',
     '';@d1aYJ`FXjic_mz2@$rc{Iq~rdwhGZoevZDbN;(Qk$OeG;NE(!4xwt^efa;YX#^q!tDRBV+P)h>@6a'',
     ''WAK2mtSfNm^nvRj7Fc008U?001ih003}la4%nJZggdGZeeUMZDn*'' @ ''}WMOn+FKKOXZ*p{OX<{#5V{dJ6V'',
     ''RSBVd6ia8Z`?Kzz3W#Dbg|Zug#^7Ba8ajUDT=s0r0u~lv|NeWWlfO+Nv*8}`R{ooC9T%pAnw9|clq&V'',
     ''=FOWKini0nkqG~!*c2^ytY(fSaf!4|8lzisLnqXBJV@7S$my@n39XpS>DFkcD~)d-`%dzlDrQ|0FLt6'',
     ''U$~{-LHbuv(2et)H(K{jSgm$A%%cS_k>l@aF+e#}@g{4wqDM^w_GHdA_t3QkmX8$nR^Iwh8W_6hmJ~e'',
     ''NsEQJ!TEHlexlT$6MyF3wH@e4M'' @ ''L*z`VvoX&GHoLQ|d3Ck<G_z^xS9%22*qZJ;Et^(%qM!buy_$66*1G'',
     ''v$dfQp|7P{Uns6g4TLqRBH7iayWgzEJjgVdBdwT~J~9EpxkUB7bBdP19@Y#x-&~=4j81(7mM&$4PJg<'',
     ''CU{iY1M%DB6|CACoJ(Nn6$Lv73(cOK^tKi`x-FowMX-t-ih^^n5qNPdi_asjgWlY$o&pIa#Ebv#9+5='',
     ''LDmND6CCiu;<OVAhO@sF(m}O`5v3!^kJ>!owv=Rrs`v|dg5OSSpg#sU-5ZiX;|95LeYaW$I3a^=rf?0'',
     ''RBIq5Wbz%?UK@X&r96ULW2?c0)wzZMQ&Tz|BbPHJuG=y9L^gNsxqdYIBOhns1AsrnzZkUDPMg1*RFac'',
     ''(6wELq)DYY=j>!9*%^)0lH85}#{rIR+&SHdP9Wy>9kr_rU<74vnG)!!|hU~cLIcaz!sS&6?1<lgOglp'',
     ''YB8-|GdynLQ}K76!`HW*AfU{`%)XFJs~imjWz994{RLL}$dFIWLZ~8`bEd310Y^0~~{fmZnF&dr&Mt<'',
     ''Ye_J$qQd9#(U=dpJd6OIt@O3II}5Y@TA{JQ5EzKN<!y5^OtKL)ea;r>rf6}gE(DD=r9j}Fb?(9o}r*<'',
     ''VtXxW+OfTFyZCMRqY*IT#ojVCjM6OVJ=D<j5~>9NT4(f6idHDkNx-wZ1vncH!dx^UB;Lo6)j6eszcdf'',
     ''+ZxRONWn&*M;X8V{v7oQ?-8~9sPFxlx`KqRy1nq=*aW^Xn`}c>z5`G@U^g9P>p>zU=qaPH<6B6-KNa6'',
     ''6Z0pPFgs~t6%Pv{URTIHK|?Kxg*W5zlr?5I4@?@yErKvwZ=^Xxcm9}kt0e!mzAkB-8#7Gmt1Mm)iWwu'',
     ''R40VLOTRKe_A(weS(n2B%9`l!ozf;m<CbfC}T)@-Cm*y9)MT!Z;BkNH5aWe8FS#?f|fGJ7SG6$te%`c'',
     ''6-W!$z%w~o6G6#>h8_`b6%o>11~4&n){Xyww#|0L95xTWH`?H<@@7EZzuYdnol3g%eNoDu<Sme=KVln'',
     ''dnP2?NbV=c?cjEx{)gi28^XwvC{t6=zmT=z0n9OjsJtlo6RVsY!T^f%>BG<she7tB^kXRTXF`o5hAyx'',
     ''EPxS`zA`>qp`r<*BMcE~bocbqU7T$#cCJ1x(1)d7bZ|fLlcs9z=O%J!jd|JNmJk0biyGn)H!~Ei%gb9'',
     ''WMKl4~;qhi0~?N?As0|XQR000O8?}kZQ|641#-w6N!S0DfYDgXcgaA|NaUukZ1WpZv|Y%gtPbYWy+bY'',
     ''U-PZE$aLbZlv2FJEM7b98eqaCya9UvJ#F5r6lmAmoQgxV6%>J)pOMi~24}5wuB+*6jgx7cwnzy*z70M'',
     ''WnJ>8~*N{8Hy4qY1i>n{oq|u<Z%AaZ)WATR*hj|%Vn8vh1UE|oJhN9KT3HEFAOiZ;qFb%%?8%p<Abc%'',
     ''vJ@xlMs1nW-9dH<yZ$ckyLGd#Wp(G?#U~8@eo<v9awAo>py#(TH}=~HBN~2N3h&9N#y)-IHIlLqpKCn'',
     ''MOZ)Us@ud}2-W~f_)l<&72Fl5a<)xN&ntc^jp_;Vj`8~e_dT9fPWh1ttGQAA{7}ky*ZH+AZGoMtm<)w'',
     ''TO#V5WM3%I*dmCR`=t6=FErLUsVz_p|GZ~ORy6E$zNU|icTS@+f#Tvnh?P+2Oz<$~1Lv;Lv_3Tzg?Zi'',
     ''FZopg-N#xGwC<91Z6h=`DwA1MB__D{rMXjl69K8{_J`$~5~+1w=agR%?acVxR2oV62(zNYUw5>fGH`I'',
     ''c;a?m50yt3UdeVgvpv&^Nvm$v8}U0HtygRJimogIe6s$@Ub0=5m+VLS-m!b7xsJR)R$2JSz>9Ht1SpK'',
     '')#jihWWE61X1#NfXW5tbGJMW>RX7*OkT@'' @ ''{8Rw#_+o<iazFS*uM?Y_O@X#z<7_sNoOi=ybFVmCL>?7q1'',
     ''nxfzMb8Ht~s5QU4<Y*c%<nJ0omj|lM`9aqEtF7?o+n;R>>wBcKlS-GLu(99^sqLM%CBeqrzTI`i(l@N'',
     ''ty@lIfnzB24yh?<#=VE>Wzd$b7B+kg^F!Bj0OI*RXsGU$+%axIM9!pk)+7apHX-TnqzPC6m4Hgdw2fN'',
     ''a~8ds2+{={n(AZz%@erEm)o+lsAS('' @ ''*'' @ ''}+%7;uREL6Q{OYS?VJNu7Nx2ZdO(3>-k3EVDj^e_E95MgN4#)'',
     ''JvCQue(H_Ubc<6R9b!`4`jD{xMww-BBv@<PEsw|{3+U<u(Llyf~>?cU?3&`*X-Of5WWkj!<OLLiuM<B'',
     ''VbIz}6}_zF@127T^5&%;7=KtVUG+*klMgR3fR+plIxGz`_RAzuGzp$)8EOX%xnLP^?`4AcVZESRl726'',
     ''$4%IO5i+?f2_Pk!{U8?I+nmBqLE!dmn`s~drNdgM!x403Q0ijd;S^~FmxJ#~?rDk|z^iBfxb@b@?e|j'',
     ''Aa+mp~`faS-4R3l1ccX=?`k?`xbq-|4X-J6A@gq)Lh`mIm%{zp2VQ<U4V=q)l_+X&M(6*@;u@+?A{$q'',
     ''+#jk~|!ZDQ=jR(bX^V1qW8<gJ(7P#VPw-LGbgkR68OIS3!9)n}(7hrh{o7NC%<U2jm1Nj7g~p>dXtT<'',
     '';X%LGF}{en>?Lx2_+q4;*&D(Ra+JBnnrcB2ZfM<jre9dl^~TqbVwr(qg}&-CqH0-kRy`x+~;^+hq1dN'',
     ''S@q{FmSKMrdt!1{RLnbvZ$}Z}cB(mr$W<ZYs5R@eKY3o?-2%W8-@m0@bRPmP5z@2u|9mEg0TyWxarnC'',
     ''hQGxsyS$f0)x<l^*7!{91^l8Z+#S<F$(P`p|)E<RWll{gZE~c9%o{!QGHYHAljZ@#z2~ndN7c6q{o~#'',
     ''<J$kM&JaJT2^RQzmuW`z<OYwecb3s6o4Jfdi-1%OqZb(O6{N{~w_4lXV~c+@)7rdf++9T}DtWHytITo'',
     ''>H-gDbegI&Y750-!TSsvWZVo`Q)Le>u}CrBmdKf1^s-M}|XpK~aS?4E<5@9s3WKRb&sH8a_sEj#t(3-'',
     ''Z3k5V7&NTE$)+8j750JX+x$M8)7-HI6uW>KIkbWfnAWv<AzDOiARZk6c<<#kk+Umj2^p)PM*_1Pyqqv'',
     ''gI_|kc>tXBo87*p1zsUqn?WgcqY!y!qgT&p_>}!sR0JUzc06bvj4r&KL#heN5ngOj=dO`>0AAu6bF2='',
     ''b*mqAOn+2&VXsP0RSrzAzy9^-BU8!!t)%MwzR{)ud^Q)#6NlFc$Bauw?MzG<0;NUfjKEAuUczbbm5zX'',
     ''&TNt}$-98dJ0c)I!px@Oa~xv`#BV>3(Dn?O1=7CR{IIn+kTJag6i`~5Ry&^g*cH=WzQpxp4RcUn+Nu}'',
     ''NQ-T`SJQa(>u_CN&iyWY_9(-DB|tt0h41V5_H;37Ad;DDO~n$7MQ=-L6bKWdAcSI&eQzrfsS42On`rw'',
     ''u9)ltrCY7kN?wAl9-1tBetDgAZ($9GyAX#V|~Ibd<;ne6r4-yP;<kY;PD+`p>7R<;|!fqa+|OjZ2mv<'',
     ''dW6YwwR#Dslk)dccEc%E>~lY+eb^tuS<k?KIB;B!?>;aqiU)*n@WyU*G+foqBLgM50p#-h1(PTL_Ukv'',
     ''RSw#jD%((lUq`q+1KsN0U91yPIyKEvLSZ1QYDNU~()Kiokw1c-wmB%Q0?UUEHY48|hJt^os=?u*mGo3'',
     ''fGwnbhK{P*2w=*y?<g7rsTF!Zj>%N^fq7Oi0^VliF~6<?%xDHC^h2+z04f@$TElQ{5#qyEI}m8M+4f+'',
     ''+cX#duKpS&XP2iF@SyIUZak4LUniQP6jfKzOzHWU%7vpdTj2HAz?HVlF={0#=eaw;RwEbS3#lmc`IUh'',
     ''k5ZgDEbu6QO8V_q;5PgBE6Ra=nyp;z8r3!XIv=o$qtP4eeyvk@)hF_&8MxSeg4REJ4z$36gbe&2n3CN'',
     ''@wOD#;mkj9%P9Z?FB<kT3$mbmG7U=CYYA;%NG?4RTs~jk5VXfgIFB9p4SoenKiW^9+4l$mF86?(D)xu'',
     '';&F_9#%<zw`d&#jqy`-NU#7Fmn>wbW1>ABu}UyIcC$dIIr%2kP$YQYB@(^dc>aZH51&o!tN+<Zsadn>'',
     ''i}hNY*l$Kc!<;2gS}rXeuf2^w=_$C8&V%@m*_AP55zSQ~1-FBLE1BxS#b+`+ZVBLC6gnh4{%opDnR0V'',
     ''^R!2PQhrA)gD6UJD4hWNi&56?{tp4rCkk)%Fig^pwRlsrYqnKTm)9<4-^Se(H&!jCj^$3*QBtSw<tg3'',
     ''@?@i)Ln?0hR=CzSXNh)Bz_%4(d1XYm<UfNo3z}glpgk@B|v|1bZHsWXYX($bU)XtfyioH4n!@gLR7iz'']"

lemma good_DATA_2245: "good_lines DATA_2245"
  unfolding DATA_2245_def by (simp only: good_lines_eval, simp?)

lemma lines_DATA_2245: "map length DATA_2245 = replicate 150 79"
  unfolding DATA_2245_def by (simp add: numeral_eq_Suc)

text \<open>Lines 2395 to 2544.\<close>

definition DATA_2395 :: "string list" where
  "DATA_2395 =
    [''ion9shhA~`ag}NT4waKoK<~%R)hNMy!*0|4ntF}D%i5_AQbJPKj}hGyEg8<9P%J7LboVMqp^f;GVU56'',
     ''F-VO@gv7*lq_FI|5Bz1~c%NpGFR^+^egf(mWo?^nbeD5s9SqTXeIrwiiqAJOe1a49Aegpd;!gdg<yN1'',
     ''`bDAG}h_yW?8emaZ?5z~&#>0BL36KqSjytx<6wDqwC0(OK`!LmDQ6-yyIP)P+eEiI&nc(6tkJtZ%q4p'',
     ''lXtBiXq@V#}a?AZ>N-arBn|0Z>Z=1QY-O00;o@hDlmF^w3ct2><{G9RL6+0001RX>c!JX>N37a&BR4F'',
     ''KuOXVPs)+VJ~TIaBp&SY-wUIUuAA~b1rasy;)mt<hB`opI^aF5Lgq8i6%i_TuhM$^`Z-Gogllw1~CkQ'',
     ''BT+M~HKIyVwr7j}_nwc`g}T`BB0&wTSEC`%cfVSlYHb`VnksWzmv*JXi|}8m_WUHB$b}Q#H>ExtRCVY'',
     ''+>i$YC+z}VLkM`Vu^GVf(DrNLBJgo|&Pt2Wb;I$OlTPKZh+HBc7W!;wjSUaUFQEu6L`R_(nnWQIt@u8'',
     ''^!86av^^YlShxi-8O*'' @ ''}WhRdE-=RJKP&>PNGzwWPT$~z{o_UE0y_IX@yrYl&Zi5i1xzsy|A)_`T@^>2X'',
     ''jX48)9zj-&|J@%INAOE4PTGb6Hycc$Bj2fIiZPrNf?cp3B<EOc06gM)ykQ&tD@|L#MJA{o_BbuivHDz'',
     ''kIm9dH?pun^sVsX8Hu14N~R*Y^4nX{RDe%*+IHAhp=g{Ft4rfg{lgjmOAj*!P4oTcC4q>ihM^Jw(FdT'',
     ''1LU25m!uvxO*gC6DwhQVtiHEtsqSU!m6mjLt{5OU?DDT{50AZCG5n~4RhoP=9N};U`>5P8naI8g$LYs'',
     ''N*O-dE5v7$ehPIqMnJY_*?5V!urZ;D>a7uSmBl$_V?3i?z<V7Urfcg?_`=X5=FqF2B!*wVtD}}WzjTQ'',
     ''YyRk<_)dA(kTkId<yAIb9QtmP|z?!!^ClTa0_8&hjIyDpeJD$4>s9&rC8Pa5&U3f)xs80LbJV0O!__I'',
     ''SD~&-gVaMleAtnFGWyDY7FA5i30aXMZCzIwB9}W*Nf9<AI3=_<^Tnk059$A{{|mK-NBeU0Al4NAaMv*'',
     ''=(5rlVq4&Q-X1j&{Cii9K4y;+96n#D8Xrf6BBM'' @ ''Lu<{7iQP9bpl8?`Fqze5YjZr!7c)X)J9LEPqc2#()'',
     ''2$~XKf>Yuq6Gj$I+3NioY0EX9hex0ry%&3W7M1fF7x!LDn8d1mDe0Y+a>iHi!^%1!dDpPe7!b>nBc(z'',
     ''u5D!FIAqCWr@D&A;2E%FIxk=#X4Vm_5X`9j^PJNQSofiW>&VOB!zU}hH-CaQQk&HB<T$(0UmW7Yo8|Y'',
     ''^6dwR`N?@~So*ego#x8sC;2WDXAWE0^Q@aq)3l^%J^<_V%JCbyAPcLU`%HpY%jRu@AiA;om(zhLk0;g'',
     ''gh^e8sA)cL3%?p0oFg>@IqL9)I7OKLQiwqc~gk04Z~p<c&8jC-s6OSQd;cc)WBOhchcARZg5<Qr2bg8'',
     ''gq`o>`^ymaQ8htPJ7x0VJ521FXUKK-rrU)rQ0Y&4M`~?{6Vw(N<T9BBr->yi#U+v%VeHOL~ZFk!qZDy'',
     ''NH7FtBSIoLiZAPfXYcdJ)^jgKP8lI@PIVW`C2$F5!8v<4N-;#A$Sj;2**zi3yW39eyNTSRQU_<8mA{1'',
     ''0HlsVR&=`b%$i>_H3w3n?M'' @ ''LuP+9@S?GZ8=8{)s;UAQ$b0|nw-_E>r2a8@A}fNw_{PZOmZWIrD8G#gcm'',
     ''tgHFB(oB8UK$&Lj7A5VLz+<at6*V;;^*mceHyOb<zbob0#5f7-EqW)4{Or>RQ%3PAM(aVF7YP#Wz6_P'',
     ''k}9KL7gmCnijGR1cEJv}Ue3kt|YcpWU8`L>OXn)lM>Nf3l1JbkNZ}Wy2}y`q=l-i@XL8cSpRS-7(Y%&'',
     ''#f7oAz4tsb^(1ewl}g=buWLn*?*>_66;+a4wnSYsK>ItduUs*nRAfU<&s~tX?QPVpZE*Ybm38<#qj-0'',
     ''fc5p@NNq6gD;v2+iSlmQ5m|L;ZP3MZ?GO1*Xx`OcmCBvDXP{69sSerXQl4rz6bHy8Tc!sYJr_^_Qi%w'',
     ''xCq`ObK2XUx2r|Ox!o|QJ#WW63X6Z#FZ#0rxj|aKoBP-jsT@(a}U%`3<cbx^`F@1Bm95bHHT{mcQ^4h'',
     ''2sj^cu<VB5qa$(rQl8s^n`RHd&*;Tk+>;U19vIc}SxP*3bnJGSPXg4VB0el(V}FuImivLO=`3)vi2vy'',
     ''e8S2Ttm&ah7=P>{-k+wiAX53oL<~m3(rEzdpJafFTP#ps`r5H?sr}{S8pB6s)}vr35hTt1AB&8gP0@2'',
     ''GGrz=x3zE37yTHz1L<MVrkY;!k!kD-TTe&$uRT9#Qh<q5Nk{}%;uitD7~x}5N7*`?)n%Lj#SEn$j$?X'',
     ''_cn~576pqW>a|9PmAjf5!S|KEUvdkHKe&cJ!~M9{586Hu)(ggX)?Z??dv~6xA_;`NnU;ZrrGwCXX7Fc'',
     ''ii#huLW!s44A8XlJa~UrB^-8~C<NcE~3#qbgEr;X3s`{;ex;93e-^`jL)5Xf|XbuXV81U7G>!JUUE{}'',
     ''j-XzoxHF~o#v90RlU6;OlGuSVwhitRDt!SbAaq(S6f4ikHi*01V9&9<6mA8H%rF!39C(liW#%7j7;14'',
     ''0<_&lGkjw<W6m4-(p!zMO7b_|SKR7C@eqqyA&q9}f8-3<utNR-=u7kjDBVjk&FY(A{`dfI*UySwGbVg'',
     ''VNr&Lz=3Dm_Xa&k=>CtNRLO2rlq<-PvS>Cw_MecREC|~C`T>1j1QftB*f`@u@`u0efBv7$gShO+xPv>'',
     ''oR_A-7?&MoauQEgeUdwBq&GCqeuTcKYo%^d)=(@D%TBTwQA#75B@4|uQ0^uxlwl>DM5{y^=yt{WofbJ'',
     ''+6wuUv{ilQcFPUq&$=BQHZe5B@(jI%a#>hx}G1|nDU8BuLzi5iC9>5e-wOfDl9sfFdudHq4?(1*9{r1'',
     ''n{<*>Jmw&uxXi@v!UvUj{f3U%9WiNYTQmb5}Y!H8j@5W2>;xPI?xBjX-*-qXN8(UdO9O6##E+|2g0IG'',
     ''5OSaNNxcxa3cP34-pK?@da7=I|2Sy-XIa97I_h^A?#}_|ikfb&*=#N!9K5bgwFfVY$3p+CV3pQMH&ib'',
     ''wL-;1z~{Ze#D=Lc840*p!RgA7cVr3%kf4?e3{U|866sZ^+l)~rv_{sG=m4w1}^NADM4R^L2g{nosyS('',
     ''MCrZduaLeQco*j3ZjIEJ&k!Nhn++9mH0wWO$MG5p_MH8JY_g#7f7u8V%1DHmn?+;A>viu2-UX3PCT=*'',
     ''JN=D1eDZjgk1pVb%82GWM<$mi!X|wttP)h>@6aWAK2mtSfNm_f!DE>PD002J#001BW003}la4%nJZgg'',
     ''dGZeeUMZEs{{Y;!MPUukY>bYEXCaCuWwQgT!%NKDR7OixuP$w(|wNY2kINzBYER>;jyNzEyS2o|Ll6r'',
     ''~oY=9MS_ab`(oYOx-dl9Cb^08mQ<1QY-O00;o@hDln>-)lQZ0RRB;0ssIZ0001RX>c!JX>N37a&BR4F'',
     ''KusRWo&aVV_|M&X=Gt^WiD`el~K!1!!QuM`zsco8magLA{8NVLP8u6;)0O1B%8|Au_Jri1E~Lwoj6Ik'',
     ''6<@rMncW$?3%-XI85@f+QUucvKJZ!+qRWuM3`(EKwLYi;n*;8R+p80WXuO+AZ&UgY#('' @ ''*IbV4MP7x|ch'',
     ''RV+szf>U~Q#Dr?+fW<RA^2ywrN-6Y;Ox!r3xQYFR`Ji5qeEpi(CfUY$OO|^h@q?9i-1d8N10>a=qMFu'',
     ''U%W=2Zrd;oJXL?xOS`C3QoIcg0%c$W@)l3S3)L=Ll9`7wcWyN1YN%nGPp-Yge0ye_VC-cpx#7-v}PO('',
     ''ffG*D2d|#F(wz3U2S<*'' @ ''}GygAOHD94XdP=7@5N|ZWf)d>I(Sk?azm8%3WPEV|<iJaCPZ3E}+ptN>>Ac_'',
     ''!t~?@+bFImU|P<u>2Ct3Sa`1><q}IlGmLpDSiP^O9KQH000080PluLTH+oN43h@'' @ ''{0J0eX03rYY0B~t='',
     ''FJEbHbY*gGVQepLZ)9a`b1!6Ra%E$5Uv+Y9E^v9ZSZ#0HHW2=<U%{ybW^Ibmei<+W-fFDbP@wIKz|DZ'',
     ''Up2|p6%te+ol5*<>`R}_UMT(T|^aYteBoukPm*<XmN5*kX-kiT7KRkUx;y8{XzHJ+!$ltQ5?N~57>O@'',
     ''uXt7%JxWKk)aEh(s?c}1mUlJrDw%223%%j;{qxTyCj`2|-msYuClo~x9+P)yLPilyZDR`I5$RZ5oomY'',
     ''Khr@NEtAQIuu0s<MpC$toi7i=T7Ba`jeJaXOl~q!kBMVB5J6jquiA)MaBo7b4&A9rLFybJ>5cqi6}Dd'',
     ''L<_DGESoC`HPG5UzXY1i<jA}^X20CV!6m(FJ7GkVO(h88Nf6}0ORQV^<{RsxX3PWS+Hr|Y+GKjiHQGt'',
     ''_xRoIYH{`_J^S~`*^g)0`ulfxli9J^<mbmIIMSe!QwC1XKjuusm&~*wExI6z3RaTrnyHDNEM^+>l~e#'',
     ''KIAfg>_OS(qtjNGqY^JSUEn)tK?Po;O0SnqyYUbPn>tN68re;w>&VKUejcf>|-<TphT6K(=Kmn;pBld'',
     ''*W1=%sd%e|A0QNpGefVi8ND4f)dBD@Bb^(6iTQ=O=-K6=`Sn3G}!Th?~F-YR)56|HkN(L^Il6OS$BlA'',
     ''Q+D(c!O*Z#B1X#2wjCNxC|)fs~CPx1h=$nYe}9K=54>JB~@@nWg!99?Jy#rvs&m|I>BLSpcJslw!nLG'',
     ''jzNX3$oe6rRMh8Xaay5o^2-;Ah=_M8cy+PFxW?$t7@NtoUAD)9FC`)xwNrzw#9gG5rufY*47OZMnAn1'',
     ''vj+~euk-+-%&dS_W<u%^Lc_wC(vrU_aN;eO5;Gz2Buz=E$vhdd1Z=tJN4s3=(KtvzgNoJ0_JsUIo_?('',
     ''wjbKD=X#KT{V6qoI6ssp|A1mL1cHR20<Q4cUtAT9t-FG)1sJI3nLL6&Hg^}%&$SZoobn1YB%&V?I{7{'',
     ''ey59u;SFZ1?hMt0h*H=sYd)ySE0#kO*i=&1D-z60%^4F$_&*uDT5C2G2blVvLwCiwvub8>R2&zk;#{J'',
     ''!NX<HazAhnPt`N`mbmCpEQq7=g$gM@'' @ ''{`qtFUEi(-h{^YwRF{W(dP1uVjjuz;OtHTZie`)w1;vEC4}qc'',
     ''xXKkog=+D5F3UOSUnGO6eJC;2I3PZX+Z5@Ikm?TjCUTQH@7Lu>^vm!StQW_qG}9;l2zr&nDcB7BKE*|'',
     ''<T8c9C)L%2hx4ZZ(&X+lu%r)9uVooR6a&*g$gyWQOaQZNumNQZoS}+sj)!DO!{pJhL;7%o1~&|^M<7%'',
     ''6T*wtGF$dunZ0As*As?A<Bm>OJ2VPaA>;%jU(l%{ZQN{ZGff>`D=ltYiztkVERx~YSuf0PD*M^V?P&k'',
     ''MP%`@}3;c#kHK4h4hBsGHe2snNzwTUS_nUBb#Q_YzJ!omfHW22-R(zVxu77T~DShEk92DelZ3OnIH&!'',
     ''KbPPe*M3fb81T-zsuN^P7-=#ja_-H(o&@x{EVHLoQ0}Lv3xqWEhyK8QT6r|DVdX;%XAl<CHv2g1t;Pv'',
     ''E&lTboDx9{Uz1T{>qrwJ0uLMorw>F(~P*jE<Rup>InYwL+@xV#a|eow+@n-2gzM%eZ|WGI@<tyd_E<_'',
     ''`+_9W?kCB88&*!#x<4gGsqheG{VD1@GMs<lD&=3o9->mA!lN>QQ&1TC0CtOozJJDMHclR_Txbm((oU?'',
     ''0eR8bx=r5<IIuF~M^~s$TTw(t^BUepR0l}}dlK+o~?5+7Bykpfq>;=#a@P;Lb-IZgmEqgfkI2E)*>=%'',
     ''K)5tT;Q*n0z@s-GTKUW}&JPpNGc*C(85GL+G!gMn)b(Ti|_>4oSi*<G3Eg9h^HJsqO9Ua)NgNepuP#y'',
     ''GWRs%rAS?wAiPO+y3!1HZ-3Vw+of(qsNJOKzouu0O*!1<N0x%-kfXXl8A0e-`F;kQ!!Y?{==8z<oT!t'',
     ''cC9djs|-!GKa%(%~gCr=IJvgNj}F&P;+>)nL=5}HxtM6vp58^0Ys-d5D0#%ui6kHLpTRMgKG{fLRX|V'',
     ''+Qb?1`_PDjv{XOPVKjjCb;ZDRj&C2jtic@aaeP?4<D#jztj4z)!7=J3T<C~|+deNj&_hi0?|~_v2gB?'',
     ''Adw}x&`vIm}w+K0v<_1Y%nY_JtIrTMm;}&(F2aktS_%MN@9SdKB%MEn4n4JuD<T^FuVXr(cs;iB#z<-'',
     ''8=%r^|X6vHXi%ECsq>4(s_i+w*X1-(Y>26@TY@2J3VPIsm^VS`)4Y^g0AlCu7^iOpuaqnZ3Lk%#HeJb'',
     ''nz1qX+5GErpnX_NT6Bur$7$`6+8uZ~dk5Hay1j@te*;pRzjI$a!ga>XoxmJr8a|$w<8Y^-265Hm=^DV'',
     ''$r9odsw)~f@3V!!OZb%>lf5HOv0xxt?1hRE;{6!d;F<s{h9P=)XUY7nr$aJ%(yara8O|9r{Wu*&`o^H'',
     ''p_bhj)IjT<Cfq))8d}JSOhQC8=i{liXQek6-L{pZQwhp6LS=9xlJlkLn8%pQ3{nWKGTTrLBCxYLka4^'',
     ''O_F<Wf%AVyJ{RdD>0|XQR000O8?}kZQnx#j`T>}6Bwg~_LCIA2caA|NaUukZ1WpZv|Y%gtZWMyn~FJ^'',
     ''CYZDDj@V{dMBa&K%daCxm&OK;pZ5WeeIOxTMS)hftUfP(-*jrP(WddR^r2wIx;vZhFdq`Ywq|Mv{JdX'',
     ''VzQ1&Z<@i1Ya7Jv>;`gMS*Nz6aS4#(KE6<~!=Y(O2--;HA+*RY2FGI0WHA4mE#7-5FaCqJ0qeq+5?(D'',
     ''mNpvLK`hxq2zbuTJ)HzO6}1SW{uxkjQES*XVdpWcfVO{Y*7@g63)T3vAyu0jrP{4rT{vOvENY*XyITi'',
     ''kV^C+Tu9PEv~@bl_6P#bE@JQr?hvGQUMPiKO&~=?<J>9Z9p`WbH%uFTC$+FotO91VdYZ4dXXy?Pq#?E'',
     ''RoR^Ujjze{'' @ ''*mfM2SEE&9^1l~ArZ*R%UpGM;<of!F7`5o*(#%r^v%fo69q}y;acL>U%FL$YKV*RpqDlq'',
     ''G3an~vS@}G<3AjvIFDt@Ju#!Q0oN3;!?yMM6tG3YxpSAPlGlf$u|y2UbTRA+0P$JXI|mxp4}k5*HR{'' @ ''*'',
     ''Qi8*dw)KSEQhm`rHujuFjsUq>F&pLOEP<CMvaAd5>OrZ>Ojpc5rnCGi~yih@p!gs5Lj{cWH7g4t7dU%'',
     ''m?*Gv$c3&&w2dx7sikCm-0C;)k_7>+seG`riu7OIrXyb(H~8>_;94rRLJ|$k3w;pUNv^;%15C_Y=S=('',
     ''cws5J2Il5n3ON%l_iu!#$*A@2B>k~ud$ui|kPfp2QD*#b*nY3ge(JLKu-}K+=DUf5MVb0KN{bFY0Qow'',
     ''G7N}W<v`&Y{6E*AP+@Pc{S;ba1Z5V~X8me={LiI>~Gdi(%T7|+ULl@3DQE#zC*Oe1?&hJnKOE*pU)>3'',
     ''!)Z4rcD;lphv{R@1dgqqRQD%4?(zzN|bv<GjXldcuE1AIjL<d0#83I`DjT0=zI%szvoVzDORP{eTnFG'',
     ''L;76&rFPhXxOgcu_vga^TTu%-F91-$+<EEj<rXkC^Yhi2C|9D#K@Yp;A*mF7T70oSDm15SdfL%n3U_J'',
     ''wVg6FLtBRI3cn9m-jVJL^{N7RGu7uX6p;&%xGI=FX_1Cz{}o9-;vFh3cyQrGv*p0s-L5-Z`qrelgAs('',
     ''WH|m07q@W#)wg+F#zKS_?W~bhm2_iK&-fDEx_I;L75(_hX3U(Le6KQM9>oP-lCYJ#D}De_O9KQH0000'',
     ''80PluLTHlwc&B6fy00smA0384T0B~t=FJEbHbY*gGVQepLZ)9a`b1!LbWMz0RaCwDOO>d(x5WVv&M&1'',
     ''iZDY-|=-g~K{Rd1`6<-$<hI=1B*+UDPP3?T_ysv-oV@w_)5Z)}e-B!(e5XP@e55@AskjWa}WFwLuZ#('',
     ''Ur5$F2Z*lu~~%CM5JsVCD!IL%{eJVhV4zMFKQrF@b3s6e<pYzKy{OPDqN8O>1(2No&}{UnM1|4JeQ7L'',
     ''X$1B$LLU>{qYp-Y<E`t#34y;-G-yFUj3UmTkM3_ddpgugs$7<-gZEoHn4&lPb#?k4G+QN)Mb8Xh?vT%'',
     ''zHn97BVnzDRH~Nm(mho_om>W*gDE=8r5M#YW{JD@D%jDJZQX^Wqv5_h4@3P|#XOX6K>1i87tAks>@9)'',
     ''3QWrz$L_)^A0VbWG7cpTVY_nQVQsOIEPi&l{9C|n%?r)glBt5}<Z<}7`9z|dX9`J)PdE@d31nAufJmw'',
     ''|HIR?+xja1MWe?vFrqd}-H%-rKq+ImA;cD*8_3}D53vl5HJOnZ^dtNil6s-KXD<iCjcBKup;@=pXZ-C'',
     ''}HKzql@?>X{?$w%e>h9n$kwt?u7`TxJp_xevY%#MtI=k?j$Q*QlqPIP<ea)juZ5QFq^DDyrfWP)h>@6'',
     ''aWAK2mtSfNm}DJoculn0006D001ih003}la4%nJZggdGZeeUMZEs{{Y;!MZZgX^DY;0k4X>V>{a%FID'',
     ''a&#_md4*POZ`(Ey{_bCKaK6NVBquAHwFdSEbOi<sYmsfAf<U09Q^c7jS(36V6#4JFqbylc+*W{Li99~'',
     ''{_S_vSXZ8?UEA<n|y)`btZ@Nw3oh(8Ef8(bHb%BdT#d22KEI*(wjmxYkcH)VSWqaXv=zM>?#7Z<O<fs'',
     ''qQ8NEjx&c}P9oM4=nM(6nmTIzsK3za$i#6Mc_K`7Oq`lI{2C#$5x4tY^1;eEd)0%6`GOK%oH4_QOXq?'',
     ''RGiuRW?NffH!%&M<y6xccx?$>XZS;)fx!{1OEGbP;(GkNz61++(OsdA4gLp9hnd6!Yssc`}h!HW%DoL'',
     ''Hct{&4Ujv;Y>ZAO(O+JLE^JnX^vVMQId+vBv38?GB8<#$~gGKvd_x_!6AF`W%%aj3O@e+5$<kp;6HD4'',
     ''JQivkz~JBeKeH)xCR|a=19l&^@HN5iM'' @ ''LUDtB8aUgr{Gwlj-aEs!BO}=o>)TU2#b&`Dkwxz;|x#eGD^f'',
     ''fAPCn+5Nm8hydaQmOG02&i7s;SL_s<wh_<o>ZNd!HVPRYe#z~@j#u3OS63dC_%gu%8XMJW@$qZb2+8_'',
     '';-GY`Qv2(r2u2LUHJ3N~$4=$NT+eXM0s&p~yenvx=pr3_-LCTM<@#5h$#`LAi4;q|`sNf40_uWw$FrV'',
     ''>9>Xdq21dQX+qJ3kB0;9?(|Vc|kBTA_EO<~zYSNezsMW+bp}=DA~GA0)L8Dq7OmF@O^v3>1b^<M#X-{'',
     ''dxPtOUpY=z2)p)HnOrhF9UKo-*ZssZn5>~!}s0t77JO)&PWz$sG8wg?8FQ)7z+vyR0Si5d0yqbfI1eT'',
     ''rRGiCX~9%52Ohy?P={dsX1%s(eP&zgTRJoDiNDjES3lmZuLjSiaT}KVxUnC(Z>&}1+&nxn_IGz(Zz01'',
     ''>$%BZS4E0J;iZC~_x9fO3j?F6Z5KZmuBgFL;L#Bn<Tbc<}2I)n>Wxv{6`-FiA>Zw|@ek)e*+3@G#t*5'',
     ''}m!<dJ-jGu!Oelv66JvY!xDWtZ~X;-A2vvVd+hm){6q1!1<sbfE!L!Nh{%SY<so<<;+*CR_-qdp%Rr}'',
     ''^+=7)E`U;sN)~F>^XRof6AaFQqUpZ<o_7FRA46^Zsb`&*V;QC7FlG20t(6?l3Uf!&RgVzY*oXF{3B2k'',
     ''8?79lk=}{-mI@icbfEc?U`Zx^Woix4HS)|79CWZoNC=0MP74F`)+)8mn0Ygax21vPz}wh8R%H*q&A@h'',
     ''cY}-i%8~z%tS4TRYMKuj-5#Q*s-bitv1i^MeQg>=bX5!_cHBtG0#OvEAvMPGO^Vu5Q`Fo%(zFXm+7C_'',
     ''RW_Tn)W0sq00v25@tcOPPtc_-Hv*o6v$KK?I;G8UJU!p31`AR~bWT=~MM#a3gtrcq`)LME^q+j3O-oA'',
     ''Y^rO^nVsC3~vI-bPOi~j*oO9KQH000080PluLTCwr1)Jquv0LW7S02}}S0B~t=FJEbHbY*gGVQepLZ)'',
     ''9a`b1!UZZfh=ZdDT2?ciT3W-~B7N^tL5?WF~f-nbtd+Nj7z-*=duUINk1U)+56rWU;15g&=LKssH=l2'',
     ''c9G)yX~CmS<jr50)dN*`@R<di`BYr+Gx>L^R})_wO4RM(aI)hDC^71qPjFcYx`ndtKxPo+NEh|q<QL^'',
     ''vMesLwP=*wTQv15%0(;YrBF($NO!VL+@syBVH)!?*^A)s?SH>MnLYpJ<oVxTy!`8gnx0h~e)y`GxBT>'',
     ''Nq4d*tVvRuf$4jx2`P*(?O8)(7-4=BvO8(`&_`ZVn$zHn0h^&isHY+Ni19Z;1wkTDW%XK5?0s&a`b(7'',
     ''4u4_g$agmt+!|M1Pp$+xqU|9X4!^7O^4m)l1!g<85{-_Wn^y;p^rhm>23qPZ!QUST71F>hz0YnL+wG6'',
     ''M$j8?`PA|3xL+vYvbI<ZX+j**Y~qvS^|(%-WiuqYU6P3CLct2zhx-6N~^Ys$AY?^SUf0$Yo<7zrg0_H'',
     ''T0_5y*(63*+f$#o7tsozooWhHmiW`vl%dRZ$Em~<j`*=T7a%5krYi?K!YakQe4YOM94;&%W5v8`WoJr'',
     ''z*F020XW<&MGL@gWOP%MB_KS%irPBrl+5;Kr{BMR{p!uzldopqJUjj7<P@+<Vzm@c4v*qVgioJ+@wt9'',
     ''Fdh!SJbY$8N@xQD5NsJgjwK|aiZGMu~^lj70bdQ=q&Z{ew1SVb_$Jn3{l{r%eR=VL;$<>9-bD7gJqH9'',
     ''rhQf1NGWuYR5MXCv7mo=_}0G=b|&ZAYQ+UNoZQ*ELZ!fB#<5uFbfdaj3gK<A>uk$?@*5flSa6IIT9K7'',
     ''ZECm&LVwQ7!88Ec#&yx)FJ85z0W7<9Y}#0Q!&9S1%8gYzk2pKZy(I&uayytnl&m$?ND3hmR+)42J`dL'',
     ''KGD)O`?1hbL64ciAJG`5lj_aE}=){Ax_Wh285xlqylNdR{'' @ ''*4n=1V!h!httS2@MUjik4sySd9=dLPQFB'',
     ''uLMX+yNu4WLd~$>Oq6APBl9FZ&wy`CIGq1DQY|A#Nbpbk&Erss7LB-E0e5GO1mS8VXvb;|#A8Lrzy0X'',
     ''tzaOJ~=5<unEy5~5k|ZOFgisQ&%%jVu?$%L~eVRr<Fu@(8rM&e(<;A5`Z3Zf*S}F1g!d0M#<tDn4a?L'',
     ''OSO)}P%NBTa+z?FDl#U*mZm@*_~MI=11)CD+|1VzlXpu+#9P^hm!*j!$8mpFIj!CW^rm^F|ez%2(8D4'',
     ''Lx33pTp4OVbMi>=Z5qAmkuOMWuPI72U@aR<RN#@>DAj8sduSh%&P-#T=BzjA-I_`yZbrALh%tm`in+P'',
     ''Lp?k|M=|FG|mu)XdR<ST)5jb{yENmtcxlEj!M9NEfZonibYD&Xn*4D1N}=a)RfJ2%7T;2MKqg%b8f+^'',
     ''f^DBAN|uW>I{0(+vaaN@9fr;rOe?<4w$8#ZpAv&tApLdD4K{Ab%BGvm1#mH0iCb0tB&Rq{YH?YBNgoP'',
     ''xGA|YR2oib1&iLndu`zV<nZp*;<`nGre2F^7(uXt>ENiM;MWVc{8&JEI(`+#6HCn;CYu8=NIz|d;paO'',
     ''RQ;uHi}WuqFGDVj8aW=C-FW;_r?G^8mz+qP>edSTlUqlq>&Qy!d=GOEOZ)dK;S1p80DK~wtI<FHV(90'',
     ''DN6TMUQZ0bwRc9gl7r=m*Q@W9B#kybA!bs5_9XssRh$Ff?J*7*$%J=e$`KKo90cR9B#o$Q@Lfc?Wt{v'',
     ''7QCA*O)P+#7FR*!|?3RTXf%=Vz-Ib&|@b*4DpQCZ~-zJtiV3&rJ#dFhW1e<1IhD57n|suXF1PCVZnG~'',
     ''Cw550*P>LizkD7ya1@pr6SQG7wqa98m;0lI?_?{m!`I*{Y{c-QVv~e%thfNRKn1G7v8;6O2t!sh4fVX'',
     ''h*p?lcK=TSpchTWU=fVc052f(z7g{7BBdyTU61~}wp4xH&t&**Vi{#I|^`Ii*5FypAF|w4o5&Qer656'',
     ''QVOU7>>glbh^bL`Yrb_y0KP6RmD0byHlt^$sB!A`W45V_%!HLP&B1asN9EIY)m-&OaUMjxu<=$eTGwg'',
     ''rh}B(Rk$uto^98l~u+nG>0^?AeC?e1UXplF#O_#EL8|WeO0FwF&;?d;t8{$}0W$ISv8&i?Lsfk*J8if'',
     ''AcM+8c|YYGK<6l<8?|_T67B_+VRsEY>{XnI)K1G%>t17(GL>1^S-MgLRvRPO#ue}#L@7$5?A2qJJ1SP'']"

lemma good_DATA_2395: "good_lines DATA_2395"
  unfolding DATA_2395_def by (simp only: good_lines_eval, simp?)

lemma lines_DATA_2395: "map length DATA_2395 = replicate 150 79"
  unfolding DATA_2395_def by (simp add: numeral_eq_Suc)

text \<open>Lines 2545 to 2694.\<close>

definition DATA_2545 :: "string list" where
  "DATA_2545 =
    [''=~9O#dEH?EN~7}3U!$MwX7oM@n)Fn((liZef!byX@-SMU>@12#VY-F+ct8;f&M2}`>zadUcnukyC^_S'',
     ''T`P2piyOmGD9?0K~p!?CYQq>cj@CS$*>Kl&Y2~)ysRa`Dx6XK&)Y9ROn#lifJU69e8W!;rIN$Q22BYI'',
     ''U~4%OXa^a;rLqm_=G^>}%UH3fDGbqV-rfF3YdbAy3rZ6%<Q?;*`HATVgH2|`0y^TKiBG3n7`Gh8cLts'',
     ''`hpdhg)pk$LZ=3Bq96%)xCP=xFCS8vZ@ngIETP<~7(m<f9rS6LIqN=Z}uQPGdAP*^9rveD&t!`LolLb'',
     ''X<88{D)+9f^L~4Y{qTqa_<vhW+_-VbVNpkL#ZkjJ;2u1Xw`uT6qYciNYqn;v)w%=FhqNrZKo*q$W-E-'',
     ''rkN-EPQVEW@>JENcN#z=uM36C;wY6;hyQ$jiVK8@qCpL*fny*!YXd$r>1m4=ddR7abdgA|qam6bdYCc'',
     ''q&RD$(GhW`rVGkIXdQf8Pdl^87?1LaoqIYq8mZm*=nF%s*Rgjt|j);kwC3WE|WT6;aK&mdIk8W=xPHI'',
     ''$?$PB#PM@I{k2^6v2lUSmF`;$$Q>J@8siFMKx47D;UE3`5*R?(SOp&b_WJ8PK0NJ7$qc4^U-z#HEzeG'',
     ''OEVw_=3_LlnzT;D7ZTf<>Da0&n3>%k`lPlpD$sb@UW}bo4mp91W8aY{STl4d8*XlQoqVoS^k>EDNTd4'',
     ''T~kUmKZSygP&_ti|;RGB^y!Va=STDO=<||RGW~;j~;QA?-2^rU%<9Bn|+h=oEzh$y0Qhq3O!j<vLxDU'',
     ''XrH4OFzf`8a`x4_-AuR+V6biE0#(O3qrM~JSp$8C$<cf>CK<!mdO|Pz21$3s=blNL2EWp+z8ii(&_)Z'',
     ''?z-F3}q<T{tZDmbdsJiT0IYYrAS-TL5Y>+mKyG8F=v=9p27M4~dl3o~N*hdNl-o)YHhnjZYwN~8?8qu'',
     ''<C*N^ZYMW$w8OaV{^$r?xuf=ZH@`hqZE0TQ3_(Ki8(L?iZe3;jqp4IPLCl&H9BL0h-LhZ^g$xT)X@o0'',
     ''d9nB-zCZC7a8XIqN1x&LVm(=2zlUa!L3T#kDCCGn<yoW~!`PHJhPjbP3yxp&@Eo9l5#x8~GeGa1`q|f'',
     ''!CCZD&~GGI_d(DpRG5b;+6kuBdRNyx{'' @ ''*SKFHGXa9t@v?d9bj;5~iz{{#$u@X=@d_JxIB9wq*xUzHEP4'',
     ''Np<$vuF6Y;Xm^BDo!BqK$7g3iUJUpro>T+`@StFpH0T}><-X2CLU|+nWOq1pNJWlPpd)6?uHzsF)Ei1'',
     ''(rWXJo$zlDnz%k4wR!nI42X$LV6?F$88w5aD^QJO+vIHAxIv}QLABxW$TXul~K2LODYhXk-0(UUFDtA'',
     ''l7KQJ2{oMin;1`IsqQkxFB$;kll^EbNR!E5Sw9)S0139`(AZfiL&;F$sutl59|`4e5^#SIJam#)XfCd'',
     ''~9{m+-)#b--vvqUB<QG!FQix8HrsOK!y_mU;syIfNq6-y!hi@n?gj_k@udh0i)YDzSE~09){D+;^huM'',
     ''!{U;9f9H~CZ^D2I#r*ve!nb$WQyQ8fGdYuJYu2=4~ZQu2pw%Z;koJ&Qrk)JXtgTZy4g6QWyXt-As=0I'',
     ''Z2+pO4Pj8cAey}{a$F-7F<hR6@F*5AvKF1nkW|EpFOSHLt*{7H_|+-iOE99rd#?kgjTr?ht{4#n>Y(!'',
     ''HCN{!;K0Ep=Q{8;&Mi*{<T3|(U*{zts3tOE+YUhZe4CRipaiF|JWZQm`jdD!AYa$@;jcRRmApFGIPg('',
     ''T9d0UbM8KDd)GG^-_)+og#4}vvx=u*+0YiohKD-emSiYnxf+3qs-N}<<p3W+I&E@NTY3boF$o#qE>z2'',
     ''3Zj5kRB-NB7eaYN>ZCS#o5Hs8Eq~LW|Tf_h5;}N<T9-G*k?`rAJ{V*GoC##EL4c+3YKtKf7k5U`1Ylu'',
     ''u?Lb*EdyJi#)9MdYR5!DhwEdJn7p_X6jHlt@uzT=)t3kIq~IU6M360igiBRViR0Q;r<0~7!<fI?x0~A'',
     ''07!t_TjeJ6@kTGCcWEKze)$~2O0Ki0rH{}sT#Wx0{^B&O!y>e)zw6J5K@e|bUetAeKEYU?wzc+RI7m<'',
     ''+*c8{OLeBDI{sXx-dOgU1Kt;hrfkb&=+GeA(B9tuwIm(UR0_tICQR{Iy<1z*1>mVAyg=Gzz52^~u#Jt'',
     ''0U0+977ZJotZik$dWtOir)q-C@)*e6rwCHnYB%1rV-wPygbE!%1VC0SAUU<aw`H2QFd%ykfT;h4;UYt'',
     ''GE}Qn2T>Ym0-|V5`jinQh-Nix?UC;nPn|x!XKBFn2xKaw>>>c=kuwsi&J%_6l2IZT%*qN3exQu!0}~A'',
     ''O*j}t|Qt%9We?06%EWcu58d44)XH==*|@N8<TX)J}zz0B6WWR{9U4eo3r+Z=UUya$Fpj4=DMsQA)AHy'',
     ''#K@LzZ#&mMKj-rzxNpDStcwV70TVnYOKH-+VfccRavemFT8wYanZh8@#V!QT3nek8eSv)2uJ>;1`Z*M'',
     ''qB8GLRk@A2c(!@^W70=ciErCNkd%>@Vb6*;J19gPhw+F+HCcg#ikow*N1GGOLetyh328^V$LEv_{<b#'',
     ''`QxOsSBq<Rv>iu>9zS+B1*v}kaR)p^>cN9(=-%Y6ZPy*`Aq0s~lF6yO;)j;U64FiIS*AwVSLYdCV0x%'',
     ''U9a-OmGj<<HP_7A|N+5bP3kdLt;?q?#-pSwPcjViu_~AJ;;e+%5@ln$V!0|K*7X!K8n@jRJWcP3GfE_'',
     ''U)6OM<;_V(f}h*cxBnA^1XP1pr9OJ<&~nD{xO_~VdzepFdBW|vd`fpQXK;(og5vzTqmz3Z!!~J_s<?`'',
     ''Kd*~yPpFFW7P1x$@~R*OqP$%P305Wo_J?4QnTVVx6hQ|nN%Ul*ZxcLIcrUt~6FD4-cv;A1#3xLZcTOJ'',
     ''?%sb)I4<y41h4bZ8Yc_k<IPlj~Yd<I3(V2$C8_BJvI`p_l5T?T>H{@PdE4kde#oGdxmvuAaI9K^DHz<'',
     ''$ocE0!*R-=D|PiBlFjrJ$X#o)C6vDG!-<Cv-7HSMie`y+T2ns7RD0ImOEm+UIl2z-k>9>Z{~Dz(EgZv'',
     ''|mp^e^+eH1_v%y<3;_k9ERZrx|s}ZteGYW2!2#J&xO^ld<;7x~*P#pvY0+X=93!=u{p)0K9nn;-*s#_'',
     '';>Px52Ln+&ad)<ZoZ+{{S9G>q4NaGW_-90sO_gtxFpP=+X4+)5>GwmYkt5`;=;7Yf``#_5chmANF5t|'',
     ''?$U71ArY7mCrtygbr6|q;!RUyCG;&=h8FeDvfL6Q8$jXP4jG+*P6luBkN0J?Ii#8ppMKt=Eat5FNB)-'',
     ''9D2XWY9CS&41x;B-{~rVbzs}q9ej8X2|8S$-^Tj`Nwz0p%5-w(qxknr&J=b#lVQlPO8t>3Tf)$=o?bS'',
     ''?1o#`U}Fm_ugv6Zs)E=njT|Ih<>mwss0cRNwyDaPTqjW<U?RtPM%)77H=Ck!<hsk=YN{&=dAdE*O60s'',
     ''7;y56|yPm^@m('' @ ''*JCGqMB^B1A0uarb(G@8>ePKgAyB#{aA{wd-G9#v>bC|Pv}6PdfB2Y{?eC4*pZbVBH'',
     ''N{ekrjebkoU=^d1_8B>j=YV7(UnyKLq|y(bmZ$Ke&qQDig%{&%3_9*pFT%tj)ZumB3s|{Y3{5LU9`ci'',
     ''J4oNIA{66b=c@2e#Pom^)x7L-iGddcbd9~Ju!daWrfz!HUth+ft~2a{>m0qXr_YPib2`RQjZL2*qxER'',
     ''If#MPpK5WfCc@g7ro)4C1|I*xHeLU~*uoE~l!>hq5e{9^vU_QgMQ&7AMg?&vO!sMe)50N~t?#_d@f%G'',
     ''Un1nFlsd?OArCwow}CnDns(Kf7n)(x?`pKfjg!Wj>9wbPBH`>;DMkk}C;Iy9<#=~mtZ^KQl1PME$sJl'',
     ''kPiX8JsxD|U~=X68<;Qt?4CI{gN6-LIZI`j3d==#jBx=LB(V=n)j=2gh*vG8uHSm&j6cGWE4=^x=gsS'',
     ''b%0gjvpm>Qo8cG^>$zr|2=v4?BIVMAAEWCvw6_}&1MH@pPIJxU;BrDxoY6~oM2PI(mAM1IEtIgRm1%V'',
     ''?_!nn`F$fy!yl0F?}OWm0J>vhS=U#%F@1%lS52}=6H6O1QPy~&v(Sfy84jqd*@H(RZ6H85CsUdXohzT'',
     ''=roACNo55kW(`KI^;We-1aIicrXCVtS8k6{~JqPWsoey&X9o<3*M^TWw3oCjA(uWDFx;ilA!Kt#5d_b'',
     ''Ro#9`BzZ$0a?G4G?NRBTZjnB|spyoT?;(Af`f!V$Qaz(dF{rt#5}>~Q3Lp;RZQho2oj`D6HUm__*1(m'',
     ''JNP3*P^(o6UX7=J)Mu-H2lugZv9sVH<Y8StojJJpr_9un7$o!bWf(s|?zke|*Y{Pt$n!#71tBC4jVmh'',
     ''%}2w(vXpq@xiw#?O469$MT+yIfFYp(L+$kc5QKMOprE-kHO#q=b(qVqd46?ZFs%&zT23+>yuZ<(Yxz2'',
     ''s^VSgi(UTCy1CwUw^guh2DD3#Z8Qmf8E+CK!5sXZfh0{Qk(cj}Pc;ie`d>5OebcCAeKWf^|JWAKa70M'',
     ''1J>Cb$c$mI>d}bQ{Vj8wiUMS+Pn>)<Of=Gt~2P#<M5HEKHAXGsEuQLOS@ep8oUb4ou;;5`pW^iU>?Ol'',
     ''l9ETt?TG8wQ1(e8iMWIN>Rx!MMI<YOSv+k5~79tU>cCmx79bjd_n&bUSGz=F#^4_RPX$oDR!?hx%+s7'',
     ''a&1u`!h8f8H%;GT=)p{?id4l$4_VXWe%OhmdT!^Ne;Yz1M=_g#x}dFr)iqZ|JH<;=cBi+N%U+6N|48;'',
     ''2zfdt^gw?tNDiSs{7wCF()Gnd-tm@ulef}{5=c%`H!0#Pct64Q_H$AM<@FTAjY0}!wV018)r%1j_~hM'',
     ''6Xo4EQ&f@522W-hBwIdnN&tP#`Ku=4x-N3XTQ;<DK?f``XQGpp6LTe>;kR{78ys^k@AI9kSWFK;zL*'' @ ''}'',
     ''x(Y1<Vc=#9^;*={AoYm9UP09jyhr5dRiS?N}EJ`R%zvp~$9#%|e6=^@AT{cqktw-=$)a@'' @ ''{fz5<0IYJj'',
     ''oDMRfXVr~BqdE9c9qnA7P{Dwjv9z@zSXj<!L5%-uIYs0C=cSV+3KZ@z<rmORHxd<dVnS@3K{YcLb-M2'',
     ''kEgAT-d>)F@Tx@623wq7eX28h$H#bBnOX9UI5031ewM(b+}C$bvxO$0r<?gNhM-3<U_jTGP$a)7n2(z'',
     ''Q+4tNRNniFAKIqxVZ`u@`__^f{1Iws+53v=B<(8H3*j8!#~QR*O;}^E6Pg=49XF24C-4s9D8S21k|69'',
     ''v2VI6r|;ib>`17u<i=<XgGJiBeD&5`@cXxjt{IcK2^2RJF!;st<{yOxS67z4GFYnd5<bhKlUs1X^8$q'',
     ''}M`2pksx>F$ZGwX$HGv#%F4t{zejbGQ=jS-TnbG?|lI9^whTb-%y{f84$q<^P=4dd5yd-T*D93sF<PK'',
     ''^9V8^HT@uJQ&<}1wb2C&fbP4<S)Usp_P%B%3QuPeHmyfvW@now4n8s#=SO7`<Kq~S0eG^4^})U?4^;|'',
     ''=V}o{U|~8n^3_N3`ighh$M3Dx$k;wI<^!SIqXHlWZ1cS9gkyA_<{^X6*x=i@lNfeVbbG?mr%CFD@&6n'',
     ''0Mu_q|pPHSdPPj3f*#KlTMvTp8Qh~_^~%W0YUG5&bp5&8D|-Or6Ih@Ot}yKbIf&c^rOB<IrfmmPmSS0'',
     ''hJIN{-+G+tZn{'' @ ''*LH9AUs%2DFM;h8SsJoB$=zWMrj^u^;ZzMQyYLQ9lo;3Y<B$B^a-$ldAYBEHafBo}6'',
     ''~e%NS_3o#bXC0i_G3yWR3SM>^*K>yC(t3=Oa`lSW~6zG@`)o<Kn!ER;z0=Z8$6VL!RAB@D!NAIFj3+('',
     ''eMF?=6I?~AX18wHB2&upu+rXax|Fo0Mj^Wf-9Mvw+eR>cbmI*k{&!D7(al+j$=JH72s=~nPA_Fu$jkO'',
     ''{DxW{Z>1hAeIVPNKib4Lx~<oE}tr$9H_$o{4e>m@TjU=8>g?hUBR602)vf=ADdphp|C9?2@l=l^mXpe'',
     ''{lr_<H{Eb{$PlX`+{K2Rm@1hrdrPIbz7F$si~xr5tzoYtJA`d)Rl$!{Z0|4F5Zy9Blti1mjQz#VZF<&'',
     ''+dh4TRt7~IvNszbkf}LjTf>5X<QX0pz#DS)jMQO@ir#NMO85Q`P)h>@6aWAK2mtSfNm}3JmiI~l002J'',
     ''%0015U003}la4%nJZggdGZeeUMZEs{{Y;!MjV`yb<WiD`eWl>8@#4r%P=T{8%qOi6HZwm{GtOz0q>qS'',
     ''J$Y&zWp)27VKzWnv3-L74*mrTAi-z!;`nWxC0$BqP0BwCM373{q_@U19@fa+rlVjVRkxfw1XY^Wv10C'',
     ''7jW^R$Op1MbiVTn9S;4cJzojy!{nt<phfAVkKgb}}!DDq6|Aqq^AUkvGL%F>0o@qC@Vq30D}DxJ|ZhF'',
     ''Ae1;OXf|@v4IK|ZAkW$qHns$Izh&)9-o)5%kpLUv4RDBW?do(ex1!A>$Xhe=m;xf=|{2bI~~TJCi^nR'',
     ''-2V|?C&?db7w^2K8#6$#8sg3kq%YZe7y)oGR018U6WBX%9Uv2IB{huF7Xxb)g32>ljqH>EI`Tk+tiDF'',
     ''8|DOfnZD=g<+Hc%YewH=EP?i#+N?E3`7tv3LWA-_So@B-bCSdGg0>(Bbpl{-|`vp)-0|XQR000O8?}k'',
     ''ZQ9|?olVFmyIvk?FQBme*aaA|NaUukZ1WpZv|Y%gtZWMyn~FLPyKa${&;b7OCCWiD`erB`i>+%^#YzQ'',
     ''00sDCeacrA-NigDpuz3xT5?xs-lL4@YZj*UH(JBguQWDa~*1Gt&Cq*A{B>vX(}pd3olUu_|kA98*pjr'',
     ''*&ahDl8QGa8T8uebwDYt*v^fh0EK8#uSCx@md%wS9_yNmI)`)LRc#;I}3G7LBgGCC~r5fly$4HQLCCK'',
     ''M_FasKx29*$OzszRdlLSQRzyhqEMe@Qi)OykE#leRHERe&SYV^sxtY|p1eL?zgd#?>UpY5xYf$$!X~b'',
     '';kBgVermb+LO&RQ=z-*Y2nMhqC8kZ-eAVG{)D+;MJY}>|`AEdkTYjNToNs{$ywR+jbD#qE*vf92gja;'',
     ''w%61$PYr1?#%Yk9e1c%mrs|NmU2qP9&T9HQ=WiCa?Pl&<Ive!&N(EK7B@SBC}`GN+mK+IXkP|40&BXl'',
     ''IiIroNB%2w_sF>dr<R7WsIRJN~WGiC>6r!^vLu(kJ!3b>`OZ^yj8Kt&U5!1O9@Zm)_S>x?E>|A(MNS8'',
     ''VTQG|4vU@*iHAccyqtKczwS;wjr#q+0!3cGzfQe*~zytr{}ddi-}=onBIMqsbgXf$aLr+#8YBE^u~VR'',
     ''i#ngMpBhzU1FtxHvuC1W!W^1XR*qRGjI-=sxtx93pnh2?PHZO!I)sNn0WF0DB!LWdl$3SBa$QQ6DFY+'',
     ''5IdOKQnKP%Mr2{?CEvk&EJ^hjo2%p`s#!Bx@2mOp4rLn*p9~^y`19JF-T2wn}5UAor5VX=9gE>#V>FS'',
     ''U>7*7sM_OY=JW)9Ts5QD7f?L)Y$lglZfJ`VK5M?$bKoc9Lo5Ji_PVuP@K+rvj2MiKzZ5K7&?$I#x3@D'',
     ''O>rE{?uL>#>kWlf3umamAPzVp?6#<e^wwP69kcH*Pg7D5s}YewG@^OkL)pu0f~gs|PU!p6-DGU0o2_A'',
     ''rtSeZkVjZu8`S=Qd_a#U%ma6tV6KtLZlK0E({Tiz8fP1;8I{6U6GPL{5V?aj!NT+H^Z2B?T4qiP*vR5'',
     ''>t^QBLQs6~$q<rZFXDLdKOPTzILB?8OVq=5%c9)5+D4Cr-E%d+7p8*y@uCbp(VS{MI46W`<fjG|$fCy'',
     '';A)3!_Zmu?{'' @ ''*L#Wb@)c)o!O-0r6g47ujXFTwaUF&FA9RVMPz7a|FAL2BM9&WFcGttkNY|K(sCVpspPl'',
     ''VAU7K+cb&1^$ay$}g$#~oT=(o=Rrfz`Vne3^$oRhez4Q*^?vG>%CBJa}(OMuT&$%h_|v%MW-0pNp_@x'',
     ''eaP;B@UP9HPO3TMPq*q{Z7g(6LI{njD_vY;F~dS{f%}{2kPD`#fRSglP|y-`-x$D<x>0)`_hP<>L9}i'',
     ''#I?o;q4$RFnR%6R@D(C=R3r?lqgV@bVv(HVpOt2!su1OOjLltUx+mF+|SOKCM9$iS&8EtX3?dnp<u#s'',
     ''3(Bw~*beO^HBBbb)TCs)T0edM?eibL+k~IrzxehAZ!gHSw4lEQRid~TCmZ;oa}TyqQ5))-@Y;7So9hO'',
     ''R+6ZOkf*$#h$~x3Mp#Z&rFe`(uB}SqmrX2BMAltPN(f>zI7w>Wzs?cLH`r1Z7r7Ugh=7s^q0&dqvA5}'',
     ''(^O|XSuY#!A*N6xbB0-hG?u<cp@ibr48t@KQDbQKzvZ!n}mVgUH_uZRcUh-rf5A2r&|f(`329}X^VdE'',
     ''v1+;lCSoo=FBKEe36B=K>MTIA+i;XF8{z^_lSG9{o|Buk)TvIJb|`gmgCq7@B(hr_3esujk=z;u?+5Z'',
     ''~a}<50$-cfcK*kQ=;sn|2miHT{wpge;3Ui^j>0eVDVlVjE^cT6}WtThC52B(-Njv5Jsm1V=?T{8caFh'',
     ''wBDxCeBQlKG|D?VT;of&O+)YWsQGwMfC;z#w{wW^EHhL$V{ZP`Xnga`K6&F|tY=UizCB^Tc;b0bWmB^'',
     ''7jjMJFbbktDi&{S+tC(sFTrMk%fyKwpf8&o;0nx-0paciTEByS8FSVRA_NoA-HitZfRS~bYNwBp{CyH'',
     ''X?HR_u5HID%i)4e1*C5v?9!ZFgk2I*6VsZoSHPBi(ZOJ7812%SGAXl$WM#ko@$Pcwqa(Af(+QMHqpgO'',
     ''xUXw0<UKB#@K)VeWsnH1~%b)4$&^NR0N+wS~>uF!g>8q<KB}rEt6Y8&FFF1QY-O00;o@hDll}J`45-0'',
     ''{{Tu2LJ#k0001RX>c!JX>N37a&BR4FKusRWo&aVb7gF0V{~b6ZeMV6WoC0OaCvoA$!^;)5WVXw2Ff8R'',
     ''kf<AasDTtHvK$+uP0>RT2(&bcSyLoSQg;0J9g>nIDz*=nMb7eO-kWh_R10pexqJcMYGoWeXvdXgBFh?'',
     ''osktsnE*%;=D_T{futlRx%UoG0>5LMC=Y2T6iHBL1ox$V7?ZW~d*W7|ctSv0}ZmlGIE<S!Zx8BdFE!J'',
     ''R#au#f-LmY|@HFK;I%v!V*$0=ALP`WJ|NA`qA0UM2qEIi;B3amW*rNIUb$_niw1N!879-eoyV%m0sIk'',
     ''e!`6qL!DQy>I8ID;O&BN(-lLa~~<6oQZoL9mVq;TzX*fdpYl6MmFssHrUB8lJ*QxF!#^EB8!pu+A^%='',
     ''k#4tZbLvA6+SgcJ3hUMV9OPk%<QKZ{6#8*rNMt4H)u;8df!_-N0?`DtK_+(YAVsyNR`19BGlNhPB_>y'',
     ''(V?fIWgF^LXAqE8YwDg5eIUzSpvdwXjfLGBsl5jJKtoNy$Tg(Ex`@hP!YT^Xd8%V5w`Pt~SKN9wBKa*'',
     ''Nc=)OXueitClNTANNS2qBk`tsg3OxkUsI)+jMG}HQVDuyVNEj7JTye==Sza7^M^b3UPEI?rfR$2Wem5'',
     ''g78WHpNR2z=QDT#~2s68c<^GuFEl$`h_6rT!yobE{y@0P}X2Up+1>ta+*p5IWXh)Q;Jnn11o(qWMuJQ'',
     ''kW6*3O#rr)NKm261P+2ACbxaMAN;QCd7i@*mZ}@@@%VzJ7Waq@vNZ-1(XBcfc^NaWeZUEaqtDo&KIKr'',
     ''@jiH2)_IRe%qL#cSs;bpu=t;fL3*;B517IuonXI9wIa2Nf4Z$1)7~<X-va$S>tP1BP8FAeFJ|+_|Q!P'',
     ''7;pTXDp6m;stdEp{m)>Wq^h~48n@n__U~>0?vLN3JSCq=?r7q7g=#f(d?ixu@}Ir)Rb2CVTpQL;YpfG'',
     '')<36!IT+nYZRo<xO<^&#~eUS?GwDgA&$&#@ylKpm_==PZ5Y_ty^v-8w-_WyW2(_?C!kWIG9dun>J(Bl'',
     ''``e^5&U1QY-O00;o@hDlo94<)%M1polA5C8xr0001RX>c!JX>N37a&BR4FKusRWo&aVbYXI5WprO~d3'',
     ''0!RZZ2?ny;n_d<2Dez`&UezLv27ypxO3fzy)$hfdWN0=;mewT3VuPHWDe2R9tnj|GhJ$B8ifm&8a%r5'',
     '';b2OzBe<HRjrK!+uBuObOo-hr8<EO%YR7g68Ka*sTD61_$=`8v8hY33gWe_S^6SWt_`bs_RLSH%^W}3'',
     ''R}+u?G?tah34^v+<78=BrmLDed6cDeZ93LF376WYrhAbm@FI-GAW*;1sne;_xpvp>R?=p#mXtOXFXg`'',
     ''?9UED#R$0ld#Q+WZdT8BQtKAClTCdms|6XOhwoS>Mu;9)DYNKmmoWw_60EeIi-gj*T{(@ElBuaaum<w'',
     '';H&<3SLe(<%jj+dCtTwheFIqpuljP<VlO`6(LJDaAkhl5}7uhWynY^QY_?PZ+|68tFb_!*N>ib^QQ=@'',
     ''7?nYTOt`Rz>22<>l3xzw`xjoBN}?vYcAsx>rwObGayRgHlPCrkh^Jin16i^wI5l{2d662kXq!6K3U4O'',
     ''!Y`Sj&P*p;d;O`N`Nu8ph_8gpOZM3BOMZtq_^<lSO2&hQqrM{u3gOyuf}`4gA)A`tk4$X1`%ew0S3Pp'',
     ''!7wI>o9v9>L!I7~-+Vw8fs{MoMnKOTIJO?TSz`<aPDFR2V(<wU%|%)?dy!=snJc8qCpI&#;3(kO$P$B'',
     ''8feo+GqpY>)N-74A7@t@Uj{Kl**^;GK?4ug7BbT)8V-xa<*4uelO1mM3QfJ7amd#Q+#lf8d-5nD+f&%'',
     ''3j(O|&{<gCS{P{Bi&k+Y84oh=|+SVhPVI1P;zuo3LU;0q>{jXfTAAD_N#S!C?-j3t3mc;+txN}*2f3_'',
     ''m4so6sqLgv(hdDlRV)^D)~}z~>tP@#bZJ3{FSR=Ovca?T<Dtu$wIujmrG~I2oHoF~$B}7svk<#+W`g@'',
     ''Y!iZIib)O#ObknO!=%{5c&v|sT&qm9kyInk<pWt)ldqGnNQq$%y^IfnaL%<^eUpX-!-t@&o&dm?P{Sm'',
     ''qV}4t+22~KO~vaC9$_-|aM;~GZAaQZL4-k6roZ?_3=0&A7h>U|V(f?NF%cQZIy_tx`tCX1^ssCKC=m`'',
     ''=Lp^k`V>bpl&dbJE1;WUtQCsUl5->W!$<WoN9Ruf_zGGZfqE<Lk#BnOt>$_v9HUX9!vf>*G9@la|`OS'',
     ''+Dd`J)^>I0bs?m}S=ZG#FeX1-nKRrhjq0?}>|^KY>Qb4(?A&Vjkv9)yvc&zLhCEI4lKqoq5ny>GdVER'',
     ''10LEZWqctc@lpx;Ep{XM)UaG7*jEp6Om@;$i$6NHY_d&SOh78YvB>p+oB$mQq)&zv70!?Z5gh|6snYe'',
     ''g1GQ>F|wN9Hj)0vRfVwtv9$GaOlhCK!*W}J?57I`Bw;*06B~z5BCr7^X)I-$9!VqS!B;trbS8JF_*cY'',
     ''wE2nCh|Gqwd?dn>5{)(?4}RRh-jmbJjkVZ_Lg0XtVPCE^_Q|kdXuOcdy6rOHdqfWuT`uD{@Ic=R-KpE'',
     ''Xrxt1}JuA=`Y+Ru!S&8vX%)}P3CRwnx$RtiDm~Y<r(dHzxcz{^wBJX6xd;1h!S7=Yyyf4KHi=St2v?R'',
     ''KGw)d0He9gzc`%h*9J$3gnljoAe$9>Pt`FkSaeu0k3q{fV&X7JhjeXXXnoyx@&Yt$miUi(ADvHO2`=E'',
     ''^YDTV4qolqNJya7cEYXCw_ekJ%I&V)#7f_)*|XtuVgnAY|Xo6>4Y8a9Wfk)H=UAHmxh;f#XWX$i(VDP'',
     '')h>@6aWAK2mtSfNm{Fn?mgrM006rY0012T003}la4%nJZggdGZeeUMZEs{{Y;!MnXk}$=E^v9pSX*z~'',
     ''HWYsMui&%+lQ&0byA|k+B|(R!K!KqP+M<0(Qh|{uo2?{jB<0xc`rr2*Qde8f)?vT|1dw?yJm))CB?y9'',
     ''-qSC^M(i+Cu-CBs8Wil6xmno~X+Q?LZk|e?yW)-t*!8Tk=RU1}u4Jnn;;jH9^zzer*%{PJ-f|s&fMYA'',
     ''9XW;0n-N?WGIEYqrBc2|MMn$urpVi)YW6`J4XV!?is#?CxrC95djh%!|=s(A8&uSlomE7J<U=BxWyYb'',
     ''*1PH=Hp%&&v(ZW%`y}eFjgR;oPvxR%poZ0>s5^{'' @ ''*SK!Bu2yz#yD$~4}Fm(+$?z>iESb(D^=NvPT4gj>'',
     ''F$eC3R}WSL#v=Y66tI<OLC5YIb}=dHsbJf5M'' @ ''LJ-I`3_bwP2@+QIx2n!fy{3JsRBa!t=|Y$)=6aXYKph'']"

lemma good_DATA_2545: "good_lines DATA_2545"
  unfolding DATA_2545_def by (simp only: good_lines_eval, simp?)

lemma lines_DATA_2545: "map length DATA_2545 = replicate 150 79"
  unfolding DATA_2545_def by (simp add: numeral_eq_Suc)

end
