(* ===== verification/Pip_Data_4.thy ===== *)
theory Pip_Data_4
  imports Base85
begin

text \<open>
  Lines 28235 to 28835 of \<open>get-pip.py\<close>, a part of the constant \<open>DATA\<close>, line for line; a literal is cut in two where
  the text would look like Isabelle source. Every five lines decode, and the sizes are those of whole groups.
\<close>

text \<open>Lines 28235 to 28384.\<close>

definition DATA_28235 :: "string list" where
  "DATA_28235 =
    [''iagtwWfOF-R52klL2<;S$jvGL3&Fsk?^CG4GUge^1N-cHfQZLYkOjgZAv)FBF`@wi7;vNM$tX!Av~ss'',
     ''gnz+)6yuQcVc3TA@BRH4{=?4&40WApq!4L&^5t0qSkOX9EsR}a=^EglS9jf@iW;ASLi90R%9!7J@287'',
     ''YVN=O8<*bq>ZsU+nHKINb!pqyH<xk8QYUy$u0Ux8o?I;I4*G%1d8EnrSq?bBx<Bmwfm40rHb$~B8;Bu'',
     ''waO(f$eu!z+~}5>D`MlnKa~g|9gtms>(q*+lFFp;{4R%IyHcihL<fv{+J@AxVuw_h_BKl(TFq;1OvP1'',
     ''5`;HNQ$THje&OlrNmeaO)@l@hVcWE!@dG~@C^^b)1neR-)9)zP(7oRa7D%IcpL!4V_5<jH;%Mr+N~x5'',
     ''D=DS`bFiso4a;uT#g&U*$g0XcUD>@7V1<z=>cK9iai**SQ8p=Q%QUc3Bn`kRz_g<gR~Qgi41>r^=598'',
     ''h@dYbNX=Ek%z`PGft!kl7Cc6=9y0lTH363F{-R}X}N>j%s*DYyR;KvH3N=L5eIgmo6R9^W&8!}~W&vA'',
     ''yUUt#6iR6SQN2;B#k=b4u_5KHsX1id&_fc9Sgvg1fXTf0QcW>?Xld7KH0_7R4TkDACpq>y-Ekgz@#@e'',
     ''xl`PXt?qZ>Hdt*z9a<`~v!mXCU42xm_biY5`@HO)NWw5TQ|3Qe7ezs=dJvZF!7}(Q%7lDV=$dxmhQKA'',
     ''DlIW<4n{Ft_j-#<Uy+u9C%BN%FzY&$-}GYq4C4fW+AJb<<s@HGiZe7Vak7o&gK$2C8Tim&6$RT>eL!p'',
     ''%?gwYPTF%wCj-?i02Yenng9UBHpsSoej4#w2SQ*5BA=H{UHypFDXM&|de$2m55Zx|mO6+Zc~Vto=nZ*'',
     ''j$t)Qj@wkz6GNb^zH>m5$(#@SHR0|WQlg8>{Y1bl8w#U3^ZeslTV6or#DP$}<`x*v*vSePJGhG3j1vA'',
     ''^d2gPHUE$+@C*U~G}B|LUaujtC%LL&&Y1%^N6E|RNjtA1tAG_E2Q2T}Q#%#lhq(XO;n0(BeBusSuO)y'',
     ''7z<!p3Pzy&_Fp)1}%l9dcx&Z2vOJIsWjs-30iiG+-?%g2)^nogV)G=pr{xaV6WUX<HTWlx;*NVi#eng'',
     ''BG(>7EY=YmvhwTRitrVItl{AS|}f6Sj5Rp@%2<qKsK(JfW-I`dtkUu;8jFlmPretrMoKY*UHjhSBje%'',
     ''@*qm?B3(`8;gyW`m)IXcv21AzB*mc_N0!C4Ho2t^(i6p3DM-;9D@(6Z-2y-=w(MlU{|m)WRpQLC5n8x'',
     ''F!tj|xop|TgzDmMd?H;VnUW4A(`FJd<(n6mQ$b)+q5w<uzL4*la$TM*d)n;!49{OTJvn0L`(Ct&71_E'',
     ''@Pp>VO(v?2-#PG9xM$*3srPep++@UWI6k+{MM<GWxaI`llmkU=%TQrZ<m59c=F-hB{4=o=9_^#Xm2CI'',
     ''gXD-QLP9?e<n4cge`X0Ah+q6DQ@6iO^<DIoM'' @ ''Lg2@-J1uvJ!X^n&RTO*r7_+^Syh?b8L^pK4TLlS$qYP'',
     ''`xI)3eYZb+8ymGfVcwCmUKGUXR?-YFG)BrH=210n#(x8+~{am4xZ%I9mny(&`X|WBWF>YkSJw~+YDIH'',
     ''*5{@b263z6GHcmcugEmC1Bc9I+?~cbSSnX`v}D&!k}9qmt3a_lk@yifMwc!=6kU&s-_ZMPaS~+n<qbA'',
     ''*J6ReuWK^|g_$f0L*|IM>W2$aky+yGsjcCX?e(Y9;j#o^niYhvau2@f(;(+}U)=seZ5#aGQjaP<M'' @ ''LzT'',
     ''cdmzs+z+mvXa^}AhKJVq=Vbf-xz@3v^VtjBOtmS#5~=2*Q*RpTV&g#FPFo69*=W>}9-7n`#Zqoe(;tj'',
     ''N<{M@a!}-a@-kVk4Hh!G7Bpknp{?ySu&H6yIWK(inumt}P{!Desf{bw&Q__NFTxa8?>G8$DCmYee~pC'',
     ''}62TbZn~<{qG`%r5uz+SPZcXJJHNX0dy8_?MV&Gpws*VZ_d$Tb=YAB@#-+o#P5dYY&8mPSntwyT9t0#'',
     ''3VSPSRH^rwI<JNEWDB>XAPj(Dy`daLcl^ZlVo@(0YoQ_}E7)BQ@Menul*mIqk7d<NR$1v8uMtX!%d?|'',
     ''1hxKXuhzj5rY|erp!-RXEmq}{texbT8n}R>IU(Ywx)y+BM2_qn3%EJyWP1MvVeC8e&TCkrii#8bGV3&'',
     ''#Af+BB=OOh+kPE0FkQFw{Vj}5ZLYL-lCF-og<(^~aOEQJU8%6kHe2JnIuw6+%?P{Oi9iX3#pfKn;-p?'',
     ''_cS!TUM~X?+&%T<Q=wU@ct0)ZbI;zi=CqF3^-i-U3OoOp8}DbpRT%8ZK(;Kx$CJsdNnT2Vq|8NyAZbU'',
     ''4pLC*6+(QTzKyJ)jsR2a;u6=yQblpEn@_{EGYjO+00gVCGna5!QTG>P)h>@6aWAK2mtSfNm^FaR@J`;'',
     ''000{m001BW003}la4%nWWo~3|axZmqY;0*_GcR>?X>2cdVQF+OaCy~OTW=f36@KThm{Jd-T#8m}1OZ&'',
     ''LfeSdOkyJ8l1%3z&Vz_&joN{(&Gc&6df&Tb>XD-VnM'' @ ''LF(UOW5LN&iUrtFRSX-STD%h#!OWF;z(2Bhi`'',
     ''i~sjR6*'' @ '')is4TMmv#CT4}wKdNT2L|9T?u3Upr8lu2sS7;hR?Oz5$o){FPy_jlGB`wUC?EZvB8vRX;4S1'',
     ''Yj;zfNz>XSu(}ALV~E_LC`g6yc_GG41i|sxo$ENtQ=H^j3MAewj=rg_h2VXJKaVf}qMYS5d$g<Y2oH|'',
     ''1`aDThr-M^duNrm`1q3>VBA9faHEl7Q*Ad?~U;LmYgt^c>CeK6MNH%LN=mvBp^`$P|aq9@mlyT&SX>U'',
     ''fmNH5EY7_2RCPLnXtg6jt<n1B?zfIQnhV*KfzN2rM{-TjaG(cP^yo|GTd<HPs4Q@8@Q12O6^a@!`Ykm'',
     ''<<gI*wMnW6UsxVd*R(K<JM6K{v7CRix#hMDq+GR~0d6ujeT?;J>%A!Ua@Co1&aB#a@h<|jRt!o;+7xX'',
     ''}ECP;(3vc08nu$rbMhmiOen1RLkrD-nxz;z^H)OrriV6YQYu@Pk9JA_&^|JWW2@ySH5M_g7Q8g+Ih;7'',
     ''qpc>}nB$;MVkWu|=?yfu-0Q1L`&To~Su+v9OWt2XWW1kfq|VlUn@Js7G@1!EvD8A|s$WsG1EhAtc96V'',
     ''VVa>2QFv?OVo0Qh=ZY=W+5P0C6#8&Xm2(It?fJn-&Sq5*G*Ti5wE4F6zo}&E39h0u`b3)YZR1)*`ky}'',
     ''1)o>y5qNxCFeGkH(z33trHYQN0o6XMrZhb$d`J)AG$w=2APfZ8B%K!@_I?Y%(vV{(w$?nTlB2J;vTex'',
     ''%j)hnL3c=R-AjPE<cRw9s&y21cjF$mJEc>l;Y}sc``8UyOsYagajompY-cVHOlX*S5hxHzZL(E8y-F+'',
     ''YQC5_WWlq@4YLo4kJD}?*SngbNZ9j?Ung&gSFWX{yYLAADKhcJQ}YUMZ;7L$ppxJoZ@rGxw{)l^3OeJ'',
     ''N(I=Hk0l#V*9ZVm*mAp2v8x<gG%)fSc{$#Cnf7sAQ*o;KFCIVxs*j;Cef&m>210I-j8V1)2`vRWr+Hl'',
     ''L_mcFTX?4WV0mcqY!TK-(8}r{39FW)--fDi$Jo3FA063(nk8(6qcA?4KxRV&TtIv2Il^AzGpH}_gl`9'',
     ''d)u8L46SecI%AFTG0gEP^qLUOuf&_BX!l&}-iTL=?{eHOXdp?aOYzsm_eV&nsm>DKG3ym~QF<!fg}9`'',
     ''Jv>W&9&6i6=8cH=PA=i);=(urh{C1F%9XAGkf(XY9h~iJnI87|xy}!Nx`1JZ<AgLTZIeF@z!OF?)%Y('',
     ''<R#~wS&GzynD;^sW?G5F0N;Vh3M>sv56OwW>`;Gq9^gxP{KAR2fz3@ov|&G>CDc$``Oh>C&k6('' @ ''*VdCE'',
     ''c^+Taq{s7j_9O!E^j2@QkvR%`ZN74YS9oXIghCz^<i2Rr^Cl1}t}ga6boszMem)%(BInP`xmleF@+Dl'',
     ''kY0Bk8TeH3$Ex*85F$AgeP+L&rn{7&pbtxh6}fZhRyX_<22Rr28Ns?JX{!FJ=G|1YQv4ybw$Aqf4xsQ'',
     ''wX}gN%mZ<tU>W3E(_-AWOt;z26N($b1OO@%8X7NBZc2HAlzJLUeJjztgyAISi%M0YOA=2+KnOZ!8G->'',
     ''4S{}59e1vLoL_mX{#VHQCuuh?azRfdZ$E_UwE~+H!jE1&{UJ>nAHE>Uw-e)PZ<J&xWXP#`I-;=A^k$a'',
     ''AT`2HB)f%TR09T{UmTw{BfMG$Ua{qQLQU8PjuruToC2(@&(p@=+*`f&Q6WiF&2?tcFH{p~Yxe}?w%m;'',
     ''1Plux-rx-(on8Bf`<)!qP?|@NKdh<6TWsAYk1I!vxFccoIl6h7Ysj&|n+P7nqD3an!k?QI}>F=ui7{o'',
     ''a+3UuI$B&rTELu&7ruaXc(kTfRiVoauQbQ?n7+lfN8oj0rP?z(p<cFvFrI$k~ez%`R#Ao<SFc$e(ThO'',
     '')VvMJ2aM5N6sGyg70;3@ZkR}`Xp&*ldfOtmz=jnj7&;fBv`UTq7N;<t(H&O~XL!Mht0EN7nH$#)h2$i'',
     ''~BeW<x3e#d9VNFx1O=n{h=V}qBEHua+?OW*!&i#ZI_H9%RE5qa$7fPOdHTjntixmYQ;$U_(+k7?f_;u'',
     ''o}Bk#_|O(e_%%Uh4Z6C*sOxh0JnPbbQd-jVfaI!MQye#s->=Kl+>$0cdGkBb=>Ud(pImLET8swvMx$?'',
     ''9Ahbll68b?NCuPnR~=Ri2xv3}wCu&jzsdsj!xgo@eBB1x~>tP-FRuyIQLGX7Emlvcoex=M={dmz@n)^'',
     ''Iq{|2e|*lt4Gl!E987a3Nj`cAYb@(qs<y!@WfKN2t6Ot{5oOc26CoMCr<$l3#){aXSuIT<A>>2A<qv%'',
     ''2lumLAGGv1tFL2?R>f;hIBGUwKYJegT#*=8oIi@6(=g-mp6ctF<};m6xw^#e&7`5j8|<lvViF%`Y}5n'',
     ''gM?g{jk3k?8f;$w~!*GHs%V5kM*87kinI_k6dTf==K8GM*({j{SV_VC*9QL?lwL`1=M!lK#e_HQD4?m'',
     '';$?@&tt0u%!j000080PluLT0RPjk@x@r0A&FH01p5F00000000000HlEc0001RX>c!JUukY>bYEXCaC'',
     ''uNm0Rj{Q6aWAK2mtSfNm_6Buh+Z*00344000jF0000000000005+cB>?~caA|NaUteuuX>MO%E^v8JO'',
     ''928D0~7!N00;o@hDlmUbMd>?0ssK21pojQ00000000000001_fer%z0B~t=FJE79X>cuab#88Da$jFA'',
     ''aCuNm0Rj{Q6aWAK2mtSfNm|Xvz%{@C0015V000aC0000000000005+c76t$SaA|NaaCt6td2nT9P)h*'',
     ''<6ay3h000O8?}kZQQz>BIHvs?u0RjL382|tP0000000000q=5hj003}la4%nJZggdGZeeUMUtei%X>?'',
     ''y-E^v8JO928D0~7!N00;o@hDloA2E6gM3;+PkDF6T(00000000000001_fo=!@0B~t=FJEbHbY*gGVQ'',
     ''epAb!lv5UuAA~E^v8JO928D0~7!N00;o@hDlmLr_T-x3;+OuC;$K!00000000000001_fm{^;0B~t=F'',
     ''JEbHbY*gGVQepBVPj}zE^v8JO928D0~7!N00;o@hDlm*_ZhU*5C8zRHUIz~00000000000001_ftw)!'',
     ''0B~t=FJEbHbY*gGVQepBZ*FF3XLWL6bZKvHE^v8JO928D0~7!N00;o@hDlm29#wlP9smGwX8-^j0000'',
     ''0000000001_fvYkA0B~t=FJEbHbY*gGVQepDcw=R7bZKvHb1rasP)h*<6ay3h000O8?}kZQCjg_T=l}'',
     ''o!Q~>}06#xJL0000000000q=61m003}la4%nJZggdGZeeUMZDDC{E^v8JO928D0~7!N00;o@hDloBHq'',
     ''blY2><|g8~^|s00000000000001_fhke|0B~t=FJEbHbY*gGVQepOd2n)XYGq?|E^v8JO928D0~7!N0'',
     ''0;o@hDllp^D)Hq3IG6pAOHX)00000000000001_fk0dU0B~t=FJEbHbY*gGVQepRWo%|&Z*_EJVRU6='',
     ''Ut?%xV{0yOc~DCM0u%!j000080PluLT3Mv@pi~S102eL*03HAU00000000000HlF-X8-_jX>c!JX>N3'',
     ''7a&BR4FL!8VWo%z!b!lv5WpXZXc~DCM0u%!j000080PluLTF!UsG-v<-0E7Sl0384T00000000000Hl'',
     ''EibN~QwX>c!JX>N37a&BR4FJo+JFJE72ZfSI1UoLQYP)h*<6ay3h000O8?}kZQeWIq7DF^@n(HZ~%BL'',
     ''DyZ0000000000q=Bh)003}la4%nJZggdGZeeUMV{B<JVRdwGV{dJ6Y-Mz5Z*DGdc~DCM0u%!j000080'',
     ''PluLTKBY?MDz*(0I?we03iSX00000000000HlEveE<M(X>c!JX>N37a&BR4FJo+JFJfVHWnW`&ZEaz0'',
     ''WG--dP)h*<6ay3h000O8?}kZQMuN3ZO&|aOq;&uQ9{>OV0000000000q=80=003}la4%nJZggdGZeeU'',
     ''MV{B<JV{K$_aCB*JZgVbhc~DCM0u%!j000080PluLS|UeHEh_;400sj903-ka00000000000HlG?r~m'',
     ''+PX>c!JX>N37a&BR4FJo+JFJo_QZDDR?Ut@1>bY*ySE^v8JO928D0~7!N00;o@hDloJzD=T`2LJ#q76'',
     ''1Su00000000000001_fjz1K0B~t=FJEbHbY*gGVQepBY-ulPZe(S6Ut@1=ZDDR?E^v8JO928D0~7!N0'',
     ''0;o@hDlnJN0=-V1poj63jhEa00000000000001_fgZ8|0B~t=FJEbHbY*gGVQepBY-ulTVQFqIaCuNm'',
     ''0Rj{Q6aWAK2mtSfNm@X-9(rX4008n3001BW0000000000005+cXtw|WaA|NaUukZ1WpZv|Y%gPMX)kS'',
     ''IX>MO|VRCb2axQRrP)h*<6ay3h000O8?}kZQn(kcA+YA5zNh$yU8vp<R0000000000q=5^*003}la4%'',
     ''nJZggdGZeeUMV{B<JaA9(DWpXZXc~DCM0u%!j000080PluLT5pcY9IFEW0G$c|03rYY00000000000H'',
     ''lE*%K!jyX>c!JX>N37a&BR4FJo+JFK}{iXL4n8b6;X%a&s<lc~DCM0u%!j000080PluLT7BVMM1>3h0'',
     ''NO7A03ZMW00000000000HlEm&j0{$X>c!JX>N37a&BR4FJo+JFLGsZUt@1=ZDDR?E^v8JO928D0~7!N'',
     ''00;o@hDlnf%vs5v1^@v56951m00000000000001_fz8_h0B~t=FJEbHbY*gGVQepBY-ulZaA|ICWpZ;'',
     ''aaCuNm0Rj{Q6aWAK2mtSfNm~7S083Z^0049V001EX0000000000005+crs4nqaA|NaUukZ1WpZv|Y%g'',
     ''PMX)kkhVRUtKUt@1%WpgfYc~DCM0u%!j000080PluLTI-e7F_HuT04fgv03rYY00000000000HlFE;{'',
     ''X6~X>c!JX>N37a&BR4FJo_QZDDR?b1z?CX>MtBUtcb8c~DCM0u%!j000080PluLTI#6Ih6xD(0IMGW0'',
     ''3QGV00000000000HlEr=l}q4X>c!JX>N37a&BR4FJo_QZDDR?b1!3IV`ybAaCuNm0Rj{Q6aWAK2mtSf'',
     ''Nm>|-8RW?V007(w0018V0000000000005+cRq+4-aA|NaUukZ1WpZv|Y%gPPZEaz0WOFZLXk}w-E^v8'',
     ''JO928D0~7!N00;o@hDloI&YE#w1polQ5C8xq00000000000001_fm`$d0B~t=FJEbHbY*gGVQepBZ*6'',
     ''U1Ze('' @ ''*WV{dJ6Y-Mz5Z*DGdc~DCM0u%!j000080PluLS}9j{whIdY0462?04D$d00000000000HlHZ`2'',
     ''YZLX>c!JX>N37a&BR4FJo_QZDDR?b1!3WZf0p`b#h^JX>V>WaCuNm0Rj{Q6aWAK2mtSfNm>S)&O-VK0'',
     ''04~|0018V0000000000005+cOa%b|aA|NaUukZ1WpZv|Y%gPPZEaz0WOFZMWny(_E^v8JO928D0~7!N'',
     ''00;o@hDln~lr7ok1pok<6aWAs00000000000001_frAbK0B~t=FJEbHbY*gGVQepBZ*6U1Ze('' @ ''*WWN&w'',
     ''FY;R#?E^v8JO928D0~7!N00;o@hDlo963Ese1ONbo3;+Ni00000000000001_fvOY%0B~t=FJEbHbY*'',
     ''gGVQepBZ*6U1Ze('' @ ''*WW^!d^dSxzfc~DCM0u%!j000080PluLTEEEq;Nt=S0H+2303HAU00000000000H'',
     ''lEl836!rX>c!JX>N37a&BR4FJo_QZDDR?b1!INb7(Gbc~DCM0u%!j000080PluLT8YDyJn8`e0Bi&R0'',
     ''3HAU00000000000HlE^9034uX>c!JX>N37a&BR4FJo_QZDDR?b1!IRY;Z1cc~DCM0u%!j000080PluL'',
     ''T9>ggV9*5s0DBSu03QGV00000000000HlFV9svMwX>c!JX>N37a&BR4FJo_QZDDR?b1!LbWMz0RaCuN'',
     ''m0Rj{Q6aWAK2mtSfNm>JgO&(7K004Ci001EX0000000000005+cTO<JhaA|NaUukZ1WpZv|Y%gPPZEa'',
     ''z0WOFZRZgX&DV{|TXc~DCM0u%!j000080PluLS}Imq(o-D(0M2p%03iSX00000000000HlHGC;<R)X>'',
     ''c!JX>N37a&BR4FJo_QZDDR?b1!Lbb97;BY%XwlP)h*<6ay3h000O8?}kZQjT(6_unYhI;V}RJ9smFU0'',
     ''000000000q=9=z0RV7ma4%nJZggdGZeeUMV{dJ3VQyq|FKlUZbS`jtP)h*<6ay3h000O8?}kZQdU}+5'',
     ''QU?G4`V{~GAOHXW0000000000q=9Es0RV7ma4%nJZggdGZeeUMV{dJ3VQyq|FLPyKa${&NaCuNm0Rj{'',
     ''Q6aWAK2mtSfNm`JTf^l65006Nb0015U0000000000005+c_gVn}aA|NaUukZ1WpZv|Y%gPPZEaz0WOF'',
     ''ZbXm58eaCuNm0Rj{Q6aWAK2mtSfNm?*<_r~Z1001-(001KZ0000000000005+ckYoV>aA|NaUukZ1Wp'',
     ''Zv|Y%gPPZEaz0WOFZdZfS0FbYX04E^v8JO928D0~7!N00;o@hDlmi2BqXX2LJ#L82|tu00000000000'',
     ''001_fw^e`0B~t=FJEbHbY*gGVQepBZ*6U1Ze('' @ ''*WcW7m0Y%XwlP)h*<6ay3h000O8?}kZQ({&9lI{^Ry'',
     ''S_1$8CjbBd0000000000q=7MU0RV7ma4%nJZggdGZeeUMWNCABa%p09bZKvHb1z?CX>MtBUtcb8c~DC'',
     ''M0u%!j000080PluLTEP<KFv<b|0QUv}03!eZ00000000000HlGjasdEvX>c!JX>N37a&BR4FJx(RbaH'',
     ''88b#!TOZgVeUVRL0JaCuNm0Rj{Q6aWAK2mtSfNm`bdKX`Zn002q@001Ze0000000000005+cymbKpaA'',
     ''|NaUukZ1WpZv|Y%gSKb98cPVs&(BZ*FrhX>N0LVQg$=WG--dP)h*<6ay3h000O8?}kZQiD+qyL<ax>U'',
     ''m5@aBme*a0000000000q=9;O0RV7ma4%nJZggdGZeeUMWNCABa%p09bZKvHb1!pbX>)WgaCuNm0Rj{Q'',
     ''6aWAK2mtSfNm{Y<!>=y_001Qg001Na0000000000005+c0Dl1haA|NaUukZ1WpZv|Y%gSKb98cPVs&('',
     ''BZ*FrhcW7m0Y%XwlP)h*<6ay3h000O8?}kZQLqAK-AOHXW9smFU9{>OV0000000000q=9jP0RV7ma4%'',
     ''nJZggdGZeeUMX>Md?crRaHX>MtBUtcb8c~DCM0u%!j000080PluLT3s1Jl9&?!0Es^U03ZMW0000000'',
     ''0000HlG=fdK$;X>c!JX>N37a&BR4FKKRMWq2=RZ)|L3V{~tFE^v8JO928D0~7!N00;o@hDlm6!rCfhB'',
     ''me-slmGxF00000000000001_fuxlI0B~t=FJEbHbY*gGVQepHZe(S6FK}UFYhh<)UuJ1;WMy(LaCuNm'',
     ''0Rj{Q6aWAK2mtSfNm{Ql(tPX(006il0015U0000000000005+cO1c36aA|NaUukZ1WpZv|Y%ghUWMz0'',
     ''Sb8mHWV`XzLaCuNm0Rj{Q6aWAK2mtSfNm`eYOcvo0002!o001KZ0000000000005+ca>4-saA|NaUuk'',
     ''Z1WpZv|Y%gqYV_|e@Z*FrhUtei%X>?y-E^v8JO928D0~7!N00;o@hDlms-INRJ2mk<m7XSby0000000'',
     ''0000001_ft1t%0B~t=FJEbHbY*gGVQepKZ)0I}X>V?GFJEM7b98ldX>4;YaCuNm0Rj{Q6aWAK2mtSfN'',
     ''m@xp(%|0-001l=001Qb0000000000005+c!QBA>aA|NaUukZ1WpZv|Y%gqYV_|e@Z*FrhUvqhLV{dL|'',
     ''X=g5Qc~DCM0u%!j000080PluLTB)8zQh@'' @ ''{j0Q?C603QGV00000000000HlHA=K%n4X>c!JX>N37a&BR'',
     ''4FKlmPVRUJ4ZgVeUVRL0JaCuNm0Rj{Q6aWAK2mtSfNm`uxHWhjW008k2001HY0000000000005+cq3i'',
     ''(waA|NaUukZ1WpZv|Y%gtPbYWy+bYU-FUukY>bYEXCaCuNm0Rj{Q6aWAK2mtSfNm^Lzo!<BZ005H;00'',
     ''18V0000000000005+cTk-(_aA|NaUukZ1WpZv|Y%gtPbYWy+bYU-FYIARHE^v8JO928D0~7!N00;o@h'',
     ''DlofqF~G682|v%VgLXh00000000000001_fspnA0B~t=FJEbHbY*gGVQepLWprU=VRT_HVqtS-E^v8J'',
     ''O928D0~7!N00;o@hDlm0I;!i#3jhEvDF6T`00000000000001_fvpe%0B~t=FJEbHbY*gGVQepLWprU'',
     ''=VRT_HaBF8@a%FRGb#h~6b1rasP)h*<6ay3h000O8?}kZQc|mBdVE_OChX4QoEC2ui0000000000q=B'',
     ''^@0swGna4%nJZggdGZeeUMZDn*'' @ ''}WMOn+FKKOXZ*p{OX<{#5UukY>bYEXCaCuNm0Rj{Q6aWAK2mtSfNm'',
     ''^nvRj7Fc008U?001ih0000000000005+cU>yPgaA|NaUukZ1WpZv|Y%gtPbYWy+bYU-PZE$aLbZlv2F'',
     ''JEJCZE#_9E^v8JO928D0~7!N00;o@hDlogTPwKV2><|BAOHX=00000000000001_fg&OT0B~t=FJEbH'',
     ''bY*gGVQepLWprU=VRT_HX>D+Ca&&BIVlQ80X>)XQE^v8JO928D0~7!N00;o@hDlmF^w3ct2><{G9RL6'',
     ''+00000000000001_fk`X^0B~t=FJEbHbY*gGVQepLWprU=VRT_HX>D+Ca&&BIVlQ81Zgz7naCuNm0Rj'',
     ''{Q6aWAK2mtSfNm_f!DE>PD002J#001BW0000000000005+cur&ezaA|NaUukZ1WpZv|Y%gtZWMyn~FJ'',
     ''E72ZfSI1UoLQYP)h*<6ay3h000O8?}kZQ%in7|M*#o;@d5w<ApigX0000000000q=6|m0swGna4%nJZ'',
     ''ggdGZeeUMZEs{{Y;!MTVQyq;WMOn=E^v8JO928D0~7!N00;o@hDloD9uW+a2LJ%F82|tx0000000000'',
     ''0001_fv-0L0B~t=FJEbHbY*gGVQepLZ)9a`b1!6Ra%E$5Uv+Y9E^v8JO928D0~7!N00;o@hDlnQrANq'',
     ''J0{{TF2><{l00000000000001_fr38*0B~t=FJEbHbY*gGVQepLZ)9a`b1!CZa&2LBUt@1>baHQOE^v'',
     ''8JO928D0~7!N00;o@hDloAm#NLd0RR971ONaX00000000000001_fg?i#0B~t=FJEbHbY*gGVQepLZ)'',
     ''9a`b1!LbWMz0RaCuNm0Rj{Q6aWAK2mtSfNm}DJoculn0006D001ih0000000000005+cAVmTIaA|NaU'',
     ''ukZ1WpZv|Y%gtZWMyn~FKKRbbYX04VRUJ4ZeMa`aBp&SE^v8JO928D0~7!N00;o@hDlnn@vYQL82|vt'']"

lemma good_DATA_28235: "good_lines DATA_28235"
  unfolding DATA_28235_def by (simp only: good_lines_eval, simp?)

lemma lines_DATA_28235: "map length DATA_28235 = replicate 150 79"
  unfolding DATA_28235_def by (simp add: numeral_eq_Suc)

text \<open>Lines 28385 to 28534.\<close>

definition DATA_28385 :: "string list" where
  "DATA_28385 =
    [''Qvd)Q00000000000001_fu~6V0B~t=FJEbHbY*gGVQepLZ)9a`b1!UZZfh=Zc~DCM0u%!j000080Plu'',
     ''LTHoZB_euc(06zi%03HAU00000000000HlE|V*&thX>c!JX>N37a&BR4FKusRWo&aVb7N>_ZDlTSc~D'',
     ''CM0u%!j000080PluLS|166*kJ|$0J9MQ03-ka00000000000HlGkWC8$iX>c!JX>N37a&BR4FKusRWo'',
     ''&aVb7f(2V`yJ<V{dR}E^v8JO928D0~7!N00;o@hDll}J`45-0{{Tu2LJ#k00000000000001_fmLe)0'',
     ''B~t=FJEbHbY*gGVQepLZ)9a`b1!pcY-M9~X>V>{aB^j4b1rasP)h*<6ay3h000O8?}kZQ-VY_YC<Ooj'',
     ''uMhwLB>(^b0000000000q=BJs0swGna4%nJZggdGZeeUMZEs{{Y;!MkVRC0>bYF0JbZBpGE^v8JO928'',
     ''D0~7!N00;o@hDlnhjP5<;1polM5dZ)k00000000000001_feds40B~t=FJEbHbY*gGVQepLZ)9a`b1!'',
     ''#jWo2wGaCuNm0Rj{Q6aWAK2mtSfNm>pcfl4v}001%o001EX0000000000005+cD|!L|aA|NaUukZ1Wp'',
     ''Zv|Y%gwQba!uZYcF44X>MtBUtcb8c~DCM0u%!j000080PluLS{10+oc$F507+2*0384T00000000000'',
     ''HlGOdIA7&X>c!JX>N37a&BR4FK%UYcW-iQFJX0bXfAMhP)h*<6ay3h000O8?}kZQC9`B}Nd^D_1`+@O'',
     ''9smFU0000000000q=D3s0swGna4%nJZggdGZeeUMZe?_LZ*prdV_{=xWiD`eP)h*<6ay3h000O8?}kZ'',
     ''QQ1ep@;RXNzpceoDApigX0000000000q=8wN0swGna4%nJZggdGZeeUMZe?_LZ*prdWN&wFY;R#?E^v'',
     ''8JO928D0~7!N00;o@hDlnnRn=M52><}b9RL6$00000000000001_fq9++0B~t=FJEbHbY*gGVQepMWp'',
     ''sCMa%(SaVS0IAcW7m0Y%XwlP)h*<6ay3h000O8?}kZQ_Y(D7z!v}jQ%L{-AOHXW0000000000q=Ap90'',
     ''swGna4%nJZggdGZeeUMZe?_LZ*prdb7gaLX>V>WaCuNm0Rj{Q6aWAK2mtSfNm|(74Y|(+008(80015U'',
     ''0000000000005+cjlco`aA|NaUukZ1WpZv|Y%gwQba!uZYcF+lX>4;YaCuNm0Rj{Q6aWAK2mtSfNm}s'',
     ''Z?IO+s001rr0018V0000000000005+cn8pGCaA|NaUukZ1WpZv|Y%gwQba!uZYcF_hY;tg8E^v8JO92'',
     ''8D0~7!N00;o@hDllg00002000000000a00000000000001_fuqR+0B~t=FJEbHbY*gGVQepNaAk5~bZ'',
     ''KvHb1z?CX>MtBUtcb8c~DCM0u%!j000080PluLTCVz5phpJ)02mhl03iSX00000000000HlHE$pQdyX'',
     ''>c!JX>N37a&BR4FK=*Va$$67Z*FrhV`yb#Yc6nkP)h*<6ay3h000O8?}kZQBwW;)VhR8Nb0z=)A^-pY'',
     ''0000000000q=9YG0swGna4%nJZggdGZeeUMZ*XODVRUJ4ZgVeYa%E+DWiD`eP)h*<6ay3h000O8?}kZ'',
     ''Qm8sK%ksJU3)@=X)BLDyZ0000000000q=66I0swGna4%nJZggdGZeeUMZ*XODVRUJ4ZgVeia%FH~a%C'',
     ''=Xc~DCM0u%!j000080PluLS^xk500IC20000004e|g00000000000HlH8_yPcMX>c!JX>N37a&BR4FK'',
     ''=*Va$$67Z*FrhVs&Y3WG`P|X>MtBUtcb8c~DCM0u%!j000080PluLTCTYcJB$VZ0HzWE051Rl000000'',
     ''00000HlE{`2qlNX>c!JX>N37a&BR4FK=*Va$$67Z*FrhVs&Y3WG`ZMX>4R)baG*1Yh`jSaCuNm0Rj{Q'',
     ''6aWAK2mtSfNm_pJe@k8h0052!001fg0000000000005+c1ONj7aA|NaUukZ1WpZv|Y%gzcWpZJ3X>V?'',
     ''GFJg6RY-BHOWprU=VRT_GaCuNm0Rj{Q6aWAK2mtSfNm_Fv^>2Iv008C%001)p0000000000005+cssa'',
     ''N5aA|NaUukZ1WpZv|Y%gzcWpZJ3X>V?GFJg6RY-BHOWprU=VRT_%Wn^h|VPb4$E^v8JO928D0~7!N00'',
     '';o@hDlnH;3Baq0{{Sy2mk;v00000000000001_fp-N10B~t=FJEbHbY*gGVQepNaAk5~bZKvHb1!0bX'',
     ''>4RKZDn*'' @ ''}WMOn+Uu<P(VPknNaCuNm0Rj{Q6aWAK2mtSfNm>y8#bxRN001)t001Wd0000000000005+c'',
     ''@CX9{aA|NaUukZ1WpZv|Y%gzcWpZJ3X>V?GFJg6RY-BHYXk}$=E^v8JO928D0~7!N00;o@hDlo2r>Mt'',
     ''10ssJs1pojr00000000000001_fgcM40B~t=FJEbHbY*gGVQepNaAk5~bZKvHb1!0bX>4RKcW7m0Y+q'',
     ''$$X>?&?Y-KKRc~DCM0u%!j000080PluLT9vwe6!-%G0Obn+04@Lk00000000000HlGd4FdphX>c!JX>'',
     ''N37a&BR4FK=*Va$$67Z*FrhVs&Y3WG{DUWo2w%Y-M'' @ ''L*V|gxcc~DCM0u%!j000080PluLTH)Okdo=(60'',
     ''5bpp04x9i00000000000HlHM5d#2lX>c!JX>N37a&BR4FK=*Va$$67Z*FrhX>N0LVQg$KUtei%X>?y-'',
     ''E^v8JO928D0~7!N00;o@hDlo7BnV{;0ssI51poju00000000000001_fo>850B~t=FJEbHbY*gGVQep'',
     ''NaAk5~bZKvHb1!Lbb97;BY%gVGX>?&?Y-L|;WoKbyc`k5yP)h*<6ay3h000O8?}kZQz9EUzD<J>?-)j'',
     ''H>DF6Tf0000000000q=Cy60|0Poa4%nJZggdGZeeUMZ*XODVRUJ4ZgVebZgX^DY-}%gXk}$=E^v8JO9'',
     ''28D0~7!N00;o@hDlm77#{3r0{{SB3IG5d00000000000001_fju?@0B~t=FJEbHbY*gGVQepQWpOWGU'',
     ''ukY>bYEXCaCuNm0Rj{Q6aWAK2mtSfNm}+mL1^(40090+001EX0000000000005+c-#G&SaA|NaUukZ1'',
     ''WpZv|Y%g+UaW7+UZgX^Ubz^jIa&s<lc~DCM0u%!j000080PluLTFnWre4-Zs018h40384T000000000'',
     ''00HlErP6GgNX>c!JX>N37a&BR4FLGsZFLGsZUuJ1+WiD`eP)h*<6ay3h000O8?}kZQen^KTza#(v%8L'',
     ''L1AOHXW0000000000q=D>Z0|0Poa4%nJZggdGZeeUMa%FKZa%FK}X>N0LVQg$JaCuNm0Rj{Q6aWAK2m'',
     ''tSfNm`DM(H=zu001fr000~S0000000000005+c>52mYaA|NaUukZ1WpZv|Y%g+UaW8UZabI&~bS`jtP'',
     '')h*<6ay3h000O8?}kZQ5j0P6z8U}kEnNTrA^-pY0000000000q=9IT0|0Poa4%nJZggdGZeeUMa%FKZ'',
     ''a%FK}b#7^Hb97;BY%XwlP)h*<6ay3h000O8?}kZQ000000ssI200000Bme*a0000000000q=9Cs0|0P'',
     ''oa4%nJZggdGZeeUMa%FRGY;|;LZ*DJNUukY>bYEXCaCuNm0Rj{Q6aWAK2mtSfNm}I_%c=hW002h<001'',
     ''BW0000000000005+cs;L72aA|NaUukZ1WpZv|Y%g+Ub8l>QbZKvHFJfVHWiD`eP)h*<6ay3h000O8?}'',
     ''kZQ000000ssI200000D*ylh0000000000q=DzE0|0Poa4%nJZggdGZeeUMa%FRGY;|;LZ*DJaWoKbyc'',
     ''`sjIX>MtBUtcb8c~DCM0u%!j000080PluLT9prdY#bT@00dqD04o3h00000000000HlF3s{;UVX>c!J'',
     ''X>N37a&BR4FLGsbZ)|mRX>V>XY-M'' @ ''L*V|g!fWpi(Ac4cxdaCuNm0Rj{Q6aWAK2mtSfNm>8^000620000'',
     ''0001ul0000000000005+cm&F4BaA|NaUukZ1WpZv|Y%g+Ub8l>QbZKvHFLGsbZ)|pDY-wUIUtei%X>?'',
     ''y-E^v8JO928D0~7!N00;o@hDlnS0pSl21pok_6951!00000000000001_f#$^n0B~t=FJEbHbY*gGVQ'',
     ''epQWpi(Ab#!TOZZC3Wb8l>RWo&6;FJfVHWiD`eP)h*<6ay3h000O8?}kZQ*#vfR&k_ItAx;1QF#rGn0'',
     ''000000000q=7%n0|0Poa4%nJZggdGZeeUMa%FRGY;|;LZ*DJgWpi(Ac4cg7VlQK1Ze(d>VRU74E^v8J'',
     ''O928D0~7!N00;o@hDln?e-48$AOHZ9e*ge300000000000001_fnDAM0B~t=FJEbHbY*gGVQepQWpi('',
     ''Ab#!TOZZC3Wb8l>RWo&6;FJ@t5bZ>HbE^v8JO928D0~7!N00;o@hDlmtAFda@2LJ%?7ytk_00000000'',
     ''000001_f!O{70B~t=FJEbHbY*gGVQepQWpi(Ab#!TOZZC3Wb8l>RWo&6;FJ^CbZe(9$VQyq;WMOn=b1'',
     ''rasP)h*<6ay3h000O8?}kZQtA(O%vkU+L&n5r>F8}}l0000000000q=D)N1ORYpa4%nJZggdGZeeUMa'',
     ''%FRGY;|;LZ*DJgWpi(Ac4cg7VlQxVZ+2;9WpXZXc~DCM0u%!j000080PluLS~S_Y?C}Et0ALIN051Rl'',
     ''00000000000HlHH69fQoX>c!JX>N37a&BR4FLGsbZ)|mRX>V>Xa%FRGY<6XAX<{#OWpHnDbY*fbaCuN'',
     ''m0Rj{Q6aWAK2mtSfNm_!()AnNq004m>001)p0000000000005+cC>R6)aA|NaUukZ1WpZv|Y%g+Ub8l'',
     ''>QbZKvHFLGsbZ)|pDY-wUIa%FLKX>w(4Wo~qHE^v8JO928D0~7!N00;o@hDlmL!g2VN4*&o#F#rHB00'',
     ''000000000001_f!rPh0B~t=FJEbHbY*gGVQepQWpi(Ab#!TOZZC3Wb8l>RWo&6;FLGsbZ)|pDaxQRrP'',
     '')h*<6ay3h000O8?}kZQ000000ssI2000009{>OV0000000000q=CII1ORYpa4%nJZggdGZeeUMb#!TL'',
     ''b1z?CX>MtBUtcb8c~DCM0u%!j000080PluLT7+qN(bok402U1Z03!eZ00000000000HlHZE(8E@X>c!'',
     ''JX>N37a&BR4FLiWjY;!MPYGHC=V{cz{Wq5QhaCuNm0Rj{Q6aWAK2mtSfNm@#HIX~6`008#`000{R000'',
     ''0000000005+c6g30@aA|NaUukZ1WpZv|Y%g_mX>4;ZUu<t@E^v8JO928D0~7!N00;o@hDlljazetF0s'',
     ''sJk1^@sa00000000000001_fg?8r0B~t=FJEbHbY*gGVQepTbZKmJFJW+SWNC79E^v8JO928D0~7!N0'',
     ''0;o@hDllu^?BK@1ONbE2><{c00000000000001_f%Z8B0B~t=FJEbHbY*gGVQepTbZKmJFJo_QaA9;V'',
     ''aCuNm0Rj{Q6aWAK2mtSfNm{wB>+-V(004j(001cf0000000000005+c-#!EYaA|NaUukZ1WpZv|Y%g_'',
     ''mX>4;ZV{dJ6VRUI?X>4h9d0%v4XLBxac~DCM0u%!j000080PluLT5J<Nu9yG-0P+9;03QGV00000000'',
     ''000HlH0MFaqFX>c!JX>N37a&BR4FLiWjY;!MUVRU75X>DaLaCuNm0Rj{Q6aWAK2mtSfNm}PF7z0%W00'',
     ''4Uq001HY0000000000005+cu0{j^aA|NaUukZ1WpZv|Y%g_mX>4;ZWMy!2Wn*D<X>V>WaCuNm0Rj{Q6'',
     ''aWAK2mtSfNm|V+glgym004Xp001cf0000000000005+cLreq!aA|NaUukZ1WpZv|Y%g_mX>4;ZWNC6`'',
     ''V{~72a%^8{Wo&R|a&s<lc~DCM0u%!j000080PluLTI4IvK!*bW0G|l}03QGV00000000000HlF(Py_&'',
     ''QX>c!JX>N37a&BR4FLiWjY;!MVXJ=n*X>MySaCuNm0Rj{Q6aWAK2mtSfNm@K)W$Dob008(4001HY000'',
     ''0000000005+cHdF)vaA|NaUukZ1WpZv|Y%g_mX>4;ZWo~qGd2nxOZgg`laCuNm0Rj{Q6aWAK2mtSfNm'',
     ''>XyE32Ic0034K001EX0000000000005+cM_B{_aA|NaUukZ1WpZv|Y%g_mX>4;ZW@&6?b9r-gWo<5Sc'',
     ''~DCM0u%!j000080PluLTBFrZEm#2n0L%ga03ZMW00000000000HlE<VFUnhX>c!JX>N37a&BR4FLiWj'',
     ''Y;!MWX>4V5d2nTOE^v8JO928D0~7!N00;o@hDlo8pmHk=1^@t-4gdfg00000000000001_fw^J?0B~t'',
     ''=FJEbHbY*gGVQepTbZKmJFK29NVq-3Fc~DCM0u%!j000080PluLS^<nWSmOo&0BjQg0384T00000000'',
     ''000HlHcXaoRoX>c!JX>N37a&BR4FLiWjY;!MYVRL9@b1rasP)h*<6ay3h000O8?}kZQpaIe-ybS;VMJ'',
     ''@mU9smFU0000000000q=6l91ORYpa4%nJZggdGZeeUMb#!TLb1!UfXJ=_{XD)DgP)h*<6ay3h000O8?'',
     ''}kZQZ5^-}OdS9Knp*$>8vp<R0000000000q=6NF1ORYpa4%nJZggdGZeeUMb#!TLb1!Xab7L-Wc~DCM'',
     ''0u%!j000080PluLTJucueAfd20A2_H03ZMW00000000000HlGMn*;!GX>c!JX>N37a&BR4FLiWjY;!M'',
     ''gVPk7yXK8L{E^v8JO928D0~7!N00;o@hDloNK8bTv0ssJT1pojX00000000000001_fv=wg0B~t=FJE'',
     ''bHbY*gGVQepTbZKmJFLGsca(OOrc~DCM0u%!j000080PluLT3q>ITl@t808<eF04D$d00000000000H'',
     ''lFDq67eNX>c!JX>N37a&BR4FLiWjY;!MjWps6LbZ>8Lb6;Y0X>4RJaCuNm0Rj{Q6aWAK2mtSfNm{Vj2'',
     ''v}$f000~#001EX0000000000005+ceW(NgaA|NaUukZ1WpZv|Y%g_mX>4;Zb9G{Ha&Kd0b8{|mc~DCM'',
     ''0u%!j000080PluLT4zSTptTDC0A3^j03QGV00000000000HlE=v;+WfX>c!JX>N37a&BR4FLiWjY;!M'',
     ''kWo>X@WNC6PaCuNm0Rj{Q6aWAK2mtSfNm{Q_td~a(006%(001BW0000000000005+c7Qh4maA|NaUuk'',
     ''Z1WpZv|Y%g_mX>4;Zb#8EBV{2({XD)DgP)h*<6ay3h000O8?}kZQfq)#E@d5w<KL!8*8vp<R0000000'',
     ''000q=B2w1ORYpa4%nJZggdGZeeUMb#!TLb1!vrY;!Jfc~DCM0u%!j000080PluLT1~d*i5~?30Duhu0'',
     ''3iSX00000000000HlG%&;$T*X>c!JX>N37a&BR4FLiWjY;!MmX>xRRVQgh?b}n#vP)h*<6ay3h000O8'',
     ''?}kZQm{`7~L<Rr=ju8L=8~^|S0000000000q=6&W1ORYpa4%nJZggdGZeeUMb#!TLb1!#jWo2wGaCuN'',
     ''m0Rj{Q6aWAK2mtSfNm?(h-o-Bg002}10012T0000000000005+cq1*%jaA|NaUukZ1WpZv|Y%g|Wb1z'',
     ''?CX>MtBUtcb8c~DCM0u%!j000080PluLS~MUbwx|RE0LTph02=@R00000000000HlEn-UI+}X>c!JX>'',
     ''N37a&BR4FLq;dFJfVOVPSGEaCuNm0Rj{Q6aWAK2mtSfNm|Shgn7di0003;000;O0000000000005+c?'',
     ''BWCfaA|NaUukZ1WpZv|Y%g|Wb1!FUbS`jtP)h*<6ay3h000O8?}kZQ>fK>u{RIF3ffN7$9smFU00000'',
     ''00000q=Du51ORYpa4%nJZggdGZeeUMc4KodZDn#}b#iH8Y%XwlP)h*<6ay3h000O8?}kZQp%($5Wexx'',
     ''U*DU}59{>OV0000000000q=6p)1ORYpa4%nJZggdGZeeUMc4Kodb9G{NWpZ<AZ*DGdc~DCM0u%!j000'',
     ''080PluLT5yM{#3C2~0H{|003!eZ00000000000HlGy4Fv#jX>c!JX>N37a&BR4FLq;dFLq^eb7^mGV{'',
     ''dMBa&K%daCuNm0Rj{Q6aWAK2mtSfNm>o61j%0p000RS000*N0000000000005+cBPIm^aA|NaUv_0~W'',
     ''N&gWUtei%X>?y-E^v8JO928D0~7!N00;o@hDlnTKYPM9cmM!n4FUil00000000000001_fwwFL0B~t='',
     ''FJE?LZe(wAFLZfuX>Mm<Wq5RDZgXjGZgVbhc~DCM0u%!j000080PluLS|IS6<lX=P08Ie^02TlM0000'',
     ''0000000HlE{r3C<RX>c!Jc4cm4Z*nhoWo~3|axQdubWlqH0u%!j000080PluLS~5GRTR;H-0Hp!|03-'',
     ''ka00000000000HlFErUd|SX>c!Jc4cm4Z*nhVVPj}zV{dMBa&K%eUtei%X>?y-E^v8JO928D0~7!N00'',
     '';o@hDloaZ%<9R0ssKX1^@sc00000000000001_fxo8(0B~t=FJE?LZe(wAFJob2Xk}w>Zgg^QY%gD9Z'',
     ''DcNRc~DCM0u%!j000080PluLT1%p{K6?iM0L&Nw03!eZ00000000000HlGoss#XWX>c!Jc4cm4Z*nhV'',
     ''VPj}zV{dMBa&K%eVPs)&bY*fbaCuNm0Rj{Q6aWAK2mtSfNm`8Y72ewd005x}001EX0000000000005+'',
     ''ca<T;gaA|NaUv_0~WN&gWV_{=xWn*t{baHQOFJob2Xk{'' @ ''*Nc~DCM0u%!j000080PluLTGAI}@!t~w0FX'',
     ''!k044wc00000000000HlG8wFLlhX>c!Jc4cm4Z*nhVVPj}zV{dMBa&K%eV{dMBa&K&GWpXZXc~DCM0u'',
     ''%!j000080PluLS}cLL$?gUK0K*Uf04D$d00000000000HlGh$prv#X>c!Jc4cm4Z*nhVVPj}zV{dMBa'',
     ''&K%eW@&6?cXDBHaAk5XaCuNm0Rj{Q6aWAK2mtSfNm?uJq|USk000pa001Tc0000000000005+c;?M;E'',
     ''aA|NaUv_0~WN&gWV_{=xWn*t{baHQOFKA_Ta%ppPX=8IPaCuNm0Rj{Q6aWAK2mtSfNm>8^000620000'',
     ''0001EX0000000000005+c+SdgDaA|NaUv_0~WN&gWV_{=xWn*t{baHQOFK~G-ba`-PWKc^10u%!j000'',
     ''080PluLTCM3|zwZVB04o##03`qb00000000000HlE%*aZM^X>c!Jc4cm4Z*nhVVPj}zV{dMBa&K%eb7'',
     ''gXAVQgu7WiD`eP)h*<6ay3h000O8?}kZQ*gSt_<pBTyi3I=vBLDyZ0000000000q=8M}1pshqa4%nWW'',
     ''o~3|axY_HV`yb#Z*FvQZ)`7ja$#_AWpXZXc~DCM0u%!j000080PluLS|!j<{IdW6051Um04o3h00000'',
     ''000000HlF);ROJ2X>c!Jc4cm4Z*nhVVPj}zV{dMBa&K%eV_{=xWpgiIUukY>bYEXCaCuNm0Rj{Q6aWA'',
     ''K2mtSfNm?w=@OrQZ000*i001oj0000000000005+cZ{h_2aA|NaUv_0~WN&gWV_{=xWn*t{baHQOFJo'',
     ''b2Xk~LRW@&6?Ut?ioXk{'' @ ''*Nc~DCM0u%!j000080PluLTD<l5w?+a00BQvQ04@Lk00000000000HlFx>I'',
     ''DFBX>c!Jc4cm4Z*nhVVPj}zV{dMBa&K%eV_{=xWpgibWn^h{Ut?ioXk{'' @ ''*Nc~DCM0u%!j000080PluLT'',
     ''GZ4C&r$#Y0A2t903QGV00000000000HlHZ>;(XDX>c!Jc4cm4Z*nhVWpZ?BW@#^9UukY>bYEXCaCuNm'',
     ''0Rj{Q6aWAK2mtSfNm?%;t>K;k009300018V0000000000005+ci|qvfaA|NaUv_0~WN&gWV`Xx5X=Z6'',
     ''JUteuuX>MO%E^v8JO928D0~7!N00;o@hDlm%!${h2dIA8Wkpuu900000000000001_foARn0B~t=FJE'',
     ''?LZe(wAFJonLbZKU3FJob2WpZ>baAj>!O928D0~7!N00;o@hDlm#EyP;{1poks5dZ)i000000000000'',
     ''01_ff8v50B~t=FJE?LZe(wAFJonLbZKU3FJo_VWiD`eP)h*<6ay3h000O8?}kZQ000000ssI2000008'',
     ''~^|S0000000000q=8Rv2mo+ta4%nWWo~3|axY_La&&2CX)kbjE_8WtWn@rG0Rj{Q6aWAK2mtSfNm}g('',
     ''M*C#}0040U0018V0000000000005+ci*5)2aA|NaUv_0~WN&gWWNCABY-wUIUtei%X>?y-E^v8JO928'',
     ''D0~7!N00;o@hDlmoN#!pyD*yodp#T6K00000000000001_fh}+d0B~t=FJE?LZe(wAFJx(RbZlv2FJo'',
     ''_QaA9;VaCuNm0Rj{Q6aWAK2mtSfNm{_d9F~nR007v>0018V0000000000005+co0|v#aA|NaUv_0~WN'',
     ''&gWWNCABY-wUIWMOn+VqtS-E^v8JO928D0~7!N00;o@hDllwB~KUi6aWA{Q2+oO00000000000001_f'',
     ''o04H0B~t=FJE?LZe(wAFJx(RbZlv2FKKRMWq2-dc~DCM0u%!j000080PluLTF>V`si!gk08+;Q03QGV'',
     ''00000000000HlGG;Rpb5X>c!Jc4cm4Z*nhWX>)XJX<{#IZ)0I}Z*p@kaCuNm0Rj{Q6aWAK2mtSfNm|`'',
     ''*{vbLK003Aw0018V0000000000005+ccoYc$aA|NaUv_0~WN&gWWNCABY-wUIZDDR{W@U49E^v8JO92'',
     ''8D0~7!N00;o@hDllz?Oo9f2LJ#p6aWAo00000000000001_f$t;<0B~t=FJE?LZe(wAFJx(RbZlv2FK'',
     ''uCRYh`kCE^v8JO928D0~7!N00;o@hDloAJ?;t-B>(_KmjD1C00000000000001_fj2A(0B~t=FJE?LZ'',
     ''e(wAFJx(RbZlv2FKuOXVPs)+VJ>iaP)h*<6ay3h000O8?}kZQoxRn7unPbHL@EFPAOHXW0000000000'',
     ''q=AJ|2>@_ua4%nWWo~3|axY|Qb98KJVlQ%Kb8mHWV`XzLaCuNm0Rj{Q6aWAK2mtSfNm_-=x@HF#006K'',
     ''^0015U0000000000005+cb6p7laA|NaUv_0~WN&gWWNCABY-wUIb7OL8aCCDnaCuNm0Rj{Q6aWAK2mt'',
     ''SfNm_(Tc@pZp0001f0RS5S0000000000005+cwsZ*qaA|NaUv_0~WN&gWWNCABY-wUIbTcw8Wq4&!O9'',
     ''28D0~7!N00;o@hDlnS2zmidJ^=s#$^rl%00000000000001_f!Q$%0B~t=FJE?LZe(wAFJx(RbZlv2F'',
     ''LX9EEn#wPE@gOSP)h*<6ay3h000O8?}kZQTxA0plgt1B0Hy%|8vp<R0000000000q=95`3jlCwa4%nW'',
     ''Wo~3|axY|Qb98KJVlQ+yG%jU$Wl&220u%!j000080PluLTB=Q4reR0`0D1%g02=@R00000000000HlF'',
     ''1Jq!SFX>c!Jc4cm4Z*nhWX>)XJX<{#RbZKlZaCuNm0Rj{Q6aWAK2mtSfNm{wRPPL^O006IC0015U000'',
     ''0000000005+c%7qL7aA|NaUv_0~WN&gWWNCABY-wUIc4cyNX>V>WaCuNm0Rj{Q6aWAK2mtSfNm`YZZe'',
     ''S*~0001H0RS5S0000000000005+ctDg)2aA|NaUv_0~WN&gWWNCABY-wUIcQZ0BWq4&!O928D0~7!N0'',
     ''0;o@hDlm2L<`#WEdc-kk^%r900000000000001_feKU&0B~t=FJE?LZe(wAFJx(RbZlv2FLyRHEn#wP'']"

lemma good_DATA_28385: "good_lines DATA_28385"
  unfolding DATA_28385_def by (simp only: good_lines_eval, simp?)

lemma lines_DATA_28385: "map length DATA_28385 = replicate 150 79"
  unfolding DATA_28385_def by (simp add: numeral_eq_Suc)

text \<open>Lines 28535 to 28684.\<close>

definition DATA_28535 :: "string list" where
  "DATA_28535 =
    [''E@gOSP)h*<6ay3h000O8?}kZQ{_vtMPQ?HK0FD6w8vp<R0000000000q=7tw4ghdza4%nWWo~3|axY|'',
     ''Qb98KJVlQ_#G%jU$Wl&220u%!j000080PluLS|QWgp_VED0L!ZY02}}S00000000000HlG#M-KpSX>c'',
     ''!Jc4cm4Z*nhWX>)XJX<{#TXk}$=E^v8JO928D0~7!N00;o@hDlocU~t?c0RRBi0{{RX000000000000'',
     ''01_fs=9%0B~t=FJE?LZe(wAFJx(RbaHPmUtei%X>?y-E^v8JO928D0~7!N00;o@hDll-RJ>_C0000$0'',
     ''000U00000000000001_f%0<?0B~t=FJE?LZe(wAFJx(RbaHPmUteuuX>MO%E^v8JO928D0~7!N00;o@'',
     ''hDlmVI&Et%EdT%(!2kdp00000000000001_fogOQ0B~t=FJE?LZe(wAFJx(RbaHPmWNCABa&Inhc~DC'',
     ''M0u%!j000080PluLS^xk500IC20000002=@R00000000000HlG^p$`CXX>c!Jc4cm4Z*nhWX>)XPZ!d'',
     ''6pE_8WtWn@rG0Rj{Q6aWAK2mtSfNm>IJ@w*=Z003kI000~S0000000000005+c4WbVKaA|NaUv_0~WN'',
     ''&gWX=H9;FJE72ZfSI1UoLQYP)h*<6ay3h000O8?}kZQAe&%MIs*UzUJU>M82|tP0000000000q=9Cm4'',
     ''*+m!a4%nWWo~3|axZCQZecHDZ)9a-E^v8JO928D0~7!N00;o@hDlnzV+iTT0000y0RR9R0000000000'',
     ''0001_f!C%F0B~t=FJE?LZe(wAFKJ|MVJ~BEZE#_9E^v8JO928D0~7!N00;o@hDln!IKChD3jhGOGXMY'',
     ''>00000000000001_f!3!F0B~t=FJE?LZe(wAFKJ|MVJ~BEa%C=Xc~DCM0u%!j000080PluLS_Y>8JPb'',
     ''Mj0OBzL02}}S00000000000HlEev=0DqX>c!Jc4cm4Z*nhbWNu+EX=H9;WMOn+E^v8JO928D0~7!N00'',
     '';o@hDlmFVMJyn0{{SO2LJ#a00000000000001_fk^HT0B~t=FJE?LZe(wAFKJ|MVJ~TJbaG*CXJvCPa'',
     ''CuNm0Rj{Q6aWAK2mtSfNm~Cn`r;P=000#L001BW0000000000005+csPPW~aA|NaUv_0~WN&gWX=H9;'',
     ''FK}UFYhh<)Uu0o)VJ>iaP)h*<6ay3h000O8?}kZQ000000ssI20000082|tP0000000000q=EhM4*+m'',
     ''!a4%nWWo~3|axZCQZecHQc`kH$aAjmrO928D0~7!N00;o@hDlmwV9FlEsQ>`ErUL*S0000000000000'',
     ''1_fj06F0B~t=FJE?LZe(wAFKJ|MVJ~%bb2K(&VRT_GaCuNm0Rj{Q6aWAK2mtSfNm{(-s$k*'' @ '')0031400'',
     ''18V0000000000005+cHJlItaA|NaUv_0~WN&gWZF6UEVPk7AUtei%X>?y-E^v8JO928D0~7!N00;o@h'',
     ''DlmGJDt<50RR9w1ONab00000000000001_fmEIl0B~t=FJE?LZe(wAFKu&YaA9L>FJ*XRWpH$9Z*Frg'',
     ''aCuNm0Rj{Q6aWAK2mtSfNm?b~NB4OK003SV000^Q0000000000005+cK%fu+aA|NaUv_0~WN&gWZF6U'',
     ''EVPk7AWq5QhaCuNm0Rj{Q6aWAK2mtSfNm?Wv!DTiZ004%50018V0000000000005+c@um;}aA|NaUv_'',
     ''0~WN&gWZF6UEVPk7AW?^h>Vqs%zE^v8JO928D0~7!N00;o@hDloPSNA3`0RRB*0RR9Y000000000000'',
     ''01_fn>rE0B~t=FJE?LZe(wAFK}UFYhh<;Zf7rFUukY>bYEXCaCuNm0Rj{Q6aWAK2mtSfNm`LK*puZ10'',
     ''08O?001EX0000000000005+c)58z|aA|NaUv_0~WN&gWaA9L>VP|P>XD?r6Y-VO@Y-KKRc~DCM0u%!j'',
     ''000080PluLT9kG(r8*4&0E{I703!eZ00000000000HlHU$PfT<X>c!Jc4cm4Z*nhiVPk7yXK8L{FJEn'',
     ''8Zh35JZgqGraCuNm0Rj{Q6aWAK2mtSfNm}XHGp4}=004#x001KZ0000000000005+ca@G(4aA|NaUv_'',
     ''0~WN&gWaA9L>VP|P>XD?rEb#rWNX>N6RE^v8JO928D0~7!N00;o@hDln|R$?GE2><~6CjbB-0000000'',
     ''0000001_fppst0B~t=FJE?LZe(wAFK}UFYhh<;Zf7rFaA9(DWpXZXc~DCM0u%!j000080PluLS}>#Xl'',
     ''3)P<0G9;-03-ka00000000000HlHE<PZRGX>c!Jc4cm4Z*nhiVPk7yXK8L{FJE(Xa&=>Lb#i5ME^v8J'',
     ''O928D0~7!N00;o@hDloQjC_nA2LJ$>6aWAt00000000000001_fr;i20B~t=FJE?LZe(wAFK}UFYhh<'',
     '';Zf7rFbZ={AZfSaDaxQRrP)h*<6ay3h000O8?}kZQWqw5eWDNiSK`8(LAOHXW0000000000q=D(}5CC'',
     ''v#a4%nWWo~3|axZXUV{2h&X>MmPZDDe2WpZ;aaCuNm0Rj{Q6aWAK2mtSfNm>CcnX6eP007E|001EX00'',
     ''00000000005+ci~A4&aA|NaUv_0~WN&gWaA9L>VP|P>XD@AKbYWy+bYU)Vc~DCM0u%!j000080PluLS'',
     ''^xk500IC20000003HAU00000000000HlE<ArSy@X>c!Jc4cm4Z*nhiVPk7yXK8L{FK~G-ba`-PWKc^1'',
     ''0u%!j000080PluLTI!7|yDbC&0D}tv03`qb00000000000HlFoArSy@X>c!Jc4cm4Z*nhiVPk7yXK8L'',
     ''{FLGsZb!l>CZDnqBb1rasP)h*<6ay3h000O8?}kZQ8D^OLXCeRqqMQH#BLDyZ0000000000q=C^T5dd'',
     ''&$a4%nWWo~3|axZXUV{2h&X>MmPb8uy2X=Z6<a&s<lc~DCM0u%!j000080PluLTE>zUWC<7m02WdJ03'',
     ''84T00000000000HlF=ND%;VX>c!Jc4cm4Z*nhiVPk7yXK8L{FLYsNb1rasP)h*<6ay3h000O8?}kZQy'',
     ''4`Y`k_G?(x)T5Z9smFU0000000000q=CI)5dd&$a4%nWWo~3|axZXUV{2h&X>MmPb#!TLb1rasP)h*<'',
     ''6ay3h000O8?}kZQe;3LUYY_kdFhKwSAOHXW0000000000q=AcP5dd&$a4%nWWo~3|axZXUV{2h&X>Mm'',
     ''Pc4cyNX>V>WaCuNm0Rj{Q6aWAK2mtSfNm`rzUeo;t003VW001fg0000000000005+cG<gvKaA|NaUv_'',
     ''0~WN&gWaA9L>VP|P>XD@7NV`Xl0WpgiIUukY>bYEXCaCuNm0Rj{Q6aWAK2mtSfNm}56mXFmQ000iX00'',
     ''1Wd0000000000005+cd4UlCaA|NaUv_0~WN&gWaA9L>VP|P>XD@7NV`Xl0WpgiIb8uvME^v8JO928D0'',
     ''~7!N00;o@hDln3s;jJ5f&c(7<^cdD00000000000001_fs>#S0B~t=FJE?LZe(wAFK}yTUvg!0Z*_8G'',
     ''WpgiIUukY>bYEXCaCuNm0Rj{Q6aWAK2mtSfNm>vN0vw|T002l=001Na0000000000005+cEh7>DaA|N'',
     ''aUv_0~WN&gWaBN|8W^ZzBWNC79FJE72ZfSI1UoLQYP)h*<6ay3h000O8?}kZQlhGcdy8!?I;ROHyBme'',
     ''*a0000000000q=6DD5&&>%a4%nWWo~3|axZXfVRUA1a&2U3a&s?VUu|J&ZeL$6aCuNm0Rj{Q6aWAK2m'',
     ''tSfNm|z1Y~wcv001u|001KZ0000000000005+c4=fS@aA|NaUv_0~WN&gWaBN|8W^ZzBWNC79FJW$Ea'',
     ''&Kv5E^v8JO928D0~7!N00;o@hDloPRw#d62LJ#bBme*(00000000000001_frm2^0B~t=FJE?LZe(wA'',
     ''FK}#ObY^dIZDeV3b1z|VX)bViP)h*<6ay3h000O8?}kZQ{JRsDwgdnG3K#$YApigX0000000000q=6w'',
     ''j5&&>%a4%nWWo~3|axZXfVRUA1a&2U3a&s?jVPkJ|E^v8JO928D0~7!N00;o@hDllg0000200000000'',
     ''0X00000000000001_ffhg#0B~t=FJE?LZe(wAFK}#ObY^dIZDeV3b1!gtE_8WtWn@rG0Rj{Q6aWAK2m'',
     ''tSfNm>KB+?HGk005aN001BW0000000000005+cS3nW~aA|NaUv_0~WN&gWaBN|8W^ZzBWNC79FLiEdc'',
     ''rI{xP)h*<6ay3h000O8?}kZQY^o^<=>Px#n*jg-BLDyZ0000000000q=E5C5&&>%a4%nWWo~3|axZXf'',
     ''VRUA1a&2U3a&s?sWpZ<AZ*DGdc~DCM0u%!j000080PluLTCJFn@y!VU0F5UA03!eZ00000000000HlE'',
     ''%OA-KZX>c!Jc4cm4Z*nhiY+-a}Z*py9X>xNfcWG{9Z+CMpaCuNm0Rj{Q6aWAK2mtSfNm|z$O91l(005'',
     ''^8001BW0000000000005+cDOC~xaA|NaUv_0~WN&gWaCv8KWo~qHFJE72ZfSI1UoLQYP)h*<6ay3h00'',
     ''0O8?}kZQ$jko5>Hq)$VF3UDAOHXW0000000000q=8ym5&&>%a4%nWWo~3|axZXsXKiI}baO9XUu|J&Z'',
     ''eL$6aCuNm0Rj{Q6aWAK2mtSfNm@S_5Vgt|003xQ0018V0000000000005+cf?E;*aA|NaUv_0~WN&gW'',
     ''aCv8KWo~qHFJo<FY-w&~E^v8JO928D0~7!N00;o@hDlm_+!g|r0ssKE1^@sb00000000000001_fr)b'',
     ''x0B~t=FJE?LZe(wAFK~HhZDnqBb1!3WZgX#JWiD`eP)h*<6ay3h000O8?}kZQ(8yvh`~m;~b_W0e9sm'',
     ''FU0000000000q=8#@5&&>%a4%nWWo~3|axZXsXKiI}baO9eX>4?5axQRrP)h*<6ay3h000O8?}kZQDE'',
     ''3>W;|2f#CJ_JtApigX0000000000q=A!p5&&>%a4%nWWo~3|axZXsXKiI}baO9eZ*py6baZ8ME^v8JO'',
     ''928D0~7!N00;o@hDlmsq;5osB>(^wiU0r|00000000000001_fwh1V0B~t=FJE?LZe(wAFK~HhZDnqB'',
     ''b1!UVcx7@faCuNm0Rj{Q6aWAK2mtSfNm|BhEspR3008X+001BW0000000000005+cd8QHoaA|NaUv_0'',
     ''~WN&gWaCv8KWo~qHFKusRWo&6~WiD`eP)h*<6ay3h000O8?}kZQUI-$fd;$OfV+Q~L9smFU00000000'',
     ''00q=BcX5&&>%a4%nWWo~3|axZXsXKiI}baO9oY;|X8ZZ2?nP)h*<6ay3h000O8?}kZQL;c>JO#}b{01'',
     ''N;CAOHXW0000000000q=8?n5&&>%a4%nWWo~3|axZXsXKiI}baO9qWoKo0Z*X)jaCuNm0Rj{Q6aWAK2'',
     ''mtSfNm~BXegc35000yW0018V0000000000005+c>aP+2aA|NaUv_0~WN&gWaCv8KWo~qHFLPsIZf<3A'',
     ''E^v8JO928D0~7!N00;o@hDloAEgNag2mk;r9{>O$00000000000001_fv2<*0B~t=FJE?LZe(wAFK~H'',
     ''hZDnqBb1!pnXlZVEWq5QhaCuNm0Rj{Q6aWAK2mtSfNm?5W$-?>u000yj0012T0000000000005+cv%L'',
     ''}kaA|NaUv_0~WN&gWaCv8KWo~qHFLQKxY-KKRc~DCM0u%!j000080PluLT6Rb4T!9Aw08$tL0384T00'',
     ''000000000HlHF#1a5-X>c!Jc4cm4Z*nhid1q~9Zgg`mbZ={AZZ2?nP)h*<6ay3h000O8?}kZQ;p4Ibz'',
     '')S!D==J~rApigX0000000000q=BT&5&&>%a4%nWWo~3|axZXsXKiI}baO9tZfSFLa%pa7E^v8JO928D'',
     ''0~7!N00;o@hDlm=58L=~4FCWyCjbB(00000000000001_fuk7{0B~t=FJE?LZe(wAFK~HhZDnqBb1!v'',
     ''tX>2ZVc~DCM0u%!j000080PluLTF&0FezzY00LYyH04M+e00000000000HlFUCldg0X>c!Jc4cm4Z*n'',
     ''hid1q~9Zgg`mW@&76WpZ;bUtei%X>?y-E^v8JO928D0~7!N00;o@hDlnE!~v<!1^@sF6#xJ$0000000'',
     ''0000001_fl5ac0B~t=FJE?LZe(wAFK~HhZDnqBb1!CZa&2LBbY*gLFJE72ZfSI1UoLQYP)h*<6ay3h0'',
     ''00O8?}kZQj*9)vAO!#bP!IqBD*ylh0000000000q=8{h698~&a4%nWWo~3|axZXsXKiI}baO9eZ*py6'',
     ''baZ8Mb1z?QVQ_G1Zf7oVc~DCM0u%!j000080PluLS`81u3V;Lv0Qd|504V?f00000000000HlG+QxgD'',
     ''iX>c!Jc4cm4Z*nhid1q~9Zgg`mW^ZzBVRUq5a&s?YVq<S)WiD`eP)h*<6ay3h000O8?}kZQ`O=~=AO-'',
     ''*c@)H06C;$Ke0000000000q=AuG698~&a4%nWWo~3|axZXsXKiI}baO9eZ*py6baZ8Mb1!FdZ)RpLaC'',
     ''uNm0Rj{Q6aWAK2mtSfNm{kNneTTd0032s001Wd0000000000005+c_g)hKaA|NaUv_0~WN&gWaCv8KW'',
     ''o~qHFJ^CYZDDkDWpZ;bXmo9CE^v8JO928D0~7!N00;o@hDln^6&EPj761VES^xkh00000000000001_'',
     ''fwP4Z0B~t=FJE?LZe(wAFK~HhZDnqBb1!CZa&2LBbY*gLFKKOOE^v8JO928D0~7!N00;o@hDlnWhdE8'',
     ''s1^@tc6951v00000000000001_fzO;10B~t=FJE?LZe(wAFK~HhZDnqBb1!CZa&2LBbY*gLFKKdPE^v'',
     ''8JO928D0~7!N00;o@hDlm5Zl}6e761ThO8@'' @ ''{U00000000000001_f#stU0B~t=FJE?LZe(wAFK~HhZD'',
     ''nqBb1!CZa&2LBbY*gLFKl6SWq2-dc~DCM0u%!j000080PluLTC~Opg>D7_0ICxJ04M+e00000000000'',
     ''HlF}x)T6!X>c!Jc4cm4Z*nhid1q~9Zgg`mW^ZzBVRUq5a&s?lbZBLAE^v8JO928D0~7!N00;o@hDlm;'',
     ''mJ%}p0{{T32mk;s00000000000001_fi}St0B~t=FJE?LZe(wAFK~HhZDnqBb1!CZa&2LBbY*gLFK}U'',
     ''QXK!s`a%**PE^v8JO928D0~7!N00;o@hDlm(_GCh`4FCYOE&u=~00000000000001_frP{p0B~t=FJE'',
     ''?LZe(wAFK~HhZDnqBb1!CZa&2LBbY*gLFLHEdE^v8JO928D0~7!N00;o@hDlmC*mlXW2><{F8~^|&00'',
     ''000000000001_fqK#t0B~t=FJE?LZe(wAFK~HhZDnqBb1!CZa&2LBbY*gLFLQQhE^v8JO928D0~7!N0'',
     ''0;o@hDlnJs!{+<1^@s;5&!@z00000000000001_fp6Rs0B~t=FJE?LZe(wAFK~HhZDnqBb1!CZa&2LB'',
     ''bY*gLFLY&cZE0>{Y%XwlP)h*<6ay3h000O8?}kZQZ)Qu+?F#?^=`8>NE&u=k0000000000q=5wE698~'',
     ''&a4%nWWo~3|axZXsXKiI}baO9eZ*py6baZ8Mb1!sda&2jDVQexrHZE{^P)h*<6ay3h000O8?}kZQ9BB'',
     ''4EM-2b~Q!fAjCjbBd0000000000q=7x}698~&a4%nWWo~3|axZXsXKiI}baO9kWq4(Bb1z?CX>MtBUt'',
     ''cb8c~DCM0u%!j000080PluLS_mt8`Q$wS06{4M04D$d00000000000HlG*{1X6hX>c!Jc4cm4Z*nhid'',
     ''1q~9Zgg`mY-M<5a&s?VZDDY5X>MmOaCuNm0Rj{Q6aWAK2mtSfNm|xIni+5_006hq001Qb0000000000'',
     ''005+c@;Vd%aA|NaUv_0~WN&gWaCv8KWo~qHFKlIaWpZ;baCvlSZ*DGdc~DCM0u%!j000080PluLS{Ue'',
     ''fKx6{|0Qv_204D$d00000000000HlGXW)uK$X>c!Jc4cm4Z*nhid1q~9Zgg`mb98xZWpgiIUukY>bYE'',
     ''XCaCuNm0Rj{Q6aWAK2mtSfNm_gU>>V2e008g|001Wd0000000000005+cPHGeYaA|NaUv_0~WN&gWaC'',
     ''v8KWo~qHFLQKxY-MvVUu|J<aA|I5E^v8JO928D0~7!N00;o@hDlnO8UUR^0RRBA0ssIf00000000000'',
     ''001_fv#;70B~t=FJE?LZe(wAFK~Hqa&Ky7V{~6=Z*OaJFJE72ZfSI1UoLQYP)h*<6ay3h000O8?}kZQ'',
     ''A7wGFG7JC!SULazBme*a0000000000q=7VV6aa8(a4%nWWo~3|axZXsaB^>IWn*+-Xm4+8b1z?MZE$Q'',
     ''ZaCuNm0Rj{Q6aWAK2mtSfNm>8^0006200000001Na0000000000005+csCyIuaA|NaUv_0~WN&gWaCv'',
     ''ZYZ)#;@bYEz1Z)<ZeaCt6td2nT9P)h*<6ay3h000O8?}kZQvSz<O7XbhOEdl@lGXMYp0000000000q='',
     ''D>v6aa8(a4%nWWo~3|axZXsaB^>IWn*+-Xm4+8b1z?MZeMV6Z)0V1b1z?CX>MtBUtcb8c~DCM0u%!j0'',
     ''00080PluLS}-MZe;o|~0Jtvz05$*s00000000000HlFbeG~w2X>c!Jc4cm4Z*nhid2n)XYGq?|UubV{'',
     ''YjZDOX>MO|a&Kd0b8|0WX>MO|a&Kd0b8{|mc~DCM0u%!j000080PluLS_&i7<7Wo|0KpRg03ZMW0000'',
     ''0000000HlG%iWC5FX>c!Jc4cm4Z*nhkWpQ<7b98erUtei%X>?y-E^v8JO928D0~7!N00;o@hDll_baZ'',
     ''|L0RRBA0RR9a00000000000001_fohTz0B~t=FJE?LZe(wAFLGsZb!BsOb1z?Cc4cyNX>V>{UoLQYP)'',
     ''h*<6ay3h000O8?}kZQ$SBO|hXMcq*98CoCjbBd0000000000q=BxJ6aa8(a4%nWWo~3|axZdaadl;Lb'',
     ''aO9XX>N37a&BR4Uv+e8Y;!Jfc~DCM0u%!j000080PluLT3C*H%&i&#0M}~(03ZMW00000000000HlF>'',
     ''mJ|SRX>c!Jc4cm4Z*nhkWpQ<7b98erVPs)&bY*gLE^v8JO928D0~7!N00;o@hDlm;{x$+p1^@st82|t'',
     ''q00000000000001_fn~820B~t=FJE?LZe(wAFLGsZb!BsOb1z|VX)bViP)h*<6ay3h000O8?}kZQvfh'',
     ''oGdJ6ym$|nE-8~^|S0000000000q=E0Z6aa8(a4%nWWo~3|axZdaadl;LbaO9Zb#!PhaCuNm0Rj{Q6a'',
     ''WAK2mtSfNm_@R9~~P3006lG0012T0000000000005+cqr(&caA|NaUv_0~WN&gWa%FLKWpi|MFJonLb'',
     ''aO6nc~DCM0u%!j000080PluLS}ut60HFc^0L=ve03HAU00000000000HlHW#1sH<X>c!Jc4cm4Z*nhk'',
     ''WpQ<7b98erV{dJ6VRSBVc~DCM0u%!j000080PluLTGrm;*u)b60G>zy03QGV00000000000HlG|#}oi'',
     ''?X>c!Jc4cm4Z*nhkWpQ<7b98erV{dP3X=QURaCuNm0Rj{Q6aWAK2mtSfNm{@?U^;;X006KM001HY000'',
     ''0000000005+c*V_~TaA|NaUv_0~WN&gWa%FLKWpi|MFJ*XRWpH$9Z*FrgaCuNm0Rj{Q6aWAK2mtSfNm'',
     ''_!3xHX0Z0089<000~S0000000000005+cnBf!vaA|NaUv_0~WN&gWa%FLKWpi|MFKA_Ka4v9pP)h*<6'',
     ''ay3h000O8?}kZQt${}vX8`~J-2wmr9RL6T0000000000q=8uG6aa8(a4%nWWo~3|axZdaadl;LbaO9g'',
     ''Z*OaJE^v8JO928D0~7!N00;o@hDlnWcLsLtCIA4NiU0r}00000000000001_f%@kZ0B~t=FJE?LZe(w'',
     ''AFLGsZb!BsOb1!XgWMyn~E^v8JO928D0~7!N00;o@hDlnOA65mq0RR9Y1ONaa00000000000001_fg='',
     ''wU0B~t=FJE?LZe(wAFLGsZb!BsOb1!gVV{2h&WpgfYc~DCM0u%!j000080PluLTB^}&pmiYt03UY%03'',
     ''ZMW00000000000HlE$5fuP%X>c!Jc4cm4Z*nhkWpQ<7b98erb7gaLX>V?GE^v8JO928D0~7!N00;o@h'',
     ''DlniNtR`s1^@u!5C8xq00000000000001_fz2`%0B~t=FJE?LZe(wAFLGsZb!BsOb1!prVRUtKUt@1%'',
     ''WpgfYc~DCM0u%!j000080PluLT2T^AxmyGP0ALFM03rYY00000000000HlGcITZkKX>c!Jc4cm4Z*nh'',
     ''kWpQ<7b98erb98cbV{~<LWpgfYc~DCM0u%!j000080PluLS{0BBpp+>90AGUu0384T00000000000Hl'',
     ''FMJ{16PX>c!Jc4cm4Z*nhkWpQ<7b98erb#!TLb1rasP)h*<6ay3h000O8?}kZQVt)@0)&Kwi83F(RA^'',
     ''-pY0000000000q=6J@6##H)a4%nWWo~3|axZdab8l>RWo&6;FJE72ZfSI1UoLQYP)h*<6ay3h000O8?'',
     ''}kZQPZzxEItKs%?-l?6BLDyZ0000000000q=71F6##H)a4%nWWo~3|axZdab8l>RWo&6;FK}{ic4=f~'',
     ''a&s<lc~DCM0u%!j000080PluLS^xk500IC20000003QGV00000000000HlGXa1{V>X>c!Jc4cm4Z*nh'',
     ''kWpi(Ac4cg7VlQxcE_8WtWn@rG0Rj{Q6aWAK2mtSfNm{l?z$!HY002P-001KZ0000000000005+c<Zu'',
     ''-LaA|NaUv_0~WN&gWa%FRGY<6XAX<{#OWpHnDbY*gLE^v8JO928D0~7!N00;o@hDlm`T($@K6aWApPy'',
     ''hfU00000000000001_fm(AF0B~t=FJE?LZe(wAFLGsbZ)|pDY-wUIa%FRGY<6XGb1rasP)h*<6ay3h0'',
     ''00O8?}kZQR`W2XhXnutV-o-XApigX0000000000q=A%(6##H)a4%nWWo~3|axZdab8l>RWo&6;FLQKq'',
     ''bz^jME^v8JO928D0~7!N00;o@hDllg00002000000000f00000000000001_fm)6g0B~t=FJE?LZe(w'',
     ''AFLGsbZ)|pDY-wUIV{dJ6VRSEFUukY>bYEXCaCuNm0Rj{Q6aWAK2mtSfNm?7%E@xu^005i-001xm000'',
     ''0000000005+cqmC5-aA|NaUv_0~WN&gWa%FRGY<6XAX<{#9Z*6d4bT4CXY;0v?bZKvHb6;U%V=i!cP)'',
     ''h*<6ay3h000O8?}kZQVS}l~00;m8$`=3t8~^|S0000000000q=8hA6##H)a4%nWWo~3|axZdeV`wj5U'',
     ''ukY>bYEXCaCuNm0Rj{Q6aWAK2mtSfNm?zki#`Ah0012!000~S0000000000005+cj+YexaA|NaUv_0~'',
     ''WN&gWa%p2|FJE76VQFq(UoLQYP)h*<6ay3h000O8?}kZQg|_&WY6<`V;U@q9AOHXW0000000000q=Cq'',
     ''z6##H)a4%nWWo~3|axZdeV`wj5V`Xe?Uw3I_bZB!faCuNm0Rj{Q6aWAK2mtSfNm_p{?tm<D007G)0st'',
     ''TY0000000000005+caIO^qaA|NaUv_0~WN&gWa%p2|FJEPCZ)#~@V{c?-b1rasP)h*<6ay3h000O8?}'',
     ''kZQ<9YA7)&T$jC<FiiA^-pY0000000000q=DKW765Q*a4%nWWo~3|axZdeV`wj5Wo>V2X<u?>aBN{?W'',
     ''iD`eP)h*<6ay3h000O8?}kZQ9$M9mHv<3wPzV43A^-pY0000000000q=E1u765Q*a4%nWWo~3|axZde'']"

lemma good_DATA_28535: "good_lines DATA_28535"
  unfolding DATA_28535_def by (simp only: good_lines_eval, simp?)

lemma lines_DATA_28535: "map length DATA_28535 = replicate 150 79"
  unfolding DATA_28535_def by (simp add: numeral_eq_Suc)

text \<open>Lines 28685 to 28834.\<close>

definition DATA_28685 :: "string list" where
  "DATA_28685 =
    [''V`wj5Wq5FJa&%v2Z*py6bS`jtP)h*<6ay3h000O8?}kZQNz}L7n*aa+2>}2A9smFU0000000000q=9E'',
     ''8765Q*a4%nWWo~3|axZdeV`wj5Wq5RDZgXjGZZ2?nP)h*<6ay3h000O8?}kZQ?ZLwqhXDWp9|HgY8vp'',
     ''<R0000000000q=7yr765Q*a4%nWWo~3|axZdeV`wj5W@&6?Zf`Ddc~DCM0u%!j000080PluLS_fHx9$'',
     ''yOp0JkLo02}}S00000000000HlHbCl&y3X>c!Jc4cm4Z*nhkX=7+FUukZ0aAjk3E^v8JO928D0~7!N0'',
     ''0;o@hDll$tL7WG0{{S-3;+Nh00000000000001_ftNED0B~t=FJE?LZe(wAFLG&PXfI!EZ)aa}Wo~3;'',
     ''axQRrP)h*<6ay3h000O8?}kZQx)16eB>?~c)C2$k82|tP0000000000q=Ab!765Q*a4%nWWo~3|axZd'',
     ''eV`wj5Y;SLHE^v8JO928D0~7!N00;o@hDlnzDATi}0RRAU1pojZ00000000000001_f#*0D0B~t=FJE'',
     ''?LZe(wAFLG&PXfI!Gb!=>3W@&6?E^v8JO928D0~7!N00;o@hDll%p;s-11ONb+8vp<u000000000000'',
     ''01_fyO!(0B~t=FJE?LZe(wAFLG&PXfI!IVQgh|bY*icaCuNm0Rj{Q6aWAK2mtSfNm}Xf?o8nT005@}0'',
     ''00>P0000000000005+chCdbnaA|NaUv_0~WN&gWa%p2|FJEwJV{0yOc~DCM0u%!j000080PluLTBEcz'',
     ''E7Ar40ACdV02%-Q00000000000HlGQKo$USX>c!Jc4cm4Z*nhkX=7+FUvgn|X>TrYc~DCM0u%!j0000'',
     ''80PluLTE;Q0R9_AN0MAVT0384T00000000000HlGaM-~8ZX>c!Jc4cm4Z*nhkX=7+FUvqG2Zf<3Ab1r'',
     ''asP)h*<6ay3h000O8?}kZQ=1~*U+yDRoUjYCB8UO$Q0000000000q=7<K765Q*a4%nWWo~3|axZdeV`'',
     ''wj5b97;2Yc6nkP)h*<6ay3h000O8?}kZQVA>K~<p2Nxp#cB@8UO$Q0000000000q=8mf765Q*a4%nWW'',
     ''o~3|axZdeV`wj5bZKp6axQRrP)h*<6ay3h000O8?}kZQ4j=V>(h~px<5&OyA^-pY0000000000q=9o-'',
     ''765Q*a4%nWWo~3|axZdeV`wj5cWG`jGGAkFZgX#JWiD`eP)h*<6ay3h000O8?}kZQOcs5dyaE6Kg$Do'',
     ''t8~^|S0000000000q=AKO765Q*a4%nWWo~3|axZdeV`wj5cWG{9Z+CMpaCuNm0Rj{Q6aWAK2mtSfNm`'',
     ''@^raj#P007?#001Qb0000000000005+cdv6v1aA|NaUv_0~WN&gWa%p2|FJE_QZe(wFb6;|0Ze(S0Wp'',
     ''XZXc~DCM0u%!j000080PluLTIcBWCPM`P089-402u%P00000000000HlGNauxt^X>c!Jc4cm4Z*nhkX'',
     ''=7+FUw3k0a4v9pP)h*<6ay3h000O8?}kZQ4r@hGjR61vdIJCe7XSbN0000000000q=6N9765Q*a4%nW'',
     ''Wo~3|axZdeV`wj7Vq-3Fc~DCM0u%!j000080PluLS`TV*va$#O0OcqE02u%P00000000000HlG}c@_Y'',
     ''0X>c!Jc4cm4Z*nhkX=7+FVQgt<ZZ2?nP)h*<6ay3h000O8?}kZQ9WLn?vj+eG2^#<a7ytkO00000000'',
     ''00q=CSK765Q*a4%nWWo~3|axZdeV`wj7ZgXiaaCuNm0Rj{Q6aWAK2mtSfNm}GX1jt(i006%X000*N00'',
     ''00000000005+csfrc=aA|NaUv_0~WN&gWa%p2|FJfVGE^v8JO928D0~7!N00;o@hDllsvd(si3IG64D'',
     ''gXc%00000000000001_fjN&B0B~t=FJE?LZe(wAFLG&PXfI-KcrI{xP)h*<6ay3h000O8?}kZQ-SW8q'',
     ''DhB`n3KReU82|tP0000000000q=EOD765Q*a4%nWWo~3|axZdeV`wj9Wo&G7E^v8JO928D0~7!N00;o'',
     ''@hDlmhE8c6z5&!@rM*sjB00000000000001_fmopy0B~t=FJE?LZe(wAFLG&PXfI=LY;STdaCuNm0Rj'',
     ''{Q6aWAK2mtSfNm^+{4Nj5)0015Y001EX0000000000005+cR<srXaA|NaUv_0~WN&gWa%p2|FJo_PZ*'',
     ''pIBa%pgEWpplZc~DCM0u%!j000080PluLTAoZ&@stMu0NWb?02=@R00000000000HlE@wiW<zX>c!Jc'',
     ''4cm4Z*nhkX=7+FV{dGAZEkZeaCuNm0Rj{Q6aWAK2mtSfNm^opXdt^*002CP0RS5S0000000000005+c'',
     ''^t~1UaA|NaUv_0~WN&gWa%p2|FJo_Rb8l>AE^v8JO928D0~7!N00;o@hDlnBOwvi-0RR991pojY0000'',
     ''0000000001_f#?($0B~t=FJE?LZe(wAFLG&PXfI=LZgX^UVQFqIaCuNm0Rj{Q6aWAK2mtSfNm>ljV|T'',
     ''>`004d!0015U0000000000005+c0T&klaA|NaUv_0~WN&gWa%p2|FJo_RbYW?3WpZ;aaCuNm0Rj{Q6a'',
     ''WAK2mtSfNm?BdJ0b7~008D0000{R0000000000005+c0v#6saA|NaUv_0~WN&gWa%p2|FJo_RbaHQOE'',
     ''^v8JO928D0~7!N00;o@hDlnn&#!(P2LJ%y9{>O%00000000000001_fh#2!0B~t=FJE?LZe(wAFLG&P'',
     ''XfI@CW?^+~bYF9Hd2D5KE^v8JO928D0~7!N00;o@hDlmEN3Wi~0RRBZ0{{RV00000000000001_frcy'',
     ''>0B~t=FJE?LZe(wAFLG&PXfI@GVP|e{b7d}Yc~DCM0u%!j000080PluLTHp-_Mfd{%0L2La02u%P000'',
     ''00000000HlF_E*AiBX>c!Jc4cm4Z*nhkX=7+FWo>V2X)bViP)h*<6ay3h000O8?}kZQB1j?A?EnA(f&'',
     ''u^l8UO$Q0000000000q=Bt67XWZ+a4%nWWo~3|axZdeV`wjBa&m8Sb1rasP)h*<6ay3h000O8?}kZQY'',
     ''Tj=YjRF7wlLi0)9smFU0000000000q=C{i7XWZ+a4%nWWo~3|axZdeV`wjCX>4U*aB^>Wc`k5yP)h*<'',
     ''6ay3h000O8?}kZQrn^1YIRpRzv<UzJ8~^|S0000000000q=B0@7XWZ+a4%nWWo~3|axZdeV`wjCX>4V'',
     ''4X?kTYaCuNm0Rj{Q6aWAK2mtSfNm|ppi%mld0043&0018V0000000000005+c4m%eBaA|NaUv_0~WN&'',
     ''gWa%p2|FKB6JXl!X`Xmn+AE^v8JO928D0~7!N00;o@hDloBO}vIG1pol26951h00000000000001_fs'',
     ''RHO0B~t=FJE?LZe(wAFLG&PXfJAWZ*DGdc~DCM0u%!j000080PluLS~$U2$cqF30JIDM02=@R000000'',
     ''00000HlHLOBVoeX>c!Jc4cm4Z*nhkX=7+FYISgVbY*fbaCuNm0Rj{Q6aWAK2mtSfNm_am*B|Z;006W$'',
     ''000^Q0000000000005+cvQQTQaA|NaUv_0~WN&gWa%p2|FKl6XZ*_DoaCuNm0Rj{Q6aWAK2mtSfNm|J'',
     ''0>d>+d006!>000;O0000000000005+c*j^U^aA|NaUv_0~WN&gWa%p2|FKlUcWiD`eP)h*<6ay3h000'',
     ''O8?}kZQ8lL2=E(8DoQVswB9{>OV0000000000q=CR~7XWZ+a4%nWWo~3|axZdeV`wjIX?A5_a%FC0Wp'',
     ''XZXc~DCM0u%!j000080PluLT1}A;S7{Ca0IDzm02=@R00000000000HlE{au)z_X>c!Jc4cm4Z*nhkX'',
     ''=7+FY;R|0X>MmOaCuNm0Rj{Q6aWAK2mtSfNm|}gvqw(~0009a000^Q0000000000005+c&43pGaA|Na'',
     ''Uv_0~WN&gWa%p2|FKuCRYjtogaCuNm0Rj{Q6aWAK2mtSfNm~D`7zAtu006lZ000{R0000000000005+'',
     ''cRErk?aA|NaUv_0~WN&gWa%p2|FKuOEb9HiME^v8JO928D0~7!N00;o@hDlogXHTTo1pojn6951k000'',
     ''00000000001_f%%XZ0B~t=FJE?LZe(wAFLG&PXfJSKWMpY>XD)DgP)h*<6ay3h000O8?}kZQ4#pLNa{'',
     ''&MVJOcm#82|tP0000000000q=5*R7XWZ+a4%nWWo~3|axZdeV`wjMVP|D>E^v8JO928D0~7!N00;o@h'',
     ''DlmD06t&41ONa;4FCWe00000000000001_fwGtv0B~t=FJE?LZe(wAFLG&PXfJSKY-MzGWiD`eP)h*<'',
     ''6ay3h000O8?}kZQ>W{PHQVIY7<0}9F82|tP0000000000q=BZL7XWZ+a4%nWWo~3|axZdeV`wjMVQyt'',
     ''?E^v8JO928D0~7!N00;o@hDlm5^9<x|9{>O+jsO4}00000000000001_fiI{R0B~t=FJE?LZe(wAFLG'',
     ''&PXfJSbWps3TE^v8JO928D0~7!N00;o@hDlmk({bp)E&u?<>i_^800000000000001_fz-zr0B~t=FJ'',
     ''E?LZe(wAFLG&PXfJSbZ)b94b8{|mc~DCM0u%!j000080PluLTH@@`u?PtO0OB7203ZMW00000000000'',
     ''HlG=_7?zfX>c!Jc4cm4Z*nhkX=7+FaB^>Fa%FRKUt(c$E^v8JO928D0~7!N00;o@hDlnL#QK5X3jhG0'',
     ''FaQ7=00000000000001_ffN830B~t=FJE?LZe(wAFLG&PXfJSbZ*6dNE^v8JO928D0~7!N00;o@hDlm'',
     ''jnETT?0ssJS1pojX00000000000001_fh!Cc0B~t=FJE?LZe(wAFLG&PXfJSbZ**^CZ)`4bc~DCM0u%'',
     ''!j000080PluLS^xk500IC20000002u%P00000000000HlGQ4j2G%X>c!Jc4cm4Z*nhkX=7+FaCt6td2'',
     ''nT9P)h*<6ay3h000O8?}kZQUBa%{bpQYWrT_o{8UO$Q0000000000q=DBC7yxi-a4%nWWo~3|axZdeV'',
     ''`wjOWoKz`ZZ2?nP)h*<6ay3h000O8?}kZQ(m50z76kwRPZ0nB7ytkO0000000000q=AGF7yxi-a4%nW'',
     ''Wo~3|axZdeV`wjOWpHvXaCuNm0Rj{Q6aWAK2mtSfNm`O=18qeG008<C000;O0000000000005+c&=eQ'',
     ''|aA|NaUv_0~WN&gWa%p2|FLHHkWiD`eP)h*<6ay3h000O8?}kZQ4~6wBbOZnZ8w&sc82|tP00000000'',
     ''00q=8Es7yxi-a4%nWWo~3|axZdeV`wjPV{dR}E^v8JO928D0~7!N00;o@hDlmKHU6$r0ssIv1^@sW00'',
     ''000000000001_f%YC40B~t=FJE?LZe(wAFLG&PXfJbPa%E+1E^v8JO928D0~7!N00;o@hDlmhDI27e6'',
     ''aWCHU;qFc00000000000001_fq)?x0B~t=FJE?LZe(wAFLG&PXfJbRXKiI}bS`jtP)h*<6ay3h000O8'',
     ''?}kZQS@4gJUj+aF3=seT8vp<R0000000000q=8K~7yxi-a4%nWWo~3|axZdeV`wjPaA|ICWpXZXc~DC'',
     ''M0u%!j000080PluLS^`?;I`{+t07wx402%-Q00000000000HlHCI~V|PX>c!Jc4cm4Z*nhkX=7+Fb97'',
     '';Jb#pFoc~DCM0u%!j000080PluLT1ZTxaIO{r0J~`b02u%P00000000000HlExK^OpVX>c!Jc4cm4Z*'',
     ''nhkX=7+Fb98xZWiD`eP)h*<6ay3h000O8?}kZQ@d~C;)d2ti>I47)8UO$Q0000000000q=EWZ7yxi-a'',
     ''4%nWWo~3|axZdeV`wjPba`xLWG--dP)h*<6ay3h000O8?}kZQhzmY%Wgq|mvx@)#8UO$Q0000000000'',
     ''q=5%o7yxi-a4%nWWo~3|axZdeV`wjPd2V!JcrI{xP)h*<6ay3h000O8?}kZQ5I1#A#2)|vr<?!)82|t'',
     ''P0000000000q=BS*7yxi-a4%nWWo~3|axZdeV`wjQVPb4$E^v8JO928D0~7!N00;o@hDlmFBh$bB0{{'',
     ''Rj4FCWl00000000000001_fuEWf0B~t=FJE?LZe(wAFLG&PXfJeSa&2jDVQgP?Xk~3>E^v8JO928D0~'',
     ''7!N00;o@hDlmenNysfC;$M!xc~qd00000000000001_f!&@M0B~t=FJE?LZe(wAFLG&PXfJeScyumsc'',
     ''~DCM0u%!j000080PluLTBF}29?Ap&0J{zV02u%P00000000000HlGk#~1)`X>c!Jc4cm4Z*nhkX=7+F'',
     ''bZBL5WiD`eP)h*<6ay3h000O8?}kZQQFZoEM*si-W&i*H8UO$Q0000000000q=B={7yxi-a4%nWWo~3'',
     ''|axZdeV`wjQXk~3>b1rasP)h*<6ay3h000O8?}kZQ6_DXmmm2^8HGBX79RL6T0000000000q=7Qc7yx'',
     ''i-a4%nWWo~3|axZdeV`wjQa$#d-Vqs%zE^v8JO928D0~7!N00;o@hDlnN2QL?-3IG7>Bme*y0000000'',
     ''0000001_fduIo0B~t=FJE?LZe(wAFLG&PXfJefWo0gKc~DCM0u%!j000080PluLT5xO<^y>fs06GBx0'',
     ''384T00000000000HlH5^B4edX>c!Jc4cm4Z*nhmZ*6R8FJE72ZfSI1UoLQYP)h*<6ay3h000O8?}kZQ'',
     ''fwlvy4jKRe_hSG68~^|S0000000000q=5wW7yxi-a4%nWWo~3|axZjmZER^TUvOb^b7gWaaCuNm0Rj{'',
     ''Q6aWAK2mtSfNm_2l16%O~003hQ000;O0000000000005+cOb;0VaA|NaUv_0~WN&gWbZ>2JX)j-LWiD'',
     ''`eP)h*<6ay3h000O8?}kZQv+ojT#Q*>R{r~^~8vp<R0000000000q=9o3831r;a4%nWWo~3|axZjmZE'',
     ''R^TUvznJWpgfYc~DCM0u%!j000080PluLS}Q34_#6NL02%-Q02%-Q00000000000HlF&6&V0<X>c!Jc'',
     ''4cm4Z*nhmZ*6R8FK~G-ba`-PWKc^10u%!j000080PluLTGRVdbUy+B0Pq9=03rYY00000000000HlG%'',
     ''6&V0<X>c!Jc4cm4Z*nhma&>cbb98TVWiMY}X>MtBUtcb8c~DCM0u%!j000080PluLTI!4fD)0#a06Qr'',
     ''F03HAU00000000000HlFL7#RR?X>c!Jc4cm4Z*nhma&>cbb98TVWiMZ0aA_`Zc~DCM0u%!j000080Pl'',
     ''uLTHZIePMH$`02fdI03ZMW00000000000HlF%A{hX1X>c!Jc4cm4Z*nhma&>cbb98TVWiMZCVPkJ|E^'',
     ''v8JO928D0~7!N00;o@hDlmCMgiUQ0{{RN2><{h00000000000001_fk!qO0B~t=FJE?LZe(wAFLZKsb'',
     ''98fbZ*pZXUvF?_ZgX>NE^v8JO928D0~7!N00;o@hDlm!z+BJ80RRAM1ONai00000000000001_fqOa`'',
     ''0B~t=FJE?LZe(wAFLZKsb98fbZ*pZXUvqP8Ut@1>b97;DbaO6nc~DCM0u%!j000080PluLT2cNDh5!%'',
     ''%07*sw03rYY00000000000HlG2JQ)CRX>c!Jc4cm4Z*nhma&>cbb98TVWiMZMX>Me1cXKXqc~DCM0u%'',
     ''!j000080PluLS^xk500IC20000003QGV00000000000HlG&Oc?-hX>c!Jc4cm4Z*nhma&>cbb98TVWi'',
     ''N1fE_8WtWn@rG0Rj{Q6aWAK2mtSfNm@^XASh}D000FI0018V0000000000005+c1x*<MaA|NaUv_0~W'',
     ''N&gWb#iQMX<{=kUtei%X>?y-E^v8JO928D0~7!N00;o@hDln%!apXo4FCXaEC2u_00000000000001_'',
     ''fvi#)0B~t=FJE?LZe(wAFLiQkY-wUMFJEJCY;0v?bZKvHb1rasP)h*<6ay3h000O8?}kZQ*t$KtKmY&'',
     ''$KmY&$9{>OV0000000000q=BJe831r;a4%nWWo~3|axZmqY;0*_GcR9uWpZ<AZ*DGdc~DCM0u%!j000'',
     ''080PluLT32(0zE2kb09sD~03iSX00000000000HlE)VHp5$X>c!Jc4cm4Z*nhna%^mAVlyveZ*Fd7V{'',
     ''~b6ZZ2?nP)h*<6ay3h000O8?}kZQ;N0LFm@5DP*qs0XB>(^b0000000000q=Bq>831r;a4%nWWo~3|a'',
     ''xZmqY;0*_GcRLrZf<2`bZKvHaBpvHE^v8JO928D0~7!N00;o@hDlmp%t^KD2><{YAOHX%0000000000'',
     ''0001_frq3S0B~t=FJE?LZe(wAFLiQkY-wUMFJ*XRWpH$9Z*FrgaCuNm0Rj{Q6aWAK2mtSfNm|D!ODrG'',
     ''?004s_0012T0000000000005+cv91{aaA|NaUv_0~WN&gWb#iQMX<{=kW@%+?WOFWXc~DCM0u%!j000'',
     ''080PluLT8FE@qkaPb0Eh_y03QGV00000000000HlEoxfuX(X>c!Jc4cm4Z*nhna%^mAVlyvhX>4V1Z*'',
     ''z1maCuNm0Rj{Q6aWAK2mtSfNm@H*+nApg000(F001HY0000000000005+c$GjN;aA|NaUv_0~WN&gWb'',
     ''#iQMX<{=kaBpvHZDDR<XJv9OaCuNm0Rj{Q6aWAK2mtSfNm>9|o{X~y001Kz0015U0000000000005+c'',
     ''rqdY!aA|NaUv_0~WN&gWb#iQMX<{=ka%FLKWpi{caCuNm0Rj{Q6aWAK2mtSfNm@`KxH@AX006Of0018'',
     ''V0000000000005+cmE0KsaA|NaUv_0~WN&gWb#iQMX<{=ka%FRHZ*FsCE^v8JO928D0~7!N00;o@hDl'',
     ''lg00002000000000d00000000000001_fi?XZ0B~t=FJE?LZe(wAFLiQkY-wUMFJo_RbaH88FJE72Zf'',
     ''SI1UoLQYP)h*<6ay3h000O8?}kZQDud}2wE+MCy#oLMF#rGn0000000000q=9_>831r;a4%nWWo~3|a'',
     ''xZmqY;0*_GcRLrZgg^KVlQ7|aByXAXK8L_UuAA~X>xCFE^v8JO928D0~7!N00;o@hDllq?vsgR3;+Ne'',
     ''D*yl}00000000000001_fq?%R0B~t=FJE?LZe(wAFLiQkY-wUMFJo_RbaH88FJW+SWo~C_Ze=cTc~DC'',
     ''M0u%!j000080PluLS`}&OH&O-w0I(4N04D$d00000000000HlE`3>pA%X>c!Jc4cm4Z*nhna%^mAVly'',
     ''veZ*FvQX<{#KbZl*KZ*OcaaCuNm0Rj{Q6aWAK2mtSfNm@=?>pRgD006l{001Ze0000000000005+c!4'',
     ''et(aA|NaUv_0~WN&gWb#iQMX<{=kV{dMBa%o~OaCvWVWo~nGY%XwlP)h*<6ay3h000O8?}kZQH~n-qy'',
     ''(Ituj)njLE&u=k0000000000q=DEc8US!<a4%nWWo~3|axZmqY;0*_GcRLrZgg^KVlQ)LV|8+6baG*C'',
     ''b8v5RbS`jtP)h*<6ay3h000O8?}kZQ%TmZcSqK0Cxf=igBme*a0000000000q=Dg08US!<a4%nWWo~3'',
     ''|axZmqY;0*_GcRLrZgg^KVlQ)VV{3CRaCuNm0Rj{Q6aWAK2mtSfNm>8^0006200000001}u00000000'',
     ''00005+cd{!C&aA|NaUv_0~WN&gWb#iQMX<{=kV{dMBa%o~OUvp(+b#i5Na$#<BaBp&SFJE72ZfSI1Uo'',
     ''LQYP)h*<6ay3h000O8?}kZQF3&AZ?hpU~;6wlbH~;_u0000000000q=D2{8US!<a4%nWWo~3|axZmqY'',
     '';0*_GcRLrZgg^KVlQ8FWn*=6Wpr|3ZgX&Na&#|ZX>Md`ZfA2YaCuNm0Rj{Q6aWAK2mtSfNm{Ndr@UDa'',
     ''003e(0021v0000000000005+c7-$**aA|NaUv_0~WN&gWb#iQMX<{=kV{dMBa%o~OUvp(+b#i5Na$#<'',
     ''BaBp&SFKlmjUu<P|Wo#~Rc~DCM0u%!j000080PluLS^xk500IC20000004M+e00000000000HlG)c^U'',
     ''w4X>c!Jc4cm4Z*nhna%^mAVlyvrVPk7yXJvCQUtei%X>?y-E^v8JO928D0~7!N00;o@hDlmnlo_lhAp'',
     ''ihrhX4R000000000000001_fe?Bc0B~t=FJE?LZe(wAFLiQkY-wUMFK}UFYhh<)b1!pgcrI{xP)h*<6'',
     ''ay3h000O8?}kZQ000000ssI200000G5`Po0000000000q=9#v8US!<a4%nWWo~3|axZmqY;0*_GcRyq'',
     ''V{2h&WpgiLVPk7>Z*p{VFJE72ZfSI1UoLQYP)h*<6ay3h000O8?}kZQ-ne74NCE%=i3I=vG5`Po0000'',
     ''000000q=Cts8US!<a4%nWWo~3|axZmqY;0*_GcRyqV{2h&WpgiLVPk7>Z*p{VFKuCKWoBt?WiD`eP)h'',
     ''*<6ay3h000O8?}kZQ4c{wviv|Dy-xL4<IsgCw0000000000q=8|c8US!<a4%nWWo~3|axZmqY;0*_Gc'',
     ''RyqV{2h&WpgiLVPk7>Z*p{VFLz~OYjR~~UuJ1;VQgu7WiD`eP)h*<6ay3h000O8?}kZQ=8Bn`*Z}|lg'',
     ''9HEoBme*a0000000000q=7`G8US!<a4%nWWo~3|axZmqY;0*_GcR>?X>2cFUukY>bYEXCaCuNm0Rj{Q'',
     ''6aWAK2mtSfNm}fx<PVw$001Qu001Tc0000000000005+cUZ)xWaA|NaUv_0~WN&gWb#iQMX<{=kb#!T'',
     ''LFJo_RZe?S1X>V>WaCuNm0Rj{Q6aWAK2mtSfNm>feTnAnP002b>001EX0000000000005+cJg*u6aA|'',
     ''NaUv_0~WN&gWb#iQMX<{=kb#!TLFK}{iczG^xc~DCM0u%!j000080PluLT22G@pZov-0P+C<03iSX00'',
     ''000000000HlH0u^IqyX>c!Jc4cm4Z*nhna%^mAVlyvwbZKlaadl;NWiD`eP)h*<6ay3h000O8?}kZQH'',
     '';!%bs|5f6oeuy2BLDyZ0000000000q=6K(8US!<a4%nWWo~3|axZmqY;0*_GcR>?X>2cYWpQ<7b963n'',
     ''c~DCM0u%!j000080PluLS~e)vv|t4Q0JaSP03-ka00000000000HlEcxf%d)X>c!Jc4cm4Z*nhna%^m'',
     ''AVlyvwbZKlaa%FRHZ*FsCE^v8JO928D0~7!N00;o@hDlmq6)*P+7XSbvRsaAY00000000000001_fug'',
     ''<|0B~t=FJE?LZe(wAFLiQkY-wUMFLiWjY%g+UbaHtvaCuNm0Rj{Q6aWAK2mtSfNm@8CkLK<c001;Z00'',
     ''1BW0000000000005+c>(v?naA|NaUv_0~WN&gWb#iQMX<{=kb#!TLFLQHjUoLQYP)h*<6ay3h000O8?'',
     ''}kZQKXJFZ=?DM-eii@#E&u=k0000000000q=6Uh8US!<a4%nWWo~3|axZmqY;0*_GcR>?X>2cZb8KI2'',
     ''VRU0?UubW0bZ%j7WiD`eP)h*<6ay3h000O8?}kZQvJm&S{|5j7?-~FAC;$Ke0000000000q=8KK8US!'',
     ''<a4%nWWo~3|axZmqY;0*_GcR>?X>2cZb8K{SVQzD9Z*p`laCuNm0Rj{Q6aWAK2mtSfNm~6Dm^0=J006'',
     ''ir001KZ0000000000005+ck^UM0aA|NaUv_0~WN&gWb#iQMX<{=kb#!TLFLY^bWp8zKE^v8JO928D0~'',
     ''7!N00;o@hDlm0)#zRq6953%Hvj-100000000000001_fw&4A0B~t=FJE?LZe(wAFLiQkY-wUMFLiWjY'',
     ''%g_kY%XwlP)h*<6ay3h000O8?}kZQR@7G2zXt#S8x;TmAOHXW0000000000q=5_`8vt-=a4%nWWo~3|'']"

lemma good_DATA_28685: "good_lines DATA_28685"
  unfolding DATA_28685_def by (simp only: good_lines_eval, simp?)

lemma lines_DATA_28685: "map length DATA_28685 = replicate 150 79"
  unfolding DATA_28685_def by (simp add: numeral_eq_Suc)

text \<open>Line 28835, the last one.\<close>

definition DATA_28835 :: "string list" where
  "DATA_28835 = [''axZmqY;0*_GcR>?X>2cdVQF+OaCuNm1qJ{B006H6uL0$R000Rl8vp<R'']"

lemma good_DATA_28835: "good_groups (concat DATA_28835)"
  unfolding DATA_28835_def by (simp add: good_lines_eval)

lemma size_DATA_28835: "length (concat DATA_28835) = 55"
  unfolding DATA_28835_def by simp

end
