(* ===== verification/Pip_Archive.thy ===== *)
theory Pip_Archive
  imports Get_Pip Pip_Data_1 Pip_Data_2 Pip_Data_3 Pip_Data_4
begin

text \<open>
  The archive in \<open>DATA\<close> of \<open>get-pip.py\<close>. Of its 28691 lines the first 2550 and the last 601 are
  here; the lines between, compressed files, are an argument \<open>middle\<close> that is only assumed to be lines
  of that number and form. A zip file is read as Python's \<open>zipimport\<close> does: the record at its end, then
  the entries of the directory it points to.
\<close>

section \<open>The text\<close>

definition data_head :: "string list" where
  "data_head = DATA_145 @ DATA_295 @ DATA_445 @ DATA_595 @ DATA_745 @ DATA_895 @ DATA_1045 @ DATA_1195 @ DATA_1345 @
     DATA_1495 @ DATA_1645 @ DATA_1795 @ DATA_1945 @ DATA_2095 @ DATA_2245 @ DATA_2395 @ DATA_2545"

definition data_tail :: "string list" where
  "data_tail = DATA_28235 @ DATA_28385 @ DATA_28535 @ DATA_28685 @ DATA_28835"

definition DATA :: "string list \<Rightarrow> string" where
  "DATA middle = [CHR 0x0A] @ concat (map (\<lambda>l. l @ [CHR 0x0A]) (data_head @ middle @ data_tail))"

definition middle_lines :: "string list \<Rightarrow> bool" where
  "middle_lines middle \<longleftrightarrow> good_lines middle \<and> map length middle = replicate 25540 79"

section \<open>Zip files\<close>

definition bytes_at :: "int list \<Rightarrow> nat \<Rightarrow> nat \<Rightarrow> int list" where
  "bytes_at z off n = take n (drop off z)"

fun little_endian :: "int list \<Rightarrow> int" where
  "little_endian [] = 0"
| "little_endian (b # bs) = b + 256 * little_endian bs"

definition field :: "int list \<Rightarrow> nat \<Rightarrow> nat \<Rightarrow> nat" where
  "field rec off n = nat (little_endian (bytes_at rec off n))"

text \<open>The record at the end, when there is no comment: the number of entries, the size of the directory and
  its position.\<close>

definition end_record :: "int list \<Rightarrow> (nat \<times> nat \<times> nat) option" where
  "end_record z =
     (let rec = bytes_at z (length z - 22) 22 in
      if bytes_at rec 0 4 = [80, 75, 5, 6] then Some (field rec 10 2, field rec 12 4, field rec 16 4) else None)"

text \<open>An entry of the directory: the name, the compression, the sizes, and where the file's data are.\<close>

definition dir_entry :: "int list \<Rightarrow> nat \<Rightarrow> (int list \<times> nat \<times> nat \<times> nat \<times> nat) option" where
  "dir_entry z off =
     (let rec = bytes_at z off 46 in
      if bytes_at rec 0 4 = [80, 75, 1, 2]
      then Some (bytes_at z (off + 46) (field rec 28 2), field rec 10 2, field rec 20 4, field rec 24 4, field rec 42 4)
      else None)"

text \<open>The local header before a file's data: its name.\<close>

definition local_name :: "int list \<Rightarrow> nat \<Rightarrow> int list option" where
  "local_name z off =
     (let rec = bytes_at z off 30 in
      if bytes_at rec 0 4 = [80, 75, 3, 4] then Some (bytes_at z (off + 30) (field rec 26 2)) else None)"

definition name_bytes :: "string \<Rightarrow> int list" where
  "name_bytes = map of_char"

section \<open>Pieces of the archive\<close>

lemma length_bytes_at: "off + n \<le> length z \<Longrightarrow> length (bytes_at z off n) = n"
  by (simp add: bytes_at_def)

lemma bytes_at_bytes_at: "off + n \<le> k \<Longrightarrow> bytes_at (bytes_at z base k) off n = bytes_at z (base + off) n"
  by (simp add: bytes_at_def drop_take min_absorb1 add.commute)

lemma bytes_at_append_right: "bytes_at (as @ bs) (length as + off) n = bytes_at bs off n"
  by (simp add: bytes_at_def)

lemma bytes_at_append_left: "off + n \<le> length as \<Longrightarrow> bytes_at (as @ bs) off n = bytes_at as off n"
  by (simp add: bytes_at_def)

lemma b85_bytes_slice:
  assumes "good_groups cs"
  shows "take (4 * k) (drop (4 * q) (b85_bytes cs)) = b85_bytes (take (5 * k) (drop (5 * q) cs))"
proof -
  have d: "drop (4 * q) (b85_bytes cs) = b85_bytes (drop (5 * q) cs) \<and> good_groups (drop (5 * q) cs)"
    using assms
  proof (induction q arbitrary: cs)
    case (Suc q)
    show ?case
    proof (cases cs rule: good_groups.cases)
      case (1 a b c d e ds)
      with Suc.prems have "good_groups ds" by simp
      moreover have "drop (4 * Suc q) (b85_bytes cs) = drop (4 * q) (drop 4 (b85_bytes cs))"
        "drop (5 * Suc q) cs = drop (5 * q) (drop 5 cs)" by (simp_all add: drop_drop add.commute)
      ultimately show ?thesis using Suc.IH [of ds] by (simp add: 1 pack_I_def)
    qed (use Suc.prems in simp_all)
  qed simp
  have "take (4 * k) (b85_bytes ds) = b85_bytes (take (5 * k) ds)" if "good_groups ds" for ds
    using that
  proof (induction k arbitrary: ds)
    case (Suc k)
    show ?case
    proof (cases ds rule: good_groups.cases)
      case (1 a b c d e es)
      with Suc.prems have "good_groups es" by simp
      then show ?thesis using Suc.IH [of es] by (simp only: mult_Suc_right take_add) (simp add: 1 pack_I_def)
    qed (use Suc.prems in simp_all)
  qed simp
  with d show ?thesis by simp
qed

lemma drop_lines: "map length ls = replicate m w \<Longrightarrow> i \<le> m \<Longrightarrow> drop (w * i + j) (concat ls) = drop j (concat (drop i ls))"
proof (induction i arbitrary: ls m)
  case (Suc i)
  then obtain l ls' m' where ls: "ls = l # ls'" "m = Suc m'" by (cases m) (auto simp: Cons_eq_map_conv)
  with Suc.prems have "length l = w" "map length ls' = replicate m' w" "i \<le> m'" by simp_all
  with Suc.IH [of ls' m'] ls show ?case by (simp add: algebra_simps)
qed simp

lemma take_lines:
  assumes "map length ls = replicate m w" "l \<le> m" "j + n \<le> w * l"
  shows "take n (drop j (concat ls)) = take n (drop j (concat (take l ls)))"
proof -
  have "map length (take l ls) = replicate l w" using assms(1,2) by (metis min.absorb1 take_map take_replicate)
  then have "length (concat (take l ls)) = l * w" by (rule size_of_lines)
  moreover have "concat ls = concat (take l ls) @ concat (drop l ls)" by (metis append_take_drop_id concat_append)
  ultimately show ?thesis using assms(3) by (simp add: mult.commute)
qed

text \<open>Some bytes of a block of 150 lines: \<open>q\<close> groups before, \<open>k\<close> groups, that begin at column \<open>j\<close> of line
  \<open>i\<close> and end within \<open>l\<close> lines.\<close>

lemma slice_of_lines:
  assumes good: "good_lines ls" and lines: "map length ls = replicate 150 79"
  shows "5 * q = 79 * i + j \<Longrightarrow> i + l \<le> 150 \<Longrightarrow> j + 5 * k \<le> 79 * l \<Longrightarrow> r + n \<le> 4 * k \<Longrightarrow>
    off = 4 * q + r \<Longrightarrow> m = 5 * k \<Longrightarrow>
    bytes_at (b85_bytes (concat ls)) off n = take n (drop r (b85_bytes (take m (drop j (concat (take l (drop i ls)))))))"
proof -
  assume a: "5 * q = 79 * i + j" "i + l \<le> 150" "j + 5 * k \<le> 79 * l" "r + n \<le> 4 * k"
    and off: "off = 4 * q + r" and m: "m = 5 * k"
  let ?z = "b85_bytes (concat ls)"
  have "map length (drop i ls) = replicate (150 - i) 79" using lines by (metis drop_map drop_replicate)
  from take_lines [OF this, of l j "5 * k"] a(2,3)
  have t: "take (5 * k) (drop j (concat (drop i ls))) = take (5 * k) (drop j (concat (take l (drop i ls))))" by simp
  have "take (4 * k) (drop (4 * q) ?z) = b85_bytes (take (5 * k) (drop (5 * q) (concat ls)))"
    by (rule b85_bytes_slice [OF good_lines_groups [OF good]])
  also have "drop (5 * q) (concat ls) = drop j (concat (drop i ls))"
    unfolding a(1) by (rule drop_lines [OF lines]) (use a(2) in simp)
  finally have "take (4 * k) (drop (4 * q) ?z) = b85_bytes (take (5 * k) (drop j (concat (take l (drop i ls)))))"
    by (simp only: t)
  moreover have "bytes_at ?z (4 * q + r) n = take n (drop r (take (4 * k) (drop (4 * q) ?z)))"
    using a(4) by (simp add: bytes_at_def drop_take add.commute min_absorb1)
  ultimately show ?thesis by (simp add: off m)
qed

lemmas b85_eval = digit_of_table number_def pack_I_def

lemma text_first: "take 80 (drop 2 (concat (take 2 (drop 62 DATA_28235)))) =
  ''?@&tt0u%!j000080PluLT0RPjk@x@r0A&FH01p5F00000000000HlEc0001RX>c!JUukY>bYEXCaCuNm''"
  by (simp add: DATA_28235_def)

lemma bytes_first: "bytes_at (b85_bytes (concat DATA_28235)) 3921 61 =
  [80, 75, 1, 2, 20, 3, 20, 0, 0, 0, 8, 0, 239, 134, 73, 90, 62, 10, 138, 145, 248, 0, 0, 0,
   101, 1, 0, 0, 15, 0, 0, 0, 0, 0, 0, 0, 0, 0, 0, 0, 164, 129, 0, 0, 0, 0, 112, 105,
   112, 47, 95, 95, 105, 110, 105, 116, 95, 95, 46, 112, 121]"
proof -
  have "bytes_at (b85_bytes (concat DATA_28235)) 3921 61 =
      take 61 (drop 1 (b85_bytes (take 80 (drop 2 (concat (take 2 (drop 62 DATA_28235)))))))"
    by (rule slice_of_lines [OF good_DATA_28235 lines_DATA_28235, of 980 62 2 2 16]) simp_all
  then show ?thesis unfolding text_first by (simp add: b85_eval)
qed

lemma text_main: "take 95 (drop 63 (concat (take 2 (drop 83 DATA_28235)))) =
  ''E^v8JO928D0~7!N00;o@hDlnJN0=-V1poj63jhEa00000000000001_fgZ8|0B~t=FJEbHbY*gGVQepBY-ulTVQFqIaCuNm''"
  by (simp add: DATA_28235_def)

lemma bytes_main: "bytes_at (b85_bytes (concat DATA_28235)) 5299 71 =
  [80, 75, 1, 2, 20, 3, 20, 0, 0, 0, 8, 0, 239, 134, 73, 90, 147, 71, 152, 44, 19, 5, 0, 0,
   1, 11, 0, 0, 25, 0, 0, 0, 0, 0, 0, 0, 0, 0, 0, 0, 164, 129, 30, 178, 0, 0, 112, 105,
   112, 47, 95, 105, 110, 116, 101, 114, 110, 97, 108, 47, 99, 108, 105, 47, 109, 97, 105, 110, 46, 112, 121]"
proof -
  have "bytes_at (b85_bytes (concat DATA_28235)) 5299 71 =
      take 71 (drop 3 (b85_bytes (take 95 (drop 63 (concat (take 2 (drop 83 DATA_28235)))))))"
    by (rule slice_of_lines [OF good_DATA_28235 lines_DATA_28235, of 1324 83 63 2 19]) simp_all
  then show ?thesis unfolding text_main by (simp add: b85_eval)
qed

lemma text_install: "take 100 (drop 17 (concat (take 2 (drop 107 DATA_28235)))) =
  ''c~DCM0u%!j000080PluLS}Imq(o-D(0M2p%03iSX00000000000HlHGC;<R)X>c!JX>N37a&BR4FJo_QZDDR?b1!Lbb97;B'' @ 
  ''Y%Xwl''"
  by (simp add: DATA_28235_def)

lemma bytes_install: "bytes_at (b85_bytes (concat DATA_28235)) 6777 79 =
  [80, 75, 1, 2, 20, 3, 20, 0, 0, 0, 8, 0, 239, 134, 73, 90, 42, 86, 89, 210, 83, 29, 0, 0,
   206, 114, 0, 0, 33, 0, 0, 0, 0, 0, 0, 0, 0, 0, 0, 0, 164, 129, 233, 40, 1, 0, 112, 105,
   112, 47, 95, 105, 110, 116, 101, 114, 110, 97, 108, 47, 99, 111, 109, 109, 97, 110, 100, 115, 47, 105, 110, 115,
   116, 97, 108, 108, 46, 112, 121]"
proof -
  have "bytes_at (b85_bytes (concat DATA_28235)) 6777 79 =
      take 79 (drop 1 (b85_bytes (take 100 (drop 17 (concat (take 2 (drop 107 DATA_28235)))))))"
    by (rule slice_of_lines [OF good_DATA_28235 lines_DATA_28235, of 1694 107 17 2 20]) simp_all
  then show ?thesis unfolding text_install by (simp add: b85_eval)
qed

lemma text_cert: "take 100 (drop 11 (concat (take 2 (drop 126 DATA_28385)))) =
  ''E^v8JO928D0~7!N00;o@hDlm%!${h2dIA8Wkpuu900000000000001_foARn0B~t=FJE?LZe(wAFJonLbZKU3FJob2WpZ>b'' @ 
  ''aAj>!''"
  by (simp add: DATA_28385_def)

lemma bytes_cert: "bytes_at (b85_bytes (concat DATA_28385)) 7975 76 =
  [80, 75, 1, 2, 20, 3, 20, 0, 0, 0, 8, 0, 239, 134, 73, 90, 108, 195, 72, 218, 112, 122, 2, 0,
   163, 145, 4, 0, 30, 0, 0, 0, 0, 0, 0, 0, 0, 0, 0, 0, 164, 129, 102, 238, 5, 0, 112, 105,
   112, 47, 95, 118, 101, 110, 100, 111, 114, 47, 99, 101, 114, 116, 105, 102, 105, 47, 99, 97, 99, 101, 114, 116,
   46, 112, 101, 109]"
proof -
  have "bytes_at (b85_bytes (concat DATA_28385)) 7975 76 =
      take 76 (drop 3 (b85_bytes (take 100 (drop 11 (concat (take 2 (drop 126 DATA_28385)))))))"
    by (rule slice_of_lines [OF good_DATA_28385 lines_DATA_28385, of 1993 126 11 2 20]) simp_all
  then show ?thesis unfolding text_cert by (simp add: b85_eval)
qed

lemma text_local: "take 60 (drop 0 (concat (take 1 (drop 0 DATA_145)))) =
  ''P)h>@6aWAK2mtSfNm@P%ijnvL003nH000jF003}la4%n9X>MtBUtcb8c|B0U''"
  by (simp add: DATA_145_def)

lemma bytes_local: "bytes_at (b85_bytes (concat DATA_145)) 0 45 =
  [80, 75, 3, 4, 20, 0, 0, 0, 8, 0, 239, 134, 73, 90, 62, 10, 138, 145, 248, 0, 0, 0, 101, 1,
   0, 0, 15, 0, 0, 0, 112, 105, 112, 47, 95, 95, 105, 110, 105, 116, 95, 95, 46, 112, 121]"
proof -
  have "bytes_at (b85_bytes (concat DATA_145)) 0 45 =
      take 45 (drop 0 (b85_bytes (take 60 (drop 0 (concat (take 1 (drop 0 DATA_145)))))))"
    by (rule slice_of_lines [OF good_DATA_145 lines_DATA_145, of 0 0 0 1 12]) simp_all
  then show ?thesis unfolding text_local by (simp add: b85_eval)
qed

lemma bytes_end: "b85_bytes (concat DATA_28835) =
  [114, 47, 117, 114, 108, 108, 105, 98, 51, 47, 117, 116, 105, 108, 47, 119, 97, 105, 116, 46, 112, 121, 80, 75, 5, 6,
   0, 0, 0, 0, 175, 1, 175, 1, 229, 132, 0, 0, 9, 38, 27, 0, 0, 0]"
  by (simp add: DATA_28835_def b85_eval)

section \<open>The whole archive\<close>

lemma good_concat_append: "good_groups (concat as) \<Longrightarrow> good_groups (concat bs) \<Longrightarrow> good_groups (concat (as @ bs))"
  by (simp add: good_groups_append)

lemmas data_blocks = good_DATA_145 good_DATA_295 good_DATA_445 good_DATA_595 good_DATA_745 good_DATA_895 good_DATA_1045
  good_DATA_1195 good_DATA_1345 good_DATA_1495 good_DATA_1645 good_DATA_1795 good_DATA_1945 good_DATA_2095 good_DATA_2245
  good_DATA_2395 good_DATA_2545 good_DATA_28235 good_DATA_28385 good_DATA_28535 good_DATA_28685

lemmas data_lines = lines_DATA_145 lines_DATA_295 lines_DATA_445 lines_DATA_595 lines_DATA_745 lines_DATA_895 lines_DATA_1045
  lines_DATA_1195 lines_DATA_1345 lines_DATA_1495 lines_DATA_1645 lines_DATA_1795 lines_DATA_1945 lines_DATA_2095 lines_DATA_2245
  lines_DATA_2395 lines_DATA_2545

lemma good_data_head: "good_groups (concat data_head)"
  unfolding data_head_def by (intro good_concat_append good_lines_groups data_blocks)

lemma good_data_tail: "good_groups (concat data_tail)"
  unfolding data_tail_def by (intro good_concat_append good_lines_groups data_blocks good_DATA_28835)

lemma lines_data_head: "map length data_head = replicate 2550 79"
  unfolding data_head_def map_append data_lines by (simp only: replicate_add [symmetric]) simp

text \<open>Removing the line ends of \<open>DATA\<close> leaves the lines, for no character of the alphabet is one.\<close>

lemma newline_not_in_alphabet: "\<not> in_alphabet (CHR 0x0A)"
  by (simp add: in_alphabet_def b85_value_def b85alphabet_def)

lemma good_groups_newline: "good_groups cs \<Longrightarrow> CHR 0x0A \<notin> set cs"
  using newline_not_in_alphabet by (induction cs rule: good_groups.induct) auto

lemma filter_lines: "CHR 0x0A \<notin> set (concat ls) \<Longrightarrow> filter (\<lambda>c. c \<noteq> CHR 0x0A) (concat (map (\<lambda>l. l @ [CHR 0x0A]) ls)) = concat ls"
  by (induction ls) (auto intro!: filter_True)

lemma good_data: "middle_lines middle \<Longrightarrow> good_groups (concat (data_head @ middle @ data_tail))"
  unfolding middle_lines_def by (intro good_concat_append good_data_head good_data_tail good_lines_groups) simp

lemma data_text: "middle_lines middle \<Longrightarrow> filter (\<lambda>c. c \<noteq> CHR 0x0A) (DATA middle) = concat (data_head @ middle @ data_tail)"
  using filter_lines [OF good_groups_newline [OF good_data]] by (simp add: DATA_def)

text \<open>The archive: the part before the last blocks, and these.\<close>

definition archive_front :: "string list \<Rightarrow> int list" where
  "archive_front middle = b85_bytes (concat (data_head @ middle))"

lemma good_front: "middle_lines middle \<Longrightarrow> good_groups (concat (data_head @ middle))"
  unfolding middle_lines_def by (intro good_concat_append good_data_head good_lines_groups) simp

lemma length_front:
  assumes "middle_lines middle"
  shows "length (archive_front middle) = 1775288"
proof -
  have "map length (data_head @ middle) = replicate 28090 79"
    using assms lines_data_head replicate_add [of 2550 25540 "79 :: nat"] by (simp add: middle_lines_def)
  from size_of_lines [OF this] good_groups_length [OF good_front [OF assms]] show ?thesis
    by (simp add: archive_front_def)
qed

lemma length_block: "good_lines ls \<Longrightarrow> map length ls = replicate 150 79 \<Longrightarrow> length (b85_bytes (concat ls)) = 9480"
  using good_groups_length [OF good_lines_groups, of ls] size_of_lines [of ls 150 79] by simp

definition archive_tail :: "int list" where
  "archive_tail = b85_bytes (concat DATA_28235) @ b85_bytes (concat DATA_28385) @ b85_bytes (concat DATA_28535) @
     b85_bytes (concat DATA_28685) @ b85_bytes (concat DATA_28835)"

lemma archive_parts:
  assumes "middle_lines middle"
  shows "b85decode (filter (\<lambda>c. c \<noteq> CHR 0x0A) (DATA middle)) = Inr (archive_front middle @ archive_tail)"
proof -
  have "b85_bytes (concat (data_head @ middle @ data_tail)) = archive_front middle @ b85_bytes (concat data_tail)"
    using b85_bytes_append [OF good_front [OF assms], of "concat data_tail"] by (simp add: archive_front_def)
  moreover have "b85_bytes (concat data_tail) = archive_tail"
    unfolding data_tail_def archive_tail_def concat_append
    by (simp only: b85_bytes_append [OF good_lines_groups [OF good_DATA_28235]]
        b85_bytes_append [OF good_lines_groups [OF good_DATA_28385]]
        b85_bytes_append [OF good_lines_groups [OF good_DATA_28535]]
        b85_bytes_append [OF good_lines_groups [OF good_DATA_28685]])
  ultimately show ?thesis
    unfolding data_text [OF assms] good_groups_b85decode [OF good_data [OF assms]] by simp
qed

text \<open>Where a position of the archive falls in the last blocks.\<close>

lemma at_28235:
  assumes "middle_lines middle" "off + n \<le> 9480"
  shows "bytes_at (archive_front middle @ archive_tail) (1775288 + off) n = bytes_at (b85_bytes (concat DATA_28235)) off n"
  using bytes_at_append_right [of "archive_front middle" archive_tail off n] length_front [OF assms(1)] assms(2)
    bytes_at_append_left [of off n "b85_bytes (concat DATA_28235)"] length_block [OF good_DATA_28235 lines_DATA_28235]
  by (simp add: archive_tail_def)

lemma at_28385:
  assumes "middle_lines middle" "off + n \<le> 9480"
  shows "bytes_at (archive_front middle @ archive_tail) (1784768 + off) n = bytes_at (b85_bytes (concat DATA_28385)) off n"
proof -
  let ?a = "archive_front middle @ b85_bytes (concat DATA_28235)"
  have "length ?a = 1784768" using length_front [OF assms(1)] length_block [OF good_DATA_28235 lines_DATA_28235] by simp
  then show ?thesis
    using bytes_at_append_right [of ?a "b85_bytes (concat DATA_28385) @ b85_bytes (concat DATA_28535) @
      b85_bytes (concat DATA_28685) @ b85_bytes (concat DATA_28835)" off n] assms(2)
      bytes_at_append_left [of off n "b85_bytes (concat DATA_28385)"] length_block [OF good_DATA_28385 lines_DATA_28385]
    by (simp add: archive_tail_def)
qed

text \<open>An entry is read from the bytes it occupies.\<close>

lemma dir_entry_bytes:
  assumes "bytes_at z off (46 + n) = rec" "field rec 28 2 = n"
  shows "dir_entry z off = dir_entry rec 0"
proof -
  have head: "bytes_at rec 0 46 = bytes_at z off 46" using bytes_at_bytes_at [of 0 46 "46 + n" z off] assms(1) by simp
  moreover have "field (bytes_at z off 46) 28 2 = n"
    using assms(2) bytes_at_bytes_at [of 28 2 46 rec 0] head by (simp add: field_def)
  moreover have "bytes_at rec 46 n = bytes_at z (off + 46) n" using bytes_at_bytes_at [of 46 n "46 + n" z off] assms(1) by simp
  ultimately show ?thesis by (simp add: dir_entry_def Let_def)
qed

lemma local_name_bytes:
  assumes "bytes_at z off (30 + n) = rec" "field rec 26 2 = n"
  shows "local_name z off = local_name rec 0"
proof -
  have head: "bytes_at rec 0 30 = bytes_at z off 30" using bytes_at_bytes_at [of 0 30 "30 + n" z off] assms(1) by simp
  moreover have "field (bytes_at z off 30) 26 2 = n"
    using assms(2) bytes_at_bytes_at [of 26 2 30 rec 0] head by (simp add: field_def)
  moreover have "bytes_at rec 30 n = bytes_at z (off + 30) n" using bytes_at_bytes_at [of 30 n "30 + n" z off] assms(1) by simp
  ultimately show ?thesis by (simp add: local_name_def Let_def)
qed

lemmas zip_eval = dir_entry_def local_name_def end_record_def field_def bytes_at_def name_bytes_def Let_def

lemma archive_entries:
  assumes "middle_lines middle"
  defines "z \<equiv> archive_front middle @ archive_tail"
  shows "dir_entry z 1779209 = Some (name_bytes ''pip/__init__.py'', 8, 248, 357, 0)"
    "dir_entry z 1780587 = Some (name_bytes ''pip/_internal/cli/main.py'', 8, 1299, 2817, 45598)"
    "dir_entry z 1782065 = Some (name_bytes ''pip/_internal/commands/install.py'', 8, 7507, 29390, 76009)"
    "dir_entry z 1792743 = Some (name_bytes ''pip/_vendor/certifi/cacert.pem'', 8, 162416, 299427, 388710)"
proof -
  have "bytes_at z 1779209 (46 + 15) = bytes_at (b85_bytes (concat DATA_28235)) 3921 61"
    using at_28235 [OF assms(1), of 3921 61] by (simp add: z_def)
  from dir_entry_bytes [OF this [unfolded bytes_first]]
  show "dir_entry z 1779209 = Some (name_bytes ''pip/__init__.py'', 8, 248, 357, 0)" by (simp add: zip_eval)
  have "bytes_at z 1780587 (46 + 25) = bytes_at (b85_bytes (concat DATA_28235)) 5299 71"
    using at_28235 [OF assms(1), of 5299 71] by (simp add: z_def)
  from dir_entry_bytes [OF this [unfolded bytes_main]]
  show "dir_entry z 1780587 = Some (name_bytes ''pip/_internal/cli/main.py'', 8, 1299, 2817, 45598)" by (simp add: zip_eval)
  have "bytes_at z 1782065 (46 + 33) = bytes_at (b85_bytes (concat DATA_28235)) 6777 79"
    using at_28235 [OF assms(1), of 6777 79] by (simp add: z_def)
  from dir_entry_bytes [OF this [unfolded bytes_install]]
  show "dir_entry z 1782065 = Some (name_bytes ''pip/_internal/commands/install.py'', 8, 7507, 29390, 76009)" by (simp add: zip_eval)
  have "bytes_at z 1792743 (46 + 30) = bytes_at (b85_bytes (concat DATA_28385)) 7975 76"
    using at_28385 [OF assms(1), of 7975 76] by (simp add: z_def)
  from dir_entry_bytes [OF this [unfolded bytes_cert]]
  show "dir_entry z 1792743 = Some (name_bytes ''pip/_vendor/certifi/cacert.pem'', 8, 162416, 299427, 388710)"
    by (simp add: zip_eval)
qed

lemma archive_size: "middle_lines middle \<Longrightarrow> length (archive_front middle @ archive_tail) = 1813252"
  using length_front [of middle]
  by (simp add: archive_tail_def length_block good_DATA_28235 lines_DATA_28235 good_DATA_28385 lines_DATA_28385
      good_DATA_28535 lines_DATA_28535 good_DATA_28685 lines_DATA_28685 bytes_end)

lemma archive_end:
  assumes "middle_lines middle"
  shows "end_record (archive_front middle @ archive_tail) = Some (431, 34021, 1779209)"
proof -
  let ?z = "archive_front middle @ archive_tail"
  let ?a = "archive_front middle @ b85_bytes (concat DATA_28235) @ b85_bytes (concat DATA_28385) @
      b85_bytes (concat DATA_28535) @ b85_bytes (concat DATA_28685)"
  have z: "?z = ?a @ b85_bytes (concat DATA_28835)" by (simp add: archive_tail_def)
  have a: "length ?a = 1813208"
    using archive_size [OF assms] unfolding z by (simp add: bytes_end)
  have "bytes_at ?z (length ?z - 22) 22 = bytes_at (b85_bytes (concat DATA_28835)) 22 22"
    using bytes_at_append_right [of ?a "b85_bytes (concat DATA_28835)" 22 22] archive_size [OF assms] unfolding a z by simp
  then show ?thesis by (simp add: zip_eval bytes_end)
qed

lemma archive_start:
  assumes "middle_lines middle"
  shows "local_name (archive_front middle @ archive_tail) 0 = Some (name_bytes ''pip/__init__.py'')"
proof -
  obtain rest where "concat (data_head @ middle) = concat DATA_145 @ rest" by (simp add: data_head_def)
  then have "archive_front middle @ archive_tail = b85_bytes (concat DATA_145) @ b85_bytes rest @ archive_tail"
    using b85_bytes_append [OF good_lines_groups [OF good_DATA_145]] by (simp add: archive_front_def)
  then have "bytes_at (archive_front middle @ archive_tail) 0 (30 + 15) = bytes_at (b85_bytes (concat DATA_145)) 0 45"
    using bytes_at_append_left [of 0 45 "b85_bytes (concat DATA_145)"] length_block [OF good_DATA_145 lines_DATA_145] by simp
  from local_name_bytes [OF this [unfolded bytes_local]] show ?thesis by (simp add: zip_eval)
qed

text \<open>
  Whatever the lines in the middle hold, \<open>DATA\<close> decodes without an error to an archive of 1813252
  bytes that can be imported from: its last 22 bytes are the record of a directory of 431 entries that ends
  where the record begins, the directory begins with the package \<open>pip\<close> itself, whose data lie at
  the very front of the archive, and it has the modules and the certificate that \<open>bootstrap\<close> and
  \<open>monkeypatch_for_cert\<close> load.
\<close>

theorem bundled_archive_is_importable:
  assumes "middle_lines middle"
  shows "\<exists>archive. b85decode (filter (\<lambda>c. c \<noteq> CHR 0x0A) (DATA middle)) = Inr archive \<and> length archive = 1813252 \<and>
    (\<exists>dir_size dir_offset. end_record archive = Some (431, dir_size, dir_offset) \<and> dir_offset + dir_size + 22 = length archive \<and>
      dir_entry archive dir_offset = Some (name_bytes ''pip/__init__.py'', 8, 248, 357, 0)) \<and>
    local_name archive 0 = Some (name_bytes ''pip/__init__.py'') \<and>
    dir_entry archive 1780587 = Some (name_bytes ''pip/_internal/cli/main.py'', 8, 1299, 2817, 45598) \<and>
    dir_entry archive 1782065 = Some (name_bytes ''pip/_internal/commands/install.py'', 8, 7507, 29390, 76009) \<and>
    dir_entry archive 1792743 = Some (name_bytes ''pip/_vendor/certifi/cacert.pem'', 8, 162416, 299427, 388710)"
  using archive_parts [OF assms] archive_size [OF assms] archive_end [OF assms] archive_start [OF assms]
    archive_entries [OF assms] by simp

text \<open>Lines of zeros in the middle.\<close>

lemma good_zero_lines: "good_lines (replicate (5 * n) (replicate 79 (CHR ''0'')))"
proof (induction n)
  case (Suc n)
  have "replicate (5 * Suc n) l = l # l # l # l # l # replicate (5 * n) l" for l :: string
    by (simp add: numeral_eq_Suc)
  moreover have "good_groups (replicate 79 (CHR ''0'') @ replicate 79 (CHR ''0'') @ replicate 79 (CHR ''0'') @
      replicate 79 (CHR ''0'') @ replicate 79 (CHR ''0''))"
  proof -
    have zeros: "good_groups (replicate (5 * k) (CHR ''0''))" for k
      by (induction k) (simp_all add: numeral_eq_Suc in_alphabet_table low_fits low_digit_table)
    show ?thesis using zeros [of 79] by (simp only: replicate_add [symmetric]) simp
  qed
  ultimately show ?case using Suc by (simp only: good_lines.simps)
qed simp

lemma middle_of_zeros: "middle_lines (replicate 25540 (replicate 79 (CHR ''0'')))"
  using good_zero_lines [of 5108] by (simp add: middle_lines_def map_replicate)

theorem bundled_archive_is_importable_witness:
  "\<exists>archive. b85decode (filter (\<lambda>c. c \<noteq> CHR 0x0A) (DATA (replicate 25540 (replicate 79 (CHR ''0''))))) = Inr archive \<and>
     length archive = 1813252"
  using bundled_archive_is_importable [OF middle_of_zeros] by blast

end
