(* ===== verification/Py_Package.thy ===== *)
theory Py_Package
  imports Health_Events
begin

text \<open>
  The Python side of the package: what \<open>setup.py\<close> tells setuptools, what \<open>pyNetX/__init__.py\<close> imports
  from the extension module and exports, the settings of \<open>docs/source/conf.py\<close>, and the names the
  extension module and its class define (\<open>src/bindings.cpp\<close>), with the API contract of
  \<open>test/test_public_api_contract.py\<close>.
\<close>

section \<open>The extension module\<close>

datatype py_base = ConnectionError | PermissionError | OSError | RuntimeError

text \<open>The exceptions of \<open>register_exceptions\<close> with their Python base classes.\<close>

definition exception_names :: "(string \<times> py_base) list" where
  "exception_names =
     [(''NetconfConnectionRefusedError'', ConnectionError),
      (''NetconfAuthError'', PermissionError),
      (''NetconfChannelError'', OSError),
      (''NetconfException'', RuntimeError)]"

definition module_functions :: "string list" where
  "module_functions =
     [''set_threadpool_size'', ''set_notification_reactor_count'', ''next_notification_event'',
      ''next_notification_event_async'', ''pending_notification_event_count'', ''clear_notification_events'']"

definition module_classes :: "string list" where
  "module_classes = [''NotificationHealthEvent'', ''NetconfClient'']"

definition module_names :: "string list" where
  "module_names = module_functions @ map fst exception_names @ module_classes"

text \<open>The methods of \<open>NetconfClient\<close>: whether a call warns that it is deprecated, and whether it gives an
  awaitable.\<close>

datatype method_kind = Deprecated | Awaitable | Direct

definition client_methods :: "(string \<times> method_kind) list" where
  "client_methods =
     [(''connect_sync'', Deprecated), (''disconnect_sync'', Deprecated), (''delete_subscription'', Direct),
      (''send_rpc_sync'', Deprecated), (''receive_notification_sync'', Deprecated), (''get_sync'', Deprecated),
      (''get_config_sync'', Deprecated), (''copy_config_sync'', Deprecated), (''delete_config_sync'', Deprecated),
      (''validate_sync'', Deprecated), (''edit_config_sync'', Deprecated), (''subscribe_sync'', Deprecated),
      (''lock_sync'', Deprecated), (''unlock_sync'', Deprecated), (''commit_sync'', Deprecated),
      (''locked_edit_config_sync'', Deprecated), (''connect_async'', Awaitable), (''disconnect_async'', Awaitable),
      (''send_rpc_async'', Awaitable), (''next_notification'', Direct), (''next_notification_async'', Awaitable),
      (''peek_notifications'', Direct), (''notification_queue_size'', Direct), (''is_subscription_active'', Direct),
      (''get_async'', Awaitable), (''get_config_async'', Awaitable), (''copy_config_async'', Awaitable),
      (''delete_config_async'', Awaitable), (''validate_async'', Awaitable), (''edit_config_async'', Awaitable),
      (''subscribe_async'', Awaitable), (''lock_async'', Awaitable), (''unlock_async'', Awaitable),
      (''commit_async'', Awaitable), (''locked_edit_config_async'', Awaitable)]"

definition warn_sync_api_deprecated :: "string \<Rightarrow> string" where
  "warn_sync_api_deprecated method_name =
     ''pyNetX.'' @ method_name @ '' is deprecated and will be removed in a future major release. '' @
     ''pyNetX is moving to an async-focused API. '' @ ''Use the corresponding *_async method instead.''"

section \<open>The package\<close>

definition package_imports :: "string list" where
  "package_imports =
     [''NetconfClient'', ''NetconfException'', ''NetconfAuthError'', ''NetconfChannelError'',
      ''NetconfConnectionRefusedError'', ''NotificationHealthEvent'', ''set_threadpool_size'',
      ''set_notification_reactor_count'', ''next_notification_event'', ''next_notification_event_async'',
      ''pending_notification_event_count'', ''clear_notification_events'']"

definition package_all :: "string list" where
  "package_all =
     [''NetconfClient'', ''NetconfException'', ''NetconfAuthError'', ''NetconfChannelError'',
      ''NetconfConnectionRefusedError'', ''NotificationHealthEvent'', ''set_threadpool_size'',
      ''set_notification_reactor_count'', ''next_notification_event'', ''next_notification_event_async'',
      ''pending_notification_event_count'', ''clear_notification_events'']"

text \<open>\<open>from .pyNetX import ...\<close> in a module that has the given names: the first missing one raises.\<close>

definition import_names :: "string list \<Rightarrow> string list \<Rightarrow> string + string list" where
  "import_names available names =
     (case filter (\<lambda>n. n \<notin> set available) names of
        [] \<Rightarrow> Inr names
      | n # _ \<Rightarrow> Inl (''cannot import name '' @ n))"

text \<open>\<open>from pyNetX import *\<close>: the names of \<open>__all__\<close>, of which each must be bound.\<close>

definition import_star :: "string list \<Rightarrow> string + string list" where
  "import_star available =
     (case import_names available package_imports of
        Inl e \<Rightarrow> Inl e
      | Inr bound \<Rightarrow> import_names bound package_all)"

record setup_args =
  s_name :: string
  s_version :: string
  s_description :: string
  s_long_description :: string
  s_long_description_content_type :: string
  s_author :: string
  s_license :: string
  s_packages :: "string list"
  s_package_data :: "(string \<times> string list) list"
  s_include_package_data :: bool
  s_cmake_args :: "string list"
  s_zip_safe :: bool

text \<open>\<open>setup.py\<close>; the argument is the text of \<open>README.md\<close>.\<close>

definition setup_call :: "string \<Rightarrow> setup_args" where
  "setup_call readme =
     \<lparr>s_name = ''pyNetX'', s_version = ''2.0.7'', s_description = ''NETCONF client with truly async capabilities'',
      s_long_description = readme, s_long_description_content_type = ''text/markdown'',
      s_author = ''Sambhu Nampoothiri G'', s_license = ''Apache-2.0'', s_packages = [''pyNetX''],
      s_package_data = [(''pyNetX'', [''__init__.pyi'', ''py.typed''])], s_include_package_data = True,
      s_cmake_args = [''-DCMAKE_BUILD_TYPE=Release'', ''-DPYBIND11_DETAILED_ERROR_MESSAGES=OFF''], s_zip_safe = False\<rparr>"

record doc_conf =
  d_project :: string
  d_copyright :: string
  d_author :: string
  d_release :: string
  d_version :: string
  d_extensions :: "string list"
  d_source_suffix :: "(string \<times> string) list"
  d_templates_path :: "string list"
  d_exclude_patterns :: "string list"
  d_html_theme :: string
  d_html_static_path :: "string list"
  d_html_title :: string

definition doc_settings :: doc_conf where
  "doc_settings =
     \<lparr>d_project = ''pyNetX'', d_copyright = ''2026, Sambhu Nampoothiri G'', d_author = ''Sambhu Nampoothiri G'',
      d_release = ''2.0.7'', d_version = ''2.0.7'', d_extensions = [], d_source_suffix = [(''.rst'', ''restructuredtext'')],
      d_templates_path = [''_templates''], d_exclude_patterns = [''build'', ''Thumbs.db'', ''.DS_Store''],
      d_html_theme = ''alabaster'', d_html_static_path = [''_static''], d_html_title = ''pyNetX 2.0.7 documentation''\<rparr>"

text \<open>\<open>sys.path.insert(0, os.path.abspath("../.."))\<close> of the same file.\<close>

definition doc_sys_path :: "(string \<Rightarrow> string) \<Rightarrow> string list \<Rightarrow> string list" where
  "doc_sys_path abspath path = abspath ''../..'' # path"

section \<open>The contract of the tests\<close>

definition NON_DEPRECATED_MODULE_SYMBOLS :: "string list" where
  "NON_DEPRECATED_MODULE_SYMBOLS =
     [''NetconfClient'', ''NetconfException'', ''NetconfAuthError'', ''NetconfChannelError'',
      ''NetconfConnectionRefusedError'', ''NotificationHealthEvent'', ''set_threadpool_size'',
      ''set_notification_reactor_count'', ''next_notification_event'', ''next_notification_event_async'',
      ''pending_notification_event_count'', ''clear_notification_events'']"

definition NON_DEPRECATED_CLIENT_METHODS :: "string list" where
  "NON_DEPRECATED_CLIENT_METHODS =
     [''connect_async'', ''disconnect_async'', ''send_rpc_async'', ''get_async'', ''get_config_async'',
      ''copy_config_async'', ''delete_config_async'', ''validate_async'', ''edit_config_async'', ''subscribe_async'',
      ''lock_async'', ''unlock_async'', ''commit_async'', ''locked_edit_config_async'', ''next_notification'',
      ''next_notification_async'', ''peek_notifications'', ''notification_queue_size'', ''is_subscription_active'',
      ''delete_subscription'']"

definition DEPRECATED_SYNC_FLOW_METHODS :: "string list" where
  "DEPRECATED_SYNC_FLOW_METHODS =
     [''connect_sync'', ''disconnect_sync'', ''send_rpc_sync'', ''receive_notification_sync'', ''get_sync'',
      ''get_config_sync'', ''copy_config_sync'', ''delete_config_sync'', ''validate_sync'', ''edit_config_sync'',
      ''subscribe_sync'', ''lock_sync'', ''unlock_sync'', ''commit_sync'', ''locked_edit_config_sync'']"

section \<open>Properties\<close>

definition ends_with :: "string \<Rightarrow> string \<Rightarrow> bool" where
  "ends_with s e \<longleftrightarrow> suffix e s"

lemma import_names_ok: "set names \<subseteq> set available \<Longrightarrow> import_names available names = Inr names"
proof -
  assume "set names \<subseteq> set available"
  then have "filter (\<lambda>n. n \<notin> set available) names = []" by (auto simp: filter_empty_conv)
  then show ?thesis by (simp add: import_names_def)
qed

lemma imports_available: "set package_imports \<subseteq> set module_names"
  by code_simp

lemma all_imported: "set package_all \<subseteq> set package_imports"
  by code_simp


end
