(* ===== verification/Spec2Isabelle.thy ===== *)
theory Spec2Isabelle
  imports Errors Health_Events Event_Bus Client_Config Stream_Correct Stream_Frames Queue_Correct Notif_Callback
    Thread_Pool Channel_IO Rpc Reactors Reactor_Loop Reactor_Locks Ssh_Setup
    Rpc_Blocking Api_Gate Async_Bridge Delivery Public_Methods Session_Mutex Async_Calls Async_Pool Server_Life Queue_Tests Pool_Wakeup Epoll_RAII Fleet Teardown_Races
    Get_Pip Pip_Archive Py_Package
begin

text \<open>
  pyNetX is a NETCONF client: a C++ library behind a Python module. A \<open>NetconfClient\<close> holds an SSH session for
  RPCs and a second one for notifications. Its public methods are tasks on a thread pool
  (\<open>include/thread_pool.hpp\<close>); the asynchronous ones give asyncio futures through a dispatcher thread
  (\<open>src/bindings.cpp\<close>). Notification sockets are registered with a manager of reactor threads
  (\<open>src/notification_reactor*.cpp\<close>), whose loops call \<open>on_notification_ready\<close>; it cuts the stream into notifications, which
  the application takes from a queue of the client. Diagnostics go to a process-wide bus of health events.
  The repository also carries \<open>get-pip.py\<close>, an installer with pip in it as text.

  The theories, with the code they model.

  \<^item> \<open>Prelude\<close>: text search as \<open>std::string\<close> does it, blocking calls (\<open>outcome\<close>), shared rules.
  \<^item> \<open>Errors\<close>: the exceptions, ordered by derivation, and their two translations to Python. \<open>Health_Events\<close>, \<open>Event_Bus\<close>: the events, their
    time stamp and the bounded bus. \<open>Client_Config\<close>: the constructor and the tests' tables.
  \<^item> \<open>Notif_Queue\<close>, \<open>Queue_Correct\<close>: the members of the notification side, the queue and its counters. \<open>Stream_Scan\<close>,
    \<open>Stream_Parser\<close>: the scanner and \<open>process_rx_buffer_locked\<close>, statement by statement; \<open>Stream_Correct\<close> refines it to a
    pure splitter of bytes, from which \<open>Stream_Frames\<close> gets that fragmentation does not matter. \<open>Socket_Poll\<close>,
    \<open>Notif_Callback\<close>: the waits and the loop of \<open>on_notification_ready\<close>.
  \<^item> \<open>Channel_IO\<close>: the readers, writers and hellos of \<open>src/netconf_client_helpers.cpp\<close>. \<open>Rpc\<close>, \<open>Rpc_Blocking\<close>: the requests, the
    check of a reply and the locked edit, in both implementations, which are proved to be the same.
  \<^item> \<open>Thread_Pool\<close>: the pool as a step relation; \<open>Pool_Wakeup\<close>: its mutexes and condition variables, which implement
    that relation except that the destructor can lose a wake-up. \<open>Async_Calls\<close>: the pool's tasks with the bridge; \<open>Async_Pool\<close>: the
    same on the pool with its condition variables, which refines it. \<open>Reactors\<close>, \<open>Reactor_Loop\<close>, \<open>Reactor_Locks\<close>: placing of sockets, what an event
    does, and the locks of a resize. \<open>Socket_Registry\<close>: the manager as a map from sockets to clients.
  \<^item> \<open>Ssh_Setup\<close>: the four \<open>connect\<close> functions as lists of stages over owned handles. \<open>Session\<close>, \<open>Session_Correct\<close>,
    \<open>Subscriptions\<close>: connecting, disconnecting and subscribing on the client's members and the manager. \<open>Api_Gate\<close>: the tests the
    public methods make before they run. \<open>Async_Bridge\<close>: the dispatcher and \<open>wrap_future\<close>, as interleaved steps.
    \<open>Delivery\<close>: from the subscription to what the application reads.
  \<^item> \<open>Public_Methods\<close>: the methods of both interfaces as trees of RPCs. \<open>Session_Mutex\<close>: all calls on one client, interleaved at
    their tests, at \<open>session_mutex_\<close> and between their RPCs, and refined to one call after the other. \<open>Fake_Server\<close>: the NETCONF server of
    the tests (\<open>test/fake_netconf_ssh_server.py\<close>) talking to the client's readers and writers; \<open>Server_Life\<close>: its
    connections, from accepting to closing, and how a test finds a request; \<open>Queue_Tests\<close>: the tests of the notification queue, with what they
    expect proved of the parser and the queue. \<open>Epoll_RAII\<close>: the descriptor wrapper.
    \<open>Fleet\<close>: many clients, the manager and a loop: operations as wholes keep the registrations in order. \<open>Teardown_Races\<close>: the same operations
    interleaved, stage by stage and critical section by critical section, which do not.
  \<^item> \<open>Py_Package\<close>: \<open>pyNetX/__init__.py\<close>, \<open>setup.py\<close>, \<open>docs/source/conf.py\<close> and the names the module binds.
  \<^item> \<open>Get_Pip\<close>: every function of \<open>get-pip.py\<close>. \<open>Base85\<close>: \<open>b85decode\<close> of the standard library, which it calls.
    \<open>Pip_Data_1\<close> to \<open>Pip_Data_4\<close>: lines of its constant \<open>DATA\<close>. \<open>Pip_Archive\<close>: \<open>DATA\<close>, what it decodes to, and how an
    importer reads it.

  How the model stands to the code. Objects are records, threads are labels of step relations or the order of calls, a
  critical section is one function. What the operating system, libssh2, tinyxml2, the clock or a peer answers is an
  argument: a list of rounds for a loop, a function for a clock. A loop that may wait for ever consumes such a
  list and is \<open>Blocked\<close> when the list ends, so that a statement about returning is about enough rounds. No definition takes fuel:
  the loops of the parser (\<open>rx_loop\<close>, \<open>drain_eom\<close>, \<open>split_buffer\<close>) are functions whose termination is proved, each round leaving a shorter
  buffer. Errors are values. A client's destructor is an operation of its own, on the thread that drops the last
  pointer (\<open>Fleet\<close>, \<open>Reactor_Locks\<close>). 64-bit counters are \<^typ>\<open>nat\<close>;
  where an \<open>int\<close> can overflow (the millisecond timeouts) the theory says where. \<open>bounded_fifo\<close>, \<open>socket_registry\<close> and \<open>dispatching\<close> are the interfaces: the
  first is interpreted by the bus and by the notification queue, the second by the manager, the
  third by the asynchronous calls on both models of the pool.

  What the properties show. Delivery: notifications reach the application in order and byte for byte however the
  stream is cut, bounded by the queue, with every loss counted and reported. Sessions: a connect owns exactly
  what it opened, and a subscription is all or nothing, and whole operations of many clients keep sockets and registrations in order. Concurrency: no task of the pool is lost or overlooked, an awaitable gets the result of its own task, once,
  the calls on a client have the results they have one after the other, a resize of the reactors can deadlock in exactly two
  ways. Protocol: a request goes to the server and its reply comes back whole, both interfaces run the same operations, a locked
  edit never commits without its lock having been answered. The installer: what pip is started with, that nothing is left behind, and that
  the archive in the text has what is imported from it. Some properties show defects of the code, where the
  code does what its comments or documents exclude: a frame cut inside a longer name, a peer that keeps a
  reactor busy, an event for a reused descriptor, a channel used after it was freed, a second subscription that kills the
  first, a denied lock that is ignored, a call that shuts all others out while it waits, a destructor that waits for ever,
  four races between a subscription's set-up, its deletion and the loop's clean-up.

  About the size of the constant. 3,151 of the 28,691 lines of \<open>DATA\<close> are transcribed as they stand, and they are most of
  the lines of Python this development covers; the program's own logic is in the C++ sources, which the other theories model. The
  transcribed lines are data, not logic: what is proved of them is that they decode, and that the
  archive's directory, main module entry and certificate entry are where the script needs them.

  Not modelled: the 25,540 lines in the middle of \<open>DATA\<close> (a parameter: any text of good groups) and the compressed
  files in the archive, which are pip and its dependencies; libssh2, tinyxml2, pybind11 and the standard library beyond what is
  used; argparse beyond the forms the script's two options meet; the reference counting of Python objects and the
  GIL; output to \<open>std::cerr\<close>; paramiko; the tests that only call the
  API; the documentation's text; in \<open>Session_Mutex\<close>, the moves of the reactors' threads, which do not take its mutex and are in \<open>Teardown_Races\<close>.
\<close>

section \<open>The installer and its archive\<close>



end
